(* ===== verification/Prelude.thy ===== *)
theory Prelude
  imports Main "HOL-Library.Word" "HOL-Library.Sublist" "HOL-Library.Char_ord" "HOL-Library.List_Lexorder"
    "HOL-Library.Multiset"
begin

text \<open>
  Shared vocabulary of the development: Go values and library routines that several
  components use, the generic lemmas about them, and the fact collections the component
  proofs rest on.

  A Go string is a byte sequence, modelled as the HOL type \<^typ>\<open>string\<close> (a list of
  8-bit characters); \<open><\<close> on strings is the bytewise lexicographic order of
  \<^theory_text>\<open>List_Lexorder\<close> and \<^theory_text>\<open>Char_ord\<close>, which is Go's. A Go error result is
  an option (\<open>None\<close> is \<^verbatim>\<open>nil\<close>) or a sum (\<open>Inl\<close> is the error). A slice or
  map whose \<^verbatim>\<open>nil\<close> value is told apart from the empty one (\<^verbatim>\<open>reflect.DeepEqual\<close>
  does) is an option of a list; a map is then its key-sorted association list.
\<close>

named_theorems err_simps \<open>characteristic equations of the error-threading combinators\<close>
named_theorems str_simps \<open>facts about the Go string routines\<close>

type_synonym ('e, 'a) result = "'e + 'a"

section \<open>Error threading\<close>

text \<open>
  \<open>check bad e\<close> is \<^verbatim>\<open>if bad { return e }\<close>; \<open>first_err\<close> is a sequence of such
  statements followed by \<^verbatim>\<open>return nil\<close>: the first error in program order is the result.
\<close>

definition check :: "bool \<Rightarrow> 'e \<Rightarrow> 'e option" where
  "check bad e = (if bad then Some e else None)"

fun first_err :: "'e option list \<Rightarrow> 'e option" where
  "first_err [] = None"
| "first_err (None # xs) = first_err xs"
| "first_err (Some e # xs) = Some e"

lemma check_None [err_simps]: "check bad e = None \<longleftrightarrow> \<not> bad"
  by (simp add: check_def)

lemma check_Some [err_simps]: "check bad e = Some e' \<longleftrightarrow> bad \<and> e = e'"
  by (auto simp: check_def)

lemma first_err_None_iff: "first_err xs = None \<longleftrightarrow> (\<forall>x\<in>set xs. x = None)"
  by (induction xs rule: first_err.induct) auto

lemma first_err_Cons_None [err_simps]: "first_err (x # xs) = None \<longleftrightarrow> x = None \<and> first_err xs = None"
  by (cases x) auto

lemma first_err_Nil [err_simps]: "first_err [] = None"
  by simp

lemma first_err_Some_mem: "first_err xs = Some e \<Longrightarrow> Some e \<in> set xs"
  by (induction xs rule: first_err.induct) auto

text \<open>Binding on a result: \<^verbatim>\<open>x, err := m; if err != nil { return err }\<close>.\<close>

definition rbind :: "('e, 'a) result \<Rightarrow> ('a \<Rightarrow> ('e, 'b) result) \<Rightarrow> ('e, 'b) result" where
  "rbind m f = (case m of Inl e \<Rightarrow> Inl e | Inr x \<Rightarrow> f x)"

lemma rbind_Inl [err_simps]: "rbind (Inl e) f = Inl e"
  by (simp add: rbind_def)

lemma rbind_Inr [err_simps]: "rbind (Inr x) f = f x"
  by (simp add: rbind_def)

lemma rbind_Inr_iff: "rbind m f = Inr y \<longleftrightarrow> (\<exists>x. m = Inr x \<and> f x = Inr y)"
  by (cases m) (auto simp: rbind_def)

lemma rbind_InrE:
  assumes "rbind m f = Inr y" obtains x where "m = Inr x" "f x = Inr y"
  using assms by (auto simp: rbind_Inr_iff)

lemma rbind_InrE2:
  assumes "rbind m (\<lambda>(a, b). f a b) = Inr y"
  obtains a b where "m = Inr (a, b)" "f a b = Inr y"
  using assms by (auto simp: rbind_def split: sum.splits)

text \<open>
  An operation on a state \<open>'s\<close> that may fail; what it changed before the failure stays changed.
\<close>

type_synonym ('s, 'e, 'a) step_over = "'s \<Rightarrow> 's \<times> ('e, 'a) result"

definition step_return :: "'a \<Rightarrow> ('s, 'e, 'a) step_over" where
  "step_return x s = (s, Inr x)"

definition step_fail :: "'e \<Rightarrow> ('s, 'e, 'a) step_over" where
  "step_fail e s = (s, Inl e)"

definition step_bind :: "('s, 'e, 'a) step_over \<Rightarrow> ('a \<Rightarrow> ('s, 'e, 'b) step_over) \<Rightarrow> ('s, 'e, 'b) step_over" where
  "step_bind m f s = (case m s of (s', Inl e) \<Rightarrow> (s', Inl e) | (s', Inr x) \<Rightarrow> f x s')"

definition step_require :: "bool \<Rightarrow> 'e \<Rightarrow> ('s, 'e, unit) step_over" where
  "step_require ok e s = (s, if ok then Inr () else Inl e)"

definition step_some :: "'e \<Rightarrow> 'a option \<Rightarrow> ('s, 'e, 'a) step_over" where
  "step_some e r s = (s, case r of None \<Rightarrow> Inl e | Some x \<Rightarrow> Inr x)"

definition step_result :: "('e, 'a) result \<Rightarrow> ('s, 'e, 'a) step_over" where
  "step_result r s = (s, r)"

fun step_each :: "('a \<Rightarrow> ('s, 'e, unit) step_over) \<Rightarrow> 'a list \<Rightarrow> ('s, 'e, unit) step_over" where
  "step_each f [] = step_return ()"
| "step_each f (x # xs) = step_bind (f x) (\<lambda>_. step_each f xs)"

lemma step_bind_InrE:
  assumes "step_bind m f s = (s', Inr y)"
  obtains s1 x where "m s = (s1, Inr x)" "f x s1 = (s', Inr y)"
  using assms by (auto simp: step_bind_def split: prod.splits sum.splits)

lemma require_Inr: "step_require b e s = (s', Inr x) \<longleftrightarrow> s' = s \<and> b"
  by (auto simp: step_require_def split: if_splits)

lemma step_result_Inr: "step_result r s = (s', Inr x) \<longleftrightarrow> s' = s \<and> r = Inr x"
  by (auto simp: step_result_def)

lemma step_some_Inr: "step_some e r s = (s', Inr x) \<longleftrightarrow> s' = s \<and> r = Some x"
  by (auto simp: step_some_def split: option.splits)

lemma step_return_Inr: "step_return y s = (s', Inr x) \<longleftrightarrow> s' = s \<and> x = y"
  by (auto simp: step_return_def)

lemma not_isl_Inr2: "\<not> isl x \<Longrightarrow> x = Inr (projr x)"
  by (cases x) simp_all

lemma find_append: "find P (xs @ ys) = (case find P xs of None \<Rightarrow> find P ys | Some x \<Rightarrow> Some x)"
  by (induction xs) auto

section \<open>Characters and regular expressions\<close>

definition byte :: "char \<Rightarrow> nat" where
  "byte c = of_char c"

definition is_digit :: "char \<Rightarrow> bool" where
  "is_digit c \<longleftrightarrow> 48 \<le> byte c \<and> byte c \<le> 57"

definition is_lower :: "char \<Rightarrow> bool" where
  "is_lower c \<longleftrightarrow> 97 \<le> byte c \<and> byte c \<le> 122"

definition is_upper :: "char \<Rightarrow> bool" where
  "is_upper c \<longleftrightarrow> 65 \<le> byte c \<and> byte c \<le> 90"

definition is_lower_hex :: "char \<Rightarrow> bool" where
  "is_lower_hex c \<longleftrightarrow> is_digit c \<or> (97 \<le> byte c \<and> byte c \<le> 102)"

definition lower_char :: "char \<Rightarrow> char" where
  "lower_char c = (if is_upper c then char_of (byte c + 32) else c)"

definition upper_char :: "char \<Rightarrow> char" where
  "upper_char c = (if is_lower c then char_of (byte c - 32) else c)"

section \<open>Trimming, prefixes, splitting\<close>

text \<open>
  \<^verbatim>\<open>strings.TrimSpace\<close> removes leading and trailing runes for which
  \<^verbatim>\<open>unicode.IsSpace\<close> holds. The list below is the UTF-8 encoding of every such rune
  (U+0009 to U+000D, U+0020, U+0085, U+00A0, U+1680, U+2000 to U+200A, U+2028, U+2029,
  U+202F, U+205F, U+3000). Each encoding starts with a byte that is not a continuation
  byte, so a byte prefix (suffix) equal to one of them is exactly the first (last) rune.
\<close>

definition go_spaces :: "string list" where
  "go_spaces = [[CHR 0x09], [CHR 0x0A], [CHR 0x0B], [CHR 0x0C], [CHR 0x0D], [CHR 0x20],
     [CHR 0xC2, CHR 0x85], [CHR 0xC2, CHR 0xA0], [CHR 0xE1, CHR 0x9A, CHR 0x80],
     [CHR 0xE2, CHR 0x80, CHR 0x80], [CHR 0xE2, CHR 0x80, CHR 0x81], [CHR 0xE2, CHR 0x80, CHR 0x82],
     [CHR 0xE2, CHR 0x80, CHR 0x83], [CHR 0xE2, CHR 0x80, CHR 0x84], [CHR 0xE2, CHR 0x80, CHR 0x85],
     [CHR 0xE2, CHR 0x80, CHR 0x86], [CHR 0xE2, CHR 0x80, CHR 0x87], [CHR 0xE2, CHR 0x80, CHR 0x88],
     [CHR 0xE2, CHR 0x80, CHR 0x89], [CHR 0xE2, CHR 0x80, CHR 0x8A], [CHR 0xE2, CHR 0x80, CHR 0xA8],
     [CHR 0xE2, CHR 0x80, CHR 0xA9], [CHR 0xE2, CHR 0x80, CHR 0xAF], [CHR 0xE2, CHR 0x81, CHR 0x9F],
     [CHR 0xE3, CHR 0x80, CHR 0x80]]"

fun strip_one :: "string list \<Rightarrow> string \<Rightarrow> string option" where
  "strip_one [] s = None"
| "strip_one (p # ps) s =
     (if p \<noteq> [] \<and> take (length p) s = p then Some (drop (length p) s) else strip_one ps s)"

lemma strip_one_shorter: "strip_one ps s = Some r \<Longrightarrow> length r < length s"
proof (induction ps s rule: strip_one.induct)
  case (2 p ps s)
  show ?case
  proof (cases "p \<noteq> [] \<and> take (length p) s = p")
    case True
    then have "length p \<le> length s"
      by (metis length_take min_def nat_le_linear)
    moreover from True have "0 < length p" by simp
    moreover from True "2.prems" have "r = drop (length p) s" by simp
    ultimately show ?thesis by (metis diff_less length_drop less_le_trans)
  next
    case False
    with "2.prems" have "strip_one ps s = Some r" by (simp split: if_splits)
    with False show ?thesis by (rule "2.IH")
  qed
qed simp

function trim_prefixes :: "string list \<Rightarrow> string \<Rightarrow> string" where
  "trim_prefixes ps s = (case strip_one ps s of None \<Rightarrow> s | Some r \<Rightarrow> trim_prefixes ps r)"
  by pat_completeness auto
termination
  by (relation "measure (\<lambda>(ps, s). length s)") (auto dest: strip_one_shorter)

declare trim_prefixes.simps [simp del]

definition TrimSpace :: "string \<Rightarrow> string" where
  "TrimSpace s =
     rev (trim_prefixes (map rev go_spaces) (rev (trim_prefixes go_spaces s)))"

text \<open>\<^verbatim>\<open>strings.TrimSpace(s) == ""\<close>, the emptiness test most validators use.\<close>

definition blank :: "string \<Rightarrow> bool" where
  "blank s \<longleftrightarrow> TrimSpace s = []"

lemma trim_prefixes_Nil [simp]: "trim_prefixes ps [] = []"
proof -
  have "strip_one ps [] = None"
    by (induction ps) auto
  then show ?thesis by (simp add: trim_prefixes.simps)
qed

lemma TrimSpace_Nil [simp]: "TrimSpace [] = []"
  by (simp add: TrimSpace_def)

lemma blank_Nil [simp]: "blank []"
  by (simp add: blank_def)

lemma not_blank_nonempty: "\<not> blank s \<Longrightarrow> s \<noteq> []"
  by auto

lemma trim_prefixes_stop: "strip_one ps (trim_prefixes ps s) = None"
proof (induction ps s rule: trim_prefixes.induct)
  case (1 ps s)
  then show ?case
    by (cases "strip_one ps s") (simp_all add: trim_prefixes.simps [of ps s])
qed

lemma trim_prefixes_fix: "strip_one ps s = None \<Longrightarrow> trim_prefixes ps s = s"
  by (simp add: trim_prefixes.simps)

lemma trim_prefixes_suffix: "suffix (trim_prefixes ps s) s"
proof (induction ps s rule: trim_prefixes.induct)
  case (1 ps s)
  show ?case
  proof (cases "strip_one ps s")
    case None
    then show ?thesis by (simp add: trim_prefixes.simps [of ps s])
  next
    case (Some r)
    have "suffix r s" using Some
      by (induction ps s rule: strip_one.induct) (auto split: if_splits simp: suffix_drop)
    moreover have "suffix (trim_prefixes ps r) r"
      using 1 Some by simp
    ultimately have "suffix (trim_prefixes ps r) s"
      using suffix_order.trans by blast
    then show ?thesis by (simp add: trim_prefixes.simps [of ps s] Some)
  qed
qed

lemma trim_prefixes_chars: "set s \<subseteq> set (trim_prefixes ps s) \<union> (\<Union>p\<in>set ps. set p)"
proof (induction ps s rule: trim_prefixes.induct)
  case (1 ps s)
  show ?case
  proof (cases "strip_one ps s")
    case None
    then show ?thesis by (simp add: trim_prefixes.simps [of ps s])
  next
    case (Some r)
    have "set s \<subseteq> set r \<union> (\<Union>p\<in>set ps. set p)" using Some
    proof (induction ps s rule: strip_one.induct)
      case (2 p ps s)
      show ?case
      proof (cases "p \<noteq> [] \<and> take (length p) s = p")
        case True
        then have "s = p @ r" using "2.prems" append_take_drop_id [of "length p" s] by simp
        then show ?thesis by auto
      next
        case False
        with "2.prems" have "strip_one ps s = Some r" by (simp split: if_splits)
        from "2.IH" [OF False this] show ?thesis by auto
      qed
    qed simp
    with 1 [OF Some] show ?thesis by (auto simp: trim_prefixes.simps [of ps s] Some)
  qed
qed

text \<open>A string with a byte that no space contains is not blank.\<close>

lemma not_blankI:
  assumes "c \<in> set s" and "c \<notin> set (concat go_spaces)"
  shows "\<not> blank s"
proof
  assume "blank s"
  then have "trim_prefixes (map rev go_spaces) (rev (trim_prefixes go_spaces s)) = []" by (simp add: blank_def TrimSpace_def)
  with trim_prefixes_chars [of "rev (trim_prefixes go_spaces s)" "map rev go_spaces"]
  have "set (trim_prefixes go_spaces s) \<subseteq> set (concat go_spaces)" by auto
  with trim_prefixes_chars [of s go_spaces] have "set s \<subseteq> set (concat go_spaces)" by (simp add: subset_Un_eq Un_absorb1)
  with assms show False by blast
qed

lemma strip_one_no_space: "set s \<inter> set (concat ps) = {} \<Longrightarrow> strip_one ps s = None"
proof (induction ps s rule: strip_one.induct)
  case (2 p ps s)
  have "\<not> (p \<noteq> [] \<and> take (length p) s = p)"
  proof
    assume p: "p \<noteq> [] \<and> take (length p) s = p"
    then have "hd p \<in> set s" by (metis hd_in_set in_set_takeD)
    moreover have "hd p \<in> set (concat (p # ps))" using p by simp
    ultimately show False using "2.prems" by blast
  qed
  moreover have "set s \<inter> set (concat ps) = {}" using "2.prems" by auto
  ultimately show ?case using "2.IH" by auto
qed simp

lemma TrimSpace_no_space: "set s \<inter> set (concat go_spaces) = {} \<Longrightarrow> TrimSpace s = s"
proof -
  assume a: "set s \<inter> set (concat go_spaces) = {}"
  have "set (rev s) \<inter> set (concat (map rev go_spaces)) = {}" using a by auto
  with a show ?thesis by (simp add: TrimSpace_def trim_prefixes_fix strip_one_no_space)
qed

definition HasPrefix :: "string \<Rightarrow> string \<Rightarrow> bool" where
  "HasPrefix s p \<longleftrightarrow> take (length p) s = p"

definition TrimPrefix :: "string \<Rightarrow> string \<Rightarrow> string" where
  "TrimPrefix s p = (if HasPrefix s p then drop (length p) s else s)"

lemma HasPrefix_append [simp]: "HasPrefix (p @ s) p"
  by (simp add: HasPrefix_def)

lemma HasPrefix_iff: "HasPrefix s p \<longleftrightarrow> (\<exists>r. s = p @ r)"
  unfolding HasPrefix_def by (metis append_eq_conv_conj append_take_drop_id)

lemma TrimPrefix_append [simp]: "TrimPrefix (p @ s) p = s"
  by (simp add: TrimPrefix_def)

text \<open>
  \<^verbatim>\<open>strings.ToLower\<close> compared with an ASCII word. Besides the ASCII capitals two runes
  lower to an ASCII letter: U+212A to \<open>k\<close> and U+0130 to \<open>i\<close>. Every other
  non-ASCII rune lowers to a non-ASCII rune, so leaving it alone does not change whether
  the result is the ASCII word.
\<close>

fun lower_ascii :: "string \<Rightarrow> string" where
  "lower_ascii [] = []"
| "lower_ascii (c # s) =
     (if c = CHR 0xE2 \<and> take 2 s = [CHR 0x84, CHR 0xAA] then CHR ''k'' # lower_ascii (drop 2 s)
      else if c = CHR 0xC4 \<and> take 1 s = [CHR 0xB0] then CHR ''i'' # lower_ascii (drop 1 s)
      else lower_char c # lower_ascii s)"

text \<open>
  \<^verbatim>\<open>strings.EqualFold(s, w)\<close> for an ASCII word \<open>w\<close>: simple folding puts U+212A in
  the class of \<open>k\<close> and U+017F in the class of \<open>s\<close>; no other non-ASCII rune folds
  to ASCII.
\<close>

fun fold_ascii :: "string \<Rightarrow> string" where
  "fold_ascii [] = []"
| "fold_ascii (c # s) =
     (if c = CHR 0xE2 \<and> take 2 s = [CHR 0x84, CHR 0xAA] then CHR ''k'' # fold_ascii (drop 2 s)
      else if c = CHR 0xC5 \<and> take 1 s = [CHR 0xBF] then CHR ''s'' # fold_ascii (drop 1 s)
      else lower_char c # fold_ascii s)"

definition EqualFold :: "string \<Rightarrow> string \<Rightarrow> bool" where
  "EqualFold s w \<longleftrightarrow> fold_ascii s = fold_ascii w"

text \<open>\<^verbatim>\<open>strings.Split(s, sep)\<close> for a one-byte separator.\<close>

fun split_on :: "char \<Rightarrow> string \<Rightarrow> string list" where
  "split_on d [] = [[]]"
| "split_on d (c # s) =
     (if c = d then [] # split_on d s
      else (case split_on d s of [] \<Rightarrow> [[c]] | w # ws \<Rightarrow> (c # w) # ws))"

lemma split_on_nonempty [simp]: "split_on d s \<noteq> []"
  by (induction s) (auto split: list.splits)

lemma split_on_no_sep [simp]: "d \<notin> set s \<Longrightarrow> split_on d s = [s]"
  by (induction s) auto

lemma split_on_append_sep: "d \<notin> set s \<Longrightarrow> split_on d (s @ d # t) = s # split_on d t"
  by (induction s) auto

section \<open>Slices and maps that may be nil\<close>

definition elems :: "'a list option \<Rightarrow> 'a list" where
  "elems xs = (case xs of None \<Rightarrow> [] | Some ys \<Rightarrow> ys)"

lemma elems_simps [simp]: "elems None = []" "elems (Some ys) = ys"
  by (simp_all add: elems_def)

section \<open>Association lists as finite maps\<close>

text \<open>
  A Go map that a component mutates is an association list with distinct keys;
  \<open>alist_put\<close> overwrites in place or appends, \<open>alist_del\<close> deletes.
\<close>

fun alist_put :: "'k \<Rightarrow> 'v \<Rightarrow> ('k \<times> 'v) list \<Rightarrow> ('k \<times> 'v) list" where
  "alist_put k v [] = [(k, v)]"
| "alist_put k v ((k', v') # m) = (if k' = k then (k, v) # m else (k', v') # alist_put k v m)"

definition alist_del :: "'k \<Rightarrow> ('k \<times> 'v) list \<Rightarrow> ('k \<times> 'v) list" where
  "alist_del k m = filter (\<lambda>p. fst p \<noteq> k) m"

lemma map_of_alist_put [simp]: "map_of (alist_put k v m) = (map_of m)(k \<mapsto> v)"
  by (induction k v m rule: alist_put.induct) (auto simp: fun_eq_iff)

lemma map_of_alist_del [simp]: "map_of (alist_del k m) = (map_of m)(k := None)"
  by (induction m) (auto simp: alist_del_def fun_eq_iff)

lemma keys_alist_put: "fst ` set (alist_put k v m) = insert k (fst ` set m)"
  by (induction k v m rule: alist_put.induct) auto

lemma distinct_alist_put [simp]:
  "distinct (map fst m) \<Longrightarrow> distinct (map fst (alist_put k v m))"
proof (induction k v m rule: alist_put.induct)
  case (2 k v k' v' m)
  have "k' \<noteq> k \<Longrightarrow> k' \<notin> fst ` set (alist_put k v m)"
    using "2.prems" by (simp add: keys_alist_put)
  with 2 show ?case by auto
qed simp

lemma distinct_alist_del [simp]: "distinct (map fst m) \<Longrightarrow> distinct (map fst (alist_del k m))"
  by (induction m) (auto simp: alist_del_def)

lemma keys_alist_del: "fst ` set (alist_del k m) = fst ` set m - {k}"
  by (auto simp: alist_del_def)

lemma set_alist_put: "x \<in> set (alist_put k v m) \<Longrightarrow> x = (k, v) \<or> x \<in> set m"
  by (induction k v m rule: alist_put.induct) (auto split: if_splits)

lemma distinct_values_alist_put:
  "distinct (map snd m) \<Longrightarrow> v \<notin> snd ` set m \<Longrightarrow> distinct (map snd (alist_put k v m))"
proof (induction k v m rule: alist_put.induct)
  case (2 k v k' v' m)
  have "v' \<notin> snd ` set (alist_put k v m)" using "2.prems" by (auto dest!: set_alist_put)
  with 2 show ?case by auto
qed simp

lemma distinct_values_alist_del: "distinct (map snd m) \<Longrightarrow> distinct (map snd (alist_del k m))"
  by (induction m) (auto simp: alist_del_def)

section \<open>Loops that reject duplicates\<close>

text \<open>
  \<^verbatim>\<open>seen := map[K]struct{}{}; for _, x := range xs { if err := chk(x); err != nil { return err };
  if seen[key(x)] { return dup(x) }; seen[key(x)] = struct{}{} }\<close>, the shape of every
  uniqueness loop of the validators; the loop index is passed on.
\<close>

fun seen_loop :: "(nat \<Rightarrow> 'a \<Rightarrow> 'e option) \<Rightarrow> ('a \<Rightarrow> 'k) \<Rightarrow> (nat \<Rightarrow> 'a \<Rightarrow> 'e) \<Rightarrow> nat \<Rightarrow> 'k list \<Rightarrow> 'a list \<Rightarrow> 'e option"
  where
  "seen_loop chk key dup i seen [] = None"
| "seen_loop chk key dup i seen (x # xs) =
     (case chk i x of Some e \<Rightarrow> Some e
      | None \<Rightarrow> if key x \<in> set seen then Some (dup i x)
                else seen_loop chk key dup (Suc i) (key x # seen) xs)"

lemma seen_loop_None:
  "seen_loop chk key dup i seen xs = None \<longleftrightarrow>
     (\<forall>j < length xs. chk (i + j) (xs ! j) = None) \<and>
     distinct (map key xs) \<and> key ` set xs \<inter> set seen = {}"
proof (induction chk key dup i seen xs rule: seen_loop.induct)
  case (2 chk key dup i seen x xs)
  have all: "(\<forall>j < length (x # xs). chk (i + j) ((x # xs) ! j) = None) \<longleftrightarrow>
      chk i x = None \<and> (\<forall>j < length xs. chk (Suc i + j) (xs ! j) = None)"
    by (auto simp: nth_Cons split: nat.split)
  show ?case
  proof (cases "chk i x")
    case None
    show ?thesis
    proof (cases "key x \<in> set seen")
      case True
      then show ?thesis by (auto simp: None)
    next
      case False
      with None 2 show ?thesis
        unfolding all by (auto simp: image_iff)
    qed
  next
    case (Some e)
    then show ?thesis by (auto simp: all)
  qed
qed simp

lemma seen_loop_None_const:
  "seen_loop (\<lambda>_. chk) key dup i seen xs = None \<longleftrightarrow>
     (\<forall>x\<in>set xs. chk x = None) \<and> distinct (map key xs) \<and> key ` set xs \<inter> set seen = {}"
  by (simp add: seen_loop_None all_set_conv_all_nth)

section \<open>Sorting by a key\<close>

lemma map_sort_key: "map f (sort_key f xs) = sort (map f xs)"
proof (rule sym, rule properties_for_sort)
  show "mset (map f (sort_key f xs)) = mset (map f xs)" by simp
  show "sorted (map f (sort_key f xs))" by simp
qed

lemma sort_key_unique:
  assumes "mset xs = mset ys" and "distinct (map f xs)"
  shows "sort_key f xs = sort_key f ys"
proof (rule map_sorted_distinct_set_unique)
  have set_eq: "set xs = set ys" using assms(1) by (metis set_mset_mset)
  have inj: "inj_on f (set xs)" using assms(2) by (simp add: distinct_map)
  have "distinct (map f ys)"
    using assms by (metis mset_eq_imp_distinct_iff mset_map)
  then show "distinct (map f (sort_key f ys))" by (simp add: map_sort_key)
  show "distinct (map f (sort_key f xs))" using assms(2) by (simp add: map_sort_key)
  show "inj_on f (set (sort_key f xs) \<union> set (sort_key f ys))" using inj set_eq by simp
  show "set (sort_key f xs) = set (sort_key f ys)" using set_eq by simp
qed simp_all

section \<open>Signed 64-bit values\<close>

lemma sint_word64:
  fixes k :: int
  assumes "- (2 ^ 63) \<le> k" and "k < 2 ^ 63"
  shows "sint (word_of_int k :: 64 word) = k"
proof -
  have "signed_take_bit 63 k = k"
    using assms by (intro signed_take_bit_int_eq_self) auto
  then show ?thesis by (simp add: signed_of_int)
qed

end
