(* ===== verification/Config.thy ===== *)
theory Config
  imports Prelude
begin

text \<open>
  The v2 configuration model: \<^verbatim>\<open>internal/v2config/types.go\<close> (the structs, the defaults,
  the accessors) and \<^verbatim>\<open>internal/v2config/validate.go\<close> (every validator). The theory shows
  what an accepted configuration guarantees to the components that consume it: unique well-formed
  server identities, one transport block that matches its type, no credential over remote clear-text
  HTTP without the override, a selected embedding model, durations that do not wrap.

  A field that Go types as a named string keeps the type \<^typ>\<open>string\<close>; the constants of the
  enumeration are definitions. A pointer field is an option. Slices and maps that are compared
  with \<^verbatim>\<open>reflect.DeepEqual\<close> are options, so that HOL equality is that comparison. Two library
  routines are arguments (record \<open>netlib\<close>): the fields of \<^verbatim>\<open>net/url.Parse\<close> that the code
  reads, and \<^verbatim>\<open>net.ParseIP(h).IsLoopback()\<close>. \<^verbatim>\<open>filepath.Base\<close> is the Unix one.
\<close>

section \<open>Types\<close>

definition SchemaVersion :: int where
  "SchemaVersion = 2"

definition ManagerRuntimeCredentialRef :: string where
  "ManagerRuntimeCredentialRef = ''secret://openai/runtime/default''"

definition LocalManagerCapabilitySecretRef :: string where
  "LocalManagerCapabilitySecretRef = ''secret://manager/local-capability/default''"

definition DefaultEmbeddingModelID :: string where
  "DefaultEmbeddingModelID = ''bge-small-en-v1.5-q8_0''"

definition DefaultLlamaCppRelease :: string where
  "DefaultLlamaCppRelease = ''b10621''"

record LocalManagerConfig =
  lm_Port :: int
  lm_AccessProtectionEnabled :: bool

record ManagerTunnelConfig =
  mt_Enabled :: bool
  mt_TunnelID :: string
  mt_RuntimeCredentialRef :: string

definition EmbeddingProviderLocalGGUF :: string where
  "EmbeddingProviderLocalGGUF = ''local_gguf''"

definition EmbeddingProviderOpenAICompatible :: string where
  "EmbeddingProviderOpenAICompatible = ''openai_compatible''"

record EmbeddingRuntimeConfig =
  er_Release :: string
  er_BinaryPath :: string

record EmbeddingModel =
  em_ID :: string
  em_Name :: string
  em_DownloadURL :: string
  em_FileName :: string
  em_SHA256 :: string
  em_Dimensions :: int
  em_Pooling :: string

record EmbeddingConfig =
  ec_Provider :: string
  ec_Model :: string
  ec_Runtime :: EmbeddingRuntimeConfig
  ec_Models :: "EmbeddingModel list"
  ec_BaseURL :: string
  ec_Dimensions :: "int option"
  ec_CredentialRef :: string

record GeneralConfig =
  gc_LaunchAtStartup :: bool
  gc_StartMinimized :: bool
  gc_MinimizeToTray :: bool
  gc_CloseBehavior :: string
  gc_ConfirmExit :: bool

record LoggingConfig =
  lc_CaptureLevel :: string
  lc_DisplayLevel :: string
  lc_MemoryLimitMB :: int
  lc_WriteToDisk :: bool
  lc_DiskMinimumLevel :: string
  lc_MaximumFileSizeMB :: int
  lc_KeepFiles :: int

record TunnelClientConfig =
  tc_BinaryPath :: string
  tc_AutoUpdate :: bool
  tc_Channel :: string
  tc_UpdateCheckIntervalHours :: int

text \<open>
  The one-field structs \<^verbatim>\<open>RoutingConfig\<close>, \<^verbatim>\<open>IndexConfig\<close>, \<^verbatim>\<open>ManagedDefaults\<close> and
  \<^verbatim>\<open>AppearanceConfig\<close> are flattened into the field they hold.
\<close>

record ManagerConfig =
  mc_SchemaVersion :: int
  mc_LocalManager :: LocalManagerConfig
  mc_ManagerTunnel :: ManagerTunnelConfig
  mc_Embedding :: EmbeddingConfig
  mc_DefaultProfile :: string
  mc_QueryEmbeddingCacheEntries :: int
  mc_General :: GeneralConfig
  mc_IdleTimeoutSeconds :: int
  mc_Logging :: LoggingConfig
  mc_TunnelClient :: TunnelClientConfig
  mc_Theme :: string

definition ModeAlwaysOn :: string where "ModeAlwaysOn = ''always_on''"
definition ModeManaged :: string where "ModeManaged = ''managed''"
definition ModeManual :: string where "ModeManual = ''manual''"
definition ModeDisabled :: string where "ModeDisabled = ''disabled''"

lemmas mode_defs = ModeAlwaysOn_def ModeManaged_def ModeManual_def ModeDisabled_def

definition TransportStdio :: string where "TransportStdio = ''stdio''"
definition TransportManagedHTTP :: string where "TransportManagedHTTP = ''managed_http''"
definition TransportExternalHTTP :: string where "TransportExternalHTTP = ''external_http''"

lemmas transport_defs = TransportStdio_def TransportManagedHTTP_def TransportExternalHTTP_def

definition HTTPAuthNone :: string where "HTTPAuthNone = ''none''"
definition HTTPAuthOAuth :: string where "HTTPAuthOAuth = ''oauth''"
definition HTTPAuthStatic :: string where "HTTPAuthStatic = ''static''"

lemmas auth_defs = HTTPAuthNone_def HTTPAuthOAuth_def HTTPAuthStatic_def

record LaunchConfig =
  la_Executable :: string
  la_Args :: "string list option"
  la_WorkingDirectory :: string

record StdioTransport =
  st_Executable :: string
  st_Args :: "string list option"
  st_WorkingDirectory :: string

record StaticAuthConfig =
  sa_HeaderName :: string
  sa_Scheme :: string
  sa_SecretRef :: string

record HTTPAuthConfig =
  au_Mode :: string
  au_OAuthScopes :: "string list option option"
  au_Static :: "StaticAuthConfig option"

record ManagedHTTPTransport =
  mh_URL :: string
  mh_Launch :: LaunchConfig
  mh_Auth :: HTTPAuthConfig
  mh_AllowInsecure :: bool

record ExternalHTTPTransport =
  eh_URL :: string
  eh_Auth :: HTTPAuthConfig
  eh_AllowInsecure :: bool

record TransportConfig =
  tr_Type :: string
  tr_Stdio :: "StdioTransport option"
  tr_ManagedHTTP :: "ManagedHTTPTransport option"
  tr_ExternalHTTP :: "ExternalHTTPTransport option"

record EnvironmentConfig =
  env_Values :: "(string \<times> string) list option"
  env_SecretRefs :: "(string \<times> string) list option"

record RuntimeConfig =
  rt_StartupTimeoutSeconds :: int
  rt_ShutdownTimeoutSeconds :: int
  rt_IdleTimeoutSeconds :: "int option"

record ServerEntry =
  se_ID :: string
  se_Name :: string
  se_Mode :: string
  se_Transport :: TransportConfig
  se_Environment :: EnvironmentConfig
  se_Runtime :: RuntimeConfig
  se_CaptureLevelOverride :: "string option"
  se_Hidden :: "string list"

record ServersConfig =
  sc_SchemaVersion :: int
  sc_Servers :: "ServerEntry list"

section \<open>Defaults and accessors\<close>

definition DefaultEmbeddingModels :: "EmbeddingModel list" where
  "DefaultEmbeddingModels =
     [\<lparr>em_ID = DefaultEmbeddingModelID, em_Name = ''BGE Small EN v1.5 Q8_0'',
       em_DownloadURL = ''https://huggingface.co/ggml-org/bge-small-en-v1.5-Q8_0-GGUF/resolve/main/bge-small-en-v1.5-q8_0.gguf?download=true'',
       em_FileName = ''bge-small-en-v1.5-q8_0.gguf'',
       em_SHA256 = ''f046db1dc724cf4f6f0a0c5917e922823b73eb1d27b8f9a9c2797f7866974804'',
       em_Dimensions = 384, em_Pooling = ''cls''\<rparr>]"

definition DefaultEmbeddingConfig :: EmbeddingConfig where
  "DefaultEmbeddingConfig =
     \<lparr>ec_Provider = EmbeddingProviderLocalGGUF, ec_Model = DefaultEmbeddingModelID,
      ec_Runtime = \<lparr>er_Release = DefaultLlamaCppRelease, er_BinaryPath = []\<rparr>,
      ec_Models = DefaultEmbeddingModels, ec_BaseURL = [], ec_Dimensions = None,
      ec_CredentialRef = []\<rparr>"

definition EffectiveEmbeddingConfig :: "EmbeddingConfig \<Rightarrow> EmbeddingConfig" where
  "EffectiveEmbeddingConfig c =
     (if ec_Provider c = EmbeddingProviderOpenAICompatible \<or> ec_Provider c = [] then DefaultEmbeddingConfig
      else c)"

definition SelectedModel :: "EmbeddingConfig \<Rightarrow> EmbeddingModel option" where
  "SelectedModel c = find (\<lambda>m. em_ID m = ec_Model c) (ec_Models c)"

definition ToolExposed :: "ServerEntry \<Rightarrow> string \<Rightarrow> bool" where
  "ToolExposed e name \<longleftrightarrow> list_all (\<lambda>h. h \<noteq> name) (se_Hidden e)"

definition DefaultManagerConfig :: "int \<Rightarrow> ManagerConfig" where
  "DefaultManagerConfig port =
     \<lparr>mc_SchemaVersion = SchemaVersion,
      mc_LocalManager = \<lparr>lm_Port = port, lm_AccessProtectionEnabled = True\<rparr>,
      mc_ManagerTunnel = \<lparr>mt_Enabled = False, mt_TunnelID = [],
        mt_RuntimeCredentialRef = ManagerRuntimeCredentialRef\<rparr>,
      mc_Embedding = DefaultEmbeddingConfig, mc_DefaultProfile = [],
      mc_QueryEmbeddingCacheEntries = 256,
      mc_General = \<lparr>gc_LaunchAtStartup = False, gc_StartMinimized = False, gc_MinimizeToTray = True,
        gc_CloseBehavior = ''minimize'', gc_ConfirmExit = True\<rparr>,
      mc_IdleTimeoutSeconds = 300,
      mc_Logging = \<lparr>lc_CaptureLevel = ''trace'', lc_DisplayLevel = ''info'', lc_MemoryLimitMB = 25,
        lc_WriteToDisk = False, lc_DiskMinimumLevel = ''debug'', lc_MaximumFileSizeMB = 10,
        lc_KeepFiles = 5\<rparr>,
      mc_TunnelClient = \<lparr>tc_BinaryPath = [], tc_AutoUpdate = True, tc_Channel = ''stable'',
        tc_UpdateCheckIntervalHours = 24\<rparr>,
      mc_Theme = ''system''\<rparr>"

definition DefaultServersConfig :: ServersConfig where
  "DefaultServersConfig = \<lparr>sc_SchemaVersion = SchemaVersion, sc_Servers = []\<rparr>"

text \<open>
  \<^verbatim>\<open>time.Duration\<close> is a signed 64-bit count of nanoseconds; \<^verbatim>\<open>time.Duration(n) * time.Second\<close>
  wraps around.
\<close>

type_synonym Duration = "64 word"

definition seconds :: "int \<Rightarrow> Duration" where
  "seconds n = word_of_int n * 1000000000"

definition StartupTimeout :: "ServerEntry \<Rightarrow> Duration" where
  "StartupTimeout e =
     (let n = rt_StartupTimeoutSeconds (se_Runtime e); n = (if n \<le> 0 then 30 else n) in seconds n)"

definition ShutdownTimeout :: "ServerEntry \<Rightarrow> Duration" where
  "ShutdownTimeout e =
     (let n = rt_ShutdownTimeoutSeconds (se_Runtime e); n = (if n \<le> 0 then 10 else n) in seconds n)"

definition IdleTimeout :: "ServerEntry \<Rightarrow> int \<Rightarrow> Duration" where
  "IdleTimeout e default_idle =
     (let n = (case rt_IdleTimeoutSeconds (se_Runtime e) of None \<Rightarrow> default_idle | Some i \<Rightarrow> i)
      in if n \<le> 0 then 0 else seconds n)"

section \<open>Validation\<close>

datatype config_error =
    Msg string
  | MsgInt string int
  | MsgArg string string
  | WrapErr string config_error
  | IdxErr nat config_error

definition wrap_err :: "string \<Rightarrow> config_error option \<Rightarrow> config_error option" where
  "wrap_err s e = map_option (WrapErr s) e"

lemma wrap_err_None [err_simps]: "wrap_err s e = None \<longleftrightarrow> e = None"
  by (simp add: wrap_err_def)

record url =
  url_Scheme :: string
  url_Host :: string
  url_HasUser :: bool
  url_Hostname :: string

record netlib =
  url_parse :: "string \<Rightarrow> url option"
  ip_loopback :: "string \<Rightarrow> bool"

definition serverIDPattern :: "string \<Rightarrow> bool" where
  "serverIDPattern s \<longleftrightarrow> HasPrefix s ''srv_'' \<and> length s = 36 \<and> list_all is_lower_hex (drop 4 s)"

definition tunnelIDPattern :: "string \<Rightarrow> bool" where
  "tunnelIDPattern s \<longleftrightarrow> HasPrefix s ''tunnel_'' \<and> length s = 39 \<and> list_all is_lower_hex (drop 7 s)"

definition envNamePattern :: "string \<Rightarrow> bool" where
  "envNamePattern s = (case s of [] \<Rightarrow> False
     | c # r \<Rightarrow> (is_upper c \<or> is_lower c \<or> c = CHR ''_'') \<and>
         list_all (\<lambda>d. is_upper d \<or> is_lower d \<or> is_digit d \<or> d = CHR ''_'') r)"

definition embeddingModelPattern :: "string \<Rightarrow> bool" where
  "embeddingModelPattern s = (case s of [] \<Rightarrow> False
     | c # r \<Rightarrow> (is_lower c \<or> is_digit c) \<and> length r \<le> 127 \<and>
         list_all (\<lambda>d. is_lower d \<or> is_digit d \<or> d \<in> {CHR ''.'', CHR ''_'', CHR ''-''}) r)"

definition sha256Pattern :: "string \<Rightarrow> bool" where
  "sha256Pattern s \<longleftrightarrow> length s = 64 \<and> list_all is_lower_hex s"

definition restrictedStaticHeaders :: "string list" where
  "restrictedStaticHeaders = [''Connection'', ''Content-Length'', ''Host'', ''Proxy-Connection'',
     ''Te'', ''Trailer'', ''Transfer-Encoding'', ''Upgrade'']"

definition validLogLevel :: "string \<Rightarrow> bool" where
  "validLogLevel v \<longleftrightarrow> lower_ascii (TrimSpace v) \<in> set [''trace'', ''debug'', ''info'', ''warn'', ''error'']"

definition validDisplayLevel :: "string \<Rightarrow> bool" where
  "validDisplayLevel v \<longleftrightarrow> EqualFold (TrimSpace v) ''all'' \<or> validLogLevel v"

definition validateSecretRef :: "string \<Rightarrow> config_error option" where
  "validateSecretRef ref =
     check (\<not> HasPrefix ref ''secret://'' \<or> length ref = length ''secret://'')
       (Msg ''secret reference must use secret://'')"

definition validHeaderName :: "string \<Rightarrow> bool" where
  "validHeaderName name =
     list_all (\<lambda>r. \<not> (byte r \<le> 32 \<or> 127 \<le> byte r \<or> r \<in> set ''()<>@,;:[]?={} '' \<or> r = CHR 0x5C \<or> r = CHR 0x09)) name"

definition validateHTTPURL :: "netlib \<Rightarrow> string \<Rightarrow> (config_error, url) result" where
  "validateHTTPURL nl raw = (case url_parse nl raw of
      None \<Rightarrow> Inl (MsgArg ''parse'' raw)
    | Some u \<Rightarrow>
        (if url_Scheme u \<noteq> ''http'' \<and> url_Scheme u \<noteq> ''https'' then Inl (Msg ''scheme must be http or https'')
         else if url_Host u = [] then Inl (Msg ''host is required'')
         else if url_HasUser u then Inl (Msg ''userinfo is not allowed'')
         else Inr u))"

definition isLoopbackHost :: "netlib \<Rightarrow> string \<Rightarrow> bool" where
  "isLoopbackHost nl host \<longleftrightarrow> EqualFold host ''localhost'' \<or> ip_loopback nl host"

text \<open>
  \<^verbatim>\<open>http.CanonicalHeaderKey\<close>: a name with a byte that is no HTTP token character is returned
  unchanged; otherwise the first letter and every letter after a hyphen is put in upper case and
  the others in lower case.
\<close>

definition token_byte :: "char \<Rightarrow> bool" where
  "token_byte c \<longleftrightarrow> is_digit c \<or> is_upper c \<or> is_lower c \<or> c \<in> set ''!#$%&*+-.^_|~'' \<or> byte c = 39 \<or> byte c = 96"

fun canonical_bytes :: "bool \<Rightarrow> string \<Rightarrow> string" where
  "canonical_bytes up [] = []"
| "canonical_bytes up (c # s) =
     (if up then upper_char c else lower_char c) # canonical_bytes (c = CHR ''-'') s"

definition CanonicalHeaderKey :: "string \<Rightarrow> string" where
  "CanonicalHeaderKey s = (if list_all token_byte s then canonical_bytes True s else s)"

definition validateHTTPAuth :: "HTTPAuthConfig \<Rightarrow> config_error option" where
  "validateHTTPAuth auth =
     (if au_Mode auth = HTTPAuthNone then
        check (au_OAuthScopes auth \<noteq> None \<or> au_Static auth \<noteq> None)
          (Msg ''none auth may not contain oauth or static settings'')
      else if au_Mode auth = HTTPAuthOAuth then
        (case (au_OAuthScopes auth, au_Static auth) of
           (Some scopes, None) \<Rightarrow>
             seen_loop (\<lambda>_ scope. check (TrimSpace scope = [] \<or> TrimSpace scope \<noteq> scope)
                 (Msg ''oauth scopes must be non-empty and trimmed''))
               id (\<lambda>_ scope. MsgArg ''duplicate oauth scope'' scope) 0 [] (elems scopes)
         | _ \<Rightarrow> Some (Msg ''oauth auth must contain only oauth settings''))
      else if au_Mode auth = HTTPAuthStatic then
        (case (au_Static auth, au_OAuthScopes auth) of
           (Some st, None) \<Rightarrow>
             (let name = CanonicalHeaderKey (TrimSpace (sa_HeaderName st)) in
              first_err
               [check (name = [] \<or> \<not> validHeaderName name) (Msg ''static.header_name is invalid''),
                check (name \<in> set restrictedStaticHeaders) (MsgArg ''static.header_name is transport-controlled'' name),
                check (CHR 0x0D \<in> set (sa_Scheme st) \<or> CHR 0x0A \<in> set (sa_Scheme st))
                  (Msg ''static.scheme may not contain CR or LF''),
                wrap_err ''static.secret_ref'' (validateSecretRef (sa_SecretRef st))])
         | _ \<Rightarrow> Some (Msg ''static auth must contain only static settings''))
      else Some (MsgArg ''invalid auth mode'' (au_Mode auth)))"

definition validateHTTPEndpoint :: "netlib \<Rightarrow> string \<Rightarrow> HTTPAuthConfig \<Rightarrow> bool \<Rightarrow> config_error option" where
  "validateHTTPEndpoint nl rawURL auth allowInsecure = (case validateHTTPURL nl rawURL of
      Inl e \<Rightarrow> Some (WrapErr ''url'' e)
    | Inr u \<Rightarrow> first_err
        [wrap_err ''auth'' (validateHTTPAuth auth),
         check (au_Mode auth \<noteq> HTTPAuthNone \<and> url_Scheme u \<noteq> ''https'' \<and>
                \<not> isLoopbackHost nl (url_Hostname u) \<and> \<not> allowInsecure)
           (Msg ''credential-bearing remote HTTP requires https unless allow_insecure_credential_transport is enabled'')])"

definition validateTransport :: "netlib \<Rightarrow> TransportConfig \<Rightarrow> config_error option" where
  "validateTransport nl t =
     (if tr_Type t = TransportStdio then
        (case (tr_Stdio t, tr_ManagedHTTP t, tr_ExternalHTTP t) of
           (Some s, None, None) \<Rightarrow> check (blank (st_Executable s)) (Msg ''stdio.executable is required'')
         | _ \<Rightarrow> Some (Msg ''stdio transport must contain only stdio configuration''))
      else if tr_Type t = TransportManagedHTTP then
        (case (tr_ManagedHTTP t, tr_Stdio t, tr_ExternalHTTP t) of
           (Some m, None, None) \<Rightarrow> first_err
              [check (blank (la_Executable (mh_Launch m))) (Msg ''managed_http.launch.executable is required''),
               wrap_err ''managed_http'' (validateHTTPEndpoint nl (mh_URL m) (mh_Auth m) (mh_AllowInsecure m))]
         | _ \<Rightarrow> Some (Msg ''managed_http transport must contain only managed_http configuration''))
      else if tr_Type t = TransportExternalHTTP then
        (case (tr_ExternalHTTP t, tr_Stdio t, tr_ManagedHTTP t) of
           (Some x, None, None) \<Rightarrow>
              wrap_err ''external_http'' (validateHTTPEndpoint nl (eh_URL x) (eh_Auth x) (eh_AllowInsecure x))
         | _ \<Rightarrow> Some (Msg ''external_http transport must contain only external_http configuration''))
      else Some (MsgArg ''invalid transport type'' (tr_Type t)))"

text \<open>
  Go iterates the environment maps in an unspecified order, so which of several bad names is
  reported is not determined; the model takes the key order.
\<close>

definition ValidateServer :: "netlib \<Rightarrow> ServerEntry \<Rightarrow> config_error option" where
  "ValidateServer nl e = first_err
     [check (\<not> serverIDPattern (se_ID e)) (Msg ''id must match srv_<32 lowercase hex chars>''),
      check (blank (se_Name e)) (Msg ''name is required''),
      check (se_Mode e \<notin> set [ModeAlwaysOn, ModeManaged, ModeManual, ModeDisabled]) (MsgArg ''invalid mode'' (se_Mode e)),
      check (rt_StartupTimeoutSeconds (se_Runtime e) < 0 \<or> rt_ShutdownTimeoutSeconds (se_Runtime e) < 0)
        (Msg ''runtime timeouts cannot be negative''),
      (case rt_IdleTimeoutSeconds (se_Runtime e) of None \<Rightarrow> None
       | Some n \<Rightarrow> check (n < 0) (Msg ''runtime.idle_timeout_seconds cannot be negative'')),
      (case se_CaptureLevelOverride e of None \<Rightarrow> None
       | Some l \<Rightarrow> check (\<not> validLogLevel l)
           (Msg ''logging.capture_level_override must be trace, debug, info, warn, or error'')),
      first_err (map (\<lambda>(k, v). check (\<not> envNamePattern k) (MsgArg ''invalid environment name'' k))
        (elems (env_Values (se_Environment e)))),
      first_err (map (\<lambda>(k, v). first_err
          [check (\<not> envNamePattern k) (MsgArg ''invalid environment secret name'' k),
           wrap_err (''environment secret '' @ k) (validateSecretRef v)])
        (elems (env_SecretRefs (se_Environment e)))),
      seen_loop (\<lambda>_ name. first_err
          [check (TrimSpace name = [] \<or> TrimSpace name \<noteq> name)
             (Msg ''tool_visibility.hidden names must be non-empty and trimmed''),
           check (512 < length name) (Msg ''tool_visibility.hidden names may not exceed 512 bytes'')])
        id (\<lambda>_ name. MsgArg ''duplicate hidden tool'' name) 0 [] (se_Hidden e),
      validateTransport nl (se_Transport e)]"

definition ValidateServers :: "netlib \<Rightarrow> ServersConfig \<Rightarrow> config_error option" where
  "ValidateServers nl c = first_err
     [check (sc_SchemaVersion c \<noteq> SchemaVersion) (MsgInt ''unsupported servers schema_version'' (sc_SchemaVersion c)),
      seen_loop (\<lambda>i e. map_option (IdxErr i) (ValidateServer nl e))
        se_ID (\<lambda>i e. IdxErr i (MsgArg ''duplicate server id'' (se_ID e))) 0 [] (sc_Servers c)]"

text \<open>\<^verbatim>\<open>filepath.Base\<close> with \<^verbatim>\<open>/\<close> as the separator.\<close>

definition path_base :: "string \<Rightarrow> string" where
  "path_base p =
     (if p = [] then ''.''
      else let t = rev (dropWhile (\<lambda>c. c = CHR ''/'') (rev p));
               b = rev (takeWhile (\<lambda>c. c \<noteq> CHR ''/'') (rev t))
           in if b = [] then ''/'' else b)"

definition validateEmbeddingModel :: "netlib \<Rightarrow> nat \<Rightarrow> EmbeddingModel \<Rightarrow> config_error option" where
  "validateEmbeddingModel nl i m = first_err
     [check (blank (em_Name m) \<or> TrimSpace (em_Name m) \<noteq> em_Name m)
        (IdxErr i (Msg ''name must be non-empty and trimmed'')),
      (case url_parse nl (em_DownloadURL m) of
         None \<Rightarrow> Some (IdxErr i (Msg ''download_url must be an https URL without userinfo''))
       | Some u \<Rightarrow> check (url_Scheme u \<noteq> ''https'' \<or> url_Host u = [] \<or> url_HasUser u)
           (IdxErr i (Msg ''download_url must be an https URL without userinfo''))),
      check (path_base (em_FileName m) \<noteq> em_FileName m \<or> em_FileName m = ''.'' \<or> em_FileName m = [])
        (IdxErr i (Msg ''file_name must be a file name without directories'')),
      check (\<not> sha256Pattern (em_SHA256 m)) (IdxErr i (Msg ''sha256 must be 64 lowercase hexadecimal characters'')),
      check (em_Dimensions m \<le> 0 \<or> 65536 < em_Dimensions m) (IdxErr i (Msg ''dimensions must be between 1 and 65536'')),
      check (em_Pooling m \<notin> set [''cls'', ''mean'', ''last'', ''rank'']) (IdxErr i (Msg ''pooling must be cls, mean, last, or rank''))]"

text \<open>The model loop of \<^verbatim>\<open>validateEmbedding\<close>: the id is checked, then the duplicate, then the rest.\<close>

fun embedding_models_loop :: "netlib \<Rightarrow> nat \<Rightarrow> string list \<Rightarrow> EmbeddingModel list \<Rightarrow> config_error option" where
  "embedding_models_loop nl i seen [] = None"
| "embedding_models_loop nl i seen (m # ms) =
     (case first_err
        [check (\<not> embeddingModelPattern (em_ID m)) (IdxErr i (Msg ''id is invalid'')),
         check (em_ID m \<in> set seen) (IdxErr i (MsgArg ''duplicate model id'' (em_ID m))),
         validateEmbeddingModel nl i m]
      of Some e \<Rightarrow> Some e | None \<Rightarrow> embedding_models_loop nl (Suc i) (em_ID m # seen) ms)"

definition validateEmbedding :: "netlib \<Rightarrow> EmbeddingConfig \<Rightarrow> config_error option" where
  "validateEmbedding nl c =
     (if ec_Provider c = EmbeddingProviderOpenAICompatible then first_err
        [check (blank (ec_Model c)) (Msg ''legacy embedding.model is required''),
         (case validateHTTPURL nl (ec_BaseURL c) of Inl e \<Rightarrow> Some (WrapErr ''legacy embedding.base_url'' e) | Inr _ \<Rightarrow> None),
         wrap_err ''legacy embedding.credential_ref'' (validateSecretRef (ec_CredentialRef c))]
      else first_err
        [check (ec_Provider c \<noteq> EmbeddingProviderLocalGGUF) (MsgArg ''embedding.provider must be'' EmbeddingProviderLocalGGUF),
         check (\<not> embeddingModelPattern (ec_Model c)) (Msg ''embedding.model must be a lowercase model id''),
         check (blank (er_Release (ec_Runtime c))) (Msg ''embedding.runtime.release is required''),
         check (TrimSpace (er_BinaryPath (ec_Runtime c)) \<noteq> er_BinaryPath (ec_Runtime c))
           (Msg ''embedding.runtime.binary_path may not have leading or trailing whitespace''),
         check (ec_Models c = []) (Msg ''embedding.models must contain at least one model''),
         embedding_models_loop nl 0 [] (ec_Models c),
         check (\<not> list_ex (\<lambda>m. em_ID m = ec_Model c) (ec_Models c)) (MsgArg ''embedding.model is not present in embedding.models'' (ec_Model c)),
         check (ec_BaseURL c \<noteq> [] \<or> ec_CredentialRef c \<noteq> [] \<or> ec_Dimensions c \<noteq> None)
           (Msg ''legacy online embedding fields are not allowed with local_gguf'')])"

definition ValidateManager :: "netlib \<Rightarrow> ManagerConfig \<Rightarrow> config_error option" where
  "ValidateManager nl c = first_err
     [check (mc_SchemaVersion c \<noteq> SchemaVersion) (MsgInt ''unsupported manager schema_version'' (mc_SchemaVersion c)),
      check (lm_Port (mc_LocalManager c) < 1024 \<or> 65535 < lm_Port (mc_LocalManager c))
        (Msg ''local_manager.port must be between 1024 and 65535''),
      check (mt_TunnelID (mc_ManagerTunnel c) \<noteq> [] \<and> \<not> tunnelIDPattern (mt_TunnelID (mc_ManagerTunnel c)))
        (Msg ''manager_tunnel.tunnel_id must match tunnel_<32 lowercase hexadecimal chars>''),
      check (mt_Enabled (mc_ManagerTunnel c) \<and> mt_TunnelID (mc_ManagerTunnel c) = [])
        (Msg ''manager_tunnel.tunnel_id is required when manager tunnel is enabled''),
      (if mt_RuntimeCredentialRef (mc_ManagerTunnel c) \<noteq> []
       then wrap_err ''manager_tunnel.runtime_credential_ref'' (validateSecretRef (mt_RuntimeCredentialRef (mc_ManagerTunnel c)))
       else None),
      validateEmbedding nl (mc_Embedding c),
      check (TrimSpace (mc_DefaultProfile c) \<noteq> mc_DefaultProfile c)
        (Msg ''routing.default_profile may not have leading or trailing whitespace''),
      check (128 < length (mc_DefaultProfile c)) (Msg ''routing.default_profile may not exceed 128 bytes''),
      check (mc_QueryEmbeddingCacheEntries c < 0 \<or> 4096 < mc_QueryEmbeddingCacheEntries c)
        (Msg ''index.query_embedding_cache_entries must be between 0 and 4096''),
      check (gc_CloseBehavior (mc_General c) \<noteq> ''minimize'' \<and> gc_CloseBehavior (mc_General c) \<noteq> ''exit'')
        (Msg ''general.close_behavior must be minimize or exit''),
      check (mc_IdleTimeoutSeconds c < 0) (Msg ''managed_defaults.idle_timeout_seconds cannot be negative''),
      check (\<not> validLogLevel (lc_CaptureLevel (mc_Logging c)))
        (Msg ''logging.capture_level must be trace, debug, info, warn, or error''),
      check (\<not> validDisplayLevel (lc_DisplayLevel (mc_Logging c)))
        (Msg ''logging.display_level must be all, trace, debug, info, warn, or error''),
      check (\<not> validLogLevel (lc_DiskMinimumLevel (mc_Logging c)))
        (Msg ''logging.disk_minimum_level must be trace, debug, info, warn, or error''),
      check (lc_MemoryLimitMB (mc_Logging c) \<notin> set [5, 10, 25, 50, 100])
        (Msg ''logging.memory_limit_mb must be one of 5, 10, 25, 50, 100''),
      check (lc_MaximumFileSizeMB (mc_Logging c) \<le> 0 \<or> lc_KeepFiles (mc_Logging c) \<le> 0)
        (Msg ''logging disk rotation limits must be positive''),
      check (tc_UpdateCheckIntervalHours (mc_TunnelClient c) \<le> 0)
        (Msg ''tunnel_client.update_check_interval_hours must be positive''),
      check (lower_ascii (TrimSpace (tc_Channel (mc_TunnelClient c))) \<notin> set [''stable'', ''prerelease''])
        (Msg ''tunnel_client.channel must be stable or prerelease''),
      check (mc_Theme c \<notin> set [''system'', ''light'', ''dark''])
        (Msg ''appearance.theme must be system, light, or dark'')]"


section \<open>What an accepted configuration guarantees\<close>

lemma find_Some_mem: "find P xs = Some x \<Longrightarrow> x \<in> set xs \<and> P x"
  by (induction xs) (auto split: if_splits)

lemma find_None_none: "find P xs = None \<Longrightarrow> x \<in> set xs \<Longrightarrow> \<not> P x"
  by (induction xs) (auto split: if_splits)

lemma validateEmbeddingModel_index:
  "validateEmbeddingModel nl i m = None \<longleftrightarrow> validateEmbeddingModel nl j m = None"
  by (simp add: validateEmbeddingModel_def err_simps split: option.splits)

lemma embedding_models_loop_None:
  "embedding_models_loop nl i seen ms = None \<longleftrightarrow>
     (\<forall>m\<in>set ms. embeddingModelPattern (em_ID m) \<and> validateEmbeddingModel nl 0 m = None) \<and>
     distinct (map em_ID ms) \<and> em_ID ` set ms \<inter> set seen = {}"
proof (induction nl i seen ms rule: embedding_models_loop.induct)
  case (2 nl i seen m ms)
  show ?case
  proof (cases "embeddingModelPattern (em_ID m) \<and> em_ID m \<notin> set seen \<and> validateEmbeddingModel nl i m = None")
    case True
    then have "first_err
        [check (\<not> embeddingModelPattern (em_ID m)) (IdxErr i (Msg ''id is invalid'')),
         check (em_ID m \<in> set seen) (IdxErr i (MsgArg ''duplicate model id'' (em_ID m))),
         validateEmbeddingModel nl i m] = None"
      by (simp add: err_simps)
    moreover from True have "validateEmbeddingModel nl 0 m = None"
      using validateEmbeddingModel_index by blast
    ultimately show ?thesis
      using 2 True by (auto simp: image_iff)
  next
    case False
    then have "first_err
        [check (\<not> embeddingModelPattern (em_ID m)) (IdxErr i (Msg ''id is invalid'')),
         check (em_ID m \<in> set seen) (IdxErr i (MsgArg ''duplicate model id'' (em_ID m))),
         validateEmbeddingModel nl i m] \<noteq> None"
      by (simp add: err_simps)
    then show ?thesis
      using False validateEmbeddingModel_index [of nl i m 0] by auto
  qed
qed simp

text \<open>The declarative reading of the whole-configuration validator.\<close>

lemma ValidateServers_None:
  "ValidateServers nl c = None \<longleftrightarrow>
     sc_SchemaVersion c = SchemaVersion \<and> (\<forall>e\<in>set (sc_Servers c). ValidateServer nl e = None) \<and>
     distinct (map se_ID (sc_Servers c))"
  by (simp add: ValidateServers_def err_simps seen_loop_None all_set_conv_all_nth)

lemma ValidateServer_parts:
  assumes "ValidateServer nl e = None"
  shows "serverIDPattern (se_ID e)" "\<not> blank (se_Name e)"
    "se_Mode e \<in> {ModeAlwaysOn, ModeManaged, ModeManual, ModeDisabled}"
    "0 \<le> rt_StartupTimeoutSeconds (se_Runtime e)" "0 \<le> rt_ShutdownTimeoutSeconds (se_Runtime e)"
    "distinct (se_Hidden e)" "validateTransport nl (se_Transport e) = None"
  using assms by (auto simp: ValidateServer_def err_simps seen_loop_None_const)

lemma ValidateServer_secret_refs:
  assumes "ValidateServer nl e = None" and "(k, ref) \<in> set (elems (env_SecretRefs (se_Environment e)))"
  shows "envNamePattern k" and "validateSecretRef ref = None"
  using assms by (auto simp: ValidateServer_def err_simps first_err_None_iff)

text \<open>The HTTP endpoint of a transport block: URL, authentication, clear-text override.\<close>

definition endpoint_of :: "TransportConfig \<Rightarrow> (string \<times> HTTPAuthConfig \<times> bool) option" where
  "endpoint_of t =
     (if tr_Type t = TransportManagedHTTP then map_option (\<lambda>m. (mh_URL m, mh_Auth m, mh_AllowInsecure m)) (tr_ManagedHTTP t)
      else if tr_Type t = TransportExternalHTTP then map_option (\<lambda>x. (eh_URL x, eh_Auth x, eh_AllowInsecure x)) (tr_ExternalHTTP t)
      else None)"

lemma transport_types_distinct [simp]:
  "TransportStdio \<noteq> TransportManagedHTTP" "TransportStdio \<noteq> TransportExternalHTTP"
  "TransportManagedHTTP \<noteq> TransportExternalHTTP" "TransportManagedHTTP \<noteq> TransportStdio"
  "TransportExternalHTTP \<noteq> TransportStdio" "TransportExternalHTTP \<noteq> TransportManagedHTTP"
  by (simp_all add: transport_defs)

lemma auth_modes_distinct [simp]:
  "HTTPAuthNone \<noteq> HTTPAuthOAuth" "HTTPAuthNone \<noteq> HTTPAuthStatic" "HTTPAuthOAuth \<noteq> HTTPAuthStatic"
  "HTTPAuthOAuth \<noteq> HTTPAuthNone" "HTTPAuthStatic \<noteq> HTTPAuthNone" "HTTPAuthStatic \<noteq> HTTPAuthOAuth"
  by (simp_all add: auth_defs)

lemma modes_distinct [simp]:
  "ModeAlwaysOn \<noteq> ModeManaged" "ModeAlwaysOn \<noteq> ModeManual" "ModeAlwaysOn \<noteq> ModeDisabled"
  "ModeManaged \<noteq> ModeAlwaysOn" "ModeManaged \<noteq> ModeManual" "ModeManaged \<noteq> ModeDisabled"
  "ModeManual \<noteq> ModeAlwaysOn" "ModeManual \<noteq> ModeManaged" "ModeManual \<noteq> ModeDisabled"
  "ModeDisabled \<noteq> ModeAlwaysOn" "ModeDisabled \<noteq> ModeManaged" "ModeDisabled \<noteq> ModeManual"
  by (simp_all add: mode_defs)

lemma validateTransport_endpoint:
  "validateTransport nl t = None \<Longrightarrow> endpoint_of t = Some (u, auth, insecure) \<Longrightarrow>
     validateHTTPEndpoint nl u auth insecure = None"
  by (auto simp: validateTransport_def endpoint_of_def err_simps split: if_splits option.splits)

lemma validateHTTPURL_Inr:
  "validateHTTPURL nl raw = Inr u \<longleftrightarrow>
     url_parse nl raw = Some u \<and> url_Scheme u \<in> {''http'', ''https''} \<and> url_Host u \<noteq> [] \<and> \<not> url_HasUser u"
  unfolding validateHTTPURL_def by (auto split: option.splits if_splits)

lemma validateHTTPEndpoint_None:
  assumes "validateHTTPEndpoint nl raw auth insecure = None"
  shows "\<exists>u. url_parse nl raw = Some u \<and> \<not> url_HasUser u \<and> validateHTTPAuth auth = None \<and>
     (au_Mode auth = HTTPAuthNone \<or> url_Scheme u = ''https'' \<or> isLoopbackHost nl (url_Hostname u) \<or> insecure)"
proof (cases "validateHTTPURL nl raw")
  case (Inl e)
  with assms show ?thesis by (simp add: validateHTTPEndpoint_def)
next
  case (Inr u)
  with assms have "validateHTTPAuth auth = None"
    "au_Mode auth = HTTPAuthNone \<or> url_Scheme u = ''https'' \<or> isLoopbackHost nl (url_Hostname u) \<or> insecure"
    by (auto simp: validateHTTPEndpoint_def err_simps)
  with Inr show ?thesis
    by (auto simp: validateHTTPURL_Inr)
qed

text \<open>
  A servers configuration is accepted exactly when the schema version is the supported one,
  every entry is accepted on its own and the server ids are pairwise distinct: the validation loop
  with its running set of seen ids decides the declarative condition.
\<close>

theorem ValidateServers_accepts_iff:
  "ValidateServers nl c = None \<longleftrightarrow>
     sc_SchemaVersion c = 2 \<and> list_all (\<lambda>e. ValidateServer nl e = None) (sc_Servers c) \<and>
     distinct (map se_ID (sc_Servers c))"
  by (simp add: ValidateServers_None SchemaVersion_def list_all_iff)

text \<open>
  No credential leaves over remote clear-text HTTP: when an entry with an HTTP endpoint and an
  authentication mode other than \<^verbatim>\<open>none\<close> is accepted, its URL parses without userinfo and is HTTPS,
  or names a loopback host, or the entry carries the explicit insecure-transport override.
\<close>

theorem ValidateServer_credential_transport:
  assumes "ValidateServer nl e = None" and "endpoint_of (se_Transport e) = Some (raw, auth, insecure)"
    and "au_Mode auth \<noteq> HTTPAuthNone"
  shows "\<exists>u. url_parse nl raw = Some u \<and> \<not> url_HasUser u \<and>
     (url_Scheme u = ''https'' \<or> isLoopbackHost nl (url_Hostname u) \<or> insecure)"
proof -
  have "validateHTTPEndpoint nl raw auth insecure = None"
    using ValidateServer_parts(7) [OF assms(1)] assms(2) by (rule validateTransport_endpoint)
  from validateHTTPEndpoint_None [OF this] assms(3) show ?thesis by blast
qed

text \<open>
  An accepted transport carries exactly the configuration block its type names: of the stdio,
  managed HTTP and external HTTP blocks the one of the declared type is present and the two others
  are absent, and a launched transport has a non-blank executable.
\<close>

theorem validateTransport_shape:
  assumes "validateTransport nl t = None"
  shows "(tr_Type t = TransportStdio \<and> (\<exists>s. tr_Stdio t = Some s \<and> \<not> blank (st_Executable s)) \<and>
            tr_ManagedHTTP t = None \<and> tr_ExternalHTTP t = None) \<or>
         (tr_Type t = TransportManagedHTTP \<and> (\<exists>m. tr_ManagedHTTP t = Some m \<and> \<not> blank (la_Executable (mh_Launch m))) \<and>
            tr_Stdio t = None \<and> tr_ExternalHTTP t = None) \<or>
         (tr_Type t = TransportExternalHTTP \<and> tr_ExternalHTTP t \<noteq> None \<and> tr_Stdio t = None \<and> tr_ManagedHTTP t = None)"
  using assms by (auto simp: validateTransport_def err_simps split: if_splits option.splits)

text \<open>
  A static credential is never sent in a transport-controlled header: an accepted static
  authentication block names, after trimming and canonicalisation, a non-empty header outside the
  restricted list, its scheme prefix has no line break, and its secret is a reference, not a value.
\<close>

theorem validateHTTPAuth_static_header:
  assumes "validateHTTPAuth auth = None" and "au_Mode auth = HTTPAuthStatic"
  shows "\<exists>st. au_Static auth = Some st \<and> au_OAuthScopes auth = None \<and>
     CanonicalHeaderKey (TrimSpace (sa_HeaderName st)) \<noteq> [] \<and>
     CanonicalHeaderKey (TrimSpace (sa_HeaderName st)) \<notin> set restrictedStaticHeaders \<and>
     CHR 0x0D \<notin> set (sa_Scheme st) \<and> CHR 0x0A \<notin> set (sa_Scheme st) \<and>
     HasPrefix (sa_SecretRef st) ''secret://''"
  using assms
  by (auto simp: validateHTTPAuth_def Let_def err_simps validateSecretRef_def split: option.splits)

lemma validateEmbedding_local:
  assumes "validateEmbedding nl c = None" and "ec_Provider c \<noteq> EmbeddingProviderOpenAICompatible"
  shows "ec_Provider c = EmbeddingProviderLocalGGUF" "embedding_models_loop nl 0 [] (ec_Models c) = None"
    "\<exists>m\<in>set (ec_Models c). em_ID m = ec_Model c"
    "ec_BaseURL c = []" "ec_CredentialRef c = []" "ec_Dimensions c = None"
  using assms by (auto simp: validateEmbedding_def err_simps list_ex_iff)

text \<open>
  After the legacy migration step every accepted embedding configuration is a local one with a
  selected model: the model lookup succeeds on it, the model found carries the configured id, and its
  digest, dimension and pooling are well formed.
\<close>

theorem EffectiveEmbedding_selects_model:
  assumes "validateEmbedding nl c = None" and "ec_Provider c \<noteq> EmbeddingProviderOpenAICompatible"
  shows "\<exists>m. SelectedModel (EffectiveEmbeddingConfig c) = Some m \<and> em_ID m = ec_Model c \<and>
     ec_Provider (EffectiveEmbeddingConfig c) = EmbeddingProviderLocalGGUF \<and>
     sha256Pattern (em_SHA256 m) \<and> 0 < em_Dimensions m \<and> em_Dimensions m \<le> 65536 \<and>
     em_Pooling m \<in> {''cls'', ''mean'', ''last'', ''rank''}"
proof -
  note loc = validateEmbedding_local [OF assms]
  have eff: "EffectiveEmbeddingConfig c = c"
    using loc(1) assms(2) by (auto simp: EffectiveEmbeddingConfig_def EmbeddingProviderLocalGGUF_def)
  obtain m where m: "SelectedModel c = Some m"
    using loc(3) by (cases "SelectedModel c") (auto simp: SelectedModel_def dest: find_None_none)
  then have mem: "m \<in> set (ec_Models c)" and id: "em_ID m = ec_Model c"
    by (auto simp: SelectedModel_def dest: find_Some_mem)
  have "validateEmbeddingModel nl 0 m = None"
    using loc(2) mem by (simp add: embedding_models_loop_None)
  then have "sha256Pattern (em_SHA256 m)" "0 < em_Dimensions m" "em_Dimensions m \<le> 65536"
    "em_Pooling m \<in> {''cls'', ''mean'', ''last'', ''rank''}"
    by (auto simp: validateEmbeddingModel_def err_simps)
  with m id eff loc(1) show ?thesis by simp
qed

section \<open>Durations\<close>

lemma sint_seconds:
  assumes "0 \<le> n" and "n \<le> 9223372036"
  shows "sint (seconds n) = n * 1000000000"
proof -
  have "seconds n = word_of_int (n * 1000000000)"
    by (simp add: seconds_def)
  moreover have "sint (word_of_int (n * 1000000000) :: 64 word) = n * 1000000000"
    using assms by (intro sint_word64) auto
  ultimately show ?thesis by simp
qed

text \<open>
  Timeouts stay exact and positive up to 9223372036 seconds: for a configured startup timeout in
  that range the computed duration is the configured number of seconds (30 when it is zero or less) in
  nanoseconds, with no wrap-around.
\<close>

theorem StartupTimeout_exact:
  assumes "rt_StartupTimeoutSeconds (se_Runtime e) \<le> 9223372036"
  shows "sint (StartupTimeout e) =
     (if rt_StartupTimeoutSeconds (se_Runtime e) \<le> 0 then 30 else rt_StartupTimeoutSeconds (se_Runtime e)) * 1000000000"
  using assms by (simp add: StartupTimeout_def Let_def sint_seconds)


section \<open>Concrete instances\<close>

text \<open>A concrete URL reader and concrete entries, used to show that the hypotheses above can hold.\<close>

definition sample_url_parse :: "string \<Rightarrow> url option" where
  "sample_url_parse s =
     (if HasPrefix s ''https://'' then
        Some \<lparr>url_Scheme = ''https'', url_Host = takeWhile (\<lambda>c. c \<noteq> CHR ''/'') (drop 8 s), url_HasUser = False,
          url_Hostname = takeWhile (\<lambda>c. c \<noteq> CHR ''/'') (drop 8 s)\<rparr>
      else if HasPrefix s ''http://'' then
        Some \<lparr>url_Scheme = ''http'', url_Host = takeWhile (\<lambda>c. c \<noteq> CHR ''/'') (drop 7 s), url_HasUser = False,
          url_Hostname = takeWhile (\<lambda>c. c \<noteq> CHR ''/'') (drop 7 s)\<rparr>
      else None)"

definition sample_net :: netlib where
  "sample_net = \<lparr>url_parse = sample_url_parse, ip_loopback = (\<lambda>h. h = ''127.0.0.1'')\<rparr>"

definition sample_static_auth :: HTTPAuthConfig where
  "sample_static_auth = \<lparr>au_Mode = HTTPAuthStatic, au_OAuthScopes = None,
     au_Static = Some \<lparr>sa_HeaderName = ''authorization'', sa_Scheme = ''Bearer'', sa_SecretRef = ''secret://s/1''\<rparr>\<rparr>"

definition sample_http_transport :: TransportConfig where
  "sample_http_transport = \<lparr>tr_Type = TransportExternalHTTP, tr_Stdio = None, tr_ManagedHTTP = None,
     tr_ExternalHTTP = Some \<lparr>eh_URL = ''https://mcp.example/x'', eh_Auth = sample_static_auth, eh_AllowInsecure = False\<rparr>\<rparr>"

definition sample_stdio_transport :: TransportConfig where
  "sample_stdio_transport = \<lparr>tr_Type = TransportStdio,
     tr_Stdio = Some \<lparr>st_Executable = ''srv'', st_Args = None, st_WorkingDirectory = []\<rparr>,
     tr_ManagedHTTP = None, tr_ExternalHTTP = None\<rparr>"

definition sample_entry :: "string \<Rightarrow> string \<Rightarrow> TransportConfig \<Rightarrow> ServerEntry" where
  "sample_entry sid mode t = \<lparr>se_ID = sid, se_Name = ''demo'', se_Mode = mode, se_Transport = t,
     se_Environment = \<lparr>env_Values = None, env_SecretRefs = None\<rparr>,
     se_Runtime = \<lparr>rt_StartupTimeoutSeconds = 0, rt_ShutdownTimeoutSeconds = 0, rt_IdleTimeoutSeconds = None\<rparr>,
     se_CaptureLevelOverride = None, se_Hidden = []\<rparr>"

definition sample_id :: string where
  "sample_id = ''srv_0123456789abcdef0123456789abcdef''"

definition sample_http_entry :: ServerEntry where
  "sample_http_entry = sample_entry sample_id ModeManaged sample_http_transport"

lemma sample_http_entry_valid: "ValidateServer sample_net sample_http_entry = None"
  by code_simp

lemma sample_http_endpoint:
  "endpoint_of (se_Transport sample_http_entry) = Some (''https://mcp.example/x'', sample_static_auth, False)"
  by code_simp

lemma sample_auth_mode: "au_Mode sample_static_auth = HTTPAuthStatic"
  by (simp add: sample_static_auth_def)

theorem ValidateServer_credential_transport_witness:
  "\<exists>u. url_parse sample_net ''https://mcp.example/x'' = Some u \<and> \<not> url_HasUser u \<and>
     (url_Scheme u = ''https'' \<or> isLoopbackHost sample_net (url_Hostname u) \<or> False)"
  by (rule ValidateServer_credential_transport [OF sample_http_entry_valid sample_http_endpoint])
    (simp add: sample_auth_mode)

theorem validateTransport_shape_witness:
  "tr_Type sample_stdio_transport = TransportStdio \<and> (\<exists>s. tr_Stdio sample_stdio_transport = Some s \<and> \<not> blank (st_Executable s))"
proof -
  have ok: "validateTransport sample_net sample_stdio_transport = None" by code_simp
  have ty: "tr_Type sample_stdio_transport = TransportStdio" by (simp add: sample_stdio_transport_def)
  show ?thesis using validateTransport_shape [OF ok] ty by simp
qed

theorem validateHTTPAuth_static_header_witness:
  "\<exists>st. au_Static sample_static_auth = Some st \<and>
     CanonicalHeaderKey (TrimSpace (sa_HeaderName st)) \<notin> set restrictedStaticHeaders"
proof -
  have ok: "validateHTTPAuth sample_static_auth = None" by code_simp
  show ?thesis using validateHTTPAuth_static_header [OF ok sample_auth_mode] by blast
qed

theorem EffectiveEmbedding_selects_model_witness:
  "\<exists>m. SelectedModel (EffectiveEmbeddingConfig DefaultEmbeddingConfig) = Some m \<and> 0 < em_Dimensions m"
proof -
  have ok: "validateEmbedding sample_net DefaultEmbeddingConfig = None" by code_simp
  have pr: "ec_Provider DefaultEmbeddingConfig \<noteq> EmbeddingProviderOpenAICompatible" by code_simp
  show ?thesis using EffectiveEmbedding_selects_model [OF ok pr] by blast
qed

theorem StartupTimeout_exact_witness: "sint (StartupTimeout sample_http_entry) = 30000000000"
proof -
  have le: "rt_StartupTimeoutSeconds (se_Runtime sample_http_entry) = 0"
    by (simp add: sample_http_entry_def sample_entry_def)
  show ?thesis using StartupTimeout_exact [of sample_http_entry] by (simp add: le)
qed

text \<open>
  A fresh configuration is accepted exactly for the ports the validator allows: with a URL reader
  that reads the built-in model's download URL as an HTTPS URL with a host and no userinfo, the default
  manager configuration validates if and only if its port lies between 1024 and 65535.
\<close>

theorem DefaultManagerConfig_valid_iff:
  assumes "url_parse nl (em_DownloadURL (hd DefaultEmbeddingModels)) = Some u"
    and "url_Scheme u = ''https''" and "url_Host u \<noteq> []" and "\<not> url_HasUser u"
  shows "ValidateManager nl (DefaultManagerConfig port) = None \<longleftrightarrow> 1024 \<le> port \<and> port \<le> 65535"
proof -
  have model: "validateEmbeddingModel nl 0 (hd DefaultEmbeddingModels) = None"
  proof -
    have "\<not> blank (em_Name (hd DefaultEmbeddingModels))"
      "TrimSpace (em_Name (hd DefaultEmbeddingModels)) = em_Name (hd DefaultEmbeddingModels)"
      "path_base (em_FileName (hd DefaultEmbeddingModels)) = em_FileName (hd DefaultEmbeddingModels)"
      "em_FileName (hd DefaultEmbeddingModels) \<noteq> ''.''" "em_FileName (hd DefaultEmbeddingModels) \<noteq> []"
      "sha256Pattern (em_SHA256 (hd DefaultEmbeddingModels))"
      "em_Dimensions (hd DefaultEmbeddingModels) = 384" "em_Pooling (hd DefaultEmbeddingModels) = ''cls''"
      by code_simp+
    with assms show ?thesis
      by (simp add: validateEmbeddingModel_def err_simps)
  qed
  have pat: "embeddingModelPattern DefaultEmbeddingModelID" by code_simp
  have one: "set DefaultEmbeddingModels = {hd DefaultEmbeddingModels}" "distinct (map em_ID DefaultEmbeddingModels)"
    "em_ID (hd DefaultEmbeddingModels) = DefaultEmbeddingModelID"
    by (simp_all add: DefaultEmbeddingModels_def)
  have loop: "embedding_models_loop nl 0 [] DefaultEmbeddingModels = None"
    using model pat one by (simp add: embedding_models_loop_None)
  have "validateEmbedding nl DefaultEmbeddingConfig = None"
  proof -
    have "\<not> blank DefaultLlamaCppRelease" by code_simp
    moreover have "list_ex (\<lambda>m. em_ID m = DefaultEmbeddingModelID) DefaultEmbeddingModels" by code_simp
    ultimately show ?thesis using pat loop
      by (simp add: validateEmbedding_def DefaultEmbeddingConfig_def err_simps
          EmbeddingProviderLocalGGUF_def EmbeddingProviderOpenAICompatible_def) (simp add: DefaultEmbeddingModels_def)
  qed
  moreover have "validateSecretRef ManagerRuntimeCredentialRef = None" by code_simp
  moreover have "validLogLevel ''trace''" "validDisplayLevel ''info''" "validLogLevel ''debug''"
    "lower_ascii (TrimSpace ''stable'') = ''stable''"
    by code_simp+
  ultimately show ?thesis
    by (simp add: ValidateManager_def DefaultManagerConfig_def err_simps) auto
qed

theorem DefaultManagerConfig_valid_iff_witness: "ValidateManager sample_net (DefaultManagerConfig 8787) = None"
proof -
  define u where "u = \<lparr>url_Scheme = ''https'', url_Host = ''huggingface.co'', url_HasUser = False,
    url_Hostname = ''huggingface.co''\<rparr>"
  have "url_parse sample_net (em_DownloadURL (hd DefaultEmbeddingModels)) = Some u"
    unfolding u_def by code_simp
  then have "ValidateManager sample_net (DefaultManagerConfig 8787) = None \<longleftrightarrow> 1024 \<le> (8787::int) \<and> (8787::int) \<le> 65535"
    by (rule DefaultManagerConfig_valid_iff) (simp_all add: u_def)
  then show ?thesis by simp
qed

text \<open>
  The validator does not bound timeouts from above, and the duration conversion wraps: there is an
  accepted server entry whose startup timeout, 9223372037 seconds, becomes a negative duration.
\<close>

theorem StartupTimeout_can_wrap:
  "\<exists>e. ValidateServer sample_net e = None \<and> rt_StartupTimeoutSeconds (se_Runtime e) = 9223372037 \<and>
     sint (StartupTimeout e) < 0"
proof -
  define e where "e = sample_http_entry\<lparr>se_Runtime :=
    \<lparr>rt_StartupTimeoutSeconds = 9223372037, rt_ShutdownTimeoutSeconds = 0, rt_IdleTimeoutSeconds = None\<rparr>\<rparr>"
  have "ValidateServer sample_net e = None" unfolding e_def by code_simp
  moreover have "sint (StartupTimeout e) < 0" unfolding e_def by code_simp
  ultimately show ?thesis by (intro exI [of _ e]) (simp add: e_def)
qed

text \<open>
  The header-name check is weaker than the HTTP token rule it stands for: it accepts a static header
  name containing a solidus and a quotation mark, bytes that are no HTTP token characters, so the
  configuration is accepted although no request can carry such a header.
\<close>

theorem validHeaderName_accepts_non_token:
  "\<exists>auth st. validateHTTPAuth auth = None \<and> au_Mode auth = HTTPAuthStatic \<and> au_Static auth = Some st \<and>
     \<not> list_all token_byte (sa_HeaderName st)"
proof -
  define st where "st = \<lparr>sa_HeaderName = ''X/'' @ [CHR 0x22], sa_Scheme = [], sa_SecretRef = ''secret://s/1''\<rparr>"
  define auth where "auth = \<lparr>au_Mode = HTTPAuthStatic, au_OAuthScopes = None, au_Static = Some st\<rparr>"
  have "validateHTTPAuth auth = None" unfolding auth_def st_def by code_simp
  moreover have "\<not> list_all token_byte (sa_HeaderName st)" unfolding st_def by code_simp
  ultimately show ?thesis by (intro exI [of _ auth] exI [of _ st]) (simp add: auth_def)
qed

end
