(* ===== verification/ToolContract.thy ===== *)
theory ToolContract
  imports Prelude
begin

text \<open>
  Tool contracts: \<^verbatim>\<open>internal/toolcontract\<close> (classification.go, fingerprint.go, semantic.go).
  The theory models the executor classification of a downstream tool from its MCP annotations, the
  exact and the semantic fingerprints, and the canonical order of a tool list, and shows that the
  classification is fail-safe and that the fingerprints depend on what they should depend on.

  A JSON text is a byte string; its value is the datatype \<open>json\<close>. SHA-256, the JSON decoder and
  the encoders (of a decoded value, and of the third-party struct \<^verbatim>\<open>mcp.Tool\<close>) are the record
  \<open>codec\<close>, an argument of the definitions. Of \<^verbatim>\<open>mcp.Tool\<close> the code reads the name and
  the input schema.
\<close>

datatype json =
    JNull
  | JBool bool
  | JNum string
  | JStr string
  | JArr "json list"
  | JObj "(string \<times> json) list"

record mcp_tool =
  tool_Name :: string
  tool_InputSchema :: "json option"
  tool_Rest :: json

record codec =
  sha256_hex :: "string \<Rightarrow> string"
  decode_json :: "string \<Rightarrow> json option"
  marshal_json :: "json \<Rightarrow> string"
  marshal_tool :: "mcp_tool \<Rightarrow> string option"
  marshal_tools :: "mcp_tool list \<Rightarrow> string option"
  unmarshal_tools :: "string \<Rightarrow> mcp_tool list option"

text \<open>Decoding an object into a Go map keeps the last of several equal keys; \<^verbatim>\<open>null\<close> decodes to the nil map.\<close>

definition obj_get :: "(string \<times> json) list \<Rightarrow> string \<Rightarrow> json option" where
  "obj_get kvs k = map_of (rev kvs) k"

definition as_object :: "json \<Rightarrow> (string \<times> json) list option" where
  "as_object j = (case j of JObj kvs \<Rightarrow> Some kvs | JNull \<Rightarrow> Some [] | _ \<Rightarrow> None)"

datatype contract_error =
    InvalidJSON
  | DecodeFailed
  | NameInvalid
  | NameRequired
  | AnnotationsInvalid
  | HintNotBoolean string
  | FieldRequired string
  | TitleInvalid
  | ToolRequired
  | MarshalFailed
  | ToolWithoutName
  | DuplicateToolName string
  | CloneFailed

section \<open>Executor classes\<close>

definition ExecutorReadOnlyClosed :: string where "ExecutorReadOnlyClosed = ''call_read_only_closed''"
definition ExecutorReadOnlyOpen :: string where "ExecutorReadOnlyOpen = ''call_read_only_open''"
definition ExecutorAdditiveClosed :: string where "ExecutorAdditiveClosed = ''call_additive_closed''"
definition ExecutorAdditiveClosedIdempotent :: string where "ExecutorAdditiveClosedIdempotent = ''call_additive_closed_idempotent''"
definition ExecutorAdditiveOpen :: string where "ExecutorAdditiveOpen = ''call_additive_open''"
definition ExecutorAdditiveOpenIdempotent :: string where "ExecutorAdditiveOpenIdempotent = ''call_additive_open_idempotent''"
definition ExecutorDestructiveClosed :: string where "ExecutorDestructiveClosed = ''call_destructive_closed''"
definition ExecutorDestructiveClosedIdempotent :: string where "ExecutorDestructiveClosedIdempotent = ''call_destructive_closed_idempotent''"
definition ExecutorDestructiveOpen :: string where "ExecutorDestructiveOpen = ''call_destructive_open''"
definition ExecutorDestructiveOpenIdempotent :: string where "ExecutorDestructiveOpenIdempotent = ''call_destructive_open_idempotent''"

lemmas executor_defs = ExecutorReadOnlyClosed_def ExecutorReadOnlyOpen_def ExecutorAdditiveClosed_def
  ExecutorAdditiveClosedIdempotent_def ExecutorAdditiveOpen_def ExecutorAdditiveOpenIdempotent_def
  ExecutorDestructiveClosed_def ExecutorDestructiveClosedIdempotent_def ExecutorDestructiveOpen_def
  ExecutorDestructiveOpenIdempotent_def

definition boolHint :: "(string \<times> json) list \<Rightarrow> string \<Rightarrow> bool \<Rightarrow> (contract_error, bool) result" where
  "boolHint values key defaultValue = (case obj_get values key of
      None \<Rightarrow> Inr defaultValue
    | Some JNull \<Rightarrow> Inr defaultValue
    | Some (JBool b) \<Rightarrow> Inr b
    | Some _ \<Rightarrow> Inl (HintNotBoolean key))"

text \<open>The decision tree at the end of \<^verbatim>\<open>ExecutorClassForJSON\<close>, over the four effective hints.\<close>

definition executor_for_hints :: "bool \<Rightarrow> bool \<Rightarrow> bool \<Rightarrow> bool \<Rightarrow> string" where
  "executor_for_hints readOnly destructive idempotent openWorld =
     (if readOnly then (if openWorld then ExecutorReadOnlyOpen else ExecutorReadOnlyClosed)
      else if destructive then
        (if openWorld then (if idempotent then ExecutorDestructiveOpenIdempotent else ExecutorDestructiveOpen)
         else if idempotent then ExecutorDestructiveClosedIdempotent else ExecutorDestructiveClosed)
      else if openWorld then (if idempotent then ExecutorAdditiveOpenIdempotent else ExecutorAdditiveOpen)
      else if idempotent then ExecutorAdditiveClosedIdempotent else ExecutorAdditiveClosed)"

definition ExecutorClassForJSON :: "codec \<Rightarrow> string \<Rightarrow> (contract_error, string) result" where
  "ExecutorClassForJSON cd body = (case decode_json cd body of
      None \<Rightarrow> Inl InvalidJSON
    | Some j \<Rightarrow> (case as_object j of
        None \<Rightarrow> Inl DecodeFailed
      | Some contract \<Rightarrow>
          rbind (case obj_get contract ''name'' of
              None \<Rightarrow> Inr [] | Some JNull \<Rightarrow> Inr [] | Some (JStr s) \<Rightarrow> Inr s | Some _ \<Rightarrow> Inl NameInvalid)
          (\<lambda>name. if blank name then Inl NameRequired else
            (case obj_get contract ''annotations'' of
               None \<Rightarrow> Inr (executor_for_hints False True False True)
             | Some JNull \<Rightarrow> Inr (executor_for_hints False True False True)
             | Some (JObj annotations) \<Rightarrow>
                 rbind (boolHint annotations ''readOnlyHint'' False) (\<lambda>readOnly.
                 rbind (boolHint annotations ''destructiveHint'' True) (\<lambda>destructive.
                 rbind (boolHint annotations ''idempotentHint'' False) (\<lambda>idempotent.
                 rbind (boolHint annotations ''openWorldHint'' True) (\<lambda>openWorld.
                   Inr (executor_for_hints readOnly destructive idempotent openWorld)))))
             | Some _ \<Rightarrow> Inl AnnotationsInvalid))))"

definition ExecutorClassForTool :: "codec \<Rightarrow> mcp_tool option \<Rightarrow> (contract_error, string) result" where
  "ExecutorClassForTool cd tool = (case tool of None \<Rightarrow> Inl ToolRequired
     | Some t \<Rightarrow> (case marshal_tool cd t of None \<Rightarrow> Inl MarshalFailed | Some body \<Rightarrow> ExecutorClassForJSON cd body))"

section \<open>Fingerprints\<close>

definition FingerprintJSON :: "codec \<Rightarrow> string \<Rightarrow> string" where
  "FingerprintJSON cd body = ''sha256:'' @ sha256_hex cd body"

definition CanonicalToolJSON :: "codec \<Rightarrow> mcp_tool option \<Rightarrow> (contract_error, string) result" where
  "CanonicalToolJSON cd tool = (case tool of None \<Rightarrow> Inl ToolRequired
     | Some t \<Rightarrow> if tool_Name t = [] then Inl NameRequired
         else (case marshal_tool cd t of None \<Rightarrow> Inl MarshalFailed | Some body \<Rightarrow> Inr body))"

definition FingerprintTool :: "codec \<Rightarrow> mcp_tool option \<Rightarrow> (contract_error, string \<times> string) result" where
  "FingerprintTool cd tool = rbind (CanonicalToolJSON cd tool) (\<lambda>body. Inr (FingerprintJSON cd body, body))"

fun first_duplicate :: "string list \<Rightarrow> string option" where
  "first_duplicate (a # b # xs) = (if a = b then Some b else first_duplicate (b # xs))"
| "first_duplicate xs = None"

text \<open>
  \<^verbatim>\<open>sort.Slice\<close> is not stable, but equal names are rejected right after, so the order it leaves
  equal elements in is never observed; \<^const>\<open>sort_key\<close> gives the one sorted order of distinct names.
\<close>

definition FingerprintTools :: "codec \<Rightarrow> mcp_tool option list \<Rightarrow> (contract_error, string \<times> mcp_tool list) result" where
  "FingerprintTools cd tools =
     (if list_ex (\<lambda>t. case t of None \<Rightarrow> True | Some u \<Rightarrow> tool_Name u = []) tools then Inl ToolWithoutName
      else let sorted = sort_key tool_Name (map the tools) in
        case first_duplicate (map tool_Name sorted) of
          Some n \<Rightarrow> Inl (DuplicateToolName n)
        | None \<Rightarrow> (case marshal_tools cd sorted of None \<Rightarrow> Inl MarshalFailed
            | Some body \<Rightarrow> (case unmarshal_tools cd body of None \<Rightarrow> Inl CloneFailed
                | Some cloned \<Rightarrow> Inr (FingerprintJSON cd body, cloned))))"

section \<open>Semantic fingerprints\<close>

definition read_field :: "(string \<times> json) list \<Rightarrow> string \<Rightarrow> bool \<Rightarrow> (contract_error, json) result" where
  "read_field contract key required = (case obj_get contract key of
      None \<Rightarrow> if required then Inl (FieldRequired key) else Inr JNull
    | Some v \<Rightarrow> Inr v)"

text \<open>An \<^verbatim>\<open>omitempty\<close> field of interface type is left out when its value is nil.\<close>

definition omit_nil :: "string \<Rightarrow> json \<Rightarrow> (string \<times> json) list" where
  "omit_nil k v = (if v = JNull then [] else [(k, v)])"

definition SemanticSourceFingerprintJSON :: "codec \<Rightarrow> string \<Rightarrow> (contract_error, string) result" where
  "SemanticSourceFingerprintJSON cd body = (case decode_json cd body of
      None \<Rightarrow> Inl InvalidJSON
    | Some j \<Rightarrow> (case as_object j of
        None \<Rightarrow> Inl DecodeFailed
      | Some contract \<Rightarrow>
          rbind (case obj_get contract ''annotations'' of
              None \<Rightarrow> Inr JNull | Some JNull \<Rightarrow> Inr JNull
            | Some (JObj annotations) \<Rightarrow> Inr (case obj_get annotations ''title'' of None \<Rightarrow> JNull | Some v \<Rightarrow> v)
            | Some _ \<Rightarrow> Inl AnnotationsInvalid) (\<lambda>annotationTitle.
          rbind (read_field contract ''name'' True) (\<lambda>name.
          rbind (read_field contract ''title'' False) (\<lambda>title.
          rbind (read_field contract ''description'' False) (\<lambda>description.
          rbind (case read_field contract ''inputSchema'' True of
              Inr v \<Rightarrow> Inr v | Inl _ \<Rightarrow> read_field contract ''input_schema'' True) (\<lambda>input.
          rbind (read_field contract ''outputSchema'' False) (\<lambda>output0.
          rbind (if output0 = JNull then read_field contract ''output_schema'' False else Inr output0) (\<lambda>output.
            Inr (FingerprintJSON cd (marshal_json cd (JObj
              ([(''name'', name)] @ omit_nil ''title'' title @ omit_nil ''description'' description @
               [(''input_schema'', input)] @ omit_nil ''output_schema'' output @
               omit_nil ''annotation_title'' annotationTitle)))))))))))))"

definition stripWebMCPSourceDecoration :: "string \<Rightarrow> string" where
  "stripWebMCPSourceDecoration description =
     (if \<not> HasPrefix description ''[WebMCP '' then description
      else let closing = length (takeWhile (\<lambda>c. c \<noteq> CHR '']'') description) in
        if closing = length description \<or> closing < length ''[WebMCP '' \<or> length description \<le> closing + 1 \<or>
           description ! (closing + 1) \<noteq> CHR '' '' then description
        else dropWhile (\<lambda>c. c = CHR '' '') (drop (closing + 1) description))"

text \<open>\<^verbatim>\<open>contract["description"] = v\<close> on the decoded map.\<close>

definition obj_put :: "string \<Rightarrow> json \<Rightarrow> (string \<times> json) list \<Rightarrow> (string \<times> json) list" where
  "obj_put k v kvs = map (\<lambda>(k', v'). if k' = k then (k, v) else (k', v')) kvs"

definition SemanticFingerprintJSON :: "codec \<Rightarrow> string \<Rightarrow> (contract_error, string \<times> string) result" where
  "SemanticFingerprintJSON cd body =
     (if body = [] then Inl InvalidJSON else
      case decode_json cd body of None \<Rightarrow> Inl DecodeFailed
      | Some j \<Rightarrow> (case as_object j of None \<Rightarrow> Inl DecodeFailed
        | Some contract \<Rightarrow>
            (let name = (case obj_get contract ''name'' of Some (JStr s) \<Rightarrow> s | _ \<Rightarrow> []) in
             if blank name then Inl NameRequired
             else let contract' = (case obj_get contract ''description'' of
                      Some (JStr d) \<Rightarrow> obj_put ''description'' (JStr (stripWebMCPSourceDecoration d)) contract
                    | _ \<Rightarrow> contract);
                      normalized = marshal_json cd (JObj contract')
                  in Inr (FingerprintJSON cd normalized, normalized))))"

definition SemanticFingerprintTool :: "codec \<Rightarrow> mcp_tool option \<Rightarrow> (contract_error, string \<times> string) result" where
  "SemanticFingerprintTool cd tool = rbind (CanonicalToolJSON cd tool) (SemanticFingerprintJSON cd)"

section \<open>Classification is fail-safe\<close>

definition known_executors :: "string list" where
  "known_executors = [ExecutorReadOnlyClosed, ExecutorReadOnlyOpen, ExecutorAdditiveClosed,
     ExecutorAdditiveClosedIdempotent, ExecutorAdditiveOpen, ExecutorAdditiveOpenIdempotent,
     ExecutorDestructiveClosed, ExecutorDestructiveClosedIdempotent, ExecutorDestructiveOpen,
     ExecutorDestructiveOpenIdempotent]"

definition read_only_executors :: "string list" where
  "read_only_executors = [ExecutorReadOnlyClosed, ExecutorReadOnlyOpen]"

definition destructive_executors :: "string list" where
  "destructive_executors = [ExecutorDestructiveClosed, ExecutorDestructiveClosedIdempotent,
     ExecutorDestructiveOpen, ExecutorDestructiveOpenIdempotent]"

text \<open>The value of an annotation hint as the contract states it, if it states one.\<close>

definition stated_hint :: "codec \<Rightarrow> string \<Rightarrow> string \<Rightarrow> bool option" where
  "stated_hint cd body key = (case decode_json cd body of
      Some (JObj contract) \<Rightarrow> (case obj_get contract ''annotations'' of
          Some (JObj annotations) \<Rightarrow> (case obj_get annotations key of Some (JBool b) \<Rightarrow> Some b | _ \<Rightarrow> None)
        | _ \<Rightarrow> None)
    | _ \<Rightarrow> None)"

lemma distinct_known_executors: "distinct known_executors"
  by (simp add: known_executors_def executor_defs)

lemma executor_for_hints_known: "executor_for_hints r d i w \<in> set known_executors"
  by (simp add: executor_for_hints_def known_executors_def)

lemma executor_for_hints_read_only: "executor_for_hints r d i w \<in> set read_only_executors \<longleftrightarrow> r"
  by (simp add: executor_for_hints_def read_only_executors_def executor_defs)

lemma executor_for_hints_destructive: "executor_for_hints r d i w \<in> set destructive_executors \<longleftrightarrow> \<not> r \<and> d"
  by (simp add: executor_for_hints_def destructive_executors_def executor_defs)

lemma boolHint_Inr:
  "boolHint vs k df = Inr b \<Longrightarrow>
     (case (case obj_get vs k of Some (JBool b') \<Rightarrow> Some b' | _ \<Rightarrow> None) of None \<Rightarrow> df | Some b' \<Rightarrow> b') = b"
  by (auto simp: boolHint_def split: option.splits json.splits)

text \<open>The class is the decision tree applied to the stated hints, a missing hint read at its protocol default.\<close>

lemma ExecutorClassForJSON_hints:
  assumes "ExecutorClassForJSON cd body = Inr c"
  shows "c = executor_for_hints
     (case stated_hint cd body ''readOnlyHint'' of None \<Rightarrow> False | Some b \<Rightarrow> b)
     (case stated_hint cd body ''destructiveHint'' of None \<Rightarrow> True | Some b \<Rightarrow> b)
     (case stated_hint cd body ''idempotentHint'' of None \<Rightarrow> False | Some b \<Rightarrow> b)
     (case stated_hint cd body ''openWorldHint'' of None \<Rightarrow> True | Some b \<Rightarrow> b)"
proof -
  obtain j contract where j: "decode_json cd body = Some j" and o: "as_object j = Some contract"
    using assms by (auto simp: ExecutorClassForJSON_def split: option.splits)
  have get: "stated_hint cd body key = (case obj_get contract ''annotations'' of
          Some (JObj annotations) \<Rightarrow> (case obj_get annotations key of Some (JBool b) \<Rightarrow> Some b | _ \<Rightarrow> None)
        | _ \<Rightarrow> None)" for key
    using o by (cases j) (auto simp: stated_hint_def j as_object_def obj_get_def)
  show ?thesis
  proof (cases "obj_get contract ''annotations''")
    case None
    with assms show ?thesis by (auto simp: get ExecutorClassForJSON_def j o rbind_Inr_iff split: if_splits)
  next
    case (Some a)
    show ?thesis
    proof (cases a)
      case (JObj annotations)
      with assms Some obtain r d i w where h:
        "boolHint annotations ''readOnlyHint'' False = Inr r" "boolHint annotations ''destructiveHint'' True = Inr d"
        "boolHint annotations ''idempotentHint'' False = Inr i" "boolHint annotations ''openWorldHint'' True = Inr w"
        and c: "c = executor_for_hints r d i w"
        by (auto simp: ExecutorClassForJSON_def j o rbind_Inr_iff split: if_splits)
      show ?thesis by (simp add: get Some JObj c h [THEN boolHint_Inr])
    qed (use assms Some in \<open>auto simp: get ExecutorClassForJSON_def j o rbind_Inr_iff split: if_splits\<close>)
  qed
qed

text \<open>
  Classification is fail-safe: whenever a contract is classified, the class is one of the ten
  known executors; it is a read-only executor only if the contract states the read-only hint as true,
  and it is a destructive executor unless the contract states the read-only hint as true or the
  destructive hint as false.
\<close>

theorem ExecutorClassForJSON_fail_safe:
  assumes "ExecutorClassForJSON cd body = Inr c"
  shows "c \<in> set known_executors \<and>
     (c \<in> set read_only_executors \<longleftrightarrow> stated_hint cd body ''readOnlyHint'' = Some True) \<and>
     (c \<in> set destructive_executors \<longleftrightarrow> \<not> (stated_hint cd body ''readOnlyHint'' = Some True \<or>
        stated_hint cd body ''destructiveHint'' = Some False))"
proof -
  note hints = ExecutorClassForJSON_hints [OF assms]
  show ?thesis
    by (auto simp: hints executor_for_hints_known executor_for_hints_read_only executor_for_hints_destructive
        split: option.splits)
qed

section \<open>Fingerprints depend on what they should\<close>

lemma first_duplicate_None:
  "sorted xs \<Longrightarrow> first_duplicate xs = None \<longleftrightarrow> distinct xs"
proof (induction xs rule: first_duplicate.induct)
  case (1 a b xs)
  have "a \<noteq> b \<Longrightarrow> a \<notin> set (b # xs)"
    using "1.prems" by auto
  then show ?case using 1 by auto
qed auto

lemma first_duplicate_mset:
  assumes "mset xs = mset ys" shows "first_duplicate (sort xs) = first_duplicate (sort ys)"
  using assms by (metis mset_sort properties_for_sort sorted_sort)

text \<open>
  The tool-list fingerprint does not depend on the order in which a server lists its tools: two
  listings that are permutations of each other give the same fingerprint and the same canonical list, or
  are rejected with the same error.
\<close>

theorem FingerprintTools_permutation:
  assumes "mset xs = mset ys"
  shows "FingerprintTools cd xs = FingerprintTools cd ys"
proof -
  have set_eq: "set xs = set ys" using assms by (metis set_mset_mset)
  have ms: "mset (map the xs) = mset (map the ys)" using assms by simp
  have dup: "first_duplicate (map tool_Name (sort_key tool_Name (map the xs))) =
      first_duplicate (map tool_Name (sort_key tool_Name (map the ys)))"
    unfolding map_sort_key by (rule first_duplicate_mset) (use ms in \<open>metis mset_map\<close>)
  have same: "sort_key tool_Name (map the xs) = sort_key tool_Name (map the ys)"
    if "first_duplicate (map tool_Name (sort_key tool_Name (map the xs))) = None"
  proof (rule sort_key_unique [OF ms])
    have "distinct (map tool_Name (sort_key tool_Name (map the xs)))"
      using that by (simp add: first_duplicate_None)
    then show "distinct (map tool_Name (map the xs))"
      by (metis map_sort_key distinct_sort)
  qed
  show ?thesis
  proof (cases "first_duplicate (map tool_Name (sort_key tool_Name (map the xs)))")
    case None
    with same dup show ?thesis by (simp add: FingerprintTools_def list_ex_iff set_eq)
  next
    case (Some n)
    with dup have "first_duplicate (map tool_Name (sort_key tool_Name (map the ys))) = Some n" by simp
    with Some show ?thesis by (simp add: FingerprintTools_def list_ex_iff set_eq)
  qed
qed


text \<open>The contract fields the semantic source identity is made of.\<close>

definition semantic_keys :: "string list" where
  "semantic_keys = [''name'', ''title'', ''description'', ''inputSchema'', ''input_schema'', ''outputSchema'',
     ''output_schema'', ''annotations'']"

lemma read_field_cong: "obj_get c1 k = obj_get c2 k \<Longrightarrow> read_field c1 k r = read_field c2 k r"
  by (simp add: read_field_def)

text \<open>
  Display and operational metadata never changes the semantic source identity: two contracts that
  agree on name, title, description, schemas and annotations have the same semantic source fingerprint,
  whatever their other fields (icons, metadata) hold.
\<close>

theorem SemanticSourceFingerprint_ignores_metadata:
  assumes "decode_json cd b1 = Some (JObj c1)" and "decode_json cd b2 = Some (JObj c2)"
    and "\<And>k. k \<in> set semantic_keys \<Longrightarrow> obj_get c1 k = obj_get c2 k"
  shows "SemanticSourceFingerprintJSON cd b1 = SemanticSourceFingerprintJSON cd b2"
proof -
  have eqs: "obj_get c1 k = obj_get c2 k \<and> read_field c1 k r = read_field c2 k r" if "k \<in> set semantic_keys" for k r
    using assms(3) [OF that] read_field_cong by blast
  have keys: "''name'' \<in> set semantic_keys" "''title'' \<in> set semantic_keys" "''description'' \<in> set semantic_keys"
    "''inputSchema'' \<in> set semantic_keys" "''input_schema'' \<in> set semantic_keys" "''outputSchema'' \<in> set semantic_keys"
    "''output_schema'' \<in> set semantic_keys" "''annotations'' \<in> set semantic_keys"
    by (simp_all add: semantic_keys_def)
  show ?thesis
    unfolding SemanticSourceFingerprintJSON_def assms(1,2) as_object_def option.case json.case
    unfolding keys [THEN eqs, THEN conjunct1] keys [THEN eqs, THEN conjunct2] ..
qed

lemma strip_decorated:
  assumes "CHR '']'' \<notin> set tag" and "d = [] \<or> hd d \<noteq> CHR '' ''"
  shows "stripWebMCPSourceDecoration (''[WebMCP '' @ tag @ ''] '' @ d) = d"
proof -
  define s where "s = ''[WebMCP '' @ tag"
  have no: "CHR '']'' \<notin> set s" using assms(1) by (simp add: s_def)
  have full: "''[WebMCP '' @ tag @ ''] '' @ d = s @ CHR '']'' # CHR '' '' # d" by (simp add: s_def)
  have tw: "takeWhile (\<lambda>c. c \<noteq> CHR '']'') (s @ CHR '']'' # CHR '' '' # d) = s"
    using no by (subst takeWhile_append2) auto
  have pre: "HasPrefix (s @ CHR '']'' # CHR '' '' # d) ''[WebMCP ''"
    unfolding s_def HasPrefix_iff by auto
  have len: "length ''[WebMCP '' \<le> length s" by (simp add: s_def)
  have nth: "(s @ CHR '']'' # CHR '' '' # d) ! (length s + 1) = CHR '' ''" by (simp add: nth_append)
  have drop: "drop (length s + 1) (s @ CHR '']'' # CHR '' '' # d) = CHR '' '' # d" by simp
  have trim: "dropWhile (\<lambda>c. c = CHR '' '') (CHR '' '' # d) = d"
    using assms(2) by (cases d) auto
  show ?thesis
    unfolding full stripWebMCPSourceDecoration_def Let_def tw
    using pre len nth drop trim by simp
qed

text \<open>
  The semantic fingerprint is stable across relay reconnects: a contract whose description carries
  the relay's source label and the contract with the bare description have the same semantic fingerprint
  and the same normalised form, for every label without a closing bracket and every description that does
  not start with a space.
\<close>

theorem SemanticFingerprint_ignores_decoration:
  assumes "CHR '']'' \<notin> set tag" and "d = [] \<or> hd d \<noteq> CHR '' ''" and "\<not> HasPrefix d ''[WebMCP ''"
    and "decode_json cd b1 = Some (JObj (obj_put ''description'' (JStr (''[WebMCP '' @ tag @ ''] '' @ d)) c))"
    and "decode_json cd b2 = Some (JObj (obj_put ''description'' (JStr d) c))"
    and "b1 \<noteq> []" and "b2 \<noteq> []"
  shows "SemanticFingerprintJSON cd b1 = SemanticFingerprintJSON cd b2"
proof -
  have get: "obj_get (obj_put ''description'' v c) k =
      (if k = ''description'' then map_option (\<lambda>_. v) (obj_get c k) else obj_get c k)" for v k
  proof -
    have "map_of (map (\<lambda>(k', v'). if k' = ''description'' then (''description'', v) else (k', v')) xs) k =
        (if k = ''description'' then map_option (\<lambda>_. v) (map_of xs k) else map_of xs k)" for xs
      by (induction xs) auto
    then show ?thesis by (simp add: obj_get_def obj_put_def rev_map)
  qed
  have put: "obj_put ''description'' v (obj_put ''description'' w c) = obj_put ''description'' v c" for v w
    by (auto simp: obj_put_def)
  define D where "D = ''[WebMCP '' @ tag @ ''] '' @ d"
  have D: "stripWebMCPSourceDecoration D = d"
    unfolding D_def by (rule strip_decorated [OF assms(1,2)])
  note dec = assms(4) [folded D_def] assms(5-7)
  have bare: "stripWebMCPSourceDecoration d = d"
    using assms(3) by (simp add: stripWebMCPSourceDecoration_def)
  show ?thesis
  proof (cases "obj_get c ''description''")
    case None
    then have absent: "''description'' \<notin> fst ` set c"
      by (simp add: obj_get_def map_of_eq_None_iff)
    then have "obj_put ''description'' v c = c" for v
      by (force simp: obj_put_def intro!: map_idI)
    with dec show ?thesis by (simp add: SemanticFingerprintJSON_def)
  next
    case (Some x)
    with dec show ?thesis
      by (simp add: SemanticFingerprintJSON_def as_object_def get put bare D)
  qed
qed

section \<open>Concrete instances\<close>

text \<open>
  A concrete codec over three texts: \<open>A\<close> and \<open>B\<close> are one read-only tool with two different icons,
  \<open>D\<close> and \<open>E\<close> one tool with and without the relay label.
\<close>

definition sample_contract :: "string \<Rightarrow> (string \<times> json) list" where
  "sample_contract icon = [(''name'', JStr ''echo''), (''inputSchema'', JObj []), (''icons'', JStr icon),
     (''annotations'', JObj [(''readOnlyHint'', JBool True), (''openWorldHint'', JBool False)])]"

definition sample_described :: "string \<Rightarrow> (string \<times> json) list" where
  "sample_described d = obj_put ''description'' (JStr d) [(''name'', JStr ''echo''), (''description'', JNull)]"

definition sample_codec :: codec where
  "sample_codec = \<lparr>sha256_hex = (\<lambda>s. s),
     decode_json = (\<lambda>s. if s = ''A'' then Some (JObj (sample_contract ''one''))
       else if s = ''B'' then Some (JObj (sample_contract ''two''))
       else if s = ''D'' then Some (JObj (sample_described ''[WebMCP tab] List''))
       else if s = ''E'' then Some (JObj (sample_described ''List'')) else None),
     marshal_json = (\<lambda>j. case j of JObj kvs \<Rightarrow> concat (map fst kvs) | _ \<Rightarrow> []),
     marshal_tool = (\<lambda>t. Some (tool_Name t)), marshal_tools = (\<lambda>ts. Some (concat (map tool_Name ts))),
     unmarshal_tools = (\<lambda>s. Some [])\<rparr>"

theorem ExecutorClassForJSON_fail_safe_witness:
  "ExecutorClassForJSON sample_codec ''A'' = Inr ExecutorReadOnlyClosed \<and>
   stated_hint sample_codec ''A'' ''readOnlyHint'' = Some True"
proof -
  have ok: "ExecutorClassForJSON sample_codec ''A'' = Inr ExecutorReadOnlyClosed" by code_simp
  have mem: "ExecutorReadOnlyClosed \<in> set read_only_executors" by (simp add: read_only_executors_def)
  show ?thesis using ok mem ExecutorClassForJSON_fail_safe [OF ok] by simp
qed

definition sample_tool :: "string \<Rightarrow> mcp_tool" where
  "sample_tool n = \<lparr>tool_Name = n, tool_InputSchema = Some (JObj []), tool_Rest = JNull\<rparr>"

theorem FingerprintTools_permutation_witness:
  "FingerprintTools sample_codec [Some (sample_tool ''b''), Some (sample_tool ''a'')] =
   FingerprintTools sample_codec [Some (sample_tool ''a''), Some (sample_tool ''b'')]"
  by (rule FingerprintTools_permutation) simp

theorem SemanticSourceFingerprint_ignores_metadata_witness:
  "SemanticSourceFingerprintJSON sample_codec ''A'' = SemanticSourceFingerprintJSON sample_codec ''B''"
  by (rule SemanticSourceFingerprint_ignores_metadata [of _ _ "sample_contract ''one''" _ "sample_contract ''two''"])
    (auto simp: sample_codec_def sample_contract_def obj_get_def semantic_keys_def)

theorem SemanticFingerprint_ignores_decoration_witness:
  "SemanticFingerprintJSON sample_codec ''D'' = SemanticFingerprintJSON sample_codec ''E''"
  by (rule SemanticFingerprint_ignores_decoration [of "''tab''" "''List''" _ _ "[(''name'', JStr ''echo''), (''description'', JNull)]"])
    (simp_all add: sample_codec_def sample_described_def HasPrefix_def)

end
