(* ===== verification/Lifecycle.thy ===== *)
theory Lifecycle
  imports Config ToolContract
begin

text \<open>
  The routed lifecycle service: \<^verbatim>\<open>internal/routedlifecycle\<close> (service.go, continuations.go) and the
  tool snapshot of \<^verbatim>\<open>internal/downstream/tools.go\<close>. It owns one state per configured server, starts
  and stops runtime sessions, hands out use leases, and reserves servers for configuration changes.

  A \<^verbatim>\<open>*serverState\<close> is an index into \<open>sv_heap\<close>: the map \<open>sv_states\<close> and a running operation
  may both hold it, and a state deleted from the map stays in the heap. A runtime session is a number.
  The outside world at one instant is the record \<open>env\<close>: the clock, which sessions have exited, which
  report a changed tool contract, what tools they list, and whether closing one fails. Every critical
  section under \<^verbatim>\<open>st.mu\<close> is one definition on a server state (\<open>acquire_enter\<close>, \<open>acquire_install\<close>,
  \<dots>); each handler composes its sections with the outcome of \<^verbatim>\<open>connect\<close> between them, as when no other
  operation interleaves. Theory \<open>LifecycleSteps\<close> interleaves the same sections. \<open>sv_closed\<close> logs the
  sessions on which \<^verbatim>\<open>Close\<close> was called.
\<close>

section \<open>State\<close>

record ToolSnapshot =
  ts_Tools :: "mcp_tool list"
  ts_Fingerprint :: string

definition ToolSnapshot_Clone :: "codec \<Rightarrow> ToolSnapshot \<Rightarrow> ToolSnapshot" where
  "ToolSnapshot_Clone cd s = (case FingerprintTools cd (map Some (ts_Tools s)) of
      Inl _ \<Rightarrow> \<lparr>ts_Tools = [], ts_Fingerprint = ts_Fingerprint s\<rparr>
    | Inr (fp, tools) \<Rightarrow> \<lparr>ts_Tools = tools, ts_Fingerprint = fp\<rparr>)"

record env =
  en_now :: int
  en_exited :: "nat \<Rightarrow> bool"
  en_changed :: "nat \<Rightarrow> bool"
  en_initial :: "nat \<Rightarrow> ToolSnapshot"
  en_current :: "nat \<Rightarrow> ToolSnapshot option"
  en_closeFails :: "nat \<Rightarrow> bool"
  en_codec :: codec

datatype life_error =
    LifecycleError string bool
  | ServerBusyError string int
  | ConnectFailed string
  | NilSession
  | ContextDone
  | CloseFailed string
  | MutationPrepared
  | ConfigInvalid config_error
  | DownstreamUnavailable string

text \<open>The methods \<^verbatim>\<open>ExecutionCode\<close> and \<^verbatim>\<open>ExecutionRetryable\<close>; \<open>None\<close> for an error type without them.\<close>

fun ExecutionCode :: "life_error \<Rightarrow> (string \<times> bool) option" where
  "ExecutionCode (LifecycleError code retryable) = Some (code, retryable)"
| "ExecutionCode (ServerBusyError sid n) = Some (''server_busy'', True)"
| "ExecutionCode _ = None"

definition ErrServerNotFound :: life_error where "ErrServerNotFound = LifecycleError ''server_not_found'' False"
definition ErrManualServerStopped :: life_error where "ErrManualServerStopped = LifecycleError ''manual_server_stopped'' False"
definition ErrServerDisabled :: life_error where "ErrServerDisabled = LifecycleError ''server_disabled'' False"
definition ErrManagerShuttingDown :: life_error where "ErrManagerShuttingDown = LifecycleError ''manager_shutting_down'' True"
definition ErrAlwaysOnMaintained :: life_error where "ErrAlwaysOnMaintained = LifecycleError ''always_on_maintained'' False"

record idle_timer =
  it_generation :: "64 word"
  it_sequence :: "64 word"
  it_session :: nat
  it_fireAt :: int

record serverState =
  ss_entry :: ServerEntry
  ss_session :: "nat option"
  ss_tools :: ToolSnapshot
  ss_active :: int
  ss_lastActivity :: "int option"
  ss_idleTimer :: "idle_timer option"
  ss_idleDeadline :: "int option"
  ss_idleSequence :: "64 word"
  ss_generation :: "64 word"
  ss_mutating :: bool
  ss_runtimeChanging :: bool
  ss_deleted :: bool

record Service =
  sv_defaultIdle :: int
  sv_maxTaskLease :: int
  sv_closing :: bool
  sv_heap :: "serverState list"
  sv_states :: "(string \<times> nat) list"
  sv_pending :: "string list option"
  sv_closed :: "nat list"

record Snapshot =
  sn_ServerID :: string
  sn_Name :: string
  sn_Mode :: string
  sn_Running :: bool
  sn_ActiveCallCount :: int
  sn_ToolCount :: nat
  sn_LastActivityAt :: "int option"
  sn_IdleDeadlineAt :: "int option"

record UseLease =
  ul_state :: nat
  ul_session :: nat
  ul_released :: bool
  ul_task :: "int option"
  ul_expires :: "int option"

datatype connect_result = ConnFail string | ConnNil | ConnOK nat

definition defaultMaximumTaskLease :: int where
  "defaultMaximumTaskLease = 24 * 60 * 60 * 1000000000"

definition newServerState :: "ServerEntry \<Rightarrow> serverState" where
  "newServerState entry = \<lparr>ss_entry = entry, ss_session = None, ss_tools = \<lparr>ts_Tools = [], ts_Fingerprint = []\<rparr>,
     ss_active = 0, ss_lastActivity = None, ss_idleTimer = None, ss_idleDeadline = None, ss_idleSequence = 0,
     ss_generation = 0, ss_mutating = False, ss_runtimeChanging = False, ss_deleted = False\<rparr>"

text \<open>Later entries with an id already stored replace the map slot, as the assignment \<^verbatim>\<open>s.states[entry.ID] = \<dots>\<close> does.\<close>

definition add_state :: "ServerEntry \<Rightarrow> Service \<Rightarrow> Service" where
  "add_state entry sv = sv\<lparr>sv_heap := sv_heap sv @ [newServerState entry],
     sv_states := alist_put (se_ID entry) (length (sv_heap sv)) (sv_states sv)\<rparr>"

definition Service_New :: "netlib \<Rightarrow> ManagerConfig \<Rightarrow> ServersConfig \<Rightarrow> int \<Rightarrow> (life_error, Service) result" where
  "Service_New nl manager servers maxLease =
     (case ValidateManager nl manager of Some e \<Rightarrow> Inl (ConfigInvalid e) | None \<Rightarrow>
      case ValidateServers nl servers of Some e \<Rightarrow> Inl (ConfigInvalid e) | None \<Rightarrow>
      Inr (fold add_state (sc_Servers servers)
        \<lparr>sv_defaultIdle = mc_IdleTimeoutSeconds manager,
         sv_maxTaskLease = (if maxLease \<le> 0 then defaultMaximumTaskLease else maxLease),
         sv_closing = False, sv_heap = [], sv_states = [], sv_pending = None, sv_closed = []\<rparr>))"

definition Service_lookup :: "Service \<Rightarrow> string \<Rightarrow> (life_error, nat) result" where
  "Service_lookup sv serverID = (case map_of (sv_states sv) serverID of None \<Rightarrow> Inl ErrServerNotFound | Some p \<Rightarrow> Inr p)"

definition get_state :: "Service \<Rightarrow> nat \<Rightarrow> serverState" where
  "get_state sv p = sv_heap sv ! p"

definition set_state :: "nat \<Rightarrow> serverState \<Rightarrow> Service \<Rightarrow> Service" where
  "set_state p st sv = sv\<lparr>sv_heap := (sv_heap sv)[p := st]\<rparr>"

text \<open>\<^verbatim>\<open>closeRuntime\<close> on an optional session: the close is logged, its error returned.\<close>

definition closeRuntime :: "nat option \<Rightarrow> Service \<Rightarrow> Service" where
  "closeRuntime s sv = (case s of None \<Rightarrow> sv | Some c \<Rightarrow> sv\<lparr>sv_closed := sv_closed sv @ [c]\<rparr>)"

section \<open>Critical sections\<close>

definition sessionExited :: "env \<Rightarrow> nat option \<Rightarrow> bool" where
  "sessionExited en s = (case s of None \<Rightarrow> True | Some c \<Rightarrow> en_exited en c)"

definition sessionContractChanged :: "env \<Rightarrow> nat option \<Rightarrow> bool" where
  "sessionContractChanged en s = (case s of None \<Rightarrow> False | Some c \<Rightarrow> en_changed en c)"

definition busyErrorLocked :: "serverState \<Rightarrow> life_error" where
  "busyErrorLocked st = ServerBusyError (se_ID (ss_entry st)) (ss_active st)"

definition cancelIdleLocked :: "serverState \<Rightarrow> serverState" where
  "cancelIdleLocked st = st\<lparr>ss_idleSequence := ss_idleSequence st + 1, ss_idleTimer := None, ss_idleDeadline := None\<rparr>"

definition currentToolsLocked :: "env \<Rightarrow> serverState \<Rightarrow> ToolSnapshot \<times> serverState" where
  "currentToolsLocked en st =
     (let st' = (case ss_session st of None \<Rightarrow> st
        | Some c \<Rightarrow> if en_exited en c then st
            else (case en_current en c of None \<Rightarrow> st | Some t \<Rightarrow> st\<lparr>ss_tools := ToolSnapshot_Clone (en_codec en) t\<rparr>))
      in (ToolSnapshot_Clone (en_codec en) (ss_tools st'), st'))"

definition snapshotLocked :: "env \<Rightarrow> serverState \<Rightarrow> Snapshot \<times> serverState" where
  "snapshotLocked en st =
     (let (tools, st') = currentToolsLocked en st in
      (\<lparr>sn_ServerID = se_ID (ss_entry st'), sn_Name = se_Name (ss_entry st'), sn_Mode = se_Mode (ss_entry st'),
        sn_Running = (ss_session st' \<noteq> None \<and> \<not> sessionExited en (ss_session st')),
        sn_ActiveCallCount = ss_active st', sn_ToolCount = length (ts_Tools tools),
        sn_LastActivityAt = ss_lastActivity st', sn_IdleDeadlineAt = ss_idleDeadline st'\<rparr>, st'))"

text \<open>A duration is read as its signed value in nanoseconds; an instant is an integer.\<close>

definition scheduleIdleLocked :: "Service \<Rightarrow> env \<Rightarrow> serverState \<Rightarrow> serverState" where
  "scheduleIdleLocked sv en st0 =
     (let st = cancelIdleLocked st0 in
      case ss_session st of None \<Rightarrow> st | Some session \<Rightarrow>
      if sv_closing sv \<or> ss_deleted st \<or> se_Mode (ss_entry st) \<noteq> ModeManaged \<or> ss_active st \<noteq> 0 \<or>
         ss_mutating st \<or> ss_runtimeChanging st then st
      else let idle = sint (IdleTimeout (ss_entry st) (sv_defaultIdle sv)) in
      if idle \<le> 0 then st
      else let last = (case ss_lastActivity st of None \<Rightarrow> en_now en | Some t \<Rightarrow> t);
               deadline = last + idle;
               remaining = max 0 (deadline - en_now en);
               seq = ss_idleSequence st + 1
           in st\<lparr>ss_lastActivity := Some last, ss_idleSequence := seq, ss_idleDeadline := Some deadline,
                ss_idleTimer := Some \<lparr>it_generation = ss_generation st, it_sequence = seq, it_session = session,
                  it_fireAt = en_now en + remaining\<rparr>\<rparr>)"

definition schedule_if_unused :: "Service \<Rightarrow> env \<Rightarrow> serverState \<Rightarrow> serverState" where
  "schedule_if_unused sv en st = (if ss_active st = 0 then scheduleIdleLocked sv en st else st)"

definition touched :: "env \<Rightarrow> serverState \<Rightarrow> serverState" where
  "touched en st = st\<lparr>ss_lastActivity := Some (en_now en)\<rparr>"

text \<open>\<^verbatim>\<open>st.session = nil; st.generation++; cancelIdleLocked(st)\<close>, the detaching of a session.\<close>

definition detach :: "serverState \<Rightarrow> serverState" where
  "detach st = cancelIdleLocked (st\<lparr>ss_session := None, ss_generation := ss_generation st + 1\<rparr>)"

text \<open>\<^verbatim>\<open>st.session = connected; st.tools = \<dots>; st.generation++; st.lastActivity = now\<close>.\<close>

definition attach :: "env \<Rightarrow> nat \<Rightarrow> serverState \<Rightarrow> serverState" where
  "attach en c st = st\<lparr>ss_session := Some c, ss_tools := ToolSnapshot_Clone (en_codec en) (en_initial en c),
     ss_generation := ss_generation st + 1, ss_lastActivity := Some (en_now en)\<rparr>"

text \<open>
  Both \<^verbatim>\<open>Acquire\<close> and \<^verbatim>\<open>startState\<close> discard a session that has exited or whose contract changed;
  the result is the discarded session, to be closed after the lock is released.
\<close>

definition drop_stale :: "env \<Rightarrow> serverState \<Rightarrow> nat option \<times> serverState" where
  "drop_stale en st = (case ss_session st of None \<Rightarrow> (None, st)
     | Some c \<Rightarrow> if en_exited en c \<or> en_changed en c then (Some c, detach st) else (None, st))"

datatype acquire_out = AcqFail life_error "nat option" | AcqGo "nat option" "nat option"

definition acquire_enter :: "env \<Rightarrow> serverState \<Rightarrow> serverState \<times> acquire_out" where
  "acquire_enter en st =
     (if ss_deleted st then (st, AcqFail ErrServerNotFound None)
      else if ss_mutating st \<or> ss_runtimeChanging st then (st, AcqFail (busyErrorLocked st) None)
      else if se_Mode (ss_entry st) = ModeDisabled then (st, AcqFail ErrServerDisabled None)
      else if sessionContractChanged en (ss_session st) \<and> 0 < ss_active st then (st, AcqFail (busyErrorLocked st) None)
      else let (stale, st1) = drop_stale en st in
      if se_Mode (ss_entry st1) = ModeManual \<and> ss_session st1 = None then (st1, AcqFail ErrManualServerStopped stale)
      else let st2 = touched en ((cancelIdleLocked st1)\<lparr>ss_active := ss_active st1 + 1\<rparr>)
           in (st2, AcqGo (ss_session st2) stale))"

definition decrement_active :: "serverState \<Rightarrow> serverState" where
  "decrement_active st = (if 0 < ss_active st then st\<lparr>ss_active := ss_active st - 1\<rparr> else st)"

definition acquire_abandon :: "env \<Rightarrow> serverState \<Rightarrow> serverState" where
  "acquire_abandon en st = touched en (decrement_active st)"

definition acquire_install :: "env \<Rightarrow> nat \<Rightarrow> serverState \<Rightarrow> serverState \<times> life_error option" where
  "acquire_install en c st =
     (if ss_deleted st \<or> ss_mutating st \<or> ss_runtimeChanging st
      then (let st' = acquire_abandon en st in (st', Some (busyErrorLocked st')))
      else (attach en c st, None))"

definition release_state :: "Service \<Rightarrow> env \<Rightarrow> serverState \<Rightarrow> serverState" where
  "release_state sv en st = schedule_if_unused sv en (touched en (decrement_active st))"

datatype start_out = StartFail "Snapshot option" life_error | StartAlready Snapshot | StartGo "nat option"

definition start_enter :: "env \<Rightarrow> serverState \<Rightarrow> serverState \<times> start_out" where
  "start_enter en st =
     (if ss_deleted st then (st, StartFail None ErrServerNotFound)
      else if ss_mutating st \<or> ss_runtimeChanging st then (st, StartFail None (busyErrorLocked st))
      else if se_Mode (ss_entry st) = ModeDisabled then (st, StartFail None ErrServerDisabled)
      else if sessionContractChanged en (ss_session st) \<and> 0 < ss_active st
      then (let (out, st') = snapshotLocked en st in (st', StartFail (Some out) (busyErrorLocked st')))
      else let (stale, st1) = drop_stale en st in
      if ss_session st1 \<noteq> None then (let (out, st') = snapshotLocked en st1 in (st', StartAlready out))
      else (cancelIdleLocked (st1\<lparr>ss_runtimeChanging := True\<rparr>), StartGo stale))"

definition start_abort :: "env \<Rightarrow> serverState \<Rightarrow> Snapshot \<times> serverState" where
  "start_abort en st = snapshotLocked en (st\<lparr>ss_runtimeChanging := False\<rparr>)"

definition start_install :: "Service \<Rightarrow> env \<Rightarrow> nat \<Rightarrow> serverState \<Rightarrow> Snapshot \<times> serverState" where
  "start_install sv en c st =
     snapshotLocked en (schedule_if_unused sv en ((attach en c st)\<lparr>ss_runtimeChanging := False\<rparr>))"

datatype stop_out = StopFail "Snapshot option" life_error | StopGo "nat option"

text \<open>The check of \<^verbatim>\<open>Stop\<close> before it waits for the operation lock.\<close>

definition stop_check :: "env \<Rightarrow> serverState \<Rightarrow> serverState \<times> (Snapshot \<times> life_error) option" where
  "stop_check en st =
     (if se_Mode (ss_entry st) = ModeAlwaysOn
      then (let (out, st') = snapshotLocked en st in (st', Some (out, ErrAlwaysOnMaintained)))
      else if 0 < ss_active st \<or> ss_mutating st \<or> ss_runtimeChanging st
      then (let (out, st') = snapshotLocked en st in (st', Some (out, busyErrorLocked st')))
      else (st, None))"

definition stop_enter :: "env \<Rightarrow> bool \<Rightarrow> serverState \<Rightarrow> serverState \<times> stop_out" where
  "stop_enter en managerShutdown st =
     (if ss_deleted st then (st, StopFail None ErrServerNotFound)
      else if \<not> managerShutdown \<and> se_Mode (ss_entry st) = ModeAlwaysOn
      then (let (out, st') = snapshotLocked en st in (st', StopFail (Some out) ErrAlwaysOnMaintained))
      else if \<not> managerShutdown \<and> (0 < ss_active st \<or> ss_mutating st \<or> ss_runtimeChanging st)
      then (let (out, st') = snapshotLocked en st in (st', StopFail (Some out) (busyErrorLocked st')))
      else (touched en ((detach st)\<lparr>ss_runtimeChanging := (ss_session st \<noteq> None)\<rparr>), StopGo (ss_session st)))"

definition stop_finish :: "env \<Rightarrow> serverState \<Rightarrow> Snapshot \<times> serverState" where
  "stop_finish en st = snapshotLocked en (touched en (st\<lparr>ss_runtimeChanging := False\<rparr>))"

definition restart_check :: "env \<Rightarrow> serverState \<Rightarrow> serverState \<times> (Snapshot \<times> life_error) option" where
  "restart_check en st =
     (if 0 < ss_active st \<or> ss_mutating st \<or> ss_runtimeChanging st
      then (let (out, st') = snapshotLocked en st in (st', Some (out, busyErrorLocked st')))
      else if se_Mode (ss_entry st) = ModeDisabled
      then (let (out, st') = snapshotLocked en st in (st', Some (out, ErrServerDisabled)))
      else (st, None))"

definition restart_enter :: "env \<Rightarrow> serverState \<Rightarrow> serverState \<times> stop_out" where
  "restart_enter en st =
     (if 0 < ss_active st \<or> ss_mutating st \<or> ss_runtimeChanging st
      then (let (out, st') = snapshotLocked en st in (st', StopFail (Some out) (busyErrorLocked st')))
      else (touched en ((detach st)\<lparr>ss_runtimeChanging := True\<rparr>), StopGo (ss_session st)))"

text \<open>The section of \<^verbatim>\<open>watchSession\<close> run when the session's done channel closes.\<close>

definition watch_fire :: "Service \<Rightarrow> env \<Rightarrow> 64 word \<Rightarrow> nat \<Rightarrow> serverState \<Rightarrow> serverState \<times> bool option" where
  "watch_fire sv en generation session st =
     (if ss_deleted st \<or> ss_generation st \<noteq> generation \<or> ss_session st \<noteq> Some session then (st, None)
      else (touched en (detach st),
            Some (se_Mode (ss_entry st) = ModeAlwaysOn \<and> \<not> ss_mutating st \<and> \<not> sv_closing sv)))"

definition idle_enter :: "Service \<Rightarrow> env \<Rightarrow> idle_timer \<Rightarrow> serverState \<Rightarrow> serverState \<times> bool" where
  "idle_enter sv en t st =
     (if ss_deleted st \<or> se_Mode (ss_entry st) \<noteq> ModeManaged \<or> ss_active st \<noteq> 0 \<or> ss_mutating st \<or>
         ss_runtimeChanging st \<or> ss_generation st \<noteq> it_generation t \<or> ss_idleSequence st \<noteq> it_sequence t \<or>
         ss_session st \<noteq> Some (it_session t) then (st, False)
      else if (case ss_idleDeadline st of None \<Rightarrow> False | Some d \<Rightarrow> en_now en < d)
      then (scheduleIdleLocked sv en st, False)
      else (touched en (detach (st\<lparr>ss_runtimeChanging := True\<rparr>)), True))"

definition idle_finish :: "env \<Rightarrow> serverState \<Rightarrow> serverState" where
  "idle_finish en st = touched en (st\<lparr>ss_runtimeChanging := False\<rparr>)"

section \<open>Handlers\<close>

text \<open>
  The argument \<open>locked\<close> of a handler is the outcome of \<^verbatim>\<open>lockOperation\<close>: false when the context
  ends before the operation token is free. \<open>connect\<close> is the downstream connect function.
\<close>

definition Acquire :: "env \<Rightarrow> (ServerEntry \<Rightarrow> connect_result) \<Rightarrow> bool \<Rightarrow> Service \<Rightarrow> string \<Rightarrow> Service \<times> (life_error, UseLease) result" where
  "Acquire en connect locked sv serverID =
     (if sv_closing sv then (sv, Inl ErrManagerShuttingDown) else
      case Service_lookup sv serverID of Inl e \<Rightarrow> (sv, Inl e) | Inr p \<Rightarrow>
      if \<not> locked then (sv, Inl ContextDone) else
      case acquire_enter en (get_state sv p) of
        (st, AcqFail e stale) \<Rightarrow> (closeRuntime stale (set_state p st sv), Inl e)
      | (st, AcqGo (Some session) stale) \<Rightarrow>
          (closeRuntime stale (set_state p st sv),
           Inr \<lparr>ul_state = p, ul_session = session, ul_released = False, ul_task = None, ul_expires = None\<rparr>)
      | (st, AcqGo None stale) \<Rightarrow>
          (let sv1 = closeRuntime stale (set_state p st sv) in
           case connect (ss_entry st) of
             ConnFail m \<Rightarrow> (set_state p (acquire_abandon en st) sv1, Inl (ConnectFailed m))
           | ConnNil \<Rightarrow> (set_state p (acquire_abandon en st) sv1, Inl NilSession)
           | ConnOK c \<Rightarrow>
               (if sv_closing sv1
                then (set_state p (acquire_abandon en st) (closeRuntime (Some c) sv1), Inl ErrManagerShuttingDown)
                else case acquire_install en c st of
                  (st', Some busy) \<Rightarrow> (closeRuntime (Some c) (set_state p st' sv1), Inl busy)
                | (st', None) \<Rightarrow> (set_state p st' sv1,
                    Inr \<lparr>ul_state = p, ul_session = c, ul_released = False, ul_task = None, ul_expires = None\<rparr>))))"

definition Release :: "env \<Rightarrow> Service \<Rightarrow> UseLease \<Rightarrow> Service \<times> UseLease" where
  "Release en sv l =
     (if ul_released l then (sv, l)
      else (set_state (ul_state l) (release_state sv en (get_state sv (ul_state l))) sv,
            l\<lparr>ul_released := True, ul_task := None\<rparr>))"

definition AcquireTaskLease :: "env \<Rightarrow> (ServerEntry \<Rightarrow> connect_result) \<Rightarrow> bool \<Rightarrow> Service \<Rightarrow> string \<Rightarrow> int \<Rightarrow> Service \<times> (life_error, UseLease) result" where
  "AcquireTaskLease en connect locked sv serverID ttl0 = (case Acquire en connect locked sv serverID of
      (sv', Inl e) \<Rightarrow> (sv', Inl e)
    | (sv', Inr lease) \<Rightarrow>
        (let ttl = (if ttl0 \<le> 0 \<or> sv_maxTaskLease sv' < ttl0 then sv_maxTaskLease sv' else ttl0);
             expires = en_now en + ttl
         in (sv', Inr (lease\<lparr>ul_expires := Some expires, ul_task := Some expires\<rparr>))))"

definition ExpiresAt :: "UseLease \<Rightarrow> int option" where
  "ExpiresAt l = ul_expires l"

definition lease_touch :: "env \<Rightarrow> Service \<Rightarrow> UseLease \<Rightarrow> Service" where
  "lease_touch en sv l = (if ul_released l then sv
     else set_state (ul_state l) (touched en (get_state sv (ul_state l))) sv)"

text \<open>
  A call through a lease (\<^verbatim>\<open>CallTool\<close>, \<^verbatim>\<open>CallToolOrTask\<close>): refused once released, otherwise the
  session's own answer \<open>r\<close> with the activity clock touched before and after.
\<close>

definition lease_CallTool :: "env \<Rightarrow> Service \<Rightarrow> UseLease \<Rightarrow> (nat \<Rightarrow> 'r) \<Rightarrow> Service \<times> (life_error, 'r) result" where
  "lease_CallTool en sv l call =
     (if ul_released l then (sv, Inl (DownstreamUnavailable ''routed lifecycle lease already released''))
      else let r = call (ul_session l) in (lease_touch en (lease_touch en sv l) l, Inr r))"

definition errorsUnsupportedContinuation :: "string \<Rightarrow> life_error" where
  "errorsUnsupportedContinuation feature = DownstreamUnavailable (''downstream runtime does not support '' @ feature)"

definition taskRuntime :: "env \<Rightarrow> Service \<Rightarrow> UseLease \<Rightarrow> bool \<Rightarrow> string \<Rightarrow> Service \<times> life_error option" where
  "taskRuntime en sv l supported feature =
     (if ul_released l then (sv, Some (DownstreamUnavailable ''routed lifecycle lease already released''))
      else if \<not> supported then (sv, Some (errorsUnsupportedContinuation feature))
      else (lease_touch en sv l, None))"

text \<open>\<^verbatim>\<open>GetTask\<close>, \<^verbatim>\<open>UpdateTask\<close>, \<^verbatim>\<open>CancelTask\<close> and \<^verbatim>\<open>ReadResource\<close> share this body.\<close>

definition lease_continuation :: "env \<Rightarrow> Service \<Rightarrow> UseLease \<Rightarrow> bool \<Rightarrow> string \<Rightarrow> (nat \<Rightarrow> 'r) \<Rightarrow> Service \<times> (life_error, 'r) result" where
  "lease_continuation en sv l supported feature call = (case taskRuntime en sv l supported feature of
      (sv', Some e) \<Rightarrow> (sv', Inl e)
    | (sv', None) \<Rightarrow> let r = call (ul_session l) in (lease_touch en sv' l, Inr r))"

definition Service_Snapshot :: "env \<Rightarrow> Service \<Rightarrow> string \<Rightarrow> Service \<times> (life_error, Snapshot) result" where
  "Service_Snapshot en sv serverID = (case Service_lookup sv serverID of Inl e \<Rightarrow> (sv, Inl e) | Inr p \<Rightarrow>
     if ss_deleted (get_state sv p) then (sv, Inl ErrServerNotFound)
     else let (out, st) = snapshotLocked en (get_state sv p) in (set_state p st sv, Inr out))"

fun snapshots_loop :: "env \<Rightarrow> Service \<Rightarrow> nat list \<Rightarrow> Service \<times> Snapshot list" where
  "snapshots_loop en sv [] = (sv, [])"
| "snapshots_loop en sv (p # ps) =
     (if ss_deleted (get_state sv p) then snapshots_loop en sv ps
      else let (out, st) = snapshotLocked en (get_state sv p);
               (sv', outs) = snapshots_loop en (set_state p st sv) ps
           in (sv', out # outs))"

definition Snapshots :: "env \<Rightarrow> Service \<Rightarrow> Service \<times> Snapshot list" where
  "Snapshots en sv = (let (sv', outs) = snapshots_loop en sv (map snd (sv_states sv)) in (sv', sort_key sn_ServerID outs))"

definition KnownTools :: "env \<Rightarrow> Service \<Rightarrow> string \<Rightarrow> Service \<times> (life_error, ToolSnapshot) result" where
  "KnownTools en sv serverID = (case Service_lookup sv serverID of Inl e \<Rightarrow> (sv, Inl e) | Inr p \<Rightarrow>
     if ss_deleted (get_state sv p) then (sv, Inl ErrServerNotFound)
     else let (tools, st) = currentToolsLocked en (get_state sv p) in (set_state p st sv, Inr tools))"

type_synonym ctl_result = "Snapshot option \<times> life_error option"

definition startState :: "env \<Rightarrow> (ServerEntry \<Rightarrow> connect_result) \<Rightarrow> bool \<Rightarrow> Service \<Rightarrow> nat \<Rightarrow> Service \<times> ctl_result" where
  "startState en connect locked sv p =
     (if sv_closing sv then (sv, None, Some ErrManagerShuttingDown)
      else if \<not> locked then (sv, None, Some ContextDone)
      else case start_enter en (get_state sv p) of
        (st, StartFail out e) \<Rightarrow> (set_state p st sv, out, Some e)
      | (st, StartAlready out) \<Rightarrow> (set_state p st sv, Some out, None)
      | (st, StartGo stale) \<Rightarrow>
          (let sv1 = closeRuntime stale (set_state p st sv) in
           case connect (ss_entry st) of
             ConnFail m \<Rightarrow> (let (out, st') = start_abort en (touched en st)
                            in (set_state p st' sv1, Some out, Some (ConnectFailed m)))
           | ConnNil \<Rightarrow> (let (out, st') = start_abort en st in (set_state p st' sv1, Some out, Some NilSession))
           | ConnOK c \<Rightarrow>
               (if sv_closing sv1
                then (let (out, st') = start_abort en st
                      in (set_state p st' (closeRuntime (Some c) sv1), Some out, Some ErrManagerShuttingDown))
                else (let (out, st') = start_install sv1 en c st in (set_state p st' sv1, Some out, None)))))"

definition Start :: "env \<Rightarrow> (ServerEntry \<Rightarrow> connect_result) \<Rightarrow> bool \<Rightarrow> Service \<Rightarrow> string \<Rightarrow> Service \<times> ctl_result" where
  "Start en connect locked sv serverID = (case Service_lookup sv serverID of
      Inl e \<Rightarrow> (sv, None, Some e) | Inr p \<Rightarrow> startState en connect locked sv p)"

definition stopState :: "env \<Rightarrow> bool \<Rightarrow> Service \<Rightarrow> nat \<Rightarrow> bool \<Rightarrow> Service \<times> ctl_result" where
  "stopState en locked sv p managerShutdown =
     (if \<not> locked then (sv, None, Some ContextDone)
      else case stop_enter en managerShutdown (get_state sv p) of
        (st, StopFail out e) \<Rightarrow> (set_state p st sv, out, Some e)
      | (st, StopGo current) \<Rightarrow>
          (let closeErr = (case current of None \<Rightarrow> None | Some c \<Rightarrow> if en_closeFails en c then Some (CloseFailed (se_ID (ss_entry st))) else None);
               (out, st') = stop_finish en st
           in (closeRuntime current (set_state p st' sv), Some out, closeErr)))"

definition Stop :: "env \<Rightarrow> bool \<Rightarrow> Service \<Rightarrow> string \<Rightarrow> Service \<times> ctl_result" where
  "Stop en locked sv serverID = (case Service_lookup sv serverID of Inl e \<Rightarrow> (sv, None, Some e) | Inr p \<Rightarrow>
     case stop_check en (get_state sv p) of
       (st, Some (out, e)) \<Rightarrow> (set_state p st sv, Some out, Some e)
     | (st, None) \<Rightarrow> stopState en locked (set_state p st sv) p False)"

definition Restart :: "env \<Rightarrow> (ServerEntry \<Rightarrow> connect_result) \<Rightarrow> bool \<Rightarrow> Service \<Rightarrow> string \<Rightarrow> Service \<times> ctl_result" where
  "Restart en connect locked sv serverID = (case Service_lookup sv serverID of Inl e \<Rightarrow> (sv, None, Some e) | Inr p \<Rightarrow>
     case restart_check en (get_state sv p) of
       (st, Some (out, e)) \<Rightarrow> (set_state p st sv, Some out, Some e)
     | (st, None) \<Rightarrow>
       if \<not> locked then (set_state p st sv, None, Some ContextDone) else
       (case restart_enter en st of
          (st1, StopFail out e) \<Rightarrow> (set_state p st1 sv, out, Some e)
        | (st1, StopGo old) \<Rightarrow>
            (let sv1 = closeRuntime old (set_state p st1 sv) in
             if (case old of None \<Rightarrow> False | Some c \<Rightarrow> en_closeFails en c)
             then (let (out, st') = start_abort en st1 in (set_state p st' sv1, Some out, Some (CloseFailed (se_ID (ss_entry st1)))))
             else (case connect (ss_entry st1) of
                 ConnFail m \<Rightarrow> (let (out, st') = start_abort en st1 in (set_state p st' sv1, Some out, Some (ConnectFailed m)))
               | ConnNil \<Rightarrow> (let (out, st') = start_abort en st1 in (set_state p st' sv1, Some out, Some NilSession))
               | ConnOK c \<Rightarrow> (let (out, st') = start_install sv1 en c st1 in (set_state p st' sv1, Some out, None))))))"

text \<open>The starts of \<^verbatim>\<open>StartAlwaysOn\<close> run in parallel on distinct states; the model runs them in map order.\<close>

fun start_all :: "env \<Rightarrow> (ServerEntry \<Rightarrow> connect_result) \<Rightarrow> Service \<Rightarrow> nat list \<Rightarrow> Service \<times> life_error list" where
  "start_all en connect sv [] = (sv, [])"
| "start_all en connect sv (p # ps) =
     (case startState en connect True sv p of (sv1, _, err) \<Rightarrow>
      let (sv2, errs) = start_all en connect sv1 ps in (sv2, (case err of None \<Rightarrow> errs | Some e \<Rightarrow> e # errs)))"

definition StartAlwaysOn :: "env \<Rightarrow> (ServerEntry \<Rightarrow> connect_result) \<Rightarrow> Service \<Rightarrow> Service \<times> life_error list" where
  "StartAlwaysOn en connect sv = start_all en connect sv
     (filter (\<lambda>p. \<not> ss_deleted (get_state sv p) \<and> se_Mode (ss_entry (get_state sv p)) = ModeAlwaysOn) (map snd (sv_states sv)))"

text \<open>The goroutine of \<^verbatim>\<open>watchSession\<close> once the done channel is closed; the result says whether it starts \<^verbatim>\<open>maintainAlwaysOn\<close>.\<close>

definition watchSession :: "env \<Rightarrow> bool \<Rightarrow> Service \<Rightarrow> nat \<Rightarrow> 64 word \<Rightarrow> nat \<Rightarrow> Service \<times> bool" where
  "watchSession en locked sv p generation session =
     (if \<not> locked then (sv, False)
      else case watch_fire sv en generation session (get_state sv p) of
        (st, None) \<Rightarrow> (sv, False)
      | (st, Some maintain) \<Rightarrow> (closeRuntime (Some session) (set_state p st sv), maintain))"

definition next_delay :: "int \<Rightarrow> int" where
  "next_delay d = (if d < 5000000000 then min (2 * d) 5000000000 else d)"

text \<open>
  \<^verbatim>\<open>maintainAlwaysOn\<close>: the loop consumes one environment, connect function and lock outcome per round
  and returns the delays it slept; it may go on for ever, so the list of rounds bounds what is observed.
\<close>

fun maintainAlwaysOn :: "(env \<times> (ServerEntry \<Rightarrow> connect_result) \<times> bool) list \<Rightarrow> int \<Rightarrow> Service \<Rightarrow> nat \<Rightarrow> Service \<times> int list" where
  "maintainAlwaysOn [] delay sv p = (sv, [])"
| "maintainAlwaysOn ((en, connect, locked) # rounds) delay sv p =
     (let st = get_state sv p in
      if sv_closing sv \<or> ss_deleted st \<or> se_Mode (ss_entry st) \<noteq> ModeAlwaysOn \<or> ss_session st \<noteq> None then (sv, [])
      else let (sv1, started) =
          (if ss_mutating st \<or> ss_runtimeChanging st then (sv, False)
           else (case startState en connect locked sv p of (sv', _, err) \<Rightarrow> (sv', err = None)))
      in if started then (sv1, [])
         else let (sv2, delays) = maintainAlwaysOn rounds (next_delay delay) sv1 p in (sv2, delay # delays))"

definition idleStop :: "env \<Rightarrow> bool \<Rightarrow> Service \<Rightarrow> nat \<Rightarrow> idle_timer \<Rightarrow> Service" where
  "idleStop en locked sv p t =
     (if sv_closing sv \<or> \<not> locked then sv
      else case idle_enter sv en t (get_state sv p) of
        (st, False) \<Rightarrow> set_state p st sv
      | (st, True) \<Rightarrow> set_state p (idle_finish en st) (closeRuntime (Some (it_session t)) sv))"

section \<open>Configuration changes\<close>

definition runtimeAffectingChange :: "ServerEntry \<Rightarrow> ServerEntry \<Rightarrow> bool" where
  "runtimeAffectingChange oldEntry newEntry \<longleftrightarrow>
     se_Name oldEntry \<noteq> se_Name newEntry \<or> se_Mode oldEntry \<noteq> se_Mode newEntry \<or>
     se_Transport oldEntry \<noteq> se_Transport newEntry \<or> se_Environment oldEntry \<noteq> se_Environment newEntry \<or>
     se_Runtime oldEntry \<noteq> se_Runtime newEntry"

text \<open>The map built by \<^verbatim>\<open>for _, e := range servers { byID[e.ID] = e }\<close>.\<close>

definition byID :: "ServersConfig \<Rightarrow> string \<Rightarrow> ServerEntry option" where
  "byID c k = map_of (rev (map (\<lambda>e. (se_ID e, e)) (sc_Servers c))) k"

definition runtimeAffectingServerIDs :: "ServersConfig \<Rightarrow> ServersConfig \<Rightarrow> string list" where
  "runtimeAffectingServerIDs current nxt =
     sort (remdups (filter (\<lambda>k. case byID current k of None \<Rightarrow> False
        | Some oldEntry \<Rightarrow> (case byID nxt k of None \<Rightarrow> True | Some newEntry \<Rightarrow> runtimeAffectingChange oldEntry newEntry))
      (map se_ID (sc_Servers current))))"

fun clear_mutating :: "nat list \<Rightarrow> Service \<Rightarrow> Service" where
  "clear_mutating [] sv = sv"
| "clear_mutating (p # ps) sv = clear_mutating ps (set_state p ((get_state sv p)\<lparr>ss_mutating := False\<rparr>) sv)"

fun prepare_loop :: "string list \<Rightarrow> nat list \<Rightarrow> string list \<Rightarrow> Service \<Rightarrow> Service \<times> (life_error, string list) result" where
  "prepare_loop [] prepared pending sv = (sv, Inr pending)"
| "prepare_loop (serverID # ids) prepared pending sv =
     (case Service_lookup sv serverID of Inl _ \<Rightarrow> prepare_loop ids prepared pending sv
      | Inr p \<Rightarrow>
        let st = get_state sv p in
        if ss_deleted st \<or> 0 < ss_active st \<or> ss_mutating st \<or> ss_runtimeChanging st
        then (clear_mutating prepared sv, Inl (busyErrorLocked st))
        else prepare_loop ids (prepared @ [p]) (pending @ [serverID]) (set_state p (st\<lparr>ss_mutating := True\<rparr>) sv))"

definition PrepareServerMutation :: "Service \<Rightarrow> ServersConfig \<Rightarrow> ServersConfig \<Rightarrow> Service \<times> life_error option" where
  "PrepareServerMutation sv current nxt =
     (if sv_closing sv then (sv, Some ErrManagerShuttingDown)
      else if sv_pending sv \<noteq> None then (sv, Some MutationPrepared)
      else case prepare_loop (runtimeAffectingServerIDs current nxt) [] [] sv of
        (sv', Inl e) \<Rightarrow> (sv', Some e)
      | (sv', Inr pending) \<Rightarrow> (sv'\<lparr>sv_pending := Some pending\<rparr>, None))"

definition AbortServerMutation :: "Service \<Rightarrow> Service" where
  "AbortServerMutation sv =
     (let pending = (case sv_pending sv of None \<Rightarrow> [] | Some ids \<Rightarrow> ids);
          sv' = sv\<lparr>sv_pending := None\<rparr>
      in clear_mutating (List.map_filter (\<lambda>k. map_of (sv_states sv') k) pending) sv')"

text \<open>
  One round of the loop of \<^verbatim>\<open>CommitServerMutation\<close> over the states present after the new entries were
  added: an unaffected state takes the new entry; an affected one loses its session, takes the new entry or
  is deleted, and is released from the reservation. The state list is visited in map order.
\<close>

definition commit_state :: "env \<Rightarrow> string list \<Rightarrow> ServersConfig \<Rightarrow> string \<times> nat \<Rightarrow> Service \<Rightarrow> Service" where
  "commit_state en pending nxt kp sv =
     (let (k, p) = kp; st = get_state sv p in
      if k \<notin> set pending then
        (case byID nxt k of None \<Rightarrow> sv | Some entry \<Rightarrow> set_state p (st\<lparr>ss_entry := entry\<rparr>) sv)
      else
        let old = ss_session st;
            st1 = (detach st)\<lparr>ss_runtimeChanging := (old \<noteq> None)\<rparr>;
            st2 = (case byID nxt k of Some entry \<Rightarrow> st1\<lparr>ss_entry := entry\<rparr> | None \<Rightarrow> st1\<lparr>ss_deleted := True\<rparr>);
            sv1 = closeRuntime old sv;
            sv2 = (if byID nxt k = None then sv1\<lparr>sv_states := alist_del k (sv_states sv1)\<rparr> else sv1)
        in set_state p (touched en (st2\<lparr>ss_runtimeChanging := False, ss_mutating := False\<rparr>)) sv2)"

definition add_missing :: "ServersConfig \<Rightarrow> Service \<Rightarrow> Service" where
  "add_missing nxt sv =
     fold (\<lambda>k sv. case map_of (sv_states sv) k of Some _ \<Rightarrow> sv
        | None \<Rightarrow> (case byID nxt k of None \<Rightarrow> sv | Some e \<Rightarrow> add_state e sv))
      (remdups (map se_ID (sc_Servers nxt))) sv"

definition CommitServerMutation :: "env \<Rightarrow> Service \<Rightarrow> ServersConfig \<Rightarrow> Service" where
  "CommitServerMutation en sv nxt =
     (let pending = (case sv_pending sv of None \<Rightarrow> [] | Some ids \<Rightarrow> ids);
          sv1 = sv\<lparr>sv_pending := None\<rparr>;
          sv2 = add_missing nxt sv1
      in fold (commit_state en pending nxt) (sv_states sv2) sv2)"

text \<open>The states for which the commit starts \<^verbatim>\<open>maintainAlwaysOn\<close>.\<close>

definition commit_maintained :: "Service \<Rightarrow> ServersConfig \<Rightarrow> string list" where
  "commit_maintained sv nxt =
     (if sv_closing sv then []
      else filter (\<lambda>k. (k \<in> set (elems (sv_pending sv)) \<or> map_of (sv_states sv) k = None) \<and>
          (case byID nxt k of None \<Rightarrow> False | Some e \<Rightarrow> se_Mode e = ModeAlwaysOn))
        (remdups (map se_ID (sc_Servers nxt))))"

definition close_state :: "env \<Rightarrow> nat \<Rightarrow> Service \<Rightarrow> Service" where
  "close_state en p sv =
     (let st = get_state sv p; current = ss_session st;
          st1 = touched en ((detach st)\<lparr>ss_runtimeChanging := (current \<noteq> None)\<rparr>)
      in closeRuntime current (set_state p (st1\<lparr>ss_runtimeChanging := False\<rparr>) sv))"

definition close_error :: "env \<Rightarrow> serverState \<Rightarrow> life_error list" where
  "close_error en st = (case ss_session st of None \<Rightarrow> []
     | Some c \<Rightarrow> if en_closeFails en c then [CloseFailed (se_ID (ss_entry st))] else [])"

definition Service_Close :: "env \<Rightarrow> Service \<Rightarrow> Service \<times> life_error list" where
  "Service_Close en sv =
     (if sv_closing sv then (sv, [])
      else let sv1 = AbortServerMutation (sv\<lparr>sv_closing := True\<rparr>); ps = map snd (sv_states sv1)
           in (fold (close_state en) ps sv1, concat (map (\<lambda>p. close_error en (get_state sv1 p)) ps)))"

section \<open>The state invariant\<close>

text \<open>
  Lease counts are never negative. An armed idle timer always describes the session it was armed for: the
  server is unused, not changing and not deleted, and generation, sequence and session of the timer
  are the current ones, so a timer that fires after any of them moved on is recognised as stale.
\<close>

definition st_ok :: "serverState \<Rightarrow> bool" where
  "st_ok st \<longleftrightarrow> 0 \<le> ss_active st \<and> (ss_idleTimer st = None \<longleftrightarrow> ss_idleDeadline st = None) \<and>
     (case ss_idleTimer st of None \<Rightarrow> True | Some t \<Rightarrow>
        ss_active st = 0 \<and> ss_session st = Some (it_session t) \<and> ss_generation st = it_generation t \<and>
        ss_idleSequence st = it_sequence t \<and>
        \<not> ss_runtimeChanging st \<and> \<not> ss_deleted st)"

definition sv_ok :: "Service \<Rightarrow> bool" where
  "sv_ok sv \<longleftrightarrow> list_all st_ok (sv_heap sv) \<and> list_all (\<lambda>kp. snd kp < length (sv_heap sv)) (sv_states sv) \<and>
     distinct (map fst (sv_states sv)) \<and> distinct (map snd (sv_states sv))"

named_theorems section_simps \<open>what the critical sections do to the fields of a server state\<close>

lemma snapshotLocked_fields [section_simps]:
  "ss_entry (snd (snapshotLocked en st)) = ss_entry st" "ss_session (snd (snapshotLocked en st)) = ss_session st"
  "ss_active (snd (snapshotLocked en st)) = ss_active st" "ss_idleTimer (snd (snapshotLocked en st)) = ss_idleTimer st"
  "ss_idleDeadline (snd (snapshotLocked en st)) = ss_idleDeadline st"
  "ss_idleSequence (snd (snapshotLocked en st)) = ss_idleSequence st"
  "ss_generation (snd (snapshotLocked en st)) = ss_generation st" "ss_mutating (snd (snapshotLocked en st)) = ss_mutating st"
  "ss_runtimeChanging (snd (snapshotLocked en st)) = ss_runtimeChanging st"
  "ss_deleted (snd (snapshotLocked en st)) = ss_deleted st"
  by (simp_all add: snapshotLocked_def currentToolsLocked_def Let_def split: option.splits)

lemma currentToolsLocked_fields [section_simps]:
  "ss_entry (snd (currentToolsLocked en st)) = ss_entry st" "ss_session (snd (currentToolsLocked en st)) = ss_session st"
  "ss_active (snd (currentToolsLocked en st)) = ss_active st" "ss_idleTimer (snd (currentToolsLocked en st)) = ss_idleTimer st"
  "ss_idleDeadline (snd (currentToolsLocked en st)) = ss_idleDeadline st"
  "ss_idleSequence (snd (currentToolsLocked en st)) = ss_idleSequence st"
  "ss_generation (snd (currentToolsLocked en st)) = ss_generation st" "ss_mutating (snd (currentToolsLocked en st)) = ss_mutating st"
  "ss_runtimeChanging (snd (currentToolsLocked en st)) = ss_runtimeChanging st"
  "ss_deleted (snd (currentToolsLocked en st)) = ss_deleted st"
  by (simp_all add: currentToolsLocked_def Let_def split: option.splits)

lemma busy_snapshot [section_simps]: "busyErrorLocked (snd (snapshotLocked en st)) = busyErrorLocked st"
  by (simp add: busyErrorLocked_def section_simps)

lemma touched_fields [section_simps]:
  "ss_entry (touched en st) = ss_entry st" "ss_session (touched en st) = ss_session st"
  "ss_active (touched en st) = ss_active st" "ss_idleTimer (touched en st) = ss_idleTimer st"
  "ss_idleDeadline (touched en st) = ss_idleDeadline st" "ss_idleSequence (touched en st) = ss_idleSequence st"
  "ss_generation (touched en st) = ss_generation st" "ss_mutating (touched en st) = ss_mutating st"
  "ss_runtimeChanging (touched en st) = ss_runtimeChanging st" "ss_deleted (touched en st) = ss_deleted st"
  by (simp_all add: touched_def)

lemma detach_fields [section_simps]:
  "ss_entry (detach st) = ss_entry st" "ss_session (detach st) = None" "ss_active (detach st) = ss_active st"
  "ss_idleTimer (detach st) = None" "ss_idleDeadline (detach st) = None"
  "ss_mutating (detach st) = ss_mutating st" "ss_runtimeChanging (detach st) = ss_runtimeChanging st"
  "ss_deleted (detach st) = ss_deleted st"
  by (simp_all add: detach_def cancelIdleLocked_def)

lemma cancelIdle_fields [section_simps]:
  "ss_entry (cancelIdleLocked st) = ss_entry st" "ss_session (cancelIdleLocked st) = ss_session st"
  "ss_active (cancelIdleLocked st) = ss_active st" "ss_idleTimer (cancelIdleLocked st) = None"
  "ss_idleDeadline (cancelIdleLocked st) = None" "ss_generation (cancelIdleLocked st) = ss_generation st"
  "ss_mutating (cancelIdleLocked st) = ss_mutating st" "ss_runtimeChanging (cancelIdleLocked st) = ss_runtimeChanging st"
  "ss_deleted (cancelIdleLocked st) = ss_deleted st"
  by (simp_all add: cancelIdleLocked_def)

lemma attach_fields [section_simps]:
  "ss_entry (attach en c st) = ss_entry st" "ss_session (attach en c st) = Some c" "ss_active (attach en c st) = ss_active st"
  "ss_idleTimer (attach en c st) = ss_idleTimer st" "ss_idleDeadline (attach en c st) = ss_idleDeadline st"
  "ss_mutating (attach en c st) = ss_mutating st" "ss_runtimeChanging (attach en c st) = ss_runtimeChanging st"
  "ss_deleted (attach en c st) = ss_deleted st"
  by (simp_all add: attach_def)

lemma schedule_fields [section_simps]:
  "ss_entry (scheduleIdleLocked sv en st) = ss_entry st" "ss_session (scheduleIdleLocked sv en st) = ss_session st"
  "ss_active (scheduleIdleLocked sv en st) = ss_active st" "ss_generation (scheduleIdleLocked sv en st) = ss_generation st"
  "ss_mutating (scheduleIdleLocked sv en st) = ss_mutating st"
  "ss_runtimeChanging (scheduleIdleLocked sv en st) = ss_runtimeChanging st"
  "ss_deleted (scheduleIdleLocked sv en st) = ss_deleted st"
  by (simp_all add: scheduleIdleLocked_def Let_def cancelIdleLocked_def split: option.splits)

lemma schedule_if_unused_fields [section_simps]:
  "ss_entry (schedule_if_unused sv en st) = ss_entry st" "ss_session (schedule_if_unused sv en st) = ss_session st"
  "ss_active (schedule_if_unused sv en st) = ss_active st" "ss_mutating (schedule_if_unused sv en st) = ss_mutating st"
  "ss_runtimeChanging (schedule_if_unused sv en st) = ss_runtimeChanging st"
  "ss_deleted (schedule_if_unused sv en st) = ss_deleted st"
  by (simp_all add: schedule_if_unused_def section_simps)

lemma decrement_fields [section_simps]:
  "ss_entry (decrement_active st) = ss_entry st" "ss_session (decrement_active st) = ss_session st"
  "ss_active (decrement_active st) = (if 0 < ss_active st then ss_active st - 1 else ss_active st)"
  "ss_idleTimer (decrement_active st) = ss_idleTimer st" "ss_idleDeadline (decrement_active st) = ss_idleDeadline st"
  "ss_idleSequence (decrement_active st) = ss_idleSequence st" "ss_generation (decrement_active st) = ss_generation st"
  "ss_mutating (decrement_active st) = ss_mutating st" "ss_runtimeChanging (decrement_active st) = ss_runtimeChanging st"
  "ss_deleted (decrement_active st) = ss_deleted st"
  by (simp_all add: decrement_active_def)

lemma st_ok_new: "st_ok (newServerState e)"
  by (simp add: st_ok_def newServerState_def)

lemma st_ok_unarmed: "0 \<le> ss_active st \<Longrightarrow> ss_idleTimer st = None \<Longrightarrow> ss_idleDeadline st = None \<Longrightarrow> st_ok st"
  by (simp add: st_ok_def)

lemma st_ok_active: "st_ok st \<Longrightarrow> 0 \<le> ss_active st"
  by (simp add: st_ok_def)

lemma st_ok_in_use: "st_ok st \<Longrightarrow> 0 < ss_active st \<or> ss_runtimeChanging st \<or> ss_session st = None \<Longrightarrow>
    ss_idleTimer st = None \<and> ss_idleDeadline st = None"
  by (auto simp: st_ok_def split: option.splits)

lemma st_ok_detach: "st_ok st \<Longrightarrow> st_ok (detach st)"
  by (simp add: st_ok_unarmed section_simps st_ok_active)

lemma st_ok_touched [simp]: "st_ok (touched en st) = st_ok st"
  by (simp add: st_ok_def section_simps split: option.split)

lemma st_ok_snapshot [simp]: "st_ok (snd (snapshotLocked en st)) = st_ok st"
  by (simp add: st_ok_def section_simps split: option.split)

lemma st_ok_current [simp]: "st_ok (snd (currentToolsLocked en st)) = st_ok st"
  by (simp add: st_ok_def section_simps split: option.split)

lemma st_ok_mutating [simp]: "st_ok (st\<lparr>ss_mutating := b\<rparr>) = st_ok st"
  by (simp add: st_ok_def split: option.split)

lemma st_ok_schedule: "0 \<le> ss_active st \<Longrightarrow> st_ok (scheduleIdleLocked sv en st)"
  by (auto simp: st_ok_def scheduleIdleLocked_def cancelIdleLocked_def Let_def split: option.splits)

lemma st_ok_schedule_if_unused:
  "0 \<le> ss_active st \<Longrightarrow> (0 < ss_active st \<Longrightarrow> st_ok st) \<Longrightarrow> st_ok (schedule_if_unused sv en st)"
  by (auto simp: schedule_if_unused_def st_ok_schedule)

lemma drop_stale_ok: "drop_stale en st = (stale, st') \<Longrightarrow> st_ok st \<Longrightarrow> st_ok st'"
  by (auto simp: drop_stale_def st_ok_detach split: option.splits if_splits)

lemma drop_stale_fields:
  assumes "drop_stale en st = (stale, st')"
  shows "ss_entry st' = ss_entry st" "ss_active st' = ss_active st" "ss_mutating st' = ss_mutating st"
    "ss_runtimeChanging st' = ss_runtimeChanging st" "ss_deleted st' = ss_deleted st"
    "ss_session st' = (if stale = None then ss_session st else None)"
  using assms by (auto simp: drop_stale_def section_simps split: option.splits if_splits)

lemma acquire_enter_fail:
  assumes "acquire_enter en st = (st', AcqFail e stale)"
  shows "st' = st \<or> st' = detach st" and "ss_active st' = ss_active st"
proof -
  obtain x st1 where d: "drop_stale en st = (x, st1)" by (cases "drop_stale en st")
  have "st1 = st \<or> st1 = detach st"
    using d by (auto simp: drop_stale_def split: option.splits if_splits)
  then show "st' = st \<or> st' = detach st"
    using assms d by (auto simp: acquire_enter_def Let_def split: if_splits)
  then show "ss_active st' = ss_active st" by (auto simp: section_simps)
qed

lemma acquire_enter_go:
  assumes "acquire_enter en st = (st', AcqGo s stale)"
  shows "\<not> ss_deleted st" "\<not> ss_mutating st" "\<not> ss_runtimeChanging st" "se_Mode (ss_entry st) \<noteq> ModeDisabled"
    "ss_active st' = ss_active st + 1" "ss_idleTimer st' = None" "ss_idleDeadline st' = None" "ss_session st' = s"
    "ss_entry st' = ss_entry st" "\<not> ss_deleted st'" "\<not> ss_mutating st'" "\<not> ss_runtimeChanging st'"
    "s = None \<Longrightarrow> se_Mode (ss_entry st) \<noteq> ModeManual"
    "s = Some c \<Longrightarrow> ss_session st = Some c \<and> \<not> en_exited en c \<and> \<not> en_changed en c"
proof -
  obtain x st1 where d: "drop_stale en st = (x, st1)" by (cases "drop_stale en st")
  note f = drop_stale_fields [OF d]
  have st': "st' = touched en ((cancelIdleLocked st1)\<lparr>ss_active := ss_active st1 + 1\<rparr>)" and s: "s = ss_session st1"
    and g: "\<not> ss_deleted st" "\<not> ss_mutating st" "\<not> ss_runtimeChanging st" "se_Mode (ss_entry st) \<noteq> ModeDisabled"
      "\<not> (se_Mode (ss_entry st1) = ModeManual \<and> ss_session st1 = None)"
    using assms d by (auto simp: acquire_enter_def Let_def section_simps split: if_splits)
  show "\<not> ss_deleted st" "\<not> ss_mutating st" "\<not> ss_runtimeChanging st" "se_Mode (ss_entry st) \<noteq> ModeDisabled"
    by (fact g)+
  show "ss_active st' = ss_active st + 1" "ss_idleTimer st' = None" "ss_idleDeadline st' = None" "ss_session st' = s"
    "ss_entry st' = ss_entry st" "\<not> ss_deleted st'" "\<not> ss_mutating st'" "\<not> ss_runtimeChanging st'"
    using g f by (simp_all add: st' s section_simps)
  show "s = None \<Longrightarrow> se_Mode (ss_entry st) \<noteq> ModeManual" using g(5) f(1) s by simp
  show "s = Some c \<Longrightarrow> ss_session st = Some c \<and> \<not> en_exited en c \<and> \<not> en_changed en c"
    using d s by (auto simp: drop_stale_def section_simps split: option.splits if_splits)
qed

lemma st_ok_acquire_enter:
  assumes "acquire_enter en st = (st', out)" and "st_ok st" shows "st_ok st'"
proof (cases out)
  case (AcqFail e stale)
  then show ?thesis using acquire_enter_fail(1) [of en st st' e stale] assms st_ok_detach by auto
next
  case (AcqGo s stale)
  note go = acquire_enter_go [OF assms(1) [unfolded AcqGo]]
  show ?thesis using go(5-7) st_ok_active [OF assms(2)] by (intro st_ok_unarmed) auto
qed

lemma st_ok_decrement:
  assumes "st_ok st" shows "st_ok (decrement_active st)"
proof (cases "0 < ss_active st")
  case True
  then have "ss_idleTimer st = None \<and> ss_idleDeadline st = None" using st_ok_in_use [OF assms] by blast
  with True show ?thesis by (intro st_ok_unarmed) (simp_all add: decrement_active_def)
qed (use assms in \<open>simp add: decrement_active_def\<close>)

lemma st_ok_acquire_abandon: "st_ok st \<Longrightarrow> st_ok (acquire_abandon en st)"
  by (simp add: acquire_abandon_def st_ok_decrement)

lemma st_ok_attach:
  assumes "st_ok st" and "ss_idleTimer st = None" shows "st_ok (attach en c st)"
  using assms by (intro st_ok_unarmed) (auto simp: section_simps st_ok_def)

lemma st_ok_acquire_install:
  assumes "acquire_install en c st = (st', out)" and "st_ok st" and "0 < ss_active st"
  shows "st_ok st'"
  using assms st_ok_in_use [OF assms(2)]
  by (auto simp: acquire_install_def Let_def st_ok_acquire_abandon st_ok_attach split: if_splits)

lemma st_ok_release: "st_ok st \<Longrightarrow> st_ok (release_state sv en st)"
  unfolding release_state_def
  by (rule st_ok_schedule_if_unused) (auto simp: st_ok_decrement dest: st_ok_decrement st_ok_active intro: st_ok_active)

lemma start_enter_go:
  assumes "start_enter en st = (st', StartGo stale)"
  shows "ss_runtimeChanging st'" "ss_session st' = None" "ss_active st' = ss_active st" "ss_entry st' = ss_entry st"
    "\<not> ss_deleted st" "\<not> ss_mutating st" "se_Mode (ss_entry st) \<noteq> ModeDisabled" "\<not> ss_deleted st'" "\<not> ss_mutating st'"
    "ss_idleTimer st' = None" "ss_idleDeadline st' = None"
proof -
  obtain x st1 where d: "drop_stale en st = (x, st1)" by (cases "drop_stale en st")
  note f = drop_stale_fields [OF d]
  have st': "st' = cancelIdleLocked (st1\<lparr>ss_runtimeChanging := True\<rparr>)" and n: "ss_session st1 = None"
    and g: "\<not> ss_deleted st" "\<not> ss_mutating st" "se_Mode (ss_entry st) \<noteq> ModeDisabled"
    using assms d by (auto simp: start_enter_def Let_def split_beta split: if_splits)
  show "\<not> ss_deleted st" "\<not> ss_mutating st" "se_Mode (ss_entry st) \<noteq> ModeDisabled" by (fact g)+
  show "ss_runtimeChanging st'" "ss_session st' = None" "ss_active st' = ss_active st" "ss_entry st' = ss_entry st"
    "\<not> ss_deleted st'" "\<not> ss_mutating st'" "ss_idleTimer st' = None" "ss_idleDeadline st' = None"
    using g f n by (simp_all add: st' section_simps)
qed

lemma start_enter_stay:
  assumes "start_enter en st = (st', out)" and "\<And>stale. out \<noteq> StartGo stale"
  shows "st' = st \<or> st' = snd (snapshotLocked en st)"
proof -
  obtain x st1 where d: "drop_stale en st = (x, st1)" by (cases "drop_stale en st")
  have "ss_session st1 \<noteq> None \<Longrightarrow> st1 = st"
    using d by (auto simp: drop_stale_def section_simps split: option.splits if_splits)
  then show ?thesis
    using assms d by (auto simp: start_enter_def Let_def split_beta split: if_splits)
qed

lemma st_ok_start_enter:
  assumes "start_enter en st = (st', out)" and "st_ok st" shows "st_ok st'"
proof (cases "\<exists>stale. out = StartGo stale")
  case True
  then obtain stale where "out = StartGo stale" by blast
  note go = start_enter_go [OF assms(1) [unfolded this]]
  show ?thesis using go(3,10,11) st_ok_active [OF assms(2)] by (intro st_ok_unarmed) auto
next
  case False
  then show ?thesis using start_enter_stay [OF assms(1)] assms(2) by auto
qed

lemma st_ok_changing_off: "st_ok st \<Longrightarrow> ss_runtimeChanging st \<Longrightarrow> st_ok (st\<lparr>ss_runtimeChanging := False\<rparr>)"
  using st_ok_in_use [of st] by (intro st_ok_unarmed) (simp_all add: st_ok_active)

lemma st_ok_detached: "st_ok st \<Longrightarrow> st_ok ((detach st)\<lparr>ss_runtimeChanging := b\<rparr>)"
  by (rule st_ok_unarmed) (simp_all add: section_simps st_ok_active)

lemma st_ok_start_abort: "st_ok st \<Longrightarrow> ss_runtimeChanging st \<Longrightarrow> st_ok (snd (start_abort en st))"
  by (simp add: start_abort_def st_ok_changing_off)

lemma st_ok_start_install: "st_ok st \<Longrightarrow> ss_runtimeChanging st \<Longrightarrow> st_ok (snd (start_install sv en c st))"
proof -
  assume st: "st_ok st" "ss_runtimeChanging st"
  then have "ss_idleTimer st = None" "ss_idleDeadline st = None" using st_ok_in_use by auto
  with st have "st_ok ((attach en c st)\<lparr>ss_runtimeChanging := False\<rparr>)"
    by (intro st_ok_unarmed) (simp_all add: section_simps st_ok_active)
  then show ?thesis
    unfolding start_install_def by (auto intro!: st_ok_schedule_if_unused dest: st_ok_active)
qed

lemma st_ok_stop_check: "stop_check en st = (st', out) \<Longrightarrow> st_ok st \<Longrightarrow> st_ok st'"
  by (auto simp: stop_check_def Let_def split_beta split: if_splits)

lemma st_ok_restart_check: "restart_check en st = (st', out) \<Longrightarrow> st_ok st \<Longrightarrow> st_ok st'"
  by (auto simp: restart_check_def Let_def split_beta split: if_splits)

lemma st_ok_stop_enter: "stop_enter en ms st = (st', out) \<Longrightarrow> st_ok st \<Longrightarrow> st_ok st'"
  by (auto simp: stop_enter_def Let_def split_beta st_ok_detached split: if_splits)

lemma st_ok_restart_enter: "restart_enter en st = (st', out) \<Longrightarrow> st_ok st \<Longrightarrow> st_ok st'"
  by (auto simp: restart_enter_def Let_def split_beta st_ok_detached split: if_splits)

lemma stop_enter_go:
  assumes "stop_enter en ms st = (st', StopGo old)"
  shows "ss_idleTimer st' = None" "ss_idleDeadline st' = None" "ss_active st' = ss_active st" "old = ss_session st"
  using assms by (auto simp: stop_enter_def Let_def split_beta section_simps split: if_splits)

lemma st_ok_stop_finish: "st_ok st \<Longrightarrow> ss_idleTimer st = None \<Longrightarrow> st_ok (snd (stop_finish en st))"
  by (simp add: stop_finish_def) (simp add: st_ok_def)

lemma restart_enter_go:
  assumes "restart_enter en st = (st', StopGo old)"
  shows "ss_runtimeChanging st'" "old = ss_session st" "ss_active st' = ss_active st" "ss_entry st' = ss_entry st"
  using assms by (auto simp: restart_enter_def Let_def split_beta section_simps split: if_splits)

lemma st_ok_watch_fire: "watch_fire sv en g c st = (st', out) \<Longrightarrow> st_ok st \<Longrightarrow> st_ok st'"
  by (auto simp: watch_fire_def st_ok_detach split: if_splits)

lemma st_ok_idle_detach: "st_ok st \<Longrightarrow> st_ok (detach (st\<lparr>ss_runtimeChanging := b\<rparr>))"
  by (rule st_ok_unarmed) (simp_all add: section_simps st_ok_active)

lemma st_ok_idle_enter: "idle_enter sv en t st = (st', out) \<Longrightarrow> st_ok st \<Longrightarrow> st_ok st'"
  by (auto simp: idle_enter_def st_ok_schedule st_ok_active st_ok_idle_detach split: if_splits)

lemma idle_enter_go:
  assumes "idle_enter sv en t st = (st', True)"
  shows "ss_active st = 0" "ss_idleTimer st' = None" "ss_idleDeadline st' = None" "ss_active st' = 0"
    "ss_session st = Some (it_session t)" "ss_session st' = None" "\<not> ss_mutating st" "\<not> ss_runtimeChanging st"
    "case ss_idleDeadline st of None \<Rightarrow> True | Some d \<Rightarrow> d \<le> en_now en"
  using assms by (auto simp: idle_enter_def section_simps split: if_splits option.splits)

lemma st_ok_idle_finish: "st_ok st \<Longrightarrow> ss_idleTimer st = None \<Longrightarrow> st_ok (idle_finish en st)"
  by (simp add: idle_finish_def) (simp add: st_ok_def)

section \<open>The heap\<close>

lemma get_set_state [simp]: "p < length (sv_heap sv) \<Longrightarrow> get_state (set_state p st sv) q = (if p = q then st else get_state sv q)"
  by (simp add: get_state_def set_state_def nth_list_update)

lemma set_state_fields [simp]:
  "length (sv_heap (set_state p st sv)) = length (sv_heap sv)" "sv_states (set_state p st sv) = sv_states sv"
  "sv_closing (set_state p st sv) = sv_closing sv" "sv_pending (set_state p st sv) = sv_pending sv"
  "sv_closed (set_state p st sv) = sv_closed sv" "sv_defaultIdle (set_state p st sv) = sv_defaultIdle sv"
  "sv_maxTaskLease (set_state p st sv) = sv_maxTaskLease sv"
  by (simp_all add: set_state_def)

lemma closeRuntime_fields [simp]:
  "sv_heap (closeRuntime s sv) = sv_heap sv" "sv_states (closeRuntime s sv) = sv_states sv"
  "sv_closing (closeRuntime s sv) = sv_closing sv" "sv_pending (closeRuntime s sv) = sv_pending sv"
  "sv_closed (closeRuntime s sv) = sv_closed sv @ (case s of None \<Rightarrow> [] | Some c \<Rightarrow> [c])"
  "sv_defaultIdle (closeRuntime s sv) = sv_defaultIdle sv" "sv_maxTaskLease (closeRuntime s sv) = sv_maxTaskLease sv"
  "get_state (closeRuntime s sv) q = get_state sv q"
  by (simp_all add: closeRuntime_def get_state_def split: option.splits)

lemma set_state_same: "p < length (sv_heap sv) \<Longrightarrow> set_state p (get_state sv p) sv = sv"
  by (simp add: set_state_def get_state_def)

lemma sv_ok_get: "sv_ok sv \<Longrightarrow> p < length (sv_heap sv) \<Longrightarrow> st_ok (get_state sv p)"
  by (simp add: sv_ok_def get_state_def list_all_length)

lemma sv_ok_set: "sv_ok sv \<Longrightarrow> st_ok st \<Longrightarrow> sv_ok (set_state p st sv)"
  by (auto simp: sv_ok_def set_state_def list_all_iff dest!: set_update_subset_insert [THEN subsetD])

lemma sv_ok_close [simp]: "sv_ok (closeRuntime s sv) = sv_ok sv"
  by (simp add: sv_ok_def)

lemma lookup_bound: "sv_ok sv \<Longrightarrow> Service_lookup sv k = Inr p \<Longrightarrow> p < length (sv_heap sv) \<and> (k, p) \<in> set (sv_states sv)"
  by (auto simp: Service_lookup_def sv_ok_def list_all_iff split: option.splits dest!: map_of_SomeD)

end
