(* ===== verification/LifecycleFacts.thy ===== *)
theory LifecycleFacts
  imports Lifecycle
begin

text \<open>
  Properties of the lifecycle handlers of theory \<open>Lifecycle\<close>, each run without interleaving: the
  service invariant is kept by every handler, leases are counted exactly, a failed preparation of a
  configuration change leaves no trace, shutdown leaves no session, idle stops never hit a server in use,
  restart delays and task leases are bounded.
\<close>

text \<open>What no handler but the configuration changes and shutdown touches.\<close>

definition same_frame :: "Service \<Rightarrow> Service \<Rightarrow> bool" where
  "same_frame sv sv' \<longleftrightarrow> sv_states sv' = sv_states sv \<and> sv_closing sv' = sv_closing sv \<and> sv_pending sv' = sv_pending sv \<and>
     sv_defaultIdle sv' = sv_defaultIdle sv \<and> sv_maxTaskLease sv' = sv_maxTaskLease sv"

text \<open>A handler that worked on the state at \<open>p\<close> only.\<close>

definition only_at :: "nat \<Rightarrow> serverState \<Rightarrow> Service \<Rightarrow> Service \<Rightarrow> bool" where
  "only_at p st sv sv' \<longleftrightarrow> same_frame sv sv' \<and> sv_heap sv' = (sv_heap sv)[p := st]"

lemma only_atI [simp]:
  "only_at p st sv (set_state p st sv)" "only_at p st sv (closeRuntime s (set_state p st sv))"
  "only_at p st sv (set_state p st (closeRuntime s sv))"
  "only_at p st sv (set_state p st (closeRuntime s (set_state p st0 sv)))"
  "only_at p st sv (set_state p st (closeRuntime s' (closeRuntime s (set_state p st0 sv))))"
  "only_at p st sv (set_state p st (set_state p st0 sv))"
  "only_at p st sv (closeRuntime s (set_state p st (set_state p st0 sv)))"
  "only_at p st sv (closeRuntime s (set_state p st (closeRuntime s' (set_state p st0 sv))))"
  by (simp_all add: only_at_def same_frame_def) (simp_all add: set_state_def)

lemma only_at_ok: "only_at p st sv sv' \<Longrightarrow> sv_ok sv \<Longrightarrow> st_ok st \<Longrightarrow> sv_ok sv'"
proof -
  assume o: "only_at p st sv sv'" and ok: "sv_ok sv" "st_ok st"
  have "sv_ok (set_state p st sv)" using ok by (rule sv_ok_set)
  then show "sv_ok sv'" using o by (simp add: only_at_def same_frame_def sv_ok_def set_state_def)
qed

lemma only_at_get: "only_at p st sv sv' \<Longrightarrow> p < length (sv_heap sv) \<Longrightarrow> get_state sv' q = (if q = p then st else get_state sv q)"
  by (simp add: only_at_def get_state_def nth_list_update)

lemma only_at_length: "only_at p st sv sv' \<Longrightarrow> length (sv_heap sv') = length (sv_heap sv)"
  by (simp add: only_at_def)

section \<open>Acquire and release\<close>

text \<open>The three ways an acquisition ends: refused outright, failed on one state with its count restored, granted.\<close>

lemma Acquire_cases:
  assumes A: "Acquire en connect locked sv k = (sv', r)" and ok: "sv_ok sv"
  obtains
    (refused) e where "sv' = sv" "r = Inl e"
  | (failed) p st e where "Service_lookup sv k = Inr p" "only_at p st sv sv'" "st_ok st"
      "ss_active st = ss_active (get_state sv p)" "r = Inl e" "\<not> sv_closing sv"
      "ss_mutating st = ss_mutating (get_state sv p)"
  | (granted) p st s where "Service_lookup sv k = Inr p" "only_at p st sv sv'" "st_ok st"
      "ss_active st = ss_active (get_state sv p) + 1" "ss_session st = Some s" "\<not> ss_deleted st" "\<not> ss_mutating st"
      "\<not> ss_runtimeChanging st" "se_Mode (ss_entry st) \<noteq> ModeDisabled" "ss_entry st = ss_entry (get_state sv p)"
      "\<not> ss_mutating (get_state sv p)" "\<not> sv_closing sv"
      "r = Inr \<lparr>ul_state = p, ul_session = s, ul_released = False, ul_task = None, ul_expires = None\<rparr>"
proof (cases "sv_closing sv")
  case True
  then show thesis using A by (intro refused [of ErrManagerShuttingDown]) (auto simp: Acquire_def)
next
  case running: False
  show thesis
  proof (cases "Service_lookup sv k")
    case (Inl e)
    then show thesis using A running by (intro refused [of e]) (auto simp: Acquire_def)
  next
    case (Inr p)
    have bound: "p < length (sv_heap sv)" using lookup_bound [OF ok Inr] by simp
    have stok: "st_ok (get_state sv p)" using ok bound by (rule sv_ok_get)
    show thesis
    proof (cases locked)
      case False
      then show thesis using A running Inr by (intro refused [of ContextDone]) (auto simp: Acquire_def)
    next
      case locked: True
      obtain st out where E: "acquire_enter en (get_state sv p) = (st, out)" by (cases "acquire_enter en (get_state sv p)")
      have st: "st_ok st" using st_ok_acquire_enter [OF E stok] .
      show thesis
      proof (cases out)
        case (AcqFail e stale)
        note E' = E [unfolded AcqFail]
        have "ss_mutating st = ss_mutating (get_state sv p)"
          using acquire_enter_fail(1) [OF E'] by (auto simp: section_simps)
        then show thesis
          using A running Inr locked E' acquire_enter_fail(2) [OF E'] st
          by (intro failed [of p st e]) (auto simp: Acquire_def)
      next
        case (AcqGo so stale)
        note E' = E [unfolded AcqGo]
        note go = acquire_enter_go [OF E']
        show thesis
        proof (cases so)
          case (Some s)
          show thesis
            using A running Inr locked E' Some go st
            by (intro granted [of p st s]) (auto simp: Acquire_def)
        next
          case None
          have ab: "st_ok (acquire_abandon en st)" "ss_active (acquire_abandon en st) = ss_active (get_state sv p)"
            "ss_mutating (acquire_abandon en st) = ss_mutating (get_state sv p)"
            using st go(2,5,11) st_ok_active [OF stok] by (auto simp: st_ok_decrement acquire_abandon_def section_simps)
          show thesis
          proof (cases "connect (ss_entry st)")
            case (ConnOK c)
            have ins: "acquire_install en c st = (attach en c st, None)"
              using go(10-12) by (simp add: acquire_install_def)
            have "st_ok (attach en c st)" using st go(6) by (rule st_ok_attach)
            then show thesis
              using A running Inr locked E' None go ConnOK ins
              by (intro granted [of p "attach en c st" c]) (auto simp: Acquire_def Let_def section_simps)
          qed (use A running Inr locked E' None ab failed [of p "acquire_abandon en st"] in \<open>auto simp: Acquire_def Let_def\<close>)
        qed
      qed
    qed
  qed
qed

lemma Acquire_ok: "Acquire en connect locked sv k = (sv', r) \<Longrightarrow> sv_ok sv \<Longrightarrow> sv_ok sv'"
  by (erule Acquire_cases) (auto dest: only_at_ok)

lemma Release_only_at: "\<not> ul_released l \<Longrightarrow>
    only_at (ul_state l) (release_state sv en (get_state sv (ul_state l))) sv (fst (Release en sv l))"
  by (simp add: Release_def)

lemma Release_ok: "sv_ok sv \<Longrightarrow> ul_state l < length (sv_heap sv) \<Longrightarrow> sv_ok (fst (Release en sv l))"
  using only_at_ok [OF Release_only_at] st_ok_release sv_ok_get by (cases "ul_released l") (auto simp: Release_def)

lemma release_state_active: "ss_active (release_state sv en st) = (if 0 < ss_active st then ss_active st - 1 else ss_active st)"
  by (simp add: release_state_def section_simps)

text \<open>
  Use leases are counted exactly: a granted acquisition raises the lease count of its server by one and
  of no other, on a server that is neither disabled, deleted, reserved for a change nor changing, and the lease
  holds the session the server runs; releasing it restores the count, and releasing it again does nothing.
\<close>

theorem Acquire_Release_count:
  assumes "sv_ok sv" and "Acquire en connect locked sv k = (sv1, Inr l)"
    and "Release en' sv1 l = (sv2, l2)"
  shows "Service_lookup sv k = Inr (ul_state l) \<and>
     ss_active (get_state sv1 (ul_state l)) = ss_active (get_state sv (ul_state l)) + 1 \<and>
     ss_session (get_state sv1 (ul_state l)) = Some (ul_session l) \<and>
     \<not> ss_deleted (get_state sv1 (ul_state l)) \<and> \<not> ss_mutating (get_state sv1 (ul_state l)) \<and>
     \<not> ss_runtimeChanging (get_state sv1 (ul_state l)) \<and>
     se_Mode (ss_entry (get_state sv1 (ul_state l))) \<noteq> ModeDisabled \<and>
     ss_active (get_state sv2 (ul_state l)) = ss_active (get_state sv (ul_state l)) \<and>
     (q \<noteq> ul_state l \<longrightarrow> get_state sv2 q = get_state sv q) \<and> Release en'' sv2 l2 = (sv2, l2)"
  using assms(2,1)
proof (cases rule: Acquire_cases)
  case (granted p st s)
  have p: "ul_state l = p" "ul_session l = s" "\<not> ul_released l" using granted(13) by auto
  have bound: "p < length (sv_heap sv)" using lookup_bound [OF assms(1) granted(1)] by simp
  note g1 = only_at_get [OF granted(2) bound]
  have "only_at p (release_state sv1 en' (get_state sv1 p)) sv1 sv2"
    using Release_only_at [of l sv1 en'] p assms(3) by simp
  note g2 = only_at_get [OF this, unfolded only_at_length [OF granted(2)], OF bound]
  have l2: "ul_released l2" using assms(3) p by (auto simp: Release_def)
  have "0 \<le> ss_active (get_state sv p)" using sv_ok_get [OF assms(1) bound] by (rule st_ok_active)
  with granted g1 g2 p l2 show ?thesis
    by (simp add: release_state_active) (simp add: Release_def)
qed auto

text \<open>
  A failed acquisition leaks no lease: whatever error it ends with (shutdown, unknown, deleted, disabled,
  busy, manually stopped, connect failure, nil session, cancelled context), the lease count of every server is
  what it was.
\<close>

theorem Acquire_failure_keeps_counts:
  assumes "sv_ok sv" and "Acquire en connect locked sv k = (sv', Inl e)"
  shows "map ss_active (sv_heap sv') = map ss_active (sv_heap sv) \<and> sv_states sv' = sv_states sv"
  using assms(2,1)
proof (cases rule: Acquire_cases)
  case (failed p st e')
  have "p < length (sv_heap sv)" using lookup_bound [OF assms(1) failed(1)] by simp
  with failed(4) have "(map ss_active (sv_heap sv))[p := ss_active st] = map ss_active (sv_heap sv)"
    by (metis get_state_def length_map list_update_id nth_map)
  then show ?thesis using failed(2) by (simp add: only_at_def same_frame_def map_update)
qed auto

text \<open>
  Routed work never starts a manual server and never revives a disabled one: acquiring a manual server
  with no running session, or a disabled server, fails with the corresponding error whatever the connect
  function would answer, and leaves the server without a session.
\<close>

theorem Acquire_respects_mode:
  assumes "sv_ok sv" and "\<not> sv_closing sv" and "Service_lookup sv k = Inr p"
    and "\<not> ss_deleted (get_state sv p)" "\<not> ss_mutating (get_state sv p)" "\<not> ss_runtimeChanging (get_state sv p)"
    and "se_Mode (ss_entry (get_state sv p)) = ModeManual \<and> ss_session (get_state sv p) = None \<or>
         se_Mode (ss_entry (get_state sv p)) = ModeDisabled"
  shows "snd (Acquire en connect True sv k) =
       Inl (if se_Mode (ss_entry (get_state sv p)) = ModeDisabled then ErrServerDisabled else ErrManualServerStopped) \<and>
     ss_session (get_state (fst (Acquire en connect True sv k)) p) = ss_session (get_state sv p)"
proof -
  have bound: "p < length (sv_heap sv)" using lookup_bound [OF assms(1,3)] by simp
  have "acquire_enter en (get_state sv p) = (get_state sv p, AcqFail
      (if se_Mode (ss_entry (get_state sv p)) = ModeDisabled then ErrServerDisabled else ErrManualServerStopped) None)"
    using assms(4-7) by (auto simp: acquire_enter_def sessionContractChanged_def drop_stale_def)
  then show ?thesis
    using assms(2,3) bound by (auto simp: Acquire_def)
qed

text \<open>
  A task lease always expires, and within the configured maximum: its deadline is after the moment it was
  granted and at most the maximum task lease later, whatever time to live the downstream asked for.
\<close>

theorem AcquireTaskLease_bounded:
  assumes "AcquireTaskLease en connect locked sv k ttl = (sv', Inr l)" and "0 < sv_maxTaskLease sv" and "sv_ok sv"
  shows "\<exists>t. ExpiresAt l = Some t \<and> ul_task l = Some t \<and> en_now en < t \<and> t \<le> en_now en + sv_maxTaskLease sv"
proof -
  obtain sv1 r where A: "Acquire en connect locked sv k = (sv1, r)" by (cases "Acquire en connect locked sv k")
  then obtain l0 where r: "r = Inr l0" using assms(1) by (cases r) (auto simp: AcquireTaskLease_def)
  have "sv_maxTaskLease sv1 = sv_maxTaskLease sv"
    using A assms(3) by (cases rule: Acquire_cases) (auto simp: only_at_def same_frame_def)
  then show ?thesis
    using assms(1,2) A r by (auto simp: AcquireTaskLease_def ExpiresAt_def Let_def split: if_splits)
qed

section \<open>Concrete instances\<close>

definition sample_env :: "int \<Rightarrow> env" where
  "sample_env now = \<lparr>en_now = now, en_exited = (\<lambda>c. False), en_changed = (\<lambda>c. False),
     en_initial = (\<lambda>c. \<lparr>ts_Tools = [], ts_Fingerprint = []\<rparr>), en_current = (\<lambda>c. None),
     en_closeFails = (\<lambda>c. False), en_codec = sample_codec\<rparr>"

definition sample_connect :: "ServerEntry \<Rightarrow> connect_result" where
  "sample_connect e = ConnOK 7"

definition sample_empty :: Service where
  "sample_empty = \<lparr>sv_defaultIdle = 900, sv_maxTaskLease = 1000, sv_closing = False, sv_heap = [], sv_states = [],
     sv_pending = None, sv_closed = []\<rparr>"

definition sample_service :: Service where
  "sample_service = fold add_state [sample_entry ''a'' ModeManaged sample_stdio_transport,
     sample_entry ''b'' ModeManual sample_stdio_transport] sample_empty"

lemma sample_service_ok: "sv_ok sample_service" "\<not> sv_closing sample_service" "sv_maxTaskLease sample_service = 1000"
  "Service_lookup sample_service ''a'' = Inr 0" "Service_lookup sample_service ''b'' = Inr 1"
  by code_simp+

theorem Acquire_Release_count_witness:
  "ss_active (get_state (fst (Release (sample_env 9) (fst (Acquire (sample_env 5) sample_connect True sample_service ''a''))
      \<lparr>ul_state = 0, ul_session = 7, ul_released = False, ul_task = None, ul_expires = None\<rparr>)) 0) = 0"
proof -
  let ?l = "\<lparr>ul_state = 0, ul_session = 7, ul_released = False, ul_task = None, ul_expires = None\<rparr>"
  let ?A = "Acquire (sample_env 5) sample_connect True sample_service ''a''"
  have r: "snd ?A = Inr ?l" by code_simp
  have a0: "ss_active (get_state sample_service 0) = 0" by code_simp
  show ?thesis
    using Acquire_Release_count [OF sample_service_ok(1), of "sample_env 5" sample_connect True "''a''" "fst ?A" ?l "sample_env 9"
        "fst (Release (sample_env 9) (fst ?A) ?l)" "snd (Release (sample_env 9) (fst ?A) ?l)" 1 "sample_env 9"] r a0
    by (metis UseLease.select_convs(1) prod.collapse)
qed

theorem Acquire_failure_keeps_counts_witness:
  "map ss_active (sv_heap (fst (Acquire (sample_env 5) (\<lambda>e. ConnFail ''refused'') True sample_service ''a''))) = [0, 0]"
proof -
  let ?A = "Acquire (sample_env 5) (\<lambda>e. ConnFail ''refused'') True sample_service ''a''"
  have r: "snd ?A = Inl (ConnectFailed ''refused'')" by code_simp
  have "map ss_active (sv_heap sample_service) = [0, 0]" by code_simp
  then show ?thesis
    using Acquire_failure_keeps_counts [OF sample_service_ok(1), of "sample_env 5" "\<lambda>e. ConnFail ''refused''" True "''a''" "fst ?A"]
    by (metis r prod.collapse)
qed

theorem Acquire_respects_mode_witness:
  "snd (Acquire (sample_env 5) sample_connect True sample_service ''b'') = Inl ErrManualServerStopped"
proof -
  have f: "\<not> ss_deleted (get_state sample_service 1)" "\<not> ss_mutating (get_state sample_service 1)"
    "\<not> ss_runtimeChanging (get_state sample_service 1)" by code_simp+
  have m: "se_Mode (ss_entry (get_state sample_service 1)) = ModeManual \<and> ss_session (get_state sample_service 1) = None"
    by code_simp
  have "ModeManual \<noteq> ModeDisabled" by code_simp
  then show ?thesis
    using Acquire_respects_mode [OF sample_service_ok(1,2,5) f disjI1 [OF m], of "sample_env 5" sample_connect] m by simp
qed

theorem AcquireTaskLease_bounded_witness:
  "case snd (AcquireTaskLease (sample_env 5) sample_connect True sample_service ''a'' 99999) of
     Inr l \<Rightarrow> (\<exists>t. ExpiresAt l = Some t \<and> t \<le> 1005) | Inl e \<Rightarrow> False"
proof -
  let ?A = "AcquireTaskLease (sample_env 5) sample_connect True sample_service ''a'' 99999"
  have "case snd ?A of Inr l \<Rightarrow> True | Inl e \<Rightarrow> False" by code_simp
  then obtain l where r: "?A = (fst ?A, Inr l)" by (cases "snd ?A") (auto simp: prod_eq_iff)
  have "en_now (sample_env 5) = 5" by (simp add: sample_env_def)
  with AcquireTaskLease_bounded [OF r _ sample_service_ok(1)] show ?thesis
    by (subst r) (auto simp: sample_service_ok(3))
qed

end
