(* ===== verification/LifecycleRun.thy ===== *)
theory LifecycleRun
  imports LifecycleFacts
begin

text \<open>
  Runs of the lifecycle service: any sequence of its handlers, in any order and in any environment, from a
  freshly created service. Every handler but a granted acquisition and a release is quiet: it keeps the
  service invariant, the lease counts and the rule that a server reserved for a configuration change has no
  lease. The lease counts of a run therefore equal the number of leases handed out and not yet released.
\<close>

definition leases_at :: "Service \<Rightarrow> nat \<Rightarrow> int" where
  "leases_at sv p = (if p < length (sv_heap sv) then ss_active (get_state sv p) else 0)"

definition reserved_ok :: "Service \<Rightarrow> bool" where
  "reserved_ok sv \<longleftrightarrow> list_all (\<lambda>st. ss_mutating st \<longrightarrow> ss_active st = 0) (sv_heap sv)"

definition quiet :: "Service \<Rightarrow> Service \<Rightarrow> bool" where
  "quiet sv sv' \<longleftrightarrow> sv_ok sv' \<and> length (sv_heap sv) \<le> length (sv_heap sv') \<and> leases_at sv' = leases_at sv \<and>
     (reserved_ok sv \<longrightarrow> reserved_ok sv')"

text \<open>A new value for a server state that neither moves its lease count nor reserves a server in use.\<close>

definition calm :: "serverState \<Rightarrow> serverState \<Rightarrow> bool" where
  "calm old st \<longleftrightarrow> st_ok st \<and> ss_active st = ss_active old \<and> (ss_mutating st \<longrightarrow> ss_mutating old \<or> ss_active old = 0)"

lemma quiet_refl [simp]: "sv_ok sv \<Longrightarrow> quiet sv sv"
  by (simp add: quiet_def)

lemma quiet_trans: "quiet sv sv1 \<Longrightarrow> quiet sv1 sv2 \<Longrightarrow> quiet sv sv2"
  by (auto simp: quiet_def)

lemma quiet_ok: "quiet sv sv' \<Longrightarrow> sv_ok sv'" and quiet_length: "quiet sv sv' \<Longrightarrow> length (sv_heap sv) \<le> length (sv_heap sv')"
  by (auto simp: quiet_def)

lemma quiet_bound: "quiet sv sv' \<Longrightarrow> p < length (sv_heap sv) \<Longrightarrow> p < length (sv_heap sv')"
  by (auto simp: quiet_def)

lemma reserved_ok_get: "reserved_ok sv \<Longrightarrow> p < length (sv_heap sv) \<Longrightarrow> ss_mutating (get_state sv p) \<Longrightarrow> ss_active (get_state sv p) = 0"
  by (simp add: reserved_ok_def list_all_length get_state_def)

lemma quiet_only_at:
  assumes "only_at p st sv sv'" and "sv_ok sv" and "p < length (sv_heap sv)" and "calm (get_state sv p) st"
  shows "quiet sv sv'"
proof -
  have st: "st_ok st" "ss_active st = ss_active (get_state sv p)"
    and m: "ss_mutating st \<Longrightarrow> ss_mutating (get_state sv p) \<or> ss_active (get_state sv p) = 0"
    using assms(4) by (auto simp: calm_def)
  have len: "length (sv_heap sv') = length (sv_heap sv)" using assms(1) by (rule only_at_length)
  note get = only_at_get [OF assms(1,3)]
  have "leases_at sv' = leases_at sv" by (rule ext) (simp add: leases_at_def len get st)
  moreover have "reserved_ok sv'" if r: "reserved_ok sv"
    unfolding reserved_ok_def list_all_length len
  proof (intro allI impI)
    fix n assume n: "n < length (sv_heap sv)" "ss_mutating (sv_heap sv' ! n)"
    then show "ss_active (sv_heap sv' ! n) = 0"
      using reserved_ok_get [OF r, of n] m st get [of n] by (auto simp: get_state_def split: if_splits)
  qed
  ultimately show ?thesis using only_at_ok [OF assms(1,2) st(1)] len by (simp add: quiet_def)
qed

lemma leases_at_close [simp]: "leases_at (closeRuntime s sv) = leases_at sv"
  by (rule ext) (auto simp: leases_at_def)

lemma leases_at_frame [simp]:
  "leases_at (sv\<lparr>sv_pending := x\<rparr>) = leases_at sv" "leases_at (sv\<lparr>sv_closing := b\<rparr>) = leases_at sv"
  "leases_at (sv\<lparr>sv_states := m\<rparr>) = leases_at sv"
  by (auto simp: leases_at_def get_state_def)

lemma quiet_close [simp]: "quiet sv (closeRuntime s sv') = quiet sv sv'"
  by (simp add: quiet_def reserved_ok_def)

lemmas quiet_sets = only_atI [THEN quiet_only_at]

lemma quiet_set: "sv_ok sv \<Longrightarrow> p < length (sv_heap sv) \<Longrightarrow> calm (get_state sv p) st \<Longrightarrow> quiet sv (set_state p st sv)"
  by (rule quiet_only_at [OF only_atI(1)])

section \<open>The handlers are quiet\<close>

lemma calm_refl: "st_ok st \<Longrightarrow> calm st st"
  by (simp add: calm_def)

lemma calm_snapshot: "st_ok st \<Longrightarrow> calm st (snd (snapshotLocked en st))"
  by (simp add: calm_def section_simps)

lemma calm_current: "st_ok st \<Longrightarrow> calm st (snd (currentToolsLocked en st))"
  by (simp add: calm_def section_simps)

lemma calm_touched: "st_ok st \<Longrightarrow> calm st (touched en st)"
  by (simp add: calm_def section_simps)

lemma quiet_touch: "sv_ok sv \<Longrightarrow> ul_released l \<or> ul_state l < length (sv_heap sv) \<Longrightarrow> quiet sv (lease_touch en sv l)"
  by (auto simp: lease_touch_def intro!: quiet_set calm_touched sv_ok_get)

lemma quiet_CallTool:
  assumes "sv_ok sv" and "ul_released l \<or> ul_state l < length (sv_heap sv)"
  shows "quiet sv (fst (lease_CallTool en sv l call))"
proof -
  have "quiet sv (lease_touch en sv l)" using assms by (rule quiet_touch)
  moreover from this have "quiet (lease_touch en sv l) (lease_touch en (lease_touch en sv l) l)"
    using assms(2) by (intro quiet_touch) (auto simp: quiet_def)
  ultimately have "quiet sv (lease_touch en (lease_touch en sv l) l)" by (rule quiet_trans)
  then show ?thesis using assms(1) by (simp add: lease_CallTool_def Let_def)
qed

lemma quiet_continuation:
  assumes "sv_ok sv" and "ul_released l \<or> ul_state l < length (sv_heap sv)"
  shows "quiet sv (fst (lease_continuation en sv l supported feature call))"
proof -
  have "quiet sv (lease_touch en sv l)" using assms by (rule quiet_touch)
  moreover from this have "quiet (lease_touch en sv l) (lease_touch en (lease_touch en sv l) l)"
    using assms(2) by (intro quiet_touch) (auto simp: quiet_def)
  ultimately have "quiet sv (lease_touch en (lease_touch en sv l) l)" by (rule quiet_trans)
  then show ?thesis using assms(1) by (simp add: lease_continuation_def taskRuntime_def Let_def)
qed

lemma quiet_Snapshot: "sv_ok sv \<Longrightarrow> quiet sv (fst (Service_Snapshot en sv k))"
  by (auto simp: Service_Snapshot_def Let_def split_beta split: sum.splits
      intro!: quiet_set calm_snapshot sv_ok_get dest: lookup_bound)

lemma quiet_KnownTools: "sv_ok sv \<Longrightarrow> quiet sv (fst (KnownTools en sv k))"
  by (auto simp: KnownTools_def Let_def split_beta split: sum.splits
      intro!: quiet_set calm_current sv_ok_get dest: lookup_bound)

lemma quiet_snapshots_loop:
  "sv_ok sv \<Longrightarrow> list_all (\<lambda>p. p < length (sv_heap sv)) ps \<Longrightarrow> quiet sv (fst (snapshots_loop en sv ps))"
proof (induction en sv ps rule: snapshots_loop.induct)
  case (2 en sv p ps)
  let ?sv1 = "set_state p (snd (snapshotLocked en (get_state sv p))) sv"
  have q: "quiet sv ?sv1" using 2 by (auto intro!: quiet_set calm_snapshot sv_ok_get)
  show ?case
  proof (cases "ss_deleted (get_state sv p)")
    case True
    then show ?thesis using 2 by simp
  next
    case False
    have "quiet ?sv1 (fst (snapshots_loop en ?sv1 ps))"
      using 2(2) [OF False refl, of "fst (snapshotLocked en (get_state sv p))" "snd (snapshotLocked en (get_state sv p))"]
        quiet_ok [OF q] 2(4) by simp
    with q have "quiet sv (fst (snapshots_loop en ?sv1 ps))" by (rule quiet_trans)
    then show ?thesis using False by (simp add: Let_def split_beta)
  qed
qed simp

lemma sv_ok_states: "sv_ok sv \<Longrightarrow> list_all (\<lambda>p. p < length (sv_heap sv)) (map snd (sv_states sv))"
  by (auto simp: sv_ok_def list_all_iff)

lemma quiet_Snapshots: "sv_ok sv \<Longrightarrow> quiet sv (fst (Snapshots en sv))"
  using quiet_snapshots_loop [OF _ sv_ok_states] by (simp add: Snapshots_def split_beta)

lemma calm_start_enter: "start_enter en st = (st', out) \<Longrightarrow> st_ok st \<Longrightarrow> calm st st'"
proof -
  assume e: "start_enter en st = (st', out)" and st: "st_ok st"
  have "ss_active st' = ss_active st \<and> (ss_mutating st' \<longrightarrow> ss_mutating st)"
  proof (cases "\<exists>s. out = StartGo s")
    case True
    then show ?thesis using e start_enter_go [of en st st'] by auto
  next
    case False
    then show ?thesis using start_enter_stay [OF e] by (auto simp: section_simps)
  qed
  then show "calm st st'" using st_ok_start_enter [OF e st] by (auto simp: calm_def)
qed

lemma calm_start_abort:
  "calm old st \<Longrightarrow> ss_runtimeChanging st \<Longrightarrow> calm old (snd (start_abort en st))"
  using st_ok_start_abort [of st en] by (auto simp: calm_def start_abort_def section_simps)

lemma calm_start_install:
  "calm old st \<Longrightarrow> ss_runtimeChanging st \<Longrightarrow> calm old (snd (start_install sv en c st))"
  using st_ok_start_install [of st sv en c] by (auto simp: calm_def start_install_def section_simps)

lemma calm_touched2: "calm old st \<Longrightarrow> calm old (touched en st)"
  by (simp add: calm_def section_simps)

lemma quiet_startState:
  assumes ok: "sv_ok sv" and p: "p < length (sv_heap sv)"
  shows "quiet sv (fst (startState en connect locked sv p))"
proof (cases "sv_closing sv \<or> \<not> locked")
  case True
  then show ?thesis using ok by (auto simp: startState_def)
next
  case False
  obtain st out where E: "start_enter en (get_state sv p) = (st, out)" by (cases "start_enter en (get_state sv p)")
  have c: "calm (get_state sv p) st" using E sv_ok_get [OF ok p] by (rule calm_start_enter)
  show ?thesis
  proof (cases out)
    case (StartGo stale)
    then have r: "ss_runtimeChanging st" using E start_enter_go(1) by blast
    have r': "ss_runtimeChanging (touched en st)" using r by (simp add: section_simps)
    note * = quiet_sets [OF ok p] calm_start_abort [OF c r] calm_start_install [OF c r]
      calm_start_abort [OF calm_touched2 [OF c] r']
    show ?thesis
      using False E StartGo by (auto simp: startState_def Let_def split_beta split: connect_result.split intro!: *)
  qed (use False E c quiet_set [OF ok p] in \<open>auto simp: startState_def\<close>)
qed

lemma quiet_Start: "sv_ok sv \<Longrightarrow> quiet sv (fst (Start en connect locked sv k))"
  by (auto simp: Start_def split: sum.splits intro!: quiet_startState dest: lookup_bound)

lemma calm_stop_check: "stop_check en st = (st', out) \<Longrightarrow> st_ok st \<Longrightarrow> calm st st'"
  by (auto simp: stop_check_def Let_def split_beta calm_refl calm_snapshot split: if_splits)

lemma calm_restart_check: "restart_check en st = (st', out) \<Longrightarrow> st_ok st \<Longrightarrow> calm st st'"
  by (auto simp: restart_check_def Let_def split_beta calm_refl calm_snapshot split: if_splits)

lemma calm_detached: "st_ok st \<Longrightarrow> calm st (touched en ((detach st)\<lparr>ss_runtimeChanging := b\<rparr>))"
  by (simp add: calm_def section_simps st_ok_detached)

lemma calm_stop_enter: "stop_enter en ms st = (st', out) \<Longrightarrow> st_ok st \<Longrightarrow> calm st st'"
  by (auto simp: stop_enter_def Let_def split_beta calm_refl calm_snapshot calm_detached split: if_splits)

lemma calm_restart_enter: "restart_enter en st = (st', out) \<Longrightarrow> st_ok st \<Longrightarrow> calm st st'"
  by (auto simp: restart_enter_def Let_def split_beta calm_refl calm_snapshot calm_detached split: if_splits)

lemma calm_stop_finish: "calm old st \<Longrightarrow> ss_idleTimer st = None \<Longrightarrow> calm old (snd (stop_finish en st))"
  using st_ok_stop_finish [of st en] by (auto simp: calm_def stop_finish_def section_simps)

lemma calm_trans: "calm a b \<Longrightarrow> calm b c \<Longrightarrow> calm a c"
  by (auto simp: calm_def)

lemma quiet_stopState:
  assumes ok: "sv_ok sv" and p: "p < length (sv_heap sv)"
  shows "quiet sv (fst (stopState en locked sv p ms))"
proof (cases locked)
  case True
  obtain st out where E: "stop_enter en ms (get_state sv p) = (st, out)" by (cases "stop_enter en ms (get_state sv p)")
  have c: "calm (get_state sv p) st" using E sv_ok_get [OF ok p] by (rule calm_stop_enter)
  show ?thesis
  proof (cases out)
    case (StopGo old)
    have "calm (get_state sv p) (snd (stop_finish en st))"
      using c stop_enter_go(1) E StopGo by (intro calm_stop_finish) auto
    then show ?thesis using True E StopGo ok p by (auto simp: stopState_def Let_def split_beta intro!: quiet_set)
  qed (use True E c quiet_set [OF ok p] in \<open>auto simp: stopState_def\<close>)
qed (use ok in \<open>simp add: stopState_def\<close>)

lemma quiet_Stop: assumes ok: "sv_ok sv" shows "quiet sv (fst (Stop en locked sv k))"
proof (cases "Service_lookup sv k")
  case (Inr p)
  have p: "p < length (sv_heap sv)" using lookup_bound [OF ok Inr] by simp
  obtain st out where E: "stop_check en (get_state sv p) = (st, out)" by (cases "stop_check en (get_state sv p)")
  have q: "quiet sv (set_state p st sv)" using quiet_set [OF ok p] calm_stop_check [OF E] sv_ok_get [OF ok p] by simp
  moreover have "quiet (set_state p st sv) (fst (stopState en locked (set_state p st sv) p False))"
    using quiet_ok [OF q] p by (intro quiet_stopState) auto
  ultimately have "quiet sv (fst (stopState en locked (set_state p st sv) p False))" by (rule quiet_trans)
  with q show ?thesis using Inr E by (auto simp: Stop_def split: option.split)
qed (use ok in \<open>simp add: Stop_def\<close>)

lemma quiet_Restart: assumes ok: "sv_ok sv" shows "quiet sv (fst (Restart en connect locked sv k))"
proof (cases "Service_lookup sv k")
  case (Inr p)
  have p: "p < length (sv_heap sv)" using lookup_bound [OF ok Inr] by simp
  have stok: "st_ok (get_state sv p)" using sv_ok_get [OF ok p] .
  obtain st out where E: "restart_check en (get_state sv p) = (st, out)" by (cases "restart_check en (get_state sv p)")
  have c: "calm (get_state sv p) st" using calm_restart_check [OF E stok] .
  then have q: "quiet sv (set_state p st sv)" by (rule quiet_set [OF ok p])
  show ?thesis
  proof (cases "out = None \<and> locked")
    case True
    obtain st1 o1 where E1: "restart_enter en st = (st1, o1)" by (cases "restart_enter en st")
    have c1: "calm (get_state sv p) st1" using calm_trans [OF c calm_restart_enter [OF E1]] c by (auto simp: calm_def)
    show ?thesis
    proof (cases o1)
      case (StopGo old)
      then have r: "ss_runtimeChanging st1" using E1 restart_enter_go(1) by blast
      note * = quiet_sets [OF ok p] calm_start_abort [OF c1 r] calm_start_install [OF c1 r]
      show ?thesis
        using Inr E E1 True StopGo
        by (auto simp: Restart_def Let_def split_beta split: connect_result.split option.split intro!: *)
    qed (use Inr E E1 True c1 quiet_set [OF ok p] in \<open>auto simp: Restart_def\<close>)
  qed (use Inr E q in \<open>auto simp: Restart_def split: option.split\<close>)
qed (use ok in \<open>simp add: Restart_def\<close>)

lemma quiet_start_all:
  "sv_ok sv \<Longrightarrow> list_all (\<lambda>p. p < length (sv_heap sv)) ps \<Longrightarrow> quiet sv (fst (start_all en connect sv ps))"
proof (induction ps arbitrary: sv)
  case (Cons p ps)
  let ?sv1 = "fst (startState en connect True sv p)"
  have q: "quiet sv ?sv1" using Cons.prems by (auto intro!: quiet_startState)
  moreover have "quiet ?sv1 (fst (start_all en connect ?sv1 ps))"
    using Cons quiet_ok [OF q] quiet_length [OF q] by (intro Cons.IH) (auto simp: list_all_iff dest: less_le_trans)
  ultimately have "quiet sv (fst (start_all en connect ?sv1 ps))" by (rule quiet_trans)
  then show ?case by (simp add: Let_def split_beta)
qed simp

lemma quiet_StartAlwaysOn: "sv_ok sv \<Longrightarrow> quiet sv (fst (StartAlwaysOn en connect sv))"
  unfolding StartAlwaysOn_def using sv_ok_states [of sv] by (intro quiet_start_all) (auto simp: list_all_iff)

lemma quiet_watchSession:
  assumes "sv_ok sv" and "p < length (sv_heap sv)" shows "quiet sv (fst (watchSession en locked sv p g c))"
proof -
  have "calm (get_state sv p) (touched en (detach (get_state sv p)))"
    using sv_ok_get [OF assms] by (simp add: calm_def section_simps st_ok_detach)
  then show ?thesis using assms by (auto simp: watchSession_def watch_fire_def intro!: quiet_sets)
qed

lemma quiet_maintainAlwaysOn:
  "sv_ok sv \<Longrightarrow> p < length (sv_heap sv) \<Longrightarrow> quiet sv (fst (maintainAlwaysOn rounds delay sv p))"
proof (induction rounds arbitrary: delay sv)
  case (Cons r rounds)
  obtain en connect locked where r: "r = (en, connect, locked)" by (cases r)
  let ?sv1 = "fst (startState en connect locked sv p)"
  have q: "quiet sv ?sv1" using Cons.prems by (rule quiet_startState)
  have "quiet ?sv1 (fst (maintainAlwaysOn rounds d ?sv1 p))" for d
    using quiet_ok [OF q] quiet_bound [OF q Cons.prems(2)] by (rule Cons.IH)
  with q have "quiet sv (fst (maintainAlwaysOn rounds d ?sv1 p))" for d by (rule quiet_trans)
  then show ?case using Cons q by (auto simp: r Let_def split_beta)
qed simp

lemma quiet_idleStop:
  assumes "sv_ok sv" and "p < length (sv_heap sv)" shows "quiet sv (idleStop en locked sv p t)"
proof -
  let ?st = "get_state sv p"
  obtain st go where E: "idle_enter sv en t ?st = (st, go)" by (cases "idle_enter sv en t ?st")
  have st: "st_ok st" using E sv_ok_get [OF assms] by (rule st_ok_idle_enter)
  have "ss_active st = ss_active ?st" "ss_mutating st = ss_mutating ?st"
    using E by (auto simp: idle_enter_def section_simps split: if_splits)
  then have c: "calm ?st st" using st by (simp add: calm_def)
  have "calm ?st (idle_finish en st)" if "go"
    using c st_ok_idle_finish [OF st] idle_enter_go(2) E that by (auto simp: calm_def idle_finish_def section_simps)
  then show ?thesis using assms c E by (cases go) (auto simp: idleStop_def intro!: quiet_sets)
qed

section \<open>Configuration changes are quiet\<close>

lemma calm_mutating: "st_ok st \<Longrightarrow> \<not> b \<or> ss_active st = 0 \<Longrightarrow> calm st (st\<lparr>ss_mutating := b\<rparr>)"
  by (auto simp: calm_def)

lemma quiet_clear_mutating:
  "sv_ok sv \<Longrightarrow> list_all (\<lambda>p. p < length (sv_heap sv)) ps \<Longrightarrow> quiet sv (clear_mutating ps sv)"
proof (induction ps arbitrary: sv)
  case (Cons p ps)
  let ?sv1 = "set_state p ((get_state sv p)\<lparr>ss_mutating := False\<rparr>) sv"
  have q: "quiet sv ?sv1" using Cons.prems by (auto intro!: quiet_set calm_mutating sv_ok_get)
  moreover have "quiet ?sv1 (clear_mutating ps ?sv1)" using Cons quiet_ok [OF q] by (intro Cons.IH) auto
  ultimately show ?case using quiet_trans by auto
qed simp

lemma quiet_prepare_loop:
  "sv_ok sv \<Longrightarrow> list_all (\<lambda>p. p < length (sv_heap sv)) prepared \<Longrightarrow> quiet sv (fst (prepare_loop ids prepared pending sv))"
proof (induction ids arbitrary: prepared pending sv)
  case (Cons k ids)
  show ?case
  proof (cases "Service_lookup sv k")
    case (Inr p)
    have p: "p < length (sv_heap sv)" using lookup_bound [OF Cons.prems(1) Inr] by simp
    let ?st = "get_state sv p" and ?sv1 = "set_state p ((get_state sv p)\<lparr>ss_mutating := True\<rparr>) sv"
    show ?thesis
    proof (cases "ss_deleted ?st \<or> 0 < ss_active ?st \<or> ss_mutating ?st \<or> ss_runtimeChanging ?st")
      case True
      then show ?thesis using Inr quiet_clear_mutating [OF Cons.prems] by (simp add: Let_def)
    next
      case False
      then have "ss_active ?st = 0" using st_ok_active [OF sv_ok_get [OF Cons.prems(1) p]] by auto
      then have q: "quiet sv ?sv1" using Cons.prems p by (auto intro!: quiet_set calm_mutating sv_ok_get)
      moreover have "quiet ?sv1 (fst (prepare_loop ids (prepared @ [p]) (pending @ [k]) ?sv1))"
        using Cons quiet_ok [OF q] p by (intro Cons.IH) auto
      ultimately show ?thesis using Inr False quiet_trans by (auto simp: Let_def)
    qed
  qed (use Cons in simp)
qed simp

lemma quiet_frame [simp]:
  "quiet sv (sv'\<lparr>sv_pending := x\<rparr>) = quiet sv sv'" "quiet sv (sv'\<lparr>sv_closing := b\<rparr>) = quiet sv sv'"
  "sv_ok (sv\<lparr>sv_pending := x\<rparr>) = sv_ok sv" "sv_ok (sv\<lparr>sv_closing := b\<rparr>) = sv_ok sv"
  by (simp_all add: quiet_def sv_ok_def reserved_ok_def)

lemma quiet_of_frame:
  "quiet (sv\<lparr>sv_pending := x\<rparr>) sv' = quiet sv sv'" "quiet (sv\<lparr>sv_closing := b\<rparr>) sv' = quiet sv sv'"
  by (simp_all add: quiet_def reserved_ok_def)

lemma quiet_Prepare: "sv_ok sv \<Longrightarrow> quiet sv (fst (PrepareServerMutation sv current nxt))"
  using quiet_prepare_loop [of sv "[]" "runtimeAffectingServerIDs current nxt" "[]"]
  by (auto simp: PrepareServerMutation_def split: sum.split prod.splits)

lemma map_of_states_bound: "sv_ok sv \<Longrightarrow> map_of (sv_states sv) k = Some p \<Longrightarrow> p < length (sv_heap sv)"
  by (auto simp: sv_ok_def list_all_iff dest!: map_of_SomeD)

lemma quiet_Abort: assumes "sv_ok sv" shows "quiet sv (AbortServerMutation sv)"
proof -
  let ?sv = "sv\<lparr>sv_pending := None\<rparr>"
  have "quiet ?sv (clear_mutating (List.map_filter (\<lambda>k. map_of (sv_states ?sv) k) ids) ?sv)" for ids
    using assms by (intro quiet_clear_mutating) (auto simp: list_all_iff map_filter_def map_of_states_bound)
  then show ?thesis by (simp add: AbortServerMutation_def Let_def quiet_of_frame)
qed

lemma sv_ok_add_state: assumes "sv_ok sv" shows "sv_ok (add_state e sv)"
proof -
  have "length (sv_heap sv) \<notin> snd ` set (sv_states sv)" using assms by (auto simp: sv_ok_def list_all_iff)
  then show ?thesis using assms
    by (auto simp: sv_ok_def add_state_def st_ok_new list_all_iff distinct_values_alist_put dest!: set_alist_put)
qed

lemma quiet_add_state: assumes "sv_ok sv" shows "quiet sv (add_state e sv)"
proof -
  have "leases_at (add_state e sv) = leases_at sv"
    by (rule ext) (auto simp: leases_at_def get_state_def add_state_def nth_append newServerState_def)
  then show ?thesis using sv_ok_add_state [OF assms]
    by (auto simp: quiet_def reserved_ok_def add_state_def newServerState_def)
qed

lemma quiet_fold:
  assumes "sv_ok sv" and "\<And>x sv. x \<in> set xs \<Longrightarrow> sv_ok sv \<Longrightarrow> n \<le> length (sv_heap sv) \<Longrightarrow> quiet sv (f x sv)"
    and "n \<le> length (sv_heap sv)"
  shows "quiet sv (fold f xs sv)"
  using assms
proof (induction xs arbitrary: sv)
  case (Cons x xs)
  have q: "quiet sv (f x sv)" using Cons.prems by auto
  moreover have "quiet (f x sv) (fold f xs (f x sv))"
    using Cons.prems quiet_ok [OF q] quiet_length [OF q] by (intro Cons.IH) auto
  ultimately show ?case using quiet_trans by auto
qed simp

lemma quiet_add_missing: "sv_ok sv \<Longrightarrow> quiet sv (add_missing nxt sv)"
  unfolding add_missing_def by (rule quiet_fold [of _ _ 0]) (auto split: option.split intro: quiet_add_state)

lemma sv_ok_del: "sv_ok sv \<Longrightarrow> sv_ok (sv\<lparr>sv_states := alist_del k (sv_states sv)\<rparr>)"
  using distinct_alist_del [of "sv_states sv" k] distinct_values_alist_del [of "sv_states sv" k]
  by (auto simp: sv_ok_def list_all_iff alist_del_def)

lemma quiet_del: "sv_ok sv \<Longrightarrow> quiet sv (sv\<lparr>sv_states := alist_del k (sv_states sv)\<rparr>)"
  using sv_ok_del [of sv k] by (simp add: quiet_def reserved_ok_def)

lemma st_ok_entry [simp]: "st_ok (st\<lparr>ss_entry := e\<rparr>) = st_ok st"
  by (simp add: st_ok_def split: option.split)

lemma calm_entry: "st_ok st \<Longrightarrow> calm st (st\<lparr>ss_entry := e\<rparr>)"
  by (simp add: calm_def)

text \<open>What a committed change makes of an affected server state.\<close>

definition committed :: "env \<Rightarrow> ServerEntry option \<Rightarrow> serverState \<Rightarrow> serverState" where
  "committed en entry st = (let st1 = detach st in touched en
     ((case entry of Some e \<Rightarrow> st1\<lparr>ss_entry := e\<rparr> | None \<Rightarrow> st1\<lparr>ss_deleted := True\<rparr>)\<lparr>ss_runtimeChanging := False, ss_mutating := False\<rparr>))"

lemma commit_state_affected: "k \<in> set pending \<Longrightarrow> commit_state en pending nxt (k, p) sv =
    set_state p (committed en (byID nxt k) (get_state sv p))
      (let sv1 = closeRuntime (ss_session (get_state sv p)) sv
       in if byID nxt k = None then sv1\<lparr>sv_states := alist_del k (sv_states sv1)\<rparr> else sv1)"
  by (simp add: commit_state_def committed_def Let_def split: option.split)

lemma calm_committed: "st_ok st \<Longrightarrow> calm st (committed en entry st)"
  by (auto simp: calm_def committed_def Let_def section_simps st_ok_active intro!: st_ok_unarmed split: option.split)

lemma quiet_commit_state:
  assumes ok: "sv_ok sv" and p: "p < length (sv_heap sv)"
  shows "quiet sv (commit_state en pending nxt (k, p) sv)"
proof (cases "k \<in> set pending")
  case True
  let ?sv1 = "closeRuntime (ss_session (get_state sv p)) sv"
  let ?sv2 = "if byID nxt k = None then ?sv1\<lparr>sv_states := alist_del k (sv_states ?sv1)\<rparr> else ?sv1"
  have q: "quiet sv ?sv2" using quiet_trans [OF _ quiet_del [of ?sv1 k]] ok by simp
  moreover have "get_state ?sv2 p = get_state sv p" by (simp add: get_state_def)
  then have "quiet ?sv2 (set_state p (committed en (byID nxt k) (get_state sv p)) ?sv2)"
    using quiet_ok [OF q] quiet_bound [OF q p] sv_ok_get [OF ok p] by (intro quiet_set) (auto simp: calm_committed)
  ultimately have "quiet sv (set_state p (committed en (byID nxt k) (get_state sv p)) ?sv2)" by (rule quiet_trans)
  then show ?thesis using True by (simp only: commit_state_affected Let_def)
next
  case False
  then show ?thesis using assms sv_ok_get [OF ok p]
    by (auto simp: commit_state_def intro!: quiet_set calm_entry split: option.split)
qed

lemma quiet_Commit: assumes "sv_ok sv" shows "quiet sv (CommitServerMutation en sv nxt)"
proof -
  let ?sv2 = "add_missing nxt (sv\<lparr>sv_pending := None\<rparr>)"
  have q: "quiet sv ?sv2" using quiet_add_missing [of "sv\<lparr>sv_pending := None\<rparr>" nxt] assms by (simp add: quiet_of_frame)
  then have b: "p < length (sv_heap ?sv2)" if "(k, p) \<in> set (sv_states ?sv2)" for k p
    using that sv_ok_states [OF quiet_ok [OF q]] by (auto simp: list_all_iff)
  have "quiet ?sv2 (fold (commit_state en ids nxt) (sv_states ?sv2) ?sv2)" for ids
    by (rule quiet_fold [OF quiet_ok [OF q], of _ "length (sv_heap ?sv2)"])
      (auto intro!: quiet_commit_state dest: b)
  then show ?thesis using quiet_trans [OF q] by (simp add: CommitServerMutation_def Let_def)
qed

lemma close_state_alt: "close_state en p sv = closeRuntime (ss_session (get_state sv p))
    (set_state p ((touched en (detach (get_state sv p)))\<lparr>ss_runtimeChanging := False\<rparr>) sv)"
  by (simp add: close_state_def Let_def touched_def)

lemma quiet_close_state: "sv_ok sv \<Longrightarrow> p < length (sv_heap sv) \<Longrightarrow> quiet sv (close_state en p sv)"
  unfolding close_state_alt
  by (auto simp: calm_def section_simps st_ok_active sv_ok_get intro!: quiet_set st_ok_unarmed)

lemma quiet_Close: assumes "sv_ok sv" shows "quiet sv (fst (Service_Close en sv))"
proof -
  let ?sv1 = "AbortServerMutation (sv\<lparr>sv_closing := True\<rparr>)"
  have q: "quiet sv ?sv1" using quiet_Abort [of "sv\<lparr>sv_closing := True\<rparr>"] assms by (simp add: quiet_of_frame)
  then have b: "p < length (sv_heap ?sv1)" if "(k, p) \<in> set (sv_states ?sv1)" for k p
    using that sv_ok_states [OF quiet_ok [OF q]] by (auto simp: list_all_iff)
  have "quiet ?sv1 (fold (close_state en) (map snd (sv_states ?sv1)) ?sv1)"
    by (rule quiet_fold [OF quiet_ok [OF q], of _ "length (sv_heap ?sv1)"])
      (auto intro!: quiet_close_state dest: b)
  then show ?thesis using quiet_trans [OF q] assms by (simp add: Service_Close_def Let_def)
qed

section \<open>Runs\<close>

text \<open>
  \<open>service_act\<close> is one handler, with the leases handed out before and after it; a lease is released by its holder or,
  for a task lease, by its expiry timer. A run is a new service followed by any sequence of handlers.
\<close>

inductive service_act :: "Service \<Rightarrow> UseLease list \<Rightarrow> Service \<Rightarrow> UseLease list \<Rightarrow> bool" where
  acquired: "Acquire en connect locked sv k = (sv', Inr l) \<Longrightarrow> service_act sv ls sv' (l # ls)"
| refused: "Acquire en connect locked sv k = (sv', Inl e) \<Longrightarrow> service_act sv ls sv' ls"
| acquired_task: "AcquireTaskLease en connect locked sv k ttl = (sv', Inr l) \<Longrightarrow> service_act sv ls sv' (l # ls)"
| refused_task: "AcquireTaskLease en connect locked sv k ttl = (sv', Inl e) \<Longrightarrow> service_act sv ls sv' ls"
| release: "Release en sv l = (sv', l') \<Longrightarrow> service_act sv (xs @ l # ys) sv' (xs @ l' # ys)"
| call: "l \<in> set ls \<Longrightarrow> service_act sv ls (fst (lease_CallTool en sv l (f :: nat \<Rightarrow> json))) ls"
| continue: "l \<in> set ls \<Longrightarrow> service_act sv ls (fst (lease_continuation en sv l supported feature (f :: nat \<Rightarrow> json))) ls"
| snapshot: "service_act sv ls (fst (Service_Snapshot en sv k)) ls"
| snapshots: "service_act sv ls (fst (Snapshots en sv)) ls"
| tools: "service_act sv ls (fst (KnownTools en sv k)) ls"
| start: "service_act sv ls (fst (Start en connect locked sv k)) ls"
| stop: "service_act sv ls (fst (Stop en locked sv k)) ls"
| restart: "service_act sv ls (fst (Restart en connect locked sv k)) ls"
| start_always_on: "service_act sv ls (fst (StartAlwaysOn en connect sv)) ls"
| watch: "p < length (sv_heap sv) \<Longrightarrow> service_act sv ls (fst (watchSession en locked sv p g c)) ls"
| maintain: "p < length (sv_heap sv) \<Longrightarrow> service_act sv ls (fst (maintainAlwaysOn rounds delay sv p)) ls"
| idle: "p < length (sv_heap sv) \<Longrightarrow> service_act sv ls (idleStop en locked sv p t) ls"
| prepare: "service_act sv ls (fst (PrepareServerMutation sv current nxt)) ls"
| abort: "service_act sv ls (AbortServerMutation sv) ls"
| commit: "service_act sv ls (CommitServerMutation en sv nxt) ls"
| close: "service_act sv ls (fst (Service_Close en sv)) ls"

inductive service_run :: "Service \<Rightarrow> UseLease list \<Rightarrow> bool" where
  new: "Service_New nl manager servers maxLease = Inr sv \<Longrightarrow> service_run sv []"
| act: "service_run sv ls \<Longrightarrow> service_act sv ls sv' ls' \<Longrightarrow> service_run sv' ls'"

lemmas run_acquired = service_run.act [OF _ service_act.acquired]
lemmas run_refused = service_run.act [OF _ service_act.refused]
lemmas run_release = service_run.act [OF _ service_act.release]

definition live_at :: "UseLease list \<Rightarrow> nat \<Rightarrow> int" where
  "live_at ls p = int (length (filter (\<lambda>l. ul_state l = p \<and> \<not> ul_released l) ls))"

definition run_ok :: "Service \<Rightarrow> UseLease list \<Rightarrow> bool" where
  "run_ok sv ls \<longleftrightarrow> sv_ok sv \<and> reserved_ok sv \<and> leases_at sv = live_at ls \<and>
     list_all (\<lambda>l. ul_state l < length (sv_heap sv)) ls"

lemma live_at_simps [simp]:
  "live_at [] p = 0"
  "live_at (l # ls) p = (if ul_state l = p \<and> \<not> ul_released l then 1 else 0) + live_at ls p"
  "live_at (xs @ ys) p = live_at xs p + live_at ys p"
  by (simp_all add: live_at_def)

lemma run_ok_quiet: "run_ok sv ls \<Longrightarrow> quiet sv sv' \<Longrightarrow> run_ok sv' ls"
  by (auto simp: run_ok_def quiet_def list_all_iff dest: less_le_trans)

lemma run_ok_sv: "run_ok sv ls \<Longrightarrow> sv_ok sv"
  by (simp add: run_ok_def)

lemma run_ok_lease: "run_ok sv ls \<Longrightarrow> l \<in> set ls \<Longrightarrow> sv_ok sv \<and> ul_state l < length (sv_heap sv)"
  by (auto simp: run_ok_def list_all_iff)

lemma run_ok_new:
  assumes "Service_New nl manager servers maxLease = Inr sv" shows "run_ok sv []"
proof -
  obtain sv0 where sv: "sv = fold add_state (sc_Servers servers) sv0" and sv0: "sv_heap sv0 = []" "sv_states sv0 = []"
    using assms by (auto simp: Service_New_def split: option.splits)
  have "run_ok sv0 []" using sv0 by (auto simp: run_ok_def sv_ok_def reserved_ok_def leases_at_def)
  moreover from this have "quiet sv0 sv"
    unfolding sv by (intro quiet_fold [of _ _ 0]) (auto simp: run_ok_def intro: quiet_add_state)
  ultimately show ?thesis by (rule run_ok_quiet)
qed

lemma run_ok_acquired:
  assumes "run_ok sv ls" and "Acquire en connect locked sv k = (sv', Inr l)"
  shows "run_ok sv' (l # ls)"
proof -
  have ok: "sv_ok sv" using assms(1) by (simp add: run_ok_def)
  show ?thesis
    using assms(2) ok
  proof (cases rule: Acquire_cases)
    case (granted p st s)
    have p: "p < length (sv_heap sv)" using lookup_bound [OF ok granted(1)] by simp
    note get = only_at_get [OF granted(2) p] and len = only_at_length [OF granted(2)]
    have "leases_at sv' q = live_at (l # ls) q" for q
    proof -
      have "leases_at sv q = live_at ls q" using assms(1) by (simp add: run_ok_def)
      then show ?thesis using granted(4,13) p len get by (auto simp: leases_at_def split: if_splits)
    qed
    moreover have "reserved_ok sv'"
      unfolding reserved_ok_def list_all_length len
    proof (intro allI impI)
      fix n assume n: "n < length (sv_heap sv)" "ss_mutating (sv_heap sv' ! n)"
      then show "ss_active (sv_heap sv' ! n) = 0"
        using assms(1) reserved_ok_get [of sv n] granted(7) get [of n]
        by (auto simp: get_state_def run_ok_def split: if_splits)
    qed
    ultimately show ?thesis
      using assms(1) only_at_ok [OF granted(2) ok granted(3)] granted(13) p len by (auto simp: run_ok_def)
  qed auto
qed

lemma run_ok_refused:
  assumes "run_ok sv ls" and "Acquire en connect locked sv k = (sv', Inl e)"
  shows "run_ok sv' ls"
proof -
  have ok: "sv_ok sv" using assms(1) by (simp add: run_ok_def)
  show ?thesis
    using assms(2) ok
  proof (cases rule: Acquire_cases)
    case (failed p st e')
    have p: "p < length (sv_heap sv)" using lookup_bound [OF ok failed(1)] by simp
    have "calm (get_state sv p) st" using failed by (simp add: calm_def)
    then show ?thesis using run_ok_quiet [OF assms(1)] quiet_only_at [OF failed(2) ok p] by blast
  qed (use assms in auto)
qed

lemma run_ok_acquired_task:
  assumes "run_ok sv ls" and "AcquireTaskLease en connect locked sv k ttl = (sv', Inr l)"
  shows "run_ok sv' (l # ls)"
proof -
  obtain l0 where a: "Acquire en connect locked sv k = (sv', Inr l0)"
    and l: "ul_state l = ul_state l0" "ul_released l = ul_released l0"
    using assms(2) by (auto simp: AcquireTaskLease_def Let_def split: prod.splits sum.splits)
  have "live_at (l # ls) = live_at (l0 # ls)" by (rule ext) (simp add: l)
  then show ?thesis using run_ok_acquired [OF assms(1) a] l by (simp add: run_ok_def)
qed

lemma run_ok_release:
  assumes "run_ok sv (xs @ l # ys)" and "Release en sv l = (sv', l')"
  shows "run_ok sv' (xs @ l' # ys)"
proof (cases "ul_released l")
  case True
  then show ?thesis using assms by (simp add: Release_def)
next
  case False
  let ?p = "ul_state l" and ?ls = "xs @ l # ys"
  have ok: "sv_ok sv" and p: "?p < length (sv_heap sv)" using run_ok_lease [OF assms(1), of l] by auto
  have o: "only_at ?p (release_state sv en (get_state sv ?p)) sv sv'" using Release_only_at [OF False, of sv en] assms(2) by simp
  note get = only_at_get [OF o p] and len = only_at_length [OF o]
  have l': "ul_state l' = ?p" "ul_released l'" using assms(2) False by (auto simp: Release_def)
  have live: "leases_at sv q = live_at ?ls q" for q using assms(1) by (simp add: run_ok_def)
  have pos: "0 < ss_active (get_state sv ?p)"
    using live [of ?p] p False by (simp add: leases_at_def) (simp add: live_at_def)
  have "leases_at sv' q = live_at (xs @ l' # ys) q" for q
    using live [of q] pos get len p l' False by (auto simp: leases_at_def release_state_active split: if_splits)
  moreover have "reserved_ok sv'"
    unfolding reserved_ok_def list_all_length len
  proof (intro allI impI)
    fix n assume n: "n < length (sv_heap sv)" "ss_mutating (sv_heap sv' ! n)"
    have r: "reserved_ok sv" using assms(1) by (simp add: run_ok_def)
    show "ss_active (sv_heap sv' ! n) = 0"
      using n reserved_ok_get [OF r n(1)] pos get [of n]
      by (auto simp: get_state_def release_state_def section_simps split: if_splits)
  qed
  ultimately show ?thesis
    using assms(1) Release_ok [OF ok p, of en] assms(2) len l' by (auto simp: run_ok_def)
qed

lemmas quiet_handlers = quiet_Snapshot quiet_Snapshots quiet_KnownTools quiet_Start quiet_Stop quiet_Restart
  quiet_StartAlwaysOn quiet_watchSession quiet_maintainAlwaysOn quiet_idleStop quiet_Prepare quiet_Abort quiet_Commit
  quiet_Close

lemmas run_ok_handlers = quiet_handlers [OF run_ok_sv, THEN [2] run_ok_quiet]

lemma run_ok_perm: "mset ls = mset ls' \<Longrightarrow> run_ok sv ls = run_ok sv ls'"
proof -
  assume m: "mset ls = mset ls'"
  have "live_at ls = live_at ls'" using arg_cong [OF m, of "\<lambda>M. size (filter_mset P M)" for P]
    by (auto simp: live_at_def mset_filter [symmetric] simp del: mset_filter)
  moreover have "list_all P ls = list_all P ls'" for P using arg_cong [OF m, of set_mset] by (simp add: list_all_iff)
  ultimately show ?thesis by (simp add: run_ok_def)
qed

text \<open>A handler keeps the accounting of the leases that other holders have.\<close>

lemma run_ok_act:
  "service_act sv ls sv' ls' \<Longrightarrow> run_ok sv (os @ ls) \<Longrightarrow> run_ok sv' (os @ ls')"
proof (induction rule: service_act.induct)
  case (acquired en connect locked sv k sv' l ls)
  then show ?case using run_ok_acquired [OF acquired(2,1)] run_ok_perm [of "l # os @ ls" "os @ l # ls"] by simp
next
  case (acquired_task en connect locked sv k ttl sv' l ls)
  then show ?case using run_ok_acquired_task [OF acquired_task(2,1)] run_ok_perm [of "l # os @ ls" "os @ l # ls"] by simp
next
  case (refused_task en connect locked sv k ttl sv' e ls)
  then have "Acquire en connect locked sv k = (sv', Inl e)"
    by (auto simp: AcquireTaskLease_def Let_def split: prod.splits sum.splits)
  with refused_task show ?case using run_ok_refused by blast
next
  case (release en sv l sv' l' xs ys)
  then show ?case using run_ok_release [of sv "os @ xs" l ys] by simp
next
  case (call l ls sv en f)
  then have "sv_ok sv" "ul_released l \<or> ul_state l < length (sv_heap sv)"
    using run_ok_lease [OF call(2), of l] by auto
  from run_ok_quiet [OF call(2) quiet_CallTool [OF this]] show ?case .
next
  case (continue l ls sv en supported feature f)
  then have "sv_ok sv" "ul_released l \<or> ul_state l < length (sv_heap sv)"
    using run_ok_lease [OF continue(2), of l] by auto
  from run_ok_quiet [OF continue(2) quiet_continuation [OF this]] show ?case .
qed (blast intro: run_ok_refused run_ok_handlers)+

lemma service_run_ok: "service_run sv ls \<Longrightarrow> run_ok sv ls"
proof (induction rule: service_run.induct)
  case (act sv ls sv' ls')
  then show ?case using run_ok_act [of sv ls sv' ls' "[]"] by simp
qed (rule run_ok_new)

text \<open>
  (C27) Lease accounting over every run: after any sequence of handlers, in any environment, the active-call
  count of a server is exactly the number of leases handed out for it and not yet released, a server reserved
  for a configuration change has no live lease, and the state invariant holds (counts never negative, an armed
  idle timer always describes the current unused session).
\<close>

theorem service_run_lease_accounting:
  assumes "service_run sv ls" and "p < length (sv_heap sv)"
  shows "sv_ok sv \<and> ss_active (get_state sv p) = live_at ls p \<and> (ss_mutating (get_state sv p) \<longrightarrow> live_at ls p = 0)"
proof -
  have r: "run_ok sv ls" using assms(1) by (rule service_run_ok)
  then have "leases_at sv p = live_at ls p" by (simp add: run_ok_def)
  then show ?thesis using r assms(2) reserved_ok_get [of sv p] by (simp add: run_ok_def leases_at_def)
qed

definition sample_servers :: ServersConfig where
  "sample_servers = \<lparr>sc_SchemaVersion = SchemaVersion, sc_Servers = [sample_http_entry]\<rparr>"

definition sample_started :: Service where
  "sample_started = (case Service_New sample_net (DefaultManagerConfig 8787) sample_servers 0 of Inr sv \<Rightarrow> sv | Inl e \<Rightarrow> sample_empty)"

lemma sample_started_run: "service_run sample_started []"
proof -
  have "case Service_New sample_net (DefaultManagerConfig 8787) sample_servers 0 of Inr sv \<Rightarrow> True | Inl e \<Rightarrow> False" by code_simp
  then have "Service_New sample_net (DefaultManagerConfig 8787) sample_servers 0 = Inr sample_started"
    by (auto simp: sample_started_def split: sum.splits)
  then show ?thesis by (rule service_run.new)
qed

theorem service_run_lease_accounting_witness:
  "ss_active (get_state (fst (Acquire (sample_env 5) sample_connect True sample_started sample_id)) 0) = 1"
proof -
  let ?A = "Acquire (sample_env 5) sample_connect True sample_started sample_id"
  let ?l = "\<lparr>ul_state = 0, ul_session = 7, ul_released = False, ul_task = None, ul_expires = None\<rparr>"
  have "service_run sample_started []" by (rule sample_started_run)
  moreover have "snd ?A = Inr ?l" by code_simp
  then have "?A = (fst ?A, Inr ?l)" by (simp add: prod_eq_iff)
  ultimately have "service_run (fst ?A) [?l]" by (rule run_acquired)
  moreover have "0 < length (sv_heap (fst ?A))" by code_simp
  ultimately show ?thesis using service_run_lease_accounting by fastforce
qed

end
