(* ===== verification/LifecycleConfig.thy ===== *)
theory LifecycleConfig
  imports LifecycleRun
begin

text \<open>
  Configuration changes and shutdown of the lifecycle service: when a change can be prepared, what a failed or
  aborted preparation leaves behind, what a reservation blocks, what a committed change makes of the service,
  and what is left after shutdown; idle stops and the restart delays of always-on servers.
\<close>

section \<open>Reserving states\<close>

definition st_free :: "serverState \<Rightarrow> bool" where
  "st_free st \<longleftrightarrow> \<not> (ss_deleted st \<or> 0 < ss_active st \<or> ss_mutating st \<or> ss_runtimeChanging st)"

text \<open>The heap with the reservation flag of the states at \<open>ps\<close> set to \<open>b\<close>.\<close>

definition mark :: "bool \<Rightarrow> nat list \<Rightarrow> Service \<Rightarrow> Service" where
  "mark b ps sv = sv\<lparr>sv_heap := map (\<lambda>i. if i \<in> set ps then (sv_heap sv ! i)\<lparr>ss_mutating := b\<rparr> else sv_heap sv ! i)
     [0..<length (sv_heap sv)]\<rparr>"

lemma mark_fields [simp]:
  "length (sv_heap (mark b ps sv)) = length (sv_heap sv)" "sv_states (mark b ps sv) = sv_states sv"
  "sv_closing (mark b ps sv) = sv_closing sv" "sv_pending (mark b ps sv) = sv_pending sv"
  "sv_closed (mark b ps sv) = sv_closed sv"
  "(mark b ps sv)\<lparr>sv_pending := x\<rparr> = mark b ps (sv\<lparr>sv_pending := x\<rparr>)"
  by (simp_all add: mark_def)

lemma get_mark: "p < length (sv_heap sv) \<Longrightarrow>
    get_state (mark b ps sv) p = (if p \<in> set ps then (get_state sv p)\<lparr>ss_mutating := b\<rparr> else get_state sv p)"
  by (simp add: mark_def get_state_def)

lemma get_frame [simp]: "get_state (sv\<lparr>sv_pending := x\<rparr>) p = get_state sv p" "get_state (sv\<lparr>sv_closing := b\<rparr>) p = get_state sv p"
  by (simp_all add: get_state_def)

lemma service_eqI:
  assumes "sv_states a = sv_states b" "sv_closing a = sv_closing b" "sv_pending a = sv_pending b" "sv_closed a = sv_closed b"
    "sv_defaultIdle a = sv_defaultIdle b" "sv_maxTaskLease a = sv_maxTaskLease b"
    "length (sv_heap a) = length (sv_heap b)" "\<And>p. p < length (sv_heap b) \<Longrightarrow> get_state a p = get_state b p"
  shows "a = (b :: Service)"
  using assms by (auto simp: get_state_def intro!: Service.equality nth_equalityI)

lemma mark_frames [simp]:
  "sv_defaultIdle (mark b ps sv) = sv_defaultIdle sv" "sv_maxTaskLease (mark b ps sv) = sv_maxTaskLease sv"
  by (simp_all add: mark_def)

lemma mark_Nil [simp]: "mark b [] sv = sv"
  by (rule service_eqI) (simp_all add: get_mark)

lemma clear_mutating_mark: "list_all (\<lambda>p. p < length (sv_heap sv)) ps \<Longrightarrow> clear_mutating ps sv = mark False ps sv"
proof (induction ps arbitrary: sv)
  case (Cons p ps)
  then show ?case by (auto intro!: service_eqI simp: get_mark)
qed simp

lemma mark_Cons: "p < length (sv_heap sv) \<Longrightarrow> mark True ps (set_state p ((get_state sv p)\<lparr>ss_mutating := True\<rparr>) sv) = mark True (p # ps) sv"
  by (rule service_eqI) (auto simp: get_mark)

lemma unmark: "list_all (\<lambda>p. p < length (sv_heap sv) \<and> \<not> ss_mutating (get_state sv p)) ps \<Longrightarrow> mark False ps (mark True ps sv) = sv"
  by (rule service_eqI) (auto simp: get_mark list_all_iff)

lemma unmark_snoc:
  "p < length (sv_heap sv) \<Longrightarrow> \<not> ss_mutating (get_state sv p) \<Longrightarrow>
    mark False (ps @ [p]) (set_state p ((get_state sv p)\<lparr>ss_mutating := True\<rparr>) sv) = mark False ps sv"
  by (rule service_eqI) (auto simp: get_mark)

lemma Service_lookup_Inr: "Service_lookup sv k = Inr p \<longleftrightarrow> map_of (sv_states sv) k = Some p"
  and Service_lookup_Inl: "Service_lookup sv k = Inl e \<longleftrightarrow> map_of (sv_states sv) k = None \<and> e = ErrServerNotFound"
  by (auto simp: Service_lookup_def split: option.splits)

lemma set_state_lookup [simp]: "Service_lookup (set_state p st sv) = Service_lookup sv"
  by (rule ext) (simp add: Service_lookup_def)

section \<open>Preparing a change\<close>

lemma prepare_loop_fail:
  "prepare_loop ids prepared pending sv = (sv', Inl e) \<Longrightarrow> sv_ok sv \<Longrightarrow>
    list_all (\<lambda>p. p < length (sv_heap sv)) prepared \<Longrightarrow> sv' = mark False prepared sv"
proof (induction ids arbitrary: prepared pending sv)
  case (Cons k ids)
  show ?case
  proof (cases "Service_lookup sv k")
    case (Inr p)
    have p: "p < length (sv_heap sv)" using lookup_bound [OF Cons.prems(2) Inr] by simp
    let ?st = "get_state sv p" and ?sv1 = "set_state p ((get_state sv p)\<lparr>ss_mutating := True\<rparr>) sv"
    show ?thesis
    proof (cases "st_free ?st")
      case True
      have "sv_ok ?sv1" using Cons.prems(2) sv_ok_get [OF Cons.prems(2) p] by (simp add: sv_ok_set)
      moreover have "prepare_loop ids (prepared @ [p]) (pending @ [k]) ?sv1 = (sv', Inl e)"
        using Cons.prems(1) Inr True by (simp add: Let_def st_free_def)
      ultimately have "sv' = mark False (prepared @ [p]) ?sv1" using Cons.IH Cons.prems(3) p by simp
      then show ?thesis using unmark_snoc [OF p] True by (simp add: st_free_def)
    next
      case False
      then show ?thesis using Cons.prems Inr clear_mutating_mark by (simp add: Let_def st_free_def)
    qed
  qed (use Cons in simp)
qed simp

definition states_of :: "Service \<Rightarrow> string list \<Rightarrow> nat list" where
  "states_of sv ids = List.map_filter (\<lambda>k. map_of (sv_states sv) k) ids"

definition known_ids :: "Service \<Rightarrow> string list \<Rightarrow> string list" where
  "known_ids sv ids = filter (\<lambda>k. map_of (sv_states sv) k \<noteq> None) ids"

definition ids_free :: "Service \<Rightarrow> string list \<Rightarrow> bool" where
  "ids_free sv ids \<longleftrightarrow> list_all (\<lambda>p. st_free (get_state sv p)) (states_of sv ids)"

lemma states_of_simps [simp]:
  "states_of sv [] = []"
  "states_of sv (k # ids) = (case map_of (sv_states sv) k of None \<Rightarrow> states_of sv ids | Some p \<Rightarrow> p # states_of sv ids)"
  "states_of (set_state p st sv) ids = states_of sv ids"
  by (simp_all add: states_of_def List.map_filter_def split: option.split)

lemma in_states_of: "p \<in> set (states_of sv ids) \<longleftrightarrow> (\<exists>k \<in> set ids. map_of (sv_states sv) k = Some p)"
  by (induction ids) (auto split: option.splits)

lemma map_of_inj:
  assumes "sv_ok sv" and "map_of (sv_states sv) k = Some p" and "map_of (sv_states sv) k' = Some p"
  shows "k = k'"
proof -
  have "inj_on snd (set (sv_states sv))" using assms(1) by (simp add: sv_ok_def distinct_map)
  from inj_onD [OF this _ map_of_SomeD [OF assms(2)] map_of_SomeD [OF assms(3)]] show ?thesis by simp
qed

lemma states_of_bound: "sv_ok sv \<Longrightarrow> p \<in> set (states_of sv ids) \<Longrightarrow> p < length (sv_heap sv)"
  by (auto simp: in_states_of intro: map_of_states_bound)

lemma ids_free_set:
  assumes "sv_ok sv" and "map_of (sv_states sv) k = Some p" and "k \<notin> set ids"
  shows "ids_free (set_state p st sv) ids = ids_free sv ids"
proof -
  have "p \<notin> set (states_of sv ids)" using assms(3) map_of_inj [OF assms(1,2)] unfolding in_states_of by blast
  moreover have "p < length (sv_heap sv)" using assms(1,2) by (rule map_of_states_bound)
  ultimately have "get_state (set_state p st sv) q = get_state sv q" if "q \<in> set (states_of sv ids)" for q
    using that by auto
  then show ?thesis by (auto simp: ids_free_def list_all_iff)
qed

lemma prepare_loop_spec:
  "sv_ok sv \<Longrightarrow> distinct ids \<Longrightarrow> (if ids_free sv ids
     then prepare_loop ids prepared pending sv = (mark True (states_of sv ids) sv, Inr (pending @ known_ids sv ids))
     else (\<exists>sv' e. prepare_loop ids prepared pending sv = (sv', Inl e)))"
proof (induction ids arbitrary: prepared pending sv)
  case Nil
  then show ?case by (simp add: ids_free_def known_ids_def)
next
  case (Cons k ids)
  show ?case
  proof (cases "map_of (sv_states sv) k")
    case None
    then show ?thesis
      using Cons.IH [of sv prepared pending] Cons.prems by (auto simp: ids_free_def known_ids_def Service_lookup_def)
  next
    case (Some p)
    have p: "p < length (sv_heap sv)" using Cons.prems(1) Some by (rule map_of_states_bound)
    let ?st = "get_state sv p" and ?sv1 = "set_state p ((get_state sv p)\<lparr>ss_mutating := True\<rparr>) sv"
    have ok: "sv_ok ?sv1" using Cons.prems(1) sv_ok_get [OF Cons.prems(1) p] by (simp add: sv_ok_set)
    have fr: "ids_free ?sv1 ids = ids_free sv ids" using Cons.prems Some by (intro ids_free_set) auto
    have kn: "known_ids ?sv1 ids = known_ids sv ids" by (simp add: known_ids_def)
    show ?thesis
    proof (cases "st_free ?st")
      case True
      then have "prepare_loop (k # ids) prepared pending sv = prepare_loop ids (prepared @ [p]) (pending @ [k]) ?sv1"
        using Some by (simp add: Service_lookup_def Let_def st_free_def)
      moreover have "ids_free sv (k # ids) = ids_free sv ids" using True Some by (simp add: ids_free_def)
      moreover have "known_ids sv (k # ids) = k # known_ids sv ids" using Some by (simp add: known_ids_def)
      ultimately show ?thesis
        using Cons.IH [OF ok, of "prepared @ [p]" "pending @ [k]"] Cons.prems(2) Some fr kn mark_Cons [OF p] by auto
    next
      case False
      then show ?thesis using Some by (auto simp: Service_lookup_def Let_def st_free_def ids_free_def)
    qed
  qed
qed

lemma distinct_affecting [simp]: "distinct (runtimeAffectingServerIDs current nxt)"
  by (simp add: runtimeAffectingServerIDs_def)

lemma Prepare_success:
  assumes "PrepareServerMutation sv current nxt = (sv', None)" and "sv_ok sv"
  shows "\<not> sv_closing sv" "sv_pending sv = None" "ids_free sv (runtimeAffectingServerIDs current nxt)"
    "sv' = (mark True (states_of sv (runtimeAffectingServerIDs current nxt)) sv)
       \<lparr>sv_pending := Some (known_ids sv (runtimeAffectingServerIDs current nxt))\<rparr>"
  using assms prepare_loop_spec [OF assms(2), of "runtimeAffectingServerIDs current nxt" "[]" "[]"]
  by (auto simp: PrepareServerMutation_def split: if_splits sum.splits prod.splits)

text \<open>
  A configuration change is accepted exactly when it can be made safely: the service is not shutting down,
  no other change is prepared, and every running server the change affects (removed, or changed in name, mode,
  transport, environment or runtime limits) is neither deleted, in use, reserved nor in the middle of a start or stop.
\<close>

theorem Prepare_accepts_iff:
  assumes "sv_ok sv"
  shows "snd (PrepareServerMutation sv current nxt) = None \<longleftrightarrow>
     \<not> sv_closing sv \<and> sv_pending sv = None \<and>
     (\<forall>k p. k \<in> set (runtimeAffectingServerIDs current nxt) \<and> map_of (sv_states sv) k = Some p \<longrightarrow>
        \<not> ss_deleted (get_state sv p) \<and> \<not> 0 < ss_active (get_state sv p) \<and>
        \<not> ss_mutating (get_state sv p) \<and> \<not> ss_runtimeChanging (get_state sv p))"
proof -
  have "(\<forall>k p. k \<in> set (runtimeAffectingServerIDs current nxt) \<and> map_of (sv_states sv) k = Some p \<longrightarrow>
        \<not> ss_deleted (get_state sv p) \<and> \<not> 0 < ss_active (get_state sv p) \<and>
        \<not> ss_mutating (get_state sv p) \<and> \<not> ss_runtimeChanging (get_state sv p)) \<longleftrightarrow>
      ids_free sv (runtimeAffectingServerIDs current nxt)"
    unfolding ids_free_def list_all_iff Ball_def in_states_of st_free_def by blast
  moreover have "snd (PrepareServerMutation sv current nxt) = None \<longleftrightarrow>
      \<not> sv_closing sv \<and> sv_pending sv = None \<and> ids_free sv (runtimeAffectingServerIDs current nxt)"
    using prepare_loop_spec [OF assms, of "runtimeAffectingServerIDs current nxt" "[]" "[]"]
    by (auto simp: PrepareServerMutation_def split: if_splits)
  ultimately show ?thesis by simp
qed

lemma Prepare_undone:
  assumes "sv_ok sv" and "PrepareServerMutation sv current nxt = (sv', r)"
  shows "(case r of Some e \<Rightarrow> sv' | None \<Rightarrow> AbortServerMutation sv') = sv"
proof (cases r)
  case (Some e)
  then show ?thesis
    using assms prepare_loop_fail [of _ "[]" "[]" sv] by (auto simp: PrepareServerMutation_def split: if_splits sum.splits prod.splits)
next
  case None
  note s = Prepare_success [OF assms(2) [unfolded None] assms(1)]
  let ?ids = "runtimeAffectingServerIDs current nxt"
  have free: "list_all (\<lambda>p. p < length (sv_heap sv) \<and> \<not> ss_mutating (get_state sv p)) (states_of sv ?ids)"
    using s(3) states_of_bound [OF assms(1)] by (auto simp: ids_free_def list_all_iff st_free_def)
  have "states_of sv (known_ids sv ?ids) = states_of sv ?ids"
    by (induction ?ids) (auto simp: known_ids_def states_of_def List.map_filter_def)
  then have "AbortServerMutation sv' = clear_mutating (states_of sv ?ids) (mark True (states_of sv ?ids) (sv\<lparr>sv_pending := None\<rparr>))"
    by (simp add: AbortServerMutation_def s(4) states_of_def)
  also have "\<dots> = mark False (states_of sv ?ids) (mark True (states_of sv ?ids) (sv\<lparr>sv_pending := None\<rparr>))"
    using free by (intro clear_mutating_mark) (auto simp: list_all_iff)
  also have "\<dots> = sv\<lparr>sv_pending := None\<rparr>" using free by (intro unmark) (simp add: get_state_def)
  also have "\<dots> = sv" using s(2) by (intro Service.equality) auto
  finally show ?thesis by (simp add: None)
qed

text \<open>
  A change that is refused or aborted leaves no trace: a refused preparation returns the service exactly
  as it was, every flag it had set on the way taken back, and a successful preparation followed by an abort does too.
\<close>

theorem Prepare_rollback:
  assumes "sv_ok sv" and "PrepareServerMutation sv current nxt = (sv', r)"
  shows "(case r of Some e \<Rightarrow> sv' | None \<Rightarrow> AbortServerMutation sv') = sv"
  using assms by (rule Prepare_undone)

section \<open>What a reservation blocks\<close>

definition keeps_session :: "nat \<Rightarrow> Service \<Rightarrow> Service \<Rightarrow> bool" where
  "keeps_session p sv sv' \<longleftrightarrow> ss_session (get_state sv' p) = ss_session (get_state sv p) \<and> sv_closed sv' = sv_closed sv"

lemma keeps_set: "p < length (sv_heap sv) \<Longrightarrow> ss_session st = ss_session (get_state sv p) \<Longrightarrow> keeps_session p sv (set_state p st sv)"
  by (simp add: keeps_session_def)

text \<open>
  A server reserved for a configuration change is left alone until the change is committed or aborted:
  acquiring, starting, stopping and restarting it all fail, an idle stop does nothing, and none of them
  closes or replaces its session.
\<close>

theorem reservation_blocks_operations:
  assumes "sv_ok sv" and "Service_lookup sv k = Inr p" and "ss_mutating (get_state sv p)"
  shows "(\<exists>e. snd (Acquire en connect locked sv k) = Inl e) \<and> keeps_session p sv (fst (Acquire en connect locked sv k)) \<and>
     snd (snd (Start en connect locked sv k)) \<noteq> None \<and> keeps_session p sv (fst (Start en connect locked sv k)) \<and>
     snd (snd (Stop en locked sv k)) \<noteq> None \<and> keeps_session p sv (fst (Stop en locked sv k)) \<and>
     snd (snd (Restart en connect locked sv k)) \<noteq> None \<and> keeps_session p sv (fst (Restart en connect locked sv k)) \<and>
     idleStop en locked sv p t = sv"
proof -
  have p: "p < length (sv_heap sv)" using lookup_bound [OF assms(1,2)] by simp
  have refl: "keeps_session p sv sv" by (simp add: keeps_session_def)
  note sets = keeps_set [OF p]
  have a: "acquire_enter en (get_state sv p) = (get_state sv p, AcqFail
      (if ss_deleted (get_state sv p) then ErrServerNotFound else busyErrorLocked (get_state sv p)) None)"
    using assms(3) by (simp add: acquire_enter_def)
  have b: "start_enter en (get_state sv p) = (get_state sv p, StartFail None
      (if ss_deleted (get_state sv p) then ErrServerNotFound else busyErrorLocked (get_state sv p)))"
    using assms(3) by (simp add: start_enter_def)
  have "snd (snd (Start en connect locked sv k)) \<noteq> None" "keeps_session p sv (fst (Start en connect locked sv k))"
    using assms(2) b refl sets by (auto simp: Start_def startState_def)
  moreover have "snd (snd (Stop en locked sv k)) \<noteq> None" "keeps_session p sv (fst (Stop en locked sv k))"
    using assms(2,3) refl by (auto simp: Stop_def stop_check_def Let_def split_beta section_simps intro!: sets)
  moreover have "snd (snd (Restart en connect locked sv k)) \<noteq> None" "keeps_session p sv (fst (Restart en connect locked sv k))"
    using assms(2,3) refl by (auto simp: Restart_def restart_check_def Let_def split_beta section_simps intro!: sets)
  moreover have "idleStop en locked sv p t = sv"
    using assms(3) p by (auto simp: idleStop_def idle_enter_def set_state_same)
  moreover have "\<exists>e. snd (Acquire en connect locked sv k) = Inl e" "keeps_session p sv (fst (Acquire en connect locked sv k))"
    using assms(2) a refl sets by (auto simp: Acquire_def closeRuntime_def)
  ultimately show ?thesis by blast
qed

section \<open>Committing a change\<close>

text \<open>The abstract view: the configuration a service runs is the map from server ids to entries.\<close>

definition serves :: "Service \<Rightarrow> string \<Rightarrow> ServerEntry option" where
  "serves sv k = map_option (\<lambda>p. ss_entry (get_state sv p)) (map_of (sv_states sv) k)"

text \<open>What one round of the commit makes of the state of server \<open>k\<close>.\<close>

definition commit_value :: "env \<Rightarrow> string list \<Rightarrow> ServersConfig \<Rightarrow> string \<Rightarrow> serverState \<Rightarrow> serverState" where
  "commit_value en pending nxt k st =
     (if k \<in> set pending then committed en (byID nxt k) st
      else (case byID nxt k of None \<Rightarrow> st | Some e \<Rightarrow> st\<lparr>ss_entry := e\<rparr>))"

lemma commit_state_get:
  assumes "p < length (sv_heap sv)"
  shows "get_state (commit_state en pending nxt (k, p) sv) q = (if q = p then commit_value en pending nxt k (get_state sv p) else get_state sv q)"
    "length (sv_heap (commit_state en pending nxt (k, p) sv)) = length (sv_heap sv)"
    "sv_pending (commit_state en pending nxt (k, p) sv) = sv_pending sv"
    "map_of (sv_states (commit_state en pending nxt (k, p) sv)) =
       (if k \<in> set pending \<and> byID nxt k = None then (map_of (sv_states sv))(k := None) else map_of (sv_states sv))"
  using assms
  by (auto simp: commit_state_def commit_value_def committed_def Let_def get_state_def set_state_def nth_list_update closeRuntime_def
      split: option.splits)

lemma commit_fold:
  "list_all (\<lambda>kp. snd kp < length (sv_heap sv)) L \<Longrightarrow> distinct (map snd L) \<Longrightarrow> distinct (map fst L) \<Longrightarrow>
   (\<forall>k p. (k, p) \<in> set L \<longrightarrow> get_state (fold (commit_state en pending nxt) L sv) p = commit_value en pending nxt k (get_state sv p)) \<and>
   (\<forall>q. q \<notin> snd ` set L \<longrightarrow> get_state (fold (commit_state en pending nxt) L sv) q = get_state sv q) \<and>
   sv_pending (fold (commit_state en pending nxt) L sv) = sv_pending sv \<and>
   (\<forall>k. map_of (sv_states (fold (commit_state en pending nxt) L sv)) k =
      (if k \<in> fst ` set L \<and> k \<in> set pending \<and> byID nxt k = None then None else map_of (sv_states sv) k))"
proof (induction L arbitrary: sv)
  case (Cons kp L)
  obtain k0 p0 where kp: "kp = (k0, p0)" by (cases kp)
  have p0: "p0 < length (sv_heap sv)" using Cons.prems(1) kp by simp
  let ?sv1 = "commit_state en pending nxt (k0, p0) sv"
  note g = commit_state_get [OF p0, of en pending nxt k0]
  have L: "list_all (\<lambda>kp. snd kp < length (sv_heap ?sv1)) L" "distinct (map snd L)" "distinct (map fst L)"
    using Cons.prems g(2) by simp_all
  note IH = Cons.IH [OF L]
  have n: "p0 \<notin> snd ` set L" "k0 \<notin> fst ` set L" using Cons.prems kp by auto
  show ?case
    unfolding kp fold_Cons comp_def
  proof (intro conjI allI impI)
    fix k p assume "(k, p) \<in> set ((k0, p0) # L)"
    then show "get_state (fold (commit_state en pending nxt) L ?sv1) p = commit_value en pending nxt k (get_state sv p)"
      using IH n g(1) by (metis (no_types, lifting) prod.inject set_ConsD snd_conv image_eqI)
  next
    fix q assume "q \<notin> snd ` set ((k0, p0) # L)"
    then show "get_state (fold (commit_state en pending nxt) L ?sv1) q = get_state sv q"
      using IH g(1) by simp
  next
    show "sv_pending (fold (commit_state en pending nxt) L ?sv1) = sv_pending sv" using IH g(3) by simp
  next
    fix k
    show "map_of (sv_states (fold (commit_state en pending nxt) L ?sv1)) k =
        (if k \<in> fst ` set ((k0, p0) # L) \<and> k \<in> set pending \<and> byID nxt k = None then None else map_of (sv_states sv) k)"
      using IH g(4) by auto
  qed
qed simp

lemma add_state_lookup:
  shows "map_of (sv_states (add_state e sv)) = (map_of (sv_states sv))(se_ID e \<mapsto> length (sv_heap sv))"
    "get_state (add_state e sv) (length (sv_heap sv)) = newServerState e"
    "p < length (sv_heap sv) \<Longrightarrow> get_state (add_state e sv) p = get_state sv p"
    "sv_pending (add_state e sv) = sv_pending sv"
  by (simp_all add: add_state_def get_state_def nth_append)

lemma byID_ID: "byID c k = Some e \<Longrightarrow> se_ID e = k"
  by (auto simp: byID_def dest!: map_of_SomeD)

lemma byID_None: "byID c k = None \<longleftrightarrow> k \<notin> set (map se_ID (sc_Servers c))"
  by (simp add: byID_def map_of_eq_None_iff image_image)

text \<open>Adding the missing servers keeps the states there are and gives every new id a fresh state.\<close>

definition extends :: "ServersConfig \<Rightarrow> Service \<Rightarrow> Service \<Rightarrow> bool" where
  "extends nxt sv sv' \<longleftrightarrow> sv_ok sv' \<and> length (sv_heap sv) \<le> length (sv_heap sv') \<and> sv_pending sv' = sv_pending sv \<and>
     (\<forall>p < length (sv_heap sv). get_state sv' p = get_state sv p) \<and>
     (\<forall>k p. map_of (sv_states sv) k = Some p \<longrightarrow> map_of (sv_states sv') k = Some p) \<and>
     (\<forall>k. map_of (sv_states sv) k = None \<longrightarrow> (case map_of (sv_states sv') k of None \<Rightarrow> True
        | Some p \<Rightarrow> \<exists>e. byID nxt k = Some e \<and> get_state sv' p = newServerState e))"

lemma extends_refl: "sv_ok sv \<Longrightarrow> extends nxt sv sv"
  by (simp add: extends_def)

lemma extends_add:
  assumes x: "extends nxt sv sv'" and n: "map_of (sv_states sv') k = None" and e: "byID nxt k = Some e"
  shows "extends nxt sv (add_state e sv')"
proof -
  have ok: "sv_ok sv'" using x by (simp add: extends_def)
  note l = add_state_lookup [where e = e and sv = sv']
  have id: "se_ID e = k" using e by (rule byID_ID)
  have "case map_of (sv_states (add_state e sv')) j of None \<Rightarrow> True
      | Some p \<Rightarrow> \<exists>e'. byID nxt j = Some e' \<and> get_state (add_state e sv') p = newServerState e'"
    if "map_of (sv_states sv) j = None" for j
  proof (cases "j = k")
    case True
    then show ?thesis using l id e by simp
  next
    case False
    have "case map_of (sv_states sv') j of None \<Rightarrow> True
        | Some p \<Rightarrow> \<exists>e'. byID nxt j = Some e' \<and> get_state sv' p = newServerState e'"
      using x that by (simp add: extends_def)
    then show ?thesis
      using False l(1,3) id map_of_states_bound [OF ok, of j] by (cases "map_of (sv_states sv') j") simp_all
  qed
  moreover have "length (sv_heap (add_state e sv')) = Suc (length (sv_heap sv'))" by (simp add: add_state_def)
  ultimately show ?thesis
    using x sv_ok_add_state [OF ok, of e] l id n unfolding extends_def by auto
qed

lemma extends_add_missing_fold:
  "extends nxt sv sv' \<Longrightarrow>
   extends nxt sv (fold (\<lambda>k sv. case map_of (sv_states sv) k of Some _ \<Rightarrow> sv
        | None \<Rightarrow> (case byID nxt k of None \<Rightarrow> sv | Some e \<Rightarrow> add_state e sv)) ks sv') \<and>
   (\<forall>k. k \<in> set ks \<and> byID nxt k \<noteq> None \<or> map_of (sv_states sv') k \<noteq> None \<longrightarrow>
     map_of (sv_states (fold (\<lambda>k sv. case map_of (sv_states sv) k of Some _ \<Rightarrow> sv
        | None \<Rightarrow> (case byID nxt k of None \<Rightarrow> sv | Some e \<Rightarrow> add_state e sv)) ks sv')) k \<noteq> None)"
proof (induction ks arbitrary: sv')
  case (Cons k ks)
  let ?sv1 = "case map_of (sv_states sv') k of Some _ \<Rightarrow> sv' | None \<Rightarrow> (case byID nxt k of None \<Rightarrow> sv' | Some e \<Rightarrow> add_state e sv')"
  have x1: "extends nxt sv ?sv1" using Cons.prems extends_add by (auto split: option.split)
  have ok: "sv_ok sv'" using Cons.prems by (simp add: extends_def)
  have "map_of (sv_states ?sv1) j \<noteq> None" if "map_of (sv_states sv') j \<noteq> None \<or> j = k \<and> byID nxt k \<noteq> None" for j
    using that add_state_lookup(1) byID_ID [of nxt k] by (auto split: option.split)
  then show ?case using Cons.IH [OF x1] by auto
qed simp

lemma extends_add_missing:
  assumes "sv_ok sv"
  shows "extends nxt sv (add_missing nxt sv)" "byID nxt k \<noteq> None \<Longrightarrow> map_of (sv_states (add_missing nxt sv)) k \<noteq> None"
  using extends_add_missing_fold [OF extends_refl [OF assms], of nxt "remdups (map se_ID (sc_Servers nxt))"] byID_None [of nxt k]
  by (auto simp: add_missing_def)

text \<open>The commit, described on the map of states.\<close>

lemma Commit_lookup:
  fixes en nxt sv
  defines "sv' \<equiv> CommitServerMutation en sv nxt" and "ids \<equiv> elems (sv_pending sv)"
  assumes ok: "sv_ok sv"
  shows "sv_pending sv' = None"
    "\<And>k p. map_of (sv_states sv) k = Some p \<Longrightarrow> get_state sv' p = commit_value en ids nxt k (get_state sv p) \<and>
       map_of (sv_states sv') k = (if k \<in> set ids \<and> byID nxt k = None then None else Some p)"
    "\<And>k. map_of (sv_states sv) k = None \<Longrightarrow> (case byID nxt k of None \<Rightarrow> map_of (sv_states sv') k = None
       | Some e \<Rightarrow> \<exists>p. map_of (sv_states sv') k = Some p \<and> get_state sv' p = commit_value en ids nxt k (newServerState e))"
proof -
  let ?sv0 = "sv\<lparr>sv_pending := None\<rparr>"
  let ?sv2 = "add_missing nxt ?sv0"
  have ok0: "sv_ok ?sv0" using ok by simp
  note x = extends_add_missing [OF ok0, of nxt]
  have ok2: "sv_ok ?sv2" using x(1) by (simp add: extends_def)
  have sv': "sv' = fold (commit_state en ids nxt) (sv_states ?sv2) ?sv2"
    by (simp add: sv'_def ids_def CommitServerMutation_def Let_def elems_def split: option.split)
  have L: "list_all (\<lambda>kp. snd kp < length (sv_heap ?sv2)) (sv_states ?sv2)" "distinct (map snd (sv_states ?sv2))"
    "distinct (map fst (sv_states ?sv2))" using ok2 by (simp_all add: sv_ok_def)
  note F = commit_fold [OF L, of en ids nxt, folded sv']
  have g: "get_state sv' p = commit_value en ids nxt k (get_state ?sv2 p)" if "map_of (sv_states ?sv2) k = Some p" for k p
    using F map_of_SomeD [OF that] by blast
  have m: "map_of (sv_states sv') k = (if k \<in> set ids \<and> byID nxt k = None then None else map_of (sv_states ?sv2) k)" for k
    using F map_of_eq_None_iff [of "sv_states ?sv2" k] by auto
  have keep: "map_of (sv_states ?sv2) k = Some p" "get_state ?sv2 p = get_state sv p" if "map_of (sv_states sv) k = Some p" for k p
    using x(1) that map_of_states_bound [OF ok that] by (auto simp: extends_def get_state_def)
  show "sv_pending sv' = None" using F x(1) by (simp add: extends_def)
  show "get_state sv' p = commit_value en ids nxt k (get_state sv p) \<and>
       map_of (sv_states sv') k = (if k \<in> set ids \<and> byID nxt k = None then None else Some p)"
    if "map_of (sv_states sv) k = Some p" for k p
    using g keep [OF that] m by auto
  show "case byID nxt k of None \<Rightarrow> map_of (sv_states sv') k = None
       | Some e \<Rightarrow> \<exists>p. map_of (sv_states sv') k = Some p \<and> get_state sv' p = commit_value en ids nxt k (newServerState e)"
    if n: "map_of (sv_states sv) k = None" for k
  proof -
    have c: "case map_of (sv_states ?sv2) k of None \<Rightarrow> True | Some p \<Rightarrow> \<exists>e. byID nxt k = Some e \<and> get_state ?sv2 p = newServerState e"
      using x(1) n by (simp add: extends_def)
    show ?thesis
    proof (cases "map_of (sv_states ?sv2) k")
      case None
      then show ?thesis using x(2) [of k] m [of k] by (cases "byID nxt k") auto
    next
      case (Some p)
      then show ?thesis using c g [OF Some] m [of k] by auto
    qed
  qed
qed

lemma commit_value_entry: "byID nxt k = Some e \<Longrightarrow> ss_entry (commit_value en ids nxt k st) = e"
  by (simp add: commit_value_def committed_def Let_def section_simps)

lemma in_affecting: "k \<in> set (runtimeAffectingServerIDs current nxt) \<longleftrightarrow> (case byID current k of None \<Rightarrow> False
    | Some e \<Rightarrow> (case byID nxt k of None \<Rightarrow> True | Some e' \<Rightarrow> runtimeAffectingChange e e'))"
  using byID_None [of current k] by (auto simp: runtimeAffectingServerIDs_def split: option.splits)

lemma Commit_result:
  assumes ok: "sv_ok sv" and s: "serves sv = byID current" and P: "PrepareServerMutation sv current nxt = (sv1, None)"
  shows "serves (CommitServerMutation en sv1 nxt) = byID nxt \<and> sv_pending (CommitServerMutation en sv1 nxt) = None \<and>
    (\<forall>k p. map_of (sv_states sv) k = Some p \<longrightarrow>
      (if k \<in> set (runtimeAffectingServerIDs current nxt)
       then ss_session (get_state (CommitServerMutation en sv1 nxt) p) = None \<and>
            \<not> ss_mutating (get_state (CommitServerMutation en sv1 nxt) p)
       else map_of (sv_states (CommitServerMutation en sv1 nxt)) k = Some p \<and>
            ss_session (get_state (CommitServerMutation en sv1 nxt) p) = ss_session (get_state sv p) \<and>
            ss_active (get_state (CommitServerMutation en sv1 nxt) p) = ss_active (get_state sv p)))"
proof -
  let ?ids = "runtimeAffectingServerIDs current nxt"
  note ps = Prepare_success [OF P ok]
  let ?sv' = "CommitServerMutation en sv1 nxt"
  have ok1: "sv_ok sv1" using quiet_ok [OF quiet_Prepare [OF ok, of current nxt]] P by simp
  have pend: "elems (sv_pending sv1) = known_ids sv ?ids" by (simp add: ps(4) elems_def)
  have st1: "sv_states sv1 = sv_states sv" by (simp add: ps(4))
  note C = Commit_lookup [OF ok1, where en = en and nxt = nxt, unfolded st1 pend]
  have get1: "get_state sv1 p = (if k \<in> set ?ids then (get_state sv p)\<lparr>ss_mutating := True\<rparr> else get_state sv p)"
    if m: "map_of (sv_states sv) k = Some p" for k p
  proof -
    have "p \<in> set (states_of sv ?ids) \<longleftrightarrow> k \<in> set ?ids" using m map_of_inj [OF ok m] unfolding in_states_of by blast
    then show ?thesis using map_of_states_bound [OF ok m] by (simp add: ps(4) get_mark)
  qed
  have known: "k \<in> set (known_ids sv ?ids) \<longleftrightarrow> k \<in> set ?ids" if "map_of (sv_states sv) k = Some p" for k p
    using that by (simp add: known_ids_def)
  have cur: "map_of (sv_states sv) k = None \<longleftrightarrow> byID current k = None" for k
    using fun_cong [OF s, of k] by (auto simp: serves_def)
  have "serves ?sv' k = byID nxt k" for k
  proof (cases "map_of (sv_states sv) k")
    case None
    then show ?thesis using C(3) [OF None] by (auto simp: serves_def commit_value_entry split: option.splits)
  next
    case (Some p)
    have "byID nxt k = None \<Longrightarrow> k \<in> set ?ids" using cur [of k] Some by (auto simp: in_affecting)
    then show ?thesis using C(2) [OF Some] known [OF Some] by (cases "byID nxt k") (auto simp: serves_def commit_value_entry)
  qed
  moreover have "if k \<in> set ?ids then ss_session (get_state ?sv' p) = None \<and> \<not> ss_mutating (get_state ?sv' p)
       else map_of (sv_states ?sv') k = Some p \<and> ss_session (get_state ?sv' p) = ss_session (get_state sv p) \<and>
            ss_active (get_state ?sv' p) = ss_active (get_state sv p)" if "map_of (sv_states sv) k = Some p" for k p
    using C(2) [OF that] known [OF that] get1 [OF that] cur [of k]
    by (auto simp: commit_value_def committed_def Let_def section_simps split: option.split)
  ultimately show ?thesis using C(1) by blast
qed

lemmas commit_serves = Commit_result [THEN conjunct1]

text \<open>
  (C28) Committing a prepared change refines replacing the configuration: when the service serves the current
  configuration and the change to the next one was prepared, then after the commit it serves exactly the next
  one (every entry updated, removed servers gone, added servers present) and the reservation is over. A server the
  change does not affect keeps its state, session and lease count; an affected one has lost its session.
\<close>

theorem Prepare_Commit_serves:
  assumes ok: "sv_ok sv" and s: "serves sv = byID current" and P: "PrepareServerMutation sv current nxt = (sv1, None)"
  shows "serves (CommitServerMutation en sv1 nxt) = byID nxt \<and> sv_pending (CommitServerMutation en sv1 nxt) = None \<and>
    (\<forall>k p. map_of (sv_states sv) k = Some p \<longrightarrow>
      (if k \<in> set (runtimeAffectingServerIDs current nxt)
       then ss_session (get_state (CommitServerMutation en sv1 nxt) p) = None \<and>
            \<not> ss_mutating (get_state (CommitServerMutation en sv1 nxt) p)
       else map_of (sv_states (CommitServerMutation en sv1 nxt)) k = Some p \<and>
            ss_session (get_state (CommitServerMutation en sv1 nxt) p) = ss_session (get_state sv p) \<and>
            ss_active (get_state (CommitServerMutation en sv1 nxt) p) = ss_active (get_state sv p)))"
  using assms by (rule Commit_result)

section \<open>Shutdown\<close>

definition session_list :: "Service \<Rightarrow> nat \<Rightarrow> nat list" where
  "session_list sv p = (case ss_session (get_state sv p) of None \<Rightarrow> [] | Some c \<Rightarrow> [c])"

definition live_sessions :: "Service \<Rightarrow> nat list" where
  "live_sessions sv = concat (map (session_list sv) (map snd (sv_states sv)))"

lemma close_fold:
  "list_all (\<lambda>p. p < length (sv_heap sv)) ps \<Longrightarrow> distinct ps \<Longrightarrow>
   (\<forall>p \<in> set ps. ss_session (get_state (fold (close_state en) ps sv) p) = None \<and>
      \<not> ss_runtimeChanging (get_state (fold (close_state en) ps sv) p) \<and>
      ss_idleTimer (get_state (fold (close_state en) ps sv) p) = None) \<and>
   (\<forall>q. q \<notin> set ps \<longrightarrow> get_state (fold (close_state en) ps sv) q = get_state sv q) \<and>
   sv_states (fold (close_state en) ps sv) = sv_states sv \<and> sv_closing (fold (close_state en) ps sv) = sv_closing sv \<and>
   sv_pending (fold (close_state en) ps sv) = sv_pending sv \<and>
   sv_closed (fold (close_state en) ps sv) = sv_closed sv @ concat (map (session_list sv) ps)"
proof (induction ps arbitrary: sv)
  case (Cons p ps)
  let ?sv1 = "close_state en p sv"
  have p: "p < length (sv_heap sv)" "p \<notin> set ps" using Cons.prems by auto
  have "list_all (\<lambda>p. p < length (sv_heap ?sv1)) ps" using Cons.prems by (simp add: close_state_alt)
  note IH = Cons.IH [OF this distinct.simps(2) [THEN iffD1, OF Cons.prems(2), THEN conjunct2]]
  have l: "map (session_list ?sv1) ps = map (session_list sv) ps"
    using p by (auto simp: close_state_alt session_list_def)
  have f: "sv_states ?sv1 = sv_states sv" "sv_closing ?sv1 = sv_closing sv" "sv_pending ?sv1 = sv_pending sv"
    "sv_closed ?sv1 = sv_closed sv @ session_list sv p" "\<And>q. q \<noteq> p \<Longrightarrow> get_state ?sv1 q = get_state sv q"
    "get_state ?sv1 p = (touched en (detach (get_state sv p)))\<lparr>ss_runtimeChanging := False\<rparr>"
    using p by (auto simp: close_state_alt session_list_def)
  have g: "get_state (fold (close_state en) ps ?sv1) p = get_state ?sv1 p" using IH p(2) by blast
  show ?case using IH l f p(2) g by (auto simp: section_simps)
qed simp

text \<open>
  Shutdown leaves nothing running: after closing the service no configured server has a session, a start
  or stop in progress or an armed idle timer, no change stays prepared, and exactly the sessions that were live
  have been closed, each once. From then on acquisitions and starts are refused and change nothing, and closing again is a no-op.
\<close>

theorem Service_Close_complete:
  assumes ok: "sv_ok sv" and n: "\<not> sv_closing sv" and C: "Service_Close en sv = (sv', errs)"
  shows "sv_closing sv' \<and> sv_pending sv' = None \<and> sv_states sv' = sv_states sv \<and>
     sv_closed sv' = sv_closed sv @ live_sessions sv \<and>
     (map_of (sv_states sv') k = Some p \<longrightarrow> ss_session (get_state sv' p) = None \<and>
        \<not> ss_runtimeChanging (get_state sv' p) \<and> ss_idleTimer (get_state sv' p) = None) \<and>
     Acquire en' connect locked sv' k = (sv', Inl ErrManagerShuttingDown) \<and>
     fst (Start en' connect locked sv' k) = sv' \<and> snd (snd (Start en' connect locked sv' k)) \<noteq> None \<and>
     Service_Close en' sv' = (sv', [])"
proof -
  let ?sv0 = "sv\<lparr>sv_closing := True\<rparr>"
  let ?sv1 = "AbortServerMutation ?sv0"
  define qs where "qs = List.map_filter (map_of (sv_states sv)) (elems (sv_pending sv))"
  have qs: "list_all (\<lambda>p. p < length (sv_heap sv)) qs"
    using map_of_states_bound [OF ok] by (auto simp: qs_def List.map_filter_def list_all_iff)
  have "?sv1 = clear_mutating qs (?sv0\<lparr>sv_pending := None\<rparr>)"
    by (simp add: AbortServerMutation_def qs_def elems_def Let_def split: option.split)
  then have sv1: "?sv1 = mark False qs (?sv0\<lparr>sv_pending := None\<rparr>)" using clear_mutating_mark qs by simp
  have sess: "session_list ?sv1 p = session_list sv p" if "p < length (sv_heap sv)" for p
    using that by (simp add: sv1 session_list_def get_mark)
  have b: "list_all (\<lambda>p. p < length (sv_heap ?sv1)) (map snd (sv_states ?sv1))" "distinct (map snd (sv_states ?sv1))"
    using ok sv_ok_states [OF ok] by (simp_all add: sv1 sv_ok_def)
  have ms: "map (session_list ?sv1) (map snd (sv_states sv)) = map (session_list sv) (map snd (sv_states sv))"
    using sess sv_ok_states [OF ok] by (auto simp: list_all_iff)
  note F = close_fold [OF b, of en]
  have st: "sv_states ?sv1 = sv_states sv" "sv_closing ?sv1" "sv_pending ?sv1 = None" "sv_closed ?sv1 = sv_closed sv"
    by (simp_all add: sv1)
  have sv': "sv' = fold (close_state en) (map snd (sv_states ?sv1)) ?sv1"
    using C n by (simp add: Service_Close_def Let_def)
  have cl: "sv_closing sv'" "sv_pending sv' = None" "sv_states sv' = sv_states sv" "sv_closed sv' = sv_closed sv @ live_sessions sv"
    using F st ms unfolding sv' live_sessions_def by (simp_all del: map_map)
  moreover have "ss_session (get_state sv' p) = None \<and> \<not> ss_runtimeChanging (get_state sv' p) \<and> ss_idleTimer (get_state sv' p) = None"
    if "map_of (sv_states sv') k = Some p"
  proof -
    have "p \<in> set (map snd (sv_states ?sv1))" using map_of_SomeD [OF that] cl(3) st(1) by force
    then show ?thesis using F unfolding sv' by blast
  qed
  ultimately show ?thesis
    by (auto simp: Acquire_def Start_def startState_def Service_Close_def split: sum.split)
qed

text \<open>
  Restart does not look at the closing flag: on a service that has been shut down, restarting a known server
  with a connect function that still answers gives it a session again, which no later shutdown closes.
\<close>

theorem Restart_after_Close:
  "\<exists>sv c. sv_ok sv \<and> sv_closing sv \<and> snd (snd (Restart (sample_env 5) sample_connect True sv ''a'')) = None \<and>
     ss_session (get_state (fst (Restart (sample_env 5) sample_connect True sv ''a'')) 0) = Some c \<and>
     Service_Close (sample_env 6) (fst (Restart (sample_env 5) sample_connect True sv ''a'')) =
       (fst (Restart (sample_env 5) sample_connect True sv ''a''), [])"
proof (intro exI conjI)
  let ?sv = "fst (Service_Close (sample_env 1) sample_service)"
  show "sv_ok ?sv" using quiet_ok [OF quiet_Close [OF sample_service_ok(1)]] .
  show "sv_closing ?sv" by code_simp
  show "snd (snd (Restart (sample_env 5) sample_connect True ?sv ''a'')) = None" by code_simp
  show "ss_session (get_state (fst (Restart (sample_env 5) sample_connect True ?sv ''a'')) 0) = Some 7" by code_simp
  have "sv_closing (fst (Restart (sample_env 5) sample_connect True ?sv ''a''))" by code_simp
  then show "Service_Close (sample_env 6) (fst (Restart (sample_env 5) sample_connect True ?sv ''a'')) =
       (fst (Restart (sample_env 5) sample_connect True ?sv ''a''), [])" by (simp add: Service_Close_def)
qed

section \<open>Idle stops and restart delays\<close>

text \<open>
  An idle stop only ever hits the unused session it was armed for: if an idle timer closes a session, the
  server is managed, has no lease, is neither reserved nor changing, still runs the very session, generation
  and sequence the timer was armed with, and its idle deadline has passed; otherwise nothing is closed and the session stays.
\<close>

theorem idleStop_only_unused:
  assumes "p < length (sv_heap sv)"
  shows "(sv_closed (idleStop en locked sv p t) = sv_closed sv @ [it_session t] \<and>
      ss_session (get_state (idleStop en locked sv p t) p) = None \<and>
      ss_session (get_state sv p) = Some (it_session t) \<and> ss_generation (get_state sv p) = it_generation t \<and>
      ss_idleSequence (get_state sv p) = it_sequence t \<and> se_Mode (ss_entry (get_state sv p)) = ModeManaged \<and>
      ss_active (get_state sv p) = 0 \<and> \<not> ss_mutating (get_state sv p) \<and> \<not> ss_runtimeChanging (get_state sv p) \<and>
      (case ss_idleDeadline (get_state sv p) of None \<Rightarrow> True | Some d \<Rightarrow> d \<le> en_now en)) \<or>
     (sv_closed (idleStop en locked sv p t) = sv_closed sv \<and>
      ss_session (get_state (idleStop en locked sv p t) p) = ss_session (get_state sv p))"
  using assms
  by (auto simp: idleStop_def idle_enter_def idle_finish_def section_simps split: option.splits)

lemma next_delay_bounds: "100000000 \<le> d \<Longrightarrow> d \<le> 5000000000 \<Longrightarrow> d \<le> next_delay d \<and> next_delay d \<le> 5000000000"
  by (auto simp: next_delay_def)

lemma maintain_delays:
  "100000000 \<le> d \<Longrightarrow> d \<le> 5000000000 \<Longrightarrow>
     list_all (\<lambda>x. d \<le> x \<and> x \<le> 5000000000) (snd (maintainAlwaysOn rounds d sv p)) \<and> sorted (snd (maintainAlwaysOn rounds d sv p))"
proof (induction rounds arbitrary: d sv)
  case (Cons r rounds)
  obtain en connect locked where r: "r = (en, connect, locked)" by (cases r)
  have nd: "d \<le> next_delay d" "next_delay d \<le> 5000000000" using next_delay_bounds [OF Cons.prems] by auto
  have IH: "list_all (\<lambda>x. next_delay d \<le> x \<and> x \<le> 5000000000) (snd (maintainAlwaysOn rounds (next_delay d) sv1 p)) \<and>
      sorted (snd (maintainAlwaysOn rounds (next_delay d) sv1 p))" for sv1
    using Cons.IH [of "next_delay d" sv1] Cons.prems nd by auto
  then have t: "list_all (\<lambda>x. d \<le> x \<and> x \<le> 5000000000) (d # snd (maintainAlwaysOn rounds (next_delay d) sv1 p)) \<and>
      sorted (d # snd (maintainAlwaysOn rounds (next_delay d) sv1 p))" for sv1
    using nd Cons.prems by (force simp: list_all_iff)
  show ?case using t by (simp add: r Let_def split_beta)
qed simp

text \<open>
  The restart loop of an always-on server backs off within bounds: whatever the rounds answer, the delays
  between two attempts start at 100 milliseconds, never shrink and never exceed five seconds.
\<close>

theorem maintainAlwaysOn_delays:
  "sorted (snd (maintainAlwaysOn rounds 100000000 sv p)) \<and>
   list_all (\<lambda>d. 100000000 \<le> d \<and> d \<le> 5000000000) (snd (maintainAlwaysOn rounds 100000000 sv p))"
  using maintain_delays [of 100000000 rounds sv p] by simp

section \<open>Concrete instances\<close>

definition cfg :: "ServerEntry list \<Rightarrow> ServersConfig" where
  "cfg es = \<lparr>sc_SchemaVersion = SchemaVersion, sc_Servers = es\<rparr>"

definition sample_ab :: ServersConfig where
  "sample_ab = cfg [sample_entry ''a'' ModeManaged sample_stdio_transport, sample_entry ''b'' ModeManual sample_stdio_transport]"

text \<open>Server \<open>a\<close> removed, \<open>b\<close> kept, \<open>c\<close> added.\<close>

definition sample_bc :: ServersConfig where
  "sample_bc = cfg [sample_entry ''b'' ModeManual sample_stdio_transport, sample_entry ''c'' ModeManaged sample_stdio_transport]"

definition sample_running :: Service where
  "sample_running = fst (Start (sample_env 3) sample_connect True sample_service ''a'')"

lemma sample_running_ok: "sv_ok sample_running" "\<not> sv_closing sample_running" "map_of (sv_states sample_running) ''a'' = Some 0"
  unfolding sample_running_def by (code_simp, code_simp, code_simp)

definition sample_prepared :: Service where
  "sample_prepared = fst (PrepareServerMutation sample_running sample_ab sample_bc)"

lemma sample_prepare: "PrepareServerMutation sample_running sample_ab sample_bc = (sample_prepared, None)"
  unfolding sample_prepared_def prod_eq_iff by code_simp

theorem Prepare_accepts_iff_witness:
  "snd (PrepareServerMutation (fst (Acquire (sample_env 4) sample_connect True sample_running ''a'')) sample_ab sample_bc) \<noteq> None"
proof -
  let ?sv = "fst (Acquire (sample_env 4) sample_connect True sample_running ''a'')"
  have "sv_ok ?sv" using Acquire_ok [OF surjective_pairing sample_running_ok(1)] .
  note iff = Prepare_accepts_iff [OF this, of sample_ab sample_bc]
  have "''a'' \<in> set (runtimeAffectingServerIDs sample_ab sample_bc)" "map_of (sv_states ?sv) ''a'' = Some 0"
    "0 < ss_active (get_state ?sv 0)" by code_simp+
  with iff show ?thesis by metis
qed

theorem Prepare_rollback_witness: "AbortServerMutation sample_prepared = sample_running \<and> sample_prepared \<noteq> sample_running"
proof
  show "AbortServerMutation sample_prepared = sample_running"
    using Prepare_rollback [OF sample_running_ok(1) sample_prepare] by simp
  have "sv_pending sample_prepared \<noteq> None" "sv_pending sample_running = None" by code_simp+
  then show "sample_prepared \<noteq> sample_running" by auto
qed

theorem reservation_blocks_operations_witness:
  "snd (snd (Stop (sample_env 4) True sample_prepared ''a'')) \<noteq> None \<and> ss_session (get_state sample_prepared 0) = Some 7"
proof
  have "sv_ok sample_prepared" using quiet_ok [OF quiet_Prepare [OF sample_running_ok(1), of sample_ab sample_bc]] by (simp add: sample_prepare)
  moreover have "Service_lookup sample_prepared ''a'' = Inr 0" "ss_mutating (get_state sample_prepared 0)" by code_simp+
  ultimately show "snd (snd (Stop (sample_env 4) True sample_prepared ''a'')) \<noteq> None"
    using reservation_blocks_operations [where en = "sample_env 4" and locked = True] by blast
  show "ss_session (get_state sample_prepared 0) = Some 7" by code_simp
qed

lemma sample_serves: "serves sample_running = byID sample_ab"
proof
  fix k
  have m: "sv_states sample_running = [(''a'', 0), (''b'', 1)]"
    "ss_entry (get_state sample_running 0) = sample_entry ''a'' ModeManaged sample_stdio_transport"
    "ss_entry (get_state sample_running (Suc 0)) = sample_entry ''b'' ModeManual sample_stdio_transport" by code_simp+
  show "serves sample_running k = byID sample_ab k"
    by (simp add: serves_def m byID_def sample_ab_def cfg_def) (simp add: sample_entry_def)
qed

theorem Prepare_Commit_serves_witness:
  "serves (CommitServerMutation (sample_env 9) sample_prepared sample_bc) = byID sample_bc \<and>
   ss_session (get_state (CommitServerMutation (sample_env 9) sample_prepared sample_bc) 0) = None"
proof -
  have "''a'' \<in> set (runtimeAffectingServerIDs sample_ab sample_bc)" by code_simp
  then show ?thesis
    using Prepare_Commit_serves [OF sample_running_ok(1) sample_serves sample_prepare, of "sample_env 9"] sample_running_ok(3) by auto
qed

theorem Service_Close_complete_witness:
  "sv_closed (fst (Service_Close (sample_env 8) sample_running)) = [7] \<and>
   ss_session (get_state (fst (Service_Close (sample_env 8) sample_running)) 0) = None"
proof -
  note C = Service_Close_complete [OF sample_running_ok(1,2) surjective_pairing, of "sample_env 8" "''a''" 0]
  have "sv_closed sample_running @ live_sessions sample_running = [7]" by code_simp
  then show ?thesis using C sample_running_ok(3) by simp
qed

theorem idleStop_only_unused_witness:
  "case ss_idleTimer (get_state sample_running 0) of None \<Rightarrow> False | Some t \<Rightarrow>
     sv_closed (idleStop (sample_env (it_fireAt t)) True sample_running 0 t) = [7]"
proof -
  have "(0::nat) < length (sv_heap sample_running)" by code_simp
  note I = idleStop_only_unused [OF this]
  have fire: "case ss_idleTimer (get_state sample_running 0) of None \<Rightarrow> False | Some t \<Rightarrow>
     sv_closed (idleStop (sample_env (it_fireAt t)) True sample_running 0 t) \<noteq> sv_closed sample_running \<and> it_session t = 7"
    by code_simp
  then obtain t where t: "ss_idleTimer (get_state sample_running 0) = Some t" "it_session t = 7"
    "sv_closed (idleStop (sample_env (it_fireAt t)) True sample_running 0 t) \<noteq> sv_closed sample_running"
    by (auto split: option.splits)
  have "sv_closed sample_running = []" by code_simp
  with t I [of "sample_env (it_fireAt t)" True t] show ?thesis by auto
qed

end
