(* ===== verification/ExecutionHandle.thy ===== *)
theory ExecutionHandle
  imports ToolContract
begin

text \<open>
  Execution handles: \<^verbatim>\<open>internal/executionhandle/handle.go\<close>. A handle is the text
  \<^verbatim>\<open>eh1.<payload>.<signature>\<close>, both parts in unpadded URL-safe base64, the payload the JSON of
  the claims and the signature its HMAC-SHA256 under a key drawn at process start. Base64 is defined here as
  Go's \<^verbatim>\<open>RawURLEncoding\<close> behaves: the decoder skips carriage returns and line feeds and does not
  check the unused bits of the last character. HMAC and the JSON codec of the claims are parameters
  (\<open>handle_lib\<close>). A nil \<^verbatim>\<open>*Manager\<close> is \<open>None\<close>.
\<close>

section \<open>Base64\<close>

abbreviation byte_val :: "char \<Rightarrow> nat" where
  "byte_val c \<equiv> of_char c"

definition b64_alphabet :: string where
  "b64_alphabet = ''ABCDEFGHIJKLMNOPQRSTUVWXYZabcdefghijklmnopqrstuvwxyz0123456789-_''"

definition b64_char :: "nat \<Rightarrow> char" where
  "b64_char n = b64_alphabet ! n"

definition b64_index :: "char \<Rightarrow> nat option" where
  "b64_index c = map_of (zip b64_alphabet [0..<64]) c"

fun EncodeToString :: "string \<Rightarrow> string" where
  "EncodeToString (a # b # c # rest) =
     b64_char (byte_val a div 4) # b64_char (byte_val a mod 4 * 16 + byte_val b div 16) #
     b64_char (byte_val b mod 16 * 4 + byte_val c div 64) # b64_char (byte_val c mod 64) # EncodeToString rest"
| "EncodeToString [a, b] =
     [b64_char (byte_val a div 4), b64_char (byte_val a mod 4 * 16 + byte_val b div 16), b64_char (byte_val b mod 16 * 4)]"
| "EncodeToString [a] = [b64_char (byte_val a div 4), b64_char (byte_val a mod 4 * 16)]"
| "EncodeToString [] = []"

fun decode_quanta :: "nat list \<Rightarrow> string option" where
  "decode_quanta (a # b # c # d # rest) =
     map_option (\<lambda>r. char_of (a * 4 + b div 16) # char_of (b mod 16 * 16 + c div 4) # char_of (c mod 4 * 64 + d) # r)
       (decode_quanta rest)"
| "decode_quanta [a, b, c] = Some [char_of (a * 4 + b div 16), char_of (b mod 16 * 16 + c div 4)]"
| "decode_quanta [a, b] = Some [char_of (a * 4 + b div 16)]"
| "decode_quanta [a] = None"
| "decode_quanta [] = Some []"

definition DecodeString :: "string \<Rightarrow> string option" where
  "DecodeString s = (let t = filter (\<lambda>c. c \<noteq> CHR 0x0A \<and> c \<noteq> CHR 0x0D) s; ix = map b64_index t in
     if None \<in> set ix then None else decode_quanta (map the ix))"

lemma byte_val_less [simp]: "byte_val c < 256"
  by (rule nat_of_char_less_256)

lemma b64_char_ok:
  assumes "n < 64"
  shows "b64_index (b64_char n) = Some n" "b64_char n \<noteq> CHR 0x0A" "b64_char n \<noteq> CHR 0x0D" "b64_char n \<noteq> CHR ''.''"
proof -
  have len: "length b64_alphabet = 64" and d: "distinct b64_alphabet" by (simp_all add: b64_alphabet_def)
  show "b64_index (b64_char n) = Some n"
    using map_of_zip_nth [of b64_alphabet "[0..<64]" n] len d assms by (simp add: b64_index_def b64_char_def)
  have "b64_char n \<in> set b64_alphabet" using len assms by (simp add: b64_char_def)
  moreover have "CHR 0x0A \<notin> set b64_alphabet" "CHR 0x0D \<notin> set b64_alphabet" "CHR ''.'' \<notin> set b64_alphabet"
    by (simp_all add: b64_alphabet_def)
  ultimately show "b64_char n \<noteq> CHR 0x0A" "b64_char n \<noteq> CHR 0x0D" "b64_char n \<noteq> CHR ''.''" by metis+
qed

text \<open>The six-bit values an encoding consists of.\<close>

fun sextets :: "string \<Rightarrow> nat list" where
  "sextets (a # b # c # rest) = byte_val a div 4 # (byte_val a mod 4 * 16 + byte_val b div 16) #
     (byte_val b mod 16 * 4 + byte_val c div 64) # byte_val c mod 64 # sextets rest"
| "sextets [a, b] = [byte_val a div 4, byte_val a mod 4 * 16 + byte_val b div 16, byte_val b mod 16 * 4]"
| "sextets [a] = [byte_val a div 4, byte_val a mod 4 * 16]"
| "sextets [] = []"

lemma EncodeToString_sextets: "EncodeToString s = map b64_char (sextets s)"
  by (induction s rule: EncodeToString.induct) simp_all

lemma high_six: "byte_val a div 4 < 64"
  using byte_val_less [of a] by (simp only: div_less_iff_less_mult [of 4])

lemma mid_four: "byte_val a div 16 < 16"
  using byte_val_less [of a] by (simp only: div_less_iff_less_mult [of 16])

lemma low_two: "byte_val a div 64 < 4"
  using byte_val_less [of a] by (simp only: div_less_iff_less_mult [of 64])

lemma split_bits: "x < 4 \<Longrightarrow> y < 16 \<Longrightarrow> x * 16 + y < (64::nat)" "x < 16 \<Longrightarrow> y < 4 \<Longrightarrow> x * 4 + y < (64::nat)"
  by auto

lemma sextets_less: "n \<in> set (sextets s) \<Longrightarrow> n < 64"
proof (induction s rule: sextets.induct)
  case (1 a b c rest)
  then show ?case
    using high_six [of a] mid_four [of b] low_two [of c]
    by (auto intro!: split_bits)
next
  case (2 a b)
  then show ?case using high_six [of a] mid_four [of b] split_bits(2) [of "byte_val b mod 16" 0] by (auto intro!: split_bits)
next
  case (3 a)
  then show ?case using high_six [of a] split_bits(1) [of "byte_val a mod 4" 0] by auto
qed simp

lemma join_bits:
  "a div 4 * 4 + (a mod 4 * 16 + b div 16) div 16 = a" if "b < 256" for a b :: nat
  using that by simp

lemma decode_sextets: "decode_quanta (sextets s) = Some s"
proof (induction s rule: sextets.induct)
  case (1 a b c rest)
  have "byte_val a div 4 * 4 + (byte_val a mod 4 * 16 + byte_val b div 16) div 16 = byte_val a"
    using mid_four [of b] by simp
  moreover have "(byte_val a mod 4 * 16 + byte_val b div 16) mod 16 * 16 + (byte_val b mod 16 * 4 + byte_val c div 64) div 4 = byte_val b"
    using mid_four [of b] low_two [of c] by simp
  moreover have "(byte_val b mod 16 * 4 + byte_val c div 64) mod 4 * 64 + byte_val c mod 64 = byte_val c"
    using low_two [of c] by simp
  ultimately show ?case using 1 by simp
next
  case (2 a b)
  have "byte_val a div 4 * 4 + (byte_val a mod 4 * 16 + byte_val b div 16) div 16 = byte_val a"
    using mid_four [of b] by simp
  moreover have "(byte_val a mod 4 * 16 + byte_val b div 16) mod 16 * 16 + (byte_val b mod 16 * 4) div 4 = byte_val b"
    using mid_four [of b] by simp
  ultimately show ?case by simp
qed simp_all

lemma filter_sextets: "set ns \<subseteq> {..<64} \<Longrightarrow> filter (\<lambda>c. c \<noteq> CHR 0x0A \<and> c \<noteq> CHR 0x0D) (map b64_char ns) = map b64_char ns"
  using b64_char_ok by (auto simp: filter_id_conv)

lemma index_sextets: "set ns \<subseteq> {..<64} \<Longrightarrow> map b64_index (map b64_char ns) = map Some ns"
  using b64_char_ok by (auto simp: map_idI)

lemma base64_decode: "DecodeString (EncodeToString s) = Some s" and base64_nodot: "CHR ''.'' \<notin> set (EncodeToString s)"
proof -
  have ns: "set (sextets s) \<subseteq> {..<64}" using sextets_less by auto
  have "None \<notin> set (map Some (sextets s))" by auto
  then show "DecodeString (EncodeToString s) = Some s"
    by (simp only: DecodeString_def EncodeToString_sextets Let_def filter_sextets [OF ns] index_sextets [OF ns] if_False)
      (simp add: comp_def decode_sextets)
  show "CHR ''.'' \<notin> set (EncodeToString s)"
    using ns b64_char_ok(4) by (fastforce simp: EncodeToString_sextets)
qed

lemma encoded_no_space: "set (EncodeToString x) \<inter> set (concat go_spaces) = {}"
proof -
  have "length b64_alphabet = 64" by (simp add: b64_alphabet_def)
  then have "b64_char n \<in> set b64_alphabet" if "n < 64" for n
    using that unfolding b64_char_def by (intro nth_mem) simp
  then have "set (EncodeToString x) \<subseteq> set b64_alphabet"
    using sextets_less [of _ x] by (auto simp: EncodeToString_sextets)
  moreover have "set b64_alphabet \<inter> set (concat go_spaces) = {}" by code_simp
  ultimately show ?thesis by blast
qed

text \<open>
  Base64 round trip: decoding an encoded byte string gives the byte string back, for every length and
  every byte value, and the encoding never contains the dot that separates the parts of a handle.
\<close>

theorem base64_roundtrip: "DecodeString (EncodeToString s) = Some s \<and> CHR ''.'' \<notin> set (EncodeToString s)"
  using base64_decode base64_nodot by blast

section \<open>Claims and managers\<close>

record Claims =
  cl_Version :: int
  cl_GenerationID :: string
  cl_ServerID :: string
  cl_ToolName :: string
  cl_SourceFingerprint :: string
  cl_ExecutorClass :: string
  cl_ProcessEpoch :: string

record Manager =
  hm_key :: string
  hm_epoch :: string

record handle_lib =
  hmac_sha256 :: "string \<Rightarrow> string \<Rightarrow> string"
  marshal_claims :: "Claims \<Rightarrow> string"
  unmarshal_claims :: "string \<Rightarrow> Claims option"

datatype handle_error = NotInitialized | ClaimsIncomplete | EpochMissing | ErrInvalidHandle | ErrStaleHandle | RandomFailed

definition tokenPrefix :: string where
  "tokenPrefix = ''eh1''"

text \<open>\<open>random\<close> holds what the two reads of \<^verbatim>\<open>crypto/rand\<close> return, \<open>None\<close> for an error.\<close>

definition NewManager :: "string option \<Rightarrow> string option \<Rightarrow> (handle_error, Manager) result" where
  "NewManager key epoch = (case key of None \<Rightarrow> Inl RandomFailed | Some k \<Rightarrow>
     case epoch of None \<Rightarrow> Inl RandomFailed | Some e \<Rightarrow> Inr \<lparr>hm_key = k, hm_epoch = EncodeToString e\<rparr>)"

definition ProcessEpoch :: "Manager option \<Rightarrow> string" where
  "ProcessEpoch m = (case m of None \<Rightarrow> [] | Some x \<Rightarrow> hm_epoch x)"

definition validateClaims :: "Claims \<Rightarrow> bool \<Rightarrow> handle_error option" where
  "validateClaims claims requireEpoch =
     (if blank (cl_GenerationID claims) \<or> blank (cl_ServerID claims) \<or> blank (cl_ToolName claims) \<or>
         blank (cl_SourceFingerprint claims) \<or> blank (cl_ExecutorClass claims) then Some ClaimsIncomplete
      else if requireEpoch \<and> blank (cl_ProcessEpoch claims) then Some EpochMissing else None)"

definition Mint :: "handle_lib \<Rightarrow> Manager option \<Rightarrow> Claims \<Rightarrow> (handle_error, string) result" where
  "Mint lib m claims =
     (case m of None \<Rightarrow> Inl NotInitialized | Some mg \<Rightarrow>
      if hm_epoch mg = [] then Inl NotInitialized
      else (case validateClaims claims False of Some e \<Rightarrow> Inl e | None \<Rightarrow>
        let stamped = claims\<lparr>cl_Version := 1, cl_ProcessEpoch := hm_epoch mg\<rparr>;
            payload = marshal_claims lib stamped;
            signature = hmac_sha256 lib (hm_key mg) payload
        in Inr (tokenPrefix @ ''.'' @ EncodeToString payload @ ''.'' @ EncodeToString signature)))"

definition Validate :: "handle_lib \<Rightarrow> Manager option \<Rightarrow> string \<Rightarrow> (handle_error, Claims) result" where
  "Validate lib m token =
     (case m of None \<Rightarrow> Inl ErrInvalidHandle | Some mg \<Rightarrow>
      if hm_epoch mg = [] then Inl ErrInvalidHandle
      else case split_on CHR ''.'' token of
        [pre, body, sig] \<Rightarrow>
          (if pre \<noteq> tokenPrefix then Inl ErrInvalidHandle
           else case DecodeString body of None \<Rightarrow> Inl ErrInvalidHandle | Some payload \<Rightarrow>
           case DecodeString sig of None \<Rightarrow> Inl ErrInvalidHandle | Some signature \<Rightarrow>
           if signature \<noteq> hmac_sha256 lib (hm_key mg) payload then Inl ErrInvalidHandle
           else case unmarshal_claims lib payload of None \<Rightarrow> Inl ErrInvalidHandle | Some claims \<Rightarrow>
           if cl_Version claims \<noteq> 1 then Inl ErrInvalidHandle
           else if validateClaims claims True \<noteq> None then Inl ErrInvalidHandle
           else if cl_ProcessEpoch claims \<noteq> hm_epoch mg then Inl ErrStaleHandle
           else Inr claims)
      | _ \<Rightarrow> Inl ErrInvalidHandle)"

section \<open>What a handle proves\<close>

lemma split_token: "split_on CHR ''.'' (tokenPrefix @ ''.'' @ EncodeToString p @ ''.'' @ EncodeToString s) =
    [tokenPrefix, EncodeToString p, EncodeToString s]"
proof -
  have "CHR ''.'' \<notin> set tokenPrefix" by (simp add: tokenPrefix_def)
  then show ?thesis
    using base64_nodot [of p] base64_nodot [of s] by (simp add: split_on_append_sep)
qed

lemma Validate_token:
  "hm_epoch mg \<noteq> [] \<Longrightarrow> Validate lib (Some mg) (tokenPrefix @ ''.'' @ EncodeToString p @ ''.'' @ EncodeToString s) =
     (if s \<noteq> hmac_sha256 lib (hm_key mg) p then Inl ErrInvalidHandle
      else case unmarshal_claims lib p of None \<Rightarrow> Inl ErrInvalidHandle | Some claims \<Rightarrow>
        if cl_Version claims \<noteq> 1 \<or> validateClaims claims True \<noteq> None then Inl ErrInvalidHandle
        else if cl_ProcessEpoch claims \<noteq> hm_epoch mg then Inl ErrStaleHandle else Inr claims)"
  unfolding Validate_def by (simp only: option.case split_token base64_decode list.case) (simp split: option.split)

lemma Mint_token:
  assumes "Mint lib (Some mg) c = Inr t"
  shows "hm_epoch mg \<noteq> []" "validateClaims c False = None"
    "t = tokenPrefix @ ''.'' @ EncodeToString (marshal_claims lib (c\<lparr>cl_Version := 1, cl_ProcessEpoch := hm_epoch mg\<rparr>)) @ ''.'' @
       EncodeToString (hmac_sha256 lib (hm_key mg) (marshal_claims lib (c\<lparr>cl_Version := 1, cl_ProcessEpoch := hm_epoch mg\<rparr>)))"
  using assms by (auto simp: Mint_def Let_def split: if_splits option.splits)

lemma token_trimmed: "TrimSpace (tokenPrefix @ ''.'' @ EncodeToString p @ ''.'' @ EncodeToString s) =
    tokenPrefix @ ''.'' @ EncodeToString p @ ''.'' @ EncodeToString s"
proof (rule TrimSpace_no_space)
  have "set (tokenPrefix @ ''.'') \<inter> set (concat go_spaces) = {}" by code_simp
  then show "set (tokenPrefix @ ''.'' @ EncodeToString p @ ''.'' @ EncodeToString s) \<inter> set (concat go_spaces) = {}"
    using encoded_no_space [of p] encoded_no_space [of s] by auto
qed

lemma minted_accepted:
  assumes M: "Mint lib (Some mg) c = Inr t" and e: "\<not> blank (hm_epoch mg)"
    and codec: "unmarshal_claims lib (marshal_claims lib (c\<lparr>cl_Version := 1, cl_ProcessEpoch := hm_epoch mg\<rparr>)) =
         Some (c\<lparr>cl_Version := 1, cl_ProcessEpoch := hm_epoch mg\<rparr>)"
  shows "TrimSpace t = t" "Validate lib (Some mg) t = Inr (c\<lparr>cl_Version := 1, cl_ProcessEpoch := hm_epoch mg\<rparr>)"
proof -
  note m = Mint_token [OF M]
  show "TrimSpace t = t" unfolding m(3) by (rule token_trimmed)
  have "validateClaims (c\<lparr>cl_Version := 1, cl_ProcessEpoch := hm_epoch mg\<rparr>) True = None"
    using m(2) e by (simp add: validateClaims_def split: if_splits)
  then show "Validate lib (Some mg) t = Inr (c\<lparr>cl_Version := 1, cl_ProcessEpoch := hm_epoch mg\<rparr>)"
    unfolding m(3) Validate_token [OF m(1)] using codec by simp
qed

text \<open>
  (C32) Handle round trip: a handle minted for complete claims by a manager whose epoch is not blank is accepted by
  the same manager and yields those claims, stamped with version 1 and the process epoch, when the JSON codec reads
  back what it wrote for them.
\<close>

theorem Mint_Validate_roundtrip:
  assumes "Mint lib (Some mg) c = Inr t" and "\<not> blank (hm_epoch mg)"
    and "unmarshal_claims lib (marshal_claims lib (c\<lparr>cl_Version := 1, cl_ProcessEpoch := hm_epoch mg\<rparr>)) =
         Some (c\<lparr>cl_Version := 1, cl_ProcessEpoch := hm_epoch mg\<rparr>)"
  shows "Validate lib (Some mg) t = Inr (c\<lparr>cl_Version := 1, cl_ProcessEpoch := hm_epoch mg\<rparr>)"
  by (rule minted_accepted(2) [OF assms])

text \<open>
  Handles do not outlive their process: a handle minted by one manager is refused by every manager with another
  epoch, as stale when that manager shares the signing key (so a leaked key alone does not revive it).
\<close>

theorem handle_dies_with_process:
  assumes "Mint lib (Some mg) c = Inr t" and "hm_epoch mg' \<noteq> hm_epoch mg"
    and "unmarshal_claims lib (marshal_claims lib (c\<lparr>cl_Version := 1, cl_ProcessEpoch := hm_epoch mg\<rparr>)) =
         Some (c\<lparr>cl_Version := 1, cl_ProcessEpoch := hm_epoch mg\<rparr>)"
  shows "Validate lib (Some mg') t \<in> {Inl ErrInvalidHandle, Inl ErrStaleHandle} \<and>
     (hm_key mg' = hm_key mg \<and> hm_epoch mg' \<noteq> [] \<and> \<not> blank (hm_epoch mg) \<longrightarrow> Validate lib (Some mg') t = Inl ErrStaleHandle)"
proof (cases "hm_epoch mg' = []")
  case True
  then show ?thesis by (simp add: Validate_def)
next
  case False
  note m = Mint_token [OF assms(1)]
  show ?thesis
    unfolding m(3) Validate_token [OF False] using assms(2,3) m(2) by (auto simp: validateClaims_def split: if_splits)
qed

text \<open>
  Claims cannot be grafted onto another handle's signature: a token built from any payload and the signature of a
  minted handle is accepted only if the payload has the same HMAC as the minted one; every accepted token of this shape
  carries complete claims with this process's epoch.
\<close>

theorem handle_splice_refused:
  assumes "hm_epoch mg \<noteq> []"
    and "Validate lib (Some mg) (tokenPrefix @ ''.'' @ EncodeToString payload @ ''.'' @
           EncodeToString (hmac_sha256 lib (hm_key mg) minted)) = Inr claims"
  shows "hmac_sha256 lib (hm_key mg) payload = hmac_sha256 lib (hm_key mg) minted \<and> unmarshal_claims lib payload = Some claims \<and>
     cl_ProcessEpoch claims = hm_epoch mg \<and> cl_Version claims = 1 \<and> \<not> blank (cl_ServerID claims) \<and> \<not> blank (cl_ToolName claims)"
  using assms(2) unfolding Validate_token [OF assms(1)]
  by (auto simp: validateClaims_def split: if_splits option.splits)

text \<open>What every accepted handle guarantees, whatever its text.\<close>

lemma Validate_claims:
  assumes "Validate lib (Some mg) t = Inr c"
  shows "cl_ProcessEpoch c = hm_epoch mg" "cl_Version c = 1" "validateClaims c True = None"
  using assms by (auto simp: Validate_def split: if_splits option.splits list.splits)

section \<open>Concrete instances\<close>

definition sample_claims :: Claims where
  "sample_claims = \<lparr>cl_Version = 0, cl_GenerationID = ''g1'', cl_ServerID = ''a'', cl_ToolName = ''echo'',
     cl_SourceFingerprint = ''fp'', cl_ExecutorClass = ExecutorReadOnlyClosed, cl_ProcessEpoch = []\<rparr>"

definition sample_manager :: Manager where
  "sample_manager = \<lparr>hm_key = ''k'', hm_epoch = ''e1''\<rparr>"

definition sample_handle_lib :: handle_lib where
  "sample_handle_lib = \<lparr>hmac_sha256 = (\<lambda>k p. k @ p), marshal_claims = cl_ToolName,
     unmarshal_claims = (\<lambda>s. if s = ''echo'' then Some (sample_claims\<lparr>cl_Version := 1, cl_ProcessEpoch := ''e1''\<rparr>) else None)\<rparr>"

definition sample_token :: string where
  "sample_token = (case Mint sample_handle_lib (Some sample_manager) sample_claims of Inr t \<Rightarrow> t | Inl e \<Rightarrow> [])"

lemma sample_codec_claims:
  "unmarshal_claims sample_handle_lib (marshal_claims sample_handle_lib (sample_claims\<lparr>cl_Version := 1, cl_ProcessEpoch := hm_epoch sample_manager\<rparr>)) =
     Some (sample_claims\<lparr>cl_Version := 1, cl_ProcessEpoch := hm_epoch sample_manager\<rparr>)"
  by (simp add: sample_handle_lib_def sample_manager_def sample_claims_def)

lemma sample_mint: "Mint sample_handle_lib (Some sample_manager) sample_claims = Inr sample_token"
proof -
  have "validateClaims sample_claims False = None" by code_simp
  moreover have "hm_epoch sample_manager \<noteq> []" by (simp add: sample_manager_def)
  ultimately show ?thesis by (simp add: sample_token_def Mint_def Let_def)
qed

theorem Mint_Validate_roundtrip_witness:
  "Validate sample_handle_lib (Some sample_manager) sample_token = Inr (sample_claims\<lparr>cl_Version := 1, cl_ProcessEpoch := ''e1''\<rparr>)"
proof -
  have "\<not> blank (hm_epoch sample_manager)" by code_simp
  from Mint_Validate_roundtrip [OF sample_mint this sample_codec_claims] show ?thesis by (simp add: sample_manager_def)
qed

theorem handle_dies_with_process_witness:
  "Validate sample_handle_lib (Some \<lparr>hm_key = ''k'', hm_epoch = ''e2''\<rparr>) sample_token = Inl ErrStaleHandle"
proof -
  have "\<not> blank (hm_epoch sample_manager)" by code_simp
  moreover have "hm_epoch \<lparr>hm_key = ''k'', hm_epoch = ''e2''\<rparr> \<noteq> hm_epoch sample_manager" by (simp add: sample_manager_def)
  ultimately show ?thesis
    using handle_dies_with_process [OF sample_mint _ sample_codec_claims, of "\<lparr>hm_key = ''k'', hm_epoch = ''e2''\<rparr>"]
    by (simp add: sample_manager_def)
qed

theorem handle_splice_refused_witness:
  "hmac_sha256 sample_handle_lib (hm_key sample_manager) ''echo'' = ''kecho'' \<and>
   (case Validate sample_handle_lib (Some sample_manager) sample_token of Inr c \<Rightarrow> cl_ProcessEpoch c = ''e1'' | Inl e \<Rightarrow> False)"
proof -
  have ne: "hm_epoch sample_manager \<noteq> []" by (simp add: sample_manager_def)
  let ?t = "tokenPrefix @ ''.'' @ EncodeToString ''echo'' @ ''.'' @ EncodeToString (hmac_sha256 sample_handle_lib (hm_key sample_manager) ''echo'')"
  have t: "sample_token = ?t"
    using Mint_token(3) [OF sample_mint] by (simp add: sample_handle_lib_def sample_claims_def)
  have "validateClaims (sample_claims\<lparr>cl_Version := 1, cl_ProcessEpoch := ''e1''\<rparr>) True = None" by code_simp
  then have v: "Validate sample_handle_lib (Some sample_manager) ?t = Inr (sample_claims\<lparr>cl_Version := 1, cl_ProcessEpoch := ''e1''\<rparr>)"
    unfolding Validate_token [OF ne] by (simp add: sample_handle_lib_def sample_manager_def)
  note s = handle_splice_refused [OF ne v]
  show ?thesis using s unfolding t v by (simp add: sample_handle_lib_def sample_manager_def)
qed

end
