(* ===== verification/RoutingState.thy ===== *)
theory RoutingState
  imports Config
begin

text \<open>
  The routing state: \<^verbatim>\<open>internal/routingstate\<close> (state.go, sqlite.go). A snapshot holds the routing
  revision, the hash of everything routing depends on, and the preference revision; revisions are 64-bit
  counters. The tracker reads and writes it through a backend (\<open>backend_ops\<close>, the interface
  \<^verbatim>\<open>Backend\<close>); two backends are modelled, the in-memory one and the SQLite one with its decimal
  text columns. JSON encoding, SHA-256 and HMAC are parameters. Locale \<open>routing_backend\<close> is the contract
  between tracker and backend; both backends interpret it.
\<close>

section \<open>Snapshots and backends\<close>

record routing_snapshot =
  rs_RoutingRevision :: "64 word"
  rs_RoutingStateHash :: string
  rs_PreferenceRevision :: "64 word"

datatype state_error =
    HashRequired
  | BackendFailed string
  | ParseRevision string
  | SingletonMissing nat
  | KeyTooShort
  | MarshalFailed

text \<open>The methods of a backend over a backend state of type \<open>'b\<close>.\<close>

record 'b backend_ops =
  bk_Load :: "'b \<Rightarrow> (state_error, routing_snapshot) result"
  bk_Store :: "'b \<Rightarrow> routing_snapshot \<Rightarrow> 'b \<times> state_error option"

definition Tracker_Snapshot :: "'b backend_ops \<Rightarrow> 'b \<Rightarrow> (state_error, routing_snapshot) result" where
  "Tracker_Snapshot ops b = bk_Load ops b"

definition Reconcile :: "'b backend_ops \<Rightarrow> 'b \<Rightarrow> string \<Rightarrow> 'b \<times> (state_error, routing_snapshot \<times> bool) result" where
  "Reconcile ops b currentHash =
     (if currentHash = [] then (b, Inl HashRequired)
      else case bk_Load ops b of Inl e \<Rightarrow> (b, Inl e) | Inr state \<Rightarrow>
      if rs_RoutingStateHash state = currentHash then (b, Inr (state, False))
      else let state' = state\<lparr>rs_RoutingRevision := rs_RoutingRevision state + 1, rs_RoutingStateHash := currentHash\<rparr>
           in case bk_Store ops b state' of
                (b', Some e) \<Rightarrow> (b', Inl e)
              | (b', None) \<Rightarrow> (b', Inr (state', True)))"

definition AdvanceRoutingRevision :: "'b backend_ops \<Rightarrow> 'b \<Rightarrow> 'b \<times> (state_error, routing_snapshot) result" where
  "AdvanceRoutingRevision ops b =
     (case bk_Load ops b of Inl e \<Rightarrow> (b, Inl e) | Inr state \<Rightarrow>
      let state' = state\<lparr>rs_RoutingRevision := rs_RoutingRevision state + 1\<rparr> in
      case bk_Store ops b state' of (b', Some e) \<Rightarrow> (b', Inl e) | (b', None) \<Rightarrow> (b', Inr state'))"

definition AdvancePreferenceRevision :: "'b backend_ops \<Rightarrow> 'b \<Rightarrow> 'b \<times> (state_error, routing_snapshot) result" where
  "AdvancePreferenceRevision ops b =
     (case bk_Load ops b of Inl e \<Rightarrow> (b, Inl e) | Inr state \<Rightarrow>
      let state' = state\<lparr>rs_PreferenceRevision := rs_PreferenceRevision state + 1\<rparr> in
      case bk_Store ops b state' of (b', Some e) \<Rightarrow> (b', Inl e) | (b', None) \<Rightarrow> (b', Inr state'))"

text \<open>The in-memory backend: its state is the snapshot.\<close>

definition MemoryBackend :: "routing_snapshot backend_ops" where
  "MemoryBackend = \<lparr>bk_Load = (\<lambda>b. Inr b), bk_Store = (\<lambda>b s. (s, None))\<rparr>"

section \<open>Decimal text of a revision\<close>

text \<open>\<^verbatim>\<open>strconv.FormatUint(v, 10)\<close> and \<^verbatim>\<open>strconv.ParseUint(s, 10, 64)\<close>.\<close>

definition digit_char :: "int \<Rightarrow> char" where
  "digit_char d = ''0123456789'' ! nat d"

function format_int :: "int \<Rightarrow> string" where
  "format_int n = (if n < 10 then [digit_char n] else format_int (n div 10) @ [digit_char (n mod 10)])"
  by auto
termination
  by (relation "measure nat") auto

declare format_int.simps [simp del]

definition FormatUint :: "64 word \<Rightarrow> string" where
  "FormatUint w = format_int (uint w)"

definition digit_value :: "char \<Rightarrow> int option" where
  "digit_value c = map_of (zip ''0123456789'' [0, 1, 2, 3, 4, 5, 6, 7, 8, 9]) c"

fun parse_digits :: "string \<Rightarrow> int \<Rightarrow> int option" where
  "parse_digits [] acc = Some acc"
| "parse_digits (c # s) acc = (case digit_value c of None \<Rightarrow> None | Some d \<Rightarrow>
     if 18446744073709551616 \<le> acc * 10 + d then None else parse_digits s (acc * 10 + d))"

definition ParseUint :: "string \<Rightarrow> 64 word option" where
  "ParseUint s = (if s = [] then None else map_option of_int (parse_digits s 0))"

lemma digit_value_char: "0 \<le> d \<Longrightarrow> d < 10 \<Longrightarrow> digit_value (digit_char d) = Some d"
proof -
  assume d: "0 \<le> d" "d < 10"
  then have "d \<in> set [0..9]" by simp
  also have "[0..9] = [0, 1, 2, 3, 4, 5, 6, 7, 8, 9::int]" by (simp add: upto.simps)
  finally show ?thesis by (auto simp: digit_value_def digit_char_def)
qed

lemma parse_digits_append:
  "parse_digits (s @ t) acc = (case parse_digits s acc of None \<Rightarrow> None | Some a \<Rightarrow> parse_digits t a)"
  by (induction s arbitrary: acc) (auto split: option.splits)

lemma format_nonempty [simp]: "format_int n \<noteq> []"
  by (subst format_int.simps) simp

lemma parse_format: "0 \<le> n \<Longrightarrow> n < 18446744073709551616 \<Longrightarrow> parse_digits (format_int n) 0 = Some n"
proof (induction n rule: format_int.induct)
  case (1 n)
  show ?case
  proof (cases "n < 10")
    case True
    then show ?thesis using 1 by (subst format_int.simps) (simp add: digit_value_char)
  next
    case False
    have "0 \<le> n div 10" "n div 10 < 18446744073709551616" using 1(2,3) by auto
    then have "parse_digits (format_int (n div 10)) 0 = Some (n div 10)" using 1(1) False by simp
    then show ?thesis
      using False 1(2,3) by (subst format_int.simps) (simp add: parse_digits_append digit_value_char)
  qed
qed

lemma parse_format_word: "ParseUint (FormatUint w) = Some w"
proof -
  have "uint w < 18446744073709551616" using uint_lt2p [of w] by simp
  then show ?thesis by (simp add: ParseUint_def FormatUint_def parse_format)
qed

text \<open>
  Revisions survive their text column: parsing the decimal text of any 64-bit revision gives the revision
  back, up to and including the largest value, without overflow.
\<close>

theorem ParseUint_FormatUint: "ParseUint (FormatUint w) = Some w"
  by (rule parse_format_word)

section \<open>The SQLite backend\<close>

text \<open>
  The table \<^verbatim>\<open>routing_state\<close> holds at most one row (its key is fixed to 1); the record adds whether the
  database answers a query and an update. An update that fails in the database changes nothing.
\<close>

record sqlite_state =
  sq_row :: "(string \<times> string \<times> string) option"
  sq_queryFails :: bool
  sq_execFails :: bool

definition SQLite_Load :: "sqlite_state \<Rightarrow> (state_error, routing_snapshot) result" where
  "SQLite_Load db =
     (if sq_queryFails db then Inl (BackendFailed ''load routing state'')
      else case sq_row db of None \<Rightarrow> Inl (BackendFailed ''load routing state'')
      | Some (routingRevision, routingStateHash, preferenceRevision) \<Rightarrow>
        (case ParseUint routingRevision of None \<Rightarrow> Inl (ParseRevision ''routing'') | Some routing \<Rightarrow>
         case ParseUint preferenceRevision of None \<Rightarrow> Inl (ParseRevision ''preference'') | Some preference \<Rightarrow>
         Inr \<lparr>rs_RoutingRevision = routing, rs_RoutingStateHash = routingStateHash, rs_PreferenceRevision = preference\<rparr>))"

definition SQLite_Store :: "sqlite_state \<Rightarrow> routing_snapshot \<Rightarrow> sqlite_state \<times> state_error option" where
  "SQLite_Store db state =
     (if sq_execFails db then (db, Some (BackendFailed ''store routing state''))
      else case sq_row db of None \<Rightarrow> (db, Some (SingletonMissing 0))
      | Some _ \<Rightarrow> (db\<lparr>sq_row := Some (FormatUint (rs_RoutingRevision state), rs_RoutingStateHash state,
                        FormatUint (rs_PreferenceRevision state))\<rparr>, None))"

definition SQLiteBackend :: "sqlite_state backend_ops" where
  "SQLiteBackend = \<lparr>bk_Load = SQLite_Load, bk_Store = SQLite_Store\<rparr>"

section \<open>The tracker over any backend\<close>

text \<open>
  The contract: a store that succeeds is what the next load returns, as far as the backend still answers loads,
  and a store that fails changes nothing.
\<close>

locale routing_backend =
  fixes ops :: "'b backend_ops" and answers :: "'b \<Rightarrow> bool"
  assumes load_answers: "bk_Load ops b = Inr s \<Longrightarrow> answers b"
    and load_store: "bk_Store ops b s = (b', None) \<Longrightarrow> answers b \<Longrightarrow> bk_Load ops b' = Inr s"
    and store_failed: "bk_Store ops b s = (b', Some e) \<Longrightarrow> b' = b"
begin

lemma Reconcile_ok:
  assumes "Reconcile ops b h = (b', Inr (s, changed))"
  shows "bk_Load ops b' = Inr s" "rs_RoutingStateHash s = h" "h \<noteq> []"
    "\<exists>old. bk_Load ops b = Inr old \<and> changed = (rs_RoutingStateHash old \<noteq> h) \<and>
       rs_RoutingRevision s = rs_RoutingRevision old + (if changed then 1 else 0) \<and>
       rs_PreferenceRevision s = rs_PreferenceRevision old"
  using assms load_store load_answers
  by (auto simp: Reconcile_def Let_def split: if_splits sum.splits prod.splits option.splits)

lemma Reconcile_failed:
  assumes "Reconcile ops b h = (b', Inl e)" shows "b' = b"
  using assms store_failed by (auto simp: Reconcile_def Let_def split: if_splits sum.splits prod.splits option.splits)

lemma Reconcile_again:
  assumes "Reconcile ops b h = (b', Inr (s, changed))" shows "Reconcile ops b' h = (b', Inr (s, False))"
  using Reconcile_ok(1-3) [OF assms] by (simp add: Reconcile_def)

lemma Advance_ok:
  assumes "AdvanceRoutingRevision ops b = (b', Inr s)"
  shows "bk_Load ops b' = Inr s" "\<exists>old. bk_Load ops b = Inr old \<and> s = old\<lparr>rs_RoutingRevision := rs_RoutingRevision old + 1\<rparr>"
  using assms load_store load_answers
  by (auto simp: AdvanceRoutingRevision_def Let_def split: sum.splits prod.splits option.splits)

lemma Advance_failed:
  assumes "AdvanceRoutingRevision ops b = (b', Inl e)" shows "b' = b"
  using assms store_failed by (auto simp: AdvanceRoutingRevision_def Let_def split: sum.splits prod.splits option.splits)

end

interpretation mb: routing_backend MemoryBackend "\<lambda>b. True"
  by unfold_locales (simp_all add: MemoryBackend_def)

interpretation sq: routing_backend SQLiteBackend "\<lambda>db. \<not> sq_queryFails db"
proof (unfold_locales, goal_cases)
  case (1 b s)
  then show ?case by (auto simp: SQLiteBackend_def SQLite_Load_def)
next
  case (2 b s b')
  then show ?case
    by (auto simp: parse_format_word SQLiteBackend_def SQLite_Store_def SQLite_Load_def split: if_splits option.splits)
next
  case (3 b s b' e)
  then show ?case by (auto simp: SQLiteBackend_def SQLite_Store_def split: if_splits option.splits)
qed

text \<open>
  Reconciling the routing state over SQLite is durable, idempotent and counts changes exactly: a successful
  reconcile leaves a database that loads the returned snapshot with the current hash, the routing revision advanced by
  one exactly when the hash changed and the preference revision kept; reconciling again changes nothing, and a failed
  reconcile leaves the database as it was.
\<close>

theorem Reconcile_SQLite:
  assumes "Reconcile SQLiteBackend db h = (db', r)"
  shows "case r of Inl e \<Rightarrow> db' = db
     | Inr (s, changed) \<Rightarrow> SQLite_Load db' = Inr s \<and> rs_RoutingStateHash s = h \<and>
         Reconcile SQLiteBackend db' h = (db', Inr (s, False)) \<and>
         (\<exists>old. SQLite_Load db = Inr old \<and> changed = (rs_RoutingStateHash old \<noteq> h) \<and>
            rs_RoutingRevision s = rs_RoutingRevision old + (if changed then 1 else 0) \<and>
            rs_PreferenceRevision s = rs_PreferenceRevision old)"
proof (cases r)
  case (Inl e)
  then show ?thesis using sq.Reconcile_failed assms by simp
next
  case (Inr sc)
  obtain s changed where sc: "sc = (s, changed)" by (cases sc)
  have R: "Reconcile SQLiteBackend db h = (db', Inr (s, changed))" using assms Inr sc by simp
  show ?thesis
    using sq.Reconcile_ok [OF R] sq.Reconcile_again [OF R] by (simp add: Inr sc SQLiteBackend_def)
qed

definition sample_db :: sqlite_state where
  "sample_db = \<lparr>sq_row = Some (''41'', ''old'', ''7''), sq_queryFails = False, sq_execFails = False\<rparr>"

theorem Reconcile_SQLite_witness:
  "sq_row (fst (Reconcile SQLiteBackend sample_db ''new'')) = Some (''42'', ''new'', ''7'') \<and>
   Reconcile SQLiteBackend (fst (Reconcile SQLiteBackend sample_db ''new'')) ''new'' =
     (fst (Reconcile SQLiteBackend sample_db ''new''), Inr (\<lparr>rs_RoutingRevision = 42, rs_RoutingStateHash = ''new'', rs_PreferenceRevision = 7\<rparr>, False))"
proof
  show "sq_row (fst (Reconcile SQLiteBackend sample_db ''new'')) = Some (''42'', ''new'', ''7'')" by code_simp
  have "snd (Reconcile SQLiteBackend sample_db ''new'') =
      Inr (\<lparr>rs_RoutingRevision = 42, rs_RoutingStateHash = ''new'', rs_PreferenceRevision = 7\<rparr>, True)" by code_simp
  with Reconcile_SQLite [of sample_db "''new''", OF surjective_pairing]
  show "Reconcile SQLiteBackend (fst (Reconcile SQLiteBackend sample_db ''new'')) ''new'' =
     (fst (Reconcile SQLiteBackend sample_db ''new''), Inr (\<lparr>rs_RoutingRevision = 42, rs_RoutingStateHash = ''new'', rs_PreferenceRevision = 7\<rparr>, False))"
    by simp
qed

section \<open>What is hashed\<close>

record EmbeddingMaterial =
  ma_Provider :: string
  ma_Model :: string
  ma_ModelSHA256 :: string
  ma_Dimensions :: int
  ma_Pooling :: string
  ma_RuntimeRelease :: string
  ma_RuntimeBinaryPath :: string
  ma_PipelineVersion :: string

text \<open>A Go map is a finite map; \<open>None\<close> is the nil map, which the encoder omits.\<close>

record RoutingMaterial =
  rm_Embedding :: EmbeddingMaterial
  rm_Servers :: "ServerEntry list"
  rm_SecretFingerprints :: "(string \<rightharpoonup> string) option"
  rm_CredentialIdentityFingerprints :: "(string \<rightharpoonup> string) option"

record hash_lib =
  marshal_material :: "RoutingMaterial \<Rightarrow> string option"
  sha256_hex_of :: "string \<Rightarrow> string"
  hmac_hex :: "string \<Rightarrow> string \<Rightarrow> string"

definition FingerprintAlgorithm :: string where "FingerprintAlgorithm = ''hmac-sha256''"
definition EmbeddingPipelineVersion :: string where "EmbeddingPipelineVersion = ''local-gguf-context-chunking/v1''"

definition zeroModel :: EmbeddingModel where
  "zeroModel = \<lparr>em_ID = [], em_Name = [], em_DownloadURL = [], em_FileName = [], em_SHA256 = [], em_Dimensions = 0, em_Pooling = []\<rparr>"

definition ConfigMaterial :: "ManagerConfig \<Rightarrow> ServersConfig \<Rightarrow> RoutingMaterial" where
  "ConfigMaterial manager servers =
     (let embeddingConfig = EffectiveEmbeddingConfig (mc_Embedding manager);
          model = (case SelectedModel embeddingConfig of None \<Rightarrow> zeroModel | Some m \<Rightarrow> m)
      in \<lparr>rm_Embedding = \<lparr>ma_Provider = ec_Provider embeddingConfig, ma_Model = em_ID model, ma_ModelSHA256 = em_SHA256 model,
            ma_Dimensions = em_Dimensions model, ma_Pooling = em_Pooling model,
            ma_RuntimeRelease = er_Release (ec_Runtime embeddingConfig),
            ma_RuntimeBinaryPath = er_BinaryPath (ec_Runtime embeddingConfig),
            ma_PipelineVersion = EmbeddingPipelineVersion\<rparr>,
          rm_Servers = sc_Servers servers, rm_SecretFingerprints = None, rm_CredentialIdentityFingerprints = None\<rparr>)"

definition ComputeHash :: "hash_lib \<Rightarrow> RoutingMaterial \<Rightarrow> (state_error, string) result" where
  "ComputeHash lib material = (case marshal_material lib material of None \<Rightarrow> Inl MarshalFailed
     | Some encoded \<Rightarrow> Inr (''sha256:'' @ sha256_hex_of lib encoded))"

definition FingerprintSecret :: "hash_lib \<Rightarrow> string \<Rightarrow> string \<Rightarrow> (state_error, string) result" where
  "FingerprintSecret lib installationKey secret =
     (if length installationKey < 32 then Inl KeyTooShort
      else Inr (FingerprintAlgorithm @ '':'' @ hmac_hex lib installationKey secret))"

end
