(* ===== verification/ConfigStore.thy ===== *)
theory ConfigStore
  imports Config "HOL-Library.Sublist"
begin

text \<open>
  The configuration files: \<^verbatim>\<open>internal/v2config/store.go\<close>. The file system is a map from paths
  (component lists below the store's root) to directories and files, with a count of the system calls made.
  Every call consults a fault oracle and may fail, a write after having written only part of the body; a
  crash is the oracle that fails every call from some point on, cleanup included. JSON encoding and strict
  decoding are parameters (\<open>config_codec\<close>); a temporary name is drawn by the oracle.
\<close>

section \<open>The file system\<close>

type_synonym path = "string list"

datatype node = Dir | File string

record fsys =
  fs_nodes :: "path \<Rightarrow> node option"
  fs_ops :: nat

record faults =
  fl_ok :: "nat \<Rightarrow> bool"
  fl_written :: "nat \<Rightarrow> nat"
  fl_temp :: "nat \<Rightarrow> string"

record config_codec =
  cc_marshalManager :: "ManagerConfig \<Rightarrow> string option"
  cc_marshalServers :: "ServersConfig \<Rightarrow> string option"
  cc_decodeManager :: "string \<Rightarrow> ManagerConfig option"
  cc_decodeServers :: "string \<Rightarrow> ServersConfig option"

datatype store_error =
    IOFailed string
  | EncodeFailed
  | DecodeFailed string
  | IncompleteConfig string
  | InvalidConfig config_error
  | PortUnavailable
  | NamesExhausted

definition tick :: "fsys \<Rightarrow> fsys" where
  "tick s = s\<lparr>fs_ops := Suc (fs_ops s)\<rparr>"

text \<open>One system call with effect \<open>eff\<close> on the nodes when it succeeds and \<open>part\<close> when it fails.\<close>

definition syscall :: "faults \<Rightarrow> ((path \<Rightarrow> node option) \<Rightarrow> path \<Rightarrow> node option) \<Rightarrow> ((path \<Rightarrow> node option) \<Rightarrow> path \<Rightarrow> node option) \<Rightarrow>
    bool \<Rightarrow> fsys \<Rightarrow> fsys \<times> bool" where
  "syscall f eff part possible s =
     (if possible \<and> fl_ok f (fs_ops s) then ((tick s)\<lparr>fs_nodes := eff (fs_nodes s)\<rparr>, True)
      else ((tick s)\<lparr>fs_nodes := part (fs_nodes s)\<rparr>, False))"

definition os_Stat :: "faults \<Rightarrow> path \<Rightarrow> fsys \<Rightarrow> fsys \<times> (store_error, bool) result" where
  "os_Stat f p s = (tick s, if fl_ok f (fs_ops s) then Inr (fs_nodes s p \<noteq> None) else Inl (IOFailed ''stat''))"

definition os_MkdirAll :: "faults \<Rightarrow> path \<Rightarrow> fsys \<Rightarrow> fsys \<times> bool" where
  "os_MkdirAll f p s = syscall f (\<lambda>m q. if prefix q p \<and> m q = None then Some Dir else m q) (\<lambda>m. m)
     (list_all (\<lambda>q. case fs_nodes s q of Some (File _) \<Rightarrow> False | _ \<Rightarrow> True) (prefixes p)) s"

definition os_Create :: "faults \<Rightarrow> path \<Rightarrow> fsys \<Rightarrow> fsys \<times> bool" where
  "os_Create f p s = syscall f (\<lambda>m. m(p \<mapsto> File [])) (\<lambda>m. m) (fs_nodes s p = None \<and> fs_nodes s (butlast p) = Some Dir) s"

definition os_MkdirTemp :: "faults \<Rightarrow> path \<Rightarrow> fsys \<Rightarrow> fsys \<times> bool" where
  "os_MkdirTemp f p s = syscall f (\<lambda>m. m(p \<mapsto> Dir)) (\<lambda>m. m) (fs_nodes s p = None \<and> fs_nodes s (butlast p) = Some Dir) s"

definition os_Write :: "faults \<Rightarrow> path \<Rightarrow> string \<Rightarrow> fsys \<Rightarrow> fsys \<times> bool" where
  "os_Write f p body s = syscall f (\<lambda>m. m(p \<mapsto> File body)) (\<lambda>m. m(p \<mapsto> File (take (fl_written f (fs_ops s)) body))) True s"

text \<open>Chmod, Sync and Close of the open file: no effect on the nodes.\<close>

definition os_Touch :: "faults \<Rightarrow> fsys \<Rightarrow> fsys \<times> bool" where
  "os_Touch f s = syscall f (\<lambda>m. m) (\<lambda>m. m) True s"

definition move_nodes :: "path \<Rightarrow> path \<Rightarrow> (path \<Rightarrow> node option) \<Rightarrow> path \<Rightarrow> node option" where
  "move_nodes from to m q = (if prefix to q then m (from @ drop (length to) q) else if prefix from q then None else m q)"

text \<open>Renaming a file replaces the target file; renaming a directory moves all below it and needs a free target.\<close>

definition os_Rename :: "faults \<Rightarrow> path \<Rightarrow> path \<Rightarrow> fsys \<Rightarrow> fsys \<times> bool" where
  "os_Rename f from to s = syscall f
     (\<lambda>m. case m from of Some (File b) \<Rightarrow> m(from := None, to \<mapsto> File b) | _ \<Rightarrow> move_nodes from to m) (\<lambda>m. m)
     (case fs_nodes s from of None \<Rightarrow> False
      | Some (File _) \<Rightarrow> fs_nodes s to \<noteq> Some Dir \<and> fs_nodes s (butlast to) = Some Dir
      | Some Dir \<Rightarrow> fs_nodes s to = None \<and> fs_nodes s (butlast to) = Some Dir) s"

definition os_RemoveAll :: "faults \<Rightarrow> path \<Rightarrow> fsys \<Rightarrow> fsys" where
  "os_RemoveAll f p s = fst (syscall f (\<lambda>m q. if prefix p q then None else m q) (\<lambda>m. m) True s)"

text \<open>\<^verbatim>\<open>os.Remove\<close> of a file, and of a directory that can hold no other entries than \<open>names\<close>.\<close>

definition os_RemoveFile :: "faults \<Rightarrow> path \<Rightarrow> fsys \<Rightarrow> fsys" where
  "os_RemoveFile f p s = fst (syscall f (\<lambda>m. m(p := None)) (\<lambda>m. m) True s)"

definition os_RemoveDir :: "faults \<Rightarrow> path \<Rightarrow> string list \<Rightarrow> fsys \<Rightarrow> fsys" where
  "os_RemoveDir f p names s = fst (syscall f (\<lambda>m. m(p := None)) (\<lambda>m. m) (list_all (\<lambda>n. fs_nodes s (p @ [n]) = None) names) s)"

definition os_ReadFile :: "faults \<Rightarrow> path \<Rightarrow> fsys \<Rightarrow> fsys \<times> string option" where
  "os_ReadFile f p s = (tick s, if fl_ok f (fs_ops s) then (case fs_nodes s p of Some (File b) \<Rightarrow> Some b | _ \<Rightarrow> None) else None)"

section \<open>The store\<close>

definition ConfigDir :: path where "ConfigDir = [''config'']"
definition ManagerPath :: path where "ManagerPath = [''config'', ''manager.json'']"
definition ServersPath :: path where "ServersPath = [''config'', ''servers.json'']"

definition temp_json :: "faults \<Rightarrow> path \<Rightarrow> fsys \<Rightarrow> path" where
  "temp_json f dir s = dir @ [''.tmp-'' @ fl_temp f (fs_ops s) @ ''.json'']"

text \<open>
  \<^verbatim>\<open>atomicWriteJSON\<close>; the deferred cleanup closes the file and removes it unless the rename went through.
  The sync of the directory after the rename is best effort.
\<close>

definition write_steps :: "faults \<Rightarrow> path \<Rightarrow> path \<Rightarrow> string \<Rightarrow> fsys \<Rightarrow> fsys \<times> bool" where
  "write_steps f tmp target body s0 =
     (case os_Touch f s0 of (s1, False) \<Rightarrow> (s1, False) | (s1, True) \<Rightarrow>
      case os_Write f tmp body s1 of (s2, False) \<Rightarrow> (s2, False) | (s2, True) \<Rightarrow>
      case os_Touch f s2 of (s3, False) \<Rightarrow> (s3, False) | (s3, True) \<Rightarrow>
      case os_Touch f s3 of (s4, False) \<Rightarrow> (s4, False) | (s4, True) \<Rightarrow>
      os_Rename f tmp target s4)"

definition atomicWriteJSON :: "faults \<Rightarrow> path \<Rightarrow> string option \<Rightarrow> fsys \<Rightarrow> fsys \<times> store_error option" where
  "atomicWriteJSON f target encoded s =
     (case os_MkdirAll f (butlast target) s of (s1, False) \<Rightarrow> (s1, Some (IOFailed ''mkdir'')) | (s1, True) \<Rightarrow>
      case encoded of None \<Rightarrow> (s1, Some EncodeFailed) | Some body \<Rightarrow>
      let tmp = temp_json f (butlast target) s1 in
      case os_Create f tmp s1 of (s2, False) \<Rightarrow> (s2, Some (IOFailed ''create'')) | (s2, True) \<Rightarrow>
      case write_steps f tmp target (body @ [CHR 0x0A]) s2 of
        (s3, False) \<Rightarrow> (os_RemoveFile f tmp s3, Some (IOFailed ''write''))
      | (s3, True) \<Rightarrow> (fst (os_Touch f s3), None))"

definition SaveManager :: "netlib \<Rightarrow> config_codec \<Rightarrow> faults \<Rightarrow> ManagerConfig \<Rightarrow> fsys \<Rightarrow> fsys \<times> store_error option" where
  "SaveManager nl cc f c s = (case ValidateManager nl c of Some e \<Rightarrow> (s, Some (InvalidConfig e))
     | None \<Rightarrow> atomicWriteJSON f ManagerPath (cc_marshalManager cc c) s)"

definition SaveServers :: "netlib \<Rightarrow> config_codec \<Rightarrow> faults \<Rightarrow> ServersConfig \<Rightarrow> fsys \<Rightarrow> fsys \<times> store_error option" where
  "SaveServers nl cc f c s = (case ValidateServers nl c of Some e \<Rightarrow> (s, Some (InvalidConfig e))
     | None \<Rightarrow> atomicWriteJSON f ServersPath (cc_marshalServers cc c) s)"

definition stage_dir :: "faults \<Rightarrow> fsys \<Rightarrow> path" where
  "stage_dir f s = [''.config-v2-init-'' @ fl_temp f (fs_ops s)]"

text \<open>The commit of a fresh configuration: both files are staged, then the directory is renamed.\<close>

definition fresh_stage :: "config_codec \<Rightarrow> faults \<Rightarrow> path \<Rightarrow> ManagerConfig \<Rightarrow> ServersConfig \<Rightarrow> fsys \<Rightarrow> fsys \<times> store_error option" where
  "fresh_stage cc f stage manager servers s =
     (case atomicWriteJSON f (stage @ [''manager.json'']) (cc_marshalManager cc manager) s of (s1, Some e) \<Rightarrow> (s1, Some e) | (s1, None) \<Rightarrow>
      case atomicWriteJSON f (stage @ [''servers.json'']) (cc_marshalServers cc servers) s1 of (s2, Some e) \<Rightarrow> (s2, Some e) | (s2, None) \<Rightarrow>
      case os_Rename f stage ConfigDir s2 of (s3, False) \<Rightarrow> (s3, Some (IOFailed ''rename'')) | (s3, True) \<Rightarrow> (s3, None))"

definition initializeFresh :: "netlib \<Rightarrow> config_codec \<Rightarrow> faults \<Rightarrow> int option \<Rightarrow> fsys \<Rightarrow> fsys \<times> (store_error, ManagerConfig \<times> ServersConfig) result" where
  "initializeFresh nl cc f port s =
     (case port of None \<Rightarrow> (s, Inl PortUnavailable) | Some p \<Rightarrow>
      let manager = DefaultManagerConfig p; servers = DefaultServersConfig in
      case ValidateManager nl manager of Some e \<Rightarrow> (s, Inl (InvalidConfig e)) | None \<Rightarrow>
      case ValidateServers nl servers of Some e \<Rightarrow> (s, Inl (InvalidConfig e)) | None \<Rightarrow>
      case os_MkdirAll f [] s of (s1, False) \<Rightarrow> (s1, Inl (IOFailed ''mkdir'')) | (s1, True) \<Rightarrow>
      let stage = stage_dir f s1 in
      case os_MkdirTemp f stage s1 of (s2, False) \<Rightarrow> (s2, Inl (IOFailed ''mkdirtemp'')) | (s2, True) \<Rightarrow>
      case fresh_stage cc f stage manager servers s2 of
        (s3, Some e) \<Rightarrow> (os_RemoveAll f stage s3, Inl e)
      | (s3, None) \<Rightarrow> (s3, Inr (manager, servers)))"

definition readJSON :: "faults \<Rightarrow> path \<Rightarrow> (string \<Rightarrow> 'a option) \<Rightarrow> fsys \<Rightarrow> fsys \<times> (store_error, 'a) result" where
  "readJSON f p decode s = (case os_ReadFile f p s of (s1, None) \<Rightarrow> (s1, Inl (IOFailed ''read''))
     | (s1, Some body) \<Rightarrow> (case decode body of None \<Rightarrow> (s1, Inl (DecodeFailed ''config'')) | Some v \<Rightarrow> (s1, Inr v)))"

definition LoadOrCreate :: "netlib \<Rightarrow> config_codec \<Rightarrow> faults \<Rightarrow> int option \<Rightarrow> fsys \<Rightarrow> fsys \<times> (store_error, ManagerConfig \<times> ServersConfig) result" where
  "LoadOrCreate nl cc f port s =
     (case os_Stat f ManagerPath s of (s1, Inl e) \<Rightarrow> (s1, Inl e) | (s1, Inr managerExists) \<Rightarrow>
      case os_Stat f ServersPath s1 of (s2, Inl e) \<Rightarrow> (s2, Inl e) | (s2, Inr serversExists) \<Rightarrow>
      if \<not> managerExists \<and> \<not> serversExists then
        (case os_Stat f ConfigDir s2 of (s3, Inl e) \<Rightarrow> (s3, Inl e)
         | (s3, Inr True) \<Rightarrow> (s3, Inl (IncompleteConfig ''config directory''))
         | (s3, Inr False) \<Rightarrow> initializeFresh nl cc f port s3)
      else if managerExists \<noteq> serversExists then (s2, Inl (IncompleteConfig ''both files''))
      else case readJSON f ManagerPath (cc_decodeManager cc) s2 of (s3, Inl e) \<Rightarrow> (s3, Inl e) | (s3, Inr manager) \<Rightarrow>
      case readJSON f ServersPath (cc_decodeServers cc) s3 of (s4, Inl e) \<Rightarrow> (s4, Inl e) | (s4, Inr servers) \<Rightarrow>
      case ValidateManager nl manager of Some e \<Rightarrow> (s4, Inl (InvalidConfig e)) | None \<Rightarrow>
      case ValidateServers nl servers of Some e \<Rightarrow> (s4, Inl (InvalidConfig e)) | None \<Rightarrow>
      (s4, Inr (manager, servers)))"

section \<open>Moving a legacy installation aside\<close>

text \<open>\<open>stamp\<close> is the formatted time; the legacy directory is new, so only the moved entries can be in it.\<close>

definition legacy_candidate :: "string \<Rightarrow> nat \<Rightarrow> string" where
  "legacy_candidate base i = (if i = 0 then base
     else base @ ''-'' @ [''0123456789'' ! (i div 100 mod 10), ''0123456789'' ! (i div 10 mod 10), ''0123456789'' ! (i mod 10)])"

fun unique_loop :: "faults \<Rightarrow> string \<Rightarrow> nat list \<Rightarrow> fsys \<Rightarrow> fsys \<times> (store_error, path) result" where
  "unique_loop f base [] s = (s, Inl NamesExhausted)"
| "unique_loop f base (i # is) s = (case os_Stat f [legacy_candidate base i] s of
      (s1, Inl e) \<Rightarrow> (s1, Inl e)
    | (s1, Inr False) \<Rightarrow> (s1, Inr [legacy_candidate base i])
    | (s1, Inr True) \<Rightarrow> unique_loop f base is s1)"

definition uniqueLegacyRoot :: "faults \<Rightarrow> string \<Rightarrow> fsys \<Rightarrow> fsys \<times> (store_error, path) result" where
  "uniqueLegacyRoot f stamp s = unique_loop f (''legacy-v1-'' @ stamp) [0..<1000] s"

fun stat_existing :: "faults \<Rightarrow> string list \<Rightarrow> fsys \<Rightarrow> fsys \<times> (store_error, string list) result" where
  "stat_existing f [] s = (s, Inr [])"
| "stat_existing f (n # ns) s = (case os_Stat f [n] s of (s1, Inl e) \<Rightarrow> (s1, Inl e)
    | (s1, Inr ex) \<Rightarrow> (case stat_existing f ns s1 of (s2, Inl e) \<Rightarrow> (s2, Inl e)
        | (s2, Inr rest) \<Rightarrow> (s2, Inr (if ex then n # rest else rest))))"

fun move_back :: "faults \<Rightarrow> path \<Rightarrow> string list \<Rightarrow> fsys \<Rightarrow> fsys" where
  "move_back f root [] s = s"
| "move_back f root (n # ns) s = move_back f root ns (fst (os_Rename f (root @ [n]) [n] s))"

fun move_legacy :: "faults \<Rightarrow> path \<Rightarrow> string list \<Rightarrow> string list \<Rightarrow> fsys \<Rightarrow> fsys \<times> store_error option" where
  "move_legacy f root [] moved s = (s, None)"
| "move_legacy f root (n # ns) moved s = (case os_Rename f [n] (root @ [n]) s of
      (s1, True) \<Rightarrow> move_legacy f root ns (moved @ [n]) s1
    | (s1, False) \<Rightarrow> (os_RemoveDir f root [''config'', ''data''] (move_back f root (rev moved) s1), Some (IOFailed ''move'')))"

definition CutoverOpaqueLegacy :: "faults \<Rightarrow> string \<Rightarrow> fsys \<Rightarrow> fsys \<times> (store_error, path option) result" where
  "CutoverOpaqueLegacy f stamp s =
     (case uniqueLegacyRoot f stamp s of (s1, Inl e) \<Rightarrow> (s1, Inl e) | (s1, Inr root) \<Rightarrow>
      case stat_existing f [''config'', ''data''] s1 of (s2, Inl e) \<Rightarrow> (s2, Inl e) | (s2, Inr existing) \<Rightarrow>
      if existing = [] then (s2, Inr None)
      else case os_MkdirAll f root s2 of (s3, False) \<Rightarrow> (s3, Inl (IOFailed ''mkdir'')) | (s3, True) \<Rightarrow>
      case move_legacy f root existing [] s3 of (s4, Some e) \<Rightarrow> (s4, Inl e) | (s4, None) \<Rightarrow> (s4, Inr (Some root)))"

section \<open>Atomic writes\<close>

lemma syscall_nodes: "syscall f eff part possible s = (s', r) \<Longrightarrow>
    fs_nodes s' = (if r then eff (fs_nodes s) else part (fs_nodes s)) \<and> (r \<longrightarrow> possible)"
  by (auto simp: syscall_def tick_def split: if_splits)

lemma os_Touch_nodes: "os_Touch f s = (s', r) \<Longrightarrow> fs_nodes s' = fs_nodes s"
  by (auto simp: os_Touch_def dest!: syscall_nodes)

lemma os_Stat_nodes: "os_Stat f p s = (s', r) \<Longrightarrow> fs_nodes s' = fs_nodes s \<and> (case r of Inl e \<Rightarrow> True | Inr b \<Rightarrow> b = (fs_nodes s p \<noteq> None))"
  by (auto simp: os_Stat_def tick_def)

lemma os_MkdirAll_nodes: "os_MkdirAll f p s = (s', r) \<Longrightarrow>
    fs_nodes s' = (if r then (\<lambda>q. if prefix q p \<and> fs_nodes s q = None then Some Dir else fs_nodes s q) else fs_nodes s)"
  by (auto simp: os_MkdirAll_def dest!: syscall_nodes)

lemma os_Create_nodes: "os_Create f p s = (s', r) \<Longrightarrow> fs_nodes s' = (if r then (fs_nodes s)(p \<mapsto> File []) else fs_nodes s) \<and> (r \<longrightarrow> fs_nodes s p = None)"
  by (auto simp: os_Create_def dest!: syscall_nodes)

lemma write_steps_nodes:
  assumes "write_steps f tmp target body s = (s', r)" and "tmp \<noteq> target"
  shows "q \<noteq> tmp \<Longrightarrow> q \<noteq> target \<Longrightarrow> fs_nodes s' q = fs_nodes s q"
    "fs_nodes s' target = (if r then Some (File body) else fs_nodes s target)"
    "r \<Longrightarrow> fs_nodes s' tmp = None"
proof -
  obtain s1 r1 where 1: "os_Touch f s = (s1, r1)" by (cases "os_Touch f s")
  obtain s2 r2 where 2: "os_Write f tmp body s1 = (s2, r2)" by (cases "os_Write f tmp body s1")
  obtain s3 r3 where 3: "os_Touch f s2 = (s3, r3)" by (cases "os_Touch f s2")
  obtain s4 r4 where 4: "os_Touch f s3 = (s4, r4)" by (cases "os_Touch f s3")
  obtain s5 r5 where 5: "os_Rename f tmp target s4 = (s5, r5)" by (cases "os_Rename f tmp target s4")
  note n = os_Touch_nodes [OF 1] os_Touch_nodes [OF 3] os_Touch_nodes [OF 4]
  have w: "fs_nodes s2 q = fs_nodes s1 q" if "q \<noteq> tmp" for q
    using 2 that by (auto simp: os_Write_def dest!: syscall_nodes)
  have wt: "r2 \<Longrightarrow> fs_nodes s2 tmp = Some (File body)"
    using 2 by (auto simp: os_Write_def dest!: syscall_nodes)
  have rn: "fs_nodes s5 = (if r5 then (fs_nodes s4)(tmp := None, target \<mapsto> File body) else fs_nodes s4)" if "r2"
    using 5 n wt [OF that] by (auto simp: os_Rename_def dest!: syscall_nodes)
  have s': "(s', r) = (if \<not> r1 then (s1, False) else if \<not> r2 then (s2, False) else if \<not> r3 then (s3, False)
      else if \<not> r4 then (s4, False) else (s5, r5))"
    using assms(1) 1 2 3 4 5 by (simp add: write_steps_def split: bool.splits)
  show "q \<noteq> tmp \<Longrightarrow> q \<noteq> target \<Longrightarrow> fs_nodes s' q = fs_nodes s q"
    "fs_nodes s' target = (if r then Some (File body) else fs_nodes s target)"
    "r \<Longrightarrow> fs_nodes s' tmp = None"
    using s' n w rn assms(2) by (auto split: if_splits)
qed

definition is_temp :: "path \<Rightarrow> bool" where
  "is_temp q \<longleftrightarrow> q \<noteq> [] \<and> HasPrefix (last q) ''.tmp-''"

lemma temp_json_temp: "is_temp (temp_json f d s)"
  by (simp add: is_temp_def temp_json_def HasPrefix_def)

text \<open>The effect of an atomic write: all of the new body or none of it, and no other file touched.\<close>

definition write_effect :: "path \<Rightarrow> string option \<Rightarrow> fsys \<Rightarrow> fsys \<Rightarrow> bool \<Rightarrow> bool" where
  "write_effect target enc s s' ok \<longleftrightarrow>
     (if ok then (\<exists>body. enc = Some body \<and> fs_nodes s' target = Some (File (body @ [CHR 0x0A])))
      else fs_nodes s' target = fs_nodes s target) \<and>
     (\<forall>q. q \<noteq> target \<and> \<not> is_temp q \<longrightarrow> fs_nodes s' q = fs_nodes s q \<or>
        (prefix q (butlast target) \<and> fs_nodes s q = None \<and> fs_nodes s' q = Some Dir))"

lemma write_effect_other:
  "write_effect target enc s s' ok \<Longrightarrow> q \<noteq> target \<Longrightarrow> \<not> is_temp q \<Longrightarrow> \<not> prefix q (butlast target) \<Longrightarrow> fs_nodes s' q = fs_nodes s q"
  unfolding write_effect_def by blast

lemma write_effect_dir:
  "write_effect target enc s s' ok \<Longrightarrow> q \<noteq> target \<Longrightarrow> \<not> is_temp q \<Longrightarrow> fs_nodes s q = Some Dir \<Longrightarrow> fs_nodes s' q = Some Dir"
  unfolding write_effect_def by (metis option.distinct(1))

lemma atomicWriteJSON_effect:
  assumes A: "atomicWriteJSON f target enc s = (s', r)" and t: "target \<noteq> []" "\<not> is_temp target"
  shows "write_effect target enc s s' (r = None)"
proof -
  obtain s1 r1 where 1: "os_MkdirAll f (butlast target) s = (s1, r1)" by (cases "os_MkdirAll f (butlast target) s")
  let ?tmp = "temp_json f (butlast target) s1"
  have it: "\<not> is_temp q \<Longrightarrow> q \<noteq> ?tmp" for q using temp_json_temp by metis
  have tt: "?tmp \<noteq> target" using it [OF t(2)] by simp
  have np: "\<not> prefix target (butlast target)" using t(1) by (cases target rule: rev_cases) (auto dest!: prefix_length_le)
  have n1: "fs_nodes s1 target = fs_nodes s target" "fs_nodes s1 q = fs_nodes s q \<or>
       (prefix q (butlast target) \<and> fs_nodes s q = None \<and> fs_nodes s1 q = Some Dir)" for q
    using os_MkdirAll_nodes [OF 1] np by (auto split: if_splits)
  show ?thesis
  proof (cases "r1 \<and> enc \<noteq> None")
    case False
    then have "s' = s1" "r \<noteq> None" using A 1 by (cases r1; cases enc; auto simp: atomicWriteJSON_def)+
    then show ?thesis using n1 by (auto simp: write_effect_def)
  next
    case True
    then obtain body where body: "enc = Some body" by auto
    obtain s2 r2 where 2: "os_Create f ?tmp s1 = (s2, r2)" by (cases "os_Create f ?tmp s1")
    obtain s3 r3 where 3: "write_steps f ?tmp target (body @ [CHR 0x0A]) s2 = (s3, r3)"
      by (cases "write_steps f ?tmp target (body @ [CHR 0x0A]) s2")
    note w = write_steps_nodes [OF 3 tt]
    have c: "fs_nodes s2 q = fs_nodes s1 q" if "q \<noteq> ?tmp" for q using os_Create_nodes [OF 2] that by (auto split: if_splits)
    have rm: "fs_nodes (os_RemoveFile f ?tmp s3) q = fs_nodes s3 q" if "q \<noteq> ?tmp" for q
      using that by (simp add: os_RemoveFile_def syscall_def tick_def)
    have tc: "fs_nodes (fst (os_Touch f s3)) = fs_nodes s3" by (rule os_Touch_nodes [OF surjective_pairing])
    have s': "(s', r) = (if \<not> r2 then (s2, Some (IOFailed ''create'')) else if \<not> r3 then (os_RemoveFile f ?tmp s3, Some (IOFailed ''write''))
        else (fst (os_Touch f s3), None))"
      using A True 1 2 3 body by (simp add: atomicWriteJSON_def Let_def split: bool.splits)
    have keep: "fs_nodes s' q = fs_nodes s1 q" if "q \<noteq> target" "\<not> is_temp q" for q
      using s' w(1) c rm tc it [OF that(2)] that(1) by (auto split: if_splits)
    have "fs_nodes s' target = (if r = None then Some (File (body @ [CHR 0x0A])) else fs_nodes s target)"
      using s' w(2) c rm tc n1(1) tt by (auto split: if_splits)
    then show ?thesis using keep n1(2) body by (auto simp: write_effect_def)
  qed
qed

lemma SaveServers_nodes:
  assumes "SaveServers nl cc f c s = (s', r)"
  shows "(case r of Some e \<Rightarrow> fs_nodes s' ServersPath = fs_nodes s ServersPath
     | None \<Rightarrow> ValidateServers nl c = None \<and> (\<exists>body. cc_marshalServers cc c = Some body \<and> fs_nodes s' ServersPath = Some (File (body @ [CHR 0x0A])))) \<and>
     fs_nodes s' ManagerPath = fs_nodes s ManagerPath"
proof (cases "ValidateServers nl c")
  case None
  then have A: "atomicWriteJSON f ServersPath (cc_marshalServers cc c) s = (s', r)" using assms by (simp add: SaveServers_def)
  have t: "ServersPath \<noteq> []" "\<not> is_temp ServersPath" "\<not> is_temp ManagerPath" "ManagerPath \<noteq> ServersPath" "\<not> prefix ManagerPath (butlast ServersPath)"
    by (simp_all add: ServersPath_def ManagerPath_def is_temp_def HasPrefix_def)
  note w = atomicWriteJSON_effect [OF A t(1,2)]
  have "fs_nodes s' ManagerPath = fs_nodes s ManagerPath" using write_effect_other [OF w t(4,3,5)] .
  then show ?thesis using w None by (auto simp: write_effect_def split: option.split)
next
  case (Some e)
  then show ?thesis using assms by (auto simp: SaveServers_def)
qed

text \<open>
  (C33) Configuration writes are atomic under every fault: whichever system calls fail, and wherever a crash falls, a save
  leaves the target file either untouched or holding the complete new text; it holds the new text exactly when the
  save reports success, and no other configuration file is touched. (A crash stops the process between two calls; what a power failure takes
  from a disk that has not been synced is outside the model.)
\<close>

theorem SaveServers_atomic:
  assumes "SaveServers nl cc f c s = (s', r)"
  shows "(case r of Some e \<Rightarrow> fs_nodes s' ServersPath = fs_nodes s ServersPath
     | None \<Rightarrow> ValidateServers nl c = None \<and> (\<exists>body. cc_marshalServers cc c = Some body \<and> fs_nodes s' ServersPath = Some (File (body @ [CHR 0x0A])))) \<and>
     fs_nodes s' ManagerPath = fs_nodes s ManagerPath"
  using assms by (rule SaveServers_nodes)

section \<open>Fresh initialisation\<close>

definition config_absent :: "fsys \<Rightarrow> bool" where
  "config_absent s \<longleftrightarrow> fs_nodes s ConfigDir = None \<and> fs_nodes s ManagerPath = None \<and> fs_nodes s ServersPath = None"

definition config_complete :: "fsys \<Rightarrow> bool" where
  "config_complete s \<longleftrightarrow> (case fs_nodes s ManagerPath of Some (File _) \<Rightarrow> True | _ \<Rightarrow> False) \<and>
     (case fs_nodes s ServersPath of Some (File _) \<Rightarrow> True | _ \<Rightarrow> False)"

lemma config_paths: "prefix q ManagerPath \<or> prefix q ServersPath \<Longrightarrow> q = [] \<or> q = ConfigDir \<or> q = ManagerPath \<or> q = ServersPath"
  by (auto simp: ManagerPath_def ServersPath_def ConfigDir_def prefix_Cons)

lemma write_effect_absent:
  assumes "write_effect target enc s s' ok" and "config_absent s" and "target \<notin> {ConfigDir, ManagerPath, ServersPath}"
    and "\<not> prefix ConfigDir target"
  shows "config_absent s'"
proof -
  have "\<not> prefix q (butlast target)" if "q \<in> {ConfigDir, ManagerPath, ServersPath}" for q
  proof
    assume "prefix q (butlast target)"
    then have "prefix q target" using prefixeq_butlast prefix_order.trans by blast
    moreover have "prefix ConfigDir q" using that by (auto simp: ConfigDir_def ManagerPath_def ServersPath_def)
    ultimately show False using assms(4) prefix_order.trans by blast
  qed
  moreover have "\<not> is_temp q" if "q \<in> {ConfigDir, ManagerPath, ServersPath}" for q
    using that by (auto simp: ConfigDir_def ManagerPath_def ServersPath_def is_temp_def HasPrefix_def)
  ultimately have "fs_nodes s' q = fs_nodes s q" if "q \<in> {ConfigDir, ManagerPath, ServersPath}" for q
    using that assms(3) by (intro write_effect_other [OF assms(1)]) auto
  then show ?thesis using assms(2) by (simp add: config_absent_def)
qed

lemma fresh_stage_effect:
  assumes F: "fresh_stage cc f [n] manager servers s = (s', r)" and a: "config_absent s" and n: "HasPrefix n ''.config-v2-init-''"
    and d: "fs_nodes s [n] = Some Dir"
  shows "if r = None then (\<exists>mb sb. cc_marshalManager cc manager = Some mb \<and> cc_marshalServers cc servers = Some sb \<and>
       fs_nodes s' ManagerPath = Some (File (mb @ [CHR 0x0A])) \<and> fs_nodes s' ServersPath = Some (File (sb @ [CHR 0x0A])))
     else config_absent s'"
proof -
  let ?m = "[n, ''manager.json'']" and ?v = "[n, ''servers.json'']"
  have nc: "n \<noteq> ''config''" "\<not> HasPrefix n ''.tmp-''" using n by (auto simp: HasPrefix_iff)
  have t: "?m \<noteq> []" "\<not> is_temp ?m" "?v \<noteq> []" "\<not> is_temp ?v" "\<not> is_temp [n]" "?m \<notin> {ConfigDir, ManagerPath, ServersPath}"
    "?v \<notin> {ConfigDir, ManagerPath, ServersPath}" "\<not> prefix ConfigDir ?m" "\<not> prefix ConfigDir ?v"
    using nc by (auto simp: is_temp_def HasPrefix_def ConfigDir_def ManagerPath_def ServersPath_def)
  obtain s1 r1 where 1: "atomicWriteJSON f ?m (cc_marshalManager cc manager) s = (s1, r1)" by (cases "atomicWriteJSON f ?m (cc_marshalManager cc manager) s")
  obtain s2 r2 where 2: "atomicWriteJSON f ?v (cc_marshalServers cc servers) s1 = (s2, r2)" by (cases "atomicWriteJSON f ?v (cc_marshalServers cc servers) s1")
  obtain s3 r3 where 3: "os_Rename f [n] ConfigDir s2 = (s3, r3)" by (cases "os_Rename f [n] ConfigDir s2")
  note e1 = atomicWriteJSON_effect [OF 1 t(1,2)] and e2 = atomicWriteJSON_effect [OF 2 t(3,4)]
  have a1: "config_absent s1" using write_effect_absent [OF e1 a t(6,8)] .
  have a2: "config_absent s2" using write_effect_absent [OF e2 a1 t(7,9)] .
  have d1: "fs_nodes s1 [n] = Some Dir" using write_effect_dir [OF e1 _ t(5) d] by simp
  have d2: "fs_nodes s2 [n] = Some Dir" using write_effect_dir [OF e2 _ t(5) d1] by simp
  have m2: "fs_nodes s2 ?m = fs_nodes s1 ?m" using write_effect_other [OF e2 _ t(2)] by simp
  have s': "(s', r) = (if r1 \<noteq> None then (s1, r1) else if r2 \<noteq> None then (s2, r2) else (s3, if r3 then None else Some (IOFailed ''rename'')))"
    using F 1 2 3 by (cases r1; cases r2; cases r3) (auto simp: fresh_stage_def)
  have mv: "fs_nodes s3 = (if r3 then move_nodes [n] ConfigDir (fs_nodes s2) else fs_nodes s2)"
    using 3 d2 by (auto simp: os_Rename_def dest!: syscall_nodes)
  have mv': "move_nodes [n] ConfigDir m ManagerPath = m ?m" "move_nodes [n] ConfigDir m ServersPath = m ?v" for m
    by (simp_all add: move_nodes_def ConfigDir_def ManagerPath_def ServersPath_def)
  show ?thesis
  proof (cases "r = None")
    case True
    then have "r1 = None" "r2 = None" "r3" "s' = s3" using s' by (auto split: if_splits)
    then show ?thesis using e1 e2 m2 mv mv' True by (auto simp: write_effect_def)
  next
    case False
    then have "s' = s1 \<or> s' = s2 \<or> s' = s3 \<and> \<not> r3" using s' by (auto split: if_splits)
    then show ?thesis using False a1 a2 mv by (auto simp: config_absent_def)
  qed
qed

lemma removed_absent: "config_absent s \<Longrightarrow> config_absent (os_RemoveAll f p s)"
  by (auto simp: config_absent_def os_RemoveAll_def syscall_def tick_def)

lemma init_absent:
  assumes I: "initializeFresh nl cc f port s = (s', r)" and a: "config_absent s"
  shows "case r of Inl e \<Rightarrow> config_absent s'
    | Inr (m, v) \<Rightarrow> ValidateManager nl m = None \<and> ValidateServers nl v = None \<and>
        (\<exists>mb sb. cc_marshalManager cc m = Some mb \<and> cc_marshalServers cc v = Some sb \<and>
         fs_nodes s' ManagerPath = Some (File (mb @ [CHR 0x0A])) \<and> fs_nodes s' ServersPath = Some (File (sb @ [CHR 0x0A])))"
proof (cases "\<exists>p. port = Some p \<and> ValidateManager nl (DefaultManagerConfig p) = None \<and> ValidateServers nl DefaultServersConfig = None")
  case False
  then show ?thesis using I a by (auto simp: initializeFresh_def Let_def split: option.splits)
next
  case True
  then obtain p where p: "port = Some p" "ValidateManager nl (DefaultManagerConfig p) = None" "ValidateServers nl DefaultServersConfig = None" by auto
  obtain s1 r1 where 1: "os_MkdirAll f [] s = (s1, r1)" by (cases "os_MkdirAll f [] s")
  obtain s2 r2 where 2: "os_MkdirTemp f (stage_dir f s1) s1 = (s2, r2)" by (cases "os_MkdirTemp f (stage_dir f s1) s1")
  obtain s3 r3 where 3: "fresh_stage cc f (stage_dir f s1) (DefaultManagerConfig p) DefaultServersConfig s2 = (s3, r3)"
    by (cases "fresh_stage cc f (stage_dir f s1) (DefaultManagerConfig p) DefaultServersConfig s2")
  let ?n = "''.config-v2-init-'' @ fl_temp f (fs_ops s1)"
  have st: "stage_dir f s1 = [?n]" by (simp add: stage_dir_def)
  have a1: "config_absent s1"
    using os_MkdirAll_nodes [OF 1] a by (auto simp: config_absent_def ConfigDir_def ManagerPath_def ServersPath_def)
  have n2: "fs_nodes s2 = (if r2 then (fs_nodes s1)([?n] \<mapsto> Dir) else fs_nodes s1)"
    using 2 by (auto simp: os_MkdirTemp_def st dest!: syscall_nodes)
  then have a2: "config_absent s2" using a1 by (auto simp: config_absent_def ConfigDir_def ManagerPath_def ServersPath_def)
  have s': "(s', r) = (if \<not> r1 then (s1, Inl (IOFailed ''mkdir'')) else if \<not> r2 then (s2, Inl (IOFailed ''mkdirtemp''))
      else (case r3 of Some e \<Rightarrow> (os_RemoveAll f (stage_dir f s1) s3, Inl e) | None \<Rightarrow> (s3, Inr (DefaultManagerConfig p, DefaultServersConfig))))"
    using I p 1 2 3 by (simp add: initializeFresh_def Let_def split: bool.splits option.splits)
  have e: "r2 \<Longrightarrow> if r3 = None then (\<exists>mb sb. cc_marshalManager cc (DefaultManagerConfig p) = Some mb \<and> cc_marshalServers cc DefaultServersConfig = Some sb \<and>
       fs_nodes s3 ManagerPath = Some (File (mb @ [CHR 0x0A])) \<and> fs_nodes s3 ServersPath = Some (File (sb @ [CHR 0x0A])))
     else config_absent s3"
    using fresh_stage_effect [OF 3 [unfolded st] a2 HasPrefix_append] n2 by simp
  show ?thesis using s' a1 a2 e p removed_absent by (auto split: if_splits option.splits)
qed

text \<open>
  Fresh initialisation is all or nothing: from a root without configuration, whichever system calls fail and
  wherever a crash falls, afterwards either there is no configuration at all, or both files are there with the
  complete text of a valid configuration; it reports success exactly in the second case. So a crash never
  leaves the half-written state that the loader refuses.
\<close>

theorem initializeFresh_all_or_nothing:
  assumes "config_absent s" and "initializeFresh nl cc f port s = (s', r)"
  shows "case r of Inl e \<Rightarrow> config_absent s'
    | Inr (m, v) \<Rightarrow> ValidateManager nl m = None \<and> ValidateServers nl v = None \<and>
        (\<exists>mb sb. cc_marshalManager cc m = Some mb \<and> cc_marshalServers cc v = Some sb \<and>
         fs_nodes s' ManagerPath = Some (File (mb @ [CHR 0x0A])) \<and> fs_nodes s' ServersPath = Some (File (sb @ [CHR 0x0A])))"
  using init_absent [OF assms(2,1)] .

section \<open>The store as an interface\<close>

text \<open>
  The files represent a configuration when each of them decodes to its half of it or holds the text written for it.
\<close>

definition represents :: "config_codec \<Rightarrow> fsys \<Rightarrow> ManagerConfig \<times> ServersConfig \<Rightarrow> bool" where
  "represents cc s c \<longleftrightarrow> (case fs_nodes s ManagerPath of Some (File mb) \<Rightarrow>
      cc_decodeManager cc mb = Some (fst c) \<or> map_option (\<lambda>b. b @ [CHR 0x0A]) (cc_marshalManager cc (fst c)) = Some mb | _ \<Rightarrow> False) \<and>
     (case fs_nodes s ServersPath of Some (File sb) \<Rightarrow>
      cc_decodeServers cc sb = Some (snd c) \<or> map_option (\<lambda>b. b @ [CHR 0x0A]) (cc_marshalServers cc (snd c)) = Some sb | _ \<Rightarrow> False)"

lemma represents_cong:
  "fs_nodes s' ManagerPath = fs_nodes s ManagerPath \<Longrightarrow> fs_nodes s' ServersPath = fs_nodes s ServersPath \<Longrightarrow> represents cc s' = represents cc s"
  by (rule ext) (simp add: represents_def)

lemma represents_present: "represents cc s c \<Longrightarrow> fs_nodes s ManagerPath \<noteq> None \<and> fs_nodes s ServersPath \<noteq> None"
  by (auto simp: represents_def split: option.splits)

lemma readJSON_nodes: "readJSON f p decode s = (s', r) \<Longrightarrow> fs_nodes s' = fs_nodes s \<and>
    (case r of Inl e \<Rightarrow> True | Inr v \<Rightarrow> \<exists>b. fs_nodes s p = Some (File b) \<and> decode b = Some v)"
  by (auto simp: readJSON_def os_ReadFile_def tick_def split: option.splits node.splits if_splits)

lemma LoadOrCreate_cases:
  assumes "LoadOrCreate nl cc f port s = (s', r)"
  obtains (fresh) s1 where "fs_nodes s1 = fs_nodes s" "config_absent s" "initializeFresh nl cc f port s1 = (s', r)"
  | (loaded) m v where "fs_nodes s' = fs_nodes s" "r = Inr (m, v)" "represents cc s (m, v)" "ValidateManager nl m = None" "ValidateServers nl v = None"
  | (failed) "fs_nodes s' = fs_nodes s" "\<exists>e. r = Inl e"
proof -
  obtain s1 r1 where 1: "os_Stat f ManagerPath s = (s1, r1)" by (cases "os_Stat f ManagerPath s")
  obtain s2 r2 where 2: "os_Stat f ServersPath s1 = (s2, r2)" by (cases "os_Stat f ServersPath s1")
  obtain s3 r3 where 3: "os_Stat f ConfigDir s2 = (s3, r3)" by (cases "os_Stat f ConfigDir s2")
  obtain s4 r4 where 4: "readJSON f ManagerPath (cc_decodeManager cc) s2 = (s4, r4)" by (cases "readJSON f ManagerPath (cc_decodeManager cc) s2")
  obtain s5 r5 where 5: "readJSON f ServersPath (cc_decodeServers cc) s4 = (s5, r5)" by (cases "readJSON f ServersPath (cc_decodeServers cc) s4")
  note n = os_Stat_nodes [OF 1] os_Stat_nodes [OF 2] os_Stat_nodes [OF 3] readJSON_nodes [OF 4] readJSON_nodes [OF 5]
  show thesis
  proof (cases "\<exists>a b. r1 = Inr a \<and> r2 = Inr b")
    case False
    then show thesis using assms 1 2 n(1,2) by (cases r1; cases r2) (auto simp: LoadOrCreate_def intro!: failed)
  next
    case True
    then obtain a b where ab: "r1 = Inr a" "r2 = Inr b" by auto
    have ab': "a = (fs_nodes s ManagerPath \<noteq> None)" "b = (fs_nodes s ServersPath \<noteq> None)" using n ab by auto
    consider (none) "\<not> a" "\<not> b" | (mixed) "a \<noteq> b" | (both) "a" "b" by blast
    then show thesis
    proof cases
      case none
      show thesis
      proof (cases r3)
        case (Inl e)
        then show thesis using assms 1 2 3 n ab none by (intro failed) (auto simp: LoadOrCreate_def)
      next
        case (Inr c)
        show thesis
        proof (cases c)
          case True
          then show thesis using assms 1 2 3 n ab none Inr by (intro failed) (auto simp: LoadOrCreate_def)
        next
          case False
          then show thesis using assms 1 2 3 n ab ab' none Inr
            by (intro fresh [of s3]) (auto simp: LoadOrCreate_def config_absent_def)
        qed
      qed
    next
      case mixed
      then show thesis using assms 1 2 n ab by (intro failed) (auto simp: LoadOrCreate_def)
    next
      case both
      then have L: "(s', r) = (case r4 of Inl e \<Rightarrow> (s4, Inl e) | Inr m \<Rightarrow> case r5 of Inl e \<Rightarrow> (s5, Inl e) | Inr v \<Rightarrow>
          case ValidateManager nl m of Some e \<Rightarrow> (s5, Inl (InvalidConfig e)) | None \<Rightarrow>
          case ValidateServers nl v of Some e \<Rightarrow> (s5, Inl (InvalidConfig e)) | None \<Rightarrow> (s5, Inr (m, v)))"
        using assms 1 2 4 5 ab by (simp add: LoadOrCreate_def split: sum.splits)
      show thesis
      proof (cases r)
        case (Inl e)
        then show thesis using L n by (intro failed) (auto split: sum.splits option.splits)
      next
        case (Inr mv)
        then obtain m v where r: "r4 = Inr m" "r5 = Inr v" "mv = (m, v)" "s' = s5" "ValidateManager nl m = None" "ValidateServers nl v = None"
          using L by (auto split: sum.splits option.splits)
        then show thesis using n Inr by (intro loaded [of m v]) (auto simp: represents_def)
      qed
    qed
  qed
qed

locale config_store =
  fixes load :: "'x \<Rightarrow> 's \<Rightarrow> 's \<times> (store_error, ManagerConfig \<times> ServersConfig) result"
    and saveManager :: "'x \<Rightarrow> ManagerConfig \<Rightarrow> 's \<Rightarrow> 's \<times> store_error option"
    and saveServers :: "'x \<Rightarrow> ServersConfig \<Rightarrow> 's \<Rightarrow> 's \<times> store_error option"
    and holds :: "'s \<Rightarrow> ManagerConfig \<times> ServersConfig \<Rightarrow> bool"
  assumes load_ok: "load x s = (s', Inr c) \<Longrightarrow> holds s' c"
    and load_keeps: "load x s = (s', r) \<Longrightarrow> holds s c \<Longrightarrow> holds s' c"
    and saveManager_failed: "saveManager x m s = (s', Some e) \<Longrightarrow> holds s c \<Longrightarrow> holds s' c"
    and saveServers_failed: "saveServers x v s = (s', Some e) \<Longrightarrow> holds s c \<Longrightarrow> holds s' c"

interpretation files: config_store
  "\<lambda>(f, port). LoadOrCreate nl cc f port" "\<lambda>(f, port). SaveManager nl cc f" "\<lambda>(f, port). SaveServers nl cc f" "represents cc"
  for nl :: netlib and cc :: config_codec
proof (unfold_locales, goal_cases)
  case (1 x s s' c)
  obtain f port where x: "x = (f, port)" by (cases x)
  from 1 have "LoadOrCreate nl cc f port s = (s', Inr c)" by (simp add: x)
  then show ?case
  proof (cases rule: LoadOrCreate_cases)
    case (fresh s1)
    have "config_absent s1" using fresh by (simp add: config_absent_def)
    from init_absent [OF fresh(3) this] show ?thesis by (auto simp: represents_def)
  qed (auto simp: represents_def)
next
  case (2 x s s' r c)
  obtain f port where x: "x = (f, port)" by (cases x)
  from 2 have "LoadOrCreate nl cc f port s = (s', r)" by (simp add: x)
  then show ?case using 2(2) represents_present [OF 2(2)]
    by (cases rule: LoadOrCreate_cases) (auto simp: config_absent_def represents_def)
next
  case (3 x m s s' e c)
  then have S: "SaveManager nl cc (fst x) m s = (s', Some e)" by (simp add: split_beta)
  have "fs_nodes s' ManagerPath = fs_nodes s ManagerPath \<and> fs_nodes s' ServersPath = fs_nodes s ServersPath"
  proof (cases "ValidateManager nl m")
    case None
    then have A: "atomicWriteJSON (fst x) ManagerPath (cc_marshalManager cc m) s = (s', Some e)" using S by (simp add: SaveManager_def)
    have t: "ManagerPath \<noteq> []" "\<not> is_temp ManagerPath" "ServersPath \<noteq> ManagerPath" "\<not> is_temp ServersPath" "\<not> prefix ServersPath (butlast ManagerPath)"
      by (simp_all add: ServersPath_def ManagerPath_def is_temp_def HasPrefix_def)
    note w = atomicWriteJSON_effect [OF A t(1,2)]
    show ?thesis using write_effect_other [OF w t(3-5)] w by (simp add: write_effect_def)
  qed (use S in \<open>simp add: SaveManager_def\<close>)
  then show ?case using 3(2) represents_cong by metis
next
  case (4 x v s s' e c)
  then have S: "SaveServers nl cc (fst x) v s = (s', Some e)" by (simp add: split_beta)
  have "fs_nodes s' ManagerPath = fs_nodes s ManagerPath \<and> fs_nodes s' ServersPath = fs_nodes s ServersPath"
    using SaveServers_nodes [OF S] by simp
  then show ?case using 4(2) represents_cong by metis
qed

section \<open>Moving aside loses nothing\<close>

text \<open>The tree below \<open>n\<close> is where it was, or has been moved as a whole below \<open>r\<close>.\<close>

definition at_home :: "fsys \<Rightarrow> fsys \<Rightarrow> string \<Rightarrow> bool" where
  "at_home s0 s n \<longleftrightarrow> (\<forall>q. fs_nodes s (n # q) = fs_nodes s0 (n # q))"

definition moved_to :: "string \<Rightarrow> fsys \<Rightarrow> fsys \<Rightarrow> string \<Rightarrow> bool" where
  "moved_to r s0 s n \<longleftrightarrow> (\<forall>q. fs_nodes s (r # n # q) = fs_nodes s0 (n # q) \<and> fs_nodes s (n # q) = None)"

definition placed :: "string \<Rightarrow> fsys \<Rightarrow> fsys \<Rightarrow> string \<Rightarrow> bool" where
  "placed r s0 s n \<longleftrightarrow> at_home s0 s n \<or> moved_to r s0 s n"

lemma placed_same: "fs_nodes s' = fs_nodes s \<Longrightarrow> placed r s0 s' n = placed r s0 s n"
  by (simp add: placed_def at_home_def moved_to_def)

lemma placed_forward:
  assumes p: "placed r s0 s m" and d: "fs_nodes s0 [n] = Some Dir" and r: "m \<noteq> r" "n \<noteq> r" and pn: "placed r s0 s n"
    and R: "os_Rename f [n] [r, n] s = (s', b)"
  shows "placed r s0 s' m"
proof (cases b)
  case False
  then have "fs_nodes s' = fs_nodes s" using R by (auto simp: os_Rename_def dest!: syscall_nodes)
  from placed_same [OF this] p show ?thesis by blast
next
  case True
  have ex: "fs_nodes s [n] \<noteq> None" using R True by (auto simp: os_Rename_def syscall_def split: if_splits option.splits)
  then have home: "at_home s0 s n" using pn by (auto simp: placed_def moved_to_def)
  then have sd: "fs_nodes s [n] = Some Dir" using d by (simp add: at_home_def)
  then have mv: "fs_nodes s' = move_nodes [n] [r, n] (fs_nodes s)" using R True by (auto simp: os_Rename_def dest!: syscall_nodes)
  show ?thesis
  proof (cases "m = n")
    case True
    have "moved_to r s0 s' n" using home r by (simp add: moved_to_def mv move_nodes_def at_home_def)
    then show ?thesis using True by (simp add: placed_def)
  next
    case False
    then show ?thesis using p r by (simp add: placed_def at_home_def moved_to_def mv move_nodes_def)
  qed
qed

lemma placed_back:
  assumes p: "placed r s0 s m" and d: "fs_nodes s0 [n] = Some Dir" and r: "m \<noteq> r" "n \<noteq> r" and pn: "placed r s0 s n"
    and R: "os_Rename f [r, n] [n] s = (s', b)"
  shows "placed r s0 s' m"
proof (cases b)
  case False
  then have "fs_nodes s' = fs_nodes s" using R by (auto simp: os_Rename_def dest!: syscall_nodes)
  from placed_same [OF this] p show ?thesis by blast
next
  case True
  have ne: "fs_nodes s [n] \<noteq> Some Dir" using R True by (auto simp: os_Rename_def syscall_def split: if_splits option.splits node.splits)
  then have mv1: "moved_to r s0 s n" using pn d by (auto simp: placed_def at_home_def)
  then have "fs_nodes s [r, n] = Some Dir" using d by (simp add: moved_to_def)
  then have mv: "fs_nodes s' = move_nodes [r, n] [n] (fs_nodes s)" using R True by (auto simp: os_Rename_def dest!: syscall_nodes)
  show ?thesis
  proof (cases "m = n")
    case True
    have "at_home s0 s' n" using mv1 by (simp add: at_home_def mv move_nodes_def moved_to_def)
    then show ?thesis using True by (simp add: placed_def)
  next
    case False
    then show ?thesis using p r by (simp add: placed_def at_home_def moved_to_def mv move_nodes_def)
  qed
qed

lemma placed_move_back:
  "(\<forall>m. m \<noteq> r \<longrightarrow> placed r s0 s m) \<Longrightarrow> list_all (\<lambda>n. fs_nodes s0 [n] = Some Dir \<and> n \<noteq> r) ns \<Longrightarrow>
    \<forall>m. m \<noteq> r \<longrightarrow> placed r s0 (move_back f [r] ns s) m"
proof (induction ns arbitrary: s)
  case (Cons n ns)
  have "\<forall>m. m \<noteq> r \<longrightarrow> placed r s0 (fst (os_Rename f [r, n] [n] s)) m"
    using Cons.prems placed_back [OF _ _ _ _ _ surjective_pairing] by simp
  then show ?case using Cons by simp
qed simp

lemma placed_remove_root: "placed r s0 s m \<Longrightarrow> m \<noteq> r \<Longrightarrow> placed r s0 (os_RemoveDir f [r] names s) m"
  by (auto simp: placed_def at_home_def moved_to_def os_RemoveDir_def syscall_def tick_def)

lemma placed_move_legacy:
  "move_legacy f [r] ns moved s = (s', res) \<Longrightarrow> \<forall>m. m \<noteq> r \<longrightarrow> placed r s0 s m \<Longrightarrow>
    list_all (\<lambda>n. fs_nodes s0 [n] = Some Dir \<and> n \<noteq> r) (moved @ ns) \<Longrightarrow> \<forall>m. m \<noteq> r \<longrightarrow> placed r s0 s' m"
proof (induction ns arbitrary: moved s)
  case (Cons n ns)
  obtain s1 b where R: "os_Rename f [n] [r, n] s = (s1, b)" by (cases "os_Rename f [n] [r, n] s")
  have p1: "\<forall>m. m \<noteq> r \<longrightarrow> placed r s0 s1 m" using placed_forward [OF _ _ _ _ _ R] Cons.prems(2,3) by simp
  show ?case
  proof (cases b)
    case True
    then show ?thesis using Cons.IH [of "moved @ [n]" s1] Cons.prems R p1 by simp
  next
    case False
    then have "s' = os_RemoveDir f [r] [''config'', ''data''] (move_back f [r] (rev moved) s1)" using Cons.prems(1) R by simp
    moreover have "\<forall>m. m \<noteq> r \<longrightarrow> placed r s0 (move_back f [r] (rev moved) s1) m"
      using p1 Cons.prems(3) by (intro placed_move_back) auto
    ultimately show ?thesis using placed_remove_root by blast
  qed
qed simp

lemma stat_existing_nodes: "stat_existing f ns s = (s', r) \<Longrightarrow> fs_nodes s' = fs_nodes s \<and>
    (case r of Inl e \<Rightarrow> True | Inr ex \<Rightarrow> list_all (\<lambda>n. n \<in> set ns \<and> fs_nodes s [n] \<noteq> None) ex)"
proof (induction ns arbitrary: s s' r)
  case (Cons n ns)
  obtain s1 r1 where 1: "os_Stat f [n] s = (s1, r1)" by (cases "os_Stat f [n] s")
  obtain s2 r2 where 2: "stat_existing f ns s1 = (s2, r2)" by (cases "stat_existing f ns s1")
  show ?case using Cons.prems 1 2 os_Stat_nodes [OF 1] Cons.IH [OF 2] by (auto simp: list_all_iff split: sum.splits if_splits)
qed simp

lemma unique_loop_nodes: "unique_loop f base is s = (s', r) \<Longrightarrow> fs_nodes s' = fs_nodes s \<and>
    (case r of Inl e \<Rightarrow> True | Inr root \<Rightarrow> \<exists>i. root = [legacy_candidate base i])"
proof (induction "is" arbitrary: s)
  case (Cons i "is")
  obtain s1 r1 where 1: "os_Stat f [legacy_candidate base i] s = (s1, r1)" by (cases "os_Stat f [legacy_candidate base i] s")
  show ?case using Cons 1 os_Stat_nodes [OF 1] by (auto split: sum.splits bool.splits)
qed auto

lemma legacy_name: "legacy_candidate (''legacy-v1-'' @ stamp) i \<noteq> ''config'' \<and> legacy_candidate (''legacy-v1-'' @ stamp) i \<noteq> ''data''"
  by (simp add: legacy_candidate_def)

text \<open>
  Moving a legacy installation aside never loses data: whichever system calls fail, also in the middle of the
  rollback, the config and data trees are afterwards each complete, either in their old place or below the new legacy
  directory.
\<close>

theorem CutoverOpaqueLegacy_keeps_data:
  assumes C: "CutoverOpaqueLegacy f stamp s = (s', r)" and n: "n \<in> {''config'', ''data''}"
    and d: "fs_nodes s [''config''] \<in> {None, Some Dir}" "fs_nodes s [''data''] \<in> {None, Some Dir}"
  shows "\<exists>root. (\<forall>q. fs_nodes s' (n # q) = fs_nodes s (n # q)) \<or> (\<forall>q. fs_nodes s' (root # n # q) = fs_nodes s (n # q))"
proof -
  obtain s1 r1 where 1: "uniqueLegacyRoot f stamp s = (s1, r1)" by (cases "uniqueLegacyRoot f stamp s")
  note u = unique_loop_nodes [OF 1 [unfolded uniqueLegacyRoot_def]]
  obtain s2 r2 where 2: "stat_existing f [''config'', ''data''] s1 = (s2, r2)" by (cases "stat_existing f [''config'', ''data''] s1")
  note e = stat_existing_nodes [OF 2]
  show ?thesis
  proof (cases "\<exists>root ex. r1 = Inr root \<and> r2 = Inr ex \<and> ex \<noteq> []")
    case False
    then have "fs_nodes s' = fs_nodes s" using C 1 2 u e by (auto simp: CutoverOpaqueLegacy_def split: sum.splits)
    then show ?thesis by simp
  next
    case True
    then obtain root ex where re: "r1 = Inr root" "r2 = Inr ex" "ex \<noteq> []" by auto
    then obtain r0 where root: "root = [r0]" "r0 \<noteq> ''config''" "r0 \<noteq> ''data''" using u legacy_name by auto
    obtain s3 b where 3: "os_MkdirAll f [r0] s2 = (s3, b)" by (cases "os_MkdirAll f [r0] s2")
    have n3: "fs_nodes s3 (m # q) = fs_nodes s (m # q)" if "m \<noteq> r0" for m q
      using os_MkdirAll_nodes [OF 3] u e that by (auto simp: prefix_Cons split: if_splits)
    then have p3: "\<forall>m. m \<noteq> r0 \<longrightarrow> placed r0 s s3 m" by (simp add: placed_def at_home_def)
    have "n \<in> {''config'', ''data''} \<and> fs_nodes s [n] \<noteq> None" if "n \<in> set ex" for n
      using e re(2) u that by (simp add: list_all_iff)
    then have all: "list_all (\<lambda>n. fs_nodes s [n] = Some Dir \<and> n \<noteq> r0) ([] @ ex)"
      using d root(2,3) unfolding list_all_iff append_Nil by (metis empty_iff insert_iff)
    obtain s4 res where 4: "move_legacy f [r0] ex [] s3 = (s4, res)" by (cases "move_legacy f [r0] ex [] s3")
    have p4: "\<forall>m. m \<noteq> r0 \<longrightarrow> placed r0 s s4 m" using placed_move_legacy [OF 4 p3 all] .
    have "s' = s3 \<or> s' = s4" using C 1 2 re root 3 4 by (cases b; cases res) (auto simp: CutoverOpaqueLegacy_def)
    then have "placed r0 s s' n" using p3 p4 n root by auto
    then show ?thesis by (auto simp: placed_def at_home_def moved_to_def)
  qed
qed

section \<open>Concrete instances\<close>

definition sample_fs :: "(path \<times> node) list \<Rightarrow> fsys" where
  "sample_fs ns = \<lparr>fs_nodes = map_of ns, fs_ops = 0\<rparr>"

text \<open>Every call up to the \<open>n\<close>th works, every later one fails: a crash.\<close>

definition crash_at :: "nat \<Rightarrow> faults" where
  "crash_at n = \<lparr>fl_ok = (\<lambda>i. i < n), fl_written = (\<lambda>i. 1), fl_temp = (\<lambda>i. ''x'')\<rparr>"

definition sample_config_codec :: config_codec where
  "sample_config_codec = \<lparr>cc_marshalManager = (\<lambda>c. Some ''m''), cc_marshalServers = (\<lambda>c. Some ''new''),
     cc_decodeManager = (\<lambda>b. None), cc_decodeServers = (\<lambda>b. None)\<rparr>"

definition sample_config_fs :: fsys where
  "sample_config_fs = sample_fs [([], Dir), ([''config''], Dir), ([''config'', ''manager.json''], File ''m''), ([''config'', ''servers.json''], File ''old'')]"

theorem SaveServers_atomic_witness:
  "fs_nodes (fst (SaveServers sample_net sample_config_codec (crash_at 6) DefaultServersConfig sample_config_fs)) ServersPath = Some (File ''old'')"
proof -
  let ?S = "SaveServers sample_net sample_config_codec (crash_at 6) DefaultServersConfig sample_config_fs"
  have "case snd ?S of Some e \<Rightarrow> True | None \<Rightarrow> False" by code_simp
  moreover have "fs_nodes sample_config_fs ServersPath = Some (File ''old'')" by code_simp
  ultimately show ?thesis
    using SaveServers_atomic [of sample_net sample_config_codec "crash_at 6" DefaultServersConfig sample_config_fs, OF surjective_pairing]
    by (simp split: option.splits)
qed

theorem initializeFresh_all_or_nothing_witness:
  "config_absent (fst (initializeFresh sample_net sample_config_codec (crash_at 9) (Some 8787) (sample_fs [([], Dir)])))"
proof -
  let ?I = "initializeFresh sample_net sample_config_codec (crash_at 9) (Some 8787) (sample_fs [([], Dir)])"
  have a: "config_absent (sample_fs [([], Dir)])" by code_simp
  have "case snd ?I of Inl e \<Rightarrow> True | Inr c \<Rightarrow> False" by code_simp
  then show ?thesis using initializeFresh_all_or_nothing [OF a, of sample_net sample_config_codec "crash_at 9" "Some 8787", OF surjective_pairing]
    by (simp split: sum.splits)
qed

theorem CutoverOpaqueLegacy_keeps_data_witness:
  "\<exists>root. (\<forall>q. fs_nodes (fst (CutoverOpaqueLegacy (crash_at 5) ''t'' sample_config_fs)) (''config'' # q) = fs_nodes sample_config_fs (''config'' # q)) \<or>
     (\<forall>q. fs_nodes (fst (CutoverOpaqueLegacy (crash_at 5) ''t'' sample_config_fs)) (root # ''config'' # q) = fs_nodes sample_config_fs (''config'' # q))"
proof -
  have "fs_nodes sample_config_fs [''config''] = Some Dir" "fs_nodes sample_config_fs [''data''] = None" by code_simp+
  then show ?thesis
    using CutoverOpaqueLegacy_keeps_data [of "crash_at 5" "''t''" sample_config_fs, OF surjective_pairing, of "''config''"] by simp
qed

end
