(* ===== verification/StateCoordinator.thy ===== *)
theory StateCoordinator
  imports ConfigStore RoutingState LifecycleConfig
begin

text \<open>
  The consistency boundary between configuration, secrets, routing state and lifecycle:
  \<^verbatim>\<open>internal/v2state/coordinator.go\<close>. The coordinator calls its collaborators through the record
  \<open>deps\<close>: the configuration store, the secret store, the routing-state backend, the mutation guard
  (\<^verbatim>\<open>ServerMutationCoordinator\<close>), random bytes and hashing, each over a state of its own type; every
  call gets the environment \<open>'x\<close> of its moment, so that it may fail at one moment and work at the next.
  The mutex makes every operation atomic, so each is one function on the coordinator.
\<close>

section \<open>State\<close>

datatype secret_error = SecretNotFound | SecretFailed string

datatype coord_error =
    CoordStore store_error
  | CoordSecret secret_error
  | CoordState state_error
  | CoordConfig config_error
  | CoordGuard life_error
  | CoordMessage string

record ('f, 'k, 'b, 'g, 'x) deps =
  dp_load :: "'x \<Rightarrow> 'f \<Rightarrow> 'f \<times> (store_error, ManagerConfig \<times> ServersConfig) result"
  dp_saveManager :: "'x \<Rightarrow> ManagerConfig \<Rightarrow> 'f \<Rightarrow> 'f \<times> store_error option"
  dp_saveServers :: "'x \<Rightarrow> ServersConfig \<Rightarrow> 'f \<Rightarrow> 'f \<times> store_error option"
  dp_get :: "'x \<Rightarrow> 'k \<Rightarrow> string \<Rightarrow> (secret_error, string) result"
  dp_put :: "'x \<Rightarrow> 'k \<Rightarrow> string \<Rightarrow> string \<Rightarrow> 'k \<times> secret_error option"
  dp_delete :: "'x \<Rightarrow> 'k \<Rightarrow> string \<Rightarrow> 'k \<times> secret_error option"
  dp_backend :: "'b backend_ops"
  dp_prepare :: "'g \<Rightarrow> ServersConfig \<Rightarrow> ServersConfig \<Rightarrow> 'g \<times> life_error option"
  dp_commit :: "'x \<Rightarrow> 'g \<Rightarrow> ServersConfig \<Rightarrow> 'g"
  dp_abort :: "'g \<Rightarrow> 'g"
  dp_random :: "'x \<Rightarrow> string option"
  dp_base64 :: "string \<Rightarrow> string"
  dp_hash :: hash_lib
  dp_net :: netlib

record ('f, 'k, 'b, 'g) Coordinator =
  co_config :: 'f
  co_secrets :: 'k
  co_tracker :: 'b
  co_manager :: ManagerConfig
  co_servers :: ServersConfig
  co_fingerprintKey :: string
  co_currentHash :: string
  co_initialized :: bool
  co_ready :: bool
  co_guard :: "'g option"

definition RoutingFingerprintKeySecretRef :: string where
  "RoutingFingerprintKeySecretRef = ''secret://manager/routing-fingerprint-key/default''"

definition oauthIdentitySecretPrefix :: string where
  "oauthIdentitySecretPrefix = ''secret://routing/oauth-identity/''"

definition oauthIdentityRef :: "string \<Rightarrow> string" where
  "oauthIdentityRef serverID = oauthIdentitySecretPrefix @ serverID"

section \<open>What routing depends on\<close>

definition serverHTTPAuth :: "ServerEntry \<Rightarrow> HTTPAuthConfig option" where
  "serverHTTPAuth server =
     (let t = se_Transport server in
      if tr_Type t = TransportManagedHTTP then map_option mh_Auth (tr_ManagedHTTP t)
      else if tr_Type t = TransportExternalHTTP then map_option eh_Auth (tr_ExternalHTTP t)
      else None)"

definition serverUsesOAuth :: "ServerEntry \<Rightarrow> bool" where
  "serverUsesOAuth server = (case serverHTTPAuth server of None \<Rightarrow> False | Some auth \<Rightarrow> au_Mode auth = HTTPAuthOAuth)"

definition oauthConfigured :: "ServersConfig \<Rightarrow> string \<Rightarrow> bool" where
  "oauthConfigured serversConfig serverID = (case find (\<lambda>e. se_ID e = serverID) (sc_Servers serversConfig) of
     None \<Rightarrow> False | Some server \<Rightarrow> serverUsesOAuth server)"

definition server_secret_refs :: "ServerEntry \<Rightarrow> string list" where
  "server_secret_refs server =
     filter (\<lambda>ref. ref \<noteq> []) (map snd (elems (env_SecretRefs (se_Environment server)))) @
     (case serverHTTPAuth server of None \<Rightarrow> [] | Some auth \<Rightarrow>
        if au_Mode auth = HTTPAuthStatic then
          (case au_Static auth of None \<Rightarrow> [] | Some st \<Rightarrow> if sa_SecretRef st \<noteq> [] then [sa_SecretRef st] else [])
        else [])"

text \<open>The keys of the Go map, each once.\<close>

definition routingSecretRefs :: "ServersConfig \<Rightarrow> string list" where
  "routingSecretRefs serversConfig = remdups (concat (map server_secret_refs (sc_Servers serversConfig)))"

definition isRoutingSecretRef :: "ServersConfig \<Rightarrow> string \<Rightarrow> bool" where
  "isRoutingSecretRef serversConfig ref \<longleftrightarrow> ref \<in> set (routingSecretRefs serversConfig)"

section \<open>The current hash\<close>

fun secret_fingerprints :: "hash_lib \<Rightarrow> string \<Rightarrow> (string \<Rightarrow> (secret_error, string) result) \<Rightarrow> string list \<Rightarrow>
    (string \<rightharpoonup> string) \<Rightarrow> (coord_error, string \<rightharpoonup> string) result" where
  "secret_fingerprints lib key get [] acc = Inr acc"
| "secret_fingerprints lib key get (ref # refs) acc =
     (case get ref of
        Inl SecretNotFound \<Rightarrow> secret_fingerprints lib key get refs (acc(ref \<mapsto> ''missing''))
      | Inl e \<Rightarrow> Inl (CoordSecret e)
      | Inr value \<Rightarrow> (case FingerprintSecret lib key value of
            Inl e \<Rightarrow> Inl (CoordState e)
          | Inr fp \<Rightarrow> secret_fingerprints lib key get refs (acc(ref \<mapsto> fp))))"

fun identity_fingerprints :: "(string \<Rightarrow> (secret_error, string) result) \<Rightarrow> ServerEntry list \<Rightarrow>
    (string \<rightharpoonup> string) option \<Rightarrow> (coord_error, (string \<rightharpoonup> string) option) result" where
  "identity_fingerprints get [] acc = Inr acc"
| "identity_fingerprints get (server # rest) acc =
     (if \<not> serverUsesOAuth server then identity_fingerprints get rest acc
      else let m = (case acc of None \<Rightarrow> Map.empty | Some m \<Rightarrow> m) in
        case get (oauthIdentityRef (se_ID server)) of
          Inl SecretNotFound \<Rightarrow> identity_fingerprints get rest (Some (m(se_ID server \<mapsto> ''missing'')))
        | Inl e \<Rightarrow> Inl (CoordSecret e)
        | Inr value \<Rightarrow> if HasPrefix value (FingerprintAlgorithm @ '':'')
                       then identity_fingerprints get rest (Some (m(se_ID server \<mapsto> value)))
                       else Inl (CoordMessage ''invalid OAuth identity fingerprint''))"

definition hash_with :: "hash_lib \<Rightarrow> string \<Rightarrow> (string \<Rightarrow> (secret_error, string) result) \<Rightarrow> ManagerConfig \<Rightarrow> ServersConfig \<Rightarrow> (coord_error, string) result" where
  "hash_with lib key get manager serversConfig =
     (if length key < 32 then Inl (CoordMessage ''routing fingerprint key is unavailable'')
      else let material = ConfigMaterial manager serversConfig; refs = routingSecretRefs serversConfig in
      case (if refs = [] then Inr None else
              case secret_fingerprints lib key get refs Map.empty of Inl e \<Rightarrow> Inl e | Inr m \<Rightarrow> Inr (Some m)) of
        Inl e \<Rightarrow> Inl e
      | Inr sf \<Rightarrow> (case identity_fingerprints get (sc_Servers serversConfig) None of
          Inl e \<Rightarrow> Inl e
        | Inr cf \<Rightarrow> (case ComputeHash lib (material\<lparr>rm_SecretFingerprints := sf, rm_CredentialIdentityFingerprints := cf\<rparr>) of
            Inl e \<Rightarrow> Inl (CoordState e) | Inr h \<Rightarrow> Inr h)))"

definition computeHashLocked :: "('f, 'k, 'b, 'g, 'x) deps \<Rightarrow> 'x \<Rightarrow> ('f, 'k, 'b, 'g) Coordinator \<Rightarrow> ManagerConfig \<Rightarrow> ServersConfig \<Rightarrow> (coord_error, string) result" where
  "computeHashLocked d x c manager serversConfig =
     hash_with (dp_hash d) (co_fingerprintKey c) (dp_get d x (co_secrets c)) manager serversConfig"

section \<open>Operations\<close>

definition ensureRoutingFingerprintKey :: "('f, 'k, 'b, 'g, 'x) deps \<Rightarrow> 'x \<Rightarrow> ('f, 'k, 'b, 'g) Coordinator \<Rightarrow>
    ('f, 'k, 'b, 'g) Coordinator \<times> (coord_error, string) result" where
  "ensureRoutingFingerprintKey d x c =
     (case dp_get d x (co_secrets c) RoutingFingerprintKeySecretRef of
        Inr value \<Rightarrow> (c, if length value < 32 then Inl (CoordMessage ''stored routing fingerprint key is too short'') else Inr value)
      | Inl SecretNotFound \<Rightarrow>
          (case dp_random d x of None \<Rightarrow> (c, Inl (CoordMessage ''generate routing fingerprint key'')) | Some value \<Rightarrow>
           (case dp_put d x (co_secrets c) RoutingFingerprintKeySecretRef value of
              (k, Some e) \<Rightarrow> (c\<lparr>co_secrets := k\<rparr>, Inl (CoordSecret e))
            | (k, None) \<Rightarrow> (c\<lparr>co_secrets := k\<rparr>, Inr value)))
      | Inl e \<Rightarrow> (c, Inl (CoordSecret e)))"

definition ensureLocalManagerCapability :: "('f, 'k, 'b, 'g, 'x) deps \<Rightarrow> 'x \<Rightarrow> ('f, 'k, 'b, 'g) Coordinator \<Rightarrow>
    ('f, 'k, 'b, 'g) Coordinator \<times> (coord_error, string) result" where
  "ensureLocalManagerCapability d x c =
     (case dp_get d x (co_secrets c) LocalManagerCapabilitySecretRef of
        Inr value \<Rightarrow> (c, if value = [] then Inl (CoordMessage ''stored local Manager capability is empty'') else Inr value)
      | Inl SecretNotFound \<Rightarrow>
          (case dp_random d x of None \<Rightarrow> (c, Inl (CoordMessage ''generate local Manager capability'')) | Some random \<Rightarrow>
           (let value = dp_base64 d random in
            case dp_put d x (co_secrets c) LocalManagerCapabilitySecretRef value of
              (k, Some e) \<Rightarrow> (c\<lparr>co_secrets := k\<rparr>, Inl (CoordSecret e))
            | (k, None) \<Rightarrow> (c\<lparr>co_secrets := k\<rparr>, Inr value)))
      | Inl e \<Rightarrow> (c, Inl (CoordSecret e)))"

text \<open>\<^verbatim>\<open>reconcilePersistedLocked\<close>: ready again only once the hash of what is persisted has been reconciled.\<close>

definition reconcilePersistedLocked :: "('f, 'k, 'b, 'g, 'x) deps \<Rightarrow> 'x \<Rightarrow> ('f, 'k, 'b, 'g) Coordinator \<Rightarrow>
    ('f, 'k, 'b, 'g) Coordinator \<times> (coord_error, routing_snapshot) result" where
  "reconcilePersistedLocked d x c0 =
     (let c = c0\<lparr>co_ready := False\<rparr> in
      case dp_load d x (co_config c) of
        (f, Inl e) \<Rightarrow> (c\<lparr>co_config := f\<rparr>, Inl (CoordStore e))
      | (f, Inr (manager, serversConfig)) \<Rightarrow>
        (let c1 = c\<lparr>co_config := f\<rparr> in
         case computeHashLocked d x c1 manager serversConfig of Inl e \<Rightarrow> (c1, Inl e) | Inr hash \<Rightarrow>
         case Reconcile (dp_backend d) (co_tracker c1) hash of
           (b, Inl e) \<Rightarrow> (c1\<lparr>co_tracker := b\<rparr>, Inl (CoordState e))
         | (b, Inr (state, changed)) \<Rightarrow>
             (c1\<lparr>co_tracker := b, co_manager := manager, co_servers := serversConfig, co_currentHash := hash, co_ready := True\<rparr>, Inr state)))"

definition Initialize :: "('f, 'k, 'b, 'g, 'x) deps \<Rightarrow> 'x \<Rightarrow> ('f, 'k, 'b, 'g) Coordinator \<Rightarrow>
    ('f, 'k, 'b, 'g) Coordinator \<times> (coord_error, routing_snapshot) result" where
  "Initialize d x c0 =
     (let c = c0\<lparr>co_ready := False\<rparr> in
      case dp_load d x (co_config c) of
        (f, Inl e) \<Rightarrow> (c\<lparr>co_config := f\<rparr>, Inl (CoordStore e))
      | (f, Inr (manager, servers)) \<Rightarrow>
        (case ensureRoutingFingerprintKey d x (c\<lparr>co_config := f\<rparr>) of
           (c1, Inl e) \<Rightarrow> (c1, Inl e)
         | (c1, Inr key) \<Rightarrow>
           (let c2 = c1\<lparr>co_fingerprintKey := key\<rparr> in
            case (if lm_AccessProtectionEnabled (mc_LocalManager manager) then ensureLocalManagerCapability d x c2 else (c2, Inr [])) of
              (c3, Inl e) \<Rightarrow> (c3, Inl e)
            | (c3, Inr _) \<Rightarrow>
              (case computeHashLocked d x c3 manager servers of Inl e \<Rightarrow> (c3, Inl e) | Inr hash \<Rightarrow>
               case Reconcile (dp_backend d) (co_tracker c3) hash of
                 (b, Inl e) \<Rightarrow> (c3\<lparr>co_tracker := b\<rparr>, Inl (CoordState e))
               | (b, Inr (state, changed)) \<Rightarrow>
                   (c3\<lparr>co_tracker := b, co_manager := manager, co_servers := servers, co_currentHash := hash,
                       co_initialized := True, co_ready := True\<rparr>, Inr state)))))"

definition GenerationCurrent :: "('f, 'k, 'b, 'g) Coordinator \<Rightarrow> string \<Rightarrow> bool" where
  "GenerationCurrent c h \<longleftrightarrow> co_initialized c \<and> co_ready c \<and> h \<noteq> [] \<and> h = co_currentHash c"

definition CurrentRoutingStateHash :: "('f, 'k, 'b, 'g) Coordinator \<Rightarrow> string option" where
  "CurrentRoutingStateHash c = (if \<not> co_initialized c \<or> \<not> co_ready c then None else Some (co_currentHash c))"

definition not_initialized :: coord_error where
  "not_initialized = CoordMessage ''v2 state coordinator is not initialized''"

definition SetServerMutationCoordinator :: "'g option \<Rightarrow> ('f, 'k, 'b, 'g) Coordinator \<Rightarrow> ('f, 'k, 'b, 'g) Coordinator" where
  "SetServerMutationCoordinator g c = c\<lparr>co_guard := g\<rparr>"

definition Coord_SaveManager :: "('f, 'k, 'b, 'g, 'x) deps \<Rightarrow> 'x \<Rightarrow> ('f, 'k, 'b, 'g) Coordinator \<Rightarrow> ManagerConfig \<Rightarrow>
    ('f, 'k, 'b, 'g) Coordinator \<times> (coord_error, routing_snapshot) result" where
  "Coord_SaveManager d x c manager =
     (if \<not> co_initialized c then (c, Inl not_initialized)
      else case ValidateManager (dp_net d) manager of Some e \<Rightarrow> (c, Inl (CoordConfig e)) | None \<Rightarrow>
      case (if lm_AccessProtectionEnabled (mc_LocalManager manager) then ensureLocalManagerCapability d x c else (c, Inr [])) of
        (c1, Inl e) \<Rightarrow> (c1, Inl e)
      | (c1, Inr _) \<Rightarrow>
        (case computeHashLocked d x c1 manager (co_servers c1) of Inl e \<Rightarrow> (c1, Inl e) | Inr candidateHash \<Rightarrow>
         let c2 = (if candidateHash \<noteq> co_currentHash c1 then c1\<lparr>co_ready := False\<rparr> else c1) in
         case dp_saveManager d x manager (co_config c2) of
           (f, Some e) \<Rightarrow> (c2\<lparr>co_config := f\<rparr>, Inl (CoordStore e))
         | (f, None) \<Rightarrow> reconcilePersistedLocked d x (c2\<lparr>co_config := f\<rparr>)))"

text \<open>The guard calls of \<^verbatim>\<open>SaveServers\<close>; a nil guard is skipped.\<close>

definition guard_prepare :: "('f, 'k, 'b, 'g, 'x) deps \<Rightarrow> ServersConfig \<Rightarrow> ServersConfig \<Rightarrow> 'g option \<Rightarrow> 'g option \<times> life_error option" where
  "guard_prepare d current nxt g = (case g of None \<Rightarrow> (None, None)
     | Some s \<Rightarrow> (case dp_prepare d s current nxt of (s', e) \<Rightarrow> (Some s', e)))"

definition Coord_SaveServers :: "('f, 'k, 'b, 'g, 'x) deps \<Rightarrow> 'x \<Rightarrow> ('f, 'k, 'b, 'g) Coordinator \<Rightarrow> ServersConfig \<Rightarrow>
    ('f, 'k, 'b, 'g) Coordinator \<times> (coord_error, routing_snapshot) result" where
  "Coord_SaveServers d x c serversConfig =
     (if \<not> co_initialized c then (c, Inl not_initialized)
      else case ValidateServers (dp_net d) serversConfig of Some e \<Rightarrow> (c, Inl (CoordConfig e)) | None \<Rightarrow>
      case guard_prepare d (co_servers c) serversConfig (co_guard c) of
        (g, Some e) \<Rightarrow> (c\<lparr>co_guard := g\<rparr>, Inl (CoordGuard e))
      | (g, None) \<Rightarrow>
        (let c1 = c\<lparr>co_guard := g\<rparr>; aborted = (\<lambda>c. c\<lparr>co_guard := map_option (dp_abort d) (co_guard c)\<rparr>) in
         case computeHashLocked d x c1 (co_manager c1) serversConfig of Inl e \<Rightarrow> (aborted c1, Inl e) | Inr candidateHash \<Rightarrow>
         let c2 = (if candidateHash \<noteq> co_currentHash c1 then c1\<lparr>co_ready := False\<rparr> else c1) in
         case dp_saveServers d x serversConfig (co_config c2) of
           (f, Some e) \<Rightarrow> (aborted (c2\<lparr>co_config := f\<rparr>), Inl (CoordStore e))
         | (f, None) \<Rightarrow> reconcilePersistedLocked d x
             (c2\<lparr>co_config := f, co_guard := map_option (\<lambda>s. dp_commit d x s serversConfig) (co_guard c2)\<rparr>)))"

definition reserved_ref :: "string \<Rightarrow> bool" where
  "reserved_ref ref \<longleftrightarrow> ref = RoutingFingerprintKeySecretRef \<or> HasPrefix ref oauthIdentitySecretPrefix"

definition tracker_snapshot :: "('f, 'k, 'b, 'g, 'x) deps \<Rightarrow> ('f, 'k, 'b, 'g) Coordinator \<Rightarrow> (coord_error, routing_snapshot) result" where
  "tracker_snapshot d c = (case Tracker_Snapshot (dp_backend d) (co_tracker c) of Inl e \<Rightarrow> Inl (CoordState e) | Inr s \<Rightarrow> Inr s)"

definition PutSecret :: "('f, 'k, 'b, 'g, 'x) deps \<Rightarrow> 'x \<Rightarrow> ('f, 'k, 'b, 'g) Coordinator \<Rightarrow> string \<Rightarrow> string \<Rightarrow>
    ('f, 'k, 'b, 'g) Coordinator \<times> (coord_error, routing_snapshot) result" where
  "PutSecret d x c ref value =
     (if \<not> co_initialized c then (c, Inl not_initialized)
      else if reserved_ref ref then (c, Inl (CoordMessage ''reserved routing-state secret reference''))
      else let relevant = isRoutingSecretRef (co_servers c) ref; c1 = (if relevant then c\<lparr>co_ready := False\<rparr> else c) in
      case dp_put d x (co_secrets c1) ref value of
        (k, Some e) \<Rightarrow> (c1\<lparr>co_secrets := k\<rparr>, Inl (CoordSecret e))
      | (k, None) \<Rightarrow> if \<not> relevant then (c1\<lparr>co_secrets := k\<rparr>, tracker_snapshot d c1)
                      else reconcilePersistedLocked d x (c1\<lparr>co_secrets := k\<rparr>))"

definition DeleteSecret :: "('f, 'k, 'b, 'g, 'x) deps \<Rightarrow> 'x \<Rightarrow> ('f, 'k, 'b, 'g) Coordinator \<Rightarrow> string \<Rightarrow>
    ('f, 'k, 'b, 'g) Coordinator \<times> (coord_error, routing_snapshot) result" where
  "DeleteSecret d x c ref =
     (if \<not> co_initialized c then (c, Inl not_initialized)
      else if reserved_ref ref then (c, Inl (CoordMessage ''reserved routing-state secret reference''))
      else if ref = LocalManagerCapabilitySecretRef \<and> lm_AccessProtectionEnabled (mc_LocalManager (co_manager c))
      then (c, Inl (CoordMessage ''cannot delete local Manager capability while access protection is enabled''))
      else let relevant = isRoutingSecretRef (co_servers c) ref; c1 = (if relevant then c\<lparr>co_ready := False\<rparr> else c) in
      case dp_delete d x (co_secrets c1) ref of
        (k, Some e) \<Rightarrow> (c1\<lparr>co_secrets := k\<rparr>, Inl (CoordSecret e))
      | (k, None) \<Rightarrow> if \<not> relevant then (c1\<lparr>co_secrets := k\<rparr>, tracker_snapshot d c1)
                      else reconcilePersistedLocked d x (c1\<lparr>co_secrets := k\<rparr>))"

definition SetOAuthCredentialIdentity :: "('f, 'k, 'b, 'g, 'x) deps \<Rightarrow> 'x \<Rightarrow> ('f, 'k, 'b, 'g) Coordinator \<Rightarrow> string \<Rightarrow> string \<Rightarrow>
    ('f, 'k, 'b, 'g) Coordinator \<times> (coord_error, routing_snapshot) result" where
  "SetOAuthCredentialIdentity d x c serverID identityMaterial =
     (if \<not> co_initialized c then (c, Inl not_initialized)
      else if \<not> oauthConfigured (co_servers c) serverID then (c, Inl (CoordMessage ''server is not configured for downstream OAuth''))
      else case FingerprintSecret (dp_hash d) (co_fingerprintKey c) identityMaterial of Inl e \<Rightarrow> (c, Inl (CoordState e)) | Inr fingerprint \<Rightarrow>
      let c1 = c\<lparr>co_ready := False\<rparr> in
      case dp_put d x (co_secrets c1) (oauthIdentityRef serverID) fingerprint of
        (k, Some e) \<Rightarrow> (c1\<lparr>co_secrets := k\<rparr>, Inl (CoordSecret e))
      | (k, None) \<Rightarrow> reconcilePersistedLocked d x (c1\<lparr>co_secrets := k\<rparr>))"

definition ClearOAuthCredentialIdentity :: "('f, 'k, 'b, 'g, 'x) deps \<Rightarrow> 'x \<Rightarrow> ('f, 'k, 'b, 'g) Coordinator \<Rightarrow> string \<Rightarrow>
    ('f, 'k, 'b, 'g) Coordinator \<times> (coord_error, routing_snapshot) result" where
  "ClearOAuthCredentialIdentity d x c serverID =
     (if \<not> co_initialized c then (c, Inl not_initialized)
      else if \<not> oauthConfigured (co_servers c) serverID then (c, Inl (CoordMessage ''server is not configured for downstream OAuth''))
      else let c1 = c\<lparr>co_ready := False\<rparr> in
      case dp_delete d x (co_secrets c1) (oauthIdentityRef serverID) of
        (k, Some e) \<Rightarrow> (c1\<lparr>co_secrets := k\<rparr>, Inl (CoordSecret e))
      | (k, None) \<Rightarrow> reconcilePersistedLocked d x (c1\<lparr>co_secrets := k\<rparr>))"

end
