(* ===== verification/SecretStore.thy ===== *)
theory SecretStore
  imports StateCoordinator
begin

text \<open>
  The secret store: \<^verbatim>\<open>internal/secrets\<close> store.go (\<^verbatim>\<open>envFallback\<close>: an environment variable named after the digest of the reference
  overrides the stored secret) over native_windows.go, native_linux.go, native_darwin.go. The keychain is a map whose calls
  may fail; \<open>fails\<close> says for which references at this moment, and a call that fails changes nothing. \<open>envName\<close> is the digest-based name.
\<close>

datatype secret_platform = WindowsStore | LinuxStore | DarwinStore

record secret_store =
  ss_env :: "string \<Rightarrow> string option"
  ss_native :: "string \<Rightarrow> string option"

section \<open>The native stores\<close>

definition windows_Get :: "(string \<Rightarrow> bool) \<Rightarrow> secret_store \<Rightarrow> string \<Rightarrow> (secret_error, string) result" where
  "windows_Get fails k ref = (if fails ref then Inl (SecretFailed ''native'')
     else case ss_native k ref of None \<Rightarrow> Inl SecretNotFound | Some v \<Rightarrow> Inr v)"

text \<open>The other two answer that a secret is missing whenever the lookup fails, and trim what they find.\<close>

definition linux_Get :: "(string \<Rightarrow> bool) \<Rightarrow> secret_store \<Rightarrow> string \<Rightarrow> (secret_error, string) result" where
  "linux_Get fails k ref = (if fails ref then Inl SecretNotFound
     else case ss_native k ref of None \<Rightarrow> Inl SecretNotFound | Some v \<Rightarrow> Inr (TrimSpace v))"

definition darwin_Get :: "(string \<Rightarrow> bool) \<Rightarrow> secret_store \<Rightarrow> string \<Rightarrow> (secret_error, string) result" where
  "darwin_Get fails k ref = (if fails ref then Inl SecretNotFound
     else case ss_native k ref of None \<Rightarrow> Inl SecretNotFound | Some v \<Rightarrow> Inr (TrimSpace v))"

definition windows_Put :: "(string \<Rightarrow> bool) \<Rightarrow> secret_store \<Rightarrow> string \<Rightarrow> string \<Rightarrow> secret_store \<times> secret_error option" where
  "windows_Put fails k ref v = (if fails ref then (k, Some (SecretFailed ''native'')) else (k\<lparr>ss_native := (ss_native k)(ref \<mapsto> v)\<rparr>, None))"

definition linux_Put :: "(string \<Rightarrow> bool) \<Rightarrow> secret_store \<Rightarrow> string \<Rightarrow> string \<Rightarrow> secret_store \<times> secret_error option" where
  "linux_Put fails k ref v = (if fails ref then (k, Some (SecretFailed ''native'')) else (k\<lparr>ss_native := (ss_native k)(ref \<mapsto> v)\<rparr>, None))"

definition darwin_Put :: "(string \<Rightarrow> bool) \<Rightarrow> secret_store \<Rightarrow> string \<Rightarrow> string \<Rightarrow> secret_store \<times> secret_error option" where
  "darwin_Put fails k ref v = (if fails ref then (k, Some (SecretFailed ''native'')) else (k\<lparr>ss_native := (ss_native k)(ref \<mapsto> v)\<rparr>, None))"

definition windows_Delete :: "(string \<Rightarrow> bool) \<Rightarrow> secret_store \<Rightarrow> string \<Rightarrow> secret_store \<times> secret_error option" where
  "windows_Delete fails k ref = (if fails ref then (k, Some (SecretFailed ''native'')) else (k\<lparr>ss_native := (ss_native k)(ref := None)\<rparr>, None))"

definition linux_Delete :: "(string \<Rightarrow> bool) \<Rightarrow> secret_store \<Rightarrow> string \<Rightarrow> secret_store \<times> secret_error option" where
  "linux_Delete fails k ref = (if fails ref then k else k\<lparr>ss_native := (ss_native k)(ref := None)\<rparr>, None)"

definition darwin_Delete :: "(string \<Rightarrow> bool) \<Rightarrow> secret_store \<Rightarrow> string \<Rightarrow> secret_store \<times> secret_error option" where
  "darwin_Delete fails k ref = (if fails ref then k else k\<lparr>ss_native := (ss_native k)(ref := None)\<rparr>, None)"

fun native_Get :: "secret_platform \<Rightarrow> (string \<Rightarrow> bool) \<Rightarrow> secret_store \<Rightarrow> string \<Rightarrow> (secret_error, string) result" where
  "native_Get WindowsStore = windows_Get"
| "native_Get LinuxStore = linux_Get"
| "native_Get DarwinStore = darwin_Get"

fun native_Put :: "secret_platform \<Rightarrow> (string \<Rightarrow> bool) \<Rightarrow> secret_store \<Rightarrow> string \<Rightarrow> string \<Rightarrow> secret_store \<times> secret_error option" where
  "native_Put WindowsStore = windows_Put"
| "native_Put LinuxStore = linux_Put"
| "native_Put DarwinStore = darwin_Put"

fun native_Delete :: "secret_platform \<Rightarrow> (string \<Rightarrow> bool) \<Rightarrow> secret_store \<Rightarrow> string \<Rightarrow> secret_store \<times> secret_error option" where
  "native_Delete WindowsStore = windows_Delete"
| "native_Delete LinuxStore = linux_Delete"
| "native_Delete DarwinStore = darwin_Delete"

lemmas native_defs = windows_Get_def linux_Get_def darwin_Get_def windows_Put_def linux_Put_def darwin_Put_def
  windows_Delete_def linux_Delete_def darwin_Delete_def

section \<open>The environment over them\<close>

definition ValidateRef :: "string \<Rightarrow> bool" where
  "ValidateRef ref \<longleftrightarrow> HasPrefix ref ''secret://'' \<and> length ''secret://'' < length ref"

definition bad_ref :: secret_error where
  "bad_ref = SecretFailed ''secret reference must use secret://''"

definition envFallback_Get :: "secret_platform \<Rightarrow> (string \<Rightarrow> string) \<Rightarrow> (string \<Rightarrow> bool) \<Rightarrow> secret_store \<Rightarrow> string \<Rightarrow> (secret_error, string) result" where
  "envFallback_Get pf envName fails k ref = (if \<not> ValidateRef ref then Inl bad_ref
     else case ss_env k (envName ref) of Some v \<Rightarrow> Inr v | None \<Rightarrow> native_Get pf fails k ref)"

definition envFallback_Put :: "secret_platform \<Rightarrow> (string \<Rightarrow> bool) \<Rightarrow> secret_store \<Rightarrow> string \<Rightarrow> string \<Rightarrow> secret_store \<times> secret_error option" where
  "envFallback_Put pf fails k ref v = (if \<not> ValidateRef ref then (k, Some bad_ref) else native_Put pf fails k ref v)"

definition envFallback_Delete :: "secret_platform \<Rightarrow> (string \<Rightarrow> bool) \<Rightarrow> secret_store \<Rightarrow> string \<Rightarrow> secret_store \<times> secret_error option" where
  "envFallback_Delete pf fails k ref = (if \<not> ValidateRef ref then (k, Some bad_ref) else native_Delete pf fails k ref)"

section \<open>What a reference stands for\<close>

definition secret_content :: "secret_platform \<Rightarrow> (string \<Rightarrow> string) \<Rightarrow> secret_store \<Rightarrow> string \<Rightarrow> string option" where
  "secret_content pf envName k ref = (case ss_env k (envName ref) of Some v \<Rightarrow> Some v
     | None \<Rightarrow> map_option (if pf = WindowsStore then (\<lambda>v. v) else TrimSpace) (ss_native k ref))"

text \<open>Whether a failed lookup is reported as a failure: always on Windows; elsewhere only when no lookup fails.\<close>

definition lookups_reported :: "secret_platform \<Rightarrow> (string \<Rightarrow> bool) \<Rightarrow> bool" where
  "lookups_reported pf fails \<longleftrightarrow> pf = WindowsStore \<or> (\<forall>ref. \<not> fails ref)"

lemma envFallback_Get_cases:
  assumes "lookups_reported pf fails"
  shows "envFallback_Get pf envName fails k ref = Inr v \<Longrightarrow> secret_content pf envName k ref = Some v"
    and "envFallback_Get pf envName fails k ref = Inl SecretNotFound \<Longrightarrow> secret_content pf envName k ref = None"
proof -
  have "(\<forall>v. envFallback_Get pf envName fails k ref = Inr v \<longrightarrow> secret_content pf envName k ref = Some v) \<and>
      (envFallback_Get pf envName fails k ref = Inl SecretNotFound \<longrightarrow> secret_content pf envName k ref = None)"
    using assms by (cases pf) (auto simp: envFallback_Get_def secret_content_def lookups_reported_def native_defs bad_ref_def split: option.splits if_splits)
  then show "envFallback_Get pf envName fails k ref = Inr v \<Longrightarrow> secret_content pf envName k ref = Some v"
    "envFallback_Get pf envName fails k ref = Inl SecretNotFound \<Longrightarrow> secret_content pf envName k ref = None" by simp_all
qed

lemma envFallback_Put_fields:
  "envFallback_Put pf fails k ref v = (k', r) \<Longrightarrow> ss_env k' = ss_env k \<and> (\<forall>ref'. ref' \<noteq> ref \<longrightarrow> ss_native k' ref' = ss_native k ref')"
  by (cases pf) (auto simp: envFallback_Put_def native_defs split: if_splits)

lemma envFallback_Delete_fields:
  "envFallback_Delete pf fails k ref = (k', r) \<Longrightarrow> ss_env k' = ss_env k \<and> (\<forall>ref'. ref' \<noteq> ref \<longrightarrow> ss_native k' ref' = ss_native k ref')"
  by (cases pf) (auto simp: envFallback_Delete_def native_defs split: if_splits)

lemma envFallback_frames:
  "envFallback_Put pf fails k ref v = (k', r) \<Longrightarrow> ref' \<noteq> ref \<Longrightarrow> secret_content pf envName k' ref' = secret_content pf envName k ref'"
  "envFallback_Delete pf fails k ref = (k', r) \<Longrightarrow> ref' \<noteq> ref \<Longrightarrow> secret_content pf envName k' ref' = secret_content pf envName k ref'"
  by (drule envFallback_Put_fields, simp add: secret_content_def split: option.split) (drule envFallback_Delete_fields, simp add: secret_content_def split: option.split)

text \<open>A secret that was put without an error is what the keychain holds.\<close>

lemma envFallback_Put_stored:
  "envFallback_Put pf fails k ref v = (k', None) \<Longrightarrow> ss_native k' ref = Some v \<and> ss_env k' = ss_env k"
  by (cases pf) (auto simp: envFallback_Put_def native_defs split: if_splits)

end
