(* ===== verification/CoordinatorFacts.thy ===== *)
theory CoordinatorFacts
  imports SecretStore ExecutionHandle
begin

text \<open>
  The coordinator is fail closed: whenever it calls a generation current, the hash it compares with is the hash of
  the configuration and secrets that are persisted at that moment, and the routing state in the database carries
  it. Locale \<open>coordinator_deps\<close> collects what the coordinator relies on; it extends the contracts of the
  configuration store and the routing backend, and is interpreted on the file store, the SQLite backend, the
  lifecycle service and the environment-variable fallback over the platform's secret store
  (\<^verbatim>\<open>internal/secrets/store.go\<close>).
\<close>

section \<open>The hash of what is persisted\<close>

definition answer_of :: "string option \<Rightarrow> (secret_error, string) result" where
  "answer_of v = (case v of None \<Rightarrow> Inl SecretNotFound | Some b \<Rightarrow> Inr b)"

definition persisted_hash :: "hash_lib \<Rightarrow> string \<Rightarrow> (string \<Rightarrow> string option) \<Rightarrow> ManagerConfig \<Rightarrow> ServersConfig \<Rightarrow> (coord_error, string) result" where
  "persisted_hash lib key content = hash_with lib key (\<lambda>ref. answer_of (content ref))"

text \<open>A lookup tells the truth when it succeeds or reports a missing secret; it may also fail.\<close>

definition truthful :: "(string \<Rightarrow> (secret_error, string) result) \<Rightarrow> (string \<Rightarrow> string option) \<Rightarrow> bool" where
  "truthful get content \<longleftrightarrow> (\<forall>ref. (\<forall>v. get ref = Inr v \<longrightarrow> content ref = Some v) \<and> (get ref = Inl SecretNotFound \<longrightarrow> content ref = None))"

lemma secret_fingerprints_truthful:
  "truthful get content \<Longrightarrow> secret_fingerprints lib key get refs acc = Inr m \<Longrightarrow>
     secret_fingerprints lib key (\<lambda>ref. answer_of (content ref)) refs acc = Inr m"
  by (induction lib key get refs acc rule: secret_fingerprints.induct)
    (auto simp: truthful_def answer_of_def split: sum.splits secret_error.splits)

lemma identity_fingerprints_truthful:
  "truthful get content \<Longrightarrow> identity_fingerprints get es acc = Inr m \<Longrightarrow>
     identity_fingerprints (\<lambda>ref. answer_of (content ref)) es acc = Inr m"
  by (induction get es acc rule: identity_fingerprints.induct)
    (auto simp: truthful_def answer_of_def Let_def split: sum.splits secret_error.splits if_splits)

lemma hash_with_truthful:
  assumes "truthful get content" and "hash_with lib key get m s = Inr h"
  shows "persisted_hash lib key content m s = Inr h"
  using assms secret_fingerprints_truthful [OF assms(1)] identity_fingerprints_truthful [OF assms(1)]
  by (auto simp: persisted_hash_def hash_with_def Let_def split: if_splits sum.splits)

text \<open>The references the hash of a server configuration depends on.\<close>

definition hash_refs :: "ServersConfig \<Rightarrow> string set" where
  "hash_refs s = set (routingSecretRefs s) \<union> oauthIdentityRef ` se_ID ` set (sc_Servers s)"

lemma secret_fingerprints_cong:
  "(\<And>ref. ref \<in> set refs \<Longrightarrow> g ref = g' ref) \<Longrightarrow> secret_fingerprints lib key g refs acc = secret_fingerprints lib key g' refs acc"
  by (induction refs arbitrary: acc) (auto split: sum.splits secret_error.splits)

lemma identity_fingerprints_cong:
  "(\<And>e. e \<in> set es \<Longrightarrow> g (oauthIdentityRef (se_ID e)) = g' (oauthIdentityRef (se_ID e))) \<Longrightarrow> identity_fingerprints g es acc = identity_fingerprints g' es acc"
  by (induction es arbitrary: acc) (auto simp: Let_def split: sum.splits secret_error.splits)

lemma persisted_hash_cong:
  assumes "\<And>ref. ref \<in> hash_refs s \<Longrightarrow> content ref = content' ref"
  shows "persisted_hash lib key content m s = persisted_hash lib key content' m s"
proof -
  let ?g = "\<lambda>ref. answer_of (content ref)" and ?g' = "\<lambda>ref. answer_of (content' ref)"
  have e1: "secret_fingerprints lib key ?g (routingSecretRefs s) Map.empty = secret_fingerprints lib key ?g' (routingSecretRefs s) Map.empty"
    using assms by (intro secret_fingerprints_cong) (simp add: hash_refs_def)
  have e2: "identity_fingerprints ?g (sc_Servers s) None = identity_fingerprints ?g' (sc_Servers s) None"
    using assms by (intro identity_fingerprints_cong) (simp add: hash_refs_def)
  show ?thesis unfolding persisted_hash_def hash_with_def Let_def e1 e2 ..
qed

lemma reserved_oauth: "reserved_ref (oauthIdentityRef k)"
  by (simp add: reserved_ref_def oauthIdentityRef_def)

lemma capability_not_oauth: "LocalManagerCapabilitySecretRef \<noteq> oauthIdentityRef k"
proof -
  have "\<not> HasPrefix LocalManagerCapabilitySecretRef oauthIdentitySecretPrefix" by code_simp
  then show ?thesis using HasPrefix_append by (metis oauthIdentityRef_def)
qed

lemma ensureKey_frame:
  "co_ready (fst (ensureRoutingFingerprintKey d x c)) = co_ready c" "co_config (fst (ensureRoutingFingerprintKey d x c)) = co_config c"
  by (auto simp: ensureRoutingFingerprintKey_def split: sum.splits secret_error.splits option.splits prod.splits)

lemma ensureCap_frame:
  "co_ready (fst (ensureLocalManagerCapability d x c)) = co_ready c" "co_config (fst (ensureLocalManagerCapability d x c)) = co_config c"
  by (auto simp: ensureLocalManagerCapability_def Let_def split: sum.splits secret_error.splits option.splits prod.splits)

section \<open>Runs\<close>

text \<open>
  Any sequence of coordinator operations, each in its own environment, from a coordinator that is not ready; the
  execution router may advance the routing revision in between, and the guard may move on its own. \<open>good\<close> says in which
  environments the operations run.
\<close>

inductive coord_run :: "('f, 'k, 'b, 'g, 'x) deps \<Rightarrow> ('x \<Rightarrow> bool) \<Rightarrow> ('f, 'k, 'b, 'g) Coordinator \<Rightarrow> bool" for d good where
  start: "\<not> co_ready c \<Longrightarrow> coord_run d good c"
| initialize: "coord_run d good c \<Longrightarrow> good x \<Longrightarrow> coord_run d good (fst (Initialize d x c))"
| save_manager: "coord_run d good c \<Longrightarrow> good x \<Longrightarrow> coord_run d good (fst (Coord_SaveManager d x c manager))"
| save_servers: "coord_run d good c \<Longrightarrow> good x \<Longrightarrow> coord_run d good (fst (Coord_SaveServers d x c servers))"
| put_secret: "coord_run d good c \<Longrightarrow> good x \<Longrightarrow> coord_run d good (fst (PutSecret d x c ref v))"
| delete_secret: "coord_run d good c \<Longrightarrow> good x \<Longrightarrow> coord_run d good (fst (DeleteSecret d x c ref))"
| set_identity: "coord_run d good c \<Longrightarrow> good x \<Longrightarrow> coord_run d good (fst (SetOAuthCredentialIdentity d x c k v))"
| clear_identity: "coord_run d good c \<Longrightarrow> good x \<Longrightarrow> coord_run d good (fst (ClearOAuthCredentialIdentity d x c k))"
| advance: "coord_run d good c \<Longrightarrow> coord_run d good (c\<lparr>co_tracker := fst (AdvanceRoutingRevision (dp_backend d) (co_tracker c))\<rparr>)"
| guard_moves: "coord_run d good c \<Longrightarrow> coord_run d good (c\<lparr>co_guard := g\<rparr>)"

text \<open>Whether a server uses the manager's own capability as a secret of its routing.\<close>

abbreviation capability_routed :: "ServersConfig \<Rightarrow> bool" where
  "capability_routed s \<equiv> isRoutingSecretRef s LocalManagerCapabilitySecretRef"

definition coherent :: "('f, 'k, 'b, 'g, 'x) deps \<Rightarrow> ('f \<Rightarrow> ManagerConfig \<times> ServersConfig \<Rightarrow> bool) \<Rightarrow> ('k \<Rightarrow> string \<Rightarrow> string option) \<Rightarrow>
    ('f, 'k, 'b, 'g) Coordinator \<Rightarrow> bool" where
  "coherent d holds content c \<longleftrightarrow> (co_ready c \<longrightarrow> holds (co_config c) (co_manager c, co_servers c) \<and>
     (\<not> capability_routed (co_servers c) \<longrightarrow>
        persisted_hash (dp_hash d) (co_fingerprintKey c) (content (co_secrets c)) (co_manager c) (co_servers c) = Inr (co_currentHash c)) \<and>
     (\<exists>s. bk_Load (dp_backend d) (co_tracker c) = Inr s \<and> rs_RoutingStateHash s = co_currentHash c))"

locale coordinator_deps =
  st: config_store "dp_load d" "dp_saveManager d" "dp_saveServers d" holds +
  bk: routing_backend "dp_backend d" answers
  for d :: "('f, 'k, 'b, 'g, 'x) deps" and holds :: "'f \<Rightarrow> ManagerConfig \<times> ServersConfig \<Rightarrow> bool" and answers :: "'b \<Rightarrow> bool" +
  fixes content :: "'k \<Rightarrow> string \<Rightarrow> string option" and good :: "'x \<Rightarrow> bool"
  assumes get_truthful: "good x \<Longrightarrow> truthful (dp_get d x k) (content k)"
    and put_frame: "dp_put d x k ref v = (k', r) \<Longrightarrow> ref' \<noteq> ref \<Longrightarrow> content k' ref' = content k ref'"
    and delete_frame: "dp_delete d x k ref = (k', r) \<Longrightarrow> ref' \<noteq> ref \<Longrightarrow> content k' ref' = content k ref'"
begin

lemma not_ready_coherent: "\<not> co_ready c \<Longrightarrow> coherent d holds content c"
  by (simp add: coherent_def)

lemma computeHash_persisted:
  "good x \<Longrightarrow> computeHashLocked d x c m s = Inr h \<Longrightarrow> persisted_hash (dp_hash d) (co_fingerprintKey c) (content (co_secrets c)) m s = Inr h"
  unfolding computeHashLocked_def by (rule hash_with_truthful [OF get_truthful])

lemma coherent_reconcile: assumes x: "good x" shows "coherent d holds content (fst (reconcilePersistedLocked d x c))"
proof -
  obtain f r where L: "dp_load d x (co_config c) = (f, r)" by (cases "dp_load d x (co_config c)")
  show ?thesis
  proof (cases r)
    case (Inl e)
    then show ?thesis using L by (simp add: reconcilePersistedLocked_def Let_def coherent_def)
  next
    case (Inr ms)
    obtain m s where ms: "ms = (m, s)" by (cases ms)
    have h: "holds f (m, s)" using st.load_ok L Inr ms by simp
    let ?c1 = "c\<lparr>co_ready := False, co_config := f\<rparr>"
    show ?thesis
    proof (cases "computeHashLocked d x ?c1 m s")
      case (Inl e)
      then show ?thesis using L Inr ms by (simp add: reconcilePersistedLocked_def Let_def coherent_def)
    next
      case hash: (Inr hash)
      obtain b res where R: "Reconcile (dp_backend d) (co_tracker c) hash = (b, res)" by (cases "Reconcile (dp_backend d) (co_tracker c) hash")
      have ph: "persisted_hash (dp_hash d) (co_fingerprintKey c) (content (co_secrets c)) m s = Inr hash"
        using computeHash_persisted [OF x hash] by simp
      show ?thesis
      proof (cases res)
        case res: (Inr sc)
        obtain state changed where sc: "sc = (state, changed)" by (cases sc)
        have "bk_Load (dp_backend d) b = Inr state" "rs_RoutingStateHash state = hash"
          using bk.Reconcile_ok(1,2) [of "co_tracker c" hash b state changed] R res sc by auto
        then show ?thesis using L Inr ms hash R res sc h ph by (simp add: reconcilePersistedLocked_def Let_def coherent_def)
      qed (use L Inr ms hash R in \<open>simp add: reconcilePersistedLocked_def Let_def coherent_def\<close>)
    qed
  qed
qed

lemma coherent_initialize: assumes x: "good x" shows "coherent d holds content (fst (Initialize d x c))"
proof -
  obtain f r where L: "dp_load d x (co_config c) = (f, r)" by (cases "dp_load d x (co_config c)")
  show ?thesis
  proof (cases r)
    case (Inl e)
    then show ?thesis using L by (simp add: Initialize_def Let_def coherent_def)
  next
    case (Inr ms)
    obtain m s where ms: "ms = (m, s)" by (cases ms)
    have h: "holds f (m, s)" using st.load_ok L Inr ms by simp
    let ?c0 = "c\<lparr>co_ready := False, co_config := f\<rparr>"
    obtain c1 k where K: "ensureRoutingFingerprintKey d x ?c0 = (c1, k)" by (cases "ensureRoutingFingerprintKey d x ?c0")
    have c1: "\<not> co_ready c1" "co_config c1 = f" using ensureKey_frame [of d x ?c0] K by simp_all
    show ?thesis
    proof (cases k)
      case (Inl e)
      then show ?thesis using L Inr ms K c1 by (simp add: Initialize_def Let_def coherent_def)
    next
      case key: (Inr key)
      let ?E = "if lm_AccessProtectionEnabled (mc_LocalManager m) then ensureLocalManagerCapability d x (c1\<lparr>co_fingerprintKey := key\<rparr>)
        else (c1\<lparr>co_fingerprintKey := key\<rparr>, Inr [])"
      obtain c3 q where E: "?E = (c3, q)" by (cases ?E)
      have c3: "\<not> co_ready c3" "co_config c3 = f"
        using ensureCap_frame [of d x "c1\<lparr>co_fingerprintKey := key\<rparr>"] E c1 by (auto split: if_splits)
      have I: "Initialize d x c = (case q of Inl e \<Rightarrow> (c3, Inl e) | Inr _ \<Rightarrow>
          (case computeHashLocked d x c3 m s of Inl e \<Rightarrow> (c3, Inl e) | Inr hash \<Rightarrow>
           case Reconcile (dp_backend d) (co_tracker c3) hash of
             (b, Inl e) \<Rightarrow> (c3\<lparr>co_tracker := b\<rparr>, Inl (CoordState e))
           | (b, Inr (state, changed)) \<Rightarrow>
               (c3\<lparr>co_tracker := b, co_manager := m, co_servers := s, co_currentHash := hash, co_initialized := True, co_ready := True\<rparr>, Inr state)))"
        using L Inr ms K key E by (simp add: Initialize_def Let_def)
      show ?thesis
      proof (cases "\<exists>u hash. q = Inr u \<and> computeHashLocked d x c3 m s = Inr hash")
        case False
        then show ?thesis using I c3 by (auto simp: coherent_def split: sum.splits)
      next
        case True
        then obtain u hash where q: "q = Inr u" "computeHashLocked d x c3 m s = Inr hash" by auto
        obtain b res where R: "Reconcile (dp_backend d) (co_tracker c3) hash = (b, res)" by (cases "Reconcile (dp_backend d) (co_tracker c3) hash")
        show ?thesis
        proof (cases res)
          case (Inl e)
          then show ?thesis using I q R c3 by (simp add: coherent_def)
        next
          case res: (Inr sc)
          obtain state changed where sc: "sc = (state, changed)" by (cases sc)
          have "bk_Load (dp_backend d) b = Inr state" "rs_RoutingStateHash state = hash"
            using bk.Reconcile_ok(1,2) [of "co_tracker c3" hash b state changed] R res sc by auto
          then show ?thesis using I q R res sc c3 h computeHash_persisted [OF x q(2)] by (simp add: coherent_def)
        qed
      qed
    qed
  qed
qed

lemma coherent_frame:
  "coherent d holds content c \<Longrightarrow> co_ready c' \<Longrightarrow> co_ready c \<Longrightarrow> (\<And>x. holds (co_config c) x \<Longrightarrow> holds (co_config c') x) \<Longrightarrow>
   co_manager c' = co_manager c \<Longrightarrow> co_servers c' = co_servers c \<Longrightarrow> co_fingerprintKey c' = co_fingerprintKey c \<Longrightarrow>
   co_currentHash c' = co_currentHash c \<Longrightarrow> co_tracker c' = co_tracker c \<Longrightarrow>
   (\<And>ref. \<not> capability_routed (co_servers c) \<Longrightarrow> ref \<in> hash_refs (co_servers c) \<Longrightarrow> content (co_secrets c') ref = content (co_secrets c) ref) \<Longrightarrow> coherent d holds content c'"
  using persisted_hash_cong [of "co_servers c" "content (co_secrets c')" "content (co_secrets c)"]
  by (simp add: coherent_def)

lemma coherent_not_ready: "\<not> co_ready c \<Longrightarrow> coherent d holds content (c\<lparr>co_config := f\<rparr>)"
  "\<not> co_ready c \<Longrightarrow> coherent d holds content (c\<lparr>co_secrets := k\<rparr>)" "\<not> co_ready c \<Longrightarrow> coherent d holds content (c\<lparr>co_guard := g\<rparr>)"
  by (simp_all add: coherent_def)

lemma coherent_guard [simp]: "coherent d holds content (c\<lparr>co_guard := g\<rparr>) = coherent d holds content c"
  by (simp add: coherent_def)

lemma coherent_config:
  "coherent d holds content c \<Longrightarrow> (\<And>x. holds (co_config c) x \<Longrightarrow> holds f x) \<Longrightarrow> coherent d holds content (c\<lparr>co_config := f\<rparr>)"
  by (auto simp: coherent_def)

lemma coherent_unready: "coherent d holds content c \<Longrightarrow> coherent d holds content (if b then c\<lparr>co_ready := False\<rparr> else c)"
  by (simp add: coherent_def)

lemma coherent_capability:
  assumes c: "coherent d holds content c" and E: "ensureLocalManagerCapability d x c = (c1, r)"
  shows "coherent d holds content c1"
proof -
  have "ref \<noteq> LocalManagerCapabilitySecretRef" if "ref \<in> hash_refs (co_servers c)" "\<not> capability_routed (co_servers c)" for ref
    using that capability_not_oauth by (auto simp: hash_refs_def isRoutingSecretRef_def)
  then have same: "content k ref = content (co_secrets c) ref"
    if "dp_put d x (co_secrets c) LocalManagerCapabilitySecretRef v = (k, e)" "ref \<in> hash_refs (co_servers c)" "\<not> capability_routed (co_servers c)" for k v e ref
    using put_frame that by blast
  have "c1 = c \<or> (\<exists>v k e. dp_put d x (co_secrets c) LocalManagerCapabilitySecretRef v = (k, e) \<and> c1 = c\<lparr>co_secrets := k\<rparr>)"
    using E by (auto simp: ensureLocalManagerCapability_def Let_def split: sum.splits secret_error.splits option.splits prod.splits)
  then show ?thesis
  proof
    assume "\<exists>v k e. dp_put d x (co_secrets c) LocalManagerCapabilitySecretRef v = (k, e) \<and> c1 = c\<lparr>co_secrets := k\<rparr>"
    then obtain v k e where k: "dp_put d x (co_secrets c) LocalManagerCapabilitySecretRef v = (k, e)" "c1 = c\<lparr>co_secrets := k\<rparr>" by blast
    show ?thesis
    proof (cases "co_ready c")
      case True
      then show ?thesis using k same [OF k(1)] by (intro coherent_frame [OF c]) simp_all
    qed (simp add: k coherent_def)
  qed (use c in simp)
qed

lemma coherent_save_manager:
  assumes c: "coherent d holds content c" and x: "good x"
  shows "coherent d holds content (fst (Coord_SaveManager d x c manager))"
proof -
  let ?E = "if lm_AccessProtectionEnabled (mc_LocalManager manager) then ensureLocalManagerCapability d x c else (c, Inr [])"
  obtain c1 q where E: "?E = (c1, q)" by (cases ?E)
  have c1: "coherent d holds content c1" using coherent_capability [OF c] E c by (auto split: if_splits)
  show ?thesis
  proof (cases "co_initialized c \<and> ValidateManager (dp_net d) manager = None \<and> (\<exists>u h. q = Inr u \<and> computeHashLocked d x c1 manager (co_servers c1) = Inr h)")
    case False
    then show ?thesis using E c c1 by (auto simp: Coord_SaveManager_def split: option.splits sum.splits)
  next
    case True
    then obtain u h where q: "q = Inr u" "computeHashLocked d x c1 manager (co_servers c1) = Inr h" by blast
    let ?c2 = "if h \<noteq> co_currentHash c1 then c1\<lparr>co_ready := False\<rparr> else c1"
    obtain f r where S: "dp_saveManager d x manager (co_config ?c2) = (f, r)" by (cases "dp_saveManager d x manager (co_config ?c2)")
    have M: "Coord_SaveManager d x c manager = (case r of Some e \<Rightarrow> (?c2\<lparr>co_config := f\<rparr>, Inl (CoordStore e))
        | None \<Rightarrow> reconcilePersistedLocked d x (?c2\<lparr>co_config := f\<rparr>))"
      using True E q S by (auto simp: Coord_SaveManager_def Let_def split: option.splits)
    show ?thesis
    proof (cases r)
      case None
      then show ?thesis using M coherent_reconcile [OF x] by simp
    next
      case (Some e)
      have "coherent d holds content (?c2\<lparr>co_config := f\<rparr>)"
        using coherent_unready [OF c1, of "h \<noteq> co_currentHash c1"] st.saveManager_failed S Some by (intro coherent_config) auto
      then show ?thesis using M Some by simp
    qed
  qed
qed

lemma coherent_save_servers:
  assumes c: "coherent d holds content c" and x: "good x"
  shows "coherent d holds content (fst (Coord_SaveServers d x c servers))"
proof -
  obtain g e where G: "guard_prepare d (co_servers c) servers (co_guard c) = (g, e)" by (cases "guard_prepare d (co_servers c) servers (co_guard c)")
  let ?c1 = "c\<lparr>co_guard := g\<rparr>"
  show ?thesis
  proof (cases "co_initialized c \<and> ValidateServers (dp_net d) servers = None \<and> e = None \<and> (\<exists>h. computeHashLocked d x ?c1 (co_manager c) servers = Inr h)")
    case False
    then show ?thesis using G c by (auto simp: Coord_SaveServers_def Let_def split: option.splits sum.splits)
  next
    case True
    then obtain h where q: "computeHashLocked d x ?c1 (co_manager c) servers = Inr h" by blast
    let ?c2 = "if h \<noteq> co_currentHash c then ?c1\<lparr>co_ready := False\<rparr> else ?c1"
    obtain f r where S: "dp_saveServers d x servers (co_config c) = (f, r)" by (cases "dp_saveServers d x servers (co_config c)")
    have S2: "dp_saveServers d x servers (co_config ?c2) = (f, r)" using S by simp
    have c2: "coherent d holds content ?c2" using c by (intro coherent_unready) simp
    show ?thesis
    proof (cases r)
      case None
      then show ?thesis using True G q S coherent_reconcile [OF x] by (auto simp: Coord_SaveServers_def Let_def)
    next
      case (Some e)
      have "coherent d holds content (?c2\<lparr>co_config := f\<rparr>)"
        using c2 st.saveServers_failed S2 Some by (intro coherent_config) auto
      then show ?thesis using True G q S Some by (auto simp: Coord_SaveServers_def Let_def coherent_def)
    qed
  qed
qed

lemma coherent_secret:
  assumes c: "coherent d holds content c" and n: "\<not> isRoutingSecretRef (co_servers c) ref" "\<not> reserved_ref ref"
    and k: "\<And>ref'. ref' \<noteq> ref \<Longrightarrow> content k ref' = content (co_secrets c) ref'"
  shows "coherent d holds content (c\<lparr>co_secrets := k\<rparr>)"
proof (cases "co_ready c")
  case True
  have "ref' \<noteq> ref" if "ref' \<in> hash_refs (co_servers c)" for ref'
    using that n reserved_oauth by (auto simp: hash_refs_def isRoutingSecretRef_def)
  then show ?thesis using True k by (intro coherent_frame [OF c]) simp_all
qed (simp add: coherent_def)

lemma coherent_put_secret:
  assumes c: "coherent d holds content c" and x: "good x" shows "coherent d holds content (fst (PutSecret d x c ref v))"
proof -
  obtain k r where P: "dp_put d x (co_secrets c) ref v = (k, r)" by (cases "dp_put d x (co_secrets c) ref v")
  show ?thesis
  proof (cases "isRoutingSecretRef (co_servers c) ref")
    case True
    then show ?thesis using c P coherent_reconcile [OF x]
      by (auto simp: PutSecret_def Let_def coherent_not_ready split: option.split)
  next
    case False
    then show ?thesis using c P coherent_secret [OF c False _ put_frame [OF P]]
      by (auto simp: PutSecret_def Let_def split: option.split)
  qed
qed

lemma coherent_delete_secret:
  assumes c: "coherent d holds content c" and x: "good x" shows "coherent d holds content (fst (DeleteSecret d x c ref))"
proof -
  obtain k r where P: "dp_delete d x (co_secrets c) ref = (k, r)" by (cases "dp_delete d x (co_secrets c) ref")
  show ?thesis
  proof (cases "isRoutingSecretRef (co_servers c) ref")
    case True
    then show ?thesis using c P coherent_reconcile [OF x]
      by (auto simp: DeleteSecret_def Let_def coherent_not_ready split: option.split)
  next
    case False
    then show ?thesis using c P coherent_secret [OF c False _ delete_frame [OF P]]
      by (auto simp: DeleteSecret_def Let_def split: option.split)
  qed
qed

lemma coherent_set_identity:
  "good x \<Longrightarrow> coherent d holds content c \<Longrightarrow> coherent d holds content (fst (SetOAuthCredentialIdentity d x c k v))"
  using coherent_reconcile
  by (auto simp: SetOAuthCredentialIdentity_def Let_def coherent_not_ready split: option.split sum.split prod.split)

lemma coherent_clear_identity:
  "good x \<Longrightarrow> coherent d holds content c \<Longrightarrow> coherent d holds content (fst (ClearOAuthCredentialIdentity d x c k))"
  using coherent_reconcile
  by (auto simp: ClearOAuthCredentialIdentity_def Let_def coherent_not_ready split: option.split sum.split prod.split)

lemma coherent_advance:
  assumes "coherent d holds content c"
  shows "coherent d holds content (c\<lparr>co_tracker := fst (AdvanceRoutingRevision (dp_backend d) (co_tracker c))\<rparr>)"
proof -
  obtain b r where A: "AdvanceRoutingRevision (dp_backend d) (co_tracker c) = (b, r)" by (cases "AdvanceRoutingRevision (dp_backend d) (co_tracker c)")
  show ?thesis
  proof (cases r)
    case (Inl e)
    then have "b = co_tracker c" using A bk.Advance_failed by blast
    then show ?thesis using A assms by (simp add: coherent_def)
  next
    case (Inr s)
    then show ?thesis using A bk.Advance_ok [of "co_tracker c" b s] assms by (auto simp: coherent_def)
  qed
qed

lemma coord_run_coherent: "coord_run d good c \<Longrightarrow> coherent d holds content c"
  by (induction rule: coord_run.induct)
    (auto intro: not_ready_coherent coherent_initialize coherent_save_manager coherent_save_servers coherent_put_secret
      coherent_delete_secret coherent_set_identity coherent_clear_identity coherent_advance)

end

section \<open>The coordinator over files, SQLite, secrets and lifecycle\<close>

text \<open>The environment of one operation.\<close>

record op_env =
  oe_faults :: faults
  oe_port :: "int option"
  oe_secretFails :: "string \<Rightarrow> bool"
  oe_random :: "string option"
  oe_life :: env

definition app_deps :: "secret_platform \<Rightarrow> netlib \<Rightarrow> config_codec \<Rightarrow> hash_lib \<Rightarrow> (string \<Rightarrow> string) \<Rightarrow> (fsys, secret_store, sqlite_state, Service, op_env) deps" where
  "app_deps pf nl cc lib envName =
     \<lparr>dp_load = (\<lambda>x. LoadOrCreate nl cc (oe_faults x) (oe_port x)),
      dp_saveManager = (\<lambda>x. SaveManager nl cc (oe_faults x)), dp_saveServers = (\<lambda>x. SaveServers nl cc (oe_faults x)),
      dp_get = (\<lambda>x. envFallback_Get pf envName (oe_secretFails x)), dp_put = (\<lambda>x. envFallback_Put pf (oe_secretFails x)),
      dp_delete = (\<lambda>x. envFallback_Delete pf (oe_secretFails x)),
      dp_backend = SQLiteBackend, dp_prepare = PrepareServerMutation,
      dp_commit = (\<lambda>x sv. CommitServerMutation (oe_life x) sv), dp_abort = AbortServerMutation,
      dp_random = oe_random, dp_base64 = EncodeToString, dp_hash = lib, dp_net = nl\<rparr>"

interpretation app: coordinator_deps "app_deps pf nl cc lib envName" "represents cc" "\<lambda>db. \<not> sq_queryFails db" "secret_content pf envName"
    "\<lambda>x. lookups_reported pf (oe_secretFails x)"
  for pf nl cc lib envName
proof (unfold_locales, goal_cases)
  case (1 x s s' c)
  then show ?case using files.load_ok [of nl cc "(oe_faults x, oe_port x)" s s' c] by (simp add: app_deps_def)
next
  case (2 x s s' r c)
  then show ?case using files.load_keeps [of nl cc "(oe_faults x, oe_port x)" s s' r c] by (simp add: app_deps_def)
next
  case (3 x m s s' e c)
  then show ?case using files.saveManager_failed [of nl cc "(oe_faults x, oe_port x)" m s s' e c] by (simp add: app_deps_def)
next
  case (4 x v s s' e c)
  then show ?case using files.saveServers_failed [of nl cc "(oe_faults x, oe_port x)" v s s' e c] by (simp add: app_deps_def)
next
  case (5 b s)
  then show ?case using sq.load_answers by (simp add: app_deps_def)
next
  case (6 b s b')
  then show ?case using sq.load_store by (simp add: app_deps_def)
next
  case (7 b s b' e)
  then show ?case using sq.store_failed by (simp add: app_deps_def)
next
  case (8 x k)
  then show ?case using envFallback_Get_cases by (auto simp: app_deps_def truthful_def)
next
  case (9 x k ref v k' r ref')
  then show ?case using envFallback_frames(1) by (simp add: app_deps_def)
next
  case (10 x k ref k' r ref')
  then show ?case using envFallback_frames(2) by (simp add: app_deps_def)
qed

text \<open>
  (C3) The generation gate is fail closed: after any sequence of coordinator operations, whatever failed on the way
  (files, database, secret store, crashes), a generation is called current only if the two configuration files
  represent the coordinator's configuration at that moment, the routing state in the database carries the generation's hash, and
  that is the hash of this configuration together with the secrets it uses as they are stored. Two limits: on Linux and macOS no lookup in the
  keychain fails during the run (a failed lookup is taken for a missing secret there), and the last point is shown unless a server uses the
  manager's own access capability as a secret of its routing (saving the manager may then replace it behind the gate's back).
\<close>

theorem GenerationCurrent_fail_closed:
  assumes "coord_run (app_deps pf nl cc lib envName) (\<lambda>x. lookups_reported pf (oe_secretFails x)) c" and "GenerationCurrent c h"
  shows "represents cc (co_config c) (co_manager c, co_servers c) \<and>
     (\<exists>s. SQLite_Load (co_tracker c) = Inr s \<and> rs_RoutingStateHash s = h) \<and>
     (\<not> isRoutingSecretRef (co_servers c) LocalManagerCapabilitySecretRef \<longrightarrow>
       persisted_hash lib (co_fingerprintKey c) (secret_content pf envName (co_secrets c)) (co_manager c) (co_servers c) = Inr h)"
  using app.coord_run_coherent [OF assms(1)] assms(2)
  by (auto simp: coherent_def GenerationCurrent_def app_deps_def SQLiteBackend_def)

section \<open>Saving servers moves the lifecycle with the file\<close>

lemma reconcile_guard: "co_guard (fst (reconcilePersistedLocked d x c)) = co_guard c"
  by (auto simp: reconcilePersistedLocked_def Let_def split: sum.splits prod.splits)

lemma reconcile_config: "co_config (fst (reconcilePersistedLocked d x c)) = fst (dp_load d x (co_config c))"
  by (auto simp: reconcilePersistedLocked_def Let_def split: sum.splits prod.splits)

lemma load_keeps_servers_file:
  assumes "fs_nodes s ServersPath \<noteq> None" shows "fs_nodes (fst (LoadOrCreate nl cc f port s)) = fs_nodes s"
  using surjective_pairing [of "LoadOrCreate nl cc f port s"]
  by (cases rule: LoadOrCreate_cases) (use assms in \<open>auto simp: config_absent_def\<close>)

lemma load_decodes_servers:
  assumes L: "LoadOrCreate nl cc f port s = (s', Inr (m, v))" and sb: "fs_nodes s ServersPath = Some (File sb)"
  shows "cc_decodeServers cc sb = Some v"
proof -
  obtain s1 r1 where 1: "os_Stat f ManagerPath s = (s1, r1)" by (cases "os_Stat f ManagerPath s")
  obtain s2 r2 where 2: "os_Stat f ServersPath s1 = (s2, r2)" by (cases "os_Stat f ServersPath s1")
  obtain s4 r4 where 4: "readJSON f ManagerPath (cc_decodeManager cc) s2 = (s4, r4)" by (cases "readJSON f ManagerPath (cc_decodeManager cc) s2")
  obtain s5 r5 where 5: "readJSON f ServersPath (cc_decodeServers cc) s4 = (s5, r5)" by (cases "readJSON f ServersPath (cc_decodeServers cc) s4")
  note n = os_Stat_nodes [OF 1] os_Stat_nodes [OF 2] readJSON_nodes [OF 4] readJSON_nodes [OF 5]
  have "r5 = Inr v" using L 1 2 4 5 n sb by (auto simp: LoadOrCreate_def split: sum.splits option.splits prod.splits if_splits)
  then show ?thesis using n sb by auto
qed

lemma reconcile_servers:
  assumes "reconcilePersistedLocked d x c = (c', r)"
  shows "case r of Inl e \<Rightarrow> co_servers c' = co_servers c | Inr _ \<Rightarrow> \<exists>f m. dp_load d x (co_config c) = (f, Inr (m, co_servers c'))"
  using assms by (auto simp: reconcilePersistedLocked_def Let_def split: sum.splits prod.splits)

text \<open>
  (C7) Saving a server configuration moves file and lifecycle together. When the lifecycle service is set up, keeps its invariant and serves
  exactly the configuration the coordinator remembers, then, whatever fails in the save itself: either the save ends in an error
  with the servers file untouched, the lifecycle service exactly as it was (every reservation taken back) and the remembered configuration
  unchanged, or the file holds the new configuration and the lifecycle, its invariant kept, serves exactly the new configuration. After a
  save that succeeds, with a codec that reads the file back, the coordinator remembers the new configuration, so the conditions hold
  again; after one that fails in the final reconciliation it still remembers the old one while file and lifecycle have the new one, and
  the next save is then outside this theorem.
\<close>

theorem SaveServers_file_and_lifecycle:
  assumes S: "Coord_SaveServers (app_deps pf nl cc lib envName) x c v = (c', r)"
    and g: "co_guard c = Some sv" and ok: "sv_ok sv" and sv: "serves sv = byID (co_servers c)"
  shows "(\<exists>e. r = Inl e) \<and> co_guard c' = Some sv \<and> fs_nodes (co_config c') ServersPath = fs_nodes (co_config c) ServersPath \<and> co_servers c' = co_servers c \<or>
     (\<exists>sv' body. co_guard c' = Some sv' \<and> sv_ok sv' \<and> serves sv' = byID v \<and> cc_marshalServers cc v = Some body \<and>
        fs_nodes (co_config c') ServersPath = Some (File (body @ [CHR 0x0A])) \<and>
        (case r of Inl e \<Rightarrow> co_servers c' = co_servers c | Inr state \<Rightarrow> cc_decodeServers cc (body @ [CHR 0x0A]) = Some v \<longrightarrow> co_servers c' = v))"
proof -
  let ?d = "app_deps pf nl cc lib envName"
  obtain sv1 pe where P: "PrepareServerMutation sv (co_servers c) v = (sv1, pe)" by (cases "PrepareServerMutation sv (co_servers c) v")
  note roll = Prepare_undone [OF ok P]
  have G: "guard_prepare ?d (co_servers c) v (co_guard c) = (Some sv1, pe)" using P g by (simp add: guard_prepare_def app_deps_def)
  have dn: "dp_net ?d = nl" "\<And>y. dp_saveServers ?d x v y = SaveServers nl cc (oe_faults x) v y" "dp_abort ?d = AbortServerMutation"
    "\<And>s. dp_commit ?d x s v = CommitServerMutation (oe_life x) s v" "\<And>y. dp_load ?d x y = LoadOrCreate nl cc (oe_faults x) (oe_port x) y"
    by (simp_all add: app_deps_def)
  let ?c1 = "c\<lparr>co_guard := Some sv1\<rparr>"
  show ?thesis
  proof (cases "co_initialized c \<and> ValidateServers nl v = None \<and> pe = None \<and> (\<exists>h. computeHashLocked ?d x ?c1 (co_manager c) v = Inr h)")
    case False
    then have "(\<exists>e. r = Inl e) \<and> co_guard c' = Some sv \<and> co_config c' = co_config c \<and> co_servers c' = co_servers c"
      using S G g roll by (auto simp: Coord_SaveServers_def Let_def dn split: if_splits option.splits sum.splits)
    then show ?thesis by simp
  next
    case True
    then obtain h where h: "computeHashLocked ?d x ?c1 (co_manager c) v = Inr h" by blast
    obtain f res where F: "SaveServers nl cc (oe_faults x) v (co_config c) = (f, res)" by (cases "SaveServers nl cc (oe_faults x) v (co_config c)")
    note n = SaveServers_nodes [OF F]
    show ?thesis
    proof (cases res)
      case (Some e)
      then have "c' = (if h \<noteq> co_currentHash c then ?c1\<lparr>co_ready := False\<rparr> else ?c1)\<lparr>co_config := f, co_guard := Some (AbortServerMutation sv1)\<rparr>"
        "r = Inl (CoordStore e)"
        using S True G h F by (cases "h = co_currentHash c"; auto simp: Coord_SaveServers_def Let_def dn)+
      then show ?thesis using roll n Some True by auto
    next
      case None
      let ?sv' = "CommitServerMutation (oe_life x) sv1 v"
      let ?c3 = "(if h \<noteq> co_currentHash c then ?c1\<lparr>co_ready := False\<rparr> else ?c1)\<lparr>co_config := f, co_guard := Some ?sv'\<rparr>"
      have "sv_ok sv1" using quiet_ok [OF quiet_Prepare [OF ok, of "co_servers c" v]] P by simp
      then have C: "serves ?sv' = byID v" "sv_ok ?sv'"
        using commit_serves [OF ok sv] P True quiet_ok [OF quiet_Commit] by auto
      have R: "reconcilePersistedLocked ?d x ?c3 = (c', r)"
        using S True G h F None by (cases "h = co_currentHash c") (auto simp: Coord_SaveServers_def Let_def dn)
      have c3: "co_config ?c3 = f" "co_servers ?c3 = co_servers c" "co_guard ?c3 = Some ?sv'" by simp_all
      obtain body where b: "cc_marshalServers cc v = Some body" "fs_nodes f ServersPath = Some (File (body @ [CHR 0x0A]))"
        using n None by auto
      have "fs_nodes (co_config c') = fs_nodes f"
        using reconcile_config [of ?d x ?c3] b load_keeps_servers_file [of f nl cc "oe_faults x" "oe_port x"] by (simp only: R c3 dn fst_conv) simp
      moreover have "co_guard c' = Some ?sv'" using reconcile_guard [of ?d x ?c3] by (simp only: R c3 fst_conv)
      moreover have "case r of Inl e \<Rightarrow> co_servers c' = co_servers c | Inr state \<Rightarrow> cc_decodeServers cc (body @ [CHR 0x0A]) = Some v \<longrightarrow> co_servers c' = v"
        using reconcile_servers [OF R] load_decodes_servers [OF _ b(2)] unfolding c3 dn by (auto split: sum.splits)
      ultimately show ?thesis using C b by auto
    qed
  qed
qed

section \<open>Concrete instances\<close>

definition renamed_entry :: ServerEntry where
  "renamed_entry = sample_http_entry\<lparr>se_Name := ''demo2''\<rparr>"

definition config_one :: ServersConfig where
  "config_one = cfg [sample_http_entry]"

definition config_two :: ServersConfig where
  "config_two = cfg [renamed_entry]"

definition names_of :: "ServerEntry list \<Rightarrow> string" where
  "names_of es = concat (map se_Name es)"

definition legacy_manager :: ManagerConfig where
  "legacy_manager = (DefaultManagerConfig 8787)\<lparr>mc_Embedding := \<lparr>ec_Provider = EmbeddingProviderOpenAICompatible, ec_Model = ''m'',
     ec_Runtime = \<lparr>er_Release = [], er_BinaryPath = []\<rparr>, ec_Models = [], ec_BaseURL = ''https://mcp.example/x'', ec_Dimensions = None,
     ec_CredentialRef = ''secret://embedding/key''\<rparr>\<rparr>"

definition sample_codec2 :: config_codec where
  "sample_codec2 = \<lparr>cc_marshalManager = (\<lambda>c. Some ''m''), cc_marshalServers = (\<lambda>c. Some (names_of (sc_Servers c))),
     cc_decodeManager = (\<lambda>b. Some legacy_manager),
     cc_decodeServers = (\<lambda>b. Some (if b = ''demo2'' @ [CHR 0x0A] then config_two else config_one))\<rparr>"

definition sample_hash_lib :: hash_lib where
  "sample_hash_lib = \<lparr>marshal_material = (\<lambda>m. Some (names_of (rm_Servers m))), sha256_hex_of = (\<lambda>s. s), hmac_hex = (\<lambda>k s. s)\<rparr>"

definition sample_secrets :: secret_store where
  "sample_secrets = \<lparr>ss_env = (\<lambda>n. None), ss_native = [RoutingFingerprintKeySecretRef \<mapsto> replicate 32 CHR ''k'',
     LocalManagerCapabilitySecretRef \<mapsto> ''cap'']\<rparr>"

definition sample_op :: op_env where
  "sample_op = \<lparr>oe_faults = \<lparr>fl_ok = (\<lambda>i. True), fl_written = (\<lambda>i. 1), fl_temp = (\<lambda>i. ''x'')\<rparr>, oe_port = None, oe_secretFails = (\<lambda>r. False), oe_random = None, oe_life = sample_env 5\<rparr>"

definition sample_deps :: "(fsys, secret_store, sqlite_state, Service, op_env) deps" where
  "sample_deps = app_deps WindowsStore sample_net sample_codec2 sample_hash_lib (\<lambda>r. r)"

text \<open>The database already carries the first configuration's hash and refuses updates.\<close>

definition sample_coord :: "(fsys, secret_store, sqlite_state, Service) Coordinator" where
  "sample_coord = \<lparr>co_config = sample_fs [([], Dir), ([''config''], Dir), ([''config'', ''manager.json''], File ''m''), ([''config'', ''servers.json''], File ''demo'')],
     co_secrets = sample_secrets, co_tracker = \<lparr>sq_row = Some (''1'', ''sha256:demo'', ''0''), sq_queryFails = False, sq_execFails = True\<rparr>,
     co_manager = DefaultManagerConfig 1, co_servers = cfg [], co_fingerprintKey = [], co_currentHash = [],
     co_initialized = False, co_ready = False, co_guard = Some (fold add_state [sample_http_entry] sample_empty)\<rparr>"

definition sample_ready :: "(fsys, secret_store, sqlite_state, Service) Coordinator" where
  "sample_ready = fst (Initialize sample_deps sample_op sample_coord)"

theorem GenerationCurrent_fail_closed_witness:
  "GenerationCurrent sample_ready ''sha256:demo'' \<and> represents sample_codec2 (co_config sample_ready) (co_manager sample_ready, co_servers sample_ready) \<and>
   persisted_hash sample_hash_lib (co_fingerprintKey sample_ready) (secret_content WindowsStore (\<lambda>r. r) (co_secrets sample_ready))
     (co_manager sample_ready) (co_servers sample_ready) = Inr ''sha256:demo''"
proof -
  have "\<not> co_ready sample_coord" by (simp add: sample_coord_def)
  moreover have "lookups_reported WindowsStore (oe_secretFails sample_op)" by (simp add: lookups_reported_def)
  ultimately have "coord_run sample_deps (\<lambda>x. lookups_reported WindowsStore (oe_secretFails x)) sample_ready"
    unfolding sample_ready_def by (intro coord_run.initialize coord_run.start)
  then have R: "coord_run (app_deps WindowsStore sample_net sample_codec2 sample_hash_lib (\<lambda>r. r)) (\<lambda>x. lookups_reported WindowsStore (oe_secretFails x)) sample_ready"
    by (simp add: sample_deps_def)
  have G: "GenerationCurrent sample_ready ''sha256:demo''" by code_simp
  have n: "\<not> isRoutingSecretRef (co_servers sample_ready) LocalManagerCapabilitySecretRef" by code_simp
  show ?thesis using G n GenerationCurrent_fail_closed [OF R G] by blast
qed

lemma sample_guard: "co_guard sample_ready = Some (fold add_state [sample_http_entry] sample_empty)"
  "sv_ok (fold add_state [sample_http_entry] sample_empty)"
  "serves (fold add_state [sample_http_entry] sample_empty) = byID (co_servers sample_ready)"
proof -
  show "co_guard sample_ready = Some (fold add_state [sample_http_entry] sample_empty)" by code_simp
  show "sv_ok (fold add_state [sample_http_entry] sample_empty)" by code_simp
  have "co_servers sample_ready = config_one" by code_simp
  moreover have "serves (fold add_state [sample_http_entry] sample_empty) k = byID config_one k" for k
    by (simp add: serves_def add_state_def sample_empty_def get_state_def newServerState_def byID_def config_one_def cfg_def)
  ultimately show "serves (fold add_state [sample_http_entry] sample_empty) = byID (co_servers sample_ready)" by (simp add: fun_eq_iff)
qed

definition sample_saved :: "(fsys, secret_store, sqlite_state, Service) Coordinator" where
  "sample_saved = fst (Coord_SaveServers sample_deps sample_op sample_ready config_two)"

theorem SaveServers_file_and_lifecycle_witness:
  "\<exists>sv'. co_guard sample_saved = Some sv' \<and> sv_ok sv' \<and> serves sv' = byID config_two"
proof -
  have n: "fs_nodes (co_config sample_saved) ServersPath \<noteq> fs_nodes (co_config sample_ready) ServersPath" by code_simp
  show ?thesis
    using n SaveServers_file_and_lifecycle [of WindowsStore sample_net sample_codec2 sample_hash_lib "\<lambda>r. r" sample_op sample_ready config_two,
      OF surjective_pairing sample_guard]
    by (auto simp: sample_saved_def sample_deps_def)
qed

text \<open>
  After a save whose reconciliation failed, the coordinator prepares the next change against the configuration it
  remembers, not the one the lifecycle already serves: changing a server, having the database refuse the new hash, using
  the changed server, and changing it back is accepted without a busy error although the server is in use, and leaves
  the old entry attached to the session and lease of the new one.
\<close>

theorem SaveServers_after_failed_reconcile:
  "case Coord_SaveServers sample_deps sample_op sample_ready config_two of (c1, r1) \<Rightarrow>
     r1 = Inl (CoordState (BackendFailed ''store routing state'')) \<and>
     (case Acquire (sample_env 6) (\<lambda>e. ConnOK (if se_Name e = ''demo2'' then 7 else 8)) True (the (co_guard c1)) sample_id of (sv2, l) \<Rightarrow>
        (case Coord_SaveServers sample_deps sample_op (c1\<lparr>co_guard := Some sv2\<rparr>) config_one of (c2, r2) \<Rightarrow>
           (case get_state (the (co_guard c2)) 0 of st \<Rightarrow>
              ss_entry st = sample_http_entry \<and> ss_session st = Some 7 \<and> ss_active st = 1)))"
  by code_simp

end
