(* ===== verification/Catalog.thy ===== *)
theory Catalog
  imports Config ToolContract "HOL-Library.Product_Lexorder"
begin

text \<open>
  The routing catalog: \<^verbatim>\<open>internal/catalog\<close> (schema.go, generations.go, sources.go,
  dirty_reconciliation.go, reset.go and the integrity check of catalog.go). The tables are association
  lists keyed by their primary keys. Staging generations are filled, validated and promoted; the active
  generation is the index that discovery and execution read.

  A statement of SQLite that fails leaves the database as it was, and so does a transaction that is
  rolled back; an operation therefore returns either an error, with the database unchanged, or the new
  database and its value. Which statements of a call fail is the argument \<open>sqlenv\<close>, keyed by the message
  the code wraps the error with; it also holds the rows that \<^verbatim>\<open>PRAGMA quick_check\<close> answers. The clock
  is an argument, in Unix milliseconds. Every access to a closed catalog (a nil database) is the error
  \<open>NilDatabase\<close>, where the operation does not test for it itself.
\<close>

section \<open>Schema\<close>

datatype GenerationStatus = GenerationStaging | GenerationActive | GenerationSuperseded

text \<open>The row of a generation; its ID is the key of the table.\<close>

record Generation =
  gen_Status :: GenerationStatus
  gen_RoutingStateHash :: string
  gen_SourceSetFingerprint :: string
  gen_CreatedAt :: int
  gen_ActivatedAt :: "int option"

record member_row =
  mem_expected :: string
  mem_actual :: "string option"
  mem_required :: bool
  mem_complete :: bool

record tool_row =
  st_fingerprint :: string
  st_identity :: string
  st_contract :: string

record server_row =
  ss_fingerprint :: string
  ss_contract :: string

record cache_row =
  tc_fingerprint :: string
  tc_contract :: string
  tc_available :: bool
  tc_last_seen :: int

record DirtyPartition =
  dp_Reason :: string
  dp_ObservedFingerprint :: string
  dp_MarkedAt :: int

record dependency_row =
  dep_expected :: string
  dep_actual :: "string option"
  dep_required :: bool
  dep_complete :: bool

record Artifact =
  art_Kind :: string
  art_ContentFingerprint :: string
  art_DependencyFingerprint :: string
  art_ContextFingerprint :: string
  art_Payload :: string
  art_CreatedAt :: int

record artifact_link =
  ga_artifact :: string
  ga_required :: bool
  ga_complete :: bool

record EnrichmentBatch =
  eb_GenerationID :: string
  eb_Kind :: string
  eb_BatchKey :: string
  eb_Required :: bool
  eb_RequestFingerprint :: string
  eb_RequestJSON :: string
  eb_Accepted :: "(string \<times> string \<times> int) option"

record ContinuationMapping =
  cm_Kind :: string
  cm_ServerID :: string
  cm_Payload :: string
  cm_CreatedAt :: int
  cm_ExpiresAt :: "int option"

record catalog =
  db_open :: bool
  generations :: "(string \<times> Generation) list"
  source_servers :: "((string \<times> string) \<times> server_row) list"
  generation_members :: "((string \<times> string \<times> string) \<times> member_row) list"
  source_tools :: "((string \<times> string \<times> string) \<times> tool_row) list"
  tool_contract_cache :: "((string \<times> string) \<times> cache_row) list"
  dirty_partitions :: "(string \<times> DirtyPartition) list"
  generation_dependencies :: "((string \<times> string) \<times> dependency_row) list"
  artifacts :: "(string \<times> Artifact) list"
  artifact_dependencies :: "((string \<times> string) \<times> string) list"
  generation_artifacts :: "((string \<times> string \<times> string) \<times> artifact_link) list"
  neighborhood_contexts :: "((string \<times> string) \<times> string) list"
  lexical_records :: "((string \<times> string) \<times> (string \<times> string)) list"
  enrichment_batches :: "(string \<times> EnrichmentBatch) list"
  continuation_mappings :: "(string \<times> ContinuationMapping) list"

definition schemaSQL :: catalog where
  "schemaSQL = \<lparr>db_open = True, generations = [], source_servers = [], generation_members = [], source_tools = [],
     tool_contract_cache = [], dirty_partitions = [], generation_dependencies = [], artifacts = [],
     artifact_dependencies = [], generation_artifacts = [], neighborhood_contexts = [], lexical_records = [],
     enrichment_batches = [], continuation_mappings = []\<rparr>"

datatype cat_error =
    CatalogClosed
  | NilDatabase
  | SQLError string
  | Missing string
  | ErrCatalogCorrupt string
  | ErrGenerationNotFound
  | ErrGenerationNotStaging
  | ErrRoutingStateChanged
  | ErrDirtyPartitions
  | ErrGenerationIncomplete
  | ErrSourceFingerprintMismatch
  | ErrDependencyMismatch
  | ErrNoRows
  | NotDeclared string
  | Contract contract_error
  | RandomUnavailable
  | DuplicateKey string
  | InvalidKind string
  | NotJSON
  | ErrEnrichmentBatchConflict
  | ErrContinuationNotFound
  | ErrContinuationExpired
  | ErrContinuationConflict
  | ExpiryNotAfterCreation

section \<open>Statements\<close>

record sqlenv =
  sql_fails :: "string \<Rightarrow> bool"
  quick_check :: "string list"

definition sql :: "sqlenv \<Rightarrow> catalog \<Rightarrow> string \<Rightarrow> (cat_error, unit) result" where
  "sql q db label = (if \<not> db_open db then Inl NilDatabase else if sql_fails q label then Inl (SQLError label) else Inr ())"

definition guard :: "bool \<Rightarrow> cat_error \<Rightarrow> (cat_error, unit) result" where
  "guard bad e = (if bad then Inl e else Inr ())"

lemma sql_Inr [err_simps]: "sql q db l = Inr u \<longleftrightarrow> db_open db \<and> \<not> sql_fails q l"
  by (simp add: sql_def)

lemma guard_Inr [err_simps]: "guard bad e = Inr u \<longleftrightarrow> \<not> bad"
  by (simp add: guard_def)

text \<open>\<^verbatim>\<open>CheckIntegrity\<close>: the first row that is not \<open>ok\<close>, or no row at all, means a corrupt database.\<close>

definition checkIntegrity :: "sqlenv \<Rightarrow> catalog \<Rightarrow> (cat_error, unit) result" where
  "checkIntegrity q db =
     (if \<not> db_open db then Inl NilDatabase
      else if sql_fails q ''quick_check query'' then Inl (ErrCatalogCorrupt ''quick_check query'')
      else case filter (\<lambda>r. r \<noteq> ''ok'') (quick_check q) of
        r # _ \<Rightarrow> Inl (ErrCatalogCorrupt r)
      | [] \<Rightarrow> if sql_fails q ''quick_check rows'' then Inl (ErrCatalogCorrupt ''quick_check rows'')
          else if quick_check q = [] then Inl (ErrCatalogCorrupt ''quick_check returned no result'') else Inr ())"

definition CheckIntegrity :: "sqlenv \<Rightarrow> catalog \<Rightarrow> (cat_error, unit) result" where
  "CheckIntegrity q db = (if \<not> db_open db then Inl CatalogClosed else checkIntegrity q db)"

definition Catalog_Close :: "catalog \<Rightarrow> catalog" where
  "Catalog_Close db = db\<lparr>db_open := False\<rparr>"

section \<open>Generations\<close>

record GenerationSpec =
  spec_ID :: string
  spec_RoutingStateHash :: string

text \<open>\<open>rand\<close> is the hexadecimal form of the 16 random bytes, or None when the generator fails.\<close>

definition newGenerationID :: "string option \<Rightarrow> (cat_error, string) result" where
  "newGenerationID rand = (case rand of None \<Rightarrow> Inl RandomUnavailable | Some h \<Rightarrow> Inr (''gen_'' @ h))"

definition staging_row :: "string \<Rightarrow> int \<Rightarrow> Generation" where
  "staging_row h now = \<lparr>gen_Status = GenerationStaging, gen_RoutingStateHash = h, gen_SourceSetFingerprint = [],
     gen_CreatedAt = now, gen_ActivatedAt = None\<rparr>"

definition CreateStaging :: "sqlenv \<Rightarrow> string option \<Rightarrow> int \<Rightarrow> GenerationSpec \<Rightarrow> catalog \<Rightarrow>
    (cat_error, catalog \<times> string \<times> Generation) result" where
  "CreateStaging q rand now spec db =
     rbind (guard (\<not> db_open db) CatalogClosed) (\<lambda>_.
     rbind (guard (blank (spec_RoutingStateHash spec)) (Missing ''routing state hash'')) (\<lambda>_.
     rbind (if TrimSpace (spec_ID spec) = [] then newGenerationID rand else Inr (TrimSpace (spec_ID spec))) (\<lambda>id.
     rbind (sql q db ''create staging generation'') (\<lambda>_.
     if map_of (generations db) id \<noteq> None then Inl (SQLError ''create staging generation'')
     else let g = staging_row (spec_RoutingStateHash spec) now in
       Inr (db\<lparr>generations := alist_put id g (generations db)\<rparr>, id, g)))))"

definition Catalog_Generation :: "sqlenv \<Rightarrow> catalog \<Rightarrow> string \<Rightarrow> (cat_error, string \<times> Generation) result" where
  "Catalog_Generation q db gid = rbind (sql q db ''scan generation'') (\<lambda>_.
     case map_of (generations db) gid of None \<Rightarrow> Inl ErrGenerationNotFound | Some g \<Rightarrow> Inr (gid, g))"

definition ActiveGeneration :: "sqlenv \<Rightarrow> catalog \<Rightarrow> (cat_error, string \<times> Generation) result" where
  "ActiveGeneration q db = rbind (sql q db ''scan generation'') (\<lambda>_.
     case filter (\<lambda>(id, g). gen_Status g = GenerationActive) (generations db) of
       [] \<Rightarrow> Inl ErrGenerationNotFound | g # _ \<Rightarrow> Inr g)"

text \<open>\<^verbatim>\<open>UPDATE generations SET status = ? WHERE ...\<close>, with the number of rows it changes.\<close>

definition set_status :: "(string \<Rightarrow> Generation \<Rightarrow> bool) \<Rightarrow> GenerationStatus \<Rightarrow> catalog \<Rightarrow> catalog" where
  "set_status p s db = db\<lparr>generations := map (\<lambda>(id, g). (id, if p id g then g\<lparr>gen_Status := s\<rparr> else g)) (generations db)\<rparr>"

definition ReconcileStaging :: "sqlenv \<Rightarrow> string \<Rightarrow> catalog \<Rightarrow> (cat_error, catalog \<times> nat) result" where
  "ReconcileStaging q h db =
     rbind (guard (blank h) (Missing ''current routing state hash'')) (\<lambda>_.
     rbind (sql q db ''reconcile staging generations'') (\<lambda>_.
     let p = (\<lambda>_ g. gen_Status g = GenerationStaging \<and> gen_RoutingStateHash g \<noteq> h) in
       Inr (set_status p GenerationSuperseded db, length (filter (\<lambda>(id, g). p id g) (generations db)))))"

definition SupersedeStaging :: "sqlenv \<Rightarrow> string \<Rightarrow> catalog \<Rightarrow> (cat_error, catalog) result" where
  "SupersedeStaging q gid db =
     rbind (guard (\<not> db_open db) CatalogClosed) (\<lambda>_.
     rbind (guard (gid = []) (Missing ''generation id'')) (\<lambda>_.
     rbind (sql q db ''supersede staging generation'') (\<lambda>_.
     case map_of (generations db) gid of
       Some g \<Rightarrow> if gen_Status g = GenerationStaging
         then Inr (set_status (\<lambda>i g. i = gid \<and> gen_Status g = GenerationStaging) GenerationSuperseded db)
         else rbind (sql q db ''scan generation'') (\<lambda>_. Inl ErrGenerationNotStaging)
     | None \<Rightarrow> rbind (sql q db ''scan generation'') (\<lambda>_. Inl ErrGenerationNotFound))))"

definition requireStaging :: "sqlenv \<Rightarrow> catalog \<Rightarrow> string \<Rightarrow> (cat_error, unit) result" where
  "requireStaging q db gid = rbind (sql q db ''load generation status'') (\<lambda>_.
     case map_of (generations db) gid of
       None \<Rightarrow> Inl ErrGenerationNotFound
     | Some g \<Rightarrow> if gen_Status g = GenerationStaging then Inr () else Inl ErrGenerationNotStaging)"

section \<open>Source members\<close>

text \<open>
  The completeness flag of an upserted requirement survives only while the recorded fingerprint is the
  one now expected (\<^verbatim>\<open>CASE WHEN actual = expected THEN complete ELSE 0\<close>; NULL compares unequal).
\<close>

definition upsert_member :: "string \<Rightarrow> member_row option \<Rightarrow> member_row" where
  "upsert_member expected old = (case old of
     None \<Rightarrow> \<lparr>mem_expected = expected, mem_actual = None, mem_required = True, mem_complete = False\<rparr>
   | Some m \<Rightarrow> m\<lparr>mem_expected := expected, mem_required := True,
       mem_complete := mem_actual m = Some expected \<and> mem_complete m\<rparr>)"

definition RequireSourceTool :: "sqlenv \<Rightarrow> string \<Rightarrow> string \<Rightarrow> string \<Rightarrow> string \<Rightarrow> catalog \<Rightarrow> (cat_error, catalog) result" where
  "RequireSourceTool q gid sid tool expected db =
     rbind (guard (gid = [] \<or> sid = [] \<or> tool = [] \<or> expected = []) (Missing ''source tool identity'')) (\<lambda>_.
     rbind (requireStaging q db gid) (\<lambda>_.
     rbind (sql q db ''require source tool'') (\<lambda>_.
     Inr (db\<lparr>generation_members := alist_put (gid, sid, tool)
       (upsert_member expected (map_of (generation_members db) (gid, sid, tool))) (generation_members db)\<rparr>))))"

definition invocation_identity :: "codec \<Rightarrow> string \<Rightarrow> string \<Rightarrow> string" where
  "invocation_identity cd sid tool = marshal_json cd (JObj [(''server_id'', JStr sid), (''tool_name'', JStr tool)])"

definition PutSourceTool :: "codec \<Rightarrow> sqlenv \<Rightarrow> string \<Rightarrow> string \<Rightarrow> mcp_tool option \<Rightarrow> bool \<Rightarrow> catalog \<Rightarrow>
    (cat_error, catalog \<times> string) result" where
  "PutSourceTool cd q gid sid tool complete db =
     rbind (guard (gid = [] \<or> sid = []) (Missing ''generation id and server id'')) (\<lambda>_.
     rbind (requireStaging q db gid) (\<lambda>_.
     case FingerprintTool cd tool of
       Inl e \<Rightarrow> Inl (Contract e)
     | Inr (fp, body) \<Rightarrow> let name = tool_Name (the tool); key = (gid, sid, name) in
         rbind (sql q db ''begin source tool transaction'') (\<lambda>_.
         rbind (sql q db ''load source member'') (\<lambda>_.
         case map_of (generation_members db) key of
           None \<Rightarrow> Inl (NotDeclared name)
         | Some m \<Rightarrow>
             rbind (sql q db ''store source tool'') (\<lambda>_.
             rbind (sql q db ''update source member'') (\<lambda>_.
             rbind (sql q db ''commit source tool'') (\<lambda>_.
             Inr (db\<lparr>source_tools := alist_put key \<lparr>st_fingerprint = fp, st_identity = invocation_identity cd sid name,
                       st_contract = body\<rparr> (source_tools db),
                     generation_members := alist_put key (m\<lparr>mem_actual := Some fp, mem_complete := complete\<rparr>)
                       (generation_members db)\<rparr>, fp))))))))"

definition RequireDependency :: "sqlenv \<Rightarrow> string \<Rightarrow> string \<Rightarrow> string \<Rightarrow> catalog \<Rightarrow> (cat_error, catalog) result" where
  "RequireDependency q gid key expected db =
     rbind (guard (gid = [] \<or> key = [] \<or> expected = []) (Missing ''dependency identity'')) (\<lambda>_.
     rbind (requireStaging q db gid) (\<lambda>_.
     rbind (sql q db ''require generation dependency'') (\<lambda>_.
     Inr (db\<lparr>generation_dependencies := alist_put (gid, key)
       (case map_of (generation_dependencies db) (gid, key) of
          None \<Rightarrow> \<lparr>dep_expected = expected, dep_actual = None, dep_required = True, dep_complete = False\<rparr>
        | Some d \<Rightarrow> d\<lparr>dep_expected := expected, dep_required := True,
            dep_complete := dep_actual d = Some expected \<and> dep_complete d\<rparr>) (generation_dependencies db)\<rparr>))))"

definition SatisfyDependency :: "sqlenv \<Rightarrow> string \<Rightarrow> string \<Rightarrow> string \<Rightarrow> bool \<Rightarrow> catalog \<Rightarrow> (cat_error, catalog) result" where
  "SatisfyDependency q gid key actual complete db =
     rbind (guard (actual = []) (Missing ''actual dependency fingerprint'')) (\<lambda>_.
     rbind (requireStaging q db gid) (\<lambda>_.
     rbind (sql q db ''satisfy generation dependency'') (\<lambda>_.
     case map_of (generation_dependencies db) (gid, key) of
       None \<Rightarrow> Inl (NotDeclared key)
     | Some d \<Rightarrow> Inr (db\<lparr>generation_dependencies := alist_put (gid, key)
         (d\<lparr>dep_actual := Some actual, dep_complete := complete\<rparr>) (generation_dependencies db)\<rparr>))))"

definition SetNeighborhoodContext :: "sqlenv \<Rightarrow> string \<Rightarrow> string \<Rightarrow> string \<Rightarrow> catalog \<Rightarrow> (cat_error, catalog) result" where
  "SetNeighborhoodContext q gid member fp db =
     rbind (guard (gid = [] \<or> member = [] \<or> fp = []) (Missing ''neighborhood context'')) (\<lambda>_.
     rbind (requireStaging q db gid) (\<lambda>_.
     rbind (sql q db ''store neighborhood context'') (\<lambda>_.
     Inr (db\<lparr>neighborhood_contexts := alist_put (gid, member) fp (neighborhood_contexts db)\<rparr>))))"

definition NeighborhoodContext :: "sqlenv \<Rightarrow> catalog \<Rightarrow> string \<Rightarrow> string \<Rightarrow> (cat_error, string) result" where
  "NeighborhoodContext q db gid member =
     rbind (guard (\<not> db_open db) CatalogClosed) (\<lambda>_.
     rbind (sql q db ''neighborhood context'') (\<lambda>_.
     case map_of (neighborhood_contexts db) (gid, member) of None \<Rightarrow> Inl ErrNoRows | Some fp \<Rightarrow> Inr fp))"

section \<open>Dirty partitions\<close>

definition MarkDirty :: "sqlenv \<Rightarrow> int \<Rightarrow> string \<Rightarrow> string \<Rightarrow> string \<Rightarrow> catalog \<Rightarrow> (cat_error, catalog) result" where
  "MarkDirty q now key reason observed db =
     rbind (guard (blank key \<or> blank reason) (Missing ''partition key and reason'')) (\<lambda>_.
     rbind (sql q db ''mark dirty partition'') (\<lambda>_.
     Inr (db\<lparr>dirty_partitions := alist_put key
       \<lparr>dp_Reason = reason, dp_ObservedFingerprint = observed, dp_MarkedAt = now\<rparr> (dirty_partitions db)\<rparr>)))"

definition ClearDirty :: "sqlenv \<Rightarrow> string \<Rightarrow> catalog \<Rightarrow> (cat_error, catalog) result" where
  "ClearDirty q key db =
     rbind (guard (key = []) (Missing ''partition key'')) (\<lambda>_.
     rbind (sql q db ''clear dirty partition'') (\<lambda>_.
     Inr (db\<lparr>dirty_partitions := alist_del key (dirty_partitions db)\<rparr>)))"

definition DirtyPartitions :: "sqlenv \<Rightarrow> catalog \<Rightarrow> (cat_error, (string \<times> DirtyPartition) list) result" where
  "DirtyPartitions q db = rbind (sql q db ''list dirty partitions'') (\<lambda>_. Inr (sort_key fst (dirty_partitions db)))"

definition ClearDirtyIfUnchanged :: "sqlenv \<Rightarrow> string \<Rightarrow> DirtyPartition \<Rightarrow> catalog \<Rightarrow> (cat_error, catalog \<times> bool) result" where
  "ClearDirtyIfUnchanged q key expected db =
     rbind (guard (\<not> db_open db) CatalogClosed) (\<lambda>_.
     rbind (guard (key = []) (Missing ''partition key'')) (\<lambda>_.
     rbind (sql q db ''clear unchanged dirty partition'') (\<lambda>_.
     if map_of (dirty_partitions db) key = Some expected
     then Inr (db\<lparr>dirty_partitions := alist_del key (dirty_partitions db)\<rparr>, True) else Inr (db, False))))"

section \<open>Promotion\<close>

definition generation_tools :: "catalog \<Rightarrow> string \<Rightarrow> ((string \<times> string) \<times> tool_row) list" where
  "generation_tools db gid = map (\<lambda>((g, s, t), r). ((s, t), r)) (filter (\<lambda>((g, s, t), r). g = gid) (source_tools db))"

definition verifySourcePayloads :: "codec \<Rightarrow> sqlenv \<Rightarrow> catalog \<Rightarrow> string \<Rightarrow> (cat_error, unit) result" where
  "verifySourcePayloads cd q db gid =
     rbind (sql q db ''read authoritative source payloads'') (\<lambda>_.
     guard (list_ex (\<lambda>(k, r). FingerprintJSON cd (st_contract r) \<noteq> st_fingerprint r) (generation_tools db gid))
       ErrSourceFingerprintMismatch)"

definition source_set_text :: "((string \<times> string) \<times> tool_row) list \<Rightarrow> string" where
  "source_set_text items = concat (map (\<lambda>((s, t), r). s @ CHR 0x00 # t @ CHR 0x00 # st_fingerprint r @ [CHR 0x0A]) items)"

definition source_set :: "codec \<Rightarrow> catalog \<Rightarrow> string \<Rightarrow> string" where
  "source_set cd db gid = ''sha256:'' @ sha256_hex cd (source_set_text (sort_key fst (generation_tools db gid)))"

definition sourceSetFingerprint :: "codec \<Rightarrow> sqlenv \<Rightarrow> catalog \<Rightarrow> string \<Rightarrow> (cat_error, string) result" where
  "sourceSetFingerprint cd q db gid = rbind (sql q db ''read source set for fingerprint'') (\<lambda>_. Inr (source_set cd db gid))"

definition members_of :: "catalog \<Rightarrow> string \<Rightarrow> ((string \<times> string \<times> string) \<times> member_row) list" where
  "members_of db gid = filter (\<lambda>((g, s, t), m). g = gid \<and> mem_required m) (generation_members db)"

text \<open>The two member queries: the LEFT JOIN of the first finds the members with no stored tool.\<close>

definition member_incomplete :: "catalog \<Rightarrow> (string \<times> string \<times> string) \<times> member_row \<Rightarrow> bool" where
  "member_incomplete db km = (case km of (k, m) \<Rightarrow>
     \<not> mem_complete m \<or> mem_actual m = None \<or> map_of (source_tools db) k = None)"

definition member_mismatch :: "catalog \<Rightarrow> (string \<times> string \<times> string) \<times> member_row \<Rightarrow> bool" where
  "member_mismatch db km = (case km of (k, m) \<Rightarrow> (case (map_of (source_tools db) k, mem_actual m) of
     (Some r, Some a) \<Rightarrow> mem_expected m \<noteq> a \<or> a \<noteq> st_fingerprint r | _ \<Rightarrow> False))"

definition dependency_failed :: "string \<Rightarrow> (string \<times> string) \<times> dependency_row \<Rightarrow> bool" where
  "dependency_failed gid kd = (case kd of ((g, k), d) \<Rightarrow>
     g = gid \<and> dep_required d \<and> (\<not> dep_complete d \<or> dep_actual d \<noteq> Some (dep_expected d)))"

definition artifact_failed :: "string \<Rightarrow> (string \<times> string \<times> string) \<times> artifact_link \<Rightarrow> bool" where
  "artifact_failed gid ka = (case ka of ((g, r, m), a) \<Rightarrow> g = gid \<and> ga_required a \<and> \<not> ga_complete a)"

definition activate :: "string \<Rightarrow> string \<Rightarrow> int \<Rightarrow> catalog \<Rightarrow> catalog" where
  "activate gid fp now db = (let db1 = set_status (\<lambda>_ g. gen_Status g = GenerationActive) GenerationSuperseded db in
     db1\<lparr>generations := map (\<lambda>(id, g). (id, if id = gid \<and> gen_Status g = GenerationStaging
       then g\<lparr>gen_Status := GenerationActive, gen_SourceSetFingerprint := fp, gen_ActivatedAt := Some now\<rparr> else g)) (generations db1)\<rparr>)"

definition Promote :: "codec \<Rightarrow> sqlenv \<Rightarrow> int \<Rightarrow> string \<Rightarrow> string \<Rightarrow> catalog \<Rightarrow> (cat_error, catalog) result" where
  "Promote cd q now gid h db =
     rbind (guard (gid = [] \<or> h = []) (Missing ''generation id and current routing state hash'')) (\<lambda>_.
     rbind (CheckIntegrity q db) (\<lambda>_.
     rbind (sql q db ''begin generation promotion'') (\<lambda>_.
     rbind (sql q db ''load promotion generation'') (\<lambda>_.
     case map_of (generations db) gid of None \<Rightarrow> Inl ErrGenerationNotFound | Some g \<Rightarrow>
     rbind (guard (gen_Status g \<noteq> GenerationStaging) ErrGenerationNotStaging) (\<lambda>_.
     rbind (guard (gen_RoutingStateHash g \<noteq> h) ErrRoutingStateChanged) (\<lambda>_.
     rbind (sql q db ''count dirty partitions'') (\<lambda>_.
     rbind (guard (dirty_partitions db \<noteq> []) ErrDirtyPartitions) (\<lambda>_.
     rbind (sql q db ''validate generation members'') (\<lambda>_.
     rbind (guard (list_ex (member_incomplete db) (members_of db gid)) ErrGenerationIncomplete) (\<lambda>_.
     rbind (sql q db ''validate source member fingerprints'') (\<lambda>_.
     rbind (guard (list_ex (member_mismatch db) (members_of db gid)) ErrSourceFingerprintMismatch) (\<lambda>_.
     rbind (verifySourcePayloads cd q db gid) (\<lambda>_.
     rbind (sql q db ''validate generation dependencies'') (\<lambda>_.
     rbind (guard (list_ex (dependency_failed gid) (generation_dependencies db)) ErrDependencyMismatch) (\<lambda>_.
     rbind (sql q db ''validate generation artifacts'') (\<lambda>_.
     rbind (guard (list_ex (artifact_failed gid) (generation_artifacts db)) ErrGenerationIncomplete) (\<lambda>_.
     rbind (sourceSetFingerprint cd q db gid) (\<lambda>fp.
     rbind (sql q db ''supersede previous active generation'') (\<lambda>_.
     rbind (sql q db ''activate generation'') (\<lambda>_.
     rbind (sql q db ''commit generation promotion'') (\<lambda>_.
     Inr (activate gid fp now db))))))))))))))))))))))"

definition ActiveCurrent :: "codec \<Rightarrow> sqlenv \<Rightarrow> catalog \<Rightarrow> string \<Rightarrow> (cat_error, (string \<times> Generation) option \<times> bool) result" where
  "ActiveCurrent cd q db h =
     rbind (CheckIntegrity q db) (\<lambda>_.
     case ActiveGeneration q db of
       Inl ErrGenerationNotFound \<Rightarrow> Inr (None, False)
     | Inl e \<Rightarrow> Inl e
     | Inr (gid, g) \<Rightarrow>
         if gen_RoutingStateHash g \<noteq> h \<or> gen_SourceSetFingerprint g = [] then Inr (Some (gid, g), False)
         else rbind (sql q db ''count dirty partitions'') (\<lambda>_.
           if dirty_partitions db \<noteq> [] then Inr (Some (gid, g), False)
           else rbind (sql q db ''begin active integrity check'') (\<lambda>_.
             rbind (verifySourcePayloads cd q db gid) (\<lambda>_.
             rbind (sourceSetFingerprint cd q db gid) (\<lambda>fp.
             rbind (sql q db ''finish active integrity check'') (\<lambda>_.
               Inr (Some (gid, g), fp = gen_SourceSetFingerprint g)))))))"

section \<open>Source servers and tools\<close>

record SourceServerContract =
  ssc_ServerID :: string
  ssc_Name :: string
  ssc_Mode :: string
  ssc_TransportType :: string

definition CanonicalSourceServer :: "ServerEntry \<Rightarrow> (cat_error, SourceServerContract) result" where
  "CanonicalSourceServer entry =
     (if se_ID entry = [] then Inl (Missing ''server id'')
      else if se_Name entry = [] then Inl (Missing ''server name'')
      else if tr_Type (se_Transport entry) = [] then Inl (Missing ''server transport type'')
      else Inr \<lparr>ssc_ServerID = se_ID entry, ssc_Name = se_Name entry, ssc_Mode = se_Mode entry,
             ssc_TransportType = tr_Type (se_Transport entry)\<rparr>)"

definition fingerprintSourceServer :: "codec \<Rightarrow> SourceServerContract \<Rightarrow> string \<times> string" where
  "fingerprintSourceServer cd c = (let body = marshal_json cd (JObj [(''server_id'', JStr (ssc_ServerID c)),
      (''name'', JStr (ssc_Name c)), (''mode'', JStr (ssc_Mode c)), (''transport_type'', JStr (ssc_TransportType c))]) in
     (FingerprintJSON cd body, body))"

definition PutSourceServer :: "codec \<Rightarrow> sqlenv \<Rightarrow> string \<Rightarrow> ServerEntry \<Rightarrow> catalog \<Rightarrow>
    (cat_error, catalog \<times> SourceServerContract \<times> string) result" where
  "PutSourceServer cd q gid entry db =
     rbind (guard (gid = []) (Missing ''generation id'')) (\<lambda>_.
     rbind (requireStaging q db gid) (\<lambda>_.
     rbind (CanonicalSourceServer entry) (\<lambda>c.
     case fingerprintSourceServer cd c of (fp, body) \<Rightarrow>
     rbind (sql q db ''store source server'') (\<lambda>_.
     Inr (db\<lparr>source_servers := alist_put (gid, ssc_ServerID c) \<lparr>ss_fingerprint = fp, ss_contract = body\<rparr>
            (source_servers db)\<rparr>, c, fp)))))"

text \<open>\<open>dec\<close> is \<^verbatim>\<open>json.Unmarshal\<close> into the contract struct.\<close>

definition SourceServer :: "codec \<Rightarrow> (string \<Rightarrow> SourceServerContract option) \<Rightarrow> sqlenv \<Rightarrow> catalog \<Rightarrow> string \<Rightarrow> string \<Rightarrow>
    (cat_error, SourceServerContract \<times> string) result" where
  "SourceServer cd dec q db gid sid =
     rbind (sql q db ''load source server'') (\<lambda>_.
     case map_of (source_servers db) (gid, sid) of
       None \<Rightarrow> Inl ErrNoRows
     | Some r \<Rightarrow> (case dec (ss_contract r) of
         None \<Rightarrow> Inl (ErrCatalogCorrupt ''decode source server'')
       | Some c \<Rightarrow> if FingerprintJSON cd (ss_contract r) \<noteq> ss_fingerprint r then Inl ErrSourceFingerprintMismatch
           else Inr (c, ss_fingerprint r)))"

record SourceToolRecord =
  rec_ServerID :: string
  rec_ToolName :: string
  rec_SourceFingerprint :: string
  rec_ContractJSON :: string

definition source_record :: "(string \<times> string) \<times> tool_row \<Rightarrow> SourceToolRecord" where
  "source_record x = (case x of ((s, t), r) \<Rightarrow> \<lparr>rec_ServerID = s, rec_ToolName = t,
     rec_SourceFingerprint = st_fingerprint r, rec_ContractJSON = st_contract r\<rparr>)"

definition SourceTools :: "codec \<Rightarrow> sqlenv \<Rightarrow> catalog \<Rightarrow> string \<Rightarrow> (cat_error, SourceToolRecord list) result" where
  "SourceTools cd q db gid =
     rbind (guard (\<not> db_open db) CatalogClosed) (\<lambda>_.
     rbind (guard (blank gid) (Missing ''generation id'')) (\<lambda>_.
     rbind (sql q db ''list source tools'') (\<lambda>_.
     let rows = sort_key fst (generation_tools db gid) in
     if list_ex (\<lambda>(k, r). FingerprintJSON cd (st_contract r) \<noteq> st_fingerprint r) rows
     then Inl ErrSourceFingerprintMismatch else Inr (map source_record rows))))"

section \<open>Clearing the index\<close>

text \<open>
  Deleting every generation removes the rows of all generation-scoped tables through the
  \<^verbatim>\<open>ON DELETE CASCADE\<close> of their foreign keys, and deleting the artifacts those of their dependencies.
\<close>

definition ClearIndex :: "sqlenv \<Rightarrow> catalog \<Rightarrow> (cat_error, catalog) result" where
  "ClearIndex q db =
     rbind (guard (\<not> db_open db) CatalogClosed) (\<lambda>_.
     rbind (sql q db ''begin clear index transaction'') (\<lambda>_.
     rbind (sql q db ''clear index generations'') (\<lambda>_.
     rbind (sql q db ''clear index artifacts'') (\<lambda>_.
     rbind (sql q db ''clear index tool contract cache'') (\<lambda>_.
     rbind (sql q db ''clear index dirty partitions'') (\<lambda>_.
     rbind (sql q db ''commit clear index transaction'') (\<lambda>_.
     Inr (schemaSQL\<lparr>continuation_mappings := continuation_mappings db\<rparr>))))))))"

end
