(* ===== verification/CatalogArtifacts.thy ===== *)
theory CatalogArtifacts
  imports Catalog
begin

text \<open>
  The content-addressed part of the catalog: \<^verbatim>\<open>internal/catalog\<close> (artifacts.go, required_artifacts.go,
  lexical.go). Artifacts are immutable and keyed by the fingerprint of what they were made from; a
  generation declares the artifacts it requires and links those that fulfil them.
\<close>

section \<open>Artifacts\<close>

text \<open>
  A dependency is a pair of its key and fingerprint. The loop of \<^verbatim>\<open>normalizeDependencies\<close> compares each
  with its predecessor in the sorted order. \<^verbatim>\<open>sort.Slice\<close> is not stable, but equal keys are an error.
\<close>

type_synonym ArtifactDependency = "string \<times> string"

fun dependency_loop :: "string option \<Rightarrow> ArtifactDependency list \<Rightarrow> cat_error option" where
  "dependency_loop prev [] = None"
| "dependency_loop prev ((k, f) # ds) =
     (if blank k \<or> blank f then Some (Missing ''artifact dependency key and fingerprint'')
      else if prev = Some k then Some (DuplicateKey k) else dependency_loop (Some k) ds)"

definition dependencies_json :: "ArtifactDependency list \<Rightarrow> json" where
  "dependencies_json ds = (if ds = [] then JNull
     else JArr (map (\<lambda>(k, f). JObj [(''key'', JStr k), (''fingerprint'', JStr f)]) ds))"

definition normalizeDependencies :: "codec \<Rightarrow> ArtifactDependency list \<Rightarrow> (cat_error, ArtifactDependency list \<times> string) result" where
  "normalizeDependencies cd ds = (let normalized = sort_key fst ds in
     case dependency_loop None normalized of
       Some e \<Rightarrow> Inl e
     | None \<Rightarrow> Inr (normalized, FingerprintJSON cd (marshal_json cd (dependencies_json normalized))))"

record ArtifactSpec =
  asp_Kind :: string
  asp_Payload :: string
  asp_Dependencies :: "ArtifactDependency list"
  asp_ContextFingerprint :: string

definition artifact_identity :: "codec \<Rightarrow> string \<Rightarrow> string \<Rightarrow> string \<Rightarrow> string \<Rightarrow> string" where
  "artifact_identity cd kind content dependency context = marshal_json cd (JObj [(''kind'', JStr kind),
     (''content_fingerprint'', JStr content), (''dependency_fingerprint'', JStr dependency), (''context_fingerprint'', JStr context)])"

definition artifactDependencies :: "catalog \<Rightarrow> string \<Rightarrow> ArtifactDependency list" where
  "artifactDependencies db key = sort_key fst (map (\<lambda>((a, k), f). (k, f)) (filter (\<lambda>((a, k), f). a = key) (artifact_dependencies db)))"

definition verifyArtifactDependencies :: "sqlenv \<Rightarrow> catalog \<Rightarrow> string \<Rightarrow> ArtifactDependency list \<Rightarrow> (cat_error, unit) result" where
  "verifyArtifactDependencies q db key expected =
     rbind (sql q db ''read artifact dependencies'') (\<lambda>_. guard (artifactDependencies db key \<noteq> expected) ErrDependencyMismatch)"

text \<open>\<^verbatim>\<open>INSERT OR IGNORE\<close>: a row whose key exists is left as it is.\<close>

definition insert_ignore :: "'k \<Rightarrow> 'v \<Rightarrow> ('k \<times> 'v) list \<Rightarrow> ('k \<times> 'v) list" where
  "insert_ignore k v m = (if map_of m k = None then alist_put k v m else m)"

fun store_dependencies :: "sqlenv \<Rightarrow> string \<Rightarrow> ArtifactDependency list \<Rightarrow> catalog \<Rightarrow> (cat_error, catalog) result" where
  "store_dependencies q key [] db = Inr db"
| "store_dependencies q key ((k, f) # ds) db =
     rbind (sql q db (''store artifact dependency '' @ k)) (\<lambda>_.
       store_dependencies q key ds (db\<lparr>artifact_dependencies := insert_ignore (key, k) f (artifact_dependencies db)\<rparr>))"

definition scanArtifact :: "catalog \<Rightarrow> string \<Rightarrow> (cat_error, string \<times> Artifact) result" where
  "scanArtifact db key = (case map_of (artifacts db) key of None \<Rightarrow> Inl ErrNoRows | Some a \<Rightarrow> Inr (key, a))"

definition PutArtifact :: "codec \<Rightarrow> sqlenv \<Rightarrow> int \<Rightarrow> ArtifactSpec \<Rightarrow> catalog \<Rightarrow> (cat_error, catalog \<times> string \<times> Artifact) result" where
  "PutArtifact cd q now spec db =
     rbind (guard (\<not> db_open db) CatalogClosed) (\<lambda>_.
     rbind (guard (blank (asp_Kind spec)) (Missing ''artifact kind'')) (\<lambda>_.
     rbind (normalizeDependencies cd (asp_Dependencies spec)) (\<lambda>(deps, depfp).
     let content = FingerprintJSON cd (asp_Payload spec);
         key = FingerprintJSON cd (artifact_identity cd (asp_Kind spec) content depfp (asp_ContextFingerprint spec));
         fresh = \<lparr>art_Kind = asp_Kind spec, art_ContentFingerprint = content, art_DependencyFingerprint = depfp,
           art_ContextFingerprint = asp_ContextFingerprint spec, art_Payload = asp_Payload spec, art_CreatedAt = now\<rparr> in
     rbind (sql q db ''begin artifact transaction'') (\<lambda>_.
     rbind (sql q db ''store artifact'') (\<lambda>_.
     let db1 = db\<lparr>artifacts := insert_ignore key fresh (artifacts db)\<rparr> in
     rbind (sql q db1 ''scan artifact'') (\<lambda>_.
     rbind (scanArtifact db1 key) (\<lambda>(k, stored).
     rbind (guard (art_Kind stored \<noteq> asp_Kind spec \<or> art_ContentFingerprint stored \<noteq> content \<or>
         art_DependencyFingerprint stored \<noteq> depfp \<or> art_ContextFingerprint stored \<noteq> asp_ContextFingerprint spec \<or>
         art_Payload stored \<noteq> asp_Payload spec) (ErrCatalogCorrupt ''artifact key collision'')) (\<lambda>_.
     rbind (store_dependencies q key deps db1) (\<lambda>db2.
     rbind (verifyArtifactDependencies q db2 key deps) (\<lambda>_.
     rbind (sql q db2 ''commit artifact'') (\<lambda>_.
     Inr (db2, key, stored))))))))))))"

definition ReusableArtifact :: "codec \<Rightarrow> sqlenv \<Rightarrow> catalog \<Rightarrow> string \<Rightarrow> ArtifactDependency list \<Rightarrow> string \<Rightarrow>
    (cat_error, string \<times> Artifact) result" where
  "ReusableArtifact cd q db key deps context =
     rbind (guard (blank key) (Missing ''artifact key'')) (\<lambda>_.
     rbind (normalizeDependencies cd deps) (\<lambda>(normalized, depfp).
     rbind (sql q db ''scan artifact'') (\<lambda>_.
     rbind (scanArtifact db key) (\<lambda>(k, a).
     rbind (guard (art_DependencyFingerprint a \<noteq> depfp \<or> art_ContextFingerprint a \<noteq> context) ErrDependencyMismatch) (\<lambda>_.
     rbind (guard (FingerprintJSON cd (art_Payload a) \<noteq> art_ContentFingerprint a) (ErrCatalogCorrupt ''artifact payload'')) (\<lambda>_.
     rbind (sql q db ''begin artifact dependency validation'') (\<lambda>_.
     rbind (verifyArtifactDependencies q db key normalized) (\<lambda>_.
     rbind (sql q db ''finish artifact dependency validation'') (\<lambda>_.
     Inr (key, a))))))))))"

text \<open>The foreign key on \<^verbatim>\<open>artifacts\<close> refuses a link to an artifact that does not exist.\<close>

definition AttachArtifact :: "sqlenv \<Rightarrow> string \<Rightarrow> string \<Rightarrow> string \<Rightarrow> string \<Rightarrow> bool \<Rightarrow> bool \<Rightarrow> catalog \<Rightarrow> (cat_error, catalog) result" where
  "AttachArtifact q gid role member key required complete db =
     rbind (guard (gid = [] \<or> role = [] \<or> member = [] \<or> key = []) (Missing ''artifact link'')) (\<lambda>_.
     rbind (requireStaging q db gid) (\<lambda>_.
     rbind (sql q db ''attach artifact'') (\<lambda>_.
     if map_of (artifacts db) key = None then Inl (SQLError ''attach artifact'')
     else Inr (db\<lparr>generation_artifacts := alist_put (gid, role, member)
       \<lparr>ga_artifact = key, ga_required = required, ga_complete = complete\<rparr> (generation_artifacts db)\<rparr>))))"

section \<open>Required artifacts\<close>

record RequiredArtifactSpec =
  ras_Role :: string
  ras_MemberKey :: string
  ras_Kind :: string
  ras_Dependencies :: "ArtifactDependency list"
  ras_ContextFingerprint :: string

definition artifactRequirementKey :: "codec \<Rightarrow> string \<Rightarrow> string \<Rightarrow> (cat_error, string) result" where
  "artifactRequirementKey cd role member =
     rbind (guard (blank role \<or> blank member) (Missing ''artifact role and member key'')) (\<lambda>_.
     Inr (''artifact:'' @ FingerprintJSON cd (marshal_json cd (JObj [(''role'', JStr role), (''member_key'', JStr member)]))))"

definition ArtifactRequirementFingerprint :: "codec \<Rightarrow> RequiredArtifactSpec \<Rightarrow> (cat_error, string) result" where
  "ArtifactRequirementFingerprint cd spec =
     rbind (guard (blank (ras_Kind spec)) (Missing ''artifact kind'')) (\<lambda>_.
     rbind (normalizeDependencies cd (ras_Dependencies spec)) (\<lambda>(deps, depfp).
     Inr (FingerprintJSON cd (marshal_json cd (JObj [(''kind'', JStr (ras_Kind spec)),
       (''dependency_fingerprint'', JStr depfp), (''context_fingerprint'', JStr (ras_ContextFingerprint spec))])))))"

definition RequireArtifact :: "codec \<Rightarrow> sqlenv \<Rightarrow> string \<Rightarrow> RequiredArtifactSpec \<Rightarrow> catalog \<Rightarrow> (cat_error, catalog \<times> string) result" where
  "RequireArtifact cd q gid spec db =
     rbind (guard (\<not> db_open db) CatalogClosed) (\<lambda>_.
     rbind (guard (ras_Role spec = [] \<or> ras_MemberKey spec = []) (Missing ''artifact role and member key'')) (\<lambda>_.
     rbind (artifactRequirementKey cd (ras_Role spec) (ras_MemberKey spec)) (\<lambda>key.
     rbind (ArtifactRequirementFingerprint cd spec) (\<lambda>fp.
     rbind (RequireDependency q gid key fp db) (\<lambda>db'. Inr (db', fp))))))"

definition FindReusableArtifact :: "codec \<Rightarrow> sqlenv \<Rightarrow> catalog \<Rightarrow> string \<Rightarrow> ArtifactDependency list \<Rightarrow> string \<Rightarrow>
    (cat_error, string \<times> Artifact) result" where
  "FindReusableArtifact cd q db kind deps context =
     rbind (guard (\<not> db_open db) CatalogClosed) (\<lambda>_.
     rbind (guard (blank kind) (Missing ''artifact kind'')) (\<lambda>_.
     rbind (normalizeDependencies cd deps) (\<lambda>(normalized, depfp).
     rbind (sql q db ''find reusable artifact'') (\<lambda>_.
     case sort (map fst (filter (\<lambda>(k, a). art_Kind a = kind \<and> art_DependencyFingerprint a = depfp \<and>
         art_ContextFingerprint a = context) (artifacts db))) of
       [] \<Rightarrow> Inl ErrNoRows
     | key # _ \<Rightarrow> rbind (ReusableArtifact cd q db key deps context) (\<lambda>(k, a).
         rbind (guard (art_Kind a \<noteq> kind) (ErrCatalogCorrupt ''reusable artifact kind changed'')) (\<lambda>_. Inr (k, a)))))))"

text \<open>
  \<^verbatim>\<open>FulfillArtifact\<close> attaches and satisfies in two statements with no transaction around them, so a failed
  second statement leaves the link behind: the result carries the database of either outcome.
\<close>

definition FulfillArtifact :: "codec \<Rightarrow> sqlenv \<Rightarrow> string \<Rightarrow> RequiredArtifactSpec \<Rightarrow> string \<Rightarrow> catalog \<Rightarrow> catalog \<times> cat_error option" where
  "FulfillArtifact cd q gid spec key db =
     (case rbind (guard (\<not> db_open db) CatalogClosed) (\<lambda>_.
           rbind (guard (blank key) (Missing ''artifact key'')) (\<lambda>_.
           rbind (artifactRequirementKey cd (ras_Role spec) (ras_MemberKey spec)) (\<lambda>rkey.
           rbind (ArtifactRequirementFingerprint cd spec) (\<lambda>rfp.
           rbind (sql q db ''load required artifact declaration'') (\<lambda>_.
           case map_of (generation_dependencies db) (gid, rkey) of
             None \<Rightarrow> Inl (NotDeclared rkey)
           | Some d \<Rightarrow>
               rbind (guard (\<not> dep_required d \<or> dep_expected d \<noteq> rfp) ErrDependencyMismatch) (\<lambda>_.
               rbind (ReusableArtifact cd q db key (ras_Dependencies spec) (ras_ContextFingerprint spec)) (\<lambda>(k, a).
               rbind (guard (art_Kind a \<noteq> ras_Kind spec) ErrDependencyMismatch) (\<lambda>_.
               rbind (AttachArtifact q gid (ras_Role spec) (ras_MemberKey spec) key True True db) (\<lambda>db1.
               Inr (db1, rkey, rfp)))))))))) of
        Inl e \<Rightarrow> (db, Some e)
      | Inr (db1, rkey, rfp) \<Rightarrow> (case SatisfyDependency q gid rkey rfp True db1 of
          Inl e \<Rightarrow> (db1, Some e) | Inr db2 \<Rightarrow> (db2, None)))"

record GenerationArtifact =
  gart_Role :: string
  gart_MemberKey :: string
  gart_Artifact :: "string \<times> Artifact"

definition artifact_rows :: "catalog \<Rightarrow> string \<Rightarrow> string \<Rightarrow> ((string \<times> string) \<times> string) list" where
  "artifact_rows db gid role = sort_key fst (map (\<lambda>((g, r, m), a). ((r, m), ga_artifact a))
     (filter (\<lambda>((g, r, m), a). g = gid \<and> ga_complete a \<and> (role = [] \<or> r = role) \<and> map_of (artifacts db) (ga_artifact a) \<noteq> None)
        (generation_artifacts db)))"

fun reload_artifacts :: "codec \<Rightarrow> sqlenv \<Rightarrow> catalog \<Rightarrow> ((string \<times> string) \<times> string) list \<Rightarrow> (cat_error, GenerationArtifact list) result" where
  "reload_artifacts cd q db [] = Inr []"
| "reload_artifacts cd q db (((r, m), key) # rows) =
     rbind (sql q db ''load artifact dependencies'') (\<lambda>_.
     rbind (ReusableArtifact cd q db key (artifactDependencies db key)
       (case map_of (artifacts db) key of Some a \<Rightarrow> art_ContextFingerprint a | None \<Rightarrow> [])) (\<lambda>a.
     rbind (reload_artifacts cd q db rows) (\<lambda>rest.
     Inr (\<lparr>gart_Role = r, gart_MemberKey = m, gart_Artifact = a\<rparr> # rest))))"

definition GenerationArtifacts :: "codec \<Rightarrow> sqlenv \<Rightarrow> catalog \<Rightarrow> string \<Rightarrow> string \<Rightarrow> (cat_error, GenerationArtifact list) result" where
  "GenerationArtifacts cd q db gid role =
     rbind (guard (\<not> db_open db) CatalogClosed) (\<lambda>_.
     rbind (sql q db ''list generation artifacts'') (\<lambda>_.
     reload_artifacts cd q db (artifact_rows db gid role)))"

section \<open>Lexical records\<close>

definition PutLexicalRecord :: "codec \<Rightarrow> sqlenv \<Rightarrow> string \<Rightarrow> string \<Rightarrow> string \<Rightarrow> catalog \<Rightarrow>
    (cat_error, catalog \<times> string \<times> string \<times> string) result" where
  "PutLexicalRecord cd q gid member txt db =
     rbind (guard (\<not> db_open db) CatalogClosed) (\<lambda>_.
     rbind (guard (blank member) (Missing ''lexical member key'')) (\<lambda>_.
     rbind (requireStaging q db gid) (\<lambda>_.
     rbind (sql q db ''store lexical record'') (\<lambda>_.
     let fp = FingerprintJSON cd txt in
     Inr (db\<lparr>lexical_records := alist_put (gid, member) (fp, txt) (lexical_records db)\<rparr>, member, fp, txt)))))"

definition LexicalRecords :: "codec \<Rightarrow> sqlenv \<Rightarrow> catalog \<Rightarrow> string \<Rightarrow> (cat_error, (string \<times> string \<times> string) list) result" where
  "LexicalRecords cd q db gid =
     rbind (guard (\<not> db_open db) CatalogClosed) (\<lambda>_.
     rbind (sql q db ''list lexical records'') (\<lambda>_.
     let rows = sort_key fst (map (\<lambda>((g, m), (f, t)). (m, f, t)) (filter (\<lambda>((g, m), r). g = gid) (lexical_records db))) in
     if list_ex (\<lambda>(m, f, t). FingerprintJSON cd t \<noteq> f) rows then Inl (ErrCatalogCorrupt ''lexical record'') else Inr rows))"

end
