(* ===== verification/CatalogBatches.thy ===== *)
theory CatalogBatches
  imports Catalog
begin

text \<open>
  Enrichment batches and continuation mappings: \<^verbatim>\<open>internal/catalog\<close> (enrichment.go,
  enrichment_queries.go, continuations.go). A batch is an immutable work item that accepts one response;
  a continuation mapping is immutable until it expires. Times of continuations are in nanoseconds,
  stored in milliseconds.
\<close>

section \<open>Enrichment batches\<close>

definition BatchToolEnrichment :: string where "BatchToolEnrichment = ''tool_enrichment''"
definition BatchCapabilityReconciliation :: string where "BatchCapabilityReconciliation = ''capability_reconciliation''"
definition BatchAmbiguityReview :: string where "BatchAmbiguityReview = ''ambiguity_review''"

definition validBatchKind :: "string \<Rightarrow> bool" where
  "validBatchKind kind \<longleftrightarrow> kind \<in> set [BatchToolEnrichment, BatchCapabilityReconciliation, BatchAmbiguityReview]"

definition canonicalJSON :: "codec \<Rightarrow> string \<Rightarrow> (cat_error, string) result" where
  "canonicalJSON cd s = (case decode_json cd s of None \<Rightarrow> Inl NotJSON | Some j \<Rightarrow> Inr (marshal_json cd j))"

record EnrichmentBatchSpec =
  ebs_ID :: string
  ebs_GenerationID :: string
  ebs_Kind :: string
  ebs_BatchKey :: string
  ebs_Required :: bool
  ebs_RequestJSON :: string

text \<open>\<^verbatim>\<open>INSERT OR IGNORE\<close> also ignores a row whose (generation, kind, batch key) exists under another ID.\<close>

definition batch_taken :: "EnrichmentBatchSpec \<Rightarrow> catalog \<Rightarrow> bool" where
  "batch_taken spec db \<longleftrightarrow> list_ex (\<lambda>(i, b). i = ebs_ID spec \<or> eb_GenerationID b = ebs_GenerationID spec \<and>
     eb_Kind b = ebs_Kind spec \<and> eb_BatchKey b = ebs_BatchKey spec) (enrichment_batches db)"

definition batch_status :: "sqlenv \<Rightarrow> catalog \<Rightarrow> string \<Rightarrow> (cat_error, unit) result" where
  "batch_status q db gid = rbind (sql q db ''load enrichment generation status'') (\<lambda>_.
     case map_of (generations db) gid of None \<Rightarrow> Inl ErrNoRows
     | Some g \<Rightarrow> guard (gen_Status g \<noteq> GenerationStaging) ErrGenerationNotStaging)"

definition batch_row :: "codec \<Rightarrow> EnrichmentBatchSpec \<Rightarrow> string \<Rightarrow> EnrichmentBatch" where
  "batch_row cd spec request = \<lparr>eb_GenerationID = ebs_GenerationID spec, eb_Kind = ebs_Kind spec, eb_BatchKey = ebs_BatchKey spec,
     eb_Required = ebs_Required spec, eb_RequestFingerprint = FingerprintJSON cd request, eb_RequestJSON = request, eb_Accepted = None\<rparr>"

definition insert_batch :: "EnrichmentBatchSpec \<Rightarrow> EnrichmentBatch \<Rightarrow> catalog \<Rightarrow> catalog" where
  "insert_batch spec b db = (if batch_taken spec db then db
     else db\<lparr>enrichment_batches := enrichment_batches db @ [(ebs_ID spec, b)]\<rparr>)"

text \<open>The body of the loop for one specification, with the generations and IDs met so far.\<close>

definition put_batch :: "codec \<Rightarrow> sqlenv \<Rightarrow> string list \<Rightarrow> string list \<Rightarrow> EnrichmentBatchSpec \<Rightarrow> catalog \<Rightarrow> (cat_error, catalog) result" where
  "put_batch cd q validated seen spec db =
     rbind (guard (blank (ebs_ID spec) \<or> blank (ebs_GenerationID spec) \<or> blank (ebs_BatchKey spec)) (Missing ''batch identity'')) (\<lambda>_.
     rbind (guard (\<not> validBatchKind (ebs_Kind spec)) (InvalidKind (ebs_Kind spec))) (\<lambda>_.
     rbind (if ebs_GenerationID spec \<in> set validated then Inr () else batch_status q db (ebs_GenerationID spec)) (\<lambda>_.
     rbind (guard (ebs_ID spec \<in> set seen) (DuplicateKey (ebs_ID spec))) (\<lambda>_.
     rbind (canonicalJSON cd (ebs_RequestJSON spec)) (\<lambda>request.
     rbind (sql q db (''store enrichment batch '' @ ebs_ID spec)) (\<lambda>_.
     rbind (sql q db (''verify enrichment batch '' @ ebs_ID spec)) (\<lambda>_.
     let fresh = batch_row cd spec request; db1 = insert_batch spec fresh db in
     case map_of (enrichment_batches db1) (ebs_ID spec) of
       None \<Rightarrow> Inl ErrNoRows
     | Some b \<Rightarrow> if b\<lparr>eb_Accepted := None\<rparr> = fresh then Inr db1 else Inl ErrEnrichmentBatchConflict)))))))"

fun put_batches :: "codec \<Rightarrow> sqlenv \<Rightarrow> string list \<Rightarrow> string list \<Rightarrow> EnrichmentBatchSpec list \<Rightarrow> catalog \<Rightarrow> (cat_error, catalog) result" where
  "put_batches cd q validated seen [] db = Inr db"
| "put_batches cd q validated seen (spec # specs) db =
     rbind (put_batch cd q validated seen spec db)
       (put_batches cd q (ebs_GenerationID spec # validated) (ebs_ID spec # seen) specs)"

definition PutEnrichmentBatches :: "codec \<Rightarrow> sqlenv \<Rightarrow> EnrichmentBatchSpec list \<Rightarrow> catalog \<Rightarrow> (cat_error, catalog) result" where
  "PutEnrichmentBatches cd q specs db =
     rbind (guard (\<not> db_open db) CatalogClosed) (\<lambda>_.
     if specs = [] then Inr db
     else rbind (sql q db ''begin enrichment batch transaction'') (\<lambda>_.
       rbind (put_batches cd q [] [] (sort_key ebs_ID specs) db) (\<lambda>db1.
       rbind (sql q db1 ''commit enrichment batches'') (\<lambda>_. Inr db1))))"

definition Catalog_EnrichmentBatch :: "sqlenv \<Rightarrow> catalog \<Rightarrow> string \<Rightarrow> (cat_error, string \<times> EnrichmentBatch) result" where
  "Catalog_EnrichmentBatch q db bid =
     rbind (guard (\<not> db_open db) CatalogClosed) (\<lambda>_.
     rbind (sql q db ''scan enrichment batch'') (\<lambda>_.
     case map_of (enrichment_batches db) bid of None \<Rightarrow> Inl ErrNoRows | Some b \<Rightarrow> Inr (bid, b)))"

definition batches_where :: "(EnrichmentBatch \<Rightarrow> bool) \<Rightarrow> catalog \<Rightarrow> (string \<times> EnrichmentBatch) list" where
  "batches_where p db = sort_key (\<lambda>(i, b). (eb_BatchKey b, i)) (filter (\<lambda>(i, b). p b) (enrichment_batches db))"

definition EnrichmentBatchCount :: "sqlenv \<Rightarrow> catalog \<Rightarrow> string \<Rightarrow> string \<Rightarrow> (cat_error, nat) result" where
  "EnrichmentBatchCount q db gid kind =
     rbind (guard (\<not> db_open db) CatalogClosed) (\<lambda>_.
     rbind (sql q db ''count enrichment batches'') (\<lambda>_.
     Inr (length (filter (\<lambda>(i, b). eb_GenerationID b = gid \<and> eb_Kind b = kind) (enrichment_batches db)))))"

definition PendingEnrichmentBatches :: "sqlenv \<Rightarrow> catalog \<Rightarrow> string \<Rightarrow> string \<Rightarrow> int \<Rightarrow> (cat_error, (string \<times> EnrichmentBatch) list) result" where
  "PendingEnrichmentBatches q db gid kind limit =
     rbind (guard (\<not> db_open db) CatalogClosed) (\<lambda>_.
     rbind (sql q db ''list pending enrichment batches'') (\<lambda>_.
     Inr (take (nat (if limit \<le> 0 then 1 else limit))
       (batches_where (\<lambda>b. eb_GenerationID b = gid \<and> eb_Kind b = kind \<and> eb_Accepted b = None) db))))"

definition AcceptedEnrichmentBatches :: "sqlenv \<Rightarrow> catalog \<Rightarrow> string \<Rightarrow> string \<Rightarrow> (cat_error, (string \<times> EnrichmentBatch) list) result" where
  "AcceptedEnrichmentBatches q db gid kind =
     rbind (guard (\<not> db_open db) CatalogClosed) (\<lambda>_.
     rbind (guard (gid = [] \<or> \<not> validBatchKind kind) (Missing ''generation id and valid enrichment batch kind'')) (\<lambda>_.
     rbind (sql q db ''list accepted enrichment batches'') (\<lambda>_.
     Inr (batches_where (\<lambda>b. eb_GenerationID b = gid \<and> eb_Kind b = kind \<and> eb_Accepted b \<noteq> None) db))))"

record EnrichmentBatchCounts =
  PendingRequired :: nat
  PendingOptional :: nat
  AcceptedRequired :: nat
  AcceptedOptional :: nat

definition Catalog_EnrichmentBatchCounts :: "sqlenv \<Rightarrow> catalog \<Rightarrow> string \<Rightarrow> (cat_error, EnrichmentBatchCounts) result" where
  "Catalog_EnrichmentBatchCounts q db gid =
     rbind (guard (\<not> db_open db) CatalogClosed) (\<lambda>_.
     rbind (sql q db ''count enrichment batch states'') (\<lambda>_.
     let n = (\<lambda>r a. length (filter (\<lambda>(i, b). eb_GenerationID b = gid \<and> eb_Required b = r \<and>
           (eb_Accepted b \<noteq> None) = a) (enrichment_batches db))) in
     Inr \<lparr>PendingRequired = n True False, PendingOptional = n False False,
          AcceptedRequired = n True True, AcceptedOptional = n False True\<rparr>))"

definition AcceptEnrichmentBatch :: "codec \<Rightarrow> sqlenv \<Rightarrow> int \<Rightarrow> string \<Rightarrow> string \<Rightarrow> catalog \<Rightarrow>
    (cat_error, catalog \<times> EnrichmentBatch \<times> bool) result" where
  "AcceptEnrichmentBatch cd q now bid responseJSON db =
     rbind (guard (\<not> db_open db) CatalogClosed) (\<lambda>_.
     rbind (canonicalJSON cd responseJSON) (\<lambda>response.
     let fp = FingerprintJSON cd response in
     rbind (sql q db ''begin enrichment submission'') (\<lambda>_.
     rbind (sql q db ''scan enrichment batch'') (\<lambda>_.
     case map_of (enrichment_batches db) bid of None \<Rightarrow> Inl ErrNoRows | Some b \<Rightarrow>
     (case eb_Accepted b of
        Some (afp, aresp, t) \<Rightarrow>
          if afp = fp \<and> aresp = response
          then rbind (sql q db ''finish idempotent enrichment submission'') (\<lambda>_. Inr (db, b, True))
          else Inl ErrEnrichmentBatchConflict
      | None \<Rightarrow>
          rbind (sql q db ''load enrichment generation status'') (\<lambda>_.
          case map_of (generations db) (eb_GenerationID b) of None \<Rightarrow> Inl ErrNoRows | Some g \<Rightarrow>
          rbind (guard (if eb_Kind b = BatchAmbiguityReview then gen_Status g = GenerationSuperseded
                        else gen_Status g \<noteq> GenerationStaging) ErrGenerationNotStaging) (\<lambda>_.
          rbind (sql q db ''accept enrichment batch'') (\<lambda>_.
          rbind (sql q db ''commit enrichment submission'') (\<lambda>_.
          let b' = b\<lparr>eb_Accepted := Some (fp, response, now)\<rparr> in
          Inr (db\<lparr>enrichment_batches := alist_put bid b' (enrichment_batches db)\<rparr>, b', False))))))))))"

section \<open>Continuation mappings\<close>

definition ContinuationTask :: string where "ContinuationTask = ''task''"
definition ContinuationResource :: string where "ContinuationResource = ''resource''"

definition UnixMilli :: "int \<Rightarrow> int" where
  "UnixMilli ns = ns div 1000000"

text \<open>
  A mapping in Go values carries nanoseconds; the row carries milliseconds. \<open>created\<close> is None for the zero time.
\<close>

record continuation_in =
  ci_ID :: string
  ci_Kind :: string
  ci_ServerID :: string
  ci_Payload :: string
  ci_CreatedAt :: "int option"
  ci_ExpiresAt :: "int option"

definition sameContinuationExpiry :: "int option \<Rightarrow> int option \<Rightarrow> bool" where
  "sameContinuationExpiry a b = (a = b)"

text \<open>\<^verbatim>\<open>scanContinuation\<close> turns the stored milliseconds into nanoseconds.\<close>

definition stored_expiry :: "ContinuationMapping \<Rightarrow> int option" where
  "stored_expiry m = map_option (\<lambda>ms. ms * 1000000) (cm_ExpiresAt m)"

definition continuationByID :: "sqlenv \<Rightarrow> catalog \<Rightarrow> string \<Rightarrow> (cat_error, string \<times> ContinuationMapping) result" where
  "continuationByID q db mid =
     (if mid = [] then Inl ErrContinuationNotFound
      else rbind (sql q db ''continuation by id'') (\<lambda>_.
        case map_of (continuation_mappings db) mid of None \<Rightarrow> Inl ErrContinuationNotFound | Some m \<Rightarrow> Inr (mid, m)))"

text \<open>The checks before the transaction, and the row they lead to.\<close>

definition continuation_row :: "codec \<Rightarrow> int \<Rightarrow> continuation_in \<Rightarrow> (cat_error, string \<times> ContinuationMapping) result" where
  "continuation_row cd now m = (let mid = TrimSpace (ci_ID m); sid = TrimSpace (ci_ServerID m);
       created = (case ci_CreatedAt m of None \<Rightarrow> now | Some t \<Rightarrow> t) in
     rbind (guard (mid = [] \<or> sid = []) (Missing ''mapping id and server id'')) (\<lambda>_.
     rbind (guard (ci_Kind m \<noteq> ContinuationTask \<and> ci_Kind m \<noteq> ContinuationResource) (InvalidKind (ci_Kind m))) (\<lambda>_.
     rbind (canonicalJSON cd (ci_Payload m)) (\<lambda>payload.
     rbind (guard (case ci_ExpiresAt m of None \<Rightarrow> False | Some e \<Rightarrow> \<not> created < e) ExpiryNotAfterCreation) (\<lambda>_.
     Inr (mid, \<lparr>cm_Kind = ci_Kind m, cm_ServerID = sid, cm_Payload = payload, cm_CreatedAt = UnixMilli created,
           cm_ExpiresAt = map_option UnixMilli (ci_ExpiresAt m)\<rparr>))))))"

definition continuation_differs :: "continuation_in \<Rightarrow> ContinuationMapping \<Rightarrow> ContinuationMapping \<Rightarrow> bool" where
  "continuation_differs m fresh stored \<longleftrightarrow> cm_Kind stored \<noteq> cm_Kind fresh \<or> cm_ServerID stored \<noteq> cm_ServerID fresh \<or>
     cm_Payload stored \<noteq> cm_Payload fresh \<or> \<not> sameContinuationExpiry (stored_expiry stored) (ci_ExpiresAt m)"

definition PutContinuation :: "codec \<Rightarrow> sqlenv \<Rightarrow> int \<Rightarrow> continuation_in \<Rightarrow> catalog \<Rightarrow>
    (cat_error, catalog \<times> (string \<times> ContinuationMapping) \<times> bool) result" where
  "PutContinuation cd q now m db =
     rbind (guard (\<not> db_open db) CatalogClosed) (\<lambda>_.
     rbind (continuation_row cd now m) (\<lambda>(mid, fresh).
     rbind (sql q db ''begin continuation write'') (\<lambda>_.
     rbind (sql q db ''store continuation'') (\<lambda>_.
     let existed = map_of (continuation_mappings db) mid \<noteq> None;
         db1 = (if existed then db else db\<lparr>continuation_mappings := alist_put mid fresh (continuation_mappings db)\<rparr>) in
     rbind (continuationByID q db1 mid) (\<lambda>(i, stored).
     rbind (guard (existed \<and> continuation_differs m fresh stored) ErrContinuationConflict) (\<lambda>_.
     rbind (sql q db1 ''commit continuation'') (\<lambda>_.
     Inr (db1, (mid, stored), existed))))))))"

text \<open>An expired mapping is deleted on the way to the error; the deletion itself may fail silently.\<close>

definition Catalog_Continuation :: "sqlenv \<Rightarrow> int \<Rightarrow> string \<Rightarrow> catalog \<Rightarrow> catalog \<times> (cat_error, string \<times> ContinuationMapping) result" where
  "Catalog_Continuation q now mid db =
     (if \<not> db_open db then (db, Inl CatalogClosed)
      else case continuationByID q db (TrimSpace mid) of
        Inl e \<Rightarrow> (db, Inl e)
      | Inr (i, m) \<Rightarrow> (case stored_expiry m of
          Some e \<Rightarrow> if \<not> now < e
            then ((if sql_fails q ''delete continuation'' then db
                   else db\<lparr>continuation_mappings := alist_del i (continuation_mappings db)\<rparr>), Inl ErrContinuationExpired)
            else (db, Inr (i, m))
        | None \<Rightarrow> (db, Inr (i, m))))"

definition Continuations :: "sqlenv \<Rightarrow> int \<Rightarrow> string \<Rightarrow> catalog \<Rightarrow> (cat_error, (string \<times> ContinuationMapping) list) result" where
  "Continuations q now kind db =
     rbind (guard (\<not> db_open db) CatalogClosed) (\<lambda>_.
     rbind (guard (kind \<noteq> ContinuationTask \<and> kind \<noteq> ContinuationResource) (InvalidKind kind)) (\<lambda>_.
     rbind (sql q db ''list continuations'') (\<lambda>_.
     Inr (sort_key (\<lambda>(i, m). (cm_CreatedAt m, i)) (filter (\<lambda>(i, m). cm_Kind m = kind \<and>
       (case cm_ExpiresAt m of None \<Rightarrow> True | Some e \<Rightarrow> e > UnixMilli now)) (continuation_mappings db))))))"

definition DeleteContinuation :: "sqlenv \<Rightarrow> string \<Rightarrow> catalog \<Rightarrow> (cat_error, catalog) result" where
  "DeleteContinuation q mid db =
     rbind (guard (\<not> db_open db) CatalogClosed) (\<lambda>_.
     rbind (guard (TrimSpace mid = []) (Missing ''mapping id'')) (\<lambda>_.
     rbind (sql q db ''delete continuation'') (\<lambda>_.
     Inr (db\<lparr>continuation_mappings := alist_del (TrimSpace mid) (continuation_mappings db)\<rparr>))))"

definition DeleteExpiredContinuations :: "sqlenv \<Rightarrow> int \<Rightarrow> catalog \<Rightarrow> (cat_error, catalog \<times> nat) result" where
  "DeleteExpiredContinuations q now db =
     rbind (guard (\<not> db_open db) CatalogClosed) (\<lambda>_.
     rbind (sql q db ''delete expired continuations'') (\<lambda>_.
     let expired = (\<lambda>(i, m). case cm_ExpiresAt m of None \<Rightarrow> False | Some e \<Rightarrow> e \<le> UnixMilli now) in
     Inr (db\<lparr>continuation_mappings := filter (\<lambda>x. \<not> expired x) (continuation_mappings db)\<rparr>,
          length (filter expired (continuation_mappings db)))))"

end
