(* ===== verification/CatalogTools.thy ===== *)
theory CatalogTools
  imports CatalogArtifacts
begin

text \<open>
  The generation-independent tool cache: \<^verbatim>\<open>internal/catalog/tool_cache.go\<close>. A live tool list of a server is
  reconciled with the cache: tools that are not advertised become unavailable and are never deleted, and a
  tool whose meaning is that of the indexed contract keeps the indexed bytes.
\<close>

record observedToolContract =
  otc_name :: string
  otc_fingerprint :: string
  otc_semantic :: string
  otc_body :: string

record ToolObservationResult =
  SemanticChanged :: bool
  AvailabilityChanged :: bool

definition observedContract :: "codec \<Rightarrow> mcp_tool \<Rightarrow> (cat_error, observedToolContract) result" where
  "observedContract cd tool = (case FingerprintTool cd (Some tool) of
     Inl e \<Rightarrow> Inl (Contract e)
   | Inr (fp, body) \<Rightarrow> (case SemanticFingerprintJSON cd body of
       Inl e \<Rightarrow> Inl (Contract e)
     | Inr (sem, c) \<Rightarrow> Inr \<lparr>otc_name = tool_Name tool, otc_fingerprint = fp, otc_semantic = sem, otc_body = body\<rparr>))"

definition storedContract :: "codec \<Rightarrow> string \<Rightarrow> string \<Rightarrow> string \<Rightarrow> (cat_error, observedToolContract) result" where
  "storedContract cd name fp body = (case SemanticFingerprintJSON cd body of
     Inl e \<Rightarrow> Inl (Contract e)
   | Inr (sem, c) \<Rightarrow> Inr \<lparr>otc_name = name, otc_fingerprint = fp, otc_semantic = sem, otc_body = body\<rparr>)"

text \<open>The first loop: every live tool has a name, and no name occurs twice.\<close>

fun observe_tools :: "codec \<Rightarrow> mcp_tool option list \<Rightarrow> (string \<times> observedToolContract) list \<Rightarrow>
    (cat_error, (string \<times> observedToolContract) list) result" where
  "observe_tools cd [] acc = Inr acc"
| "observe_tools cd (t # ts) acc = (case t of
     None \<Rightarrow> Inl (Missing ''observed tool name'')
   | Some tool \<Rightarrow>
       if blank (tool_Name tool) then Inl (Missing ''observed tool name'')
       else if map_of acc (tool_Name tool) \<noteq> None then Inl (DuplicateKey (tool_Name tool))
       else rbind (observedContract cd tool) (\<lambda>c. observe_tools cd ts (acc @ [(tool_Name tool, c)])))"

text \<open>The rows of the server's tools in the generations of one status, newest generation first.\<close>

definition status_of :: "catalog \<Rightarrow> string \<Rightarrow> GenerationStatus option" where
  "status_of db gid = map_option gen_Status (map_of (generations db) gid)"

definition created_of :: "catalog \<Rightarrow> string \<Rightarrow> int" where
  "created_of db gid = (case map_of (generations db) gid of None \<Rightarrow> 0 | Some g \<Rightarrow> gen_CreatedAt g)"

definition server_tools :: "catalog \<Rightarrow> GenerationStatus \<Rightarrow> string \<Rightarrow> (string \<times> tool_row) list" where
  "server_tools db st sid = map (\<lambda>((g, s, t), r). (t, r))
     (rev (sort_key (\<lambda>((g, s, t), r). (created_of db g, g))
       (filter (\<lambda>((g, s, t), r). s = sid \<and> status_of db g = Some st) (source_tools db))))"

definition authoritativeBaseline :: "catalog \<Rightarrow> string \<Rightarrow> bool" where
  "authoritativeBaseline db sid = list_ex (\<lambda>((g, s), r). s = sid \<and>
     (status_of db g = Some GenerationActive \<or> status_of db g = Some GenerationStaging)) (source_servers db)"

fun seed_cache :: "int \<Rightarrow> string \<Rightarrow> (string \<times> tool_row) list \<Rightarrow> ((string \<times> string) \<times> cache_row) list \<Rightarrow>
    ((string \<times> string) \<times> cache_row) list" where
  "seed_cache now sid [] cache = cache"
| "seed_cache now sid ((t, r) # rows) cache = seed_cache now sid rows (insert_ignore (sid, t)
     \<lparr>tc_fingerprint = st_fingerprint r, tc_contract = st_contract r, tc_available = True, tc_last_seen = now\<rparr> cache)"

text \<open>The cached contracts of the server, with their availability.\<close>

fun load_stored :: "codec \<Rightarrow> ((string \<times> string) \<times> cache_row) list \<Rightarrow> (cat_error, (string \<times> observedToolContract \<times> bool) list) result" where
  "load_stored cd [] = Inr []"
| "load_stored cd (((s, t), r) # rows) =
     rbind (storedContract cd t (tc_fingerprint r) (tc_contract r)) (\<lambda>c.
     rbind (load_stored cd rows) (\<lambda>rest. Inr ((t, c, tc_available r) # rest)))"

text \<open>The newest authoritative contract per tool name: the first of the newest-first rows wins.\<close>

fun load_contracts :: "codec \<Rightarrow> (string \<times> tool_row) list \<Rightarrow> (cat_error, (string \<times> observedToolContract) list) result" where
  "load_contracts cd [] = Inr []"
| "load_contracts cd ((t, r) # rows) =
     rbind (storedContract cd t (st_fingerprint r) (st_contract r)) (\<lambda>c.
     rbind (load_contracts cd rows) (\<lambda>rest. Inr ((t, c) # rest)))"

text \<open>One live tool: which bytes are kept, and whether the observation changes the meaning.\<close>

definition canonical_contract :: "observedToolContract option \<Rightarrow> observedToolContract option \<Rightarrow>
    (observedToolContract \<times> bool) option \<Rightarrow> observedToolContract \<Rightarrow> observedToolContract \<times> bool" where
  "canonical_contract active staging previous tool =
     (if (\<exists>a\<in>set_option active. otc_semantic a = otc_semantic tool) then (the active, True)
      else if (\<exists>a\<in>set_option staging. otc_semantic a = otc_semantic tool) then (the staging, True)
      else if (\<exists>p\<in>set_option previous. otc_semantic (fst p) = otc_semantic tool) then (fst (the previous), False)
      else (tool, False))"

definition tool_changes :: "bool \<Rightarrow> bool \<Rightarrow> (observedToolContract \<times> bool) option \<Rightarrow> observedToolContract \<Rightarrow>
    ToolObservationResult \<Rightarrow> ToolObservationResult" where
  "tool_changes baseline matches previous tool res =
     \<lparr>SemanticChanged = SemanticChanged res \<or> (baseline \<and> \<not> matches \<and>
        (case previous of None \<Rightarrow> True | Some p \<Rightarrow> otc_semantic (fst p) \<noteq> otc_semantic tool)),
      AvailabilityChanged = AvailabilityChanged res \<or> (case previous of None \<Rightarrow> True | Some p \<Rightarrow> \<not> snd p)\<rparr>"

fun apply_observed :: "sqlenv \<Rightarrow> int \<Rightarrow> string \<Rightarrow> bool \<Rightarrow> (string \<rightharpoonup> observedToolContract) \<Rightarrow> (string \<rightharpoonup> observedToolContract) \<Rightarrow>
    (string \<rightharpoonup> observedToolContract \<times> bool) \<Rightarrow> (string \<times> observedToolContract) list \<Rightarrow> catalog \<Rightarrow> ToolObservationResult \<Rightarrow>
    (cat_error, catalog \<times> ToolObservationResult) result" where
  "apply_observed q now sid baseline active staging stored [] db res = Inr (db, res)"
| "apply_observed q now sid baseline active staging stored ((name, tool) # tools) db res =
     (case canonical_contract (active name) (staging name) (stored name) tool of (c, matches) \<Rightarrow>
        rbind (sql q db (''store observed tool '' @ name)) (\<lambda>_.
          apply_observed q now sid baseline active staging stored tools
            (db\<lparr>tool_contract_cache := alist_put (sid, name) \<lparr>tc_fingerprint = otc_fingerprint c, tc_contract = otc_body c,
               tc_available = True, tc_last_seen = now\<rparr> (tool_contract_cache db)\<rparr>)
            (tool_changes baseline matches (stored name) tool res)))"

fun apply_missing :: "sqlenv \<Rightarrow> string \<Rightarrow> (string \<rightharpoonup> observedToolContract) \<Rightarrow> (string \<times> observedToolContract \<times> bool) list \<Rightarrow> catalog \<Rightarrow>
    ToolObservationResult \<Rightarrow> (cat_error, catalog \<times> ToolObservationResult) result" where
  "apply_missing q sid observed [] db res = Inr (db, res)"
| "apply_missing q sid observed ((name, c, available) # rows) db res =
     (if observed name \<noteq> None then apply_missing q sid observed rows db res
      else rbind (sql q db (''mark cached tool unavailable '' @ name)) (\<lambda>_.
        apply_missing q sid observed rows
          (db\<lparr>tool_contract_cache := map (\<lambda>(k, r). (k, if k = (sid, name) then r\<lparr>tc_available := False\<rparr> else r))
             (tool_contract_cache db)\<rparr>)
          (res\<lparr>AvailabilityChanged := AvailabilityChanged res \<or> available\<rparr>)))"

definition server_cache :: "string \<Rightarrow> catalog \<Rightarrow> ((string \<times> string) \<times> cache_row) list" where
  "server_cache sid db = filter (\<lambda>((s, t), r). s = sid) (tool_contract_cache db)"

definition seed_tools :: "int \<Rightarrow> string \<Rightarrow> catalog \<Rightarrow> catalog" where
  "seed_tools now sid db = db\<lparr>tool_contract_cache := seed_cache now sid (server_tools db GenerationActive sid)
     (seed_cache now sid (server_tools db GenerationStaging sid) (tool_contract_cache db))\<rparr>"

definition ObserveServerTools :: "codec \<Rightarrow> sqlenv \<Rightarrow> int \<Rightarrow> string \<Rightarrow> mcp_tool option list \<Rightarrow> catalog \<Rightarrow>
    (cat_error, catalog \<times> ToolObservationResult) result" where
  "ObserveServerTools cd q now serverID tools db = (let sid = TrimSpace serverID in
     rbind (guard (sid = []) (Missing ''server id'')) (\<lambda>_.
     rbind (observe_tools cd tools []) (\<lambda>observed.
     rbind (sql q db ''begin tool observation transaction'') (\<lambda>_.
     rbind (sql q db ''inspect tool cache baseline'') (\<lambda>_.
     rbind (sql q db ''seed staging tool cache'') (\<lambda>_.
     rbind (sql q db ''seed active tool cache'') (\<lambda>_.
     let db1 = seed_tools now sid db in
     rbind (sql q db1 ''load tool cache'') (\<lambda>_.
     rbind (load_stored cd (server_cache sid db1)) (\<lambda>stored.
     rbind (sql q db1 ''load authoritative tool contracts'') (\<lambda>_.
     rbind (load_contracts cd (server_tools db1 GenerationActive sid)) (\<lambda>active.
     rbind (load_contracts cd (server_tools db1 GenerationStaging sid)) (\<lambda>staging.
     rbind (apply_observed q now sid (authoritativeBaseline db sid) (map_of active) (map_of staging) (map_of stored) observed db1
         \<lparr>SemanticChanged = False, AvailabilityChanged = False\<rparr>) (\<lambda>(db2, res).
     rbind (apply_missing q sid (map_of observed) stored db2 res) (\<lambda>(db3, res3).
     rbind (sql q db3 ''commit tool observation'') (\<lambda>_.
     Inr (db3, res3))))))))))))))))"

record CachedTool =
  ct_ToolName :: string
  ct_SourceFingerprint :: string
  ct_ContractJSON :: string
  ct_Available :: bool
  ct_LastSeenAtUnixMS :: int

text \<open>\<open>name_of\<close> is \<^verbatim>\<open>json.Unmarshal\<close> into the struct that holds only the name.\<close>

fun cached_rows :: "codec \<Rightarrow> (string \<Rightarrow> string option) \<Rightarrow> ((string \<times> string) \<times> cache_row) list \<Rightarrow> (cat_error, CachedTool list) result" where
  "cached_rows cd name_of [] = Inr []"
| "cached_rows cd name_of (((s, t), r) # rows) =
     rbind (guard (FingerprintJSON cd (tc_contract r) \<noteq> tc_fingerprint r) ErrSourceFingerprintMismatch) (\<lambda>_.
     rbind (guard (name_of (tc_contract r) \<noteq> Some t) (ErrCatalogCorrupt ''invocation identity mismatch'')) (\<lambda>_.
     rbind (cached_rows cd name_of rows) (\<lambda>rest.
     Inr (\<lparr>ct_ToolName = t, ct_SourceFingerprint = tc_fingerprint r, ct_ContractJSON = tc_contract r,
           ct_Available = tc_available r, ct_LastSeenAtUnixMS = tc_last_seen r\<rparr> # rest))))"

definition CachedTools :: "codec \<Rightarrow> (string \<Rightarrow> string option) \<Rightarrow> sqlenv \<Rightarrow> catalog \<Rightarrow> string \<Rightarrow> (cat_error, CachedTool list) result" where
  "CachedTools cd name_of q db serverID = (let sid = TrimSpace serverID in
     rbind (guard (sid = []) (Missing ''server id'')) (\<lambda>_.
     rbind (sql q db ''load cached tools'') (\<lambda>_.
     rbind (cached_rows cd name_of (sort_key (\<lambda>((s, t), r). t) (server_cache sid db))) (\<lambda>out.
     Inr (sort_key ct_ToolName out)))))"

text \<open>The result is \<^verbatim>\<open>(available, known)\<close>.\<close>

definition ToolAvailability :: "sqlenv \<Rightarrow> catalog \<Rightarrow> string \<Rightarrow> string \<Rightarrow> string \<Rightarrow> (cat_error, bool \<times> bool) result" where
  "ToolAvailability q db sid tool expected =
     rbind (sql q db ''load cached tool availability'') (\<lambda>_.
     case map_of (tool_contract_cache db) (sid, tool) of
       None \<Rightarrow> Inr (True, False)
     | Some r \<Rightarrow> if expected \<noteq> [] \<and> tc_fingerprint r \<noteq> expected then Inr (False, True) else Inr (tc_available r, True))"

end
