(* ===== verification/CatalogFacts.thy ===== *)
theory CatalogFacts
  imports CatalogArtifacts CatalogBatches CatalogTools
begin

text \<open>
  What the catalog promises: the step relation of all its writing operations, the invariant of the active
  generation, what promotion requires, and what stays immutable.
\<close>

section \<open>Steps\<close>

inductive cat_step :: "codec \<Rightarrow> catalog \<Rightarrow> catalog \<Rightarrow> bool" for cd :: codec where
  create: "CreateStaging q rand now spec db = Inr (db', x) \<Longrightarrow> cat_step cd db db'"
| reconcile: "ReconcileStaging q h db = Inr (db', n) \<Longrightarrow> cat_step cd db db'"
| supersede: "SupersedeStaging q gid db = Inr db' \<Longrightarrow> cat_step cd db db'"
| require_tool: "RequireSourceTool q gid sid tool fp db = Inr db' \<Longrightarrow> cat_step cd db db'"
| put_tool: "PutSourceTool cd q gid sid t complete db = Inr (db', fp) \<Longrightarrow> cat_step cd db db'"
| put_server: "PutSourceServer cd q gid entry db = Inr (db', x) \<Longrightarrow> cat_step cd db db'"
| require_dependency: "RequireDependency q gid key fp db = Inr db' \<Longrightarrow> cat_step cd db db'"
| satisfy_dependency: "SatisfyDependency q gid key fp complete db = Inr db' \<Longrightarrow> cat_step cd db db'"
| neighborhood: "SetNeighborhoodContext q gid member fp db = Inr db' \<Longrightarrow> cat_step cd db db'"
| mark: "MarkDirty q now key reason fp db = Inr db' \<Longrightarrow> cat_step cd db db'"
| clear: "ClearDirty q key db = Inr db' \<Longrightarrow> cat_step cd db db'"
| clear_unchanged: "ClearDirtyIfUnchanged q key d db = Inr (db', b) \<Longrightarrow> cat_step cd db db'"
| promote: "Promote cd q now gid h db = Inr db' \<Longrightarrow> cat_step cd db db'"
| put_artifact: "PutArtifact cd q now aspec db = Inr (db', x) \<Longrightarrow> cat_step cd db db'"
| attach: "AttachArtifact q gid role member key required complete db = Inr db' \<Longrightarrow> cat_step cd db db'"
| require_artifact: "RequireArtifact cd q gid rspec db = Inr (db', fp) \<Longrightarrow> cat_step cd db db'"
| fulfill: "FulfillArtifact cd q gid rspec key db = (db', e) \<Longrightarrow> cat_step cd db db'"
| lexical: "PutLexicalRecord cd q gid member txt db = Inr (db', x) \<Longrightarrow> cat_step cd db db'"
| put_batches: "PutEnrichmentBatches cd q specs db = Inr db' \<Longrightarrow> cat_step cd db db'"
| accept_batch: "AcceptEnrichmentBatch cd q now bid response db = Inr (db', x) \<Longrightarrow> cat_step cd db db'"
| put_continuation: "PutContinuation cd q now m db = Inr (db', x) \<Longrightarrow> cat_step cd db db'"
| continuation: "Catalog_Continuation q now mid db = (db', r) \<Longrightarrow> cat_step cd db db'"
| delete_continuation: "DeleteContinuation q mid db = Inr db' \<Longrightarrow> cat_step cd db db'"
| expire: "DeleteExpiredContinuations q now db = Inr (db', n) \<Longrightarrow> cat_step cd db db'"
| observe: "ObserveServerTools cd q now sid tools db = Inr (db', res) \<Longrightarrow> cat_step cd db db'"
| close: "cat_step cd db (Catalog_Close db)"

text \<open>A run from the empty schema; clearing the index is the one other operation.\<close>

inductive cat_run :: "codec \<Rightarrow> catalog \<Rightarrow> bool" for cd :: codec where
  start: "cat_run cd schemaSQL"
| step: "cat_run cd db \<Longrightarrow> cat_step cd db db' \<Longrightarrow> cat_run cd db'"
| clear_index: "cat_run cd db \<Longrightarrow> ClearIndex q db = Inr db' \<Longrightarrow> cat_run cd db'"

section \<open>What an operation leaves alone\<close>

definition same_index :: "catalog \<Rightarrow> catalog \<Rightarrow> bool" where
  "same_index db db' \<longleftrightarrow> generations db' = generations db \<and> source_tools db' = source_tools db"

lemma same_index_refl [simp]: "same_index db db"
  by (simp add: same_index_def)

lemma same_index_trans: "same_index a b \<Longrightarrow> same_index b c \<Longrightarrow> same_index a c"
  by (simp add: same_index_def)

lemma store_dependencies_frame: "store_dependencies q key ds db = Inr db' \<Longrightarrow>
  same_index db db' \<and> artifacts db' = artifacts db \<and> enrichment_batches db' = enrichment_batches db"
proof (induction q key ds db rule: store_dependencies.induct)
  case (2 q key k f ds db)
  from "2.prems" obtain u where "sql q db (''store artifact dependency '' @ k) = Inr u" and
    "store_dependencies q key ds (db\<lparr>artifact_dependencies := insert_ignore (key, k) f (artifact_dependencies db)\<rparr>) = Inr db'"
    by (auto simp: rbind_Inr_iff)
  from "2.IH" [OF this(2)] show ?case by (simp add: same_index_def)
qed simp

lemma put_batch_db:
  assumes "put_batch cd q validated seen spec db = Inr db'"
  obtains request where "db' = insert_batch spec (batch_row cd spec request) db"
  using assms unfolding put_batch_def by (auto simp: rbind_Inr_iff Let_def split: option.splits if_splits)

lemma put_batches_frame: "put_batches cd q validated seen specs db = Inr db' \<Longrightarrow> same_index db db' \<and> artifacts db' = artifacts db"
proof (induction specs arbitrary: validated seen db)
  case (Cons spec specs)
  from Cons.prems obtain db1 where 1: "put_batch cd q validated seen spec db = Inr db1" and
    rest: "put_batches cd q (ebs_GenerationID spec # validated) (ebs_ID spec # seen) specs db1 = Inr db'"
    by (auto simp: rbind_Inr_iff)
  obtain request where "db1 = insert_batch spec (batch_row cd spec request) db" using 1 by (rule put_batch_db)
  with Cons.IH [OF rest] show ?case by (auto simp: same_index_def insert_batch_def)
qed simp

lemma apply_observed_frame: "apply_observed q now sid baseline active staging stored tools db res = Inr (db', res') \<Longrightarrow>
  same_index db db' \<and> artifacts db' = artifacts db \<and> enrichment_batches db' = enrichment_batches db"
proof (induction tools arbitrary: db res)
  case (Cons t tools)
  obtain name tool where t: "t = (name, tool)" by (cases t)
  obtain c m where c: "canonical_contract (active name) (staging name) (stored name) tool = (c, m)"
    by (cases "canonical_contract (active name) (staging name) (stored name) tool")
  from Cons.prems [unfolded t] have
    "apply_observed q now sid baseline active staging stored tools
       (db\<lparr>tool_contract_cache := alist_put (sid, name) \<lparr>tc_fingerprint = otc_fingerprint c, tc_contract = otc_body c,
          tc_available = True, tc_last_seen = now\<rparr> (tool_contract_cache db)\<rparr>)
       (tool_changes baseline m (stored name) tool res) = Inr (db', res')"
    by (simp add: c rbind_Inr_iff)
  from Cons.IH [OF this] show ?case by (simp add: same_index_def)
qed simp

lemma apply_missing_frame: "apply_missing q sid observed rows db res = Inr (db', res') \<Longrightarrow>
  same_index db db' \<and> artifacts db' = artifacts db \<and> enrichment_batches db' = enrichment_batches db"
proof (induction rows arbitrary: db res)
  case (Cons r rows)
  obtain name c a where r: "r = (name, c, a)" by (cases r)
  show ?case
  proof (cases "observed name = None")
    case True
    with Cons.prems [unfolded r] have
      "apply_missing q sid observed rows (db\<lparr>tool_contract_cache := map (\<lambda>(k, r). (k, if k = (sid, name) then r\<lparr>tc_available := False\<rparr> else r))
         (tool_contract_cache db)\<rparr>) (res\<lparr>AvailabilityChanged := AvailabilityChanged res \<or> a\<rparr>) = Inr (db', res')"
      by (simp add: rbind_Inr_iff)
    from Cons.IH [OF this] show ?thesis by (simp add: same_index_def)
  next
    case False
    with Cons.prems [unfolded r] have "apply_missing q sid observed rows db res = Inr (db', res')" by simp
    from Cons.IH [OF this] show ?thesis .
  qed
qed simp

lemma ObserveServerTools_db:
  assumes "ObserveServerTools cd q now serverID tools db = Inr (db', res)"
  obtains observed stored active staging db2 res2 where
    "observe_tools cd tools [] = Inr observed"
    "load_stored cd (server_cache (TrimSpace serverID) (seed_tools now (TrimSpace serverID) db)) = Inr stored"
    "load_contracts cd (server_tools (seed_tools now (TrimSpace serverID) db) GenerationActive (TrimSpace serverID)) = Inr active"
    "load_contracts cd (server_tools (seed_tools now (TrimSpace serverID) db) GenerationStaging (TrimSpace serverID)) = Inr staging"
    "apply_observed q now (TrimSpace serverID) (authoritativeBaseline db (TrimSpace serverID)) (map_of active) (map_of staging)
       (map_of stored) observed (seed_tools now (TrimSpace serverID) db) \<lparr>SemanticChanged = False, AvailabilityChanged = False\<rparr> = Inr (db2, res2)"
    "apply_missing q (TrimSpace serverID) (map_of observed) stored db2 res2 = Inr (db', res)"
    "TrimSpace serverID \<noteq> []"
  using assms unfolding ObserveServerTools_def Let_def by (auto simp: rbind_Inr_iff guard_Inr)

lemma ObserveServerTools_frame:
  assumes "ObserveServerTools cd q now serverID tools db = Inr (db', res)"
  shows "same_index db db' \<and> artifacts db' = artifacts db \<and> enrichment_batches db' = enrichment_batches db"
  using assms
proof (rule ObserveServerTools_db)
  fix observed stored active staging db2 res2
  assume o: "apply_observed q now (TrimSpace serverID) (authoritativeBaseline db (TrimSpace serverID)) (map_of active) (map_of staging)
       (map_of stored) observed (seed_tools now (TrimSpace serverID) db) \<lparr>SemanticChanged = False, AvailabilityChanged = False\<rparr> = Inr (db2, res2)"
    and m: "apply_missing q (TrimSpace serverID) (map_of observed) stored db2 res2 = Inr (db', res)"
  show ?thesis
    using apply_observed_frame [OF o] apply_missing_frame [OF m] by (simp add: same_index_def seed_tools_def)
qed

lemma PutArtifact_db:
  assumes "PutArtifact cd q now spec db = Inr (db', key, a)"
  obtains deps depfp db1 where "normalizeDependencies cd (asp_Dependencies spec) = Inr (deps, depfp)"
    "key = FingerprintJSON cd (artifact_identity cd (asp_Kind spec) (FingerprintJSON cd (asp_Payload spec)) depfp (asp_ContextFingerprint spec))"
    "db1 = db\<lparr>artifacts := insert_ignore key \<lparr>art_Kind = asp_Kind spec, art_ContentFingerprint = FingerprintJSON cd (asp_Payload spec),
        art_DependencyFingerprint = depfp, art_ContextFingerprint = asp_ContextFingerprint spec, art_Payload = asp_Payload spec,
        art_CreatedAt = now\<rparr> (artifacts db)\<rparr>"
    "map_of (artifacts db1) key = Some a"
    "art_Kind a = asp_Kind spec" "art_ContentFingerprint a = FingerprintJSON cd (asp_Payload spec)"
    "art_DependencyFingerprint a = depfp" "art_ContextFingerprint a = asp_ContextFingerprint spec" "art_Payload a = asp_Payload spec"
    "store_dependencies q key deps db1 = Inr db'" "artifactDependencies db' key = deps" "\<not> blank (asp_Kind spec)"
  using assms unfolding PutArtifact_def scanArtifact_def verifyArtifactDependencies_def Let_def
  by (auto simp: rbind_Inr_iff guard_def split: if_splits option.splits)

lemma PutSourceTool_db:
  assumes "PutSourceTool cd q gid sid t complete db = Inr (db', fp)"
  obtains tool body m where "t = Some tool" "FingerprintTool cd (Some tool) = Inr (fp, body)"
    "status_of db gid = Some GenerationStaging" "map_of (generation_members db) (gid, sid, tool_Name tool) = Some m"
    "db' = db\<lparr>source_tools := alist_put (gid, sid, tool_Name tool) \<lparr>st_fingerprint = fp,
         st_identity = invocation_identity cd sid (tool_Name tool), st_contract = body\<rparr> (source_tools db),
       generation_members := alist_put (gid, sid, tool_Name tool) (m\<lparr>mem_actual := Some fp, mem_complete := complete\<rparr>) (generation_members db)\<rparr>"
proof -
  obtain tool where t: "t = Some tool"
    using assms unfolding PutSourceTool_def
    by (cases t) (auto simp: rbind_Inr_iff FingerprintTool_def CanonicalToolJSON_def rbind_Inl)
  obtain f body where fp: "FingerprintTool cd (Some tool) = Inr (f, body)"
    using assms unfolding PutSourceTool_def t by (cases "FingerprintTool cd (Some tool)") (auto simp: rbind_Inr_iff)
  show thesis
    using assms that [of tool body] unfolding PutSourceTool_def requireStaging_def t status_of_def
    by (auto simp: rbind_Inr_iff fp Let_def split: option.splits if_splits)
qed

lemma AcceptEnrichmentBatch_db:
  assumes "AcceptEnrichmentBatch cd q now bid responseJSON db = Inr (db', b', idempotent)"
  obtains response b where "canonicalJSON cd responseJSON = Inr response" "map_of (enrichment_batches db) bid = Some b"
    "(eb_Accepted b = None \<and> b' = b\<lparr>eb_Accepted := Some (FingerprintJSON cd response, response, now)\<rparr> \<and> \<not> idempotent \<and>
        db' = db\<lparr>enrichment_batches := alist_put bid b' (enrichment_batches db)\<rparr>) \<or>
     (\<exists>t. eb_Accepted b = Some (FingerprintJSON cd response, response, t) \<and> b' = b \<and> idempotent \<and> db' = db)"
proof -
  note acc = assms [unfolded AcceptEnrichmentBatch_def Let_def]
  obtain response where r: "canonicalJSON cd responseJSON = Inr response" using acc by (auto simp: rbind_Inr_iff)
  obtain b where b: "map_of (enrichment_batches db) bid = Some b"
    using acc by (cases "map_of (enrichment_batches db) bid") (auto simp: rbind_Inr_iff)
  show thesis
  proof (cases "eb_Accepted b")
    case None
    then obtain g where g: "map_of (generations db) (eb_GenerationID b) = Some g"
      using acc r b by (cases "map_of (generations db) (eb_GenerationID b)") (auto simp: rbind_Inr_iff)
    show thesis using acc that [OF r b] by (auto simp: r b g None rbind_Inr_iff)
  next
    case (Some a)
    then show thesis using acc that [OF r b] by (cases a) (auto simp: r b rbind_Inr_iff split: if_splits)
  qed
qed

text \<open>What a successful promotion has established.\<close>

definition promotable :: "codec \<Rightarrow> catalog \<Rightarrow> string \<Rightarrow> string \<Rightarrow> bool" where
  "promotable cd db gid h \<longleftrightarrow> (\<exists>g. map_of (generations db) gid = Some g \<and> gen_Status g = GenerationStaging \<and> gen_RoutingStateHash g = h) \<and>
     dirty_partitions db = [] \<and>
     (\<forall>km\<in>set (members_of db gid). \<not> member_incomplete db km \<and> \<not> member_mismatch db km) \<and>
     (\<forall>(k, r)\<in>set (generation_tools db gid). FingerprintJSON cd (st_contract r) = st_fingerprint r) \<and>
     (\<forall>kd\<in>set (generation_dependencies db). \<not> dependency_failed gid kd) \<and>
     (\<forall>ka\<in>set (generation_artifacts db). \<not> artifact_failed gid ka)"

definition healthy :: "sqlenv \<Rightarrow> bool" where
  "healthy q \<longleftrightarrow> (\<forall>l. \<not> sql_fails q l) \<and> quick_check q \<noteq> [] \<and> set (quick_check q) \<subseteq> {''ok''}"

lemma Promote_db:
  "Promote cd q now gid h db = Inr db' \<Longrightarrow> promotable cd db gid h \<and> gid \<noteq> [] \<and> h \<noteq> [] \<and> db_open db \<and> db' = activate gid (source_set cd db gid) now db"
  unfolding Promote_def promotable_def CheckIntegrity_def verifySourcePayloads_def sourceSetFingerprint_def list_ex_iff
  by (auto simp: rbind_Inr_iff guard_Inr sql_Inr split: option.splits if_splits)

lemma healthy_sql [simp]: "healthy q \<Longrightarrow> db_open db \<Longrightarrow> sql q db l = Inr ()"
  by (simp add: healthy_def sql_def)

lemma healthy_integrity [simp]: "healthy q \<Longrightarrow> db_open db \<Longrightarrow> CheckIntegrity q db = Inr ()"
proof -
  assume "healthy q" "db_open db"
  then have "filter (\<lambda>r. r \<noteq> ''ok'') (quick_check q) = []" by (auto simp: healthy_def filter_empty_conv)
  with \<open>healthy q\<close> \<open>db_open db\<close> show ?thesis by (simp add: CheckIntegrity_def checkIntegrity_def healthy_def)
qed

lemma Promote_succeeds:
  assumes "healthy q" "db_open db" "promotable cd db gid h" "gid \<noteq> []" "h \<noteq> []"
  shows "Promote cd q now gid h db = Inr (activate gid (source_set cd db gid) now db)"
proof -
  obtain g where g: "map_of (generations db) gid = Some g" "gen_Status g = GenerationStaging" "gen_RoutingStateHash g = h"
    using assms(3) by (auto simp: promotable_def)
  have no: "\<not> list_ex (member_incomplete db) (members_of db gid)" "\<not> list_ex (member_mismatch db) (members_of db gid)"
    "\<not> list_ex (\<lambda>(k, r). FingerprintJSON cd (st_contract r) \<noteq> st_fingerprint r) (generation_tools db gid)"
    "\<not> list_ex (dependency_failed gid) (generation_dependencies db)" "\<not> list_ex (artifact_failed gid) (generation_artifacts db)"
    "dirty_partitions db = []"
    using assms(3) by (auto simp: promotable_def list_ex_iff)
  show ?thesis
    using assms(1,2,4,5) unfolding Promote_def verifySourcePayloads_def sourceSetFingerprint_def
    by (simp add: guard_def rbind_Inr g no)
qed

lemma index_frames:
  "RequireSourceTool q gid sid tool fp db = Inr db' \<Longrightarrow> same_index db db'"
  "PutSourceServer cd q gid entry db = Inr (db', x) \<Longrightarrow> same_index db db'"
  "RequireDependency q gid key fp db = Inr db' \<Longrightarrow> same_index db db'"
  "SatisfyDependency q gid key fp complete db = Inr db' \<Longrightarrow> same_index db db'"
  "SetNeighborhoodContext q gid member fp db = Inr db' \<Longrightarrow> same_index db db'"
  "MarkDirty q now key reason fp db = Inr db' \<Longrightarrow> same_index db db'"
  "ClearDirty q key db = Inr db' \<Longrightarrow> same_index db db'"
  "ClearDirtyIfUnchanged q key d db = Inr (db', b) \<Longrightarrow> same_index db db'"
  "AttachArtifact q gid role member key required complete db = Inr db' \<Longrightarrow> same_index db db'"
  "RequireArtifact cd q gid rspec db = Inr (db', fp) \<Longrightarrow> same_index db db'"
  "PutLexicalRecord cd q gid member txt db = Inr (db', y) \<Longrightarrow> same_index db db'"
  "DeleteContinuation q mid db = Inr db' \<Longrightarrow> same_index db db'"
  "DeleteExpiredContinuations q now db = Inr (db', n) \<Longrightarrow> same_index db db'"
  "same_index db (Catalog_Close db)"
  by (auto simp: rbind_Inr_iff same_index_def RequireSourceTool_def PutSourceServer_def fingerprintSourceServer_def RequireDependency_def SatisfyDependency_def
       SetNeighborhoodContext_def MarkDirty_def ClearDirty_def ClearDirtyIfUnchanged_def AttachArtifact_def RequireArtifact_def
       PutLexicalRecord_def DeleteContinuation_def DeleteExpiredContinuations_def Catalog_Close_def Let_def
       split: option.splits if_splits prod.splits)

section \<open>The active generation\<close>

text \<open>How a step changes the generations and the stored tools: five shapes.\<close>

lemma cat_step_shape:
  assumes "cat_step cd db db'"
  shows "same_index db db' \<or>
    (\<exists>gid g. map_of (generations db) gid = None \<and> gen_Status g = GenerationStaging \<and>
       db' = db\<lparr>generations := alist_put gid g (generations db)\<rparr>) \<or>
    (\<exists>p. (\<forall>i g. p i g \<longrightarrow> gen_Status g = GenerationStaging) \<and> db' = set_status p GenerationSuperseded db) \<or>
    (\<exists>gid sid t r. status_of db gid = Some GenerationStaging \<and> FingerprintJSON cd (st_contract r) = st_fingerprint r \<and>
       source_tools db' = alist_put (gid, sid, t) r (source_tools db) \<and> generations db' = generations db) \<or>
    (\<exists>gid h now. promotable cd db gid h \<and> db' = activate gid (source_set cd db gid) now db)"
  using assms
proof cases
  case (create q rand now spec x)
  then obtain gid where "map_of (generations db) gid = None"
    "db' = db\<lparr>generations := alist_put gid (staging_row (spec_RoutingStateHash spec) now) (generations db)\<rparr>"
    unfolding CreateStaging_def Let_def by (auto simp: rbind_Inr_iff split: if_splits)
  moreover have "gen_Status (staging_row (spec_RoutingStateHash spec) now) = GenerationStaging" by (simp add: staging_row_def)
  ultimately show ?thesis by blast
next
  case (reconcile q h n)
  then have "db' = set_status (\<lambda>_ g. gen_Status g = GenerationStaging \<and> gen_RoutingStateHash g \<noteq> h) GenerationSuperseded db"
    unfolding ReconcileStaging_def Let_def by (auto simp: rbind_Inr_iff)
  then have "(\<forall>i g. gen_Status g = GenerationStaging \<and> gen_RoutingStateHash g \<noteq> h \<longrightarrow> gen_Status g = GenerationStaging) \<and>
    db' = set_status (\<lambda>_ g. gen_Status g = GenerationStaging \<and> gen_RoutingStateHash g \<noteq> h) GenerationSuperseded db" by simp
  then show ?thesis by (intro disjI2 disjI1 exI)
next
  case (supersede q gid)
  then have "db' = set_status (\<lambda>i g. i = gid \<and> gen_Status g = GenerationStaging) GenerationSuperseded db"
    unfolding SupersedeStaging_def by (auto simp: rbind_Inr_iff split: option.splits if_splits)
  then have "(\<forall>i g. i = gid \<and> gen_Status g = GenerationStaging \<longrightarrow> gen_Status g = GenerationStaging) \<and>
    db' = set_status (\<lambda>i g. i = gid \<and> gen_Status g = GenerationStaging) GenerationSuperseded db" by simp
  then show ?thesis by (intro disjI2 disjI1 exI)
next
  case (put_tool q gid sid t complete fp)
  then show ?thesis
  proof (rule PutSourceTool_db)
    fix tool body m
    assume a: "FingerprintTool cd (Some tool) = Inr (fp, body)" "status_of db gid = Some GenerationStaging"
      "db' = db\<lparr>source_tools := alist_put (gid, sid, tool_Name tool) \<lparr>st_fingerprint = fp,
         st_identity = invocation_identity cd sid (tool_Name tool), st_contract = body\<rparr> (source_tools db),
       generation_members := alist_put (gid, sid, tool_Name tool) (m\<lparr>mem_actual := Some fp, mem_complete := complete\<rparr>) (generation_members db)\<rparr>"
    have "FingerprintJSON cd body = fp" using a(1) by (auto simp: FingerprintTool_def rbind_Inr_iff)
    then have "FingerprintJSON cd (st_contract \<lparr>st_fingerprint = fp, st_identity = invocation_identity cd sid (tool_Name tool), st_contract = body\<rparr>)
       = st_fingerprint \<lparr>st_fingerprint = fp, st_identity = invocation_identity cd sid (tool_Name tool), st_contract = body\<rparr>" by simp
    moreover have "source_tools db' = alist_put (gid, sid, tool_Name tool) \<lparr>st_fingerprint = fp,
         st_identity = invocation_identity cd sid (tool_Name tool), st_contract = body\<rparr> (source_tools db)" "generations db' = generations db"
      using a(3) by simp_all
    ultimately show ?thesis using a(2) by blast
  qed
next
  case (promote q now gid h)
  from Promote_db [OF this] show ?thesis by blast
next
  case (put_artifact q now aspec x)
  obtain key a where x: "x = (key, a)" by (cases x)
  from put_artifact [unfolded x] have "same_index db db'"
    by (rule PutArtifact_db) (auto dest!: store_dependencies_frame simp: same_index_def)
  then show ?thesis ..
next
  case (fulfill q gid rspec key e)
  then have "same_index db db'"
    unfolding FulfillArtifact_def AttachArtifact_def SatisfyDependency_def same_index_def
    by (auto simp: rbind_Inr_iff split: sum.splits prod.splits option.splits if_splits)
  then show ?thesis ..
next
  case (put_batches q specs)
  then have "same_index db db'"
    unfolding PutEnrichmentBatches_def by (auto simp: rbind_Inr_iff dest: put_batches_frame split: if_splits)
  then show ?thesis ..
next
  case (observe q now sid tools res)
  from ObserveServerTools_frame [OF this] show ?thesis by blast
next
  case (accept_batch q now bid response x)
  obtain b i where x: "x = (b, i)" by (cases x)
  from accept_batch [unfolded x] have "same_index db db'"
    by (rule AcceptEnrichmentBatch_db) (auto simp: same_index_def)
  then show ?thesis ..
next
  case (put_continuation q now m x)
  then have "same_index db db'"
    unfolding PutContinuation_def same_index_def Let_def by (auto simp: rbind_Inr_iff split: if_splits)
  then show ?thesis ..
next
  case (continuation q now mid r)
  then have "same_index db db'"
    unfolding Catalog_Continuation_def same_index_def by (auto split: if_splits sum.splits prod.splits option.splits)
  then show ?thesis ..
qed ((rule disjI1, erule index_frames) | simp add: index_frames(14))+

end
