(* ===== verification/CatalogActive.thy ===== *)
theory CatalogActive
  imports CatalogFacts
begin

text \<open>
  The guarantees of the catalog over whole runs: one active generation whose stored tools hash to what was
  promoted, tools of an indexed generation that never change, artifacts and accepted responses that are
  written once.
\<close>

section \<open>Generations and stored tools\<close>

lemma filter_alist_put_other:
  assumes "\<And>v. \<not> P (k, v)"
  shows "filter P (alist_put k v m) = filter P m"
  by (induction m) (auto simp: assms)

lemma generation_tools_other:
  assumes "source_tools db' = alist_put (gid, sid, t) r (source_tools db)" and "a \<noteq> gid"
  shows "generation_tools db' a = generation_tools db a"
proof -
  have "filter (\<lambda>((g, s, t), r). g = a) (alist_put (gid, sid, t) r (source_tools db)) = filter (\<lambda>((g, s, t), r). g = a) (source_tools db)"
    by (rule filter_alist_put_other) (use assms(2) in simp)
  then show ?thesis by (simp add: generation_tools_def assms(1))
qed

lemma generation_tools_cong: "source_tools db' = source_tools db \<Longrightarrow> generation_tools db' = generation_tools db"
  by (simp add: generation_tools_def fun_eq_iff)

lemma set_status_simps [simp]:
  "source_tools (set_status p s db) = source_tools db"
  "map fst (generations (set_status p s db)) = map fst (generations db)"
  by (simp_all add: set_status_def case_prod_unfold comp_def)

lemma activate_simps [simp]:
  "source_tools (activate gid fp now db) = source_tools db"
  "dirty_partitions (activate gid fp now db) = dirty_partitions db"
  "db_open (activate gid fp now db) = db_open db"
  "map fst (generations (activate gid fp now db)) = map fst (generations db)"
  by (simp_all add: activate_def Let_def set_status_def case_prod_unfold comp_def)

lemma set_status_active:
  "(a, g) \<in> set (generations (set_status p GenerationSuperseded db)) \<Longrightarrow> gen_Status g = GenerationActive \<Longrightarrow> (a, g) \<in> set (generations db)"
  by (auto simp: set_status_def split: if_splits)

lemma activate_active:
  "(a, g) \<in> set (generations (activate gid fp now db)) \<Longrightarrow> gen_Status g = GenerationActive \<Longrightarrow>
   a = gid \<and> gen_SourceSetFingerprint g = fp"
  by (auto simp: activate_def Let_def set_status_def split: if_splits)

lemma map_of_generations: "distinct (map fst xs) \<Longrightarrow> map_of xs a = Some g \<longleftrightarrow> (a, g) \<in> set xs"
  by (rule map_of_eq_Some_iff)

definition verified :: "codec \<Rightarrow> catalog \<Rightarrow> string \<Rightarrow> bool" where
  "verified cd db gid \<longleftrightarrow> (\<forall>(k, r)\<in>set (generation_tools db gid). FingerprintJSON cd (st_contract r) = st_fingerprint r)"

definition active_ok :: "codec \<Rightarrow> catalog \<Rightarrow> bool" where
  "active_ok cd db \<longleftrightarrow> distinct (map fst (generations db)) \<and> distinct (map fst (source_tools db)) \<and>
     (\<forall>a g b k. (a, g) \<in> set (generations db) \<longrightarrow> gen_Status g = GenerationActive \<longrightarrow>
        (b, k) \<in> set (generations db) \<longrightarrow> gen_Status k = GenerationActive \<longrightarrow> a = b) \<and>
     (\<forall>a g. (a, g) \<in> set (generations db) \<longrightarrow> gen_Status g = GenerationActive \<longrightarrow>
        gen_SourceSetFingerprint g = source_set cd db a \<and> verified cd db a)"

lemma active_okI:
  assumes "distinct (map fst (generations db))" "distinct (map fst (source_tools db))"
    and "\<And>a g b k. (a, g) \<in> set (generations db) \<Longrightarrow> gen_Status g = GenerationActive \<Longrightarrow>
        (b, k) \<in> set (generations db) \<Longrightarrow> gen_Status k = GenerationActive \<Longrightarrow> a = b"
    and "\<And>a g. (a, g) \<in> set (generations db) \<Longrightarrow> gen_Status g = GenerationActive \<Longrightarrow>
        gen_SourceSetFingerprint g = source_set cd db a \<and> verified cd db a"
  shows "active_ok cd db"
  unfolding active_ok_def using assms by blast

lemma active_okD:
  assumes "active_ok cd db"
  shows "distinct (map fst (generations db))" "distinct (map fst (source_tools db))"
    "(a, g) \<in> set (generations db) \<Longrightarrow> gen_Status g = GenerationActive \<Longrightarrow>
        (b, k) \<in> set (generations db) \<Longrightarrow> gen_Status k = GenerationActive \<Longrightarrow> a = b"
    "(a, g) \<in> set (generations db) \<Longrightarrow> gen_Status g = GenerationActive \<Longrightarrow>
        gen_SourceSetFingerprint g = source_set cd db a"
    "(a, g) \<in> set (generations db) \<Longrightarrow> gen_Status g = GenerationActive \<Longrightarrow> verified cd db a"
  using assms unfolding active_ok_def by blast+

lemma source_set_cong: "generation_tools db' a = generation_tools db a \<Longrightarrow> source_set cd db' a = source_set cd db a"
  by (simp add: source_set_def)

lemma verified_cong: "generation_tools db' a = generation_tools db a \<Longrightarrow> verified cd db' a = verified cd db a"
  by (simp add: verified_def)

lemma active_ok_same_index:
  assumes "active_ok cd db" and "same_index db db'"
  shows "active_ok cd db'"
proof -
  have g: "generations db' = generations db" and t: "source_tools db' = source_tools db" using assms(2) by (simp_all add: same_index_def)
  have "generation_tools db' = generation_tools db" using t by (rule generation_tools_cong)
  then have "source_set cd db' a = source_set cd db a" "verified cd db' a = verified cd db a" for a
    by (simp_all add: source_set_def verified_def)
  then show ?thesis using assms(1) by (simp add: active_ok_def g t)
qed

text \<open>A step that activates nothing and leaves the tools of the active generation alone keeps the invariant.\<close>

lemma active_ok_keep:
  assumes ok: "active_ok cd db"
    and dist: "distinct (map fst (generations db'))" "distinct (map fst (source_tools db'))"
    and old: "\<And>a g. (a, g) \<in> set (generations db') \<Longrightarrow> gen_Status g = GenerationActive \<Longrightarrow>
      (a, g) \<in> set (generations db) \<and> generation_tools db' a = generation_tools db a"
  shows "active_ok cd db'"
proof (rule active_okI)
  show "a = b" if "(a, k) \<in> set (generations db')" "gen_Status k = GenerationActive"
    "(b, l) \<in> set (generations db')" "gen_Status l = GenerationActive" for a k b l
    using active_okD(3) [OF ok] old [OF that(1,2)] old [OF that(3,4)] that(2,4) by blast
  show "gen_SourceSetFingerprint k = source_set cd db' a \<and> verified cd db' a"
    if "(a, k) \<in> set (generations db')" "gen_Status k = GenerationActive" for a k
  proof
    have o: "(a, k) \<in> set (generations db)" and t: "generation_tools db' a = generation_tools db a" using old [OF that] by blast+
    show "gen_SourceSetFingerprint k = source_set cd db' a"
      using active_okD(4) [OF ok o that(2)] source_set_cong [OF t] by (rule trans [OF _ sym])
    show "verified cd db' a"
      using active_okD(5) [OF ok o that(2)] verified_cong [OF t] by blast
  qed
qed (fact dist)+

lemma active_ok_step:
  assumes ok: "active_ok cd db" and step: "cat_step cd db db'"
  shows "active_ok cd db'"
proof -
  note dist = active_okD(1,2) [OF ok]
  from cat_step_shape [OF step] consider
      (same) "same_index db db'"
    | (new) gid g where "map_of (generations db) gid = None" "gen_Status g = GenerationStaging"
        "db' = db\<lparr>generations := alist_put gid g (generations db)\<rparr>"
    | (retire) p where "db' = set_status p GenerationSuperseded db"
    | (put) gid sid t r where "status_of db gid = Some GenerationStaging"
        "source_tools db' = alist_put (gid, sid, t) r (source_tools db)" "generations db' = generations db"
    | (promote) gid h now where "promotable cd db gid h" "db' = activate gid (source_set cd db gid) now db"
    by blast
  then show ?thesis
  proof cases
    case same
    with ok show ?thesis by (rule active_ok_same_index)
  next
    case (new gid g)
    have "generation_tools db' = generation_tools db" by (rule generation_tools_cong) (simp add: new(3))
    moreover have "(a, k) \<in> set (generations db)" if "(a, k) \<in> set (generations db')" "gen_Status k = GenerationActive" for a k
      using that new(2) set_alist_put [of "(a, k)" gid g "generations db"] by (auto simp: new(3))
    ultimately show ?thesis using dist by (intro active_ok_keep [OF ok]) (auto simp: new(3))
  next
    case (retire p)
    have "generation_tools db' = generation_tools db" by (rule generation_tools_cong) (simp add: retire)
    moreover have "(a, k) \<in> set (generations db)" if "(a, k) \<in> set (generations db')" "gen_Status k = GenerationActive" for a k
      using that unfolding retire by (rule set_status_active)
    moreover have "distinct (map fst (generations db'))" "distinct (map fst (source_tools db'))" using dist by (simp_all add: retire)
    ultimately show ?thesis by (intro active_ok_keep [OF ok]) auto
  next
    case (put gid sid t r)
    have "(a, k) \<in> set (generations db) \<and> generation_tools db' a = generation_tools db a"
      if a: "(a, k) \<in> set (generations db')" "gen_Status k = GenerationActive" for a k
    proof -
      have mem: "(a, k) \<in> set (generations db)" using a(1) by (simp add: put)
      then have "map_of (generations db) a = Some k" using dist(1) by (simp add: map_of_generations)
      with put(1) a(2) have "a \<noteq> gid" by (auto simp: status_of_def)
      with mem show ?thesis using generation_tools_other [OF put(2)] by blast
    qed
    then show ?thesis using dist by (intro active_ok_keep [OF ok]) (auto simp: put(2,3))
  next
    case (promote gid h now)
    have tools: "generation_tools db' = generation_tools db" by (rule generation_tools_cong) (simp add: promote(2))
    have act: "a = gid \<and> gen_SourceSetFingerprint k = source_set cd db gid"
      if "(a, k) \<in> set (generations db')" "gen_Status k = GenerationActive" for a k
      using that unfolding promote(2) by (rule activate_active)
    have "verified cd db gid" using promote(1) by (simp add: promotable_def verified_def)
    then have good: "source_set cd db' gid = source_set cd db gid" "verified cd db' gid" by (simp_all add: source_set_def verified_def tools)
    show ?thesis
    proof (rule active_okI)
      show "distinct (map fst (generations db'))" "distinct (map fst (source_tools db'))" using dist by (simp_all add: promote(2))
    qed (use act good in metis)+
  qed
qed

lemma active_ok_run: "cat_run cd db \<Longrightarrow> active_ok cd db"
proof (induction rule: cat_run.induct)
  case start
  show ?case by (simp add: active_ok_def schemaSQL_def)
next
  case (step db db')
  then show ?case by (blast intro: active_ok_step)
next
  case (clear_index db q db')
  then have "generations db' = []" "source_tools db' = []"
    by (auto simp: ClearIndex_def rbind_Inr_iff schemaSQL_def)
  then show ?case by (simp add: active_ok_def)
qed

section \<open>Promotion\<close>

text \<open>In a reachable catalog the integrity checks of \<^verbatim>\<open>ActiveCurrent\<close> pass: it answers without error.\<close>

lemma ActiveGeneration_run:
  assumes ok: "active_ok cd db" and q: "healthy q" and op: "db_open db"
    and g: "map_of (generations db) gid = Some g" "gen_Status g = GenerationActive"
  shows "ActiveGeneration q db = Inr (gid, g)"
proof -
  let ?f = "filter (\<lambda>(i, g). gen_Status g = GenerationActive) (generations db)"
  have mem: "(gid, g) \<in> set ?f" using g by (auto dest: map_of_SomeD)
  then obtain i k rest where f: "?f = (i, k) # rest" by (cases ?f) auto
  have "(i, k) \<in> set ?f" unfolding f by simp
  then have ik: "(i, k) \<in> set (generations db)" "gen_Status k = GenerationActive" by simp_all
  have "i = gid" using active_okD(3) [OF ok ik] g by (auto dest: map_of_SomeD)
  moreover have "map_of (generations db) i = Some k" using map_of_generations [OF active_okD(1) [OF ok]] ik(1) by blast
  moreover from calculation have "k = g" using g(1) by simp
  ultimately show ?thesis using q op by (simp add: ActiveGeneration_def f rbind_Inr)
qed

lemma no_active:
  assumes "healthy q" "db_open db" "distinct (map fst (generations db))"
    and "\<And>a g. map_of (generations db) a = Some g \<Longrightarrow> gen_Status g \<noteq> GenerationActive"
  shows "ActiveGeneration q db = Inl ErrGenerationNotFound"
proof -
  have "filter (\<lambda>(i, g). gen_Status g = GenerationActive) (generations db) = []"
    using assms(3,4) by (auto simp: filter_empty_conv map_of_generations)
  then show ?thesis using assms(1,2) by (simp add: ActiveGeneration_def rbind_Inr)
qed

lemma ActiveCurrent_active:
  assumes ok: "active_ok cd db" and q: "healthy q" and op: "db_open db"
    and g: "map_of (generations db) gid = Some g" "gen_Status g = GenerationActive"
  shows "ActiveCurrent cd q db h = Inr (Some (gid, g), gen_RoutingStateHash g = h \<and> dirty_partitions db = [])"
proof -
  have mem: "(gid, g) \<in> set (generations db)" using g(1) by (rule map_of_SomeD)
  have fp: "gen_SourceSetFingerprint g = source_set cd db gid" using active_okD(4) [OF ok mem g(2)] .
  have "\<not> list_ex (\<lambda>(k, r). FingerprintJSON cd (st_contract r) \<noteq> st_fingerprint r) (generation_tools db gid)"
    using active_okD(5) [OF ok mem g(2)] by (auto simp: verified_def list_ex_iff)
  moreover have "gen_SourceSetFingerprint g \<noteq> []" by (simp add: fp source_set_def)
  ultimately show ?thesis
    using q op by (simp add: ActiveCurrent_def verifySourcePayloads_def sourceSetFingerprint_def guard_def
        ActiveGeneration_run [OF ok q op g] rbind_Inr fp)
qed

text \<open>
  (C5) In every catalog that operations have produced from the empty schema, and with SQLite healthy,
  \<^verbatim>\<open>ActiveCurrent\<close> returns without error, and it says that the index is current exactly when there is an
  active generation, it was promoted for the given routing-state hash, and no partition is dirty: the stored
  contracts always verify, so the fingerprint checks never fail by the catalog's own doing.
\<close>
theorem ActiveCurrent_exact:
  assumes run: "cat_run cd db" and q: "healthy q" and op: "db_open db"
  shows "\<exists>r. ActiveCurrent cd q db h = Inr (r, \<exists>gid g. map_of (generations db) gid = Some g \<and>
      gen_Status g = GenerationActive \<and> gen_RoutingStateHash g = h \<and> dirty_partitions db = [])"
proof (cases "\<exists>gid g. map_of (generations db) gid = Some g \<and> gen_Status g = GenerationActive")
  case True
  then obtain gid g where g: "map_of (generations db) gid = Some g" "gen_Status g = GenerationActive" by blast
  note ok = active_ok_run [OF run]
  have "(\<exists>a k. map_of (generations db) a = Some k \<and> gen_Status k = GenerationActive \<and> gen_RoutingStateHash k = h \<and>
      dirty_partitions db = []) \<longleftrightarrow> gen_RoutingStateHash g = h \<and> dirty_partitions db = []"
    using g active_okD(3) [OF ok] by (metis map_of_SomeD option.inject)
  then show ?thesis using ActiveCurrent_active [OF ok q op g] by auto
next
  case False
  then have "ActiveGeneration q db = Inl ErrGenerationNotFound"
    by (intro no_active q op active_okD(1) [OF active_ok_run [OF run]]) blast
  then show ?thesis using q op False by (auto simp: ActiveCurrent_def rbind_Inr)
qed

lemma activate_generation:
  assumes "map_of (generations db) gid = Some g" "gen_Status g = GenerationStaging"
  shows "map_of (generations (activate gid fp now db)) gid =
    Some (g\<lparr>gen_Status := GenerationActive, gen_SourceSetFingerprint := fp, gen_ActivatedAt := Some now\<rparr>)"
proof -
  have "map_of (map (\<lambda>(i, g). (i, f i g)) xs) a = map_option (f a) (map_of xs a)" for f :: "string \<Rightarrow> Generation \<Rightarrow> Generation" and xs a
    by (induction xs) auto
  note upd = this
  show ?thesis using assms by (simp add: activate_def Let_def set_status_def upd del: map_map)
qed

lemma promoted_current:
  assumes run: "cat_run cd db" and q: "healthy q" and p: "Promote cd q now gid h db = Inr db'"
  shows "(\<exists>g. ActiveCurrent cd q db' h = Inr (Some (gid, g), True)) \<and> db_open db' \<and>
    (\<forall>a g. map_of (generations db') a = Some g \<and> gen_Status g = GenerationActive \<longrightarrow> a = gid)"
proof -
  note P = Promote_db [OF p]
  obtain g where g: "map_of (generations db) gid = Some g" "gen_Status g = GenerationStaging" "gen_RoutingStateHash g = h"
    using P by (auto simp: promotable_def)
  have ok: "active_ok cd db'" using active_ok_step [OF active_ok_run [OF run] cat_step.promote [OF p]] .
  have clean: "dirty_partitions db' = []" "db_open db'" using P by (simp_all add: promotable_def)
  have g': "map_of (generations db') gid = Some (g\<lparr>gen_Status := GenerationActive,
      gen_SourceSetFingerprint := source_set cd db gid, gen_ActivatedAt := Some now\<rparr>)"
    using activate_generation [OF g(1,2)] P by simp
  have "\<exists>g. ActiveCurrent cd q db' h = Inr (Some (gid, g), True)"
    using ActiveCurrent_active [OF ok q clean(2) g'] g(3) clean(1) by auto
  moreover have "a = gid" if "map_of (generations db') a = Some k \<and> gen_Status k = GenerationActive" for a k
    using active_okD(3) [OF ok map_of_SomeD [OF g']] that by (auto dest: map_of_SomeD)
  ultimately show ?thesis using clean by blast
qed

text \<open>
  (C4) With SQLite healthy, \<^verbatim>\<open>Promote\<close> succeeds exactly when the generation is staging for the current
  routing-state hash, no partition is dirty, every required member is complete with the expected, the recorded
  and the stored fingerprint equal, every stored contract hashes to its fingerprint, and every required
  dependency and artifact is complete. It then leaves this generation as the only active one, and
  \<^verbatim>\<open>ActiveCurrent\<close> answers it as current for that hash.
\<close>
theorem Promote_makes_current:
  assumes run: "cat_run cd db" and q: "healthy q" and op: "db_open db" and ne: "gid \<noteq> []" "h \<noteq> []"
  shows "((\<exists>db'. Promote cd q now gid h db = Inr db') \<longleftrightarrow> promotable cd db gid h) \<and>
    (\<forall>db'. Promote cd q now gid h db = Inr db' \<longrightarrow>
      (\<exists>g. ActiveCurrent cd q db' h = Inr (Some (gid, g), True)) \<and>
      (\<forall>a g. map_of (generations db') a = Some g \<and> gen_Status g = GenerationActive \<longrightarrow> a = gid))"
proof (intro conjI allI impI)
  show "(\<exists>db'. Promote cd q now gid h db = Inr db') \<longleftrightarrow> promotable cd db gid h"
    using Promote_succeeds [OF q op _ ne] Promote_db by blast
qed (use promoted_current [OF run q] in blast)+

section \<open>Indexed tools are immutable\<close>

lemma status_of_map:
  "map_of (map (\<lambda>(i, g). (i, f i g)) xs) a = map_option (f a) (map_of xs a)"
  by (induction xs) auto

lemma status_set_status:
  "status_of (set_status p s db) gid = (case map_of (generations db) gid of None \<Rightarrow> None
     | Some g \<Rightarrow> Some (if p gid g then s else gen_Status g))"
  unfolding status_of_def set_status_def by (simp add: status_of_map split: option.split)

lemma status_activate:
  assumes "status_of db gid = Some st" "st \<noteq> GenerationStaging"
  shows "\<exists>st'. status_of (activate a fp now db) gid = Some st' \<and> st' \<noteq> GenerationStaging"
proof -
  obtain g where g: "map_of (generations db) gid = Some g" "gen_Status g \<noteq> GenerationStaging"
    using assms by (auto simp: status_of_def)
  show ?thesis
    unfolding status_of_def activate_def set_status_def Let_def using g
    by (cases "gen_Status g = GenerationActive") (simp_all add: status_of_map del: map_map)
qed

lemma step_keeps_indexed:
  assumes step: "cat_step cd db db'" and st: "status_of db gid = Some st" "st \<noteq> GenerationStaging"
  shows "generation_tools db' gid = generation_tools db gid \<and> (\<exists>st'. status_of db' gid = Some st' \<and> st' \<noteq> GenerationStaging)"
proof -
  from cat_step_shape [OF step] consider
      (same) "same_index db db'"
    | (new) a g where "map_of (generations db) a = None" "db' = db\<lparr>generations := alist_put a g (generations db)\<rparr>"
    | (retire) p where "db' = set_status p GenerationSuperseded db"
    | (put) a sid t r where "status_of db a = Some GenerationStaging"
        "source_tools db' = alist_put (a, sid, t) r (source_tools db)" "generations db' = generations db"
    | (promote) a now where "db' = activate a (source_set cd db a) now db"
    by blast
  then show ?thesis
  proof cases
    case same
    then have "status_of db' gid = status_of db gid" "generation_tools db' gid = generation_tools db gid"
      by (simp_all add: same_index_def status_of_def generation_tools_def)
    then show ?thesis using st by simp
  next
    case (new a g)
    have "gid \<noteq> a" using new(1) st(1) by (auto simp: status_of_def)
    then have "status_of db' gid = status_of db gid" "generation_tools db' gid = generation_tools db gid"
      by (simp_all add: new(2) status_of_def generation_tools_def)
    then show ?thesis using st by simp
  next
    case (retire p)
    obtain g where g: "map_of (generations db) gid = Some g" "gen_Status g \<noteq> GenerationStaging"
      using st by (auto simp: status_of_def)
    have "generation_tools db' = generation_tools db" by (rule generation_tools_cong) (simp add: retire)
    then show ?thesis using g by (simp add: retire status_set_status)
  next
    case (put a sid t r)
    have "gid \<noteq> a" using put(1) st by auto
    moreover have "status_of db' gid = status_of db gid" by (simp add: status_of_def put(3))
    ultimately show ?thesis using st generation_tools_other [OF put(2)] by simp
  next
    case (promote a now)
    have "generation_tools db' = generation_tools db" by (rule generation_tools_cong) (simp add: promote)
    then show ?thesis using status_activate [OF st] by (simp add: promote)
  qed
qed

text \<open>
  (C6) Once a generation has left staging (it is active, or superseded), no sequence of catalog operations
  short of clearing the index adds, changes or removes any of its stored tools: what an execution handle of
  that generation names stays what it was when the handle was minted.
\<close>
theorem indexed_tools_immutable:
  assumes "(cat_step cd)\<^sup>*\<^sup>* db db'" "status_of db gid = Some st" "st \<noteq> GenerationStaging"
  shows "generation_tools db' gid = generation_tools db gid"
proof -
  have "generation_tools db' gid = generation_tools db gid \<and> (\<exists>st'. status_of db' gid = Some st' \<and> st' \<noteq> GenerationStaging)"
    using assms
  proof (induction rule: rtranclp_induct)
    case (step y z)
    then obtain st' where "generation_tools y gid = generation_tools db gid" "status_of y gid = Some st'" "st' \<noteq> GenerationStaging"
      by blast
    with step_keeps_indexed [OF step(2) this(2,3)] show ?case by simp
  qed simp
  then show ?thesis ..
qed

section \<open>A sample run\<close>

definition sample_q :: sqlenv where
  "sample_q = \<lparr>sql_fails = (\<lambda>_. False), quick_check = [''ok'']\<rparr>"

text \<open>A generation \<open>g\<close> for hash \<open>h\<close> with the one tool \<open>echo\<close> of server \<open>s\<close>, staged and then promoted at time 5.\<close>

definition sample_created :: catalog where
  "sample_created = schemaSQL\<lparr>generations := [(''g'', staging_row ''h'' 1)]\<rparr>"

definition sample_required :: catalog where
  "sample_required = sample_created\<lparr>generation_members := [((''g'', ''s'', ''echo''),
     \<lparr>mem_expected = ''sha256:echo'', mem_actual = None, mem_required = True, mem_complete = False\<rparr>)]\<rparr>"

definition sample_stored :: catalog where
  "sample_stored = sample_created\<lparr>generation_members := [((''g'', ''s'', ''echo''),
      \<lparr>mem_expected = ''sha256:echo'', mem_actual = Some ''sha256:echo'', mem_required = True, mem_complete = True\<rparr>)],
    source_tools := [((''g'', ''s'', ''echo''), \<lparr>st_fingerprint = ''sha256:echo'', st_identity = ''server_idtool_name'', st_contract = ''echo''\<rparr>)]\<rparr>"

definition sample_active :: catalog where
  "sample_active = activate ''g'' (source_set sample_codec sample_stored ''g'') 5 sample_stored"

lemma sample_healthy: "healthy sample_q"
  by (simp add: healthy_def sample_q_def)

lemma sample_run: "cat_run sample_codec sample_stored"
proof -
  have 1: "CreateStaging sample_q None 1 \<lparr>spec_ID = ''g'', spec_RoutingStateHash = ''h''\<rparr> schemaSQL = Inr (sample_created, ''g'', staging_row ''h'' 1)"
    by code_simp
  have 2: "RequireSourceTool sample_q ''g'' ''s'' ''echo'' ''sha256:echo'' sample_created = Inr sample_required"
    by code_simp
  have 3: "PutSourceTool sample_codec sample_q ''g'' ''s'' (Some (sample_tool ''echo'')) True sample_required = Inr (sample_stored, ''sha256:echo'')"
    by code_simp
  show ?thesis by (rule cat_run.step, rule cat_run.step, rule cat_run.step, rule cat_run.start,
      rule cat_step.create [OF 1], rule cat_step.require_tool [OF 2], rule cat_step.put_tool [OF 3])
qed

lemma sample_promote: "Promote sample_codec sample_q 5 ''g'' ''h'' sample_stored = Inr sample_active"
  by code_simp

theorem Promote_makes_current_witness:
  "promotable sample_codec sample_stored ''g'' ''h'' \<and>
   (\<exists>g. ActiveCurrent sample_codec sample_q sample_active ''h'' = Inr (Some (''g'', g), True))"
  using Promote_makes_current [OF sample_run sample_healthy, of "''g''" "''h''" 5] sample_promote
  by (auto simp: sample_stored_def sample_created_def schemaSQL_def)

theorem ActiveCurrent_exact_witness:
  "\<exists>r. ActiveCurrent sample_codec sample_q sample_active ''other'' = Inr (r, False)"
proof -
  have run: "cat_run sample_codec sample_active"
    by (rule cat_run.step [OF sample_run cat_step.promote [OF sample_promote]])
  have op: "db_open sample_active" by code_simp
  have gens: "generations sample_active = [(''g'', \<lparr>gen_Status = GenerationActive, gen_RoutingStateHash = ''h'',
      gen_SourceSetFingerprint = source_set sample_codec sample_stored ''g'', gen_CreatedAt = 1, gen_ActivatedAt = Some 5\<rparr>)]"
    by code_simp
  show ?thesis using ActiveCurrent_exact [OF run sample_healthy op, of "''other''"] by (simp add: gens split: if_splits)
qed

theorem indexed_tools_immutable_witness:
  "\<exists>db. MarkDirty sample_q 7 ''server:s'' ''changed'' ''x'' sample_active = Inr db \<and>
     generation_tools db ''g'' = generation_tools sample_active ''g''"
proof -
  have "isl (MarkDirty sample_q 7 ''server:s'' ''changed'' ''x'' sample_active) = False" by code_simp
  then obtain db where m: "MarkDirty sample_q 7 ''server:s'' ''changed'' ''x'' sample_active = Inr db"
    by (cases "MarkDirty sample_q 7 ''server:s'' ''changed'' ''x'' sample_active") simp_all
  have st: "status_of sample_active ''g'' = Some GenerationActive" by code_simp
  from indexed_tools_immutable [OF r_into_rtranclp [of "cat_step sample_codec", OF cat_step.mark [OF m]] st] m
  show ?thesis by auto
qed

end
