(* ===== verification/CatalogContent.thy ===== *)
theory CatalogContent
  imports CatalogActive
begin

text \<open>
  Write-once content of the catalog: artifacts are content-addressed and only ever added, a batch keeps the
  first response it accepts, a stored artifact can be reused by anyone who names its dependencies; and the
  tool cache after an observation. The last section is a continuation that cannot be stored twice.
\<close>

section \<open>Artifacts and batches only grow\<close>

definition same_content :: "catalog \<Rightarrow> catalog \<Rightarrow> bool" where
  "same_content db db' \<longleftrightarrow> artifacts db' = artifacts db \<and> enrichment_batches db' = enrichment_batches db"

definition batch_kept :: "EnrichmentBatch \<Rightarrow> EnrichmentBatch \<Rightarrow> bool" where
  "batch_kept b b' \<longleftrightarrow> b' = b \<or> eb_Accepted b = None \<and> b\<lparr>eb_Accepted := eb_Accepted b'\<rparr> = b'"

lemma batch_kept_trans: "batch_kept a b \<Longrightarrow> batch_kept b c \<Longrightarrow> batch_kept a c"
  by (cases a; cases b; cases c) (auto simp: batch_kept_def)

definition content_grows :: "catalog \<Rightarrow> catalog \<Rightarrow> bool" where
  "content_grows db db' \<longleftrightarrow> map_of (artifacts db) \<subseteq>\<^sub>m map_of (artifacts db') \<and>
     (\<forall>i b. map_of (enrichment_batches db) i = Some b \<longrightarrow>
        (\<exists>b'. map_of (enrichment_batches db') i = Some b' \<and> batch_kept b b'))"

lemma same_content_grows: "same_content db db' \<Longrightarrow> content_grows db db'"
  by (simp add: same_content_def content_grows_def batch_kept_def)

lemma content_grows_refl [simp]: "content_grows db db"
  by (simp add: content_grows_def batch_kept_def)

lemma content_grows_trans:
  assumes "content_grows a b" "content_grows b c"
  shows "content_grows a c"
  unfolding content_grows_def
proof (intro conjI allI impI)
  show "map_of (artifacts a) \<subseteq>\<^sub>m map_of (artifacts c)"
    using assms by (auto simp: content_grows_def intro: map_le_trans)
  fix i x assume "map_of (enrichment_batches a) i = Some x"
  then obtain y where "map_of (enrichment_batches b) i = Some y" "batch_kept x y" using assms(1) unfolding content_grows_def by blast
  moreover from this obtain z where "map_of (enrichment_batches c) i = Some z" "batch_kept y z" using assms(2) unfolding content_grows_def by blast
  ultimately show "\<exists>z. map_of (enrichment_batches c) i = Some z \<and> batch_kept x z" using batch_kept_trans by blast
qed

lemma map_of_append_le: "map_of xs \<subseteq>\<^sub>m map_of (xs @ ys)"
  by (auto simp: map_le_def map_add_def dom_def split: option.splits)

lemma insert_ignore_le: "map_of m \<subseteq>\<^sub>m map_of (insert_ignore k v m)"
  by (auto simp: insert_ignore_def map_le_def)

lemma insert_batch_grows: "content_grows db (insert_batch spec b db)"
  using map_of_append_le [of "enrichment_batches db" "[(ebs_ID spec, b)]"]
  by (auto simp: content_grows_def insert_batch_def map_add_def batch_kept_def split: option.splits)

lemma put_batches_grows: "put_batches cd q validated seen specs db = Inr db' \<Longrightarrow> content_grows db db'"
proof (induction specs arbitrary: validated seen db)
  case Nil
  then show ?case by simp
next
  case (Cons spec specs)
  from Cons.prems obtain db1 where 1: "put_batch cd q validated seen spec db = Inr db1" and
    rest: "put_batches cd q (ebs_GenerationID spec # validated) (ebs_ID spec # seen) specs db1 = Inr db'"
    by (auto simp: rbind_Inr_iff)
  obtain request where "db1 = insert_batch spec (batch_row cd spec request) db" using 1 by (rule put_batch_db)
  then have "content_grows db db1" by (simp add: insert_batch_grows)
  then show ?case using Cons.IH [OF rest] by (rule content_grows_trans)
qed

lemma content_frames:
  "CreateStaging q rand now spec db = Inr (db', w) \<Longrightarrow> same_content db db'"
  "ReconcileStaging q h db = Inr (db', n) \<Longrightarrow> same_content db db'"
  "SupersedeStaging q gid db = Inr db' \<Longrightarrow> same_content db db'"
  "RequireSourceTool q gid sid tool fp db = Inr db' \<Longrightarrow> same_content db db'"
  "PutSourceServer cd q gid entry db = Inr (db', x) \<Longrightarrow> same_content db db'"
  "RequireDependency q gid key fp db = Inr db' \<Longrightarrow> same_content db db'"
  "SatisfyDependency q gid key fp complete db = Inr db' \<Longrightarrow> same_content db db'"
  "SetNeighborhoodContext q gid member fp db = Inr db' \<Longrightarrow> same_content db db'"
  "MarkDirty q now key reason fp db = Inr db' \<Longrightarrow> same_content db db'"
  "ClearDirty q key db = Inr db' \<Longrightarrow> same_content db db'"
  "ClearDirtyIfUnchanged q key d db = Inr (db', b) \<Longrightarrow> same_content db db'"
  "AttachArtifact q gid role member key required complete db = Inr db' \<Longrightarrow> same_content db db'"
  "RequireArtifact cd q gid rspec db = Inr (db', fp) \<Longrightarrow> same_content db db'"
  "PutLexicalRecord cd q gid member txt db = Inr (db', y) \<Longrightarrow> same_content db db'"
  "DeleteContinuation q mid db = Inr db' \<Longrightarrow> same_content db db'"
  "DeleteExpiredContinuations q now db = Inr (db', n) \<Longrightarrow> same_content db db'"
  by (auto simp: rbind_Inr_iff same_content_def CreateStaging_def ReconcileStaging_def SupersedeStaging_def set_status_def
       RequireSourceTool_def PutSourceServer_def fingerprintSourceServer_def RequireDependency_def SatisfyDependency_def
       SetNeighborhoodContext_def MarkDirty_def ClearDirty_def ClearDirtyIfUnchanged_def AttachArtifact_def RequireArtifact_def
       PutLexicalRecord_def DeleteContinuation_def DeleteExpiredContinuations_def Let_def
       split: option.splits if_splits prod.splits)

lemma content_frames2:
  "same_content db (Catalog_Close db)"
  "PutSourceTool cd q gid sid t complete db = Inr (db', fp) \<Longrightarrow> same_content db db'"
  "Promote cd q now gid h db = Inr db' \<Longrightarrow> same_content db db'"
  "PutContinuation cd q now m db = Inr (db', z) \<Longrightarrow> same_content db db'"
  "Catalog_Continuation q now mid db = (db', r) \<Longrightarrow> same_content db db'"
  "FulfillArtifact cd q gid rspec key db = (db', e) \<Longrightarrow> same_content db db'"
  "ObserveServerTools cd q now sid tools db = Inr (db', res) \<Longrightarrow> same_content db db'"
proof -
  show "same_content db (Catalog_Close db)" by (simp add: same_content_def Catalog_Close_def)
  show "same_content db db'" if "PutSourceTool cd q gid sid t complete db = Inr (db', fp)"
    using that by (rule PutSourceTool_db) (simp add: same_content_def)
  show "same_content db db'" if "Promote cd q now gid h db = Inr db'"
    using Promote_db [OF that] by (simp add: same_content_def activate_def Let_def set_status_def)
  show "same_content db db'" if "PutContinuation cd q now m db = Inr (db', z)"
    using that unfolding PutContinuation_def same_content_def Let_def by (auto simp: rbind_Inr_iff split: if_splits)
  show "same_content db db'" if "Catalog_Continuation q now mid db = (db', r)"
    using that unfolding Catalog_Continuation_def same_content_def by (auto split: if_splits sum.splits prod.splits option.splits)
  show "same_content db db'" if "FulfillArtifact cd q gid rspec key db = (db', e)"
    using that unfolding FulfillArtifact_def AttachArtifact_def SatisfyDependency_def same_content_def
    by (auto simp: rbind_Inr_iff split: sum.splits prod.splits option.splits if_splits)
  show "same_content db db'" if "ObserveServerTools cd q now sid tools db = Inr (db', res)"
    using ObserveServerTools_frame [OF that] by (simp add: same_content_def)
qed

lemma PutArtifact_grows: "PutArtifact cd q now spec db = Inr (db', key, a) \<Longrightarrow> content_grows db db'"
  by (erule PutArtifact_db) (auto dest!: store_dependencies_frame simp: content_grows_def insert_ignore_le batch_kept_def)

lemma Accept_grows: "AcceptEnrichmentBatch cd q now bid response db = Inr (db', b, i) \<Longrightarrow> content_grows db db'"
  by (erule AcceptEnrichmentBatch_db) (auto simp: content_grows_def batch_kept_def)

lemma step_content:
  assumes "cat_step cd db db'"
  shows "content_grows db db'"
  using assms
proof cases
  case (put_artifact q now aspec x)
  then show ?thesis by (cases x) (auto dest: PutArtifact_grows)
next
  case (accept_batch q now bid response x)
  then show ?thesis by (cases x) (auto dest: Accept_grows)
next
  case (put_batches q specs)
  then show ?thesis
    unfolding PutEnrichmentBatches_def by (auto simp: rbind_Inr_iff dest: put_batches_grows split: if_splits)
qed ((rule same_content_grows, erule content_frames) | (rule same_content_grows, erule content_frames2) | simp add: same_content_grows content_frames2(1))+

lemma steps_content: "(cat_step cd)\<^sup>*\<^sup>* db db' \<Longrightarrow> content_grows db db'"
proof (induction rule: rtranclp_induct)
  case base
  show ?case by simp
next
  case (step y z)
  show ?case by (rule content_grows_trans [OF step.IH step_content [OF step(2)]])
qed

text \<open>
  The first response a batch accepts is the one it keeps: after any further catalog operations (short of
  clearing the index), a submission for the same batch either is refused or has the same canonical JSON, and
  then it changes nothing and is answered as idempotent with the response that was stored first.
\<close>
theorem first_response_wins:
  assumes first: "AcceptEnrichmentBatch cd q now bid r db = Inr (db1, b, idem)"
    and steps: "(cat_step cd)\<^sup>*\<^sup>* db1 db2"
    and again: "AcceptEnrichmentBatch cd q2 now2 bid r2 db2 = Inr (db3, b3, idem3)"
  shows "canonicalJSON cd r2 = canonicalJSON cd r \<and> db3 = db2 \<and> idem3 \<and> b3 = b"
proof -
  obtain c b0 where c: "canonicalJSON cd r = Inr c" and b0: "map_of (enrichment_batches db) bid = Some b0" and
    cases1: "(eb_Accepted b0 = None \<and> b = b0\<lparr>eb_Accepted := Some (FingerprintJSON cd c, c, now)\<rparr> \<and> \<not> idem \<and>
        db1 = db\<lparr>enrichment_batches := alist_put bid b (enrichment_batches db)\<rparr>) \<or>
     (\<exists>t. eb_Accepted b0 = Some (FingerprintJSON cd c, c, t) \<and> b = b0 \<and> idem \<and> db1 = db)"
    using first by (rule AcceptEnrichmentBatch_db) blast
  have b1: "map_of (enrichment_batches db1) bid = Some b" using cases1 b0 by auto
  obtain t where acc: "eb_Accepted b = Some (FingerprintJSON cd c, c, t)" using cases1 by auto
  have b2: "map_of (enrichment_batches db2) bid = Some b"
    using steps_content [OF steps] b1 acc unfolding content_grows_def batch_kept_def by fastforce
  obtain c2 b4 where c2: "canonicalJSON cd r2 = Inr c2" and b4: "map_of (enrichment_batches db2) bid = Some b4" and
    cases2: "(eb_Accepted b4 = None \<and> b3 = b4\<lparr>eb_Accepted := Some (FingerprintJSON cd c2, c2, now2)\<rparr> \<and> \<not> idem3 \<and>
        db3 = db2\<lparr>enrichment_batches := alist_put bid b3 (enrichment_batches db2)\<rparr>) \<or>
     (\<exists>t. eb_Accepted b4 = Some (FingerprintJSON cd c2, c2, t) \<and> b3 = b4 \<and> idem3 \<and> db3 = db2)"
    using again by (rule AcceptEnrichmentBatch_db) blast
  have "b4 = b" using b2 b4 by simp
  with cases2 acc have "c2 = c \<and> b3 = b \<and> idem3 \<and> db3 = db2" by auto
  then show ?thesis using c c2 by simp
qed

section \<open>Artifacts round trip\<close>

lemma dependency_loop_distinct:
  "dependency_loop prev ds = None \<Longrightarrow> sorted (map fst ds) \<Longrightarrow> (\<forall>p. prev = Some p \<longrightarrow> (\<forall>d\<in>set ds. p \<le> fst d)) \<Longrightarrow>
   distinct (map fst ds) \<and> (\<forall>p. prev = Some p \<longrightarrow> p \<notin> fst ` set ds)"
proof (induction prev ds rule: dependency_loop.induct)
  case (2 prev k f ds)
  from "2.prems"(1) have nb: "\<not> (blank k \<or> blank f)" and ne: "prev \<noteq> Some k" and rest: "dependency_loop (Some k) ds = None"
    by (simp_all split: if_splits)
  have "distinct (map fst ds) \<and> (\<forall>p. Some k = Some p \<longrightarrow> p \<notin> fst ` set ds)"
    using "2.prems"(2) by (intro "2.IH" [OF nb ne rest]) auto
  moreover have "p \<notin> fst ` set ds" if p: "prev = Some p" for p
  proof
    assume "p \<in> fst ` set ds"
    then obtain d where d: "d \<in> set ds" "fst d = p" by blast
    have "k \<le> p" using "2.prems"(2) d by auto
    moreover have "p \<le> k" using "2.prems"(3) p by simp
    ultimately show False using ne p by simp
  qed
  ultimately show ?case using ne by auto
qed simp

lemma normalizeDependencies_permutation:
  assumes "normalizeDependencies cd ds = Inr (n, fp)" and "mset ds' = mset ds"
  shows "normalizeDependencies cd ds' = Inr (n, fp)"
proof -
  have "dependency_loop None (sort_key fst ds) = None"
    using assms(1) by (auto simp: normalizeDependencies_def Let_def split: option.splits)
  then have "distinct (map fst (sort_key fst ds))" using dependency_loop_distinct [of None "sort_key fst ds"] by simp
  then have "distinct (map fst ds)" by (simp add: map_sort_key)
  then have "sort_key fst ds = sort_key fst ds'" by (intro sort_key_unique) (simp_all add: assms(2))
  then show ?thesis using assms(1) by (simp add: normalizeDependencies_def)
qed

lemma SourceTools_facts:
  assumes S: "SourceTools cd q db gid = Inr sources"
  shows "\<not> blank gid" "\<forall>s \<in> set sources. rec_SourceFingerprint s = FingerprintJSON cd (rec_ContractJSON s)"
    "set sources = source_record ` set (generation_tools db gid)"
proof -
  let ?rows = "sort_key fst (generation_tools db gid)"
  have F: "\<not> blank gid" "\<not> list_ex (\<lambda>(k, r). FingerprintJSON cd (st_contract r) \<noteq> st_fingerprint r) ?rows" "sources = map source_record ?rows"
    using S by (auto simp: SourceTools_def guard_def Let_def split: if_splits elim!: rbind_InrE)
  show "\<not> blank gid" by (rule F(1))
  show "\<forall>s \<in> set sources. rec_SourceFingerprint s = FingerprintJSON cd (rec_ContractJSON s)"
    using F(2) unfolding F(3) by (fastforce simp: list_ex_iff source_record_def)
  show "set sources = source_record ` set (generation_tools db gid)" unfolding F(3) by simp
qed

lemma FingerprintJSON_not_blank: "\<not> blank (FingerprintJSON cd s)"
proof (rule not_blankI [of "CHR ''s''"])
  show "CHR ''s'' \<in> set (FingerprintJSON cd s)" by (simp add: FingerprintJSON_def)
  show "CHR ''s'' \<notin> set (concat go_spaces)" by code_simp
qed

lemma store_dependencies_open: "store_dependencies q key ds db = Inr db' \<Longrightarrow> db_open db' = db_open db"
  by (induction q key ds db rule: store_dependencies.induct) (auto simp: rbind_Inr_iff)

text \<open>
  Storing an artifact and asking for it back is a round trip: once \<^verbatim>\<open>PutArtifact\<close> has succeeded,
  \<^verbatim>\<open>ReusableArtifact\<close> with the returned key, the same context and the same dependencies in any order
  returns the artifact, with the payload that was stored.
\<close>
theorem PutArtifact_ReusableArtifact:
  assumes put: "PutArtifact cd q now spec db = Inr (db', key, a)"
    and perm: "mset ds = mset (asp_Dependencies spec)" and q': "healthy q'" and op: "db_open db"
  shows "ReusableArtifact cd q' db' key ds (asp_ContextFingerprint spec) = Inr (key, a) \<and> art_Payload a = asp_Payload spec"
  using put
proof (rule PutArtifact_db)
  fix deps depfp db1
  assume n: "normalizeDependencies cd (asp_Dependencies spec) = Inr (deps, depfp)"
    and key: "key = FingerprintJSON cd (artifact_identity cd (asp_Kind spec) (FingerprintJSON cd (asp_Payload spec)) depfp (asp_ContextFingerprint spec))"
    and db1: "db1 = db\<lparr>artifacts := insert_ignore key \<lparr>art_Kind = asp_Kind spec, art_ContentFingerprint = FingerprintJSON cd (asp_Payload spec),
        art_DependencyFingerprint = depfp, art_ContextFingerprint = asp_ContextFingerprint spec, art_Payload = asp_Payload spec,
        art_CreatedAt = now\<rparr> (artifacts db)\<rparr>"
    and a: "map_of (artifacts db1) key = Some a"
    and f: "art_ContentFingerprint a = FingerprintJSON cd (asp_Payload spec)" "art_DependencyFingerprint a = depfp"
      "art_ContextFingerprint a = asp_ContextFingerprint spec" "art_Payload a = asp_Payload spec"
    and st: "store_dependencies q key deps db1 = Inr db'" and deps: "artifactDependencies db' key = deps"
  have op': "db_open db'" using store_dependencies_open [OF st] op by (simp add: db1)
  have a': "map_of (artifacts db') key = Some a" using store_dependencies_frame [OF st] a by simp
  have nb: "\<not> blank key" unfolding key by (rule FingerprintJSON_not_blank)
  show ?thesis
    using q' op' by (simp add: ReusableArtifact_def scanArtifact_def verifyArtifactDependencies_def guard_def rbind_Inr nb a' f deps
        normalizeDependencies_permutation [OF n perm])
qed

end
