(* ===== verification/CatalogObserve.thy ===== *)
theory CatalogObserve
  imports CatalogContent
begin

text \<open>
  What an observation of a server's live tools does to the tool cache, and what the cache then answers to the
  availability question that discovery asks.
\<close>

section \<open>The loops over the cache\<close>

lemma observe_tools_spec:
  "observe_tools cd tools acc = Inr obs \<Longrightarrow> distinct (map fst acc) \<Longrightarrow>
   distinct (map fst obs) \<and> fst ` set obs = fst ` set acc \<union> {tool_Name t |t. Some t \<in> set tools} \<and>
   (\<forall>n c. map_of acc n = Some c \<longrightarrow> map_of obs n = Some c) \<and>
   (\<forall>t. Some t \<in> set tools \<longrightarrow> (\<exists>c. observedContract cd t = Inr c \<and> map_of obs (tool_Name t) = Some c))"
proof (induction tools arbitrary: acc)
  case (Cons x tools)
  obtain tool where x: "x = Some tool" using Cons.prems(1) by (cases x) simp_all
  from Cons.prems(1) obtain c where new: "map_of acc (tool_Name tool) = None" and c: "observedContract cd tool = Inr c" and
    rest: "observe_tools cd tools (acc @ [(tool_Name tool, c)]) = Inr obs"
    by (auto simp: x rbind_Inr_iff split: if_splits)
  have "distinct (map fst (acc @ [(tool_Name tool, c)]))" using new Cons.prems(2) by (auto simp: map_of_eq_None_iff)
  note IH = Cons.IH [OF rest this]
  have mem: "map_of obs (tool_Name tool) = Some c" using IH new by (simp add: map_add_def)
  have old: "map_of obs n = Some d" if "map_of acc n = Some d" for n d using IH that by (simp add: map_add_def)
  show ?case using IH mem old c by (auto simp: x)
qed simp

lemma seed_cache_keys: "map_of cache k \<noteq> None \<Longrightarrow> map_of (seed_cache now sid rows cache) k \<noteq> None"
proof (induction now sid rows cache rule: seed_cache.induct)
  case (2 now sid t r rows cache)
  have "map_of (insert_ignore (sid, t) v cache) k \<noteq> None" for v using "2.prems" by (auto simp: insert_ignore_def)
  from "2.IH" [OF this] show ?case by simp
qed simp

lemma seed_cache_other: "fst k \<noteq> sid \<Longrightarrow> map_of (seed_cache now sid rows cache) k = map_of cache k"
  by (induction now sid rows cache rule: seed_cache.induct) (auto simp: insert_ignore_def)

lemma seed_cache_row: "t \<in> fst ` set rows \<Longrightarrow> map_of (seed_cache now sid rows cache) (sid, t) \<noteq> None"
proof (induction now sid rows cache rule: seed_cache.induct)
  case (2 now sid n r rows cache)
  show ?case
  proof (cases "t = n")
    case True
    have "map_of (insert_ignore (sid, n) \<lparr>tc_fingerprint = st_fingerprint r, tc_contract = st_contract r, tc_available = True, tc_last_seen = now\<rparr> cache) (sid, t) \<noteq> None"
      by (auto simp: insert_ignore_def True)
    then show ?thesis by (simp add: seed_cache_keys)
  next
    case False
    with "2.prems" have "t \<in> fst ` set rows" by auto
    from "2.IH" [OF this] show ?thesis by simp
  qed
qed simp

lemma load_stored_names: "load_stored cd rows = Inr stored \<Longrightarrow> map fst stored = map (snd \<circ> fst) rows"
  by (induction cd rows arbitrary: stored rule: load_stored.induct) (auto simp: rbind_Inr_iff)

lemma load_contracts_first:
  "load_contracts cd rows = Inr cs \<Longrightarrow> map_of rows t = Some r \<Longrightarrow>
   \<exists>c. map_of cs t = Some c \<and> storedContract cd t (st_fingerprint r) (st_contract r) = Inr c"
proof (induction cd rows arbitrary: cs rule: load_contracts.induct)
  case (2 cd n x rows)
  from "2.prems"(1) obtain c rest where c: "storedContract cd n (st_fingerprint x) (st_contract x) = Inr c" and
    rest: "load_contracts cd rows = Inr rest" and cs: "cs = (n, c) # rest" by (auto simp: rbind_Inr_iff)
  show ?case
  proof (cases "n = t")
    case True
    then show ?thesis using "2.prems"(2) c cs by simp
  next
    case False
    then have "map_of rows t = Some r" using "2.prems"(2) by simp
    from "2.IH" [OF rest this] False show ?thesis by (simp add: cs)
  qed
qed simp

lemma apply_observed_cache:
  "apply_observed q now sid bl active staging stored tools db res = Inr (db', res') \<Longrightarrow> distinct (map fst tools) \<Longrightarrow>
   map_of (tool_contract_cache db') (s, n) = (if s = sid \<and> n \<in> fst ` set tools
     then Some (let c = fst (canonical_contract (active n) (staging n) (stored n) (the (map_of tools n))) in
       \<lparr>tc_fingerprint = otc_fingerprint c, tc_contract = otc_body c, tc_available = True, tc_last_seen = now\<rparr>)
     else map_of (tool_contract_cache db) (s, n))"
proof (induction tools arbitrary: db res)
  case (Cons x tools)
  obtain name tool where x: "x = (name, tool)" by (cases x)
  obtain c m where c: "canonical_contract (active name) (staging name) (stored name) tool = (c, m)"
    by (cases "canonical_contract (active name) (staging name) (stored name) tool")
  let ?db = "db\<lparr>tool_contract_cache := alist_put (sid, name) \<lparr>tc_fingerprint = otc_fingerprint c, tc_contract = otc_body c,
      tc_available = True, tc_last_seen = now\<rparr> (tool_contract_cache db)\<rparr>"
  from Cons.prems(1) have rest: "apply_observed q now sid bl active staging stored tools ?db (tool_changes bl m (stored name) tool res) = Inr (db', res')"
    by (simp add: x c rbind_Inr_iff)
  have dist: "distinct (map fst tools)" and fresh: "name \<notin> fst ` set tools" using Cons.prems(2) by (auto simp: x)
  show ?case
  proof (cases "s = sid \<and> n = name")
    case True
    then have "map_of (tool_contract_cache db') (s, n) = map_of (tool_contract_cache ?db) (s, n)"
      using Cons.IH [OF rest dist] fresh by simp
    then show ?thesis using True by (simp add: x c)
  next
    case False
    then have "map_of (tool_contract_cache ?db) (s, n) = map_of (tool_contract_cache db) (s, n)" by auto
    then show ?thesis using Cons.IH [OF rest dist] False by (auto simp: x)
  qed
qed simp

lemma apply_missing_cache:
  "apply_missing q sid observed rows db res = Inr (db', res') \<Longrightarrow>
   map_of (tool_contract_cache db') (s, n) = map_option (\<lambda>r. if s = sid \<and> n \<in> fst ` set rows \<and> observed n = None
     then r\<lparr>tc_available := False\<rparr> else r) (map_of (tool_contract_cache db) (s, n))"
proof (induction rows arbitrary: db res)
  case Nil
  then show ?case by (simp add: option.map_ident)
next
  case (Cons x rows)
  obtain name c a where x: "x = (name, c, a)" by (cases x)
  show ?case
  proof (cases "observed name = None")
    case True
    let ?db = "db\<lparr>tool_contract_cache := map (\<lambda>(k, r). (k, if k = (sid, name) then r\<lparr>tc_available := False\<rparr> else r)) (tool_contract_cache db)\<rparr>"
    from Cons.prems True have rest: "apply_missing q sid observed rows ?db (res\<lparr>AvailabilityChanged := AvailabilityChanged res \<or> a\<rparr>) = Inr (db', res')"
      by (simp add: x rbind_Inr_iff)
    have upd: "map_of (map (\<lambda>(k, r). (k, if k = (sid, name) then r\<lparr>tc_available := False\<rparr> else r)) m) k =
        map_option (\<lambda>r. if k = (sid, name) then r\<lparr>tc_available := False\<rparr> else r) (map_of m k)" for m and k :: "string \<times> string"
      by (induction m) auto
    show ?thesis
      using Cons.IH [OF rest] True by (cases "map_of (tool_contract_cache db) (s, n)") (auto simp: upd x)
  next
    case False
    with Cons.prems have rest: "apply_missing q sid observed rows db res = Inr (db', res')" by (simp add: x)
    show ?thesis using Cons.IH [OF rest] False by (cases "map_of (tool_contract_cache db) (s, n)") (auto simp: x)
  qed
qed

lemma canonical_active:
  "active = Some a \<Longrightarrow> otc_semantic a = otc_semantic tool \<Longrightarrow> fst (canonical_contract active staging previous tool) = a"
  by (simp add: canonical_contract_def)

section \<open>Availability after an observation\<close>

lemma server_cache_mem: "n \<in> (snd \<circ> fst) ` set (server_cache sid db) \<longleftrightarrow> map_of (tool_contract_cache db) (sid, n) \<noteq> None"
  by (force simp: server_cache_def map_of_eq_None_iff image_iff)

lemma ObserveServerTools_cache:
  assumes obs: "ObserveServerTools cd q now serverID tools db = Inr (db', res)"
  defines "sid \<equiv> TrimSpace serverID"
  shows "s \<noteq> sid \<Longrightarrow> map_of (tool_contract_cache db') (s, n) = map_of (tool_contract_cache db) (s, n)"
    and "(\<forall>t. Some t \<in> set tools \<longrightarrow> tool_Name t \<noteq> n) \<Longrightarrow>
      map_of (tool_contract_cache db) (sid, n) \<noteq> None \<or> n \<in> fst ` set (server_tools db GenerationActive sid) \<Longrightarrow>
      \<exists>r. map_of (tool_contract_cache db') (sid, n) = Some r \<and> \<not> tc_available r"
    and "Some t \<in> set tools \<Longrightarrow> observedContract cd t = Inr c \<Longrightarrow> map_of (server_tools db GenerationActive sid) (tool_Name t) = Some row \<Longrightarrow>
      SemanticFingerprintJSON cd (st_contract row) = Inr (otc_semantic c, x) \<Longrightarrow>
      \<exists>r. map_of (tool_contract_cache db') (sid, tool_Name t) = Some r \<and> tc_available r \<and> tc_fingerprint r = st_fingerprint row"
proof -
  let ?db = "seed_tools now sid db"
  have cache: "tool_contract_cache ?db = seed_cache now sid (server_tools db GenerationActive sid)
      (seed_cache now sid (server_tools db GenerationStaging sid) (tool_contract_cache db))" by (simp add: seed_tools_def)
  have tools_eq: "server_tools (seed_tools now x db) st = server_tools db st" for x st
    by (simp add: fun_eq_iff server_tools_def seed_tools_def status_of_def created_of_def)
  from obs obtain observed stored active staging db2 res2 where
    o: "observe_tools cd tools [] = Inr observed" and st: "load_stored cd (server_cache sid ?db) = Inr stored" and
    ac: "load_contracts cd (server_tools db GenerationActive sid) = Inr active" and
    ap: "apply_observed q now sid (authoritativeBaseline db sid) (map_of active) (map_of staging) (map_of stored) observed ?db
        \<lparr>SemanticChanged = False, AvailabilityChanged = False\<rparr> = Inr (db2, res2)" and
    mi: "apply_missing q sid (map_of observed) stored db2 res2 = Inr (db', res)"
    by (rule ObserveServerTools_db) (unfold sid_def tools_eq, blast)
  have spec: "distinct (map fst observed)" "fst ` set observed = {tool_Name t |t. Some t \<in> set tools}"
    "\<forall>t. Some t \<in> set tools \<longrightarrow> (\<exists>c. observedContract cd t = Inr c \<and> map_of observed (tool_Name t) = Some c)"
    using observe_tools_spec [OF o] by (simp_all del: map_of_eq_Some_iff)
  note A = apply_observed_cache [OF ap spec(1)] and M = apply_missing_cache [OF mi]
  show "map_of (tool_contract_cache db') (s, n) = map_of (tool_contract_cache db) (s, n)" if "s \<noteq> sid"
    using that by (simp add: M A cache seed_cache_other option.map_ident)
  show "\<exists>r. map_of (tool_contract_cache db') (sid, n) = Some r \<and> \<not> tc_available r"
    if un: "\<forall>t. Some t \<in> set tools \<longrightarrow> tool_Name t \<noteq> n" and
      known: "map_of (tool_contract_cache db) (sid, n) \<noteq> None \<or> n \<in> fst ` set (server_tools db GenerationActive sid)"
  proof -
    have no: "n \<notin> fst ` set observed" using un by (auto simp: spec(2))
    have c1: "map_of (tool_contract_cache ?db) (sid, n) \<noteq> None"
      using known unfolding cache by (elim disjE) (intro seed_cache_keys, assumption, rule seed_cache_row)
    then have "n \<in> fst ` set stored"
      using load_stored_names [OF st] server_cache_mem [of n sid ?db] by (metis image_set)
    moreover have "map_of observed n = None" using no by (simp add: map_of_eq_None_iff)
    ultimately show ?thesis using c1 no by (auto simp: M A)
  qed
  show "\<exists>r. map_of (tool_contract_cache db') (sid, tool_Name t) = Some r \<and> tc_available r \<and> tc_fingerprint r = st_fingerprint row"
    if t: "Some t \<in> set tools" "observedContract cd t = Inr c" "map_of (server_tools db GenerationActive sid) (tool_Name t) = Some row"
      "SemanticFingerprintJSON cd (st_contract row) = Inr (otc_semantic c, x)"
  proof -
    have ob: "map_of observed (tool_Name t) = Some c" using spec(3) t(1,2) by auto
    obtain a where a: "map_of active (tool_Name t) = Some a" "storedContract cd (tool_Name t) (st_fingerprint row) (st_contract row) = Inr a"
      using load_contracts_first [OF ac t(3)] by blast
    then have sem: "otc_semantic a = otc_semantic c" "otc_fingerprint a = st_fingerprint row"
      using t(4) by (auto simp: storedContract_def)
    have "tool_Name t \<in> fst ` set observed" using t(1) by (auto simp: spec(2))
    then show ?thesis using canonical_active [OF a(1) sem(1)] sem(2) by (simp add: M A ob Let_def)
  qed
qed

text \<open>
  After a successful observation of a server's live tools, the catalog answers discovery as follows.
  An advertised tool whose meaning is that of the contract in the active generation (only its WebMCP source
  label may differ) is available under the fingerprint of the index, so its enrichment stays usable. A tool
  that is cached or indexed but not advertised is known and unavailable, whatever fingerprint is asked for; it is not
  forgotten. The answers for other servers do not change.
\<close>
theorem ObserveServerTools_availability:
  assumes obs: "ObserveServerTools cd q now serverID tools db = Inr (db', res)" and q': "healthy q'"
    and op: "db_open db" "db_open db'" and sid: "sid = TrimSpace serverID"
  shows "(\<forall>t c row x. Some t \<in> set tools \<and> observedContract cd t = Inr c \<and>
        map_of (server_tools db GenerationActive sid) (tool_Name t) = Some row \<and>
        SemanticFingerprintJSON cd (st_contract row) = Inr (otc_semantic c, x) \<longrightarrow>
        ToolAvailability q' db' sid (tool_Name t) (st_fingerprint row) = Inr (True, True)) \<and>
    (\<forall>n fp. (\<forall>t. Some t \<in> set tools \<longrightarrow> tool_Name t \<noteq> n) \<and>
        (map_of (tool_contract_cache db) (sid, n) \<noteq> None \<or> n \<in> fst ` set (server_tools db GenerationActive sid)) \<longrightarrow>
        ToolAvailability q' db' sid n fp = Inr (False, True)) \<and>
    (\<forall>s n fp. s \<noteq> sid \<longrightarrow> ToolAvailability q' db' s n fp = ToolAvailability q' db s n fp)"
proof (intro conjI allI impI)
  note cache = ObserveServerTools_cache [OF obs, folded sid]
  show "ToolAvailability q' db' sid (tool_Name t) (st_fingerprint row) = Inr (True, True)"
    if "Some t \<in> set tools \<and> observedContract cd t = Inr c \<and>
        map_of (server_tools db GenerationActive sid) (tool_Name t) = Some row \<and>
        SemanticFingerprintJSON cd (st_contract row) = Inr (otc_semantic c, x)" for t c row x
    using cache(3) [of t c row x] that q' op(2) by (auto simp: ToolAvailability_def rbind_Inr)
  show "ToolAvailability q' db' sid n fp = Inr (False, True)"
    if "(\<forall>t. Some t \<in> set tools \<longrightarrow> tool_Name t \<noteq> n) \<and>
        (map_of (tool_contract_cache db) (sid, n) \<noteq> None \<or> n \<in> fst ` set (server_tools db GenerationActive sid))" for n fp
    using cache(2) [of n] that q' op(2) by (auto simp: ToolAvailability_def rbind_Inr)
  show "ToolAvailability q' db' s n fp = ToolAvailability q' db s n fp" if "s \<noteq> sid" for s n fp
    using cache(1) [OF that] q' op by (simp add: ToolAvailability_def rbind_Inr)
qed

section \<open>Storing a continuation twice\<close>

lemma PutContinuation_new:
  assumes "PutContinuation cd q now m db = Inr (db1, (mid, stored), False)"
  shows "continuation_row cd now m = Inr (mid, stored) \<and> map_of (continuation_mappings db1) mid = Some stored \<and> mid \<noteq> [] \<and> db_open db1"
proof -
  obtain i fresh where row: "continuation_row cd now m = Inr (i, fresh)"
    using assms by (auto simp: PutContinuation_def rbind_Inr_iff)
  note put = assms [unfolded PutContinuation_def row rbind_Inr prod.case Let_def rbind_Inr_iff]
  have "map_of (continuation_mappings db) i = None" using put by (auto simp: rbind_Inr_iff)
  then show ?thesis
    using put row by (auto simp: rbind_Inr_iff guard_Inr continuationByID_def sql_Inr split: if_splits)
qed

text \<open>
  Submitting the mapping that was just stored once more is meant to be idempotent. It is exactly when the
  mapping has no expiry or an expiry of whole milliseconds; with any other expiry the second submission of the
  same value is refused as a conflict, since the expiry is stored in milliseconds and compared in nanoseconds.
\<close>
theorem PutContinuation_again:
  assumes first: "PutContinuation cd q now m db = Inr (db1, (mid, stored), False)"
    and q': "healthy q'" and created: "ci_CreatedAt m = Some t"
  shows "PutContinuation cd q' now' m db1 =
    (if (\<forall>e. ci_ExpiresAt m = Some e \<longrightarrow> e mod 1000000 = 0) then Inr (db1, (mid, stored), True) else Inl ErrContinuationConflict)"
proof -
  have row: "continuation_row cd now m = Inr (mid, stored)" and st: "map_of (continuation_mappings db1) mid = Some stored"
    and mid: "mid \<noteq> []" and op: "db_open db1" using PutContinuation_new [OF first] by simp_all
  have row': "continuation_row cd now' m = Inr (mid, stored)" using row created by (simp add: continuation_row_def)
  have ex: "cm_ExpiresAt stored = map_option UnixMilli (ci_ExpiresAt m)"
    using row by (auto simp: continuation_row_def Let_def rbind_Inr_iff)
  have "e div 1000000 * 1000000 = e \<longleftrightarrow> e mod 1000000 = 0" for e :: int
    using div_mult_mod_eq [of e 1000000] by linarith
  then have same: "continuation_differs m stored stored \<longleftrightarrow> \<not> (\<forall>e. ci_ExpiresAt m = Some e \<longrightarrow> e mod 1000000 = 0)"
    by (cases "ci_ExpiresAt m") (simp_all add: continuation_differs_def sameContinuationExpiry_def stored_expiry_def ex UnixMilli_def)
  have byid: "continuationByID q' db1 mid = Inr (mid, stored)" using q' op by (simp add: continuationByID_def mid st rbind_Inr)
  show ?thesis
    using q' op by (simp add: PutContinuation_def row' rbind_Inr st byid guard_def same rbind_Inl)
qed

section \<open>Witnesses\<close>

definition sample_indexed :: catalog where
  "sample_indexed = sample_active\<lparr>source_tools := [((''g'', ''s'', ''D''), \<lparr>st_fingerprint = ''sha256:E'', st_identity = [], st_contract = ''E''\<rparr>)],
     tool_contract_cache := [((''s'', ''old''), \<lparr>tc_fingerprint = ''sha256:A'', tc_contract = ''A'', tc_available = True, tc_last_seen = 1\<rparr>)]\<rparr>"

lemma not_isl_Inr: "\<not> isl x \<Longrightarrow> x = Inr (projr x)"
  by (cases x) simp_all

theorem ObserveServerTools_availability_witness:
  "\<exists>db res. ObserveServerTools sample_codec sample_q 9 ''s'' [Some (sample_tool ''D'')] sample_indexed = Inr (db, res) \<and>
     ToolAvailability sample_q db ''s'' ''D'' ''sha256:E'' = Inr (True, True) \<and>
     ToolAvailability sample_q db ''s'' ''old'' ''sha256:A'' = Inr (False, True)"
proof -
  let ?x = "ObserveServerTools sample_codec sample_q 9 ''s'' [Some (sample_tool ''D'')] sample_indexed"
  have "\<not> isl ?x" by code_simp
  from not_isl_Inr [OF this] have obs: "?x = Inr (fst (projr ?x), snd (projr ?x))" by simp
  have op: "db_open sample_indexed" "db_open (fst (projr ?x))" by code_simp+
  have sid: "''s'' = TrimSpace ''s''" by code_simp
  have D: "tool_Name (sample_tool ''D'') = ''D''" by (simp add: sample_tool_def)
  have old: "\<forall>t. Some t \<in> set [Some (sample_tool ''D'')] \<longrightarrow> tool_Name t \<noteq> ''old''"
    "map_of (tool_contract_cache sample_indexed) (''s'', ''old'') \<noteq> None" by (simp_all add: sample_tool_def sample_indexed_def)
  have row: "map_of (server_tools sample_indexed GenerationActive ''s'') ''D'' = Some \<lparr>st_fingerprint = ''sha256:E'', st_identity = [], st_contract = ''E''\<rparr>"
    by code_simp
  have "\<not> isl (observedContract sample_codec (sample_tool ''D''))" by code_simp
  from not_isl_Inr [OF this] obtain c where c: "observedContract sample_codec (sample_tool ''D'') = Inr c" by blast
  have "\<not> isl (SemanticFingerprintJSON sample_codec ''E'')" "fst (projr (SemanticFingerprintJSON sample_codec ''E'')) =
      otc_semantic (projr (observedContract sample_codec (sample_tool ''D'')))" by code_simp+
  then have sem: "SemanticFingerprintJSON sample_codec ''E'' = Inr (otc_semantic c, snd (projr (SemanticFingerprintJSON sample_codec ''E'')))"
    using c by (metis not_isl_Inr prod.collapse sum.sel(2))
  note all = ObserveServerTools_availability [OF obs sample_healthy op sid]
  have "ToolAvailability sample_q (fst (projr ?x)) ''s'' (tool_Name (sample_tool ''D''))
      (st_fingerprint \<lparr>st_fingerprint = ''sha256:E'', st_identity = [], st_contract = ''E''\<rparr>) = Inr (True, True)"
    by (rule all [THEN conjunct1, rule_format], intro conjI) (use c row sem D in simp_all)
  moreover have "ToolAvailability sample_q (fst (projr ?x)) ''s'' ''old'' ''sha256:A'' = Inr (False, True)"
    by (rule all [THEN conjunct2, THEN conjunct1, rule_format]) (use old in blast)
  ultimately have "?x = Inr (fst (projr ?x), snd (projr ?x)) \<and> ToolAvailability sample_q (fst (projr ?x)) ''s'' ''D'' ''sha256:E'' = Inr (True, True) \<and>
     ToolAvailability sample_q (fst (projr ?x)) ''s'' ''old'' ''sha256:A'' = Inr (False, True)"
    using D obs by (intro conjI) simp_all
  then show ?thesis by blast
qed

definition sample_batched :: catalog where
  "sample_batched = sample_created\<lparr>enrichment_batches := [(''b'', \<lparr>eb_GenerationID = ''g'', eb_Kind = BatchToolEnrichment, eb_BatchKey = ''k'',
     eb_Required = True, eb_RequestFingerprint = ''f'', eb_RequestJSON = ''r'', eb_Accepted = None\<rparr>)]\<rparr>"

theorem first_response_wins_witness:
  "\<exists>db b t. AcceptEnrichmentBatch sample_codec sample_q 3 ''b'' ''A'' sample_batched = Inr (db, b, False) \<and>
     AcceptEnrichmentBatch sample_codec sample_q 4 ''b'' ''B'' db = Inr (db, b, True)"
proof -
  let ?x = "AcceptEnrichmentBatch sample_codec sample_q 3 ''b'' ''A'' sample_batched"
  let ?db = "fst (projr ?x)"
  let ?y = "AcceptEnrichmentBatch sample_codec sample_q 4 ''b'' ''B'' ?db"
  have "\<not> isl ?x" "\<not> isl ?y" "\<not> snd (snd (projr ?x))" by code_simp+
  then have x: "?x = Inr (?db, fst (snd (projr ?x)), False)" and y: "?y = Inr (fst (projr ?y), fst (snd (projr ?y)), snd (snd (projr ?y)))"
    by (metis not_isl_Inr prod.collapse)+
  from first_response_wins [OF x rtranclp.rtrancl_refl y] x y show ?thesis by metis
qed

theorem PutArtifact_ReusableArtifact_witness:
  "\<exists>db key a. PutArtifact sample_codec sample_q 1 \<lparr>asp_Kind = ''k'', asp_Payload = ''p'', asp_Dependencies = [(''b'', ''2''), (''a'', ''1'')],
       asp_ContextFingerprint = ''c''\<rparr> schemaSQL = Inr (db, key, a) \<and>
     ReusableArtifact sample_codec sample_q db key [(''a'', ''1''), (''b'', ''2'')] ''c'' = Inr (key, a) \<and> art_Payload a = ''p''"
proof -
  let ?spec = "\<lparr>asp_Kind = ''k'', asp_Payload = ''p'', asp_Dependencies = [(''b'', ''2''), (''a'', ''1'')], asp_ContextFingerprint = ''c''\<rparr>"
  let ?x = "PutArtifact sample_codec sample_q 1 ?spec schemaSQL"
  have "\<not> isl ?x" by code_simp
  then have x: "?x = Inr (fst (projr ?x), fst (snd (projr ?x)), snd (snd (projr ?x)))" by (metis not_isl_Inr prod.collapse)
  have "mset [(''a'', ''1''), (''b'', ''2'')] = mset (asp_Dependencies ?spec)" by simp
  from PutArtifact_ReusableArtifact [OF x this sample_healthy] x show ?thesis by (metis (no_types, lifting) schemaSQL_def
      catalog.select_convs(1) ArtifactSpec.select_convs(2,4))
qed

definition sample_continuation :: continuation_in where
  "sample_continuation = \<lparr>ci_ID = ''m'', ci_Kind = ''task'', ci_ServerID = ''s'', ci_Payload = ''A'', ci_CreatedAt = Some 0, ci_ExpiresAt = Some 1000001\<rparr>"

theorem PutContinuation_again_witness:
  "\<exists>db stored. PutContinuation sample_codec sample_q 0 sample_continuation schemaSQL = Inr (db, (''m'', stored), False) \<and>
     PutContinuation sample_codec sample_q 0 sample_continuation db = Inl ErrContinuationConflict"
proof -
  let ?x = "PutContinuation sample_codec sample_q 0 sample_continuation schemaSQL"
  have "\<not> isl ?x" "fst (fst (snd (projr ?x))) = ''m''" "\<not> snd (snd (projr ?x))" by code_simp+
  then have x: "?x = Inr (fst (projr ?x), (''m'', snd (fst (snd (projr ?x)))), False)" by (metis not_isl_Inr prod.collapse)
  have t: "ci_CreatedAt sample_continuation = Some 0" "ci_ExpiresAt sample_continuation = Some 1000001" by (simp_all add: sample_continuation_def)
  from PutContinuation_again [OF x sample_healthy t(1), of 0] x t(2) show ?thesis by auto
qed

end
