(* ===== verification/ExecutionRouter.thy ===== *)
theory ExecutionRouter
  imports CatalogContent RoutingState ExecutionHandle LifecycleFacts
begin

text \<open>
  The execution router: \<^verbatim>\<open>internal/executionrouter/router.go\<close>, composed with the catalog, the routing-state
  tracker, the execution handles and a provider of downstream sessions. A call reaches a downstream session
  only through a handle that this process minted, for a tool that the active and current generation holds with
  the same fingerprint and executor class, with arguments its schema accepts, on a session that advertises
  the contracts of the index.

  JSON decoding of a stored contract and of a source server, and the JSON-schema library, are the record
  \<open>router_lib\<close>. A downstream result (a third-party struct) is its error flag and what \<^verbatim>\<open>json.Marshal\<close> gives.
  The text of error messages is left out; code, outcome and retry flag are kept.
\<close>

section \<open>Data\<close>

definition CodeManualServerStopped :: string where "CodeManualServerStopped = ''manual_server_stopped''"
definition CodeServerDisabled :: string where "CodeServerDisabled = ''server_disabled''"
definition CodeServerBusy :: string where "CodeServerBusy = ''server_busy''"
definition CodeManagerShuttingDown :: string where "CodeManagerShuttingDown = ''manager_shutting_down''"
definition CodeIndexRequired :: string where "CodeIndexRequired = ''index_required''"
definition CodeInvalidHandle :: string where "CodeInvalidHandle = ''invalid_execution_handle''"
definition CodeStaleHandle :: string where "CodeStaleHandle = ''stale_execution_handle''"
definition CodeExecutorMismatch :: string where "CodeExecutorMismatch = ''executor_class_mismatch''"
definition CodeInvalidArguments :: string where "CodeInvalidArguments = ''invalid_arguments''"
definition CodeUnsupportedSchema :: string where "CodeUnsupportedSchema = ''unsupported_tool_schema''"
definition CodeDownstreamUnavailable :: string where "CodeDownstreamUnavailable = ''downstream_unavailable''"
definition CodeDownstreamCallFailed :: string where "CodeDownstreamCallFailed = ''downstream_call_failed''"
definition CodeResultTooLarge :: string where "CodeResultTooLarge = ''result_too_large''"
definition CodeDownstreamResultInvalid :: string where "CodeDownstreamResultInvalid = ''downstream_result_invalid''"
definition CodeManagerUnavailable :: string where "CodeManagerUnavailable = ''manager_unavailable''"
definition CodeInvalidRequest :: string where "CodeInvalidRequest = ''invalid_request''"

datatype Outcome = OutcomeNotStarted | OutcomeCompleted | OutcomeUnknown

record call_result =
  cr_IsError :: bool
  cr_Encoded :: "string option"

record ExecutionError =
  xe_Code :: string
  xe_Outcome :: Outcome
  xe_Retryable :: bool
  xe_DownstreamIsError :: "bool option"
  xe_OriginalResult :: "call_result option"

record Input =
  in_ExecutionHandle :: string
  in_ToolName :: string
  in_Arguments :: "json option"

datatype call_error = ErrToolContractChanged | ErrDownstreamUnavailable | CallFailed string

text \<open>A session provider over its own state \<open>'w\<close>; a nil session is None.\<close>

record ('w, 's) provider =
  pv_Session :: "'w \<Rightarrow> string \<Rightarrow> 'w \<times> (life_error, 's option) result"
  pv_InitialTools :: "'w \<Rightarrow> 's \<Rightarrow> ToolSnapshot"
  pv_CallTool :: "'w \<Rightarrow> 's \<Rightarrow> string \<Rightarrow> json option \<Rightarrow> 'w \<times> (call_error, call_result option) result"
  pv_Release :: "'w \<Rightarrow> 's \<Rightarrow> 'w"

record router_lib =
  rl_codec :: codec
  rl_unmarshal_tool :: "string \<Rightarrow> mcp_tool option"
  rl_unmarshal_server :: "string \<Rightarrow> SourceServerContract option"
  rl_marshal_schema :: "json \<Rightarrow> string option"
  rl_unmarshal_schema :: "string \<Rightarrow> json option"
  rl_resolve_schema :: "json \<Rightarrow> json option"
  rl_validate_schema :: "json \<Rightarrow> json \<Rightarrow> bool"

record ('b, 'w, 's) router =
  rt_lib :: router_lib
  rt_hlib :: handle_lib
  rt_handles :: "Manager option"
  rt_state :: "'b backend_ops"
  rt_sessions :: "('w, 's) provider"
  rt_maxResultBytes :: int

record ('b, 'w) world =
  w_catalog :: catalog
  w_routing :: 'b
  w_sessions :: 'w

section \<open>Checks\<close>

definition DefaultMaxResultBytes :: int where
  "DefaultMaxResultBytes = 8388608"

text \<open>\<^verbatim>\<open>NewService\<close> on non-nil components chooses the limit.\<close>

definition router_limit :: "int \<Rightarrow> int" where
  "router_limit n = (if n \<le> 0 then DefaultMaxResultBytes else n)"

definition knownExecutorClass :: "string \<Rightarrow> bool" where
  "knownExecutorClass class \<longleftrightarrow> class \<in> set [ExecutorReadOnlyClosed, ExecutorReadOnlyOpen, ExecutorAdditiveClosed,
     ExecutorAdditiveClosedIdempotent, ExecutorAdditiveOpen, ExecutorAdditiveOpenIdempotent, ExecutorDestructiveClosed,
     ExecutorDestructiveClosedIdempotent, ExecutorDestructiveOpen, ExecutorDestructiveOpenIdempotent]"

definition executionFailure :: "string \<Rightarrow> Outcome \<Rightarrow> bool \<Rightarrow> ExecutionError" where
  "executionFailure code outcome retryable = \<lparr>xe_Code = code, xe_Outcome = outcome, xe_Retryable = retryable,
     xe_DownstreamIsError = None, xe_OriginalResult = None\<rparr>"

definition not_started :: "string \<Rightarrow> bool \<Rightarrow> ExecutionError" where
  "not_started code retryable = executionFailure code OutcomeNotStarted retryable"

definition findSource :: "SourceToolRecord list \<Rightarrow> string \<Rightarrow> string \<Rightarrow> SourceToolRecord option" where
  "findSource sources sid tool = find (\<lambda>s. rec_ServerID s = sid \<and> rec_ToolName s = tool) sources"

definition decodeAuthoritativeTool :: "router_lib \<Rightarrow> SourceToolRecord \<Rightarrow> mcp_tool option" where
  "decodeAuthoritativeTool lib source = (case rl_unmarshal_tool lib (rec_ContractJSON source) of
     None \<Rightarrow> None | Some tool \<Rightarrow> if tool_Name tool \<noteq> rec_ToolName source then None else Some tool)"

fun decode_all :: "router_lib \<Rightarrow> SourceToolRecord list \<Rightarrow> mcp_tool list option" where
  "decode_all lib [] = Some []"
| "decode_all lib (s # ss) = (case decodeAuthoritativeTool lib s of None \<Rightarrow> None
     | Some t \<Rightarrow> map_option ((#) t) (decode_all lib ss))"

definition authoritativeServerSnapshot :: "router_lib \<Rightarrow> SourceToolRecord list \<Rightarrow> string \<Rightarrow> ToolSnapshot option" where
  "authoritativeServerSnapshot lib sources sid =
     (case decode_all lib (filter (\<lambda>s. rec_ServerID s = sid) sources) of
        None \<Rightarrow> None
      | Some [] \<Rightarrow> None
      | Some tools \<Rightarrow> (case FingerprintTools (rl_codec lib) (map Some tools) of
          Inl e \<Rightarrow> None | Inr (fp, canonical) \<Rightarrow> Some \<lparr>ts_Tools = canonical, ts_Fingerprint = fp\<rparr>))"

datatype argument_error = UnsupportedSchema | InvalidArguments

definition validateArguments :: "router_lib \<Rightarrow> mcp_tool \<Rightarrow> json option \<Rightarrow> argument_error option" where
  "validateArguments lib tool arguments = (case tool_InputSchema tool of None \<Rightarrow> Some UnsupportedSchema | Some schema \<Rightarrow>
     (case rl_marshal_schema lib schema of None \<Rightarrow> Some UnsupportedSchema | Some body \<Rightarrow>
     (case rl_unmarshal_schema lib body of None \<Rightarrow> Some UnsupportedSchema | Some s \<Rightarrow>
     (case rl_resolve_schema lib s of None \<Rightarrow> Some UnsupportedSchema | Some resolved \<Rightarrow>
       if rl_validate_schema lib resolved (case arguments of None \<Rightarrow> JObj [] | Some a \<Rightarrow> a) then None else Some InvalidArguments))))"

text \<open>Early returns: on a condition, on an error of a callee, on a missing value.\<close>

definition refuse_if :: "bool \<Rightarrow> ExecutionError \<Rightarrow> (ExecutionError, unit) result" where
  "refuse_if bad e = (if bad then Inl e else Inr ())"

definition or_refuse :: "('e \<Rightarrow> ExecutionError) \<Rightarrow> ('e, 'a) result \<Rightarrow> (ExecutionError, 'a) result" where
  "or_refuse f r = (case r of Inl e \<Rightarrow> Inl (f e) | Inr x \<Rightarrow> Inr x)"

definition some_or_refuse :: "ExecutionError \<Rightarrow> 'a option \<Rightarrow> (ExecutionError, 'a) result" where
  "some_or_refuse e r = (case r of None \<Rightarrow> Inl e | Some x \<Rightarrow> Inr x)"

lemma refuse_simps [err_simps]:
  "refuse_if bad e = Inr u \<longleftrightarrow> \<not> bad" "or_refuse f r = Inr x \<longleftrightarrow> r = Inr x" "some_or_refuse e o' = Inr x \<longleftrightarrow> o' = Some x"
  by (simp_all add: refuse_if_def or_refuse_def some_or_refuse_def split: sum.split option.split)

definition handle_failure :: "handle_error \<Rightarrow> ExecutionError" where
  "handle_failure e = not_started (if e = ErrStaleHandle then CodeStaleHandle else CodeInvalidHandle) False"

definition argument_failure :: "argument_error \<Rightarrow> ExecutionError" where
  "argument_failure e = (case e of UnsupportedSchema \<Rightarrow> not_started CodeUnsupportedSchema False
     | InvalidArguments \<Rightarrow> not_started CodeInvalidArguments False)"

text \<open>The current generation, in the order of the code; a current answer always carries one.\<close>

definition current_generation :: "('b, 'w, 's) router \<Rightarrow> sqlenv \<Rightarrow> ('b, 'w) world \<Rightarrow> (ExecutionError, string) result" where
  "current_generation rt q w =
     rbind (or_refuse (\<lambda>_. not_started CodeManagerUnavailable True) (Tracker_Snapshot (rt_state rt) (w_routing w))) (\<lambda>state.
     rbind (refuse_if (blank (rs_RoutingStateHash state)) (not_started CodeIndexRequired False)) (\<lambda>_.
     rbind (or_refuse (\<lambda>_. not_started CodeManagerUnavailable True)
       (ActiveCurrent (rl_codec (rt_lib rt)) q (w_catalog w) (rs_RoutingStateHash state))) (\<lambda>(generation, current).
     rbind (refuse_if (\<not> current) (not_started CodeIndexRequired False)) (\<lambda>_.
     Inr (case generation of None \<Rightarrow> [] | Some (gid, g) \<Rightarrow> gid)))))"

text \<open>The authoritative source of the claims in the generation.\<close>

definition authoritative_source :: "('b, 'w, 's) router \<Rightarrow> sqlenv \<Rightarrow> Claims \<Rightarrow> string \<Rightarrow> ('b, 'w) world \<Rightarrow>
    (ExecutionError, SourceToolRecord list \<times> SourceToolRecord) result" where
  "authoritative_source rt q claims gid w = (let lib = rt_lib rt; cd = rl_codec lib in
     rbind (refuse_if (cl_GenerationID claims \<noteq> gid) (not_started CodeStaleHandle False)) (\<lambda>_.
     rbind (or_refuse (\<lambda>_. not_started CodeIndexRequired False)
       (SourceServer cd (rl_unmarshal_server lib) q (w_catalog w) gid (cl_ServerID claims))) (\<lambda>_.
     rbind (or_refuse (\<lambda>_. not_started CodeManagerUnavailable True) (SourceTools cd q (w_catalog w) gid)) (\<lambda>sources.
     rbind (some_or_refuse (not_started CodeStaleHandle False) (findSource sources (cl_ServerID claims) (cl_ToolName claims))) (\<lambda>source.
     rbind (refuse_if (rec_SourceFingerprint source \<noteq> cl_SourceFingerprint claims) (not_started CodeStaleHandle False)) (\<lambda>_.
     Inr (sources, source)))))))"

text \<open>Lines of \<^verbatim>\<open>Execute\<close> up to the session: what is to be called, or the refusal.\<close>

definition authorise :: "('b, 'w, 's) router \<Rightarrow> sqlenv \<Rightarrow> string \<Rightarrow> Input \<Rightarrow> ('b, 'w) world \<Rightarrow> (ExecutionError, Claims \<times> ToolSnapshot) result" where
  "authorise rt q executor input w = (let lib = rt_lib rt; cd = rl_codec lib in
     rbind (refuse_if (\<not> knownExecutorClass executor) (not_started CodeInvalidRequest False)) (\<lambda>_.
     rbind (or_refuse handle_failure (Validate (rt_hlib rt) (rt_handles rt) (TrimSpace (in_ExecutionHandle input)))) (\<lambda>claims.
     rbind (current_generation rt q w) (\<lambda>gid.
     rbind (authoritative_source rt q claims gid w) (\<lambda>(sources, source).
     rbind (or_refuse (\<lambda>_. not_started CodeIndexRequired False) (ExecutorClassForJSON cd (rec_ContractJSON source))) (\<lambda>class.
     rbind (refuse_if (class \<noteq> cl_ExecutorClass claims) (not_started CodeStaleHandle False)) (\<lambda>_.
     rbind (refuse_if (class \<noteq> executor) (not_started CodeExecutorMismatch False)) (\<lambda>_.
     rbind (some_or_refuse (not_started CodeIndexRequired False) (decodeAuthoritativeTool lib source)) (\<lambda>tool.
     rbind (case validateArguments lib tool (in_Arguments input) of None \<Rightarrow> Inr () | Some e \<Rightarrow> Inl (argument_failure e)) (\<lambda>_.
     rbind (some_or_refuse (not_started CodeIndexRequired False) (authoritativeServerSnapshot lib sources (cl_ServerID claims))) (\<lambda>expected.
     Inr (claims, expected))))))))))))"

section \<open>Execution\<close>

definition invalidateContract :: "('b, 'w, 's) router \<Rightarrow> sqlenv \<Rightarrow> int \<Rightarrow> string \<Rightarrow> string \<Rightarrow> ('b, 'w) world \<Rightarrow> ('b, 'w) world \<times> bool" where
  "invalidateContract rt q now sid observed w =
     (case MarkDirty q now (''server:'' @ sid) ''live downstream tool contract changed'' observed (w_catalog w) of
        Inl _ \<Rightarrow> (w, False)
      | Inr db \<Rightarrow> (case AdvanceRoutingRevision (rt_state rt) (w_routing w) of
          (b, r) \<Rightarrow> (w\<lparr>w_catalog := db, w_routing := b\<rparr>, \<not> isl r)))"

text \<open>The error of the provider: a lifecycle error names its own code and retry flag.\<close>

definition provider_failure :: "life_error \<Rightarrow> ExecutionError" where
  "provider_failure e = (case ExecutionCode e of
     None \<Rightarrow> not_started CodeDownstreamUnavailable True
   | Some (code, retryable) \<Rightarrow> not_started (if TrimSpace code = [] then CodeDownstreamUnavailable else TrimSpace code) retryable)"

definition check_result :: "int \<Rightarrow> call_result option \<Rightarrow> (ExecutionError, call_result) result" where
  "check_result limit result = (case result of
     None \<Rightarrow> Inl (executionFailure CodeDownstreamResultInvalid OutcomeCompleted False)
   | Some r \<Rightarrow> (case cr_Encoded r of
       None \<Rightarrow> Inl ((executionFailure CodeDownstreamResultInvalid OutcomeCompleted False)
         \<lparr>xe_OriginalResult := Some r, xe_DownstreamIsError := Some (cr_IsError r)\<rparr>)
     | Some body \<Rightarrow> if int (length body) > limit
         then Inl ((executionFailure CodeResultTooLarge OutcomeCompleted False)\<lparr>xe_DownstreamIsError := Some (cr_IsError r)\<rparr>)
         else Inr r))"

text \<open>The part of \<^verbatim>\<open>Execute\<close> that holds the session, before the deferred release.\<close>

definition use_session :: "('b, 'w, 's) router \<Rightarrow> sqlenv \<Rightarrow> int \<Rightarrow> Claims \<Rightarrow> ToolSnapshot \<Rightarrow> Input \<Rightarrow> 's \<Rightarrow> ('b, 'w) world \<Rightarrow>
    ('b, 'w) world \<times> (ExecutionError, call_result) result" where
  "use_session rt q now claims expected input session w = (let pv = rt_sessions rt; live = pv_InitialTools pv (w_sessions w) session in
     if ts_Fingerprint live = [] \<or> ts_Fingerprint live \<noteq> ts_Fingerprint expected
     then (fst (invalidateContract rt q now (cl_ServerID claims) (ts_Fingerprint live) w), Inl (not_started CodeIndexRequired False))
     else (case pv_CallTool pv (w_sessions w) session (cl_ToolName claims) (in_Arguments input) of
       (s', r) \<Rightarrow> let w' = w\<lparr>w_sessions := s'\<rparr> in (case r of
         Inl ErrToolContractChanged \<Rightarrow>
           (fst (invalidateContract rt q now (cl_ServerID claims) [] w'), Inl (not_started CodeIndexRequired False))
       | Inl ErrDownstreamUnavailable \<Rightarrow> (w', Inl (not_started CodeDownstreamUnavailable True))
       | Inl (CallFailed m) \<Rightarrow> (w', Inl (executionFailure CodeDownstreamCallFailed OutcomeUnknown False))
       | Inr result \<Rightarrow> (w', check_result (rt_maxResultBytes rt) result))))"

definition Execute :: "('b, 'w, 's) router \<Rightarrow> sqlenv \<Rightarrow> int \<Rightarrow> string \<Rightarrow> Input \<Rightarrow> ('b, 'w) world \<Rightarrow>
    ('b, 'w) world \<times> (ExecutionError, call_result) result" where
  "Execute rt q now executor input w = (case authorise rt q executor input w of
     Inl e \<Rightarrow> (w, Inl e)
   | Inr (claims, expected) \<Rightarrow>
      (case pv_Session (rt_sessions rt) (w_sessions w) (cl_ServerID claims) of
        (s, Inl e) \<Rightarrow> (w\<lparr>w_sessions := s\<rparr>, Inl (provider_failure e))
      | (s, Inr None) \<Rightarrow> (w\<lparr>w_sessions := s\<rparr>, Inl (not_started CodeManagerUnavailable True))
      | (s, Inr (Some session)) \<Rightarrow>
          (case use_session rt q now claims expected input session (w\<lparr>w_sessions := s\<rparr>) of
             (w', r) \<Rightarrow> (w'\<lparr>w_sessions := pv_Release (rt_sessions rt) (w_sessions w') session\<rparr>, r))))"

end
