(* ===== verification/RouterFacts.thy ===== *)
theory RouterFacts
  imports ExecutionRouter
begin

text \<open>
  What the router guarantees, for any provider of sessions that counts its leases and records the calls its
  sessions receive (the locale \<open>session_provider\<close>), and for the lifecycle service, which is one.
\<close>

section \<open>Authorisation\<close>

definition authorised :: "('b, 'w, 's) router \<Rightarrow> sqlenv \<Rightarrow> string \<Rightarrow> Input \<Rightarrow> ('b, 'w) world \<Rightarrow> Claims \<Rightarrow> ToolSnapshot \<Rightarrow> bool" where
  "authorised rt q executor input w claims expected \<longleftrightarrow> knownExecutorClass executor \<and>
     Validate (rt_hlib rt) (rt_handles rt) (TrimSpace (in_ExecutionHandle input)) = Inr claims \<and>
     (\<exists>state g sources source tool. Tracker_Snapshot (rt_state rt) (w_routing w) = Inr state \<and>
        ActiveCurrent (rl_codec (rt_lib rt)) q (w_catalog w) (rs_RoutingStateHash state) = Inr (Some (cl_GenerationID claims, g), True) \<and>
        SourceTools (rl_codec (rt_lib rt)) q (w_catalog w) (cl_GenerationID claims) = Inr sources \<and> source \<in> set sources \<and>
        rec_ServerID source = cl_ServerID claims \<and> rec_ToolName source = cl_ToolName claims \<and>
        rec_SourceFingerprint source = cl_SourceFingerprint claims \<and>
        ExecutorClassForJSON (rl_codec (rt_lib rt)) (rec_ContractJSON source) = Inr executor \<and> cl_ExecutorClass claims = executor \<and>
        decodeAuthoritativeTool (rt_lib rt) source = Some tool \<and>
        validateArguments (rt_lib rt) tool (in_Arguments input) = None \<and>
        authoritativeServerSnapshot (rt_lib rt) sources (cl_ServerID claims) = Some expected)"

lemma ActiveCurrent_True:
  assumes "ActiveCurrent cd q db h = Inr (r, True)"
  shows "(\<exists>gid g. r = Some (gid, g)) \<and> dirty_partitions db = []"
proof -
  obtain x where x: "ActiveGeneration q db = Inr x"
  proof (cases "ActiveGeneration q db")
    case (Inl e)
    then show ?thesis using assms by (cases e) (auto simp: ActiveCurrent_def rbind_Inr_iff)
  qed
  obtain gid g where gg: "x = (gid, g)" by (cases x)
  show ?thesis using assms by (auto simp: ActiveCurrent_def rbind_Inr_iff x gg split: if_splits)
qed

lemma current_generation_Inr:
  assumes "current_generation rt q w = Inr gid"
  shows "dirty_partitions (w_catalog w) = [] \<and> (\<exists>state g. Tracker_Snapshot (rt_state rt) (w_routing w) = Inr state \<and>
    ActiveCurrent (rl_codec (rt_lib rt)) q (w_catalog w) (rs_RoutingStateHash state) = Inr (Some (gid, g), True))"
proof -
  from assms obtain state r current where s: "Tracker_Snapshot (rt_state rt) (w_routing w) = Inr state" and
    a: "ActiveCurrent (rl_codec (rt_lib rt)) q (w_catalog w) (rs_RoutingStateHash state) = Inr (r, current)" and c: "current" and
    gid: "gid = (case r of None \<Rightarrow> [] | Some (gid, g) \<Rightarrow> gid)"
    unfolding current_generation_def by (auto simp: rbind_Inr_iff err_simps)
  have a': "ActiveCurrent (rl_codec (rt_lib rt)) q (w_catalog w) (rs_RoutingStateHash state) = Inr (r, True)" using a c by simp
  obtain g' k where r: "r = Some (g', k)" using ActiveCurrent_True [OF a'] by blast
  then have "gid = g'" using gid by simp
  then show ?thesis using s a' r ActiveCurrent_True [OF a'] by blast
qed

lemma findSource_Some: "findSource sources sid tool = Some s \<Longrightarrow> s \<in> set sources \<and> rec_ServerID s = sid \<and> rec_ToolName s = tool"
  by (auto simp: findSource_def find_Some_iff)

lemma authorise_authorised:
  assumes "authorise rt q executor input w = Inr (claims, expected)"
  shows "authorised rt q executor input w claims expected"
proof -
  from assms obtain gid sources source cls tool where
    k: "knownExecutorClass executor" "Validate (rt_hlib rt) (rt_handles rt) (TrimSpace (in_ExecutionHandle input)) = Inr claims" and
    g: "current_generation rt q w = Inr gid" and src: "authoritative_source rt q claims gid w = Inr (sources, source)" and
    c: "ExecutorClassForJSON (rl_codec (rt_lib rt)) (rec_ContractJSON source) = Inr cls" "cls = cl_ExecutorClass claims" "cls = executor" and
    t: "decodeAuthoritativeTool (rt_lib rt) source = Some tool" "validateArguments (rt_lib rt) tool (in_Arguments input) = None" and
    e: "authoritativeServerSnapshot (rt_lib rt) sources (cl_ServerID claims) = Some expected"
    unfolding authorise_def Let_def by (auto simp: rbind_Inr_iff err_simps split: option.splits)
  have s: "gid = cl_GenerationID claims" "SourceTools (rl_codec (rt_lib rt)) q (w_catalog w) gid = Inr sources"
    "findSource sources (cl_ServerID claims) (cl_ToolName claims) = Some source" "rec_SourceFingerprint source = cl_SourceFingerprint claims"
    using src unfolding authoritative_source_def Let_def by (auto simp: rbind_Inr_iff err_simps)
  show ?thesis
    unfolding authorised_def using k current_generation_Inr [OF g] s(1,2,4) findSource_Some [OF s(3)] c t e by blast
qed

lemma refusal_not_started:
  "authorise rt q executor input w = Inl e \<Longrightarrow> xe_Outcome e = OutcomeNotStarted"
  unfolding authorise_def current_generation_def authoritative_source_def Let_def
  by (auto simp: rbind_def refuse_if_def or_refuse_def some_or_refuse_def not_started_def executionFailure_def
      handle_failure_def argument_failure_def split: sum.splits option.splits if_splits prod.splits argument_error.splits)

section \<open>Sessions\<close>

locale session_provider =
  fixes pv :: "('w, 's) provider"
    and ok :: "'w \<Rightarrow> bool"
    and leases :: "'w \<Rightarrow> nat \<Rightarrow> int"
    and calls :: "'w \<Rightarrow> ('s \<times> string \<times> json option) list"
    and slot :: "'s \<Rightarrow> nat"
    and held :: "'w \<Rightarrow> 's \<Rightarrow> bool"
    and for_server :: "'w \<Rightarrow> 's \<Rightarrow> string \<Rightarrow> bool"
  assumes Session_refused: "ok w \<Longrightarrow> pv_Session pv w sid = (w', r) \<Longrightarrow> \<forall>s. r \<noteq> Inr (Some s) \<Longrightarrow>
      ok w' \<and> leases w' = leases w \<and> calls w' = calls w"
    and Session_granted: "ok w \<Longrightarrow> pv_Session pv w sid = (w', Inr (Some s)) \<Longrightarrow>
      ok w' \<and> leases w' = (leases w)(slot s := leases w (slot s) + 1) \<and> calls w' = calls w \<and> held w' s \<and> for_server w' s sid"
    and CallTool_logged: "ok w \<Longrightarrow> held w s \<Longrightarrow> pv_CallTool pv w s tool args = (w', ans) \<Longrightarrow>
      ok w' \<and> leases w' = leases w \<and> calls w' = calls w @ [(s, tool, args)] \<and> held w' s"
    and Release_counted: "ok w \<Longrightarrow> held w s \<Longrightarrow>
      ok (pv_Release pv w s) \<and> leases (pv_Release pv w s) = (leases w)(slot s := leases w (slot s) - 1) \<and> calls (pv_Release pv w s) = calls w"
begin

lemma use_session_effect:
  assumes U: "use_session rt q now claims expected input s w = (w', r)" and pv: "rt_sessions rt = pv"
    and w: "ok (w_sessions w)" "held (w_sessions w) s"
  shows "ok (w_sessions w') \<and> held (w_sessions w') s \<and> leases (w_sessions w') = leases (w_sessions w) \<and>
    (calls (w_sessions w') = calls (w_sessions w) \<and> (\<exists>e. r = Inl e \<and> xe_Outcome e = OutcomeNotStarted) \<or>
     calls (w_sessions w') = calls (w_sessions w) @ [(s, cl_ToolName claims, in_Arguments input)] \<and>
       ts_Fingerprint (pv_InitialTools pv (w_sessions w) s) = ts_Fingerprint expected) \<and>
    (\<forall>e. r = Inl e \<and> xe_Retryable e \<longrightarrow> xe_Outcome e = OutcomeNotStarted)"
proof (cases "ts_Fingerprint (pv_InitialTools pv (w_sessions w) s) = [] \<or>
    ts_Fingerprint (pv_InitialTools pv (w_sessions w) s) \<noteq> ts_Fingerprint expected")
  case True
  then have "w_sessions w' = w_sessions w" "r = Inl (not_started CodeIndexRequired False)"
    using U unfolding use_session_def invalidateContract_def Let_def pv by (auto split: sum.splits prod.splits)
  then show ?thesis using w by (simp add: not_started_def executionFailure_def)
next
  case False
  obtain s' ans where C: "pv_CallTool pv (w_sessions w) s (cl_ToolName claims) (in_Arguments input) = (s', ans)"
    by (cases "pv_CallTool pv (w_sessions w) s (cl_ToolName claims) (in_Arguments input)")
  note L = CallTool_logged [OF w C]
  have ws: "w_sessions w' = s'"
    using U False unfolding use_session_def invalidateContract_def Let_def pv C
    by (auto split: sum.splits call_error.splits prod.splits)
  have "\<forall>e. r = Inl e \<and> xe_Retryable e \<longrightarrow> xe_Outcome e = OutcomeNotStarted"
    using U False unfolding use_session_def Let_def pv C
    by (auto simp: not_started_def executionFailure_def check_result_def split: sum.splits call_error.splits option.splits if_splits)
  then show ?thesis using L ws False by simp
qed

lemma Execute_effect:
  assumes E: "Execute rt q now executor input w = (w', r)" and pv: "rt_sessions rt = pv" and w: "ok (w_sessions w)"
  shows "ok (w_sessions w') \<and> leases (w_sessions w') = leases (w_sessions w) \<and>
    (calls (w_sessions w') = calls (w_sessions w) \<and> (\<exists>e. r = Inl e \<and> xe_Outcome e = OutcomeNotStarted) \<or>
     (\<exists>claims expected w1 s. authorised rt q executor input w claims expected \<and>
        pv_Session pv (w_sessions w) (cl_ServerID claims) = (w1, Inr (Some s)) \<and> for_server w1 s (cl_ServerID claims) \<and>
        ts_Fingerprint (pv_InitialTools pv w1 s) = ts_Fingerprint expected \<and>
        calls (w_sessions w') = calls (w_sessions w) @ [(s, cl_ToolName claims, in_Arguments input)])) \<and>
    (\<forall>e. r = Inl e \<and> xe_Retryable e \<longrightarrow> xe_Outcome e = OutcomeNotStarted)"
proof (cases "authorise rt q executor input w")
  case (Inl e)
  then have "w' = w" "r = Inl e" using E by (simp_all add: Execute_def)
  then show ?thesis using w refusal_not_started [OF Inl] by simp
next
  case (Inr ce)
  obtain claims expected where ce: "ce = (claims, expected)" by (cases ce)
  note auth = authorise_authorised [OF Inr [unfolded ce]]
  obtain s1 a where S: "pv_Session pv (w_sessions w) (cl_ServerID claims) = (s1, a)"
    by (cases "pv_Session pv (w_sessions w) (cl_ServerID claims)")
  show ?thesis
  proof (cases "\<exists>s. a = Inr (Some s)")
    case False
    then have "w_sessions w' = s1 \<and> (\<exists>e. r = Inl e \<and> xe_Outcome e = OutcomeNotStarted)"
      using E S unfolding Execute_def pv Inr ce
      by (cases a) (auto simp: provider_failure_def not_started_def executionFailure_def split: option.splits prod.splits)
    then show ?thesis using Session_refused [OF w S] False by auto
  next
    case True
    then obtain s where s: "a = Inr (Some s)" by blast
    note G = Session_granted [OF w S [unfolded s]]
    obtain w2 r2 where U: "use_session rt q now claims expected input s (w\<lparr>w_sessions := s1\<rparr>) = (w2, r2)"
      by (cases "use_session rt q now claims expected input s (w\<lparr>w_sessions := s1\<rparr>)")
    have w': "w' = w2\<lparr>w_sessions := pv_Release pv (w_sessions w2) s\<rparr>" "r = r2"
      using E S U by (simp_all add: Execute_def pv Inr ce s)
    have UE: "ok (w_sessions w2) \<and> held (w_sessions w2) s \<and> leases (w_sessions w2) = leases s1 \<and>
      (calls (w_sessions w2) = calls s1 \<and> (\<exists>e. r2 = Inl e \<and> xe_Outcome e = OutcomeNotStarted) \<or>
       calls (w_sessions w2) = calls s1 @ [(s, cl_ToolName claims, in_Arguments input)] \<and>
         ts_Fingerprint (pv_InitialTools pv s1 s) = ts_Fingerprint expected) \<and>
      (\<forall>e. r2 = Inl e \<and> xe_Retryable e \<longrightarrow> xe_Outcome e = OutcomeNotStarted)"
      using use_session_effect [OF U pv] G by simp
    have R: "ok (w_sessions w')" "leases (w_sessions w') = leases (w_sessions w)" "calls (w_sessions w') = calls (w_sessions w2)"
      using Release_counted [of "w_sessions w2" s] UE G by (simp_all add: w')
    show ?thesis
    proof (intro conjI)
      show "calls (w_sessions w') = calls (w_sessions w) \<and> (\<exists>e. r = Inl e \<and> xe_Outcome e = OutcomeNotStarted) \<or>
        (\<exists>claims expected w1 s. authorised rt q executor input w claims expected \<and>
          pv_Session pv (w_sessions w) (cl_ServerID claims) = (w1, Inr (Some s)) \<and> for_server w1 s (cl_ServerID claims) \<and>
          ts_Fingerprint (pv_InitialTools pv w1 s) = ts_Fingerprint expected \<and>
          calls (w_sessions w') = calls (w_sessions w) @ [(s, cl_ToolName claims, in_Arguments input)])"
        using UE G R(3) auth S unfolding s w'(2) by metis
    qed (use R UE w'(2) in auto)
  qed
qed

end

section \<open>The lifecycle service as a provider\<close>

text \<open>
  \<^verbatim>\<open>Service.Session\<close> is \<^verbatim>\<open>Acquire\<close>, and the session is the lease. The three environments are those of the
  acquisition, of the call and of the deferred release; \<open>answer\<close> is what the downstream session answers, and
  \<open>rn_calls\<close> records the requests that reached one.
\<close>

record runtime =
  rn_service :: Service
  rn_calls :: "(UseLease \<times> string \<times> json option) list"

definition lifecycle_Session :: "env \<Rightarrow> (ServerEntry \<Rightarrow> connect_result) \<Rightarrow> bool \<Rightarrow> runtime \<Rightarrow> string \<Rightarrow>
    runtime \<times> (life_error, UseLease option) result" where
  "lifecycle_Session en connect locked w sid = (case Acquire en connect locked (rn_service w) sid of
     (sv, Inl e) \<Rightarrow> (w\<lparr>rn_service := sv\<rparr>, Inl e) | (sv, Inr l) \<Rightarrow> (w\<lparr>rn_service := sv\<rparr>, Inr (Some l)))"

definition lifecycle_CallTool :: "env \<Rightarrow> (nat \<Rightarrow> string \<Rightarrow> json option \<Rightarrow> (call_error, call_result option) result) \<Rightarrow> runtime \<Rightarrow> UseLease \<Rightarrow>
    string \<Rightarrow> json option \<Rightarrow> runtime \<times> (call_error, call_result option) result" where
  "lifecycle_CallTool en answer w l tool args = (case lease_CallTool en (rn_service w) l (\<lambda>c. answer c tool args) of
     (sv, Inl e) \<Rightarrow> (w\<lparr>rn_service := sv\<rparr>, Inl ErrDownstreamUnavailable)
   | (sv, Inr r) \<Rightarrow> (w\<lparr>rn_service := sv, rn_calls := rn_calls w @ [(l, tool, args)]\<rparr>, r))"

definition lifecycle_provider :: "env \<Rightarrow> env \<Rightarrow> env \<Rightarrow> (ServerEntry \<Rightarrow> connect_result) \<Rightarrow> bool \<Rightarrow>
    (nat \<Rightarrow> string \<Rightarrow> json option \<Rightarrow> (call_error, call_result option) result) \<Rightarrow> (runtime, UseLease) provider" where
  "lifecycle_provider ena enc enr connect locked answer = \<lparr>pv_Session = lifecycle_Session ena connect locked,
     pv_InitialTools = (\<lambda>w l. en_initial enc (ul_session l)), pv_CallTool = lifecycle_CallTool enc answer,
     pv_Release = (\<lambda>w l. w\<lparr>rn_service := fst (Release enr (rn_service w) l)\<rparr>)\<rparr>"

definition runtime_leases :: "runtime \<Rightarrow> nat \<Rightarrow> int" where
  "runtime_leases w p = ss_active (get_state (rn_service w) p)"

definition runtime_held :: "runtime \<Rightarrow> UseLease \<Rightarrow> bool" where
  "runtime_held w l \<longleftrightarrow> \<not> ul_released l \<and> ul_state l < length (sv_heap (rn_service w)) \<and> 0 < ss_active (get_state (rn_service w) (ul_state l))"

definition runtime_for :: "runtime \<Rightarrow> UseLease \<Rightarrow> string \<Rightarrow> bool" where
  "runtime_for w l sid \<longleftrightarrow> Service_lookup (rn_service w) sid = Inr (ul_state l) \<and>
     ss_session (get_state (rn_service w) (ul_state l)) = Some (ul_session l)"

lemma touch_keeps:
  assumes "sv_ok sv" "ul_state l < length (sv_heap sv)"
  shows "sv_ok (lease_touch en sv l) \<and> ss_active (get_state (lease_touch en sv l) p) = ss_active (get_state sv p) \<and>
    length (sv_heap (lease_touch en sv l)) = length (sv_heap sv)"
proof (cases "ul_released l")
  case False
  let ?st = "touched en (get_state sv (ul_state l))"
  have o: "only_at (ul_state l) ?st sv (lease_touch en sv l)" using False by (simp add: lease_touch_def)
  have "st_ok ?st" using sv_ok_get [OF assms] by (simp add: st_ok_def section_simps split: option.splits)
  then have "sv_ok (lease_touch en sv l)" by (rule only_at_ok [OF o assms(1)])
  then show ?thesis using only_at_get [OF o assms(2), of p] only_at_length [OF o] by (simp add: touched_def)
qed (use assms in \<open>simp add: lease_touch_def\<close>)

interpretation lifecycle: session_provider "lifecycle_provider ena enc enr connect locked answer" "\<lambda>w. sv_ok (rn_service w)"
    runtime_leases rn_calls ul_state runtime_held runtime_for
  for ena enc enr connect locked answer
proof
  fix w sid w' r
  assume ok: "sv_ok (rn_service w)" and S: "pv_Session (lifecycle_provider ena enc enr connect locked answer) w sid = (w', r)"
    and no: "\<forall>s. r \<noteq> Inr (Some s)"
  obtain sv a where A: "Acquire ena connect locked (rn_service w) sid = (sv, a)" by (cases "Acquire ena connect locked (rn_service w) sid")
  have w': "w' = w\<lparr>rn_service := sv\<rparr>" "isl a" using S A no by (auto simp: lifecycle_provider_def lifecycle_Session_def split: sum.splits)
  from A ok have "runtime_leases w' = runtime_leases w"
  proof (cases rule: Acquire_cases)
    case (failed p st e)
    have "p < length (sv_heap (rn_service w))" using lookup_bound [OF ok failed(1)] by simp
    from only_at_get [OF failed(2) this] failed(4) show ?thesis by (simp add: w' runtime_leases_def fun_eq_iff)
  qed (use w' in \<open>simp_all add: runtime_leases_def fun_eq_iff\<close>)
  then show "sv_ok (rn_service w') \<and> runtime_leases w' = runtime_leases w \<and> rn_calls w' = rn_calls w"
    using Acquire_ok [OF A ok] by (simp add: w')
next
  fix w sid w' s
  assume ok: "sv_ok (rn_service w)" and S: "pv_Session (lifecycle_provider ena enc enr connect locked answer) w sid = (w', Inr (Some s))"
  obtain sv a where A: "Acquire ena connect locked (rn_service w) sid = (sv, a)" by (cases "Acquire ena connect locked (rn_service w) sid")
  have w': "w' = w\<lparr>rn_service := sv\<rparr>" "a = Inr s" using S A by (auto simp: lifecycle_provider_def lifecycle_Session_def split: sum.splits)
  from A ok show "sv_ok (rn_service w') \<and> runtime_leases w' = (runtime_leases w)(ul_state s := runtime_leases w (ul_state s) + 1) \<and>
      rn_calls w' = rn_calls w \<and> runtime_held w' s \<and> runtime_for w' s sid"
  proof (cases rule: Acquire_cases)
    case (granted p st c)
    have p: "p < length (sv_heap (rn_service w))" using lookup_bound [OF ok granted(1)] by simp
    have s: "ul_state s = p" "ul_session s = c" "\<not> ul_released s" using granted(13) w'(2) by auto
    have "0 \<le> ss_active (get_state (rn_service w) p)" using sv_ok_get [OF ok p] by (rule st_ok_active)
    moreover have "sv_states sv = sv_states (rn_service w)" using granted(2) by (simp add: only_at_def same_frame_def)
    ultimately show ?thesis
      using only_at_get [OF granted(2) p] only_at_length [OF granted(2)] granted(1,4,5) Acquire_ok [OF A ok] p s
      by (simp add: w' runtime_leases_def runtime_held_def runtime_for_def fun_eq_iff Service_lookup_def)
  qed (use w' in auto)
next
  fix w s tool args w' ans
  assume ok: "sv_ok (rn_service w)" and h: "runtime_held w s"
    and C: "pv_CallTool (lifecycle_provider ena enc enr connect locked answer) w s tool args = (w', ans)"
  let ?sv = "lease_touch enc (lease_touch enc (rn_service w) s) s"
  have w': "w' = w\<lparr>rn_service := ?sv, rn_calls := rn_calls w @ [(s, tool, args)]\<rparr>"
    using C h by (auto simp: lifecycle_provider_def lifecycle_CallTool_def lease_CallTool_def runtime_held_def Let_def)
  have b: "ul_state s < length (sv_heap (rn_service w))" using h by (simp add: runtime_held_def)
  note t1 = touch_keeps [OF ok b, of enc]
  note t2 = touch_keeps [of "lease_touch enc (rn_service w) s" s enc]
  show "sv_ok (rn_service w') \<and> runtime_leases w' = runtime_leases w \<and> rn_calls w' = rn_calls w @ [(s, tool, args)] \<and> runtime_held w' s"
    using t1 t2 b h by (simp add: w' runtime_leases_def runtime_held_def fun_eq_iff)
next
  fix w s
  assume ok: "sv_ok (rn_service w)" and h: "runtime_held w s"
  have b: "ul_state s < length (sv_heap (rn_service w))" "\<not> ul_released s" "0 < ss_active (get_state (rn_service w) (ul_state s))"
    using h by (simp_all add: runtime_held_def)
  note o = Release_only_at [OF b(2), of "rn_service w" enr]
  show "sv_ok (rn_service (pv_Release (lifecycle_provider ena enc enr connect locked answer) w s)) \<and>
      runtime_leases (pv_Release (lifecycle_provider ena enc enr connect locked answer) w s) =
        (runtime_leases w)(ul_state s := runtime_leases w (ul_state s) - 1) \<and>
      rn_calls (pv_Release (lifecycle_provider ena enc enr connect locked answer) w s) = rn_calls w"
    using Release_ok [OF ok b(1)] only_at_get [OF o b(1)] b(3)
    by (simp add: lifecycle_provider_def runtime_leases_def fun_eq_iff release_state_active)
qed

section \<open>Guarantees of the composed system\<close>

text \<open>
  (C1) Over the lifecycle service, an execution reaches a downstream session at most once, and only when it is
  authorised: the handle validates in this process, its generation is the active and current one, that
  generation holds the named tool of the named server with the handle's fingerprint and executor class, the
  class is the executor's, the arguments satisfy the tool's schema, and the session, a running session of that
  server, advertises exactly the indexed contracts. If nothing was called, the answer is an error that says so (not_started).
  An error marked retryable always says not_started. Whatever the path, every lease is returned: the lease
  counts after the execution are those before it.
\<close>
theorem Execute_authorised_once:
  assumes E: "Execute rt q now executor input w = (w', r)"
    and pv: "rt_sessions rt = lifecycle_provider ena enc enr connect locked answer" and ok: "sv_ok (rn_service (w_sessions w))"
  shows "sv_ok (rn_service (w_sessions w')) \<and> runtime_leases (w_sessions w') = runtime_leases (w_sessions w) \<and>
    (rn_calls (w_sessions w') = rn_calls (w_sessions w) \<and> (\<exists>e. r = Inl e \<and> xe_Outcome e = OutcomeNotStarted) \<or>
     (\<exists>claims expected w1 l. authorised rt q executor input w claims expected \<and>
        lifecycle_Session ena connect locked (w_sessions w) (cl_ServerID claims) = (w1, Inr (Some l)) \<and>
        runtime_for w1 l (cl_ServerID claims) \<and> ts_Fingerprint (en_initial enc (ul_session l)) = ts_Fingerprint expected \<and>
        rn_calls (w_sessions w') = rn_calls (w_sessions w) @ [(l, cl_ToolName claims, in_Arguments input)])) \<and>
    (\<forall>e. r = Inl e \<and> xe_Retryable e \<longrightarrow> xe_Outcome e = OutcomeNotStarted)"
  using lifecycle.Execute_effect [OF E pv ok] by (simp add: lifecycle_provider_def)

lemma dirty_refuses:
  assumes "dirty_partitions (w_catalog w) \<noteq> []"
  shows "\<exists>e. Execute rt q now executor input w = (w, Inl e) \<and> xe_Outcome e = OutcomeNotStarted"
proof (cases "authorise rt q executor input w")
  case (Inl e)
  then show ?thesis using refusal_not_started [OF Inl] by (simp add: Execute_def)
next
  case (Inr ce)
  obtain claims expected where ce: "ce = (claims, expected)" by (cases ce)
  from authorise_authorised [OF Inr [unfolded ce]] have "dirty_partitions (w_catalog w) = []"
    unfolding authorised_def using ActiveCurrent_True by blast
  with assms show ?thesis by simp
qed

text \<open>
  (C2) Contract drift fails closed. When an authorised execution finds a live session whose tools are not those of the
  index, it calls nothing, releases the session, and answers index_required (not started, not to be retried), whether or not the
  invalidation can be stored. When the database accepts the marker (SQLite healthy, the catalog open), the server's partition is
  marked dirty; otherwise catalog and routing state are as before. In every state in which some partition is marked, whatever
  happened in between, every execution, of any tool and executor, is refused with no effect and no call.
\<close>
theorem contract_drift_fails_closed:
  assumes A: "authorise rt q executor input w = Inr (claims, expected)"
    and S: "pv_Session (rt_sessions rt) (w_sessions w) (cl_ServerID claims) = (s, Inr (Some l))"
    and drift: "ts_Fingerprint (pv_InitialTools (rt_sessions rt) s l) \<noteq> ts_Fingerprint expected"
    and E: "Execute rt q now executor input w = (w', r)"
  shows "r = Inl (not_started CodeIndexRequired False) \<and> w_sessions w' = pv_Release (rt_sessions rt) s l \<and>
    (healthy q \<and> db_open (w_catalog w) \<longrightarrow> map_of (dirty_partitions (w_catalog w')) (''server:'' @ cl_ServerID claims) \<noteq> None) \<and>
    (map_of (dirty_partitions (w_catalog w')) (''server:'' @ cl_ServerID claims) = None \<longrightarrow> w_catalog w' = w_catalog w \<and> w_routing w' = w_routing w) \<and>
    (\<forall>w2 key rt2 q2 now2 executor2 input2. map_of (dirty_partitions (w_catalog (w2 :: ('b, 'w) world))) key \<noteq> None \<longrightarrow>
      (\<exists>e. Execute (rt2 :: ('b, 'w, 's) router) q2 now2 executor2 input2 w2 = (w2, Inl e) \<and> xe_Outcome e = OutcomeNotStarted))"
proof -
  let ?key = "''server:'' @ cl_ServerID claims" and ?live = "ts_Fingerprint (pv_InitialTools (rt_sessions rt) s l)"
  let ?mark = "MarkDirty q now ?key ''live downstream tool contract changed'' ?live (w_catalog w)"
  have use: "use_session rt q now claims expected input l (w\<lparr>w_sessions := s\<rparr>) =
     (fst (invalidateContract rt q now (cl_ServerID claims) ?live (w\<lparr>w_sessions := s\<rparr>)), Inl (not_started CodeIndexRequired False))"
    using drift by (simp add: use_session_def Let_def)
  have w': "r = Inl (not_started CodeIndexRequired False)"
    "w' = (let w1 = fst (invalidateContract rt q now (cl_ServerID claims) ?live (w\<lparr>w_sessions := s\<rparr>)) in
       w1\<lparr>w_sessions := pv_Release (rt_sessions rt) (w_sessions w1) l\<rparr>)"
    using E by (simp_all add: Execute_def A S use Let_def)
  have failed: "w_sessions w' = pv_Release (rt_sessions rt) s l \<and> w_catalog w' = w_catalog w \<and> w_routing w' = w_routing w"
    if "?mark = Inl e" for e
    using that by (simp add: w' invalidateContract_def)
  have stored: "w_sessions w' = pv_Release (rt_sessions rt) s l \<and> map_of (dirty_partitions (w_catalog w')) ?key \<noteq> None"
    if db: "?mark = Inr db" for db
  proof -
    have "map_of (dirty_partitions db) ?key \<noteq> None" using db by (auto simp: MarkDirty_def rbind_Inr_iff)
    then show ?thesis using db by (simp add: w' invalidateContract_def Let_def split: prod.split)
  qed
  have "\<not> blank ?key" by (rule not_blankI [of "CHR ''s''"]) (simp, code_simp)
  moreover have "\<not> blank ''live downstream tool contract changed''" by (rule not_blankI [of "CHR ''l''"]) (simp, code_simp)
  ultimately have "healthy q \<Longrightarrow> db_open (w_catalog w) \<Longrightarrow> \<exists>db. ?mark = Inr db"
    by (simp add: MarkDirty_def guard_def rbind_Inr)
  then have first: "(healthy q \<and> db_open (w_catalog w) \<longrightarrow> map_of (dirty_partitions (w_catalog w')) ?key \<noteq> None) \<and>
      (map_of (dirty_partitions (w_catalog w')) ?key = None \<longrightarrow> w_catalog w' = w_catalog w \<and> w_routing w' = w_routing w) \<and>
      w_sessions w' = pv_Release (rt_sessions rt) s l"
    using failed stored by (cases ?mark) auto
  have "dirty_partitions (w_catalog w2) \<noteq> []" if "map_of (dirty_partitions (w_catalog (w2 :: ('b, 'w) world))) key \<noteq> None" for w2 key using that by auto
  then show ?thesis using w'(1) first dirty_refuses by blast
qed

end
