(* ===== verification/RouterWitness.thy ===== *)
theory RouterWitness
  imports RouterFacts
begin

text \<open>
  A concrete system for the router: one active generation with one read-only tool of the lifecycle's sample
  server, a minted handle for it, and a session that advertises the indexed contract (or another one).
\<close>

section \<open>A sample system\<close>

definition route_claims :: Claims where
  "route_claims = \<lparr>cl_Version = 1, cl_GenerationID = ''g'', cl_ServerID = ''a'', cl_ToolName = ''echo'',
     cl_SourceFingerprint = ''sha256:A'', cl_ExecutorClass = ExecutorReadOnlyClosed, cl_ProcessEpoch = ''e1''\<rparr>"

definition route_hlib :: handle_lib where
  "route_hlib = \<lparr>hmac_sha256 = (\<lambda>k p. k @ p), marshal_claims = cl_ToolName,
     unmarshal_claims = (\<lambda>s. if s = ''echo'' then Some route_claims else None)\<rparr>"

definition route_token :: string where
  "route_token = tokenPrefix @ ''.'' @ EncodeToString ''echo'' @ ''.'' @ EncodeToString ''kecho''"

lemma route_validate: "Validate route_hlib (Some sample_manager) (TrimSpace route_token) = Inr route_claims"
proof -
  have ne: "hm_epoch sample_manager \<noteq> []" by (simp add: sample_manager_def)
  have v: "validateClaims route_claims True = None" by code_simp
  have lib: "hmac_sha256 route_hlib (hm_key sample_manager) ''echo'' = ''kecho''" "unmarshal_claims route_hlib ''echo'' = Some route_claims"
    "cl_Version route_claims = 1" "cl_ProcessEpoch route_claims = hm_epoch sample_manager"
    by (simp_all add: route_hlib_def sample_manager_def route_claims_def)
  show ?thesis unfolding route_token_def token_trimmed Validate_token [OF ne] lib option.case v by simp
qed

definition route_lib :: router_lib where
  "route_lib = \<lparr>rl_codec = sample_codec, rl_unmarshal_tool = (\<lambda>s. if s = ''A'' then Some (sample_tool ''echo'') else None),
     rl_unmarshal_server = (\<lambda>s. Some \<lparr>ssc_ServerID = ''a'', ssc_Name = ''A'', ssc_Mode = ModeManaged, ssc_TransportType = ''stdio''\<rparr>),
     rl_marshal_schema = (\<lambda>j. Some []), rl_unmarshal_schema = (\<lambda>s. Some JNull), rl_resolve_schema = Some,
     rl_validate_schema = (\<lambda>s a. a = JObj [])\<rparr>"

definition route_catalog :: catalog where
  "route_catalog = (let db = schemaSQL\<lparr>source_servers := [((''g'', ''a''), \<lparr>ss_fingerprint = ''sha256:S'', ss_contract = ''S''\<rparr>)],
       source_tools := [((''g'', ''a'', ''echo''), \<lparr>st_fingerprint = ''sha256:A'', st_identity = [], st_contract = ''A''\<rparr>)]\<rparr> in
     db\<lparr>generations := [(''g'', \<lparr>gen_Status = GenerationActive, gen_RoutingStateHash = ''h'',
       gen_SourceSetFingerprint = source_set sample_codec db ''g'', gen_CreatedAt = 1, gen_ActivatedAt = Some 2\<rparr>)]\<rparr>)"

text \<open>The environment of a session that advertises the fingerprint \<open>fp\<close>.\<close>

definition route_env :: "string \<Rightarrow> env" where
  "route_env fp = (sample_env 5)\<lparr>en_initial := (\<lambda>c. \<lparr>ts_Tools = [], ts_Fingerprint = fp\<rparr>)\<rparr>"

definition route_router :: "string \<Rightarrow> (routing_snapshot, runtime, UseLease) router" where
  "route_router fp = \<lparr>rt_lib = route_lib, rt_hlib = route_hlib, rt_handles = Some sample_manager, rt_state = MemoryBackend,
     rt_sessions = lifecycle_provider (route_env fp) (route_env fp) (route_env fp) sample_connect True
       (\<lambda>c t a. Inr (Some \<lparr>cr_IsError = False, cr_Encoded = Some ''ok''\<rparr>)),
     rt_maxResultBytes = 10\<rparr>"

definition route_world :: "(routing_snapshot, runtime) world" where
  "route_world = \<lparr>w_catalog = route_catalog, w_routing = \<lparr>rs_RoutingRevision = 1, rs_RoutingStateHash = ''h'', rs_PreferenceRevision = 0\<rparr>,
     w_sessions = \<lparr>rn_service = sample_service, rn_calls = []\<rparr>\<rparr>"

definition route_input :: Input where
  "route_input = \<lparr>in_ExecutionHandle = route_token, in_ToolName = [], in_Arguments = None\<rparr>"

lemma route_authorise:
  "authorise (route_router fp) sample_q ExecutorReadOnlyClosed route_input route_world =
   Inr (route_claims, \<lparr>ts_Tools = [], ts_Fingerprint = ''sha256:echo''\<rparr>)"
proof -
  have known: "knownExecutorClass ExecutorReadOnlyClosed" by code_simp
  have gen: "current_generation (route_router []) sample_q route_world = Inr ''g''" by code_simp
  have src: "authoritative_source (route_router []) sample_q route_claims ''g'' route_world =
      Inr ([\<lparr>rec_ServerID = ''a'', rec_ToolName = ''echo'', rec_SourceFingerprint = ''sha256:A'', rec_ContractJSON = ''A''\<rparr>],
           \<lparr>rec_ServerID = ''a'', rec_ToolName = ''echo'', rec_SourceFingerprint = ''sha256:A'', rec_ContractJSON = ''A''\<rparr>)" by code_simp
  have cls: "ExecutorClassForJSON sample_codec ''A'' = Inr ExecutorReadOnlyClosed" by code_simp
  have rest: "decodeAuthoritativeTool route_lib \<lparr>rec_ServerID = ''a'', rec_ToolName = ''echo'', rec_SourceFingerprint = ''sha256:A'', rec_ContractJSON = ''A''\<rparr> = Some (sample_tool ''echo'')"
    "validateArguments route_lib (sample_tool ''echo'') None = None"
    "authoritativeServerSnapshot route_lib [\<lparr>rec_ServerID = ''a'', rec_ToolName = ''echo'', rec_SourceFingerprint = ''sha256:A'', rec_ContractJSON = ''A''\<rparr>] ''a'' =
      Some \<lparr>ts_Tools = [], ts_Fingerprint = ''sha256:echo''\<rparr>" by code_simp+
  have gen': "current_generation (route_router fp) sample_q route_world = Inr ''g''"
    and src': "authoritative_source (route_router fp) sample_q route_claims ''g'' route_world = authoritative_source (route_router []) sample_q route_claims ''g'' route_world"
    using gen by (simp_all add: current_generation_def authoritative_source_def route_router_def)
  have fields: "rt_lib (route_router fp) = route_lib" "rl_codec route_lib = sample_codec" "rt_hlib (route_router fp) = route_hlib"
    "rt_handles (route_router fp) = Some sample_manager" "in_ExecutionHandle route_input = route_token" "in_Arguments route_input = None"
    "cl_ExecutorClass route_claims = ExecutorReadOnlyClosed" "cl_ServerID route_claims = ''a''"
    by (simp_all add: route_router_def route_lib_def route_input_def route_claims_def)
  show ?thesis
    unfolding authorise_def Let_def fields
    by (simp add: refuse_if_def known or_refuse_def route_validate rbind_Inr gen' src' src cls rest some_or_refuse_def fields)
qed

theorem Execute_authorised_once_witness:
  "rn_calls (w_sessions (fst (Execute (route_router ''sha256:echo'') sample_q 3 ExecutorReadOnlyClosed route_input route_world))) =
     [(\<lparr>ul_state = 0, ul_session = 7, ul_released = False, ul_task = None, ul_expires = None\<rparr>, ''echo'', None)] \<and>
   runtime_leases (w_sessions (fst (Execute (route_router ''sha256:echo'') sample_q 3 ExecutorReadOnlyClosed route_input route_world))) 0 = 0"
proof -
  let ?l = "\<lparr>ul_state = 0, ul_session = 7, ul_released = False, ul_task = None, ul_expires = None\<rparr>"
  let ?rt = "route_router ''sha256:echo''"
  let ?E = "Execute ?rt sample_q 3 ExecutorReadOnlyClosed route_input route_world"
  have ok: "sv_ok (rn_service (w_sessions route_world))" using sample_service_ok(1) by (simp add: route_world_def)
  have pv: "rt_sessions ?rt = lifecycle_provider (route_env ''sha256:echo'') (route_env ''sha256:echo'') (route_env ''sha256:echo'')
      sample_connect True (\<lambda>c t a. Inr (Some \<lparr>cr_IsError = False, cr_Encoded = Some ''ok''\<rparr>))" by (simp add: route_router_def)
  obtain w' r where E: "?E = (w', r)" by (cases ?E)
  note all = Execute_authorised_once [OF E pv ok]
  obtain s where S: "pv_Session (rt_sessions ?rt) (w_sessions route_world) ''a'' = (s, Inr (Some ?l))"
  proof -
    have "snd (pv_Session (rt_sessions ?rt) (w_sessions route_world) ''a'') = Inr (Some ?l)" by code_simp
    then show thesis using that by (cases "pv_Session (rt_sessions ?rt) (w_sessions route_world) ''a''") simp
  qed
  have sid: "cl_ServerID route_claims = ''a''" "cl_ToolName route_claims = ''echo''" by (simp_all add: route_claims_def)
  have "use_session ?rt sample_q 3 route_claims \<lparr>ts_Tools = [], ts_Fingerprint = ''sha256:echo''\<rparr> route_input ?l (route_world\<lparr>w_sessions := s\<rparr>) =
      (route_world\<lparr>w_sessions := fst (lifecycle_CallTool (route_env ''sha256:echo'') (\<lambda>c t a. Inr (Some \<lparr>cr_IsError = False, cr_Encoded = Some ''ok''\<rparr>)) s ?l ''echo'' None)\<rparr>,
       Inr \<lparr>cr_IsError = False, cr_Encoded = Some ''ok''\<rparr>)"
    by (simp add: use_session_def pv lifecycle_provider_def route_env_def lifecycle_CallTool_def lease_CallTool_def Let_def sid
        check_result_def route_input_def) (simp add: route_router_def)
  then have "r = Inr \<lparr>cr_IsError = False, cr_Encoded = Some ''ok''\<rparr>"
    using E S by (simp add: Execute_def route_authorise sid)
  then obtain claims expected w1 l where a: "authorised ?rt sample_q ExecutorReadOnlyClosed route_input route_world claims expected"
    and l: "lifecycle_Session (route_env ''sha256:echo'') sample_connect True (w_sessions route_world) (cl_ServerID claims) = (w1, Inr (Some l))"
    and c: "rn_calls (w_sessions w') = rn_calls (w_sessions route_world) @ [(l, cl_ToolName claims, in_Arguments route_input)]"
    and n: "runtime_leases (w_sessions w') = runtime_leases (w_sessions route_world)"
    using all by auto
  have "claims = route_claims"
    using a route_validate by (simp add: authorised_def route_router_def route_input_def)
  moreover from this have "l = ?l" using l S by (simp add: pv lifecycle_provider_def sid)
  moreover have "rn_calls (w_sessions route_world) = []" "in_Arguments route_input = None" by (simp_all add: route_world_def route_input_def)
  moreover have "runtime_leases (w_sessions route_world) 0 = 0" by code_simp
  ultimately show ?thesis using c n sid E by simp
qed

theorem contract_drift_fails_closed_witness:
  "\<exists>w e. Execute (route_router ''sha256:other'') sample_q 3 ExecutorReadOnlyClosed route_input route_world =
      (w, Inl (not_started CodeIndexRequired False)) \<and>
    Execute (route_router ''sha256:echo'') sample_q 4 ExecutorReadOnlyClosed route_input w = (w, Inl e)"
proof -
  let ?rt = "route_router ''sha256:other''"
  let ?l = "\<lparr>ul_state = 0, ul_session = 7, ul_released = False, ul_task = None, ul_expires = None\<rparr>"
  obtain s where S: "pv_Session (rt_sessions ?rt) (w_sessions route_world) (cl_ServerID route_claims) = (s, Inr (Some ?l))"
  proof -
    have "snd (pv_Session (rt_sessions ?rt) (w_sessions route_world) (cl_ServerID route_claims)) = Inr (Some ?l)" by code_simp
    then show thesis using that by (cases "pv_Session (rt_sessions ?rt) (w_sessions route_world) (cl_ServerID route_claims)") simp
  qed
  have drift: "ts_Fingerprint (pv_InitialTools (rt_sessions ?rt) s ?l) \<noteq> ts_Fingerprint \<lparr>ts_Tools = [], ts_Fingerprint = ''sha256:echo''\<rparr>"
    by (simp add: route_router_def lifecycle_provider_def route_env_def)
  have op: "db_open (w_catalog route_world)" by code_simp
  obtain w r where E: "Execute ?rt sample_q 3 ExecutorReadOnlyClosed route_input route_world = (w, r)"
    by (cases "Execute ?rt sample_q 3 ExecutorReadOnlyClosed route_input route_world")
  note t = contract_drift_fails_closed [OF route_authorise S drift E]
  have m: "map_of (dirty_partitions (w_catalog w)) (''server:'' @ cl_ServerID route_claims) \<noteq> None"
    using t sample_healthy op by blast
  moreover have "\<exists>e. Execute (route_router ''sha256:echo'') sample_q 4 ExecutorReadOnlyClosed route_input w = (w, Inl e)"
    using t m by blast
  ultimately show ?thesis using t E by blast
qed

end
