(* ===== verification/RoutingPrefs.thy ===== *)
theory RoutingPrefs
  imports Catalog RoutingState
begin

text \<open>
  Routing preferences: \<^verbatim>\<open>internal/routingprefs\<close> (store.go, profiles.go, rules.go, rules_write.go).
  Profiles and rules are two tables of the catalog database; the preference revision is the third text
  column of the singleton row of \<^verbatim>\<open>routing_state\<close>. Every write runs in one transaction and carries the
  revision its author saw.

  An operation returns an error, and then the transaction is rolled back and the database is as before, or
  the new database and its value. The argument \<open>q\<close> says which statement fails, by a label; the clock is an
  argument, in Unix milliseconds. Decoding a stored payload is a parameter (\<open>pref_codec\<close>).
\<close>

section \<open>Data\<close>

definition ReviewActive :: string where "ReviewActive = ''active''"
definition ReviewNeedsReview :: string where "ReviewNeedsReview = ''needs_review''"
definition SpecificityServer :: string where "SpecificityServer = ''server''"
definition SpecificityToolSet :: string where "SpecificityToolSet = ''tool_set''"
definition SpecificityConditionalTool :: string where "SpecificityConditionalTool = ''conditional_tool''"

record Target =
  tg_ServerID :: string
  tg_ToolName :: string
  tg_AssumptionFingerprint :: string

record RuleSpec =
  rl_ProfileID :: string
  rl_Specificity :: string
  rl_SubjectKey :: string
  rl_Condition :: string
  rl_Preferred :: "Target list"
  rl_Deprioritized :: "Target list"

record Rule =
  rule_ID :: string
  rule_Spec :: RuleSpec
  rule_ConflictKey :: string
  rule_AssumptionFingerprint :: string
  rule_ReviewState :: string
  rule_UpdatedAt :: int

record Profile =
  prof_ID :: string
  prof_Name :: string
  prof_Description :: string
  prof_UpdatedAt :: int

record WriteResult =
  wr_PreferenceRevision :: "64 word"
  wr_Changed :: bool
  wr_NeedsReview :: bool
  wr_ID :: string

datatype pref_error =
    PrefRequired string
  | PrefSQL string
  | PrefNoRows
  | ParsePreferenceRevision
  | StateSingletonMissing
  | ConflictError "64 word" "64 word"
  | ErrPreferenceConflict
  | RoutingProfileNotFound string
  | ConditionNotAllowed
  | ConditionRequired
  | UnsupportedSpecificity string
  | TargetIncomplete
  | DuplicateTarget string string
  | NoPreferredTarget
  | PreferredAndDeprioritized string string
  | DecodeProfile string
  | DecodePreference string
  | FingerprintInputsRequired
  | ClassifyTarget string string contract_error
  | FingerprintTarget string string contract_error

section \<open>Tables\<close>

record profile_row =
  pfl_name :: string
  pfl_payload :: string
  pfl_updated :: int

record preference_row =
  pfr_profile :: "string option"
  pfr_target_key :: string
  pfr_assumption :: string
  pfr_state :: string
  pfr_payload :: string
  pfr_updated :: int

record prefs_db =
  pd_state :: "(string \<times> string \<times> string) option"
  routing_profiles :: "(string \<times> profile_row) list"
  routing_preferences :: "(string \<times> preference_row) list"

record pref_codec =
  pc_codec :: codec
  unmarshal_spec :: "string \<Rightarrow> RuleSpec option"
  unmarshal_description :: "string \<Rightarrow> string option"

definition psql :: "(string \<Rightarrow> bool) \<Rightarrow> string \<Rightarrow> (pref_error, unit) result" where
  "psql q label = (if q label then Inl (PrefSQL label) else Inr ())"

definition prequire :: "bool \<Rightarrow> pref_error \<Rightarrow> (pref_error, unit) result" where
  "prequire ok e = (if ok then Inr () else Inl e)"

lemma psql_Inr [err_simps]: "psql q l = Inr u \<longleftrightarrow> \<not> q l"
  by (simp add: psql_def)

lemma prequire_Inr [err_simps]: "prequire ok e = Inr u \<longleftrightarrow> ok"
  by (simp add: prequire_def)

section \<open>Assumptions of a target\<close>

definition PreferenceAssumptionFingerprint :: "codec \<Rightarrow> string \<Rightarrow> string \<Rightarrow> (pref_error, string) result" where
  "PreferenceAssumptionFingerprint cd sourceFingerprint executorClass =
     (if blank sourceFingerprint \<or> blank executorClass then Inl FingerprintInputsRequired
      else Inr (FingerprintJSON cd (marshal_json cd (JObj [(''source_fingerprint'', JStr sourceFingerprint),
             (''executor_class'', JStr executorClass)]))))"

definition TargetMapKey :: "string \<Rightarrow> string \<Rightarrow> string" where
  "TargetMapKey serverID toolName = serverID @ [CHR 0x00] @ toolName"

fun CurrentAssumptions :: "codec \<Rightarrow> SourceToolRecord list \<Rightarrow> (string \<times> string) list \<Rightarrow>
    (pref_error, (string \<times> string) list) result" where
  "CurrentAssumptions cd [] acc = Inr acc"
| "CurrentAssumptions cd (source # rest) acc = (case ExecutorClassForJSON cd (rec_ContractJSON source) of
     Inl e \<Rightarrow> Inl (ClassifyTarget (rec_ServerID source) (rec_ToolName source) e)
   | Inr executorClass \<Rightarrow> (case SemanticSourceFingerprintJSON cd (rec_ContractJSON source) of
       Inl e \<Rightarrow> Inl (FingerprintTarget (rec_ServerID source) (rec_ToolName source) e)
     | Inr semanticFingerprint \<Rightarrow>
         rbind (PreferenceAssumptionFingerprint cd semanticFingerprint executorClass) (\<lambda>assumption.
         CurrentAssumptions cd rest
           (alist_put (TargetMapKey (rec_ServerID source) (rec_ToolName source)) assumption acc))))"

section \<open>Revision\<close>

definition parseRevision :: "string \<Rightarrow> (pref_error, 64 word) result" where
  "parseRevision raw = (case ParseUint raw of None \<Rightarrow> Inl ParsePreferenceRevision | Some v \<Rightarrow> Inr v)"

definition preferenceRevisionTx :: "(string \<Rightarrow> bool) \<Rightarrow> prefs_db \<Rightarrow> (pref_error, 64 word) result" where
  "preferenceRevisionTx q db = rbind (psql q ''load preference revision'') (\<lambda>_.
     case pd_state db of None \<Rightarrow> Inl PrefNoRows | Some (_, _, raw) \<Rightarrow> parseRevision raw)"

definition Prefs_Revision :: "(string \<Rightarrow> bool) \<Rightarrow> prefs_db \<Rightarrow> (pref_error, 64 word) result" where
  "Prefs_Revision q db = preferenceRevisionTx q db"

definition setPreferenceRevisionTx :: "(string \<Rightarrow> bool) \<Rightarrow> 64 word \<Rightarrow> prefs_db \<Rightarrow> (pref_error, prefs_db) result" where
  "setPreferenceRevisionTx q revision db = rbind (psql q ''set preference revision'') (\<lambda>_.
     case pd_state db of None \<Rightarrow> Inl StateSingletonMissing
     | Some (r, h, _) \<Rightarrow> Inr (db\<lparr>pd_state := Some (r, h, FormatUint revision)\<rparr>))"

text \<open>The tail every changing write shares: bump the revision, commit, report.\<close>

definition finish_write :: "(string \<Rightarrow> bool) \<Rightarrow> 64 word \<Rightarrow> bool \<Rightarrow> string \<Rightarrow> prefs_db \<Rightarrow>
    (pref_error, prefs_db \<times> WriteResult) result" where
  "finish_write q current review i db =
     rbind (setPreferenceRevisionTx q (current + 1) db) (\<lambda>db'.
     rbind (psql q ''commit'') (\<lambda>_.
     Inr (db', \<lparr>wr_PreferenceRevision = current + 1, wr_Changed = True, wr_NeedsReview = review, wr_ID = i\<rparr>)))"

definition unchanged :: "(string \<Rightarrow> bool) \<Rightarrow> 64 word \<Rightarrow> bool \<Rightarrow> string \<Rightarrow> prefs_db \<Rightarrow>
    (pref_error, prefs_db \<times> WriteResult) result" where
  "unchanged q current review i db = rbind (psql q ''commit'') (\<lambda>_.
     Inr (db, \<lparr>wr_PreferenceRevision = current, wr_Changed = False, wr_NeedsReview = review, wr_ID = i\<rparr>))"

section \<open>Profiles\<close>

definition profile_payload :: "codec \<Rightarrow> string \<Rightarrow> string" where
  "profile_payload cd d = marshal_json cd (JObj (if d = [] then [] else [(''description'', JStr d)]))"

definition profile_id :: "codec \<Rightarrow> string \<Rightarrow> string \<Rightarrow> string" where
  "profile_id cd given name = (if given \<noteq> [] then given
     else ''profile:'' @ TrimPrefix (FingerprintJSON cd (marshal_json cd (JObj [(''name'', JStr name)]))) ''sha256:'')"

text \<open>The upsert; the name column is unique, so a name of another profile makes the statement fail.\<close>

definition store_profile :: "(string \<Rightarrow> bool) \<Rightarrow> string \<Rightarrow> profile_row \<Rightarrow> prefs_db \<Rightarrow> (pref_error, prefs_db) result" where
  "store_profile q i row db = rbind (psql q ''store routing profile'') (\<lambda>_.
     if list_ex (\<lambda>(j, r). j \<noteq> i \<and> pfl_name r = pfl_name row) (routing_profiles db)
     then Inl (PrefSQL ''store routing profile'')
     else Inr (db\<lparr>routing_profiles := alist_put i row (routing_profiles db)\<rparr>))"

definition PutProfile :: "pref_codec \<Rightarrow> (string \<Rightarrow> bool) \<Rightarrow> int \<Rightarrow> 64 word \<Rightarrow> Profile \<Rightarrow> prefs_db \<Rightarrow>
    (pref_error, prefs_db \<times> WriteResult) result" where
  "PutProfile pc q now expected profile db =
     (let name = TrimSpace (prof_Name profile); i = profile_id (pc_codec pc) (prof_ID profile) name;
          payload = profile_payload (pc_codec pc) (TrimSpace (prof_Description profile)) in
      rbind (prequire (name \<noteq> []) (PrefRequired ''profile name'')) (\<lambda>_.
      rbind (psql q ''begin profile write'') (\<lambda>_.
      rbind (preferenceRevisionTx q db) (\<lambda>current.
      rbind (psql q ''load existing routing profile'') (\<lambda>_.
      if map_option (\<lambda>r. (pfl_name r, pfl_payload r)) (map_of (routing_profiles db) i) = Some (name, payload)
      then unchanged q current False i db
      else rbind (prequire (current = expected) (ConflictError expected current)) (\<lambda>_.
        rbind (store_profile q i \<lparr>pfl_name = name, pfl_payload = payload, pfl_updated = now\<rparr> db) (\<lambda>db'.
        finish_write q current False i db')))))))"

text \<open>Deleting a profile deletes its rules (\<^verbatim>\<open>ON DELETE CASCADE\<close>).\<close>

definition DeleteProfile :: "(string \<Rightarrow> bool) \<Rightarrow> 64 word \<Rightarrow> string \<Rightarrow> prefs_db \<Rightarrow>
    (pref_error, prefs_db \<times> WriteResult) result" where
  "DeleteProfile q expected profileID db =
     (let i = TrimSpace profileID in
      rbind (prequire (i \<noteq> []) (PrefRequired ''profile id'')) (\<lambda>_.
      rbind (psql q ''begin'') (\<lambda>_.
      rbind (preferenceRevisionTx q db) (\<lambda>current.
      rbind (psql q ''count profiles'') (\<lambda>_.
      if map_of (routing_profiles db) i = None then unchanged q current False i db
      else rbind (prequire (current = expected) (ConflictError expected current)) (\<lambda>_.
        rbind (psql q ''delete profile'') (\<lambda>_.
        finish_write q current False i
          (db\<lparr>routing_profiles := alist_del i (routing_profiles db),
              routing_preferences := filter (\<lambda>(_, r). pfr_profile r \<noteq> Some i) (routing_preferences db)\<rparr>))))))))"

fun scan_profiles :: "pref_codec \<Rightarrow> (string \<times> profile_row) list \<Rightarrow> (pref_error, Profile list) result" where
  "scan_profiles pc [] = Inr []"
| "scan_profiles pc ((i, r) # rows) = (case unmarshal_description pc (pfl_payload r) of
     None \<Rightarrow> Inl (DecodeProfile i)
   | Some d \<Rightarrow> rbind (scan_profiles pc rows) (\<lambda>ps.
       Inr (\<lparr>prof_ID = i, prof_Name = pfl_name r, prof_Description = d, prof_UpdatedAt = pfl_updated r\<rparr> # ps)))"

definition ListProfiles :: "pref_codec \<Rightarrow> (string \<Rightarrow> bool) \<Rightarrow> prefs_db \<Rightarrow> (pref_error, Profile list) result" where
  "ListProfiles pc q db = rbind (psql q ''list profiles'') (\<lambda>_.
     rbind (scan_profiles pc (sort_key (\<lambda>(i, r). (pfl_name r, i)) (routing_profiles db))) (\<lambda>ps.
     rbind (psql q ''list profiles rows'') (\<lambda>_. Inr ps)))"

section \<open>Normal form of a rule\<close>

definition trim_target :: "Target \<Rightarrow> Target" where
  "trim_target t = \<lparr>tg_ServerID = TrimSpace (tg_ServerID t), tg_ToolName = TrimSpace (tg_ToolName t),
     tg_AssumptionFingerprint = TrimSpace (tg_AssumptionFingerprint t)\<rparr>"

definition target_id :: "Target \<Rightarrow> string \<times> string" where
  "target_id t = (tg_ServerID t, tg_ToolName t)"

fun adjacent_duplicate :: "Target list \<Rightarrow> Target option" where
  "adjacent_duplicate (a # b # ts) = (if target_id a = target_id b then Some b else adjacent_duplicate (b # ts))"
| "adjacent_duplicate ts = None"

text \<open>
  \<^verbatim>\<open>sort.Slice\<close> may order equal targets either way, but equal targets are refused right after with a
  message that does not tell them apart.
\<close>

definition normalizeTargets :: "Target list \<Rightarrow> (pref_error, Target list) result" where
  "normalizeTargets targets =
     (let trimmed = map trim_target targets; sorted_targets = sort_key target_id trimmed in
      if list_ex (\<lambda>t. tg_ServerID t = [] \<or> tg_ToolName t = [] \<or> tg_AssumptionFingerprint t = []) trimmed
      then Inl TargetIncomplete
      else case adjacent_duplicate sorted_targets of
        Some t \<Rightarrow> Inl (DuplicateTarget (tg_ServerID t) (tg_ToolName t)) | None \<Rightarrow> Inr sorted_targets)"

definition target_json :: "Target \<Rightarrow> json" where
  "target_json t = JObj [(''server_id'', JStr (tg_ServerID t)), (''tool_name'', JStr (tg_ToolName t)),
     (''assumption_fingerprint'', JStr (tg_AssumptionFingerprint t))]"

text \<open>A nil slice is \<^verbatim>\<open>null\<close>; fields marked \<^verbatim>\<open>omitempty\<close> are left out when empty.\<close>

definition targets_json :: "Target list \<Rightarrow> json" where
  "targets_json ts = (if ts = [] then JNull else JArr (map target_json ts))"

definition spec_json :: "RuleSpec \<Rightarrow> json" where
  "spec_json s = JObj (
     (if rl_ProfileID s = [] then [] else [(''profile_id'', JStr (rl_ProfileID s))]) @
     [(''specificity'', JStr (rl_Specificity s)), (''subject_key'', JStr (rl_SubjectKey s))] @
     (if rl_Condition s = [] then [] else [(''condition'', JStr (rl_Condition s))]) @
     [(''preferred'', targets_json (rl_Preferred s))] @
     (if rl_Deprioritized s = [] then [] else [(''deprioritized'', targets_json (rl_Deprioritized s))]))"

definition check_specificity :: "string \<Rightarrow> string \<Rightarrow> (pref_error, unit) result" where
  "check_specificity specificity condition =
     (if specificity = SpecificityServer \<or> specificity = SpecificityToolSet then prequire (condition = []) ConditionNotAllowed
      else if specificity = SpecificityConditionalTool then prequire (condition \<noteq> []) ConditionRequired
      else Inl (UnsupportedSpecificity specificity))"

definition check_disjoint :: "Target list \<Rightarrow> Target list \<Rightarrow> (pref_error, unit) result" where
  "check_disjoint preferred deprioritized =
     (let keys = map (\<lambda>t. TargetMapKey (tg_ServerID t) (tg_ToolName t)) preferred in
      case find (\<lambda>t. TargetMapKey (tg_ServerID t) (tg_ToolName t) \<in> set keys) deprioritized of
        None \<Rightarrow> Inr () | Some t \<Rightarrow> Inl (PreferredAndDeprioritized (tg_ServerID t) (tg_ToolName t)))"

definition normalize_spec :: "RuleSpec \<Rightarrow> (pref_error, RuleSpec) result" where
  "normalize_spec spec =
     (let profileID = TrimSpace (rl_ProfileID spec); subjectKey = TrimSpace (rl_SubjectKey spec);
          condition = TrimSpace (rl_Condition spec) in
      rbind (prequire (subjectKey \<noteq> []) (PrefRequired ''preference subject key'')) (\<lambda>_.
      rbind (check_specificity (rl_Specificity spec) condition) (\<lambda>_.
      rbind (normalizeTargets (rl_Preferred spec)) (\<lambda>preferred.
      rbind (prequire (preferred \<noteq> []) NoPreferredTarget) (\<lambda>_.
      rbind (normalizeTargets (rl_Deprioritized spec)) (\<lambda>deprioritized.
      rbind (check_disjoint preferred deprioritized) (\<lambda>_.
      Inr \<lparr>rl_ProfileID = profileID, rl_Specificity = rl_Specificity spec, rl_SubjectKey = subjectKey,
        rl_Condition = condition, rl_Preferred = preferred, rl_Deprioritized = deprioritized\<rparr>)))))))"

definition rule_payload :: "codec \<Rightarrow> RuleSpec \<Rightarrow> string" where
  "rule_payload cd spec = marshal_json cd (spec_json spec)"

definition rule_id :: "codec \<Rightarrow> RuleSpec \<Rightarrow> string" where
  "rule_id cd spec = ''pref:'' @ TrimPrefix (FingerprintJSON cd (rule_payload cd spec)) ''sha256:''"

definition conflict_key :: "codec \<Rightarrow> RuleSpec \<Rightarrow> string" where
  "conflict_key cd spec = ''slot:'' @ TrimPrefix (FingerprintJSON cd (marshal_json cd (JObj (
     [(''specificity'', JStr (rl_Specificity spec)), (''subject_key'', JStr (rl_SubjectKey spec))] @
     (if rl_Condition spec = [] then [] else [(''condition'', JStr (rl_Condition spec))]))))) ''sha256:''"

definition assumption_fingerprint :: "codec \<Rightarrow> RuleSpec \<Rightarrow> string" where
  "assumption_fingerprint cd spec = FingerprintJSON cd (marshal_json cd (JObj (
     [(''preferred'', targets_json (rl_Preferred spec))] @
     (if rl_Deprioritized spec = [] then [] else [(''deprioritized'', targets_json (rl_Deprioritized spec))]))))"

definition normalizeRule :: "codec \<Rightarrow> RuleSpec \<Rightarrow> (pref_error, RuleSpec \<times> string \<times> string \<times> string \<times> string) result" where
  "normalizeRule cd spec = rbind (normalize_spec spec) (\<lambda>n.
     Inr (n, rule_id cd n, conflict_key cd n, assumption_fingerprint cd n, rule_payload cd n))"

section \<open>Writing rules\<close>

definition scope_of :: "preference_row \<Rightarrow> string" where
  "scope_of r = (case pfr_profile r of None \<Rightarrow> [] | Some p \<Rightarrow> p)"

text \<open>The \<^verbatim>\<open>WHERE\<close> clause of the conflict queries: the other rules of the same scope and slot.\<close>

definition rivals :: "string \<Rightarrow> string \<Rightarrow> string \<Rightarrow> prefs_db \<Rightarrow> (string \<times> preference_row) list" where
  "rivals scope key i db =
     filter (\<lambda>(j, r). scope_of r = scope \<and> pfr_target_key r = key \<and> j \<noteq> i) (routing_preferences db)"

definition mark_review :: "(string \<Rightarrow> preference_row \<Rightarrow> bool) \<Rightarrow> string \<Rightarrow> int \<Rightarrow> prefs_db \<Rightarrow> prefs_db" where
  "mark_review p s now db = db\<lparr>routing_preferences :=
     map (\<lambda>(i, r). (i, if p i r then r\<lparr>pfr_state := s, pfr_updated := now\<rparr> else r)) (routing_preferences db)\<rparr>"

definition require_profile :: "(string \<Rightarrow> bool) \<Rightarrow> string \<Rightarrow> prefs_db \<Rightarrow> (pref_error, unit) result" where
  "require_profile q profileID db =
     (if profileID = [] then Inr ()
      else rbind (psql q ''validate preference profile'') (\<lambda>_.
        prequire (map_of (routing_profiles db) profileID \<noteq> None) (RoutingProfileNotFound profileID)))"

definition mark_conflicts :: "(string \<Rightarrow> bool) \<Rightarrow> int \<Rightarrow> string \<Rightarrow> string \<Rightarrow> string \<Rightarrow> prefs_db \<Rightarrow>
    (pref_error, prefs_db \<times> string) result" where
  "mark_conflicts q now scope key i db = rbind (psql q ''find equal-scope preference conflicts'') (\<lambda>_.
     if rivals scope key i db = [] then Inr (db, ReviewActive)
     else rbind (psql q ''mark preference conflicts for review'') (\<lambda>_.
       Inr (mark_review (\<lambda>j r. scope_of r = scope \<and> pfr_target_key r = key \<and> j \<noteq> i) ReviewNeedsReview now db, ReviewNeedsReview)))"

definition store_rule :: "(string \<Rightarrow> bool) \<Rightarrow> int \<Rightarrow> int \<Rightarrow> 64 word \<Rightarrow> RuleSpec \<Rightarrow> string \<Rightarrow> string \<Rightarrow> string \<Rightarrow> string \<Rightarrow> prefs_db \<Rightarrow>
    (pref_error, prefs_db \<times> WriteResult) result" where
  "store_rule q markedAt now current n i key assumption payload db =
     rbind (mark_conflicts q markedAt (rl_ProfileID n) key i db) (\<lambda>(db1, reviewState).
     rbind (psql q ''store routing preference'') (\<lambda>_.
     finish_write q current (reviewState = ReviewNeedsReview) i
       (db1\<lparr>routing_preferences := alist_put i
          \<lparr>pfr_profile = (if rl_ProfileID n = [] then None else Some (rl_ProfileID n)), pfr_target_key = key,
            pfr_assumption = assumption, pfr_state = reviewState, pfr_payload = payload, pfr_updated = now\<rparr>
          (routing_preferences db1)\<rparr>)))"

definition PutRule :: "pref_codec \<Rightarrow> (string \<Rightarrow> bool) \<Rightarrow> int \<Rightarrow> int \<Rightarrow> 64 word \<Rightarrow> RuleSpec \<Rightarrow> prefs_db \<Rightarrow>
    (pref_error, prefs_db \<times> WriteResult) result" where
  "PutRule pc q markedAt now expected spec db =
     rbind (normalizeRule (pc_codec pc) spec) (\<lambda>(n, i, key, assumption, payload).
     rbind (psql q ''begin preference write'') (\<lambda>_.
     rbind (preferenceRevisionTx q db) (\<lambda>current.
     rbind (require_profile q (rl_ProfileID n) db) (\<lambda>_.
     rbind (psql q ''load existing routing preference'') (\<lambda>_.
     if map_option (\<lambda>r. (pfr_payload r, pfr_assumption r)) (map_of (routing_preferences db) i) = Some (payload, assumption)
     then unchanged q current (pfr_state (the (map_of (routing_preferences db) i)) = ReviewNeedsReview) i db
     else rbind (prequire (current = expected) (ConflictError expected current)) (\<lambda>_.
       store_rule q markedAt now current n i key assumption payload db))))))"

definition ConfirmRule :: "(string \<Rightarrow> bool) \<Rightarrow> int \<Rightarrow> 64 word \<Rightarrow> string \<Rightarrow> prefs_db \<Rightarrow>
    (pref_error, prefs_db \<times> WriteResult) result" where
  "ConfirmRule q now expected preferenceID db =
     (let i = TrimSpace preferenceID in
      rbind (prequire (i \<noteq> []) (PrefRequired ''preference id'')) (\<lambda>_.
      rbind (psql q ''begin'') (\<lambda>_.
      rbind (preferenceRevisionTx q db) (\<lambda>current.
      rbind (psql q ''load preference'') (\<lambda>_.
      case map_of (routing_preferences db) i of None \<Rightarrow> Inl PrefNoRows
      | Some r \<Rightarrow>
        if pfr_state r = ReviewActive then unchanged q current False i db
        else rbind (prequire (current = expected) (ConflictError expected current)) (\<lambda>_.
          rbind (psql q ''count conflicts'') (\<lambda>_.
          rbind (prequire (rivals (scope_of r) (pfr_target_key r) i db = []) ErrPreferenceConflict) (\<lambda>_.
          rbind (psql q ''confirm preference'') (\<lambda>_.
          finish_write q current False i (mark_review (\<lambda>j _. j = i) ReviewActive now db))))))))))"

definition DeleteRule :: "(string \<Rightarrow> bool) \<Rightarrow> 64 word \<Rightarrow> string \<Rightarrow> prefs_db \<Rightarrow>
    (pref_error, prefs_db \<times> WriteResult) result" where
  "DeleteRule q expected preferenceID db =
     (let i = TrimSpace preferenceID in
      rbind (prequire (i \<noteq> []) (PrefRequired ''preference id'')) (\<lambda>_.
      rbind (psql q ''begin'') (\<lambda>_.
      rbind (preferenceRevisionTx q db) (\<lambda>current.
      rbind (psql q ''count preferences'') (\<lambda>_.
      if map_of (routing_preferences db) i = None then unchanged q current False i db
      else rbind (prequire (current = expected) (ConflictError expected current)) (\<lambda>_.
        rbind (psql q ''delete preference'') (\<lambda>_.
        finish_write q current False i (db\<lparr>routing_preferences := alist_del i (routing_preferences db)\<rparr>))))))))"

section \<open>Reading and reconciling rules\<close>

definition scanRule :: "pref_codec \<Rightarrow> string \<times> preference_row \<Rightarrow> (pref_error, Rule) result" where
  "scanRule pc = (\<lambda>(i, r). case unmarshal_spec pc (pfr_payload r) of
     None \<Rightarrow> Inl (DecodePreference i)
   | Some spec \<Rightarrow> Inr \<lparr>rule_ID = i, rule_Spec = spec, rule_ConflictKey = pfr_target_key r,
       rule_AssumptionFingerprint = pfr_assumption r, rule_ReviewState = pfr_state r, rule_UpdatedAt = pfr_updated r\<rparr>)"

fun scan_rules :: "pref_codec \<Rightarrow> (string \<times> preference_row) list \<Rightarrow> (pref_error, Rule list) result" where
  "scan_rules pc [] = Inr []"
| "scan_rules pc (row # rows) = rbind (scanRule pc row) (\<lambda>rule. rbind (scan_rules pc rows) (\<lambda>rules. Inr (rule # rules)))"

definition ListRules :: "pref_codec \<Rightarrow> (string \<Rightarrow> bool) \<Rightarrow> prefs_db \<Rightarrow> (pref_error, Rule list) result" where
  "ListRules pc q db = rbind (psql q ''list rules'') (\<lambda>_.
     rbind (scan_rules pc (sort_key fst (routing_preferences db))) (\<lambda>rules.
     rbind (psql q ''list rules rows'') (\<lambda>_. Inr rules)))"

definition specificityPriority :: "string \<Rightarrow> nat" where
  "specificityPriority value =
     (if value = SpecificityConditionalTool then 3 else if value = SpecificityToolSet then 2
      else if value = SpecificityServer then 1 else 0)"

text \<open>
  The comparison of \<^verbatim>\<open>EffectiveRules\<close>: rules of a profile first, then the more specific, then by ID. It is
  total on rules with distinct IDs, so an unstable sort gives the same list.
\<close>

definition effective_key :: "Rule \<Rightarrow> nat \<times> nat \<times> string" where
  "effective_key r = (if rl_ProfileID (rule_Spec r) \<noteq> [] then 0 else 1,
     3 - specificityPriority (rl_Specificity (rule_Spec r)), rule_ID r)"

definition rule_effective :: "string \<Rightarrow> Rule \<Rightarrow> bool" where
  "rule_effective profileID rule \<longleftrightarrow> rule_ReviewState rule = ReviewActive \<and>
     (rl_ProfileID (rule_Spec rule) = [] \<or> profileID \<noteq> [] \<and> rl_ProfileID (rule_Spec rule) = profileID)"

definition EffectiveRules :: "pref_codec \<Rightarrow> (string \<Rightarrow> bool) \<Rightarrow> prefs_db \<Rightarrow> string \<Rightarrow> (pref_error, Rule list) result" where
  "EffectiveRules pc q db profileID = rbind (ListRules pc q db) (\<lambda>rules.
     Inr (sort_key effective_key (filter (rule_effective profileID) rules)))"

definition ruleTargetsChanged :: "RuleSpec \<Rightarrow> (string \<times> string) list \<Rightarrow> bool" where
  "ruleTargetsChanged spec current =
     list_ex (\<lambda>t. map_of current (TargetMapKey (tg_ServerID t) (tg_ToolName t)) \<noteq> Some (tg_AssumptionFingerprint t))
       (rl_Preferred spec @ rl_Deprioritized spec)"

definition ReconcileTargets :: "pref_codec \<Rightarrow> (string \<Rightarrow> bool) \<Rightarrow> int \<Rightarrow> (string \<times> string) list \<Rightarrow> prefs_db \<Rightarrow>
    (pref_error, prefs_db \<times> string list \<times> 64 word) result" where
  "ReconcileTargets pc q now current db =
     rbind (psql q ''begin'') (\<lambda>_.
     rbind (preferenceRevisionTx q db) (\<lambda>revision.
     rbind (psql q ''list active rules'') (\<lambda>_.
     rbind (scan_rules pc (sort_key fst (filter (\<lambda>(_, r). pfr_state r = ReviewActive) (routing_preferences db)))) (\<lambda>rules.
     rbind (psql q ''close rows'') (\<lambda>_.
     let stale = map rule_ID (filter (\<lambda>rule. ruleTargetsChanged (rule_Spec rule) current) rules) in
     if stale = [] then rbind (psql q ''commit'') (\<lambda>_. Inr (db, [], revision))
     else rbind (psql q ''mark stale'') (\<lambda>_.
       rbind (setPreferenceRevisionTx q (revision + 1) (mark_review (\<lambda>i _. i \<in> set stale) ReviewNeedsReview now db)) (\<lambda>db'.
       rbind (psql q ''commit'') (\<lambda>_. Inr (db', stale, revision + 1)))))))))"

end
