(* ===== verification/RoutingPrefsFacts.thy ===== *)
theory RoutingPrefsFacts
  imports RoutingPrefs
begin

text \<open>
  What the preference store guarantees. Locale \<open>versioned_store\<close> is the contract of a store with optimistic
  concurrency: a write that changes something was made against the current revision and advances it by one.
  The preference store interprets it. The inductive \<open>prefs_run\<close> collects the databases any sequence of writes and
  reconciliations reaches, with its invariant \<open>prefs_ok\<close>.
\<close>

section \<open>Writes\<close>

datatype pref_op =
    OpPutProfile Profile
  | OpDeleteProfile string
  | OpPutRule RuleSpec
  | OpConfirmRule string
  | OpDeleteRule string

text \<open>What surrounds a write: the statements that fail and the two clock readings.\<close>

record pref_env =
  pe_fails :: "string \<Rightarrow> bool"
  pe_marked :: int
  pe_now :: int

fun write_prefs :: "pref_codec \<Rightarrow> pref_env \<Rightarrow> 64 word \<Rightarrow> pref_op \<Rightarrow> prefs_db \<Rightarrow>
    (pref_error, prefs_db \<times> WriteResult) result" where
  "write_prefs pc v expected (OpPutProfile p) db = PutProfile pc (pe_fails v) (pe_now v) expected p db"
| "write_prefs pc v expected (OpDeleteProfile i) db = DeleteProfile (pe_fails v) expected i db"
| "write_prefs pc v expected (OpPutRule s) db = PutRule pc (pe_fails v) (pe_marked v) (pe_now v) expected s db"
| "write_prefs pc v expected (OpConfirmRule i) db = ConfirmRule (pe_fails v) (pe_now v) expected i db"
| "write_prefs pc v expected (OpDeleteRule i) db = DeleteRule (pe_fails v) expected i db"

definition stored_revision :: "prefs_db \<Rightarrow> 64 word option" where
  "stored_revision db = (case pd_state db of None \<Rightarrow> None | Some (_, _, raw) \<Rightarrow> ParseUint raw)"

lemma revision_Inr: "preferenceRevisionTx q db = Inr v \<longleftrightarrow> \<not> q ''load preference revision'' \<and> stored_revision db = Some v"
  by (auto simp: preferenceRevisionTx_def rbind_Inr_iff psql_Inr stored_revision_def parseRevision_def split: option.splits)

lemma set_revision_Inr:
  assumes "setPreferenceRevisionTx q v db = Inr db'"
  shows "stored_revision db' = Some v" "routing_profiles db' = routing_profiles db"
    "routing_preferences db' = routing_preferences db"
  using assms by (auto simp: setPreferenceRevisionTx_def rbind_Inr_iff stored_revision_def parse_format_word split: option.splits)

lemma finish_write_Inr:
  assumes "finish_write q c review i db = Inr (db', r)"
  shows "stored_revision db' = Some (c + 1)" "routing_profiles db' = routing_profiles db"
    "routing_preferences db' = routing_preferences db" "wr_Changed r" "wr_PreferenceRevision r = c + 1"
    "wr_ID r = i" "wr_NeedsReview r = review"
proof -
  obtain d where d: "setPreferenceRevisionTx q (c + 1) db = Inr d"
    and r: "d = db'" "r = \<lparr>wr_PreferenceRevision = c + 1, wr_Changed = True, wr_NeedsReview = review, wr_ID = i\<rparr>"
    using assms by (auto simp: finish_write_def rbind_Inr_iff)
  from set_revision_Inr [OF d] r show "stored_revision db' = Some (c + 1)" "routing_profiles db' = routing_profiles db"
    "routing_preferences db' = routing_preferences db" "wr_Changed r" "wr_PreferenceRevision r = c + 1"
    "wr_ID r = i" "wr_NeedsReview r = review" by simp_all
qed

lemma unchanged_Inr:
  "unchanged q c review i db = Inr (db', r) \<longleftrightarrow> \<not> q ''commit'' \<and> db' = db \<and>
     r = \<lparr>wr_PreferenceRevision = c, wr_Changed = False, wr_NeedsReview = review, wr_ID = i\<rparr>"
  by (auto simp: unchanged_def rbind_Inr_iff psql_Inr)

text \<open>
  Every write has one of two outcomes: nothing changed, or its expected revision was the stored one, the tables were
  rewritten from those of \<open>db\<close> and the revision advanced.
\<close>

definition tables :: "prefs_db \<Rightarrow> (string \<times> profile_row) list \<times> (string \<times> preference_row) list" where
  "tables db = (routing_profiles db, routing_preferences db)"

definition advanced :: "64 word \<Rightarrow> prefs_db \<Rightarrow> prefs_db \<Rightarrow> prefs_db \<Rightarrow> WriteResult \<Rightarrow> bool" where
  "advanced expected db mid db' r \<longleftrightarrow> stored_revision db = Some expected \<and> stored_revision db' = Some (expected + 1) \<and>
     tables db' = tables mid \<and> wr_Changed r \<and> wr_PreferenceRevision r = expected + 1"

definition stayed :: "prefs_db \<Rightarrow> prefs_db \<Rightarrow> WriteResult \<Rightarrow> bool" where
  "stayed db db' r \<longleftrightarrow> db' = db \<and> \<not> wr_Changed r \<and> stored_revision db = Some (wr_PreferenceRevision r)"

lemma finish_advanced:
  assumes "stored_revision db = Some c" "c = expected" "finish_write q c review i mid = Inr (db', r)"
  shows "advanced expected db mid db' r"
  using finish_write_Inr [OF assms(3)] assms(1,2) by (simp add: advanced_def tables_def)

lemma unchanged_stayed:
  "stored_revision db = Some c \<Longrightarrow> unchanged q c review i db = Inr (db', r) \<Longrightarrow> stayed db db' r"
  by (simp add: unchanged_Inr stayed_def)

lemmas write_iffs = rbind_Inr_iff psql_Inr prequire_Inr revision_Inr

lemma PutProfile_db:
  assumes "PutProfile pc q now e p db = Inr (db', r)"
  shows "stayed db db' r \<or>
    (\<exists>i row. advanced e db (db\<lparr>routing_profiles := alist_put i row (routing_profiles db)\<rparr>) db' r \<and>
       (\<forall>j s. (j, s) \<in> set (routing_profiles db) \<longrightarrow> j \<noteq> i \<longrightarrow> pfl_name s \<noteq> pfl_name row))"
proof -
  define name where "name = TrimSpace (prof_Name p)"
  define i where "i = profile_id (pc_codec pc) (prof_ID p) name"
  define row where "row = \<lparr>pfl_name = name, pfl_payload = profile_payload (pc_codec pc) (TrimSpace (prof_Description p)), pfl_updated = now\<rparr>"
  obtain c where c: "stored_revision db = Some c"
    and rest: "unchanged q c False i db = Inr (db', r) \<or>
      c = e \<and> (\<exists>mid. store_profile q i row db = Inr mid \<and> finish_write q c False i mid = Inr (db', r))"
    using assms unfolding PutProfile_def Let_def write_iffs name_def [symmetric] i_def [symmetric] row_def [symmetric]
    by (simp only: write_iffs split: if_splits) blast+
  from rest show ?thesis
  proof (elim disjE conjE exE)
    assume "unchanged q c False i db = Inr (db', r)"
    with unchanged_stayed [OF c] show ?thesis by blast
  next
    fix mid assume ce: "c = e" and sp: "store_profile q i row db = Inr mid" and fin: "finish_write q c False i mid = Inr (db', r)"
    have "mid = db\<lparr>routing_profiles := alist_put i row (routing_profiles db)\<rparr>"
      "\<forall>j s. (j, s) \<in> set (routing_profiles db) \<longrightarrow> j \<noteq> i \<longrightarrow> pfl_name s \<noteq> pfl_name row"
      using sp by (auto simp: store_profile_def rbind_Inr_iff list_ex_iff split: if_splits)
    with finish_advanced [OF c ce fin] show ?thesis by blast
  qed
qed

lemma DeleteProfile_db:
  assumes "DeleteProfile q e p db = Inr (db', r)"
  shows "stayed db db' r \<or> (\<exists>i. advanced e db (db\<lparr>routing_profiles := alist_del i (routing_profiles db),
     routing_preferences := filter (\<lambda>(_, r). pfr_profile r \<noteq> Some i) (routing_preferences db)\<rparr>) db' r)"
  using assms by (auto simp: DeleteProfile_def Let_def write_iffs dest: unchanged_stayed finish_advanced split: if_splits)

lemma DeleteRule_db:
  assumes "DeleteRule q e p db = Inr (db', r)"
  shows "stayed db db' r \<or> (\<exists>i. advanced e db (db\<lparr>routing_preferences := alist_del i (routing_preferences db)\<rparr>) db' r)"
  using assms by (auto simp: DeleteRule_def Let_def write_iffs dest: unchanged_stayed finish_advanced split: if_splits)

lemma ConfirmRule_db:
  assumes "ConfirmRule q now e p db = Inr (db', r)"
  shows "stayed db db' r \<or> (\<exists>i row. map_of (routing_preferences db) i = Some row \<and>
     rivals (scope_of row) (pfr_target_key row) i db = [] \<and>
     advanced e db (mark_review (\<lambda>j _. j = i) ReviewActive now db) db' r)"
proof (cases "map_of (routing_preferences db) (TrimSpace p)")
  case None
  then show ?thesis using assms by (auto simp: ConfirmRule_def Let_def write_iffs)
next
  case (Some row)
  show ?thesis
  proof (cases "pfr_state row = ReviewActive")
    case True
    then show ?thesis using assms by (auto simp: ConfirmRule_def Let_def write_iffs Some dest: unchanged_stayed)
  next
    case False
    have "map_of (routing_preferences db) (TrimSpace p) = Some row \<and>
     rivals (scope_of row) (pfr_target_key row) (TrimSpace p) db = [] \<and>
     advanced e db (mark_review (\<lambda>j _. j = (TrimSpace p)) ReviewActive now db) db' r"
      using assms False by (auto simp: ConfirmRule_def Let_def write_iffs Some dest: finish_advanced)
    then show ?thesis by blast
  qed
qed

text \<open>The row a rule is stored as.\<close>

definition new_row :: "codec \<Rightarrow> RuleSpec \<Rightarrow> string \<Rightarrow> int \<Rightarrow> preference_row" where
  "new_row cd n s now = \<lparr>pfr_profile = (if rl_ProfileID n = [] then None else Some (rl_ProfileID n)),
     pfr_target_key = conflict_key cd n, pfr_assumption = assumption_fingerprint cd n, pfr_state = s,
     pfr_payload = rule_payload cd n, pfr_updated = now\<rparr>"

lemma new_row_simps [simp]:
  "pfr_profile (new_row cd n s now) = (if rl_ProfileID n = [] then None else Some (rl_ProfileID n))"
  "pfr_target_key (new_row cd n s now) = conflict_key cd n" "pfr_assumption (new_row cd n s now) = assumption_fingerprint cd n"
  "pfr_state (new_row cd n s now) = s" "pfr_payload (new_row cd n s now) = rule_payload cd n"
  "scope_of (new_row cd n s now) = rl_ProfileID n"
  by (simp_all add: new_row_def scope_of_def)

lemma PutRule_db:
  assumes "PutRule pc q marked now e spec db = Inr (db', r)"
  obtains n where "normalize_spec spec = Inr n" "wr_ID r = rule_id (pc_codec pc) n"
    "rl_ProfileID n = [] \<or> map_of (routing_profiles db) (rl_ProfileID n) \<noteq> None"
    "stayed db db' r \<and> (\<exists>row. map_of (routing_preferences db) (wr_ID r) = Some row \<and>
        pfr_payload row = rule_payload (pc_codec pc) n \<and> pfr_assumption row = assumption_fingerprint (pc_codec pc) n) \<or>
     (\<exists>mid s. (rivals (rl_ProfileID n) (conflict_key (pc_codec pc) n) (wr_ID r) db = [] \<and> mid = db \<and> s = ReviewActive \<or>
        mid = mark_review (\<lambda>j r'. scope_of r' = rl_ProfileID n \<and> pfr_target_key r' = conflict_key (pc_codec pc) n \<and> j \<noteq> wr_ID r)
           ReviewNeedsReview marked db \<and> s = ReviewNeedsReview) \<and>
       advanced e db (mid\<lparr>routing_preferences := alist_put (wr_ID r) (new_row (pc_codec pc) n s now) (routing_preferences mid)\<rparr>) db' r)"
proof -
  let ?cd = "pc_codec pc"
  let ?i = "\<lambda>n. rule_id ?cd n"
  obtain n c where n: "normalize_spec spec = Inr n" and c: "stored_revision db = Some c"
    and prof: "require_profile q (rl_ProfileID n) db = Inr ()"
    and rest: "map_option (\<lambda>r. (pfr_payload r, pfr_assumption r)) (map_of (routing_preferences db) (?i n)) =
          Some (rule_payload ?cd n, assumption_fingerprint ?cd n) \<and>
        unchanged q c (pfr_state (the (map_of (routing_preferences db) (?i n))) = ReviewNeedsReview) (?i n) db = Inr (db', r) \<or>
      c = e \<and> store_rule q marked now c n (?i n) (conflict_key ?cd n) (assumption_fingerprint ?cd n) (rule_payload ?cd n) db = Inr (db', r)"
  proof -
    from assms obtain n where n: "normalize_spec spec = Inr n"
      by (auto simp: PutRule_def normalizeRule_def rbind_Inr_iff)
    obtain c u where c: "preferenceRevisionTx q db = Inr c" and p: "require_profile q (rl_ProfileID n) db = Inr u"
      and body: "(if map_option (\<lambda>r. (pfr_payload r, pfr_assumption r)) (map_of (routing_preferences db) (?i n)) =
          Some (rule_payload ?cd n, assumption_fingerprint ?cd n)
        then unchanged q c (pfr_state (the (map_of (routing_preferences db) (?i n))) = ReviewNeedsReview) (?i n) db
        else rbind (prequire (c = e) (ConflictError e c)) (\<lambda>_.
          store_rule q marked now c n (?i n) (conflict_key ?cd n) (assumption_fingerprint ?cd n) (rule_payload ?cd n) db)) = Inr (db', r)"
      using assms unfolding PutRule_def normalizeRule_def n rbind_Inr prod.case by (elim rbind_InrE) (rule that)
    have "stored_revision db = Some c" "require_profile q (rl_ProfileID n) db = Inr ()" using c p by (simp_all add: revision_Inr)
    with n show thesis
    proof (rule that)
      show "map_option (\<lambda>r. (pfr_payload r, pfr_assumption r)) (map_of (routing_preferences db) (?i n)) =
          Some (rule_payload ?cd n, assumption_fingerprint ?cd n) \<and>
        unchanged q c (pfr_state (the (map_of (routing_preferences db) (?i n))) = ReviewNeedsReview) (?i n) db = Inr (db', r) \<or>
      c = e \<and> store_rule q marked now c n (?i n) (conflict_key ?cd n) (assumption_fingerprint ?cd n) (rule_payload ?cd n) db = Inr (db', r)"
        using body by (auto simp: rbind_Inr_iff prequire_Inr simp del: map_option_eq_Some split: if_splits)
    qed
  qed
  have exists: "rl_ProfileID n = [] \<or> map_of (routing_profiles db) (rl_ProfileID n) \<noteq> None"
    using prof by (auto simp: require_profile_def write_iffs split: if_splits)
  from rest show thesis
  proof (elim disjE conjE exE)
    assume "map_option (\<lambda>r. (pfr_payload r, pfr_assumption r)) (map_of (routing_preferences db) (rule_id ?cd n)) =
          Some (rule_payload ?cd n, assumption_fingerprint ?cd n)"
      and u: "unchanged q c (pfr_state (the (map_of (routing_preferences db) (rule_id ?cd n))) = ReviewNeedsReview) (rule_id ?cd n) db = Inr (db', r)"
    moreover have "wr_ID r = rule_id ?cd n" using u by (simp add: unchanged_Inr)
    ultimately show thesis using unchanged_stayed [OF c u] by (intro that [OF n _ exists]) auto
  next
    assume ce: "c = e" and st: "store_rule q marked now c n (?i n) (conflict_key ?cd n) (assumption_fingerprint ?cd n) (rule_payload ?cd n) db = Inr (db', r)"
    obtain mid s where mid: "mark_conflicts q marked (rl_ProfileID n) (conflict_key ?cd n) (?i n) db = Inr (mid, s)"
      and fin: "finish_write q c (s = ReviewNeedsReview) (?i n)
          (mid\<lparr>routing_preferences := alist_put (?i n) (new_row ?cd n s now) (routing_preferences mid)\<rparr>) = Inr (db', r)"
      using st by (auto simp: store_rule_def rbind_Inr_iff new_row_def)
    have i: "wr_ID r = ?i n" by (rule finish_write_Inr(6) [OF fin])
    have m: "rivals (rl_ProfileID n) (conflict_key ?cd n) (wr_ID r) db = [] \<and> mid = db \<and> s = ReviewActive \<or>
        mid = mark_review (\<lambda>j r'. scope_of r' = rl_ProfileID n \<and> pfr_target_key r' = conflict_key ?cd n \<and> j \<noteq> wr_ID r)
           ReviewNeedsReview marked db \<and> s = ReviewNeedsReview"
      using mid by (auto simp: i mark_conflicts_def rbind_Inr_iff split: if_splits)
    have adv: "advanced e db (mid\<lparr>routing_preferences := alist_put (wr_ID r) (new_row ?cd n s now) (routing_preferences mid)\<rparr>) db' r"
      using finish_advanced [OF c ce fin] by (simp add: i)
    show thesis by (rule that [OF n i exists disjI2]) (use m adv in blast)
  qed
qed

section \<open>Optimistic concurrency\<close>

lemma write_prefs_outcome:
  assumes "write_prefs pc v e op db = Inr (db', r)"
  shows "stayed db db' r \<or> (\<exists>mid. advanced e db mid db' r)"
proof (cases op)
  case (OpPutRule spec)
  with assms have "PutRule pc (pe_fails v) (pe_marked v) (pe_now v) e spec db = Inr (db', r)" by simp
  then show ?thesis by (rule PutRule_db) blast
qed (use assms in \<open>auto dest!: PutProfile_db DeleteProfile_db ConfirmRule_db DeleteRule_db\<close>)

locale versioned_store =
  fixes revision :: "'s \<Rightarrow> 64 word option"
    and store_write :: "64 word \<Rightarrow> 'op \<Rightarrow> 's \<Rightarrow> ('e, 's \<times> WriteResult) result"
  assumes write_changed: "store_write e op s = Inr (s', r) \<Longrightarrow> wr_Changed r \<Longrightarrow>
      revision s = Some e \<and> revision s' = Some (e + 1) \<and> wr_PreferenceRevision r = e + 1"
    and write_unchanged: "store_write e op s = Inr (s', r) \<Longrightarrow> \<not> wr_Changed r \<Longrightarrow>
      s' = s \<and> revision s = Some (wr_PreferenceRevision r)"
begin

lemma stale_writer:
  assumes "store_write e op s = Inr (s', r)" "revision s \<noteq> Some e" shows "s' = s \<and> \<not> wr_Changed r"
  using write_changed [OF assms(1)] write_unchanged [OF assms(1)] assms(2) by blast

lemma reported_revision:
  assumes "store_write e op s = Inr (s', r)" shows "revision s' = Some (wr_PreferenceRevision r)"
  using write_changed [OF assms] write_unchanged [OF assms] by (cases "wr_Changed r") auto

end

interpretation prefs: versioned_store stored_revision "\<lambda>e (v, op). write_prefs pc v e op" for pc
  by unfold_locales (auto dest!: write_prefs_outcome simp: advanced_def stayed_def)

section \<open>Reachable databases\<close>

lemma set_put_distinct:
  "distinct (map fst m) \<Longrightarrow> set (alist_put k v m) = insert (k, v) {x \<in> set m. fst x \<noteq> k}"
  by (induction k v m rule: alist_put.induct) (auto simp: image_iff)

definition prefs_empty :: prefs_db where
  "prefs_empty = \<lparr>pd_state = Some (''0'', [], ''0''), routing_profiles = [], routing_preferences = []\<rparr>"

text \<open>The tables change only by the operations of the store; the singleton row is shared with the routing state.\<close>

inductive prefs_run :: "pref_codec \<Rightarrow> prefs_db \<Rightarrow> bool" for pc where
  start: "prefs_run pc prefs_empty"
| wrote: "prefs_run pc db \<Longrightarrow> write_prefs pc v e op db = Inr (db', r) \<Longrightarrow> prefs_run pc db'"
| reconciled: "prefs_run pc db \<Longrightarrow> ReconcileTargets pc q now current db = Inr (db', stale, revision) \<Longrightarrow> prefs_run pc db'"
| shared: "prefs_run pc db \<Longrightarrow> prefs_run pc (db\<lparr>pd_state := row\<rparr>)"

definition lone_actives :: "(string \<times> preference_row) list \<Rightarrow> bool" where
  "lone_actives rows \<longleftrightarrow> (\<forall>(i, r) \<in> set rows. \<forall>(j, s) \<in> set rows.
     i \<noteq> j \<longrightarrow> scope_of r = scope_of s \<longrightarrow> pfr_target_key r = pfr_target_key s \<longrightarrow> pfr_state r \<noteq> ReviewActive)"

definition refs_ok :: "(string \<times> profile_row) list \<Rightarrow> (string \<times> preference_row) list \<Rightarrow> bool" where
  "refs_ok profiles rows \<longleftrightarrow> (\<forall>(i, r) \<in> set rows. \<forall>p. pfr_profile r = Some p \<longrightarrow> p \<in> fst ` set profiles)"

definition prefs_ok :: "prefs_db \<Rightarrow> bool" where
  "prefs_ok db \<longleftrightarrow> distinct (map fst (routing_profiles db)) \<and> distinct (map (\<lambda>(i, r). pfl_name r) (routing_profiles db)) \<and>
     distinct (map fst (routing_preferences db)) \<and> lone_actives (routing_preferences db) \<and>
     refs_ok (routing_profiles db) (routing_preferences db)"

lemma prefs_ok_tables: "tables db = tables db' \<Longrightarrow> prefs_ok db = prefs_ok db'"
  by (simp add: tables_def prefs_ok_def)

lemma mark_review_rows:
  "routing_profiles (mark_review p s now db) = routing_profiles db"
  "map fst (routing_preferences (mark_review p s now db)) = map fst (routing_preferences db)"
  "set (routing_preferences (mark_review p s now db)) =
     (\<lambda>(i, r). (i, if p i r then r\<lparr>pfr_state := s, pfr_updated := now\<rparr> else r)) ` set (routing_preferences db)"
  by (auto simp: mark_review_def comp_def case_prod_beta)

lemma marked_fields [simp]:
  "scope_of (if b then r\<lparr>pfr_state := s, pfr_updated := now\<rparr> else r) = scope_of r"
  "pfr_target_key (if b then r\<lparr>pfr_state := s, pfr_updated := now\<rparr> else r) = pfr_target_key r"
  "pfr_profile (if b then r\<lparr>pfr_state := s, pfr_updated := now\<rparr> else r) = pfr_profile r"
  "pfr_payload (if b then r\<lparr>pfr_state := s, pfr_updated := now\<rparr> else r) = pfr_payload r"
  "pfr_assumption (if b then r\<lparr>pfr_state := s, pfr_updated := now\<rparr> else r) = pfr_assumption r"
  "pfr_state (if b then r\<lparr>pfr_state := s, pfr_updated := now\<rparr> else r) = (if b then s else pfr_state r)"
  by (simp_all add: scope_of_def)

lemma review_not_active [simp]: "ReviewNeedsReview \<noteq> ReviewActive" "ReviewActive \<noteq> ReviewNeedsReview"
  by (simp_all add: ReviewNeedsReview_def ReviewActive_def)

lemma lone_activesI:
  assumes "\<And>i r j s. (i, r) \<in> set rows \<Longrightarrow> (j, s) \<in> set rows \<Longrightarrow> i \<noteq> j \<Longrightarrow> scope_of r = scope_of s \<Longrightarrow>
    pfr_target_key r = pfr_target_key s \<Longrightarrow> pfr_state r \<noteq> ReviewActive"
  shows "lone_actives rows"
  unfolding lone_actives_def using assms by blast

lemma lone_activesD:
  "lone_actives rows \<Longrightarrow> (i, r) \<in> set rows \<Longrightarrow> (j, s) \<in> set rows \<Longrightarrow> i \<noteq> j \<Longrightarrow> scope_of r = scope_of s \<Longrightarrow>
    pfr_target_key r = pfr_target_key s \<Longrightarrow> pfr_state r \<noteq> ReviewActive"
  unfolding lone_actives_def by fast

lemma marked_row:
  assumes "(i, r) \<in> set (routing_preferences (mark_review p s now db))"
  obtains r' where "(i, r') \<in> set (routing_preferences db)" "r = (if p i r' then r'\<lparr>pfr_state := s, pfr_updated := now\<rparr> else r')"
  using assms unfolding mark_review_rows by auto

lemma lone_subset: "lone_actives rows \<Longrightarrow> set rows' \<subseteq> set rows \<Longrightarrow> lone_actives rows'"
  unfolding lone_actives_def by blast

lemma refs_subset: "refs_ok ps rows \<Longrightarrow> set rows' \<subseteq> set rows \<Longrightarrow> fst ` set ps \<subseteq> fst ` set ps' \<Longrightarrow> refs_ok ps' rows'"
  unfolding refs_ok_def by blast

lemma prefs_ok_mark:
  assumes "prefs_ok db" shows "prefs_ok (mark_review p ReviewNeedsReview now db)"
  using assms unfolding prefs_ok_def lone_actives_def refs_ok_def mark_review_rows
  by (auto simp: case_prod_beta)

lemma prefs_ok_confirm:
  assumes ok: "prefs_ok db" and alone: "rivals (scope_of row) (pfr_target_key row) i db = []"
    and row: "map_of (routing_preferences db) i = Some row"
  shows "prefs_ok (mark_review (\<lambda>j _. j = i) ReviewActive now db)"
proof -
  let ?rows = "routing_preferences db"
  have rivals: "j = i" if "(j, s) \<in> set ?rows" "scope_of s = scope_of row" "pfr_target_key s = pfr_target_key row" for j s
    using alone that by (auto simp: rivals_def filter_empty_conv)
  have row_i: "r = row" if "(i, r) \<in> set ?rows" for r
    using ok row that by (auto simp: prefs_ok_def dest: map_of_is_SomeI)
  have "lone_actives (routing_preferences (mark_review (\<lambda>j _. j = i) ReviewActive now db))"
  proof (rule lone_activesI, elim marked_row)
    fix j r k s r' s'
    assume mem: "(j, r') \<in> set ?rows" "(k, s') \<in> set ?rows" and ne: "j \<noteq> k"
      and eq: "scope_of r = scope_of s" "pfr_target_key r = pfr_target_key s"
      and r: "r = (if j = i then r'\<lparr>pfr_state := ReviewActive, pfr_updated := now\<rparr> else r')"
      and s: "s = (if k = i then s'\<lparr>pfr_state := ReviewActive, pfr_updated := now\<rparr> else s')"
    have eq': "scope_of r' = scope_of s'" "pfr_target_key r' = pfr_target_key s'" using eq unfolding r s by simp_all
    have "j \<noteq> i" "k \<noteq> i" using rivals row_i mem ne eq' by metis+
    then show "pfr_state r \<noteq> ReviewActive"
      using lone_activesD [OF _ mem ne eq'] ok r by (simp add: prefs_ok_def)
  qed
  then show ?thesis using ok unfolding prefs_ok_def refs_ok_def mark_review_rows by (auto simp: case_prod_beta)
qed

lemma lone_put:
  assumes "lone_actives rows" "distinct (map fst rows)"
    and "\<forall>(j, s) \<in> set rows. j \<noteq> i \<longrightarrow> scope_of s = scope_of row \<longrightarrow> pfr_target_key s = pfr_target_key row \<longrightarrow>
      pfr_state s \<noteq> ReviewActive \<and> pfr_state row \<noteq> ReviewActive"
  shows "lone_actives (alist_put i row rows)"
proof (rule lone_activesI)
  fix j r k s
  assume mem: "(j, r) \<in> set (alist_put i row rows)" "(k, s) \<in> set (alist_put i row rows)" and ne: "j \<noteq> k"
    and eq: "scope_of r = scope_of s" "pfr_target_key r = pfr_target_key s"
  consider "j = i" "r = row" "(k, s) \<in> set rows" | "k = i" "s = row" "(j, r) \<in> set rows" | "(j, r) \<in> set rows" "(k, s) \<in> set rows"
    using mem ne unfolding set_put_distinct [OF assms(2)] by auto
  then show "pfr_state r \<noteq> ReviewActive"
  proof cases
    case 3
    then show ?thesis using lone_activesD [OF assms(1)] ne eq by blast
  qed (use assms(3) ne eq in fastforce)+
qed

lemma prefs_ok_put:
  assumes ok: "prefs_ok db" and prof: "rl_ProfileID n = [] \<or> map_of (routing_profiles db) (rl_ProfileID n) \<noteq> None"
    and mid: "rivals (rl_ProfileID n) (conflict_key cd n) i db = [] \<and> mid = db \<and> s = ReviewActive \<or>
        mid = mark_review (\<lambda>j r'. scope_of r' = rl_ProfileID n \<and> pfr_target_key r' = conflict_key cd n \<and> j \<noteq> i)
           ReviewNeedsReview marked db \<and> s = ReviewNeedsReview"
  shows "prefs_ok (mid\<lparr>routing_preferences := alist_put i (new_row cd n s now) (routing_preferences mid)\<rparr>)"
proof -
  have okm: "prefs_ok mid" and pm: "routing_profiles mid = routing_profiles db"
    using mid ok by (auto simp: prefs_ok_mark mark_review_rows)
  have "\<forall>(j, r) \<in> set (routing_preferences mid). j \<noteq> i \<longrightarrow> scope_of r = rl_ProfileID n \<longrightarrow>
      pfr_target_key r = conflict_key cd n \<longrightarrow> pfr_state r \<noteq> ReviewActive \<and> s \<noteq> ReviewActive"
    using mid by (auto simp: rivals_def filter_empty_conv mark_review_rows)
  then have "lone_actives (alist_put i (new_row cd n s now) (routing_preferences mid))"
    using okm by (intro lone_put) (auto simp: prefs_ok_def)
  moreover have "refs_ok (routing_profiles mid) (alist_put i (new_row cd n s now) (routing_preferences mid))"
    using okm prof pm by (auto simp: prefs_ok_def refs_ok_def dest!: set_alist_put map_of_SomeD intro: rev_image_eqI split: if_splits)
  ultimately show ?thesis using okm by (simp add: prefs_ok_def)
qed

lemma prefs_ok_profile:
  assumes ok: "prefs_ok db" and names: "\<forall>j s. (j, s) \<in> set (routing_profiles db) \<longrightarrow> j \<noteq> i \<longrightarrow> pfl_name s \<noteq> pfl_name row"
  shows "prefs_ok (db\<lparr>routing_profiles := alist_put i row (routing_profiles db)\<rparr>)"
proof -
  have "distinct (map (\<lambda>(i, r). pfl_name r) (alist_put i row m))"
    if "distinct (map (\<lambda>(i, r). pfl_name r) m)" "distinct (map fst m)"
      "\<forall>j s. (j, s) \<in> set m \<longrightarrow> j \<noteq> i \<longrightarrow> pfl_name s \<noteq> pfl_name row" for m
    using that
  proof (induction i row m rule: alist_put.induct)
    case (2 k v k' v' m)
    show ?case
    proof (cases "k' = k")
      case True
      with 2(2-) show ?thesis by (fastforce simp: image_iff)
    next
      case False
      have "pfl_name v' \<noteq> pfl_name s" if "(j, s) \<in> set (alist_put k v m)" for j s
        using set_alist_put [OF that] False 2(2-) by (fastforce simp: image_iff)
      with False 2 show ?thesis by (auto simp: image_iff)
    qed
  qed simp
  moreover have "refs_ok (alist_put i row (routing_profiles db)) (routing_preferences db)"
    using ok unfolding prefs_ok_def refs_ok_def keys_alist_put by blast
  ultimately show ?thesis using ok names by (simp add: prefs_ok_def)
qed

lemma prefs_ok_delete:
  assumes "prefs_ok db"
  shows "prefs_ok (db\<lparr>routing_preferences := alist_del i (routing_preferences db)\<rparr>)"
    "prefs_ok (db\<lparr>routing_profiles := alist_del i (routing_profiles db),
       routing_preferences := filter (\<lambda>(_, r). pfr_profile r \<noteq> Some i) (routing_preferences db)\<rparr>)"
proof -
  have sub: "set (alist_del i m) \<subseteq> set m" for m :: "(string \<times> 'z) list" by (auto simp: alist_del_def)
  show "prefs_ok (db\<lparr>routing_preferences := alist_del i (routing_preferences db)\<rparr>)"
    using assms sub [of "routing_preferences db"] lone_subset [of "routing_preferences db"]
      refs_subset [of "routing_profiles db" "routing_preferences db" _ "routing_profiles db"]
    by (simp add: prefs_ok_def)
  have "distinct (map f (alist_del i m))" if "distinct (map f m)" for f :: "string \<times> profile_row \<Rightarrow> string" and m
    using that by (auto simp: alist_del_def distinct_map inj_on_def)
  moreover have "refs_ok (alist_del i (routing_profiles db)) (filter (\<lambda>(_, r). pfr_profile r \<noteq> Some i) (routing_preferences db))"
    using assms by (auto simp: prefs_ok_def refs_ok_def keys_alist_del)
  moreover have "distinct (map fst (filter (\<lambda>(_, r). pfr_profile r \<noteq> Some i) (routing_preferences db)))"
    using assms by (auto simp: prefs_ok_def distinct_map inj_on_def)
  ultimately show "prefs_ok (db\<lparr>routing_profiles := alist_del i (routing_profiles db),
       routing_preferences := filter (\<lambda>(_, r). pfr_profile r \<noteq> Some i) (routing_preferences db)\<rparr>)"
    using assms lone_subset [of "routing_preferences db" "filter (\<lambda>(_, r). pfr_profile r \<noteq> Some i) (routing_preferences db)"]
    by (simp add: prefs_ok_def)
qed

lemma prefs_ok_write:
  assumes "prefs_ok db" "write_prefs pc v e op db = Inr (db', r)" shows "prefs_ok db'"
proof -
  have adv: "prefs_ok db'" if "prefs_ok mid" "advanced e db mid db' r" for mid
    using that prefs_ok_tables [of db' mid] by (simp add: advanced_def)
  show ?thesis
  proof (cases op)
    case (OpPutRule spec)
    with assms(2) have w: "PutRule pc (pe_fails v) (pe_marked v) (pe_now v) e spec db = Inr (db', r)" by simp
    show ?thesis
    proof (rule PutRule_db [OF w])
      fix n
      assume prof: "rl_ProfileID n = [] \<or> map_of (routing_profiles db) (rl_ProfileID n) \<noteq> None"
        and out: "stayed db db' r \<and> (\<exists>row. map_of (routing_preferences db) (wr_ID r) = Some row \<and>
            pfr_payload row = rule_payload (pc_codec pc) n \<and> pfr_assumption row = assumption_fingerprint (pc_codec pc) n) \<or>
          (\<exists>mid s. (rivals (rl_ProfileID n) (conflict_key (pc_codec pc) n) (wr_ID r) db = [] \<and> mid = db \<and> s = ReviewActive \<or>
            mid = mark_review (\<lambda>j r'. scope_of r' = rl_ProfileID n \<and> pfr_target_key r' = conflict_key (pc_codec pc) n \<and> j \<noteq> wr_ID r)
              ReviewNeedsReview (pe_marked v) db \<and> s = ReviewNeedsReview) \<and>
            advanced e db (mid\<lparr>routing_preferences := alist_put (wr_ID r) (new_row (pc_codec pc) n s (pe_now v)) (routing_preferences mid)\<rparr>) db' r)"
      show "prefs_ok db'"
        by (rule disjE [OF out])
          ((use assms(1) in \<open>simp add: stayed_def\<close>)[1], elim exE conjE, rule adv [OF prefs_ok_put [OF assms(1) prof]], assumption+)
    qed
  next
    case (OpConfirmRule i)
    with assms(2) have "ConfirmRule (pe_fails v) (pe_now v) e i db = Inr (db', r)" by simp
    from ConfirmRule_db [OF this] show ?thesis
      using assms(1) by (auto simp: stayed_def intro: adv [OF prefs_ok_confirm [OF assms(1)]])
  next
    case (OpPutProfile p)
    then show ?thesis using assms adv prefs_ok_profile by (auto simp: stayed_def dest!: PutProfile_db)
  qed (use assms adv [OF prefs_ok_delete(1) [OF assms(1)]] adv [OF prefs_ok_delete(2) [OF assms(1)]]
      in \<open>auto simp: stayed_def dest!: DeleteProfile_db DeleteRule_db\<close>)
qed

lemma scanRule_fields:
  "scanRule pc row = Inr rule \<Longrightarrow> rule_ID rule = fst row \<and> rule_ReviewState rule = pfr_state (snd row) \<and>
     rule_ConflictKey rule = pfr_target_key (snd row)"
  by (auto simp: scanRule_def split: prod.splits option.splits)

lemma scan_rules_set:
  "scan_rules pc rows = Inr rules \<Longrightarrow>
    map rule_ID rules = map fst rows \<and> set rules = {rule. \<exists>row \<in> set rows. scanRule pc row = Inr rule}"
proof (induction rows arbitrary: rules)
  case (Cons row rows)
  from Cons.prems obtain x xs where x: "scanRule pc row = Inr x" and xs: "scan_rules pc rows = Inr xs" and "rules = x # xs"
    by (auto simp: rbind_Inr_iff)
  moreover have "rule_ID x = fst row" using scanRule_fields [OF x] by simp
  ultimately show ?case using Cons.IH [OF xs] by auto
qed simp

lemma Reconcile_db:
  assumes "ReconcileTargets pc q now current db = Inr (db', stale, v)"
  obtains rules c where "scan_rules pc (sort_key fst (filter (\<lambda>(_, r). pfr_state r = ReviewActive) (routing_preferences db))) = Inr rules"
    "stale = map rule_ID (filter (\<lambda>rule. ruleTargetsChanged (rule_Spec rule) current) rules)"
    "stored_revision db = Some c"
    "stale = [] \<and> db' = db \<and> v = c \<or> stale \<noteq> [] \<and> stored_revision db' = Some (c + 1) \<and> v = c + 1 \<and>
       tables db' = tables (mark_review (\<lambda>i _. i \<in> set stale) ReviewNeedsReview now db)"
proof -
  obtain rules c where r: "scan_rules pc (sort_key fst (filter (\<lambda>(_, r). pfr_state r = ReviewActive) (routing_preferences db))) = Inr rules"
    and c: "preferenceRevisionTx q db = Inr c"
    and body: "(let stale = map rule_ID (filter (\<lambda>rule. ruleTargetsChanged (rule_Spec rule) current) rules) in
     if stale = [] then rbind (psql q ''commit'') (\<lambda>_. Inr (db, [], c))
     else rbind (psql q ''mark stale'') (\<lambda>_.
       rbind (setPreferenceRevisionTx q (c + 1) (mark_review (\<lambda>i _. i \<in> set stale) ReviewNeedsReview now db)) (\<lambda>db'.
       rbind (psql q ''commit'') (\<lambda>_. Inr (db', stale, c + 1))))) = Inr (db', stale, v)"
    using assms unfolding ReconcileTargets_def by (elim rbind_InrE) (rule that)
  let ?s = "map rule_ID (filter (\<lambda>rule. ruleTargetsChanged (rule_Spec rule) current) rules)"
  have "stored_revision db = Some c" using c by (simp add: revision_Inr)
  show thesis
  proof (rule that [OF r _ \<open>stored_revision db = Some c\<close>])
    show "stale = ?s" using body by (auto simp: Let_def rbind_Inr_iff split: if_splits)
    show "stale = [] \<and> db' = db \<and> v = c \<or> stale \<noteq> [] \<and> stored_revision db' = Some (c + 1) \<and> v = c + 1 \<and>
       tables db' = tables (mark_review (\<lambda>i _. i \<in> set stale) ReviewNeedsReview now db)"
      using body set_revision_Inr [of q "c + 1" "mark_review (\<lambda>i _. i \<in> set ?s) ReviewNeedsReview now db" db']
      by (auto simp: Let_def rbind_Inr_iff tables_def split: if_splits)
  qed
qed

lemma prefs_run_ok: "prefs_run pc db \<Longrightarrow> prefs_ok db"
proof (induction rule: prefs_run.induct)
  case (reconciled db q now current db' stale revision)
  from reconciled(2) show ?case
  proof (rule Reconcile_db)
    fix c assume "stale = [] \<and> db' = db \<and> revision = c \<or> stale \<noteq> [] \<and> stored_revision db' = Some (c + 1) \<and> revision = c + 1 \<and>
       tables db' = tables (mark_review (\<lambda>i _. i \<in> set stale) ReviewNeedsReview now db)"
    then show ?thesis using reconciled.IH prefs_ok_mark [OF reconciled.IH, of "\<lambda>i _. i \<in> set stale" now]
        prefs_ok_tables [of db' "mark_review (\<lambda>i _. i \<in> set stale) ReviewNeedsReview now db"] by auto
  qed
next
  case (shared db row)
  then show ?case by (simp add: prefs_ok_def)
next
  case (wrote db v e op db' r)
  then show ?case by (blast intro: prefs_ok_write)
qed (simp add: prefs_ok_def prefs_empty_def lone_actives_def refs_ok_def)

section \<open>Later writers\<close>

text \<open>
  What may happen to the preferences later on: \<open>n\<close> counts the writes and reconciliations that changed something. The routing side may
  rewrite its two columns of the shared row in between, as long as it leaves the preference revision alone.
\<close>

inductive later_prefs :: "pref_codec \<Rightarrow> prefs_db \<Rightarrow> nat \<Rightarrow> prefs_db \<Rightarrow> bool" for pc db where
  now: "later_prefs pc db 0 db"
| wrote: "later_prefs pc db n db1 \<Longrightarrow> write_prefs pc v e op db1 = Inr (db2, r) \<Longrightarrow> later_prefs pc db (if wr_Changed r then Suc n else n) db2"
| reconciled: "later_prefs pc db n db1 \<Longrightarrow> ReconcileTargets pc q t current db1 = Inr (db2, stale, revision) \<Longrightarrow>
    later_prefs pc db (if stale = [] then n else Suc n) db2"
| routing: "later_prefs pc db n db1 \<Longrightarrow> map_option (snd \<circ> snd) row = map_option (snd \<circ> snd) (pd_state db1) \<Longrightarrow>
    later_prefs pc db n (db1\<lparr>pd_state := row\<rparr>)"

lemma stored_revision_row:
  "map_option (snd \<circ> snd) row = map_option (snd \<circ> snd) (pd_state db) \<Longrightarrow> stored_revision (db\<lparr>pd_state := row\<rparr>) = stored_revision db"
  by (cases row; cases "pd_state db") (auto simp: stored_revision_def)

lemma Reconcile_revision:
  "ReconcileTargets pc q t current db = Inr (db', stale, v) \<Longrightarrow> stored_revision db = Some c \<Longrightarrow>
     stored_revision db' = Some (if stale = [] then c else c + 1)"
  by (erule Reconcile_db) auto

lemma later_revision:
  assumes "later_prefs pc db n db'" and "stored_revision db = Some c" shows "stored_revision db' = Some (c + of_nat n)"
  using assms
proof (induction rule: later_prefs.induct)
  case (wrote n db1 v e op db2 r)
  then show ?case using write_prefs_outcome [OF wrote(2)] by (auto simp: advanced_def stayed_def add_ac)
next
  case (reconciled n db1 q t current db2 stale revision)
  then show ?case using Reconcile_revision [OF reconciled(2)] by (auto simp: add_ac)
qed (simp_all add: stored_revision_row)

lemma far_revision: assumes "n < 2 ^ 64 - 1" shows "e + 1 + of_nat n \<noteq> (e :: 64 word)"
proof
  assume "e + 1 + of_nat n = e"
  then have "(of_nat (Suc n) :: 64 word) = 0" by (simp add: add.assoc)
  then have "2 ^ 64 dvd Suc n" by (simp add: word_of_nat_eq_0_iff del: of_nat_Suc)
  then have "2 ^ 64 \<le> Suc n" by (rule dvd_imp_le) simp
  then show False using assms by simp
qed

text \<open>
  (C11) Of the writers that saw the same preference revision only one changes the preferences: when a write with expected
  revision \<open>e\<close> has changed something, \<open>e\<close> was the stored revision and the stored and reported one is now \<open>e + 1\<close>. After any further history
  of writes and reconciliations, \<open>n\<close> of which changed something (fewer than 2^64 - 1), the stored revision is \<open>e + 1 + n\<close>, and every further write
  of any kind that still expects \<open>e\<close> is refused or changes nothing. The history is that of the preference store: the
  routing side may change its columns of the shared row, but not write an older preference revision back, which the routing tracker can do.
\<close>

theorem no_lost_update:
  assumes "write_prefs pc v1 e op1 db = Inr (db1, r1)" and "wr_Changed r1" and "later_prefs pc db1 n db2" and "n < 2 ^ 64 - 1"
  shows "stored_revision db = Some e \<and> stored_revision db1 = Some (e + 1) \<and> wr_PreferenceRevision r1 = e + 1 \<and>
    stored_revision db2 = Some (e + 1 + of_nat n) \<and>
    (case write_prefs pc v2 e op2 db2 of Inl _ \<Rightarrow> True | Inr (db3, r2) \<Rightarrow> db3 = db2 \<and> \<not> wr_Changed r2)"
proof -
  have w: "(\<lambda>(v, op). write_prefs pc v e op) (v1, op1) db = Inr (db1, r1)" using assms(1) by simp
  note first = prefs.write_changed [OF w assms(2)]
  have rev: "stored_revision db2 = Some (e + 1 + of_nat n)" using later_revision [OF assms(3)] first by simp
  have "db3 = db2 \<and> \<not> wr_Changed r2" if "write_prefs pc v2 e op2 db2 = Inr (db3, r2)" for db3 r2
    using prefs.stale_writer [of pc e "(v2, op2)" db2 db3 r2] that rev far_revision [OF assms(4)] by simp
  then show ?thesis using first rev by (auto split: sum.split)
qed

text \<open>The row of \<^verbatim>\<open>routing_state\<close> as the routing tracker sees it, on a database that answers.\<close>

definition row_of :: "prefs_db \<Rightarrow> sqlite_state" where
  "row_of db = \<lparr>sq_row = pd_state db, sq_queryFails = False, sq_execFails = False\<rparr>"

text \<open>
  (C29) The routing tracker can undo the preference revision: it loads the shared row, a writer changes the preferences from revision \<open>e\<close> to \<open>e + 1\<close>, and the
  tracker stores the row back with its old preference revision. The stored revision is \<open>e\<close> again with the new tables, and a second writer that still expects
  \<open>e\<close> deletes any rule the first one left, although it has never seen it.
\<close>

theorem tracker_store_reopens_revision:
  assumes L: "SQLite_Load (row_of db) = Inr s" and w: "write_prefs pc v e op db = Inr (db1, r)" "wr_Changed r"
    and st: "SQLite_Store (row_of db1) (s\<lparr>rs_RoutingRevision := rs_RoutingRevision s + 1\<rparr>) = (sq, None)"
    and i: "map_of (routing_preferences db1) (TrimSpace i) \<noteq> None" "TrimSpace i \<noteq> []"
  shows "stored_revision db1 = Some (e + 1) \<and> stored_revision (db1\<lparr>pd_state := sq_row sq\<rparr>) = Some e \<and>
    (\<exists>db3 r3. DeleteRule (\<lambda>l. False) e i (db1\<lparr>pd_state := sq_row sq\<rparr>) = Inr (db3, r3) \<and> wr_Changed r3 \<and>
       routing_preferences db3 = alist_del (TrimSpace i) (routing_preferences db1))"
proof -
  have "(\<lambda>(v, op). write_prefs pc v e op) (v, op) db = Inr (db1, r)" using w(1) by simp
  note first = prefs.write_changed [OF this w(2)]
  have "rs_PreferenceRevision s = e"
    using L first by (auto simp: SQLite_Load_def row_of_def stored_revision_def split: option.splits prod.splits)
  then have row: "\<exists>x h. sq_row sq = Some (x, h, FormatUint e)"
    using st by (auto simp: SQLite_Store_def row_of_def split: option.splits)
  then have rev: "stored_revision (db1\<lparr>pd_state := sq_row sq\<rparr>) = Some e"
    by (auto simp: stored_revision_def parse_format_word)
  then show ?thesis using first i row
    by (auto simp: DeleteRule_def Let_def write_iffs finish_write_def setPreferenceRevisionTx_def psql_def preferenceRevisionTx_def parseRevision_def
      parse_format_word prequire_def rbind_def split: if_splits)
qed

section \<open>Properties\<close>

lemma active_alone:
  assumes ok: "prefs_ok db" and r: "(i, r) \<in> set (routing_preferences db)" "pfr_state r = ReviewActive"
    and s: "(j, s) \<in> set (routing_preferences db)" "scope_of s = scope_of r" "pfr_target_key s = pfr_target_key r"
  shows "j = i \<and> s = r"
proof
  show "j = i" using lone_activesD [of "routing_preferences db" i r j s] assms by (auto simp: prefs_ok_def)
  then show "s = r" using eq_key_imp_eq_value [of "routing_preferences db" i] assms unfolding prefs_ok_def by blast
qed

lemma EffectiveRules_mem:
  assumes "EffectiveRules pc q db p = Inr rules" and "distinct (map fst (routing_preferences db))"
  shows "rule \<in> set rules \<longleftrightarrow> (\<exists>row. map_of (routing_preferences db) (rule_ID rule) = Some row \<and>
      scanRule pc (rule_ID rule, row) = Inr rule \<and> rule_effective p rule)"
proof -
  obtain all where all: "scan_rules pc (sort_key fst (routing_preferences db)) = Inr all"
    and rules: "rules = sort_key effective_key (filter (rule_effective p) all)"
    using assms(1) by (auto simp: EffectiveRules_def ListRules_def rbind_Inr_iff)
  have "scanRule pc row = Inr rule \<Longrightarrow> fst row = rule_ID rule" for row by (simp add: scanRule_fields)
  then show ?thesis using scan_rules_set [OF all] assms(2) unfolding rules
    by (auto simp: map_of_eq_Some_iff)
qed

lemma sort_key_strict:
  assumes "distinct (map f xs)" shows "sorted_wrt (<) (map f (sort_key f xs))"
  using assms by (simp add: strict_sorted_iff map_sort_key)

lemma EffectiveRules_exact_parts:
  assumes "prefs_run pc db" and "EffectiveRules pc q db p = Inr rules"
  shows "sorted_wrt (<) (map effective_key rules)"
    and "rule \<in> set rules \<longleftrightarrow> (\<exists>row. map_of (routing_preferences db) (rule_ID rule) = Some row \<and>
      scanRule pc (rule_ID rule, row) = Inr rule \<and> rule_effective p rule)"
proof -
  have dis: "distinct (map fst (routing_preferences db))" using prefs_run_ok [OF assms(1)] by (simp add: prefs_ok_def)
  then show "rule \<in> set rules \<longleftrightarrow> (\<exists>row. map_of (routing_preferences db) (rule_ID rule) = Some row \<and>
      scanRule pc (rule_ID rule, row) = Inr rule \<and> rule_effective p rule)"
    by (rule EffectiveRules_mem [OF assms(2)])
  obtain all where all: "scan_rules pc (sort_key fst (routing_preferences db)) = Inr all"
    and rules: "rules = sort_key effective_key (filter (rule_effective p) all)"
    using assms(2) by (auto simp: EffectiveRules_def ListRules_def rbind_Inr_iff)
  have "distinct (map rule_ID all)" using scan_rules_set [OF all] dis by (simp add: map_sort_key)
  then have "distinct (map effective_key (filter (rule_effective p) all))"
    by (auto simp: distinct_map inj_on_def effective_key_def)
  then show "sorted_wrt (<) (map effective_key rules)" unfolding rules by (rule sort_key_strict)
qed




text \<open>
  (C12) In every database the store can reach, an active rule is alone in its scope and slot: no other rule, active or not, has
  the same profile and conflict key, so a decision between two contradicting rules is always left to the user; rule and
  profile IDs and profile names are unique, and every rule of a profile, active or not, refers to an existing profile.
\<close>

theorem active_rule_alone:
  assumes "prefs_run pc db"
  shows "(\<forall>(i, r) \<in> set (routing_preferences db). pfr_state r = ReviewActive \<longrightarrow>
      (\<forall>(j, s) \<in> set (routing_preferences db). scope_of s = scope_of r \<longrightarrow> pfr_target_key s = pfr_target_key r \<longrightarrow> j = i \<and> s = r)) \<and>
    (\<forall>(i, r) \<in> set (routing_preferences db). \<forall>p. pfr_profile r = Some p \<longrightarrow> p \<in> fst ` set (routing_profiles db)) \<and>
    distinct (map fst (routing_preferences db)) \<and> distinct (map fst (routing_profiles db)) \<and>
    distinct (map (\<lambda>(i, p). pfl_name p) (routing_profiles db))"
proof -
  have ok: "prefs_ok db" by (rule prefs_run_ok [OF assms])
  then show ?thesis using active_alone [OF ok] unfolding prefs_ok_def refs_ok_def by fast
qed

text \<open>
  The effective rules of a profile are exactly the active rules that are global or of that profile, each read from its row,
  in strictly increasing order of (profile rules first, more specific first, ID): the result is unique although the code uses
  an unstable sort.
\<close>

theorem EffectiveRules_exact:
  assumes "prefs_run pc db" and "EffectiveRules pc q db p = Inr rules"
  shows "sorted_wrt (<) (map effective_key rules) \<and>
    (\<forall>rule. rule \<in> set rules \<longleftrightarrow> (\<exists>row. map_of (routing_preferences db) (rule_ID rule) = Some row \<and>
      scanRule pc (rule_ID rule, row) = Inr rule \<and> rule_effective p rule))"
  using EffectiveRules_exact_parts [OF assms] by blast


end
