(* ===== verification/RoutingPrefsWitness.thy ===== *)
theory RoutingPrefsWitness
  imports RoutingPrefsFacts
begin

text \<open>
  The properties of the preference store at a concrete history: two contradicting rules for one slot, one of a profile, and a
  tool whose assumption changed.
\<close>

primrec print_json :: "json \<Rightarrow> string" where
  "print_json JNull = ''null''"
| "print_json (JBool b) = (if b then ''true'' else ''false'')"
| "print_json (JNum n) = n"
| "print_json (JStr s) = [CHR 0x22] @ s @ [CHR 0x22]"
| "print_json (JArr js) = ''['' @ concat (map (\<lambda>s. s @ '','') (map print_json js)) @ '']''"
| "print_json (JObj kvs) = ''{'' @ concat (map (\<lambda>(k, s). k @ '':'' @ s @ '','') (map (map_prod (\<lambda>k. k) print_json) kvs)) @ ''}''"

definition pref_json_codec :: codec where
  "pref_json_codec = \<lparr>sha256_hex = (\<lambda>s. s), decode_json = (\<lambda>s. None), marshal_json = print_json,
     marshal_tool = (\<lambda>t. None), marshal_tools = (\<lambda>ts. None), unmarshal_tools = (\<lambda>s. None)\<rparr>"

definition sample_target :: "string \<Rightarrow> string \<Rightarrow> Target" where
  "sample_target sid fp = \<lparr>tg_ServerID = sid, tg_ToolName = ''read'', tg_AssumptionFingerprint = fp\<rparr>"

definition sample_rule :: "string \<Rightarrow> string \<Rightarrow> RuleSpec" where
  "sample_rule profile sid = \<lparr>rl_ProfileID = profile, rl_Specificity = ''server'', rl_SubjectKey = ''files'', rl_Condition = [],
     rl_Preferred = [sample_target sid ''fp''], rl_Deprioritized = []\<rparr>"

definition sample_specs :: "RuleSpec list" where
  "sample_specs = [sample_rule [] ''a'', sample_rule [] ''b'', sample_rule ''work'' ''a'']"

definition sample_pc :: pref_codec where
  "sample_pc = \<lparr>pc_codec = pref_json_codec, unmarshal_spec = (\<lambda>s. find (\<lambda>spec. rule_payload pref_json_codec spec = s) sample_specs),
     unmarshal_description = (\<lambda>s. Some [])\<rparr>"

definition pref_calm :: pref_env where
  "pref_calm = \<lparr>pe_fails = (\<lambda>l. False), pe_marked = 5, pe_now = 6\<rparr>"

definition after_write :: "64 word \<Rightarrow> pref_op \<Rightarrow> prefs_db \<Rightarrow> prefs_db" where
  "after_write e op db = (case write_prefs sample_pc pref_calm e op db of Inr (db', _) \<Rightarrow> db' | Inl _ \<Rightarrow> db)"

definition prefs_one :: prefs_db where
  "prefs_one = after_write 0 (OpPutRule (sample_rule [] ''a'')) prefs_empty"

definition prefs_profile :: prefs_db where
  "prefs_profile = after_write 1 (OpPutProfile \<lparr>prof_ID = ''work'', prof_Name = ''Work'', prof_Description = [], prof_UpdatedAt = 0\<rparr>) prefs_one"

definition prefs_both :: prefs_db where
  "prefs_both = after_write 2 (OpPutRule (sample_rule ''work'' ''a'')) prefs_profile"

lemma after_write_run: "prefs_run sample_pc db \<Longrightarrow> prefs_run sample_pc (after_write e op db)"
  by (auto simp: after_write_def split: sum.split intro: prefs_run.wrote)

lemma sample_runs: "prefs_run sample_pc prefs_one" "prefs_run sample_pc prefs_profile" "prefs_run sample_pc prefs_both"
  unfolding prefs_one_def prefs_profile_def prefs_both_def by (intro after_write_run prefs_run.start)+

theorem no_lost_update_witness:
  "stored_revision prefs_profile = Some 2 \<and>
   (case write_prefs sample_pc pref_calm 0 (OpPutRule (sample_rule [] ''b'')) prefs_profile of Inl _ \<Rightarrow> True | Inr (db2, r2) \<Rightarrow> db2 = prefs_profile \<and> \<not> wr_Changed r2) \<and>
   isl (write_prefs sample_pc pref_calm 0 (OpPutRule (sample_rule [] ''b'')) prefs_profile)"
proof -
  let ?w = "write_prefs sample_pc pref_calm 0 (OpPutRule (sample_rule [] ''a'')) prefs_empty"
  let ?p = "OpPutProfile \<lparr>prof_ID = ''work'', prof_Name = ''Work'', prof_Description = [], prof_UpdatedAt = 0\<rparr>"
  let ?w2 = "write_prefs sample_pc pref_calm 1 ?p prefs_one"
  have "\<not> isl ?w" and c: "wr_Changed (snd (projr ?w))" and db: "fst (projr ?w) = prefs_one" by code_simp+
  then have w: "?w = Inr (prefs_one, snd (projr ?w))" by (metis not_isl_Inr2 prod.collapse)
  have "\<not> isl ?w2" and c2: "wr_Changed (snd (projr ?w2))" and "fst (projr ?w2) = prefs_profile" by code_simp+
  then have "?w2 = Inr (prefs_profile, snd (projr ?w2))" by (metis not_isl_Inr2 prod.collapse)
  from later_prefs.wrote [OF later_prefs.now this] c2 have l: "later_prefs sample_pc prefs_one 1 prefs_profile" by simp
  have "isl (write_prefs sample_pc pref_calm 0 (OpPutRule (sample_rule [] ''b'')) prefs_profile)" by code_simp
  with no_lost_update [OF w c l, of pref_calm "OpPutRule (sample_rule [] ''b'')"] show ?thesis by simp
qed

theorem tracker_store_reopens_revision_witness:
  "\<exists>sq. stored_revision (prefs_one\<lparr>pd_state := sq\<rparr>) = Some 0 \<and>
     (\<exists>db3 r3. DeleteRule (\<lambda>l. False) 0 (fst (hd (routing_preferences prefs_one))) (prefs_one\<lparr>pd_state := sq\<rparr>) = Inr (db3, r3) \<and> wr_Changed r3 \<and>
        routing_preferences db3 = [])"
proof -
  let ?w = "write_prefs sample_pc pref_calm 0 (OpPutRule (sample_rule [] ''a'')) prefs_empty"
  let ?s = "projr (SQLite_Load (row_of prefs_empty))"
  let ?st = "SQLite_Store (row_of prefs_one) (?s\<lparr>rs_RoutingRevision := rs_RoutingRevision ?s + 1\<rparr>)"
  let ?i = "fst (hd (routing_preferences prefs_one))"
  have "\<not> isl ?w" and c: "wr_Changed (snd (projr ?w))" and db: "fst (projr ?w) = prefs_one" by code_simp+
  then have w: "?w = Inr (prefs_one, snd (projr ?w))" by (metis not_isl_Inr2 prod.collapse)
  have "\<not> isl (SQLite_Load (row_of prefs_empty))" by code_simp
  then have L: "SQLite_Load (row_of prefs_empty) = Inr ?s" by (rule not_isl_Inr2)
  have "snd ?st = None" by code_simp
  then have st: "?st = (fst ?st, None)" by (metis prod.collapse)
  have i: "map_of (routing_preferences prefs_one) (TrimSpace ?i) \<noteq> None" "TrimSpace ?i \<noteq> []"
    "alist_del (TrimSpace ?i) (routing_preferences prefs_one) = []" by code_simp+
  show ?thesis using tracker_store_reopens_revision [OF L w c st i(1,2)] unfolding i(3) by blast
qed

definition first_rule :: "string \<times> preference_row" where
  "first_rule = hd (routing_preferences prefs_both)"

theorem active_rule_alone_witness:
  "length (routing_preferences prefs_both) = 2 \<and>
   (\<nexists>j s. (j, s) \<in> set (routing_preferences prefs_both) \<and> scope_of s = scope_of (snd first_rule) \<and>
      pfr_target_key s = pfr_target_key (snd first_rule) \<and> j \<noteq> fst first_rule)"
proof
  show "length (routing_preferences prefs_both) = 2" by code_simp
  obtain i r where f: "first_rule = (i, r)" by (cases first_rule)
  have "first_rule \<in> set (routing_preferences prefs_both)" "pfr_state (snd first_rule) = ReviewActive" by code_simp+
  then have r: "(i, r) \<in> set (routing_preferences prefs_both)" "pfr_state r = ReviewActive" unfolding f snd_conv .
  note alone = bspec [OF active_rule_alone [OF sample_runs(3), THEN conjunct1] r(1), unfolded prod.case, THEN mp, OF r(2)]
  show "\<nexists>j s. (j, s) \<in> set (routing_preferences prefs_both) \<and> scope_of s = scope_of (snd first_rule) \<and>
      pfr_target_key s = pfr_target_key (snd first_rule) \<and> j \<noteq> fst first_rule"
    unfolding f fst_conv snd_conv using alone by blast
qed

theorem EffectiveRules_exact_witness:
  "\<exists>rules. EffectiveRules sample_pc (\<lambda>l. False) prefs_both ''work'' = Inr rules \<and> length rules = 2 \<and>
     sorted_wrt (<) (map effective_key rules)"
proof -
  let ?e = "EffectiveRules sample_pc (\<lambda>l. False) prefs_both ''work''"
  have "\<not> isl ?e" and len: "length (projr ?e) = 2" by code_simp+
  then have e: "?e = Inr (projr ?e)" by (rule_tac not_isl_Inr2)
  from EffectiveRules_exact [OF sample_runs(3) e] e len show ?thesis by blast
qed


end
