(* ===== verification/SelfUpdateVersion.thy ===== *)
theory SelfUpdateVersion
  imports RoutingState "HOL-Library.Product_Lexorder"
begin

text \<open>
  Versions of the self-updater (\<^verbatim>\<open>internal/selfupdate/version.go\<close>) and the retry delays of the services the
  manager keeps running (\<^verbatim>\<open>internal/lifecycle/state.go\<close>). Version numbers are 64-bit. The comparison is shown
  equal to the order of a key in a linearly ordered type.
\<close>

section \<open>Versions\<close>

record semVersion =
  sv_major :: "64 word"
  sv_minor :: "64 word"
  sv_patch :: "64 word"
  sv_pre :: "string list"

datatype version_error = EmptyPrerelease | NotThreeParts | EmptyComponent | InvalidComponent string

text \<open>\<^verbatim>\<open>value[:i]\<close> and \<^verbatim>\<open>value[i+1:]\<close> at the first occurrence \<open>i\<close> of a byte.\<close>

definition before_byte :: "char \<Rightarrow> string \<Rightarrow> string" where
  "before_byte c s = takeWhile (\<lambda>x. x \<noteq> c) s"

definition after_byte :: "char \<Rightarrow> string \<Rightarrow> string" where
  "after_byte c s = tl (dropWhile (\<lambda>x. x \<noteq> c) s)"

definition parse_component :: "string \<Rightarrow> (version_error, 64 word) result" where
  "parse_component part = (if part = [] then Inl EmptyComponent
     else case ParseUint part of None \<Rightarrow> Inl (InvalidComponent part) | Some n \<Rightarrow> Inr n)"

definition parse_pre :: "string \<Rightarrow> (version_error, string list) result" where
  "parse_pre value = (if CHR ''-'' \<notin> set value then Inr []
     else let preValue = after_byte CHR ''-'' value; pre = split_on CHR ''.'' preValue in
       if preValue = [] \<or> list_ex (\<lambda>i. i = []) pre then Inl EmptyPrerelease else Inr pre)"

definition parseVersion :: "string \<Rightarrow> (version_error, semVersion) result" where
  "parseVersion raw =
     (let value = before_byte CHR ''+'' (TrimPrefix (TrimSpace raw) ''v'') in
      rbind (parse_pre value) (\<lambda>pre.
      case split_on CHR ''.'' (before_byte CHR ''-'' value) of
        [a, b, c] \<Rightarrow>
          rbind (parse_component a) (\<lambda>major. rbind (parse_component b) (\<lambda>minor. rbind (parse_component c) (\<lambda>patch.
          Inr \<lparr>sv_major = major, sv_minor = minor, sv_patch = patch, sv_pre = pre\<rparr>)))
      | _ \<Rightarrow> Inl NotThreeParts))"

fun join :: "string \<Rightarrow> string list \<Rightarrow> string" where
  "join sep [] = []"
| "join sep [x] = x"
| "join sep (x # y # xs) = x @ sep @ join sep (y # xs)"

definition version_String :: "semVersion \<Rightarrow> string" where
  "version_String v = ''v'' @ FormatUint (sv_major v) @ ''.'' @ FormatUint (sv_minor v) @ ''.'' @ FormatUint (sv_patch v) @
     (if sv_pre v = [] then [] else ''-'' @ join ''.'' (sv_pre v))"

definition numericIdentifier :: "string \<Rightarrow> 64 word option" where
  "numericIdentifier value = (if value = [] \<or> list_ex (\<lambda>c. \<not> is_digit c) value then None else ParseUint value)"

text \<open>One round of the loop over the prerelease identifiers: 0 continues.\<close>

definition compare_identifiers :: "string \<Rightarrow> string \<Rightarrow> int" where
  "compare_identifiers a b = (case (numericIdentifier a, numericIdentifier b) of
     (Some m, Some n) \<Rightarrow> if m < n then -1 else if n < m then 1 else 0
   | (Some m, None) \<Rightarrow> -1
   | (None, Some n) \<Rightarrow> 1
   | (None, None) \<Rightarrow> if a < b then -1 else if b < a then 1 else 0)"

fun compare_pre :: "string list \<Rightarrow> string list \<Rightarrow> int" where
  "compare_pre (a # as) (b # bs) = (let c = compare_identifiers a b in if c = 0 then compare_pre as bs else c)"
| "compare_pre [] [] = 0"
| "compare_pre [] (b # bs) = -1"
| "compare_pre (a # as) [] = 1"

fun compare_numbers :: "(64 word \<times> 64 word) list \<Rightarrow> int" where
  "compare_numbers [] = 0"
| "compare_numbers ((a, b) # ps) = (if a < b then -1 else if b < a then 1 else compare_numbers ps)"

definition compareVersions :: "semVersion \<Rightarrow> semVersion \<Rightarrow> int" where
  "compareVersions a b =
     (let c = compare_numbers [(sv_major a, sv_major b), (sv_minor a, sv_minor b), (sv_patch a, sv_patch b)] in
      if c \<noteq> 0 then c
      else if sv_pre a = [] \<and> sv_pre b = [] then 0
      else if sv_pre a = [] then 1
      else if sv_pre b = [] then -1
      else compare_pre (sv_pre a) (sv_pre b))"

section \<open>The order of versions\<close>

text \<open>
  A numeric identifier is below every other one; a version without prerelease is above its prereleases; a list of
  identifiers is above its prefixes. This is the lexicographic order of the following key.
\<close>

definition identifier_key :: "string \<Rightarrow> nat \<times> nat \<times> string" where
  "identifier_key s = (case numericIdentifier s of Some n \<Rightarrow> (0, unat n, []) | None \<Rightarrow> (1, 0, s))"

definition version_key :: "semVersion \<Rightarrow> nat \<times> nat \<times> nat \<times> nat \<times> (nat \<times> nat \<times> string) list" where
  "version_key v = (unat (sv_major v), unat (sv_minor v), unat (sv_patch v), if sv_pre v = [] then 1 else 0,
     map identifier_key (sv_pre v))"

definition sign_of :: "'a::linorder \<Rightarrow> 'a \<Rightarrow> int" where
  "sign_of x y = (if x < y then -1 else if y < x then 1 else 0)"

lemma compare_identifiers_sign: "compare_identifiers a b = sign_of (identifier_key a) (identifier_key b)"
  by (auto simp: compare_identifiers_def identifier_key_def sign_of_def less_prod_def word_less_nat_alt split: option.split)

lemma compare_pre_sign: "compare_pre as bs = sign_of (map identifier_key as) (map identifier_key bs)"
  by (induction as bs rule: compare_pre.induct)
    (auto simp: sign_of_def Let_def compare_identifiers_sign Cons_less_Cons)

lemma compare_numbers_zero: "compare_numbers ps = 0 \<longleftrightarrow> (\<forall>(a, b) \<in> set ps. a = b)"
  by (induction ps rule: compare_numbers.induct) auto

lemma sign_of_prod: "sign_of (a, x) (b, y) = (if sign_of a b = 0 then sign_of x y else sign_of a b)"
  by (auto simp: sign_of_def less_prod_def)

lemma compare_sign: "compareVersions a b = sign_of (version_key a) (version_key b)"
proof -
  have w: "sign_of (unat m) (unat n) = (if m < n then -1 else if n < m then 1 else 0)" for m n :: "64 word"
    by (simp add: sign_of_def word_less_nat_alt)
  show ?thesis
    unfolding compareVersions_def version_key_def sign_of_prod w compare_numbers.simps Let_def
    by (auto simp: compare_pre_sign sign_of_def)
qed

text \<open>
  The version comparison the updater decides by is the lexicographic order of a key, hence a linear preorder: comparing the
  other way round negates the answer, and two versions compare equal exactly when their keys are equal.
\<close>

theorem compareVersions_order:
  "compareVersions a b = (if version_key a < version_key b then -1 else if version_key b < version_key a then 1 else 0) \<and>
   compareVersions b a = - compareVersions a b \<and>
   (compareVersions a b = 0 \<longleftrightarrow> version_key a = version_key b)"
  unfolding compare_sign sign_of_def by auto

section \<open>Printing and parsing\<close>

definition identifier_ok :: "string \<Rightarrow> bool" where
  "identifier_ok s \<longleftrightarrow> s \<noteq> [] \<and> list_all (\<lambda>c. is_digit c \<or> is_lower c \<or> is_upper c \<or> c = CHR ''-'') s"

lemma split_join:
  "xs \<noteq> [] \<Longrightarrow> \<forall>x \<in> set xs. d \<notin> set x \<Longrightarrow> split_on d (join [d] xs) = xs"
  by (induction "[d]" xs rule: join.induct) (auto simp: split_on_append_sep)

definition version_char :: "char \<Rightarrow> bool" where
  "version_char c \<longleftrightarrow> is_digit c \<or> is_lower c \<or> is_upper c \<or> c = CHR ''-'' \<or> c = CHR ''.''"

lemma version_char_space: "list_all version_char s \<Longrightarrow> TrimSpace s = s"
proof (rule TrimSpace_no_space)
  assume s: "list_all version_char s"
  have "list_all (\<lambda>c. \<not> version_char c) (concat go_spaces)" by code_simp
  with s show "set s \<inter> set (concat go_spaces) = {}" by (auto simp: list_all_iff)
qed

lemma digit_char_digit: "0 \<le> d \<Longrightarrow> d < 10 \<Longrightarrow> is_digit (digit_char d)"
proof -
  assume "0 \<le> d" "d < 10"
  then have "nat d < 10" by simp
  moreover have "list_all is_digit ''0123456789''" by code_simp
  ultimately show ?thesis unfolding digit_char_def list_all_length by simp
qed

lemma format_int_digits: "0 \<le> n \<Longrightarrow> list_all is_digit (format_int n)"
proof (induction n rule: format_int.induct)
  case (1 n)
  then show ?case by (subst format_int.simps) (auto simp: digit_char_digit)
qed

lemma FormatUint_digits: "list_all is_digit (FormatUint w)"
  unfolding FormatUint_def by (rule format_int_digits) simp

lemma FormatUint_nonempty [simp]: "FormatUint w \<noteq> []"
  by (simp add: FormatUint_def)

lemma not_digits: "\<not> is_digit CHR ''.''" "\<not> is_digit CHR ''-''" "\<not> is_digit CHR ''+''"
  by code_simp+

lemma FormatUint_free [simp]: "CHR ''.'' \<notin> set (FormatUint w)" "CHR ''-'' \<notin> set (FormatUint w)" "CHR ''+'' \<notin> set (FormatUint w)"
  using FormatUint_digits [of w] not_digits by (auto simp: list_all_iff)

lemma identifier_free: "identifier_ok s \<Longrightarrow> CHR ''.'' \<notin> set s \<and> CHR ''+'' \<notin> set s \<and> s \<noteq> [] \<and> list_all version_char s"
proof -
  assume s: "identifier_ok s"
  have "\<not> (is_digit c \<or> is_lower c \<or> is_upper c \<or> c = CHR ''-'')" if "c = CHR ''.'' \<or> c = CHR ''+''" for c
    using that by (elim disjE; hypsubst; code_simp)
  with s show ?thesis by (auto simp: identifier_ok_def list_all_iff version_char_def)
qed

lemma join_chars: "list_all P sep \<Longrightarrow> \<forall>x \<in> set xs. list_all P x \<Longrightarrow> list_all P (join sep xs)"
  by (induction sep xs rule: join.induct) auto

lemma join_nonempty: "xs \<noteq> [] \<Longrightarrow> \<forall>x \<in> set xs. x \<noteq> [] \<Longrightarrow> join sep xs \<noteq> []"
  by (induction sep xs rule: join.induct) auto

lemma bytes_at:
  "c \<notin> set s \<Longrightarrow> before_byte c (s @ c # t) = s" "c \<notin> set s \<Longrightarrow> after_byte c (s @ c # t) = t"
  by (induction s) (auto simp: before_byte_def after_byte_def)

definition release_numbers :: "semVersion \<Rightarrow> string" where
  "release_numbers v = FormatUint (sv_major v) @ ''.'' @ FormatUint (sv_minor v) @ ''.'' @ FormatUint (sv_patch v)"

definition pre_suffix :: "string list \<Rightarrow> string" where
  "pre_suffix pre = (if pre = [] then [] else ''-'' @ join ''.'' pre)"

lemma release_numbers_facts:
  "CHR ''-'' \<notin> set (release_numbers v)" "CHR ''+'' \<notin> set (release_numbers v)" "list_all version_char (release_numbers v)"
  "split_on CHR ''.'' (release_numbers v) = [FormatUint (sv_major v), FormatUint (sv_minor v), FormatUint (sv_patch v)]"
  using FormatUint_digits [of "sv_major v"] FormatUint_digits [of "sv_minor v"] FormatUint_digits [of "sv_patch v"]
  by (auto simp: release_numbers_def split_on_append_sep version_char_def list_all_iff)

lemma pre_suffix_facts:
  assumes "\<forall>i \<in> set pre. identifier_ok i"
  shows "CHR ''+'' \<notin> set (pre_suffix pre)" "list_all version_char (pre_suffix pre)"
proof -
  have "list_all (\<lambda>c. c \<noteq> CHR ''+'') (join ''.'' pre)" "list_all version_char (join ''.'' pre)"
    by (rule join_chars; use assms identifier_free in \<open>auto simp: version_char_def list_all_iff\<close>)+
  then show "CHR ''+'' \<notin> set (pre_suffix pre)" "list_all version_char (pre_suffix pre)"
    by (auto simp: pre_suffix_def version_char_def list_all_iff)
qed

text \<open>
  Printing a version and parsing it gives the version back, for all 64-bit numbers and any list of prerelease
  identifiers made of letters, digits and hyphens: what the updater reports it would parse to the same version.
\<close>

theorem parseVersion_String:
  assumes "\<forall>i \<in> set (sv_pre v). identifier_ok i"
  shows "parseVersion (version_String v) = Inr v"
proof -
  let ?body = "release_numbers v @ pre_suffix (sv_pre v)"
  note r = release_numbers_facts [of v] and p = pre_suffix_facts [OF assms]
  have "list_all version_char (''v'' @ ?body)" using r(3) p(2) by (simp add: version_char_def is_lower_def byte_def)
  then have "TrimSpace (''v'' @ ?body) = ''v'' @ ?body" by (rule version_char_space)
  moreover have str: "version_String v = ''v'' @ ?body" by (simp add: version_String_def release_numbers_def pre_suffix_def)
  moreover have "takeWhile (\<lambda>x. x \<noteq> CHR ''+'') ?body = ?body" using r(2) p(1) by (auto simp: takeWhile_eq_all_conv)
  ultimately have body: "before_byte CHR ''+'' (TrimPrefix (TrimSpace (version_String v)) ''v'') = ?body"
    by (simp only: before_byte_def TrimPrefix_append)
  show ?thesis
  proof (cases "sv_pre v = []")
    case True
    have "before_byte CHR ''-'' (release_numbers v) = release_numbers v"
      using r(1) by (auto simp: before_byte_def takeWhile_eq_all_conv)
    then show ?thesis using True r unfolding parseVersion_def body Let_def
      by (simp add: pre_suffix_def parse_pre_def rbind_Inr parse_component_def parse_format_word)
  next
    case False
    have ids: "\<forall>i \<in> set (sv_pre v). CHR ''.'' \<notin> set i \<and> i \<noteq> []" using assms identifier_free by blast
    have dash: "before_byte CHR ''-'' ?body = release_numbers v" "after_byte CHR ''-'' ?body = join ''.'' (sv_pre v)" "CHR ''-'' \<in> set ?body"
      using bytes_at [OF r(1)] False by (simp_all add: pre_suffix_def)
    have "parse_pre ?body = Inr (sv_pre v)"
      unfolding parse_pre_def dash Let_def
      using dash(3) split_join [OF False, of "CHR ''.''"] join_nonempty [OF False] ids by (auto simp: list_ex_iff)
    then show ?thesis unfolding parseVersion_def body Let_def dash r(4)
      by (simp add: rbind_Inr parse_component_def parse_format_word)
  qed
qed

definition sample_version :: semVersion where
  "sample_version = \<lparr>sv_major = 18446744073709551615, sv_minor = 0, sv_patch = 7, sv_pre = [''rc-1'', ''007'', ''x'']\<rparr>"

theorem parseVersion_String_witness:
  "version_String sample_version = ''v18446744073709551615.0.7-rc-1.007.x'' \<and>
   parseVersion ''v18446744073709551615.0.7-rc-1.007.x'' = Inr sample_version"
proof -
  have s: "version_String sample_version = ''v18446744073709551615.0.7-rc-1.007.x''" by code_simp
  have "\<forall>i \<in> set (sv_pre sample_version). identifier_ok i" by code_simp
  from parseVersion_String [OF this] s show ?thesis by simp
qed

section \<open>Retry delays\<close>

text \<open>
  \<^verbatim>\<open>Backoff\<close>: the attempt counter; the random draw is an argument, a value that \<^verbatim>\<open>Int63n(n)\<close> can return.
  Delays are nanoseconds.
\<close>

definition backoff_seq :: "int list" where
  "backoff_seq = [1000000000, 2000000000, 5000000000, 10000000000, 30000000000, 60000000000]"

definition Next :: "(int \<Rightarrow> int) \<Rightarrow> nat \<Rightarrow> nat \<times> int" where
  "Next draw n =
     (let i = (if n \<ge> length backoff_seq then length backoff_seq - 1 else n);
          n' = (if n \<ge> length backoff_seq then n else Suc n);
          base = backoff_seq ! i; low = base div 2
      in (n', low + draw (base - low + 1)))"

definition Backoff_Reset :: "nat \<Rightarrow> nat" where
  "Backoff_Reset n = 0"

fun delays :: "(int \<Rightarrow> int) list \<Rightarrow> nat \<Rightarrow> int list" where
  "delays [] n = []"
| "delays (d # ds) n = (case Next d n of (n', t) \<Rightarrow> t # delays ds n')"

lemma backoff_nth: "i < 6 \<Longrightarrow> backoff_seq ! i \<in> {1000000000, 2000000000, 5000000000, 10000000000, 30000000000, 60000000000}"
proof -
  assume "i < 6"
  then have "backoff_seq ! i \<in> set backoff_seq" by (intro nth_mem) (simp add: backoff_seq_def)
  then show ?thesis by (simp add: backoff_seq_def)
qed

text \<open>
  Retries are bounded and never immediate: the \<open>i\<close>-th delay after a reset lies between half and the whole of the
  \<open>i\<close>-th entry of the schedule (the last entry once the schedule is used up), whatever the random draws; so every delay
  is at least half a second and at most a minute.
\<close>

theorem backoff_delays:
  assumes "\<forall>d \<in> set draws. \<forall>m > 0. 0 \<le> d m \<and> d m < m" and "i < length draws"
  shows "let base = backoff_seq ! min i 5; t = delays draws (Backoff_Reset n) ! i in
    base div 2 \<le> t \<and> t \<le> base \<and> 500000000 \<le> t \<and> t \<le> 60000000000"
proof -
  have gen: "let base = backoff_seq ! min (k + i) 5; t = delays draws (min k 6) ! i in base div 2 \<le> t \<and> t \<le> base" for k
    using assms
  proof (induction draws arbitrary: k i)
    case (Cons d ds)
    have d: "0 \<le> d m \<and> d m < m" if "m > 0" for m using Cons.prems(1) that by simp
    have n: "Next d (min k 6) = (min (Suc k) 6, backoff_seq ! min k 5 div 2 + d (backoff_seq ! min k 5 - backoff_seq ! min k 5 div 2 + 1))"
      by (auto simp: Next_def Let_def backoff_seq_def min_def)
    show ?case
    proof (cases i)
      case 0
      have "min k 5 < 6" by simp
      then have "0 < backoff_seq ! min k 5" using backoff_nth [of "min k 5"] by auto
      then have "0 < backoff_seq ! min k 5 - backoff_seq ! min k 5 div 2 + 1" by simp
      from d [OF this] show ?thesis by (simp add: n 0 Let_def)
    next
      case (Suc j)
      have "let base = backoff_seq ! min (Suc k + j) 5; t = delays ds (min (Suc k) 6) ! j in base div 2 \<le> t \<and> t \<le> base"
        using Cons.prems Suc by (intro Cons.IH) auto
      then show ?thesis by (simp add: n Suc)
    qed
  qed simp
  have "min i 5 < 6" by simp
  then show ?thesis using gen [of 0] backoff_nth [of "min i 5"] by (auto simp: Let_def Backoff_Reset_def)
qed

theorem backoff_delays_witness:
  "delays (replicate 7 (\<lambda>m. m - 1)) (Backoff_Reset 4) ! 6 = 60000000000 \<and>
   delays (replicate 7 (\<lambda>m. m - 1)) (Backoff_Reset 4) ! 6 \<ge> backoff_seq ! 5 div 2"
  using backoff_delays [of "replicate 7 (\<lambda>m. m - 1)" 6 4]
  by (simp add: Let_def delays.simps Next_def Backoff_Reset_def backoff_seq_def eval_nat_numeral)

end
