(* ===== verification/EmbeddingCache.thy ===== *)
theory EmbeddingCache
  imports ToolContract RoutingState Complex_Main
begin

text \<open>
  Embedding vectors, provider identities and the cache of query embeddings: \<^verbatim>\<open>internal/embedding\<close>
  (provider.go, cache.go).

  A \<^verbatim>\<open>float32\<close> is its 32 bits; \<open>f32_value\<close> is the real number they denote. A \<^verbatim>\<open>float64\<close> is a real number, and
  the result of every float64 operation goes through the rounding function \<open>fl64\<close>, a parameter: no overflow to infinity
  and no fused operations are modelled. The cache is the doubly indexed structure of the code, a map from keys to list
  elements and a list of elements that own their entries, over an explicit heap of elements; it is shown to implement a
  bounded most-recently-used list.
\<close>

section \<open>Vectors\<close>

type_synonym float32 = "32 word"

definition f32_exponent :: "float32 \<Rightarrow> nat" where
  "f32_exponent w = unat w div 8388608 mod 256"

definition f32_fraction :: "float32 \<Rightarrow> nat" where
  "f32_fraction w = unat w mod 8388608"

text \<open>All exponent bits set: an infinity or a NaN.\<close>

definition f32_finite :: "float32 \<Rightarrow> bool" where
  "f32_finite w \<longleftrightarrow> f32_exponent w \<noteq> 255"

definition f32_value :: "float32 \<Rightarrow> real" where
  "f32_value w = (if unat w div 2147483648 = 1 then -1 else 1) *
     (if f32_exponent w = 0 then real (f32_fraction w) * 2 / 2 ^ 150
      else real (8388608 + f32_fraction w) * 2 ^ f32_exponent w / 2 ^ 150)"

record float_lib =
  fl64 :: "real \<Rightarrow> real"
  fl32 :: "real \<Rightarrow> float32"
  ln64 :: "real \<Rightarrow> real"
  sqrt64 :: "real \<Rightarrow> real"

datatype embed_error =
    VectorEmpty
  | ErrDimensionMismatch nat int
  | ComponentNotFinite nat
  | ErrZeroVector
  | IdentityMissing string
  | IdentityDimensions
  | CapacityNegative
  | EmbedFailed string
  | UnexpectedVectorCount nat

fun first_not_finite :: "nat \<Rightarrow> float32 list \<Rightarrow> nat option" where
  "first_not_finite i [] = None"
| "first_not_finite i (v # vs) = (if f32_finite v then first_not_finite (Suc i) vs else Some i)"

definition squared_magnitude :: "float_lib \<Rightarrow> float32 list \<Rightarrow> real" where
  "squared_magnitude fl vs = foldl (\<lambda>m v. fl64 fl (m + fl64 fl (f32_value v * f32_value v))) 0 vs"

definition ValidateVector :: "float_lib \<Rightarrow> float32 list \<Rightarrow> int \<Rightarrow> embed_error option" where
  "ValidateVector fl vector expectedDimensions =
     (if vector = [] then Some VectorEmpty
      else if 0 < expectedDimensions \<and> int (length vector) \<noteq> expectedDimensions
      then Some (ErrDimensionMismatch (length vector) expectedDimensions)
      else case first_not_finite 0 vector of Some i \<Rightarrow> Some (ComponentNotFinite i)
      | None \<Rightarrow> if squared_magnitude fl vector = 0 then Some ErrZeroVector else None)"

lemma first_not_finite_None: "first_not_finite i vs = None \<longleftrightarrow> list_all f32_finite vs"
  by (induction i vs rule: first_not_finite.induct) auto

lemma ValidateVector_None:
  "ValidateVector fl vs n = None \<longleftrightarrow> vs \<noteq> [] \<and> (0 < n \<longrightarrow> int (length vs) = n) \<and> list_all f32_finite vs \<and> squared_magnitude fl vs \<noteq> 0"
  using first_not_finite_None [of 0 vs] by (auto simp: ValidateVector_def split: option.splits)

section \<open>Identities\<close>

record Identity =
  id_Provider :: string
  id_BaseURL :: string
  id_Model :: string
  id_ModelSHA256 :: string
  id_Dimensions :: "int option"
  id_Pooling :: string
  id_Runtime :: string
  id_Protocol :: string

definition omit_empty :: "string \<Rightarrow> string \<Rightarrow> (string \<times> json) list" where
  "omit_empty k v = (if v = [] then [] else [(k, JStr v)])"

definition print_signed :: "int \<Rightarrow> string" where
  "print_signed n = (if n < 0 then CHR ''-'' # format_int (- n) else format_int n)"

definition identity_json :: "Identity \<Rightarrow> json" where
  "identity_json i = JObj ([(''provider'', JStr (id_Provider i))] @ omit_empty ''base_url'' (id_BaseURL i) @
     [(''model'', JStr (id_Model i))] @ omit_empty ''model_sha256'' (id_ModelSHA256 i) @
     (case id_Dimensions i of None \<Rightarrow> [] | Some n \<Rightarrow> [(''dimensions'', JNum (print_signed n))]) @
     omit_empty ''pooling'' (id_Pooling i) @ omit_empty ''runtime'' (id_Runtime i) @ [(''protocol'', JStr (id_Protocol i))])"

definition Identity_Fingerprint :: "codec \<Rightarrow> Identity \<Rightarrow> string" where
  "Identity_Fingerprint cd i = ''sha256:'' @ sha256_hex cd (marshal_json cd (identity_json i))"

definition Identity_Validate :: "Identity \<Rightarrow> embed_error option" where
  "Identity_Validate i = first_err [
     check (blank (id_Provider i)) (IdentityMissing ''provider''),
     check (blank (id_Model i)) (IdentityMissing ''model''),
     check (id_Protocol i = []) (IdentityMissing ''protocol''),
     check (case id_Dimensions i of Some n \<Rightarrow> n \<le> 0 | None \<Rightarrow> False) IdentityDimensions]"

definition expected_dimensions :: "Identity \<Rightarrow> int" where
  "expected_dimensions i = (case id_Dimensions i of None \<Rightarrow> 0 | Some n \<Rightarrow> n)"

section \<open>The query cache\<close>

record cacheEntry =
  ce_key :: string
  ce_vector :: "float32 list"

text \<open>
  \<open>qc_entries\<close> is the map to list elements, \<open>qc_order\<close> the list from front to back, \<open>qc_heap\<close> the entry an element holds,
  \<open>qc_fresh\<close> the next unused element.
\<close>

record QueryCache =
  qc_capacity :: nat
  qc_entries :: "(string \<times> nat) list"
  qc_order :: "nat list"
  qc_heap :: "nat \<Rightarrow> cacheEntry"
  qc_fresh :: nat

definition NewQueryCache :: "int \<Rightarrow> (embed_error, QueryCache) result" where
  "NewQueryCache capacity = (if capacity < 0 then Inl CapacityNegative
     else Inr \<lparr>qc_capacity = nat capacity, qc_entries = [], qc_order = [], qc_heap = (\<lambda>_. \<lparr>ce_key = [], ce_vector = []\<rparr>), qc_fresh = 0\<rparr>)"

definition queryCacheKey :: "codec \<Rightarrow> Identity \<Rightarrow> string \<Rightarrow> string" where
  "queryCacheKey cd i query = Identity_Fingerprint cd i @ '':'' @ sha256_hex cd query"

definition MoveToFront :: "nat \<Rightarrow> nat list \<Rightarrow> nat list" where
  "MoveToFront e l = e # filter (\<lambda>x. x \<noteq> e) l"

text \<open>\<^verbatim>\<open>Get\<close> and \<^verbatim>\<open>Put\<close> after the key is computed; the cache of capacity 0 keeps nothing.\<close>

definition cache_get :: "string \<Rightarrow> QueryCache \<Rightarrow> QueryCache \<times> float32 list option" where
  "cache_get key c = (if qc_capacity c = 0 then (c, None) else case map_of (qc_entries c) key of
     None \<Rightarrow> (c, None)
   | Some e \<Rightarrow> (c\<lparr>qc_order := MoveToFront e (qc_order c)\<rparr>, Some (ce_vector (qc_heap c e))))"

definition cache_evict :: "QueryCache \<Rightarrow> QueryCache" where
  "cache_evict c = (if length (qc_order c) \<le> qc_capacity c \<or> qc_order c = [] then c
     else c\<lparr>qc_order := butlast (qc_order c), qc_entries := alist_del (ce_key (qc_heap c (last (qc_order c)))) (qc_entries c)\<rparr>)"

definition cache_put :: "string \<Rightarrow> float32 list \<Rightarrow> QueryCache \<Rightarrow> QueryCache" where
  "cache_put key vector c = (if qc_capacity c = 0 then c else case map_of (qc_entries c) key of
     Some e \<Rightarrow> c\<lparr>qc_heap := (qc_heap c)(e := (qc_heap c e)\<lparr>ce_vector := vector\<rparr>), qc_order := MoveToFront e (qc_order c)\<rparr>
   | None \<Rightarrow> let e = qc_fresh c in
       cache_evict (c\<lparr>qc_heap := (qc_heap c)(e := \<lparr>ce_key = key, ce_vector = vector\<rparr>), qc_order := e # qc_order c,
         qc_entries := alist_put key e (qc_entries c), qc_fresh := Suc e\<rparr>))"

definition QueryCache_Get :: "codec \<Rightarrow> Identity \<Rightarrow> string \<Rightarrow> QueryCache \<Rightarrow> QueryCache \<times> float32 list option" where
  "QueryCache_Get cd i query c = cache_get (queryCacheKey cd i query) c"

definition QueryCache_Put :: "codec \<Rightarrow> Identity \<Rightarrow> string \<Rightarrow> float32 list \<Rightarrow> QueryCache \<Rightarrow> QueryCache" where
  "QueryCache_Put cd i query vector c = cache_put (queryCacheKey cd i query) vector c"

text \<open>\<open>ask\<close> is what the provider answers for the one query; the cache may be nil.\<close>

definition EmbedQuery :: "codec \<Rightarrow> float_lib \<Rightarrow> Identity \<Rightarrow> (string list \<Rightarrow> (string, float32 list list) result) \<Rightarrow>
    QueryCache option \<Rightarrow> string \<Rightarrow> QueryCache option \<times> (embed_error, float32 list) result" where
  "EmbedQuery cd fl i ask cache query =
     (let looked = (case cache of None \<Rightarrow> (None, None)
        | Some c \<Rightarrow> (case QueryCache_Get cd i query c of (c', r) \<Rightarrow> (Some c', r))) in
      case looked of
        (cache', Some vector) \<Rightarrow> (cache', Inr vector)
      | (cache', None) \<Rightarrow> (case ask [query] of
          Inl e \<Rightarrow> (cache', Inl (EmbedFailed e))
        | Inr [vector] \<Rightarrow> (case ValidateVector fl vector (expected_dimensions i) of
            Some e \<Rightarrow> (cache', Inl e)
          | None \<Rightarrow> (map_option (QueryCache_Put cd i query vector) cache', Inr vector))
        | Inr vs \<Rightarrow> (cache', Inl (UnexpectedVectorCount (length vs)))))"

section \<open>Refinement of a bounded most-recently-used list\<close>

definition lru_get :: "'k \<Rightarrow> ('k \<times> 'v) list \<Rightarrow> ('k \<times> 'v) list \<times> 'v option" where
  "lru_get k l = (case map_of l k of None \<Rightarrow> (l, None) | Some v \<Rightarrow> ((k, v) # filter (\<lambda>p. fst p \<noteq> k) l, Some v))"

definition lru_put :: "nat \<Rightarrow> 'k \<Rightarrow> 'v \<Rightarrow> ('k \<times> 'v) list \<Rightarrow> ('k \<times> 'v) list" where
  "lru_put n k v l = take n ((k, v) # filter (\<lambda>p. fst p \<noteq> k) l)"

definition cache_abs :: "QueryCache \<Rightarrow> (string \<times> float32 list) list" where
  "cache_abs c = map (\<lambda>e. (ce_key (qc_heap c e), ce_vector (qc_heap c e))) (qc_order c)"

definition cache_ok :: "QueryCache \<Rightarrow> bool" where
  "cache_ok c \<longleftrightarrow> length (qc_order c) \<le> qc_capacity c \<and> distinct (qc_order c) \<and> (\<forall>e \<in> set (qc_order c). e < qc_fresh c) \<and>
     (\<forall>k e. map_of (qc_entries c) k = Some e \<longleftrightarrow> e \<in> set (qc_order c) \<and> ce_key (qc_heap c e) = k)"

lemma cache_keys: "cache_ok c \<Longrightarrow> inj_on (\<lambda>e. ce_key (qc_heap c e)) (set (qc_order c))"
  unfolding cache_ok_def inj_on_def by (metis option.inject)

lemma map_of_keyed:
  "inj_on f (set l) \<Longrightarrow> e \<in> set l \<Longrightarrow> map_of (map (\<lambda>x. (f x, g x)) l) (f e) = Some (g e)"
  "\<forall>x \<in> set l. f x \<noteq> k \<Longrightarrow> map_of (map (\<lambda>x. (f x, g x)) l) k = None"
  by (induction l) (auto simp: inj_on_def)

lemma cache_entry:
  "cache_ok c \<Longrightarrow> map_of (qc_entries c) k = Some e \<longleftrightarrow> e \<in> set (qc_order c) \<and> ce_key (qc_heap c e) = k"
  by (simp add: cache_ok_def)

lemma abs_lookup:
  assumes "cache_ok c"
  shows "map_of (cache_abs c) k = map_option (\<lambda>e. ce_vector (qc_heap c e)) (map_of (qc_entries c) k)"
proof (cases "map_of (qc_entries c) k")
  case None
  then have "\<forall>x \<in> set (qc_order c). ce_key (qc_heap c x) \<noteq> k" using cache_entry [OF assms, of k] by auto
  with None show ?thesis unfolding cache_abs_def by (simp add: map_of_keyed(2))
next
  case (Some e)
  then have "e \<in> set (qc_order c)" "k = ce_key (qc_heap c e)" using cache_entry [OF assms, of k] by auto
  with Some show ?thesis unfolding cache_abs_def using map_of_keyed(1) [OF cache_keys [OF assms]] by simp
qed

lemma filter_key:
  "\<forall>x \<in> set l. f x = f e \<longrightarrow> x = e \<Longrightarrow>
    map (\<lambda>x. (f x, g x)) (filter (\<lambda>x. x \<noteq> e) l) = filter (\<lambda>p. fst p \<noteq> f e) (map (\<lambda>x. (f x, g x)) l)"
  by (induction l) auto

lemma MoveToFront_set: "e \<in> set l \<Longrightarrow> set (MoveToFront e l) = set l"
  by (auto simp: MoveToFront_def)

lemma MoveToFront_distinct: "distinct l \<Longrightarrow> distinct (MoveToFront e l)"
  by (simp add: MoveToFront_def)

lemma MoveToFront_length: "distinct l \<Longrightarrow> e \<in> set l \<Longrightarrow> length (MoveToFront e l) = length l"
  by (metis MoveToFront_distinct MoveToFront_set distinct_card)

lemma move_abs:
  assumes "cache_ok c" "map_of (qc_entries c) k = Some e"
  shows "map (\<lambda>x. (ce_key (qc_heap c x), g x)) (MoveToFront e (qc_order c)) =
    (k, g e) # filter (\<lambda>p. fst p \<noteq> k) (map (\<lambda>x. (ce_key (qc_heap c x), g x)) (qc_order c))"
proof -
  have e: "e \<in> set (qc_order c)" "ce_key (qc_heap c e) = k" using assms by (auto simp: cache_ok_def)
  have "\<forall>x \<in> set (qc_order c). ce_key (qc_heap c x) = ce_key (qc_heap c e) \<longrightarrow> x = e"
    using cache_keys [OF assms(1)] e(1) by (auto simp: inj_on_def)
  from filter_key [OF this, of g] e(2) show ?thesis by (simp add: MoveToFront_def)
qed

lemma get_refines:
  assumes ok: "cache_ok c"
  shows "lru_get k (cache_abs c) = (cache_abs (fst (cache_get k c)), snd (cache_get k c)) \<and>
    cache_ok (fst (cache_get k c)) \<and> qc_capacity (fst (cache_get k c)) = qc_capacity c"
proof (cases "map_of (qc_entries c) k")
  case None
  then show ?thesis using ok abs_lookup [OF ok, of k] by (simp add: lru_get_def cache_get_def)
next
  case (Some e)
  have e: "e \<in> set (qc_order c)" using ok Some by (auto simp: cache_ok_def)
  have cap: "qc_capacity c \<noteq> 0" using ok e length_pos_if_in_set [OF e] unfolding cache_ok_def by linarith
  have "cache_ok (c\<lparr>qc_order := MoveToFront e (qc_order c)\<rparr>)"
    using ok e unfolding cache_ok_def by (simp add: MoveToFront_set MoveToFront_distinct MoveToFront_length)
  then show ?thesis using abs_lookup [OF ok, of k] Some cap move_abs [OF ok Some, of "\<lambda>e. ce_vector (qc_heap c e)"]
    by (simp add: lru_get_def cache_get_def cache_abs_def)
qed

lemma evict_abs:
  assumes "distinct (qc_order c)" "length (qc_order c) \<le> Suc (qc_capacity c)"
  shows "cache_abs (cache_evict c) = take (qc_capacity c) (cache_abs c)" "qc_capacity (cache_evict c) = qc_capacity c"
  using assms by (auto simp: cache_evict_def cache_abs_def butlast_conv_take take_map le_Suc_eq)

lemma evict_ok:
  assumes "distinct (qc_order c)" "length (qc_order c) \<le> Suc (qc_capacity c)" "\<forall>e \<in> set (qc_order c). e < qc_fresh c"
    and map: "\<forall>k e. map_of (qc_entries c) k = Some e \<longleftrightarrow> e \<in> set (qc_order c) \<and> ce_key (qc_heap c e) = k"
  shows "cache_ok (cache_evict c)"
proof (cases "length (qc_order c) \<le> qc_capacity c \<or> qc_order c = []")
  case True
  then show ?thesis using assms by (auto simp: cache_evict_def cache_ok_def)
next
  case False
  then have ne: "qc_order c \<noteq> []" by simp
  obtain xs x where order: "qc_order c = xs @ [x]" using ne by (metis append_butlast_last_id)
  have "e = x" if "map_of (qc_entries c) (ce_key (qc_heap c x)) = Some e" for e
    using map that order by (metis in_set_conv_decomp option.inject)
  then show ?thesis using False assms(1-3) map
    by (auto simp: cache_evict_def cache_ok_def order)
qed

lemma put_refines:
  assumes ok: "cache_ok c"
  shows "cache_abs (cache_put k v c) = lru_put (qc_capacity c) k v (cache_abs c) \<and>
    cache_ok (cache_put k v c) \<and> qc_capacity (cache_put k v c) = qc_capacity c"
proof (cases "qc_capacity c = 0")
  case True
  then show ?thesis using ok by (simp add: cache_put_def lru_put_def cache_ok_def cache_abs_def)
next
  case cap: False
  show ?thesis
  proof (cases "map_of (qc_entries c) k")
    case (Some e)
    let ?h = "(qc_heap c)(e := (qc_heap c e)\<lparr>ce_vector := v\<rparr>)"
    let ?c = "c\<lparr>qc_heap := ?h, qc_order := MoveToFront e (qc_order c)\<rparr>"
    have e: "e \<in> set (qc_order c)" using ok Some by (auto simp: cache_ok_def)
    have keys: "ce_key (?h x) = ce_key (qc_heap c x)" for x by simp
    have okc: "cache_ok ?c"
      using ok e unfolding cache_ok_def by (simp add: MoveToFront_set MoveToFront_distinct MoveToFront_length keys del: fun_upd_apply)
    have "cache_abs ?c = map (\<lambda>x. (ce_key (qc_heap c x), if x = e then v else ce_vector (qc_heap c x))) (MoveToFront e (qc_order c))"
      by (simp add: cache_abs_def)
    also have "\<dots> = (k, v) # filter (\<lambda>p. fst p \<noteq> k) (map (\<lambda>x. (ce_key (qc_heap c x), if x = e then v else ce_vector (qc_heap c x))) (qc_order c))"
      using move_abs [OF ok Some, of "\<lambda>x. if x = e then v else ce_vector (qc_heap c x)"] by simp
    also have "filter (\<lambda>p. fst p \<noteq> k) (map (\<lambda>x. (ce_key (qc_heap c x), if x = e then v else ce_vector (qc_heap c x))) (qc_order c)) =
        filter (\<lambda>p. fst p \<noteq> k) (cache_abs c)"
    proof -
      have "ce_key (qc_heap c e) = k" using cache_entry [OF ok, of k e] Some by simp
      then show ?thesis unfolding cache_abs_def by (induction "qc_order c") (auto simp: filter_map comp_def intro!: map_cong filter_cong)
    qed
    finally have abs: "cache_abs ?c = (k, v) # filter (\<lambda>p. fst p \<noteq> k) (cache_abs c)" .
    have "length (cache_abs ?c) \<le> qc_capacity c" using okc by (simp add: cache_abs_def cache_ok_def)
    then show ?thesis using okc abs cap Some by (simp add: cache_put_def lru_put_def)
  next
    case None
    let ?e = "qc_fresh c"
    let ?c = "c\<lparr>qc_heap := (qc_heap c)(?e := \<lparr>ce_key = k, ce_vector = v\<rparr>), qc_order := ?e # qc_order c,
         qc_entries := alist_put k ?e (qc_entries c), qc_fresh := Suc ?e\<rparr>"
    have old: "x \<in> set (qc_order c) \<Longrightarrow> x \<noteq> ?e \<and> ce_key (qc_heap c x) \<noteq> k" for x
      using ok cache_entry [OF ok, of k x] None by (auto simp: cache_ok_def)
    have "cache_abs ?c = (k, v) # cache_abs c" using old by (simp add: cache_abs_def)
    moreover have "filter (\<lambda>p. fst p \<noteq> k) (cache_abs c) = cache_abs c" using old by (auto simp: cache_abs_def filter_id_conv)
    moreover have order: "distinct (qc_order ?c)" "length (qc_order ?c) \<le> Suc (qc_capacity ?c)" "\<forall>e \<in> set (qc_order ?c). e < qc_fresh ?c"
      using ok old by (auto simp: cache_ok_def)
    moreover have "\<forall>k' e. map_of (qc_entries ?c) k' = Some e \<longleftrightarrow> e \<in> set (qc_order ?c) \<and> ce_key (qc_heap ?c e) = k'"
      using cache_entry [OF ok] old by auto
    ultimately show ?thesis using evict_abs [OF order(1,2)] evict_ok [of ?c] cap None
      by (simp add: cache_put_def Let_def lru_put_def)
  qed
qed

text \<open>The contract of a bounded cache: it behaves like the most-recently-used list its state stands for.\<close>

datatype cache_op = OpGet string | OpPut string "float32 list"

fun run_cache :: "(string \<Rightarrow> 's \<Rightarrow> 's \<times> float32 list option) \<Rightarrow> (string \<Rightarrow> float32 list \<Rightarrow> 's \<Rightarrow> 's) \<Rightarrow> cache_op list \<Rightarrow> 's \<Rightarrow>
    's \<times> float32 list option list" where
  "run_cache g p [] s = (s, [])"
| "run_cache g p (OpGet k # ops) s = (case g k s of (s', r) \<Rightarrow> case run_cache g p ops s' of (s'', rs) \<Rightarrow> (s'', r # rs))"
| "run_cache g p (OpPut k v # ops) s = run_cache g p ops (p k v s)"

locale bounded_cache =
  fixes get_op :: "string \<Rightarrow> 's \<Rightarrow> 's \<times> float32 list option"
    and put_op :: "string \<Rightarrow> float32 list \<Rightarrow> 's \<Rightarrow> 's"
    and abs :: "'s \<Rightarrow> (string \<times> float32 list) list" and good :: "'s \<Rightarrow> bool" and capacity :: "'s \<Rightarrow> nat"
  assumes get_law: "good s \<Longrightarrow> lru_get k (abs s) = (abs (fst (get_op k s)), snd (get_op k s)) \<and>
      good (fst (get_op k s)) \<and> capacity (fst (get_op k s)) = capacity s"
    and put_law: "good s \<Longrightarrow> abs (put_op k v s) = lru_put (capacity s) k v (abs s) \<and> good (put_op k v s) \<and> capacity (put_op k v s) = capacity s"
    and bounded: "good s \<Longrightarrow> length (abs s) \<le> capacity s"
begin

lemma run_law:
  "good s \<Longrightarrow> run_cache lru_get (lru_put (capacity s)) ops (abs s) = (abs (fst (run_cache get_op put_op ops s)), snd (run_cache get_op put_op ops s)) \<and>
     good (fst (run_cache get_op put_op ops s)) \<and> capacity (fst (run_cache get_op put_op ops s)) = capacity s"
proof (induction ops arbitrary: s)
  case (Cons op ops)
  show ?case
  proof (cases op)
    case (OpGet k)
    have "good (fst (get_op k s))" using get_law [OF Cons.prems, of k] by blast
    from Cons.IH [OF this] get_law [OF Cons.prems, of k] OpGet show ?thesis
      by (auto simp: split_beta split: prod.split)
  next
    case (OpPut k v)
    from Cons.IH [of "put_op k v s"] put_law [OF Cons.prems, of k v] OpPut show ?thesis by simp
  qed
qed simp

end

interpretation query_cache: bounded_cache cache_get cache_put cache_abs cache_ok qc_capacity
proof (unfold_locales, goal_cases)
  case (1 s k)
  then show ?case by (rule get_refines)
next
  case (2 s k v)
  then show ?case by (rule put_refines)
next
  case (3 s)
  then show ?case by (simp add: cache_ok_def cache_abs_def)
qed

text \<open>
  (C34) The query cache refines a bounded most-recently-used list: after any sequence of reads and writes on a new cache of
  capacity \<open>n\<close> every read has answered what the list answers, the map and the linked list of the code agree, and
  at most \<open>n\<close> vectors are kept, the most recently used ones.
\<close>

theorem QueryCache_refines_lru:
  assumes "NewQueryCache n = Inr c" and "run_cache cache_get cache_put ops c = (c', answers)"
  shows "run_cache lru_get (lru_put (nat n)) ops [] = (cache_abs c', answers) \<and> cache_ok c' \<and> length (qc_order c') \<le> nat n"
proof -
  have c: "cache_ok c" "cache_abs c = []" "qc_capacity c = nat n"
    using assms(1) by (auto simp: NewQueryCache_def cache_ok_def cache_abs_def split: if_splits)
  from query_cache.run_law [OF c(1), of ops] query_cache.bounded [of c'] assms(2) c show ?thesis
    by (simp add: cache_abs_def)
qed

theorem QueryCache_refines_lru_witness:
  "snd (run_cache cache_get cache_put [OpPut ''a'' [1], OpPut ''b'' [2], OpGet ''a'', OpPut ''c'' [3], OpGet ''b'', OpGet ''a'']
      (projr (NewQueryCache 2))) = [Some [1], None, Some [1]] \<and>
   length (qc_order (fst (run_cache cache_get cache_put [OpPut ''a'' [1], OpPut ''b'' [2], OpGet ''a'', OpPut ''c'' [3], OpGet ''b'', OpGet ''a'']
      (projr (NewQueryCache 2))))) \<le> 2"
proof -
  let ?ops = "[OpPut ''a'' [1], OpPut ''b'' [2], OpGet ''a'', OpPut ''c'' [3], OpGet ''b'', OpGet ''a'']"
  let ?c = "projr (NewQueryCache 2)"
  have n: "NewQueryCache 2 = Inr ?c" by (simp add: NewQueryCache_def)
  have "snd (run_cache cache_get cache_put ?ops ?c) = [Some [1], None, Some [1]]" by code_simp
  with QueryCache_refines_lru [OF n, of ?ops, OF surjective_pairing] show ?thesis by simp
qed

end
