(* ===== verification/Retrieval.thy ===== *)
theory Retrieval
  imports EmbeddingCache "HOL-Library.Product_Lexorder"
begin

text \<open>
  The in-memory retrieval indexes and the vector payload: \<^verbatim>\<open>internal/retrieval\<close> (lexical.go, vector.go,
  vector_access.go, and encodeVectorPayload and decodeVectorPayload of store.go).

  A \<^verbatim>\<open>nil\<close> index is \<open>None\<close>. Unicode lower-casing, the runes of a string and the letter and digit classes are the
  record \<open>unicode_lib\<close>; a rune is its UTF-8 bytes. \<^verbatim>\<open>sort.Slice\<close> with a total order on distinct keys is \<^const>\<open>sort_key\<close>;
  \<^verbatim>\<open>sort.Search\<close> is the binary search of the library, with its termination proof.
\<close>

record unicode_lib =
  uc_lower :: "string \<Rightarrow> string"
  uc_runes :: "string \<Rightarrow> string list"
  uc_letter :: "string \<Rightarrow> bool"
  uc_digit :: "string \<Rightarrow> bool"

datatype retrieval_error =
    IndexNil
  | LimitNegative
  | KeyRequired
  | DuplicateDocument string
  | InvalidRecord string embed_error
  | InvalidQuery embed_error
  | RecordNotFound string
  | PayloadHeader
  | PayloadDimensions
  | PayloadLength
  | PayloadVector embed_error

section \<open>Tokens\<close>

fun tokens_from :: "unicode_lib \<Rightarrow> string \<Rightarrow> string list \<Rightarrow> string list" where
  "tokens_from u current [] = (if current = [] then [] else [current])"
| "tokens_from u current (r # rs) =
     (if uc_letter u r \<or> uc_digit u r then tokens_from u (current @ r) rs
      else (if current = [] then [] else [current]) @ tokens_from u [] rs)"

definition Tokenize :: "unicode_lib \<Rightarrow> string \<Rightarrow> string list" where
  "Tokenize u txt = tokens_from u [] (uc_runes u (uc_lower u txt))"

section \<open>Lexical index\<close>

definition bm25K1 :: real where "bm25K1 = 12 / 10"
definition bm25B :: real where "bm25B = 3 / 4"

type_synonym scored = "string \<times> real"

text \<open>Best score first, equal scores by key.\<close>

definition rank_key :: "scored \<Rightarrow> real \<times> string" where
  "rank_key r = (- snd r, fst r)"

record lexicalDocument =
  ld_key :: string
  ld_termCounts :: "(string \<times> nat) list"
  ld_termCount :: nat

record LexicalIndex =
  li_documents :: "lexicalDocument list"
  li_documentFrequency :: "(string \<times> nat) list"
  li_averageLength :: real

definition count_of :: "(string \<times> nat) list \<Rightarrow> string \<Rightarrow> nat" where
  "count_of m k = (case map_of m k of None \<Rightarrow> 0 | Some n \<Rightarrow> n)"

definition increment :: "string \<Rightarrow> (string \<times> nat) list \<Rightarrow> (string \<times> nat) list" where
  "increment k m = alist_put k (Suc (count_of m k)) m"

definition index_document :: "unicode_lib \<Rightarrow> string \<times> string \<Rightarrow> lexicalDocument" where
  "index_document u d = (let tokens = Tokenize u (snd d) in
     \<lparr>ld_key = fst d, ld_termCounts = fold increment tokens [], ld_termCount = length tokens\<rparr>)"

definition doc_check :: "string \<times> string \<Rightarrow> retrieval_error option" where
  "doc_check d = (if fst d = [] then Some KeyRequired else None)"

definition NewLexicalIndex :: "unicode_lib \<Rightarrow> float_lib \<Rightarrow> (string \<times> string) list \<Rightarrow> (retrieval_error, LexicalIndex) result" where
  "NewLexicalIndex u fl documents =
     (case seen_loop (\<lambda>_. doc_check) fst (\<lambda>_ d. DuplicateDocument (fst d)) 0 [] documents of
        Some e \<Rightarrow> Inl e
      | None \<Rightarrow> let docs = map (index_document u) documents in
          Inr \<lparr>li_documents = sort_key ld_key docs,
            li_documentFrequency = fold (\<lambda>d m. fold increment (map fst (ld_termCounts d)) m) docs [],
            li_averageLength = (if docs = [] then 0
              else fl64 fl (real (sum_list (map ld_termCount docs)) / real (length docs)))\<rparr>)"

definition Lexical_Len :: "LexicalIndex option \<Rightarrow> nat" where
  "Lexical_Len idx = (case idx of None \<Rightarrow> 0 | Some i \<Rightarrow> length (li_documents i))"

definition term_score :: "float_lib \<Rightarrow> LexicalIndex \<Rightarrow> lexicalDocument \<Rightarrow> string \<Rightarrow> real \<Rightarrow> real" where
  "term_score fl i d term score =
     (let r = fl64 fl; frequency = count_of (ld_termCounts d) term; docFrequency = count_of (li_documentFrequency i) term in
      if frequency = 0 then score
      else let idf = ln64 fl (r (1 + r (r (real_of_int (int (length (li_documents i)) - int docFrequency) + 5 / 10) / r (real docFrequency + 5 / 10))));
               lengthRatio = (if li_averageLength i > 0 then r (real (ld_termCount d) / li_averageLength i) else 0);
               denominator = r (real frequency + r (r bm25K1 * r (r (1 - bm25B) + r (r bm25B * lengthRatio))))
           in r (score + r (r (idf * r (real frequency * r (bm25K1 + 1))) / denominator)))"

definition document_score :: "float_lib \<Rightarrow> LexicalIndex \<Rightarrow> string list \<Rightarrow> lexicalDocument \<Rightarrow> real" where
  "document_score fl i terms d = fold (term_score fl i d) terms 0"

definition Lexical_Search :: "unicode_lib \<Rightarrow> float_lib \<Rightarrow> LexicalIndex option \<Rightarrow> string \<Rightarrow> int \<Rightarrow> (retrieval_error, scored list) result" where
  "Lexical_Search u fl idx query limit = (case idx of None \<Rightarrow> Inl IndexNil | Some i \<Rightarrow>
     if limit < 0 then Inl LimitNegative
     else if limit = 0 \<or> li_documents i = [] then Inr []
     else let queryTokens = Tokenize u query in
       if queryTokens = [] then Inr []
       else let terms = sort (remdups queryTokens);
                results = filter (\<lambda>r. 0 < snd r) (map (\<lambda>d. (ld_key d, document_score fl i terms d)) (li_documents i))
            in Inr (take (nat limit) (sort_key rank_key results)))"

section \<open>Vector index\<close>

record VectorIndex =
  vi_dimensions :: nat
  vi_records :: "(string \<times> float32 list) list"

definition normalizeVector :: "float_lib \<Rightarrow> float32 list \<Rightarrow> (embed_error, float32 list) result" where
  "normalizeVector fl vector = (let squared = squared_magnitude fl vector in
     if squared = 0 then Inl ErrZeroVector
     else Inr (map (\<lambda>v. fl32 fl (fl64 fl (f32_value v / sqrt64 fl squared))) vector))"

fun vector_loop :: "float_lib \<Rightarrow> nat \<Rightarrow> string list \<Rightarrow> (string \<times> float32 list) list \<Rightarrow>
    (retrieval_error, (string \<times> float32 list) list) result" where
  "vector_loop fl dims seen [] = Inr []"
| "vector_loop fl dims seen ((k, v) # records) =
     (if k = [] then Inl KeyRequired
      else if k \<in> set seen then Inl (DuplicateDocument k)
      else case ValidateVector fl v (int dims) of Some e \<Rightarrow> Inl (InvalidRecord k e)
      | None \<Rightarrow> (case normalizeVector fl v of Inl e \<Rightarrow> Inl (InvalidRecord k e)
        | Inr unit \<Rightarrow> rbind (vector_loop fl dims (k # seen) records) (\<lambda>rest. Inr ((k, unit) # rest))))"

definition NewVectorIndex :: "float_lib \<Rightarrow> (string \<times> float32 list) list \<Rightarrow> (retrieval_error, VectorIndex) result" where
  "NewVectorIndex fl records = (case records of
     [] \<Rightarrow> Inr \<lparr>vi_dimensions = 0, vi_records = []\<rparr>
   | (k, v) # _ \<Rightarrow> if v = [] then Inl (InvalidRecord k VectorEmpty)
       else rbind (vector_loop fl (length v) [] records) (\<lambda>normalized.
         Inr \<lparr>vi_dimensions = length v, vi_records = sort_key fst normalized\<rparr>))"

definition Vector_Len :: "VectorIndex option \<Rightarrow> nat" where
  "Vector_Len idx = (case idx of None \<Rightarrow> 0 | Some i \<Rightarrow> length (vi_records i))"

definition Vector_Dimensions :: "VectorIndex option \<Rightarrow> nat" where
  "Vector_Dimensions idx = (case idx of None \<Rightarrow> 0 | Some i \<Rightarrow> vi_dimensions i)"

definition Vector_Keys :: "VectorIndex option \<Rightarrow> string list" where
  "Vector_Keys idx = (case idx of None \<Rightarrow> [] | Some i \<Rightarrow> map fst (vi_records i))"

text \<open>\<^verbatim>\<open>sort.Search(n, f)\<close>: the loop over the half-open interval.\<close>

function search_loop :: "(nat \<Rightarrow> bool) \<Rightarrow> nat \<Rightarrow> nat \<Rightarrow> nat" where
  "search_loop f i j = (if i < j then (let h = (i + j) div 2 in if \<not> f h then search_loop f (h + 1) j else search_loop f i h) else i)"
  by pat_completeness auto
termination
  by (relation "measure (\<lambda>(f, i, j). j - i)") auto

declare search_loop.simps [simp del]

definition sort_Search :: "nat \<Rightarrow> (nat \<Rightarrow> bool) \<Rightarrow> nat" where
  "sort_Search n f = search_loop f 0 n"

definition record_position :: "(string \<times> float32 list) list \<Rightarrow> string \<Rightarrow> nat option" where
  "record_position records key = (let position = sort_Search (length records) (\<lambda>i. fst (records ! i) \<ge> key) in
     if position \<ge> length records \<or> fst (records ! position) \<noteq> key then None else Some position)"

definition VectorIndex_Vector :: "VectorIndex option \<Rightarrow> string \<Rightarrow> float32 list option" where
  "VectorIndex_Vector idx key = (case idx of None \<Rightarrow> None | Some i \<Rightarrow>
     map_option (\<lambda>p. snd (vi_records i ! p)) (record_position (vi_records i) key))"

definition dot :: "float_lib \<Rightarrow> float32 list \<Rightarrow> float32 list \<Rightarrow> real" where
  "dot fl v w = foldl (\<lambda>score p. fl64 fl (score + fl64 fl (f32_value (fst p) * f32_value (snd p)))) 0 (zip v w)"

definition clamp_score :: "float_lib \<Rightarrow> real \<Rightarrow> real" where
  "clamp_score fl s = (if 1 < s \<and> s < fl64 fl (1 + 1 / 10 ^ 6) then 1
     else if s < -1 \<and> fl64 fl (-1 - 1 / 10 ^ 6) < s then -1 else s)"

definition Vector_Search :: "float_lib \<Rightarrow> VectorIndex option \<Rightarrow> float32 list \<Rightarrow> int \<Rightarrow> (retrieval_error, scored list) result" where
  "Vector_Search fl idx query limit = (case idx of None \<Rightarrow> Inl IndexNil | Some i \<Rightarrow>
     if limit < 0 then Inl LimitNegative
     else if vi_records i = [] \<or> limit = 0 then Inr []
     else case ValidateVector fl query (int (vi_dimensions i)) of Some e \<Rightarrow> Inl (InvalidQuery e)
     | None \<Rightarrow> (case normalizeVector fl query of Inl e \<Rightarrow> Inl (InvalidQuery e)
       | Inr unitQuery \<Rightarrow>
           Inr (take (nat limit) (sort_key rank_key (map (\<lambda>(k, v). (k, clamp_score fl (dot fl v unitQuery))) (vi_records i))))))"

definition Vector_Neighbors :: "float_lib \<Rightarrow> VectorIndex option \<Rightarrow> string \<Rightarrow> int \<Rightarrow> (retrieval_error, scored list) result" where
  "Vector_Neighbors fl idx key limit = (case idx of None \<Rightarrow> Inl IndexNil | Some i \<Rightarrow>
     if limit < 0 then Inl LimitNegative
     else if limit = 0 \<or> length (vi_records i) \<le> 1 then Inr []
     else case record_position (vi_records i) key of None \<Rightarrow> Inl (RecordNotFound key)
     | Some position \<Rightarrow> rbind (Vector_Search fl idx (snd (vi_records i ! position)) (limit + 1)) (\<lambda>results.
         Inr (take (nat limit) (filter (\<lambda>r. fst r \<noteq> key) results))))"

section \<open>Stored vectors\<close>

definition vectorPayloadMagic :: string where "vectorPayloadMagic = ''GTMVEC01''"

text \<open>\<^verbatim>\<open>binary.BigEndian\<close> on 32-bit values.\<close>

definition PutUint32 :: "32 word \<Rightarrow> string" where
  "PutUint32 w = map (\<lambda>n. char_of (unat w div 2 ^ n)) [24, 16, 8, 0]"

definition Uint32 :: "string \<Rightarrow> 32 word" where
  "Uint32 bs = of_nat (foldl (\<lambda>acc b. acc * 256 + byte b) 0 (take 4 bs))"

fun read_values :: "nat \<Rightarrow> string \<Rightarrow> float32 list" where
  "read_values 0 bs = []"
| "read_values (Suc n) bs = Uint32 bs # read_values n (drop 4 bs)"

definition encodeVectorPayload :: "float_lib \<Rightarrow> float32 list \<Rightarrow> (embed_error, string) result" where
  "encodeVectorPayload fl vector = (case ValidateVector fl vector 0 of Some e \<Rightarrow> Inl e
     | None \<Rightarrow> Inr (vectorPayloadMagic @ PutUint32 (of_nat (length vector)) @ concat (map PutUint32 vector)))"

definition decodeVectorPayload :: "float_lib \<Rightarrow> string \<Rightarrow> (retrieval_error, float32 list) result" where
  "decodeVectorPayload fl payload =
     (let headerSize = length vectorPayloadMagic + 4 in
      if length payload < headerSize \<or> take (length vectorPayloadMagic) payload \<noteq> vectorPayloadMagic then Inl PayloadHeader
      else let dimensions = unat (Uint32 (drop (length vectorPayloadMagic) payload)) in
        if dimensions \<le> 0 \<or> 65536 < dimensions then Inl PayloadDimensions
        else if length payload \<noteq> headerSize + dimensions * 4 then Inl PayloadLength
        else let vector = read_values dimensions (drop headerSize payload) in
          case ValidateVector fl vector (int dimensions) of Some e \<Rightarrow> Inl (PayloadVector e) | None \<Rightarrow> Inr vector)"

end
