(* ===== verification/RetrievalFacts.thy ===== *)
theory RetrievalFacts
  imports Retrieval
begin

text \<open>
  What the retrieval indexes guarantee: stored vectors decode to what was encoded, the binary search of the vector index is
  a map lookup, and a search returns the best entries in a unique order.
\<close>

section \<open>Stored vectors\<close>

lemma byte_char_of: "byte (char_of n) = n mod 256"
  by (simp add: byte_def)

lemma split_base256:
  assumes "n < (4294967296::nat)"
  shows "((n div 16777216 mod 256 * 256 + n div 65536 mod 256) * 256 + n div 256 mod 256) * 256 + n mod 256 = n"
proof -
  have "n div 16777216 < 256" using assms by (simp add: less_mult_imp_div_less)
  moreover have "n div 65536 = n div 256 div 256" "n div 16777216 = n div 256 div 256 div 256" by (simp_all add: div_mult2_eq [symmetric])
  moreover have "m div 256 * 256 + m mod 256 = m" for m :: nat by simp
  ultimately show ?thesis by (metis mod_less)
qed

lemma Uint32_Put: "Uint32 (PutUint32 w @ bs) = w"
proof -
  have "unat w < 4294967296" using unsigned_less [of w] by simp
  moreover from this have "unat w div 16777216 mod 256 = unat w div 16777216" by (simp add: less_mult_imp_div_less)
  ultimately have "foldl (\<lambda>acc b. acc * 256 + byte b) 0 (take 4 (PutUint32 w @ bs)) = unat w"
    using split_base256 [of "unat w"] by (simp add: PutUint32_def byte_char_of)
  then show ?thesis by (simp add: Uint32_def)
qed

lemma length_PutUint32 [simp]: "length (PutUint32 w) = 4"
  by (simp add: PutUint32_def)

lemma read_values_Put: "read_values (length vs) (concat (map PutUint32 vs)) = vs"
  by (induction vs) (simp_all add: Uint32_Put)

lemma length_puts: "length (concat (map PutUint32 vs)) = 4 * length vs"
  by (induction vs) simp_all

text \<open>
  An embedding that is stored is read back bit by bit: decoding the payload of a vector of at most 65536 dimensions
  gives exactly the vector that was encoded, with its infinities and zero magnitude refused on the way in.
\<close>

theorem vector_payload_roundtrip:
  assumes "encodeVectorPayload fl v = Inr payload" and "length v \<le> 65536"
  shows "decodeVectorPayload fl payload = Inr v"
proof -
  have v: "ValidateVector fl v 0 = None" and p: "payload = vectorPayloadMagic @ PutUint32 (of_nat (length v)) @ concat (map PutUint32 v)"
    using assms(1) by (auto simp: encodeVectorPayload_def split: option.splits)
  have "v \<noteq> []" and v': "ValidateVector fl v (int (length v)) = None" using v by (auto simp: ValidateVector_None)
  have n: "unat (of_nat (length v) :: 32 word) = length v" using assms(2) by (simp add: unat_of_nat)
  have m: "length vectorPayloadMagic = 8" by (simp add: vectorPayloadMagic_def)
  show ?thesis
    unfolding decodeVectorPayload_def p Let_def m
    using assms(2) \<open>v \<noteq> []\<close> v' by (simp add: m Uint32_Put n length_puts read_values_Put)
qed

section \<open>Lookup\<close>

lemma search_loop_spec:
  assumes "\<forall>x y. i \<le> x \<longrightarrow> x \<le> y \<longrightarrow> y < j \<longrightarrow> f x \<longrightarrow> f y" and "i \<le> j"
  shows "i \<le> search_loop f i j \<and> search_loop f i j \<le> j \<and> (\<forall>x. i \<le> x \<longrightarrow> x < search_loop f i j \<longrightarrow> \<not> f x) \<and>
    (\<forall>x. search_loop f i j \<le> x \<longrightarrow> x < j \<longrightarrow> f x)"
  using assms
proof (induction f i j rule: search_loop.induct)
  case (1 f i j)
  show ?case
  proof (cases "i < j")
    case False
    then have "search_loop f i j = i" by (subst search_loop.simps) simp
    then show ?thesis using False 1(4) by auto
  next
    case True
    define h where "h = (i + j) div 2"
    have h: "i \<le> h" "h < j" using True by (auto simp: h_def)
    show ?thesis
    proof (cases "f h")
      case fh: True
      have s: "search_loop f i j = search_loop f i h" using True fh by (simp add: search_loop.simps [of f i j] Let_def h_def [symmetric])
      have above: "f x" if "h \<le> x" "x < j" for x using 1(3) fh h(1) that by blast
      have mono: "\<forall>x y. i \<le> x \<longrightarrow> x \<le> y \<longrightarrow> y < h \<longrightarrow> f x \<longrightarrow> f y" using 1(3) h(2) by (meson less_trans)
      have "\<not> \<not> f h" using fh by simp
      note ih = 1(2) [OF True h_def this mono h(1)]
      have "f x" if "search_loop f i h \<le> x" "x < j" for x
        using above [of x] ih that by (cases "h \<le> x") auto
      then show ?thesis unfolding s using ih h by auto
    next
      case fh: False
      have s: "search_loop f i j = search_loop f (h + 1) j" using True fh by (simp add: search_loop.simps [of f i j] Let_def h_def [symmetric])
      have below: "\<not> f x" if "i \<le> x" "x \<le> h" for x using 1(3) fh h that by blast
      have mono: "\<forall>x y. h + 1 \<le> x \<longrightarrow> x \<le> y \<longrightarrow> y < j \<longrightarrow> f x \<longrightarrow> f y" using 1(3) h(1) by (meson le_add1 order_trans)
      have "h + 1 \<le> j" using h(2) by simp
      note ih = 1(1) [OF True h_def fh mono this]
      have "\<not> f x" if "i \<le> x" "x < search_loop f (h + 1) j" for x
        using below [of x] ih that by (cases "x \<le> h") auto
      then show ?thesis unfolding s using ih h by auto
    qed
  qed
qed

lemma position_lookup:
  assumes "sorted (map fst records)" "distinct (map fst records)"
  shows "map_option (\<lambda>p. snd (records ! p)) (record_position records key) = map_of records key"
proof -
  let ?f = "\<lambda>i. fst (records ! i) \<ge> key" and ?n = "length records"
  define p where "p = sort_Search ?n ?f"
  have mono: "\<forall>x y. 0 \<le> x \<longrightarrow> x \<le> y \<longrightarrow> y < ?n \<longrightarrow> ?f x \<longrightarrow> ?f y"
    using sorted_nth_mono [OF assms(1)] by (auto intro: order_trans)
  have "0 \<le> p \<and> p \<le> ?n \<and> (\<forall>x. 0 \<le> x \<longrightarrow> x < p \<longrightarrow> \<not> ?f x) \<and> (\<forall>x. p \<le> x \<longrightarrow> x < ?n \<longrightarrow> ?f x)"
    unfolding p_def sort_Search_def by (rule search_loop_spec [OF mono]) simp
  then have p: "p \<le> ?n" "\<forall>x < p. \<not> ?f x" "\<forall>x. p \<le> x \<longrightarrow> x < ?n \<longrightarrow> ?f x" by simp_all
  show ?thesis
  proof (cases "p < ?n \<and> fst (records ! p) = key")
    case True
    then have "(key, snd (records ! p)) \<in> set records" by (metis nth_mem prod.collapse)
    then have "map_of records key = Some (snd (records ! p))" by (rule map_of_is_SomeI [OF assms(2)])
    with True show ?thesis by (simp add: record_position_def p_def [symmetric] Let_def)
  next
    case False
    have "key \<notin> fst ` set records"
    proof
      assume "key \<in> fst ` set records"
      then obtain i where i: "i < ?n" "fst (records ! i) = key" by (auto simp: in_set_conv_nth)
      have "p \<le> i" using p(2) i(2) by (metis linorder_not_le order_refl)
      moreover have "p \<noteq> i" using False i by auto
      ultimately have "p < i" by simp
      then have "fst (records ! p) \<ge> key" "fst (records ! p) \<le> key"
        using p(3) i sorted_nth_mono [OF assms(1), of p i] by auto
      then have "fst (records ! p) = key" by simp
      with False \<open>p < i\<close> i show False by simp
    qed
    then have "map_of records key = None" by (simp add: map_of_eq_None_iff)
    with False show ?thesis by (auto simp: record_position_def p_def [symmetric] Let_def)
  qed
qed

lemma vector_loop_spec:
  "vector_loop fl dims seen records = Inr normalized \<Longrightarrow>
    map fst normalized = map fst records \<and> distinct (map fst records) \<and> set (map fst records) \<inter> set seen = {} \<and>
    list_all2 (\<lambda>(k, v) (k', unit). k' = k \<and> normalizeVector fl v = Inr unit) records normalized"
proof (induction fl dims seen records arbitrary: normalized rule: vector_loop.induct)
  case (2 fl dims seen k v records)
  from "2.prems" obtain unit rest where k: "k \<noteq> []" "k \<notin> set seen" "ValidateVector fl v (int dims) = None"
      "normalizeVector fl v = Inr unit" and r: "vector_loop fl dims (k # seen) records = Inr rest" and n: "normalized = (k, unit) # rest"
    by (auto simp: rbind_Inr_iff split: if_splits option.splits sum.splits)
  from "2.IH" [OF k r] k(2,4) n show ?case by auto
qed simp

lemma map_of_normalized:
  "list_all2 (\<lambda>(k, v) (k', unit). k' = k \<and> normalizeVector fl v = Inr unit) records normalized \<Longrightarrow>
    map_of normalized key = map_option (\<lambda>v. projr (normalizeVector fl v)) (map_of records key)"
  by (induction records normalized rule: list_all2_induct) auto

text \<open>The records of an index that was built: sorted, distinct, one per input record.\<close>

lemma NewVectorIndex_records:
  assumes "NewVectorIndex fl records = Inr i"
  shows "sorted (map fst (vi_records i))" "distinct (map fst (vi_records i))" "length (vi_records i) = length records"
    "map_of (vi_records i) key = map_option (\<lambda>v. projr (normalizeVector fl v)) (map_of records key)"
    "set (map fst (vi_records i)) = set (map fst records)"
proof -
  have "sorted (map fst (vi_records i)) \<and> distinct (map fst (vi_records i)) \<and> length (vi_records i) = length records \<and>
    map_of (vi_records i) key = map_option (\<lambda>v. projr (normalizeVector fl v)) (map_of records key) \<and>
    set (map fst (vi_records i)) = set (map fst records)"
  proof (cases records)
    case Nil
    then show ?thesis using assms by (auto simp: NewVectorIndex_def)
  next
    case (Cons kv rest)
    obtain k v where kv: "kv = (k, v)" by (cases kv)
    obtain normalized where n: "vector_loop fl (length v) [] records = Inr normalized" and i: "vi_records i = sort_key fst normalized"
      using assms by (auto simp: NewVectorIndex_def Cons kv rbind_Inr_iff split: if_splits)
    have spec: "map fst normalized = map fst records" "distinct (map fst records)"
      and l2: "list_all2 (\<lambda>(k, v) (k', unit). k' = k \<and> normalizeVector fl v = Inr unit) records normalized"
      using vector_loop_spec [OF n] by auto
    have dis: "distinct (map fst normalized)" using spec by simp
    have sorted: "distinct (map fst (sort_key fst normalized))" using dis by (simp add: map_sort_key)
    have "map_of (sort_key fst normalized) key = map_of normalized key"
      using dis sorted by (intro map_of_eqI [THEN fun_cong]) auto
    with map_of_normalized [OF l2] sorted spec show ?thesis
      unfolding i by (simp add: map_sort_key) (metis length_map set_map)
  qed
  then show "sorted (map fst (vi_records i))" "distinct (map fst (vi_records i))" "length (vi_records i) = length records"
    "map_of (vi_records i) key = map_option (\<lambda>v. projr (normalizeVector fl v)) (map_of records key)"
    "set (map fst (vi_records i)) = set (map fst records)" by auto
qed

text \<open>
  Reading a vector from an index is equivalent to a map lookup: whatever the order of the records the index was built
  from, the binary search finds the unit vector of the record with the key, and finds nothing exactly when there is no such record.
\<close>

theorem VectorIndex_Vector_lookup:
  assumes "NewVectorIndex fl records = Inr i"
  shows "VectorIndex_Vector (Some i) key = map_option (\<lambda>v. projr (normalizeVector fl v)) (map_of records key)"
  using position_lookup [OF NewVectorIndex_records(1,2) [OF assms]] NewVectorIndex_records(4) [OF assms]
  by (simp add: VectorIndex_Vector_def)

section \<open>Searches\<close>

lemma take_sort_key_best:
  assumes "x \<in> set (take n (sort_key f xs))" "y \<in> set xs" "y \<notin> set (take n (sort_key f xs))"
  shows "f x \<le> f y"
proof -
  have "y \<in> set (drop n (sort_key f xs))" using assms(2,3) by (metis append_take_drop_id set_append set_sort UnE)
  moreover have "sorted (map f (take n (sort_key f xs) @ drop n (sort_key f xs)))" by simp
  ultimately show ?thesis using assms(1) by (simp only: map_append sorted_append set_map) blast
qed

definition best_of :: "int \<Rightarrow> scored list \<Rightarrow> scored list \<Rightarrow> bool" where
  "best_of limit results pool \<longleftrightarrow> int (length results) = min limit (int (length pool)) \<and> set results \<subseteq> set pool \<and>
     sorted_wrt (<) (map rank_key results) \<and>
     (\<forall>x \<in> set results. \<forall>y \<in> set pool - set results. rank_key x < rank_key y)"

lemma rank_key_inj: "rank_key x = rank_key y \<Longrightarrow> x = y"
  by (simp add: rank_key_def prod_eq_iff)

lemma best_of_take:
  assumes "distinct (map fst pool)" "0 \<le> limit"
  shows "best_of limit (take (nat limit) (sort_key rank_key pool)) pool"
proof -
  let ?s = "sort_key rank_key pool"
  have "distinct (map rank_key pool)" using assms(1) by (auto simp: distinct_map inj_on_def rank_key_def)
  then have strict: "sorted_wrt (<) (map rank_key ?s)" by (simp add: strict_sorted_iff map_sort_key)
  then have "sorted_wrt (<) (map rank_key (take (nat limit) ?s))" by (simp add: take_map [symmetric] sorted_wrt_take)
  moreover have "rank_key x < rank_key y" if "x \<in> set (take (nat limit) ?s)" "y \<in> set pool - set (take (nat limit) ?s)" for x y
    using take_sort_key_best [of x "nat limit" rank_key pool y] that rank_key_inj [of x y] by (metis Diff_iff order.not_eq_order_implies_strict)
  moreover have "set (take (nat limit) ?s) \<subseteq> set pool" by (metis set_sort set_take_subset)
  ultimately show ?thesis using assms(2) by (auto simp: best_of_def min_def)
qed

definition vector_scores :: "float_lib \<Rightarrow> VectorIndex \<Rightarrow> float32 list \<Rightarrow> scored list" where
  "vector_scores fl i unitQuery = map (\<lambda>(k, v). (k, clamp_score fl (dot fl v unitQuery))) (vi_records i)"

text \<open>
  A vector search that succeeds on a built index returns the best \<open>limit\<close> records: no more and no fewer than asked for or
  present, each with its clamped cosine score, in strictly decreasing order (ties by key), and every record left out ranks after
  every record returned.
\<close>

theorem Vector_Search_best:
  assumes "NewVectorIndex fl records = Inr i" and "Vector_Search fl (Some i) query limit = Inr results" and "records \<noteq> []" and "0 < limit"
  shows "\<exists>unitQuery. normalizeVector fl query = Inr unitQuery \<and> best_of limit results (vector_scores fl i unitQuery)"
proof -
  have len: "vi_records i \<noteq> []" using NewVectorIndex_records(3) [OF assms(1)] assms(3) by auto
  obtain u where u: "normalizeVector fl query = Inr u" and r: "results = take (nat limit) (sort_key rank_key (vector_scores fl i u))"
    using assms(2,4) len by (auto simp: Vector_Search_def vector_scores_def split: if_splits option.splits sum.splits)
  have "map fst (vector_scores fl i u) = map fst (vi_records i)" by (auto simp: vector_scores_def)
  then have "distinct (map fst (vector_scores fl i u))" using NewVectorIndex_records(2) [OF assms(1)] by simp
  with u r assms(4) best_of_take show ?thesis by force
qed

section \<open>Concrete indexes\<close>

text \<open>Two unit vectors; on them exact arithmetic is what the hardware computes.\<close>

definition f32_one :: float32 where "f32_one = 0x3F800000"

definition exact_lib :: float_lib where
  "exact_lib = \<lparr>fl64 = (\<lambda>x. x), fl32 = (\<lambda>x. if x = 0 then 0 else f32_one), ln64 = (\<lambda>x. x - 1), sqrt64 = (\<lambda>x. x)\<rparr>"

lemma f32_values: "f32_value f32_one = 1" "f32_value 0 = 0" "f32_finite f32_one" "f32_finite 0"
  by (simp_all add: f32_one_def f32_value_def f32_finite_def f32_exponent_def f32_fraction_def)

definition unit_x :: "float32 list" where "unit_x = [f32_one, 0]"
definition unit_y :: "float32 list" where "unit_y = [0, f32_one]"

lemma units:
  "ValidateVector exact_lib unit_x 0 = None" "ValidateVector exact_lib unit_x 2 = None" "ValidateVector exact_lib unit_y 2 = None"
  "normalizeVector exact_lib unit_x = Inr unit_x" "normalizeVector exact_lib unit_y = Inr unit_y"
  by (auto simp: ValidateVector_None unit_x_def unit_y_def f32_values squared_magnitude_def exact_lib_def normalizeVector_def)

definition two_records :: "(string \<times> float32 list) list" where
  "two_records = [(''b'', unit_x), (''a'', unit_y)]"

definition two_index :: VectorIndex where
  "two_index = \<lparr>vi_dimensions = 2, vi_records = [(''a'', unit_y), (''b'', unit_x)]\<rparr>"

lemma two_index: "NewVectorIndex exact_lib two_records = Inr two_index"
proof -
  have "length unit_x = 2" "unit_x \<noteq> []" by (simp_all add: unit_x_def)
  moreover have "sort_key fst [(''b'', unit_x), (''a'', unit_y)] = [(''a'', unit_y), (''b'', unit_x)]" by code_simp
  ultimately show ?thesis
    by (simp add: NewVectorIndex_def two_records_def two_index_def rbind_Inr units)
qed

theorem vector_payload_roundtrip_witness:
  "\<exists>payload. encodeVectorPayload exact_lib unit_x = Inr payload \<and> length payload = 20 \<and> decodeVectorPayload exact_lib payload = Inr unit_x"
proof -
  let ?p = "vectorPayloadMagic @ PutUint32 (of_nat (length unit_x)) @ concat (map PutUint32 unit_x)"
  have e: "encodeVectorPayload exact_lib unit_x = Inr ?p" by (simp add: encodeVectorPayload_def units)
  have "length unit_x \<le> 65536" by (simp add: unit_x_def)
  from vector_payload_roundtrip [OF e this] e show ?thesis by (auto simp: unit_x_def vectorPayloadMagic_def)
qed

theorem VectorIndex_Vector_lookup_witness:
  "VectorIndex_Vector (Some two_index) ''b'' = Some unit_x \<and> VectorIndex_Vector (Some two_index) ''c'' = None"
  using VectorIndex_Vector_lookup [OF two_index, of "''b''"] VectorIndex_Vector_lookup [OF two_index, of "''c''"]
  by (simp add: two_records_def units)

theorem Vector_Search_best_witness:
  "\<exists>results. Vector_Search exact_lib (Some two_index) unit_x 1 = Inr results \<and>
     best_of 1 results (vector_scores exact_lib two_index unit_x) \<and> length results = 1"
proof -
  have "\<exists>results. Vector_Search exact_lib (Some two_index) unit_x 1 = Inr results"
    by (simp add: Vector_Search_def two_index_def units)
  then obtain results where r: "Vector_Search exact_lib (Some two_index) unit_x 1 = Inr results" ..
  have "two_records \<noteq> []" "(0::int) < 1" by (simp_all add: two_records_def)
  from Vector_Search_best [OF two_index r this] r units(4) show ?thesis
    by (auto simp: best_of_def vector_scores_def two_index_def)
qed

end
