(* ===== verification/RetrievalStore.thy ===== *)
theory RetrievalStore
  imports Retrieval CatalogContent
begin

text \<open>
  Retrieval artifacts over the catalog: \<^verbatim>\<open>internal/retrieval\<close> (store.go, ensure.go, projection.go). A tool is projected to
  three texts; embeddings and lexical records of the projections are stored as artifacts of a staging generation and loaded
  into the in-memory indexes.

  An operation of several catalog calls is not a transaction: it returns the catalog as far as it got, also with an error.
\<close>

section \<open>Projections\<close>

definition SourceDescriptionProjectionVersion :: string where "SourceDescriptionProjectionVersion = ''source-description/v1''"
definition InputSchemaProjectionVersion :: string where "InputSchemaProjectionVersion = ''input-schema/v1''"
definition LexicalProjectionVersion :: string where "LexicalProjectionVersion = ''source-lexical/v1''"

record Projection =
  pj_Version :: string
  pj_Text :: string
  pj_Fingerprint :: string

record ToolProjections =
  tp_SourceDescription :: Projection
  tp_InputSchema :: Projection
  tp_Lexical :: Projection

datatype project_error = ProjectToolRequired | ProjectNameRequired | ProjectMarshal | ProjectDecode

definition newProjection :: "codec \<Rightarrow> string \<Rightarrow> string \<Rightarrow> Projection" where
  "newProjection cd version txt = \<lparr>pj_Version = version, pj_Text = txt,
     pj_Fingerprint = ''sha256:'' @ sha256_hex cd (version @ [CHR 0x00] @ txt)\<rparr>"

definition fingerprintText :: "codec \<Rightarrow> string \<Rightarrow> string" where
  "fingerprintText cd txt = ''sha256:'' @ sha256_hex cd txt"

definition readJSONString :: "(string \<times> json) list \<Rightarrow> string \<Rightarrow> string" where
  "readJSONString contract key = (case obj_get contract key of Some (JStr s) \<Rightarrow> s | _ \<Rightarrow> [])"

definition newline :: string where "newline = [CHR 0x0A]"

definition description_text :: "(string \<times> json) list \<Rightarrow> string" where
  "description_text contract =
     (let title = readJSONString contract ''title''; description = readJSONString contract ''description'' in
      ''name: '' @ readJSONString contract ''name'' @
      (if title = [] then [] else newline @ ''title: '' @ title) @
      (if description = [] then [] else newline @ ''description: '' @ description))"

definition schema_text :: "codec \<Rightarrow> (string \<times> json) list \<Rightarrow> string" where
  "schema_text cd contract = ''input_schema: '' @ marshal_json cd (case obj_get contract ''inputSchema'' of Some j \<Rightarrow> j
     | None \<Rightarrow> (case obj_get contract ''input_schema'' of Some j \<Rightarrow> j | None \<Rightarrow> JObj []))"

definition ProjectTool :: "codec \<Rightarrow> mcp_tool option \<Rightarrow> (project_error, ToolProjections) result" where
  "ProjectTool cd tool = (case tool of None \<Rightarrow> Inl ProjectToolRequired | Some t \<Rightarrow>
     if blank (tool_Name t) then Inl ProjectNameRequired
     else case marshal_tool cd t of None \<Rightarrow> Inl ProjectMarshal | Some body \<Rightarrow>
     (case decode_json cd body of None \<Rightarrow> Inl ProjectDecode | Some j \<Rightarrow>
     (case as_object j of None \<Rightarrow> Inl ProjectDecode | Some contract \<Rightarrow>
       let descriptionText = description_text contract; schemaText = schema_text cd contract in
       Inr \<lparr>tp_SourceDescription = newProjection cd SourceDescriptionProjectionVersion descriptionText,
         tp_InputSchema = newProjection cd InputSchemaProjectionVersion schemaText,
         tp_Lexical = newProjection cd LexicalProjectionVersion (descriptionText @ newline @ schemaText)\<rparr>)))"

section \<open>Artifacts\<close>

definition EmbeddingArtifactKind :: string where "EmbeddingArtifactKind = ''retrieval.embedding-vector/v1''"
definition LexicalArtifactKind :: string where "LexicalArtifactKind = ''retrieval.lexical/v1''"
definition RoleSourceDescriptionVector :: string where "RoleSourceDescriptionVector = ''embedding.source_description''"
definition RoleInputSchemaVector :: string where "RoleInputSchemaVector = ''embedding.input_schema''"
definition RoleLexical :: string where "RoleLexical = ''lexical.source''"

datatype retrieve_error =
    OfCatalog cat_error
  | OfEmbedding embed_error
  | OfIndex retrieval_error
  | DecodeReusable retrieval_error
  | ValidateReusable embed_error
  | DecodeEmbedding string retrieval_error
  | WrongKind string string
  | ProviderFailed string
  | ProviderVectorCount nat

definition lift_catalog :: "(cat_error, 'a) result \<Rightarrow> (retrieve_error, 'a) result" where
  "lift_catalog r = (case r of Inl e \<Rightarrow> Inl (OfCatalog e) | Inr x \<Rightarrow> Inr x)"

definition valid_or :: "(embed_error \<Rightarrow> retrieve_error) \<Rightarrow> embed_error option \<Rightarrow> (retrieve_error, unit) result" where
  "valid_or f e = (case e of None \<Rightarrow> Inr () | Some x \<Rightarrow> Inl (f x))"

definition embeddingSpec :: "codec \<Rightarrow> string \<Rightarrow> string \<Rightarrow> Identity \<Rightarrow> Projection \<Rightarrow> RequiredArtifactSpec" where
  "embeddingSpec cd role memberKey identity projection =
     \<lparr>ras_Role = role, ras_MemberKey = memberKey, ras_Kind = EmbeddingArtifactKind,
       ras_Dependencies = [(''embedding.input'', pj_Fingerprint projection),
         (''embedding.provider'', Identity_Fingerprint cd identity),
         (''embedding.projection'', fingerprintText cd (pj_Version projection))],
       ras_ContextFingerprint = []\<rparr>"

definition lexicalSpec :: "codec \<Rightarrow> string \<Rightarrow> Projection \<Rightarrow> RequiredArtifactSpec" where
  "lexicalSpec cd memberKey projection =
     \<lparr>ras_Role = RoleLexical, ras_MemberKey = memberKey, ras_Kind = LexicalArtifactKind,
       ras_Dependencies = [(''lexical.input'', pj_Fingerprint projection),
         (''lexical.projection'', fingerprintText cd (pj_Version projection))],
       ras_ContextFingerprint = []\<rparr>"

text \<open>Stores an artifact and links it: \<^verbatim>\<open>PutArtifact\<close>, then \<open>between\<close>, then \<^verbatim>\<open>FulfillArtifact\<close>.\<close>

definition fulfil :: "codec \<Rightarrow> sqlenv \<Rightarrow> string \<Rightarrow> RequiredArtifactSpec \<Rightarrow> string \<Rightarrow> catalog \<Rightarrow> catalog \<times> (retrieve_error, string) result" where
  "fulfil cd q gid spec key db = (case FulfillArtifact cd q gid spec key db of
     (db', Some e) \<Rightarrow> (db', Inl (OfCatalog e)) | (db', None) \<Rightarrow> (db', Inr key))"

definition RequireEmbedding :: "codec \<Rightarrow> sqlenv \<Rightarrow> string \<Rightarrow> string \<Rightarrow> string \<Rightarrow> Identity \<Rightarrow> Projection \<Rightarrow> catalog \<Rightarrow>
    (retrieve_error, catalog) result" where
  "RequireEmbedding cd q gid role memberKey identity projection db =
     rbind (valid_or OfEmbedding (Identity_Validate identity)) (\<lambda>_.
     rbind (lift_catalog (RequireArtifact cd q gid (embeddingSpec cd role memberKey identity projection) db)) (\<lambda>(db', _). Inr db'))"

definition ReuseEmbedding :: "codec \<Rightarrow> float_lib \<Rightarrow> sqlenv \<Rightarrow> string \<Rightarrow> string \<Rightarrow> Identity \<Rightarrow> Projection \<Rightarrow> catalog \<Rightarrow>
    (retrieve_error, (float32 list \<times> string) option) result" where
  "ReuseEmbedding cd fl q role memberKey identity projection db =
     (let spec = embeddingSpec cd role memberKey identity projection in
      case FindReusableArtifact cd q db (ras_Kind spec) (ras_Dependencies spec) (ras_ContextFingerprint spec) of
        Inl ErrNoRows \<Rightarrow> Inr None
      | Inl e \<Rightarrow> Inl (OfCatalog e)
      | Inr (key, a) \<Rightarrow> (case decodeVectorPayload fl (art_Payload a) of
          Inl e \<Rightarrow> Inl (DecodeReusable e)
        | Inr vector \<Rightarrow> rbind (valid_or ValidateReusable (ValidateVector fl vector (expected_dimensions identity))) (\<lambda>_.
            Inr (Some (vector, key)))))"

definition StoreEmbedding :: "codec \<Rightarrow> float_lib \<Rightarrow> sqlenv \<Rightarrow> int \<Rightarrow> string \<Rightarrow> string \<Rightarrow> string \<Rightarrow> Identity \<Rightarrow> Projection \<Rightarrow> float32 list \<Rightarrow> catalog \<Rightarrow>
    catalog \<times> (retrieve_error, string) result" where
  "StoreEmbedding cd fl q now gid role memberKey identity projection vector db =
     (let spec = embeddingSpec cd role memberKey identity projection in
      case rbind (valid_or OfEmbedding (Identity_Validate identity)) (\<lambda>_.
           rbind (valid_or OfEmbedding (ValidateVector fl vector (expected_dimensions identity))) (\<lambda>_.
           rbind (case encodeVectorPayload fl vector of Inl e \<Rightarrow> Inl (OfEmbedding e) | Inr p \<Rightarrow> Inr p) (\<lambda>payload.
           lift_catalog (PutArtifact cd q now \<lparr>asp_Kind = ras_Kind spec, asp_Payload = payload,
             asp_Dependencies = ras_Dependencies spec, asp_ContextFingerprint = ras_ContextFingerprint spec\<rparr> db)))) of
        Inl e \<Rightarrow> (db, Inl e)
      | Inr (db1, key, a) \<Rightarrow> fulfil cd q gid spec key db1)"

definition RequireLexical :: "codec \<Rightarrow> sqlenv \<Rightarrow> string \<Rightarrow> string \<Rightarrow> Projection \<Rightarrow> catalog \<Rightarrow> (retrieve_error, catalog) result" where
  "RequireLexical cd q gid memberKey projection db =
     rbind (lift_catalog (RequireArtifact cd q gid (lexicalSpec cd memberKey projection) db)) (\<lambda>(db', _). Inr db')"

definition StoreLexical :: "codec \<Rightarrow> sqlenv \<Rightarrow> int \<Rightarrow> string \<Rightarrow> string \<Rightarrow> Projection \<Rightarrow> catalog \<Rightarrow> catalog \<times> (retrieve_error, string) result" where
  "StoreLexical cd q now gid memberKey projection db =
     (let spec = lexicalSpec cd memberKey projection in
      case PutArtifact cd q now \<lparr>asp_Kind = ras_Kind spec, asp_Payload = pj_Text projection,
          asp_Dependencies = ras_Dependencies spec, asp_ContextFingerprint = ras_ContextFingerprint spec\<rparr> db of
        Inl e \<Rightarrow> (db, Inl (OfCatalog e))
      | Inr (db1, key, a) \<Rightarrow> (case PutLexicalRecord cd q gid memberKey (pj_Text projection) db1 of
          Inl e \<Rightarrow> (db1, Inl (OfCatalog e))
        | Inr (db2, _) \<Rightarrow> fulfil cd q gid spec key db2))"

text \<open>
  \<^verbatim>\<open>EnsureEmbedding\<close>; \<open>ask\<close> is the provider on a list of texts. The third component lists the requests made to it.
\<close>

definition EnsureEmbedding :: "codec \<Rightarrow> float_lib \<Rightarrow> sqlenv \<Rightarrow> int \<Rightarrow> Identity \<Rightarrow> (string list \<Rightarrow> (string, float32 list list) result) \<Rightarrow>
    string \<Rightarrow> string \<Rightarrow> string \<Rightarrow> Projection \<Rightarrow> catalog \<Rightarrow> catalog \<times> (retrieve_error, string) result \<times> string list list" where
  "EnsureEmbedding cd fl q now identity ask gid role memberKey projection db =
     (case RequireEmbedding cd q gid role memberKey identity projection db of
        Inl e \<Rightarrow> (db, Inl e, [])
      | Inr db1 \<Rightarrow> (case ReuseEmbedding cd fl q role memberKey identity projection db1 of
          Inl e \<Rightarrow> (db1, Inl e, [])
        | Inr (Some (vector, key)) \<Rightarrow>
            (case fulfil cd q gid (embeddingSpec cd role memberKey identity projection) key db1 of (db2, r) \<Rightarrow> (db2, r, []))
        | Inr None \<Rightarrow> (case ask [pj_Text projection] of
            Inl e \<Rightarrow> (db1, Inl (ProviderFailed e), [[pj_Text projection]])
          | Inr [vector] \<Rightarrow> (case StoreEmbedding cd fl q now gid role memberKey identity projection vector db1 of
              (db2, r) \<Rightarrow> (db2, r, [[pj_Text projection]]))
          | Inr vs \<Rightarrow> (db1, Inl (ProviderVectorCount (length vs)), [[pj_Text projection]]))))"

section \<open>Loading the indexes\<close>

fun vector_records :: "float_lib \<Rightarrow> GenerationArtifact list \<Rightarrow> (retrieve_error, (string \<times> float32 list) list) result" where
  "vector_records fl [] = Inr []"
| "vector_records fl (g # gs) = (let a = snd (gart_Artifact g) in
     if art_Kind a \<noteq> EmbeddingArtifactKind then Inl (WrongKind (gart_Role g) (gart_MemberKey g))
     else case decodeVectorPayload fl (art_Payload a) of Inl e \<Rightarrow> Inl (DecodeEmbedding (gart_MemberKey g) e)
     | Inr vector \<Rightarrow> rbind (vector_records fl gs) (\<lambda>rest. Inr ((gart_MemberKey g, vector) # rest)))"

definition lift_index :: "(retrieval_error, 'a) result \<Rightarrow> (retrieve_error, 'a) result" where
  "lift_index r = (case r of Inl e \<Rightarrow> Inl (OfIndex e) | Inr x \<Rightarrow> Inr x)"

definition LoadVectorIndex :: "codec \<Rightarrow> float_lib \<Rightarrow> sqlenv \<Rightarrow> catalog \<Rightarrow> string \<Rightarrow> string \<Rightarrow> (retrieve_error, VectorIndex) result" where
  "LoadVectorIndex cd fl q db gid role =
     rbind (lift_catalog (GenerationArtifacts cd q db gid role)) (\<lambda>artifacts.
     rbind (vector_records fl artifacts) (\<lambda>records. lift_index (NewVectorIndex fl records)))"

definition LoadLexicalIndex :: "codec \<Rightarrow> unicode_lib \<Rightarrow> float_lib \<Rightarrow> sqlenv \<Rightarrow> catalog \<Rightarrow> string \<Rightarrow> (retrieve_error, LexicalIndex) result" where
  "LoadLexicalIndex cd u fl q db gid =
     rbind (lift_catalog (LexicalRecords cd q db gid)) (\<lambda>records.
     lift_index (NewLexicalIndex u fl (map (\<lambda>(m, f, t). (m, t)) records)))"

end
