(* ===== verification/RetrievalStoreFacts.thy ===== *)
theory RetrievalStoreFacts
  imports RetrievalStore RetrievalFacts RoutingPrefs
begin

text \<open>
  Embeddings are computed once: whatever happens to the catalog after an embedding was stored, short of clearing the index,
  asking again for the same text of the same provider never calls the provider.
\<close>

definition reusable :: "codec \<Rightarrow> catalog \<Rightarrow> string \<Rightarrow> ArtifactDependency list \<Rightarrow> string \<Rightarrow> bool" where
  "reusable cd db kind deps context \<longleftrightarrow> (\<exists>normalized depfp key a. normalizeDependencies cd deps = Inr (normalized, depfp) \<and>
     map_of (artifacts db) key = Some a \<and> art_Kind a = kind \<and> art_DependencyFingerprint a = depfp \<and> art_ContextFingerprint a = context)"

lemma reusable_grows: "reusable cd db kind deps context \<Longrightarrow> content_grows db db' \<Longrightarrow> reusable cd db' kind deps context"
  unfolding reusable_def content_grows_def by (metis domI map_le_def)

lemma rbind_Inl_iff: "rbind m f = Inl e \<longleftrightarrow> m = Inl e \<or> (\<exists>x. m = Inr x \<and> f x = Inl e)"
  by (cases m) (simp_all add: rbind_def)

lemma not_no_rows: "guard b e = Inl ErrNoRows \<longleftrightarrow> b \<and> e = ErrNoRows" "sql q db l \<noteq> Inl ErrNoRows"
  by (simp_all add: guard_def sql_def)

lemma ReusableArtifact_no_rows:
  assumes "map_of (artifacts db) key \<noteq> None" and "normalizeDependencies cd deps \<noteq> Inl ErrNoRows"
  shows "ReusableArtifact cd q db key deps context \<noteq> Inl ErrNoRows"
  using assms unfolding ReusableArtifact_def verifyArtifactDependencies_def
  by (auto simp: rbind_Inl_iff not_no_rows scanArtifact_def split: option.splits)

lemma Find_no_rows:
  assumes "reusable cd db kind deps context"
  shows "FindReusableArtifact cd q db kind deps context \<noteq> Inl ErrNoRows"
proof -
  obtain normalized depfp key a where n: "normalizeDependencies cd deps = Inr (normalized, depfp)"
    and a: "map_of (artifacts db) key = Some a" "art_Kind a = kind" "art_DependencyFingerprint a = depfp" "art_ContextFingerprint a = context"
    using assms by (auto simp: reusable_def)
  let ?keys = "sort (map fst (filter (\<lambda>(k, a). art_Kind a = kind \<and> art_DependencyFingerprint a = depfp \<and> art_ContextFingerprint a = context) (artifacts db)))"
  have "(key, a) \<in> set (filter (\<lambda>(k, a). art_Kind a = kind \<and> art_DependencyFingerprint a = depfp \<and> art_ContextFingerprint a = context) (artifacts db))"
    using a by (auto dest: map_of_SomeD)
  then have "key \<in> set ?keys" by force
  then obtain k ks where ks: "?keys = k # ks" by (cases ?keys) auto
  then have "k \<in> set ?keys" by simp
  then have "map_of (artifacts db) k \<noteq> None" by (auto simp: map_of_eq_None_iff)
  then have r: "ReusableArtifact cd q db k deps context \<noteq> Inl ErrNoRows" by (rule ReusableArtifact_no_rows) (simp add: n)
  show ?thesis using r unfolding FindReusableArtifact_def n rbind_Inr prod.case ks
    by (auto simp: rbind_Inl_iff not_no_rows)
qed

lemma Find_reusable:
  assumes "FindReusableArtifact cd q db kind deps context = Inr (key, a)"
  shows "reusable cd db kind deps context"
proof -
  obtain normalized depfp where n: "normalizeDependencies cd deps = Inr (normalized, depfp)"
    using assms by (auto simp: FindReusableArtifact_def rbind_Inr_iff)
  obtain k where "ReusableArtifact cd q db k deps context = Inr (key, a)" "art_Kind a = kind"
    using assms by (auto simp: FindReusableArtifact_def n rbind_Inr_iff rbind_Inr guard_Inr split: list.splits)
  then have "map_of (artifacts db) key = Some a" "art_DependencyFingerprint a = depfp" "art_ContextFingerprint a = context"
    by (auto simp: ReusableArtifact_def n rbind_Inr_iff rbind_Inr guard_Inr scanArtifact_def split: option.splits)
  with n \<open>art_Kind a = kind\<close> show ?thesis by (auto simp: reusable_def)
qed

definition embedding_deps :: "codec \<Rightarrow> Identity \<Rightarrow> Projection \<Rightarrow> ArtifactDependency list" where
  "embedding_deps cd i p = [(''embedding.input'', pj_Fingerprint p), (''embedding.provider'', Identity_Fingerprint cd i),
     (''embedding.projection'', fingerprintText cd (pj_Version p))]"

abbreviation embedded :: "codec \<Rightarrow> Identity \<Rightarrow> Projection \<Rightarrow> catalog \<Rightarrow> bool" where
  "embedded cd i p db \<equiv> reusable cd db EmbeddingArtifactKind (embedding_deps cd i p) []"

lemma spec_simps [simp]:
  "ras_Kind (embeddingSpec cd role m i p) = EmbeddingArtifactKind" "ras_ContextFingerprint (embeddingSpec cd role m i p) = []"
  "ras_Dependencies (embeddingSpec cd role m i p) = embedding_deps cd i p"
  by (simp_all add: embeddingSpec_def embedding_deps_def)

lemma fulfil_content: "fulfil cd q gid spec key db = (db', r) \<Longrightarrow> content_grows db db'"
  by (auto simp: fulfil_def split: prod.splits option.splits dest!: content_frames2(6) intro: same_content_grows)

lemma StoreEmbedding_stored:
  assumes "StoreEmbedding cd fl q now gid role m i p v db = (db', Inr key)"
  shows "embedded cd i p db'"
proof -
  let ?spec = "\<lambda>payload. \<lparr>asp_Kind = EmbeddingArtifactKind, asp_Payload = payload,
             asp_Dependencies = embedding_deps cd i p, asp_ContextFingerprint = []\<rparr>"
  let ?x = "rbind (valid_or OfEmbedding (Identity_Validate i)) (\<lambda>_.
           rbind (valid_or OfEmbedding (ValidateVector fl v (expected_dimensions i))) (\<lambda>_.
           rbind (case encodeVectorPayload fl v of Inl e \<Rightarrow> Inl (OfEmbedding e) | Inr p \<Rightarrow> Inr p) (\<lambda>payload.
           lift_catalog (PutArtifact cd q now (?spec payload) db))))"
  have st: "StoreEmbedding cd fl q now gid role m i p v db =
      (case ?x of Inl e \<Rightarrow> (db, Inl e) | Inr (db1, key, a) \<Rightarrow> fulfil cd q gid (embeddingSpec cd role m i p) key db1)"
    by (simp add: StoreEmbedding_def Let_def)
  obtain db1 k a where x: "?x = Inr (db1, k, a)" and f: "fulfil cd q gid (embeddingSpec cd role m i p) k db1 = (db', Inr key)"
    using assms unfolding st by (cases ?x) auto
  from x obtain payload where put: "PutArtifact cd q now (?spec payload) db = Inr (db1, k, a)"
    by (elim rbind_InrE) (auto simp: lift_catalog_def split: sum.splits)
  have "embedded cd i p db1"
    using put
  proof (rule PutArtifact_db)
    fix deps depfp d
    assume n: "normalizeDependencies cd (asp_Dependencies \<lparr>asp_Kind = EmbeddingArtifactKind, asp_Payload = payload,
             asp_Dependencies = embedding_deps cd i p, asp_ContextFingerprint = []\<rparr>) = Inr (deps, depfp)"
      and a: "map_of (artifacts d) k = Some a" and st: "store_dependencies q k deps d = Inr db1"
      and f: "art_Kind a = asp_Kind \<lparr>asp_Kind = EmbeddingArtifactKind, asp_Payload = payload,
             asp_Dependencies = embedding_deps cd i p, asp_ContextFingerprint = []\<rparr>"
        "art_DependencyFingerprint a = depfp" "art_ContextFingerprint a = asp_ContextFingerprint \<lparr>asp_Kind = EmbeddingArtifactKind, asp_Payload = payload,
             asp_Dependencies = embedding_deps cd i p, asp_ContextFingerprint = []\<rparr>"
    have "artifacts db1 = artifacts d" using store_dependencies_frame [OF st] by simp
    with n a f show ?thesis by (auto simp: reusable_def)
  qed
  from reusable_grows [OF this fulfil_content [OF f]] show ?thesis .
qed

lemma Ensure_eqs:
  "RequireEmbedding cd q gid role m i p db = Inl e \<Longrightarrow> EnsureEmbedding cd fl q now i ask gid role m p db = (db, Inl e, [])"
  "RequireEmbedding cd q gid role m i p db = Inr db1 \<Longrightarrow> ReuseEmbedding cd fl q role m i p db1 = Inl e \<Longrightarrow>
    EnsureEmbedding cd fl q now i ask gid role m p db = (db1, Inl e, [])"
  "RequireEmbedding cd q gid role m i p db = Inr db1 \<Longrightarrow> ReuseEmbedding cd fl q role m i p db1 = Inr (Some (v, k)) \<Longrightarrow>
    EnsureEmbedding cd fl q now i ask gid role m p db =
      (fst (fulfil cd q gid (embeddingSpec cd role m i p) k db1), snd (fulfil cd q gid (embeddingSpec cd role m i p) k db1), [])"
  "RequireEmbedding cd q gid role m i p db = Inr db1 \<Longrightarrow> ReuseEmbedding cd fl q role m i p db1 = Inr None \<Longrightarrow>
    EnsureEmbedding cd fl q now i ask gid role m p db = (case ask [pj_Text p] of
            Inl e \<Rightarrow> (db1, Inl (ProviderFailed e), [[pj_Text p]])
          | Inr [v] \<Rightarrow> (fst (StoreEmbedding cd fl q now gid role m i p v db1), snd (StoreEmbedding cd fl q now gid role m i p v db1), [[pj_Text p]])
          | Inr vs \<Rightarrow> (db1, Inl (ProviderVectorCount (length vs)), [[pj_Text p]]))"
  by (simp_all add: EnsureEmbedding_def case_prod_beta cong: sum.case_cong list.case_cong)

text \<open>The four ways a call goes.\<close>

lemma Ensure_cases:
  assumes "EnsureEmbedding cd fl q now i ask gid role m p db = (db', r, requests)"
  obtains e where "r = Inl e" "requests = []"
  | db1 v k where "RequireEmbedding cd q gid role m i p db = Inr db1" "ReuseEmbedding cd fl q role m i p db1 = Inr (Some (v, k))"
      "fulfil cd q gid (embeddingSpec cd role m i p) k db1 = (db', r)" "requests = []"
  | db1 v where "RequireEmbedding cd q gid role m i p db = Inr db1" "ReuseEmbedding cd fl q role m i p db1 = Inr None"
      "StoreEmbedding cd fl q now gid role m i p v db1 = (db', r)" "requests = [[pj_Text p]]"
  | db1 e where "RequireEmbedding cd q gid role m i p db = Inr db1" "ReuseEmbedding cd fl q role m i p db1 = Inr None"
      "r = Inl e" "requests = [[pj_Text p]]"
proof (cases "RequireEmbedding cd q gid role m i p db")
  case (Inl e)
  then show thesis using assms that(1) [of e] unfolding Ensure_eqs(1) [OF Inl] by simp
next
  case req: (Inr db1)
  show thesis
  proof (cases "ReuseEmbedding cd fl q role m i p db1")
    case (Inl e)
    then show thesis using assms that(1) [of e] unfolding Ensure_eqs(2) [OF req Inl] by simp
  next
    case found: (Inr found)
    show thesis
    proof (cases found)
      case (Some vk)
      then obtain v k where vk: "found = Some (v, k)" by (cases vk) simp
      show thesis using assms that(2) [OF req found [unfolded vk]] unfolding Ensure_eqs(3) [OF req found [unfolded vk]]
        by (simp add: prod_eq_iff)
    next
      case None
      note E = assms [unfolded Ensure_eqs(4) [OF req found [unfolded None]]]
      show thesis
      proof (cases "ask [pj_Text p]")
        case (Inl e)
        then show thesis using E that(4) [OF req found [unfolded None], of "ProviderFailed e"] by simp
      next
        case (Inr vs)
        consider v where "vs = [v]" | "\<nexists>v. vs = [v]" by blast
        then show thesis
        proof cases
          case (1 v)
          then show thesis using E Inr that(3) [OF req found [unfolded None], of v] by (simp add: prod_eq_iff)
        next
          case 2
          then have "r = Inl (ProviderVectorCount (length vs))" "requests = [[pj_Text p]]"
            using E Inr by (auto split: list.splits)
          then show thesis using that(4) [OF req found [unfolded None]] by blast
        qed
      qed
    qed
  qed
qed

lemma Reuse_Some:
  assumes "ReuseEmbedding cd fl q role m i p db = Inr (Some (v, k))"
  shows "embedded cd i p db"
proof -
  have "\<exists>a. FindReusableArtifact cd q db EmbeddingArtifactKind (embedding_deps cd i p) [] = Inr (k, a)"
  proof (cases "FindReusableArtifact cd q db EmbeddingArtifactKind (embedding_deps cd i p) []")
    case (Inl e)
    then show ?thesis using assms by (cases e) (simp_all add: ReuseEmbedding_def)
  next
    case (Inr ka)
    then show ?thesis using assms by (cases ka) (auto simp: ReuseEmbedding_def rbind_Inr_iff split: sum.splits)
  qed
  then show ?thesis using Find_reusable by blast
qed

lemma Reuse_None:
  assumes "embedded cd i p db" shows "ReuseEmbedding cd fl q role m i p db \<noteq> Inr None"
proof (cases "FindReusableArtifact cd q db EmbeddingArtifactKind (embedding_deps cd i p) []")
  case (Inl e)
  then show ?thesis using Find_no_rows [OF assms, of q] by (cases e) (simp_all add: ReuseEmbedding_def)
next
  case (Inr ka)
  then show ?thesis by (cases ka) (auto simp: ReuseEmbedding_def rbind_Inr_iff split: sum.splits)
qed

lemma EnsureEmbedding_stored:
  assumes "EnsureEmbedding cd fl q now i ask gid role m p db = (db', Inr key, requests)"
  shows "embedded cd i p db'"
  using assms
proof (cases rule: Ensure_cases)
  case (2 db1 v k)
  from reusable_grows [OF Reuse_Some [OF 2(2)] fulfil_content [OF 2(3)]] show ?thesis .
next
  case (3 db1 v)
  from 3(3) show ?thesis by (rule StoreEmbedding_stored)
qed simp_all

lemma RequireEmbedding_content: "RequireEmbedding cd q gid role m i p db = Inr db1 \<Longrightarrow> content_grows db db1"
  by (auto simp: RequireEmbedding_def rbind_Inr_iff lift_catalog_def split: sum.splits dest!: content_frames(13) intro: same_content_grows)

lemma embedded_no_requests:
  assumes "embedded cd i p db" and "EnsureEmbedding cd fl q now i ask gid role m p db = (db', r, requests)"
  shows "requests = []"
  using assms(2)
proof (cases rule: Ensure_cases)
  case (3 db1 v)
  with Reuse_None [OF reusable_grows [OF assms(1) RequireEmbedding_content [OF 3(1)]]] show ?thesis by blast
next
  case (4 db1 e)
  with Reuse_None [OF reusable_grows [OF assms(1) RequireEmbedding_content [OF 4(1)]]] show ?thesis by blast
qed simp_all

text \<open>
  The provider is asked at most once for an embedding: one call makes at most one request, for the projected text alone;
  and after a call that succeeded, a call for the same text and provider (any generation, role and member), in any catalog reached
  by further catalog operations, makes none.
\<close>

theorem EnsureEmbedding_asks_once:
  assumes "EnsureEmbedding cd fl q now i ask gid role m p db = (db1, Inr key, requests)"
    and "(cat_step cd)\<^sup>*\<^sup>* db1 db2"
    and "EnsureEmbedding cd fl q' now' i ask' gid' role' m' p db2 = (db3, r, requests')"
  shows "requests' = [] \<and> (requests = [] \<or> requests = [[pj_Text p]])"
proof
  show "requests' = []"
    by (rule embedded_no_requests [OF reusable_grows [OF EnsureEmbedding_stored [OF assms(1)] steps_content [OF assms(2)]] assms(3)])
  show "requests = [] \<or> requests = [[pj_Text p]]" using assms(1) by (cases rule: Ensure_cases) simp_all
qed

definition sample_identity :: Identity where
  "sample_identity = \<lparr>id_Provider = ''local'', id_BaseURL = [], id_Model = ''m'', id_ModelSHA256 = [], id_Dimensions = Some 2,
     id_Pooling = [], id_Runtime = [], id_Protocol = ''p''\<rparr>"

definition sample_projection :: Projection where
  "sample_projection = newProjection sample_codec ''v1'' ''text''"

definition ensure_db :: catalog where
  "ensure_db = projr (RequireEmbedding sample_codec sample_q ''g'' ''role'' ''m'' sample_identity sample_projection sample_created)"

definition unit_bytes :: string where
  "unit_bytes = [CHR 0x00, CHR 0x00, CHR 0x00, CHR 0x02, CHR 0x3F, CHR 0x80, CHR 0x00, CHR 0x00, CHR 0x00, CHR 0x00, CHR 0x00, CHR 0x00]"

lemma unit_bytes: "PutUint32 (of_nat (length unit_x)) @ concat (map PutUint32 unit_x) = unit_bytes"
  by (simp add: unit_bytes_def PutUint32_def unit_x_def f32_one_def char_of_def bit_0)

definition unit_artifact :: ArtifactSpec where
  "unit_artifact = \<lparr>asp_Kind = EmbeddingArtifactKind,
     asp_Payload = vectorPayloadMagic @ unit_bytes,
     asp_Dependencies = embedding_deps sample_codec sample_identity sample_projection, asp_ContextFingerprint = []\<rparr>"

definition unit_stored :: "catalog \<times> (retrieve_error, string) result" where
  "unit_stored = (case PutArtifact sample_codec sample_q 1 unit_artifact ensure_db of Inl e \<Rightarrow> (ensure_db, Inl (OfCatalog e))
     | Inr (db1, key, a) \<Rightarrow> fulfil sample_codec sample_q ''g'' (embeddingSpec sample_codec ''role'' ''m'' sample_identity sample_projection) key db1)"

lemma unit_StoreEmbedding:
  "StoreEmbedding sample_codec exact_lib sample_q 1 ''g'' ''role'' ''m'' sample_identity sample_projection unit_x ensure_db = unit_stored"
proof -
  have "Identity_Validate sample_identity = None" "expected_dimensions sample_identity = 2" by code_simp+
  then show ?thesis
    by (simp add: StoreEmbedding_def unit_stored_def unit_artifact_def encodeVectorPayload_def unit_bytes units valid_or_def rbind_Inr lift_catalog_def
        split: sum.split)
qed

lemma unit_ensure:
  "EnsureEmbedding sample_codec exact_lib sample_q 1 sample_identity (\<lambda>_. Inr [unit_x]) ''g'' ''role'' ''m'' sample_projection sample_created =
     (fst unit_stored, snd unit_stored, [[''text'']])"
proof -
  let ?r = "RequireEmbedding sample_codec sample_q ''g'' ''role'' ''m'' sample_identity sample_projection sample_created"
  have "\<not> isl ?r" by code_simp
  then have r: "?r = Inr ensure_db" by (cases ?r) (simp_all add: ensure_db_def)
  have f: "FindReusableArtifact sample_codec sample_q ensure_db EmbeddingArtifactKind (embedding_deps sample_codec sample_identity sample_projection) [] = Inl ErrNoRows"
    by code_simp
  then have u: "ReuseEmbedding sample_codec exact_lib sample_q ''role'' ''m'' sample_identity sample_projection ensure_db = Inr None"
    by (simp add: ReuseEmbedding_def)
  have "pj_Text sample_projection = ''text''" by (simp add: sample_projection_def newProjection_def)
  then show ?thesis by (simp add: Ensure_eqs(4) [OF r u] unit_StoreEmbedding)
qed

theorem EnsureEmbedding_asks_once_witness:
  "snd (snd (EnsureEmbedding sample_codec exact_lib sample_q 2 sample_identity (\<lambda>_. Inl ''down'') ''g'' ''other'' ''m2'' sample_projection (fst unit_stored))) = []"
proof -
  have "\<not> isl (snd unit_stored)" by code_simp
  then have "snd unit_stored = Inr (projr (snd unit_stored))" by (cases "snd unit_stored") simp_all
  with unit_ensure have E: "EnsureEmbedding sample_codec exact_lib sample_q 1 sample_identity (\<lambda>_. Inr [unit_x]) ''g'' ''role'' ''m'' sample_projection sample_created =
      (fst unit_stored, Inr (projr (snd unit_stored)), [[''text'']])" by simp
  let ?e = "EnsureEmbedding sample_codec exact_lib sample_q 2 sample_identity (\<lambda>_. Inl ''down'') ''g'' ''other'' ''m2'' sample_projection (fst unit_stored)"
  have e: "?e = (fst ?e, fst (snd ?e), snd (snd ?e))" by simp
  from EnsureEmbedding_asks_once [OF E rtranclp.rtrancl_refl e] show "snd (snd ?e) = []" by blast
qed

end
