(* ===== verification/Enrichment.thy ===== *)
theory Enrichment
  imports RetrievalStore CatalogBatches
begin

text \<open>
  Semantic enrichment, data and checks: \<^verbatim>\<open>internal/enrichment\<close> (types.go, helpers.go, canonical.go; the operations are in
  \<open>EnrichmentService\<close>). An agent writes guidance for every tool and a hierarchy of capabilities over all tools; what it submits
  is validated here.

  A struct that is marshalled without raw JSON is its \<open>json\<close> value in field order, with \<^verbatim>\<open>omitempty\<close> written out; requests,
  which embed stored contracts verbatim, and all decoders are the record \<open>enrich_lib\<close>. A nil slice and an empty one are the same list.
\<close>

section \<open>Types\<close>

definition ToolEnrichmentArtifactKind :: string where "ToolEnrichmentArtifactKind = ''semantic.tool-enrichment/v1''"
definition CapabilityHierarchyArtifactKind :: string where "CapabilityHierarchyArtifactKind = ''semantic.capability-hierarchy/v1''"
definition RoleToolEnrichment :: string where "RoleToolEnrichment = ''semantic.tool_enrichment''"
definition RoleCapabilityHierarchy :: string where "RoleCapabilityHierarchy = ''semantic.capability_hierarchy''"
definition RoleEnrichedEmbedding :: string where "RoleEnrichedEmbedding = ''embedding.enriched''"
definition ToolEnrichmentProtocolVersion :: string where "ToolEnrichmentProtocolVersion = ''tool-enrichment/v1''"
definition CapabilityProtocolVersion :: string where "CapabilityProtocolVersion = ''capability-reconciliation/v1''"
definition AmbiguityReviewProtocolVersion :: string where "AmbiguityReviewProtocolVersion = ''ambiguity-review/v1''"
definition EnrichedProjectionVersion :: string where "EnrichedProjectionVersion = ''enriched-routing-guidance/v1''"
definition NeighborhoodAlgorithmVersion :: string where
  "NeighborhoodAlgorithmVersion = ''semantic-neighborhood/exact-cosine-source-description/v1''"

record enrich_options =
  eo_NeighborhoodSize :: int
  eo_ToolBatchSize :: int
  eo_MaxToolBatchBytes :: int
  eo_MaxReconciliationTools :: int
  eo_MaxReconciliationBytes :: int

definition withDefaults :: "enrich_options \<Rightarrow> enrich_options" where
  "withDefaults o' =
     \<lparr>eo_NeighborhoodSize = (if eo_NeighborhoodSize o' \<le> 0 then 8 else eo_NeighborhoodSize o'),
      eo_ToolBatchSize = (if eo_ToolBatchSize o' \<le> 0 then 8 else eo_ToolBatchSize o'),
      eo_MaxToolBatchBytes = (if eo_MaxToolBatchBytes o' \<le> 0 then 256 * 1024 else eo_MaxToolBatchBytes o'),
      eo_MaxReconciliationTools = (if eo_MaxReconciliationTools o' \<le> 0 then 2000 else eo_MaxReconciliationTools o'),
      eo_MaxReconciliationBytes = (if eo_MaxReconciliationBytes o' \<le> 0 then 4 * 1024 * 1024 else eo_MaxReconciliationBytes o')\<rparr>"

record ToolRef =
  tr_MemberKey :: string
  tr_ServerID :: string
  tr_ToolName :: string
  tr_SourceFingerprint :: string
  tr_Contract :: string

record NeighborRef =
  nb_Rank :: nat
  nb_Tool :: ToolRef

record ToolWork =
  tw_Tool :: ToolRef
  tw_Neighbors :: "NeighborRef list"
  tw_NeighborhoodContextFingerprint :: string

record ToolBatchRequest =
  tbr_Protocol :: string
  tbr_Items :: "ToolWork list"

record ToolGuidance =
  tgd_Purpose :: string
  tgd_UseWhen :: "string list"
  tgd_AvoidWhen :: "string list"
  tgd_Examples :: "string list"
  tgd_ArgumentGuidance :: "(string \<times> string) list"
  tgd_Preconditions :: "string list"
  tgd_OutputInterpretation :: string
  tgd_Alternatives :: "string list"
  tgd_Capabilities :: "string list"

record ToolEnrichmentResult =
  ter_MemberKey :: string
  ter_Guidance :: ToolGuidance

record CapabilityInputItem =
  cii_Tool :: ToolRef
  cii_Enrichment :: string

record CapabilityBatchRequest =
  cbr_Protocol :: string
  cbr_Items :: "CapabilityInputItem list"

record CapabilityNode =
  cn_ID :: string
  cn_Name :: string
  cn_Description :: string
  cn_ParentID :: string
  cn_ToolMembers :: "string list"

record CapabilityHierarchy =
  ch_Protocol :: string
  ch_Capabilities :: "CapabilityNode list"

record AmbiguityProposal =
  ap_Summary :: string
  ap_CompetingTools :: "string list"
  ap_ProsCons :: "(string \<times> string list \<times> string list) list"
  ap_ConditionalUseCases :: "string list"
  ap_SuggestedOptions :: "string list"

record CapabilityBatchResponse =
  cbs_Hierarchy :: CapabilityHierarchy
  cbs_Ambiguities :: "AmbiguityProposal list"

definition AmbiguityNeutral :: string where "AmbiguityNeutral = ''neutral''"
definition AmbiguityPreference :: string where "AmbiguityPreference = ''preference''"

record AmbiguityReviewResponse =
  arr_Resolution :: string
  arr_PreferenceIDs :: "string list"

record enrich_lib =
  el_codec :: codec
  el_marshal_tool_request :: "ToolBatchRequest \<Rightarrow> string option"
  el_tool_request :: "string \<Rightarrow> ToolBatchRequest option"
  el_tool_response :: "string \<Rightarrow> ToolEnrichmentResult list option"
  el_guidance :: "string \<Rightarrow> ToolGuidance option"
  el_marshal_capability_request :: "CapabilityBatchRequest \<Rightarrow> string option"
  el_capability_request :: "string \<Rightarrow> CapabilityBatchRequest option"
  el_capability_response :: "string \<Rightarrow> CapabilityBatchResponse option"
  el_hierarchy :: "string \<Rightarrow> CapabilityHierarchy option"
  el_review_response :: "string \<Rightarrow> AmbiguityReviewResponse option"

definition MemberKey :: "string \<Rightarrow> string \<Rightarrow> string" where
  "MemberKey serverID toolName = serverID @ ''/'' @ toolName"

definition member_of :: "SourceToolRecord \<Rightarrow> string" where
  "member_of source = MemberKey (rec_ServerID source) (rec_ToolName source)"

section \<open>JSON values of the structs\<close>

definition strings_json :: "string list \<Rightarrow> json" where
  "strings_json xs = JArr (map JStr xs)"

definition omit_strings :: "string \<Rightarrow> string list \<Rightarrow> (string \<times> json) list" where
  "omit_strings name xs = (if xs = [] then [] else [(name, strings_json xs)])"

text \<open>A Go map is marshalled with sorted keys.\<close>

definition guidance_json :: "ToolGuidance \<Rightarrow> json" where
  "guidance_json g = JObj ((''purpose'', JStr (tgd_Purpose g)) #
     omit_strings ''use_when'' (tgd_UseWhen g) @ omit_strings ''avoid_when'' (tgd_AvoidWhen g) @ omit_strings ''examples'' (tgd_Examples g) @
     (if tgd_ArgumentGuidance g = [] then [] else
       [(''argument_guidance'', JObj (map (\<lambda>(k, v). (k, JStr v)) (sort_key fst (tgd_ArgumentGuidance g))))]) @
     omit_strings ''preconditions'' (tgd_Preconditions g) @ omit_empty ''output_interpretation'' (tgd_OutputInterpretation g) @
     omit_strings ''alternatives'' (tgd_Alternatives g) @ omit_strings ''capabilities'' (tgd_Capabilities g))"

definition response_json :: "ToolEnrichmentResult list \<Rightarrow> json" where
  "response_json items = JObj [(''items'', JArr (map (\<lambda>i. JObj [(''member_key'', JStr (ter_MemberKey i)), (''guidance'', guidance_json (ter_Guidance i))]) items))]"

definition node_json :: "CapabilityNode \<Rightarrow> json" where
  "node_json n = JObj ([(''id'', JStr (cn_ID n)), (''name'', JStr (cn_Name n))] @ omit_empty ''description'' (cn_Description n) @
     omit_empty ''parent_id'' (cn_ParentID n) @ omit_strings ''tool_members'' (cn_ToolMembers n))"

definition hierarchy_json :: "CapabilityHierarchy \<Rightarrow> json" where
  "hierarchy_json h = JObj [(''protocol'', JStr (ch_Protocol h)), (''capabilities'', JArr (map node_json (ch_Capabilities h)))]"

definition proposal_json :: "AmbiguityProposal \<Rightarrow> json" where
  "proposal_json p = JObj ([(''summary'', JStr (ap_Summary p)), (''competing_tools'', strings_json (ap_CompetingTools p))] @
     (if ap_ProsCons p = [] then [] else [(''pros_cons'', JObj (map (\<lambda>(k, pros, cons).
        (k, JObj (omit_strings ''pros'' pros @ omit_strings ''cons'' cons))) (sort_key fst (ap_ProsCons p))))]) @
     omit_strings ''conditional_use_cases'' (ap_ConditionalUseCases p) @ omit_strings ''suggested_options'' (ap_SuggestedOptions p))"

definition capability_response_json :: "CapabilityBatchResponse \<Rightarrow> json" where
  "capability_response_json r = JObj ((''hierarchy'', hierarchy_json (cbs_Hierarchy r)) #
     (if cbs_Ambiguities r = [] then [] else [(''ambiguities'', JArr (map proposal_json (cbs_Ambiguities r)))]))"

definition review_request_json :: "AmbiguityProposal \<Rightarrow> string \<Rightarrow> json" where
  "review_request_json p gid = JObj [(''protocol'', JStr AmbiguityReviewProtocolVersion), (''proposal'', proposal_json p), (''generation_id'', JStr gid)]"

definition review_response_json :: "AmbiguityReviewResponse \<Rightarrow> json" where
  "review_response_json r = JObj ((''resolution'', JStr (arr_Resolution r)) # omit_strings ''preference_ids'' (arr_PreferenceIDs r))"

section \<open>Identities\<close>

definition toolRef :: "SourceToolRecord \<Rightarrow> ToolRef" where
  "toolRef source = \<lparr>tr_MemberKey = member_of source, tr_ServerID = rec_ServerID source, tr_ToolName = rec_ToolName source,
     tr_SourceFingerprint = rec_SourceFingerprint source, tr_Contract = rec_ContractJSON source\<rparr>"

definition neighborhoodFingerprint :: "codec \<Rightarrow> ToolWork \<Rightarrow> string" where
  "neighborhoodFingerprint cd work = FingerprintJSON cd (marshal_json cd (JObj
     [(''algorithm'', JStr NeighborhoodAlgorithmVersion),
      (''self'', JObj [(''member_key'', JStr (tr_MemberKey (tw_Tool work))), (''fingerprint'', JStr (tr_SourceFingerprint (tw_Tool work)))]),
      (''neighbors'', JArr (map (\<lambda>n. JObj [(''rank'', JNum (format_int (int (nb_Rank n)))), (''member_key'', JStr (tr_MemberKey (nb_Tool n))),
         (''fingerprint'', JStr (tr_SourceFingerprint (nb_Tool n)))]) (tw_Neighbors work)))]))"

definition toolArtifactSpec :: "codec \<Rightarrow> ToolWork \<Rightarrow> RequiredArtifactSpec" where
  "toolArtifactSpec cd work = \<lparr>ras_Role = RoleToolEnrichment, ras_MemberKey = tr_MemberKey (tw_Tool work), ras_Kind = ToolEnrichmentArtifactKind,
     ras_Dependencies = [(''enrichment.protocol'', fingerprintText cd ToolEnrichmentProtocolVersion), (''source.self'', tr_SourceFingerprint (tw_Tool work))],
     ras_ContextFingerprint = []\<rparr>"

definition enrichedEmbeddingGate :: "codec \<Rightarrow> ToolWork \<Rightarrow> Identity \<Rightarrow> string \<times> string" where
  "enrichedEmbeddingGate cd work i = (''enriched-embedding:'' @ tr_MemberKey (tw_Tool work), FingerprintJSON cd (marshal_json cd (JObj
     [(''projection'', JStr EnrichedProjectionVersion), (''provider'', JStr (Identity_Fingerprint cd i)),
      (''source'', JStr (tr_SourceFingerprint (tw_Tool work)))])))"

definition enrichedProjection :: "enrich_lib \<Rightarrow> ToolWork \<Rightarrow> string \<Rightarrow> Projection option" where
  "enrichedProjection lib work payload = (case el_guidance lib payload of None \<Rightarrow> None
     | Some g \<Rightarrow> Some (newProjection (el_codec lib) EnrichedProjectionVersion (marshal_json (el_codec lib) (JObj
         [(''member_key'', JStr (tr_MemberKey (tw_Tool work))), (''tool_name'', JStr (tr_ToolName (tw_Tool work))), (''guidance'', guidance_json g)]))))"

definition capabilityReconciliationGate :: "codec \<Rightarrow> SourceToolRecord list \<Rightarrow> string \<times> string" where
  "capabilityReconciliationGate cd sources = (''capability-reconciliation:global'', FingerprintJSON cd (marshal_json cd (JObj
     [(''protocol'', JStr CapabilityProtocolVersion),
      (''sources'', JArr (map (\<lambda>(m, f). JObj [(''member_key'', JStr m), (''source_fingerprint'', JStr f)])
         (sort_key fst (map (\<lambda>s. (member_of s, rec_SourceFingerprint s)) sources))))])))"

definition deterministicBatchID :: "codec \<Rightarrow> string \<Rightarrow> string \<Rightarrow> string \<Rightarrow> string \<Rightarrow> string" where
  "deterministicBatchID cd gid kind batchKey request = ''batch:'' @ TrimPrefix (FingerprintJSON cd (marshal_json cd (JObj
     [(''generation'', JStr gid), (''kind'', JStr kind), (''batch_key'', JStr batchKey), (''request_fingerprint'', JStr (FingerprintJSON cd request))]))) ''sha256:''"

definition shortFingerprint :: "codec \<Rightarrow> string \<Rightarrow> string" where
  "shortFingerprint cd body = take 12 (TrimPrefix (FingerprintJSON cd body) ''sha256:'')"

text \<open>\<^verbatim>\<open>canonicalJSONFingerprint\<close>: the same canonical form as the catalog's \<open>canonicalJSON\<close>.\<close>

definition canonicalJSONFingerprint :: "codec \<Rightarrow> string \<Rightarrow> string option" where
  "canonicalJSONFingerprint cd body = (case decode_json cd body of None \<Rightarrow> None | Some j \<Rightarrow> Some (FingerprintJSON cd (marshal_json cd j)))"

section \<open>Validation of the hierarchy\<close>

datatype hierarchy_error =
    UnsupportedProtocol
  | HierarchyEmpty
  | NodeIncomplete
  | DuplicateCapability string
  | UnknownTool string
  | MissingParent string
  | CapabilityCycle
  | ToolUnassigned

definition trim_node :: "CapabilityNode \<Rightarrow> CapabilityNode" where
  "trim_node node = node\<lparr>cn_ID := TrimSpace (cn_ID node), cn_Name := TrimSpace (cn_Name node)\<rparr>"

text \<open>The first loop builds the map of trimmed nodes and the set of assigned members.\<close>

fun collect_nodes :: "string list \<Rightarrow> CapabilityNode list \<Rightarrow> (string \<times> CapabilityNode) list \<Rightarrow> string list \<Rightarrow>
    (hierarchy_error, (string \<times> CapabilityNode) list \<times> string list) result" where
  "collect_nodes known [] nodes assigned = Inr (nodes, assigned)"
| "collect_nodes known (node # rest) nodes assigned = (let n = trim_node node in
     if cn_ID n = [] \<or> cn_Name n = [] then Inl NodeIncomplete
     else if map_of nodes (cn_ID n) \<noteq> None then Inl (DuplicateCapability (cn_ID n))
     else case find (\<lambda>m. m \<notin> set known) (cn_ToolMembers n) of
       Some m \<Rightarrow> Inl (UnknownTool m)
     | None \<Rightarrow> collect_nodes known rest (alist_put (cn_ID n) n nodes) (cn_ToolMembers n @ assigned))"

definition parent_of :: "(string \<times> CapabilityNode) list \<Rightarrow> string \<Rightarrow> string" where
  "parent_of nodes p = (case map_of nodes p of None \<Rightarrow> [] | Some n \<Rightarrow> cn_ParentID n)"

lemma unseen_keys_decrease:
  assumes "k \<in> fst ` set nodes" "k \<notin> set seen"
  shows "card (fst ` set nodes - insert k (set seen)) < card (fst ` set nodes - set seen)"
  by (rule psubset_card_mono) (use assms in auto)

lemma parent_of_missing: "k \<notin> fst ` set nodes \<Longrightarrow> parent_of nodes k = []"
  using map_of_eq_None_iff [of nodes k] by (simp add: parent_of_def)

text \<open>The walk towards the root; a missing node reads as the zero node, whose parent is empty.\<close>

function ancestor_cycle :: "(string \<times> CapabilityNode) list \<Rightarrow> string list \<Rightarrow> string \<Rightarrow> bool" where
  "ancestor_cycle nodes seen parent = (if parent = [] then False else if parent \<in> set seen then True
     else ancestor_cycle nodes (parent # seen) (parent_of nodes parent))"
  by pat_completeness auto

termination
proof (relation "measure (\<lambda>(nodes, seen, p). 2 * card (fst ` set nodes - set seen) + (if p = [] then 0 else 1))", simp)
  fix nodes :: "(string \<times> CapabilityNode) list" and seen :: "string list" and p :: string
  assume p: "p \<noteq> []" "p \<notin> set seen"
  show "((nodes, p # seen, parent_of nodes p), (nodes, seen, p)) \<in> measure (\<lambda>(nodes, seen, p). 2 * card (fst ` set nodes - set seen) + (if p = [] then 0 else 1))"
  proof (cases "p \<in> fst ` set nodes")
    case True
    from unseen_keys_decrease [OF this p(2)] p show ?thesis by simp
  next
    case False
    then have "fst ` set nodes - insert p (set seen) = fst ` set nodes - set seen" by auto
    with p parent_of_missing [OF False] show ?thesis by simp
  qed
qed

declare ancestor_cycle.simps [simp del]

text \<open>The check of one node; the code visits the nodes in map order, which decides only which error is reported.\<close>

definition check_node :: "(string \<times> CapabilityNode) list \<Rightarrow> CapabilityNode \<Rightarrow> hierarchy_error option" where
  "check_node nodes node =
     (if cn_ParentID node \<noteq> [] \<and> map_of nodes (cn_ParentID node) = None then Some (MissingParent (cn_ParentID node))
      else if ancestor_cycle nodes [cn_ID node] (cn_ParentID node) then Some CapabilityCycle else None)"

definition validateHierarchy :: "CapabilityHierarchy \<Rightarrow> string list \<Rightarrow> hierarchy_error option" where
  "validateHierarchy h known =
     (if ch_Protocol h \<noteq> CapabilityProtocolVersion then Some UnsupportedProtocol
      else if ch_Capabilities h = [] \<and> known \<noteq> [] then Some HierarchyEmpty
      else case collect_nodes known (ch_Capabilities h) [] [] of Inl e \<Rightarrow> Some e
      | Inr (nodes, assigned) \<Rightarrow> (case first_err (map (\<lambda>(i, n). check_node nodes n) nodes) of
          Some e \<Rightarrow> Some e
        | None \<Rightarrow> if list_ex (\<lambda>m. m \<notin> set assigned) known then Some ToolUnassigned else None))"

section \<open>Validation of an ambiguity\<close>

datatype ambiguity_error =
    SummaryMissing | TooFewTools | UseCasesMissing | OptionsMissing
  | AmbiguityUnknownTool string | AmbiguityRepeatedTool string | ProsConsMissing string

fun competing_tools_check :: "AmbiguityProposal \<Rightarrow> string list \<Rightarrow> string list \<Rightarrow> string list \<Rightarrow> ambiguity_error option" where
  "competing_tools_check p known seen [] = None"
| "competing_tools_check p known seen (m # ms) =
     (if m \<notin> set known then Some (AmbiguityUnknownTool m)
      else if m \<in> set seen then Some (AmbiguityRepeatedTool m)
      else case map_of (ap_ProsCons p) m of
        None \<Rightarrow> Some (ProsConsMissing m)
      | Some (pros, cons) \<Rightarrow> if length pros + length cons = 0 then Some (ProsConsMissing m)
          else competing_tools_check p known (m # seen) ms)"

definition validateAmbiguity :: "AmbiguityProposal \<Rightarrow> string list \<Rightarrow> ambiguity_error option" where
  "validateAmbiguity p known =
     (if blank (ap_Summary p) then Some SummaryMissing
      else if length (ap_CompetingTools p) < 2 then Some TooFewTools
      else if ap_ConditionalUseCases p = [] then Some UseCasesMissing
      else if ap_SuggestedOptions p = [] then Some OptionsMissing
      else competing_tools_check p known [] (ap_CompetingTools p))"

end
