(* ===== verification/EnrichmentFacts.thy ===== *)
theory EnrichmentFacts
  imports Enrichment
begin

text \<open>
  What the validation of a submitted hierarchy guarantees: it accepts exactly the complete forests over the known tools.
\<close>

section \<open>The walk to the root\<close>

definition parent_rel :: "(string \<times> CapabilityNode) list \<Rightarrow> (string \<times> string) set" where
  "parent_rel nodes = {(x, parent_of nodes x) |x. parent_of nodes x \<noteq> []}"

lemma ancestor_cycle_reaches:
  "\<not> ancestor_cycle nodes seen p \<Longrightarrow> \<exists>k. (parent_of nodes ^^ k) p = []"
proof (induction nodes seen p rule: ancestor_cycle.induct)
  case (1 nodes seen p)
  show ?case
  proof (cases "p = []")
    case True
    then have "(parent_of nodes ^^ 0) p = []" by simp
    then show ?thesis ..
  next
    case False
    with 1(2) have "p \<notin> set seen" "\<not> ancestor_cycle nodes (p # seen) (parent_of nodes p)"
      by (subst (asm) ancestor_cycle.simps, simp split: if_splits)+
    with 1(1) False obtain k where "(parent_of nodes ^^ k) (parent_of nodes p) = []" by blast
    then have "(parent_of nodes ^^ Suc k) p = []" by (simp add: funpow_swap1)
    then show ?thesis ..
  qed
qed

lemma ancestor_cycle_cyclic:
  "ancestor_cycle nodes seen p \<Longrightarrow> \<forall>s \<in> set seen. (s, p) \<in> (parent_rel nodes)\<^sup>+ \<Longrightarrow> \<not> acyclic (parent_rel nodes)"
proof (induction nodes seen p rule: ancestor_cycle.induct)
  case (1 nodes seen p)
  then have p: "p \<noteq> []" by (auto simp: ancestor_cycle.simps [of nodes seen p])
  show ?case
  proof (cases "p \<in> set seen")
    case True
    with 1(3) show ?thesis by (auto simp: acyclic_def)
  next
    case False
    with 1(2) p have c: "ancestor_cycle nodes (p # seen) (parent_of nodes p)" by (simp add: ancestor_cycle.simps [of nodes seen p])
    then have "parent_of nodes p \<noteq> []" by (auto simp: ancestor_cycle.simps [of nodes "p # seen" "parent_of nodes p"])
    then have e: "(p, parent_of nodes p) \<in> parent_rel nodes" by (auto simp: parent_rel_def)
    have "\<forall>s \<in> set (p # seen). (s, parent_of nodes p) \<in> (parent_rel nodes)\<^sup>+"
      using e 1(3) by (auto intro: trancl_into_trancl)
    then show ?thesis by (rule 1(1) [OF p False c])
  qed
qed

lemma parent_chain: "(x, y) \<in> (parent_rel nodes)\<^sup>+ \<Longrightarrow> y \<noteq> [] \<and> (\<exists>k > 0. (parent_of nodes ^^ k) x = y)"
proof (induction rule: trancl_induct)
  case (base y)
  then have "y = parent_of nodes x" "y \<noteq> []" by (auto simp: parent_rel_def)
  then show ?case by (auto intro!: exI [of _ 1])
next
  case (step y z)
  then obtain k where "(parent_of nodes ^^ k) x = y" by blast
  moreover have "z = parent_of nodes y" "z \<noteq> []" using step(2) by (auto simp: parent_rel_def)
  ultimately have "(parent_of nodes ^^ Suc k) x = z" by simp
  with \<open>z \<noteq> []\<close> show ?case by blast
qed

lemma iterate_stuck: "f x = x \<Longrightarrow> (f ^^ k) x = x"
  by (induction k) simp_all

lemma period_iterates: "(f ^^ k) x = x \<Longrightarrow> (f ^^ (k * m)) x = x"
  by (induction m) (simp_all add: funpow_add)

lemma acyclic_if_reaching:
  assumes "parent_of nodes [] = []" and "\<And>x. parent_of nodes x \<noteq> [] \<Longrightarrow> \<exists>k. (parent_of nodes ^^ k) x = []"
  shows "acyclic (parent_rel nodes)"
proof (rule acyclicI, rule allI, rule notI)
  fix x assume cyc: "(x, x) \<in> (parent_rel nodes)\<^sup>+"
  let ?f = "parent_of nodes"
  obtain k where k: "0 < k" "(?f ^^ k) x = x" and x: "x \<noteq> []" using parent_chain [OF cyc] by blast
  have "?f x \<noteq> []" using cyc by (auto simp: parent_rel_def dest: tranclD)
  with assms(2) obtain m where m: "(?f ^^ m) x = []" by blast
  have "(?f ^^ (k * m)) x = x" by (rule period_iterates [OF k(2)])
  moreover have "(?f ^^ (k * m)) x = (?f ^^ (k * m - m)) ((?f ^^ m) x)"
    using k(1) by (subst funpow_add [symmetric, unfolded o_def, THEN fun_cong]) (simp add: le_add_diff_inverse2)
  ultimately show False using m x iterate_stuck [of ?f "[]"] assms(1) by metis
qed

lemma cycle_checks_iff:
  assumes "parent_of nodes [] = []"
  shows "(\<forall>x. parent_of nodes x \<noteq> [] \<longrightarrow> \<not> ancestor_cycle nodes [x] (parent_of nodes x)) \<longleftrightarrow> acyclic (parent_rel nodes)"
proof
  assume all: "\<forall>x. parent_of nodes x \<noteq> [] \<longrightarrow> \<not> ancestor_cycle nodes [x] (parent_of nodes x)"
  show "acyclic (parent_rel nodes)"
  proof (rule acyclic_if_reaching [where nodes = nodes, OF assms])
    fix x assume "parent_of nodes x \<noteq> []"
    with all ancestor_cycle_reaches obtain k where "(parent_of nodes ^^ k) (parent_of nodes x) = []" by blast
    then have "(parent_of nodes ^^ Suc k) x = []" by (simp add: funpow_swap1)
    then show "\<exists>k. (parent_of nodes ^^ k) x = []" ..
  qed
next
  assume a: "acyclic (parent_rel nodes)"
  show "\<forall>x. parent_of nodes x \<noteq> [] \<longrightarrow> \<not> ancestor_cycle nodes [x] (parent_of nodes x)"
  proof (intro allI impI notI)
    fix x assume "parent_of nodes x \<noteq> []" and c: "ancestor_cycle nodes [x] (parent_of nodes x)"
    then have "\<forall>s \<in> set [x]. (s, parent_of nodes x) \<in> (parent_rel nodes)\<^sup>+" by (auto simp: parent_rel_def)
    from ancestor_cycle_cyclic [OF c this] a show False by simp
  qed
qed

section \<open>The loop over the nodes\<close>

definition node_ok :: "string list \<Rightarrow> CapabilityNode \<Rightarrow> bool" where
  "node_ok known n \<longleftrightarrow> \<not> blank (cn_ID n) \<and> \<not> blank (cn_Name n) \<and> set (cn_ToolMembers n) \<subseteq> set known"

definition trimmed_id :: "CapabilityNode \<Rightarrow> string" where
  "trimmed_id n = TrimSpace (cn_ID n)"

definition node_map :: "CapabilityNode list \<Rightarrow> (string \<times> CapabilityNode) list" where
  "node_map caps = map (\<lambda>n. (trimmed_id n, trim_node n)) caps"

lemma trim_node_simps [simp]:
  "cn_ID (trim_node n) = trimmed_id n" "cn_ParentID (trim_node n) = cn_ParentID n" "cn_ToolMembers (trim_node n) = cn_ToolMembers n"
  by (simp_all add: trim_node_def trimmed_id_def)

lemma node_map_keys [simp]: "map fst (node_map caps) = map trimmed_id caps" "fst ` set (node_map caps) = trimmed_id ` set caps"
  by (simp_all add: node_map_def image_image comp_def)

lemma node_bad: "(cn_ID (trim_node n) = [] \<or> cn_Name (trim_node n) = []) \<longleftrightarrow> blank (cn_ID n) \<or> blank (cn_Name n)"
  by (simp add: trim_node_def blank_def)

lemma find_unknown: "find (\<lambda>m. m \<notin> set known) ms = None \<longleftrightarrow> set ms \<subseteq> set known"
  by (auto simp: find_None_iff)

lemma collect_nodes_Inr:
  "distinct (map fst nodes) \<Longrightarrow> collect_nodes known caps nodes assigned = Inr r \<longleftrightarrow>
   (\<forall>n \<in> set caps. node_ok known n) \<and> distinct (map fst nodes @ map trimmed_id caps) \<and>
   r = (fold (\<lambda>n m. alist_put (trimmed_id n) (trim_node n) m) caps nodes, fold (\<lambda>n a. cn_ToolMembers n @ a) caps assigned)"
proof (induction caps arbitrary: nodes assigned)
  case (Cons n caps)
  have free: "map_of nodes (trimmed_id n) = None \<longleftrightarrow> trimmed_id n \<notin> set (map fst nodes)" by (simp add: map_of_eq_None_iff)
  show ?case
  proof (cases "node_ok known n \<and> trimmed_id n \<notin> set (map fst nodes)")
    case True
    then have eq: "collect_nodes known (n # caps) nodes assigned =
        collect_nodes known caps (alist_put (trimmed_id n) (trim_node n) nodes) (cn_ToolMembers n @ assigned)"
      using free node_bad [of n] find_unknown [of known "cn_ToolMembers n"] by (simp add: node_ok_def Let_def)
    have d: "distinct (map fst (alist_put (trimmed_id n) (trim_node n) nodes))" using Cons(2) by simp
    show ?thesis unfolding eq Cons(1) [OF d] using True Cons(2) by (auto simp: keys_alist_put)
  next
    case False
    then have no: "collect_nodes known (n # caps) nodes assigned \<noteq> Inr r"
      using free node_bad [of n] find_unknown [of known "cn_ToolMembers n"]
      by (auto simp: node_ok_def Let_def simp del: trim_node_simps split: option.split) (auto simp: trim_node_def trimmed_id_def)
    show ?thesis using False by (simp only: no) auto
  qed
qed auto

lemma fold_put_new:
  "distinct (map fst nodes @ map trimmed_id caps) \<Longrightarrow>
   fold (\<lambda>n m. alist_put (trimmed_id n) (trim_node n) m) caps nodes = nodes @ node_map caps"
proof (induction caps arbitrary: nodes)
  case (Cons n caps)
  have "alist_put (trimmed_id n) (trim_node n) nodes = nodes @ [(trimmed_id n, trim_node n)]" if "trimmed_id n \<notin> fst ` set nodes"
    using that by (induction nodes) auto
  with Cons show ?case by (auto simp: node_map_def)
qed (simp add: node_map_def)

lemma set_fold_members: "set (fold (\<lambda>n a. cn_ToolMembers n @ a) caps assigned) = (\<Union>n \<in> set caps. set (cn_ToolMembers n)) \<union> set assigned"
  by (induction caps arbitrary: assigned) auto

section \<open>The accepted hierarchies\<close>

definition parent_edges :: "CapabilityNode list \<Rightarrow> (string \<times> string) set" where
  "parent_edges caps = {(trimmed_id n, cn_ParentID n) |n. n \<in> set caps \<and> cn_ParentID n \<noteq> []}"

lemma node_map_lookup:
  assumes "distinct (map trimmed_id caps)"
  shows "map_of (node_map caps) i = Some m \<longleftrightarrow> (\<exists>n \<in> set caps. trimmed_id n = i \<and> trim_node n = m)"
  using assms by (subst map_of_eq_Some_iff) (auto simp: node_map_def comp_def)

lemma parent_rel_edges:
  assumes "distinct (map trimmed_id caps)"
  shows "parent_rel (node_map caps) = parent_edges caps"
proof -
  have "parent_of (node_map caps) x = p \<and> p \<noteq> [] \<longleftrightarrow> (\<exists>n \<in> set caps. trimmed_id n = x \<and> cn_ParentID n = p \<and> p \<noteq> [])" for x p
  proof (cases "\<exists>n \<in> set caps. trimmed_id n = x")
    case True
    then obtain n where n: "n \<in> set caps" "trimmed_id n = x" by blast
    have "map_of (node_map caps) x = Some (trim_node n)"
      unfolding node_map_lookup [OF assms] using n by (intro bexI [of _ n]) simp_all
    then have "parent_of (node_map caps) x = cn_ParentID n" by (simp add: parent_of_def)
    moreover have "m = n" if "m \<in> set caps" "trimmed_id m = x" for m
      using inj_onD [of trimmed_id "set caps" m n] that n assms by (simp add: distinct_map)
    ultimately show ?thesis using n by metis
  next
    case False
    then have "parent_of (node_map caps) x = []" by (intro parent_of_missing) auto
    with False show ?thesis by blast
  qed
  moreover have "(x, p) \<in> parent_rel (node_map caps) \<longleftrightarrow> parent_of (node_map caps) x = p \<and> p \<noteq> []" for x p
    by (auto simp: parent_rel_def)
  moreover have "(x, p) \<in> parent_edges caps \<longleftrightarrow> (\<exists>n \<in> set caps. trimmed_id n = x \<and> cn_ParentID n = p \<and> p \<noteq> [])" for x p
    by (auto simp: parent_edges_def)
  ultimately show ?thesis by (intro set_eqI) (simp only: split_paired_all)
qed

lemma check_nodes_None:
  assumes d: "distinct (map trimmed_id caps)" and ne: "[] \<notin> trimmed_id ` set caps"
  shows "first_err (map (\<lambda>(i, n). check_node (node_map caps) n) (node_map caps)) = None \<longleftrightarrow>
    (\<forall>n \<in> set caps. cn_ParentID n = [] \<or> cn_ParentID n \<in> trimmed_id ` set caps) \<and> acyclic (parent_edges caps)"
proof -
  let ?m = "node_map caps"
  have root: "parent_of ?m [] = []" using ne by (simp add: parent_of_missing)
  have parent: "parent_of ?m (trimmed_id n) = cn_ParentID n" if "n \<in> set caps" for n
    using node_map_lookup [OF d, of "trimmed_id n" "trim_node n"] that by (auto simp: parent_of_def)
  have only: "\<exists>n \<in> set caps. trimmed_id n = x" if "parent_of ?m x \<noteq> []" for x
    using that parent_of_missing [of x ?m] by auto
  have cycles: "(\<forall>n \<in> set caps. \<not> ancestor_cycle ?m [trimmed_id n] (cn_ParentID n)) \<longleftrightarrow> acyclic (parent_edges caps)"
    unfolding parent_rel_edges [OF d, symmetric] cycle_checks_iff [OF root, symmetric]
    using parent only by (metis ancestor_cycle.simps)
  have key: "map_of ?m k = None \<longleftrightarrow> k \<notin> trimmed_id ` set caps" for k by (simp add: map_of_eq_None_iff)
  have "first_err (map (\<lambda>(i, n). check_node ?m n) ?m) = None \<longleftrightarrow> (\<forall>n \<in> set caps. check_node ?m (trim_node n) = None)"
    by (auto simp: first_err_None_iff node_map_def)
  also have "\<dots> \<longleftrightarrow> (\<forall>n \<in> set caps. (cn_ParentID n = [] \<or> cn_ParentID n \<in> trimmed_id ` set caps) \<and> \<not> ancestor_cycle ?m [trimmed_id n] (cn_ParentID n))"
    by (auto simp: check_node_def key)
  finally show ?thesis using cycles by blast
qed

definition complete_forest :: "CapabilityHierarchy \<Rightarrow> string list \<Rightarrow> bool" where
  "complete_forest h known \<longleftrightarrow>
     (\<forall>n \<in> set (ch_Capabilities h). node_ok known n \<and> (cn_ParentID n = [] \<or> cn_ParentID n \<in> trimmed_id ` set (ch_Capabilities h))) \<and>
     distinct (map trimmed_id (ch_Capabilities h)) \<and> acyclic (parent_edges (ch_Capabilities h)) \<and>
     set known \<subseteq> (\<Union>n \<in> set (ch_Capabilities h). set (cn_ToolMembers n))"

lemma node_ok_id: "node_ok known n \<Longrightarrow> trimmed_id n \<noteq> []"
  by (simp add: node_ok_def trimmed_id_def blank_def)

lemma validateHierarchy_forest:
  "validateHierarchy h known = None \<longleftrightarrow> ch_Protocol h = CapabilityProtocolVersion \<and> complete_forest h known"
proof -
  let ?caps = "ch_Capabilities h"
  show ?thesis
  proof (cases "(\<forall>n \<in> set ?caps. node_ok known n) \<and> distinct (map trimmed_id ?caps)")
    case True
    then have c: "collect_nodes known ?caps [] [] = Inr (node_map ?caps, fold (\<lambda>n a. cn_ToolMembers n @ a) ?caps [])"
      by (simp add: collect_nodes_Inr fold_put_new)
    have "[] \<notin> trimmed_id ` set ?caps" using True node_ok_id by (metis imageE)
    note nodes = check_nodes_None [OF conjunct2 [OF True] this]
    have "list_ex (\<lambda>m. m \<notin> set (fold (\<lambda>n a. cn_ToolMembers n @ a) ?caps [])) known \<longleftrightarrow>
        \<not> set known \<subseteq> (\<Union>n \<in> set ?caps. set (cn_ToolMembers n))"
      by (auto simp: list_ex_iff set_fold_members)
    then show ?thesis using True nodes
      by (auto simp: validateHierarchy_def c complete_forest_def split: option.split if_splits)
  next
    case False
    then have "\<nexists>r. collect_nodes known ?caps [] [] = Inr r" by (auto simp: collect_nodes_Inr)
    then obtain e where "collect_nodes known ?caps [] [] = Inl e" by (metis sum.exhaust)
    then show ?thesis using False by (auto simp: validateHierarchy_def complete_forest_def)
  qed
qed

text \<open>
  (C30) A submitted capability hierarchy is accepted exactly when it speaks the protocol, its nodes have names and pairwise
  different (trimmed) IDs and only known tools, every parent exists, the parent relation has no cycle, and every known tool
  belongs to a capability: the bounded walks of the code decide acyclicity of the whole graph.
\<close>

theorem validateHierarchy_iff:
  "validateHierarchy h known = None \<longleftrightarrow> ch_Protocol h = CapabilityProtocolVersion \<and> complete_forest h known"
  by (rule validateHierarchy_forest)

end
