(* ===== verification/EnrichmentService.thy ===== *)
theory EnrichmentService
  imports Enrichment
begin

text \<open>
  Enrichment, operations: \<^verbatim>\<open>internal/enrichment\<close> (prepare.go, submit.go, repair.go). The catalog is threaded through
  the calls; an error keeps what the calls before it have committed.
\<close>

section \<open>Steps over the catalog\<close>

datatype enrich_error =
    EnrichCatalog cat_error
  | EnrichRetrieve retrieve_error
  | EnrichIndex retrieval_error
  | EnrichProvider string
  | EnrichVectorCount nat
  | EnrichPrerequisite string
  | EnrichDecode string
  | EnrichMarshal
  | EnrichTooLarge string
  | EnrichResponse string
  | EnrichHierarchy hierarchy_error
  | EnrichAmbiguity ambiguity_error
  | EnrichUnsupportedKind string
  | EnrichNoResponse string

type_synonym ('e, 'a) gstep = "(catalog, 'e, 'a) step_over"
type_synonym 'a step = "(enrich_error, 'a) gstep"

definition reads :: "(catalog \<Rightarrow> (cat_error, 'a) result) \<Rightarrow> 'a step" where
  "reads f db = (db, case f db of Inl e \<Rightarrow> Inl (EnrichCatalog e) | Inr x \<Rightarrow> Inr x)"

definition retrieves :: "(catalog \<Rightarrow> (retrieve_error, 'a) result) \<Rightarrow> 'a step" where
  "retrieves f db = (db, case f db of Inl e \<Rightarrow> Inl (EnrichRetrieve e) | Inr x \<Rightarrow> Inr x)"

definition writes :: "(catalog \<Rightarrow> (cat_error, catalog \<times> 'a) result) \<Rightarrow> 'a step" where
  "writes f db = (case f db of Inl e \<Rightarrow> (db, Inl (EnrichCatalog e)) | Inr (db', x) \<Rightarrow> (db', Inr x))"

definition changes :: "(catalog \<Rightarrow> (cat_error, catalog) result) \<Rightarrow> unit step" where
  "changes f db = (case f db of Inl e \<Rightarrow> (db, Inl (EnrichCatalog e)) | Inr db' \<Rightarrow> (db', Inr ()))"

text \<open>The coordinator, the failing SQL statements and the clock of a call.\<close>

record enrich_env =
  ee_lib :: enrich_lib
  ee_float :: float_lib
  ee_sql :: sqlenv
  ee_now :: int
  ee_identity :: Identity
  ee_ask :: "string list \<Rightarrow> (string, float32 list list) result"
  ee_options :: enrich_options

definition ee_codec :: "enrich_env \<Rightarrow> codec" where
  "ee_codec ev = el_codec (ee_lib ev)"

definition fulfil_artifact :: "enrich_env \<Rightarrow> string \<Rightarrow> RequiredArtifactSpec \<Rightarrow> string \<Rightarrow> unit step" where
  "fulfil_artifact ev gid spec key db = (case FulfillArtifact (ee_codec ev) (ee_sql ev) gid spec key db of
     (db', None) \<Rightarrow> (db', Inr ()) | (db', Some e) \<Rightarrow> (db', Inl (EnrichCatalog e)))"

definition put_artifact :: "enrich_env \<Rightarrow> RequiredArtifactSpec \<Rightarrow> string \<Rightarrow> string step" where
  "put_artifact ev spec payload = writes (\<lambda>db. rbind (PutArtifact (ee_codec ev) (ee_sql ev) (ee_now ev)
     \<lparr>asp_Kind = ras_Kind spec, asp_Payload = payload, asp_Dependencies = ras_Dependencies spec, asp_ContextFingerprint = ras_ContextFingerprint spec\<rparr> db)
     (\<lambda>(db', key, a). Inr (db', key)))"

section \<open>The embedding of accepted guidance\<close>

definition embed_one :: "enrich_env \<Rightarrow> string \<Rightarrow> (enrich_error, float32 list) result" where
  "embed_one ev txt = (case ee_ask ev [txt] of Inl e \<Rightarrow> Inl (EnrichProvider e)
     | Inr [v] \<Rightarrow> Inr v | Inr vs \<Rightarrow> Inl (EnrichVectorCount (length vs)))"

definition store_embedding :: "enrich_env \<Rightarrow> string \<Rightarrow> string \<Rightarrow> Projection \<Rightarrow> float32 list \<Rightarrow> unit step" where
  "store_embedding ev gid member projection vector db =
     (case StoreEmbedding (ee_codec ev) (ee_float ev) (ee_sql ev) (ee_now ev) gid RoleEnrichedEmbedding member (ee_identity ev) projection vector db of
        (db', Inl e) \<Rightarrow> (db', Inl (EnrichRetrieve e)) | (db', Inr key) \<Rightarrow> (db', Inr ()))"

definition require_embedding :: "enrich_env \<Rightarrow> string \<Rightarrow> string \<Rightarrow> Projection \<Rightarrow> unit step" where
  "require_embedding ev gid member projection db =
     (case RequireEmbedding (ee_codec ev) (ee_sql ev) gid RoleEnrichedEmbedding member (ee_identity ev) projection db of
        Inl e \<Rightarrow> (db, Inl (EnrichRetrieve e)) | Inr db' \<Rightarrow> (db', Inr ()))"

definition ensureEnrichedEmbedding :: "enrich_env \<Rightarrow> string \<Rightarrow> ToolWork \<Rightarrow> string \<Rightarrow> unit step" where
  "ensureEnrichedEmbedding ev gid work payload = (let member = tr_MemberKey (tw_Tool work) in
     step_bind (step_some (EnrichDecode ''tool guidance'') (enrichedProjection (ee_lib ev) work payload)) (\<lambda>projection.
     step_bind (require_embedding ev gid member projection) (\<lambda>_.
     step_bind (retrieves (ReuseEmbedding (ee_codec ev) (ee_float ev) (ee_sql ev) RoleEnrichedEmbedding member (ee_identity ev) projection)) (\<lambda>reused.
     step_bind (case reused of Some (vector, key) \<Rightarrow> step_return vector | None \<Rightarrow> step_result (embed_one ev (pj_Text projection))) (\<lambda>vector.
     store_embedding ev gid member projection vector)))))"

section \<open>Submitting a response\<close>

record SubmitResult =
  sbr_Batch :: EnrichmentBatch
  sbr_Idempotent :: bool

definition accept_batch :: "enrich_env \<Rightarrow> string \<Rightarrow> string \<Rightarrow> (EnrichmentBatch \<times> bool) step" where
  "accept_batch ev bid response = writes (AcceptEnrichmentBatch (ee_codec ev) (ee_sql ev) (ee_now ev) bid response)"

definition known_members :: "SourceToolRecord list \<Rightarrow> string list" where
  "known_members sources = map member_of sources"

definition work_members :: "ToolBatchRequest \<Rightarrow> string list" where
  "work_members request = map (\<lambda>w. tr_MemberKey (tw_Tool w)) (tbr_Items request)"

text \<open>The loop over the items: known, not repeated, with a purpose.\<close>

fun check_items :: "string list \<Rightarrow> string list \<Rightarrow> ToolEnrichmentResult list \<Rightarrow> string option" where
  "check_items members seen [] = None"
| "check_items members seen (i # rest) =
     (if ter_MemberKey i \<notin> set members then Some ''unknown member''
      else if ter_MemberKey i \<in> set seen then Some ''repeated member''
      else if blank (tgd_Purpose (ter_Guidance i)) then Some ''missing purpose''
      else check_items members (ter_MemberKey i # seen) rest)"

definition check_tool_response :: "ToolBatchRequest \<Rightarrow> ToolEnrichmentResult list \<Rightarrow> string option" where
  "check_tool_response request items = (case check_items (work_members request) [] items of
     Some e \<Rightarrow> Some e
   | None \<Rightarrow> if length items \<noteq> card (set (work_members request)) then Some ''item count'' else None)"

definition unknown_alternative :: "string list \<Rightarrow> ToolEnrichmentResult list \<Rightarrow> bool" where
  "unknown_alternative known items = list_ex (\<lambda>i. list_ex (\<lambda>a. a \<notin> set known) (tgd_Alternatives (ter_Guidance i))) items"

definition item_guidance :: "ToolEnrichmentResult list \<Rightarrow> string \<Rightarrow> ToolGuidance" where
  "item_guidance items member = (case find (\<lambda>i. ter_MemberKey i = member) items of
     Some i \<Rightarrow> ter_Guidance i
   | None \<Rightarrow> \<lparr>tgd_Purpose = [], tgd_UseWhen = [], tgd_AvoidWhen = [], tgd_Examples = [], tgd_ArgumentGuidance = [],
       tgd_Preconditions = [], tgd_OutputInterpretation = [], tgd_Alternatives = [], tgd_Capabilities = []\<rparr>)"

definition apply_work :: "enrich_env \<Rightarrow> string \<Rightarrow> ToolEnrichmentResult list \<Rightarrow> ToolWork \<Rightarrow> unit step" where
  "apply_work ev gid items work = (let cd = ee_codec ev; spec = toolArtifactSpec cd work; gate = enrichedEmbeddingGate cd work (ee_identity ev);
       payload = marshal_json cd (guidance_json (item_guidance items (tr_MemberKey (tw_Tool work)))) in
     step_bind (put_artifact ev spec payload) (\<lambda>key.
     step_bind (fulfil_artifact ev gid spec key) (\<lambda>_.
     step_bind (ensureEnrichedEmbedding ev gid work payload) (\<lambda>_.
     changes (SatisfyDependency (ee_sql ev) gid (fst gate) (snd gate) True)))))"

text \<open>After an idempotent acceptance the work is repeated only while the generation is staging.\<close>

definition already_done :: "enrich_env \<Rightarrow> string \<Rightarrow> bool \<Rightarrow> bool step" where
  "already_done ev gid idempotent = (if \<not> idempotent then step_return False
     else step_bind (reads (\<lambda>db. Catalog_Generation (ee_sql ev) db gid)) (\<lambda>(i, g). step_return (gen_Status g \<noteq> GenerationStaging)))"

definition submitToolBatch :: "enrich_env \<Rightarrow> string \<Rightarrow> EnrichmentBatch \<Rightarrow> string \<Rightarrow> SubmitResult step" where
  "submitToolBatch ev bid batch response = (let gid = eb_GenerationID batch; cd = ee_codec ev in
     step_bind (step_some (EnrichDecode ''request'') (el_tool_request (ee_lib ev) (eb_RequestJSON batch))) (\<lambda>request.
     step_bind (step_some (EnrichDecode ''response'') (el_tool_response (ee_lib ev) response)) (\<lambda>items.
     step_bind (case check_tool_response request items of Some e \<Rightarrow> step_fail (EnrichResponse e) | None \<Rightarrow> step_return ()) (\<lambda>_.
     step_bind (reads (\<lambda>db. SourceTools cd (ee_sql ev) db gid)) (\<lambda>sources.
     step_bind (step_require (\<not> unknown_alternative (known_members sources) items) (EnrichResponse ''unknown alternative'')) (\<lambda>_.
     step_bind (accept_batch ev bid (marshal_json cd (response_json items))) (\<lambda>(accepted, idempotent).
     step_bind (already_done ev gid idempotent) (\<lambda>finished.
     step_bind (if finished then step_return () else step_each (apply_work ev gid items) (tbr_Items request)) (\<lambda>_.
     step_return \<lparr>sbr_Batch = accepted, sbr_Idempotent = idempotent\<rparr>)))))))))"

section \<open>Submitting the hierarchy\<close>

text \<open>\<^verbatim>\<open>%06d\<close>\<close>

definition six_digits :: "nat \<Rightarrow> string" where
  "six_digits n = (let d = format_int (int n) in replicate (6 - length d) CHR ''0'' @ d)"

definition review_spec :: "codec \<Rightarrow> string \<Rightarrow> nat \<Rightarrow> AmbiguityProposal \<Rightarrow> EnrichmentBatchSpec" where
  "review_spec cd gid index p = (let body = marshal_json cd (review_request_json p gid);
       batchKey = ''review:'' @ six_digits index @ '':'' @ shortFingerprint cd body in
     \<lparr>ebs_ID = deterministicBatchID cd gid BatchAmbiguityReview batchKey body, ebs_GenerationID = gid, ebs_Kind = BatchAmbiguityReview,
      ebs_BatchKey = batchKey, ebs_Required = False, ebs_RequestJSON = body\<rparr>)"

text \<open>Proposals in the order of their JSON; equal JSON means equal batches, so the instability of the sort cannot show.\<close>

definition createAmbiguityBatches :: "enrich_env \<Rightarrow> string \<Rightarrow> AmbiguityProposal list \<Rightarrow> unit step" where
  "createAmbiguityBatches ev gid proposals = (if proposals = [] then step_return () else
     (let cd = ee_codec ev; normalized = sort_key (\<lambda>p. marshal_json cd (proposal_json p)) proposals in
      changes (PutEnrichmentBatches cd (ee_sql ev) (map (\<lambda>(i, p). review_spec cd gid i p) (enumerate 0 normalized)))))"

definition enrichments_of :: "GenerationArtifact list \<Rightarrow> (string \<times> Artifact) list" where
  "enrichments_of records = fold (\<lambda>r m. alist_put (gart_MemberKey r) (snd (gart_Artifact r)) m) records []"

definition enrichment_dependency :: "(string \<times> Artifact) list \<Rightarrow> string \<Rightarrow> (enrich_error, ArtifactDependency) result" where
  "enrichment_dependency enrichments member = (case map_of enrichments member of
     None \<Rightarrow> Inl (EnrichPrerequisite ''missing tool enrichment'')
   | Some a \<Rightarrow> Inr (''tool-enrichment:'' @ member, art_ContentFingerprint a))"

fun each_result :: "('a \<Rightarrow> (enrich_error, 'b) result) \<Rightarrow> 'a list \<Rightarrow> (enrich_error, 'b list) result" where
  "each_result f [] = Inr []"
| "each_result f (x # xs) = rbind (f x) (\<lambda>y. rbind (each_result f xs) (\<lambda>ys. Inr (y # ys)))"

definition hierarchySpec :: "codec \<Rightarrow> ArtifactDependency list \<Rightarrow> string \<Rightarrow> RequiredArtifactSpec" where
  "hierarchySpec cd dependencies context = \<lparr>ras_Role = RoleCapabilityHierarchy, ras_MemberKey = ''global'', ras_Kind = CapabilityHierarchyArtifactKind,
     ras_Dependencies = (''capability.protocol'', fingerprintText cd CapabilityProtocolVersion) # dependencies, ras_ContextFingerprint = context\<rparr>"

definition check_capability_response :: "CapabilityBatchRequest \<Rightarrow> CapabilityBatchResponse \<Rightarrow> enrich_error option" where
  "check_capability_response request response = (let known = map (\<lambda>i. tr_MemberKey (cii_Tool i)) (cbr_Items request) in
     case validateHierarchy (cbs_Hierarchy response) known of Some e \<Rightarrow> Some (EnrichHierarchy e)
   | None \<Rightarrow> map_option EnrichAmbiguity (first_err (map (\<lambda>p. validateAmbiguity p known) (cbs_Ambiguities response))))"

text \<open>The part after acceptance: the artifact of the hierarchy, the review batches and the gate.\<close>

definition store_hierarchy :: "enrich_env \<Rightarrow> EnrichmentBatch \<Rightarrow> CapabilityBatchRequest \<Rightarrow> CapabilityBatchResponse \<Rightarrow> unit step" where
  "store_hierarchy ev batch request response = (let gid = eb_GenerationID batch; cd = ee_codec ev in
     step_bind (reads (\<lambda>db. GenerationArtifacts cd (ee_sql ev) db gid RoleToolEnrichment)) (\<lambda>records.
     step_bind (step_result (each_result (\<lambda>i. enrichment_dependency (enrichments_of records) (tr_MemberKey (cii_Tool i))) (cbr_Items request))) (\<lambda>dependencies.
     step_bind (step_some (EnrichDecode ''capability batch identity'') (canonicalJSONFingerprint cd (eb_RequestJSON batch))) (\<lambda>context.
     step_bind (step_require (eb_RequestFingerprint batch \<noteq> [] \<and> eb_RequestFingerprint batch = context)
        (EnrichCatalog (ErrCatalogCorrupt ''request fingerprint mismatch''))) (\<lambda>_.
     let spec = hierarchySpec cd dependencies context in
     step_bind (createAmbiguityBatches ev gid (cbs_Ambiguities response)) (\<lambda>_.
     step_bind (put_artifact ev spec (marshal_json cd (hierarchy_json (cbs_Hierarchy response)))) (\<lambda>key.
     step_bind (fulfil_artifact ev gid spec key) (\<lambda>_.
     step_bind (reads (\<lambda>db. SourceTools cd (ee_sql ev) db gid)) (\<lambda>sources.
     let gate = capabilityReconciliationGate cd sources in
     changes (SatisfyDependency (ee_sql ev) gid (fst gate) (snd gate) True))))))))))"

definition submitCapabilityBatch :: "enrich_env \<Rightarrow> string \<Rightarrow> EnrichmentBatch \<Rightarrow> string \<Rightarrow> SubmitResult step" where
  "submitCapabilityBatch ev bid batch response = (let cd = ee_codec ev in
     step_bind (step_some (EnrichDecode ''request'') (el_capability_request (ee_lib ev) (eb_RequestJSON batch))) (\<lambda>request.
     step_bind (step_some (EnrichDecode ''response'') (el_capability_response (ee_lib ev) response)) (\<lambda>answer.
     step_bind (case check_capability_response request answer of Some e \<Rightarrow> step_fail e | None \<Rightarrow> step_return ()) (\<lambda>_.
     step_bind (accept_batch ev bid (marshal_json cd (capability_response_json answer))) (\<lambda>(accepted, idempotent).
     step_bind (already_done ev (eb_GenerationID batch) idempotent) (\<lambda>finished.
     step_bind (if finished then step_return () else store_hierarchy ev batch request answer) (\<lambda>_.
     step_return \<lparr>sbr_Batch = accepted, sbr_Idempotent = idempotent\<rparr>)))))))"

definition check_review :: "AmbiguityReviewResponse \<Rightarrow> string option" where
  "check_review r =
     (if arr_Resolution r = AmbiguityNeutral then (if arr_PreferenceIDs r \<noteq> [] then Some ''neutral resolution with preferences'' else None)
      else if arr_Resolution r = AmbiguityPreference then (if arr_PreferenceIDs r = [] then Some ''preference resolution without preferences'' else None)
      else Some ''unsupported resolution'')"

definition submitAmbiguityReview :: "enrich_env \<Rightarrow> string \<Rightarrow> string \<Rightarrow> SubmitResult step" where
  "submitAmbiguityReview ev bid response =
     step_bind (step_some (EnrichDecode ''response'') (el_review_response (ee_lib ev) response)) (\<lambda>answer.
     step_bind (case check_review answer of Some e \<Rightarrow> step_fail (EnrichResponse e) | None \<Rightarrow> step_return ()) (\<lambda>_.
     step_bind (accept_batch ev bid (marshal_json (ee_codec ev) (review_response_json answer))) (\<lambda>(accepted, idempotent).
     step_return \<lparr>sbr_Batch = accepted, sbr_Idempotent = idempotent\<rparr>)))"

definition SubmitBatch :: "enrich_env \<Rightarrow> string \<Rightarrow> string \<Rightarrow> SubmitResult step" where
  "SubmitBatch ev bid response = step_bind (reads (\<lambda>db. Catalog_EnrichmentBatch (ee_sql ev) db bid)) (\<lambda>(i, batch).
     if eb_Kind batch = BatchToolEnrichment then submitToolBatch ev bid batch response
     else if eb_Kind batch = BatchCapabilityReconciliation then submitCapabilityBatch ev bid batch response
     else if eb_Kind batch = BatchAmbiguityReview then submitAmbiguityReview ev bid response
     else step_fail (EnrichUnsupportedKind (eb_Kind batch)))"

definition repairAcceptedBatches :: "enrich_env \<Rightarrow> string \<Rightarrow> string \<Rightarrow> unit step" where
  "repairAcceptedBatches ev gid kind = step_bind (reads (\<lambda>db. AcceptedEnrichmentBatches (ee_sql ev) db gid kind)) (\<lambda>batches.
     step_each (\<lambda>(bid, b). case eb_Accepted b of
         Some (fp, response, t) \<Rightarrow> if response = [] then step_fail (EnrichNoResponse bid)
           else step_bind (SubmitBatch ev bid response) (\<lambda>_. step_return ())
       | None \<Rightarrow> step_fail (EnrichNoResponse bid)) batches)"

end
