(* ===== verification/Discovery.thy ===== *)
theory Discovery
  imports Enrichment RoutingPrefs ExecutionRouter
begin

text \<open>
  Tool discovery: \<^verbatim>\<open>internal/discovery\<close> (rrf.go, reference.go, capability.go, ranking.go, types.go; service.go is in
  \<open>DiscoveryService\<close>). This theory holds rank fusion, tool references, the capability hierarchy and the ranking helpers.

  Maps the code iterates and then sorts by a total order are association lists. JSON of the discovery's own types is the record
  \<open>disc_lib\<close>. Scores are reals with the rounding of \<open>fl64\<close>.
\<close>

section \<open>Rank fusion\<close>

definition defaultRRFK :: int where "defaultRRFK = 60"

record RankedFacet =
  rf_Weight :: real
  rf_Keys :: "string list"

datatype rrf_error = RRFKNotPositive | RRFWeightNegative | RRFEmptyKey | RRFDuplicateKey

definition score_of :: "(string \<times> real) list \<Rightarrow> string \<Rightarrow> real" where
  "score_of scores key = (case map_of scores key of None \<Rightarrow> 0 | Some s \<Rightarrow> s)"

definition rrf_term :: "float_lib \<Rightarrow> real \<Rightarrow> int \<Rightarrow> nat \<Rightarrow> real" where
  "rrf_term fl weight k rank = fl64 fl (weight / fl64 fl (real_of_int (k + int rank)))"

fun rrf_keys :: "float_lib \<Rightarrow> real \<Rightarrow> int \<Rightarrow> nat \<Rightarrow> string list \<Rightarrow> string list \<Rightarrow> (string \<times> real) list \<Rightarrow>
    (rrf_error, (string \<times> real) list) result" where
  "rrf_keys fl weight k index seen [] scores = Inr scores"
| "rrf_keys fl weight k index seen (key # keys) scores =
     (if key = [] then Inl RRFEmptyKey
      else if key \<in> set seen then Inl RRFDuplicateKey
      else rrf_keys fl weight k (Suc index) (key # seen) keys
        (alist_put key (fl64 fl (score_of scores key + rrf_term fl weight k (index + 1))) scores))"

fun rrf_facets :: "float_lib \<Rightarrow> int \<Rightarrow> RankedFacet list \<Rightarrow> (string \<times> real) list \<Rightarrow> (rrf_error, (string \<times> real) list) result" where
  "rrf_facets fl k [] scores = Inr scores"
| "rrf_facets fl k (facet # facets) scores =
     (if rf_Weight facet < 0 then Inl RRFWeightNegative
      else if rf_Weight facet = 0 then rrf_facets fl k facets scores
      else rbind (rrf_keys fl (rf_Weight facet) k 0 [] (rf_Keys facet) scores) (\<lambda>scores'. rrf_facets fl k facets scores'))"

definition reciprocalRankFusion :: "float_lib \<Rightarrow> RankedFacet list \<Rightarrow> int \<Rightarrow> (rrf_error, scored list) result" where
  "reciprocalRankFusion fl facets k = (if k \<le> 0 then Inl RRFKNotPositive
     else rbind (rrf_facets fl k facets []) (\<lambda>scores. Inr (sort_key rank_key scores)))"

section \<open>Data\<close>

record CapabilitySummary =
  cs_ID :: string
  cs_Name :: string
  cs_Description :: string
  cs_Path :: string

record toolReferenceClaims =
  trc_Version :: int
  trc_GenerationID :: string
  trc_ServerID :: string
  trc_ToolName :: string
  trc_SourceFingerprint :: string

record toolPresentation =
  pres_Name :: string
  pres_Title :: string
  pres_Description :: string

record disc_lib =
  dl_codec :: codec
  dl_unicode :: unicode_lib
  dl_float :: float_lib
  dl_prefs :: pref_codec
  dl_handles :: handle_lib
  dl_server :: "string \<Rightarrow> SourceServerContract option"
  dl_presentation :: "string \<Rightarrow> toolPresentation option"
  dl_guidance :: "string \<Rightarrow> ToolGuidance option"
  dl_hierarchy :: "string \<Rightarrow> CapabilityHierarchy option"
  dl_marshal_ref :: "toolReferenceClaims \<Rightarrow> string"
  dl_unmarshal_ref :: "string \<Rightarrow> toolReferenceClaims option"

section \<open>Tool references\<close>

definition toolReferencePrefix :: string where "toolReferencePrefix = ''tr1.''"

definition encodeToolReference :: "disc_lib \<Rightarrow> toolReferenceClaims \<Rightarrow> string" where
  "encodeToolReference lib claims = toolReferencePrefix @ EncodeToString (dl_marshal_ref lib (claims\<lparr>trc_Version := 1\<rparr>))"

text \<open>Every failure is \<^verbatim>\<open>ErrInvalidToolReference\<close>, here None.\<close>

definition decodeToolReference :: "disc_lib \<Rightarrow> string \<Rightarrow> toolReferenceClaims option" where
  "decodeToolReference lib ref =
     (if \<not> HasPrefix ref toolReferencePrefix then None
      else case DecodeString (TrimPrefix ref toolReferencePrefix) of None \<Rightarrow> None | Some body \<Rightarrow>
      (case dl_unmarshal_ref lib body of None \<Rightarrow> None | Some claims \<Rightarrow>
        if trc_Version claims \<noteq> 1 \<or> blank (trc_GenerationID claims) \<or> blank (trc_ServerID claims) \<or>
           blank (trc_ToolName claims) \<or> blank (trc_SourceFingerprint claims) then None else Some claims))"

section \<open>Capabilities\<close>

definition nodes_byID :: "CapabilityNode list \<Rightarrow> (string \<times> CapabilityNode) list" where
  "nodes_byID nodes = fold (\<lambda>node m. alist_put (cn_ID node) node m) nodes []"

lemma unseen_decreases:
  assumes "map_of by_id k = Some parent" "cn_ID parent \<notin> set seen"
  shows "card (cn_ID ` snd ` set by_id - insert (cn_ID parent) (set seen)) < card (cn_ID ` snd ` set by_id - set seen)"
proof (rule psubset_card_mono)
  show "finite (cn_ID ` snd ` set by_id - set seen)" by simp
  have "cn_ID parent \<in> cn_ID ` snd ` set by_id" using map_of_SomeD [OF assms(1)] by force
  then show "cn_ID ` snd ` set by_id - insert (cn_ID parent) (set seen) \<subset> cn_ID ` snd ` set by_id - set seen" using assms(2) by auto
qed

text \<open>The loop of \<^verbatim>\<open>capabilityPath\<close>; it stops at a missing or repeated ancestor, so it ends on cyclic hierarchies too.\<close>

function capability_loop :: "(string \<times> CapabilityNode) list \<Rightarrow> string list \<Rightarrow> CapabilityNode \<Rightarrow> CapabilityNode list" where
  "capability_loop by_id seen node = (if cn_ParentID node = [] then []
     else case map_of by_id (cn_ParentID node) of None \<Rightarrow> []
     | Some parent \<Rightarrow> if cn_ID parent \<in> set seen then [] else parent # capability_loop by_id (cn_ID parent # seen) parent)"
  by pat_completeness auto

termination
  by (relation "measure (\<lambda>(by_id, seen, node). card (cn_ID ` snd ` set by_id - set seen))") (simp_all add: unseen_decreases)

declare capability_loop.simps [simp del]

definition capabilityPath :: "CapabilityNode \<Rightarrow> (string \<times> CapabilityNode) list \<Rightarrow> CapabilityNode list" where
  "capabilityPath node by_id = node # capability_loop by_id [cn_ID node] node"

fun join_strings :: "string \<Rightarrow> string list \<Rightarrow> string" where
  "join_strings sep [] = []"
| "join_strings sep [x] = x"
| "join_strings sep (x # y # xs) = x @ sep @ join_strings sep (y # xs)"

definition capabilityPathString :: "CapabilityNode \<Rightarrow> (string \<times> CapabilityNode) list \<Rightarrow> string" where
  "capabilityPathString node by_id = join_strings '' > '' (rev (map cn_Name (capabilityPath node by_id)))"

definition containsCapability :: "CapabilitySummary list \<Rightarrow> string \<Rightarrow> bool" where
  "containsCapability items i = list_ex (\<lambda>item. cs_ID item = i) items"

definition summary_of :: "(string \<times> CapabilityNode) list \<Rightarrow> CapabilityNode \<Rightarrow> CapabilitySummary" where
  "summary_of by_id node = \<lparr>cs_ID = cn_ID node, cs_Name = cn_Name node, cs_Description = cn_Description node,
     cs_Path = capabilityPathString node by_id\<rparr>"

definition summaries_of :: "(string \<times> CapabilitySummary list) list \<Rightarrow> string \<Rightarrow> CapabilitySummary list" where
  "summaries_of m member = (case map_of m member of None \<Rightarrow> [] | Some xs \<Rightarrow> xs)"

definition add_summary :: "(string \<times> CapabilityNode) list \<Rightarrow> string \<Rightarrow> CapabilityNode \<Rightarrow> (string \<times> CapabilitySummary list) list \<Rightarrow>
    (string \<times> CapabilitySummary list) list" where
  "add_summary by_id member node m =
     (if containsCapability (summaries_of m member) (cn_ID node) then m
      else alist_put member (summaries_of m member @ [summary_of by_id node]) m)"

definition capabilitySummaries :: "CapabilityHierarchy \<Rightarrow> (string \<times> CapabilitySummary list) list" where
  "capabilitySummaries hierarchy = (let nodes = ch_Capabilities hierarchy; by_id = nodes_byID nodes in
     map (\<lambda>(member, xs). (member, sort_key (\<lambda>s. (cs_Path s, cs_ID s)) xs))
       (fold (\<lambda>node m. fold (\<lambda>member m. fold (add_summary by_id member) (capabilityPath node by_id) m) (cn_ToolMembers node) m) nodes []))"

section \<open>Similarity to capabilities\<close>

definition cosine :: "float_lib \<Rightarrow> float32 list \<Rightarrow> float32 list \<Rightarrow> real" where
  "cosine fl left right =
     (if left = [] \<or> length left \<noteq> length right then -1
      else let leftNorm = squared_magnitude fl left; rightNorm = squared_magnitude fl right in
        if leftNorm = 0 \<or> rightNorm = 0 then -1
        else fl64 fl (dot fl left right / fl64 fl (sqrt64 fl leftNorm * sqrt64 fl rightNorm)))"

text \<open>The sum of the member vectors in float32, with the number of vectors added; a vector of another length is skipped.\<close>

definition add_vector :: "float_lib \<Rightarrow> float32 list \<Rightarrow> float32 list \<Rightarrow> float32 list" where
  "add_vector fl centroid vector = map (\<lambda>(a, b). fl32 fl (f32_value a + f32_value b)) (zip centroid vector)"

definition add_member :: "float_lib \<Rightarrow> VectorIndex option \<Rightarrow> string \<Rightarrow> float32 list option \<times> nat \<Rightarrow> float32 list option \<times> nat" where
  "add_member fl idx member st = (case VectorIndex_Vector idx member of None \<Rightarrow> st
     | Some vector \<Rightarrow> let centroid = (case fst st of None \<Rightarrow> replicate (length vector) 0 | Some c \<Rightarrow> c) in
         if length centroid \<noteq> length vector then (Some centroid, snd st)
         else (Some (add_vector fl centroid vector), Suc (snd st)))"

definition rank_node :: "float_lib \<Rightarrow> float32 list \<Rightarrow> VectorIndex option \<Rightarrow> CapabilityNode \<Rightarrow> (string \<times> real) list \<Rightarrow> (string \<times> real) list" where
  "rank_node fl query idx node scores =
     (case fold (add_member fl idx) (cn_ToolMembers node) (None, 0) of (centroid, vectors) \<Rightarrow>
      if vectors = 0 then scores
      else let score = cosine fl query (case centroid of None \<Rightarrow> [] | Some c \<Rightarrow> c) in
        fold (\<lambda>member s. case map_of s member of
            None \<Rightarrow> alist_put member score s
          | Some old \<Rightarrow> if score > old then alist_put member score s else s) (cn_ToolMembers node) scores)"

definition capabilityVectorRanking :: "float_lib \<Rightarrow> float32 list \<Rightarrow> CapabilityHierarchy \<Rightarrow> VectorIndex option \<Rightarrow> scored list" where
  "capabilityVectorRanking fl query hierarchy idx = sort_key rank_key (fold (rank_node fl query idx) (ch_Capabilities hierarchy) [])"

section \<open>Ranking helpers\<close>

definition collectVectorEvidence :: "scored list \<Rightarrow> (string \<times> real) list \<Rightarrow> (string \<times> real) list" where
  "collectVectorEvidence results evidence =
     fold (\<lambda>r e. if snd r > score_of e (fst r) then alist_put (fst r) (snd r) e else e) results evidence"

definition stop_words :: "string list" where
  "stop_words = [''a'', ''an'', ''and'', ''are'', ''for'', ''from'', ''in'', ''is'', ''it'', ''of'', ''on'', ''or'', ''the'', ''to'',
     ''tool'', ''use'', ''with'', ''please'', ''can'', ''you'', ''find'', ''get'', ''show'', ''me'', ''my'']"

text \<open>First occurrences in order; a token seen in the first pass would be skipped in the second, which only runs when none was kept.\<close>

fun fresh_tokens :: "string list \<Rightarrow> string list \<Rightarrow> string list" where
  "fresh_tokens seen [] = []"
| "fresh_tokens seen (t # ts) = (if t \<in> set seen then fresh_tokens seen ts else t # fresh_tokens (t # seen) ts)"

definition significantTokens :: "unicode_lib \<Rightarrow> string \<Rightarrow> string list" where
  "significantTokens u txt = (let tokens = Tokenize u txt; kept = fresh_tokens [] (filter (\<lambda>t. t \<notin> set stop_words) tokens) in
     if kept \<noteq> [] then kept else fresh_tokens [] tokens)"

definition matched_share :: "float_lib \<Rightarrow> string list \<Rightarrow> string list \<Rightarrow> real" where
  "matched_share fl terms have_terms = fl64 fl (real (length (filter (\<lambda>t. t \<in> set have_terms) terms)) / real (length terms))"

definition lexicalCoverage :: "unicode_lib \<Rightarrow> float_lib \<Rightarrow> string \<Rightarrow> string \<Rightarrow> real" where
  "lexicalCoverage u fl query txt = (let queryTerms = significantTokens u query in
     if queryTerms = [] then 0 else matched_share fl queryTerms (Tokenize u txt))"

fun Contains :: "string \<Rightarrow> string \<Rightarrow> bool" where
  "Contains [] sub = (sub = [])"
| "Contains (c # s) sub = (HasPrefix (c # s) sub \<or> Contains s sub)"

definition conditionApplies :: "unicode_lib \<Rightarrow> float_lib \<Rightarrow> string \<Rightarrow> string \<Rightarrow> bool" where
  "conditionApplies u fl condition context =
     (let condition' = TrimSpace (uc_lower u condition); context' = TrimSpace (uc_lower u context) in
      if condition' = [] then True
      else if Contains context' condition' then True
      else let conditionTerms = significantTokens u condition' in
        if conditionTerms = [] then False
        else matched_share fl conditionTerms (significantTokens u context') \<ge> 3 / 4)"

definition maxPreferenceAdjustment :: real where "maxPreferenceAdjustment = 12 / 1000"

definition preferenceStrength :: "float_lib \<Rightarrow> Rule \<Rightarrow> real" where
  "preferenceStrength fl rule =
     (let strength = (if rl_ProfileID (rule_Spec rule) \<noteq> [] then fl64 fl maxPreferenceAdjustment else fl64 fl (maxPreferenceAdjustment / 2)) in
      if rl_Specificity (rule_Spec rule) = SpecificityConditionalTool then strength
      else if rl_Specificity (rule_Spec rule) = SpecificityToolSet then fl64 fl (strength * (3 / 4))
      else if rl_Specificity (rule_Spec rule) = SpecificityServer then fl64 fl (strength * (1 / 2)) else 0)"

definition names_tool :: "string \<Rightarrow> string \<Rightarrow> Target \<Rightarrow> bool" where
  "names_tool sid tool t \<longleftrightarrow> tg_ServerID t = sid \<and> tg_ToolName t = tool"

fun preferenceAdjustment :: "unicode_lib \<Rightarrow> float_lib \<Rightarrow> Rule list \<Rightarrow> string \<Rightarrow> string \<Rightarrow> string \<Rightarrow> real" where
  "preferenceAdjustment u fl [] sid tool context = 0"
| "preferenceAdjustment u fl (rule # rules) sid tool context =
     (if rl_Specificity (rule_Spec rule) = SpecificityConditionalTool \<and> \<not> conditionApplies u fl (rl_Condition (rule_Spec rule)) context
      then preferenceAdjustment u fl rules sid tool context
      else if list_ex (names_tool sid tool) (rl_Preferred (rule_Spec rule)) then preferenceStrength fl rule
      else if list_ex (names_tool sid tool) (rl_Deprioritized (rule_Spec rule)) then - preferenceStrength fl rule
      else preferenceAdjustment u fl rules sid tool context)"

end
