(* ===== verification/DiscoveryService.thy ===== *)
theory DiscoveryService
  imports Discovery
begin

text \<open>
  The discovery service: \<^verbatim>\<open>internal/discovery/service.go\<close>. \<^verbatim>\<open>Search\<close> is the chain of its stages in the order of the code:
  the request, the catalog's sources and their availability, the loaded indexes, the query vector (which moves the query
  cache), the fused ranking, the candidates and the results. \<^verbatim>\<open>GetTool\<close> turns a reference into a contract and an
  execution handle.
\<close>

section \<open>Data\<close>

datatype disc_error =
    IndexRequired
  | RoutingProfileNotFound
  | InvalidToolReference
  | InvalidSearchRequest string
  | DiscCatalog cat_error
  | DiscState state_error
  | DiscPrefs pref_error
  | DiscRetrieve retrieve_error
  | DiscIndex retrieval_error
  | DiscEmbed embed_error
  | DiscFusion rrf_error
  | DiscContract contract_error
  | DiscHandle handle_error
  | DiscDecode string

record disc_options =
  do_DefaultProfile :: string
  do_CandidateDepth :: int
  do_RRFK :: int
  do_MinVectorSimilarity :: real
  do_MinLexicalCoverage :: real

text \<open>The service; \<open>ds_identity\<close> and \<open>ds_ask\<close> are the embedding provider.\<close>

record 'b disc_service =
  ds_lib :: disc_lib
  ds_identity :: Identity
  ds_ask :: "string list \<Rightarrow> (string, float32 list list) result"
  ds_state :: "'b backend_ops"
  ds_handles :: "Manager option"
  ds_options :: disc_options

text \<open>What the service reads: the catalog, the routing state, the preferences, and which SQL statements fail.\<close>

record 'b disc_world =
  dw_catalog :: catalog
  dw_routing :: 'b
  dw_prefs :: prefs_db
  dw_sql :: sqlenv
  dw_psql :: "string \<Rightarrow> bool"

record SearchInput =
  si_Query :: string
  si_Limit :: int
  si_RoutingProfile :: string
  si_Context :: string

record SearchResult =
  sr_ToolRef :: string
  sr_ServerName :: string
  sr_ToolName :: string
  sr_Title :: string
  sr_Summary :: string
  sr_ExecutorClass :: string

record SearchOutput =
  so_GenerationID :: string
  so_EffectiveProfile :: "(string \<times> string) option"
  so_PreferenceRevision :: "64 word"
  so_Results :: "SearchResult list"

record GetToolOutput =
  gt_GenerationID :: string
  gt_Server :: SourceServerContract
  gt_ServerID :: string
  gt_ToolName :: string
  gt_SourceFingerprint :: string
  gt_ExecutorClass :: string
  gt_Tool :: string
  gt_SemanticGuidance :: "ToolGuidance option"
  gt_Capabilities :: "CapabilitySummary list"
  gt_HumanServerName :: string
  gt_HumanTitle :: string
  gt_HumanDisplay :: string
  gt_ExecutionHandle :: string

record candidate =
  ca_key :: string
  ca_source :: SourceToolRecord
  ca_presentation :: toolPresentation
  ca_server :: SourceServerContract
  ca_guidance :: "ToolGuidance option"
  ca_capabilities :: "CapabilitySummary list"
  ca_fusedScore :: real
  ca_preferenceAdjust :: real
  ca_maxVectorScore :: real
  ca_lexicalCoverage :: real

definition defaultLimit :: int where "defaultLimit = 10"
definition maximumLimit :: int where "maximumLimit = 50"
definition defaultCandidateDepth :: int where "defaultCandidateDepth = 50"
definition defaultMinVectorSimilarity :: "float_lib \<Rightarrow> real" where "defaultMinVectorSimilarity fl = fl64 fl (48 / 100)"
definition defaultMinLexicalCoverage :: real where "defaultMinLexicalCoverage = 1 / 2"

text \<open>The options that \<^verbatim>\<open>NewService\<close> keeps, on non-nil components.\<close>

definition service_options :: "float_lib \<Rightarrow> disc_options \<Rightarrow> disc_options" where
  "service_options fl opts = opts
     \<lparr>do_CandidateDepth := (if do_CandidateDepth opts \<le> 0 then defaultCandidateDepth else do_CandidateDepth opts),
      do_RRFK := (if do_RRFK opts \<le> 0 then defaultRRFK else do_RRFK opts),
      do_MinVectorSimilarity := (if do_MinVectorSimilarity opts \<le> 0 then defaultMinVectorSimilarity fl else do_MinVectorSimilarity opts),
      do_MinLexicalCoverage := (if do_MinLexicalCoverage opts \<le> 0 then defaultMinLexicalCoverage else do_MinLexicalCoverage opts)\<rparr>"

section \<open>Errors of callees\<close>

definition or_error :: "('e \<Rightarrow> disc_error) \<Rightarrow> ('e, 'a) result \<Rightarrow> (disc_error, 'a) result" where
  "or_error f r = (case r of Inl e \<Rightarrow> Inl (f e) | Inr x \<Rightarrow> Inr x)"

definition some_or :: "disc_error \<Rightarrow> 'a option \<Rightarrow> (disc_error, 'a) result" where
  "some_or e r = (case r of None \<Rightarrow> Inl e | Some x \<Rightarrow> Inr x)"

definition fail_if :: "bool \<Rightarrow> disc_error \<Rightarrow> (disc_error, unit) result" where
  "fail_if bad e = (if bad then Inl e else Inr ())"

lemma disc_error_simps [err_simps]:
  "or_error f r = Inr x \<longleftrightarrow> r = Inr x" "some_or e o' = Inr x \<longleftrightarrow> o' = Some x" "fail_if bad e = Inr u \<longleftrightarrow> \<not> bad"
  by (simp_all add: or_error_def some_or_def fail_if_def split: sum.split option.split)

section \<open>Helpers of the service\<close>

text \<open>A current answer of \<^verbatim>\<open>ActiveCurrent\<close> always carries a generation.\<close>

definition currentGeneration :: "'b disc_service \<Rightarrow> 'b disc_world \<Rightarrow> (disc_error, string) result" where
  "currentGeneration sv w =
     rbind (or_error DiscState (Tracker_Snapshot (ds_state sv) (dw_routing w))) (\<lambda>state.
     rbind (fail_if (blank (rs_RoutingStateHash state)) IndexRequired) (\<lambda>_.
     rbind (or_error DiscCatalog (ActiveCurrent (dl_codec (ds_lib sv)) (dw_sql w) (dw_catalog w) (rs_RoutingStateHash state))) (\<lambda>(generation, current).
     rbind (fail_if (\<not> current) IndexRequired) (\<lambda>_.
     Inr (case generation of None \<Rightarrow> [] | Some (gid, g) \<Rightarrow> gid)))))"

definition resolveProfile :: "'b disc_service \<Rightarrow> 'b disc_world \<Rightarrow> string \<Rightarrow> (disc_error, (string \<times> string) option \<times> string) result" where
  "resolveProfile sv w requested =
     (let selector = (if requested = [] then TrimSpace (do_DefaultProfile (ds_options sv)) else requested) in
      if selector = [] then Inr (None, [])
      else rbind (or_error DiscPrefs (ListProfiles (dl_prefs (ds_lib sv)) (dw_psql w) (dw_prefs w))) (\<lambda>profiles.
        case find (\<lambda>p. prof_ID p = selector) profiles of
          Some p \<Rightarrow> Inr (Some (prof_ID p, prof_Name p), prof_ID p)
        | None \<Rightarrow> (case find (\<lambda>p. prof_Name p = selector) profiles of
            Some p \<Rightarrow> Inr (Some (prof_ID p, prof_Name p), prof_ID p)
          | None \<Rightarrow> Inl RoutingProfileNotFound)))"

fun decode_guidance :: "disc_lib \<Rightarrow> GenerationArtifact list \<Rightarrow> (string \<times> ToolGuidance) list \<Rightarrow>
    (disc_error, (string \<times> ToolGuidance) list) result" where
  "decode_guidance lib [] m = Inr m"
| "decode_guidance lib (r # rs) m = (case dl_guidance lib (art_Payload (snd (gart_Artifact r))) of
     None \<Rightarrow> Inl (DiscDecode (gart_MemberKey r))
   | Some g \<Rightarrow> decode_guidance lib rs (alist_put (gart_MemberKey r) g m))"

definition loadGuidance :: "'b disc_service \<Rightarrow> 'b disc_world \<Rightarrow> string \<Rightarrow> (disc_error, (string \<times> ToolGuidance) list) result" where
  "loadGuidance sv w gid =
     rbind (or_error DiscCatalog (GenerationArtifacts (dl_codec (ds_lib sv)) (dw_sql w) (dw_catalog w) gid RoleToolEnrichment)) (\<lambda>records.
     decode_guidance (ds_lib sv) records [])"

definition loadCapabilityHierarchy :: "'b disc_service \<Rightarrow> 'b disc_world \<Rightarrow> string \<Rightarrow> (disc_error, CapabilityHierarchy) result" where
  "loadCapabilityHierarchy sv w gid =
     rbind (or_error DiscCatalog (GenerationArtifacts (dl_codec (ds_lib sv)) (dw_sql w) (dw_catalog w) gid RoleCapabilityHierarchy)) (\<lambda>records.
     case records of
       [r] \<Rightarrow> if gart_MemberKey r \<noteq> ''global'' then Inl IndexRequired
              else some_or (DiscDecode ''capability hierarchy'') (dl_hierarchy (ds_lib sv) (art_Payload (snd (gart_Artifact r))))
     | _ \<Rightarrow> Inl IndexRequired)"

definition parsePresentation :: "disc_lib \<Rightarrow> SourceToolRecord \<Rightarrow> (disc_error, toolPresentation) result" where
  "parsePresentation lib source =
     (case dl_presentation lib (rec_ContractJSON source) of None \<Rightarrow> Inl (DiscDecode ''source tool'')
      | Some p \<Rightarrow> if blank (pres_Name p) \<or> pres_Name p \<noteq> rec_ToolName source then Inl IndexRequired else Inr p)"

section \<open>Search\<close>

text \<open>What is known once the request and the catalog's sources are read.\<close>

record search_base =
  sb_query :: string
  sb_limit :: int
  sb_generation :: string
  sb_profile :: "(string \<times> string) option"
  sb_profileID :: string
  sb_revision :: "64 word"
  sb_sources :: "SourceToolRecord list"

definition search_base_of :: "'b disc_service \<Rightarrow> 'b disc_world \<Rightarrow> SearchInput \<Rightarrow> (disc_error, search_base) result" where
  "search_base_of sv w input =
     (let query = TrimSpace (si_Query input); limit = (if si_Limit input = 0 then defaultLimit else si_Limit input) in
      rbind (fail_if (query = []) (InvalidSearchRequest ''query is required'')) (\<lambda>_.
      rbind (fail_if (limit < 1 \<or> limit > maximumLimit) (InvalidSearchRequest ''limit'')) (\<lambda>_.
      rbind (currentGeneration sv w) (\<lambda>gid.
      rbind (resolveProfile sv w (TrimSpace (si_RoutingProfile input))) (\<lambda>(profile, profileID).
      rbind (or_error DiscPrefs (Prefs_Revision (dw_psql w) (dw_prefs w))) (\<lambda>revision.
      rbind (or_error DiscCatalog (SourceTools (dl_codec (ds_lib sv)) (dw_sql w) (dw_catalog w) gid)) (\<lambda>sources.
      Inr \<lparr>sb_query = query, sb_limit = limit, sb_generation = gid, sb_profile = profile, sb_profileID = profileID,
        sb_revision = revision, sb_sources = sources\<rparr>)))))))"

text \<open>The map of available members and the number of sources known to be unavailable.\<close>

fun availability :: "sqlenv \<Rightarrow> catalog \<Rightarrow> SourceToolRecord list \<Rightarrow> (string \<times> bool) list \<Rightarrow> nat \<Rightarrow>
    (disc_error, (string \<times> bool) list \<times> nat) result" where
  "availability q db [] m n = Inr (m, n)"
| "availability q db (s # ss) m n =
     rbind (or_error DiscCatalog (ToolAvailability q db (rec_ServerID s) (rec_ToolName s) (rec_SourceFingerprint s))) (\<lambda>(available, known).
     availability q db ss (alist_put (member_of s) (\<not> known \<or> available) m) (if known \<and> \<not> available then Suc n else n))"

record search_indexes =
  sx_guidance :: "(string \<times> ToolGuidance) list"
  sx_hierarchy :: CapabilityHierarchy
  sx_lexical :: LexicalIndex
  sx_source :: VectorIndex
  sx_schema :: VectorIndex
  sx_enriched :: VectorIndex

definition load_indexes :: "'b disc_service \<Rightarrow> 'b disc_world \<Rightarrow> string \<Rightarrow> nat \<Rightarrow> (disc_error, search_indexes) result" where
  "load_indexes sv w gid n = (let lib = ds_lib sv; cd = dl_codec lib; fl = dl_float lib; q = dw_sql w; db = dw_catalog w in
     rbind (loadGuidance sv w gid) (\<lambda>guidance.
     rbind (loadCapabilityHierarchy sv w gid) (\<lambda>hierarchy.
     rbind (or_error DiscRetrieve (LoadLexicalIndex cd (dl_unicode lib) fl q db gid)) (\<lambda>lexicalIndex.
     rbind (or_error DiscRetrieve (LoadVectorIndex cd fl q db gid RoleSourceDescriptionVector)) (\<lambda>sourceIndex.
     rbind (or_error DiscRetrieve (LoadVectorIndex cd fl q db gid RoleInputSchemaVector)) (\<lambda>schemaIndex.
     rbind (or_error DiscRetrieve (LoadVectorIndex cd fl q db gid RoleEnrichedEmbedding)) (\<lambda>enrichedIndex.
     rbind (fail_if (Lexical_Len (Some lexicalIndex) \<noteq> n \<or> Vector_Len (Some sourceIndex) \<noteq> n \<or> Vector_Len (Some schemaIndex) \<noteq> n \<or>
        Vector_Len (Some enrichedIndex) \<noteq> n) IndexRequired) (\<lambda>_.
     Inr \<lparr>sx_guidance = guidance, sx_hierarchy = hierarchy, sx_lexical = lexicalIndex, sx_source = sourceIndex,
       sx_schema = schemaIndex, sx_enriched = enrichedIndex\<rparr>))))))))"

definition candidate_depth :: "int \<Rightarrow> int \<Rightarrow> nat \<Rightarrow> nat \<Rightarrow> int" where
  "candidate_depth configured limit unavailable n = min (max configured (limit + int unavailable)) (int n)"

text \<open>The fused ranking and the vector evidence.\<close>

definition rank_tools :: "'b disc_service \<Rightarrow> search_indexes \<Rightarrow> string \<Rightarrow> float32 list \<Rightarrow> int \<Rightarrow>
    (disc_error, scored list \<times> (string \<times> real) list) result" where
  "rank_tools sv x query vector depth = (let fl = dl_float (ds_lib sv) in
     rbind (or_error DiscIndex (Lexical_Search (dl_unicode (ds_lib sv)) fl (Some (sx_lexical x)) query depth)) (\<lambda>lexicalResults.
     rbind (or_error DiscIndex (Vector_Search fl (Some (sx_source x)) vector depth)) (\<lambda>sourceResults.
     rbind (or_error DiscIndex (Vector_Search fl (Some (sx_schema x)) vector depth)) (\<lambda>schemaResults.
     rbind (or_error DiscIndex (Vector_Search fl (Some (sx_enriched x)) vector depth)) (\<lambda>enrichedResults.
     let capabilityResults = take (nat depth) (capabilityVectorRanking fl vector (sx_hierarchy x) (Some (sx_enriched x)));
         facets = map (\<lambda>rs. \<lparr>rf_Weight = 1, rf_Keys = map fst rs\<rparr>)
           [lexicalResults, sourceResults, schemaResults, enrichedResults, capabilityResults] in
     rbind (or_error DiscFusion (reciprocalRankFusion fl facets (do_RRFK (ds_options sv)))) (\<lambda>fused.
     Inr (fused, fold collectVectorEvidence [sourceResults, schemaResults, enrichedResults, capabilityResults] [])))))))"

fun source_maps :: "'b disc_service \<Rightarrow> 'b disc_world \<Rightarrow> string \<Rightarrow> SourceToolRecord list \<Rightarrow> (string \<times> SourceToolRecord) list \<Rightarrow>
    (string \<times> SourceServerContract) list \<Rightarrow> (disc_error, (string \<times> SourceToolRecord) list \<times> (string \<times> SourceServerContract) list) result" where
  "source_maps sv w gid [] by_key servers = Inr (by_key, servers)"
| "source_maps sv w gid (s # ss) by_key servers =
     (let by_key' = alist_put (member_of s) s by_key in
      if map_of servers (rec_ServerID s) \<noteq> None then source_maps sv w gid ss by_key' servers
      else rbind (or_error DiscCatalog (SourceServer (dl_codec (ds_lib sv)) (dl_server (ds_lib sv)) (dw_sql w) (dw_catalog w) gid (rec_ServerID s)))
        (\<lambda>(contract, fp). source_maps sv w gid ss by_key' (alist_put (rec_ServerID s) contract servers)))"

definition newline_join :: "string list \<Rightarrow> string" where
  "newline_join = join_strings newline"

definition candidate_text :: "codec \<Rightarrow> toolPresentation \<Rightarrow> ToolGuidance option \<Rightarrow> CapabilitySummary list \<Rightarrow> string" where
  "candidate_text cd p guidance capabilities = newline_join ([pres_Name p, pres_Title p, pres_Description p] @
     (case guidance of None \<Rightarrow> [] | Some g \<Rightarrow> [marshal_json cd (guidance_json g)]) @
     concat (map (\<lambda>c. [cs_Path c, cs_Description c]) capabilities))"

definition no_contract :: SourceServerContract where
  "no_contract = \<lparr>ssc_ServerID = [], ssc_Name = [], ssc_Mode = [], ssc_TransportType = []\<rparr>"

text \<open>The loop over the fused keys; a member absent from the availability map reads as unavailable.\<close>

fun candidates_of :: "'b disc_service \<Rightarrow> string \<Rightarrow> (string \<times> bool) list \<Rightarrow> (string \<times> SourceToolRecord) list \<Rightarrow>
    (string \<times> SourceServerContract) list \<Rightarrow> (string \<times> ToolGuidance) list \<Rightarrow> (string \<times> CapabilitySummary list) list \<Rightarrow>
    (string \<times> real) list \<Rightarrow> scored list \<Rightarrow> (disc_error, candidate list) result" where
  "candidates_of sv query available by_key servers guidance capabilities evidence [] = Inr []"
| "candidates_of sv query available by_key servers guidance capabilities evidence ((key, score) # items) =
     (if map_of available key \<noteq> Some True then candidates_of sv query available by_key servers guidance capabilities evidence items
      else case map_of by_key key of None \<Rightarrow> Inl IndexRequired
      | Some source \<Rightarrow> rbind (parsePresentation (ds_lib sv) source) (\<lambda>presentation.
        let coverage = lexicalCoverage (dl_unicode (ds_lib sv)) (dl_float (ds_lib sv)) query
              (candidate_text (dl_codec (ds_lib sv)) presentation (map_of guidance key) (summaries_of capabilities key));
            maxVector = score_of evidence key in
        rbind (candidates_of sv query available by_key servers guidance capabilities evidence items) (\<lambda>rest.
        if maxVector < do_MinVectorSimilarity (ds_options sv) \<and> coverage < do_MinLexicalCoverage (ds_options sv) then Inr rest
        else Inr (\<lparr>ca_key = key, ca_source = source, ca_presentation = presentation,
            ca_server = (case map_of servers (rec_ServerID source) of None \<Rightarrow> no_contract | Some c \<Rightarrow> c),
            ca_guidance = map_of guidance key, ca_capabilities = summaries_of capabilities key, ca_fusedScore = score,
            ca_preferenceAdjust = 0, ca_maxVectorScore = maxVector, ca_lexicalCoverage = coverage\<rparr> # rest))))"

definition candidate_key :: "float_lib \<Rightarrow> candidate \<Rightarrow> real \<times> real \<times> string" where
  "candidate_key fl c = (- fl64 fl (ca_fusedScore c + ca_preferenceAdjust c), - ca_fusedScore c, ca_key c)"

definition adjust :: "'b disc_service \<Rightarrow> Rule list \<Rightarrow> string \<Rightarrow> candidate \<Rightarrow> candidate" where
  "adjust sv rules context c = c\<lparr>ca_preferenceAdjust := preferenceAdjustment (dl_unicode (ds_lib sv)) (dl_float (ds_lib sv)) rules
     (rec_ServerID (ca_source c)) (rec_ToolName (ca_source c)) context\<rparr>"

definition reference_of :: "string \<Rightarrow> SourceToolRecord \<Rightarrow> toolReferenceClaims" where
  "reference_of gid source = \<lparr>trc_Version = 0, trc_GenerationID = gid, trc_ServerID = rec_ServerID source,
     trc_ToolName = rec_ToolName source, trc_SourceFingerprint = rec_SourceFingerprint source\<rparr>"

definition result_of :: "'b disc_service \<Rightarrow> string \<Rightarrow> candidate \<Rightarrow> (disc_error, SearchResult) result" where
  "result_of sv gid c =
     rbind (or_error DiscContract (ExecutorClassForJSON (dl_codec (ds_lib sv)) (rec_ContractJSON (ca_source c)))) (\<lambda>executor.
     Inr \<lparr>sr_ToolRef = encodeToolReference (ds_lib sv) (reference_of gid (ca_source c)),
       sr_ServerName = ssc_Name (ca_server c), sr_ToolName = rec_ToolName (ca_source c), sr_Title = pres_Title (ca_presentation c),
       sr_Summary = (case ca_guidance c of None \<Rightarrow> pres_Description (ca_presentation c)
         | Some g \<Rightarrow> if blank (tgd_Purpose g) then pres_Description (ca_presentation c) else tgd_Purpose g),
       sr_ExecutorClass = executor\<rparr>)"

fun results_of :: "'b disc_service \<Rightarrow> string \<Rightarrow> candidate list \<Rightarrow> (disc_error, SearchResult list) result" where
  "results_of sv gid [] = Inr []"
| "results_of sv gid (c # cs) = rbind (result_of sv gid c) (\<lambda>r. rbind (results_of sv gid cs) (\<lambda>rs. Inr (r # rs)))"

definition search_output :: "search_base \<Rightarrow> SearchResult list \<Rightarrow> SearchOutput" where
  "search_output b results = \<lparr>so_GenerationID = sb_generation b, so_EffectiveProfile = sb_profile b,
     so_PreferenceRevision = sb_revision b, so_Results = results\<rparr>"

text \<open>The part of \<^verbatim>\<open>Search\<close> after the query was embedded: the candidates, best first and cut to the limit.\<close>

definition select_candidates :: "'b disc_service \<Rightarrow> 'b disc_world \<Rightarrow> SearchInput \<Rightarrow> search_base \<Rightarrow> (string \<times> bool) list \<Rightarrow> nat \<Rightarrow>
    search_indexes \<Rightarrow> float32 list \<Rightarrow> (disc_error, candidate list) result" where
  "select_candidates sv w input b available unavailable x vector =
     (let depth = candidate_depth (do_CandidateDepth (ds_options sv)) (sb_limit b) unavailable (length (sb_sources b));
          preferenceContext = (if blank (si_Context input) then sb_query b else sb_query b @ newline @ si_Context input) in
      rbind (rank_tools sv x (sb_query b) vector depth) (\<lambda>(fused, evidence).
      rbind (source_maps sv w (sb_generation b) (sb_sources b) [] []) (\<lambda>(by_key, servers).
      rbind (candidates_of sv (sb_query b) available by_key servers (sx_guidance x) (capabilitySummaries (sx_hierarchy x)) evidence fused) (\<lambda>candidates.
      rbind (or_error DiscPrefs (EffectiveRules (dl_prefs (ds_lib sv)) (dw_psql w) (dw_prefs w) (sb_profileID b))) (\<lambda>rules.
      Inr (take (nat (sb_limit b)) (sort_key (candidate_key (dl_float (ds_lib sv))) (map (adjust sv rules preferenceContext) candidates))))))))"

text \<open>Before the query is embedded: nothing to rank, or the availability map and the indexes.\<close>

definition search_prepare :: "'b disc_service \<Rightarrow> 'b disc_world \<Rightarrow> SearchInput \<Rightarrow>
    (disc_error, search_base \<times> ((string \<times> bool) list \<times> nat \<times> search_indexes) option) result" where
  "search_prepare sv w input =
     rbind (search_base_of sv w input) (\<lambda>b.
     if sb_sources b = [] then Inr (b, None)
     else rbind (availability (dw_sql w) (dw_catalog w) (sb_sources b) [] 0) (\<lambda>(available, unavailable).
       if unavailable = length (sb_sources b) then Inr (b, None)
       else rbind (load_indexes sv w (sb_generation b) (length (sb_sources b))) (\<lambda>x. Inr (b, Some (available, unavailable, x)))))"

definition Search :: "'b disc_service \<Rightarrow> 'b disc_world \<Rightarrow> SearchInput \<Rightarrow> QueryCache option \<Rightarrow>
    QueryCache option \<times> (disc_error, SearchOutput) result" where
  "Search sv w input cache = (case search_prepare sv w input of
     Inl e \<Rightarrow> (cache, Inl e)
   | Inr (b, None) \<Rightarrow> (cache, Inr (search_output b []))
   | Inr (b, Some (available, unavailable, x)) \<Rightarrow>
       (case EmbedQuery (dl_codec (ds_lib sv)) (dl_float (ds_lib sv)) (ds_identity sv) (ds_ask sv) cache (sb_query b) of
          (cache', Inl e) \<Rightarrow> (cache', Inl (DiscEmbed e))
        | (cache', Inr vector) \<Rightarrow> (cache',
            rbind (select_candidates sv w input b available unavailable x vector) (\<lambda>selected.
            rbind (results_of sv (sb_generation b) selected) (\<lambda>results. Inr (search_output b results))))))"

section \<open>A tool and its handle\<close>

text \<open>The lookup part of \<^verbatim>\<open>GetTool\<close>: the generation and the source that the reference names.\<close>

definition resolve_reference :: "'b disc_service \<Rightarrow> 'b disc_world \<Rightarrow> string \<Rightarrow> (disc_error, string \<times> SourceToolRecord) result" where
  "resolve_reference sv w ref = (let cd = dl_codec (ds_lib sv); q = dw_sql w; db = dw_catalog w in
     rbind (some_or InvalidToolReference (decodeToolReference (ds_lib sv) (TrimSpace ref))) (\<lambda>claims.
     rbind (currentGeneration sv w) (\<lambda>gid.
     rbind (fail_if (trc_GenerationID claims \<noteq> gid) InvalidToolReference) (\<lambda>_.
     rbind (or_error DiscCatalog (SourceTools cd q db gid)) (\<lambda>sources.
     rbind (some_or InvalidToolReference (findSource sources (trc_ServerID claims) (trc_ToolName claims))) (\<lambda>source.
     rbind (fail_if (rec_SourceFingerprint source \<noteq> trc_SourceFingerprint claims) InvalidToolReference) (\<lambda>_.
     rbind (or_error DiscCatalog (ToolAvailability q db (rec_ServerID source) (rec_ToolName source) (rec_SourceFingerprint source))) (\<lambda>(available, known).
     rbind (fail_if (known \<and> \<not> available) InvalidToolReference) (\<lambda>_.
     Inr (gid, source))))))))))"

definition handle_claims :: "string \<Rightarrow> SourceToolRecord \<Rightarrow> string \<Rightarrow> Claims" where
  "handle_claims gid source executor = \<lparr>cl_Version = 0, cl_GenerationID = gid, cl_ServerID = rec_ServerID source,
     cl_ToolName = rec_ToolName source, cl_SourceFingerprint = rec_SourceFingerprint source, cl_ExecutorClass = executor, cl_ProcessEpoch = []\<rparr>"

definition GetTool :: "'b disc_service \<Rightarrow> 'b disc_world \<Rightarrow> string \<Rightarrow> (disc_error, GetToolOutput) result" where
  "GetTool sv w ref = (let lib = ds_lib sv in
     rbind (resolve_reference sv w ref) (\<lambda>(gid, source).
     rbind (or_error DiscCatalog (SourceServer (dl_codec lib) (dl_server lib) (dw_sql w) (dw_catalog w) gid (rec_ServerID source))) (\<lambda>(server, fp).
     rbind (parsePresentation lib source) (\<lambda>presentation.
     rbind (or_error DiscContract (ExecutorClassForJSON (dl_codec lib) (rec_ContractJSON source))) (\<lambda>executor.
     rbind (loadGuidance sv w gid) (\<lambda>guidance.
     rbind (loadCapabilityHierarchy sv w gid) (\<lambda>hierarchy.
     rbind (or_error DiscHandle (Mint (dl_handles lib) (ds_handles sv) (handle_claims gid source executor))) (\<lambda>handle.
     Inr \<lparr>gt_GenerationID = gid, gt_Server = server, gt_ServerID = rec_ServerID source, gt_ToolName = rec_ToolName source,
       gt_SourceFingerprint = rec_SourceFingerprint source, gt_ExecutorClass = executor, gt_Tool = rec_ContractJSON source,
       gt_SemanticGuidance = map_of guidance (member_of source), gt_Capabilities = summaries_of (capabilitySummaries hierarchy) (member_of source),
       gt_HumanServerName = ssc_Name server, gt_HumanTitle = pres_Title presentation,
       gt_HumanDisplay = ssc_Name server @ '' / '' @ (if pres_Title presentation = [] then pres_Name presentation else pres_Title presentation),
       gt_ExecutionHandle = handle\<rparr>))))))))"

end
