(* ===== verification/DiscoveryFacts.thy ===== *)
theory DiscoveryFacts
  imports DiscoveryService EnrichmentFacts RetrievalFacts RouterFacts
begin

text \<open>
  What discovery guarantees: rank fusion is the sum of the reciprocal ranks in a unique order, a tool reference reads back what
  it names, capability paths are short chains of parents on every hierarchy, search results are available tools of the current
  generation, and what search returns can be fetched and executed.
\<close>

section \<open>Rank fusion\<close>

fun position :: "string \<Rightarrow> string list \<Rightarrow> nat option" where
  "position k [] = None"
| "position k (x # xs) = (if x = k then Some 0 else map_option Suc (position k xs))"

definition add_share :: "float_lib \<Rightarrow> int \<Rightarrow> string \<Rightarrow> RankedFacet \<Rightarrow> real \<Rightarrow> real" where
  "add_share fl k key facet acc = (if rf_Weight facet = 0 then acc else case position key (rf_Keys facet) of
     None \<Rightarrow> acc | Some i \<Rightarrow> fl64 fl (acc + rrf_term fl (rf_Weight facet) k (i + 1)))"

definition fused_score :: "float_lib \<Rightarrow> int \<Rightarrow> RankedFacet list \<Rightarrow> string \<Rightarrow> real" where
  "fused_score fl k facets key = fold (add_share fl k key) facets 0"

definition facet_ok :: "RankedFacet \<Rightarrow> bool" where
  "facet_ok facet \<longleftrightarrow> 0 \<le> rf_Weight facet \<and> (rf_Weight facet \<noteq> 0 \<longrightarrow> [] \<notin> set (rf_Keys facet) \<and> distinct (rf_Keys facet))"

definition weighted_keys :: "RankedFacet list \<Rightarrow> string set" where
  "weighted_keys facets = (\<Union>facet \<in> set facets. if rf_Weight facet = 0 then {} else set (rf_Keys facet))"

lemma position_None: "position k xs = None \<longleftrightarrow> k \<notin> set xs"
  by (induction xs) auto

lemma score_put [simp]: "score_of (alist_put k v m) key = (if key = k then v else score_of m key)"
  by (simp add: score_of_def map_of_alist_put)

lemma rrf_keys_Inr_iff:
  "(\<exists>r. rrf_keys fl w k i seen keys scores = Inr r) \<longleftrightarrow> [] \<notin> set keys \<and> distinct keys \<and> set keys \<inter> set seen = {}"
  by (induction keys arbitrary: i seen scores) auto

lemma rrf_keys_scores:
  "rrf_keys fl w k i seen keys scores = Inr r \<Longrightarrow> distinct (map fst scores) \<Longrightarrow>
   distinct (map fst r) \<and> fst ` set r = fst ` set scores \<union> set keys \<and>
   (\<forall>key. score_of r key = (case position key keys of None \<Rightarrow> score_of scores key
      | Some j \<Rightarrow> fl64 fl (score_of scores key + rrf_term fl w k (i + j + 1))))"
proof (induction keys arbitrary: i seen scores)
  case (Cons x keys)
  let ?s = "alist_put x (fl64 fl (score_of scores x + rrf_term fl w k (i + 1))) scores"
  have x: "x \<notin> set keys" and r: "rrf_keys fl w k (Suc i) (x # seen) keys ?s = Inr r"
    using Cons(2) rrf_keys_Inr_iff [of fl w k "Suc i" "x # seen" keys ?s] by (auto split: if_splits)
  have d: "distinct (map fst ?s)" using Cons(3) by simp
  have "score_of r key = (case position key (x # keys) of None \<Rightarrow> score_of scores key
      | Some j \<Rightarrow> fl64 fl (score_of scores key + rrf_term fl w k (i + j + 1)))" for key
  proof (cases "key = x")
    case True
    then show ?thesis using Cons(1) [OF r d] by (simp add: iffD2 [OF position_None x])
  next
    case False
    then show ?thesis using Cons(1) [OF r d] by (cases "position key keys") simp_all
  qed
  then show ?case using Cons(1) [OF r d] by (auto simp: keys_alist_put)
qed simp

lemma rrf_facets_Inr_iff:
  "(\<exists>r. rrf_facets fl k facets scores = Inr r) \<longleftrightarrow> (\<forall>facet \<in> set facets. facet_ok facet)"
proof (induction facets arbitrary: scores)
  case (Cons facet facets)
  note keys = rrf_keys_Inr_iff [of fl "rf_Weight facet" k 0 "[]" "rf_Keys facet" scores]
  show ?case
  proof (cases "rrf_keys fl (rf_Weight facet) k 0 [] (rf_Keys facet) scores")
    case (Inl e)
    with keys Cons show ?thesis by (auto simp: facet_ok_def err_simps)
  next
    case (Inr s)
    with keys have "[] \<notin> set (rf_Keys facet) \<and> distinct (rf_Keys facet)" by simp
    with Inr Cons show ?thesis by (simp add: err_simps facet_ok_def [of facet])
  qed
qed simp

lemma rrf_facets_scores:
  "rrf_facets fl k facets scores = Inr r \<Longrightarrow> distinct (map fst scores) \<Longrightarrow>
   distinct (map fst r) \<and> fst ` set r = fst ` set scores \<union> weighted_keys facets \<and>
   (\<forall>key. score_of r key = fold (add_share fl k key) facets (score_of scores key))"
proof (induction facets arbitrary: scores)
  case (Cons facet facets)
  show ?case
  proof (cases "rf_Weight facet = 0")
    case True
    with Cons show ?thesis by (simp add: weighted_keys_def add_share_def)
  next
    case False
    with Cons(2) obtain s where s: "rrf_keys fl (rf_Weight facet) k 0 [] (rf_Keys facet) scores = Inr s"
      and r: "rrf_facets fl k facets s = Inr r" by (auto split: if_splits elim: rbind_InrE)
    note keys = rrf_keys_scores [OF s Cons(3)]
    then have "distinct (map fst s)" by blast
    from Cons(1) [OF r this] keys False show ?thesis
      by (auto simp: weighted_keys_def add_share_def split: option.split)
  qed
qed (simp add: weighted_keys_def)

lemma scored_from_map:
  assumes "distinct (map fst r)"
  shows "set r = {(key, score_of r key) |key. key \<in> fst ` set r}"
proof -
  have "score_of r key = s" if "(key, s) \<in> set r" for key s
    using that assms by (simp add: score_of_def)
  then show ?thesis by force
qed

lemma ranked_unique:
  assumes "sorted_wrt (<) (map rank_key xs)" "sorted_wrt (<) (map rank_key ys)" "set xs = set ys"
  shows "xs = ys"
proof -
  have "map rank_key xs = map rank_key ys" using assms by (intro strict_sorted_equal) auto
  then show ?thesis by (metis injI list.inj_map_strong rank_key_inj)
qed

text \<open>
  Reciprocal rank fusion computes its definition: it succeeds exactly when the constant is positive, no weight is
  negative and the weighted facets have distinct non-empty keys; the result then holds every key of a weighted facet
  once, with the (rounded) sum of its weighted reciprocal ranks in facet order, best score first and equal scores by
  key, which determines the list although the code fills a map and uses an unstable sort.
\<close>

theorem reciprocalRankFusion_exact:
  "reciprocalRankFusion fl facets k = Inr fused \<longleftrightarrow> 0 < k \<and> list_all facet_ok facets \<and>
     set fused = {(key, fused_score fl k facets key) |key. key \<in> weighted_keys facets} \<and> sorted_wrt (<) (map rank_key fused)"
proof (cases "0 < k \<and> list_all facet_ok facets")
  case True
  then obtain scores where s: "rrf_facets fl k facets [] = Inr scores"
    using rrf_facets_Inr_iff [of fl k facets "[]"] by (auto simp: list_all_iff)
  note facts = rrf_facets_scores [OF s]
  have set_s: "set scores = {(key, fused_score fl k facets key) |key. key \<in> weighted_keys facets}"
    using scored_from_map [of scores] facts by (simp add: fused_score_def score_of_def)
  have "distinct (map rank_key scores)"
    using facts by (auto simp: distinct_map inj_on_def rank_key_def)
  then have strict: "sorted_wrt (<) (map rank_key (sort_key rank_key scores))" by (simp add: strict_sorted_iff map_sort_key)
  have R: "reciprocalRankFusion fl facets k = Inr (sort_key rank_key scores)" using True s by (simp add: reciprocalRankFusion_def err_simps)
  show ?thesis using True R strict set_s ranked_unique [of fused "sort_key rank_key scores"] by auto
next
  case False
  then have "\<nexists>r. reciprocalRankFusion fl facets k = Inr r"
    using rrf_facets_Inr_iff [of fl k facets "[]"] by (auto simp: reciprocalRankFusion_def list_all_iff elim: rbind_InrE)
  with False show ?thesis by blast
qed

section \<open>Tool references\<close>

lemma decode_encoded:
  assumes "dl_unmarshal_ref lib (dl_marshal_ref lib (c\<lparr>trc_Version := 1\<rparr>)) = Some (c\<lparr>trc_Version := 1\<rparr>)"
  shows "decodeToolReference lib (encodeToolReference lib c) =
    (if blank (trc_GenerationID c) \<or> blank (trc_ServerID c) \<or> blank (trc_ToolName c) \<or> blank (trc_SourceFingerprint c) then None
     else Some (c\<lparr>trc_Version := 1\<rparr>))"
  by (simp add: decodeToolReference_def encodeToolReference_def base64_decode assms)

section \<open>Capability paths\<close>

definition is_parent :: "(string \<times> CapabilityNode) list \<Rightarrow> CapabilityNode \<Rightarrow> CapabilityNode \<Rightarrow> bool" where
  "is_parent m child parent \<longleftrightarrow> cn_ParentID child \<noteq> [] \<and> map_of m (cn_ParentID child) = Some parent"

definition path_ends :: "(string \<times> CapabilityNode) list \<Rightarrow> string set \<Rightarrow> CapabilityNode \<Rightarrow> bool" where
  "path_ends m ids l \<longleftrightarrow> cn_ParentID l = [] \<or> map_of m (cn_ParentID l) = None \<or> (\<exists>p. map_of m (cn_ParentID l) = Some p \<and> cn_ID p \<in> ids)"

lemma path_ends_mono: "path_ends m ids l \<Longrightarrow> ids \<subseteq> ids' \<Longrightarrow> path_ends m ids' l"
  by (auto simp: path_ends_def)

lemma capability_loop_facts:
  "distinct (map cn_ID (capability_loop m seen node)) \<and> cn_ID ` set (capability_loop m seen node) \<inter> set seen = {} \<and>
   set (capability_loop m seen node) \<subseteq> snd ` set m \<and> successively (is_parent m) (node # capability_loop m seen node) \<and>
   path_ends m (set seen \<union> cn_ID ` set (capability_loop m seen node)) (last (node # capability_loop m seen node))"
proof (induction m seen node rule: capability_loop.induct)
  case (1 m seen node)
  show ?case
  proof (cases "cn_ParentID node = [] \<or> map_of m (cn_ParentID node) = None")
    case True
    then have "capability_loop m seen node = []" by (subst capability_loop.simps) auto
    with True show ?thesis by (auto simp: path_ends_def)
  next
    case False
    then obtain parent where p: "cn_ParentID node \<noteq> []" "map_of m (cn_ParentID node) = Some parent" by blast
    show ?thesis
    proof (cases "cn_ID parent \<in> set seen")
      case True
      with p have "capability_loop m seen node = []" by (subst capability_loop.simps) simp
      with True p show ?thesis by (auto simp: path_ends_def)
    next
      case False
      with p have eq: "capability_loop m seen node = parent # capability_loop m (cn_ID parent # seen) parent"
        by (subst capability_loop.simps) simp
      have "parent \<in> snd ` set m" using map_of_SomeD [OF p(2)] by force
      with 1 [OF p False] p False show ?thesis unfolding eq by (auto simp: is_parent_def elim!: path_ends_mono)
    qed
  qed
qed

lemma nodes_byID_facts:
  "distinct (map fst (nodes_byID nodes)) \<and> (\<forall>(k, n) \<in> set (nodes_byID nodes). cn_ID n = k \<and> n \<in> set nodes) \<and>
   fst ` set (nodes_byID nodes) = cn_ID ` set nodes"
proof (induction nodes rule: rev_induct)
  case (snoc n nodes)
  have step: "nodes_byID (nodes @ [n]) = alist_put (cn_ID n) n (nodes_byID nodes)" by (simp add: nodes_byID_def)
  have "set (alist_put (cn_ID n) n (nodes_byID nodes)) \<subseteq> insert (cn_ID n, n) (set (nodes_byID nodes))"
    by (auto dest: set_alist_put)
  with snoc show ?case unfolding step by (fastforce simp: keys_alist_put)
qed (simp add: nodes_byID_def)

text \<open>
  On every hierarchy, cyclic or dangling ones included, the path of a capability is finite and short: it starts at the
  node, goes from each node to its parent, repeats no ID, has at most one node more than the hierarchy has IDs, and it
  stops only at a root, at a parent that does not exist, or where it would close a cycle.
\<close>

theorem capabilityPath_terminates:
  "hd (capabilityPath node (nodes_byID nodes)) = node \<and> distinct (map cn_ID (capabilityPath node (nodes_byID nodes))) \<and>
   length (capabilityPath node (nodes_byID nodes)) \<le> Suc (card (cn_ID ` set nodes)) \<and>
   successively (is_parent (nodes_byID nodes)) (capabilityPath node (nodes_byID nodes)) \<and>
   path_ends (nodes_byID nodes) (cn_ID ` set (capabilityPath node (nodes_byID nodes))) (last (capabilityPath node (nodes_byID nodes)))"
proof -
  let ?m = "nodes_byID nodes"
  let ?l = "capability_loop ?m [cn_ID node] node"
  note facts = capability_loop_facts [of ?m "[cn_ID node]" node]
  have "cn_ID ` set ?l \<subseteq> cn_ID ` set nodes"
    using facts nodes_byID_facts [of nodes] by fastforce
  then have "card (cn_ID ` set ?l) \<le> card (cn_ID ` set nodes)" by (intro card_mono) simp_all
  moreover have "length ?l = card (cn_ID ` set ?l)"
    using facts distinct_card [of "map cn_ID ?l"] by simp
  ultimately show ?thesis using facts by (auto simp: capabilityPath_def)
qed

lemma chain_reaches:
  "successively (is_parent m) path \<Longrightarrow> (\<And>k n. map_of m k = Some n \<Longrightarrow> cn_ID n = k) \<Longrightarrow>
   (\<And>a. a \<in> set path \<Longrightarrow> cn_ParentID a \<noteq> [] \<Longrightarrow> (cn_ID a, cn_ParentID a) \<in> E) \<Longrightarrow>
   x \<in> set path \<Longrightarrow> (cn_ID x, cn_ID (last path)) \<in> E\<^sup>*"
proof (induction path arbitrary: x)
  case (Cons a path)
  show ?case
  proof (cases "path = []")
    case True
    with Cons show ?thesis by simp
  next
    case False
    then obtain b rest where path: "path = b # rest" by (cases path) auto
    have tail: "(cn_ID y, cn_ID (last path)) \<in> E\<^sup>*" if "y \<in> set path" for y
      using Cons(1) [of y] Cons(2-4) that by (auto simp: successively_Cons)
    have "is_parent m a b" using Cons(2) path by simp
    then have "(cn_ID a, cn_ID b) \<in> E" using Cons(3,4) by (auto simp: is_parent_def)
    with tail [of b] path have "(cn_ID a, cn_ID (last path)) \<in> E\<^sup>*" by (auto intro: converse_rtrancl_into_rtrancl)
    with tail Cons(5) False show ?thesis by auto
  qed
qed simp

definition trimmed :: "CapabilityHierarchy \<Rightarrow> bool" where
  "trimmed h \<longleftrightarrow> list_all (\<lambda>n. TrimSpace (cn_ID n) = cn_ID n) (ch_Capabilities h)"

text \<open>
  In a hierarchy that enrichment has accepted, and whose IDs carry no surrounding space, the path that discovery shows
  for a capability always leads to a root: no level is lost.
\<close>

theorem accepted_paths_rooted:
  assumes v: "validateHierarchy h known = None" and t: "trimmed h" and n: "node \<in> set (ch_Capabilities h)"
  shows "cn_ParentID (last (capabilityPath node (nodes_byID (ch_Capabilities h)))) = []"
proof (rule ccontr)
  let ?caps = "ch_Capabilities h"
  let ?m = "nodes_byID ?caps"
  let ?path = "capabilityPath node ?m"
  let ?l = "last ?path"
  assume ne: "cn_ParentID ?l \<noteq> []"
  have forest: "complete_forest h known" using v by (simp add: validateHierarchy_forest)
  have ids: "trimmed_id c = cn_ID c" if "c \<in> set ?caps" for c using t that by (simp add: trimmed_def trimmed_id_def list_all_iff)
  have edge: "(cn_ID c, cn_ParentID c) \<in> parent_edges ?caps" if "c \<in> set ?caps" "cn_ParentID c \<noteq> []" for c
    using that ids by (force simp: parent_edges_def)
  have reg: "cn_ID p = k \<and> p \<in> set ?caps" if "map_of ?m k = Some p" for k p
    using nodes_byID_facts [of ?caps] map_of_SomeD [OF that] by auto
  note facts = capability_loop_facts [of ?m "[cn_ID node]" node]
  have sub: "set ?path \<subseteq> set ?caps" using facts nodes_byID_facts [of ?caps] n by (fastforce simp: capabilityPath_def)
  have l: "?l \<in> set ?caps" using sub by (auto simp: capabilityPath_def)
  have "cn_ParentID ?l \<in> cn_ID ` set ?caps" using forest l ne ids by (fastforce simp: complete_forest_def)
  then have "map_of ?m (cn_ParentID ?l) \<noteq> None" using nodes_byID_facts [of ?caps] by (simp add: map_of_eq_None_iff)
  then obtain p where p: "map_of ?m (cn_ParentID ?l) = Some p" by blast
  with facts ne have "cn_ID p \<in> cn_ID ` set ?path" by (auto simp: capabilityPath_def path_ends_def)
  then obtain x where x: "x \<in> set ?path" "cn_ID x = cn_ParentID ?l" using reg [OF p] by auto
  have chain: "successively (is_parent ?m) ?path" using facts by (simp add: capabilityPath_def)
  have "(cn_ID x, cn_ID ?l) \<in> (parent_edges ?caps)\<^sup>*"
    by (rule chain_reaches [OF chain _ _ x(1)]) (use reg sub edge in auto)
  moreover have "(cn_ID ?l, cn_ID x) \<in> parent_edges ?caps" using edge [OF l ne] x(2) by simp
  ultimately have "(cn_ID x, cn_ID x) \<in> (parent_edges ?caps)\<^sup>+" by (rule rtrancl_into_trancl1)
  then show False using forest by (auto simp: complete_forest_def acyclic_def)
qed

definition spaced_hierarchy :: CapabilityHierarchy where
  "spaced_hierarchy = \<lparr>ch_Protocol = CapabilityProtocolVersion, ch_Capabilities =
     [\<lparr>cn_ID = '' files'', cn_Name = ''Files'', cn_Description = [], cn_ParentID = [], cn_ToolMembers = []\<rparr>,
      \<lparr>cn_ID = ''read'', cn_Name = ''Read'', cn_Description = [], cn_ParentID = ''files'', cn_ToolMembers = [''a/read'']\<rparr>]\<rparr>"

definition plain_hierarchy :: CapabilityHierarchy where
  "plain_hierarchy = \<lparr>ch_Protocol = CapabilityProtocolVersion, ch_Capabilities =
     [\<lparr>cn_ID = ''files'', cn_Name = ''Files'', cn_Description = [], cn_ParentID = [], cn_ToolMembers = []\<rparr>,
      \<lparr>cn_ID = ''read'', cn_Name = ''Read'', cn_Description = [], cn_ParentID = ''files'', cn_ToolMembers = [''a/read'']\<rparr>]\<rparr>"

theorem accepted_paths_rooted_witness:
  "validateHierarchy plain_hierarchy [''a/read''] = None \<and>
   cn_ParentID (last (capabilityPath (ch_Capabilities plain_hierarchy ! 1) (nodes_byID (ch_Capabilities plain_hierarchy)))) = []"
proof -
  have "validateHierarchy plain_hierarchy [''a/read''] = None" "trimmed plain_hierarchy"
    "ch_Capabilities plain_hierarchy ! 1 \<in> set (ch_Capabilities plain_hierarchy)" by code_simp+
  with accepted_paths_rooted [OF this] show ?thesis by blast
qed

text \<open>
  The validation compares trimmed IDs, but the hierarchy is stored and read untrimmed: a hierarchy with a space before
  an ID is accepted although discovery then does not find the parent, and shows the capability without its ancestors.
\<close>

theorem spaced_id_loses_parent:
  "validateHierarchy spaced_hierarchy [''a/read''] = None \<and>
   capabilityPathString (ch_Capabilities spaced_hierarchy ! 1) (nodes_byID (ch_Capabilities spaced_hierarchy)) = ''Read'' \<and>
   capabilityPathString (ch_Capabilities plain_hierarchy ! 1) (nodes_byID (ch_Capabilities plain_hierarchy)) = ''Files > Read''"
  by code_simp

end
