(* ===== verification/DiscoverySearch.thy ===== *)
theory DiscoverySearch
  imports DiscoveryFacts
begin

text \<open>
  From search to execution: every result of \<^verbatim>\<open>Search\<close> names an available tool of the current generation, \<^verbatim>\<open>GetTool\<close> accepts
  it, and the router accepts the handle that \<^verbatim>\<open>GetTool\<close> mints, all in the same state of the system.
\<close>

section \<open>The maps of a search\<close>

definition last_source :: "SourceToolRecord list \<Rightarrow> string \<Rightarrow> SourceToolRecord option" where
  "last_source sources key = find (\<lambda>s. member_of s = key) (rev sources)"

definition tool_available :: "sqlenv \<Rightarrow> catalog \<Rightarrow> SourceToolRecord \<Rightarrow> bool" where
  "tool_available q db s = (case ToolAvailability q db (rec_ServerID s) (rec_ToolName s) (rec_SourceFingerprint s) of
     Inl _ \<Rightarrow> False | Inr (available, known) \<Rightarrow> \<not> known \<or> available)"

lemma last_source_Some: "last_source sources key = Some s \<Longrightarrow> s \<in> set sources \<and> member_of s = key"
  unfolding last_source_def by (auto dest: find_Some_mem)

lemma last_source_Cons: "last_source (s # ss) key = (case last_source ss key of None \<Rightarrow> if member_of s = key then Some s else None | Some x \<Rightarrow> Some x)"
  by (simp add: last_source_def find_append split: option.split)

lemma availability_map:
  "availability q db ss m n = Inr (m', n') \<Longrightarrow>
   map_of m' key = (case last_source ss key of None \<Rightarrow> map_of m key | Some s \<Rightarrow> Some (tool_available q db s))"
proof (induction ss arbitrary: m n)
  case (Cons s ss)
  from Cons(2) obtain available known where a: "ToolAvailability q db (rec_ServerID s) (rec_ToolName s) (rec_SourceFingerprint s) = Inr (available, known)"
    and r: "availability q db ss (alist_put (member_of s) (\<not> known \<or> available) m) (if known \<and> \<not> available then Suc n else n) = Inr (m', n')"
    by (auto simp: err_simps elim!: rbind_InrE)
  have "tool_available q db s = (\<not> known \<or> available)" using a by (simp add: tool_available_def)
  with Cons(1) [OF r] show ?case by (auto simp: last_source_Cons map_of_alist_put split: option.split)
qed (simp add: last_source_def)

definition server_found :: "'b disc_service \<Rightarrow> 'b disc_world \<Rightarrow> string \<Rightarrow> string \<Rightarrow> bool" where
  "server_found sv w gid sid \<longleftrightarrow> \<not> isl (SourceServer (dl_codec (ds_lib sv)) (dl_server (ds_lib sv)) (dw_sql w) (dw_catalog w) gid sid)"

lemma server_foundD:
  "server_found sv w gid sid \<Longrightarrow> \<exists>r. SourceServer (dl_codec (ds_lib sv)) (dl_server (ds_lib sv)) (dw_sql w) (dw_catalog w) gid sid = Inr r"
  by (cases "SourceServer (dl_codec (ds_lib sv)) (dl_server (ds_lib sv)) (dw_sql w) (dw_catalog w) gid sid") (auto simp: server_found_def)

lemma source_maps_facts:
  "source_maps sv w gid ss by_key servers = Inr (by_key', servers') \<Longrightarrow>
   map_of by_key' key = (case last_source ss key of None \<Rightarrow> map_of by_key key | Some s \<Rightarrow> Some s) \<and>
   (\<forall>s \<in> set ss. map_of servers (rec_ServerID s) = None \<longrightarrow> server_found sv w gid (rec_ServerID s))"
proof (induction ss arbitrary: by_key servers)
  case (Cons s ss)
  show ?case
  proof (cases "map_of servers (rec_ServerID s)")
    case (Some c)
    with Cons(2) have "source_maps sv w gid ss (alist_put (member_of s) s by_key) servers = Inr (by_key', servers')" by simp
    from Cons(1) [OF this] Some show ?thesis by (auto simp: last_source_Cons map_of_alist_put split: option.split)
  next
    case None
    with Cons(2) obtain c fp where c: "SourceServer (dl_codec (ds_lib sv)) (dl_server (ds_lib sv)) (dw_sql w) (dw_catalog w) gid (rec_ServerID s) = Inr (c, fp)"
      and r: "source_maps sv w gid ss (alist_put (member_of s) s by_key) (alist_put (rec_ServerID s) c servers) = Inr (by_key', servers')"
      by (auto simp: err_simps elim!: rbind_InrE)
    have f: "server_found sv w gid (rec_ServerID s)" using c by (simp add: server_found_def)
    have "server_found sv w gid (rec_ServerID t)" if "t \<in> set ss" "map_of servers (rec_ServerID t) = None" for t
      using conjunct2 [OF Cons(1) [OF r]] f that by (cases "rec_ServerID t = rec_ServerID s") (auto simp: map_of_alist_put)
    with f show ?thesis using conjunct1 [OF Cons(1) [OF r]] by (auto simp: last_source_Cons map_of_alist_put split: option.split)
  qed
qed (simp add: last_source_def)

section \<open>Candidates\<close>

definition candidate_ok :: "'b disc_service \<Rightarrow> (string \<times> bool) list \<Rightarrow> (string \<times> SourceToolRecord) list \<Rightarrow> candidate \<Rightarrow> bool" where
  "candidate_ok sv available by_key c \<longleftrightarrow> map_of available (ca_key c) = Some True \<and> map_of by_key (ca_key c) = Some (ca_source c) \<and>
     parsePresentation (ds_lib sv) (ca_source c) = Inr (ca_presentation c)"

lemma candidates_facts:
  "candidates_of sv query available by_key servers guidance capabilities evidence items = Inr cs \<Longrightarrow> distinct (map fst items) \<Longrightarrow>
   distinct (map ca_key cs) \<and> ca_key ` set cs \<subseteq> fst ` set items \<and> (\<forall>c \<in> set cs. candidate_ok sv available by_key c)"
proof (induction items arbitrary: cs)
  case (Cons item items)
  obtain key score where item: "item = (key, score)" by (cases item)
  show ?case
  proof (cases "map_of available key = Some True")
    case False
    with Cons item show ?thesis by auto
  next
    case True
    with Cons(2) item obtain source where s: "map_of by_key key = Some source" by (auto split: option.splits)
    let ?rest = "candidates_of sv query available by_key servers guidance capabilities evidence items"
    obtain p where p: "parsePresentation (ds_lib sv) source = Inr p"
      using Cons(2) item True s by (cases "parsePresentation (ds_lib sv) source") (simp_all add: err_simps)
    obtain rest where rest: "?rest = Inr rest" using Cons(2) item True s p by (cases ?rest) (simp_all add: err_simps Let_def)
    have cs: "cs = rest \<or> (\<exists>c. cs = c # rest \<and> ca_key c = key \<and> ca_source c = source \<and> ca_presentation c = p)"
      using Cons(2) item True s p rest by (simp add: err_simps Let_def split: if_splits) auto
    have "distinct (map fst items)" "key \<notin> fst ` set items" using Cons(3) item by auto
    note ih = Cons(1) [OF rest this(1)] and fresh = this(2)
    from cs show ?thesis
    proof (elim disjE exE conjE)
      assume "cs = rest"
      then show ?thesis using ih by (auto simp: item)
    next
      fix c assume c: "cs = c # rest" "ca_key c = key" "ca_source c = source" "ca_presentation c = p"
      then have "candidate_ok sv available by_key c" using True s p by (simp add: candidate_ok_def)
      then show ?thesis using ih fresh c(1,2) by (auto simp: item)
    qed
  qed
qed simp

lemma fused_distinct: "reciprocalRankFusion fl facets k = Inr fused \<Longrightarrow> distinct (map fst fused)"
proof -
  assume "reciprocalRankFusion fl facets k = Inr fused"
  then obtain scores where s: "rrf_facets fl k facets [] = Inr scores" "fused = sort_key rank_key scores"
    by (auto simp: reciprocalRankFusion_def split: if_splits elim!: rbind_InrE)
  have "distinct (map fst scores)" using rrf_facets_scores [OF s(1)] by simp
  then show ?thesis unfolding s(2) by (metis distinct_map distinct_sort set_sort)
qed

lemma rank_tools_distinct: "rank_tools sv x query vector depth = Inr (fused, evidence) \<Longrightarrow> distinct (map fst fused)"
  by (auto simp: rank_tools_def Let_def err_simps elim!: rbind_InrE intro: fused_distinct)

text \<open>What a selected candidate is, in terms of the sources of the search.\<close>

definition selected_ok :: "'b disc_service \<Rightarrow> 'b disc_world \<Rightarrow> search_base \<Rightarrow> candidate \<Rightarrow> bool" where
  "selected_ok sv w b c \<longleftrightarrow> last_source (sb_sources b) (ca_key c) = Some (ca_source c) \<and> tool_available (dw_sql w) (dw_catalog w) (ca_source c) \<and>
     parsePresentation (ds_lib sv) (ca_source c) = Inr (ca_presentation c) \<and>
     server_found sv w (sb_generation b) (rec_ServerID (ca_source c))"

lemma adjust_simps [simp]:
  "ca_key (adjust sv rules ctx c) = ca_key c" "ca_source (adjust sv rules ctx c) = ca_source c" "ca_presentation (adjust sv rules ctx c) = ca_presentation c"
  by (simp_all add: adjust_def)

lemma map_adjust_keys: "map ca_key (map (adjust sv rules ctx) cs) = map ca_key cs"
  by simp

lemma distinct_map_sort: "distinct (map f (sort_key k xs)) \<longleftrightarrow> distinct (map f xs)"
  by (metis distinct_map distinct_sort set_sort)

lemma select_candidates_facts:
  assumes S: "select_candidates sv w input b available unavailable x vector = Inr cs"
    and A: "availability (dw_sql w) (dw_catalog w) (sb_sources b) [] 0 = Inr (available, unavailable)"
  shows "length cs \<le> nat (sb_limit b)" "distinct (map ca_key cs)" "\<forall>c \<in> set cs. selected_ok sv w b c"
proof -
  obtain fused evidence by_key servers candidates rules ctx where
    f: "rank_tools sv x (sb_query b) vector (candidate_depth (do_CandidateDepth (ds_options sv)) (sb_limit b) unavailable (length (sb_sources b))) = Inr (fused, evidence)"
    and m: "source_maps sv w (sb_generation b) (sb_sources b) [] [] = Inr (by_key, servers)"
    and c: "candidates_of sv (sb_query b) available by_key servers (sx_guidance x) (capabilitySummaries (sx_hierarchy x)) evidence fused = Inr candidates"
    and cs: "cs = take (nat (sb_limit b)) (sort_key (candidate_key (dl_float (ds_lib sv))) (map (adjust sv rules ctx) candidates))"
    using S unfolding select_candidates_def Let_def by - (erule rbind_InrE2, erule rbind_InrE2, erule rbind_InrE, erule rbind_InrE, rule that, assumption+, drule iffD1 [OF sum.inject(2)], erule sym)
  note facts = candidates_facts [OF c rank_tools_distinct [OF f]]
  show "length cs \<le> nat (sb_limit b)" by (simp add: cs)
  have "distinct (map ca_key (sort_key (candidate_key (dl_float (ds_lib sv))) (map (adjust sv rules ctx) candidates)))"
    unfolding distinct_map_sort map_adjust_keys using facts by blast
  then show "distinct (map ca_key cs)" unfolding cs by (metis distinct_take take_map)
  show "\<forall>c \<in> set cs. selected_ok sv w b c"
  proof
    fix c assume "c \<in> set cs"
    then obtain d where d: "d \<in> set candidates" "c = adjust sv rules ctx d" unfolding cs by (auto dest!: in_set_takeD)
    then have ok: "candidate_ok sv available by_key d" using facts by blast
    then have key: "last_source (sb_sources b) (ca_key d) = Some (ca_source d)"
      using source_maps_facts [OF m, of "ca_key d"] by (auto simp: candidate_ok_def split: option.splits)
    moreover have "tool_available (dw_sql w) (dw_catalog w) (ca_source d)"
      using ok availability_map [OF A, of "ca_key d"] key by (simp add: candidate_ok_def)
    moreover have "ca_source d \<in> set (sb_sources b)" using last_source_Some [OF key] by blast
    ultimately show "selected_ok sv w b c"
      using ok source_maps_facts [OF m, of "ca_key d"] d(2) by (auto simp: selected_ok_def candidate_ok_def)
  qed
qed

section \<open>Results\<close>

definition result_for :: "'b disc_service \<Rightarrow> string \<Rightarrow> SourceToolRecord \<Rightarrow> SearchResult \<Rightarrow> bool" where
  "result_for sv gid s r \<longleftrightarrow> sr_ToolRef r = encodeToolReference (ds_lib sv) (reference_of gid s) \<and> sr_ToolName r = rec_ToolName s \<and>
     ExecutorClassForJSON (dl_codec (ds_lib sv)) (rec_ContractJSON s) = Inr (sr_ExecutorClass r)"

lemma results_of_facts: "results_of sv gid cs = Inr rs \<Longrightarrow> list_all2 (\<lambda>c r. result_for sv gid (ca_source c) r) cs rs"
proof (induction cs arbitrary: rs)
  case (Cons c cs)
  from Cons(2) obtain r rest where r: "result_of sv gid c = Inr r" and rest: "results_of sv gid cs = Inr rest" and rs: "Inr (r # rest) = (Inr rs :: (disc_error, SearchResult list) result)"
    by (simp only: results_of.simps) (erule rbind_InrE, erule rbind_InrE, rule that, assumption+)
  have "result_for sv gid (ca_source c) r" using r by (auto simp: result_of_def result_for_def err_simps elim!: rbind_InrE)
  with Cons(1) [OF rest] rs show ?case by auto
qed simp

text \<open>The two ways in which a search succeeds.\<close>

lemma Search_cases:
  assumes "Search sv w input cache = (cache', Inr out)"
  obtains b where "search_base_of sv w input = Inr b" "out = search_output b []"
  | b available unavailable x vector cs results where "search_base_of sv w input = Inr b"
      "availability (dw_sql w) (dw_catalog w) (sb_sources b) [] 0 = Inr (available, unavailable)"
      "load_indexes sv w (sb_generation b) (length (sb_sources b)) = Inr x"
      "select_candidates sv w input b available unavailable x vector = Inr cs"
      "results_of sv (sb_generation b) cs = Inr results" "out = search_output b results"
proof -
  obtain b rest where P: "search_prepare sv w input = Inr (b, rest)"
    using assms by (cases "search_prepare sv w input") (auto simp: Search_def)
  then have B: "search_base_of sv w input = Inr b"
    by (auto simp: search_prepare_def split: if_splits elim!: rbind_InrE)
  show ?thesis
  proof (cases rest)
    case None
    then show ?thesis using assms P B by (intro that(1)) (auto simp: Search_def)
  next
    case (Some t)
    obtain available unavailable x where t: "rest = Some (available, unavailable, x)" using Some by (cases t) auto
    then have A: "availability (dw_sql w) (dw_catalog w) (sb_sources b) [] 0 = Inr (available, unavailable)"
      "load_indexes sv w (sb_generation b) (length (sb_sources b)) = Inr x"
      using P by (auto simp: search_prepare_def split: if_splits elim!: rbind_InrE)
    let ?e = "EmbedQuery (dl_codec (ds_lib sv)) (dl_float (ds_lib sv)) (ds_identity sv) (ds_ask sv) cache (sb_query b)"
    obtain vector where v: "snd ?e = Inr vector"
      using assms P t by (cases ?e; cases "snd ?e") (auto simp: Search_def)
    have "rbind (select_candidates sv w input b available unavailable x vector) (\<lambda>selected.
            rbind (results_of sv (sb_generation b) selected) (\<lambda>results. Inr (search_output b results))) = Inr out"
      using assms P t v by (cases ?e) (auto simp: Search_def)
    then obtain cs results where "select_candidates sv w input b available unavailable x vector = Inr cs"
      "results_of sv (sb_generation b) cs = Inr results" "Inr (search_output b results) = (Inr out :: (disc_error, SearchOutput) result)"
      by - (erule rbind_InrE, erule rbind_InrE, rule that, assumption+)
    then show ?thesis using that(2) [OF B A] by simp
  qed
qed

lemma search_base_facts:
  assumes "search_base_of sv w input = Inr b"
  shows "currentGeneration sv w = Inr (sb_generation b)"
    "SourceTools (dl_codec (ds_lib sv)) (dw_sql w) (dw_catalog w) (sb_generation b) = Inr (sb_sources b)"
    "sb_limit b = (if si_Limit input = 0 then defaultLimit else si_Limit input)" "sb_limit b \<le> maximumLimit"
  using assms by (auto simp: search_base_of_def Let_def err_simps elim!: rbind_InrE)

text \<open>The tools of a successful search, in the order of its results.\<close>

lemma Search_tools:
  assumes "Search sv w input cache = (cache', Inr out)"
  obtains b tools where "search_base_of sv w input = Inr b" "so_GenerationID out = sb_generation b" "set tools \<subseteq> set (sb_sources b)"
    "distinct tools" "length tools \<le> nat (sb_limit b)" "list_all2 (result_for sv (sb_generation b)) tools (so_Results out)"
    "\<forall>s \<in> set tools. tool_available (dw_sql w) (dw_catalog w) s \<and> server_found sv w (sb_generation b) (rec_ServerID s) \<and>
       \<not> isl (parsePresentation (ds_lib sv) s) \<and> (\<exists>x. load_indexes sv w (sb_generation b) (length (sb_sources b)) = Inr x)"
proof (rule Search_cases [OF assms])
  fix b assume "search_base_of sv w input = Inr b" "out = search_output b []"
  then show thesis by (intro that [of b "[]"]) (simp_all add: search_output_def)
next
  fix b available unavailable x vector cs results
  assume B: "search_base_of sv w input = Inr b"
    and A: "availability (dw_sql w) (dw_catalog w) (sb_sources b) [] 0 = Inr (available, unavailable)"
    and x: "load_indexes sv w (sb_generation b) (length (sb_sources b)) = Inr x"
    and S: "select_candidates sv w input b available unavailable x vector = Inr cs"
    and R: "results_of sv (sb_generation b) cs = Inr results" and out: "out = search_output b results"
  note sel = select_candidates_facts [OF S A]
  have key: "member_of (ca_source c) = ca_key c \<and> ca_source c \<in> set (sb_sources b)" if "c \<in> set cs" for c
    using sel(3) that by (auto simp: selected_ok_def dest!: last_source_Some)
  have "map member_of (map ca_source cs) = map ca_key cs" using key by simp
  then have "distinct (map ca_source cs)" using sel(2) by (metis distinct_map)
  then show thesis
    using B out sel key x results_of_facts [OF R]
    by (intro that [of b "map ca_source cs"]) (auto simp: search_output_def list_all2_map1 selected_ok_def)
qed

text \<open>
  (C16) A successful search answers for the current generation only: its results are, in order, pairwise different tools of that
  generation, none of them known to be unavailable, at most as many as asked for (ten by default) and at most fifty; each
  result names its tool, carries its executor class, and its reference encodes exactly this generation, server, tool and
  fingerprint.
\<close>

theorem Search_results:
  assumes "Search sv w input cache = (cache', Inr out)"
  shows "\<exists>sources tools. currentGeneration sv w = Inr (so_GenerationID out) \<and>
     SourceTools (dl_codec (ds_lib sv)) (dw_sql w) (dw_catalog w) (so_GenerationID out) = Inr sources \<and>
     set tools \<subseteq> set sources \<and> distinct tools \<and> list_all (tool_available (dw_sql w) (dw_catalog w)) tools \<and>
     list_all2 (result_for sv (so_GenerationID out)) tools (so_Results out) \<and>
     length (so_Results out) \<le> nat (if si_Limit input = 0 then 10 else si_Limit input) \<and> length (so_Results out) \<le> 50"
proof -
  obtain b tools where B: "search_base_of sv w input = Inr b" "so_GenerationID out = sb_generation b" "set tools \<subseteq> set (sb_sources b)"
    "distinct tools" "length tools \<le> nat (sb_limit b)" "list_all2 (result_for sv (sb_generation b)) tools (so_Results out)"
    "\<forall>s \<in> set tools. tool_available (dw_sql w) (dw_catalog w) s" by (rule Search_tools [OF assms]) auto
  note b = search_base_facts [OF B(1)]
  have "length (so_Results out) = length tools" using B(6) by (simp add: list_all2_lengthD)
  then have "length (so_Results out) \<le> nat (if si_Limit input = 0 then 10 else si_Limit input) \<and> length (so_Results out) \<le> 50"
    using B(5) b(3,4) by (auto simp: defaultLimit_def maximumLimit_def)
  with B b(1,2) show ?thesis
    by (intro exI [of _ "sb_sources b"] exI [of _ tools]) (simp add: list_all_iff)
qed

section \<open>Fetching a result\<close>

lemma reference_trimmed: "TrimSpace (encodeToolReference lib c) = encodeToolReference lib c"
proof (rule TrimSpace_no_space)
  have "set toolReferencePrefix \<inter> set (concat go_spaces) = {}" by code_simp
  then show "set (encodeToolReference lib c) \<inter> set (concat go_spaces) = {}"
    using encoded_no_space [of "dl_marshal_ref lib (c\<lparr>trc_Version := 1\<rparr>)"] by (auto simp: encodeToolReference_def)
qed

lemma fingerprint_not_blank: "\<not> blank (FingerprintJSON cd body)"
  by (rule not_blankI [of "CHR ''s''"]) (simp add: FingerprintJSON_def, code_simp)

lemma known_executor_not_blank: "e \<in> set known_executors \<Longrightarrow> \<not> blank e"
proof -
  have "list_all (\<lambda>e. \<not> blank e) known_executors" by code_simp
  then show "e \<in> set known_executors \<Longrightarrow> \<not> blank e" by (simp add: list_all_iff)
qed

lemma executor_known: "ExecutorClassForJSON cd body = Inr e \<Longrightarrow> e \<in> set known_executors"
  unfolding ExecutorClassForJSON_def
  by (auto simp: executor_for_hints_known elim!: rbind_InrE split: option.splits json.splits if_splits)

lemma source_unique:
  assumes "distinct (map fst (source_tools db))" "x \<in> set (generation_tools db gid)" "y \<in> set (generation_tools db gid)"
    and "rec_ServerID (source_record x) = rec_ServerID (source_record y)" "rec_ToolName (source_record x) = rec_ToolName (source_record y)"
  shows "source_record x = source_record y"
proof -
  obtain s t r where x: "x = ((s, t), r)" by (cases x) auto
  obtain s' t' r' where y: "y = ((s', t'), r')" by (cases y) auto
  have "s' = s" "t' = t" using assms(4,5) by (simp_all add: x y source_record_def)
  moreover have "((gid, s, t), r) \<in> set (source_tools db)" "((gid, s', t'), r') \<in> set (source_tools db)"
    using assms(2,3) by (auto simp: x y generation_tools_def)
  ultimately show ?thesis using assms(1) by (metis eq_key_imp_eq_value x y)
qed

lemma find_source:
  assumes pk: "distinct (map fst (source_tools db))" and S: "SourceTools cd q db gid = Inr sources" and s: "s \<in> set sources"
  shows "findSource sources (rec_ServerID s) (rec_ToolName s) = Some s"
proof -
  have "\<exists>t. findSource sources (rec_ServerID s) (rec_ToolName s) = Some t"
    using s find_None_none [of "\<lambda>t. rec_ServerID t = rec_ServerID s \<and> rec_ToolName t = rec_ToolName s" sources s]
    by (auto simp: findSource_def)
  then obtain t where t: "findSource sources (rec_ServerID s) (rec_ToolName s) = Some t" ..
  then have m: "t \<in> set sources" "rec_ServerID t = rec_ServerID s" "rec_ToolName t = rec_ToolName s"
    by (auto simp: findSource_def dest!: find_Some_mem)
  obtain x y where "x \<in> set (generation_tools db gid)" "y \<in> set (generation_tools db gid)" and xy: "t = source_record x" "s = source_record y"
    using m(1) s unfolding SourceTools_facts(3) [OF S] by blast
  from source_unique [OF pk this(1,2)] m(2,3) have "t = s" by (simp add: xy)
  then show ?thesis using t by simp
qed

lemma reference_decodes:
  assumes S: "SourceTools (dl_codec lib) q db gid = Inr sources" and s: "s \<in> set sources" and nb: "\<not> blank (rec_ServerID s)" "\<not> blank (rec_ToolName s)"
    and codec: "\<And>c. trc_Version c = 1 \<Longrightarrow> dl_unmarshal_ref lib (dl_marshal_ref lib c) = Some c"
  shows "decodeToolReference lib (encodeToolReference lib (reference_of gid s)) = Some ((reference_of gid s)\<lparr>trc_Version := 1\<rparr>)"
proof -
  have "\<not> blank (rec_SourceFingerprint s)" using SourceTools_facts(2) [OF S] s by (simp add: fingerprint_not_blank)
  then show ?thesis using decode_encoded [OF codec, of "reference_of gid s"] SourceTools_facts(1) [OF S] nb by (simp add: reference_of_def)
qed

lemma resolve_reference_source:
  assumes pk: "distinct (map fst (source_tools (dw_catalog w)))" and G: "currentGeneration sv w = Inr gid"
    and S: "SourceTools (dl_codec (ds_lib sv)) (dw_sql w) (dw_catalog w) gid = Inr sources" and s: "s \<in> set sources"
    and av: "tool_available (dw_sql w) (dw_catalog w) s" and nb: "\<not> blank (rec_ServerID s)" "\<not> blank (rec_ToolName s)"
    and codec: "\<And>c. trc_Version c = 1 \<Longrightarrow> dl_unmarshal_ref (ds_lib sv) (dl_marshal_ref (ds_lib sv) c) = Some c"
  shows "resolve_reference sv w (encodeToolReference (ds_lib sv) (reference_of gid s)) = Inr (gid, s)"
proof -
  have "decodeToolReference (ds_lib sv) (encodeToolReference (ds_lib sv) (reference_of gid s)) = Some ((reference_of gid s)\<lparr>trc_Version := 1\<rparr>)"
    by (rule reference_decodes [OF S s nb codec])
  moreover obtain a k where "ToolAvailability (dw_sql w) (dw_catalog w) (rec_ServerID s) (rec_ToolName s) (rec_SourceFingerprint s) = Inr (a, k)" "\<not> k \<or> a"
    using av by (auto simp: tool_available_def split: sum.splits prod.splits)
  ultimately show ?thesis using G S find_source [OF pk S s]
    by (simp add: resolve_reference_def reference_trimmed err_simps some_or_def or_error_def fail_if_def reference_of_def)
qed

lemma load_indexes_loads:
  assumes "load_indexes sv w gid n = Inr x"
  shows "loadGuidance sv w gid = Inr (sx_guidance x)" "loadCapabilityHierarchy sv w gid = Inr (sx_hierarchy x)"
  using assms by (auto simp: load_indexes_def Let_def elim!: rbind_InrE)

lemma Mint_succeeds:
  assumes "hm_epoch mg \<noteq> []" "validateClaims c False = None"
  shows "\<exists>t. Mint lib (Some mg) c = Inr t"
  using assms by (simp add: Mint_def Let_def)

definition fetched_source :: "GetToolOutput \<Rightarrow> SourceToolRecord" where
  "fetched_source t = \<lparr>rec_ServerID = gt_ServerID t, rec_ToolName = gt_ToolName t, rec_SourceFingerprint = gt_SourceFingerprint t, rec_ContractJSON = gt_Tool t\<rparr>"

lemma source_eta: "\<lparr>rec_ServerID = rec_ServerID s, rec_ToolName = rec_ToolName s, rec_SourceFingerprint = rec_SourceFingerprint s, rec_ContractJSON = rec_ContractJSON s\<rparr> = s"
  by (cases s) simp

lemma GetTool_facts:
  assumes "GetTool sv w ref = Inr t"
  shows "resolve_reference sv w ref = Inr (gt_GenerationID t, fetched_source t)"
    "server_found sv w (gt_GenerationID t) (gt_ServerID t)"
    "ExecutorClassForJSON (dl_codec (ds_lib sv)) (gt_Tool t) = Inr (gt_ExecutorClass t)"
    "Mint (dl_handles (ds_lib sv)) (ds_handles sv) (handle_claims (gt_GenerationID t) (fetched_source t) (gt_ExecutorClass t)) = Inr (gt_ExecutionHandle t)"
  using assms unfolding GetTool_def Let_def
  by (auto simp: fetched_source_def server_found_def err_simps source_eta elim!: rbind_InrE)

lemma result_fetched:
  assumes S: "Search sv w input cache = (cache', Inr out)" and r: "r \<in> set (so_Results out)"
    and pk: "distinct (map fst (source_tools (dw_catalog w)))"
    and codec: "\<And>c. trc_Version c = 1 \<Longrightarrow> dl_unmarshal_ref (ds_lib sv) (dl_marshal_ref (ds_lib sv) c) = Some c"
    and ids: "\<And>g sid t row. ((g, sid, t), row) \<in> set (source_tools (dw_catalog w)) \<Longrightarrow> \<not> blank sid"
    and mgr: "ds_handles sv = Some mg" "hm_epoch mg \<noteq> []"
  obtains t sources where "GetTool sv w (sr_ToolRef r) = Inr t" "gt_GenerationID t = so_GenerationID out" "result_for sv (so_GenerationID out) (fetched_source t) r"
    "SourceTools (dl_codec (ds_lib sv)) (dw_sql w) (dw_catalog w) (so_GenerationID out) = Inr sources" "fetched_source t \<in> set sources"
    "decodeToolReference (ds_lib sv) (sr_ToolRef r) = Some ((reference_of (so_GenerationID out) (fetched_source t))\<lparr>trc_Version := 1\<rparr>)"
    "gt_ExecutorClass t = sr_ExecutorClass r"
proof -
  obtain b tools where B: "search_base_of sv w input = Inr b" "so_GenerationID out = sb_generation b" "set tools \<subseteq> set (sb_sources b)"
    and all: "list_all2 (result_for sv (sb_generation b)) tools (so_Results out)"
    and good: "\<forall>s \<in> set tools. tool_available (dw_sql w) (dw_catalog w) s \<and> server_found sv w (sb_generation b) (rec_ServerID s) \<and>
       \<not> isl (parsePresentation (ds_lib sv) s) \<and> (\<exists>x. load_indexes sv w (sb_generation b) (length (sb_sources b)) = Inr x)"
    by (rule Search_tools [OF S])
  note b = search_base_facts [OF B(1)]
  obtain s where s: "s \<in> set tools" and rf: "result_for sv (sb_generation b) s r"
    using all r by (metis in_set_conv_nth list_all2_conv_all_nth)
  have src: "s \<in> set (sb_sources b)" using s B(3) by blast
  obtain x where x: "load_indexes sv w (sb_generation b) (length (sb_sources b)) = Inr x" using good s by blast
  obtain server where server: "SourceServer (dl_codec (ds_lib sv)) (dl_server (ds_lib sv)) (dw_sql w) (dw_catalog w) (sb_generation b) (rec_ServerID s) = Inr server"
    using server_foundD bspec [OF good s] by blast
  obtain p where p: "parsePresentation (ds_lib sv) s = Inr p" using bspec [OF good s] by (cases "parsePresentation (ds_lib sv) s") auto
  have tool: "\<not> blank (rec_ToolName s)" using p by (auto simp: parsePresentation_def split: option.splits if_splits)
  have sid: "\<not> blank (rec_ServerID s)"
    using src ids SourceTools_facts(3) [OF b(2)] by (auto simp: generation_tools_def source_record_def)
  note res = resolve_reference_source [OF pk b(1,2) src _ sid tool codec]
  have exec: "ExecutorClassForJSON (dl_codec (ds_lib sv)) (rec_ContractJSON s) = Inr (sr_ExecutorClass r)" using rf by (simp add: result_for_def)
  have "validateClaims (handle_claims (sb_generation b) s (sr_ExecutorClass r)) False = None"
    using sid tool SourceTools_facts(1,2) [OF b(2)] src known_executor_not_blank [OF executor_known [OF exec]]
    by (simp add: validateClaims_def handle_claims_def fingerprint_not_blank)
  then obtain h where "Mint (dl_handles (ds_lib sv)) (ds_handles sv) (handle_claims (sb_generation b) s (sr_ExecutorClass r)) = Inr h"
    using Mint_succeeds [OF mgr(2)] mgr(1) by metis
  then obtain t where t: "GetTool sv w (sr_ToolRef r) = Inr t" "gt_GenerationID t = sb_generation b" "fetched_source t = s" "gt_ExecutorClass t = sr_ExecutorClass r"
    using res good s rf server p exec load_indexes_loads [OF x]
    by (cases server) (simp add: GetTool_def result_for_def err_simps or_error_def fetched_source_def)
  show thesis
    by (rule that [of t "sb_sources b"])
      (use t rf b(2) src B(2) reference_decodes [OF b(2) src sid tool codec] in \<open>simp_all add: result_for_def\<close>)
qed

text \<open>
  (C14) What search finds can be fetched: in the same state \<^verbatim>\<open>GetTool\<close> accepts the reference of every search result and answers with a tool of the
  search's generation, the very one the reference encodes (server, tool name, fingerprint; its contract as stored), with the executor class of the
  result and the handle that \<^verbatim>\<open>Mint\<close> makes for exactly this generation, server, tool, fingerprint and executor class. Provided
  the primary key of the tool table holds, the JSON codec reads references back, server IDs are not blank and the handle
  manager is initialised.
\<close>

theorem Search_then_GetTool:
  assumes S: "Search sv w input cache = (cache', Inr out)" and r: "r \<in> set (so_Results out)"
    and pk: "distinct (map fst (source_tools (dw_catalog w)))"
    and codec: "\<And>c. trc_Version c = 1 \<Longrightarrow> dl_unmarshal_ref (ds_lib sv) (dl_marshal_ref (ds_lib sv) c) = Some c"
    and ids: "\<And>g sid t row. ((g, sid, t), row) \<in> set (source_tools (dw_catalog w)) \<Longrightarrow> \<not> blank sid"
    and mgr: "ds_handles sv = Some mg" "hm_epoch mg \<noteq> []"
  shows "\<exists>t sources. GetTool sv w (sr_ToolRef r) = Inr t \<and>
     SourceTools (dl_codec (ds_lib sv)) (dw_sql w) (dw_catalog w) (so_GenerationID out) = Inr sources \<and> fetched_source t \<in> set sources \<and>
     gt_GenerationID t = so_GenerationID out \<and> gt_ToolName t = sr_ToolName r \<and> gt_ExecutorClass t = sr_ExecutorClass r \<and>
     decodeToolReference (ds_lib sv) (sr_ToolRef r) = Some \<lparr>trc_Version = 1, trc_GenerationID = so_GenerationID out, trc_ServerID = gt_ServerID t,
       trc_ToolName = gt_ToolName t, trc_SourceFingerprint = gt_SourceFingerprint t\<rparr> \<and>
     Mint (dl_handles (ds_lib sv)) (ds_handles sv) \<lparr>cl_Version = 0, cl_GenerationID = so_GenerationID out, cl_ServerID = gt_ServerID t,
       cl_ToolName = gt_ToolName t, cl_SourceFingerprint = gt_SourceFingerprint t, cl_ExecutorClass = sr_ExecutorClass r, cl_ProcessEpoch = []\<rparr> =
       Inr (gt_ExecutionHandle t)"
proof -
  obtain t sources where t: "GetTool sv w (sr_ToolRef r) = Inr t" "gt_GenerationID t = so_GenerationID out" "result_for sv (so_GenerationID out) (fetched_source t) r"
    "SourceTools (dl_codec (ds_lib sv)) (dw_sql w) (dw_catalog w) (so_GenerationID out) = Inr sources" "fetched_source t \<in> set sources"
    "decodeToolReference (ds_lib sv) (sr_ToolRef r) = Some ((reference_of (so_GenerationID out) (fetched_source t))\<lparr>trc_Version := 1\<rparr>)"
    "gt_ExecutorClass t = sr_ExecutorClass r"
    by (rule result_fetched [OF S r pk codec ids mgr])
  have "gt_ToolName t = sr_ToolName r" using t(3) by (simp add: result_for_def fetched_source_def)
  then show ?thesis using t GetTool_facts(4) [OF t(1)]
    by (intro exI [of _ t] exI [of _ sources]) (simp add: reference_of_def handle_claims_def fetched_source_def)
qed

section \<open>Executing a fetched tool\<close>

text \<open>The router works on the same parts as discovery.\<close>

definition same_system :: "'b disc_service \<Rightarrow> 'b disc_world \<Rightarrow> ('b, 'w, 's) router \<Rightarrow> ('b, 'w) world \<Rightarrow> bool" where
  "same_system sv w rt rw \<longleftrightarrow> rl_codec (rt_lib rt) = dl_codec (ds_lib sv) \<and> rl_unmarshal_server (rt_lib rt) = dl_server (ds_lib sv) \<and>
     rt_hlib rt = dl_handles (ds_lib sv) \<and> rt_handles rt = ds_handles sv \<and> rt_state rt = ds_state sv \<and>
     w_catalog rw = dw_catalog w \<and> w_routing rw = dw_routing w"

lemma findSource_self: "findSource ss a b = Some s \<Longrightarrow> findSource ss (rec_ServerID s) (rec_ToolName s) = Some s"
  unfolding findSource_def by (frule find_Some_mem) simp

lemma resolve_reference_facts:
  assumes "resolve_reference sv w ref = Inr (gid, s)"
  obtains sources where "currentGeneration sv w = Inr gid" "SourceTools (dl_codec (ds_lib sv)) (dw_sql w) (dw_catalog w) gid = Inr sources"
    "findSource sources (rec_ServerID s) (rec_ToolName s) = Some s"
  using assms unfolding resolve_reference_def Let_def
  by (auto simp: err_simps findSource_self elim!: rbind_InrE)

lemma current_generation_eq:
  assumes "same_system sv w rt rw" "currentGeneration sv w = Inr gid"
  shows "current_generation rt (dw_sql w) rw = Inr gid"
  using assms by (auto simp: same_system_def currentGeneration_def current_generation_def err_simps
    or_refuse_def refuse_if_def elim!: rbind_InrE split: sum.splits)

lemma known_executor_class: "e \<in> set known_executors \<Longrightarrow> knownExecutorClass e"
  by (simp add: knownExecutorClass_def known_executors_def)

text \<open>
  (C15) What discovery hands out the router accepts: in the same state, the handle of a fetched tool is authorised for the tool's
  executor class with any arguments its schema accepts, and stands for exactly that generation, server, tool and
  fingerprint, provided the JSON codec reads the minted claims back, the process epoch is not blank, and the stored
  contracts of the server decode.
\<close>

theorem GetTool_authorised:
  assumes G: "GetTool sv w ref = Inr t" and same: "same_system sv w rt rw"
    and mgr: "ds_handles sv = Some mg" "\<not> blank (hm_epoch mg)"
    and codec: "\<And>c. cl_Version c = 1 \<Longrightarrow> unmarshal_claims (dl_handles (ds_lib sv)) (marshal_claims (dl_handles (ds_lib sv)) c) = Some c"
    and S: "SourceTools (dl_codec (ds_lib sv)) (dw_sql w) (dw_catalog w) (gt_GenerationID t) = Inr sources"
    and tool: "decodeAuthoritativeTool (rt_lib rt) (fetched_source t) = Some tool" and args: "validateArguments (rt_lib rt) tool arguments = None"
    and snap: "authoritativeServerSnapshot (rt_lib rt) sources (gt_ServerID t) = Some expected"
  shows "authorise rt (dw_sql w) (gt_ExecutorClass t) \<lparr>in_ExecutionHandle = gt_ExecutionHandle t, in_ToolName = name, in_Arguments = arguments\<rparr> rw =
     Inr (\<lparr>cl_Version = 1, cl_GenerationID = gt_GenerationID t, cl_ServerID = gt_ServerID t, cl_ToolName = gt_ToolName t,
        cl_SourceFingerprint = gt_SourceFingerprint t, cl_ExecutorClass = gt_ExecutorClass t, cl_ProcessEpoch = hm_epoch mg\<rparr>, expected)"
proof -
  note g = GetTool_facts [OF G]
  let ?c = "(handle_claims (gt_GenerationID t) (fetched_source t) (gt_ExecutorClass t))\<lparr>cl_Version := 1, cl_ProcessEpoch := hm_epoch mg\<rparr>"
  have V: "Validate (rt_hlib rt) (rt_handles rt) (TrimSpace (gt_ExecutionHandle t)) = Inr ?c"
    using minted_accepted [of "dl_handles (ds_lib sv)" mg, OF _ mgr(2) codec] g(4) mgr(1) same by (simp add: same_system_def)
  obtain sources' where R: "currentGeneration sv w = Inr (gt_GenerationID t)"
    "SourceTools (dl_codec (ds_lib sv)) (dw_sql w) (dw_catalog w) (gt_GenerationID t) = Inr sources'"
    "findSource sources' (gt_ServerID t) (gt_ToolName t) = Some (fetched_source t)"
    by (rule resolve_reference_facts [OF g(1)]) (simp add: fetched_source_def)
  have src: "sources' = sources" using R(2) S by simp
  obtain server where "SourceServer (dl_codec (ds_lib sv)) (dl_server (ds_lib sv)) (dw_sql w) (dw_catalog w) (gt_GenerationID t) (gt_ServerID t) = Inr server"
    using server_foundD [OF g(2)] by blast
  then have A: "authoritative_source rt (dw_sql w) ?c (gt_GenerationID t) rw = Inr (sources, fetched_source t)"
    using same R src by (simp add: authoritative_source_def same_system_def handle_claims_def fetched_source_def err_simps
      or_refuse_def refuse_if_def some_or_refuse_def)
  have "knownExecutorClass (gt_ExecutorClass t)" using known_executor_class [OF executor_known [OF g(3)]] .
  then show ?thesis
    using V A current_generation_eq [OF same R(1)] g(3) tool args snap same
    by (simp add: authorise_def same_system_def handle_claims_def fetched_source_def err_simps or_refuse_def refuse_if_def some_or_refuse_def)
qed

end
