(* ===== verification/DiscoveryWitness.thy ===== *)
theory DiscoveryWitness
  imports DiscoverySearch RouterWitness RoutingPrefsWitness RetrievalStoreFacts
begin

text \<open>
  A concrete system for discovery: the catalog of the router's sample with guidance, a capability hierarchy, a lexical record
  and embeddings for its one tool; a search finds the tool, its reference is fetched, and the handle is authorised.
\<close>

section \<open>A codec that reads back what it wrote\<close>

fun put_fields :: "string list \<Rightarrow> string" where
  "put_fields [] = []"
| "put_fields (f # fs) = replicate (length f) (CHR 0x01) @ CHR 0x00 # f @ put_fields fs"

fun get_fields :: "nat \<Rightarrow> string \<Rightarrow> string list" where
  "get_fields 0 s = []"
| "get_fields (Suc n) s = (let k = length (takeWhile (\<lambda>c. c = CHR 0x01) s); r = drop (Suc k) s in take k r # get_fields n (drop k r))"

lemma takeWhile_ones: "takeWhile (\<lambda>c. c = CHR 0x01) (replicate n (CHR 0x01) @ CHR 0x00 # s) = replicate n (CHR 0x01)"
  by (induction n) simp_all

lemma get_put_fields: "get_fields (length fs) (put_fields fs) = fs"
  by (induction fs) (simp_all add: takeWhile_ones Let_def)

definition ref_fields :: "toolReferenceClaims \<Rightarrow> string list" where
  "ref_fields c = [trc_GenerationID c, trc_ServerID c, trc_ToolName c, trc_SourceFingerprint c]"

definition ref_of_fields :: "string list \<Rightarrow> toolReferenceClaims option" where
  "ref_of_fields fs = (case fs of [a, b, c, d] \<Rightarrow> Some \<lparr>trc_Version = 1, trc_GenerationID = a, trc_ServerID = b, trc_ToolName = c, trc_SourceFingerprint = d\<rparr> | _ \<Rightarrow> None)"

definition claims_fields :: "Claims \<Rightarrow> string list" where
  "claims_fields c = [cl_GenerationID c, cl_ServerID c, cl_ToolName c, cl_SourceFingerprint c, cl_ExecutorClass c, cl_ProcessEpoch c]"

definition claims_of_fields :: "string list \<Rightarrow> Claims option" where
  "claims_of_fields fs = (case fs of [a, b, c, d, e, f] \<Rightarrow> Some \<lparr>cl_Version = 1, cl_GenerationID = a, cl_ServerID = b, cl_ToolName = c,
     cl_SourceFingerprint = d, cl_ExecutorClass = e, cl_ProcessEpoch = f\<rparr> | _ \<Rightarrow> None)"

lemma ref_read_back: "trc_Version c = 1 \<Longrightarrow> ref_of_fields (get_fields 4 (put_fields (ref_fields c))) = Some c"
proof -
  assume v: "trc_Version c = 1"
  have "length (ref_fields c) = 4" by (simp add: ref_fields_def)
  then have "get_fields 4 (put_fields (ref_fields c)) = ref_fields c" using get_put_fields [of "ref_fields c"] by simp
  then show ?thesis using v by (simp add: ref_fields_def ref_of_fields_def)
qed

lemma claims_read_back: "cl_Version c = 1 \<Longrightarrow> claims_of_fields (get_fields 6 (put_fields (claims_fields c))) = Some c"
proof -
  assume v: "cl_Version c = 1"
  have "length (claims_fields c) = 6" by (simp add: claims_fields_def)
  then have "get_fields 6 (put_fields (claims_fields c)) = claims_fields c" using get_put_fields [of "claims_fields c"] by simp
  then show ?thesis using v by (simp add: claims_fields_def claims_of_fields_def)
qed

section \<open>The sample system\<close>

definition disc_hlib :: handle_lib where
  "disc_hlib = \<lparr>hmac_sha256 = (\<lambda>k p. k @ p), marshal_claims = (\<lambda>c. put_fields (claims_fields c)),
     unmarshal_claims = (\<lambda>s. claims_of_fields (get_fields 6 s))\<rparr>"

definition echo_guidance :: ToolGuidance where
  "echo_guidance = \<lparr>tgd_Purpose = ''Repeat'', tgd_UseWhen = [], tgd_AvoidWhen = [], tgd_Examples = [], tgd_ArgumentGuidance = [],
     tgd_Preconditions = [], tgd_OutputInterpretation = [], tgd_Alternatives = [], tgd_Capabilities = []\<rparr>"

definition echo_hierarchy :: CapabilityHierarchy where
  "echo_hierarchy = \<lparr>ch_Protocol = CapabilityProtocolVersion, ch_Capabilities =
     [\<lparr>cn_ID = ''say'', cn_Name = ''Say'', cn_Description = [], cn_ParentID = [], cn_ToolMembers = [''a/echo'']\<rparr>]\<rparr>"

definition disc_lib_sample :: disc_lib where
  "disc_lib_sample = \<lparr>dl_codec = sample_codec,
     dl_unicode = \<lparr>uc_lower = (\<lambda>s. s), uc_runes = (\<lambda>s. []), uc_letter = (\<lambda>_. False), uc_digit = (\<lambda>_. False)\<rparr>,
     dl_float = exact_lib, dl_prefs = sample_pc, dl_handles = disc_hlib, dl_server = rl_unmarshal_server route_lib,
     dl_presentation = (\<lambda>s. if s = ''A'' then Some \<lparr>pres_Name = ''echo'', pres_Title = [], pres_Description = ''d''\<rparr> else None),
     dl_guidance = (\<lambda>s. Some echo_guidance), dl_hierarchy = (\<lambda>s. Some echo_hierarchy),
     dl_marshal_ref = (\<lambda>c. put_fields (ref_fields c)), dl_unmarshal_ref = (\<lambda>s. ref_of_fields (get_fields 4 s))\<rparr>"

definition sample_artifact :: "string \<Rightarrow> Artifact" where
  "sample_artifact payload = \<lparr>art_Kind = EmbeddingArtifactKind, art_ContentFingerprint = FingerprintJSON sample_codec payload,
     art_DependencyFingerprint = snd (projr (normalizeDependencies sample_codec [])), art_ContextFingerprint = [], art_Payload = payload, art_CreatedAt = 1\<rparr>"

definition sample_link :: "string \<Rightarrow> artifact_link" where
  "sample_link key = \<lparr>ga_artifact = key, ga_required = True, ga_complete = True\<rparr>"

definition disc_catalog :: catalog where
  "disc_catalog = route_catalog\<lparr>
     artifacts := [(''v'', sample_artifact (vectorPayloadMagic @ unit_bytes)), (''e'', sample_artifact ''E''), (''c'', sample_artifact ''C'')],
     generation_artifacts := [((''g'', RoleSourceDescriptionVector, ''a/echo''), sample_link ''v''), ((''g'', RoleInputSchemaVector, ''a/echo''), sample_link ''v''),
       ((''g'', RoleEnrichedEmbedding, ''a/echo''), sample_link ''v''), ((''g'', RoleToolEnrichment, ''a/echo''), sample_link ''e''),
       ((''g'', RoleCapabilityHierarchy, ''global''), sample_link ''c'')],
     lexical_records := [((''g'', ''a/echo''), (''sha256:t'', ''t''))]\<rparr>"

definition disc_service_sample :: "routing_snapshot disc_service" where
  "disc_service_sample = \<lparr>ds_lib = disc_lib_sample, ds_identity = sample_identity, ds_ask = (\<lambda>_. Inr [unit_x]), ds_state = MemoryBackend,
     ds_handles = Some sample_manager, ds_options = service_options exact_lib
       \<lparr>do_DefaultProfile = [], do_CandidateDepth = 0, do_RRFK = 0, do_MinVectorSimilarity = 0, do_MinLexicalCoverage = 0\<rparr>\<rparr>"

definition disc_world_sample :: "routing_snapshot disc_world" where
  "disc_world_sample = \<lparr>dw_catalog = disc_catalog, dw_routing = w_routing route_world, dw_prefs = prefs_empty, dw_sql = sample_q, dw_psql = (\<lambda>_. False)\<rparr>"

definition disc_input :: SearchInput where
  "disc_input = \<lparr>si_Query = ''echo'', si_Limit = 0, si_RoutingProfile = [], si_Context = []\<rparr>"

definition echo_source :: SourceToolRecord where
  "echo_source = \<lparr>rec_ServerID = ''a'', rec_ToolName = ''echo'', rec_SourceFingerprint = ''sha256:A'', rec_ContractJSON = ''A''\<rparr>"

definition echo_base :: search_base where
  "echo_base = \<lparr>sb_query = ''echo'', sb_limit = 10, sb_generation = ''g'', sb_profile = None, sb_profileID = [], sb_revision = 0, sb_sources = [echo_source]\<rparr>"

definition echo_index :: VectorIndex where
  "echo_index = \<lparr>vi_dimensions = 2, vi_records = [(''a/echo'', unit_x)]\<rparr>"

lemmas disc_sample_simps = disc_service_sample_def disc_world_sample_def disc_lib_sample_def

lemma disc_current: "currentGeneration disc_service_sample disc_world_sample = Inr ''g''"
  by code_simp

lemma disc_base: "search_base_of disc_service_sample disc_world_sample disc_input = Inr echo_base"
  by code_simp

lemma disc_available: "availability sample_q disc_catalog [echo_source] [] 0 = Inr ([(''a/echo'', True)], 0)"
  by code_simp

lemma disc_guidance: "loadGuidance disc_service_sample disc_world_sample ''g'' = Inr [(''a/echo'', echo_guidance)]"
  by code_simp

lemma disc_hierarchy: "loadCapabilityHierarchy disc_service_sample disc_world_sample ''g'' = Inr echo_hierarchy"
  by code_simp

lemma disc_vector_artifacts:
  "\<forall>role \<in> {RoleSourceDescriptionVector, RoleInputSchemaVector, RoleEnrichedEmbedding}.
     GenerationArtifacts sample_codec sample_q disc_catalog ''g'' role =
       Inr [\<lparr>gart_Role = role, gart_MemberKey = ''a/echo'', gart_Artifact = (''v'', sample_artifact (vectorPayloadMagic @ unit_bytes))\<rparr>]"
  by code_simp

lemma disc_lexical: "LexicalRecords sample_codec sample_q disc_catalog ''g'' = Inr [(''a/echo'', ''sha256:t'', ''t'')]"
  by code_simp

lemma unit_decodes: "decodeVectorPayload exact_lib (vectorPayloadMagic @ unit_bytes) = Inr unit_x"
proof -
  have m: "length vectorPayloadMagic = 8" by (simp add: vectorPayloadMagic_def)
  have n: "length unit_x = 2" by (simp add: unit_x_def)
  show ?thesis unfolding unit_bytes [symmetric] decodeVectorPayload_def Let_def m
    using units(2) read_values_Put [of unit_x] by (simp add: m Uint32_Put n length_puts)
qed

lemma disc_vectors:
  assumes "role \<in> {RoleSourceDescriptionVector, RoleInputSchemaVector, RoleEnrichedEmbedding}"
  shows "LoadVectorIndex sample_codec exact_lib sample_q disc_catalog ''g'' role = Inr echo_index"
proof -
  note a = bspec [OF disc_vector_artifacts assms]
  have "length unit_x = 2" "unit_x \<noteq> []" by (simp_all add: unit_x_def)
  then have "NewVectorIndex exact_lib [(''a/echo'', unit_x)] = Inr echo_index"
    by (simp add: NewVectorIndex_def echo_index_def rbind_Inr units)
  then show ?thesis
    by (simp add: LoadVectorIndex_def a lift_catalog_def err_simps sample_artifact_def unit_decodes lift_index_def Let_def)
qed

definition echo_lexical :: LexicalIndex where
  "echo_lexical = \<lparr>li_documents = [\<lparr>ld_key = ''a/echo'', ld_termCounts = [], ld_termCount = 0\<rparr>], li_documentFrequency = [], li_averageLength = 0\<rparr>"

lemma disc_lexical_index: "LoadLexicalIndex sample_codec (dl_unicode disc_lib_sample) exact_lib sample_q disc_catalog ''g'' = Inr echo_lexical"
  by (simp add: LoadLexicalIndex_def disc_lexical lift_catalog_def err_simps lift_index_def NewLexicalIndex_def doc_check_def index_document_def
      Tokenize_def disc_lib_sample_def echo_lexical_def exact_lib_def)

definition echo_indexes :: search_indexes where
  "echo_indexes = \<lparr>sx_guidance = [(''a/echo'', echo_guidance)], sx_hierarchy = echo_hierarchy, sx_lexical = echo_lexical, sx_source = echo_index,
     sx_schema = echo_index, sx_enriched = echo_index\<rparr>"

lemma disc_fields:
  "ds_lib disc_service_sample = disc_lib_sample" "dl_codec disc_lib_sample = sample_codec" "dl_float disc_lib_sample = exact_lib"
  "dw_sql disc_world_sample = sample_q" "dw_catalog disc_world_sample = disc_catalog" "dl_server disc_lib_sample = rl_unmarshal_server route_lib"
  "ds_identity disc_service_sample = sample_identity" "ds_ask disc_service_sample = (\<lambda>_. Inr [unit_x])" "dl_prefs disc_lib_sample = sample_pc"
  "dw_psql disc_world_sample = (\<lambda>_. False)" "dw_prefs disc_world_sample = prefs_empty"
  by (simp_all add: disc_sample_simps)

lemma disc_load: "load_indexes disc_service_sample disc_world_sample ''g'' (Suc 0) = Inr echo_indexes"
  by (simp add: load_indexes_def disc_fields disc_guidance disc_hierarchy disc_vectors disc_lexical_index err_simps or_error_def fail_if_def
      Lexical_Len_def Vector_Len_def echo_lexical_def echo_index_def) (simp add: echo_indexes_def echo_lexical_def echo_index_def)

lemma unit_scores: "dot exact_lib unit_x unit_x = 1" "clamp_score exact_lib 1 = 1" "cosine exact_lib unit_x unit_x = 1"
  by (simp_all add: dot_def unit_x_def f32_values exact_lib_def clamp_score_def cosine_def squared_magnitude_def)

lemma echo_vector_search: "0 < depth \<Longrightarrow> Vector_Search exact_lib (Some echo_index) unit_x depth = Inr [(''a/echo'', 1)]"
  by (simp add: Vector_Search_def echo_index_def units unit_scores take_Cons split: nat.split)

lemma echo_capabilities: "capabilityVectorRanking exact_lib unit_x echo_hierarchy (Some echo_index) = [(''a/echo'', 1)]"
proof -
  have v: "VectorIndex_Vector (Some echo_index) ''a/echo'' = Some unit_x" by code_simp
  have a: "add_vector exact_lib (replicate (length unit_x) 0) unit_x = unit_x"
    by (simp add: add_vector_def unit_x_def f32_values exact_lib_def)
  show ?thesis
    by (simp add: capabilityVectorRanking_def echo_hierarchy_def rank_node_def add_member_def v a unit_scores)
qed

lemma echo_rank: "\<exists>score. rank_tools disc_service_sample echo_indexes ''echo'' unit_x 1 = Inr ([(''a/echo'', score)], [(''a/echo'', 1)])"
proof -
  have "Lexical_Search (dl_unicode disc_lib_sample) exact_lib (Some echo_lexical) ''echo'' 1 = Inr []"
    by (simp add: Lexical_Search_def Tokenize_def disc_lib_sample_def)
  moreover have "do_RRFK (ds_options disc_service_sample) = 60" by (simp add: disc_service_sample_def service_options_def defaultRRFK_def)
  ultimately show ?thesis
    by (simp add: rank_tools_def echo_indexes_def disc_fields err_simps or_error_def echo_vector_search echo_capabilities
        reciprocalRankFusion_def collectVectorEvidence_def score_of_def)
qed

lemma echo_presentation: "parsePresentation disc_lib_sample echo_source = Inr \<lparr>pres_Name = ''echo'', pres_Title = [], pres_Description = ''d''\<rparr>"
  by code_simp

lemma disc_maps: "\<exists>servers. source_maps disc_service_sample disc_world_sample ''g'' [echo_source] [] [] = Inr ([(''a/echo'', echo_source)], servers)"
proof -
  have "\<not> isl (SourceServer sample_codec (rl_unmarshal_server route_lib) sample_q disc_catalog ''g'' ''a'')" by code_simp
  then obtain c fp where "SourceServer sample_codec (rl_unmarshal_server route_lib) sample_q disc_catalog ''g'' ''a'' = Inr (c, fp)"
    by (metis isl_def not_isl_Inr2 surj_pair)
  then show ?thesis
    by (simp add: disc_fields echo_source_def member_of_def MemberKey_def err_simps or_error_def)
qed

lemma disc_select: "\<exists>c. select_candidates disc_service_sample disc_world_sample disc_input echo_base [(''a/echo'', True)] 0 echo_indexes unit_x = Inr [c] \<and>
    ca_source c = echo_source"
proof -
  obtain score where r: "rank_tools disc_service_sample echo_indexes ''echo'' unit_x 1 = Inr ([(''a/echo'', score)], [(''a/echo'', 1)])"
    using echo_rank by blast
  obtain servers where m: "source_maps disc_service_sample disc_world_sample ''g'' [echo_source] [] [] = Inr ([(''a/echo'', echo_source)], servers)"
    using disc_maps by blast
  have rules: "EffectiveRules sample_pc (\<lambda>_. False) prefs_empty [] = Inr []" by code_simp
  have "do_CandidateDepth (ds_options disc_service_sample) = 50" "\<not> 1 < do_MinVectorSimilarity (ds_options disc_service_sample)"
    by (simp_all add: disc_service_sample_def service_options_def defaultCandidateDepth_def defaultMinVectorSimilarity_def exact_lib_def)
  then show ?thesis
    by (simp add: select_candidates_def echo_base_def candidate_depth_def r m disc_fields err_simps or_error_def rules echo_presentation score_of_def Let_def
        del: source_maps.simps)
qed

lemma disc_search:
  "\<exists>out r. Search disc_service_sample disc_world_sample disc_input None = (None, Inr out) \<and> so_Results out = [r] \<and> sr_ToolName r = ''echo'' \<and>
     so_GenerationID out = ''g'' \<and> sr_ExecutorClass r = ExecutorReadOnlyClosed"
proof -
  have b: "sb_sources echo_base = [echo_source]" "sb_generation echo_base = ''g''" "sb_query echo_base = ''echo''" by (simp_all add: echo_base_def)
  have p: "search_prepare disc_service_sample disc_world_sample disc_input = Inr (echo_base, Some ([(''a/echo'', True)], 0, echo_indexes))"
    by (simp add: search_prepare_def disc_base err_simps b disc_fields disc_available disc_load del: availability.simps)
  have "expected_dimensions sample_identity = 2" by code_simp
  then have e: "EmbedQuery sample_codec exact_lib sample_identity (\<lambda>_. Inr [unit_x]) None ''echo'' = (None, Inr unit_x)"
    by (simp add: EmbedQuery_def units)
  obtain c where c: "select_candidates disc_service_sample disc_world_sample disc_input echo_base [(''a/echo'', True)] 0 echo_indexes unit_x = Inr [c]"
    and src: "ca_source c = echo_source" using disc_select by blast
  have "ExecutorClassForJSON sample_codec (rec_ContractJSON echo_source) = Inr ExecutorReadOnlyClosed" by code_simp
  then obtain r where "result_of disc_service_sample ''g'' c = Inr r" "sr_ToolName r = rec_ToolName echo_source" "sr_ExecutorClass r = ExecutorReadOnlyClosed"
    by (auto simp: result_of_def disc_fields src err_simps or_error_def)
  then show ?thesis
    by (simp add: Search_def p disc_fields b e c err_simps search_output_def echo_source_def)
qed

section \<open>Witnesses\<close>

theorem Search_results_witness:
  "\<exists>out. Search disc_service_sample disc_world_sample disc_input None = (None, Inr out) \<and> length (so_Results out) = 1 \<and>
     currentGeneration disc_service_sample disc_world_sample = Inr (so_GenerationID out)"
proof -
  obtain out r where "Search disc_service_sample disc_world_sample disc_input None = (None, Inr out)" "so_Results out = [r]"
    using disc_search by blast
  with Search_results [OF this(1)] show ?thesis by auto
qed

lemma disc_server_ids: "((g, sid, t), row) \<in> set (source_tools disc_catalog) \<Longrightarrow> \<not> blank sid"
proof -
  have "list_all (\<lambda>((g, sid, t), row). \<not> blank sid) (source_tools disc_catalog)" by code_simp
  then show "((g, sid, t), row) \<in> set (source_tools disc_catalog) \<Longrightarrow> \<not> blank sid" by (auto simp: list_all_iff)
qed

lemma disc_refs: "trc_Version c = 1 \<Longrightarrow> dl_unmarshal_ref (ds_lib disc_service_sample) (dl_marshal_ref (ds_lib disc_service_sample) c) = Some c"
  by (simp add: disc_sample_simps ref_read_back)

theorem Search_then_GetTool_witness:
  "\<exists>out r t. Search disc_service_sample disc_world_sample disc_input None = (None, Inr out) \<and> so_Results out = [r] \<and>
     GetTool disc_service_sample disc_world_sample (sr_ToolRef r) = Inr t \<and> gt_ToolName t = ''echo'' \<and>
     (\<exists>c. Mint (dl_handles (ds_lib disc_service_sample)) (ds_handles disc_service_sample) c = Inr (gt_ExecutionHandle t) \<and> cl_ToolName c = ''echo'')"
proof -
  obtain out r where S: "Search disc_service_sample disc_world_sample disc_input None = (None, Inr out)" and r: "so_Results out = [r]" "sr_ToolName r = ''echo''"
    using disc_search by blast
  have pk: "distinct (map fst (source_tools (dw_catalog disc_world_sample)))" unfolding disc_fields by code_simp
  have mgr: "ds_handles disc_service_sample = Some sample_manager" "hm_epoch sample_manager \<noteq> []"
    by (simp_all add: disc_service_sample_def sample_manager_def)
  have "r \<in> set (so_Results out)" by (simp add: r)
  from Search_then_GetTool [OF S this pk disc_refs _ mgr] disc_server_ids r S show ?thesis by (force simp: disc_fields)
qed

definition disc_router :: "(routing_snapshot, runtime, UseLease) router" where
  "disc_router = (route_router ''sha256:echo'')\<lparr>rt_hlib := disc_hlib\<rparr>"

theorem GetTool_authorised_witness:
  "\<exists>out r t claims. Search disc_service_sample disc_world_sample disc_input None = (None, Inr out) \<and> so_Results out = [r] \<and>
     GetTool disc_service_sample disc_world_sample (sr_ToolRef r) = Inr t \<and>
     authorise disc_router sample_q ExecutorReadOnlyClosed \<lparr>in_ExecutionHandle = gt_ExecutionHandle t, in_ToolName = [], in_Arguments = None\<rparr>
       (route_world\<lparr>w_catalog := disc_catalog\<rparr>) = Inr (claims, \<lparr>ts_Tools = [], ts_Fingerprint = ''sha256:echo''\<rparr>)"
proof -
  obtain out r where S: "Search disc_service_sample disc_world_sample disc_input None = (None, Inr out)" and r: "so_Results out = [r]"
    "so_GenerationID out = ''g''" "sr_ExecutorClass r = ExecutorReadOnlyClosed" using disc_search by blast
  have pk: "distinct (map fst (source_tools (dw_catalog disc_world_sample)))" unfolding disc_fields by code_simp
  have mgr: "ds_handles disc_service_sample = Some sample_manager" "hm_epoch sample_manager \<noteq> []" "\<not> blank (hm_epoch sample_manager)"
    by (simp add: disc_service_sample_def, simp add: sample_manager_def, code_simp)
  have "r \<in> set (so_Results out)" by (simp add: r)
  obtain t where G: "GetTool disc_service_sample disc_world_sample (sr_ToolRef r) = Inr t" "gt_GenerationID t = ''g''" "gt_ExecutorClass t = ExecutorReadOnlyClosed"
    by (rule result_fetched [OF S \<open>r \<in> set (so_Results out)\<close> pk disc_refs _ mgr(1,2)]) (use disc_server_ids r in \<open>auto simp: disc_fields\<close>)
  have tools: "SourceTools sample_codec sample_q disc_catalog ''g'' = Inr [echo_source]" by code_simp
  obtain sources where "SourceTools sample_codec sample_q disc_catalog ''g'' = Inr sources"
    "findSource sources (rec_ServerID (fetched_source t)) (rec_ToolName (fetched_source t)) = Some (fetched_source t)"
    using resolve_reference_facts [OF GetTool_facts(1) [OF G(1)]] by (auto simp: disc_fields G(2))
  then have f: "fetched_source t = echo_source" using tools by (auto simp: findSource_def split: if_splits)
  then have sid: "gt_ServerID t = ''a''" by (simp add: fetched_source_def echo_source_def)
  have same: "same_system disc_service_sample disc_world_sample disc_router (route_world\<lparr>w_catalog := disc_catalog\<rparr>)"
    by (simp add: same_system_def disc_sample_simps disc_router_def route_router_def route_lib_def)
  have codec: "cl_Version c = 1 \<Longrightarrow> unmarshal_claims (dl_handles (ds_lib disc_service_sample)) (marshal_claims (dl_handles (ds_lib disc_service_sample)) c) = Some c" for c
    by (simp add: disc_sample_simps disc_hlib_def claims_read_back)
  have lib: "rt_lib disc_router = route_lib" by (simp add: disc_router_def route_router_def)
  have rest: "decodeAuthoritativeTool route_lib echo_source = Some (sample_tool ''echo'')" "validateArguments route_lib (sample_tool ''echo'') None = None"
    "authoritativeServerSnapshot route_lib [echo_source] ''a'' = Some \<lparr>ts_Tools = [], ts_Fingerprint = ''sha256:echo''\<rparr>" by code_simp+
  from GetTool_authorised [OF G(1) same mgr(1,3) codec, of "[echo_source]" "sample_tool ''echo''" None _ "[]"] tools rest S r G
  show ?thesis by (auto simp: disc_fields lib f sid)
qed

end
