(* ===== verification/EnrichmentPrepare.thy ===== *)
theory EnrichmentPrepare
  imports EnrichmentService
begin

text \<open>
  Enrichment, preparation: \<^verbatim>\<open>internal/enrichment/prepare.go\<close>. The work of a staging generation is collected, what can be reused is
  reused, and the rest is cut into batches for the agent.
\<close>

section \<open>Work of one tool\<close>

fun neighbor_refs :: "(string \<times> SourceToolRecord) list \<Rightarrow> nat \<Rightarrow> scored list \<Rightarrow> (enrich_error, NeighborRef list) result" where
  "neighbor_refs by_member rank [] = Inr []"
| "neighbor_refs by_member rank ((key, score) # results) = (case map_of by_member key of
     None \<Rightarrow> Inl (EnrichPrerequisite ''semantic neighbor without source tool'')
   | Some source \<Rightarrow> rbind (neighbor_refs by_member (Suc rank) results) (\<lambda>rest.
       Inr (\<lparr>nb_Rank = rank + 1, nb_Tool = (toolRef source)\<lparr>tr_MemberKey := key\<rparr>\<rparr> # rest)))"

definition tool_work :: "enrich_env \<Rightarrow> VectorIndex \<Rightarrow> (string \<times> SourceToolRecord) list \<Rightarrow> SourceToolRecord \<Rightarrow> (enrich_error, ToolWork) result" where
  "tool_work ev idx by_member source =
     rbind (case Vector_Neighbors (ee_float ev) (Some idx) (member_of source) (eo_NeighborhoodSize (ee_options ev)) of
        Inl e \<Rightarrow> Inl (EnrichIndex e) | Inr rs \<Rightarrow> Inr rs) (\<lambda>neighbors.
     rbind (neighbor_refs by_member 0 neighbors) (\<lambda>refs.
     let work = \<lparr>tw_Tool = toolRef source, tw_Neighbors = refs, tw_NeighborhoodContextFingerprint = []\<rparr> in
     Inr (work\<lparr>tw_NeighborhoodContextFingerprint := neighborhoodFingerprint (ee_codec ev) work\<rparr>)))"

text \<open>A reusable artifact; \<^verbatim>\<open>sql.ErrNoRows\<close> is None.\<close>

definition find_reusable :: "enrich_env \<Rightarrow> RequiredArtifactSpec \<Rightarrow> (string \<times> Artifact) option step" where
  "find_reusable ev spec db = (db, case FindReusableArtifact (ee_codec ev) (ee_sql ev) db (ras_Kind spec) (ras_Dependencies spec) (ras_ContextFingerprint spec) of
     Inl ErrNoRows \<Rightarrow> Inr None | Inl e \<Rightarrow> Inl (EnrichCatalog e) | Inr x \<Rightarrow> Inr (Some x))"

text \<open>The body of the loop over the sources: Some work is still to be done by the agent.\<close>

definition prepare_tool :: "enrich_env \<Rightarrow> string \<Rightarrow> VectorIndex \<Rightarrow> (string \<times> SourceToolRecord) list \<Rightarrow> SourceToolRecord \<Rightarrow> ToolWork option step" where
  "prepare_tool ev gid idx by_member source =
     step_bind (step_result (tool_work ev idx by_member source)) (\<lambda>work.
     let spec = toolArtifactSpec (ee_codec ev) work; gate = enrichedEmbeddingGate (ee_codec ev) work (ee_identity ev) in
     step_bind (changes (SetNeighborhoodContext (ee_sql ev) gid (member_of source) (tw_NeighborhoodContextFingerprint work))) (\<lambda>_.
     step_bind (writes (RequireArtifact (ee_codec ev) (ee_sql ev) gid spec)) (\<lambda>_.
     step_bind (changes (RequireDependency (ee_sql ev) gid (fst gate) (snd gate))) (\<lambda>_.
     step_bind (find_reusable ev spec) (\<lambda>reused.
     case reused of None \<Rightarrow> step_return (Some work)
     | Some (key, a) \<Rightarrow>
         step_bind (fulfil_artifact ev gid spec key) (\<lambda>_.
         step_bind (ensureEnrichedEmbedding ev gid work (art_Payload a)) (\<lambda>_.
         step_bind (changes (SatisfyDependency (ee_sql ev) gid (fst gate) (snd gate) True)) (\<lambda>_.
         step_return None))))))))"

fun prepare_tools :: "enrich_env \<Rightarrow> string \<Rightarrow> VectorIndex \<Rightarrow> (string \<times> SourceToolRecord) list \<Rightarrow> SourceToolRecord list \<Rightarrow> ToolWork list step" where
  "prepare_tools ev gid idx by_member [] = step_return []"
| "prepare_tools ev gid idx by_member (s # ss) =
     step_bind (prepare_tool ev gid idx by_member s) (\<lambda>w.
     step_bind (prepare_tools ev gid idx by_member ss) (\<lambda>rest.
     step_return (case w of None \<Rightarrow> rest | Some work \<Rightarrow> work # rest)))"

section \<open>Batches\<close>

text \<open>The inner loop: the largest prefix of at most \<open>n\<close> items whose request fits; a single item that does not fit is an error.\<close>

fun fit_batch :: "enrich_env \<Rightarrow> ToolWork list \<Rightarrow> nat \<Rightarrow> (enrich_error, nat \<times> string) result" where
  "fit_batch ev items 0 = Inl (EnrichTooLarge [])"
| "fit_batch ev items (Suc n) =
     (case el_marshal_tool_request (ee_lib ev) \<lparr>tbr_Protocol = ToolEnrichmentProtocolVersion, tbr_Items = take (Suc n) items\<rparr> of
        None \<Rightarrow> Inl EnrichMarshal
      | Some body \<Rightarrow>
          if int (length body) \<le> eo_MaxToolBatchBytes (ee_options ev) then Inr (Suc n, body)
          else if n = 0 then Inl (EnrichTooLarge (case items of [] \<Rightarrow> [] | w # _ \<Rightarrow> tr_MemberKey (tw_Tool w)))
          else fit_batch ev items n)"

lemma fit_batch_pos: "fit_batch ev items n = Inr (k, body) \<Longrightarrow> 0 < k \<and> k \<le> n"
  by (induction ev items n rule: fit_batch.induct) (auto split: option.splits if_splits)

definition batch_spec :: "enrich_env \<Rightarrow> string \<Rightarrow> nat \<Rightarrow> string \<Rightarrow> EnrichmentBatchSpec" where
  "batch_spec ev gid ordinal body = (let batchKey = ''tool:'' @ six_digits ordinal in
     \<lparr>ebs_ID = deterministicBatchID (ee_codec ev) gid BatchToolEnrichment batchKey body, ebs_GenerationID = gid, ebs_Kind = BatchToolEnrichment,
      ebs_BatchKey = batchKey, ebs_Required = True, ebs_RequestJSON = body\<rparr>)"

function make_batches :: "enrich_env \<Rightarrow> string \<Rightarrow> nat \<Rightarrow> ToolWork list \<Rightarrow> (enrich_error, EnrichmentBatchSpec list) result" where
  "make_batches ev gid ordinal items = (if items = [] then Inr [] else
     (case fit_batch ev items (min (nat (eo_ToolBatchSize (ee_options ev))) (length items)) of
        Inl e \<Rightarrow> Inl e
      | Inr (n, body) \<Rightarrow> rbind (make_batches ev gid (Suc ordinal) (drop n items)) (\<lambda>rest. Inr (batch_spec ev gid ordinal body # rest))))"
  by pat_completeness auto

termination
  by (relation "measure (\<lambda>(ev, gid, ordinal, items). length items)") (auto dest: fit_batch_pos)

declare make_batches.simps [simp del]

definition batch_counts :: "enrich_env \<Rightarrow> string \<Rightarrow> EnrichmentBatchCounts step" where
  "batch_counts ev gid = reads (\<lambda>db. Catalog_EnrichmentBatchCounts (ee_sql ev) db gid)"

definition require_staging :: "enrich_env \<Rightarrow> string \<Rightarrow> unit step" where
  "require_staging ev gid = step_bind (reads (\<lambda>db. Catalog_Generation (ee_sql ev) db gid)) (\<lambda>(i, g).
     step_require (gen_Status g = GenerationStaging) (EnrichCatalog ErrGenerationNotStaging))"

definition by_members :: "SourceToolRecord list \<Rightarrow> (string \<times> SourceToolRecord) list" where
  "by_members sources = fold (\<lambda>s m. alist_put (member_of s) s m) sources []"

definition PrepareToolEnrichment :: "enrich_env \<Rightarrow> string \<Rightarrow> EnrichmentBatchCounts step" where
  "PrepareToolEnrichment ev gid = (let cd = ee_codec ev; q = ee_sql ev in
     step_bind (require_staging ev gid) (\<lambda>_.
     step_bind (reads (\<lambda>db. EnrichmentBatchCount q db gid BatchToolEnrichment)) (\<lambda>batchCount.
     if batchCount \<noteq> 0 then step_bind (repairAcceptedBatches ev gid BatchToolEnrichment) (\<lambda>_. batch_counts ev gid)
     else
     step_bind (reads (\<lambda>db. SourceTools cd q db gid)) (\<lambda>sources.
     let gate = capabilityReconciliationGate cd sources in
     step_bind (changes (RequireDependency q gid (fst gate) (snd gate))) (\<lambda>_.
     step_bind (retrieves (\<lambda>db. LoadVectorIndex cd (ee_float ev) q db gid RoleSourceDescriptionVector)) (\<lambda>vectorIndex.
     step_bind (step_require (Vector_Len (Some vectorIndex) = length sources) (EnrichPrerequisite ''vector count'')) (\<lambda>_.
     step_bind (step_require (list_all (\<lambda>k. map_of (by_members sources) k \<noteq> None) (Vector_Keys (Some vectorIndex)))
        (EnrichPrerequisite ''vector without source tool'')) (\<lambda>_.
     step_bind (prepare_tools ev gid vectorIndex (by_members sources) sources) (\<lambda>pending.
     step_bind (step_result (make_batches ev gid 0 pending)) (\<lambda>specs.
     step_bind (changes (PutEnrichmentBatches cd q specs)) (\<lambda>_.
     batch_counts ev gid)))))))))))"

section \<open>The hierarchy batch\<close>

definition input_item :: "(string \<times> Artifact) list \<Rightarrow> SourceToolRecord \<Rightarrow> (enrich_error, CapabilityInputItem \<times> ArtifactDependency) result" where
  "input_item enrichments source = (case map_of enrichments (member_of source) of
     None \<Rightarrow> Inl (EnrichPrerequisite ''missing tool enrichment'')
   | Some a \<Rightarrow> Inr (\<lparr>cii_Tool = toolRef source, cii_Enrichment = art_Payload a\<rparr>, (''tool-enrichment:'' @ member_of source, art_ContentFingerprint a)))"

definition hierarchy_batch :: "enrich_env \<Rightarrow> string \<Rightarrow> string \<Rightarrow> EnrichmentBatchSpec" where
  "hierarchy_batch ev gid body = \<lparr>ebs_ID = deterministicBatchID (ee_codec ev) gid BatchCapabilityReconciliation ''global'' body,
     ebs_GenerationID = gid, ebs_Kind = BatchCapabilityReconciliation, ebs_BatchKey = ''global'', ebs_Required = True, ebs_RequestJSON = body\<rparr>"

definition reuse_hierarchy :: "enrich_env \<Rightarrow> string \<Rightarrow> string \<times> string \<Rightarrow> RequiredArtifactSpec \<Rightarrow> string \<Rightarrow> unit step" where
  "reuse_hierarchy ev gid gate spec bid =
     step_bind (find_reusable ev spec) (\<lambda>reused. case reused of None \<Rightarrow> step_return ()
     | Some (key, a) \<Rightarrow>
         step_bind (step_some (EnrichDecode ''reusable capability hierarchy'') (el_hierarchy (ee_lib ev) (art_Payload a))) (\<lambda>hierarchy.
         step_bind (accept_batch ev bid (marshal_json (ee_codec ev) (capability_response_json \<lparr>cbs_Hierarchy = hierarchy, cbs_Ambiguities = []\<rparr>))) (\<lambda>_.
         step_bind (fulfil_artifact ev gid spec key) (\<lambda>_.
         changes (SatisfyDependency (ee_sql ev) gid (fst gate) (snd gate) True)))))"

definition PrepareCapabilityReconciliation :: "enrich_env \<Rightarrow> string \<Rightarrow> EnrichmentBatchCounts step" where
  "PrepareCapabilityReconciliation ev gid = (let cd = ee_codec ev; q = ee_sql ev in
     step_bind (require_staging ev gid) (\<lambda>_.
     step_bind (reads (\<lambda>db. EnrichmentBatchCount q db gid BatchCapabilityReconciliation)) (\<lambda>batchCount.
     if batchCount \<noteq> 0 then step_bind (repairAcceptedBatches ev gid BatchCapabilityReconciliation) (\<lambda>_. batch_counts ev gid)
     else
     step_bind (reads (\<lambda>db. PendingEnrichmentBatches q db gid BatchToolEnrichment 1)) (\<lambda>pendingTool.
     step_bind (step_require (pendingTool = []) (EnrichPrerequisite ''tool enrichment batches remain pending'')) (\<lambda>_.
     step_bind (reads (\<lambda>db. SourceTools cd q db gid)) (\<lambda>sources.
     let gate = capabilityReconciliationGate cd sources in
     step_bind (changes (RequireDependency q gid (fst gate) (snd gate))) (\<lambda>_.
     step_bind (step_require (int (length sources) \<le> eo_MaxReconciliationTools (ee_options ev)) (EnrichTooLarge ''tool count'')) (\<lambda>_.
     step_bind (reads (\<lambda>db. GenerationArtifacts cd q db gid RoleToolEnrichment)) (\<lambda>records.
     step_bind (step_require (length records = length sources) (EnrichPrerequisite ''tool enrichment count'')) (\<lambda>_.
     step_bind (step_result (each_result (input_item (enrichments_of records)) sources)) (\<lambda>items.
     step_bind (step_some EnrichMarshal (el_marshal_capability_request (ee_lib ev)
        \<lparr>cbr_Protocol = CapabilityProtocolVersion, cbr_Items = map fst items\<rparr>)) (\<lambda>body.
     step_bind (step_require (int (length body) \<le> eo_MaxReconciliationBytes (ee_options ev)) (EnrichTooLarge ''request'')) (\<lambda>_.
     step_bind (step_some (EnrichDecode ''capability reconciliation identity'') (canonicalJSONFingerprint cd body)) (\<lambda>context.
     let spec = hierarchySpec cd (map snd items) context; batch = hierarchy_batch ev gid body in
     step_bind (writes (RequireArtifact cd q gid spec)) (\<lambda>_.
     step_bind (changes (PutEnrichmentBatches cd q [batch])) (\<lambda>_.
     step_bind (reuse_hierarchy ev gid gate spec (ebs_ID batch)) (\<lambda>_.
     batch_counts ev gid)))))))))))))))))"

definition GetBatch :: "enrich_env \<Rightarrow> catalog \<Rightarrow> string \<Rightarrow> string \<Rightarrow> (enrich_error, (string \<times> EnrichmentBatch) option) result" where
  "GetBatch ev db gid kind = (case PendingEnrichmentBatches (ee_sql ev) db gid kind 1 of
     Inl e \<Rightarrow> Inl (EnrichCatalog e) | Inr [] \<Rightarrow> Inr None | Inr (b # _) \<Rightarrow> Inr (Some b))"

end
