(* ===== verification/EnrichmentRun.thy ===== *)
theory EnrichmentRun
  imports EnrichmentPrepare EnrichmentFacts CatalogActive RouterWitness RetrievalStoreFacts
begin

text \<open>
  Enrichment over the catalog: every operation is a sequence of catalog operations, so the guarantees of the catalog hold
  through it; a response that fails validation changes nothing; and the batches partition the pending work.
\<close>

section \<open>Enrichment acts through the catalog\<close>

definition acts :: "codec \<Rightarrow> ('e, 'a) gstep \<Rightarrow> bool" where
  "acts cd m \<longleftrightarrow> (\<forall>db. (cat_step cd)\<^sup>*\<^sup>* db (fst (m db)))"

named_theorems acts_intros

lemma acts_bind [acts_intros]: "acts cd m \<Longrightarrow> (\<And>x. acts cd (f x)) \<Longrightarrow> acts cd (step_bind m f)"
proof -
  assume m: "acts cd m" and f: "\<And>x. acts cd (f x)"
  have "(cat_step cd)\<^sup>*\<^sup>* db (fst (step_bind m f db))" for db
  proof (cases "m db")
    case (Pair db' r)
    then have s: "(cat_step cd)\<^sup>*\<^sup>* db db'" using m unfolding acts_def by (metis fst_conv)
    show ?thesis
    proof (cases r)
      case (Inl e)
      with Pair s show ?thesis by (simp add: step_bind_def)
    next
      case (Inr x)
      have "(cat_step cd)\<^sup>*\<^sup>* db' (fst (f x db'))" using f unfolding acts_def by blast
      with Pair s Inr show ?thesis by (auto simp: step_bind_def intro: rtranclp_trans)
    qed
  qed
  then show ?thesis by (simp add: acts_def)
qed

lemma acts_pure [acts_intros]:
  "acts cd (step_return x)" "acts cd (step_fail e)" "acts cd (reads g)" "acts cd (retrieves h)" "acts cd (step_require b e)"
  "acts cd (step_some e o')" "acts cd (step_result r)" "acts cd (find_reusable ev spec)"
  by (simp_all add: acts_def step_return_def step_fail_def reads_def retrieves_def step_require_def step_some_def step_result_def find_reusable_def)

lemma acts_split [acts_intros]:
  "acts cd m \<Longrightarrow> acts cd m' \<Longrightarrow> acts cd (if b then m else m')"
  "acts cd m \<Longrightarrow> (\<And>x. acts cd (f x)) \<Longrightarrow> acts cd (case o' of None \<Rightarrow> m | Some x \<Rightarrow> f x)"
  "(\<And>a b. acts cd (g a b)) \<Longrightarrow> acts cd (case p of (a, b) \<Rightarrow> g a b)"
  by (simp_all split: option.split prod.split)

lemma acts_changes: "(\<And>db db'. f db = Inr db' \<Longrightarrow> cat_step cd db db') \<Longrightarrow> acts cd (changes f)"
  by (auto simp: acts_def changes_def split: sum.split)

lemma acts_writes: "(\<And>db db' x. f db = Inr (db', x) \<Longrightarrow> cat_step cd db db') \<Longrightarrow> acts cd (writes f)"
  by (fastforce simp: acts_def writes_def split: sum.split)

lemma acts_catalog [acts_intros]:
  "acts cd (changes (RequireDependency q gid k f))" "acts cd (changes (SatisfyDependency q gid k f True))"
  "acts cd (changes (SetNeighborhoodContext q gid m f))" "acts cd (changes (PutEnrichmentBatches cd q specs))"
  "acts cd (writes (RequireArtifact cd q gid spec))" "acts cd (writes (AcceptEnrichmentBatch cd q now bid response))"
  by (auto intro!: acts_changes acts_writes intro: cat_step.intros)

lemma acts_fulfil [acts_intros]: "acts (ee_codec ev) (fulfil_artifact ev gid spec key)"
proof -
  have "cat_step (ee_codec ev) db (fst (FulfillArtifact (ee_codec ev) (ee_sql ev) gid spec key db))" for db
    by (cases "FulfillArtifact (ee_codec ev) (ee_sql ev) gid spec key db") (auto intro: cat_step.fulfill)
  then show ?thesis by (auto simp: acts_def fulfil_artifact_def split: prod.split option.split) (metis fst_conv r_into_rtranclp)+
qed

lemma acts_put_artifact [acts_intros]: "acts (ee_codec ev) (put_artifact ev spec payload)"
  unfolding put_artifact_def
  by (rule acts_writes) (auto elim!: rbind_InrE intro: cat_step.put_artifact)

lemma steps_fulfil: "(cat_step cd)\<^sup>*\<^sup>* db (fst (fulfil cd q gid spec key db))"
  by (cases "FulfillArtifact cd q gid spec key db") (auto simp: fulfil_def split: option.split intro: r_into_rtranclp cat_step.fulfill)

lemma step_lift_put: "lift_catalog (PutArtifact cd q now aspec db) = Inr (db1, key, a) \<Longrightarrow> cat_step cd db db1"
  by (auto simp: lift_catalog_def split: sum.splits intro: cat_step.put_artifact)

lemma steps_store_embedding:
  "(cat_step cd)\<^sup>*\<^sup>* db (fst (StoreEmbedding cd fl q now gid role member identity projection vector db))"
  unfolding StoreEmbedding_def Let_def
  by (simp split: sum.split prod.split) (auto elim!: rbind_InrE dest!: step_lift_put intro: converse_rtranclp_into_rtranclp steps_fulfil)

lemma step_require_embedding: "RequireEmbedding cd q gid role member identity projection db = Inr db' \<Longrightarrow> cat_step cd db db'"
  by (auto simp: RequireEmbedding_def lift_catalog_def elim!: rbind_InrE split: sum.splits intro: cat_step.require_artifact)

lemma acts_require_embedding [acts_intros]: "acts (ee_codec ev) (require_embedding ev gid member projection)"
  by (auto simp: acts_def require_embedding_def split: sum.split intro: step_require_embedding)

lemma acts_each [acts_intros]: "(\<And>x. acts cd (f x)) \<Longrightarrow> acts cd (step_each f xs)"
  by (induction xs) (auto intro: acts_intros)

lemma acts_store_embedding [acts_intros]: "acts (ee_codec ev) (store_embedding ev gid member projection vector)"
  using steps_store_embedding [of "ee_codec ev"]
  by (auto simp: acts_def store_embedding_def split: prod.split sum.split) (metis fst_conv)+

lemma acts_accept [acts_intros]: "acts (ee_codec ev) (accept_batch ev bid response)"
  unfolding accept_batch_def by (intro acts_intros)

lemma acts_embedding [acts_intros]: "acts (ee_codec ev) (ensureEnrichedEmbedding ev gid work payload)"
  unfolding ensureEnrichedEmbedding_def Let_def by (intro acts_intros)

lemma acts_work [acts_intros]: "acts (ee_codec ev) (apply_work ev gid items work)"
  unfolding apply_work_def Let_def by (intro acts_intros)

lemma acts_done [acts_intros]: "acts (ee_codec ev) (already_done ev gid b)"
  unfolding already_done_def by (intro acts_intros)

lemma acts_hierarchy [acts_intros]: "acts (ee_codec ev) (store_hierarchy ev batch request response)"
  unfolding store_hierarchy_def createAmbiguityBatches_def Let_def by (intro acts_intros)

lemma acts_submit [acts_intros]: "acts (ee_codec ev) (SubmitBatch ev bid response)"
  unfolding SubmitBatch_def submitToolBatch_def submitCapabilityBatch_def submitAmbiguityReview_def Let_def by (intro acts_intros)

lemma acts_repair [acts_intros]: "acts (ee_codec ev) (repairAcceptedBatches ev gid kind)"
  unfolding repairAcceptedBatches_def by (intro acts_intros)

lemma acts_prepare_tool [acts_intros]: "acts (ee_codec ev) (prepare_tool ev gid idx by_member source)"
  unfolding prepare_tool_def Let_def by (intro acts_intros)

lemma acts_prepare_tools [acts_intros]: "acts (ee_codec ev) (prepare_tools ev gid idx by_member sources)"
  by (induction sources) (auto intro!: acts_intros)

text \<open>
  Enrichment refines the catalog: whatever preparing tool enrichment, preparing the capability hierarchy and submitting a
  response do, on success and on every failure half-way, is a sequence of catalog operations. So the catalog's
  guarantees (one active generation, tools of an indexed generation never change, accepted responses and artifacts are
  written once) hold through enrichment.
\<close>

theorem enrichment_refines_catalog:
  "(cat_step (ee_codec ev))\<^sup>*\<^sup>* db (fst (PrepareToolEnrichment ev gid db)) \<and>
   (cat_step (ee_codec ev))\<^sup>*\<^sup>* db (fst (PrepareCapabilityReconciliation ev gid db)) \<and>
   (cat_step (ee_codec ev))\<^sup>*\<^sup>* db (fst (SubmitBatch ev bid response db))"
proof -
  have "acts (ee_codec ev) (PrepareToolEnrichment ev gid)"
    unfolding PrepareToolEnrichment_def require_staging_def batch_counts_def Let_def by (intro acts_intros)
  moreover have "acts (ee_codec ev) (PrepareCapabilityReconciliation ev gid)"
    unfolding PrepareCapabilityReconciliation_def require_staging_def batch_counts_def reuse_hierarchy_def Let_def by (intro acts_intros)
  moreover have "acts (ee_codec ev) (SubmitBatch ev bid response)" by (rule acts_submit)
  ultimately show ?thesis by (simp add: acts_def)
qed

section \<open>A rejected response changes nothing\<close>

fun verdict :: "enrich_error \<Rightarrow> bool" where
  "verdict (EnrichResponse m) = True"
| "verdict (EnrichHierarchy e) = True"
| "verdict (EnrichAmbiguity e) = True"
| "verdict (EnrichUnsupportedKind k) = True"
| "verdict _ = False"

text \<open>A step whose verdicts leave the catalog alone, and one that gives none.\<close>

definition harmless :: "'a step \<Rightarrow> bool" where
  "harmless m \<longleftrightarrow> (\<forall>db e. snd (m db) = Inl e \<longrightarrow> verdict e \<longrightarrow> fst (m db) = db)"

definition silent :: "'a step \<Rightarrow> bool" where
  "silent m \<longleftrightarrow> (\<forall>db e. snd (m db) = Inl e \<longrightarrow> \<not> verdict e)"

definition reader :: "'a step \<Rightarrow> bool" where
  "reader m \<longleftrightarrow> (\<forall>db. fst (m db) = db)"

named_theorems silent_intros

lemma step_bind_cases:
  "fst (step_bind m f db) = (case snd (m db) of Inl e \<Rightarrow> fst (m db) | Inr x \<Rightarrow> fst (f x (fst (m db))))"
  "snd (step_bind m f db) = (case snd (m db) of Inl e \<Rightarrow> Inl e | Inr x \<Rightarrow> snd (f x (fst (m db))))"
  by (auto simp: step_bind_def split: prod.split sum.split)

lemma silent_bind [silent_intros]: "silent m \<Longrightarrow> (\<And>x. silent (f x)) \<Longrightarrow> silent (step_bind m f)"
  by (auto simp: silent_def step_bind_cases split: sum.splits)

lemma silent_harmless: "silent m \<Longrightarrow> harmless m"
  by (auto simp: silent_def harmless_def)

lemma harmless_reader: "reader m \<Longrightarrow> (\<And>x. harmless (f x)) \<Longrightarrow> harmless (step_bind m f)"
  by (auto simp: harmless_def reader_def step_bind_cases split: sum.splits)

lemma readers:
  "reader (step_return x)" "reader (step_fail e)" "reader (reads g)" "reader (step_require b e)" "reader (step_some e o')"
  by (simp_all add: reader_def step_return_def step_fail_def reads_def step_require_def step_some_def)

lemma silent_pure [silent_intros]:
  "silent (step_return x)" "silent (reads g)" "silent (retrieves h)" "silent (changes c)" "silent (writes w)"
  "silent (step_some (EnrichDecode m) o')" "silent (step_require b (EnrichCatalog c'))"
  by (auto simp: silent_def step_return_def reads_def retrieves_def changes_def writes_def step_some_def step_require_def split: sum.splits option.splits if_splits)

lemma silent_split [silent_intros]:
  "silent m \<Longrightarrow> silent m' \<Longrightarrow> silent (if b then m else m')"
  "silent m \<Longrightarrow> (\<And>x. silent (f x)) \<Longrightarrow> silent (case o' of None \<Rightarrow> m | Some x \<Rightarrow> f x)"
  "(\<And>a b. silent (g a b)) \<Longrightarrow> silent (case p of (a, b) \<Rightarrow> g a b)"
  by (simp_all split: option.split prod.split)

lemma silent_each [silent_intros]: "(\<And>x. silent (f x)) \<Longrightarrow> silent (step_each f xs)"
  by (induction xs) (auto intro: silent_intros)

lemma each_dependency_error: "each_result (\<lambda>i. enrichment_dependency m (g i)) xs = Inl e \<Longrightarrow> \<not> verdict e"
  by (induction xs) (auto simp: enrichment_dependency_def rbind_def split: sum.splits option.splits)

lemma embed_one_error: "embed_one ev txt = Inl e \<Longrightarrow> \<not> verdict e"
  by (auto simp: embed_one_def split: sum.splits list.splits)

lemma silent_parts [silent_intros]:
  "silent (fulfil_artifact ev gid spec key)" "silent (put_artifact ev spec payload)" "silent (accept_batch ev bid response)"
  "silent (require_embedding ev gid member projection)" "silent (store_embedding ev gid member projection vector)"
  "silent (step_result (embed_one ev txt))" "silent (step_result (each_result (\<lambda>i. enrichment_dependency m (g i)) xs))"
  by (auto simp: silent_def fulfil_artifact_def put_artifact_def accept_batch_def writes_def require_embedding_def store_embedding_def
      step_result_def embed_one_error each_dependency_error split: prod.splits sum.splits option.splits)

lemma silent_embedding [silent_intros]: "silent (ensureEnrichedEmbedding ev gid work payload)"
  unfolding ensureEnrichedEmbedding_def Let_def by (intro silent_intros)

lemma silent_work [silent_intros]: "silent (apply_work ev gid items work)"
  unfolding apply_work_def Let_def by (intro silent_intros)

lemma silent_done [silent_intros]: "silent (already_done ev gid b)"
  unfolding already_done_def by (intro silent_intros)

lemma silent_hierarchy [silent_intros]: "silent (store_hierarchy ev batch request response)"
  unfolding store_hierarchy_def createAmbiguityBatches_def Let_def by (intro silent_intros)

lemma harmless_submit: "harmless (SubmitBatch ev bid response)"
proof -
  have verdicts: "reader (case v of None \<Rightarrow> step_return () | Some e \<Rightarrow> step_fail (g e))" for v :: "'c option" and g
    by (cases v) (simp_all add: readers)
  have bare: "reader (case v of None \<Rightarrow> step_return () | Some e \<Rightarrow> step_fail e)" for v
    by (cases v) (simp_all add: readers)
  have tool: "harmless (submitToolBatch ev bid batch response)" for batch
    unfolding submitToolBatch_def Let_def
    by (rule harmless_reader, rule readers verdicts)+ (intro silent_harmless silent_intros)
  have capability: "harmless (submitCapabilityBatch ev bid batch response)" for batch
    unfolding submitCapabilityBatch_def Let_def
    by (rule harmless_reader, rule readers verdicts bare)+ (intro silent_harmless silent_intros)
  have review: "harmless (submitAmbiguityReview ev bid response)"
    unfolding submitAmbiguityReview_def
    by (rule harmless_reader, rule readers verdicts)+ (intro silent_harmless silent_intros)
  have fail: "harmless (step_fail e)" for e by (simp add: harmless_def step_fail_def)
  show ?thesis unfolding SubmitBatch_def
    by (intro harmless_reader readers) (auto simp: tool capability review fail split: prod.split)
qed

text \<open>
  (C31) A response that is judged invalid (unknown, repeated or missing items, no purpose, an unknown alternative, a hierarchy
  that is no complete forest, an incomplete ambiguity, a contradictory review, an unknown batch kind) leaves the catalog
  exactly as it was: the batch stays open for a corrected response.
\<close>

theorem rejected_response_changes_nothing:
  assumes "SubmitBatch ev bid response db = (db', Inl e)" and "verdict e"
  shows "db' = db"
proof -
  have "snd (SubmitBatch ev bid response db) = Inl e" "fst (SubmitBatch ev bid response db) = db'" using assms(1) by simp_all
  then show ?thesis using harmless_submit [of ev bid response] assms(2) unfolding harmless_def by metis
qed

section \<open>The batches partition the pending work\<close>

abbreviation request_body :: "enrich_env \<Rightarrow> ToolWork list \<Rightarrow> string option" where
  "request_body ev ws \<equiv> el_marshal_tool_request (ee_lib ev) \<lparr>tbr_Protocol = ToolEnrichmentProtocolVersion, tbr_Items = ws\<rparr>"

definition carries :: "enrich_env \<Rightarrow> EnrichmentBatchSpec \<Rightarrow> ToolWork list \<Rightarrow> bool" where
  "carries ev spec part \<longleftrightarrow> part \<noteq> [] \<and> int (length part) \<le> eo_ToolBatchSize (ee_options ev) \<and>
     request_body ev part = Some (ebs_RequestJSON spec) \<and> int (length (ebs_RequestJSON spec)) \<le> eo_MaxToolBatchBytes (ee_options ev)"

lemma fit_batch_sound:
  "fit_batch ev items n = Inr (k, body) \<Longrightarrow> request_body ev (take k items) = Some body \<and> int (length body) \<le> eo_MaxToolBatchBytes (ee_options ev)"
  by (induction ev items n rule: fit_batch.induct) (auto split: option.splits if_splits)

lemma fit_batch_total:
  assumes "\<And>ws. request_body ev ws \<noteq> None"
    and "request_body ev [w] = Some one" "int (length one) \<le> eo_MaxToolBatchBytes (ee_options ev)"
  shows "\<exists>k body. fit_batch ev (w # ws) (Suc n) = Inr (k, body)"
proof (induction n)
  case 0
  then show ?case using assms(2,3) by simp
next
  case (Suc n)
  then show ?case using assms(1) [of "take (Suc (Suc n)) (w # ws)"] by (auto simp del: take_Suc_Cons)
qed

text \<open>
  The batching loop of tool enrichment ends with batches that cover the pending work: when every request can be
  marshalled and every single item fits the byte bound, it fails for no input, the batches carry the items in order, each
  item exactly once; no batch is empty, larger than the batch size or longer than the byte bound, and the batch keys count up.
\<close>

theorem make_batches_partition:
  assumes size: "0 < eo_ToolBatchSize (ee_options ev)" and marshal: "\<And>ws. request_body ev ws \<noteq> None"
    and fits: "\<And>w. w \<in> set items \<Longrightarrow> \<exists>one. request_body ev [w] = Some one \<and> int (length one) \<le> eo_MaxToolBatchBytes (ee_options ev)"
  shows "\<exists>specs parts. make_batches ev gid ordinal items = Inr specs \<and> concat parts = items \<and> list_all2 (carries ev) specs parts \<and>
    map ebs_BatchKey specs = map (\<lambda>i. ''tool:'' @ six_digits i) [ordinal ..< ordinal + length specs]"
  using fits
proof (induction "length items" arbitrary: items ordinal rule: less_induct)
  case less
  show ?case
  proof (cases items)
    case Nil
    then show ?thesis by (simp add: make_batches.simps)
  next
    case (Cons w ws)
    obtain m where m: "min (nat (eo_ToolBatchSize (ee_options ev))) (length items) = Suc m"
      using size Cons by (cases "min (nat (eo_ToolBatchSize (ee_options ev))) (length items)") auto
    obtain one where "request_body ev [w] = Some one" "int (length one) \<le> eo_MaxToolBatchBytes (ee_options ev)"
      using less.prems [of w] Cons by auto
    from fit_batch_total [OF marshal this, of ws m] obtain k body where k: "fit_batch ev items (Suc m) = Inr (k, body)"
      using Cons by auto
    have ne: "items \<noteq> []" using Cons by simp
    have b: "0 < k" "k \<le> Suc m" using fit_batch_pos [OF k] by simp_all
    then have shorter: "length (drop k items) < length items" and "k \<le> length items" "int k \<le> eo_ToolBatchSize (ee_options ev)"
      using m Cons by auto
    have sound: "request_body ev (take k items) = Some body" "int (length body) \<le> eo_MaxToolBatchBytes (ee_options ev)"
      using fit_batch_sound [OF k] by simp_all
    obtain specs parts where r: "make_batches ev gid (Suc ordinal) (drop k items) = Inr specs" "concat parts = drop k items"
      "list_all2 (carries ev) specs parts" "map ebs_BatchKey specs = map (\<lambda>i. ''tool:'' @ six_digits i) [Suc ordinal ..< Suc ordinal + length specs]"
      using less.hyps [OF shorter less.prems [OF in_set_dropD [where n = k]]] by blast
    have "make_batches ev gid ordinal items = Inr (batch_spec ev gid ordinal body # specs)"
      using ne k r(1) by (subst make_batches.simps) (simp add: m rbind_def del: fit_batch.simps)
    moreover have "carries ev (batch_spec ev gid ordinal body) (take k items)"
      using sound b \<open>k \<le> length items\<close> \<open>int k \<le> eo_ToolBatchSize (ee_options ev)\<close> Cons by (auto simp: carries_def batch_spec_def Let_def)
    moreover have "ebs_BatchKey (batch_spec ev gid ordinal body) = ''tool:'' @ six_digits ordinal" by (simp add: batch_spec_def Let_def)
    ultimately show ?thesis using r
      by (intro exI [of _ "batch_spec ev gid ordinal body # specs"] exI [of _ "take k items # parts"]) (simp add: upt_conv_Cons del: upt_Suc)
  qed
qed

section \<open>A sample coordinator\<close>

definition sample_work :: "string \<Rightarrow> ToolWork" where
  "sample_work name = \<lparr>tw_Tool = \<lparr>tr_MemberKey = ''a/'' @ name, tr_ServerID = ''a'', tr_ToolName = name, tr_SourceFingerprint = [], tr_Contract = []\<rparr>,
     tw_Neighbors = [], tw_NeighborhoodContextFingerprint = []\<rparr>"

definition sample_enrich_lib :: enrich_lib where
  "sample_enrich_lib = \<lparr>el_codec = sample_codec, el_marshal_tool_request = (\<lambda>r. Some (replicate (10 * length (tbr_Items r)) CHR ''x'')),
     el_tool_request = (\<lambda>_. None), el_tool_response = (\<lambda>_. None), el_guidance = (\<lambda>_. None), el_marshal_capability_request = (\<lambda>_. None),
     el_capability_request = (\<lambda>_. None), el_capability_response = (\<lambda>_. None), el_hierarchy = (\<lambda>_. None),
     el_review_response = (\<lambda>s. Some \<lparr>arr_Resolution = s, arr_PreferenceIDs = []\<rparr>)\<rparr>"

definition sample_enrich_env :: enrich_env where
  "sample_enrich_env = \<lparr>ee_lib = sample_enrich_lib, ee_float = exact_lib, ee_sql = sample_q, ee_now = 5, ee_identity = sample_identity,
     ee_ask = (\<lambda>_. Inl ''offline''), ee_options = withDefaults \<lparr>eo_NeighborhoodSize = 0, eo_ToolBatchSize = 3, eo_MaxToolBatchBytes = 25,
       eo_MaxReconciliationTools = 0, eo_MaxReconciliationBytes = 0\<rparr>\<rparr>"

definition review_catalog :: catalog where
  "review_catalog = route_catalog\<lparr>enrichment_batches := [(''r'', \<lparr>eb_GenerationID = ''g'', eb_Kind = BatchAmbiguityReview, eb_BatchKey = ''review'',
     eb_Required = False, eb_RequestFingerprint = [], eb_RequestJSON = ''A'', eb_Accepted = None\<rparr>)]\<rparr>"

text \<open>A preference resolution that names no preference is rejected, and the review batch is untouched.\<close>

lemma review_rejected:
  "snd (SubmitBatch sample_enrich_env ''r'' ''preference'' review_catalog) = Inl (EnrichResponse ''preference resolution without preferences'')"
  by code_simp

theorem rejected_response_changes_nothing_witness:
  "fst (SubmitBatch sample_enrich_env ''r'' ''preference'' review_catalog) = review_catalog"
proof -
  obtain db' where "SubmitBatch sample_enrich_env ''r'' ''preference'' review_catalog = (db', Inl (EnrichResponse ''preference resolution without preferences''))"
    using review_rejected by (cases "SubmitBatch sample_enrich_env ''r'' ''preference'' review_catalog") simp
  with rejected_response_changes_nothing [OF this] show ?thesis by simp
qed

text \<open>Three items of which two fit a request: the loop makes two batches.\<close>

lemma sample_batches: "map_sum id length (make_batches sample_enrich_env ''g'' 0 [sample_work ''x'', sample_work ''y'', sample_work ''z'']) = Inr 2"
  by code_simp

theorem make_batches_partition_witness:
  "\<exists>specs parts. make_batches sample_enrich_env ''g'' 0 [sample_work ''x'', sample_work ''y'', sample_work ''z''] = Inr specs \<and>
     concat parts = [sample_work ''x'', sample_work ''y'', sample_work ''z''] \<and> length parts = 2 \<and> list_all2 (carries sample_enrich_env) specs parts"
proof -
  have "\<exists>specs parts. make_batches sample_enrich_env ''g'' 0 [sample_work ''x'', sample_work ''y'', sample_work ''z''] = Inr specs \<and>
     concat parts = [sample_work ''x'', sample_work ''y'', sample_work ''z''] \<and> list_all2 (carries sample_enrich_env) specs parts \<and>
     map ebs_BatchKey specs = map (\<lambda>i. ''tool:'' @ six_digits i) [0 ..< 0 + length specs]"
    by (rule make_batches_partition) (simp_all add: sample_enrich_env_def sample_enrich_lib_def withDefaults_def)
  then show ?thesis using sample_batches by (fastforce dest: list_all2_lengthD)
qed

end
