(* ===== verification/Indexing.thy ===== *)
theory Indexing
  imports EnrichmentPrepare Lifecycle
begin

text \<open>
  The index service: \<^verbatim>\<open>internal/indexing\<close> (service.go, dirty_reconciliation.go, configure.go, reset.go). It composes
  the lifecycle (sessions to read tools from), the catalog (generations), retrieval (lexical records and embeddings)
  and enrichment (batches for an agent) into the build of an index: refresh, batches, commit.

  The service runs its operations under one mutex, but other goroutines write to the catalog meanwhile (the router marks
  partitions dirty); \<open>ie_during_acquire\<close> and \<open>ie_during_build\<close> are what they have done by the time the sources are
  read and by the time markers are cleared. A reading of \<^verbatim>\<open>CurrentRoutingStateHash\<close> is an argument, one per call.
\<close>

section \<open>State\<close>

datatype index_error =
    IndexFailed enrich_error
  | IndexLife life_error
  | IndexRequired
  | IndexRefreshRequired
  | ManualServerStoppedForIndex string
  | RequiredEnrichmentPending nat
  | IndexContract contract_error
  | IndexProject project_error
  | MissingSnapshot string
  | UnsupportedBatchKind string
  | EncodeResponse

type_synonym routing_reading = "string \<times> bool"
type_synonym snapshots = "(string \<times> ToolSnapshot) list"

record index_service =
  ix_coordinator :: enrich_env
  ix_servers :: ServersConfig

record index_env =
  ie_acquire :: "string \<Rightarrow> env"
  ie_release :: "string \<Rightarrow> env"
  ie_connect :: "ServerEntry \<Rightarrow> connect_result"
  ie_locked :: "string \<Rightarrow> bool"
  ie_rand :: "string option"
  ie_during_acquire :: "catalog \<Rightarrow> catalog"
  ie_during_build :: "catalog \<Rightarrow> catalog"

record EnrichmentKindState =
  eks_Kind :: string
  eks_Required :: bool
  eks_Pending :: nat
  eks_Accepted :: nat

datatype blocker = PendingBatches nat string | DirtyBlocker string string string

text \<open>The texts of \<^verbatim>\<open>next_action\<close>, by what they ask for.\<close>

datatype next_action =
    NoAction | ProcessTools | ProcessCapabilities | ReviewsThenCommit | CommitNow | OptionalReviews | RefreshFirst

record IndexStatus =
  is_RoutingStateHash :: string
  is_ActiveGenerationID :: string
  is_StagingGenerationID :: string
  is_Ready :: bool
  is_PendingRequired :: nat
  is_OpenReviews :: nat
  is_AcceptedRequired :: nat
  is_BatchStates :: "EnrichmentKindState list"
  is_PromotionBlockers :: "blocker list"
  is_NextAction :: next_action

abbreviation ix_sql :: "index_service \<Rightarrow> sqlenv" where "ix_sql ix \<equiv> ee_sql (ix_coordinator ix)"
abbreviation ix_codec :: "index_service \<Rightarrow> codec" where "ix_codec ix \<equiv> ee_codec (ix_coordinator ix)"

text \<open>A call into the catalog, retrieval or enrichment; its error is passed on.\<close>

definition calls_in :: "'a step \<Rightarrow> (index_error, 'a) gstep" where
  "calls_in m db = (case m db of (db', Inl e) \<Rightarrow> (db', Inl (IndexFailed e)) | (db', Inr x) \<Rightarrow> (db', Inr x))"

definition of_catalog :: "(cat_error, 'a) result \<Rightarrow> (index_error, 'a) result" where
  "of_catalog r = (case r of Inl e \<Rightarrow> Inl (IndexFailed (EnrichCatalog e)) | Inr x \<Rightarrow> Inr x)"

definition queries :: "(catalog \<Rightarrow> (index_error, 'a) result) \<Rightarrow> (index_error, 'a) gstep" where
  "queries f db = (db, f db)"

section \<open>Staging and status\<close>

text \<open>No row is None.\<close>

definition stagingForHash :: "sqlenv \<Rightarrow> catalog \<Rightarrow> string \<Rightarrow> (cat_error, (string \<times> Generation) option) result" where
  "stagingForHash q db h = rbind (sql q db ''select staging generation'') (\<lambda>_.
     case rev (sort_key (\<lambda>(i, g). (gen_CreatedAt g, i))
         (filter (\<lambda>(i, g). gen_Status g = GenerationStaging \<and> gen_RoutingStateHash g = h) (generations db))) of
       [] \<Rightarrow> Inr None
     | (gid, _) # _ \<Rightarrow> rbind (Catalog_Generation q db gid) (\<lambda>g. Inr (Some g)))"

definition not_ready :: "routing_reading \<Rightarrow> bool" where
  "not_ready r \<longleftrightarrow> \<not> snd r \<or> fst r = []"

definition currentStaging :: "index_service \<Rightarrow> routing_reading \<Rightarrow> catalog \<Rightarrow> (index_error, string \<times> Generation) result" where
  "currentStaging ix r db = (if not_ready r then Inl IndexRequired
     else rbind (of_catalog (stagingForHash (ix_sql ix) db (fst r))) (\<lambda>s.
       case s of None \<Rightarrow> Inl IndexRefreshRequired | Some g \<Rightarrow> Inr g))"

definition batchKindCounts :: "sqlenv \<Rightarrow> catalog \<Rightarrow> string \<Rightarrow> string \<Rightarrow> (cat_error, nat \<times> nat) result" where
  "batchKindCounts q db gid kind = rbind (sql q db (''count '' @ kind @ '' enrichment batch states'')) (\<lambda>_.
     let n = (\<lambda>a. length (filter (\<lambda>(i, b). eb_GenerationID b = gid \<and> eb_Kind b = kind \<and> (eb_Accepted b \<noteq> None) = a) (enrichment_batches db))) in
     Inr (n False, n True))"

definition statePending :: "EnrichmentKindState list \<Rightarrow> string \<Rightarrow> nat" where
  "statePending states kind = (case find (\<lambda>s. eks_Kind s = kind) states of None \<Rightarrow> 0 | Some s \<Rightarrow> eks_Pending s)"

definition kinds :: "(string \<times> bool) list" where
  "kinds = [(BatchToolEnrichment, True), (BatchCapabilityReconciliation, True), (BatchAmbiguityReview, False)]"

fun kind_states :: "sqlenv \<Rightarrow> catalog \<Rightarrow> string \<Rightarrow> (string \<times> bool) list \<Rightarrow> IndexStatus \<Rightarrow> (cat_error, IndexStatus) result" where
  "kind_states q db gid [] status = Inr status"
| "kind_states q db gid ((kind, required) # ks) status =
     rbind (batchKindCounts q db gid kind) (\<lambda>(pending, accepted).
     let s1 = (if pending \<noteq> 0 \<or> accepted \<noteq> 0
               then status\<lparr>is_BatchStates := is_BatchStates status @ [\<lparr>eks_Kind = kind, eks_Required = required, eks_Pending = pending, eks_Accepted = accepted\<rparr>]\<rparr>
               else status);
         s2 = (if is_StagingGenerationID s1 \<noteq> [] \<and> required \<and> pending \<noteq> 0
               then s1\<lparr>is_PromotionBlockers := is_PromotionBlockers s1 @ [PendingBatches pending kind]\<rparr> else s1) in
     kind_states q db gid ks s2)"

definition next_action_of :: "IndexStatus \<Rightarrow> next_action" where
  "next_action_of s = (let pending = statePending (is_BatchStates s) in
     if is_StagingGenerationID s \<noteq> [] then
       (if 0 < pending BatchToolEnrichment then ProcessTools
        else if 0 < pending BatchCapabilityReconciliation then ProcessCapabilities
        else if 0 < pending BatchAmbiguityReview then ReviewsThenCommit else CommitNow)
     else if 0 < is_OpenReviews s then OptionalReviews else is_NextAction s)"

definition applyDirtyStatus :: "sqlenv \<Rightarrow> catalog \<Rightarrow> IndexStatus \<Rightarrow> (cat_error, IndexStatus) result" where
  "applyDirtyStatus q db status = rbind (DirtyPartitions q db) (\<lambda>partitions.
     if partitions = [] then Inr status
     else Inr (status\<lparr>is_Ready := False,
       is_PromotionBlockers := is_PromotionBlockers status @ map (\<lambda>(k, d). DirtyBlocker k (dp_Reason d) (dp_ObservedFingerprint d)) partitions,
       is_NextAction := RefreshFirst\<rparr>))"

definition empty_status :: "string \<Rightarrow> IndexStatus" where
  "empty_status h = \<lparr>is_RoutingStateHash = h, is_ActiveGenerationID = [], is_StagingGenerationID = [], is_Ready = False, is_PendingRequired = 0,
     is_OpenReviews = 0, is_AcceptedRequired = 0, is_BatchStates = [], is_PromotionBlockers = [], is_NextAction = NoAction\<rparr>"

definition active_if_any :: "sqlenv \<Rightarrow> catalog \<Rightarrow> (cat_error, (string \<times> Generation) option) result" where
  "active_if_any q db = (case ActiveGeneration q db of Inr g \<Rightarrow> Inr (Some g)
     | Inl e \<Rightarrow> if e = ErrGenerationNotFound then Inr None else Inl e)"

definition with_counts :: "sqlenv \<Rightarrow> catalog \<Rightarrow> string \<Rightarrow> IndexStatus \<Rightarrow> (cat_error, IndexStatus) result" where
  "with_counts q db gid status = rbind (Catalog_EnrichmentBatchCounts q db gid) (\<lambda>counts.
     rbind (kind_states q db gid kinds (status\<lparr>is_PendingRequired := EnrichmentBatchCounts.PendingRequired counts,
       is_OpenReviews := PendingOptional counts, is_AcceptedRequired := AcceptedRequired counts\<rparr>)) (\<lambda>s.
     Inr (s\<lparr>is_NextAction := next_action_of s\<rparr>)))"

definition counted_generation :: "string \<Rightarrow> (string \<times> Generation) option \<Rightarrow> (string \<times> Generation) option \<Rightarrow> string" where
  "counted_generation h active staging = (case staging of Some (gid, _) \<Rightarrow> gid
     | None \<Rightarrow> (case active of Some (gid, g) \<Rightarrow> if gen_RoutingStateHash g = h then gid else [] | None \<Rightarrow> []))"

definition Index_Status :: "index_service \<Rightarrow> routing_reading \<Rightarrow> catalog \<Rightarrow> (index_error, IndexStatus) result" where
  "Index_Status ix r db = (let h = fst r; q = ix_sql ix in
     if not_ready r then Inr (empty_status h)
     else of_catalog (
       rbind (active_if_any q db) (\<lambda>active.
       rbind (stagingForHash q db h) (\<lambda>staging.
       let s1 = (case active of None \<Rightarrow> empty_status h
             | Some (gid, g) \<Rightarrow> (empty_status h)\<lparr>is_ActiveGenerationID := gid, is_Ready := gen_RoutingStateHash g = h\<rparr>);
           s2 = (case staging of None \<Rightarrow> s1 | Some (gid, g) \<Rightarrow> s1\<lparr>is_StagingGenerationID := gid\<rparr>);
           counted = counted_generation h active staging in
       rbind (if counted = [] then Inr s2 else with_counts q db counted s2) (applyDirtyStatus q db)))))"

section \<open>Reading the sources\<close>

text \<open>Every enabled server is leased, its initial tools are copied and the lease is released at once.\<close>

fun acquireIndexSnapshots :: "index_env \<Rightarrow> ServerEntry list \<Rightarrow> snapshots \<Rightarrow> Service \<Rightarrow> Service \<times> (index_error, snapshots) result" where
  "acquireIndexSnapshots ie [] snaps sv = (sv, Inr snaps)"
| "acquireIndexSnapshots ie (e # es) snaps sv = (let sid = se_ID e in
     if se_Mode e = ModeDisabled then acquireIndexSnapshots ie es snaps sv
     else case Acquire (ie_acquire ie sid) (ie_connect ie) (ie_locked ie sid) sv sid of
       (sv1, Inl err) \<Rightarrow> (sv1, Inl (if err = ErrManualServerStopped then ManualServerStoppedForIndex sid else IndexLife err))
     | (sv1, Inr l) \<Rightarrow> acquireIndexSnapshots ie es (alist_put sid (en_initial (ie_acquire ie sid) (ul_session l)) snaps)
           (fst (Release (ie_release ie sid) sv1 l)))"

definition exposed_tools :: "ServerEntry \<Rightarrow> ToolSnapshot \<Rightarrow> mcp_tool list" where
  "exposed_tools e snapshot = filter (\<lambda>t. ToolExposed e (tool_Name t)) (ts_Tools snapshot)"

fun tool_fingerprints :: "codec \<Rightarrow> string \<Rightarrow> mcp_tool list \<Rightarrow> (string \<times> string) list \<Rightarrow> (index_error, (string \<times> string) list) result" where
  "tool_fingerprints cd sid [] m = Inr m"
| "tool_fingerprints cd sid (t # ts) m = (case FingerprintTool cd (Some t) of
     Inl e \<Rightarrow> Inl (IndexContract e)
   | Inr (fp, _) \<Rightarrow> tool_fingerprints cd sid ts (alist_put (MemberKey sid (tool_Name t)) fp m))"

fun currentSourceFingerprints :: "codec \<Rightarrow> snapshots \<Rightarrow> ServerEntry list \<Rightarrow> (string \<times> string) list \<Rightarrow> (index_error, (string \<times> string) list) result" where
  "currentSourceFingerprints cd snaps [] m = Inr m"
| "currentSourceFingerprints cd snaps (e # es) m =
     (if se_Mode e = ModeDisabled then currentSourceFingerprints cd snaps es m
      else case map_of snaps (se_ID e) of
        None \<Rightarrow> Inl (MissingSnapshot (se_ID e))
      | Some snapshot \<Rightarrow> rbind (tool_fingerprints cd (se_ID e) (exposed_tools e snapshot) m) (currentSourceFingerprints cd snaps es))"

definition stored_fingerprints :: "SourceToolRecord list \<Rightarrow> (string \<times> string) list" where
  "stored_fingerprints existing = fold (\<lambda>s m. alist_put (member_of s) (rec_SourceFingerprint s) m) existing []"

text \<open>A missing key reads as the empty string.\<close>

definition fingerprint_at :: "(string \<times> string) list \<Rightarrow> string \<Rightarrow> string" where
  "fingerprint_at m k = (case map_of m k of None \<Rightarrow> [] | Some f \<Rightarrow> f)"

definition stagingSourcesChanged :: "index_service \<Rightarrow> string \<Rightarrow> snapshots \<Rightarrow> catalog \<Rightarrow> (index_error, bool) result" where
  "stagingSourcesChanged ix gid snaps db =
     rbind (of_catalog (SourceTools (ix_codec ix) (ix_sql ix) db gid)) (\<lambda>existing.
     if existing = [] then Inr False
     else let stored = stored_fingerprints existing in
       rbind (currentSourceFingerprints (ix_codec ix) snaps (sc_Servers (ix_servers ix)) []) (\<lambda>current.
       Inr (length stored \<noteq> length current \<or> list_ex (\<lambda>(k, f). fingerprint_at current k \<noteq> f) stored)))"

section \<open>Building the base index\<close>

definition ensure_embedding :: "index_service \<Rightarrow> string \<Rightarrow> string \<Rightarrow> string \<Rightarrow> Projection \<Rightarrow> unit step" where
  "ensure_embedding ix gid role member projection db = (let ev = ix_coordinator ix in
     case EnsureEmbedding (ee_codec ev) (ee_float ev) (ee_sql ev) (ee_now ev) (ee_identity ev) (ee_ask ev) gid role member projection db of
       (db', Inl e, _) \<Rightarrow> (db', Inl (EnrichRetrieve e)) | (db', Inr key, _) \<Rightarrow> (db', Inr ()))"

definition require_lexical :: "index_service \<Rightarrow> string \<Rightarrow> string \<Rightarrow> Projection \<Rightarrow> unit step" where
  "require_lexical ix gid member projection db = (case RequireLexical (ix_codec ix) (ix_sql ix) gid member projection db of
     Inl e \<Rightarrow> (db, Inl (EnrichRetrieve e)) | Inr db' \<Rightarrow> (db', Inr ()))"

definition store_lexical :: "index_service \<Rightarrow> string \<Rightarrow> string \<Rightarrow> Projection \<Rightarrow> unit step" where
  "store_lexical ix gid member projection db =
     (case StoreLexical (ix_codec ix) (ix_sql ix) (ee_now (ix_coordinator ix)) gid member projection db of
        (db', Inl e) \<Rightarrow> (db', Inl (EnrichRetrieve e)) | (db', Inr key) \<Rightarrow> (db', Inr ()))"

definition index_tool :: "index_service \<Rightarrow> string \<Rightarrow> string \<Rightarrow> mcp_tool \<Rightarrow> (index_error, unit) gstep" where
  "index_tool ix gid sid tool = (let cd = ix_codec ix; q = ix_sql ix; member = MemberKey sid (tool_Name tool) in
     step_bind (step_result (case FingerprintTool cd (Some tool) of Inl e \<Rightarrow> Inl (IndexContract e) | Inr (fp, _) \<Rightarrow> Inr fp)) (\<lambda>fingerprint.
     step_bind (calls_in (changes (RequireSourceTool q gid sid (tool_Name tool) fingerprint))) (\<lambda>_.
     step_bind (calls_in (writes (PutSourceTool cd q gid sid (Some tool) True))) (\<lambda>_.
     step_bind (step_result (case ProjectTool cd (Some tool) of Inl e \<Rightarrow> Inl (IndexProject e) | Inr p \<Rightarrow> Inr p)) (\<lambda>projections.
     step_bind (calls_in (require_lexical ix gid member (tp_Lexical projections))) (\<lambda>_.
     step_bind (calls_in (store_lexical ix gid member (tp_Lexical projections))) (\<lambda>_.
     step_bind (calls_in (ensure_embedding ix gid RoleSourceDescriptionVector member (tp_SourceDescription projections))) (\<lambda>_.
     calls_in (ensure_embedding ix gid RoleInputSchemaVector member (tp_InputSchema projections))))))))))"

definition index_server :: "index_service \<Rightarrow> string \<Rightarrow> snapshots \<Rightarrow> ServerEntry \<Rightarrow> (index_error, unit) gstep" where
  "index_server ix gid snaps e = (if se_Mode e = ModeDisabled then step_return () else
     step_bind (step_some (MissingSnapshot (se_ID e)) (map_of snaps (se_ID e))) (\<lambda>snapshot.
     step_bind (calls_in (writes (PutSourceServer (ix_codec ix) (ix_sql ix) gid e))) (\<lambda>_.
     step_each (index_tool ix gid (se_ID e)) (exposed_tools e snapshot))))"

definition populateBaseIndexFromSnapshots :: "index_service \<Rightarrow> string \<Rightarrow> snapshots \<Rightarrow> (index_error, unit) gstep" where
  "populateBaseIndexFromSnapshots ix gid snaps = step_each (index_server ix gid snaps) (sc_Servers (ix_servers ix))"

section \<open>Refresh\<close>

definition configured_servers :: "ServerEntry list \<Rightarrow> (string \<times> ServerEntry) list" where
  "configured_servers es = fold (\<lambda>e m. alist_put (se_ID e) e m) es []"

text \<open>A marker of a server that should have been read but was not stays; every other server marker is cleared if unchanged.\<close>

definition clears :: "(string \<times> ServerEntry) list \<Rightarrow> snapshots \<Rightarrow> string \<Rightarrow> bool" where
  "clears configured snaps key \<longleftrightarrow> HasPrefix key ''server:'' \<and> (let sid = TrimPrefix key ''server:'' in
     case map_of configured sid of None \<Rightarrow> True
     | Some e \<Rightarrow> se_Mode e = ModeDisabled \<or> map_of snaps sid \<noteq> None)"

definition reconcileObservedDirtyPartitions :: "index_service \<Rightarrow> (string \<times> DirtyPartition) list \<Rightarrow> snapshots \<Rightarrow> unit step" where
  "reconcileObservedDirtyPartitions ix observed snaps = (let configured = configured_servers (sc_Servers (ix_servers ix)) in
     step_each (\<lambda>(key, d). if clears configured snaps key
       then step_bind (writes (ClearDirtyIfUnchanged (ix_sql ix) key d)) (\<lambda>_. step_return ()) else step_return ()) observed)"

definition create_staging :: "index_service \<Rightarrow> index_env \<Rightarrow> string \<Rightarrow> string step" where
  "create_staging ix ie h = step_bind (writes (CreateStaging (ix_sql ix) (ie_rand ie) (ee_now (ix_coordinator ix))
     \<lparr>spec_ID = [], spec_RoutingStateHash = h\<rparr>)) (\<lambda>(gid, g). step_return gid)"

definition refresh_generation :: "index_service \<Rightarrow> index_env \<Rightarrow> string \<Rightarrow> snapshots \<Rightarrow> (index_error, string) gstep" where
  "refresh_generation ix ie h snaps =
     step_bind (calls_in (reads (\<lambda>db. stagingForHash (ix_sql ix) db h))) (\<lambda>staging.
     case staging of None \<Rightarrow> calls_in (create_staging ix ie h)
     | Some (gid, g) \<Rightarrow>
         step_bind (queries (stagingSourcesChanged ix gid snaps)) (\<lambda>changed.
         if \<not> changed then step_return gid
         else step_bind (calls_in (changes (SupersedeStaging (ix_sql ix) gid))) (\<lambda>_. calls_in (create_staging ix ie h))))"

definition refresh_begin :: "index_service \<Rightarrow> string \<Rightarrow> (index_error, (string \<times> DirtyPartition) list) gstep" where
  "refresh_begin ix h = step_bind (calls_in (writes (ReconcileStaging (ix_sql ix) h))) (\<lambda>_. calls_in (reads (DirtyPartitions (ix_sql ix))))"

definition refresh_build :: "index_service \<Rightarrow> index_env \<Rightarrow> string \<Rightarrow> snapshots \<Rightarrow> (index_error, unit) gstep" where
  "refresh_build ix ie h snaps =
     step_bind (refresh_generation ix ie h snaps) (\<lambda>gid.
     step_bind (populateBaseIndexFromSnapshots ix gid snaps) (\<lambda>_.
     step_bind (calls_in (PrepareToolEnrichment (ix_coordinator ix) gid)) (\<lambda>_. step_return ())))"

definition refreshLocked :: "index_service \<Rightarrow> index_env \<Rightarrow> string \<Rightarrow> routing_reading \<Rightarrow> catalog \<times> Service \<Rightarrow>
    (catalog \<times> Service) \<times> (index_error, IndexStatus) result" where
  "refreshLocked ix ie h later w = (case w of (db, sv) \<Rightarrow>
     case refresh_begin ix h db of
       (db1, Inl e) \<Rightarrow> ((db1, sv), Inl e)
     | (db1, Inr dirtyBefore) \<Rightarrow>
     (case acquireIndexSnapshots ie (sc_Servers (ix_servers ix)) [] sv of
       (sv1, Inl e) \<Rightarrow> ((ie_during_acquire ie db1, sv1), Inl e)
     | (sv1, Inr snaps) \<Rightarrow>
     (case refresh_build ix ie h snaps (ie_during_acquire ie db1) of
       (db2, Inl e) \<Rightarrow> ((db2, sv1), Inl e)
     | (db2, Inr _) \<Rightarrow>
     (case calls_in (reconcileObservedDirtyPartitions ix dirtyBefore snaps) (ie_during_build ie db2) of
       (db3, Inl e) \<Rightarrow> ((db3, sv1), Inl e)
     | (db3, Inr _) \<Rightarrow> ((db3, sv1), Index_Status ix later db3)))))"

definition Refresh :: "index_service \<Rightarrow> index_env \<Rightarrow> routing_reading \<Rightarrow> routing_reading \<Rightarrow> catalog \<times> Service \<Rightarrow>
    (catalog \<times> Service) \<times> (index_error, IndexStatus) result" where
  "Refresh ix ie r later w = (if not_ready r then (w, Inl IndexRequired) else refreshLocked ix ie (fst r) later w)"

section \<open>Batches and commit\<close>

definition batch_generation :: "index_service \<Rightarrow> routing_reading \<Rightarrow> routing_reading \<Rightarrow> string \<Rightarrow> catalog \<Rightarrow> (index_error, string \<times> Generation) result" where
  "batch_generation ix r r' kind db = (case currentStaging ix r db of
     Inr g \<Rightarrow> Inr g
   | Inl e \<Rightarrow> if kind \<noteq> BatchAmbiguityReview then Inl e
       else (case ActiveGeneration (ix_sql ix) db of Inl _ \<Rightarrow> Inl e
         | Inr (gid, g) \<Rightarrow> if snd r' \<and> gen_RoutingStateHash g = fst r' then Inr (gid, g) else Inl e))"

definition prepare_kind :: "index_service \<Rightarrow> string \<times> Generation \<Rightarrow> string \<Rightarrow> (index_error, unit) gstep" where
  "prepare_kind ix p kind = (case p of (gid, g) \<Rightarrow>
     let staging = step_require (gen_Status g = GenerationStaging) (IndexFailed (EnrichCatalog ErrGenerationNotStaging)) in
     if kind = BatchToolEnrichment
     then step_bind staging (\<lambda>_. step_bind (calls_in (PrepareToolEnrichment (ix_coordinator ix) gid)) (\<lambda>_. step_return ()))
     else if kind = BatchCapabilityReconciliation
     then step_bind staging (\<lambda>_. step_bind (calls_in (PrepareCapabilityReconciliation (ix_coordinator ix) gid)) (\<lambda>_. step_return ()))
     else if kind = BatchAmbiguityReview then step_return ()
     else step_fail (UnsupportedBatchKind kind))"

definition Index_GetBatch :: "index_service \<Rightarrow> routing_reading \<Rightarrow> routing_reading \<Rightarrow> string \<Rightarrow> int \<Rightarrow> (index_error, (string \<times> EnrichmentBatch) list) gstep" where
  "Index_GetBatch ix r r' kind limit =
     step_bind (queries (batch_generation ix r r' kind)) (\<lambda>p.
     step_bind (prepare_kind ix p kind) (\<lambda>_.
     calls_in (reads (\<lambda>db. PendingEnrichmentBatches (ix_sql ix) db (fst p) kind (if limit \<le> 0 then 1 else limit)))))"

text \<open>\<open>body\<close> is the response marshalled back to JSON.\<close>

definition Index_SubmitBatch :: "index_service \<Rightarrow> string \<Rightarrow> string option \<Rightarrow> (index_error, SubmitResult) gstep" where
  "Index_SubmitBatch ix bid body =
     step_bind (step_some EncodeResponse body) (\<lambda>response.
     step_bind (calls_in (SubmitBatch (ix_coordinator ix) bid response)) (\<lambda>res.
     let gid = eb_GenerationID (sbr_Batch res) in
     step_bind (if eb_Kind (sbr_Batch res) \<noteq> BatchToolEnrichment then step_return ()
       else step_bind (calls_in (reads (\<lambda>db. PendingEnrichmentBatches (ix_sql ix) db gid BatchToolEnrichment 1))) (\<lambda>pending.
         if pending \<noteq> [] then step_return ()
         else step_bind (calls_in (PrepareCapabilityReconciliation (ix_coordinator ix) gid)) (\<lambda>_. step_return ()))) (\<lambda>_.
     step_return res)))"

text \<open>The routing state is read three times: for the staging generation, before promoting and for the status.\<close>

definition Commit :: "index_service \<Rightarrow> routing_reading \<Rightarrow> routing_reading \<Rightarrow> routing_reading \<Rightarrow> (index_error, string \<times> IndexStatus) gstep" where
  "Commit ix r1 r2 r3 = (let ev = ix_coordinator ix in
     step_bind (queries (currentStaging ix r1)) (\<lambda>(gid, g).
     step_bind (calls_in (PrepareCapabilityReconciliation ev gid)) (\<lambda>_.
     step_bind (calls_in (batch_counts ev gid)) (\<lambda>counts.
     step_bind (step_require (EnrichmentBatchCounts.PendingRequired counts = 0) (RequiredEnrichmentPending (EnrichmentBatchCounts.PendingRequired counts))) (\<lambda>_.
     step_bind (step_require (\<not> not_ready r2) IndexRequired) (\<lambda>_.
     step_bind (calls_in (changes (Promote (ix_codec ix) (ix_sql ix) (ee_now ev) gid (fst r2)))) (\<lambda>_.
     step_bind (queries (Index_Status ix r3)) (\<lambda>status.
     step_return (gid, status)))))))))"

section \<open>Configuration and reset\<close>

definition SetServers :: "netlib \<Rightarrow> ServersConfig \<Rightarrow> index_service \<Rightarrow> index_service \<times> config_error option" where
  "SetServers nl servers ix = (case ValidateServers nl servers of Some e \<Rightarrow> (ix, Some e)
     | None \<Rightarrow> (ix\<lparr>ix_servers := servers\<rparr>, None))"

definition Index_Clear :: "index_service \<Rightarrow> catalog \<Rightarrow> catalog \<times> (index_error, unit) result" where
  "Index_Clear ix = calls_in (changes (ClearIndex (ix_sql ix)))"

end
