(* ===== verification/IndexingFacts.thy ===== *)
theory IndexingFacts
  imports Indexing EnrichmentRun LifecycleRun CatalogContent
begin

text \<open>
  The index service over the components it composes: it acts on the catalog through catalog operations, what it commits is
  what discovery and the router accept, its status tells the truth about that gate, an invalidation that arrives during a
  refresh survives it, accepted work is kept while the sources are the same, and no lease is left behind.
\<close>

section \<open>The catalog\<close>

lemma acts_calls_in [acts_intros]: "acts cd m \<Longrightarrow> acts cd (calls_in m)"
  by (auto simp: acts_def calls_in_def split: prod.split sum.split) (metis fst_conv)+

lemma acts_queries [acts_intros]: "acts cd (queries f)"
  by (simp add: acts_def queries_def)

lemma acts_index_catalog [acts_intros]:
  "acts cd (changes (RequireSourceTool q gid sid name fp))" "acts cd (writes (PutSourceTool cd q gid sid t c))"
  "acts cd (writes (PutSourceServer cd q gid e))" "acts cd (writes (ReconcileStaging q h))"
  "acts cd (changes (SupersedeStaging q gid))" "acts cd (writes (CreateStaging q rand now spec))"
  "acts cd (writes (ClearDirtyIfUnchanged q key d))" "acts cd (changes (Promote cd q now gid h))"
  by (auto intro!: acts_changes acts_writes intro: cat_step.intros)

lemma acts_ensure [acts_intros]: "acts (ix_codec ix) (ensure_embedding ix gid role member projection)"
proof -
  let ?ev = "ix_coordinator ix"
  have "(cat_step (ee_codec ?ev))\<^sup>*\<^sup>* db (fst (EnsureEmbedding (ee_codec ?ev) (ee_float ?ev) (ee_sql ?ev) (ee_now ?ev) (ee_identity ?ev) (ee_ask ?ev)
      gid role member projection db))" (is "?R db (fst (?E db))") for db
  proof (cases "RequireEmbedding (ee_codec ?ev) (ee_sql ?ev) gid role member (ee_identity ?ev) projection db")
    case (Inl e)
    then show ?thesis by (simp add: EnsureEmbedding_def)
  next
    case (Inr db1)
    note first = step_require_embedding [OF Inr]
    have "?R db1 (fst (?E db))"
      using steps_fulfil [of "ee_codec ?ev" db1 "ee_sql ?ev" gid] steps_store_embedding [of "ee_codec ?ev" db1]
      by (auto simp: EnsureEmbedding_def Inr split: sum.split option.split prod.split list.split) (metis fst_conv)+
    with first show ?thesis by (rule converse_rtranclp_into_rtranclp)
  qed
  then show ?thesis by (auto simp: acts_def ensure_embedding_def Let_def split: prod.split sum.split) (metis fst_conv)+
qed

lemma acts_require_lexical [acts_intros]: "acts (ix_codec ix) (require_lexical ix gid member projection)"
  by (auto simp: acts_def require_lexical_def RequireLexical_def lift_catalog_def split: sum.split
      elim!: rbind_InrE intro!: r_into_rtranclp intro: cat_step.require_artifact split: sum.splits)

lemma acts_store_lexical [acts_intros]: "acts (ix_codec ix) (store_lexical ix gid member projection)"
proof -
  have "(cat_step (ix_codec ix))\<^sup>*\<^sup>* db (fst (StoreLexical (ix_codec ix) q now gid member projection db))" for q now db
    unfolding StoreLexical_def Let_def
    by (auto split: sum.split prod.split dest!: cat_step.put_artifact cat_step.lexical) (meson converse_rtranclp_into_rtranclp steps_fulfil)
  then show ?thesis by (auto simp: acts_def store_lexical_def split: prod.split sum.split) (metis fst_conv)+
qed

lemma acts_index_tool [acts_intros]: "acts (ix_codec ix) (index_tool ix gid sid tool)"
  unfolding index_tool_def Let_def by (intro acts_intros)

lemma acts_populate [acts_intros]: "acts (ix_codec ix) (populateBaseIndexFromSnapshots ix gid snaps)"
  unfolding populateBaseIndexFromSnapshots_def index_server_def by (intro acts_intros)

lemma acts_dirty [acts_intros]: "acts (ix_codec ix) (reconcileObservedDirtyPartitions ix observed snaps)"
  unfolding reconcileObservedDirtyPartitions_def Let_def by (intro acts_intros)

lemma acts_prepare_both [acts_intros]:
  "acts (ee_codec ev) (PrepareToolEnrichment ev gid)" "acts (ee_codec ev) (PrepareCapabilityReconciliation ev gid)"
  by (unfold PrepareToolEnrichment_def PrepareCapabilityReconciliation_def require_staging_def batch_counts_def reuse_hierarchy_def Let_def)
    (intro acts_intros)+

lemma acts_generation [acts_intros]: "acts (ix_codec ix) (refresh_generation ix ie h snaps)"
  unfolding refresh_generation_def create_staging_def by (intro acts_intros)

lemma acts_begin: "acts (ix_codec ix) (refresh_begin ix h)"
  unfolding refresh_begin_def by (intro acts_intros)

lemma acts_build: "acts (ix_codec ix) (refresh_build ix ie h snaps)"
  unfolding refresh_build_def by (intro acts_intros)

lemma acts_batches [acts_intros]: "acts (ee_codec ev) (batch_counts ev gid)"
  unfolding batch_counts_def by (intro acts_intros)

lemma acts_get_batch: "acts (ix_codec ix) (Index_GetBatch ix r r' kind limit)"
  unfolding Index_GetBatch_def prepare_kind_def Let_def by (intro acts_intros)

lemma acts_submit_index: "acts (ix_codec ix) (Index_SubmitBatch ix bid body)"
  unfolding Index_SubmitBatch_def Let_def by (intro acts_intros)

lemma acts_commit: "acts (ix_codec ix) (Commit ix r1 r2 r3)"
  unfolding Commit_def Let_def by (intro acts_intros)

lemma actsD: "acts cd m \<Longrightarrow> m db = (db', r) \<Longrightarrow> (cat_step cd)\<^sup>*\<^sup>* db db'"
  unfolding acts_def by (metis fst_conv)

text \<open>
  The index service acts on the catalog through its operations only: whatever a refresh, a request for a batch, a submission
  and a commit do, on success and on every failure half-way, is a sequence of catalog operations, when what the other
  goroutines do to the catalog during a refresh is one. So the guarantees of the catalog hold through indexing.
\<close>

lemma indexing_refines_catalog:
  assumes "\<And>x. (cat_step (ix_codec ix))\<^sup>*\<^sup>* x (ie_during_acquire ie x)" "\<And>x. (cat_step (ix_codec ix))\<^sup>*\<^sup>* x (ie_during_build ie x)"
  shows "(cat_step (ix_codec ix))\<^sup>*\<^sup>* db (fst (fst (Refresh ix ie r later (db, sv)))) \<and>
    (cat_step (ix_codec ix))\<^sup>*\<^sup>* db (fst (Index_GetBatch ix r r' kind limit db)) \<and>
    (cat_step (ix_codec ix))\<^sup>*\<^sup>* db (fst (Index_SubmitBatch ix bid body db)) \<and>
    (cat_step (ix_codec ix))\<^sup>*\<^sup>* db (fst (Commit ix r r' later db))"
proof -
  have "(cat_step (ix_codec ix))\<^sup>*\<^sup>* db (fst (fst (refreshLocked ix ie (fst r) later (db, sv))))"
    unfolding refreshLocked_def
    using assms actsD [OF acts_begin] actsD [OF acts_build] actsD [OF acts_calls_in [OF acts_dirty]]
    by (auto split: prod.split sum.split) (meson rtranclp_trans)+
  then show ?thesis using acts_get_batch acts_submit_index acts_commit
    by (auto simp: Refresh_def acts_def)
qed

section \<open>Commit\<close>

lemma run_steps: "(cat_step cd)\<^sup>*\<^sup>* db db' \<Longrightarrow> cat_run cd db \<Longrightarrow> cat_run cd db'"
  by (induction rule: rtranclp_induct) (auto intro: cat_run.step)

lemma calls_in_Inr: "calls_in m db = (db', Inr x) \<longleftrightarrow> m db = (db', Inr x)"
  by (auto simp: calls_in_def split: prod.splits sum.splits)

lemma changes_Inr: "changes f db = (db', Inr x) \<longleftrightarrow> f db = Inr db'"
  by (auto simp: changes_def split: sum.splits)

lemma queries_Inr: "queries f db = (db', Inr x) \<longleftrightarrow> db' = db \<and> f db = Inr x"
  by (auto simp: queries_def)

lemma batch_counts_Inr:
  "batch_counts ev gid db = (db', Inr c) \<Longrightarrow> db' = db \<and> EnrichmentBatchCounts.PendingRequired c =
     length (filter (\<lambda>(i, b). eb_GenerationID b = gid \<and> eb_Required b \<and> eb_Accepted b = None) (enrichment_batches db))"
  by (auto simp: batch_counts_def reads_def Catalog_EnrichmentBatchCounts_def Let_def rbind_def simp del: not_None_eq split: sum.splits)

lemma Commit_steps:
  assumes "Commit ix r1 r2 r3 db = (db', Inr (gid, status))"
  obtains db1 g where "currentStaging ix r1 db = Inr (gid, g)" "(cat_step (ix_codec ix))\<^sup>*\<^sup>* db db1"
    "\<not> list_ex (\<lambda>(i, b). eb_GenerationID b = gid \<and> eb_Required b \<and> eb_Accepted b = None) (enrichment_batches db1)"
    "\<not> not_ready r2" "Promote (ix_codec ix) (ix_sql ix) (ee_now (ix_coordinator ix)) gid (fst r2) db1 = Inr db'" "Index_Status ix r3 db' = Inr status"
proof -
  note pass = calls_in_Inr changes_Inr queries_Inr require_Inr
  from assms obtain g db1 db2 c u where s: "currentStaging ix r1 db = Inr (gid, g)"
    "PrepareCapabilityReconciliation (ix_coordinator ix) gid db = (db1, Inr c)"
    "batch_counts (ix_coordinator ix) gid db1 = (db2, Inr u)" "EnrichmentBatchCounts.PendingRequired u = 0" "\<not> not_ready r2"
    "Promote (ix_codec ix) (ix_sql ix) (ee_now (ix_coordinator ix)) gid (fst r2) db2 = Inr db'" "Index_Status ix r3 db' = Inr status"
    unfolding Commit_def Let_def
    by (elim step_bind_InrE) (auto simp: pass step_return_def elim!: step_bind_InrE)
  have "(cat_step (ix_codec ix))\<^sup>*\<^sup>* db db1" by (rule actsD [OF acts_prepare_both(2) s(2)])
  moreover have "\<not> list_ex (\<lambda>(i, b). eb_GenerationID b = gid \<and> eb_Required b \<and> eb_Accepted b = None) (enrichment_batches db1)"
    using batch_counts_Inr [OF s(3)] s(4) by (auto simp: list_ex_iff filter_empty_conv)
  ultimately show thesis using s batch_counts_Inr [OF s(3)] by (intro that) simp_all
qed

section \<open>Status\<close>

lemma stagingForHash_total:
  assumes "healthy q" "db_open db"
  shows "\<exists>s. stagingForHash q db h = Inr s"
proof (cases "rev (sort_key (\<lambda>(i, g). (gen_CreatedAt g, i))
    (filter (\<lambda>(i, g). gen_Status g = GenerationStaging \<and> gen_RoutingStateHash g = h) (generations db)))")
  case Nil
  then show ?thesis using assms by (simp add: stagingForHash_def rbind_def)
next
  case (Cons p rest)
  have "p \<in> set (rev (sort_key (\<lambda>(i, g). (gen_CreatedAt g, i))
    (filter (\<lambda>(i, g). gen_Status g = GenerationStaging \<and> gen_RoutingStateHash g = h) (generations db))))" unfolding Cons by simp
  then obtain g where "map_of (generations db) (fst p) = Some g"
    by (cases "map_of (generations db) (fst p)") (auto simp: map_of_eq_None_iff)
  then show ?thesis using assms Cons by (cases p) (simp add: stagingForHash_def Catalog_Generation_def rbind_def)
qed

lemma kind_states_total:
  assumes "healthy q" "db_open db"
  shows "\<exists>s. kind_states q db gid ks status = Inr s \<and> is_Ready s = is_Ready status \<and> is_ActiveGenerationID s = is_ActiveGenerationID status"
proof (induction ks arbitrary: status)
  case (Cons k ks)
  obtain kind required where k: "k = (kind, required)" by (cases k)
  obtain pending accepted where c: "batchKindCounts q db gid kind = Inr (pending, accepted)"
    using assms by (simp add: batchKindCounts_def rbind_def Let_def)
  show ?case unfolding k kind_states.simps c Let_def rbind_Inr prod.case
    by (rule exE [OF Cons.IH]) (erule conjE, rule exI, intro conjI, assumption, simp_all)
qed simp

lemma with_counts_total:
  assumes "healthy q" "db_open db"
  shows "\<exists>s. with_counts q db gid status = Inr s \<and> is_Ready s = is_Ready status \<and> is_ActiveGenerationID s = is_ActiveGenerationID status"
proof -
  obtain c where c: "Catalog_EnrichmentBatchCounts q db gid = Inr c"
    using assms by (simp add: Catalog_EnrichmentBatchCounts_def guard_def rbind_def Let_def)
  let ?s = "status\<lparr>is_PendingRequired := EnrichmentBatchCounts.PendingRequired c, is_OpenReviews := PendingOptional c, is_AcceptedRequired := AcceptedRequired c\<rparr>"
  obtain s where "kind_states q db gid kinds ?s = Inr s" "is_Ready s = is_Ready ?s" "is_ActiveGenerationID s = is_ActiveGenerationID ?s"
    using kind_states_total [OF assms] by blast
  then show ?thesis by (simp add: with_counts_def c rbind_Inr)
qed

lemma sort_key_Nil: "sort_key f xs = [] \<longleftrightarrow> xs = []"
  by (metis set_empty set_sort)

lemma applyDirtyStatus_total:
  assumes "healthy q" "db_open db"
  shows "\<exists>s. applyDirtyStatus q db status = Inr s \<and> is_Ready s = (is_Ready status \<and> dirty_partitions db = []) \<and>
    is_ActiveGenerationID s = is_ActiveGenerationID status"
  using assms by (simp add: applyDirtyStatus_def DirtyPartitions_def rbind_Inr sort_key_Nil)

lemma Status_from_active:
  assumes q: "healthy (ix_sql ix)" "db_open db" and r: "\<not> not_ready r" and a: "active_if_any (ix_sql ix) db = Inr active"
  shows "\<exists>s. Index_Status ix r db = Inr s \<and>
    is_Ready s = (dirty_partitions db = [] \<and> (\<exists>gid g. active = Some (gid, g) \<and> gen_RoutingStateHash g = fst r)) \<and>
    is_ActiveGenerationID s = (case active of None \<Rightarrow> [] | Some (gid, g) \<Rightarrow> gid)"
proof -
  let ?h = "fst r" and ?q = "ix_sql ix"
  obtain staging where st: "stagingForHash ?q db ?h = Inr staging" using stagingForHash_total [OF q] by blast
  define s1 where "s1 = (case active of None \<Rightarrow> empty_status ?h
    | Some (gid, g) \<Rightarrow> (empty_status ?h)\<lparr>is_ActiveGenerationID := gid, is_Ready := gen_RoutingStateHash g = ?h\<rparr>)"
  define s2 where "s2 = (case staging of None \<Rightarrow> s1 | Some (gid, g) \<Rightarrow> s1\<lparr>is_StagingGenerationID := gid\<rparr>)"
  let ?c = "counted_generation ?h active staging"
  have s1: "is_Ready s1 = (\<exists>gid g. active = Some (gid, g) \<and> gen_RoutingStateHash g = ?h)"
    "is_ActiveGenerationID s1 = (case active of None \<Rightarrow> [] | Some (gid, g) \<Rightarrow> gid)"
    by (auto simp: s1_def empty_status_def split: option.split)
  have s2: "is_Ready s2 = is_Ready s1" "is_ActiveGenerationID s2 = is_ActiveGenerationID s1" by (auto simp: s2_def split: option.split)
  obtain s3 where s3: "(if ?c = [] then Inr s2 else with_counts ?q db ?c s2) = Inr s3" "is_Ready s3 = is_Ready s2" "is_ActiveGenerationID s3 = is_ActiveGenerationID s2"
    using with_counts_total [OF q, of ?c s2] by (cases "?c = []") auto
  obtain s where s: "applyDirtyStatus ?q db s3 = Inr s" "is_Ready s = (is_Ready s3 \<and> dirty_partitions db = [])" "is_ActiveGenerationID s = is_ActiveGenerationID s3"
    using applyDirtyStatus_total [OF q] by blast
  have "Index_Status ix r db = of_catalog (rbind (if ?c = [] then Inr s2 else with_counts ?q db ?c s2) (applyDirtyStatus ?q db))"
    unfolding Index_Status_def Let_def a st rbind_Inr s2_def s1_def using r by simp
  also have "\<dots> = Inr s" by (simp only: s3 rbind_Inr s) (simp add: of_catalog_def)
  finally show ?thesis using s s3 s2 s1 by auto
qed

lemma Status_ready:
  assumes run: "cat_run (ix_codec ix) db" and q: "healthy (ix_sql ix)" and op: "db_open db" and r: "\<not> not_ready r"
  shows "\<exists>s x. Index_Status ix r db = Inr s \<and> ActiveCurrent (ix_codec ix) (ix_sql ix) db (fst r) = Inr (x, is_Ready s) \<and>
    is_ActiveGenerationID s = (case x of None \<Rightarrow> [] | Some (gid, g) \<Rightarrow> gid)"
proof (cases "\<exists>gid g. map_of (generations db) gid = Some g \<and> gen_Status g = GenerationActive")
  case True
  then obtain gid g where g: "map_of (generations db) gid = Some g" "gen_Status g = GenerationActive" by blast
  note ok = active_ok_run [OF run]
  have "active_if_any (ix_sql ix) db = Inr (Some (gid, g))" by (simp add: active_if_any_def ActiveGeneration_run [OF ok q op g])
  from Status_from_active [OF q op r this] show ?thesis using ActiveCurrent_active [OF ok q op g, of "fst r"] by auto
next
  case False
  then have n: "ActiveGeneration (ix_sql ix) db = Inl ErrGenerationNotFound"
    by (intro no_active q op active_okD(1) [OF active_ok_run [OF run]]) blast
  then have "active_if_any (ix_sql ix) db = Inr None" by (simp add: active_if_any_def)
  from Status_from_active [OF q op r this] show ?thesis using q op n by (auto simp: ActiveCurrent_def rbind_Inr)
qed

text \<open>
  (C17) On a healthy database, a commit that succeeds has promoted a finished index: the staging generation of the current routing state, with no required
  enrichment batch open, is now the active one, discovery and the router accept it for the routing-state hash that
  was read just before promoting, and when the status is computed for the same routing state it says that the index is ready.
\<close>

theorem Commit_activates:
  assumes run: "cat_run (ix_codec ix) db" and q: "healthy (ix_sql ix)"
    and C: "Commit ix r1 r2 r3 db = (db', Inr (gid, status))"
  shows "(\<exists>g. ActiveCurrent (ix_codec ix) (ix_sql ix) db' (fst r2) = Inr (Some (gid, g), True)) \<and>
    \<not> list_ex (\<lambda>(i, b). eb_GenerationID b = gid \<and> eb_Required b \<and> eb_Accepted b = None) (enrichment_batches db') \<and>
    (r3 = r2 \<longrightarrow> is_Ready status \<and> is_ActiveGenerationID status = gid)"
proof -
  obtain db1 where steps: "(cat_step (ix_codec ix))\<^sup>*\<^sup>* db db1" and r2: "\<not> not_ready r2"
    and finished: "\<not> list_ex (\<lambda>(i, b). eb_GenerationID b = gid \<and> eb_Required b \<and> eb_Accepted b = None) (enrichment_batches db1)"
    and P: "Promote (ix_codec ix) (ix_sql ix) (ee_now (ix_coordinator ix)) gid (fst r2) db1 = Inr db'"
    and S: "Index_Status ix r3 db' = Inr status"
    using C by (rule Commit_steps)
  have run1: "cat_run (ix_codec ix) db1" using steps run by (rule run_steps)
  note promoted = promoted_current [OF run1 q P]
  obtain g where g: "ActiveCurrent (ix_codec ix) (ix_sql ix) db' (fst r2) = Inr (Some (gid, g), True)" using promoted by blast
  have "enrichment_batches db' = enrichment_batches db1" using Promote_db [OF P] by (simp add: activate_def Let_def set_status_def)
  moreover have "is_Ready status \<and> is_ActiveGenerationID status = gid" if "r3 = r2"
    using Status_ready [OF cat_run.step [OF run1 cat_step.promote [OF P]] q _ r2] S g promoted that by auto
  ultimately show ?thesis using g finished by simp
qed

text \<open>
  (C26) The status tells the truth about the gate of discovery and execution: on a catalog that operations have produced, with SQLite
  healthy and a routing state at hand, it is computed without error, and it says ready exactly when
  \<^verbatim>\<open>ActiveCurrent\<close> accepts the active generation for this routing state; the generation it names is the one
  \<^verbatim>\<open>ActiveCurrent\<close> returns.
\<close>

theorem Status_agrees_with_gate:
  assumes "cat_run (ix_codec ix) db" "healthy (ix_sql ix)" "db_open db" "\<not> not_ready r"
  shows "\<exists>s x. Index_Status ix r db = Inr s \<and> ActiveCurrent (ix_codec ix) (ix_sql ix) db (fst r) = Inr (x, is_Ready s) \<and>
    is_ActiveGenerationID s = (case x of None \<Rightarrow> [] | Some (gid, g) \<Rightarrow> gid)"
  by (rule Status_ready [OF assms])

section \<open>Invalidations during a refresh\<close>

lemma clear_loop:
  assumes "step_each (\<lambda>(key, d). if p key then step_bind (writes (ClearDirtyIfUnchanged q key d)) (\<lambda>_. step_return ()) else step_return ()) observed db = (db', Inr u)"
    and "map_of (dirty_partitions db) k = Some d" and "(k, d) \<notin> set observed"
  shows "map_of (dirty_partitions db') k = Some d"
  using assms
proof (induction observed arbitrary: db)
  case Nil
  then show ?case by (simp add: step_return_def)
next
  case (Cons x observed)
  obtain key e where x: "x = (key, e)" by (cases x)
  from Cons.prems(1) obtain db1 where
    here: "(if p key then step_bind (writes (ClearDirtyIfUnchanged q key e)) (\<lambda>_. step_return ()) else step_return ()) db = (db1, Inr ())"
    and rest: "step_each (\<lambda>(key, d). if p key then step_bind (writes (ClearDirtyIfUnchanged q key d)) (\<lambda>_. step_return ()) else step_return ()) observed db1 = (db', Inr u)"
    unfolding x by (auto elim!: step_bind_InrE)
  have "map_of (dirty_partitions db1) k = Some d"
    using here Cons.prems(2,3) x
    by (auto simp: step_return_def writes_def ClearDirtyIfUnchanged_def map_of_alist_del rbind_Inr_iff
        split: if_splits sum.splits elim!: step_bind_InrE)
  then show ?case using Cons.IH [OF rest] Cons.prems(3) by simp
qed

lemma begin_dirty:
  assumes "refresh_begin ix h db = (db1, Inr observed)"
  shows "set observed \<subseteq> set (dirty_partitions db)"
  using assms by (auto simp: refresh_begin_def calls_in_Inr writes_def reads_def ReconcileStaging_def DirtyPartitions_def set_status_def Let_def
      rbind_Inr_iff split: sum.splits elim!: step_bind_InrE)

text \<open>
  (C25) An invalidation that arrives while a refresh runs is not lost: if, by the time the refresh clears markers, another goroutine has
  marked a partition (with another reason, fingerprint or time than any marker before the refresh had), then after a refresh that
  succeeds the marker is still there and the status does not call the index ready.
\<close>

theorem Refresh_keeps_new_invalidation:
  assumes R: "Refresh ix ie r later (db, sv) = ((db', sv'), Inr status)"
    and mark: "\<And>x. map_of (dirty_partitions (ie_during_build ie x)) k = Some d" and new: "(k, d) \<notin> set (dirty_partitions db)"
  shows "map_of (dirty_partitions db') k = Some d \<and> \<not> is_Ready status"
proof -
  obtain db1 db2 observed snaps u where b: "refresh_begin ix (fst r) db = (db1, Inr observed)"
    and c: "reconcileObservedDirtyPartitions ix observed snaps (ie_during_build ie db2) = (db', Inr u)" and s: "Index_Status ix later db' = Inr status"
    using R by (auto simp: Refresh_def refreshLocked_def calls_in_Inr split: if_splits prod.splits sum.splits)
  have "(k, d) \<notin> set observed" using begin_dirty [OF b] new by blast
  then have m: "map_of (dirty_partitions db') k = Some d"
    using clear_loop [OF c [unfolded reconcileObservedDirtyPartitions_def Let_def] mark] by blast
  then have "sort_key fst (dirty_partitions db') \<noteq> []" by (auto simp: sort_key_Nil)
  then have "\<not> is_Ready status"
    using s by (auto simp: Index_Status_def Let_def of_catalog_def applyDirtyStatus_def DirtyPartitions_def empty_status_def rbind_Inr_iff
        split: if_splits sum.splits)
  with m show ?thesis by simp
qed

section \<open>Leases\<close>

lemma snapshots_leases:
  assumes "service_run sv ls" and "acquireIndexSnapshots ie es snaps sv = (sv', res)"
  shows "\<exists>ls'. service_run sv' ls' \<and> live_at ls' = live_at ls"
  using assms
proof (induction ie es snaps sv arbitrary: ls rule: acquireIndexSnapshots.induct)
  case (1 ie snaps sv)
  then show ?case by auto
next
  case (2 ie e es snaps sv)
  let ?sid = "se_ID e"
  show ?case
  proof (cases "se_Mode e = ModeDisabled")
    case True
    then show ?thesis using "2.IH"(1) [OF refl True "2.prems"(1)] "2.prems"(2) by simp
  next
    case False
    obtain sv1 a where A: "Acquire (ie_acquire ie ?sid) (ie_connect ie) (ie_locked ie ?sid) sv ?sid = (sv1, a)" by fastforce
    show ?thesis
    proof (cases a)
      case (Inl err)
      then have "sv' = sv1" using "2.prems"(2) False A by simp
      then show ?thesis using run_refused [OF "2.prems"(1) A [unfolded Inl]] by blast
    next
      case (Inr l)
      note acquired = run_acquired [OF "2.prems"(1) A [unfolded Inr]]
      obtain sv2 l' where R: "Release (ie_release ie ?sid) sv1 l = (sv2, l')" by fastforce
      have "service_run sv2 ([] @ l' # ls)" using run_release [of sv1 "[]" l ls] acquired R by simp
      then have run: "service_run sv2 (l' # ls)" by simp
      have "ul_released l'" using R by (auto simp: Release_def split: if_splits)
      then have live: "live_at (l' # ls) = live_at ls" by (simp add: fun_eq_iff)
      have "acquireIndexSnapshots ie es (alist_put ?sid (en_initial (ie_acquire ie ?sid) (ul_session l)) snaps) sv2 = (sv', res)"
        using "2.prems"(2) False A Inr R by (simp add: Let_def)
      then show ?thesis using "2.IH"(2) [OF refl False A [symmetric] Inr, of "l' # ls"] run live R by simp
    qed
  qed
qed

text \<open>
  Indexing leaves no lease behind: whatever a refresh ends with, every server has as many leases as before it, so an index build
  never keeps a server from idling, stopping or being reconfigured.
\<close>

theorem Refresh_releases_leases:
  assumes "service_run sv ls" and "Refresh ix ie r later (db, sv) = ((db', sv'), res)" and "p < length (sv_heap sv')"
  shows "ss_active (get_state sv' p) = live_at ls p"
proof -
  have "sv' = sv \<or> (\<exists>res. acquireIndexSnapshots ie (sc_Servers (ix_servers ix)) [] sv = (sv', res))"
    using assms(2) by (auto simp: Refresh_def refreshLocked_def split: if_splits prod.splits sum.splits)
  then obtain ls' where "service_run sv' ls'" "live_at ls' = live_at ls" using snapshots_leases [OF assms(1)] assms(1) by blast
  then have "leases_at sv' p = live_at ls p" using service_run_ok [of sv' ls'] by (simp add: run_ok_def)
  then show ?thesis using assms(3) by (simp add: leases_at_def)
qed

section \<open>Accepted work is kept while the sources are the same\<close>

lemma no_empty_put: "v \<noteq> [] \<Longrightarrow> [] \<notin> snd ` set m \<Longrightarrow> [] \<notin> snd ` set (alist_put k v m)"
  by (auto dest!: set_alist_put)

lemma tool_fingerprints_map:
  assumes "tool_fingerprints cd sid ts m = Inr m'" "distinct (map fst m)" "[] \<notin> snd ` set m"
  shows "distinct (map fst m') \<and> [] \<notin> snd ` set m'"
  using assms
proof (induction cd sid ts m rule: tool_fingerprints.induct)
  case (2 cd sid t ts m)
  obtain fp body where f: "FingerprintTool cd (Some t) = Inr (fp, body)" and r: "tool_fingerprints cd sid ts (alist_put (MemberKey sid (tool_Name t)) fp m) = Inr m'"
    using "2.prems"(1) by (auto split: sum.splits prod.splits)
  have "fp \<noteq> []" using f by (auto simp: FingerprintTool_def FingerprintJSON_def elim!: rbind_InrE)
  then show ?case using "2.IH" [OF f refl r _ no_empty_put] "2.prems"(2,3) by simp
qed simp

lemma currentSourceFingerprints_map:
  assumes "currentSourceFingerprints cd snaps es m = Inr m'" "distinct (map fst m)" "[] \<notin> snd ` set m"
  shows "distinct (map fst m') \<and> [] \<notin> snd ` set m'"
  using assms
proof (induction cd snaps es m rule: currentSourceFingerprints.induct)
  case (2 cd snaps e es m)
  show ?case
  proof (cases "se_Mode e = ModeDisabled")
    case True
    then show ?thesis using 2 by simp
  next
    case False
    then obtain snapshot m1 where s: "map_of snaps (se_ID e) = Some snapshot"
      "tool_fingerprints cd (se_ID e) (exposed_tools e snapshot) m = Inr m1" "currentSourceFingerprints cd snaps es m1 = Inr m'"
      using "2.prems"(1) by (auto split: option.splits elim!: rbind_InrE)
    from tool_fingerprints_map [OF s(2) "2.prems"(2,3)] show ?thesis using "2.IH"(2) [OF False s(1,3)] by simp
  qed
qed simp

lemma same_maps:
  assumes "distinct (map fst a)" "distinct (map fst b)" "[] \<notin> snd ` set a"
  shows "\<not> (length a \<noteq> length b \<or> list_ex (\<lambda>(k, f). fingerprint_at b k \<noteq> f) a) \<longleftrightarrow> map_of b = map_of a"
proof
  assume "\<not> (length a \<noteq> length b \<or> list_ex (\<lambda>(k, f). fingerprint_at b k \<noteq> f) a)"
  then have len: "length a = length b" and at: "\<And>k f. (k, f) \<in> set a \<Longrightarrow> fingerprint_at b k = f" by (auto simp: list_ex_iff)
  have "(k, f) \<in> set b" if "(k, f) \<in> set a" for k f
    using at [OF that] assms(3) that by (force simp: fingerprint_at_def dest: map_of_SomeD split: option.splits)
  then have sub: "set a \<subseteq> set b" by auto
  have "card (set a) = card (set b)" using len assms(1,2) by (metis distinct_card distinct_map)
  then have "set a = set b" using sub by (simp add: card_subset_eq)
  then show "map_of b = map_of a" using map_of_eqI assms(1,2) by (metis map_of_inject_set)
next
  assume m: "map_of b = map_of a"
  have "set b = set a" using m assms(1,2) by (simp add: map_of_inject_set)
  then have "length b = length a" using assms(1,2) by (metis distinct_card distinct_map)
  moreover have "fingerprint_at b k = f" if "(k, f) \<in> set a" for k f
    using that assms(1) m by (simp add: fingerprint_at_def)
  ultimately show "\<not> (length a \<noteq> length b \<or> list_ex (\<lambda>(k, f). fingerprint_at b k \<noteq> f) a)" by (auto simp: list_ex_iff)
qed

lemma stored_fingerprints_map:
  assumes "\<And>s. s \<in> set existing \<Longrightarrow> rec_SourceFingerprint s \<noteq> []"
  shows "distinct (map fst (stored_fingerprints existing)) \<and> [] \<notin> snd ` set (stored_fingerprints existing)"
proof -
  have "distinct (map fst (fold (\<lambda>s m. alist_put (member_of s) (rec_SourceFingerprint s) m) xs m)) \<and>
      [] \<notin> snd ` set (fold (\<lambda>s m. alist_put (member_of s) (rec_SourceFingerprint s) m) xs m)"
    if "distinct (map fst m)" "[] \<notin> snd ` set m" "\<And>s. s \<in> set xs \<Longrightarrow> rec_SourceFingerprint s \<noteq> []" for xs m
    using that
  proof (induction xs arbitrary: m)
    case (Cons x xs)
    then show ?case by (simp add: no_empty_put)
  qed simp
  then show ?thesis using assms by (simp add: stored_fingerprints_def)
qed

lemma stagingSourcesChanged_iff:
  assumes S: "SourceTools (ix_codec ix) (ix_sql ix) db gid = Inr existing"
    and C: "currentSourceFingerprints (ix_codec ix) snaps (sc_Servers (ix_servers ix)) [] = Inr current"
  shows "stagingSourcesChanged ix gid snaps db = Inr (existing \<noteq> [] \<and> map_of current \<noteq> map_of (stored_fingerprints existing))"
proof -
  have "rec_SourceFingerprint s \<noteq> []" if "s \<in> set existing" for s
    using SourceTools_facts(2) [OF S] that by (simp add: FingerprintJSON_def)
  then have st: "distinct (map fst (stored_fingerprints existing))" "[] \<notin> snd ` set (stored_fingerprints existing)"
    using stored_fingerprints_map [of existing] by blast+
  have "distinct (map fst current)" using currentSourceFingerprints_map [OF C] by simp
  from same_maps [OF st(1) this st(2)] show ?thesis
    by (auto simp: stagingSourcesChanged_def S C of_catalog_def rbind_Inr Let_def)
qed

lemma staging_row_found: "stagingForHash q db h = Inr (Some (gid, g)) \<Longrightarrow> map_of (generations db) gid = Some g"
  by (auto simp: stagingForHash_def Catalog_Generation_def rbind_Inr_iff split: list.splits option.splits)

text \<open>
  A refresh keeps the staging generation, and with it every accepted enrichment batch, exactly while the sources are the same: when the
  tools read from the servers have the fingerprints stored in the generation (or none is stored yet), the generation is used
  again and the catalog is not touched by the choice; otherwise the refresh goes on with a new generation and the old one is superseded.
\<close>

theorem refresh_reuses_generation:
  assumes G: "stagingForHash (ix_sql ix) db h = Inr (Some (gid, g))" and S: "SourceTools (ix_codec ix) (ix_sql ix) db gid = Inr existing"
    and C: "currentSourceFingerprints (ix_codec ix) snaps (sc_Servers (ix_servers ix)) [] = Inr current"
  shows "if existing = [] \<or> map_of current = map_of (stored_fingerprints existing)
    then refresh_generation ix ie h snaps db = (db, Inr gid)
    else \<forall>db' gid'. refresh_generation ix ie h snaps db = (db', Inr gid') \<longrightarrow> gid' \<noteq> gid \<and> status_of db' gid = Some GenerationSuperseded"
proof -
  note changed = stagingSourcesChanged_iff [OF S C]
  have eq: "refresh_generation ix ie h snaps db = (if existing = [] \<or> map_of current = map_of (stored_fingerprints existing) then (db, Inr gid)
    else step_bind (calls_in (changes (SupersedeStaging (ix_sql ix) gid))) (\<lambda>_. calls_in (create_staging ix ie h)) db)"
    by (auto simp: refresh_generation_def step_bind_def calls_in_def reads_def queries_def G changed step_return_def split: prod.split sum.split)
  have "gid' \<noteq> gid \<and> status_of db' gid = Some GenerationSuperseded"
    if H: "step_bind (calls_in (changes (SupersedeStaging (ix_sql ix) gid))) (\<lambda>_. calls_in (create_staging ix ie h)) db = (db', Inr gid')" for db' gid'
  proof -
    obtain db1 where s: "SupersedeStaging (ix_sql ix) gid db = Inr db1" and c: "create_staging ix ie h db1 = (db', Inr gid')"
      using H by (auto simp: calls_in_Inr changes_Inr elim!: step_bind_InrE)
    have st: "status_of db1 gid = Some GenerationSuperseded"
      using s staging_row_found [OF G] by (auto simp: SupersedeStaging_def status_set_status rbind_Inr_iff guard_Inr split: option.splits if_splits)
    then have g1: "map_of (generations db1) gid \<noteq> None" by (auto simp: status_of_def)
    obtain row where "map_of (generations db1) gid' = None" "db' = db1\<lparr>generations := alist_put gid' row (generations db1)\<rparr>"
      using c by (auto simp: create_staging_def writes_def CreateStaging_def step_return_def rbind_Inr_iff Let_def split: sum.splits if_splits elim!: step_bind_InrE)
    with g1 st show ?thesis by (auto simp: status_of_def)
  qed
  with eq show ?thesis by simp
qed

end
