(* ===== verification/IndexingWitness.thy ===== *)
theory IndexingWitness
  imports IndexingFacts
begin

text \<open>
  Concrete index services: one over an HTTP server that offers no tools, whose index is refreshed, enriched with the (empty) hierarchy and
  committed, and one over a server whose tool is stored already.
\<close>

definition index_codec :: codec where
  "index_codec = sample_codec\<lparr>decode_json := (\<lambda>s. Some (JStr s)), marshal_json := (\<lambda>j. case j of JObj kvs \<Rightarrow> concat (map (take 3 \<circ> fst) kvs) | _ \<Rightarrow> ''x'')\<rparr>"

definition empty_hierarchy :: CapabilityHierarchy where
  "empty_hierarchy = \<lparr>ch_Protocol = CapabilityProtocolVersion, ch_Capabilities = []\<rparr>"

definition index_lib :: enrich_lib where
  "index_lib = sample_enrich_lib\<lparr>el_codec := index_codec, el_marshal_capability_request := (\<lambda>_. Some ''request''),
     el_capability_request := (\<lambda>_. Some \<lparr>cbr_Protocol = CapabilityProtocolVersion, cbr_Items = []\<rparr>),
     el_capability_response := (\<lambda>_. Some \<lparr>cbs_Hierarchy = empty_hierarchy, cbs_Ambiguities = []\<rparr>)\<rparr>"

definition index_sample :: index_service where
  "index_sample = \<lparr>ix_coordinator = sample_enrich_env\<lparr>ee_lib := index_lib\<rparr>, ix_servers = sample_servers\<rparr>"

definition index_env_sample :: index_env where
  "index_env_sample = \<lparr>ie_acquire = (\<lambda>_. sample_env 5), ie_release = (\<lambda>_. sample_env 6), ie_connect = sample_connect, ie_locked = (\<lambda>_. True),
     ie_rand = Some ''r'', ie_during_acquire = (\<lambda>db. db), ie_during_build = (\<lambda>db. db)\<rparr>"

definition reading :: routing_reading where "reading = (''h'', True)"

definition new_index :: catalog where
  "new_index = schemaSQL\<lparr>generations := [(''g'', staging_row ''h'' 1)]\<rparr>"

section \<open>Commit\<close>

definition asked_index :: catalog where
  "asked_index = new_index\<lparr>
     generation_dependencies := [((''g'', ''capability-reconciliation:global''), \<lparr>dep_expected = ''sha256:prosou'', dep_actual = None, dep_required = True, dep_complete = False\<rparr>),
       ((''g'', ''artifact:sha256:rolmem''), \<lparr>dep_expected = ''sha256:kindepcon'', dep_actual = None, dep_required = True, dep_complete = False\<rparr>)],
     enrichment_batches := [(''batch:genkinbatreq'', \<lparr>eb_GenerationID = ''g'', eb_Kind = ''capability_reconciliation'', eb_BatchKey = ''global'', eb_Required = True,
       eb_RequestFingerprint = ''sha256:x'', eb_RequestJSON = ''x'', eb_Accepted = None\<rparr>)]\<rparr>"

definition submitted_index :: catalog where
  "submitted_index = new_index\<lparr>
     generation_dependencies := [((''g'', ''capability-reconciliation:global''), \<lparr>dep_expected = ''sha256:prosou'', dep_actual = Some ''sha256:prosou'', dep_required = True, dep_complete = True\<rparr>),
       ((''g'', ''artifact:sha256:rolmem''), \<lparr>dep_expected = ''sha256:kindepcon'', dep_actual = Some ''sha256:kindepcon'', dep_required = True, dep_complete = True\<rparr>)],
     artifacts := [(''sha256:kincondepcon'', \<lparr>art_Kind = ''semantic.capability-hierarchy/v1'', art_ContentFingerprint = ''sha256:procap'',
       art_DependencyFingerprint = ''sha256:x'', art_ContextFingerprint = ''sha256:x'', art_Payload = ''procap'', art_CreatedAt = 5\<rparr>)],
     artifact_dependencies := [((''sha256:kincondepcon'', ''capability.protocol''), ''sha256:capability-reconciliation/v1'')],
     generation_artifacts := [((''g'', ''semantic.capability_hierarchy'', ''global''), \<lparr>ga_artifact = ''sha256:kincondepcon'', ga_required = True, ga_complete = True\<rparr>)],
     enrichment_batches := [(''batch:genkinbatreq'', \<lparr>eb_GenerationID = ''g'', eb_Kind = ''capability_reconciliation'', eb_BatchKey = ''global'', eb_Required = True,
       eb_RequestFingerprint = ''sha256:x'', eb_RequestJSON = ''x'', eb_Accepted = Some (''sha256:x'', ''x'', 5)\<rparr>)]\<rparr>"

text \<open>
  The first commit asks for the hierarchy although the status before it had called for a commit: the batch is only created by the commit.
\<close>

lemma first_commit:
  "map_sum id is_NextAction (Index_Status index_sample reading new_index) = Inr CommitNow"
  "Commit index_sample reading reading reading new_index = (asked_index, Inl (RequiredEnrichmentPending 1))"
  by code_simp+

lemma submission: "fst (Index_SubmitBatch index_sample ''batch:genkinbatreq'' (Some ''response'') asked_index) = submitted_index"
  by code_simp

lemma second_commit:
  "case snd (Commit index_sample reading reading reading submitted_index) of Inl e \<Rightarrow> False | Inr (gid, status) \<Rightarrow> gid = ''g''"
  by code_simp

lemma index_sample_simps:
  "ix_codec index_sample = index_codec" "ix_sql index_sample = sample_q" "healthy sample_q" "\<not> not_ready reading" "fst reading = ''h''"
  by (simp_all add: index_sample_def sample_enrich_env_def index_lib_def ee_codec_def sample_q_def healthy_def not_ready_def reading_def)

lemma new_index_run: "cat_run index_codec new_index"
proof (rule cat_run.step [OF cat_run.start])
  have "CreateStaging sample_q None 1 \<lparr>spec_ID = ''g'', spec_RoutingStateHash = ''h''\<rparr> schemaSQL = Inr (new_index, ''g'', staging_row ''h'' 1)"
    by code_simp
  then show "cat_step index_codec schemaSQL new_index" by (rule cat_step.create)
qed

lemma submitted_run: "cat_run index_codec submitted_index"
proof -
  have "cat_run index_codec asked_index"
    using run_steps [OF actsD [OF acts_commit first_commit(2)]] new_index_run by (simp add: index_sample_simps)
  moreover have "(cat_step index_codec)\<^sup>*\<^sup>* asked_index submitted_index"
    using acts_submit_index [of index_sample "''batch:genkinbatreq''" "Some ''response''", unfolded acts_def, rule_format, of asked_index]
    by (simp add: submission index_sample_simps)
  ultimately show ?thesis using run_steps by blast
qed

theorem Commit_activates_witness:
  "\<exists>g. ActiveCurrent index_codec sample_q (fst (Commit index_sample reading reading reading submitted_index)) ''h'' = Inr (Some (''g'', g), True)"
proof -
  obtain db' status where C: "Commit index_sample reading reading reading submitted_index = (db', Inr (''g'', status))"
    using second_commit by (cases "Commit index_sample reading reading reading submitted_index") (auto split: sum.splits prod.splits)
  then show ?thesis
    using Commit_activates [of index_sample submitted_index reading reading reading db' "''g''" status] submitted_run by (simp add: index_sample_simps)
qed

theorem Status_agrees_with_gate_witness:
  "\<exists>s x. Index_Status index_sample reading new_index = Inr s \<and> ActiveCurrent index_codec sample_q new_index ''h'' = Inr (x, is_Ready s)"
proof -
  have "db_open new_index" by code_simp
  then show ?thesis using Status_agrees_with_gate [of index_sample new_index reading] new_index_run by (auto simp: index_sample_simps)
qed

section \<open>Refresh\<close>

definition new_mark :: DirtyPartition where
  "new_mark = \<lparr>dp_Reason = ''tools changed'', dp_ObservedFingerprint = [], dp_MarkedAt = 9\<rparr>"

definition marked_env :: index_env where
  "marked_env = index_env_sample\<lparr>ie_during_build := (\<lambda>db. db\<lparr>dirty_partitions := [(''server:x'', new_mark)]\<rparr>)\<rparr>"

theorem Refresh_keeps_new_invalidation_witness:
  "map_of (dirty_partitions (fst (fst (Refresh index_sample marked_env reading reading (schemaSQL, sample_started))))) ''server:x'' = Some new_mark"
proof -
  let ?R = "Refresh index_sample marked_env reading reading (schemaSQL, sample_started)"
  have "\<not> isl (snd ?R)" by code_simp
  then obtain status where "snd ?R = Inr status" by (cases "snd ?R") simp_all
  then obtain db' sv' where R: "?R = ((db', sv'), Inr status)" by (metis prod.collapse)
  have mark: "map_of (dirty_partitions (ie_during_build marked_env x)) ''server:x'' = Some new_mark" for x by (simp add: marked_env_def)
  have "(''server:x'', new_mark) \<notin> set (dirty_partitions schemaSQL)" by (simp add: schemaSQL_def)
  from Refresh_keeps_new_invalidation [OF R mark this] show ?thesis by (simp add: R)
qed

theorem Refresh_releases_leases_witness:
  "ss_active (get_state (snd (fst (Refresh index_sample index_env_sample reading reading (schemaSQL, sample_started)))) 0) = 0"
proof -
  let ?R = "Refresh index_sample index_env_sample reading reading (schemaSQL, sample_started)"
  have R: "?R = ((fst (fst ?R), snd (fst ?R)), snd ?R)" by simp
  have "0 < length (sv_heap (snd (fst ?R)))" by code_simp
  from Refresh_releases_leases [OF sample_started_run R this] show ?thesis by simp
qed

theorem indexing_refines_catalog_witness:
  "(cat_step index_codec)\<^sup>*\<^sup>* schemaSQL (fst (fst (Refresh index_sample index_env_sample reading reading (schemaSQL, sample_started))))"
  using indexing_refines_catalog [of index_sample index_env_sample schemaSQL reading reading sample_started]
  by (simp add: index_sample_simps) (simp add: index_env_sample_def)

definition tool_service :: index_service where
  "tool_service = index_sample\<lparr>ix_coordinator := sample_enrich_env, ix_servers := \<lparr>sc_SchemaVersion = SchemaVersion, sc_Servers = [sample_entry ''s'' ModeManaged sample_stdio_transport]\<rparr>\<rparr>"

text \<open>The server still offers the tool that is stored: the staging generation is used again.\<close>

theorem refresh_reuses_generation_witness:
  "refresh_generation tool_service index_env_sample ''h'' [(''s'', \<lparr>ts_Tools = [sample_tool ''echo''], ts_Fingerprint = []\<rparr>)] sample_stored = (sample_stored, Inr ''g'')"
proof -
  let ?snaps = "[(''s'', \<lparr>ts_Tools = [sample_tool ''echo''], ts_Fingerprint = []\<rparr>)]"
  let ?source = "\<lparr>rec_ServerID = ''s'', rec_ToolName = ''echo'', rec_SourceFingerprint = ''sha256:echo'', rec_ContractJSON = ''echo''\<rparr>"
  have "\<exists>g. stagingForHash (ix_sql tool_service) sample_stored ''h'' = Inr (Some (''g'', g))"
  proof -
    have "map_sum id (map_option fst) (stagingForHash (ix_sql tool_service) sample_stored ''h'') = Inr (Some ''g'')" by code_simp
    then show ?thesis by (cases "stagingForHash (ix_sql tool_service) sample_stored ''h''") auto
  qed
  then obtain g where G: "stagingForHash (ix_sql tool_service) sample_stored ''h'' = Inr (Some (''g'', g))" by blast
  have S: "SourceTools (ix_codec tool_service) (ix_sql tool_service) sample_stored ''g'' = Inr [?source]" by code_simp
  have C: "currentSourceFingerprints (ix_codec tool_service) ?snaps (sc_Servers (ix_servers tool_service)) [] = Inr [(''s/echo'', ''sha256:echo'')]" by code_simp
  have "stored_fingerprints [?source] = [(''s/echo'', ''sha256:echo'')]" by code_simp
  then show ?thesis using refresh_reuses_generation [OF G S C, of index_env_sample] by simp
qed

end
