(* ===== verification/Continuation.thy ===== *)
theory Continuation
  imports CatalogBatches Lifecycle ExecutionHandle
begin

text \<open>
  Continuations of routed calls: \<^verbatim>\<open>internal/mcpmanager/continuations.go\<close>, with the in-band task envelope of
  \<^verbatim>\<open>internal/downstream/task_capture.go\<close> and the result decoding of \<^verbatim>\<open>internal/mcpcompat/tasks.go\<close>. A task or a
  resource link that a downstream server returns is replaced by an opaque reference of the manager, stored in the catalog;
  a task holds a lease on its server until it ends, expires or the service closes.

  A lease is shared by reference (the map of the service, the handler that acquired it, the lifecycle's expiry timer), so
  leases live on a heap, and the map holds positions.
\<close>

section \<open>Types\<close>

definition managerResourceScheme :: string where "managerResourceScheme = ''gtm-manager''"
definition taskResultSentinel :: string where "taskResultSentinel = ''io.gpt-tunnel-manager/task-result''"

definition TaskCompleted :: string where "TaskCompleted = ''completed''"
definition TaskCancelled :: string where "TaskCancelled = ''cancelled''"
definition TaskFailed :: string where "TaskFailed = ''failed''"

record Task =
  tk_TaskID :: string
  tk_Status :: string
  tk_TTLMS :: "int option"
  tk_Rest :: string

record CreateTaskResult =
  cr_ResultType :: string
  cr_Task :: Task

record GetTaskResult =
  gt_Task :: Task
  gt_Result :: string
  gt_Rest :: string

datatype content = ResourceLink string string | OtherContent string

record tool_result =
  tr_Content :: "content list"
  tr_Structured :: "json option"
  tr_Rest :: string

record taskContinuationPayload =
  tcp_DownstreamTaskID :: string
  tcp_Status :: string

record manager_url =
  mu_Scheme :: string
  mu_Host :: string
  mu_EscapedPath :: string
  mu_Sig :: string

text \<open>JSON of the payloads and results, HMAC-SHA-256, and \<^verbatim>\<open>net/url\<close>.\<close>

record cont_lib =
  ct_codec :: codec
  ct_task_payload :: "taskContinuationPayload \<Rightarrow> string"
  ct_read_task_payload :: "string \<Rightarrow> taskContinuationPayload option"
  ct_resource_payload :: "string \<Rightarrow> string"
  ct_read_resource_payload :: "string \<Rightarrow> string option"
  ct_result_type :: "string \<Rightarrow> string option"
  ct_created :: "CreateTaskResult \<Rightarrow> string"
  ct_read_created :: "string \<Rightarrow> CreateTaskResult option"
  ct_tool :: "tool_result \<Rightarrow> string option"
  ct_read_tool :: "string \<Rightarrow> tool_result option"
  ct_hmac :: "string \<Rightarrow> string \<Rightarrow> string"
  ct_url :: "string \<Rightarrow> manager_url option"
  ct_path_escape :: "string \<Rightarrow> string"
  ct_path_unescape :: "string \<Rightarrow> string option"
  ct_query_escape :: "string \<Rightarrow> string"

datatype cont_error =
    ErrInvalidManagerTask
  | ErrInvalidManagerResource
  | ContinuationClosed
  | SigningKeyTooShort
  | ContLife life_error
  | ContCatalog cat_error
  | ContRandom
  | ContDownstream string
  | NilTaskResult
  | InvalidEnvelope
  | DecodeDiscriminator
  | DecodeTask
  | TaskMissing string
  | DecodeTool
  | TaskResultIncomplete

record cont_service =
  cn_signing :: string
  cn_taskLease :: "(string \<times> nat) list"
  cn_timers :: "string list"
  cn_closed :: bool

record cont_world =
  cw_cont :: cont_service
  cw_leases :: "UseLease list"
  cw_life :: Service
  cw_catalog :: catalog

text \<open>The surroundings of a handler: clocks, the connector, random bytes for each new ID, failing SQL.\<close>

record cont_env =
  ce_life :: env
  ce_connect :: "ServerEntry \<Rightarrow> connect_result"
  ce_locked :: bool
  ce_now :: int
  ce_rand :: "nat \<Rightarrow> string option"
  ce_sql :: sqlenv

type_synonym 'a cont_step = "cont_world \<Rightarrow> cont_world \<times> (cont_error, 'a) result"

section \<open>Helpers\<close>

definition taskTerminal :: "string \<Rightarrow> bool" where
  "taskTerminal status \<longleftrightarrow> status = TaskCompleted \<or> status = TaskFailed \<or> status = TaskCancelled"

definition newOpaqueID :: "string \<Rightarrow> string option \<Rightarrow> (cont_error, string) result" where
  "newOpaqueID pre raw = (case raw of None \<Rightarrow> Inl ContRandom | Some bytes \<Rightarrow> Inr (pre @ EncodeToString bytes))"

text \<open>\<^verbatim>\<open>time.Duration(ms) * time.Millisecond\<close> on 64 bits.\<close>

definition taskTTL :: "int option \<Rightarrow> int" where
  "taskTTL ttl = (case ttl of None \<Rightarrow> 0 | Some ms \<Rightarrow> if ms \<le> 0 then 0 else sint (word_of_int (ms * 1000000) :: 64 word))"

definition continuationRemainingTTL :: "int \<Rightarrow> ContinuationMapping \<Rightarrow> int" where
  "continuationRemainingTTL now m = (case stored_expiry m of None \<Rightarrow> 24 * 3600 * 1000000000 | Some e \<Rightarrow> e - now)"

definition decodeTaskContinuation :: "cont_lib \<Rightarrow> ContinuationMapping \<Rightarrow> taskContinuationPayload option" where
  "decodeTaskContinuation lib m = (case ct_read_task_payload lib (cm_Payload m) of None \<Rightarrow> None
     | Some p \<Rightarrow> if blank (tcp_DownstreamTaskID p) then None else Some p)"

definition signResource :: "cont_lib \<Rightarrow> cont_service \<Rightarrow> string \<Rightarrow> string" where
  "signResource lib s mappingID = EncodeToString (ct_hmac lib (cn_signing s) (''resource'' @ CHR 0x00 # mappingID))"

definition resourceURI :: "cont_lib \<Rightarrow> cont_service \<Rightarrow> string \<Rightarrow> string" where
  "resourceURI lib s mappingID = managerResourceScheme @ ''://resource/'' @ ct_path_escape lib mappingID @
     ''?sig='' @ ct_query_escape lib (signResource lib s mappingID)"

definition validateResourceURI :: "cont_lib \<Rightarrow> cont_service \<Rightarrow> string \<Rightarrow> (cont_error, string) result" where
  "validateResourceURI lib s raw = (case ct_url lib raw of None \<Rightarrow> Inl ErrInvalidManagerResource
     | Some u \<Rightarrow> if mu_Scheme u \<noteq> managerResourceScheme \<or> mu_Host u \<noteq> ''resource'' then Inl ErrInvalidManagerResource
       else (case ct_path_unescape lib (TrimPrefix (mu_EscapedPath u) ''/'') of None \<Rightarrow> Inl ErrInvalidManagerResource
         | Some mappingID \<Rightarrow> if mappingID = [] \<or> CHR ''/'' \<in> set mappingID then Inl ErrInvalidManagerResource
           else if mu_Sig u \<noteq> signResource lib s mappingID then Inl ErrInvalidManagerResource else Inr mappingID))"

section \<open>Task results\<close>

text \<open>\<^verbatim>\<open>DecodeToolOrTaskResult\<close>: a task, or None for an ordinary tool result.\<close>

definition DecodeToolOrTaskResult :: "cont_lib \<Rightarrow> string \<Rightarrow> (cont_error, CreateTaskResult option) result" where
  "DecodeToolOrTaskResult lib raw = (case ct_result_type lib raw of None \<Rightarrow> Inl DecodeDiscriminator
     | Some kind \<Rightarrow> if kind = ''task'' then (case ct_read_created lib raw of None \<Rightarrow> Inl DecodeTask
         | Some t \<Rightarrow> if tk_TaskID (cr_Task t) = [] then Inl (TaskMissing ''taskId'')
             else if tk_Status (cr_Task t) = [] then Inl (TaskMissing ''status'') else Inr (Some t))
       else (case ct_read_tool lib raw of None \<Rightarrow> Inl DecodeTool | Some r \<Rightarrow> Inr None))"

definition unwrapTaskResult :: "cont_lib \<Rightarrow> tool_result \<Rightarrow> (cont_error, CreateTaskResult option) result" where
  "unwrapTaskResult lib res = (case tr_Structured res of
     Some (JObj kvs) \<Rightarrow> (case obj_get kvs taskResultSentinel of None \<Rightarrow> Inr None
       | Some (JStr raw) \<Rightarrow> if raw = [] then Inl InvalidEnvelope
           else rbind (DecodeToolOrTaskResult lib raw) (\<lambda>t. case t of None \<Rightarrow> Inl InvalidEnvelope | Some task \<Rightarrow> Inr (Some task))
       | Some _ \<Rightarrow> Inl InvalidEnvelope)
   | _ \<Rightarrow> Inr None)"

text \<open>
  The read side of \<^verbatim>\<open>taskAwareConnection\<close>: a response whose result is a task becomes an ordinary tool result that carries the raw task;
  None: the response passes unchanged.
\<close>

definition taskAwareRead :: "cont_lib \<Rightarrow> string \<Rightarrow> tool_result option" where
  "taskAwareRead lib raw = (if raw = [] \<or> ct_result_type lib raw \<noteq> Some ''task'' then None
     else case DecodeToolOrTaskResult lib raw of
       Inr (Some task) \<Rightarrow> Some \<lparr>tr_Content = [], tr_Structured = Some (JObj [(taskResultSentinel, JStr raw)]), tr_Rest = []\<rparr>
     | _ \<Rightarrow> None)"

definition CallResultForTask :: "cont_lib \<Rightarrow> CreateTaskResult \<Rightarrow> (cont_error, tool_result) result" where
  "CallResultForTask lib task = (if tk_TaskID (cr_Task task) = [] \<or> tk_Status (cr_Task task) = [] then Inl TaskResultIncomplete
     else Inr \<lparr>tr_Content = [], tr_Structured = Some (JObj [(taskResultSentinel, JStr (ct_created lib task))]), tr_Rest = []\<rparr>)"

section \<open>The world\<close>

definition on_catalog :: "(catalog \<Rightarrow> catalog \<times> (cat_error, 'a) result) \<Rightarrow> 'a cont_step" where
  "on_catalog f w = (case f (cw_catalog w) of (db, Inl e) \<Rightarrow> (w\<lparr>cw_catalog := db\<rparr>, Inl (ContCatalog e)) | (db, Inr x) \<Rightarrow> (w\<lparr>cw_catalog := db\<rparr>, Inr x))"

definition put_continuation :: "cont_lib \<Rightarrow> cont_env \<Rightarrow> continuation_in \<Rightarrow> ContinuationMapping cont_step" where
  "put_continuation lib ce m = on_catalog (\<lambda>db. case PutContinuation (ct_codec lib) (ce_sql ce) (ce_now ce) m db of
     Inl e \<Rightarrow> (db, Inl e) | Inr (db', (i, stored), existed) \<Rightarrow> (db', Inr stored))"

definition delete_continuation :: "cont_env \<Rightarrow> string \<Rightarrow> cont_world \<Rightarrow> cont_world" where
  "delete_continuation ce i w = (case DeleteContinuation (ce_sql ce) i (cw_catalog w) of Inl e \<Rightarrow> w | Inr db \<Rightarrow> w\<lparr>cw_catalog := db\<rparr>)"

text \<open>A new lease goes to the end of the heap; its position is the reference.\<close>

definition acquire_use :: "cont_env \<Rightarrow> string \<Rightarrow> nat cont_step" where
  "acquire_use ce serverID w = (case Acquire (ce_life ce) (ce_connect ce) (ce_locked ce) (cw_life w) serverID of
     (sv, Inl e) \<Rightarrow> (w\<lparr>cw_life := sv\<rparr>, Inl (ContLife e))
   | (sv, Inr l) \<Rightarrow> (w\<lparr>cw_life := sv, cw_leases := cw_leases w @ [l]\<rparr>, Inr (length (cw_leases w))))"

definition acquire_task :: "cont_env \<Rightarrow> string \<Rightarrow> int \<Rightarrow> nat cont_step" where
  "acquire_task ce serverID ttl w = (case AcquireTaskLease (ce_life ce) (ce_connect ce) (ce_locked ce) (cw_life w) serverID ttl of
     (sv, Inl e) \<Rightarrow> (w\<lparr>cw_life := sv\<rparr>, Inl (ContLife e))
   | (sv, Inr l) \<Rightarrow> (w\<lparr>cw_life := sv, cw_leases := cw_leases w @ [l]\<rparr>, Inr (length (cw_leases w))))"

definition release_lease :: "env \<Rightarrow> nat \<Rightarrow> cont_world \<Rightarrow> cont_world" where
  "release_lease en i w = (case Release en (cw_life w) (cw_leases w ! i) of
     (sv, l) \<Rightarrow> w\<lparr>cw_life := sv, cw_leases := (cw_leases w)[i := l]\<rparr>)"

definition with_cont :: "(cont_service \<Rightarrow> cont_service) \<Rightarrow> cont_world \<Rightarrow> cont_world" where
  "with_cont f w = w\<lparr>cw_cont := f (cw_cont w)\<rparr>"

section \<open>Critical sections\<close>

definition set_lease :: "string \<Rightarrow> nat \<Rightarrow> cont_service \<Rightarrow> cont_service" where
  "set_lease managerID i s = s\<lparr>cn_taskLease := alist_put managerID i (cn_taskLease s)\<rparr>"

text \<open>Storing the lease of a new task: false when the service has closed since.\<close>

definition register_new :: "string \<Rightarrow> nat \<Rightarrow> cont_world \<Rightarrow> cont_world \<times> bool" where
  "register_new managerID i w = (if cn_closed (cw_cont w) then (w, False) else (with_cont (set_lease managerID i) w, True))"

text \<open>\<^verbatim>\<open>finishTask\<close>: the lease and the timer leave the maps in one section; the lease is released after it.\<close>

definition finish_detach :: "string \<Rightarrow> cont_world \<Rightarrow> cont_world \<times> nat option" where
  "finish_detach managerID w = (with_cont (\<lambda>s. s\<lparr>cn_taskLease := alist_del managerID (cn_taskLease s), cn_timers := removeAll managerID (cn_timers s)\<rparr>) w,
     map_of (cn_taskLease (cw_cont w)) managerID)"

definition finishTask :: "cont_env \<Rightarrow> string \<Rightarrow> cont_world \<Rightarrow> cont_world" where
  "finishTask ce managerID w = (case finish_detach managerID w of (w1, held) \<Rightarrow>
     delete_continuation ce managerID (case held of None \<Rightarrow> w1 | Some i \<Rightarrow> release_lease (ce_life ce) i w1))"

definition installExpiryTimer :: "string \<Rightarrow> int \<Rightarrow> cont_world \<Rightarrow> cont_world" where
  "installExpiryTimer managerID ttl w = (if ttl \<le> 0 \<or> cn_closed (cw_cont w) then w
     else with_cont (\<lambda>s. s\<lparr>cn_timers := managerID # removeAll managerID (cn_timers s)\<rparr>) w)"

definition close_detach :: "cont_world \<Rightarrow> cont_world \<times> nat list" where
  "close_detach w = (if cn_closed (cw_cont w) then (w, [])
     else (with_cont (\<lambda>s. s\<lparr>cn_closed := True, cn_taskLease := [], cn_timers := []\<rparr>) w, map snd (cn_taskLease (cw_cont w))))"

definition Cont_Close :: "cont_env \<Rightarrow> cont_world \<Rightarrow> cont_world" where
  "Cont_Close ce w = (case close_detach w of (w1, held) \<Rightarrow> fold (release_lease (ce_life ce)) held w1)"

text \<open>\<^verbatim>\<open>ensureTaskLease\<close>: before acquiring (None: go on), and after it (whether the new lease is kept).\<close>

definition ensure_enter :: "string \<Rightarrow> cont_world \<Rightarrow> (cont_error, unit) result option" where
  "ensure_enter managerID w = (if cn_closed (cw_cont w) then Some (Inl ContinuationClosed)
     else if map_of (cn_taskLease (cw_cont w)) managerID \<noteq> None then Some (Inr ()) else None)"

definition ensure_register :: "string \<Rightarrow> nat \<Rightarrow> cont_world \<Rightarrow> cont_world \<times> bool \<times> (cont_error, unit) result" where
  "ensure_register managerID i w = (if map_of (cn_taskLease (cw_cont w)) managerID \<noteq> None then (w, False, Inr ())
     else if cn_closed (cw_cont w) then (w, False, Inl ContinuationClosed)
     else (with_cont (set_lease managerID i) w, True, Inr ()))"

definition ensureTaskLease :: "cont_env \<Rightarrow> string \<Rightarrow> ContinuationMapping \<Rightarrow> unit cont_step" where
  "ensureTaskLease ce managerID m w = (case ensure_enter managerID w of Some r \<Rightarrow> (w, r)
     | None \<Rightarrow> let ttl = continuationRemainingTTL (ce_now ce) m in
       if ttl \<le> 0 then (w, Inl ErrInvalidManagerTask)
       else (case acquire_task ce (cm_ServerID m) ttl w of (w1, Inl e) \<Rightarrow> (w1, Inl e)
         | (w1, Inr i) \<Rightarrow> (case ensure_register managerID i w1 of (w2, kept, r) \<Rightarrow>
             (if kept then w2 else release_lease (ce_life ce) i w2, r))))"

section \<open>Handlers\<close>

definition and_then :: "(cont_world \<Rightarrow> cont_world) \<Rightarrow> unit cont_step" where
  "and_then f w = (f w, Inr ())"

text \<open>The lease goes back when the step fails, or whatever the step does.\<close>

definition release_on_error :: "cont_env \<Rightarrow> nat \<Rightarrow> 'a cont_step \<Rightarrow> 'a cont_step" where
  "release_on_error ce i m w = (case m w of (w', Inl e) \<Rightarrow> (release_lease (ce_life ce) i w', Inl e) | (w', Inr x) \<Rightarrow> (w', Inr x))"

definition release_after :: "cont_env \<Rightarrow> nat \<Rightarrow> 'a cont_step \<Rightarrow> 'a cont_step" where
  "release_after ce i m w = (case m w of (w', r) \<Rightarrow> (release_lease (ce_life ce) i w', r))"

definition register_or_abort :: "cont_env \<Rightarrow> string \<Rightarrow> nat \<Rightarrow> unit cont_step" where
  "register_or_abort ce managerID i w = (case register_new managerID i w of (w1, stored) \<Rightarrow>
     if stored then (w1, Inr ()) else (delete_continuation ce managerID (release_lease (ce_life ce) i w1), Inl ContinuationClosed))"

definition task_mapping :: "cont_lib \<Rightarrow> string \<Rightarrow> string \<Rightarrow> Task \<Rightarrow> int option \<Rightarrow> continuation_in" where
  "task_mapping lib managerID serverID task expires = \<lparr>ci_ID = managerID, ci_Kind = ContinuationTask, ci_ServerID = serverID,
     ci_Payload = ct_task_payload lib \<lparr>tcp_DownstreamTaskID = tk_TaskID task, tcp_Status = tk_Status task\<rparr>,
     ci_CreatedAt = None, ci_ExpiresAt = expires\<rparr>"

definition proxyCreatedTask :: "cont_lib \<Rightarrow> cont_env \<Rightarrow> string \<Rightarrow> CreateTaskResult \<Rightarrow> tool_result cont_step" where
  "proxyCreatedTask lib ce serverID result = (let task = cr_Task result in
     step_bind (step_require (\<not> blank (tk_TaskID task)) ErrInvalidManagerTask) (\<lambda>_.
     step_bind (step_result (newOpaqueID ''task_'' (ce_rand ce 0))) (\<lambda>managerID.
     step_bind (acquire_task ce serverID (taskTTL (tk_TTLMS task))) (\<lambda>i.
     step_bind (\<lambda>w. release_on_error ce i (put_continuation lib ce (task_mapping lib managerID serverID task (ExpiresAt (cw_leases w ! i)))) w) (\<lambda>stored.
     step_bind (register_or_abort ce managerID i) (\<lambda>_.
     step_bind (and_then (installExpiryTimer managerID (continuationRemainingTTL (ce_now ce) stored))) (\<lambda>_.
     step_result (CallResultForTask lib (result\<lparr>cr_Task := task\<lparr>tk_TaskID := managerID\<rparr>\<rparr>)))))))))"

fun rewrite_links :: "cont_lib \<Rightarrow> cont_env \<Rightarrow> string \<Rightarrow> nat \<Rightarrow> content list \<Rightarrow> content list cont_step" where
  "rewrite_links lib ce serverID n [] = step_return []"
| "rewrite_links lib ce serverID n (OtherContent c # cs) =
     step_bind (rewrite_links lib ce serverID n cs) (\<lambda>cs'. step_return (OtherContent c # cs'))"
| "rewrite_links lib ce serverID n (ResourceLink uri rest # cs) =
     step_bind (step_result (newOpaqueID ''res_'' (ce_rand ce n))) (\<lambda>mappingID.
     step_bind (put_continuation lib ce \<lparr>ci_ID = mappingID, ci_Kind = ContinuationResource, ci_ServerID = serverID,
       ci_Payload = ct_resource_payload lib uri, ci_CreatedAt = None, ci_ExpiresAt = None\<rparr>) (\<lambda>_.
     step_bind (rewrite_links lib ce serverID (Suc n) cs) (\<lambda>cs' w.
     (w, Inr (ResourceLink (resourceURI lib (cw_cont w) mappingID) rest # cs')))))"

definition rewriteResourceLinks :: "cont_lib \<Rightarrow> cont_env \<Rightarrow> string \<Rightarrow> tool_result \<Rightarrow> tool_result cont_step" where
  "rewriteResourceLinks lib ce serverID res =
     step_bind (rewrite_links lib ce serverID 1 (tr_Content res)) (\<lambda>content. step_return (res\<lparr>tr_Content := content\<rparr>))"

definition ProcessCallResult :: "cont_lib \<Rightarrow> cont_env \<Rightarrow> string \<Rightarrow> tool_result option \<Rightarrow> tool_result option cont_step" where
  "ProcessCallResult lib ce serverID result = (case result of None \<Rightarrow> step_return None | Some res \<Rightarrow>
     step_bind (step_result (unwrapTaskResult lib res)) (\<lambda>task.
     step_bind (case task of Some t \<Rightarrow> proxyCreatedTask lib ce serverID t | None \<Rightarrow> rewriteResourceLinks lib ce serverID res) (\<lambda>out.
     step_return (Some out))))"

section \<open>Following a reference\<close>

definition read_continuation :: "cont_env \<Rightarrow> string \<Rightarrow> cont_world \<Rightarrow> cont_world \<times> (cat_error, string \<times> ContinuationMapping) result" where
  "read_continuation ce i w = (case Catalog_Continuation (ce_sql ce) (ce_now ce) i (cw_catalog w) of (db, r) \<Rightarrow> (w\<lparr>cw_catalog := db\<rparr>, r))"

definition resolveTask :: "cont_lib \<Rightarrow> cont_env \<Rightarrow> string \<Rightarrow> (string \<times> ContinuationMapping \<times> taskContinuationPayload) cont_step" where
  "resolveTask lib ce raw w = (let managerID = TrimSpace raw in
     if \<not> HasPrefix managerID ''task_'' then (w, Inl ErrInvalidManagerTask)
     else (case read_continuation ce managerID w of
       (w1, Inl e) \<Rightarrow> (w1, Inl ErrInvalidManagerTask)
     | (w1, Inr (i, m)) \<Rightarrow> (w1, if cm_Kind m \<noteq> ContinuationTask then Inl ErrInvalidManagerTask
         else (case decodeTaskContinuation lib m of None \<Rightarrow> Inl ErrInvalidManagerTask
           | Some p \<Rightarrow> if tcp_DownstreamTaskID p = [] \<or> taskTerminal (tcp_Status p) then Inl ErrInvalidManagerTask else Inr (i, m, p)))))"

text \<open>What the downstream session of a lease answers; the sessions that support tasks and resources.\<close>

record cont_answers =
  ca_tasks :: bool
  ca_resources :: bool
  ca_get :: "nat \<Rightarrow> string \<Rightarrow> (string, GetTaskResult option) result"
  ca_update :: "nat \<Rightarrow> string \<Rightarrow> json \<Rightarrow> (string, json) result"
  ca_cancel :: "nat \<Rightarrow> string \<Rightarrow> (string, json) result"
  ca_read :: "nat \<Rightarrow> string \<Rightarrow> (string, json) result"

definition call_lease :: "cont_env \<Rightarrow> nat \<Rightarrow> bool \<Rightarrow> string \<Rightarrow> (nat \<Rightarrow> (string, 'r) result) \<Rightarrow> 'r cont_step" where
  "call_lease ce i supported feature f w =
     (case lease_continuation (ce_life ce) (cw_life w) (cw_leases w ! i) supported feature f of
        (sv, Inl e) \<Rightarrow> (w\<lparr>cw_life := sv\<rparr>, Inl (ContLife e))
      | (sv, Inr (Inl e)) \<Rightarrow> (w\<lparr>cw_life := sv\<rparr>, Inl (ContDownstream e))
      | (sv, Inr (Inr x)) \<Rightarrow> (w\<lparr>cw_life := sv\<rparr>, Inr x))"

definition rewrite_final :: "cont_lib \<Rightarrow> cont_env \<Rightarrow> string \<Rightarrow> GetTaskResult \<Rightarrow> GetTaskResult cont_step" where
  "rewrite_final lib ce serverID res = (if gt_Result res = [] then step_return res
     else (case ct_read_tool lib (gt_Result res) of None \<Rightarrow> step_return res
       | Some final \<Rightarrow> step_bind (rewriteResourceLinks lib ce serverID final) (\<lambda>rewritten.
           step_return (case ct_tool lib rewritten of None \<Rightarrow> res | Some body \<Rightarrow> res\<lparr>gt_Result := body\<rparr>))))"

text \<open>\<^verbatim>\<open>updateTaskStatus\<close> changes nothing (mappings are immutable) and is left out.\<close>

definition GetTask :: "cont_lib \<Rightarrow> cont_env \<Rightarrow> cont_answers \<Rightarrow> string \<Rightarrow> GetTaskResult cont_step" where
  "GetTask lib ce an managerID =
     step_bind (resolveTask lib ce managerID) (\<lambda>(i, m, p).
     step_bind (ensureTaskLease ce i m) (\<lambda>_.
     step_bind (acquire_use ce (cm_ServerID m)) (\<lambda>l.
     step_bind (release_after ce l (call_lease ce l (ca_tasks an) ''tasks'' (\<lambda>s. ca_get an s (tcp_DownstreamTaskID p)))) (\<lambda>answer.
     step_bind (step_some NilTaskResult answer) (\<lambda>res.
     step_bind (rewrite_final lib ce (cm_ServerID m) (res\<lparr>gt_Task := (gt_Task res)\<lparr>tk_TaskID := managerID\<rparr>\<rparr>)) (\<lambda>out.
     step_bind (and_then (if taskTerminal (tk_Status (gt_Task out)) then finishTask ce managerID else id)) (\<lambda>_.
     step_return out)))))))"

definition UpdateTask :: "cont_lib \<Rightarrow> cont_env \<Rightarrow> cont_answers \<Rightarrow> string \<Rightarrow> json \<Rightarrow> json cont_step" where
  "UpdateTask lib ce an managerID responses =
     step_bind (resolveTask lib ce managerID) (\<lambda>(i, m, p).
     step_bind (ensureTaskLease ce i m) (\<lambda>_.
     step_bind (acquire_use ce (cm_ServerID m)) (\<lambda>l.
     release_after ce l (call_lease ce l (ca_tasks an) ''tasks'' (\<lambda>s. ca_update an s (tcp_DownstreamTaskID p) responses)))))"

text \<open>After a successful cancellation the task is polled once; a failing poll does not matter.\<close>

definition cancel_poll :: "cont_env \<Rightarrow> cont_answers \<Rightarrow> string \<Rightarrow> nat \<Rightarrow> string \<Rightarrow> unit cont_step" where
  "cancel_poll ce an managerID l downstreamID w =
     (case call_lease ce l (ca_tasks an) ''tasks'' (\<lambda>s. ca_get an s downstreamID) w of
        (w1, Inr (Some state)) \<Rightarrow> ((if taskTerminal (tk_Status (gt_Task state)) then finishTask ce managerID w1 else w1), Inr ())
      | (w1, _) \<Rightarrow> (w1, Inr ()))"

definition CancelTask :: "cont_lib \<Rightarrow> cont_env \<Rightarrow> cont_answers \<Rightarrow> string \<Rightarrow> json cont_step" where
  "CancelTask lib ce an managerID =
     step_bind (resolveTask lib ce managerID) (\<lambda>(i, m, p).
     step_bind (ensureTaskLease ce i m) (\<lambda>_.
     step_bind (acquire_use ce (cm_ServerID m)) (\<lambda>l.
     release_after ce l (
       step_bind (call_lease ce l (ca_tasks an) ''tasks'' (\<lambda>s. ca_cancel an s (tcp_DownstreamTaskID p))) (\<lambda>res.
       step_bind (cancel_poll ce an managerID l (tcp_DownstreamTaskID p)) (\<lambda>_. step_return res))))))"

definition resource_mapping :: "cont_lib \<Rightarrow> cont_env \<Rightarrow> string \<Rightarrow> (ContinuationMapping \<times> string) cont_step" where
  "resource_mapping lib ce mappingID w = (case read_continuation ce mappingID w of
     (w1, Inl e) \<Rightarrow> (w1, Inl ErrInvalidManagerResource)
   | (w1, Inr (i, m)) \<Rightarrow> (w1, if cm_Kind m \<noteq> ContinuationResource then Inl ErrInvalidManagerResource
       else (case ct_read_resource_payload lib (cm_Payload m) of None \<Rightarrow> Inl ErrInvalidManagerResource
         | Some uri \<Rightarrow> if blank uri then Inl ErrInvalidManagerResource else Inr (m, uri))))"

definition ReadResource :: "cont_lib \<Rightarrow> cont_env \<Rightarrow> cont_answers \<Rightarrow> string \<Rightarrow> json cont_step" where
  "ReadResource lib ce an managerURI =
     step_bind (\<lambda>w. (w, validateResourceURI lib (cw_cont w) managerURI)) (\<lambda>mappingID.
     step_bind (resource_mapping lib ce mappingID) (\<lambda>(m, uri).
     step_bind (acquire_use ce (cm_ServerID m)) (\<lambda>l.
     release_after ce l (call_lease ce l (ca_resources an) ''resources/read'' (\<lambda>s. ca_read an s uri)))))"

section \<open>Starting\<close>

text \<open>A durable task gets its lease back when its server answers; otherwise the mapping stays and the next operation tries again.\<close>

definition restore_task :: "cont_lib \<Rightarrow> cont_env \<Rightarrow> string \<times> ContinuationMapping \<Rightarrow> cont_world \<Rightarrow> cont_world" where
  "restore_task lib ce x w = (case x of (i, m) \<Rightarrow> let ttl = continuationRemainingTTL (ce_now ce) m in
     if (case decodeTaskContinuation lib m of None \<Rightarrow> True | Some p \<Rightarrow> taskTerminal (tcp_Status p)) \<or> ttl \<le> 0
     then delete_continuation ce i w
     else (case acquire_task ce (cm_ServerID m) ttl w of
         (w1, Inl e) \<Rightarrow> installExpiryTimer i ttl w1
       | (w1, Inr l) \<Rightarrow> installExpiryTimer i ttl (with_cont (set_lease i l) w1)))"

definition newContinuationService :: "cont_lib \<Rightarrow> cont_env \<Rightarrow> string \<Rightarrow> catalog \<times> Service \<Rightarrow> cont_world \<times> (cont_error, unit) result" where
  "newContinuationService lib ce key p = (case p of (db, sv) \<Rightarrow>
     let w = \<lparr>cw_cont = \<lparr>cn_signing = key, cn_taskLease = [], cn_timers = [], cn_closed = False\<rparr>, cw_leases = [], cw_life = sv, cw_catalog = db\<rparr> in
     if length key < 32 then (w, Inl SigningKeyTooShort)
     else (case DeleteExpiredContinuations (ce_sql ce) (ce_now ce) db of Inl e \<Rightarrow> (w, Inl (ContCatalog e))
       | Inr (db1, n) \<Rightarrow> let w1 = w\<lparr>cw_catalog := db1\<rparr> in
         (case Continuations (ce_sql ce) (ce_now ce) ContinuationTask db1 of Inl e \<Rightarrow> (w1, Inl (ContCatalog e))
          | Inr mappings \<Rightarrow> (fold (restore_task lib ce) mappings w1, Inr ()))))"

text \<open>The expiry timer of a task.\<close>

definition expiry_fires :: "cont_env \<Rightarrow> string \<Rightarrow> cont_world \<Rightarrow> cont_world" where
  "expiry_fires ce managerID w = (if managerID \<in> set (cn_timers (cw_cont w)) then finishTask ce managerID w else w)"

end
