(* ===== verification/ContinuationFacts.thy ===== *)
theory ContinuationFacts
  imports Continuation LifecycleRun
begin

text \<open>
  The continuation service: every lease it takes is given back on every path, in every interleaving of its critical
  sections with the lifecycle's other clients; references lead back to what they were made for.
\<close>

section \<open>Critical sections\<close>

lemma with_cont_simps [simp]:
  "cw_cont (with_cont f w) = f (cw_cont w)" "cw_leases (with_cont f w) = cw_leases w"
  "cw_life (with_cont f w) = cw_life w" "cw_catalog (with_cont f w) = cw_catalog w"
  by (simp_all add: with_cont_def)

text \<open>
  \<open>fl\<close> holds the leases in the hands of running handlers, \<open>os\<close> the leases of the lifecycle's other clients. Every lease
  that is not released is in flight or in the service's map, and a closed service keeps nothing.
\<close>

definition lease_owned :: "cont_world \<Rightarrow> nat list \<Rightarrow> bool" where
  "lease_owned w fl \<longleftrightarrow> (\<forall>i < length (cw_leases w). ul_released (cw_leases w ! i) \<or> i \<in> set fl \<or> i \<in> snd ` set (cn_taskLease (cw_cont w)))"

definition cont_ok :: "UseLease list \<Rightarrow> cont_world \<Rightarrow> nat list \<Rightarrow> bool" where
  "cont_ok os w fl \<longleftrightarrow> run_ok (cw_life w) (os @ cw_leases w) \<and> lease_owned w fl \<and>
     set fl \<union> snd ` set (cn_taskLease (cw_cont w)) \<subseteq> {..< length (cw_leases w)} \<and>
     distinct (map fst (cn_taskLease (cw_cont w))) \<and>
     (cn_closed (cw_cont w) \<longrightarrow> cn_taskLease (cw_cont w) = [] \<and> cn_timers (cw_cont w) = [])"

inductive cont_run :: "cont_world \<Rightarrow> nat list \<Rightarrow> UseLease list \<Rightarrow> bool" where
  started: "service_run sv os \<Longrightarrow>
    cont_run \<lparr>cw_cont = \<lparr>cn_signing = key, cn_taskLease = [], cn_timers = [], cn_closed = False\<rparr>, cw_leases = [], cw_life = sv, cw_catalog = db\<rparr> [] os"
| acquired: "cont_run w fl os \<Longrightarrow> acquire_use ce k w = (w', Inr i) \<Longrightarrow> cont_run w' (i # fl) os"
| refused: "cont_run w fl os \<Longrightarrow> acquire_use ce k w = (w', Inl e) \<Longrightarrow> cont_run w' fl os"
| acquired_task: "cont_run w fl os \<Longrightarrow> acquire_task ce k ttl w = (w', Inr i) \<Longrightarrow> cont_run w' (i # fl) os"
| refused_task: "cont_run w fl os \<Longrightarrow> acquire_task ce k ttl w = (w', Inl e) \<Longrightarrow> cont_run w' fl os"
| registered: "cont_run w (i # fl) os \<Longrightarrow> register_new managerID i w = (w', True) \<Longrightarrow>
    map_of (cn_taskLease (cw_cont w)) managerID = None \<Longrightarrow> cont_run w' fl os"
| ensured: "cont_run w (i # fl) os \<Longrightarrow> ensure_register managerID i w = (w', True, r) \<Longrightarrow> cont_run w' fl os"
| released: "cont_run w (i # fl) os \<Longrightarrow> cont_run (release_lease en i w) fl os"
| lease_expired: "cont_run w fl os \<Longrightarrow> i < length (cw_leases w) \<Longrightarrow> ul_task (cw_leases w ! i) \<noteq> None \<Longrightarrow> cont_run (release_lease en i w) fl os"
| finished: "cont_run w fl os \<Longrightarrow> finish_detach managerID w = (w', None) \<Longrightarrow> cont_run w' fl os"
| finished_lease: "cont_run w fl os \<Longrightarrow> finish_detach managerID w = (w', Some i) \<Longrightarrow> cont_run w' (i # fl) os"
| closing: "cont_run w fl os \<Longrightarrow> close_detach w = (w', held) \<Longrightarrow> cont_run w' (held @ fl) os"
| timer: "cont_run w fl os \<Longrightarrow> cont_run (installExpiryTimer managerID ttl w) fl os"
| stored: "cont_run w fl os \<Longrightarrow> cont_run (w\<lparr>cw_catalog := db\<rparr>) fl os"
| called: "cont_run w fl os \<Longrightarrow> i \<in> set fl \<Longrightarrow> call_lease ce i supported feature (f :: nat \<Rightarrow> (string, json) result) w = (w', r) \<Longrightarrow> cont_run w' fl os"
| reordered: "cont_run w fl os \<Longrightarrow> set fl = set fl' \<Longrightarrow> cont_run w fl' os"
| others: "cont_run w fl os \<Longrightarrow> service_act (cw_life w) os sv' os' \<Longrightarrow> cont_run (w\<lparr>cw_life := sv'\<rparr>) fl os'"

section \<open>Accounting\<close>

lemma run_ok_swap: "run_ok sv (l # os @ ls) \<longleftrightarrow> run_ok sv (os @ ls @ [l])"
  by (rule run_ok_perm) simp

lemma life_acquired:
  "run_ok sv (os @ ls) \<Longrightarrow> Acquire en connect locked sv k = (sv', Inr l) \<Longrightarrow> run_ok sv' (os @ ls @ [l])"
  "run_ok sv (os @ ls) \<Longrightarrow> AcquireTaskLease en connect locked sv k ttl = (sv', Inr l) \<Longrightarrow> run_ok sv' (os @ ls @ [l])"
  using run_ok_acquired run_ok_acquired_task by (simp_all add: run_ok_swap [symmetric])

lemma life_refused:
  "run_ok sv ls \<Longrightarrow> AcquireTaskLease en connect locked sv k ttl = (sv', Inl e) \<Longrightarrow> run_ok sv' ls"
  using run_ok_act [OF service_act.refused_task, of en connect locked sv k ttl sv' e "[]" ls] by simp

lemma life_released:
  assumes "run_ok sv (os @ ls)" and "i < length ls" and "Release en sv (ls ! i) = (sv', l)"
  shows "run_ok sv' (os @ ls[i := l])"
proof -
  have "os @ ls = (os @ take i ls) @ ls ! i # drop (Suc i) ls" using assms(2) by (simp add: id_take_nth_drop [symmetric])
  then have "run_ok sv' ((os @ take i ls) @ l # drop (Suc i) ls)" using assms by (intro run_ok_release [OF _ assms(3)]) simp
  then show ?thesis using assms(2) by (simp add: upd_conv_take_nth_drop)
qed

lemma Release_released: "Release en sv l = (sv', l') \<Longrightarrow> ul_released l'"
  by (auto simp: Release_def split: if_splits)

lemma others_run_ok:
  assumes "run_ok sv (os @ ls)" and "service_act sv os sv' os'" shows "run_ok sv' (os' @ ls)"
proof -
  have "run_ok sv (ls @ os)" using assms(1) run_ok_perm [of "os @ ls" "ls @ os"] by simp
  then have "run_ok sv' (ls @ os')" by (rule run_ok_act [OF assms(2)])
  then show ?thesis using run_ok_perm [of "os' @ ls" "ls @ os'"] by simp
qed

lemma cont_ok_acquired:
  assumes "cont_ok os w fl" and "run_ok sv (os @ cw_leases w @ [l])"
  shows "cont_ok os (w\<lparr>cw_life := sv, cw_leases := cw_leases w @ [l]\<rparr>) (length (cw_leases w) # fl)"
  using assms by (auto simp: cont_ok_def lease_owned_def nth_append less_Suc_eq subset_iff)

lemma cont_ok_life: "cont_ok os w fl \<Longrightarrow> run_ok sv (os' @ cw_leases w) \<Longrightarrow> cont_ok os' (w\<lparr>cw_life := sv\<rparr>) fl"
  by (simp add: cont_ok_def lease_owned_def)

lemma cont_ok_release:
  assumes "cont_ok os w (i # fl)" shows "cont_ok os (release_lease en i w) fl"
proof -
  obtain sv l where R: "Release en (cw_life w) (cw_leases w ! i) = (sv, l)" by fastforce
  have i: "i < length (cw_leases w)" and ok: "run_ok (cw_life w) (os @ cw_leases w)" using assms by (auto simp: cont_ok_def)
  have "ul_released l" using R by (rule Release_released)
  with assms i show ?thesis
    using life_released [OF ok i R] R by (auto simp: release_lease_def cont_ok_def lease_owned_def nth_list_update)
qed

lemma cont_ok_more: "cont_ok os w fl \<Longrightarrow> i < length (cw_leases w) \<Longrightarrow> cont_ok os w (i # fl)"
  by (auto simp: cont_ok_def lease_owned_def)

text \<open>Moving leases between the handlers and the map.\<close>

abbreviation kept :: "cont_world \<Rightarrow> nat set" where
  "kept w \<equiv> snd ` set (cn_taskLease (cw_cont w))"

lemma cont_ok_moved:
  assumes "cont_ok os w fl" and "cw_life w' = cw_life w" and "cw_leases w' = cw_leases w"
    and "set fl' \<union> kept w' = set fl \<union> kept w" and "distinct (map fst (cn_taskLease (cw_cont w')))"
    and "cn_closed (cw_cont w') \<longrightarrow> cn_taskLease (cw_cont w') = [] \<and> cn_timers (cw_cont w') = []"
  shows "cont_ok os w' fl'"
  using assms(1,5,6) unfolding cont_ok_def lease_owned_def assms(2-4) Un_iff [symmetric] by blast

lemma set_alist_put_new: "map_of m k = None \<Longrightarrow> set (alist_put k v m) = insert (k, v) (set m)"
  by (induction k v m rule: alist_put.induct) (auto split: if_splits)

lemma cont_ok_set_lease:
  assumes ok: "cont_ok os w (i # fl)" and "\<not> cn_closed (cw_cont w)" and new: "map_of (cn_taskLease (cw_cont w)) managerID = None"
  shows "cont_ok os (with_cont (set_lease managerID i) w) fl"
proof (rule cont_ok_moved [OF ok])
  show "set fl \<union> kept (with_cont (set_lease managerID i) w) = set (i # fl) \<union> kept w"
    by (auto simp: set_lease_def set_alist_put_new [OF new])
qed (use assms in \<open>auto simp: set_lease_def cont_ok_def\<close>)

lemma kept_split:
  assumes "distinct (map fst m)" shows "snd ` set m = set_option (map_of m k) \<union> snd ` set (alist_del k m)"
proof
  show "snd ` set m \<subseteq> set_option (map_of m k) \<union> snd ` set (alist_del k m)"
  proof
    fix i assume "i \<in> snd ` set m"
    then obtain k' where k: "(k', i) \<in> set m" by auto
    then show "i \<in> set_option (map_of m k) \<union> snd ` set (alist_del k m)"
      using map_of_is_SomeI [OF assms k] by (cases "k' = k") (force simp: alist_del_def)+
  qed
  show "set_option (map_of m k) \<union> snd ` set (alist_del k m) \<subseteq> snd ` set m"
    by (auto simp: alist_del_def) (force dest: map_of_SomeD)
qed

lemma cont_ok_finish:
  assumes ok: "cont_ok os w fl" and "finish_detach managerID w = (w', held)"
  shows "cont_ok os w' (case held of None \<Rightarrow> fl | Some i \<Rightarrow> i # fl)"
proof -
  have d: "distinct (map fst (cn_taskLease (cw_cont w)))" using ok by (simp add: cont_ok_def)
  have w': "w' = fst (finish_detach managerID w)" and h: "held = map_of (cn_taskLease (cw_cont w)) managerID"
    using assms(2) by (auto simp: finish_detach_def)
  show ?thesis
  proof (rule cont_ok_moved [OF ok])
    show "set (case held of None \<Rightarrow> fl | Some i \<Rightarrow> i # fl) \<union> kept w' = set fl \<union> kept w"
      using kept_split [OF d, of managerID] by (auto simp: w' h finish_detach_def split: option.splits)
  qed (use d ok in \<open>auto simp: w' finish_detach_def cont_ok_def alist_del_def [of _ "[]"]\<close>)
qed

lemma cont_ok_close:
  assumes ok: "cont_ok os w fl" and "close_detach w = (w', held)" shows "cont_ok os w' (held @ fl)"
proof (cases "cn_closed (cw_cont w)")
  case True
  then show ?thesis using assms by (auto simp: close_detach_def)
next
  case False
  then have w': "w' = with_cont (\<lambda>s. s\<lparr>cn_closed := True, cn_taskLease := [], cn_timers := []\<rparr>) w"
    and h: "held = map snd (cn_taskLease (cw_cont w))" using assms(2) by (auto simp: close_detach_def)
  show ?thesis by (rule cont_ok_moved [OF ok]) (simp_all add: w' h Un_commute)
qed

lemma cont_run_ok: "cont_run w fl os \<Longrightarrow> cont_ok os w fl"
proof (induction rule: cont_run.induct)
  case (started sv os key db)
  then show ?case using service_run_ok by (auto simp: cont_ok_def lease_owned_def)
next
  case (acquired w fl os ce k w' i)
  then show ?case using life_acquired(1) cont_ok_acquired
    by (auto simp: acquire_use_def cont_ok_def [of _ w] split: prod.splits sum.splits)
next
  case (refused w fl os ce k w' e)
  then show ?case using run_ok_refused cont_ok_life
    by (auto simp: acquire_use_def cont_ok_def [of _ w] split: prod.splits sum.splits)
next
  case (acquired_task w fl os ce k ttl w' i)
  then show ?case using life_acquired(2) cont_ok_acquired
    by (auto simp: acquire_task_def cont_ok_def [of _ w] split: prod.splits sum.splits)
next
  case (refused_task w fl os ce k ttl w' e)
  then show ?case using life_refused cont_ok_life
    by (auto simp: acquire_task_def cont_ok_def [of _ w] split: prod.splits sum.splits)
next
  case (registered w i fl os managerID w')
  then show ?case using cont_ok_set_lease by (auto simp: register_new_def split: if_splits)
next
  case (ensured w i fl os managerID w' r)
  then show ?case using cont_ok_set_lease by (auto simp: ensure_register_def split: if_splits)
next
  case (released w i fl os en)
  then show ?case by (intro cont_ok_release)
next
  case (lease_expired w fl os i en)
  then show ?case by (intro cont_ok_release cont_ok_more)
next
  case (finished w fl os managerID w')
  then show ?case using cont_ok_finish by fastforce
next
  case (finished_lease w fl os managerID w' i)
  then show ?case using cont_ok_finish by fastforce
next
  case (closing w fl os w' held)
  then show ?case using cont_ok_close by blast
next
  case (timer w fl os managerID ttl)
  then show ?case by (auto simp: installExpiryTimer_def cont_ok_def lease_owned_def)
next
  case (stored w fl os db)
  then show ?case by (simp add: cont_ok_def lease_owned_def)
next
  case (called w fl os i ce supported feature f w' r)
  let ?l = "cw_leases w ! i"
  have i: "i < length (cw_leases w)" and ok: "run_ok (cw_life w) (os @ cw_leases w)" using called by (auto simp: cont_ok_def)
  have b: "sv_ok (cw_life w)" "ul_released ?l \<or> ul_state ?l < length (sv_heap (cw_life w))"
    using run_ok_lease [OF ok, of ?l] i by auto
  obtain sv x where C: "lease_continuation (ce_life ce) (cw_life w) ?l supported feature f = (sv, x)" by fastforce
  then have "run_ok sv (os @ cw_leases w)" using run_ok_quiet [OF ok quiet_continuation [OF b]] by (metis fst_conv)
  then have "cont_ok os (w\<lparr>cw_life := sv\<rparr>) fl" using called.IH by (rule cont_ok_life [rotated])
  then show ?case using called.hyps(3) C by (auto simp: call_lease_def split: sum.splits)
next
  case (reordered w fl os fl')
  then show ?case by (simp add: cont_ok_def lease_owned_def)
next
  case (others w fl os sv' os')
  then show ?case using others_run_ok cont_ok_life by (auto simp: cont_ok_def [of _ w])
qed

lemma quiescent_released: "cont_run w [] os \<Longrightarrow> cn_closed (cw_cont w) \<Longrightarrow> list_all ul_released (cw_leases w)"
  using cont_run_ok [of w "[]" os] by (auto simp: cont_ok_def lease_owned_def list_all_length)

lemma live_at_released: "list_all ul_released ls \<Longrightarrow> live_at ls p = 0"
  by (induction ls) auto

text \<open>
  (C8) Once the continuation service is closed and no handler is running, every lease it ever took has been released, in
  every interleaving of its critical sections with its timers, the lifecycle's lease expiry and the lifecycle's other clients:
  the calls the lifecycle counts at a server are exactly those of the other clients.
\<close>

theorem closed_service_holds_no_lease:
  assumes "cont_run w [] os" and "cn_closed (cw_cont w)" and "p < length (sv_heap (cw_life w))"
  shows "list_all ul_released (cw_leases w) \<and> ss_active (get_state (cw_life w) p) = live_at os p"
proof -
  have r: "list_all ul_released (cw_leases w)" using assms(1,2) by (rule quiescent_released)
  have "leases_at (cw_life w) p = live_at (os @ cw_leases w) p" using cont_run_ok [OF assms(1)] by (simp add: cont_ok_def run_ok_def)
  then show ?thesis using r assms(3) by (simp add: leases_at_def live_at_released)
qed

section \<open>Handlers\<close>

text \<open>
  \<open>keeps m\<close>: an operation is a sequence of critical sections that leaves no lease in the hands of its caller. \<open>uses l m\<close>: it
  works on a lease its caller holds. \<open>spends l m\<close>: it takes that lease over.
\<close>

definition keeps :: "'a cont_step \<Rightarrow> bool" where
  "keeps m \<longleftrightarrow> (\<forall>w fl os. cont_run w fl os \<longrightarrow> cont_run (fst (m w)) fl os)"

definition uses :: "nat \<Rightarrow> 'a cont_step \<Rightarrow> bool" where
  "uses l m \<longleftrightarrow> (\<forall>w fl os. l \<in> set fl \<longrightarrow> cont_run w fl os \<longrightarrow> cont_run (fst (m w)) fl os)"

definition spends :: "nat \<Rightarrow> 'a cont_step \<Rightarrow> bool" where
  "spends l m \<longleftrightarrow> (\<forall>w fl os. cont_run w (l # fl) os \<longrightarrow> cont_run (fst (m w)) fl os)"

named_theorems keeps_intros

lemma keeps_uses [keeps_intros]: "keeps m \<Longrightarrow> uses l m"
  by (simp add: keeps_def uses_def)

lemma step_bind_outcome:
  obtains (fails) s1 e where "m s = (s1, Inl e)" "step_bind m f s = (s1, Inl e)"
  | (goes_on) s1 x where "m s = (s1, Inr x)" "step_bind m f s = f x s1"
proof -
  obtain s1 r where "m s = (s1, r)" by fastforce
  then show thesis using fails goes_on by (cases r) (auto simp: step_bind_def)
qed

lemma keeps_bind [keeps_intros]:
  assumes "keeps m" and "\<And>x. keeps (f x)" shows "keeps (step_bind m f)"
  unfolding keeps_def
proof (intro allI impI)
  fix w fl os assume "cont_run w fl os"
  then have "cont_run (fst (m w)) fl os" using assms(1) by (auto simp: keeps_def)
  then show "cont_run (fst (step_bind m f w)) fl os"
    using assms(2) by (cases rule: step_bind_outcome [of m w f]) (auto simp: keeps_def)
qed

lemma uses_bind [keeps_intros]:
  assumes "uses l m" and "\<And>x. uses l (f x)" shows "uses l (step_bind m f)"
  unfolding uses_def
proof (intro allI impI)
  fix w fl os assume l: "l \<in> set fl" and "cont_run w fl os"
  then have "cont_run (fst (m w)) fl os" using assms(1) by (auto simp: uses_def)
  then show "cont_run (fst (step_bind m f w)) fl os"
    using assms(2) l by (cases rule: step_bind_outcome [of m w f]) (auto simp: uses_def)
qed

lemma keeps_pure [keeps_intros]:
  "keeps (step_return x)" "keeps (step_require b e)" "keeps (step_some e r)" "keeps (step_result y)" "keeps (\<lambda>w. (w, g w))"
  by (simp_all add: keeps_def step_return_def step_require_def step_some_def step_result_def)

lemma keeps_split [keeps_intros]:
  "keeps m \<Longrightarrow> (\<And>x. keeps (f x)) \<Longrightarrow> keeps (case o' of None \<Rightarrow> m | Some x \<Rightarrow> f x)"
  "(\<And>a b. keeps (g a b)) \<Longrightarrow> keeps (case p of (a, b) \<Rightarrow> g a b)"
  "keeps m \<Longrightarrow> keeps m' \<Longrightarrow> keeps (if b then m else m')"
  by (auto split: option.split prod.split)

lemma keeps_and_then [keeps_intros]:
  "(\<And>w fl os. cont_run w fl os \<Longrightarrow> cont_run (f w) fl os) \<Longrightarrow> keeps (and_then f)"
  by (simp add: keeps_def and_then_def)

lemma keeps_catalog: "(\<And>w. fst (m w) = w \<or> (\<exists>db. fst (m w) = w\<lparr>cw_catalog := db\<rparr>)) \<Longrightarrow> keeps m"
  unfolding keeps_def by (metis cont_run.stored)

lemma keeps_put [keeps_intros]: "keeps (put_continuation lib ce m)"
  by (rule keeps_catalog) (auto simp: put_continuation_def on_catalog_def split: prod.splits sum.splits)

lemma keeps_resolve [keeps_intros]: "keeps (resolveTask lib ce raw)"
  by (rule keeps_catalog) (auto simp: resolveTask_def read_continuation_def Let_def split: prod.splits sum.splits)

lemma keeps_resource_mapping [keeps_intros]: "keeps (resource_mapping lib ce i)"
  by (rule keeps_catalog) (auto simp: resource_mapping_def read_continuation_def split: prod.splits sum.splits)

lemma run_delete: "cont_run w fl os \<Longrightarrow> cont_run (delete_continuation ce i w) fl os"
  by (auto simp: delete_continuation_def intro: cont_run.stored split: sum.split)

lemma run_finishTask: assumes "cont_run w fl os" shows "cont_run (finishTask ce managerID w) fl os"
proof -
  obtain w1 held where D: "finish_detach managerID w = (w1, held)" by fastforce
  show ?thesis
  proof (cases held)
    case None
    then show ?thesis using D cont_run.finished [OF assms, of managerID w1] by (simp add: finishTask_def run_delete)
  next
    case (Some i)
    then show ?thesis using D cont_run.finished_lease [OF assms, of managerID w1 i]
      by (simp add: finishTask_def run_delete cont_run.released)
  qed
qed

lemma run_expiry: "cont_run w fl os \<Longrightarrow> cont_run (expiry_fires ce managerID w) fl os"
  by (simp add: expiry_fires_def run_finishTask)

lemma run_release_all: "cont_run w (held @ fl) os \<Longrightarrow> cont_run (fold (release_lease en) held w) fl os"
  by (induction held arbitrary: w) (auto intro: cont_run.released)

lemma run_Close: "cont_run w fl os \<Longrightarrow> cont_run (Cont_Close ce w) fl os"
  by (auto simp: Cont_Close_def intro!: run_release_all cont_run.closing split: prod.split)

lemma call_lease_world:
  "fst (call_lease ce i supported feature f w) = fst (call_lease ce i supported feature (\<lambda>_. Inl [] :: (string, json) result) w)"
  by (auto simp: call_lease_def lease_continuation_def Let_def split: prod.splits sum.splits option.splits)

lemma uses_call [keeps_intros]: "uses i (call_lease ce i supported feature f)"
  unfolding uses_def
proof (intro allI impI)
  fix w fl os assume "i \<in> set fl" "cont_run w fl os"
  then show "cont_run (fst (call_lease ce i supported feature f w)) fl os"
    unfolding call_lease_world [of ce i supported feature f w] by (metis cont_run.called prod.collapse)
qed

lemma spends_release_after [keeps_intros]: "uses l m \<Longrightarrow> spends l (release_after ce l m)"
  unfolding spends_def uses_def release_after_def
  by (metis (no_types, lifting) case_prod_beta cont_run.released fst_conv list.set_intros(1))

lemma spends_bind [keeps_intros]:
  assumes "spends l m" and "\<And>x. keeps (f x)" shows "spends l (step_bind m f)"
  unfolding spends_def
proof (intro allI impI)
  fix w fl os assume "cont_run w (l # fl) os"
  then have "cont_run (fst (m w)) fl os" using assms(1) by (auto simp: spends_def)
  then show "cont_run (fst (step_bind m f w)) fl os"
    using assms(2) by (cases rule: step_bind_outcome [of m w f]) (auto simp: keeps_def)
qed

lemma keeps_acquire [keeps_intros]:
  assumes "\<And>l. spends l (f l)" shows "keeps (step_bind (acquire_use ce k) f)"
  unfolding keeps_def
proof (intro allI impI)
  fix w fl os assume r: "cont_run w fl os"
  show "cont_run (fst (step_bind (acquire_use ce k) f w)) fl os"
  proof (cases rule: step_bind_outcome [of "acquire_use ce k" w f])
    case (fails s1 e)
    then show ?thesis using cont_run.refused [OF r] by simp
  next
    case (goes_on s1 l)
    then show ?thesis using cont_run.acquired [OF r] assms by (auto simp: spends_def)
  qed
qed

lemma keeps_ensure [keeps_intros]: "keeps (ensureTaskLease ce managerID m)"
  unfolding keeps_def
proof (intro allI impI)
  fix w fl os assume r: "cont_run w fl os"
  let ?ttl = "continuationRemainingTTL (ce_now ce) m"
  obtain w1 a where A: "acquire_task ce (cm_ServerID m) ?ttl w = (w1, a)" by fastforce
  show "cont_run (fst (ensureTaskLease ce managerID m w)) fl os"
  proof (cases a)
    case (Inl e)
    then show ?thesis using r cont_run.refused_task [OF r A [unfolded Inl]] A
      by (simp add: ensureTaskLease_def Let_def split: option.split)
  next
    case (Inr i)
    note r1 = cont_run.acquired_task [OF r A [unfolded Inr]]
    obtain w2 kept' x where E: "ensure_register managerID i w1 = (w2, kept', x)" by (metis prod_cases3)
    have "cont_run (if kept' then w2 else release_lease (ce_life ce) i w2) fl os"
    proof (cases kept')
      case True
      then show ?thesis using cont_run.ensured [OF r1, of managerID w2] E by simp
    next
      case False
      then have "w2 = w1" using E by (auto simp: ensure_register_def split: if_splits)
      then show ?thesis using False cont_run.released [OF r1] by simp
    qed
    then show ?thesis using r A Inr E by (simp add: ensureTaskLease_def Let_def split: option.split)
  qed
qed

lemma uses_cancel_poll [keeps_intros]: "uses l (cancel_poll ce an managerID l d)"
proof -
  have "fst (cancel_poll ce an managerID l d w) = (case call_lease ce l (ca_tasks an) ''tasks'' (\<lambda>s. ca_get an s d) w of
    (w1, r) \<Rightarrow> if \<exists>state. r = Inr (Some state) \<and> taskTerminal (tk_Status (gt_Task state)) then finishTask ce managerID w1 else w1)" for w
    by (auto simp: cancel_poll_def split: prod.splits sum.splits option.splits)
  then show ?thesis
    using uses_call [of l ce "ca_tasks an" "''tasks''" "\<lambda>s. ca_get an s d"]
    by (auto simp: uses_def run_finishTask case_prod_beta)
qed

lemma keeps_rewrite_links [keeps_intros]: "keeps (rewrite_links lib ce serverID n cs)"
  by (induction lib ce serverID n cs rule: rewrite_links.induct) (auto intro!: keeps_intros)

lemma keeps_rewrite [keeps_intros]: "keeps (rewriteResourceLinks lib ce serverID res)"
  unfolding rewriteResourceLinks_def by (intro keeps_intros)

lemma keeps_rewrite_final [keeps_intros]: "keeps (rewrite_final lib ce serverID res)"
  unfolding rewrite_final_def by (intro keeps_intros)

lemma keeps_GetTask: "keeps (GetTask lib ce an managerID)"
  unfolding GetTask_def by (intro keeps_intros) (auto simp: run_finishTask)

lemma keeps_UpdateTask: "keeps (UpdateTask lib ce an managerID responses)"
  unfolding UpdateTask_def by (intro keeps_intros)

lemma keeps_CancelTask: "keeps (CancelTask lib ce an managerID)"
  unfolding CancelTask_def by (intro keeps_intros)

lemma keeps_ReadResource: "keeps (ReadResource lib ce an uri)"
  unfolding ReadResource_def by (intro keeps_intros)

text \<open>A new task: its lease is taken over by the map, or released on every error path. The random ID is not in use.\<close>

definition fresh_task :: "cont_env \<Rightarrow> cont_world \<Rightarrow> bool" where
  "fresh_task ce w \<longleftrightarrow> (case newOpaqueID ''task_'' (ce_rand ce 0) of Inl e \<Rightarrow> True | Inr i \<Rightarrow> map_of (cn_taskLease (cw_cont w)) i = None)"

lemma put_world: "cw_cont (fst (put_continuation lib ce m w)) = cw_cont w \<and> cw_leases (fst (put_continuation lib ce m w)) = cw_leases w"
  by (auto simp: put_continuation_def on_catalog_def split: prod.splits sum.splits)

lemma run_register_or_abort:
  assumes "cont_run w (i # fl) os" and "map_of (cn_taskLease (cw_cont w)) managerID = None"
  shows "cont_run (fst (register_or_abort ce managerID i w)) fl os"
proof (cases "cn_closed (cw_cont w)")
  case True
  then show ?thesis using cont_run.released [OF assms(1)] by (simp add: register_or_abort_def register_new_def run_delete)
next
  case False
  then show ?thesis using cont_run.registered [OF assms(1) _ assms(2)] by (simp add: register_or_abort_def register_new_def)
qed

lemma run_store_task:
  assumes r: "cont_run w (i # fl) os" and new: "map_of (cn_taskLease (cw_cont w)) managerID = None" and f: "\<And>x. keeps (f x)"
  shows "cont_run (fst (step_bind (release_on_error ce i (put_continuation lib ce m))
    (\<lambda>stored. step_bind (register_or_abort ce managerID i) (\<lambda>_. f stored)) w)) fl os"
proof -
  obtain w1 a where P: "put_continuation lib ce m w = (w1, a)" by fastforce
  have r1: "cont_run w1 (i # fl) os" using keeps_put r P by (metis fst_conv keeps_def)
  have c: "cw_cont w1 = cw_cont w" using put_world [of lib ce m w] P by simp
  show ?thesis
  proof (cases a)
    case (Inl e)
    then show ?thesis using P cont_run.released [OF r1] by (simp add: step_bind_def release_on_error_def)
  next
    case (Inr x)
    let ?reg = "register_or_abort ce managerID i"
    have "cont_run (fst (?reg w1)) fl os" using run_register_or_abort [OF r1] new c by simp
    then have "cont_run (fst (step_bind ?reg (\<lambda>_. f x) w1)) fl os"
      using f by (cases rule: step_bind_outcome [of ?reg w1 "\<lambda>_. f x"]) (auto simp: keeps_def)
    then show ?thesis using P Inr by (simp add: step_bind_def [of "release_on_error ce i m'" for m'] release_on_error_def)
  qed
qed

lemma acquire_task_cont: "cw_cont (fst (acquire_task ce k ttl w)) = cw_cont w"
  by (auto simp: acquire_task_def split: prod.splits sum.splits)

lemma run_proxyCreatedTask:
  assumes r: "cont_run w fl os" and fresh: "fresh_task ce w"
  shows "cont_run (fst (proxyCreatedTask lib ce serverID result w)) fl os"
proof (cases "newOpaqueID ''task_'' (ce_rand ce 0)")
  case (Inl e)
  then show ?thesis using r by (simp add: proxyCreatedTask_def Let_def step_bind_def step_require_def step_result_def)
next
  case (Inr managerID)
  let ?ttl = "taskTTL (tk_TTLMS (cr_Task result))"
  obtain w1 a where A: "acquire_task ce serverID ?ttl w = (w1, a)" by fastforce
  have new: "map_of (cn_taskLease (cw_cont w1)) managerID = None"
    using fresh Inr acquire_task_cont [of ce serverID ?ttl w] A by (simp add: fresh_task_def)
  show ?thesis
  proof (cases a)
    case (Inl e)
    then show ?thesis using r Inr A cont_run.refused_task [OF r A [unfolded Inl]]
      by (simp add: proxyCreatedTask_def Let_def step_bind_def step_require_def step_result_def)
  next
    case (Inr i)
    note r1 = cont_run.acquired_task [OF r A [unfolded Inr]]
    let ?m = "\<lambda>w. task_mapping lib managerID serverID (cr_Task result) (ExpiresAt (cw_leases w ! i))"
    let ?rest = "\<lambda>stored. step_bind (and_then (installExpiryTimer managerID (continuationRemainingTTL (ce_now ce) stored)))
       (\<lambda>_. step_result (CallResultForTask lib (result\<lparr>cr_Task := (cr_Task result)\<lparr>tk_TaskID := managerID\<rparr>\<rparr>)))"
    have k: "keeps (?rest x)" for x by (intro keeps_intros cont_run.timer)
    have "step_bind (\<lambda>w. release_on_error ce i (put_continuation lib ce (?m w)) w) (\<lambda>stored. step_bind (register_or_abort ce managerID i) (\<lambda>_. ?rest stored)) w1
      = step_bind (release_on_error ce i (put_continuation lib ce (?m w1))) (\<lambda>stored. step_bind (register_or_abort ce managerID i) (\<lambda>_. ?rest stored)) w1"
      by (simp add: step_bind_def)
    then show ?thesis using r \<open>newOpaqueID ''task_'' (ce_rand ce 0) = Inr managerID\<close> A Inr run_store_task [OF r1 new k]
      by (simp add: proxyCreatedTask_def Let_def step_bind_def [of "step_require b e" for b e] step_bind_def [of "step_result x" for x]
        step_bind_def [of "acquire_task ce serverID t" for t] step_require_def step_result_def)
  qed
qed

lemma run_ProcessCallResult:
  assumes "cont_run w fl os" and "fresh_task ce w"
  shows "cont_run (fst (ProcessCallResult lib ce serverID result w)) fl os"
proof (cases result)
  case (Some res)
  have keep: "cont_run (fst (m w)) fl os \<Longrightarrow> cont_run (fst (step_bind m (\<lambda>out. step_return (Some out)) w)) fl os" for m :: "tool_result cont_step"
    by (auto simp: step_bind_def step_return_def split: prod.split sum.split)
  show ?thesis
  proof (cases "unwrapTaskResult lib res")
    case (Inr t)
    have "cont_run (fst ((case t of Some t \<Rightarrow> proxyCreatedTask lib ce serverID t | None \<Rightarrow> rewriteResourceLinks lib ce serverID res) w)) fl os"
      using assms keeps_rewrite run_proxyCreatedTask by (auto simp: keeps_def split: option.split)
    then show ?thesis using keep Some Inr by (simp add: ProcessCallResult_def step_bind_def [of "step_result x" for x] step_result_def)
  qed (use assms Some in \<open>simp add: ProcessCallResult_def step_bind_def step_result_def\<close>)
qed (use assms in \<open>simp add: ProcessCallResult_def step_return_def\<close>)

text \<open>Starting: the tasks of the catalog get their leases back.\<close>

lemma run_restore:
  assumes r: "cont_run w fl os" and new: "map_of (cn_taskLease (cw_cont w)) i = None" and o: "\<not> cn_closed (cw_cont w)"
  shows "cont_run (restore_task lib ce (i, m) w) fl os"
proof -
  let ?ttl = "continuationRemainingTTL (ce_now ce) m"
  obtain w1 a where A: "acquire_task ce (cm_ServerID m) ?ttl w = (w1, a)" by fastforce
  have c: "cw_cont w1 = cw_cont w" using acquire_task_cont [of ce "cm_ServerID m" ?ttl w] A by simp
  show ?thesis
  proof (cases a)
    case (Inl e)
    then show ?thesis using A cont_run.refused_task [OF r A [unfolded Inl]] r
      by (auto simp: restore_task_def Let_def intro: run_delete cont_run.timer)
  next
    case (Inr l)
    have "cont_run (with_cont (set_lease i l) w1) fl os"
      using cont_run.registered [OF cont_run.acquired_task [OF r A [unfolded Inr]], of i "with_cont (set_lease i l) w1"] new o c
      by (simp add: register_new_def)
    then show ?thesis using A Inr r by (auto simp: restore_task_def Let_def intro: run_delete cont_run.timer)
  qed
qed

lemma delete_cont [simp]: "cw_cont (delete_continuation ce i w) = cw_cont w"
  by (simp add: delete_continuation_def split: sum.split)

lemma timer_cont [simp]: "cn_taskLease (cw_cont (installExpiryTimer i ttl w)) = cn_taskLease (cw_cont w)"
  "cn_closed (cw_cont (installExpiryTimer i ttl w)) = cn_closed (cw_cont w)"
  by (simp_all add: installExpiryTimer_def)

lemma restore_cont:
  "cn_closed (cw_cont (restore_task lib ce (i, m) w)) = cn_closed (cw_cont w)"
  "j \<noteq> i \<Longrightarrow> map_of (cn_taskLease (cw_cont (restore_task lib ce (i, m) w))) j = map_of (cn_taskLease (cw_cont w)) j"
  using acquire_task_cont [of ce "cm_ServerID m" "continuationRemainingTTL (ce_now ce) m" w]
  by (auto simp: restore_task_def Let_def set_lease_def split: prod.split sum.split)

lemma run_restore_all:
  "cont_run w fl os \<Longrightarrow> distinct (map fst ms) \<Longrightarrow> \<not> cn_closed (cw_cont w) \<Longrightarrow>
   (\<And>i m. (i, m) \<in> set ms \<Longrightarrow> map_of (cn_taskLease (cw_cont w)) i = None) \<Longrightarrow> cont_run (fold (restore_task lib ce) ms w) fl os"
proof (induction ms arbitrary: w)
  case (Cons x ms)
  obtain i m where x: "x = (i, m)" by fastforce
  have "cont_run (restore_task lib ce x w) fl os" using Cons.prems x by (auto intro: run_restore)
  moreover have "map_of (cn_taskLease (cw_cont (restore_task lib ce x w))) j = None" if "(j, m') \<in> set ms" for j m'
  proof -
    have "j \<noteq> i" using that Cons.prems(2) x by (auto simp: image_iff)
    then show ?thesis using restore_cont(2) [of j i lib ce m w] Cons.prems(4) that x by simp
  qed
  ultimately show ?case using Cons.IH Cons.prems x by (simp add: restore_cont(1))
qed simp

lemma distinct_sorted_filter: "distinct (map fst xs) \<Longrightarrow> distinct (map fst (sort_key key (filter P xs)))"
  by (auto simp: distinct_map intro: inj_on_subset)

lemma Continuations_distinct:
  "Continuations q now kind db = Inr ms \<Longrightarrow> distinct (map fst (continuation_mappings db)) \<Longrightarrow> distinct (map fst ms)"
  by (auto simp: Continuations_def rbind_Inr_iff distinct_sorted_filter)

lemma run_newContinuationService:
  assumes "service_run sv os" and "newContinuationService lib ce key (db, sv) = (w, Inr ())"
    and d: "distinct (map fst (continuation_mappings db))"
  shows "cont_run w [] os"
proof -
  let ?w = "\<lparr>cw_cont = \<lparr>cn_signing = key, cn_taskLease = [], cn_timers = [], cn_closed = False\<rparr>, cw_leases = [], cw_life = sv, cw_catalog = db\<rparr>"
  obtain db1 n ms where E: "DeleteExpiredContinuations (ce_sql ce) (ce_now ce) db = Inr (db1, n)"
    and C: "Continuations (ce_sql ce) (ce_now ce) ContinuationTask db1 = Inr ms"
    and w: "w = fold (restore_task lib ce) ms (?w\<lparr>cw_catalog := db1\<rparr>)"
    using assms(2) by (auto simp: newContinuationService_def Let_def split: if_splits sum.splits)
  have "distinct (map fst (continuation_mappings db1))"
    using E d by (auto simp: DeleteExpiredContinuations_def rbind_Inr_iff Let_def distinct_map_filter)
  then have "distinct (map fst ms)" by (rule Continuations_distinct [OF C])
  moreover have "cont_run (?w\<lparr>cw_catalog := db1\<rparr>) [] os" using cont_run.stored [OF cont_run.started [OF assms(1)]] .
  ultimately show ?thesis unfolding w by (intro run_restore_all) auto
qed

text \<open>
  (C9) No handler of the continuation service leaves a lease behind, on any path: started from any reachable state (with
  other handlers in the middle of their work), ProcessCallResult, GetTask, UpdateTask, CancelTask, ReadResource, the expiry
  timer and Close all end with the same leases in flight as they found, whatever the downstream server, the catalog
  and the lifecycle answer. The random ID of a new task is not in use.
\<close>

theorem handlers_return_leases:
  assumes "cont_run w fl os" and "fresh_task ce w"
  shows "cont_run (fst (ProcessCallResult lib ce serverID result w)) fl os \<and>
    cont_run (fst (GetTask lib ce an managerID w)) fl os \<and>
    cont_run (fst (UpdateTask lib ce an managerID responses w)) fl os \<and>
    cont_run (fst (CancelTask lib ce an managerID w)) fl os \<and>
    cont_run (fst (ReadResource lib ce an uri w)) fl os \<and>
    cont_run (expiry_fires ce managerID w) fl os \<and>
    cont_run (Cont_Close ce w) fl os"
  using assms run_ProcessCallResult keeps_GetTask keeps_UpdateTask keeps_CancelTask keeps_ReadResource run_expiry run_Close
  by (auto simp: keeps_def)

end
