(* ===== verification/ContinuationTrips.thy ===== *)
theory ContinuationTrips
  imports ContinuationFacts CatalogObserve
begin

text \<open>
  Where a reference leads: the task ID and the resource links that the manager hands out are resolved to the downstream task
  and URI they stand for. What the proofs need of JSON is that one payload survives being stored (\<open>task_survives\<close>, \<open>resource_survives\<close>; Go's JSON
  replaces invalid UTF-8, so it is not asked of all byte strings), and of URLs that the links the code builds, from IDs and signatures
  in the URL-safe base64 alphabet, parse (\<open>links_parse\<close>).
\<close>

definition task_survives :: "cont_lib \<Rightarrow> taskContinuationPayload \<Rightarrow> bool" where
  "task_survives lib p \<longleftrightarrow> (\<forall>body. canonicalJSON (ct_codec lib) (ct_task_payload lib p) = Inr body \<longrightarrow> ct_read_task_payload lib body = Some p)"

definition resource_survives :: "cont_lib \<Rightarrow> string \<Rightarrow> bool" where
  "resource_survives lib u \<longleftrightarrow> (\<forall>body. canonicalJSON (ct_codec lib) (ct_resource_payload lib u) = Inr body \<longrightarrow> ct_read_resource_payload lib body = Some u)"

definition links_parse :: "cont_lib \<Rightarrow> bool" where
  "links_parse lib \<longleftrightarrow> (\<forall>i sig. set i \<subseteq> set b64_alphabet \<longrightarrow> set sig \<subseteq> set b64_alphabet \<longrightarrow>
     ct_url lib (managerResourceScheme @ ''://resource/'' @ ct_path_escape lib i @ ''?sig='' @ ct_query_escape lib sig) =
       Some \<lparr>mu_Scheme = managerResourceScheme, mu_Host = ''resource'', mu_EscapedPath = CHR ''/'' # ct_path_escape lib i, mu_Sig = sig\<rparr> \<and>
     ct_path_unescape lib (ct_path_escape lib i) = Some i)"

abbreviation created_payload :: "CreateTaskResult \<Rightarrow> taskContinuationPayload" where
  "created_payload result \<equiv> \<lparr>tcp_DownstreamTaskID = tk_TaskID (cr_Task result), tcp_Status = tk_Status (cr_Task result)\<rparr>"

section \<open>Opaque IDs\<close>

lemma encoded_chars: "set (EncodeToString x) \<subseteq> set b64_alphabet"
proof -
  have "length b64_alphabet = 64" by (simp add: b64_alphabet_def)
  then have "b64_char n \<in> set b64_alphabet" if "n < 64" for n
    using that unfolding b64_char_def by (intro nth_mem) simp
  then show ?thesis using sextets_less [of _ x] by (auto simp: EncodeToString_sextets)
qed

lemma opaque_id:
  assumes "newOpaqueID pre raw = Inr i" and "pre = ''task_'' \<or> pre = ''res_''"
  shows "TrimSpace i = i" "i \<noteq> []" "CHR ''/'' \<notin> set i" "HasPrefix i pre" "set i \<subseteq> set b64_alphabet"
proof -
  obtain bytes where i: "i = pre @ EncodeToString bytes" using assms(1) by (auto simp: newOpaqueID_def split: option.splits)
  have "set ''task_'' \<inter> set (concat go_spaces) = {}" "set ''res_'' \<inter> set (concat go_spaces) = {}" by code_simp+
  then have "set i \<inter> set (concat go_spaces) = {}" using encoded_no_space [of bytes] assms(2) i by auto
  then show "TrimSpace i = i" by (rule TrimSpace_no_space)
  show "i \<noteq> []" using assms(2) i by auto
  have "CHR ''/'' \<notin> set b64_alphabet" by (simp add: b64_alphabet_def)
  then show "CHR ''/'' \<notin> set i" using encoded_chars [of bytes] assms(2) i by auto
  show "HasPrefix i pre" by (simp add: i HasPrefix_def)
  have "set ''task_'' \<subseteq> set b64_alphabet" "set ''res_'' \<subseteq> set b64_alphabet" by code_simp+
  then show "set i \<subseteq> set b64_alphabet" using encoded_chars [of bytes] assms(2) i by auto
qed

section \<open>Stored mappings\<close>

lemma continuationByID_Inr: "continuationByID q db mid = Inr (i, m) \<longleftrightarrow>
    i = mid \<and> mid \<noteq> [] \<and> db_open db \<and> \<not> sql_fails q ''continuation by id'' \<and> map_of (continuation_mappings db) mid = Some m"
  by (auto simp: continuationByID_def rbind_Inr_iff sql_Inr split: option.splits)

lemma Put_stored:
  assumes "PutContinuation cd q now m db = Inr (db', (i, stored), existed)"
  shows "i = TrimSpace (ci_ID m)" "map_of (continuation_mappings db') i = Some stored" "db_open db'"
    "cm_Kind stored = ci_Kind m" "cm_ServerID stored = TrimSpace (ci_ServerID m)" "canonicalJSON cd (ci_Payload m) = Inr (cm_Payload stored)"
    "ci_ExpiresAt m = None \<Longrightarrow> stored_expiry stored = None"
    "map_of (continuation_mappings db) k = Some row \<Longrightarrow> map_of (continuation_mappings db') k = Some row"
proof -
  obtain mid fresh where row: "continuation_row cd now m = Inr (mid, fresh)"
    using assms by (auto simp: PutContinuation_def rbind_Inr_iff)
  note put = assms [unfolded PutContinuation_def row rbind_Inr prod.case Let_def rbind_Inr_iff]
  have r: "mid = TrimSpace (ci_ID m)" "cm_Kind fresh = ci_Kind m" "cm_ServerID fresh = TrimSpace (ci_ServerID m)"
    "canonicalJSON cd (ci_Payload m) = Inr (cm_Payload fresh)" "cm_ExpiresAt fresh = map_option UnixMilli (ci_ExpiresAt m)"
    using row by (auto simp: continuation_row_def Let_def rbind_Inr_iff)
  let ?db = "if map_of (continuation_mappings db) mid \<noteq> None then db else db\<lparr>continuation_mappings := alist_put mid fresh (continuation_mappings db)\<rparr>"
  have e: "existed \<longleftrightarrow> map_of (continuation_mappings db) mid \<noteq> None" and db': "db' = ?db" and i: "i = mid"
    using put by (simp_all only: rbind_Inr_iff sum.inject prod.inject prod.case split_paired_Ex) blast+
  have "continuationByID q ?db mid = Inr (mid, stored)" "\<not> (existed \<and> continuation_differs m fresh stored)"
    using put e by (simp_all only: rbind_Inr_iff sum.inject prod.inject prod.case guard_Inr continuationByID_Inr split_paired_Ex) blast+
  then have s: "i = mid" "map_of (continuation_mappings db') mid = Some stored" "db_open db'" "stored = fresh \<or> \<not> continuation_differs m fresh stored"
    "existed \<longleftrightarrow> map_of (continuation_mappings db) mid \<noteq> None" "db' = (if existed then db else db\<lparr>continuation_mappings := alist_put mid fresh (continuation_mappings db)\<rparr>)"
    using e db' i by (auto simp: continuationByID_Inr split: if_splits)
  show "i = TrimSpace (ci_ID m)" "map_of (continuation_mappings db') i = Some stored" "db_open db'" using r s by simp_all
  show "cm_Kind stored = ci_Kind m" "cm_ServerID stored = TrimSpace (ci_ServerID m)" "canonicalJSON cd (ci_Payload m) = Inr (cm_Payload stored)"
    using r s(4) by (auto simp: continuation_differs_def)
  show "ci_ExpiresAt m = None \<Longrightarrow> stored_expiry stored = None"
    using r s(4) by (auto simp: continuation_differs_def sameContinuationExpiry_def stored_expiry_def)
  show "map_of (continuation_mappings db) k = Some row \<Longrightarrow> map_of (continuation_mappings db') k = Some row"
    using s(5,6) by auto
qed

text \<open>The mapping \<open>i\<close> of the catalog.\<close>

definition mapped :: "cont_world \<Rightarrow> string \<Rightarrow> ContinuationMapping \<Rightarrow> bool" where
  "mapped w i m \<longleftrightarrow> db_open (cw_catalog w) \<and> map_of (continuation_mappings (cw_catalog w)) i = Some m"

lemma put_mapped:
  assumes "put_continuation lib ce m w = (w', Inr stored)"
  shows "mapped w' (TrimSpace (ci_ID m)) stored" "cm_Kind stored = ci_Kind m" "cm_ServerID stored = TrimSpace (ci_ServerID m)"
    "canonicalJSON (ct_codec lib) (ci_Payload m) = Inr (cm_Payload stored)" "ci_ExpiresAt m = None \<Longrightarrow> stored_expiry stored = None"
    "cw_cont w' = cw_cont w" "mapped w k row \<Longrightarrow> mapped w' k row"
proof -
  obtain db i existed where P: "PutContinuation (ct_codec lib) (ce_sql ce) (ce_now ce) m (cw_catalog w) = Inr (db, (i, stored), existed)"
    and w': "w' = w\<lparr>cw_catalog := db\<rparr>"
    using assms by (auto simp: put_continuation_def on_catalog_def split: sum.splits prod.splits)
  note s = Put_stored [OF P]
  show "mapped w' (TrimSpace (ci_ID m)) stored" "cm_Kind stored = ci_Kind m" "cm_ServerID stored = TrimSpace (ci_ServerID m)"
    "canonicalJSON (ct_codec lib) (ci_Payload m) = Inr (cm_Payload stored)" "cw_cont w' = cw_cont w"
    using s w' by (auto simp: mapped_def)
  show "ci_ExpiresAt m = None \<Longrightarrow> stored_expiry stored = None" by (rule s(7))
  show "mapped w k row \<Longrightarrow> mapped w' k row" using s(3) s(8) w' by (auto simp: mapped_def)
qed

lemma read_mapped:
  assumes "mapped w i m" and "TrimSpace i = i" and "i \<noteq> []" and "\<not> sql_fails (ce_sql ce) ''continuation by id''"
    and "case stored_expiry m of None \<Rightarrow> True | Some e \<Rightarrow> ce_now ce < e"
  shows "read_continuation ce i w = (w, Inr (i, m))"
  using assms by (auto simp: read_continuation_def Catalog_Continuation_def continuationByID_def mapped_def rbind_Inr sql_def split: option.splits)

section \<open>Tasks\<close>

text \<open>What a created task leaves in the catalog, and the result that is sent up in its place.\<close>

lemma mapped_delete_other: "mapped (w\<lparr>cw_cont := c\<rparr>) i m = mapped w i m" "mapped (with_cont f w) i m = mapped w i m"
  by (simp_all add: mapped_def)

lemma acquired_live: "acquire_task ce k ttl w = (w', Inr i) \<Longrightarrow> \<not> ul_released (cw_leases w' ! i)"
  by (auto simp: acquire_task_def AcquireTaskLease_def Acquire_def Let_def split: prod.splits sum.splits if_splits acquire_out.splits
    option.splits connect_result.splits)

lemma proxyCreatedTask_effect:
  assumes "proxyCreatedTask lib ce serverID result w = (w', Inr out)"
  obtains managerID m where "newOpaqueID ''task_'' (ce_rand ce 0) = Inr managerID" "mapped w' managerID m"
    "cm_Kind m = ContinuationTask" "cm_ServerID m = TrimSpace serverID" "\<not> blank (tk_TaskID (cr_Task result))"
    "canonicalJSON (ct_codec lib) (ct_task_payload lib \<lparr>tcp_DownstreamTaskID = tk_TaskID (cr_Task result), tcp_Status = tk_Status (cr_Task result)\<rparr>)
      = Inr (cm_Payload m)"
    "\<exists>i. map_of (cn_taskLease (cw_cont w')) managerID = Some i \<and> \<not> ul_released (cw_leases w' ! i)"
    "CallResultForTask lib (result\<lparr>cr_Task := (cr_Task result)\<lparr>tk_TaskID := managerID\<rparr>\<rparr>) = Inr out"
proof -
  obtain managerID w0 w1 i w2 stored w3 where id: "newOpaqueID ''task_'' (ce_rand ce 0) = Inr managerID"
    and ne: "\<not> blank (tk_TaskID (cr_Task result))"
    and A: "acquire_task ce serverID (taskTTL (tk_TTLMS (cr_Task result))) w0 = (w1, Inr i)"
    and P: "release_on_error ce i (put_continuation lib ce (task_mapping lib managerID serverID (cr_Task result) (ExpiresAt (cw_leases w1 ! i)))) w1 = (w2, Inr stored)"
    and R: "register_or_abort ce managerID i w2 = (w3, Inr ())"
    and w': "w' = installExpiryTimer managerID (continuationRemainingTTL (ce_now ce) stored) w3"
    and out: "CallResultForTask lib (result\<lparr>cr_Task := (cr_Task result)\<lparr>tk_TaskID := managerID\<rparr>\<rparr>) = Inr out"
    using assms by (auto simp: proxyCreatedTask_def Let_def require_Inr step_result_Inr and_then_def elim!: step_bind_InrE)
  have p: "put_continuation lib ce (task_mapping lib managerID serverID (cr_Task result) (ExpiresAt (cw_leases w1 ! i))) w1 = (w2, Inr stored)"
    using P by (auto simp: release_on_error_def split: prod.splits sum.splits)
  have tr: "TrimSpace managerID = managerID" using opaque_id [OF id] by simp
  have "mapped w2 managerID stored" using put_mapped(1) [OF p] tr by (simp add: task_mapping_def)
  then have "mapped w' managerID stored"
    using R w' by (auto simp: register_or_abort_def register_new_def installExpiryTimer_def mapped_delete_other split: if_splits)
  moreover have "cw_leases w2 = cw_leases w1" using put_world [of lib ce _ w1] p by (metis fst_conv)
  then have "map_of (cn_taskLease (cw_cont w')) managerID = Some i \<and> \<not> ul_released (cw_leases w' ! i)"
    using R w' acquired_live [OF A]
    by (auto simp: register_or_abort_def register_new_def installExpiryTimer_def set_lease_def split: if_splits)
  ultimately show thesis using that id ne out put_mapped(2-4) [OF p] by (simp add: task_mapping_def)
qed

lemma resolve_created:
  assumes surv: "task_survives lib (created_payload result)" and "proxyCreatedTask lib ce serverID result w = (w', Inr out)"
    and id: "newOpaqueID ''task_'' (ce_rand ce 0) = Inr managerID" and m': "mapped w' managerID m"
    and later: "\<not> sql_fails (ce_sql ce') ''continuation by id''" "case stored_expiry m of None \<Rightarrow> True | Some e \<Rightarrow> ce_now ce' < e"
  shows "resolveTask lib ce' managerID w' = (w', if taskTerminal (tk_Status (cr_Task result)) then Inl ErrInvalidManagerTask
       else Inr (managerID, m, \<lparr>tcp_DownstreamTaskID = tk_TaskID (cr_Task result), tcp_Status = tk_Status (cr_Task result)\<rparr>))"
proof -
  let ?p = "\<lparr>tcp_DownstreamTaskID = tk_TaskID (cr_Task result), tcp_Status = tk_Status (cr_Task result)\<rparr>"
  obtain m1 where m1: "mapped w' managerID m1" "cm_Kind m1 = ContinuationTask" "\<not> blank (tk_TaskID (cr_Task result))"
    "canonicalJSON (ct_codec lib) (ct_task_payload lib ?p) = Inr (cm_Payload m1)"
    using proxyCreatedTask_effect [OF assms(2)] id by (metis sum.inject(2))
  then have m: "cm_Kind m = ContinuationTask" "canonicalJSON (ct_codec lib) (ct_task_payload lib ?p) = Inr (cm_Payload m)"
    using m' by (simp_all add: mapped_def)
  have d: "decodeTaskContinuation lib m = Some ?p"
    using surv m(2) m1(3) by (simp add: task_survives_def decodeTaskContinuation_def)
  have o: "TrimSpace managerID = managerID" "managerID \<noteq> []" "HasPrefix managerID ''task_''" using opaque_id [OF id] by simp_all
  have ne: "tk_TaskID (cr_Task result) \<noteq> []" using m1(3) by auto
  show ?thesis using read_mapped [OF m' o(1,2) later] m(1) d ne o by (simp add: resolveTask_def)
qed

text \<open>
  (C18) The task ID that the manager hands out leads back to the task: for a task that is not already finished when it is created and whose payload
  the JSON codec reads back, the result that is sent up is the downstream result with
  the manager's ID in it, the mapping is stored for the same server, and resolving the ID in the resulting state, whenever the catalog can be read and the mapping
  has not expired, gives exactly the downstream task's ID and status.
\<close>

theorem task_reference_resolves:
  assumes "task_survives lib (created_payload result)" and "proxyCreatedTask lib ce serverID result w = (w', Inr out)"
    and "\<not> taskTerminal (tk_Status (cr_Task result))"
  shows "\<exists>managerID m. CallResultForTask lib (result\<lparr>cr_Task := (cr_Task result)\<lparr>tk_TaskID := managerID\<rparr>\<rparr>) = Inr out \<and>
    mapped w' managerID m \<and> cm_ServerID m = TrimSpace serverID \<and>
    (\<forall>ce'. \<not> sql_fails (ce_sql ce') ''continuation by id'' \<longrightarrow> (case stored_expiry m of None \<Rightarrow> True | Some e \<Rightarrow> ce_now ce' < e) \<longrightarrow>
      resolveTask lib ce' managerID w' =
        (w', Inr (managerID, m, created_payload result)))"
proof -
  obtain managerID m where id: "newOpaqueID ''task_'' (ce_rand ce 0) = Inr managerID" and m: "mapped w' managerID m" "cm_ServerID m = TrimSpace serverID"
    and out: "CallResultForTask lib (result\<lparr>cr_Task := (cr_Task result)\<lparr>tk_TaskID := managerID\<rparr>\<rparr>) = Inr out"
    using proxyCreatedTask_effect [OF assms(2)] by metis
  then show ?thesis using resolve_created [OF assms(1,2) id m(1)] assms(3) by auto
qed

text \<open>
  (C37) A task that the downstream server reports as already finished when it creates it gets a reference that is never
  accepted: tasks/get, tasks/update and tasks/cancel answer that the task is invalid, so its result cannot be fetched, while the
  lease on the server stays held (until it expires).
\<close>

theorem finished_at_creation_unreachable:
  assumes "task_survives lib (created_payload result)" and "proxyCreatedTask lib ce serverID result w = (w', Inr out)"
    and "taskTerminal (tk_Status (cr_Task result))"
  shows "\<exists>managerID m i. CallResultForTask lib (result\<lparr>cr_Task := (cr_Task result)\<lparr>tk_TaskID := managerID\<rparr>\<rparr>) = Inr out \<and>
    mapped w' managerID m \<and> map_of (cn_taskLease (cw_cont w')) managerID = Some i \<and> \<not> ul_released (cw_leases w' ! i) \<and>
    (\<forall>ce' an responses. \<not> sql_fails (ce_sql ce') ''continuation by id'' \<longrightarrow> (case stored_expiry m of None \<Rightarrow> True | Some e \<Rightarrow> ce_now ce' < e) \<longrightarrow>
      GetTask lib ce' an managerID w' = (w', Inl ErrInvalidManagerTask) \<and>
      UpdateTask lib ce' an managerID responses w' = (w', Inl ErrInvalidManagerTask) \<and>
      CancelTask lib ce' an managerID w' = (w', Inl ErrInvalidManagerTask))"
proof -
  obtain managerID m i where id: "newOpaqueID ''task_'' (ce_rand ce 0) = Inr managerID" and m: "mapped w' managerID m"
    and i: "map_of (cn_taskLease (cw_cont w')) managerID = Some i" "\<not> ul_released (cw_leases w' ! i)"
    and out: "CallResultForTask lib (result\<lparr>cr_Task := (cr_Task result)\<lparr>tk_TaskID := managerID\<rparr>\<rparr>) = Inr out"
    using proxyCreatedTask_effect [OF assms(2)] by metis
  have "resolveTask lib ce' managerID w' = (w', Inl ErrInvalidManagerTask)"
    if "\<not> sql_fails (ce_sql ce') ''continuation by id''" "case stored_expiry m of None \<Rightarrow> True | Some e \<Rightarrow> ce_now ce' < e" for ce'
    using resolve_created [OF assms(1,2) id m that] assms(3) by simp
  then show ?thesis using out m i by (intro exI conjI allI impI) (auto simp: GetTask_def UpdateTask_def CancelTask_def step_bind_def)
qed

section \<open>Resources\<close>

definition leads_to :: "cont_lib \<Rightarrow> string \<Rightarrow> cont_world \<Rightarrow> content \<Rightarrow> content \<Rightarrow> bool" where
  "leads_to lib serverID w c c' \<longleftrightarrow> (case c of OtherContent x \<Rightarrow> c' = OtherContent x
     | ResourceLink uri rest \<Rightarrow> \<exists>i m. c' = ResourceLink (resourceURI lib (cw_cont w) i) rest \<and> mapped w i m \<and> TrimSpace i = i \<and> i \<noteq> [] \<and>
         CHR ''/'' \<notin> set i \<and> set i \<subseteq> set b64_alphabet \<and> cm_Kind m = ContinuationResource \<and> cm_ServerID m = TrimSpace serverID \<and> stored_expiry m = None \<and>
         ct_read_resource_payload lib (cm_Payload m) = Some uri)"

lemma leads_to_later:
  "leads_to lib serverID w c c' \<Longrightarrow> cw_cont w' = cw_cont w \<Longrightarrow> (\<And>k row. mapped w k row \<Longrightarrow> mapped w' k row) \<Longrightarrow> leads_to lib serverID w' c c'"
  by (auto simp: leads_to_def split: content.splits)

lemma rewrite_links_lead_back:
  "(\<And>uri rest. ResourceLink uri rest \<in> set cs \<Longrightarrow> resource_survives lib uri) \<Longrightarrow> rewrite_links lib ce serverID n cs w = (w', Inr cs') \<Longrightarrow>
    cw_cont w' = cw_cont w \<and> (\<forall>k row. mapped w k row \<longrightarrow> mapped w' k row) \<and> list_all2 (leads_to lib serverID w') cs cs'"
proof (induction cs arbitrary: n w cs')
  case (Cons c cs)
  show ?case
  proof (cases c)
    case (OtherContent x)
    obtain cs1 where R: "rewrite_links lib ce serverID n cs w = (w', Inr cs1)" and "cs' = OtherContent x # cs1"
      using Cons.prems(2) OtherContent by (auto simp: step_return_def elim!: step_bind_InrE)
    then show ?thesis using Cons.IH [OF _ R] Cons.prems(1) OtherContent by (simp add: leads_to_def)
  next
    case (ResourceLink uri rest)
    let ?in = "\<lambda>i. \<lparr>ci_ID = i, ci_Kind = ContinuationResource, ci_ServerID = serverID, ci_Payload = ct_resource_payload lib uri,
      ci_CreatedAt = None, ci_ExpiresAt = None\<rparr>"
    obtain i stored w1 cs1 where id: "newOpaqueID ''res_'' (ce_rand ce n) = Inr i"
      and P: "put_continuation lib ce (?in i) w = (w1, Inr stored)" and R: "rewrite_links lib ce serverID (Suc n) cs w1 = (w', Inr cs1)"
      and cs': "cs' = ResourceLink (resourceURI lib (cw_cont w') i) rest # cs1"
      using Cons.prems(2) ResourceLink by (auto simp: step_result_Inr elim!: step_bind_InrE)
    note o = opaque_id [OF id] and p = put_mapped [OF P]
    have IH: "cw_cont w' = cw_cont w1 \<and> (\<forall>k row. mapped w1 k row \<longrightarrow> mapped w' k row) \<and> list_all2 (leads_to lib serverID w') cs cs1"
      using Cons.prems(1) by (intro Cons.IH [OF _ R]) auto
    have surv: "resource_survives lib uri" using Cons.prems(1) ResourceLink by auto
    have s: "cm_Kind stored = ContinuationResource" "cm_ServerID stored = TrimSpace serverID" "stored_expiry stored = None"
      "ct_read_resource_payload lib (cm_Payload stored) = Some uri"
      using p(2-5) surv by (simp_all add: resource_survives_def)
    have "mapped w1 i stored" using p(1) o by simp
    then have "mapped w' i stored" using IH by blast
    then have "leads_to lib serverID w' c (ResourceLink (resourceURI lib (cw_cont w') i) rest)"
      using o s by (auto simp: leads_to_def ResourceLink)
    then show ?thesis using IH p(6,7) cs' by simp
  qed
qed (simp add: step_return_def)

text \<open>
  (C19) Resource links lead back: a result that goes up differs from the downstream result only in the URIs of its resource links,
  and, in the resulting state and whenever the catalog can be read, reading such a URI leases the same server and asks it for exactly the URI that was replaced; only a link
  whose URI is blank is stored and handed out all the same, and then refused as an invalid manager resource. This is for URIs that the JSON codec
  reads back and a URL parser that reads the links the manager builds.
\<close>

theorem resource_links_lead_back:
  assumes surv: "\<And>uri rest. ResourceLink uri rest \<in> set (tr_Content res) \<Longrightarrow> resource_survives lib uri" and urls: "links_parse lib"
    and rewritten: "rewriteResourceLinks lib ce serverID res w = (w', Inr out)"
  shows "tr_Structured out = tr_Structured res \<and> tr_Rest out = tr_Rest res \<and> list_all2 (\<lambda>c c'. case c of OtherContent x \<Rightarrow> c' = c
    | ResourceLink uri rest \<Rightarrow> \<exists>proxied. c' = ResourceLink proxied rest \<and> (\<forall>ce' an. \<not> sql_fails (ce_sql ce') ''continuation by id'' \<longrightarrow>
        ReadResource lib ce' an proxied w' = (if blank uri then (w', Inl ErrInvalidManagerResource) else
          step_bind (acquire_use ce' (TrimSpace serverID)) (\<lambda>l.
            release_after ce' l (call_lease ce' l (ca_resources an) ''resources/read'' (\<lambda>s. ca_read an s uri))) w')))
    (tr_Content res) (tr_Content out)"
proof -
  obtain content where R: "rewrite_links lib ce serverID 1 (tr_Content res) w = (w', Inr content)" and out: "out = res\<lparr>tr_Content := content\<rparr>"
    using rewritten by (auto simp: rewriteResourceLinks_def step_return_def elim!: step_bind_InrE)
  have read: "ReadResource lib ce' an (resourceURI lib (cw_cont w') i) w' = (if blank uri then (w', Inl ErrInvalidManagerResource) else
          step_bind (acquire_use ce' (TrimSpace serverID)) (\<lambda>l.
            release_after ce' l (call_lease ce' l (ca_resources an) ''resources/read'' (\<lambda>s. ca_read an s uri))) w')"
    if m: "mapped w' i m" "TrimSpace i = i" "i \<noteq> []" "CHR ''/'' \<notin> set i" "set i \<subseteq> set b64_alphabet" "cm_Kind m = ContinuationResource"
      "cm_ServerID m = TrimSpace serverID" "stored_expiry m = None" "ct_read_resource_payload lib (cm_Payload m) = Some uri"
      and q: "\<not> sql_fails (ce_sql ce') ''continuation by id''" for ce' an i m uri
  proof -
    have "validateResourceURI lib (cw_cont w') (resourceURI lib (cw_cont w') i) = Inr i"
      using urls m(3-5) encoded_chars by (simp add: links_parse_def validateResourceURI_def resourceURI_def signResource_def TrimPrefix_def HasPrefix_def)
    moreover have "read_continuation ce' i w' = (w', Inr (i, m))" using read_mapped [OF m(1-3) q] m(8) by simp
    ultimately show ?thesis using m by (simp add: ReadResource_def resource_mapping_def step_bind_def)
  qed
  have "list_all2 (leads_to lib serverID w') (tr_Content res) content"
    using rewrite_links_lead_back [OF surv R] by simp
  then have "list_all2 (\<lambda>c c'. case c of OtherContent x \<Rightarrow> c' = c
    | ResourceLink uri rest \<Rightarrow> \<exists>proxied. c' = ResourceLink proxied rest \<and> (\<forall>ce' an. \<not> sql_fails (ce_sql ce') ''continuation by id'' \<longrightarrow>
        ReadResource lib ce' an proxied w' = (if blank uri then (w', Inl ErrInvalidManagerResource) else
          step_bind (acquire_use ce' (TrimSpace serverID)) (\<lambda>l.
            release_after ce' l (call_lease ce' l (ca_resources an) ''resources/read'' (\<lambda>s. ca_read an s uri))) w'))) (tr_Content res) content"
  proof (rule list_all2_mono)
    fix c c' assume "leads_to lib serverID w' c c'"
    then show "case c of OtherContent x \<Rightarrow> c' = c
      | ResourceLink uri rest \<Rightarrow> \<exists>proxied. c' = ResourceLink proxied rest \<and> (\<forall>ce' an. \<not> sql_fails (ce_sql ce') ''continuation by id'' \<longrightarrow>
          ReadResource lib ce' an proxied w' = (if blank uri then (w', Inl ErrInvalidManagerResource) else
            step_bind (acquire_use ce' (TrimSpace serverID)) (\<lambda>l.
              release_after ce' l (call_lease ce' l (ca_resources an) ''resources/read'' (\<lambda>s. ca_read an s uri))) w'))"
      by (cases c) (auto simp: leads_to_def split del: if_split intro!: read)
  qed
  then show ?thesis by (simp add: out)
qed

section \<open>How long a task holds its lease\<close>

lemma taskTTL_exact: "0 < ms \<Longrightarrow> ms \<le> 9223372036854 \<Longrightarrow> taskTTL (Some ms) = ms * 1000000"
  using sint_word64 [of "ms * 1000000"] by (simp add: taskTTL_def del: of_int_mult)

text \<open>
  (C20) Whatever time to live a downstream task asks for, its lease ends strictly after it was taken and no later than the
  lifecycle's maximum (which is positive): a task that asks for none, or for none that is positive, gets the maximum, and a positive request of up to
  9223372036854 ms is granted exactly, up to that maximum. Above it the 64-bit product
  wraps around: a task that asks for 18446744073710 ms (over 500 years) is given less than half a millisecond.
\<close>

theorem task_lease_bounded:
  assumes "acquire_task ce serverID (taskTTL ttl) w = (w', Inr i)" and "0 < sv_maxTaskLease (cw_life w')"
  shows "\<exists>e. ExpiresAt (cw_leases w' ! i) = Some e \<and> en_now (ce_life ce) < e \<and> e \<le> en_now (ce_life ce) + sv_maxTaskLease (cw_life w') \<and>
    (case ttl of None \<Rightarrow> e = en_now (ce_life ce) + sv_maxTaskLease (cw_life w')
     | Some ms \<Rightarrow> (ms \<le> 0 \<longrightarrow> e = en_now (ce_life ce) + sv_maxTaskLease (cw_life w')) \<and>
         (0 < ms \<and> ms \<le> 9223372036854 \<longrightarrow> e = en_now (ce_life ce) + min (ms * 1000000) (sv_maxTaskLease (cw_life w'))) \<and>
         (ms = 18446744073710 \<longrightarrow> e = en_now (ce_life ce) + min 448384 (sv_maxTaskLease (cw_life w'))))"
proof -
  have "ExpiresAt (cw_leases w' ! i) = Some (en_now (ce_life ce) + (if taskTTL ttl \<le> 0 \<or> sv_maxTaskLease (cw_life w') < taskTTL ttl
      then sv_maxTaskLease (cw_life w') else taskTTL ttl))"
    using assms(1) by (auto simp: acquire_task_def AcquireTaskLease_def ExpiresAt_def Let_def split: prod.splits sum.splits)
  moreover have "taskTTL (Some 18446744073710) = 448384" by (simp add: taskTTL_def)
  moreover have "taskTTL None = 0" "\<And>ms. ms \<le> 0 \<Longrightarrow> taskTTL (Some ms) = 0" by (simp_all add: taskTTL_def)
  ultimately show ?thesis using assms(2) taskTTL_exact by (auto simp: min_def split: option.split)
qed

end
