(* ===== verification/ContinuationWitness.thy ===== *)
theory ContinuationWitness
  imports ContinuationTrips
begin

text \<open>Concrete instances of the theorems on continuations: a library whose payloads and URLs really parse, and one task.\<close>

section \<open>A library\<close>

text \<open>A pair of strings is written as the length of the first in unary, then both.\<close>

definition pair_text :: "string \<Rightarrow> string \<Rightarrow> string" where
  "pair_text a b = replicate (length a) CHR ''1'' @ CHR ''0'' # a @ b"

definition read_pair :: "string \<Rightarrow> string \<times> string" where
  "read_pair s = (let n = length (takeWhile (\<lambda>c. c = CHR ''1'') s); rest = drop (Suc n) s in (take n rest, drop n rest))"

lemma read_pair_text: "read_pair (pair_text a b) = (a, b)"
proof -
  have "takeWhile (\<lambda>c. c = CHR ''1'') (pair_text a b) = replicate (length a) CHR ''1''"
    by (simp add: pair_text_def takeWhile_append)
  then show ?thesis by (simp add: read_pair_def pair_text_def)
qed

definition text_codec :: codec where
  "text_codec = sample_codec\<lparr>decode_json := (\<lambda>s. Some (JStr s)), marshal_json := (\<lambda>j. case j of JStr s \<Rightarrow> s | _ \<Rightarrow> [])\<rparr>"

definition uri_prefix :: string where "uri_prefix = managerResourceScheme @ ''://resource/''"

definition parse_uri :: "string \<Rightarrow> manager_url option" where
  "parse_uri raw = (if \<not> HasPrefix raw uri_prefix then None else let rest = drop (length uri_prefix) raw in
     Some \<lparr>mu_Scheme = managerResourceScheme, mu_Host = ''resource'', mu_EscapedPath = CHR ''/'' # takeWhile (\<lambda>c. c \<noteq> CHR ''?'') rest,
       mu_Sig = drop 5 (dropWhile (\<lambda>c. c \<noteq> CHR ''?'') rest)\<rparr>)"

definition sample_cont_lib :: cont_lib where
  "sample_cont_lib = \<lparr>ct_codec = text_codec,
     ct_task_payload = (\<lambda>p. pair_text (tcp_DownstreamTaskID p) (tcp_Status p)),
     ct_read_task_payload = (\<lambda>s. case read_pair s of (i, st) \<Rightarrow> Some \<lparr>tcp_DownstreamTaskID = i, tcp_Status = st\<rparr>),
     ct_resource_payload = (\<lambda>u. u), ct_read_resource_payload = Some,
     ct_result_type = (\<lambda>s. Some ''task''),
     ct_created = (\<lambda>t. pair_text (tk_TaskID (cr_Task t)) (tk_Status (cr_Task t))),
     ct_read_created = (\<lambda>s. case read_pair s of (i, st) \<Rightarrow>
        Some \<lparr>cr_ResultType = ''task'', cr_Task = \<lparr>tk_TaskID = i, tk_Status = st, tk_TTLMS = None, tk_Rest = []\<rparr>\<rparr>),
     ct_tool = (\<lambda>r. None), ct_read_tool = (\<lambda>s. None), ct_hmac = (\<lambda>k m. k @ m), ct_url = parse_uri,
     ct_path_escape = EncodeToString, ct_path_unescape = DecodeString, ct_query_escape = (\<lambda>s. s)\<rparr>"

lemma sample_payloads: "task_survives sample_cont_lib p" "resource_survives sample_cont_lib u"
  by (simp_all add: task_survives_def resource_survives_def sample_cont_lib_def canonicalJSON_def text_codec_def read_pair_text)

lemma sample_urls: "links_parse sample_cont_lib"
proof -
  have q: "CHR ''?'' \<notin> set (EncodeToString i)" for i
    using encoded_chars [of i] by (auto simp: b64_alphabet_def)
  have "takeWhile (\<lambda>c. c \<noteq> CHR ''?'') (EncodeToString i @ CHR ''?'' # xs) = EncodeToString i" for i xs
    using q [of i] by (auto intro: takeWhile_tail takeWhile_eq_all_conv [THEN iffD2] simp: takeWhile_append)
  moreover have "dropWhile (\<lambda>c. c \<noteq> CHR ''?'') (EncodeToString i @ CHR ''?'' # xs) = CHR ''?'' # xs" for i xs
    using q [of i] by (auto simp: dropWhile_append)
  ultimately show ?thesis
    by (simp add: links_parse_def sample_cont_lib_def parse_uri_def uri_prefix_def managerResourceScheme_def HasPrefix_def base64_decode)
qed

section \<open>A created task\<close>

definition sample_cont_env :: cont_env where
  "sample_cont_env = \<lparr>ce_life = sample_env 5, ce_connect = sample_connect, ce_locked = True, ce_now = 5,
     ce_rand = (\<lambda>n. Some (replicate 24 (char_of n))), ce_sql = sample_q\<rparr>"

definition sample_key :: string where "sample_key = replicate 32 CHR ''k''"

definition sample_cont :: cont_world where
  "sample_cont = fst (newContinuationService sample_cont_lib sample_cont_env sample_key (schemaSQL, sample_started))"

definition created_task :: "string \<Rightarrow> CreateTaskResult" where
  "created_task status = \<lparr>cr_ResultType = ''task'', cr_Task = \<lparr>tk_TaskID = ''t1'', tk_Status = status, tk_TTLMS = Some 60000, tk_Rest = []\<rparr>\<rparr>"

definition sample_proxied :: "string \<Rightarrow> cont_world \<times> (cont_error, tool_result) result" where
  "sample_proxied status = proxyCreatedTask sample_cont_lib sample_cont_env sample_id (created_task status) sample_cont"

lemma sample_cont_run: "cont_run sample_cont [] []"
proof -
  have "snd (newContinuationService sample_cont_lib sample_cont_env sample_key (schemaSQL, sample_started)) = Inr ()" by code_simp
  then have "newContinuationService sample_cont_lib sample_cont_env sample_key (schemaSQL, sample_started) = (sample_cont, Inr ())"
    by (simp add: sample_cont_def prod_eq_iff)
  moreover have "distinct (map fst (continuation_mappings schemaSQL))" by code_simp
  ultimately show ?thesis using run_newContinuationService [OF sample_started_run] by blast
qed

lemma sample_fresh: "fresh_task sample_cont_env sample_cont"
  by code_simp

text \<open>A created task, and the service closed after it.\<close>

definition sample_closed :: cont_world where
  "sample_closed = Cont_Close sample_cont_env (fst (sample_proxied ''working''))"

lemma sample_proxied_run: "cont_run (fst (sample_proxied status)) [] []"
  unfolding sample_proxied_def by (rule run_proxyCreatedTask [OF sample_cont_run sample_fresh])

theorem closed_service_holds_no_lease_witness:
  "length (cw_leases sample_closed) = 1 \<and> list_all ul_released (cw_leases sample_closed) \<and> ss_active (get_state (cw_life sample_closed) 0) = 0"
proof -
  have r: "cont_run sample_closed [] []" unfolding sample_closed_def by (rule run_Close [OF sample_proxied_run])
  have c: "cn_closed (cw_cont sample_closed)" and p: "0 < length (sv_heap (cw_life sample_closed))" by code_simp+
  have "length (cw_leases sample_closed) = 1" by code_simp
  then show ?thesis using closed_service_holds_no_lease [OF r c p] by simp
qed

definition sample_answers :: cont_answers where
  "sample_answers = \<lparr>ca_tasks = True, ca_resources = True, ca_get = (\<lambda>s i. Inr None), ca_update = (\<lambda>s i r. Inr r),
     ca_cancel = (\<lambda>s i. Inr JNull), ca_read = (\<lambda>s u. Inr (JStr u))\<rparr>"

theorem handlers_return_leases_witness:
  "cont_run (fst (ReadResource sample_cont_lib sample_cont_env sample_answers ''gtm-manager://resource/x'' sample_cont)) [] []"
  using handlers_return_leases [OF sample_cont_run sample_fresh] by blast

lemma working_ok: "isl (snd (sample_proxied ''working'')) = False"
  by code_simp

lemma completed_ok: "isl (snd (sample_proxied ''completed'')) = False"
  by code_simp

lemma proxied_result: "isl (snd (sample_proxied status)) = False \<Longrightarrow>
    proxyCreatedTask sample_cont_lib sample_cont_env sample_id (created_task status) sample_cont =
      (fst (sample_proxied status), Inr (projr (snd (sample_proxied status))))"
  by (simp add: sample_proxied_def prod_eq_iff not_isl_Inr2 [symmetric])

theorem task_reference_resolves_witness:
  "\<exists>managerID m. mapped (fst (sample_proxied ''working'')) managerID m \<and> cm_ServerID m = TrimSpace sample_id"
proof -
  have "\<not> taskTerminal (tk_Status (cr_Task (created_task ''working'')))" by code_simp
  from task_reference_resolves [OF sample_payloads(1) proxied_result [OF working_ok] this] show ?thesis by blast
qed

theorem finished_at_creation_unreachable_witness:
  "\<exists>managerID m i. mapped (fst (sample_proxied ''completed'')) managerID m \<and>
    map_of (cn_taskLease (cw_cont (fst (sample_proxied ''completed'')))) managerID = Some i \<and>
    \<not> ul_released (cw_leases (fst (sample_proxied ''completed'')) ! i)"
proof -
  have "taskTerminal (tk_Status (cr_Task (created_task ''completed'')))" by code_simp
  from finished_at_creation_unreachable [OF sample_payloads(1) proxied_result [OF completed_ok] this] show ?thesis by blast
qed

definition linked_result :: tool_result where
  "linked_result = \<lparr>tr_Content = [OtherContent ''text'', ResourceLink ''file:///a'' ''name''], tr_Structured = None, tr_Rest = []\<rparr>"

definition sample_rewritten :: "cont_world \<times> (cont_error, tool_result) result" where
  "sample_rewritten = rewriteResourceLinks sample_cont_lib sample_cont_env sample_id linked_result sample_cont"

theorem resource_links_lead_back_witness:
  "\<exists>out proxied. snd sample_rewritten = Inr out \<and> tr_Content out = [OtherContent ''text'', ResourceLink proxied ''name''] \<and>
    ReadResource sample_cont_lib sample_cont_env sample_answers proxied (fst sample_rewritten) =
      step_bind (acquire_use sample_cont_env (TrimSpace sample_id)) (\<lambda>l. release_after sample_cont_env l
        (call_lease sample_cont_env l True ''resources/read'' (\<lambda>s. Inr (JStr ''file:///a'')))) (fst sample_rewritten)"
proof -
  have "isl (snd sample_rewritten) = False" by code_simp
  then obtain out where o: "snd sample_rewritten = Inr out" by (cases "snd sample_rewritten") auto
  then have R: "rewriteResourceLinks sample_cont_lib sample_cont_env sample_id linked_result sample_cont = (fst sample_rewritten, Inr out)"
    by (simp add: sample_rewritten_def prod_eq_iff)
  have q: "\<not> sql_fails (ce_sql sample_cont_env) ''continuation by id''" by (simp add: sample_cont_env_def sample_q_def)
  have b: "\<not> blank ''file:///a''" by code_simp
  from resource_links_lead_back [OF sample_payloads(2) sample_urls R] q b o show ?thesis
    by (auto simp: linked_result_def list_all2_Cons1 sample_answers_def)
qed

theorem task_lease_bounded_witness:
  "ExpiresAt (cw_leases (fst (acquire_task sample_cont_env sample_id (taskTTL (Some 60000)) sample_cont)) ! 0) = Some (5 + 60000000000)"
proof -
  let ?A = "acquire_task sample_cont_env sample_id (taskTTL (Some 60000)) sample_cont"
  have "snd ?A = Inr 0" by code_simp
  then have A: "?A = (fst ?A, Inr 0)" by (simp add: prod_eq_iff)
  have m: "sv_maxTaskLease (cw_life (fst ?A)) = defaultMaximumTaskLease" by code_simp
  then have p: "0 < sv_maxTaskLease (cw_life (fst ?A))" by (simp add: defaultMaximumTaskLease_def)
  have n: "en_now (ce_life sample_cont_env) = 5" by (simp add: sample_cont_env_def sample_env_def)
  from task_lease_bounded [OF A p] show ?thesis by (auto simp: m n defaultMaximumTaskLease_def)
qed

end
