(* ===== verification/ContinuationProvider.thy ===== *)
theory ContinuationProvider
  imports ContinuationWitness RouterWitness
begin

text \<open>
  The sessions that the router really uses: \<^verbatim>\<open>internal/mcpmanager/execution_provider.go\<close>. A call goes to the leased session and
  its result through the continuation service. \<open>wraps\<close> says which error texts of the connector wrap
  \<^verbatim>\<open>downstream.ErrDownstreamUnavailable\<close>. The provider's world has the catalog's continuation table; the router reads only the tables
  of the index.
\<close>

text \<open>What \<^verbatim>\<open>errors.Is\<close> finds in an error of the continuation service.\<close>

definition classify :: "(string \<Rightarrow> bool) \<Rightarrow> cont_error \<Rightarrow> call_error" where
  "classify wraps e = (case e of
     ContLife (DownstreamUnavailable m) \<Rightarrow> ErrDownstreamUnavailable
   | ContLife (ConnectFailed m) \<Rightarrow> if wraps m then ErrDownstreamUnavailable else CallFailed m
   | ContDownstream m \<Rightarrow> if wraps m then ErrDownstreamUnavailable else CallFailed m
   | _ \<Rightarrow> CallFailed [])"

record cont_session =
  cs_lease :: nat
  cs_serverID :: string

definition cont_Session :: "cont_env \<Rightarrow> cont_world \<Rightarrow> string \<Rightarrow> cont_world \<times> (life_error, cont_session option) result" where
  "cont_Session ce w serverID = (case acquire_use ce serverID w of
     (w', Inr i) \<Rightarrow> (w', Inr (Some \<lparr>cs_lease = i, cs_serverID = serverID\<rparr>))
   | (w', Inl (ContLife e)) \<Rightarrow> (w', Inl e)
   | (w', Inl e) \<Rightarrow> (w', Inr None))"

definition cont_CallTool :: "cont_lib \<Rightarrow> cont_env \<Rightarrow> (string \<Rightarrow> bool) \<Rightarrow> (tool_result \<Rightarrow> call_result) \<Rightarrow>
    (nat \<Rightarrow> string \<Rightarrow> json option \<Rightarrow> (call_error, tool_result option) result) \<Rightarrow> cont_world \<Rightarrow> cont_session \<Rightarrow> string \<Rightarrow> json option \<Rightarrow>
    cont_world \<times> (call_error, call_result option) result" where
  "cont_CallTool lib ce wraps encode answer w session name arguments =
     (case lease_CallTool (ce_life ce) (cw_life w) (cw_leases w ! cs_lease session) (\<lambda>s. answer s name arguments) of
        (sv, Inl e) \<Rightarrow> (w\<lparr>cw_life := sv\<rparr>, Inl (classify wraps (ContLife e)))
      | (sv, Inr (Inl e)) \<Rightarrow> (w\<lparr>cw_life := sv\<rparr>, Inl e)
      | (sv, Inr (Inr result)) \<Rightarrow> (case ProcessCallResult lib ce (cs_serverID session) result (w\<lparr>cw_life := sv\<rparr>) of
           (w', Inl e) \<Rightarrow> (w', Inl (classify wraps e))
         | (w', Inr out) \<Rightarrow> (w', Inr (map_option encode out))))"

definition continuationSessionProvider :: "cont_lib \<Rightarrow> cont_env \<Rightarrow> (string \<Rightarrow> bool) \<Rightarrow> (tool_result \<Rightarrow> call_result) \<Rightarrow>
    (nat \<Rightarrow> string \<Rightarrow> json option \<Rightarrow> (call_error, tool_result option) result) \<Rightarrow> (cont_world, cont_session) provider" where
  "continuationSessionProvider lib ce wraps encode answer = \<lparr>pv_Session = cont_Session ce,
     pv_InitialTools = (\<lambda>w s. en_initial (ce_life ce) (ul_session (cw_leases w ! cs_lease s))),
     pv_CallTool = cont_CallTool lib ce wraps encode answer,
     pv_Release = (\<lambda>w s. release_lease (ce_life ce) (cs_lease s) w)\<rparr>"

section \<open>A task that cannot be held\<close>

lemma proxy_refused:
  assumes "\<not> blank (tk_TaskID (cr_Task t))" and "newOpaqueID ''task_'' (ce_rand ce 0) = Inr i"
    and "acquire_task ce serverID (taskTTL (tk_TTLMS (cr_Task t))) w = (w', Inl e)"
  shows "proxyCreatedTask lib ce serverID t w = (w', Inl e)"
  using assms by (simp add: proxyCreatedTask_def Let_def step_bind_def step_require_def step_result_def)

text \<open>
  (C38) A downstream server accepts a call by creating a task and then becomes unreachable, so that the lease for the task
  cannot be taken: the call has run, but the error of the lease wraps ErrDownstreamUnavailable, and the router reports that the
  call was not started and may be retried.
\<close>

theorem started_task_reported_not_started:
  assumes rt: "rt_sessions rt = continuationSessionProvider lib ce wraps encode answer"
    and live: "\<not> ul_released (cw_leases (w_sessions w) ! cs_lease s)"
    and expected: "ts_Fingerprint (en_initial (ce_life ce) session) = ts_Fingerprint expected" "ts_Fingerprint expected \<noteq> []"
    and session: "session = ul_session (cw_leases (w_sessions w) ! cs_lease s)"
    and ran: "answer session (cl_ToolName claims) (in_Arguments input) = Inr (Some res)" "unwrapTaskResult lib res = Inr (Some t)"
    and new: "\<not> blank (tk_TaskID (cr_Task t))" "newOpaqueID ''task_'' (ce_rand ce 0) = Inr i"
    and unreachable: "AcquireTaskLease (ce_life ce) (ce_connect ce) (ce_locked ce)
        (lease_touch (ce_life ce) (lease_touch (ce_life ce) (cw_life (w_sessions w)) (cw_leases (w_sessions w) ! cs_lease s)) (cw_leases (w_sessions w) ! cs_lease s))
        (cs_serverID s) (taskTTL (tk_TTLMS (cr_Task t))) = (sv', Inl (ConnectFailed m))" "wraps m"
  shows "snd (use_session rt q now claims expected input s w) = Inl (not_started CodeDownstreamUnavailable True)"
proof -
  let ?w = "w_sessions w"
  let ?l = "cw_leases ?w ! cs_lease s"
  let ?sv = "lease_touch (ce_life ce) (lease_touch (ce_life ce) (cw_life ?w) ?l) ?l"
  have C: "lease_CallTool (ce_life ce) (cw_life ?w) ?l (\<lambda>c. answer c (cl_ToolName claims) (in_Arguments input)) = (?sv, Inr (Inr (Some res)))"
    using live ran(1) session by (simp add: lease_CallTool_def Let_def)
  have "acquire_task ce (cs_serverID s) (taskTTL (tk_TTLMS (cr_Task t))) (?w\<lparr>cw_life := ?sv\<rparr>) = (?w\<lparr>cw_life := sv'\<rparr>, Inl (ContLife (ConnectFailed m)))"
    using unreachable(1) by (simp add: acquire_task_def)
  then have "proxyCreatedTask lib ce (cs_serverID s) t (?w\<lparr>cw_life := ?sv\<rparr>) = (?w\<lparr>cw_life := sv'\<rparr>, Inl (ContLife (ConnectFailed m)))"
    by (rule proxy_refused [OF new])
  then have "cont_CallTool lib ce wraps encode answer ?w s (cl_ToolName claims) (in_Arguments input) = (?w\<lparr>cw_life := sv'\<rparr>, Inl ErrDownstreamUnavailable)"
    using C ran(2) unreachable(2) by (simp add: cont_CallTool_def ProcessCallResult_def step_bind_def step_result_def classify_def)
  then show ?thesis using expected session by (simp add: use_session_def Let_def rt continuationSessionProvider_def)
qed

definition down_env :: cont_env where
  "down_env = sample_cont_env\<lparr>ce_life := (sample_env 6)\<lparr>en_exited := (\<lambda>c. True), en_initial := (\<lambda>c. \<lparr>ts_Tools = [], ts_Fingerprint = ''f''\<rparr>)\<rparr>,
     ce_connect := (\<lambda>e. ConnFail ''down'')\<rparr>"

definition leased_cont :: cont_world where
  "leased_cont = fst (acquire_use sample_cont_env sample_id sample_cont)"

definition task_answer :: "nat \<Rightarrow> string \<Rightarrow> json option \<Rightarrow> (call_error, tool_result option) result" where
  "task_answer c name arguments = Inr (Some \<lparr>tr_Content = [],
     tr_Structured = Some (JObj [(taskResultSentinel, JStr (pair_text ''t1'' ''working''))]), tr_Rest = []\<rparr>)"

definition cont_router :: "(routing_snapshot, cont_world, cont_session) router" where
  "cont_router = \<lparr>rt_lib = route_lib, rt_hlib = route_hlib, rt_handles = None, rt_state = MemoryBackend,
     rt_sessions = continuationSessionProvider sample_cont_lib down_env (\<lambda>m. m = ''down'') (\<lambda>r. \<lparr>cr_IsError = False, cr_Encoded = Some []\<rparr>) task_answer,
     rt_maxResultBytes = 10\<rparr>"

definition cont_router_world :: "(routing_snapshot, cont_world) world" where
  "cont_router_world = \<lparr>w_catalog = schemaSQL, w_routing = \<lparr>rs_RoutingRevision = 1, rs_RoutingStateHash = ''h'', rs_PreferenceRevision = 0\<rparr>,
     w_sessions = leased_cont\<rparr>"

theorem started_task_reported_not_started_witness:
  "snd (use_session cont_router sample_q 6 sample_claims \<lparr>ts_Tools = [], ts_Fingerprint = ''f''\<rparr>
     \<lparr>in_ExecutionHandle = [], in_ToolName = [], in_Arguments = None\<rparr> \<lparr>cs_lease = 0, cs_serverID = sample_id\<rparr> cont_router_world)
   = Inl (not_started CodeDownstreamUnavailable True)"
proof (rule started_task_reported_not_started [where ce = down_env and session = 7 and m = "''down''"
      and t = "\<lparr>cr_ResultType = ''task'', cr_Task = \<lparr>tk_TaskID = ''t1'', tk_Status = ''working'', tk_TTLMS = None, tk_Rest = []\<rparr>\<rparr>"])
  show "rt_sessions cont_router = continuationSessionProvider sample_cont_lib down_env (\<lambda>m. m = ''down'')
    (\<lambda>r. \<lparr>cr_IsError = False, cr_Encoded = Some []\<rparr>) task_answer" by (simp add: cont_router_def)
  show "task_answer 7 (cl_ToolName sample_claims) (in_Arguments \<lparr>in_ExecutionHandle = [], in_ToolName = [], in_Arguments = None\<rparr>) =
    Inr (Some \<lparr>tr_Content = [], tr_Structured = Some (JObj [(taskResultSentinel, JStr (pair_text ''t1'' ''working''))]), tr_Rest = []\<rparr>)"
    by (simp add: task_answer_def)
  let ?sv = "lease_touch (ce_life down_env) (lease_touch (ce_life down_env) (cw_life (w_sessions cont_router_world))
      (cw_leases (w_sessions cont_router_world) ! cs_lease \<lparr>cs_lease = 0, cs_serverID = sample_id\<rparr>))
      (cw_leases (w_sessions cont_router_world) ! cs_lease \<lparr>cs_lease = 0, cs_serverID = sample_id\<rparr>)"
  let ?A = "AcquireTaskLease (ce_life down_env) (ce_connect down_env) (ce_locked down_env) ?sv
      (cs_serverID \<lparr>cs_lease = 0, cs_serverID = sample_id\<rparr>) (taskTTL None)"
  have "snd ?A = Inl (ConnectFailed ''down'')" by code_simp
  then show "AcquireTaskLease (ce_life down_env) (ce_connect down_env) (ce_locked down_env) ?sv
      (cs_serverID \<lparr>cs_lease = 0, cs_serverID = sample_id\<rparr>) (taskTTL (tk_TTLMS (cr_Task
        \<lparr>cr_ResultType = ''task'', cr_Task = \<lparr>tk_TaskID = ''t1'', tk_Status = ''working'', tk_TTLMS = None, tk_Rest = []\<rparr>\<rparr>)))
      = (fst ?A, Inl (ConnectFailed ''down''))" by (simp add: prod_eq_iff)
  show "newOpaqueID ''task_'' (ce_rand down_env 0) = Inr (''task_'' @ EncodeToString (replicate 24 (char_of (0 :: nat))))"
    by (simp add: newOpaqueID_def down_env_def sample_cont_env_def)
qed code_simp+

end
