(* ===== verification/ManagerEndpoint.thy ===== *)
theory ManagerEndpoint
  imports Continuation Discovery ExecutionRouter StateCoordinator
begin

text \<open>
  The manager's own MCP endpoint: \<^verbatim>\<open>internal/mcpmanager\<close> v2_server.go (who may send a request, and the HTTP handlers around the
  MCP server), execution_tools.go (the ten executor tools), index_tools.go (large enrichment requests in pages). The MCP server
  of the SDK is a function from a request and a state to a new state and a response.
\<close>

section \<open>HTTP\<close>

text \<open>A header that is not sent is the empty string; a body that cannot be read is None.\<close>

record http_request =
  rq_Method :: string
  rq_Origin :: string
  rq_Authorization :: string
  rq_Protocol :: string
  rq_Body :: "string option"

record http_response =
  rs_Status :: nat
  rs_Body :: string

type_synonym 'w http_handler = "http_request \<Rightarrow> 'w \<Rightarrow> 'w \<times> http_response"

definition modernProtocolVersion :: string where "modernProtocolVersion = ''2026-07-28''"
definition bearer_prefix :: string where "bearer_prefix = ''Bearer ''"

definition localManagerSecurityHandler :: "'w http_handler \<Rightarrow> bool \<Rightarrow> string \<Rightarrow> 'w http_handler" where
  "localManagerSecurityHandler nxt enabled capability request w =
     (if TrimSpace (rq_Origin request) \<noteq> [] then (w, \<lparr>rs_Status = 403, rs_Body = ''browser Origin requests are not permitted''\<rparr>)
      else if enabled \<and> \<not> HasPrefix (rq_Authorization request) bearer_prefix
        then (w, \<lparr>rs_Status = 401, rs_Body = ''local Manager capability required''\<rparr>)
      else if enabled \<and> TrimSpace (TrimPrefix (rq_Authorization request) bearer_prefix) \<noteq> capability
        then (w, \<lparr>rs_Status = 401, rs_Body = ''local Manager capability required''\<rparr>)
      else nxt request w)"

text \<open>A POST body is read here and handed on as it was read.\<close>

definition hybridV2Handler :: "'w http_handler \<Rightarrow> 'w http_handler \<Rightarrow> 'w http_handler" where
  "hybridV2Handler modern legacy request w =
     (if rq_Method request = ''POST'' \<and> rq_Body request = None then (w, \<lparr>rs_Status = 400, rs_Body = ''read body''\<rparr>)
      else let body = (if rq_Method request = ''POST'' then (case rq_Body request of None \<Rightarrow> [] | Some b \<Rightarrow> b) else []) in
        if modernProtocolVersion \<le> rq_Protocol request \<or> Contains body (CHR 0x22 # ''method'' @ [CHR 0x22, CHR 0x3A, CHR 0x22] @ ''server/discover'' @ [CHR 0x22])
        then modern request w else legacy request w)"

text \<open>The JSON-RPC envelope as a map from its members to their raw JSON.\<close>

record wire_lib =
  wl_cont :: cont_lib
  wl_envelope :: "string \<Rightarrow> (string \<times> string) list option"
  wl_marshal :: "(string \<times> string) list \<Rightarrow> string option"

definition rewriteTaskWireResponse :: "wire_lib \<Rightarrow> string \<Rightarrow> string option" where
  "rewriteTaskWireResponse wl body = (if body = [] then None else case wl_envelope wl body of None \<Rightarrow> None
     | Some envelope \<Rightarrow> (case map_of envelope ''result'' of None \<Rightarrow> None
       | Some raw \<Rightarrow> if raw = [] then None else (case ct_read_tool (wl_cont wl) raw of None \<Rightarrow> None
         | Some result \<Rightarrow> (case unwrapTaskResult (wl_cont wl) result of Inl e \<Rightarrow> None | Inr None \<Rightarrow> None
           | Inr (Some task) \<Rightarrow> wl_marshal wl (alist_put ''result'' (ct_created (wl_cont wl) task) envelope)))))"

definition taskWireResponseHandler :: "wire_lib \<Rightarrow> 'w http_handler \<Rightarrow> 'w http_handler" where
  "taskWireResponseHandler wl nxt request w = (if rq_Method request \<noteq> ''POST'' then nxt request w
     else case nxt request w of (w', buffer) \<Rightarrow>
       (w', \<lparr>rs_Status = (if rs_Status buffer = 0 then 200 else rs_Status buffer),
             rs_Body = (case rewriteTaskWireResponse wl (rs_Body buffer) of None \<Rightarrow> rs_Body buffer | Some b \<Rightarrow> b)\<rparr>))"

text \<open>The handlers as \<^verbatim>\<open>NewV2Server\<close> stacks them.\<close>

definition manager_handler :: "wire_lib \<Rightarrow> bool \<Rightarrow> string \<Rightarrow> 'w http_handler \<Rightarrow> 'w http_handler \<Rightarrow> 'w http_handler" where
  "manager_handler wl enabled capability modern legacy =
     localManagerSecurityHandler (taskWireResponseHandler wl (hybridV2Handler modern legacy)) enabled capability"

datatype endpoint_error = CapabilityTooShort | EndpointSecret secret_error | EndpointRandom

definition ensureManagerCapability :: "('k \<Rightarrow> string \<Rightarrow> (secret_error, string) result) \<Rightarrow>
    ('k \<Rightarrow> string \<Rightarrow> string \<Rightarrow> 'k \<times> secret_error option) \<Rightarrow> string option \<Rightarrow> 'k \<Rightarrow> 'k \<times> (endpoint_error, string) result" where
  "ensureManagerCapability get put random k = (case get k LocalManagerCapabilitySecretRef of
     Inr v \<Rightarrow> if length v < 32 then (k, Inl CapabilityTooShort) else (k, Inr v)
   | Inl SecretNotFound \<Rightarrow> (case random of None \<Rightarrow> (k, Inl EndpointRandom)
       | Some bytes \<Rightarrow> let v = EncodeToString bytes in
           (case put k LocalManagerCapabilitySecretRef v of (k', Some e) \<Rightarrow> (k', Inl (EndpointSecret e)) | (k', None) \<Rightarrow> (k', Inr v)))
   | Inl e \<Rightarrow> (k, Inl (EndpointSecret e)))"

section \<open>Executor tools\<close>

record executorDefinition =
  ed_Class :: string
  ed_ReadOnly :: bool
  ed_Destructive :: bool
  ed_Idempotent :: bool
  ed_OpenWorld :: bool

definition executorDefinitions :: "executorDefinition list" where
  "executorDefinitions = map (\<lambda>(c, r, d, i, o'). \<lparr>ed_Class = c, ed_ReadOnly = r, ed_Destructive = d, ed_Idempotent = i, ed_OpenWorld = o'\<rparr>)
    [(ExecutorReadOnlyClosed, True, False, False, False),
     (ExecutorReadOnlyOpen, True, False, False, True),
     (ExecutorAdditiveClosed, False, False, False, False),
     (ExecutorAdditiveClosedIdempotent, False, False, True, False),
     (ExecutorAdditiveOpen, False, False, False, True),
     (ExecutorAdditiveOpenIdempotent, False, False, True, True),
     (ExecutorDestructiveClosed, False, True, False, False),
     (ExecutorDestructiveClosedIdempotent, False, True, True, False),
     (ExecutorDestructiveOpen, False, True, False, True),
     (ExecutorDestructiveOpenIdempotent, False, True, True, True)]"

text \<open>The tool a definition registers, as the JSON that a client sees: false hints without a pointer are omitted.\<close>

definition executor_tool :: "executorDefinition \<Rightarrow> json" where
  "executor_tool d = JObj [(''name'', JStr (ed_Class d)), (''annotations'', JObj (
     (if ed_ReadOnly d then [(''readOnlyHint'', JBool True)] else [(''destructiveHint'', JBool (ed_Destructive d))]) @
     (if ed_Idempotent d then [(''idempotentHint'', JBool True)] else []) @ [(''openWorldHint'', JBool (ed_OpenWorld d))]))]"

section \<open>Pages of an enrichment request\<close>

definition defaultIndexRequestPageItems :: int where "defaultIndexRequestPageItems = 16"
definition maxIndexRequestPageItems :: int where "maxIndexRequestPageItems = 64"
definition maxIndexRequestPageBytes :: nat where "maxIndexRequestPageBytes = 128 * 1024"

record indexGetBatchInput =
  gb_Kind :: string
  gb_Limit :: int
  gb_RequestOffset :: int
  gb_RequestItemLimit :: int

record indexRequestPage =
  ip_Offset :: nat
  ip_Returned :: nat
  ip_TotalItems :: nat
  ip_NextOffset :: nat
  ip_Complete :: bool

datatype page_error =
    NegativeOffset
  | NoPageableItems
  | ItemsNotArray
  | OffsetTooLarge
  | EmptyJSON string
  | PageDecode string
  | NotObject string
  | UnsupportedBatchKind
  | MissingProtocol
  | ProtocolMismatch

definition resolveIndexGetBatchPaging :: "indexGetBatchInput \<Rightarrow> int \<times> int" where
  "resolveIndexGetBatchPaging input = (if gb_Kind input = BatchCapabilityReconciliation
     then (1, if gb_RequestOffset input = 0 \<and> 1 < gb_Limit input then gb_Limit input else gb_RequestOffset input)
     else (gb_Limit input, gb_RequestOffset input))"

text \<open>The request with the items of one page.\<close>

definition with_items :: "(string \<times> json) list \<Rightarrow> json list \<Rightarrow> (string \<times> json) list" where
  "with_items request items = alist_put ''items'' (JArr items) request"

definition page_items :: "'a list \<Rightarrow> nat \<Rightarrow> nat \<Rightarrow> 'a list" where
  "page_items xs offset end = take (end - offset) (drop offset xs)"

text \<open>The page shrinks from its end until it fits, but never below one item.\<close>

fun shrink_page :: "(nat \<Rightarrow> bool) \<Rightarrow> nat \<Rightarrow> nat \<Rightarrow> nat" where
  "shrink_page fits offset end = (if offset + 1 < end \<and> \<not> fits end then shrink_page fits offset (end - 1) else end)"

declare shrink_page.simps [simp del]

definition page_limit :: "int \<Rightarrow> nat" where
  "page_limit itemLimit = nat (min (if itemLimit \<le> 0 then defaultIndexRequestPageItems else itemLimit) maxIndexRequestPageItems)"

definition pageIndexRequest :: "codec \<Rightarrow> (string \<times> json) list \<Rightarrow> int \<Rightarrow> int \<Rightarrow>
    (page_error, (string \<times> json) list \<times> indexRequestPage option) result" where
  "pageIndexRequest cd request offset itemLimit = (if offset < 0 then Inl NegativeOffset
     else case map_of request ''items'' of
       None \<Rightarrow> if offset \<noteq> 0 then Inl NoPageableItems else Inr (request, None)
     | Some (JArr items) \<Rightarrow>
         if int (length items) < offset then Inl OffsetTooLarge
         else let start = nat offset;
                  end = shrink_page (\<lambda>e. length (marshal_json cd (JObj (with_items request (page_items items start e)))) \<le> maxIndexRequestPageBytes)
                    start (min (start + page_limit itemLimit) (length items));
                  complete = (end = length items)
           in Inr (with_items request (page_items items start end), Some \<lparr>ip_Offset = start, ip_Returned = end - start,
                ip_TotalItems = length items, ip_NextOffset = (if complete then 0 else end), ip_Complete = complete\<rparr>)
     | Some _ \<Rightarrow> Inl ItemsNotArray)"

text \<open>Decoding into a Go map keeps the last of several equal keys.\<close>

definition decodeIndexJSONObject :: "codec \<Rightarrow> string \<Rightarrow> string \<Rightarrow> (page_error, (string \<times> json) list) result" where
  "decodeIndexJSONObject cd body field = (if body = [] then Inl (EmptyJSON field) else case decode_json cd body of
     None \<Rightarrow> Inl (PageDecode field) | Some (JObj kvs) \<Rightarrow> Inr (foldl (\<lambda>m (k, v). alist_put k v m) [] kvs) | Some JNull \<Rightarrow> Inl (NotObject field) | Some _ \<Rightarrow> Inl (PageDecode field))"

definition validateProjectedBatchProtocol :: "(string \<times> json) list \<Rightarrow> string \<Rightarrow> (page_error, unit) result" where
  "validateProjectedBatchProtocol request expected = (case map_of request ''protocol'' of
     Some (JStr protocol) \<Rightarrow> if protocol = [] then Inl MissingProtocol else if protocol \<noteq> expected then Inl ProtocolMismatch else Inr ()
   | _ \<Rightarrow> Inl MissingProtocol)"

definition batch_protocol :: "string \<Rightarrow> (page_error, string) result" where
  "batch_protocol kind = (if kind = BatchToolEnrichment then Inr ToolEnrichmentProtocolVersion
     else if kind = BatchCapabilityReconciliation then Inr CapabilityProtocolVersion
     else if kind = BatchAmbiguityReview then Inr AmbiguityReviewProtocolVersion else Inl UnsupportedBatchKind)"

record indexEnrichmentBatch =
  ib_ID :: string
  ib_GenerationID :: string
  ib_Kind :: string
  ib_Required :: bool
  ib_RequestFingerprint :: string
  ib_Protocol :: string
  ib_Request :: "(string \<times> json) list"
  ib_RequestPage :: "indexRequestPage option"
  ib_AcceptedResponse :: "(string \<times> json) list option"

definition projectIndexBatchPage :: "codec \<Rightarrow> string \<times> EnrichmentBatch \<Rightarrow> int \<Rightarrow> int \<Rightarrow> (page_error, indexEnrichmentBatch) result" where
  "projectIndexBatchPage cd x offset itemLimit = (case x of (bid, batch) \<Rightarrow>
     rbind (decodeIndexJSONObject cd (eb_RequestJSON batch) ''request'') (\<lambda>request.
     rbind (batch_protocol (eb_Kind batch)) (\<lambda>protocol.
     rbind (validateProjectedBatchProtocol request protocol) (\<lambda>_.
     rbind (pageIndexRequest cd request offset itemLimit) (\<lambda>(paged, page).
     rbind (case eb_Accepted batch of None \<Rightarrow> Inr None | Some (fp, response, t) \<Rightarrow>
         if response = [] then Inr None else rbind (decodeIndexJSONObject cd response ''accepted response'') (\<lambda>v. Inr (Some v))) (\<lambda>accepted.
     Inr \<lparr>ib_ID = bid, ib_GenerationID = eb_GenerationID batch, ib_Kind = eb_Kind batch, ib_Required = eb_Required batch,
       ib_RequestFingerprint = eb_RequestFingerprint batch, ib_Protocol = protocol, ib_Request = paged, ib_RequestPage = page,
       ib_AcceptedResponse = accepted\<rparr>))))))"

fun projectIndexBatchesPage :: "codec \<Rightarrow> (string \<times> EnrichmentBatch) list \<Rightarrow> int \<Rightarrow> int \<Rightarrow> (page_error, indexEnrichmentBatch list) result" where
  "projectIndexBatchesPage cd [] offset itemLimit = Inr []"
| "projectIndexBatchesPage cd (b # bs) offset itemLimit = rbind (projectIndexBatchPage cd b offset itemLimit) (\<lambda>item.
     rbind (projectIndexBatchesPage cd bs offset itemLimit) (\<lambda>items. Inr (item # items)))"

end
