(* ===== verification/ManagerEndpointFacts.thy ===== *)
theory ManagerEndpointFacts
  imports ManagerEndpoint ContinuationTrips SecretStore
begin

text \<open>
  The endpoint: what reaches the MCP server carries the capability, the advertised executor tools mean their classes, the pages
  of a request are the request, and a task crosses both wires.
\<close>

section \<open>Trimming twice\<close>

lemma strip_one_None: "strip_one ps s = None \<longleftrightarrow> (\<forall>p\<in>set ps. p = [] \<or> \<not> prefix p s)"
proof (induction ps s rule: strip_one.induct)
  case (2 p ps s)
  have "take (length p) s = p \<longleftrightarrow> prefix p s" by (metis append_eq_conv_conj prefixE prefixI append_take_drop_id)
  then show ?case using 2 by auto
qed simp

lemma TrimSpace_idem: "TrimSpace (TrimSpace s) = TrimSpace s"
proof -
  let ?l = "trim_prefixes go_spaces s" and ?R = "map rev go_spaces"
  let ?t = "rev (trim_prefixes ?R (rev ?l))"
  have "suffix (trim_prefixes ?R (rev ?l)) (rev ?l)" by (rule trim_prefixes_suffix)
  then have "prefix ?t ?l" by (metis rev_rev_ident suffix_to_prefix)
  then have "strip_one go_spaces ?t = None"
    using trim_prefixes_stop [of go_spaces s] by (auto simp: strip_one_None intro: prefix_order.trans)
  then have "trim_prefixes go_spaces ?t = ?t" by (rule trim_prefixes_fix)
  moreover have "trim_prefixes ?R (rev ?t) = rev ?t" using trim_prefixes_stop by (intro trim_prefixes_fix) simp
  ultimately show ?thesis by (simp add: TrimSpace_def)
qed

section \<open>Who may send a request\<close>

definition carries :: "string \<Rightarrow> http_request \<Rightarrow> bool" where
  "carries capability request \<longleftrightarrow> (\<exists>token. rq_Authorization request = bearer_prefix @ token \<and> TrimSpace token = capability)"

lemma HasPrefix_split: "HasPrefix s p \<longleftrightarrow> (\<exists>rest. s = p @ rest)"
  by (auto simp: HasPrefix_def) (metis append_take_drop_id)

lemma security_cases:
  "TrimSpace (rq_Origin request) = [] \<and> (enabled \<longrightarrow> carries capability request) \<Longrightarrow>
     localManagerSecurityHandler nxt enabled capability request w = nxt request w"
  "\<not> (TrimSpace (rq_Origin request) = [] \<and> (enabled \<longrightarrow> carries capability request)) \<Longrightarrow>
     fst (localManagerSecurityHandler nxt enabled capability request w) = w \<and>
     rs_Status (snd (localManagerSecurityHandler nxt enabled capability request w)) \<in> {401, 403}"
  by (auto simp: localManagerSecurityHandler_def carries_def TrimPrefix_def HasPrefix_split)

lemma length_EncodeToString: "length (EncodeToString s) = (length s * 4 + 2) div 3"
  by (induction s rule: EncodeToString.induct) auto

lemma encoded_trimmed: "TrimSpace (EncodeToString s) = EncodeToString s"
  by (rule TrimSpace_no_space [OF encoded_no_space])

text \<open>A start of the manager over the secret store of the platform.\<close>

abbreviation capability_at_start :: "secret_platform \<Rightarrow> (string \<Rightarrow> string) \<Rightarrow> (string \<Rightarrow> bool) \<Rightarrow> string option \<Rightarrow> secret_store \<Rightarrow>
    secret_store \<times> (endpoint_error, string) result" where
  "capability_at_start pf envName fails random \<equiv> ensureManagerCapability (envFallback_Get pf envName fails) (envFallback_Put pf fails) random"

text \<open>Two states of the store in which the capability has the same environment variable and the same stored text.\<close>

definition same_capability :: "(string \<Rightarrow> string) \<Rightarrow> secret_store \<Rightarrow> secret_store \<Rightarrow> bool" where
  "same_capability envName k k2 \<longleftrightarrow> ss_env k2 (envName LocalManagerCapabilitySecretRef) = ss_env k (envName LocalManagerCapabilitySecretRef) \<and>
     ss_native k2 LocalManagerCapabilitySecretRef = ss_native k LocalManagerCapabilitySecretRef"

lemma same_capability_found:
  assumes "envFallback_Get pf envName fails k LocalManagerCapabilitySecretRef = Inr v" and "same_capability envName k k2" and "\<not> fails2 LocalManagerCapabilitySecretRef"
  shows "envFallback_Get pf envName fails2 k2 LocalManagerCapabilitySecretRef = Inr v"
  using assms by (cases pf) (auto simp: envFallback_Get_def same_capability_def native_defs split: option.splits if_splits)

lemma generated_capability_found:
  assumes "envFallback_Get pf envName fails k LocalManagerCapabilitySecretRef = Inl SecretNotFound"
    and "envFallback_Put pf fails k LocalManagerCapabilitySecretRef (EncodeToString bytes) = (k', None)"
    and "same_capability envName k' k2" and "\<not> fails2 LocalManagerCapabilitySecretRef"
  shows "envFallback_Get pf envName fails2 k2 LocalManagerCapabilitySecretRef = Inr (EncodeToString bytes)"
proof -
  have "ss_env k (envName LocalManagerCapabilitySecretRef) = None" "ValidateRef LocalManagerCapabilitySecretRef"
    using assms(1) by (auto simp: envFallback_Get_def bad_ref_def split: option.splits if_splits)
  then show ?thesis using envFallback_Put_stored [OF assms(2)] assms(3,4)
    by (cases pf) (auto simp: envFallback_Get_def same_capability_def native_defs encoded_trimmed)
qed

text \<open>
  (C10) The capability guards the endpoint: over the secret store of any platform, the capability a start of the manager works with,
  found or newly generated from 32 random bytes, has at least 32 bytes, and every later start, in whatever state the store is by then, finds
  that same capability and changes nothing, provided its environment variable and its entry in the keychain are as they were and
  the lookup does not fail (on Linux and macOS a lookup that fails is taken for a missing secret and a new capability replaces the stored one).
  With access protection on, a request that changes anything or is answered other than with 401 or 403 carries exactly that
  capability as its bearer token and no browser origin, and a request that does is served.
\<close>

theorem capability_guards_endpoint:
  assumes e: "capability_at_start pf envName fails random k = (k', Inr capability)"
    and random: "\<And>bytes. random = Some bytes \<Longrightarrow> length bytes = 32"
  shows "32 \<le> length capability \<and>
    (\<forall>fails2 random2 k2. same_capability envName k' k2 \<and> \<not> fails2 LocalManagerCapabilitySecretRef \<longrightarrow>
       capability_at_start pf envName fails2 random2 k2 = (k2, Inr capability)) \<and>
    (let (w', response) = manager_handler wl True capability modern legacy request w in
      (w' \<noteq> w \<or> rs_Status response \<notin> {401, 403} \<longrightarrow> TrimSpace (rq_Origin request) = [] \<and> carries capability request) \<and>
      (TrimSpace (rq_Origin request) = [] \<and> carries capability request \<longrightarrow>
         (w', response) = taskWireResponseHandler wl (hybridV2Handler modern legacy) request w))"
proof (intro conjI allI impI)
  show len: "32 \<le> length capability"
    using e random by (auto simp: ensureManagerCapability_def Let_def length_EncodeToString split: sum.splits secret_error.splits if_splits option.splits prod.splits)
  fix fails2 random2 k2
  assume later: "same_capability envName k' k2 \<and> \<not> fails2 LocalManagerCapabilitySecretRef"
  have "envFallback_Get pf envName fails2 k2 LocalManagerCapabilitySecretRef = Inr capability"
    using e later by (auto simp: ensureManagerCapability_def Let_def split: sum.splits secret_error.splits if_splits option.splits prod.splits
      intro: same_capability_found generated_capability_found)
  then show "capability_at_start pf envName fails2 random2 k2 = (k2, Inr capability)" using len by (simp add: ensureManagerCapability_def)
next
  let ?served = "taskWireResponseHandler wl (hybridV2Handler modern legacy)"
  note cases = security_cases [of request True capability ?served w, folded manager_handler_def]
  show "let (w', response) = manager_handler wl True capability modern legacy request w in
      (w' \<noteq> w \<or> rs_Status response \<notin> {401, 403} \<longrightarrow> TrimSpace (rq_Origin request) = [] \<and> carries capability request) \<and>
      (TrimSpace (rq_Origin request) = [] \<and> carries capability request \<longrightarrow> (w', response) = ?served request w)"
    by (cases "TrimSpace (rq_Origin request) = [] \<and> carries capability request") (use cases in \<open>auto split: prod.split\<close>)
qed

text \<open>
  A capability with white space around it, from the environment or from the Windows keychain, is accepted at the start, and then no request at
  all is served while access protection is on: the token of a request is trimmed and the capability is not.
\<close>

theorem padded_capability_locks_out:
  assumes "envFallback_Get pf envName fails k LocalManagerCapabilitySecretRef = Inr capability" and "32 \<le> length capability"
    and "TrimSpace capability \<noteq> capability"
  shows "capability_at_start pf envName fails random k = (k, Inr capability) \<and>
    fst (manager_handler wl True capability modern legacy request w) = w \<and>
    rs_Status (snd (manager_handler wl True capability modern legacy request w)) \<in> {401, 403}"
proof -
  have "\<not> carries capability request" using assms(3) TrimSpace_idem by (auto simp: carries_def)
  then show ?thesis
    using security_cases(2) [of request True capability "taskWireResponseHandler wl (hybridV2Handler modern legacy)" w] assms
    by (simp add: manager_handler_def ensureManagerCapability_def)
qed

text \<open>
  On Linux and macOS one lookup that fails at a start is enough to lose the stored capability: a new one takes its place, and the clients that were given the old
  one are refused from then on.
\<close>

theorem failed_lookup_replaces_capability:
  assumes pf: "pf = LinuxStore \<or> pf = DarwinStore" and env: "ss_env k (envName LocalManagerCapabilitySecretRef) = None"
    and get: "fails LocalManagerCapabilitySecretRef" and put: "\<not> fails2 LocalManagerCapabilitySecretRef"
  shows "ensureManagerCapability (envFallback_Get pf envName fails) (envFallback_Put pf fails2) (Some bytes) k =
    (k\<lparr>ss_native := (ss_native k)(LocalManagerCapabilitySecretRef \<mapsto> EncodeToString bytes)\<rparr>, Inr (EncodeToString bytes))"
proof -
  have "ValidateRef LocalManagerCapabilitySecretRef" by code_simp
  then show ?thesis using assms by (auto simp: ensureManagerCapability_def envFallback_Get_def envFallback_Put_def native_defs Let_def)
qed

section \<open>Executor tools\<close>

lemma classified_tool:
  assumes "decode_json cd body = Some (executor_tool d)" and "\<not> blank (ed_Class d)"
  shows "ExecutorClassForJSON cd body =
    Inr (executor_for_hints (ed_ReadOnly d) (ed_ReadOnly d \<or> ed_Destructive d) (ed_Idempotent d) (ed_OpenWorld d))"
  using assms by (cases "ed_ReadOnly d"; cases "ed_Idempotent d")
    (simp_all add: ExecutorClassForJSON_def executor_tool_def as_object_def obj_get_def boolHint_def rbind_def)

text \<open>
  (C22) The permission classes are what they say: the manager advertises one tool for each executor class it accepts, and reading
  the annotations of the advertised tool back with the classifier that is used for downstream tools gives that very class.
\<close>

theorem executor_tools_mean_their_class:
  assumes "\<And>d. d \<in> set executorDefinitions \<Longrightarrow> decode_json cd (text_of d) = Some (executor_tool d)"
  shows "(\<forall>ec. knownExecutorClass ec \<longleftrightarrow> (\<exists>!d. d \<in> set executorDefinitions \<and> ed_Class d = ec)) \<and>
    (\<forall>d. d \<in> set executorDefinitions \<longrightarrow> ExecutorClassForJSON cd (text_of d) = Inr (ed_Class d))"
proof -
  have d: "distinct (map ed_Class executorDefinitions)" by code_simp
  have s: "set (map ed_Class executorDefinitions) = {ExecutorReadOnlyClosed, ExecutorReadOnlyOpen, ExecutorAdditiveClosed,
     ExecutorAdditiveClosedIdempotent, ExecutorAdditiveOpen, ExecutorAdditiveOpenIdempotent, ExecutorDestructiveClosed,
     ExecutorDestructiveClosedIdempotent, ExecutorDestructiveOpen, ExecutorDestructiveOpenIdempotent}"
    by (simp add: executorDefinitions_def)
  have k: "knownExecutorClass ec \<longleftrightarrow> (\<exists>!d. d \<in> set executorDefinitions \<and> ed_Class d = ec)" for ec
  proof -
    have "knownExecutorClass ec \<longleftrightarrow> ec \<in> ed_Class ` set executorDefinitions" using s by (simp add: knownExecutorClass_def)
    also have "\<dots> \<longleftrightarrow> (\<exists>!d. d \<in> set executorDefinitions \<and> ed_Class d = ec)"
      using d by (auto simp: distinct_map inj_on_def)
    finally show ?thesis .
  qed
  have "list_all (\<lambda>d. \<not> blank (ed_Class d)) executorDefinitions" by code_simp
  then have "\<not> blank (ed_Class d)" if "d \<in> set executorDefinitions" for d using that by (simp add: list_all_iff)
  moreover have "list_all (\<lambda>d. executor_for_hints (ed_ReadOnly d) (ed_ReadOnly d \<or> ed_Destructive d) (ed_Idempotent d) (ed_OpenWorld d) = ed_Class d)
    executorDefinitions" by code_simp
  ultimately have "ExecutorClassForJSON cd (text_of d) = Inr (ed_Class d)" if "d \<in> set executorDefinitions" for d
    using classified_tool [OF assms [OF that]] that by (simp add: list_all_iff)
  then show ?thesis using k by blast
qed

section \<open>Pages\<close>

lemma shrink_page_bounds: "offset < e \<Longrightarrow> offset < shrink_page fits offset e \<and> shrink_page fits offset e \<le> e"
proof (induction fits offset e rule: shrink_page.induct)
  case (1 fits offset e)
  show ?case
  proof (cases "offset + 1 < e \<and> \<not> fits e")
    case True
    then have "offset < e - 1" by arith
    then have "offset < shrink_page fits offset (e - 1) \<and> shrink_page fits offset (e - 1) \<le> e - 1" by (rule 1(1) [OF True])
    then have "offset < shrink_page fits offset (e - 1) \<and> shrink_page fits offset (e - 1) \<le> e" by linarith
    then show ?thesis using True by (simp add: shrink_page.simps [of fits offset e])
  next
    case False
    then have "shrink_page fits offset e = e" by (auto simp: shrink_page.simps [of fits offset e])
    then show ?thesis using 1(2) by simp
  qed
qed

lemma shrink_page_self: "shrink_page fits e e = e"
  by (simp add: shrink_page.simps)

lemma shrink_page_fits: "offset < e \<Longrightarrow> offset + 1 < shrink_page fits offset e \<Longrightarrow> fits (shrink_page fits offset e)"
proof (induction fits offset e rule: shrink_page.induct)
  case (1 fits offset e)
  then show ?case by (auto simp: shrink_page.simps [of fits offset e] split: if_splits)
qed

lemma page_items_append: "offset \<le> e \<Longrightarrow> e \<le> length xs \<Longrightarrow> page_items xs offset e @ drop e xs = drop offset xs"
  by (simp add: page_items_def) (metis append_take_drop_id drop_drop le_add_diff_inverse2)

text \<open>What a client does: fetch pages from an offset until one is complete, with any page size for each request.\<close>

fun fetch_pages :: "codec \<Rightarrow> (string \<times> json) list \<Rightarrow> int list \<Rightarrow> nat \<Rightarrow> json list option" where
  "fetch_pages cd request [] offset = None"
| "fetch_pages cd request (limit # limits) offset = (case pageIndexRequest cd request (int offset) limit of
     Inr (paged, Some page) \<Rightarrow> (case map_of paged ''items'' of
       Some (JArr items) \<Rightarrow> if ip_Complete page then Some items else map_option ((@) items) (fetch_pages cd request limits (ip_NextOffset page))
     | _ \<Rightarrow> None)
   | _ \<Rightarrow> None)"

lemma page_progress:
  assumes items: "map_of request ''items'' = Some (JArr items)" and off: "offset \<le> length items"
  obtains e paged where "offset \<le> e" "e \<le> length items" "offset < length items \<Longrightarrow> offset < e" "map_of paged ''items'' = Some (JArr (page_items items offset e))"
    "pageIndexRequest cd request (int offset) limit = Inr (paged, Some \<lparr>ip_Offset = offset, ip_Returned = e - offset, ip_TotalItems = length items,
       ip_NextOffset = (if e = length items then 0 else e), ip_Complete = (e = length items)\<rparr>)"
    "offset + 1 < e \<Longrightarrow> length (marshal_json cd (JObj paged)) \<le> maxIndexRequestPageBytes" "e - offset \<le> 64"
proof -
  let ?fits = "\<lambda>e. length (marshal_json cd (JObj (with_items request (page_items items offset e)))) \<le> maxIndexRequestPageBytes"
  let ?top = "min (offset + page_limit limit) (length items)" and ?e = "shrink_page ?fits offset (min (offset + page_limit limit) (length items))"
  have lim: "0 < page_limit limit" "page_limit limit \<le> 64"
    by (auto simp: page_limit_def defaultIndexRequestPageItems_def maxIndexRequestPageItems_def)
  have "\<exists>e. e = ?e \<and> offset \<le> e \<and> e \<le> length items \<and> e \<le> offset + 64 \<and> (offset < length items \<longrightarrow> offset < e) \<and> (offset + 1 < e \<longrightarrow> ?fits e)"
  proof (cases "offset < length items")
    case True
    then have t: "offset < ?top" using lim by simp
    have "?top \<le> length items" "?top \<le> offset + 64" using lim by auto
    then show ?thesis using shrink_page_bounds [OF t, of ?fits] shrink_page_fits [OF t, of ?fits] by (intro exI [of _ ?e]) linarith
  next
    case False
    then have "?top = offset" using off by simp
    then show ?thesis using False shrink_page_self [of ?fits offset] off by simp
  qed
  then obtain e where e: "e = ?e" and b: "offset \<le> e" "e \<le> length items" "e \<le> offset + 64" "offset < length items \<Longrightarrow> offset < e" "offset + 1 < e \<Longrightarrow> ?fits e"
    by blast
  have P: "pageIndexRequest cd request (int offset) limit = Inr (with_items request (page_items items offset e), Some \<lparr>ip_Offset = offset,
      ip_Returned = e - offset, ip_TotalItems = length items, ip_NextOffset = (if e = length items then 0 else e), ip_Complete = (e = length items)\<rparr>)"
    using off items by (simp add: pageIndexRequest_def Let_def e)
  show thesis by (rule that [OF b(1,2,4) _ P]) (use b in \<open>simp_all add: with_items_def\<close>)
qed

lemma fetch_pages_drop:
  "map_of request ''items'' = Some (JArr items) \<Longrightarrow> offset \<le> length items \<Longrightarrow> length items - offset < length limits \<Longrightarrow>
   fetch_pages cd request limits offset = Some (drop offset items)"
proof (induction limits arbitrary: offset)
  case (Cons limit limits)
  obtain e paged where e: "offset \<le> e" "e \<le> length items" "offset < length items \<Longrightarrow> offset < e" "map_of paged ''items'' = Some (JArr (page_items items offset e))"
    and P: "pageIndexRequest cd request (int offset) limit = Inr (paged, Some \<lparr>ip_Offset = offset, ip_Returned = e - offset, ip_TotalItems = length items,
       ip_NextOffset = (if e = length items then 0 else e), ip_Complete = (e = length items)\<rparr>)"
    using page_progress [OF Cons.prems(1,2)] by metis
  show ?case
  proof (cases "e = length items")
    case True
    then show ?thesis using P e page_items_append [OF e(1,2)] by simp
  next
    case False
    then have "fetch_pages cd request limits e = Some (drop e items)" using Cons e by (intro Cons.IH) auto
    then show ?thesis using False P e page_items_append [OF e(1,2)] by simp
  qed
qed simp

text \<open>
  Reading an enrichment request page by page ends and gives the request: from offset 0, with any page size at each step
  and any sizes of the items, following next_offset reaches a complete page after at most one page per item (or one for an empty
  request), and the pages together are exactly the items; each page has at most 64 items and, unless it is a single item, at most
  128 KiB.
\<close>

theorem pages_reassemble:
  assumes items: "map_of request ''items'' = Some (JArr items)" and "length items < length limits"
  shows "fetch_pages cd request limits 0 = Some items \<and>
    (\<forall>offset limit paged page. pageIndexRequest cd request offset limit = Inr (paged, Some page) \<longrightarrow> ip_Returned page \<le> 64 \<and>
       (1 < ip_Returned page \<longrightarrow> length (marshal_json cd (JObj paged)) \<le> maxIndexRequestPageBytes))"
proof (intro conjI allI impI)
  show "fetch_pages cd request limits 0 = Some items" using fetch_pages_drop [OF items, of 0 limits cd] assms(2) by simp
next
  fix offset limit paged page assume P: "pageIndexRequest cd request offset limit = Inr (paged, Some page)"
  then have o: "offset = int (nat offset)" "nat offset \<le> length items" using items by (auto simp: pageIndexRequest_def split: if_splits)
  obtain e paged' where e: "pageIndexRequest cd request (int (nat offset)) limit = Inr (paged', Some \<lparr>ip_Offset = nat offset, ip_Returned = e - nat offset,
       ip_TotalItems = length items, ip_NextOffset = (if e = length items then 0 else e), ip_Complete = (e = length items)\<rparr>)"
    "nat offset + 1 < e \<Longrightarrow> length (marshal_json cd (JObj paged')) \<le> maxIndexRequestPageBytes" "e - nat offset \<le> 64"
    using page_progress [OF items o(2), of cd limit] by metis
  then have "paged = paged'" "ip_Returned page = e - nat offset" using P o(1) by auto
  then show "ip_Returned page \<le> 64" "1 < ip_Returned page \<Longrightarrow> length (marshal_json cd (JObj paged)) \<le> maxIndexRequestPageBytes"
    using e(2,3) by auto
qed

text \<open>
  The compatibility channel for clients with the old two-field schema does not always lead on: such a client asks for the next
  page of the capability batch by sending next_offset as the limit. That is the next page exactly when next_offset is not 1; after
  a first page of a single (large) item it is sent back to offset 0 and never sees the rest.
\<close>

theorem stale_client_paging:
  assumes "pageIndexRequest cd request 0 limit = Inr (paged, Some page)" and "\<not> ip_Complete page"
  shows "resolveIndexGetBatchPaging \<lparr>gb_Kind = BatchCapabilityReconciliation, gb_Limit = int (ip_NextOffset page), gb_RequestOffset = 0,
      gb_RequestItemLimit = 0\<rparr> = (1, if ip_NextOffset page = 1 then 0 else int (ip_NextOffset page)) \<and>
    0 < ip_NextOffset page"
proof -
  obtain items where items: "map_of request ''items'' = Some (JArr items)"
    using assms(1) by (simp add: pageIndexRequest_def split: option.splits json.splits)
  obtain e paged' where e: "0 < length items \<Longrightarrow> 0 < e" "e \<le> length items"
    and P: "pageIndexRequest cd request (int 0) limit = Inr (paged', Some \<lparr>ip_Offset = 0, ip_Returned = e - 0, ip_TotalItems = length items,
       ip_NextOffset = (if e = length items then 0 else e), ip_Complete = (e = length items)\<rparr>)"
    by (rule page_progress [OF items, of 0 cd limit]) auto
  have "page = \<lparr>ip_Offset = 0, ip_Returned = e - 0, ip_TotalItems = length items,
       ip_NextOffset = (if e = length items then 0 else e), ip_Complete = (e = length items)\<rparr>"
    using P assms(1) by simp
  moreover from this have n: "e \<noteq> length items" using assms(2) by auto
  then have "0 < length items" using e(2) by linarith
  then have "0 < e" by (rule e(1))
  ultimately show ?thesis using n by (auto simp: resolveIndexGetBatchPaging_def)
qed

section \<open>A task crosses both wires\<close>

text \<open>
  (C21) A task that a downstream server returns on the wire arrives at the client as a task: when the continuation service has processed the
  carried result without an error, and the response that goes out holds that result and is not blank, its result is replaced by
  the task as decoded, with the manager's ID in place of the server's, if the JSON codec reads back the task with that ID; the other members of the
  response envelope are those the server side wrote. (What the task's Go type does not know is lost in the decoding, and no response is rewritten if the
  envelope cannot be marshalled.)
\<close>

theorem task_crosses_both_wires:
  assumes raw: "taskAwareRead lib raw = Some carried" "DecodeToolOrTaskResult lib raw = Inr (Some task)"
    and processed: "ProcessCallResult lib ce serverID (Some carried) w = (w', Inr (Some out))"
    and json: "\<And>i t. newOpaqueID ''task_'' (ce_rand ce 0) = Inr i \<Longrightarrow> t = task\<lparr>cr_Task := (cr_Task task)\<lparr>tk_TaskID := i\<rparr>\<rparr> \<Longrightarrow>
      DecodeToolOrTaskResult lib (ct_created lib t) = Inr (Some t) \<and> ct_created lib t \<noteq> []"
    and body: "wl_cont wl = lib" "body \<noteq> []" "wl_envelope wl body = Some envelope" "map_of envelope ''result'' = Some inner" "inner \<noteq> []"
      "ct_read_tool lib inner = Some out"
  shows "\<exists>managerID. newOpaqueID ''task_'' (ce_rand ce 0) = Inr managerID \<and>
    (let result = ct_created lib (task\<lparr>cr_Task := (cr_Task task)\<lparr>tk_TaskID := managerID\<rparr>\<rparr>); envelope' = alist_put ''result'' result envelope in
      rewriteTaskWireResponse wl body = wl_marshal wl envelope' \<and>
      map_of envelope' = (map_of envelope)(''result'' \<mapsto> result) \<and>
      DecodeToolOrTaskResult lib result = Inr (Some (task\<lparr>cr_Task := (cr_Task task)\<lparr>tk_TaskID := managerID\<rparr>\<rparr>)))"
proof -
  have "raw \<noteq> []" and carried: "tr_Structured carried = Some (JObj [(taskResultSentinel, JStr raw)])"
    using raw by (auto simp: taskAwareRead_def split: if_splits sum.splits option.splits)
  then have "unwrapTaskResult lib carried = Inr (Some task)"
    using raw(2) by (simp add: unwrapTaskResult_def obj_get_def rbind_Inr)
  then have "proxyCreatedTask lib ce serverID task w = (w', Inr out)"
    using processed by (auto simp: ProcessCallResult_def step_result_Inr step_return_Inr elim!: step_bind_InrE)
  then obtain managerID where id: "newOpaqueID ''task_'' (ce_rand ce 0) = Inr managerID"
    and out: "CallResultForTask lib (task\<lparr>cr_Task := (cr_Task task)\<lparr>tk_TaskID := managerID\<rparr>\<rparr>) = Inr out"
    by (rule proxyCreatedTask_effect)
  let ?t = "task\<lparr>cr_Task := (cr_Task task)\<lparr>tk_TaskID := managerID\<rparr>\<rparr>"
  have "tr_Structured out = Some (JObj [(taskResultSentinel, JStr (ct_created lib ?t))])"
    using out by (auto simp: CallResultForTask_def split: if_splits)
  then have "unwrapTaskResult lib out = Inr (Some ?t)"
    using json [OF id refl] by (simp add: unwrapTaskResult_def obj_get_def rbind_Inr)
  then have "rewriteTaskWireResponse wl body = wl_marshal wl (alist_put ''result'' (ct_created lib ?t) envelope)"
    using body by (simp add: rewriteTaskWireResponse_def)
  then show ?thesis using id json [OF id refl] by (intro exI [of _ managerID]) (simp add: Let_def map_of_alist_put)
qed

end
