(* ===== verification/ManagerEndpointWitness.thy ===== *)
theory ManagerEndpointWitness
  imports ManagerEndpointFacts ContinuationWitness
begin

text \<open>Concrete instances of the theorems on the manager's endpoint.\<close>

section \<open>A secret store, and a server that answers with its state\<close>

definition empty_keychain :: secret_store where
  "empty_keychain = \<lparr>ss_env = (\<lambda>n. None), ss_native = Map.empty\<rparr>"

definition keychain_with :: "string \<Rightarrow> secret_store" where
  "keychain_with v = \<lparr>ss_env = (\<lambda>n. None), ss_native = [LocalManagerCapabilitySecretRef \<mapsto> v]\<rparr>"

definition never_fails :: "string \<Rightarrow> bool" where
  "never_fails = (\<lambda>ref. False)"

definition counting_handler :: "nat http_handler" where
  "counting_handler request w = (Suc w, \<lparr>rs_Status = 200, rs_Body = ''ok''\<rparr>)"

definition sample_wire :: wire_lib where
  "sample_wire = \<lparr>wl_cont = sample_cont_lib, wl_envelope = (\<lambda>b. None), wl_marshal = (\<lambda>e. None)\<rparr>"

definition sample_capability :: string where
  "sample_capability = EncodeToString (replicate 32 CHR ''r'')"

definition sample_request :: "string \<Rightarrow> http_request" where
  "sample_request token = \<lparr>rq_Method = ''POST'', rq_Origin = [], rq_Authorization = bearer_prefix @ token, rq_Protocol = modernProtocolVersion,
     rq_Body = Some []\<rparr>"

lemma capability_ref: "ValidateRef LocalManagerCapabilitySecretRef"
  by code_simp

theorem capability_guards_endpoint_witness:
  "32 \<le> length sample_capability \<and>
   capability_at_start DarwinStore (\<lambda>r. r) never_fails None (keychain_with sample_capability) = (keychain_with sample_capability, Inr sample_capability) \<and>
   manager_handler sample_wire True sample_capability counting_handler counting_handler (sample_request sample_capability) 0 =
     (1, \<lparr>rs_Status = 200, rs_Body = ''ok''\<rparr>)"
proof -
  have e: "capability_at_start DarwinStore (\<lambda>r. r) never_fails (Some (replicate 32 CHR ''r'')) empty_keychain = (keychain_with sample_capability, Inr sample_capability)"
    by (simp add: ensureManagerCapability_def envFallback_Get_def envFallback_Put_def native_defs capability_ref never_fails_def empty_keychain_def
      keychain_with_def sample_capability_def Let_def)
  have c: "TrimSpace (rq_Origin (sample_request sample_capability)) = []" "carries sample_capability (sample_request sample_capability)"
    by (simp_all add: sample_request_def carries_def sample_capability_def encoded_trimmed)
  have s: "taskWireResponseHandler sample_wire (hybridV2Handler counting_handler counting_handler) (sample_request sample_capability) 0 =
    (1, \<lparr>rs_Status = 200, rs_Body = ''ok''\<rparr>)" by code_simp
  have same: "same_capability (\<lambda>r. r) (keychain_with sample_capability) (keychain_with sample_capability)" by (simp add: same_capability_def)
  note t = capability_guards_endpoint [OF e, where wl = sample_wire and modern = counting_handler and legacy = counting_handler
      and request = "sample_request sample_capability" and w = 0]
  have "32 \<le> length sample_capability \<and> capability_at_start DarwinStore (\<lambda>r. r) never_fails None (keychain_with sample_capability) =
      (keychain_with sample_capability, Inr sample_capability)"
    using t same by (simp add: never_fails_def)
  moreover have "manager_handler sample_wire True sample_capability counting_handler counting_handler (sample_request sample_capability) 0 =
     (1, \<lparr>rs_Status = 200, rs_Body = ''ok''\<rparr>)"
    using t c s by (simp split: prod.splits)
  ultimately show ?thesis by blast
qed

theorem padded_capability_locks_out_witness:
  "rs_Status (snd (manager_handler sample_wire True (CHR '' '' # replicate 32 CHR ''k'') counting_handler counting_handler
     (sample_request (CHR '' '' # replicate 32 CHR ''k'')) 0)) \<in> {401, 403}"
proof -
  have t: "TrimSpace (CHR '' '' # replicate 32 CHR ''k'') \<noteq> CHR '' '' # replicate 32 CHR ''k''" by code_simp
  have g: "envFallback_Get WindowsStore (\<lambda>r. r) never_fails (keychain_with (CHR '' '' # replicate 32 CHR ''k'')) LocalManagerCapabilitySecretRef =
      Inr (CHR '' '' # replicate 32 CHR ''k'')"
    by (simp add: envFallback_Get_def native_defs capability_ref never_fails_def keychain_with_def)
  show ?thesis
    using padded_capability_locks_out [OF g _ t, where random = None and wl = sample_wire and modern = counting_handler and legacy = counting_handler
        and request = "sample_request (CHR '' '' # replicate 32 CHR ''k'')" and w = 0]
    by simp
qed

theorem failed_lookup_replaces_capability_witness:
  "snd (ensureManagerCapability (envFallback_Get LinuxStore (\<lambda>r. r) (\<lambda>ref. True)) (envFallback_Put LinuxStore never_fails)
     (Some (replicate 32 CHR ''r'')) (keychain_with (replicate 32 CHR ''k''))) = Inr sample_capability"
  using failed_lookup_replaces_capability [of LinuxStore "keychain_with (replicate 32 CHR ''k'')" "\<lambda>r. r" "\<lambda>ref. True" never_fails "replicate 32 CHR ''r''"]
  by (simp add: keychain_with_def never_fails_def sample_capability_def)

section \<open>Executor tools\<close>

definition executor_codec :: codec where
  "executor_codec = sample_codec\<lparr>decode_json := (\<lambda>s. map_option executor_tool (find (\<lambda>d. ed_Class d = s) executorDefinitions))\<rparr>"

lemma executor_codec_reads: "d \<in> set executorDefinitions \<Longrightarrow> decode_json executor_codec (ed_Class d) = Some (executor_tool d)"
proof -
  have "list_all (\<lambda>d. find (\<lambda>x. ed_Class x = ed_Class d) executorDefinitions = Some d) executorDefinitions" by code_simp
  then show "d \<in> set executorDefinitions \<Longrightarrow> decode_json executor_codec (ed_Class d) = Some (executor_tool d)"
    by (simp add: list_all_iff executor_codec_def)
qed

theorem executor_tools_mean_their_class_witness:
  "ExecutorClassForJSON executor_codec ExecutorAdditiveOpenIdempotent = Inr ExecutorAdditiveOpenIdempotent"
proof -
  let ?d = "\<lparr>ed_Class = ExecutorAdditiveOpenIdempotent, ed_ReadOnly = False, ed_Destructive = False, ed_Idempotent = True, ed_OpenWorld = True\<rparr>"
  have "?d \<in> set executorDefinitions" by (simp add: executorDefinitions_def)
  then have "ExecutorClassForJSON executor_codec (ed_Class ?d) = Inr (ed_Class ?d)"
    using executor_tools_mean_their_class [OF executor_codec_reads] by blast
  then show ?thesis by simp
qed

section \<open>Pages\<close>

definition paged_request :: "(string \<times> json) list" where
  "paged_request = [(''protocol'', JStr ''p''), (''items'', JArr [JNull, JBool True, JNull])]"

theorem pages_reassemble_witness:
  "fetch_pages sample_codec paged_request [1, 1, 1, 1] 0 = Some [JNull, JBool True, JNull]"
  using pages_reassemble [of paged_request "[JNull, JBool True, JNull]" "[1, 1, 1, 1]" sample_codec]
  by (simp add: paged_request_def)

theorem stale_client_paging_witness:
  "resolveIndexGetBatchPaging \<lparr>gb_Kind = BatchCapabilityReconciliation, gb_Limit = 1, gb_RequestOffset = 0, gb_RequestItemLimit = 0\<rparr> = (1, 0)"
proof -
  let ?P = "pageIndexRequest sample_codec paged_request 0 1"
  have "?P = Inr ([(''protocol'', JStr ''p''), (''items'', JArr [JNull])],
    Some \<lparr>ip_Offset = 0, ip_Returned = 1, ip_TotalItems = 3, ip_NextOffset = 1, ip_Complete = False\<rparr>)"
    by (simp add: pageIndexRequest_def paged_request_def page_limit_def maxIndexRequestPageItems_def shrink_page.simps with_items_def
        page_items_def)
  from stale_client_paging [OF this] show ?thesis by simp
qed

section \<open>A task on both wires\<close>

definition wire_result :: "string \<Rightarrow> tool_result" where
  "wire_result s = \<lparr>tr_Content = [], tr_Structured = Some (JObj [(taskResultSentinel, JStr s)]), tr_Rest = []\<rparr>"

definition wire_cont_lib :: cont_lib where
  "wire_cont_lib = sample_cont_lib\<lparr>ct_read_tool := (\<lambda>s. Some (wire_result s))\<rparr>"

definition task_wire :: wire_lib where
  "task_wire = \<lparr>wl_cont = wire_cont_lib, wl_envelope = (\<lambda>b. Some [(''result'', b)]), wl_marshal = (\<lambda>e. map_of e ''result'')\<rparr>"

definition wire_task :: CreateTaskResult where
  "wire_task = \<lparr>cr_ResultType = ''task'', cr_Task = \<lparr>tk_TaskID = ''t1'', tk_Status = ''working'', tk_TTLMS = None, tk_Rest = []\<rparr>\<rparr>"

definition wire_carried :: tool_result where
  "wire_carried = the (taskAwareRead wire_cont_lib (pair_text ''t1'' ''working''))"

definition wire_processed :: "cont_world \<times> (cont_error, tool_result option) result" where
  "wire_processed = ProcessCallResult wire_cont_lib sample_cont_env sample_id (Some wire_carried) sample_cont"

definition wire_id :: string where
  "wire_id = ''task_'' @ EncodeToString (replicate 24 (char_of (0 :: nat)))"

theorem task_crosses_both_wires_witness:
  "rewriteTaskWireResponse task_wire (pair_text wire_id ''working'') = Some (pair_text wire_id ''working'')"
proof -
  have a: "taskAwareRead wire_cont_lib (pair_text ''t1'' ''working'') = Some wire_carried"
    "DecodeToolOrTaskResult wire_cont_lib (pair_text ''t1'' ''working'') = Inr (Some wire_task)" by code_simp+
  have s: "snd wire_processed = Inr (Some (wire_result (pair_text wire_id ''working'')))" by code_simp
  then have p: "ProcessCallResult wire_cont_lib sample_cont_env sample_id (Some wire_carried) sample_cont =
      (fst wire_processed, Inr (Some (wire_result (pair_text wire_id ''working''))))"
    by (simp add: wire_processed_def prod_eq_iff)
  have j: "DecodeToolOrTaskResult wire_cont_lib (ct_created wire_cont_lib t) = Inr (Some t) \<and> ct_created wire_cont_lib t \<noteq> []"
    if "newOpaqueID ''task_'' (ce_rand sample_cont_env 0) = Inr i" "t = wire_task\<lparr>cr_Task := (cr_Task wire_task)\<lparr>tk_TaskID := i\<rparr>\<rparr>" for i t
    using opaque_id(2) [OF that(1)] that(2)
    by (simp add: DecodeToolOrTaskResult_def wire_cont_lib_def sample_cont_lib_def wire_task_def read_pair_text) (simp add: pair_text_def)
  have n: "newOpaqueID ''task_'' (ce_rand sample_cont_env 0) = Inr wire_id"
    by (simp add: newOpaqueID_def sample_cont_env_def wire_id_def)
  show ?thesis
    using task_crosses_both_wires [OF a p j, where wl = task_wire and body = "pair_text wire_id ''working''"
        and envelope = "[(''result'', pair_text wire_id ''working'')]" and inner = "pair_text wire_id ''working''"]
    by (simp add: n task_wire_def wire_cont_lib_def sample_cont_lib_def wire_task_def pair_text_def Let_def)
qed

end
