(* ===== verification/ToolObservation.thy ===== *)
theory ToolObservation
  imports ExecutionRouter CatalogTools
begin

text \<open>
  What the application does with the live tools of a downstream session: \<^verbatim>\<open>internal/app/v2_tool_observation.go\<close>. A session is wrapped
  when it is connected; the wrapper keeps the tools as the index knows them, compares every list the server advertises with the
  catalog, and marks the server dirty when the meaning of a tool has changed. The session of the SDK is what it answers.
\<close>

datatype observe_error =
    NotConnected string
  | ObserveContract contract_error
  | ObserveCatalog cat_error
  | DecodeCachedTool string
  | ObserveRouting state_error

text \<open>\<open>oe_read_tool\<close> is \<^verbatim>\<open>json.Unmarshal\<close> into a tool, \<open>oe_name_of\<close> into the struct that holds only its name.\<close>

record observe_env =
  oe_codec :: codec
  oe_sql :: sqlenv
  oe_now :: int
  oe_name_of :: "string \<Rightarrow> string option"
  oe_read_tool :: "string \<Rightarrow> mcp_tool option"

record persistentToolSession =
  pts_session :: nat
  pts_entry :: ServerEntry
  pts_effective :: ToolSnapshot
  pts_lastObserved :: string

text \<open>The catalog, the tracker's backend and the open downstream sessions; a live world has one wrapped session in addition.\<close>

record 'b observe_world =
  ow_catalog :: catalog
  ow_routing :: 'b
  ow_open :: "nat list"

record 'b live_world = "'b observe_world" +
  lw_session :: persistentToolSession

section \<open>Snapshots\<close>

definition snapshot_of :: "codec \<Rightarrow> mcp_tool list \<Rightarrow> (contract_error, ToolSnapshot) result" where
  "snapshot_of cd tools = (case FingerprintTools cd (map Some tools) of Inl e \<Rightarrow> Inl e
     | Inr (fp, canonical) \<Rightarrow> Inr \<lparr>ts_Tools = canonical, ts_Fingerprint = fp\<rparr>)"

definition filterExposedTools :: "codec \<Rightarrow> ToolSnapshot \<Rightarrow> ServerEntry \<Rightarrow> (contract_error, ToolSnapshot) result" where
  "filterExposedTools cd snapshot entry = snapshot_of cd (filter (\<lambda>t. ToolExposed entry (tool_Name t)) (ts_Tools snapshot))"

fun read_cached :: "(string \<Rightarrow> mcp_tool option) \<Rightarrow> ServerEntry \<Rightarrow> CachedTool list \<Rightarrow> (observe_error, mcp_tool list) result" where
  "read_cached read entry [] = Inr []"
| "read_cached read entry (record # cached) = (if \<not> ToolExposed entry (ct_ToolName record) then read_cached read entry cached
     else case read (ct_ContractJSON record) of None \<Rightarrow> Inl (DecodeCachedTool (ct_ToolName record))
       | Some tool \<Rightarrow> rbind (read_cached read entry cached) (\<lambda>tools. Inr (tool # tools)))"

definition cachedSemanticSnapshot :: "observe_env \<Rightarrow> catalog \<Rightarrow> ServerEntry \<Rightarrow> (observe_error, ToolSnapshot) result" where
  "cachedSemanticSnapshot oe db entry = (case CachedTools (oe_codec oe) (oe_name_of oe) (oe_sql oe) db (se_ID entry) of
     Inl e \<Rightarrow> Inl (ObserveCatalog e)
   | Inr cached \<Rightarrow> rbind (read_cached (oe_read_tool oe) entry cached) (\<lambda>tools.
       case snapshot_of (oe_codec oe) tools of Inl e \<Rightarrow> Inl (ObserveContract e) | Inr snapshot \<Rightarrow> Inr snapshot))"

section \<open>Observing\<close>

definition observe_catalog :: "observe_env \<Rightarrow> ServerEntry \<Rightarrow> mcp_tool list \<Rightarrow>
    (('b, 'z) observe_world_scheme, observe_error, ToolObservationResult) step_over" where
  "observe_catalog oe entry tools w =
     (case ObserveServerTools (oe_codec oe) (oe_sql oe) (oe_now oe) (se_ID entry) (map Some tools) (ow_catalog w) of
        Inl e \<Rightarrow> (w, Inl (ObserveCatalog e)) | Inr (db, res) \<Rightarrow> (w\<lparr>ow_catalog := db\<rparr>, Inr res))"

definition mark_server :: "observe_env \<Rightarrow> ServerEntry \<Rightarrow> string \<Rightarrow> (('b, 'z) observe_world_scheme, observe_error, unit) step_over" where
  "mark_server oe entry fingerprint w =
     (case MarkDirty (oe_sql oe) (oe_now oe) (''server:'' @ se_ID entry) ''new or changed downstream tool contract'' fingerprint (ow_catalog w) of
        Inl e \<Rightarrow> (w, Inl (ObserveCatalog e)) | Inr db \<Rightarrow> (w\<lparr>ow_catalog := db\<rparr>, Inr ()))"

definition advance_revision :: "'b backend_ops \<Rightarrow> (('b, 'z) observe_world_scheme, observe_error, unit) step_over" where
  "advance_revision ops w = (case AdvanceRoutingRevision ops (ow_routing w) of
     (b, Inl e) \<Rightarrow> (w\<lparr>ow_routing := b\<rparr>, Inl (ObserveRouting e)) | (b, Inr state) \<Rightarrow> (w\<lparr>ow_routing := b\<rparr>, Inr ()))"

definition markSemanticToolChange :: "observe_env \<Rightarrow> 'b backend_ops option \<Rightarrow> ServerEntry \<Rightarrow> string \<Rightarrow>
    (('b, 'z) observe_world_scheme, observe_error, unit) step_over" where
  "markSemanticToolChange oe tracker entry fingerprint = step_bind (mark_server oe entry fingerprint) (\<lambda>_.
     case tracker of None \<Rightarrow> step_return () | Some ops \<Rightarrow> advance_revision ops)"

definition read_snapshot :: "observe_env \<Rightarrow> ServerEntry \<Rightarrow> (('b, 'z) observe_world_scheme, observe_error, ToolSnapshot) step_over" where
  "read_snapshot oe entry w = (w, cachedSemanticSnapshot oe (ow_catalog w) entry)"

section \<open>Connecting\<close>

text \<open>A failure after the connection closes the session again.\<close>

definition close_on_error :: "nat \<Rightarrow> (('b, 'z) observe_world_scheme, 'e, 'a) step_over \<Rightarrow> (('b, 'z) observe_world_scheme, 'e, 'a) step_over" where
  "close_on_error c m w = (case m w of (w', Inl e) \<Rightarrow> (w'\<lparr>ow_open := remove1 c (ow_open w')\<rparr>, Inl e) | (w', Inr x) \<Rightarrow> (w', Inr x))"

definition connectWithPersistentToolIdentity :: "observe_env \<Rightarrow> 'b backend_ops option \<Rightarrow> (string, nat \<times> ToolSnapshot) result \<Rightarrow> ServerEntry \<Rightarrow>
    (('b, 'z) observe_world_scheme, observe_error, persistentToolSession) step_over" where
  "connectWithPersistentToolIdentity oe tracker answer entry w = (case answer of Inl m \<Rightarrow> (w, Inl (NotConnected m))
     | Inr (c, initial) \<Rightarrow> close_on_error c (
         step_bind (step_result (case filterExposedTools (oe_codec oe) initial entry of Inl e \<Rightarrow> Inl (ObserveContract e) | Inr s \<Rightarrow> Inr s)) (\<lambda>live.
         step_bind (observe_catalog oe entry (ts_Tools live)) (\<lambda>observation.
         step_bind (read_snapshot oe entry) (\<lambda>effective.
         step_bind (if SemanticChanged observation then markSemanticToolChange oe tracker entry (ts_Fingerprint effective) else step_return ()) (\<lambda>_.
         step_return \<lparr>pts_session = c, pts_entry = entry, pts_effective = effective, pts_lastObserved = ts_Fingerprint live\<rparr>)))))
       (w\<lparr>ow_open := c # ow_open w\<rparr>))"

section \<open>The wrapped session\<close>

definition session_InitialTools :: "codec \<Rightarrow> persistentToolSession \<Rightarrow> ToolSnapshot" where
  "session_InitialTools cd s = ToolSnapshot_Clone cd (pts_effective s)"

definition setEffectiveTools :: "codec \<Rightarrow> ToolSnapshot \<Rightarrow> ('b live_world, observe_error, unit) step_over" where
  "setEffectiveTools cd snapshot w = (w\<lparr>lw_session := (lw_session w)\<lparr>pts_effective := ToolSnapshot_Clone cd snapshot\<rparr>\<rparr>, Inr ())"

definition set_observed :: "string \<Rightarrow> ('b live_world, observe_error, unit) step_over" where
  "set_observed fingerprint w = (w\<lparr>lw_session := (lw_session w)\<lparr>pts_lastObserved := fingerprint\<rparr>\<rparr>, Inr ())"

definition observeLiveSnapshot :: "observe_env \<Rightarrow> 'b backend_ops option \<Rightarrow> ToolSnapshot \<Rightarrow> ('b live_world, observe_error, unit) step_over" where
  "observeLiveSnapshot oe tracker snapshot w = (let entry = pts_entry (lw_session w) in
     if ts_Fingerprint snapshot = pts_lastObserved (lw_session w) then (w, Inr ())
     else step_bind (observe_catalog oe entry (ts_Tools snapshot)) (\<lambda>observation.
       step_bind (if SemanticChanged observation
         then step_bind (read_snapshot oe entry) (\<lambda>effective.
           step_bind (setEffectiveTools (oe_codec oe) effective) (\<lambda>_. markSemanticToolChange oe tracker entry (ts_Fingerprint effective)))
         else step_return ()) (\<lambda>_.
       set_observed (ts_Fingerprint snapshot))) w)"

text \<open>The list a caller sees; an observation that fails does not matter to the caller.\<close>

definition session_CurrentTools :: "observe_env \<Rightarrow> 'b backend_ops option \<Rightarrow> ToolSnapshot \<Rightarrow> 'b live_world \<Rightarrow> 'b live_world \<times> ToolSnapshot" where
  "session_CurrentTools oe tracker live w = (case filterExposedTools (oe_codec oe) live (pts_entry (lw_session w)) of
     Inl e \<Rightarrow> (w, \<lparr>ts_Tools = [], ts_Fingerprint = []\<rparr>)
   | Inr filtered \<Rightarrow> (fst (observeLiveSnapshot oe tracker filtered w), filtered))"

text \<open>The watcher of tools/list\_changed notifications.\<close>

definition watch_notified :: "observe_env \<Rightarrow> 'b backend_ops option \<Rightarrow> ToolSnapshot \<Rightarrow> 'b live_world \<Rightarrow> 'b live_world" where
  "watch_notified oe tracker live w = (case filterExposedTools (oe_codec oe) live (pts_entry (lw_session w)) of
     Inl e \<Rightarrow> w | Inr filtered \<Rightarrow> fst (observeLiveSnapshot oe tracker filtered w))"

text \<open>A call without a tool name is left to the session.\<close>

definition session_CallTool :: "observe_env \<Rightarrow> 'b backend_ops option \<Rightarrow> ToolSnapshot \<Rightarrow> string \<Rightarrow> (call_error, 'r) result \<Rightarrow> 'b live_world \<Rightarrow>
    'b live_world \<times> (call_error, 'r) result" where
  "session_CallTool oe tracker live name answer w = (
     let (w', available) = (if name = [] then (w, True)
       else case session_CurrentTools oe tracker live w of (w1, tools) \<Rightarrow> (w1, list_ex (\<lambda>t. tool_Name t = name) (ts_Tools tools)))
     in (w', if \<not> available then Inl ErrDownstreamUnavailable
       else case answer of Inl ErrToolContractChanged \<Rightarrow> Inl ErrDownstreamUnavailable | r \<Rightarrow> r))"

definition session_Close :: "'b live_world \<Rightarrow> 'b live_world" where
  "session_Close w = w\<lparr>ow_open := remove1 (pts_session (lw_session w)) (ow_open w)\<rparr>"

end
