(* ===== verification/ToolObservationFacts.thy ===== *)
theory ToolObservationFacts
  imports ToolObservation CatalogObserve
begin

text \<open>
  Observations and the gate: what an observation marks, that observing the same tools again finds no change of meaning, and
  therefore that a change whose observation failed half-way is never marked.
\<close>

section \<open>When an observation finds a change\<close>

definition canonical_of :: "(string \<rightharpoonup> observedToolContract) \<Rightarrow> (string \<rightharpoonup> observedToolContract) \<Rightarrow>
    (string \<rightharpoonup> observedToolContract \<times> bool) \<Rightarrow> string \<times> observedToolContract \<Rightarrow> observedToolContract \<times> bool" where
  "canonical_of active staging stored x = canonical_contract (active (fst x)) (staging (fst x)) (stored (fst x)) (snd x)"

lemma apply_observed_ConsE:
  assumes "apply_observed q now sid bl active staging stored (x # tools) db res = Inr (db', res')"
  obtains c m where "canonical_of active staging stored x = (c, m)"
    "apply_observed q now sid bl active staging stored tools (db\<lparr>tool_contract_cache := alist_put (sid, fst x)
       \<lparr>tc_fingerprint = otc_fingerprint c, tc_contract = otc_body c, tc_available = True, tc_last_seen = now\<rparr> (tool_contract_cache db)\<rparr>)
       (tool_changes bl m (stored (fst x)) (snd x) res) = Inr (db', res')"
  using assms by (cases x) (auto simp: canonical_of_def rbind_Inr_iff split: prod.splits)

lemma apply_missing_ConsE:
  assumes "apply_missing q sid observed (x # rows) db res = Inr (db', res')"
  obtains (kept) "apply_missing q sid observed rows db res = Inr (db', res')"
  | (gone) a where "apply_missing q sid observed rows (db\<lparr>tool_contract_cache :=
       map (\<lambda>(k, r). (k, if k = (sid, fst x) then r\<lparr>tc_available := False\<rparr> else r)) (tool_contract_cache db)\<rparr>)
       (res\<lparr>AvailabilityChanged := a\<rparr>) = Inr (db', res')"
  using assms by (cases x) (auto simp: rbind_Inr_iff split: if_splits)

lemma apply_observed_change:
  "apply_observed q now sid bl active staging stored tools db res = Inr (db', res') \<Longrightarrow>
   SemanticChanged res' \<longleftrightarrow> SemanticChanged res \<or> (bl \<and> (\<exists>x\<in>set tools. \<not> snd (canonical_of active staging stored x) \<and>
     (\<forall>p. stored (fst x) = Some p \<longrightarrow> otc_semantic (fst p) \<noteq> otc_semantic (snd x))))"
proof (induction tools arbitrary: db res)
  case (Cons x tools)
  from Cons.prems show ?case
  proof (cases rule: apply_observed_ConsE)
    case (1 c m)
    have "SemanticChanged (tool_changes bl m (stored (fst x)) (snd x) res) \<longleftrightarrow> SemanticChanged res \<or>
        (bl \<and> \<not> m \<and> (\<forall>p. stored (fst x) = Some p \<longrightarrow> otc_semantic (fst p) \<noteq> otc_semantic (snd x)))"
      by (simp add: tool_changes_def split: option.splits)
    then show ?thesis using Cons.IH [OF 1(2)] 1(1) by auto
  qed
qed simp

lemma apply_missing_change:
  "apply_missing q sid observed rows db res = Inr (db', res') \<Longrightarrow> SemanticChanged res' = SemanticChanged res"
proof (induction rows arbitrary: db res)
  case (Cons x rows)
  from Cons.prems show ?case by (cases rule: apply_missing_ConsE) (auto dest: Cons.IH)
qed simp

lemma apply_observed_total:
  "healthy q \<Longrightarrow> db_open db \<Longrightarrow> \<exists>db' res'. apply_observed q now sid bl active staging stored tools db res = Inr (db', res') \<and> db_open db'"
proof (induction tools arbitrary: db res)
  case (Cons x tools)
  obtain n t where x: "x = (n, t)" by (cases x)
  show ?case using Cons by (auto simp: x rbind_Inr split: prod.split)
qed simp

lemma apply_missing_total:
  "healthy q \<Longrightarrow> db_open db \<Longrightarrow> \<exists>db' res'. apply_missing q sid observed rows db res = Inr (db', res') \<and> db_open db'"
proof (induction rows arbitrary: db res)
  case (Cons x rows)
  obtain n c a where x: "x = (n, c, a)" by (cases x)
  show ?case using Cons by (auto simp: x rbind_Inr)
qed simp

section \<open>Rows whose contracts can be read\<close>

definition readable :: "codec \<Rightarrow> observedToolContract \<Rightarrow> bool" where
  "readable cd c \<longleftrightarrow> (\<exists>x. SemanticFingerprintJSON cd (otc_body c) = Inr (otc_semantic c, x))"

definition readable_rows :: "codec \<Rightarrow> string \<Rightarrow> ((string \<times> string) \<times> cache_row) list \<Rightarrow> bool" where
  "readable_rows cd sid cache \<longleftrightarrow> (\<forall>x\<in>set cache. fst (fst x) = sid \<longrightarrow> \<not> isl (SemanticFingerprintJSON cd (tc_contract (snd x))))"

lemma stored_readable: "storedContract cd n fp body = Inr c \<Longrightarrow> readable cd c \<and> otc_body c = body"
  by (auto simp: storedContract_def readable_def split: sum.splits)

lemma observed_readable: "observedContract cd t = Inr c \<Longrightarrow> readable cd c"
  by (auto simp: observedContract_def readable_def split: sum.splits)

lemma storedContract_total: "(\<exists>c. storedContract cd n fp body = Inr c) \<longleftrightarrow> \<not> isl (SemanticFingerprintJSON cd body)"
  by (cases "SemanticFingerprintJSON cd body") (auto simp: storedContract_def)

lemma load_stored_iff: "(\<exists>stored. load_stored cd (server_cache sid db) = Inr stored) \<longleftrightarrow> readable_rows cd sid (tool_contract_cache db)"
proof -
  have "(\<exists>stored. load_stored cd (filter (\<lambda>((s, t), r). s = sid) xs) = Inr stored) \<longleftrightarrow> readable_rows cd sid xs" for xs
  proof (induction xs)
    case (Cons x xs)
    obtain s t r where x: "x = ((s, t), r)" by (metis prod.exhaust)
    have "(\<exists>stored. load_stored cd (((s, t), r) # ys) = Inr stored) \<longleftrightarrow>
        \<not> isl (SemanticFingerprintJSON cd (tc_contract r)) \<and> (\<exists>stored. load_stored cd ys = Inr stored)" for ys
      by (auto simp: rbind_Inr_iff simp flip: storedContract_total [of cd t "tc_fingerprint r"])
    then show ?case using Cons.IH by (auto simp: x readable_rows_def)
  qed (simp add: readable_rows_def)
  then show ?thesis by (simp add: server_cache_def)
qed

lemma load_stored_lookup:
  assumes "load_stored cd (server_cache sid db) = Inr stored"
  shows "map_of (tool_contract_cache db) (sid, n) = Some r \<Longrightarrow>
      \<exists>c. map_of stored n = Some (c, tc_available r) \<and> storedContract cd n (tc_fingerprint r) (tc_contract r) = Inr c"
    and "map_of stored n = Some (c, a) \<Longrightarrow> readable cd c"
proof -
  have *: "load_stored cd (filter (\<lambda>((s, t), r). s = sid) xs) = Inr stored \<Longrightarrow>
    (map_of xs (sid, n) = Some r \<longrightarrow>
      (\<exists>c. map_of stored n = Some (c, tc_available r) \<and> storedContract cd n (tc_fingerprint r) (tc_contract r) = Inr c)) \<and>
    (map_of stored n = Some (c, a) \<longrightarrow> readable cd c)" for xs r c a
  proof (induction xs arbitrary: stored)
    case (Cons x xs)
    obtain s t u where x: "x = ((s, t), u)" by (metis prod.exhaust)
    show ?case
    proof (cases "s = sid")
      case True
      then obtain c' rest where c': "storedContract cd t (tc_fingerprint u) (tc_contract u) = Inr c'" and
        rest: "load_stored cd (filter (\<lambda>((s, t), r). s = sid) xs) = Inr rest" and st: "stored = (t, c', tc_available u) # rest"
        using Cons.prems by (auto simp: x rbind_Inr_iff)
      show ?thesis using Cons.IH [OF rest] c' stored_readable [OF c'] True by (auto simp: x st)
    next
      case False
      then show ?thesis using Cons by (simp add: x)
    qed
  qed simp
  show "map_of (tool_contract_cache db) (sid, n) = Some r \<Longrightarrow>
      \<exists>c. map_of stored n = Some (c, tc_available r) \<and> storedContract cd n (tc_fingerprint r) (tc_contract r) = Inr c"
    "map_of stored n = Some (c, a) \<Longrightarrow> readable cd c"
    using * [of "tool_contract_cache db"] assms by (simp_all add: server_cache_def)
qed

lemma load_contracts_readable:
  "load_contracts cd rows = Inr cs \<Longrightarrow> (\<forall>x\<in>set cs. readable cd (snd x)) \<and> (\<forall>x\<in>set rows. \<not> isl (SemanticFingerprintJSON cd (st_contract (snd x))))"
proof (induction cd rows arbitrary: cs rule: load_contracts.induct)
  case (2 cd t r rows)
  from "2.prems" obtain c rest where c: "storedContract cd t (st_fingerprint r) (st_contract r) = Inr c" and
    rest: "load_contracts cd rows = Inr rest" and cs: "cs = (t, c) # rest" by (auto simp: rbind_Inr_iff)
  have "\<not> isl (SemanticFingerprintJSON cd (st_contract r))" using c storedContract_total by metis
  then show ?case using "2.IH" [OF rest] stored_readable [OF c] by (simp add: cs)
qed simp

lemma seed_cache_readable:
  "readable_rows cd sid cache \<Longrightarrow> \<forall>x\<in>set rows. \<not> isl (SemanticFingerprintJSON cd (st_contract (snd x))) \<Longrightarrow>
   readable_rows cd sid (seed_cache now sid rows cache)"
proof (induction now sid rows cache rule: seed_cache.induct)
  case (2 now sid n r rows cache)
  let ?row = "\<lparr>tc_fingerprint = st_fingerprint r, tc_contract = st_contract r, tc_available = True, tc_last_seen = now\<rparr>"
  have "readable_rows cd sid (alist_put (sid, n) ?row cache)"
    using "2.prems" by (auto simp: readable_rows_def dest!: set_alist_put)
  then have "readable_rows cd sid (insert_ignore (sid, n) ?row cache)" using "2.prems"(1) by (simp add: insert_ignore_def)
  then show ?case unfolding seed_cache.simps by (rule "2.IH") (use "2.prems"(2) in simp)
qed simp

lemma seed_cache_keeps: "map_of cache k = Some r \<Longrightarrow> map_of (seed_cache now sid rows cache) k = Some r"
proof (induction now sid rows cache rule: seed_cache.induct)
  case (2 now sid n r' rows cache)
  show ?case unfolding seed_cache.simps by (rule "2.IH") (use "2.prems" in \<open>auto simp: insert_ignore_def\<close>)
qed simp

lemma canonical_readable:
  assumes "\<And>a. active n = Some a \<Longrightarrow> readable cd a" "\<And>a. staging n = Some a \<Longrightarrow> readable cd a" "\<And>p. stored n = Some p \<Longrightarrow> readable cd (fst p)"
    and "readable cd t"
  shows "readable cd (fst (canonical_of active staging stored (n, t)))"
  using assms by (auto simp: canonical_of_def canonical_contract_def)

lemma apply_observed_readable:
  "apply_observed q now sid bl active staging stored tools db res = Inr (db', res') \<Longrightarrow> readable_rows cd s (tool_contract_cache db) \<Longrightarrow>
   (\<And>x. x \<in> set tools \<Longrightarrow> readable cd (fst (canonical_of active staging stored x))) \<Longrightarrow> readable_rows cd s (tool_contract_cache db')"
proof (induction tools arbitrary: db res)
  case (Cons x tools)
  from Cons.prems(1) show ?case
  proof (cases rule: apply_observed_ConsE)
    case (1 c m)
    let ?row = "\<lparr>tc_fingerprint = otc_fingerprint c, tc_contract = otc_body c, tc_available = True, tc_last_seen = now\<rparr>"
    have "\<not> isl (SemanticFingerprintJSON cd (otc_body c))" using Cons.prems(3) [of x] 1(1) by (auto simp: readable_def)
    then have "readable_rows cd s (alist_put (sid, fst x) ?row (tool_contract_cache db))"
      using Cons.prems(2) by (auto simp: readable_rows_def dest!: set_alist_put)
    then show ?thesis using Cons.IH [OF 1(2)] Cons.prems(3) by simp
  qed
qed simp

lemma apply_missing_readable:
  "apply_missing q sid observed rows db res = Inr (db', res') \<Longrightarrow> readable_rows cd s (tool_contract_cache db) \<Longrightarrow> readable_rows cd s (tool_contract_cache db')"
proof (induction rows arbitrary: db res)
  case (Cons x rows)
  have "readable_rows cd s (map (\<lambda>(k, r). (k, if k = (sid, fst x) then r\<lparr>tc_available := False\<rparr> else r)) (tool_contract_cache db))"
    using Cons.prems(2) by (auto simp: readable_rows_def split: if_splits)
  then show ?case using Cons.prems by (cases rule: apply_missing_ConsE [OF Cons.prems(1)]) (auto dest: Cons.IH)
qed simp

section \<open>An observation writes the cache only\<close>

definition cache_only :: "catalog \<Rightarrow> catalog \<Rightarrow> bool" where
  "cache_only db db' \<longleftrightarrow> (\<exists>c. db' = db\<lparr>tool_contract_cache := c\<rparr>)"

lemma cache_only_intros: "cache_only db db" "cache_only (db\<lparr>tool_contract_cache := c\<rparr>) db' \<Longrightarrow> cache_only db db'"
proof -
  have "db = db\<lparr>tool_contract_cache := tool_contract_cache db\<rparr>" by simp
  then show "cache_only db db" unfolding cache_only_def by blast
qed (auto simp: cache_only_def)

lemma cache_only_trans: "cache_only a b \<Longrightarrow> cache_only b c \<Longrightarrow> cache_only a c"
  by (auto simp: cache_only_def)

lemma cache_only_simps:
  assumes "cache_only db db'"
  shows "db_open db' = db_open db" "dirty_partitions db' = dirty_partitions db" "server_tools db' st sid = server_tools db st sid"
    "authoritativeBaseline db' sid = authoritativeBaseline db sid" "ActiveCurrent cd q db' h = ActiveCurrent cd q db h"
proof -
  obtain c where db': "db' = db\<lparr>tool_contract_cache := c\<rparr>" using assms unfolding cache_only_def by blast
  show "db_open db' = db_open db" "dirty_partitions db' = dirty_partitions db" by (simp_all add: db')
  show "server_tools db' st sid = server_tools db st sid" "authoritativeBaseline db' sid = authoritativeBaseline db sid"
    by (simp_all add: db' server_tools_def authoritativeBaseline_def status_of_def [abs_def] created_of_def [abs_def])
  have parts: "dirty_partitions db' = dirty_partitions db" "sql q db' l = sql q db l" "CheckIntegrity q db' = CheckIntegrity q db" "ActiveGeneration q db' = ActiveGeneration q db"
    "verifySourcePayloads cd q db' g = verifySourcePayloads cd q db g" "sourceSetFingerprint cd q db' g = sourceSetFingerprint cd q db g" for l g
    by (simp_all add: db' sql_def CheckIntegrity_def checkIntegrity_def ActiveGeneration_def verifySourcePayloads_def sourceSetFingerprint_def
        source_set_def generation_tools_def)
  show "ActiveCurrent cd q db' h = ActiveCurrent cd q db h"
    unfolding ActiveCurrent_def parts by (rule refl)
qed

lemma apply_observed_cache_only: "apply_observed q now sid bl active staging stored tools db res = Inr (db', res') \<Longrightarrow> cache_only db db'"
proof (induction tools arbitrary: db res)
  case (Cons x tools)
  from Cons.prems show ?case by (cases rule: apply_observed_ConsE) (auto intro: cache_only_intros Cons.IH)
qed (simp add: cache_only_intros)

lemma apply_missing_cache_only: "apply_missing q sid observed rows db res = Inr (db', res') \<Longrightarrow> cache_only db db'"
proof (induction rows arbitrary: db res)
  case (Cons x rows)
  from Cons.prems show ?case by (cases rule: apply_missing_ConsE) (auto intro: cache_only_intros Cons.IH)
qed (simp add: cache_only_intros)

lemma seed_cache_only: "cache_only db (seed_tools now sid db)"
  by (auto simp: cache_only_def seed_tools_def)

lemma ObserveServerTools_cache_only:
  assumes "ObserveServerTools cd q now serverID tools db = Inr (db', res)"
  shows "cache_only db db' \<and> db_open db"
proof -
  have "db_open db" using assms by (auto simp: ObserveServerTools_def Let_def rbind_Inr_iff sql_Inr)
  moreover have "cache_only db db'"
    using assms by (rule ObserveServerTools_db)
      (rule cache_only_trans [OF seed_cache_only cache_only_trans [OF apply_observed_cache_only apply_missing_cache_only]])
  ultimately show ?thesis by blast
qed

section \<open>Observing again\<close>

lemma canonical_semantic: "otc_semantic (fst (canonical_of active staging stored x)) = otc_semantic (snd x)"
  by (auto simp: canonical_of_def canonical_contract_def)

lemma canonical_matches: "snd (canonical_of active staging stored x) = snd (canonical_of active staging stored' x)"
  by (auto simp: canonical_of_def canonical_contract_def)

lemma observed_tools_readable:
  assumes "observe_tools cd tools [] = Inr observed" and "(n, t) \<in> set observed"
  shows "readable cd t \<and> map_of observed n = Some t"
proof -
  have d: "distinct (map fst observed)" and names: "fst ` set observed = {tool_Name t |t. Some t \<in> set tools}"
    and each: "\<forall>t. Some t \<in> set tools \<longrightarrow> (\<exists>c. observedContract cd t = Inr c \<and> map_of observed (tool_Name t) = Some c)"
    using observe_tools_spec [OF assms(1)] by (simp_all del: map_of_eq_Some_iff)
  have m: "map_of observed n = Some t" using d assms(2) by simp
  have "n \<in> fst ` set observed" using assms(2) by force
  then obtain u where "Some u \<in> set tools" "n = tool_Name u" unfolding names by blast
  then show ?thesis using each m observed_readable by fastforce
qed

lemma observation_readable:
  assumes o: "observe_tools cd tools [] = Inr observed"
    and ac: "load_contracts cd rows_a = Inr active" and sg: "load_contracts cd rows_s = Inr staging"
    and st: "load_stored cd (server_cache sid db0) = Inr stored"
    and ap: "apply_observed q now sid bl (map_of active) (map_of staging) (map_of stored) observed db0 res0 = Inr (dbx, resx)"
    and mi: "apply_missing q sid (map_of observed) stored dbx resx = Inr (db1, res)"
  shows "readable_rows cd sid (tool_contract_cache db1)"
    and "x \<in> set observed \<Longrightarrow> readable cd (fst (canonical_of (map_of active) (map_of staging) (map_of stored) x))"
proof -
  have c: "readable cd (fst (canonical_of (map_of active) (map_of staging) (map_of stored) x))" if "x \<in> set observed" for x
  proof (cases x)
    case (Pair n t)
    have "readable cd a" if "map_of active n = Some a" for a
      using map_of_SomeD [OF that] load_contracts_readable [OF ac] by force
    moreover have "readable cd a" if "map_of staging n = Some a" for a
      using map_of_SomeD [OF that] load_contracts_readable [OF sg] by force
    moreover have "readable cd (fst p)" if "map_of stored n = Some p" for p
      using load_stored_lookup(2) [OF st, of n "fst p" "snd p"] that by simp
    moreover have "readable cd t" using observed_tools_readable [OF o] \<open>x \<in> set observed\<close> Pair by blast
    ultimately show ?thesis unfolding Pair by (intro canonical_readable)
  qed
  have "readable_rows cd sid (tool_contract_cache db0)" using load_stored_iff [of cd sid db0] st by blast
  then have "readable_rows cd sid (tool_contract_cache dbx)" using apply_observed_readable [OF ap] c by blast
  then show "readable_rows cd sid (tool_contract_cache db1)" by (rule apply_missing_readable [OF mi])
  show "x \<in> set observed \<Longrightarrow> readable cd (fst (canonical_of (map_of active) (map_of staging) (map_of stored) x))" by (rule c)
qed

lemma observe_again:
  assumes obs: "ObserveServerTools cd q now serverID tools db = Inr (db1, res)" and q': "healthy q'"
  obtains db2 res2 where "ObserveServerTools cd q' now' serverID tools db1 = Inr (db2, res2)" "\<not> SemanticChanged res2"
proof -
  define sid where "sid = TrimSpace serverID"
  note only = ObserveServerTools_cache_only [OF obs]
  note seeded = cache_only_simps [OF seed_cache_only]
  from obs obtain observed stored active staging dbx resx where
    o: "observe_tools cd tools [] = Inr observed" and st: "load_stored cd (server_cache sid (seed_tools now sid db)) = Inr stored" and
    ac: "load_contracts cd (server_tools db GenerationActive sid) = Inr active" and
    sg: "load_contracts cd (server_tools db GenerationStaging sid) = Inr staging" and
    ap: "apply_observed q now sid (authoritativeBaseline db sid) (map_of active) (map_of staging) (map_of stored) observed (seed_tools now sid db)
        \<lparr>SemanticChanged = False, AvailabilityChanged = False\<rparr> = Inr (dbx, resx)" and
    mi: "apply_missing q sid (map_of observed) stored dbx resx = Inr (db1, res)" and ne: "sid \<noteq> []"
    by (rule ObserveServerTools_db) (unfold sid_def seeded, blast)
  note readable = observation_readable [OF o ac sg st ap mi]
  have same: "server_tools db1 s sid = server_tools db s sid" for s using only cache_only_simps(3) by blast
  have op: "db_open db1" using only cache_only_simps(1) by blast
  let ?db = "seed_tools now' sid db1"
  have op': "db_open ?db" using op by (simp add: seeded)
  have "readable_rows cd sid (tool_contract_cache ?db)"
    unfolding seed_tools_def using load_contracts_readable [OF ac] load_contracts_readable [OF sg] readable(1)
    by (auto simp: same intro!: seed_cache_readable)
  then obtain stored2 where st2: "load_stored cd (server_cache sid ?db) = Inr stored2" using load_stored_iff by blast
  obtain dby resy where ap2: "apply_observed q' now' sid (authoritativeBaseline db1 sid) (map_of active) (map_of staging) (map_of stored2) observed ?db
      \<lparr>SemanticChanged = False, AvailabilityChanged = False\<rparr> = Inr (dby, resy)" and opy: "db_open dby"
    using apply_observed_total [OF q' op'] by blast
  obtain db2 res2 where mi2: "apply_missing q' sid (map_of observed) stored2 dby resy = Inr (db2, res2)" and op2: "db_open db2"
    using apply_missing_total [OF q' opy] by blast
  have run: "ObserveServerTools cd q' now' serverID tools db1 = Inr (db2, res2)"
    using q' op op' op2 ne by (simp add: ObserveServerTools_def Let_def rbind_Inr o st2 ac sg ap2 mi2 guard_def seeded same flip: sid_def)
  have known: "\<exists>p. map_of stored2 (fst x) = Some p \<and> otc_semantic (fst p) = otc_semantic (snd x)" if x: "x \<in> set observed" for x
  proof -
    obtain n t where xn: "x = (n, t)" by (cases x)
    let ?c = "fst (canonical_of (map_of active) (map_of staging) (map_of stored) x)"
    have dist: "distinct (map fst observed)" using observe_tools_spec [OF o] by simp
    have mt: "map_of observed n = Some t" using observed_tools_readable [OF o] x xn by blast
    have "n \<in> fst ` set observed" using x xn by force
    then have "map_of (tool_contract_cache db1) (sid, n) = Some \<lparr>tc_fingerprint = otc_fingerprint ?c, tc_contract = otc_body ?c, tc_available = True, tc_last_seen = now\<rparr>"
      using apply_missing_cache [OF mi, of sid n] apply_observed_cache [OF ap dist, of sid n] mt by (simp add: xn canonical_of_def Let_def)
    then have "map_of (tool_contract_cache ?db) (sid, n) = Some \<lparr>tc_fingerprint = otc_fingerprint ?c, tc_contract = otc_body ?c, tc_available = True, tc_last_seen = now\<rparr>"
      by (simp add: seed_tools_def seed_cache_keeps)
    then obtain p where p: "map_of stored2 n = Some (p, True)" "storedContract cd n (otc_fingerprint ?c) (otc_body ?c) = Inr p"
      using load_stored_lookup(1) [OF st2] by force
    have "otc_semantic p = otc_semantic ?c" using readable(2) [OF x] p(2) by (auto simp: readable_def storedContract_def)
    then show ?thesis using p(1) by (simp add: xn canonical_semantic)
  qed
  have "\<not> SemanticChanged res2"
    using apply_missing_change [OF mi2] apply_observed_change [OF ap2] known by fastforce
  then show thesis using that run by blast
qed

section \<open>The gate after an observation\<close>

lemma dirty_not_current:
  "ActiveCurrent cd q db h = Inr (x, current) \<Longrightarrow> dirty_partitions db \<noteq> [] \<Longrightarrow> \<not> current"
  by (auto simp: ActiveCurrent_def rbind_Inr_iff split: sum.splits if_splits cat_error.splits prod.splits)

definition gate_closed :: "catalog \<Rightarrow> string \<Rightarrow> bool" where
  "gate_closed db serverID \<longleftrightarrow> map_of (dirty_partitions db) (''server:'' @ serverID) \<noteq> None \<and>
     (\<forall>cd q h x current. ActiveCurrent cd q db h = Inr (x, current) \<longrightarrow> \<not> current)"

lemma mark_effect:
  assumes "markSemanticToolChange oe tracker entry fp w = (w', Inr ())"
  shows "gate_closed (ow_catalog w') (se_ID entry) \<and> (\<forall>ops. tracker = Some ops \<longrightarrow> (\<exists>state. AdvanceRoutingRevision ops (ow_routing w) = (ow_routing w', Inr state))) \<and>
    observe_world.more w' = observe_world.more w \<and> ow_open w' = ow_open w"
proof -
  obtain db where db: "MarkDirty (oe_sql oe) (oe_now oe) (''server:'' @ se_ID entry) ''new or changed downstream tool contract'' fp (ow_catalog w) = Inr db"
    and rest: "(case tracker of None \<Rightarrow> step_return () | Some ops \<Rightarrow> advance_revision ops) (w\<lparr>ow_catalog := db\<rparr>) = (w', Inr ())"
    using assms by (auto simp: markSemanticToolChange_def mark_server_def split: sum.splits elim!: step_bind_InrE)
  have k: "map_of (dirty_partitions db) (''server:'' @ se_ID entry) \<noteq> None" using db by (auto simp: MarkDirty_def rbind_Inr_iff)
  then have "dirty_partitions db \<noteq> []" by auto
  then have "gate_closed db (se_ID entry)" using k dirty_not_current unfolding gate_closed_def by blast
  then show ?thesis
    using rest by (auto simp: step_return_def advance_revision_def split: option.splits prod.splits sum.splits)
qed

lemma observe_new:
  assumes "ts_Fingerprint snapshot \<noteq> pts_lastObserved (lw_session w)"
  shows "observeLiveSnapshot oe tracker snapshot w = (let entry = pts_entry (lw_session w) in
    case ObserveServerTools (oe_codec oe) (oe_sql oe) (oe_now oe) (se_ID entry) (map Some (ts_Tools snapshot)) (ow_catalog w) of
      Inl e \<Rightarrow> (w, Inl (ObserveCatalog e))
    | Inr (db, res) \<Rightarrow> step_bind (if SemanticChanged res then step_bind (read_snapshot oe entry) (\<lambda>effective.
           step_bind (setEffectiveTools (oe_codec oe) effective) (\<lambda>_. markSemanticToolChange oe tracker entry (ts_Fingerprint effective)))
         else step_return ()) (\<lambda>_. set_observed (ts_Fingerprint snapshot)) (w\<lparr>ow_catalog := db\<rparr>))"
  using assms by (auto simp: observeLiveSnapshot_def Let_def observe_catalog_def step_bind_def [of "observe_catalog oe e ts" for e ts] split: sum.split prod.split)

text \<open>
  What a change of meaning is, without the code that looks for it: the server is part of an active or staging generation, and a live tool has a
  canonical JSON whose semantic fingerprint (it ignores the source decoration of the description) is not that of any contract known for the tool: the newest of the
  active generation, the newest of the staging one, and the cached one.
\<close>

definition semantic_of :: "codec \<Rightarrow> string \<Rightarrow> string option" where
  "semantic_of cd body = (case SemanticFingerprintJSON cd body of Inl e \<Rightarrow> None | Inr (s, c) \<Rightarrow> Some s)"

definition known_contracts :: "catalog \<Rightarrow> string \<Rightarrow> string \<Rightarrow> string set" where
  "known_contracts db sid name = set_option (map_option st_contract (map_of (server_tools db GenerationActive sid) name)) \<union>
     set_option (map_option st_contract (map_of (server_tools db GenerationStaging sid) name)) \<union>
     set_option (map_option tc_contract (map_of (tool_contract_cache db) (sid, name)))"

definition new_meaning :: "codec \<Rightarrow> catalog \<Rightarrow> string \<Rightarrow> mcp_tool \<Rightarrow> bool" where
  "new_meaning cd db sid t \<longleftrightarrow> (\<exists>fp body. FingerprintTool cd (Some t) = Inr (fp, body) \<and>
     (\<forall>known\<in>known_contracts db sid (tool_Name t). semantic_of cd known \<noteq> semantic_of cd body))"

definition indexed_server :: "catalog \<Rightarrow> string \<Rightarrow> bool" where
  "indexed_server db sid \<longleftrightarrow> (\<exists>g row gen. ((g, sid), row) \<in> set (source_servers db) \<and> map_of (generations db) g = Some gen \<and>
     gen_Status gen \<in> {GenerationActive, GenerationStaging})"

lemma indexed_baseline: "authoritativeBaseline db sid = indexed_server db sid"
  by (force simp: authoritativeBaseline_def indexed_server_def list_ex_iff status_of_def)

lemma storedContract_semantic: "storedContract cd n fp body = Inr c \<Longrightarrow> semantic_of cd body = Some (otc_semantic c)"
  by (auto simp: storedContract_def semantic_of_def split: sum.splits)

lemma load_contracts_semantic:
  "load_contracts cd rows = Inr cs \<Longrightarrow> map_option otc_semantic (map_of cs n) = Option.bind (map_of rows n) (\<lambda>r. semantic_of cd (st_contract r))"
  by (induction cd rows arbitrary: cs rule: load_contracts.induct) (auto simp: rbind_Inr_iff storedContract_semantic)

lemma load_stored_semantic:
  assumes "load_stored cd (server_cache sid db) = Inr stored"
  shows "map_option (\<lambda>p. otc_semantic (fst p)) (map_of stored n) = Option.bind (map_of (tool_contract_cache db) (sid, n)) (\<lambda>r. semantic_of cd (tc_contract r))"
proof -
  have "load_stored cd (filter (\<lambda>((s, t), r). s = sid) xs) = Inr stored \<Longrightarrow>
    map_option (\<lambda>p. otc_semantic (fst p)) (map_of stored n) = Option.bind (map_of xs (sid, n)) (\<lambda>r. semantic_of cd (tc_contract r))" for xs
  proof (induction xs arbitrary: stored)
    case (Cons x xs)
    obtain s t u where x: "x = ((s, t), u)" by (metis prod.exhaust)
    show ?case using Cons by (cases "s = sid") (auto simp: x rbind_Inr_iff storedContract_semantic)
  qed simp
  then show ?thesis using assms by (simp add: server_cache_def)
qed

lemma seed_cache_lookup: "map_of (seed_cache now sid rows cache) (sid, n) = (case map_of cache (sid, n) of Some r \<Rightarrow> Some r
   | None \<Rightarrow> map_option (\<lambda>r. \<lparr>tc_fingerprint = st_fingerprint r, tc_contract = st_contract r, tc_available = True, tc_last_seen = now\<rparr>) (map_of rows n))"
proof (induction now sid rows cache rule: seed_cache.induct)
  case (2 now sid t r rows cache)
  then show ?case by (auto simp: insert_ignore_def split: option.splits)
qed (simp split: option.split)

lemma observed_from_tools:
  assumes "observe_tools cd tools [] = Inr observed"
  shows "(\<exists>x\<in>set observed. P (fst x) (snd x)) \<longleftrightarrow> (\<exists>t c. Some t \<in> set tools \<and> observedContract cd t = Inr c \<and> P (tool_Name t) c)"
proof -
  have d: "distinct (map fst observed)" and names: "fst ` set observed = {tool_Name t |t. Some t \<in> set tools}"
    and each: "\<forall>t. Some t \<in> set tools \<longrightarrow> (\<exists>c. observedContract cd t = Inr c \<and> map_of observed (tool_Name t) = Some c)"
    using observe_tools_spec [OF assms] by (simp_all del: map_of_eq_Some_iff)
  have "\<exists>t. Some t \<in> set tools \<and> tool_Name t = fst x \<and> observedContract cd t = Inr (snd x)" if x: "x \<in> set observed" for x
  proof -
    have "fst x \<in> {tool_Name t |t. Some t \<in> set tools}" using x names by force
    then obtain t where t: "Some t \<in> set tools" "tool_Name t = fst x" by auto
    moreover have "map_of observed (fst x) = Some (snd x)" using d x by simp
    ultimately show ?thesis using each by fastforce
  qed
  moreover have "(tool_Name t, c) \<in> set observed" if "Some t \<in> set tools" "observedContract cd t = Inr c" for t c
    using each that map_of_SomeD by fastforce
  ultimately show ?thesis by (metis fst_conv snd_conv)
qed

lemma observedContract_meaning:
  "observedContract cd t = Inr c \<Longrightarrow> \<exists>fp. FingerprintTool cd (Some t) = Inr (fp, otc_body c) \<and> semantic_of cd (otc_body c) = Some (otc_semantic c)"
  by (auto simp: observedContract_def semantic_of_def split: sum.splits)

lemma semantic_change_iff:
  assumes obs: "ObserveServerTools cd q now serverID tools db = Inr (db', res)" and sid: "sid = TrimSpace serverID"
  shows "SemanticChanged res \<longleftrightarrow> indexed_server db sid \<and> (\<exists>t. Some t \<in> set tools \<and> new_meaning cd db sid t)"
proof -
  note seeded = cache_only_simps [OF seed_cache_only]
  from obs obtain observed stored active staging dbx resx where
    o: "observe_tools cd tools [] = Inr observed" and st: "load_stored cd (server_cache sid (seed_tools now sid db)) = Inr stored" and
    ac: "load_contracts cd (server_tools db GenerationActive sid) = Inr active" and
    sg: "load_contracts cd (server_tools db GenerationStaging sid) = Inr staging" and
    ap: "apply_observed q now sid (authoritativeBaseline db sid) (map_of active) (map_of staging) (map_of stored) observed (seed_tools now sid db)
        \<lparr>SemanticChanged = False, AvailabilityChanged = False\<rparr> = Inr (dbx, resx)" and
    mi: "apply_missing q sid (map_of observed) stored dbx resx = Inr (db', res)"
    by (rule ObserveServerTools_db) (unfold sid seeded, blast)
  let ?new = "\<lambda>n c. \<forall>known\<in>known_contracts db sid n. semantic_of cd known \<noteq> Some (otc_semantic c)"
  have fresh: "\<not> snd (canonical_of (map_of active) (map_of staging) (map_of stored) (n, c)) \<and>
      (\<forall>p. map_of stored n = Some p \<longrightarrow> otc_semantic (fst p) \<noteq> otc_semantic c) \<longleftrightarrow> ?new n c" for n c
  proof -
    let ?s = "otc_semantic c"
    have m: "\<not> snd (canonical_of (map_of active) (map_of staging) (map_of stored) (n, c)) \<longleftrightarrow>
        map_option otc_semantic (map_of active n) \<noteq> Some ?s \<and> map_option otc_semantic (map_of staging n) \<noteq> Some ?s"
      by (auto simp: canonical_of_def canonical_contract_def)
    have p: "(\<forall>p. map_of stored n = Some p \<longrightarrow> otc_semantic (fst p) \<noteq> ?s) \<longleftrightarrow> map_option (\<lambda>p. otc_semantic (fst p)) (map_of stored n) \<noteq> Some ?s"
      by auto
    show ?thesis
      unfolding m p load_contracts_semantic [OF ac] load_contracts_semantic [OF sg] load_stored_semantic [OF st]
      by (cases "map_of (server_tools db GenerationActive sid) n"; cases "map_of (server_tools db GenerationStaging sid) n";
          cases "map_of (tool_contract_cache db) (sid, n)") (auto simp: known_contracts_def seed_tools_def seed_cache_lookup)
  qed
  have "SemanticChanged res \<longleftrightarrow> indexed_server db sid \<and> (\<exists>x\<in>set observed. ?new (fst x) (snd x))"
    using apply_missing_change [OF mi] apply_observed_change [OF ap] fresh unfolding indexed_baseline by (auto simp flip: fresh)
  also have "\<dots> \<longleftrightarrow> indexed_server db sid \<and> (\<exists>t. Some t \<in> set tools \<and> new_meaning cd db sid t)"
  proof -
    have "(\<exists>c. observedContract cd t = Inr c \<and> ?new (tool_Name t) c) \<longleftrightarrow> new_meaning cd db sid t" if t: "Some t \<in> set tools" for t
    proof -
      obtain c where c: "observedContract cd t = Inr c" using observe_tools_spec [OF o] t by auto
      then show ?thesis using observedContract_meaning [OF c] by (auto simp: new_meaning_def)
    qed
    then show ?thesis unfolding observed_from_tools [OF o, of ?new] by blast
  qed
  finally show ?thesis .
qed

text \<open>
  (C23) An observation of the live tools that differ from those last observed, when it succeeds, marks exactly the changes of meaning. If the server is
  indexed and some live tool is new or has a contract that means something else than all that is known of it, then the server is marked
  dirty, no generation is current any more for any routing state, and the routing revision has advanced. If not (tools have gone, or are back with a meaning
  that was known, or differ in their source label only) nothing is marked, the routing state is untouched and the index is current exactly as before.
\<close>

theorem observation_closes_gate:
  assumes ok: "observeLiveSnapshot oe tracker snapshot w = (w', Inr ())" and new: "ts_Fingerprint snapshot \<noteq> pts_lastObserved (lw_session w)"
    and sid: "sid = se_ID (pts_entry (lw_session w))"
  shows "(indexed_server (ow_catalog w) (TrimSpace sid) \<and> (\<exists>t\<in>set (ts_Tools snapshot). new_meaning (oe_codec oe) (ow_catalog w) (TrimSpace sid) t) \<longrightarrow>
      gate_closed (ow_catalog w') sid \<and>
      (\<forall>ops. tracker = Some ops \<longrightarrow> (\<exists>state. AdvanceRoutingRevision ops (ow_routing w) = (ow_routing w', Inr state)))) \<and>
    (\<not> (indexed_server (ow_catalog w) (TrimSpace sid) \<and> (\<exists>t\<in>set (ts_Tools snapshot). new_meaning (oe_codec oe) (ow_catalog w) (TrimSpace sid) t)) \<longrightarrow>
      dirty_partitions (ow_catalog w') = dirty_partitions (ow_catalog w) \<and> ow_routing w' = ow_routing w \<and>
      (\<forall>cd q h. ActiveCurrent cd q (ow_catalog w') h = ActiveCurrent cd q (ow_catalog w) h))"
proof -
  let ?entry = "pts_entry (lw_session w)"
  obtain db res where obs: "ObserveServerTools (oe_codec oe) (oe_sql oe) (oe_now oe) (se_ID ?entry) (map Some (ts_Tools snapshot)) (ow_catalog w) = Inr (db, res)"
    and rest: "step_bind (if SemanticChanged res then step_bind (read_snapshot oe ?entry) (\<lambda>effective.
           step_bind (setEffectiveTools (oe_codec oe) effective) (\<lambda>_. markSemanticToolChange oe tracker ?entry (ts_Fingerprint effective)))
         else step_return ()) (\<lambda>_. set_observed (ts_Fingerprint snapshot)) (w\<lparr>ow_catalog := db\<rparr>) = (w', Inr ())"
    using ok by (auto simp: observe_new [OF new] Let_def split: sum.splits)
  have change: "indexed_server (ow_catalog w) (TrimSpace sid) \<and> (\<exists>t\<in>set (ts_Tools snapshot). new_meaning (oe_codec oe) (ow_catalog w) (TrimSpace sid) t)
      \<longleftrightarrow> SemanticChanged res"
    using semantic_change_iff [OF obs refl] by (auto simp: sid)
  show ?thesis unfolding change
  proof (cases "SemanticChanged res")
    case True
    then obtain effective w1 where m: "markSemanticToolChange oe tracker ?entry (ts_Fingerprint effective)
        (w\<lparr>ow_catalog := db, lw_session := (lw_session w)\<lparr>pts_effective := ToolSnapshot_Clone (oe_codec oe) effective\<rparr>\<rparr>) = (w1, Inr ())"
      and w': "w' = w1\<lparr>lw_session := (lw_session w1)\<lparr>pts_lastObserved := ts_Fingerprint snapshot\<rparr>\<rparr>"
      using rest by (auto simp: read_snapshot_def setEffectiveTools_def set_observed_def elim!: step_bind_InrE)
    show "(SemanticChanged res \<longrightarrow> gate_closed (ow_catalog w') sid \<and> (\<forall>ops. tracker = Some ops \<longrightarrow> (\<exists>state. AdvanceRoutingRevision ops (ow_routing w) = (ow_routing w', Inr state)))) \<and>
      (\<not> SemanticChanged res \<longrightarrow> dirty_partitions (ow_catalog w') = dirty_partitions (ow_catalog w) \<and> ow_routing w' = ow_routing w \<and>
        (\<forall>cd q h. ActiveCurrent cd q (ow_catalog w') h = ActiveCurrent cd q (ow_catalog w) h))"
      using mark_effect [OF m] True by (auto simp: w' sid)
  next
    case False
    then have "w' = w\<lparr>ow_catalog := db, lw_session := (lw_session w)\<lparr>pts_lastObserved := ts_Fingerprint snapshot\<rparr>\<rparr>"
      using rest by (auto simp: step_bind_def step_return_def set_observed_def)
    then show "(SemanticChanged res \<longrightarrow> gate_closed (ow_catalog w') sid \<and> (\<forall>ops. tracker = Some ops \<longrightarrow> (\<exists>state. AdvanceRoutingRevision ops (ow_routing w) = (ow_routing w', Inr state)))) \<and>
      (\<not> SemanticChanged res \<longrightarrow> dirty_partitions (ow_catalog w') = dirty_partitions (ow_catalog w) \<and> ow_routing w' = ow_routing w \<and>
        (\<forall>cd q h. ActiveCurrent cd q (ow_catalog w') h = ActiveCurrent cd q (ow_catalog w) h))"
      using False cache_only_simps(2,5) ObserveServerTools_cache_only [OF obs] by auto
  qed
qed

text \<open>
  (C39) A change of a tool's meaning can be lost: when the observation of it has been stored and then reading the cache back or marking
  the server fails (once), the next observation of the same tools succeeds on a healthy catalog, finds no change, and remembers
  the tools as observed. Nothing is ever marked: the server is as clean and the index as current as before; and when it was the
  reading that failed, the session also keeps showing the old tools to the router.
\<close>

theorem change_lost_after_failure:
  assumes obs: "ObserveServerTools (oe_codec oe) (oe_sql oe) (oe_now oe) (se_ID (pts_entry (lw_session w))) (map Some (ts_Tools snapshot)) (ow_catalog w) = Inr (db, res)"
    and changed: "SemanticChanged res" and new: "ts_Fingerprint snapshot \<noteq> pts_lastObserved (lw_session w)"
    and fails: "sql_fails (oe_sql oe) ''load cached tools'' \<or> sql_fails (oe_sql oe) ''mark dirty partition''"
    and retry: "oe_codec oe' = oe_codec oe" "healthy (oe_sql oe')"
  shows "\<exists>w1 w2 e. observeLiveSnapshot oe tracker snapshot w = (w1, Inl e) \<and> observeLiveSnapshot oe' tracker snapshot w1 = (w2, Inr ()) \<and>
    dirty_partitions (ow_catalog w2) = dirty_partitions (ow_catalog w) \<and> ow_routing w2 = ow_routing w \<and>
    (\<forall>cd q h. ActiveCurrent cd q (ow_catalog w2) h = ActiveCurrent cd q (ow_catalog w) h) \<and> pts_lastObserved (lw_session w2) = ts_Fingerprint snapshot \<and>
    (sql_fails (oe_sql oe) ''load cached tools'' \<longrightarrow> pts_effective (lw_session w2) = pts_effective (lw_session w))"
proof -
  let ?entry = "pts_entry (lw_session w)" and ?q = "oe_sql oe"
  note only = ObserveServerTools_cache_only [OF obs]
  obtain db2 res2 where again: "ObserveServerTools (oe_codec oe') (oe_sql oe') (oe_now oe') (se_ID ?entry) (map Some (ts_Tools snapshot)) db = Inr (db2, res2)"
    and same: "\<not> SemanticChanged res2"
    using observe_again [OF obs retry(2)] retry(1) by metis
  have read: "sql_fails ?q ''load cached tools'' \<Longrightarrow> isl (cachedSemanticSnapshot oe db ?entry)"
    by (auto simp: cachedSemanticSnapshot_def CachedTools_def Let_def guard_def sql_def rbind_Inl rbind_Inr)
  have mark: "sql_fails ?q ''mark dirty partition'' \<Longrightarrow> isl (MarkDirty ?q (oe_now oe) key reason fp db)" for key reason fp
    by (auto simp: MarkDirty_def guard_def sql_def rbind_Inl rbind_Inr)
  have "\<exists>e s1. observeLiveSnapshot oe tracker snapshot w = (w\<lparr>ow_catalog := db, lw_session := s1\<rparr>, Inl e) \<and>
      pts_entry s1 = ?entry \<and> pts_lastObserved s1 = pts_lastObserved (lw_session w) \<and> (sql_fails ?q ''load cached tools'' \<longrightarrow> pts_effective s1 = pts_effective (lw_session w))"
  proof (cases "cachedSemanticSnapshot oe db ?entry")
    case (Inl e)
    then have "observeLiveSnapshot oe tracker snapshot w = (w\<lparr>ow_catalog := db, lw_session := lw_session w\<rparr>, Inl e)"
      using new obs changed by (simp add: observeLiveSnapshot_def Let_def observe_catalog_def step_bind_def read_snapshot_def)
    then show ?thesis by blast
  next
    case (Inr effective)
    then have "\<not> sql_fails ?q ''load cached tools''" "sql_fails ?q ''mark dirty partition''" using read fails by auto
    moreover from this obtain e where "MarkDirty ?q (oe_now oe) (''server:'' @ se_ID ?entry) ''new or changed downstream tool contract'' (ts_Fingerprint effective) db = Inl e"
      using mark by (metis isl_def)
    ultimately show ?thesis
      using new obs changed Inr by (simp add: observeLiveSnapshot_def Let_def observe_catalog_def step_bind_def read_snapshot_def
          setEffectiveTools_def markSemanticToolChange_def mark_server_def) (metis persistentToolSession.select_convs persistentToolSession.surjective persistentToolSession.update_convs)
  qed
  then obtain e s1 where first: "observeLiveSnapshot oe tracker snapshot w = (w\<lparr>ow_catalog := db, lw_session := s1\<rparr>, Inl e)"
    and s1: "pts_entry s1 = ?entry" "pts_lastObserved s1 = pts_lastObserved (lw_session w)" "sql_fails ?q ''load cached tools'' \<longrightarrow> pts_effective s1 = pts_effective (lw_session w)"
    by blast
  have second: "observeLiveSnapshot oe' tracker snapshot (w\<lparr>ow_catalog := db, lw_session := s1\<rparr>) =
      (w\<lparr>ow_catalog := db2, lw_session := s1\<lparr>pts_lastObserved := ts_Fingerprint snapshot\<rparr>\<rparr>, Inr ())"
    using new again same s1 by (simp add: observeLiveSnapshot_def Let_def observe_catalog_def step_bind_def step_return_def set_observed_def)
  have "cache_only (ow_catalog w) db2" using only ObserveServerTools_cache_only [OF again] cache_only_trans by blast
  note unchanged = cache_only_simps(2,5) [OF this]
  show ?thesis
    by (rule exI [of _ "w\<lparr>ow_catalog := db, lw_session := s1\<rparr>"],
        rule exI [of _ "w\<lparr>ow_catalog := db2, lw_session := s1\<lparr>pts_lastObserved := ts_Fingerprint snapshot\<rparr>\<rparr>"], rule exI [of _ e])
      (simp add: first second s1(3) unchanged)
qed

section \<open>What reaches the session\<close>

text \<open>A list of tools that is encoded and decoded again has the same names.\<close>

definition keeps_names :: "codec \<Rightarrow> bool" where
  "keeps_names cd \<longleftrightarrow> (\<forall>ts body out. marshal_tools cd ts = Some body \<longrightarrow> unmarshal_tools cd body = Some out \<longrightarrow> map tool_Name out = map tool_Name ts)"

text \<open>
  A call reaches the downstream session only for a tool that the session advertises at that moment and the configuration
  does not hide; for any other named tool the caller gets ErrDownstreamUnavailable, whatever the session would answer, and no caller ever
  sees ErrToolContractChanged.
\<close>

theorem calls_only_exposed_tools:
  assumes names: "keeps_names (oe_codec oe)"
  shows "(name \<noteq> [] \<and> \<not> (\<exists>t\<in>set (ts_Tools live). tool_Name t = name \<and> ToolExposed (pts_entry (lw_session w)) name) \<longrightarrow>
      snd (session_CallTool oe tracker live name answer w) = Inl ErrDownstreamUnavailable) \<and>
    snd (session_CallTool oe tracker live name answer w) \<noteq> Inl ErrToolContractChanged"
proof
  let ?entry = "pts_entry (lw_session w)"
  show "name \<noteq> [] \<and> \<not> (\<exists>t\<in>set (ts_Tools live). tool_Name t = name \<and> ToolExposed ?entry name) \<longrightarrow>
      snd (session_CallTool oe tracker live name answer w) = Inl ErrDownstreamUnavailable"
  proof
    assume absent: "name \<noteq> [] \<and> \<not> (\<exists>t\<in>set (ts_Tools live). tool_Name t = name \<and> ToolExposed ?entry name)"
    let ?ts = "filter (\<lambda>t. ToolExposed ?entry (tool_Name t)) (ts_Tools live)"
    have "\<not> list_ex (\<lambda>t. tool_Name t = name) (ts_Tools filtered)" if f: "filterExposedTools (oe_codec oe) live ?entry = Inr filtered" for filtered
    proof -
      obtain body where "marshal_tools (oe_codec oe) (sort_key tool_Name ?ts) = Some body" "unmarshal_tools (oe_codec oe) body = Some (ts_Tools filtered)"
        using f by (auto simp: filterExposedTools_def snapshot_of_def FingerprintTools_def Let_def comp_def split: sum.splits if_splits option.splits)
      then have "map tool_Name (ts_Tools filtered) = map tool_Name (sort_key tool_Name ?ts)" using names unfolding keeps_names_def by blast
      then have "tool_Name ` set (ts_Tools filtered) = tool_Name ` set ?ts" by (metis list.set_map set_sort)
      moreover have "name \<notin> tool_Name ` set ?ts" using absent by auto
      ultimately show ?thesis by (auto simp: list_ex_iff)
    qed
    then show "snd (session_CallTool oe tracker live name answer w) = Inl ErrDownstreamUnavailable"
      using absent by (simp add: session_CallTool_def session_CurrentTools_def split: sum.split)
  qed
  show "snd (session_CallTool oe tracker live name answer w) \<noteq> Inl ErrToolContractChanged"
    by (auto simp: session_CallTool_def Let_def split: prod.splits sum.splits call_error.splits)
qed

section \<open>Connecting\<close>

definition keeps_open :: "('b observe_world, 'e, 'a) step_over \<Rightarrow> bool" where
  "keeps_open m \<longleftrightarrow> (\<forall>w. ow_open (fst (m w)) = ow_open w)"

lemma keeps_open_bind:
  assumes "keeps_open m" and "\<And>x. keeps_open (f x)"
  shows "keeps_open (step_bind m f)"
  unfolding keeps_open_def
proof
  fix w
  obtain w1 r where m: "m w = (w1, r)" by (cases "m w")
  then have "ow_open w1 = ow_open w" using assms(1) by (metis fst_conv keeps_open_def)
  then show "ow_open (fst (step_bind m f w)) = ow_open w"
    using assms(2) by (cases r) (simp_all add: step_bind_def m keeps_open_def)
qed

lemma keeps_open_steps:
  "keeps_open (step_return x)" "keeps_open (step_result r)" "keeps_open (observe_catalog oe entry tools)" "keeps_open (read_snapshot oe entry)"
  "keeps_open (mark_server oe entry fp)" "keeps_open (advance_revision ops)"
  by (auto simp: keeps_open_def step_return_def step_result_def observe_catalog_def read_snapshot_def mark_server_def advance_revision_def
      split: sum.splits prod.splits)

lemma keeps_open_mark: "keeps_open (markSemanticToolChange oe tracker entry fp)"
  unfolding markSemanticToolChange_def by (cases tracker) (auto intro!: keeps_open_bind keeps_open_steps)

text \<open>
  Connecting is all or nothing: when it fails after the connection the session is closed again and no other session is touched;
  when it succeeds the session is open, shows the router the cached meaning of the exposed tools, and if its first list changed
  that meaning the server is marked and no generation is current.
\<close>

theorem connect_all_or_nothing:
  fixes w :: "'b observe_world"
  assumes conn: "connectWithPersistentToolIdentity oe tracker answer entry w = (w', r)"
  shows "case r of Inl e \<Rightarrow> ow_open w' = ow_open w
    | Inr s \<Rightarrow> \<exists>initial live db res. answer = Inr (pts_session s, initial) \<and> ow_open w' = pts_session s # ow_open w \<and>
        filterExposedTools (oe_codec oe) initial entry = Inr live \<and>
        ObserveServerTools (oe_codec oe) (oe_sql oe) (oe_now oe) (se_ID entry) (map Some (ts_Tools live)) (ow_catalog w) = Inr (db, res) \<and>
        cachedSemanticSnapshot oe db entry = Inr (pts_effective s) \<and> (SemanticChanged res \<longrightarrow> gate_closed (ow_catalog w') (se_ID entry))"
proof (cases answer)
  case (Inl m)
  then show ?thesis using conn by (auto simp: connectWithPersistentToolIdentity_def)
next
  case (Inr ci)
  obtain c initial where ci: "ci = (c, initial)" by (cases ci)
  let ?m = "step_bind (step_result (case filterExposedTools (oe_codec oe) initial entry of Inl e \<Rightarrow> Inl (ObserveContract e) | Inr s \<Rightarrow> Inr s)) (\<lambda>live.
         step_bind (observe_catalog oe entry (ts_Tools live)) (\<lambda>observation.
         step_bind (read_snapshot oe entry) (\<lambda>effective.
         step_bind (if SemanticChanged observation then markSemanticToolChange oe tracker entry (ts_Fingerprint effective) else step_return ()) (\<lambda>_.
         step_return \<lparr>pts_session = c, pts_entry = entry, pts_effective = effective, pts_lastObserved = ts_Fingerprint live\<rparr>))))"
  let ?w = "w\<lparr>ow_open := c # ow_open w\<rparr>"
  have "keeps_open ?m" by (auto intro!: keeps_open_bind keeps_open_steps keeps_open_mark)
  then have k: "ow_open (fst (?m ?w)) = c # ow_open w" by (simp add: keeps_open_def)
  have run: "close_on_error c ?m ?w = (w', r)" using conn by (simp add: connectWithPersistentToolIdentity_def Inr ci)
  show ?thesis
  proof (cases r)
    case (Inl e)
    then show ?thesis using run k by (auto simp: close_on_error_def split: prod.splits sum.splits)
  next
    case (Inr s)
    then have m: "?m ?w = (w', Inr s)" using run by (auto simp: close_on_error_def split: prod.splits sum.splits)
    then obtain live db res effective w1 where f: "filterExposedTools (oe_codec oe) initial entry = Inr live"
      and o: "ObserveServerTools (oe_codec oe) (oe_sql oe) (oe_now oe) (se_ID entry) (map Some (ts_Tools live)) (ow_catalog w) = Inr (db, res)"
      and eff: "cachedSemanticSnapshot oe db entry = Inr effective"
      and mk: "(if SemanticChanged res then markSemanticToolChange oe tracker entry (ts_Fingerprint effective) else step_return ()) (?w\<lparr>ow_catalog := db\<rparr>) = (w', Inr ())"
      and s: "s = \<lparr>pts_session = c, pts_entry = entry, pts_effective = effective, pts_lastObserved = ts_Fingerprint live\<rparr>"
      by (auto simp: step_result_Inr step_return_Inr observe_catalog_def read_snapshot_def split: sum.splits elim!: step_bind_InrE)
    have "gate_closed (ow_catalog w') (se_ID entry)" if "SemanticChanged res"
      using mk that mark_effect [of oe tracker entry "ts_Fingerprint effective" "?w\<lparr>ow_catalog := db\<rparr>" w'] by simp
    then show ?thesis using \<open>answer = Inr ci\<close> ci k m f o eff s Inr by auto
  qed
qed

end
