(* ===== verification/ToolObservationWitness.thy ===== *)
theory ToolObservationWitness
  imports ToolObservationFacts
begin

text \<open>Concrete instances of the theorems on observations: an indexed server that starts to advertise a new tool.\<close>

section \<open>A codec that keeps the names of tools\<close>

definition join_names :: "mcp_tool list \<Rightarrow> string" where
  "join_names ts = concat (map (\<lambda>t. tool_Name t @ [CHR '','']) ts)"

definition names_codec :: codec where
  "names_codec = sample_codec\<lparr>
     marshal_tools := (\<lambda>ts. if list_all (\<lambda>t. CHR '','' \<notin> set (tool_Name t)) ts then Some (join_names ts) else None),
     unmarshal_tools := (\<lambda>s. Some (map sample_tool (butlast (split_on (CHR '','') s))))\<rparr>"

lemma split_joined: "list_all (\<lambda>t. CHR '','' \<notin> set (tool_Name t)) ts \<Longrightarrow> split_on (CHR '','') (join_names ts) = map tool_Name ts @ [[]]"
  by (induction ts) (auto simp: join_names_def split_on_append_sep)

lemma names_codec_keeps: "keeps_names names_codec"
  by (auto simp: keeps_names_def names_codec_def split_joined comp_def sample_tool_def split: if_splits)

section \<open>A world\<close>

definition obs_entry :: ServerEntry where
  "obs_entry = (sample_entry ''s'' ModeManaged sample_http_transport)\<lparr>se_Hidden := [''secret'']\<rparr>"

definition obs_catalog :: catalog where
  "obs_catalog = sample_indexed\<lparr>tool_contract_cache := [], source_servers := [((''g'', ''s''), \<lparr>ss_fingerprint = ''sha256:S'', ss_contract = ''S''\<rparr>)]\<rparr>"

definition obs_env :: "sqlenv \<Rightarrow> observe_env" where
  "obs_env q = \<lparr>oe_codec = names_codec, oe_sql = q, oe_now = 9, oe_name_of = (\<lambda>s. Some (if s = ''E'' then ''D'' else s)),
     oe_read_tool = (\<lambda>s. Some (sample_tool (if s = ''E'' then ''D'' else s)))\<rparr>"

definition obs_live :: ToolSnapshot where
  "obs_live = \<lparr>ts_Tools = [sample_tool ''A'', sample_tool ''D''], ts_Fingerprint = ''new''\<rparr>"

definition obs_world :: "routing_snapshot live_world" where
  "obs_world = \<lparr>ow_catalog = obs_catalog, ow_routing = \<lparr>rs_RoutingRevision = 1, rs_RoutingStateHash = ''h'', rs_PreferenceRevision = 0\<rparr>, ow_open = [7],
     lw_session = \<lparr>pts_session = 7, pts_entry = obs_entry, pts_effective = \<lparr>ts_Tools = [sample_tool ''D''], ts_Fingerprint = ''old''\<rparr>, pts_lastObserved = ''old''\<rparr>\<rparr>"

definition no_reading :: sqlenv where
  "no_reading = sample_q\<lparr>sql_fails := (\<lambda>l. l = ''load cached tools'')\<rparr>"

abbreviation obs_first :: "sqlenv \<Rightarrow> (cat_error, catalog \<times> ToolObservationResult) result" where
  "obs_first q \<equiv> ObserveServerTools names_codec q 9 ''s'' (map Some (ts_Tools obs_live)) obs_catalog"

theorem observation_closes_gate_witness:
  "gate_closed (ow_catalog (fst (observeLiveSnapshot (obs_env sample_q) (Some MemoryBackend) obs_live obs_world))) ''s''"
proof -
  let ?O = "observeLiveSnapshot (obs_env sample_q) (Some MemoryBackend) obs_live obs_world"
  have "snd ?O = Inr ()" by code_simp
  then have ok: "?O = (fst ?O, Inr ())" by (simp add: prod_eq_iff)
  have n: "ts_Fingerprint obs_live \<noteq> pts_lastObserved (lw_session obs_world)" by code_simp
  have e: "oe_codec (obs_env sample_q) = names_codec" "''s'' = se_ID (pts_entry (lw_session obs_world))" "ow_catalog obs_world = obs_catalog"
    by (simp_all add: obs_env_def obs_world_def obs_entry_def sample_entry_def)
  have "map_of (server_tools obs_catalog st ''s'') ''A'' = None" if "st \<in> {GenerationActive, GenerationStaging}" for st
    using that by (elim insertE emptyE; hypsubst; code_simp)
  moreover have "map_of (tool_contract_cache obs_catalog) (''s'', ''A'') = None" by code_simp
  ultimately have k: "known_contracts obs_catalog ''s'' ''A'' = {}" by (simp add: known_contracts_def)
  have "\<not> isl (FingerprintTool names_codec (Some (sample_tool ''A'')))" by code_simp
  then have m: "new_meaning names_codec obs_catalog ''s'' (sample_tool ''A'')"
    using k by (cases "FingerprintTool names_codec (Some (sample_tool ''A''))") (auto simp: new_meaning_def sample_tool_def)
  have "authoritativeBaseline obs_catalog ''s''" by code_simp
  then have i: "indexed_server obs_catalog ''s''" by (simp add: indexed_baseline)
  have t: "TrimSpace ''s'' = ''s''" by code_simp
  have "sample_tool ''A'' \<in> set (ts_Tools obs_live)" by (simp add: obs_live_def)
  then show ?thesis using observation_closes_gate [OF ok n e(2), unfolded e(1,3) t] m i by blast
qed

theorem change_lost_after_failure_witness:
  "\<exists>w1 w2 e. observeLiveSnapshot (obs_env no_reading) (Some MemoryBackend) obs_live obs_world = (w1, Inl e) \<and>
     observeLiveSnapshot (obs_env sample_q) (Some MemoryBackend) obs_live w1 = (w2, Inr ()) \<and> dirty_partitions (ow_catalog w2) = [] \<and>
     pts_effective (lw_session w2) = \<lparr>ts_Tools = [sample_tool ''D''], ts_Fingerprint = ''old''\<rparr>"
proof -
  have "\<not> isl (obs_first no_reading)" and s: "SemanticChanged (snd (projr (obs_first no_reading)))" by code_simp+
  then have obs: "obs_first no_reading = Inr (fst (projr (obs_first no_reading)), snd (projr (obs_first no_reading)))"
    by (metis not_isl_Inr prod.collapse)
  have e: "oe_codec (obs_env q) = names_codec" "oe_sql (obs_env q) = q" "oe_now (obs_env q) = 9"
    "se_ID (pts_entry (lw_session obs_world)) = ''s''" "ow_catalog obs_world = obs_catalog" for q
    by (simp_all add: obs_env_def obs_world_def obs_entry_def sample_entry_def)
  have new: "ts_Fingerprint obs_live \<noteq> pts_lastObserved (lw_session obs_world)" by code_simp
  have d: "dirty_partitions obs_catalog = []" by code_simp
  from change_lost_after_failure [of "obs_env no_reading" obs_world obs_live, unfolded e, OF obs s new, of "obs_env sample_q" "Some MemoryBackend", unfolded e]
  show ?thesis using sample_healthy d by (auto simp: no_reading_def obs_world_def)
qed

theorem calls_only_exposed_tools_witness:
  "snd (session_CallTool (obs_env sample_q) (Some MemoryBackend)
     (obs_live\<lparr>ts_Tools := [sample_tool ''secret'']\<rparr>) ''secret'' (Inr ''done'') obs_world) = Inl ErrDownstreamUnavailable"
proof -
  have e: "oe_codec (obs_env sample_q) = names_codec" by (simp add: obs_env_def)
  have "\<not> ToolExposed (pts_entry (lw_session obs_world)) ''secret''" by code_simp
  then show ?thesis
    using calls_only_exposed_tools [of "obs_env sample_q" "''secret''", unfolded e, OF names_codec_keeps] by blast
qed

definition connecting_world :: "routing_snapshot observe_world" where
  "connecting_world = \<lparr>ow_catalog = obs_catalog, ow_routing = \<lparr>rs_RoutingRevision = 1, rs_RoutingStateHash = ''h'', rs_PreferenceRevision = 0\<rparr>, ow_open = [3]\<rparr>"

theorem connect_all_or_nothing_witness:
  "ow_open (fst (connectWithPersistentToolIdentity (obs_env no_reading) (Some MemoryBackend) (Inr (7, obs_live)) obs_entry connecting_world)) = [3] \<and>
   ow_open (fst (connectWithPersistentToolIdentity (obs_env sample_q) (Some MemoryBackend) (Inr (7, obs_live)) obs_entry connecting_world)) = [7, 3]"
proof
  let ?C = "\<lambda>q. connectWithPersistentToolIdentity (obs_env q) (Some MemoryBackend) (Inr (7, obs_live)) obs_entry connecting_world"
  have o: "ow_open connecting_world = [3]" by (simp add: connecting_world_def)
  have "isl (snd (?C no_reading))" by code_simp
  then show "ow_open (fst (?C no_reading)) = [3]"
    using connect_all_or_nothing [of "obs_env no_reading" "Some MemoryBackend" "Inr (7, obs_live)" obs_entry connecting_world, OF surjective_pairing] o
    by (auto simp: isl_def)
  have "\<not> isl (snd (?C sample_q))" by code_simp
  then show "ow_open (fst (?C sample_q)) = [7, 3]"
    using connect_all_or_nothing [of "obs_env sample_q" "Some MemoryBackend" "Inr (7, obs_live)" obs_entry connecting_world, OF surjective_pairing] o
    by (auto split: sum.splits)
qed

end
