(* ===== verification/Logging.thy ===== *)
theory Logging
  imports Retrieval Discovery
begin

text \<open>
  The manager's log: \<^verbatim>\<open>internal/logging\<close> logging.go, reconfigure_values.go. Every message is classified, stripped of registered
  secrets, kept in a bounded ring and appended to a rotating file. JSON and time parsing are parameters.
\<close>

section \<open>Runs\<close>

text \<open>A computation that may never return (None) or panic.\<close>

datatype log_panic = SliceOutOfRange

type_synonym 'a log_run = "(log_panic, 'a) result option"

definition run_return :: "'a \<Rightarrow> 'a log_run" where
  "run_return x = Some (Inr x)"

definition run_bind :: "'a log_run \<Rightarrow> ('a \<Rightarrow> 'b log_run) \<Rightarrow> 'b log_run" where
  "run_bind m f = (case m of None \<Rightarrow> None | Some (Inl p) \<Rightarrow> Some (Inl p) | Some (Inr x) \<Rightarrow> f x)"

lemma run_bind_return_iff: "run_bind m f = Some (Inr y) \<longleftrightarrow> (\<exists>x. m = Some (Inr x) \<and> f x = Some (Inr y))"
  by (auto simp: run_bind_def split: option.splits sum.splits)

section \<open>Levels\<close>

definition Trace :: string where "Trace = ''trace''"
definition Debug :: string where "Debug = ''debug''"
definition Info :: string where "Info = ''info''"
definition Warn :: string where "Warn = ''warn''"
definition Error :: string where "Error = ''error''"

definition rank :: "string \<Rightarrow> nat" where
  "rank level = (if level = Debug then 1 else if level = Info then 2 else if level = Warn then 3 else if level = Error then 4 else 0)"

definition knownLevel :: "string \<Rightarrow> string \<times> bool" where
  "knownLevel s = (let w = lower_ascii (TrimSpace s) in
     if w = ''trace'' then (Trace, True) else if w = ''debug'' then (Debug, True)
     else if w \<in> set [''info'', ''information''] then (Info, True) else if w \<in> set [''warn'', ''warning''] then (Warn, True)
     else if w \<in> set [''error'', ''fatal'', ''panic'', ''dpanic''] then (Error, True) else (Info, False))"

definition parseLevel :: "string \<Rightarrow> string" where
  "parseLevel s = (case knownLevel s of (level, ok) \<Rightarrow> if ok then level else Info)"

definition effectiveCaptureLevel :: "string \<Rightarrow> int \<Rightarrow> string \<Rightarrow> int \<Rightarrow> int \<Rightarrow> string" where
  "effectiveCaptureLevel capture memoryMB diskMin maxFileMB keep = (let level = parseLevel capture in
     if level = Info \<and> memoryMB = 25 \<and> parseLevel diskMin = Debug \<and> maxFileMB = 10 \<and> keep = 5 then Trace else level)"

definition semanticLifecycleLevel :: "string \<Rightarrow> string \<Rightarrow> string" where
  "semanticLifecycleLevel level msg = (if level \<noteq> Info then level else let m = lower_ascii (TrimSpace msg) in
     if m = ''managed_activity_observed'' then Trace
     else if m \<in> set [''server_starting'', ''server_stopping'', ''tunnel_starting''] then Debug
     else if m \<in> set [''server_retry_scheduled'', ''tunnel_disconnected''] then Warn
     else if m = ''server_crashed'' then Error else Info)"

section \<open>Events\<close>

text \<open>A field is a string, a map, a list, or another value (with its text).\<close>

datatype log_value = LogString string | LogMap "(string \<times> log_value) list" | LogList "log_value list" | LogOther string

record Event =
  ev_Timestamp :: int
  ev_Level :: string
  ev_Source :: string
  ev_Component :: string
  ev_Message :: string
  ev_Fields :: "(string \<times> log_value) list"

record log_lib =
  ll_unicode :: unicode_lib
  ll_marshal :: "Event \<Rightarrow> string option"
  ll_parse :: "string \<Rightarrow> (string \<times> log_value) list option"
  ll_time :: "string \<Rightarrow> int option"

definition isTunnelClientTrace :: "string \<Rightarrow> (string \<times> log_value) list \<Rightarrow> bool" where
  "isTunnelClientTrace message flds \<longleftrightarrow>
     message \<in> set [''provided'', ''supplied'', ''run'', ''invoking'', ''onstart hook executing'', ''onstart hook executed'',
       ''onstop hook executing'', ''onstop hook executed'', ''initialized custom fxevent.logger''] \<or>
     (map_of flds ''stacktrace'' \<noteq> None \<and> (map_of flds ''moduletrace'' \<noteq> None \<or> map_of flds ''constructor'' \<noteq> None))"

definition semanticTunnelClientLevel :: "string \<Rightarrow> string \<Rightarrow> (string \<times> log_value) list \<Rightarrow> string" where
  "semanticTunnelClientLevel level msg flds = (if level \<noteq> Info then level else let message = lower_ascii (TrimSpace msg) in
     if isTunnelClientTrace message flds then Trace else if Contains message ''tunnel-client started'' then Info else Debug)"

definition string_field :: "(string \<times> log_value) list \<Rightarrow> string \<Rightarrow> string option" where
  "string_field m k = (case map_of m k of Some (LogString s) \<Rightarrow> Some s | _ \<Rightarrow> None)"

definition event_time :: "log_lib \<Rightarrow> (string \<times> log_value) list \<Rightarrow> int \<Rightarrow> int" where
  "event_time lib m now = (case Option.bind (string_field m ''time'') (ll_time lib) of Some t \<Rightarrow> t
     | None \<Rightarrow> (case Option.bind (string_field m ''timestamp'') (ll_time lib) of Some t \<Rightarrow> t | None \<Rightarrow> now))"

definition merge_fields :: "(string \<times> log_value) list \<Rightarrow> (string \<times> log_value) list \<Rightarrow> (string \<times> log_value) list" where
  "merge_fields structured flds = foldl (\<lambda>m (k, v). alist_put k v m)
     (filter (\<lambda>(k, v). k \<notin> set [''time'', ''timestamp'', ''level'', ''msg'', ''message'', ''component'']) structured) flds"

definition normalizeTunnelClientEvent :: "log_lib \<Rightarrow> int \<Rightarrow> string \<Rightarrow> string \<Rightarrow> string \<Rightarrow> (string \<times> log_value) list \<Rightarrow>
    int \<times> string \<times> string \<times> string \<times> (string \<times> log_value) list" where
  "normalizeTunnelClientEvent lib now level component msg flds = (case ll_parse lib msg of None \<Rightarrow> (now, level, component, msg, flds)
     | Some structured \<Rightarrow>
         (case (case string_field structured ''msg'' of Some s \<Rightarrow> Some s | None \<Rightarrow> string_field structured ''message'') of
            None \<Rightarrow> (now, level, component, msg, flds)
          | Some message \<Rightarrow>
              let level1 = (case string_field structured ''level'' of None \<Rightarrow> level
                     | Some raw \<Rightarrow> (case knownLevel raw of (parsed, recognized) \<Rightarrow> if recognized then parsed else level));
                  nested = (case string_field structured ''component'' of None \<Rightarrow> [] | Some c \<Rightarrow> TrimSpace c);
                  component1 = (if nested \<noteq> [] \<and> \<not> EqualFold nested component then component @ ''/'' @ nested else component);
                  merged = merge_fields structured flds
              in (event_time lib structured now, semanticTunnelClientLevel level1 message merged, component1, message, merged)))"

section \<open>Redaction\<close>

definition redacted :: string where "redacted = ''[REDACTED]''"

text \<open>Secrets of at least three bytes, longest first.\<close>

definition Register :: "string \<Rightarrow> string list \<Rightarrow> string list" where
  "Register v vals = (if length v < 3 \<or> v \<in> set vals then vals else sort_key (\<lambda>s. - int (length s)) (vals @ [v]))"

text \<open>\<^verbatim>\<open>strings.ReplaceAll\<close> for a search text that is not empty.\<close>

function replace_all :: "string \<Rightarrow> string \<Rightarrow> string \<Rightarrow> string" where
  "replace_all v new s = (case s of [] \<Rightarrow> []
     | c # s' \<Rightarrow> if v \<noteq> [] \<and> HasPrefix s v then new @ replace_all v new (drop (length v) s) else c # replace_all v new s')"
  by pat_completeness auto
termination
  by (relation "measure (\<lambda>(v, new, s). length s)") auto

declare replace_all.simps [simp del]

text \<open>\<^verbatim>\<open>strings.Index\<close>.\<close>

fun str_index :: "string \<Rightarrow> string \<Rightarrow> nat option" where
  "str_index [] sub = (if sub = [] then Some 0 else None)"
| "str_index (c # s) sub = (if HasPrefix (c # s) sub then Some 0 else map_option Suc (str_index s sub))"

definition authorization_key :: string where "authorization_key = ''authorization:''"

definition header_prefix :: string where "header_prefix = ''Authorization: ''"

partial_function (option) redactAuthorization :: "unicode_lib \<Rightarrow> string \<Rightarrow> string log_run" where
  "redactAuthorization uc s = (case str_index (uc_lower uc s) authorization_key of None \<Rightarrow> Some (Inr s)
     | Some idx \<Rightarrow> if length s < idx then Some (Inl SliceOutOfRange)
         else let end = (case str_index (drop idx s) [CHR 0x0A] of None \<Rightarrow> length s - idx | Some e \<Rightarrow> e)
           in redactAuthorization uc (take idx s @ header_prefix @ redacted @ drop (idx + end) s))"

definition redact_values :: "string list \<Rightarrow> string \<Rightarrow> string" where
  "redact_values vals s = fold (\<lambda>v. replace_all v redacted) vals s"

definition redact_string :: "unicode_lib \<Rightarrow> string list \<Rightarrow> string \<Rightarrow> string log_run" where
  "redact_string uc vals s = redactAuthorization uc (redact_values vals s)"

definition sensitive_key :: "string \<Rightarrow> bool" where
  "sensitive_key k \<longleftrightarrow> (let lk = lower_ascii k in
     Contains lk ''authorization'' \<or> Contains lk ''token'' \<or> Contains lk ''secret'' \<or> Contains lk ''api_key'')"

fun redactValue :: "unicode_lib \<Rightarrow> string list \<Rightarrow> log_value \<Rightarrow> log_value log_run"
  and redactFields :: "unicode_lib \<Rightarrow> string list \<Rightarrow> (string \<times> log_value) list \<Rightarrow> (string \<times> log_value) list log_run"
  and redactItems :: "unicode_lib \<Rightarrow> string list \<Rightarrow> log_value list \<Rightarrow> log_value list log_run" where
  "redactValue uc vals (LogString s) = run_bind (redact_string uc vals s) (\<lambda>t. run_return (LogString t))"
| "redactValue uc vals (LogMap m) = run_bind (redactFields uc vals m) (\<lambda>m'. run_return (LogMap m'))"
| "redactValue uc vals (LogList xs) = run_bind (redactItems uc vals xs) (\<lambda>xs'. run_return (LogList xs'))"
| "redactValue uc vals (LogOther x) = run_return (LogOther x)"
| "redactFields uc vals [] = run_return []"
| "redactFields uc vals ((k, v) # m) = run_bind (if sensitive_key k then run_return (LogString redacted) else redactValue uc vals v) (\<lambda>v'.
     run_bind (redactFields uc vals m) (\<lambda>m'. run_return ((k, v') # m')))"
| "redactItems uc vals [] = run_return []"
| "redactItems uc vals (x # xs) = run_bind (redactValue uc vals x) (\<lambda>x'. run_bind (redactItems uc vals xs) (\<lambda>xs'. run_return (x' # xs')))"

section \<open>The ring\<close>

record Ring =
  rg_events :: "Event list"
  rg_bytes :: int
  rg_max :: int

definition event_size :: "log_lib \<Rightarrow> Event \<Rightarrow> int" where
  "event_size lib e = (case ll_marshal lib e of None \<Rightarrow> 0 | Some b \<Rightarrow> int (length b))"

text \<open>A number of megabytes in bytes: the product of 64-bit integers wraps around.\<close>

definition megabytes :: "int \<Rightarrow> int" where
  "megabytes mb = sint (word_of_int (mb * 1024 * 1024) :: 64 word)"

definition ring_limit :: "int \<Rightarrow> int" where
  "ring_limit maxMB = megabytes (if maxMB \<le> 0 then 25 else maxMB)"

definition NewRing :: "int \<Rightarrow> Ring" where
  "NewRing maxMB = \<lparr>rg_events = [], rg_bytes = 0, rg_max = ring_limit maxMB\<rparr>"

fun evict :: "log_lib \<Rightarrow> int \<Rightarrow> Event list \<Rightarrow> int \<Rightarrow> Event list \<times> int" where
  "evict lib limit (e # e' # es) bytes =
     (if limit < bytes then evict lib limit (e' # es) (bytes - event_size lib e) else (e # e' # es, bytes))"
| "evict lib limit es bytes = (es, bytes)"

definition evictLocked :: "log_lib \<Rightarrow> Ring \<Rightarrow> Ring" where
  "evictLocked lib r = (case evict lib (rg_max r) (rg_events r) (rg_bytes r) of (es, b) \<Rightarrow> r\<lparr>rg_events := es, rg_bytes := b\<rparr>)"

definition Ring_Add :: "log_lib \<Rightarrow> Event \<Rightarrow> Ring \<Rightarrow> Ring" where
  "Ring_Add lib e r = evictLocked lib (r\<lparr>rg_events := rg_events r @ [e], rg_bytes := rg_bytes r + event_size lib e\<rparr>)"

definition SetMaxMB :: "log_lib \<Rightarrow> int \<Rightarrow> Ring \<Rightarrow> Ring" where
  "SetMaxMB lib maxMB r = evictLocked lib (r\<lparr>rg_max := ring_limit maxMB\<rparr>)"

definition Ring_Clear :: "Ring \<Rightarrow> Ring" where
  "Ring_Clear r = r\<lparr>rg_events := [], rg_bytes := 0\<rparr>"

section \<open>The disk sink\<close>

text \<open>
  File 0 is \<^verbatim>\<open>manager.jsonl\<close>, file n is \<^verbatim>\<open>manager.n.jsonl\<close>. The handle of an open sink is that of file 0: only a sink renames the files, and
  it closes the handle first. \<open>disk_faults\<close> says which system calls fail.
\<close>

type_synonym log_files = "nat \<Rightarrow> string option"

record disk_faults =
  df_mkdir :: bool
  df_open :: bool
  df_stat :: bool
  df_write :: bool
  df_remove :: bool
  df_rename :: "nat \<Rightarrow> bool"

record diskSink =
  ds_min :: string
  ds_maxBytes :: int
  ds_keep :: nat
  ds_open :: bool

datatype disk_error = DiskMkdir | DiskOpen | DiskMarshal | DiskWrite

definition disk_open :: "disk_faults \<Rightarrow> diskSink \<Rightarrow> log_files \<Rightarrow> diskSink \<times> log_files \<times> disk_error option" where
  "disk_open df d files = (if df_open df then (d, files, Some DiskOpen)
     else (d\<lparr>ds_open := True\<rparr>, files(0 := Some (case files 0 of None \<Rightarrow> [] | Some c \<Rightarrow> c)), None))"

definition newDiskSink :: "disk_faults \<Rightarrow> string \<Rightarrow> int \<Rightarrow> int \<Rightarrow> log_files \<Rightarrow> log_files \<times> (disk_error, diskSink) result" where
  "newDiskSink df min_level maxMB keep files = (if df_mkdir df then (files, Inl DiskMkdir)
     else (case disk_open df \<lparr>ds_min = min_level, ds_maxBytes = megabytes (if maxMB \<le> 0 then 10 else maxMB),
          ds_keep = nat (if keep \<le> 0 then 5 else keep), ds_open = False\<rparr> files of
        (d, files', Some e) \<Rightarrow> (files', Inl e) | (d, files', None) \<Rightarrow> (files', Inr d)))"

definition rename_file :: "disk_faults \<Rightarrow> nat \<Rightarrow> log_files \<Rightarrow> log_files" where
  "rename_file df n files = (if df_rename df n \<or> files n = None then files else files(Suc n := files n, n := None))"

definition remove_file :: "disk_faults \<Rightarrow> nat \<Rightarrow> log_files \<Rightarrow> log_files" where
  "remove_file df n files = (if df_remove df then files else files(n := None))"

fun shift_files :: "disk_faults \<Rightarrow> nat \<Rightarrow> log_files \<Rightarrow> log_files" where
  "shift_files df 0 files = rename_file df 0 files"
| "shift_files df (Suc n) files = shift_files df n (rename_file df (Suc n) files)"

definition rotate :: "disk_faults \<Rightarrow> diskSink \<Rightarrow> log_files \<Rightarrow> diskSink \<times> log_files \<times> disk_error option" where
  "rotate df d files = disk_open df (d\<lparr>ds_open := False\<rparr>) (shift_files df (ds_keep d - 1) (remove_file df (ds_keep d) files))"

definition file_size :: "log_files \<Rightarrow> nat \<Rightarrow> int" where
  "file_size files n = (case files n of None \<Rightarrow> 0 | Some c \<Rightarrow> int (length c))"

definition append_event :: "log_lib \<Rightarrow> disk_faults \<Rightarrow> Event \<Rightarrow> diskSink \<Rightarrow> log_files \<Rightarrow> diskSink \<times> log_files \<times> disk_error option" where
  "append_event lib df e d files = (case ll_marshal lib e of None \<Rightarrow> (d, files, Some DiskMarshal)
     | Some b \<Rightarrow> if df_write df then (d, files, Some DiskWrite)
         else (d, files(0 := Some ((case files 0 of None \<Rightarrow> [] | Some c \<Rightarrow> c) @ b @ [CHR 0x0A])), None))"

definition disk_write :: "log_lib \<Rightarrow> disk_faults \<Rightarrow> Event \<Rightarrow> diskSink \<Rightarrow> log_files \<Rightarrow> diskSink \<times> log_files \<times> disk_error option" where
  "disk_write lib df e d files = (if rank (ev_Level e) < rank (ds_min d) then (d, files, None)
     else (case (if ds_open d then (d, files, None) else disk_open df d files) of
        (d1, f1, Some err) \<Rightarrow> (d1, f1, Some err)
      | (d1, f1, None) \<Rightarrow>
          (case (if \<not> df_stat df \<and> ds_maxBytes d1 \<le> file_size f1 0 then rotate df d1 f1 else (d1, f1, None)) of
             (d2, f2, Some err) \<Rightarrow> (d2, f2, Some err)
           | (d2, f2, None) \<Rightarrow> append_event lib df e d2 f2)))"

section \<open>The logger\<close>

record Logger =
  lo_values :: "string list"
  lo_ring :: Ring
  lo_capture :: string
  lo_disk :: "diskSink option"
  lo_files :: log_files

definition Logger_New :: "disk_faults \<Rightarrow> string \<Rightarrow> int \<Rightarrow> bool \<Rightarrow> string \<Rightarrow> int \<Rightarrow> int \<Rightarrow> log_files \<Rightarrow> (disk_error, Logger) result" where
  "Logger_New df capture memoryMB writeDisk diskMin maxFileMB keep files =
     (let l = \<lparr>lo_values = [], lo_ring = NewRing memoryMB, lo_capture = effectiveCaptureLevel capture memoryMB diskMin maxFileMB keep,
          lo_disk = None, lo_files = files\<rparr> in
      if \<not> writeDisk then Inr l
      else (case newDiskSink df (parseLevel diskMin) maxFileMB keep files of
          (files', Inl e) \<Rightarrow> Inl e | (files', Inr d) \<Rightarrow> Inr (l\<lparr>lo_disk := Some d, lo_files := files'\<rparr>)))"

definition record_event :: "log_lib \<Rightarrow> disk_faults \<Rightarrow> Event \<Rightarrow> Logger \<Rightarrow> Logger" where
  "record_event lib df e l = (let l1 = l\<lparr>lo_ring := Ring_Add lib e (lo_ring l)\<rparr> in
     case lo_disk l of None \<Rightarrow> l1
     | Some d \<Rightarrow> (case disk_write lib df e d (lo_files l) of (d', files', err) \<Rightarrow> l1\<lparr>lo_disk := Some d', lo_files := files'\<rparr>))"

definition classify_event :: "log_lib \<Rightarrow> int \<Rightarrow> string \<Rightarrow> string \<Rightarrow> string \<Rightarrow> (string \<times> log_value) list \<Rightarrow>
    int \<times> string \<times> string \<times> string \<times> (string \<times> log_value) list" where
  "classify_event lib now level component msg flds =
     (case (if component = ''Tunnel Client'' then normalizeTunnelClientEvent lib now level component msg flds else (now, level, component, msg, flds)) of
        (t, lv, c, m, fs) \<Rightarrow> (t, if c = ''Lifecycle'' then semanticLifecycleLevel lv m else lv, c, m, fs))"

definition redact_event :: "log_lib \<Rightarrow> string list \<Rightarrow> int \<Rightarrow> string \<Rightarrow> string \<Rightarrow> string \<Rightarrow> string \<Rightarrow> (string \<times> log_value) list \<Rightarrow> Event log_run" where
  "redact_event lib vals t level source component msg flds =
     run_bind (redact_string (ll_unicode lib) vals source) (\<lambda>s.
     run_bind (redact_string (ll_unicode lib) vals component) (\<lambda>c.
     run_bind (redact_string (ll_unicode lib) vals msg) (\<lambda>m.
     run_bind (redactFields (ll_unicode lib) vals flds) (\<lambda>fs.
     run_return \<lparr>ev_Timestamp = t, ev_Level = level, ev_Source = s, ev_Component = c, ev_Message = m, ev_Fields = fs\<rparr>))))"

definition Log :: "log_lib \<Rightarrow> disk_faults \<Rightarrow> int \<Rightarrow> string \<Rightarrow> string \<Rightarrow> string \<Rightarrow> string \<Rightarrow> (string \<times> log_value) list \<Rightarrow> Logger \<Rightarrow> Logger log_run" where
  "Log lib df now level source component msg flds l =
     (case classify_event lib now level component msg flds of (t, lv, c, m, fs) \<Rightarrow>
        if rank lv < rank (lo_capture l) then run_return l
        else run_bind (redact_event lib (lo_values l) t lv source c m fs) (\<lambda>e. run_return (record_event lib df e l)))"

definition Logger_Close :: "Logger \<Rightarrow> Logger" where
  "Logger_Close l = l\<lparr>lo_disk := None\<rparr>"

definition ReconfigureValues :: "log_lib \<Rightarrow> disk_faults \<Rightarrow> string \<Rightarrow> int \<Rightarrow> bool \<Rightarrow> string \<Rightarrow> int \<Rightarrow> int \<Rightarrow> Logger \<Rightarrow> Logger \<times> disk_error option" where
  "ReconfigureValues lib df capture memoryMB writeDisk diskMin maxFileMB keep l =
     (let install = (\<lambda>disk files. l\<lparr>lo_disk := disk, lo_files := files, lo_capture := effectiveCaptureLevel capture memoryMB diskMin maxFileMB keep,
          lo_ring := SetMaxMB lib memoryMB (lo_ring l)\<rparr>) in
      if \<not> writeDisk then (install None (lo_files l), None)
      else (case newDiskSink df (parseLevel diskMin) maxFileMB keep (lo_files l) of
          (files', Inl e) \<Rightarrow> (l\<lparr>lo_files := files'\<rparr>, Some e) | (files', Inr d) \<Rightarrow> (install (Some d) files', None)))"

end
