(* ===== verification/LoggingFacts.thy ===== *)
theory LoggingFacts
  imports Logging
begin

text \<open>
  What the log keeps: registered secrets do not get into it, the ring and the files are bounded, the files are the newest part of
  what was written; and a message with an authorization header is never logged, because its redaction does not end.
\<close>

section \<open>Secrets\<close>

lemma HasPrefix_prefix: "HasPrefix s p = prefix p s"
  by (simp add: HasPrefix_iff prefix_def)

lemma replace_all_simps:
  "replace_all v new [] = []"
  "v \<noteq> [] \<Longrightarrow> replace_all v new (v @ s) = new @ replace_all v new s"
  "v = [] \<or> \<not> prefix v (c # s) \<Longrightarrow> replace_all v new (c # s) = c # replace_all v new s"
proof -
  show "replace_all v new [] = []" by (simp add: replace_all.simps)
  show "replace_all v new (v @ s) = new @ replace_all v new s" if "v \<noteq> []"
    using that by (cases v) (simp_all add: replace_all.simps [of _ _ "_ # _"] HasPrefix_prefix)
  show "replace_all v new (c # s) = c # replace_all v new s" if "v = [] \<or> \<not> prefix v (c # s)"
    using that by (auto simp: replace_all.simps [of _ _ "_ # _"] HasPrefix_prefix)
qed

lemma replace_all_cases [case_names empty found skipped]:
  assumes "s = [] \<Longrightarrow> P" and "\<And>t. v \<noteq> [] \<Longrightarrow> s = v @ t \<Longrightarrow> P" and "\<And>c t. s = c # t \<Longrightarrow> v = [] \<or> \<not> prefix v s \<Longrightarrow> P"
  shows P
  using assms by (cases s) (auto elim: prefixE)

text \<open>A secret without brackets that is no part of the replacement text.\<close>

definition distinct_secret :: "string \<Rightarrow> bool" where
  "distinct_secret v \<longleftrightarrow> v \<noteq> [] \<and> CHR ''['' \<notin> set v \<and> CHR '']'' \<notin> set v \<and> \<not> sublist v ''REDACTED''"

lemma sublist_around:
  assumes "v \<noteq> []" "c \<notin> set v" "sublist v (x @ c # y)"
  shows "sublist v x \<or> sublist v y"
proof -
  from assms(3) consider "sublist v x" | "sublist v (c # y)" | v1 v2 where "v = v1 @ v2" "suffix v1 x" "prefix v2 (c # y)"
    by (auto simp: sublist_append)
  then show ?thesis
  proof cases
    case 2
    then show ?thesis using assms(1,2) by (cases v) (auto simp: sublist_Cons_right)
  next
    case 3
    then have "v2 = []" using assms(2) by (cases v2) auto
    then show ?thesis using 3 by (auto dest: suffix_imp_sublist)
  qed simp
qed

lemma distinct_secret_around:
  assumes d: "distinct_secret v" and s: "sublist v (x @ redacted @ y)"
  shows "sublist v x \<or> sublist v y"
proof -
  have r: "x @ redacted @ y = x @ CHR ''['' # (''REDACTED'' @ CHR '']'' # y)" by (simp add: redacted_def)
  have v: "v \<noteq> []" "CHR ''['' \<notin> set v" "CHR '']'' \<notin> set v" "\<not> sublist v ''REDACTED''" using d by (auto simp: distinct_secret_def)
  from sublist_around [OF v(1,2) s [unfolded r]] sublist_around [OF v(1,3), of "''REDACTED''" y] v(4) show ?thesis by blast
qed

lemma replace_all_adds_none:
  "distinct_secret v \<Longrightarrow> sublist v (p @ replace_all u redacted s) \<Longrightarrow> sublist v (p @ s)"
proof (induction s arbitrary: p rule: length_induct)
  case (1 s)
  note IH = 1(1) [rule_format, OF _ 1(2)]
  show ?case
  proof (cases rule: replace_all_cases [of s _ u])
    case empty
    then show ?thesis using 1(3) by (simp add: replace_all_simps)
  next
    case (found t)
    then have "sublist v p \<or> sublist v (replace_all u redacted t)"
      using 1(3) distinct_secret_around [OF 1(2)] by (simp add: replace_all_simps)
    moreover have "sublist v (replace_all u redacted t) \<Longrightarrow> sublist v t" using IH [of t "[]"] found by simp
    ultimately have "sublist v p \<or> sublist v t" by blast
    then show ?thesis unfolding found(2) by (metis append.assoc sublist_appendI sublist_order.order.trans prefix_imp_sublist prefixI suffix_imp_sublist suffixI)
  next
    case (skipped c t)
    then have "sublist v ((p @ [c]) @ replace_all u redacted t)" using 1(3) by (simp add: replace_all_simps)
    then show ?thesis using IH [of t "p @ [c]"] skipped(1) by simp
  qed
qed

lemma replace_all_removes:
  "distinct_secret v \<Longrightarrow> sublist v (p @ replace_all v redacted s) \<Longrightarrow> \<exists>i<length p. prefix v (drop i (p @ s))"
proof (induction s arbitrary: p rule: length_induct)
  case (1 s)
  note IH = 1(1) [rule_format, OF _ 1(2)]
  have v: "v \<noteq> []" using 1(2) by (simp add: distinct_secret_def)
  have inside: "\<exists>i<length p. prefix v (drop i (p @ s))" if "sublist v p"
  proof -
    from that obtain a b where "p = a @ v @ b" by (auto simp: sublist_def)
    then show ?thesis using v by (intro exI [of _ "length a"]) simp
  qed
  show ?case
  proof (cases rule: replace_all_cases [of s _ v])
    case empty
    then show ?thesis using 1(3) inside by (simp add: replace_all_simps)
  next
    case (found t)
    then have "sublist v p \<or> sublist v (replace_all v redacted t)"
      using 1(3) distinct_secret_around [OF 1(2)] by (simp add: replace_all_simps)
    moreover have "\<not> sublist v (replace_all v redacted t)" using IH [of t "[]"] found by auto
    ultimately show ?thesis using inside by blast
  next
    case (skipped c t)
    then have "sublist v ((p @ [c]) @ replace_all v redacted t)" using 1(3) by (simp add: replace_all_simps)
    then obtain i where i: "i < Suc (length p)" "prefix v (drop i (p @ s))" using IH [of t "p @ [c]"] skipped(1) by auto
    then have "i < length p" using skipped v by (cases "i = length p") auto
    then show ?thesis using i(2) by blast
  qed
qed

lemma redact_values_clear:
  assumes "v \<in> set vals" and d: "distinct_secret v"
  shows "\<not> sublist v (redact_values vals s)"
proof -
  have keep: "\<not> sublist v s \<Longrightarrow> \<not> sublist v (fold (\<lambda>v. replace_all v redacted) us s)" for us s
  proof (induction us arbitrary: s)
    case (Cons u us)
    have "\<not> sublist v (replace_all u redacted s)" using replace_all_adds_none [OF d, of "[]" u s] Cons.prems by auto
    then show ?case using Cons.IH by simp
  qed simp
  have "v \<in> set us \<Longrightarrow> \<not> sublist v (fold (\<lambda>v. replace_all v redacted) us s)" for us s
  proof (induction us arbitrary: s)
    case (Cons u us)
    show ?case
    proof (cases "u = v")
      case True
      have "\<not> sublist v (replace_all v redacted s)" using replace_all_removes [OF d, of "[]"] by auto
      then show ?thesis using keep True by simp
    next
      case False
      then show ?thesis using Cons by simp
    qed
  qed simp
  then show ?thesis using assms(1) by (simp add: redact_values_def)
qed

section \<open>Authorization headers\<close>

definition ascii :: "string \<Rightarrow> bool" where
  "ascii s \<longleftrightarrow> (\<forall>c\<in>set s. byte c < 128)"

text \<open>What \<^verbatim>\<open>strings.ToLower\<close> does on ASCII text.\<close>

definition lowers_ascii :: "unicode_lib \<Rightarrow> bool" where
  "lowers_ascii uc \<longleftrightarrow> (\<forall>s. ascii s \<longrightarrow> uc_lower uc s = map lower_char s)"

definition names_authorization :: "string \<Rightarrow> bool" where
  "names_authorization s \<longleftrightarrow> sublist authorization_key (map lower_char s)"

lemma str_index_iff: "str_index s sub \<noteq> None \<longleftrightarrow> sublist sub s"
  by (induction s sub rule: str_index.induct) (auto simp: HasPrefix_prefix sublist_Cons_right)

lemma str_index_le: "str_index s sub = Some i \<Longrightarrow> i \<le> length s"
proof (induction s sub arbitrary: i rule: str_index.induct)
  case (2 c s sub)
  then show ?case by (auto split: if_splits)
qed (simp split: if_splits)

lemma ascii_simps: "ascii (a @ b) \<longleftrightarrow> ascii a \<and> ascii b" "ascii s \<Longrightarrow> ascii (take n s)" "ascii s \<Longrightarrow> ascii (drop n s)" "ascii redacted" "ascii header_prefix"
  by (auto simp: ascii_def redacted_def header_prefix_def byte_def dest: in_set_takeD in_set_dropD)

lemma redaction_returns_only_without:
  assumes lower: "lowers_ascii uc"
  shows "redactAuthorization uc s = Some r \<Longrightarrow> ascii s \<longrightarrow> \<not> names_authorization s"
proof -
  assume run: "redactAuthorization uc s = Some r"
  have "lowers_ascii uc \<longrightarrow> ascii s \<longrightarrow> \<not> names_authorization s"
  proof (rule redactAuthorization.raw_induct [where P = "\<lambda>uc s r. lowers_ascii uc \<longrightarrow> ascii s \<longrightarrow> \<not> names_authorization s", OF _ run])
  fix f uc x y
  assume IH: "\<And>uc x y. f uc x = Some y \<Longrightarrow> lowers_ascii uc \<longrightarrow> ascii x \<longrightarrow> \<not> names_authorization x"
    and step: "(case str_index (uc_lower uc x) authorization_key of None \<Rightarrow> Some (Inr x)
     | Some idx \<Rightarrow> if length x < idx then Some (Inl SliceOutOfRange)
         else let end = (case str_index (drop idx x) [CHR 0x0A] of None \<Rightarrow> length x - idx | Some e \<Rightarrow> e)
           in f uc (take idx x @ header_prefix @ redacted @ drop (idx + end) x)) = Some y"
  show "lowers_ascii uc \<longrightarrow> ascii x \<longrightarrow> \<not> names_authorization x"
  proof (intro impI notI)
    assume lower: "lowers_ascii uc" and a: "ascii x" and n: "names_authorization x"
    have lx: "uc_lower uc x = map lower_char x" using a lower by (simp add: lowers_ascii_def)
    obtain i where i: "str_index (map lower_char x) authorization_key = Some i"
      using n str_index_iff [of "map lower_char x" authorization_key] by (auto simp: names_authorization_def)
    then have "i \<le> length x" using str_index_le by fastforce
    then obtain e where "f uc (take i x @ header_prefix @ redacted @ drop (i + e) x) = Some y"
      using step i by (auto simp: lx Let_def)
    moreover have "ascii (take i x @ header_prefix @ redacted @ drop (i + e) x)" using a by (simp add: ascii_simps)
    moreover have "map lower_char (header_prefix) = authorization_key @ '' ''" by code_simp
    then have "names_authorization (take i x @ header_prefix @ redacted @ drop (i + e) x)"
      by (auto simp: names_authorization_def sublist_def)
    ultimately show False using IH lower by blast
  qed
  qed
  then show ?thesis using lower by blast
qed

lemma redactAuthorization_iff:
  assumes "lowers_ascii uc" and "ascii s"
  shows "redactAuthorization uc s = (if names_authorization s then None else Some (Inr s))"
proof (cases "names_authorization s")
  case True
  then show ?thesis using redaction_returns_only_without [OF assms(1)] assms(2) by (cases "redactAuthorization uc s") auto
next
  case False
  then have "str_index (uc_lower uc s) authorization_key = None"
    using str_index_iff [of "map lower_char s" authorization_key] assms by (auto simp: lowers_ascii_def names_authorization_def)
  then show ?thesis using False by (subst redactAuthorization.simps) simp
qed

lemma ascii_replace_all: "ascii s \<Longrightarrow> ascii (replace_all v redacted s)"
proof (induction s rule: length_induct)
  case (1 s)
  show ?case
  proof (cases rule: replace_all_cases [of s _ v])
    case empty
    then show ?thesis by (simp add: replace_all_simps ascii_def)
  next
    case (found t)
    then show ?thesis using 1 by (simp add: replace_all_simps ascii_simps)
  next
    case (skipped c t)
    then show ?thesis using 1 by (auto simp: replace_all_simps ascii_def)
  qed
qed

lemma ascii_redact_values: "ascii s \<Longrightarrow> ascii (redact_values vs s)"
  unfolding redact_values_def by (induction vs arbitrary: s) (auto intro: ascii_replace_all)

lemma redact_string_ascii:
  "lowers_ascii uc \<Longrightarrow> ascii s \<Longrightarrow>
   redact_string uc vals s = (if names_authorization (redact_values vals s) then None else Some (Inr (redact_values vals s)))"
  by (simp add: redact_string_def redactAuthorization_iff ascii_redact_values)

text \<open>
  (C40) Redacting an authorization header does not end: on ASCII text the redaction of authorization headers returns exactly when
  there is none (in any case of letters), since the replacement contains the text that is searched for; and therefore logging a message
  that names one, at a level that is captured, never returns.
\<close>

theorem authorization_hangs_log:
  assumes lower: "lowers_ascii (ll_unicode lib)"
    and event: "classify_event lib now level component msg flds = (t, lv, c, m, fs)" "rank (lo_capture l) \<le> rank lv"
    and ascii_texts: "ascii source" "ascii c" "ascii m" and named: "names_authorization (redact_values (lo_values l) m)"
  shows "Log lib df now level source component msg flds l = None \<and>
    (\<forall>s. ascii s \<longrightarrow> redactAuthorization (ll_unicode lib) s = (if names_authorization s then None else Some (Inr s)))"
  using event ascii_texts named redact_string_ascii [OF lower] redactAuthorization_iff [OF lower]
  by (auto simp: Log_def redact_event_def run_bind_def)

section \<open>Events\<close>

text \<open>
  The strings that redaction looks at: source, component and message, and the string values of the fields at any depth. The keys of the fields, and
  values of any other type (\<open>LogOther\<close>: numbers, but also typed slices and errors), are recorded as they come and are not among them.
\<close>

fun value_strings :: "log_value \<Rightarrow> string list" and field_strings :: "(string \<times> log_value) list \<Rightarrow> string list" and item_strings :: "log_value list \<Rightarrow> string list" where
  "value_strings (LogString s) = [s]"
| "value_strings (LogMap m) = field_strings m"
| "value_strings (LogList xs) = item_strings xs"
| "value_strings (LogOther x) = []"
| "field_strings [] = []"
| "field_strings ((k, v) # m) = value_strings v @ field_strings m"
| "item_strings [] = []"
| "item_strings (x # xs) = value_strings x @ item_strings xs"

definition event_strings :: "Event \<Rightarrow> string list" where
  "event_strings e = ev_Source e # ev_Component e # ev_Message e # field_strings (ev_Fields e)"

text \<open>Lowering is rune by rune: it lowers the header's name wherever it stands.\<close>

definition keeps_header :: "unicode_lib \<Rightarrow> bool" where
  "keeps_header uc \<longleftrightarrow> (\<forall>a b. sublist authorization_key (uc_lower uc (a @ header_prefix @ b)))"

lemma redaction_returns_same:
  assumes keeps: "keeps_header uc"
  shows "redactAuthorization uc s = Some (Inr t) \<Longrightarrow> t = s"
proof -
  have returns: "\<forall>t. r = Inr t \<longrightarrow> \<not> sublist authorization_key (uc_lower uc s)" if run: "redactAuthorization uc s = Some r" for s r
  proof -
  have "keeps_header uc \<longrightarrow> (\<forall>t. r = Inr t \<longrightarrow> \<not> sublist authorization_key (uc_lower uc s))"
  proof (rule redactAuthorization.raw_induct [where P = "\<lambda>uc s r. keeps_header uc \<longrightarrow> (\<forall>t. r = Inr t \<longrightarrow> \<not> sublist authorization_key (uc_lower uc s))", OF _ run])
    fix f uc x y
    assume IH: "\<And>uc x y. f uc x = Some y \<Longrightarrow> keeps_header uc \<longrightarrow> (\<forall>t. y = Inr t \<longrightarrow> \<not> sublist authorization_key (uc_lower uc x))"
      and step: "(case str_index (uc_lower uc x) authorization_key of None \<Rightarrow> Some (Inr x)
       | Some idx \<Rightarrow> if length x < idx then Some (Inl SliceOutOfRange)
           else let end = (case str_index (drop idx x) [CHR 0x0A] of None \<Rightarrow> length x - idx | Some e \<Rightarrow> e)
             in f uc (take idx x @ header_prefix @ redacted @ drop (idx + end) x)) = Some y"
    show "keeps_header uc \<longrightarrow> (\<forall>t. y = Inr t \<longrightarrow> \<not> sublist authorization_key (uc_lower uc x))"
    proof (intro allI impI notI)
      fix t assume keeps: "keeps_header uc" and y: "y = Inr t" and "sublist authorization_key (uc_lower uc x)"
      then obtain i where i: "str_index (uc_lower uc x) authorization_key = Some i"
        using str_index_iff [of "uc_lower uc x" authorization_key] by auto
      then obtain e where "f uc (take i x @ header_prefix @ redacted @ drop (i + e) x) = Some y"
        using step y by (auto simp: Let_def split: if_splits)
      then have "\<not> sublist authorization_key (uc_lower uc (take i x @ header_prefix @ redacted @ drop (i + e) x))" using IH keeps y by blast
      then show False using keeps unfolding keeps_header_def by blast
    qed
  qed
  then show ?thesis using keeps by blast
  qed
  assume r: "redactAuthorization uc s = Some (Inr t)"
  then have "str_index (uc_lower uc s) authorization_key = None"
    using returns [OF r] str_index_iff [of "uc_lower uc s" authorization_key] by auto
  then show "t = s" using r by (subst (asm) redactAuthorization.simps) simp
qed

definition clean :: "string list \<Rightarrow> string \<Rightarrow> bool" where
  "clean vals s \<longleftrightarrow> (\<forall>v\<in>set vals. distinct_secret v \<longrightarrow> \<not> sublist v s)"

lemma redact_string_clean:
  assumes "keeps_header uc" and "redact_string uc vals s = Some (Inr t)" shows "clean vals t"
  using redaction_returns_same [OF assms(1), of "redact_values vals s" t] assms(2) redact_values_clear [of _ vals s]
  unfolding redact_string_def clean_def by blast

lemma clean_redacted: "clean vals redacted"
  using distinct_secret_around [of _ "[]" "[]"] by (auto simp: clean_def distinct_secret_def)

lemma redact_fields_clean:
  shows "keeps_header uc \<Longrightarrow> redactValue uc vals v = Some (Inr v') \<Longrightarrow> \<forall>s\<in>set (value_strings v'). clean vals s"
    and "keeps_header uc \<Longrightarrow> redactFields uc vals m = Some (Inr m') \<Longrightarrow> \<forall>s\<in>set (field_strings m'). clean vals s"
    and "keeps_header uc \<Longrightarrow> redactItems uc vals xs = Some (Inr xs') \<Longrightarrow> \<forall>s\<in>set (item_strings xs'). clean vals s"
  by (induction uc vals v and uc vals m and uc vals xs arbitrary: v' and m' and xs' rule: redactValue_redactFields_redactItems.induct)
    (auto simp: run_bind_return_iff run_return_def clean_redacted split: if_splits dest: redact_string_clean)

text \<open>
  (C24) Registered secrets stay out of the texts the logger redacts: an event below the captured level is dropped, and in whatever Log records otherwise, in the ring
  and on the disk, neither the source, the component, the message nor any string value inside the maps and lists of the fields contains a registered
  secret (one of at least three bytes, without brackets, that is not itself a part of the word REDACTED), however the secrets overlap and in
  whatever order they were registered. It does not cover the keys of the fields nor values of another type than string, map and list of any: the code records
  these as they come.
\<close>

theorem secrets_not_logged:
  assumes keeps: "keeps_header (ll_unicode lib)" and run: "Log lib df now level source component msg flds l = Some (Inr l')"
  shows "case classify_event lib now level component msg flds of (t, lv, c, m, fs) \<Rightarrow>
    if rank lv < rank (lo_capture l) then l' = l
    else \<exists>e. l' = record_event lib df e l \<and> ev_Level e = lv \<and> (\<forall>s\<in>set (event_strings e). clean (lo_values l) s)"
proof -
  obtain t lv c m fs where ev: "classify_event lib now level component msg flds = (t, lv, c, m, fs)" by (metis prod_cases5)
  show ?thesis
  proof (cases "rank lv < rank (lo_capture l)")
    case True
    then show ?thesis using run ev by (simp add: Log_def run_return_def)
  next
    case False
    then obtain s' c' m' fs' where parts: "redact_string (ll_unicode lib) (lo_values l) source = Some (Inr s')" "redact_string (ll_unicode lib) (lo_values l) c = Some (Inr c')"
      "redact_string (ll_unicode lib) (lo_values l) m = Some (Inr m')" "redactFields (ll_unicode lib) (lo_values l) fs = Some (Inr fs')"
      and l': "l' = record_event lib df \<lparr>ev_Timestamp = t, ev_Level = lv, ev_Source = s', ev_Component = c', ev_Message = m', ev_Fields = fs'\<rparr> l"
      using run ev by (auto simp: Log_def redact_event_def run_bind_return_iff run_return_def)
    have "\<forall>s\<in>set (event_strings \<lparr>ev_Timestamp = t, ev_Level = lv, ev_Source = s', ev_Component = c', ev_Message = m', ev_Fields = fs'\<rparr>). clean (lo_values l) s"
      using parts redact_string_clean [OF keeps] redact_fields_clean(2) [OF keeps] by (auto simp: event_strings_def)
    then show ?thesis using l' ev False by auto
  qed
qed

section \<open>The ring\<close>

inductive ring_run :: "log_lib \<Rightarrow> Event list \<Rightarrow> Ring \<Rightarrow> bool" for lib where
  new: "ring_run lib [] (NewRing maxMB)"
| add: "ring_run lib es r \<Longrightarrow> ring_run lib (es @ [e]) (Ring_Add lib e r)"
| resize: "ring_run lib es r \<Longrightarrow> ring_run lib es (SetMaxMB lib maxMB r)"
| clear: "ring_run lib es r \<Longrightarrow> ring_run lib [] (Ring_Clear r)"

definition total_size :: "log_lib \<Rightarrow> Event list \<Rightarrow> int" where
  "total_size lib es = sum_list (map (event_size lib) es)"

definition ring_ok :: "log_lib \<Rightarrow> Event list \<Rightarrow> Ring \<Rightarrow> bool" where
  "ring_ok lib es r \<longleftrightarrow> rg_bytes r = total_size lib (rg_events r) \<and> (rg_bytes r \<le> rg_max r \<or> length (rg_events r) \<le> 1) \<and>
     suffix (rg_events r) es \<and> (es \<noteq> [] \<longrightarrow> rg_events r \<noteq> []) \<and> (0 < rg_max r \<or> (\<exists>maxMB \<ge> 2 ^ 43. rg_max r = ring_limit maxMB))"

lemma megabytes_exact: "0 < mb \<Longrightarrow> mb < 2 ^ 43 \<Longrightarrow> megabytes mb = mb * 1048576"
  using sint_word64 [of "mb * 1048576"] by (simp add: megabytes_def mult.commute del: of_int_mult)

lemma ring_limit_positive: "0 < ring_limit maxMB \<or> (\<exists>mb \<ge> 2 ^ 43. ring_limit maxMB = ring_limit mb)"
proof (cases "maxMB < 2 ^ 43")
  case True
  then show ?thesis using megabytes_exact [of "if maxMB \<le> 0 then 25 else maxMB"] by (auto simp: ring_limit_def split: if_splits)
qed (auto intro: exI [of _ maxMB])

lemma evict_facts:
  "evict lib limit es bytes = (es', b) \<Longrightarrow> bytes = total_size lib es \<Longrightarrow>
   b = total_size lib es' \<and> (b \<le> limit \<or> length es' \<le> 1) \<and> suffix es' es \<and> (es \<noteq> [] \<longrightarrow> es' \<noteq> [])"
proof (induction lib limit es bytes rule: evict.induct)
  case (1 lib limit e e' es bytes)
  show ?case
  proof (cases "limit < bytes")
    case True
    then have "evict lib limit (e' # es) (bytes - event_size lib e) = (es', b)" "bytes - event_size lib e = total_size lib (e' # es)"
      using "1.prems" by (simp_all add: total_size_def)
    from "1.IH" [OF True this] show ?thesis by (auto intro: suffix_ConsI)
  next
    case False
    then show ?thesis using "1.prems" by auto
  qed
qed (auto simp: total_size_def)

lemma ring_evict:
  assumes "rg_bytes r = total_size lib (rg_events r)" "suffix (rg_events r) es" "es \<noteq> [] \<longrightarrow> rg_events r \<noteq> []"
    "0 < rg_max r \<or> (\<exists>maxMB \<ge> 2 ^ 43. rg_max r = ring_limit maxMB)"
  shows "ring_ok lib es (evictLocked lib r)"
proof -
  obtain es' b where e: "evict lib (rg_max r) (rg_events r) (rg_bytes r) = (es', b)" by fastforce
  from evict_facts [OF e assms(1)] assms(2-4) show ?thesis
    by (auto simp: ring_ok_def evictLocked_def e intro: suffix_order.trans)
qed

text \<open>
  (C36) The ring is bounded and keeps the newest events: after any sequence of additions, changes of the limit and clearings, its
  byte count is that of its events, at most the limit unless a single event alone exceeds it, its events are the last of those
  added since it was cleared, and the very last one is always among them. The limit is positive unless a limit of 2^43 MB or more was set, whose
  product in bytes wraps around.
\<close>

theorem ring_bounded:
  "ring_run lib es r \<Longrightarrow> ring_ok lib es r"
proof (induction rule: ring_run.induct)
  case (add es r e)
  then show ?case unfolding Ring_Add_def by (intro ring_evict) (auto simp: ring_ok_def total_size_def)
next
  case (resize es r maxMB)
  then show ?case unfolding SetMaxMB_def using ring_limit_positive [of maxMB] by (intro ring_evict) (simp_all add: ring_ok_def)
next
  case (new maxMB)
  then show ?case using ring_limit_positive [of maxMB] by (simp add: ring_ok_def NewRing_def total_size_def)
qed (auto simp: ring_ok_def Ring_Clear_def total_size_def)

section \<open>The files\<close>

definition no_faults :: disk_faults where
  "no_faults = \<lparr>df_mkdir = False, df_open = False, df_stat = False, df_write = False, df_remove = False, df_rename = (\<lambda>n. False)\<rparr>"

definition text_of_file :: "log_files \<Rightarrow> nat \<Rightarrow> string" where
  "text_of_file files n = (case files n of None \<Rightarrow> [] | Some c \<Rightarrow> c)"

text \<open>What is in the files 0 to \<open>keep\<close>, the oldest (the highest number) first; and records as they stand in a file, one per line.\<close>

definition oldest_first :: "nat \<Rightarrow> (nat \<Rightarrow> 'a list) \<Rightarrow> 'a list" where
  "oldest_first keep f = concat (map f (rev [0..<Suc keep]))"

definition record_lines :: "string list \<Rightarrow> string" where
  "record_lines rs = concat (map (\<lambda>r. r @ [CHR 0x0A]) rs)"

text \<open>
  \<open>disk_run lib limit d files written\<close>: a new sink in an empty directory, with a size limit below 2^43 MB, then writes of records of at most \<open>limit\<close> bytes, no
  system call failing; \<open>written\<close> are the records, the newest last.
\<close>

inductive disk_run :: "log_lib \<Rightarrow> int \<Rightarrow> diskSink \<Rightarrow> log_files \<Rightarrow> string list \<Rightarrow> bool" for lib limit where
  new: "newDiskSink no_faults level maxMB keep (\<lambda>n. None) = (files, Inr d) \<Longrightarrow> maxMB < 2 ^ 43 \<Longrightarrow> disk_run lib limit d files []"
| wrote: "disk_run lib limit d files written \<Longrightarrow> rank (ds_min d) \<le> rank (ev_Level e) \<Longrightarrow> ll_marshal lib e = Some b \<Longrightarrow> int (length b) < limit \<Longrightarrow>
    disk_write lib no_faults e d files = (d', files', None) \<Longrightarrow> disk_run lib limit d' files' (written @ [b])"

lemma shift_files_all:
  "files (Suc n) = None \<Longrightarrow> shift_files no_faults n files = (\<lambda>k. if k = 0 then None else if k \<le> Suc n then files (k - 1) else files k)"
proof (induction n arbitrary: files)
  case 0
  then show ?case by (auto simp: rename_file_def no_faults_def fun_eq_iff le_Suc_eq)
next
  case (Suc n)
  let ?g = "files(Suc (Suc n) := files (Suc n), Suc n := None)"
  have "rename_file no_faults (Suc n) files = ?g" using Suc.prems by (auto simp: rename_file_def no_faults_def fun_eq_iff)
  moreover have "shift_files no_faults n ?g = (\<lambda>k. if k = 0 then None else if k \<le> Suc n then ?g (k - 1) else ?g k)" by (intro Suc.IH) simp
  ultimately have "shift_files no_faults (Suc n) files = (\<lambda>k. if k = 0 then None else if k \<le> Suc n then ?g (k - 1) else ?g k)" by simp
  then show ?case by (auto simp: fun_eq_iff le_Suc_eq)
qed

lemma rotate_files:
  assumes "0 < ds_keep d"
  shows "rotate no_faults d files = (d\<lparr>ds_open := True\<rparr>, (\<lambda>k. if k = 0 then Some [] else if k \<le> ds_keep d then files (k - 1) else files k), None)"
proof -
  obtain n where n: "ds_keep d = Suc n" using assms by (cases "ds_keep d") auto
  have "shift_files no_faults n (remove_file no_faults (Suc n) files) = (\<lambda>k. if k = 0 then None else if k \<le> Suc n then files (k - 1) else files k)"
    using shift_files_all [of "remove_file no_faults (Suc n) files" n] by (auto simp: remove_file_def no_faults_def fun_eq_iff)
  then show ?thesis by (auto simp: rotate_def disk_open_def n fun_eq_iff) (simp_all add: no_faults_def)
qed

lemma oldest_first_Suc: "oldest_first (Suc n) f = f (Suc n) @ oldest_first n f"
  by (simp add: oldest_first_def)

lemma oldest_first_shift: "oldest_first (Suc n) (\<lambda>k. if k = 0 then [] else f (k - 1)) = oldest_first n f"
  by (induction n) (simp_all add: oldest_first_Suc, simp add: oldest_first_def)

lemma oldest_first_append: "oldest_first n (f(0 := f 0 @ x)) = oldest_first n f @ x"
  by (induction n) (simp_all add: oldest_first_Suc, simp add: oldest_first_def)

lemma oldest_first_cong: "(\<And>k. k \<le> n \<Longrightarrow> f k = g k) \<Longrightarrow> oldest_first n f = oldest_first n g"
  by (induction n) (simp_all add: oldest_first_Suc, simp add: oldest_first_def)

text \<open>
  The files hold the newest records: there are \<open>m\<close> old files, each of at least the configured size; \<open>rs n\<close> are the records of file n. Nothing is
  lost as long as there are fewer old files than configured.
\<close>

definition files_ok :: "int \<Rightarrow> diskSink \<Rightarrow> log_files \<Rightarrow> string list \<Rightarrow> bool" where
  "files_ok limit d files written \<longleftrightarrow> 0 < ds_keep d \<and> 0 < ds_maxBytes d \<and> ds_open d \<and>
     (\<exists>rs m. m \<le> ds_keep d \<and> (\<forall>n. text_of_file files n = record_lines (rs n)) \<and>
        suffix (oldest_first (ds_keep d) rs) written \<and> (m < ds_keep d \<longrightarrow> oldest_first (ds_keep d) rs = written) \<and> (written \<noteq> [] \<longrightarrow> rs 0 \<noteq> []) \<and>
        (\<forall>n. 1 \<le> n \<and> n \<le> m \<longrightarrow> ds_maxBytes d \<le> file_size files n) \<and> (\<forall>n>m. files n = None) \<and> (\<forall>n. file_size files n < ds_maxBytes d + limit))"

lemma file_size_text: "file_size files n = int (length (text_of_file files n))"
  by (simp add: file_size_def text_of_file_def split: option.split)

lemma record_lines_empty: "record_lines rs = [] \<longleftrightarrow> rs = []"
  by (cases rs) (simp_all add: record_lines_def)

lemma append_ok:
  assumes rs: "\<forall>n. text_of_file files n = record_lines (rs n)" and m: "m \<le> ds_keep d" "m < ds_keep d \<longrightarrow> oldest_first (ds_keep d) rs = w"
      "\<forall>n. 1 \<le> n \<and> n \<le> m \<longrightarrow> ds_maxBytes d \<le> file_size files n" "\<forall>n>m. files n = None"
    and w: "suffix (oldest_first (ds_keep d) rs) w" and size: "\<forall>n. file_size files n < ds_maxBytes d + limit" "file_size files 0 < ds_maxBytes d"
    and d: "0 < ds_keep d" "ds_open d" "0 < ds_maxBytes d" and b: "ll_marshal lib e = Some b" "int (length b) < limit"
    and a: "append_event lib no_faults e d files = (d', files', None)"
  shows "files_ok limit d' files' (w @ [b])"
proof -
  let ?rs = "rs(0 := rs 0 @ [b])"
  have f: "files' = files(0 := Some (text_of_file files 0 @ b @ [CHR 0x0A]))" "d' = d"
    using a b by (auto simp: append_event_def no_faults_def text_of_file_def)
  have "text_of_file files' n = record_lines (?rs n)" for n
    using rs by (cases n) (simp_all add: f record_lines_def text_of_file_def)
  moreover have "suffix (oldest_first (ds_keep d) ?rs) (w @ [b])" "m < ds_keep d \<longrightarrow> oldest_first (ds_keep d) ?rs = w @ [b]"
    using w m(2) unfolding oldest_first_append by simp_all
  moreover have "file_size files' n < ds_maxBytes d + limit" for n
    using size b by (cases n) (simp_all add: f file_size_text text_of_file_def)
  moreover have "ds_maxBytes d \<le> file_size files' n" if "1 \<le> n" "n \<le> m" for n
    using m(3) that by (cases n) (simp_all add: f file_size_def)
  ultimately show ?thesis using m(1,4) d unfolding files_ok_def f(2)
    by (intro conjI exI [of _ ?rs] exI [of _ m]) (simp_all add: f)
qed

lemma rotated_ok:
  assumes rs: "\<forall>n. text_of_file files n = record_lines (rs n)" and m: "m \<le> keep" "m < keep \<longrightarrow> oldest_first keep rs = w"
      "\<forall>n. 1 \<le> n \<and> n \<le> m \<longrightarrow> big \<le> file_size files n" "\<forall>n>m. files n = None"
    and w: "suffix (oldest_first keep rs) w" and big: "big \<le> file_size files 0" and keep: "0 < keep"
  defines "f \<equiv> \<lambda>k. if k = 0 then Some [] else if k \<le> keep then files (k - 1) else files k"
    and "rs' \<equiv> \<lambda>k. if k = 0 then [] else if k \<le> keep then rs (k - 1) else rs k"
  shows "\<forall>n. text_of_file f n = record_lines (rs' n)" "suffix (oldest_first keep rs') w" "min (m + 1) keep < keep \<longrightarrow> oldest_first keep rs' = w"
    "\<forall>n. 1 \<le> n \<and> n \<le> min (m + 1) keep \<longrightarrow> big \<le> file_size f n" "\<forall>n>min (m + 1) keep. f n = None"
proof -
  obtain k where k: "keep = Suc k" using keep by (cases keep) auto
  have "oldest_first keep rs' = oldest_first keep (\<lambda>n. if n = 0 then [] else rs (n - 1))" by (rule oldest_first_cong) (simp add: rs'_def)
  then have shifted: "oldest_first keep rs' = oldest_first k rs" unfolding k oldest_first_shift .
  have all: "oldest_first keep rs = rs keep @ oldest_first k rs" unfolding k by (rule oldest_first_Suc)
  show "\<forall>n. text_of_file f n = record_lines (rs' n)" using rs by (auto simp: f_def rs'_def text_of_file_def record_lines_def)
  show "suffix (oldest_first keep rs') w" using w unfolding shifted all by (rule suffix_appendD)
  have "rs keep = []" if "m < keep"
    using that m(4) rs record_lines_empty [of "rs keep"] by (metis option.simps(4) text_of_file_def)
  then show "min (m + 1) keep < keep \<longrightarrow> oldest_first keep rs' = w" using m(2) unfolding shifted all by auto
  show "\<forall>n. 1 \<le> n \<and> n \<le> min (m + 1) keep \<longrightarrow> big \<le> file_size f n"
  proof (intro allI impI)
    fix n assume n: "1 \<le> n \<and> n \<le> min (m + 1) keep"
    then have "file_size f n = file_size files (n - 1)" by (simp add: f_def file_size_def)
    moreover have "n - 1 = 0 \<or> 1 \<le> n - 1 \<and> n - 1 \<le> m" using n by auto
    ultimately show "big \<le> file_size f n" using m(3) big by auto
  qed
  show "\<forall>n>min (m + 1) keep. f n = None" using m(1,4) by (auto simp: f_def min_def split: if_splits)
qed

text \<open>
  (C35) The log files hold the newest records: when a new sink in an empty directory, configured with less than 2^43 MB per file, has written any number of
  records of bounded size and no system call has failed, every file is a sequence of whole records, one per line; the files read from the oldest to
  manager.jsonl are exactly the last of the records written, in order and each once, and manager.jsonl ends with the newest. The old files are numbered 1 to
  m without gaps, at most as many as configured, each of at least the configured size, and no record at all is lost until m is the configured
  number; no file has more than the configured size plus one record.
\<close>

theorem log_files_hold_newest:
  "disk_run lib limit d files written \<Longrightarrow> 0 < limit \<Longrightarrow> files_ok limit d files written"
proof (induction rule: disk_run.induct)
  case (new level maxMB keep files d)
  have big: "0 < megabytes (if maxMB \<le> 0 then 10 else maxMB)" using megabytes_exact [of "if maxMB \<le> 0 then 10 else maxMB"] new.hyps(2) by auto
  have "ds_maxBytes d = megabytes (if maxMB \<le> 0 then 10 else maxMB)" "ds_open d" "0 < ds_keep d" "files = (\<lambda>n. None)(0 := Some [])"
    using new.hyps(1) by (auto simp: newDiskSink_def disk_open_def no_faults_def)
  then show ?case using big new.prems unfolding files_ok_def
    by (intro conjI exI [of _ "\<lambda>n. []"] exI [of _ 0]) (auto simp: text_of_file_def record_lines_def oldest_first_def file_size_def)
next
  case (wrote d files w e b d' files')
  then have ok: "files_ok limit d files w" by simp
  then obtain rs m where k: "0 < ds_keep d" "0 < ds_maxBytes d" "ds_open d" and rs: "\<forall>n. text_of_file files n = record_lines (rs n)"
    and m: "m \<le> ds_keep d" "m < ds_keep d \<longrightarrow> oldest_first (ds_keep d) rs = w" "\<forall>n. 1 \<le> n \<and> n \<le> m \<longrightarrow> ds_maxBytes d \<le> file_size files n" "\<forall>n>m. files n = None"
    and w: "suffix (oldest_first (ds_keep d) rs) w" and size: "\<forall>n. file_size files n < ds_maxBytes d + limit"
    unfolding files_ok_def by blast
  show ?case
  proof (cases "ds_maxBytes d \<le> file_size files 0")
    case False
    then have a: "append_event lib no_faults e d files = (d', files', None)" using wrote.hyps(2,5) k by (simp add: disk_write_def no_faults_def)
    show ?thesis using False by (intro append_ok [OF rs m w size _ k(1,3,2) wrote.hyps(3,4) a]) simp
  next
    case True
    let ?f = "\<lambda>k. if k = 0 then Some [] else if k \<le> ds_keep d then files (k - 1) else files k"
    have "append_event lib no_faults e (d\<lparr>ds_open := True\<rparr>) ?f = (d', files', None)"
      using wrote.hyps(2,5) k True rotate_files [OF k(1), of files] by (simp add: disk_write_def no_faults_def)
    moreover have "d\<lparr>ds_open := True\<rparr> = d" using k(3) by simp
    ultimately have a: "append_event lib no_faults e d ?f = (d', files', None)" by simp
    note r = rotated_ok [OF rs m w True k(1)]
    have "\<forall>j. file_size ?f j < ds_maxBytes d + limit" using size k(2) wrote.prems by (auto simp: file_size_def)
    then show ?thesis using k(2) by (intro append_ok [OF r(1) _ r(3,4,5,2) _ _ k(1,3,2) wrote.hyps(3,4) a]) (simp_all add: file_size_def)
  qed
qed

end
