(* ===== verification/LoggingWitness.thy ===== *)
theory LoggingWitness
  imports LoggingFacts
begin

text \<open>Concrete instances of the theorems on the log.\<close>

definition demo_lib :: log_lib where
  "demo_lib = \<lparr>ll_unicode = \<lparr>uc_lower = map lower_char, uc_runes = (\<lambda>s. []), uc_letter = (\<lambda>_. False), uc_digit = (\<lambda>_. False)\<rparr>,
     ll_marshal = (\<lambda>e. Some (ev_Message e)), ll_parse = (\<lambda>s. None), ll_time = (\<lambda>s. None)\<rparr>"

definition demo_logger :: Logger where
  "demo_logger = \<lparr>lo_values = Register ''sk-secret'' (Register ''k-s'' []), lo_ring = NewRing 25, lo_capture = Info, lo_disk = None, lo_files = (\<lambda>n. None)\<rparr>"

lemma demo_lowers: "lowers_ascii (ll_unicode demo_lib)"
  by (simp add: lowers_ascii_def demo_lib_def)

lemma demo_keeps: "keeps_header (ll_unicode demo_lib)"
proof -
  have "map lower_char header_prefix = authorization_key @ '' ''" by code_simp
  then show ?thesis by (auto simp: keeps_header_def demo_lib_def sublist_def)
qed

theorem authorization_hangs_log_witness:
  "Log demo_lib no_faults 0 Info ''Manager'' ''Test'' ''> Authorization: Bearer abc'' [] demo_logger = None"
proof -
  let ?m = "''> Authorization: Bearer abc''"
  have "str_index (map lower_char (redact_values (lo_values demo_logger) ?m)) authorization_key \<noteq> None" by code_simp
  then have h: "names_authorization (redact_values (lo_values demo_logger) ?m)" by (simp only: str_index_iff names_authorization_def)
  have e: "classify_event demo_lib 0 Info ''Test'' ?m [] = (0, Info, ''Test'', ?m, [])" by (simp add: classify_event_def)
  have r: "rank (lo_capture demo_logger) \<le> rank Info" by code_simp
  have a: "ascii ''Manager''" "ascii ''Test''" "ascii ?m" by code_simp+
  show ?thesis using authorization_hangs_log [OF demo_lowers e r a h] by blast
qed

theorem secrets_not_logged_witness:
  "\<exists>l' e. Log demo_lib no_faults 0 Info ''Manager'' ''Test'' ''token sk-secret'' [(''x'', LogString ''k-s'')] demo_logger = Some (Inr l') \<and>
     l' = record_event demo_lib no_faults e demo_logger \<and> \<not> sublist ''k-s'' (ev_Message e)"
proof -
  let ?L = "Log demo_lib no_faults 0 Info ''Manager'' ''Test'' ''token sk-secret'' [(''x'', LogString ''k-s'')] demo_logger"
  have a: "ascii ''Manager''" "ascii ''Test''" "ascii ''token sk-secret''" "ascii ''k-s''" by code_simp+
  have "\<forall>s\<in>set [''Manager'', ''Test'', ''token sk-secret'', ''k-s''].
      str_index (map lower_char (redact_values (lo_values demo_logger) s)) authorization_key = None" by code_simp
  then have n: "\<not> names_authorization (redact_values (lo_values demo_logger) s)"
    if "s \<in> set [''Manager'', ''Test'', ''token sk-secret'', ''k-s'']" for s
    using that str_index_iff by (metis names_authorization_def)
  have k: "\<not> sensitive_key ''x''" by code_simp
  have e: "classify_event demo_lib 0 Info ''Test'' ''token sk-secret'' flds = (0, Info, ''Test'', ''token sk-secret'', flds)" for flds
    by (simp add: classify_event_def)
  have r: "\<not> rank Info < rank (lo_capture demo_logger)" by code_simp
  obtain l' where L: "?L = Some (Inr l')"
    using a n k r by (simp add: Log_def e redact_event_def redact_string_ascii [OF demo_lowers] run_bind_def run_return_def)
  obtain e where e': "l' = record_event demo_lib no_faults e demo_logger" "\<forall>s\<in>set (event_strings e). clean (lo_values demo_logger) s"
    using secrets_not_logged [OF demo_keeps L] r by (auto simp: e)
  have "''k-s'' \<in> set (lo_values demo_logger)" by code_simp
  moreover have "distinct_secret ''k-s''" by (simp add: distinct_secret_def sublist_Cons_right)
  ultimately have "\<not> sublist ''k-s'' (ev_Message e)" using e'(2) by (simp add: clean_def event_strings_def)
  then show ?thesis using L e'(1) by blast
qed

definition demo_event :: "string \<Rightarrow> Event" where
  "demo_event m = \<lparr>ev_Timestamp = 0, ev_Level = Info, ev_Source = [], ev_Component = [], ev_Message = m, ev_Fields = []\<rparr>"

theorem ring_bounded_witness:
  "ring_ok demo_lib [demo_event ''a'', demo_event ''b''] (SetMaxMB demo_lib 1 (Ring_Add demo_lib (demo_event ''b'') (Ring_Add demo_lib (demo_event ''a'') (NewRing 2))))"
proof -
  have "ring_run demo_lib ([] @ [demo_event ''a'']) (Ring_Add demo_lib (demo_event ''a'') (NewRing 2))"
    by (intro ring_run.add ring_run.new)
  then have "ring_run demo_lib [demo_event ''a'', demo_event ''b''] (SetMaxMB demo_lib 1 (Ring_Add demo_lib (demo_event ''b'') (Ring_Add demo_lib (demo_event ''a'') (NewRing 2))))"
    using ring_run.add [of demo_lib "[demo_event ''a'']" _ "demo_event ''b''"] by (auto intro: ring_run.resize)
  then show ?thesis by (rule ring_bounded)
qed

definition demo_sink :: diskSink where
  "demo_sink = \<lparr>ds_min = Info, ds_maxBytes = 1048576, ds_keep = 2, ds_open = True\<rparr>"

theorem log_files_hold_newest_witness:
  "files_ok 10 demo_sink ((\<lambda>n. None)(0 := Some (''abc'' @ [CHR 0x0A]))) [''abc'']"
proof -
  have n: "newDiskSink no_faults Info 1 2 (\<lambda>n. None) = ((\<lambda>n. None)(0 := Some []), Inr demo_sink)"
    by (simp add: newDiskSink_def disk_open_def no_faults_def demo_sink_def megabytes_def)
  have w: "disk_write demo_lib no_faults (demo_event ''abc'') demo_sink ((\<lambda>n. None)(0 := Some [])) =
      (demo_sink, (\<lambda>n. None)(0 := Some (''abc'' @ [CHR 0x0A])), None)"
    by (simp add: disk_write_def append_event_def demo_lib_def demo_event_def demo_sink_def no_faults_def file_size_def)
  have "disk_run demo_lib 10 demo_sink ((\<lambda>n. None)(0 := Some [])) []" by (rule disk_run.new [OF n]) simp
  then have "disk_run demo_lib 10 demo_sink ((\<lambda>n. None)(0 := Some (''abc'' @ [CHR 0x0A]))) ([] @ [''abc''])"
    by (rule disk_run.wrote [OF _ _ _ _ w]) (simp_all add: demo_sink_def demo_event_def demo_lib_def)
  then have "disk_run demo_lib 10 demo_sink ((\<lambda>n. None)(0 := Some (''abc'' @ [CHR 0x0A]))) [''abc'']" by simp
  then show ?thesis by (rule log_files_hold_newest) simp
qed

end
