(* ===== verification/Spec2Isabelle.thy ===== *)
theory Spec2Isabelle
  imports Prelude Config ToolContract Lifecycle LifecycleFacts LifecycleRun LifecycleConfig
    ExecutionHandle RoutingState ConfigStore StateCoordinator SecretStore CoordinatorFacts
    Catalog CatalogArtifacts CatalogBatches CatalogTools CatalogFacts CatalogActive CatalogContent CatalogObserve
    ExecutionRouter RouterFacts RouterWitness
    RoutingPrefs RoutingPrefsFacts RoutingPrefsWitness SelfUpdateVersion
    EmbeddingCache Retrieval RetrievalFacts RetrievalStore RetrievalStoreFacts
    Enrichment EnrichmentFacts EnrichmentService Discovery DiscoveryService DiscoveryFacts DiscoverySearch DiscoveryWitness EnrichmentPrepare EnrichmentRun Indexing IndexingFacts IndexingWitness
    Continuation ContinuationFacts ContinuationTrips ContinuationWitness ContinuationProvider ManagerEndpoint ManagerEndpointFacts ManagerEndpointWitness
    ToolObservation ToolObservationFacts ToolObservationWitness
    Logging LoggingFacts LoggingWitness
begin

text \<open>
  A verification development for GPT Tunnel Manager (\<^verbatim>\<open>src/\<close>, written in Go): a manager that indexes the tools of
  downstream MCP servers into a catalog, lets an agent search them, and routes calls to them through leased sessions.

  \<^bold>\<open>The program and its model.\<close> A user edits two configuration files; the coordinator stores them, fingerprints the
  routing-relevant part (with secrets, under a key) and records the routing state. An index is built as a staging generation of
  the catalog and promoted. Discovery reads the active generation and mints execution handles; the router accepts a handle
  only while that generation is current and calls the tool on a session leased from the lifecycle service.

  \<^item> \<open>Prelude\<close>: Go strings, results (\<open>Inl\<close> an error), association lists for maps and tables, the fact collections.
  \<^item> \<open>Config\<close>: \<^verbatim>\<open>internal/v2config\<close> types.go, validate.go; one function per validator, in the order of its checks.
  \<^item> \<open>ConfigStore\<close>: \<^verbatim>\<open>internal/v2config/store.go\<close> over a file system in which every system call can fail half-way.
  \<^item> \<open>ToolContract\<close>: \<^verbatim>\<open>internal/toolcontract\<close>, executor classes and fingerprints over JSON values.
  \<^item> \<open>Lifecycle\<close>, \<open>LifecycleFacts\<close>, \<open>LifecycleRun\<close>, \<open>LifecycleConfig\<close>: \<^verbatim>\<open>internal/routedlifecycle\<close>. A server state is a
    record on a heap; every handler is the composition of its critical sections; the environment of a handler holds clock
    readings and what connecting and closing answer. \<open>service_run\<close> is every sequence of handlers.
  \<^item> \<open>ExecutionHandle\<close>: \<^verbatim>\<open>internal/executionhandle\<close>, with base64url written out.
  \<^item> \<open>RoutingState\<close>: \<^verbatim>\<open>internal/routingstate\<close>, the tracker over the memory and the SQLite backend, with 64-bit revisions.
  \<^item> \<open>SecretStore\<close>: \<^verbatim>\<open>internal/secrets\<close> store.go and native_windows.go, native_linux.go, native_darwin.go, the environment over a keychain
    whose calls can fail, with what each platform trims and how it maps errors.
  \<^item> \<open>StateCoordinator\<close>, \<open>CoordinatorFacts\<close>: \<^verbatim>\<open>internal/v2state/coordinator.go\<close> over the files, the secret store, SQLite and the
    lifecycle; \<open>coord_run\<close> is every sequence of its operations with any failures.
  \<^item> \<open>Catalog\<close>, \<open>CatalogArtifacts\<close>, \<open>CatalogBatches\<close>, \<open>CatalogTools\<close> and their facts (\<open>CatalogFacts\<close>, \<open>CatalogActive\<close>,
    \<open>CatalogContent\<close>, \<open>CatalogObserve\<close>): \<^verbatim>\<open>internal/catalog\<close>. Tables are association lists with the primary key first, foreign
    keys are checked, a transaction is all or nothing, \<open>sqlenv\<close> says which statements fail. \<open>cat_step\<close> is one writing operation.
  \<^item> \<open>ExecutionRouter\<close>, \<open>RouterFacts\<close>, \<open>RouterWitness\<close>: \<^verbatim>\<open>internal/executionrouter/router.go\<close> over the catalog, the tracker, the
    handles and a session provider, which the lifecycle service implements.
  \<^item> \<open>RoutingPrefs\<close>, \<open>RoutingPrefsFacts\<close>, \<open>RoutingPrefsWitness\<close>: \<^verbatim>\<open>internal/routingprefs\<close>, profiles and rules with an optimistic revision.
  \<^item> \<open>EmbeddingCache\<close>: \<^verbatim>\<open>internal/embedding\<close> provider.go, cache.go, with the cache's heap of list elements and its map.
  \<^item> \<open>Retrieval\<close>, \<open>RetrievalFacts\<close>, \<open>RetrievalStore\<close>, \<open>RetrievalStoreFacts\<close>: \<^verbatim>\<open>internal/retrieval\<close>, the lexical and vector
    indexes, the stored vector format, embeddings as artifacts of the catalog.
  \<^item> \<open>Enrichment\<close>, \<open>EnrichmentService\<close>, \<open>EnrichmentPrepare\<close> with \<open>EnrichmentFacts\<close>, \<open>EnrichmentRun\<close>: \<^verbatim>\<open>internal/enrichment\<close>, the batches
    of work for an agent and the validation of what it submits. An operation is a \<open>step\<close> on the catalog, which keeps what was
    written before a failure.
  \<^item> \<open>Discovery\<close>, \<open>DiscoveryService\<close> with \<open>DiscoveryFacts\<close>, \<open>DiscoverySearch\<close>, \<open>DiscoveryWitness\<close>: \<^verbatim>\<open>internal/discovery\<close>, search
    over five fused rankings and the fetch of a tool with its handle, on the catalog, the preferences and the query cache.
  \<^item> \<open>Indexing\<close> with \<open>IndexingFacts\<close>, \<open>IndexingWitness\<close>: \<^verbatim>\<open>internal/indexing\<close>, the build of an index from the lifecycle's sessions
    through the catalog, retrieval and enrichment to the promotion; what other goroutines do to the catalog meanwhile is an argument.
  \<^item> \<open>Continuation\<close> with \<open>ContinuationFacts\<close>, \<open>ContinuationTrips\<close>, \<open>ContinuationWitness\<close>: \<^verbatim>\<open>internal/mcpmanager/continuations.go\<close> with
    the capture of task results on the wire (\<^verbatim>\<open>internal/downstream\<close> task_capture.go, task_result.go). Tasks and resources of a downstream
    server under IDs of the manager. The service's leases are a list, so that a lease is its position; a handler is a step over
    catalog, lifecycle and service, made of critical sections. \<open>cont_run\<close> is every sequence of them, with any interleaving between.
  \<^item> \<open>ContinuationProvider\<close>: \<^verbatim>\<open>internal/mcpmanager/execution_provider.go\<close>, the sessions that the router really uses.
  \<^item> \<open>ManagerEndpoint\<close> with \<open>ManagerEndpointFacts\<close>, \<open>ManagerEndpointWitness\<close>: \<^verbatim>\<open>internal/mcpmanager\<close> v2_server.go (the HTTP handlers
    before the MCP server), execution_tools.go, index_tools.go (pages of enrichment requests).
  \<^item> \<open>ToolObservation\<close> with \<open>ToolObservationFacts\<close>, \<open>ToolObservationWitness\<close>: \<^verbatim>\<open>internal/app/v2_tool_observation.go\<close>, the
    wrapper around a downstream session that compares its live tools with the catalog and closes the gate when their meaning changes.
  \<^item> \<open>Logging\<close> with \<open>LoggingFacts\<close>, \<open>LoggingWitness\<close>: \<^verbatim>\<open>internal/logging\<close>, the classification and redaction of a message, the
    ring of the newest events, the rotating log files; a redaction that may not end is a partial function into option.
  \<^item> \<open>SelfUpdateVersion\<close>: \<^verbatim>\<open>internal/selfupdate/version.go\<close> and the retry delays of \<^verbatim>\<open>internal/lifecycle/state.go\<close>.

  \<^bold>\<open>Interfaces.\<close> Where one component relies on another the contract is a locale, interpreted on the model of the provider:
  \<open>session_provider\<close> (router on lifecycle), \<open>routing_backend\<close> (tracker on its backends), the coordinator's collaborators,
  \<open>versioned_store\<close> (preferences), \<open>bounded_cache\<close> (query cache).

  \<^bold>\<open>What the theorems show.\<close> A call happens at most once per execution and only when authorised against the current index, and
  drift of the live contract blocks further calls; a generation is called current only for the stored configuration and secrets;
  promotion leaves one active generation, whose tools never change; saving servers moves file and lifecycle together when they agreed before; leases are
  counted exactly over all runs; a preference writer with an outdated revision is refused (as long as the tracker does not write an old one back), contradicting or outdated rules are
  withdrawn; handles are bound to their process; formats round-trip; searches return the best entries in a unique order; an
  embedding is asked for once; what a search returns can be fetched and the router accepts its handle; enrichment acts only through
  catalog operations, accepts exactly complete forests of capabilities, and a rejected response changes nothing; an index build acts through catalog
  operations, keeps accepted work while the sources are the same, loses no invalidation and leaves no lease, and what it commits
  is what discovery and the router accept; a task or resource of a downstream server is reached through the reference that the manager
  gave for it, holds its server as long as agreed, and no continuation lease outlives the service; the endpoint serves only requests with the capability;
  an observation of live tools closes the gate exactly for changes of meaning; the log keeps registered secrets out of its texts and string values, and its ring and
  files are bounded and hold the newest events;
  pages of a request make the request again. Thirteen theorems state behaviour that the code does not intend (the findings describe them).

  \<^bold>\<open>Parameters.\<close> SHA-256, HMAC, JSON encoding and decoding, URL and IP parsing, Unicode tables, rounding of floating-point
  numbers, the JSON-schema library, the MCP library, the embedding provider and the operating system are arguments (records \<open>codec\<close>,
  \<open>handle_lib\<close>, \<open>router_lib\<close>, \<open>netlib\<close>, \<open>unicode_lib\<close>, \<open>float_lib\<close> and others); what a theorem needs of them is a
  hypothesis, and its witness instantiates them.

  \<^bold>\<open>Bounds.\<close> No definition uses fuel: loops are structural or have a measure. Revisions and durations are 64-bit words with
  wrap-around, and so are the byte limits of the log, computed from megabytes; vectors are 32-bit words read as IEEE values; other integers are
  unbounded because the code bounds them by lengths. Handlers of the lifecycle run one after another in \<open>service_run\<close>, with their critical sections as separate functions.

  \<^bold>\<open>Not modelled.\<close> The Gio desktop; the application facade that wires the components (but for its tool observation); downstream transports and OAuth flows;
  the local embedding runtime, the tunnel client, the update download (files, processes, HTTP); encryption and commands behind the keychains; the export of the log;
  opening and migrating the database file. These are calls into the platform or third-party libraries, and the model takes what
  they answer as arguments. Error texts are left out where only their identity matters.
  The file system keeps what a completed call wrote: fsync has no effect in the model, so what a power failure loses is not covered; a crash is a process that stops
  between two calls.
\<close>

end
